(* ===== verification/Prelude.thy ===== *)
theory Prelude
  imports Complex_Main "HOL-Library.AList" "HOL-Library.Char_ord"
    "HOL-Library.List_Lexorder" "HOL-Library.Product_Lexorder"
    "HOL-Library.Code_Target_Numeral"
begin

text \<open>
  Shared vocabulary of the development: Python exceptions as values, the result type of code
  that may raise, ordered dictionaries, first-occurrence de-duplication, stable sorting, and
  the generic lemmas on them that the component theories use.
\<close>

section \<open>Exceptions and results\<close>

text \<open>
  One constructor per exception class that the modelled code raises or catches; the string is
  the message (for most classes a reason code). \<open>PublicCopyDataError\<close>, \<open>AuthorizationDenied\<close> and
  \<open>ConfigurationError\<close> are subclasses of \<open>ValueError\<close> in the source, so a handler for the latter also catches them.
\<close>

datatype exn =
    ValueError string
  | PublicCopyDataError string
  | OneWayResolutionError string
  | RuntimeError string
  | TypeError string
  | AssertionError string
  | KeyError string
  | IndexError string
  | TestnetProbeError string
  | BinancePublicCopyError string
  | CommandConflictError string
  | ChallengeError string
  | CodexSelectionError string
  | AuthorizationDenied string
  | GatewayDenied string
  | ConfigurationError string
  | OSError string
  | DatabaseError string
  | CopyRepositoryError string
  | InvalidOperation
  | DivisionByZero
  | OverflowError
  | StopIteration

type_synonym 'a result = "exn + 'a"

fun is_value_error :: "exn \<Rightarrow> bool" where
  "is_value_error (ValueError _) = True"
| "is_value_error (PublicCopyDataError _) = True"
| "is_value_error (AuthorizationDenied _) = True"
| "is_value_error (ConfigurationError _) = True"
| "is_value_error _ = False"

named_theorems result_simps \<open>evaluation of results\<close>

definition rbind :: "'a result \<Rightarrow> ('a \<Rightarrow> 'b result) \<Rightarrow> 'b result" where
  "rbind m f = (case m of Inl e \<Rightarrow> Inl e | Inr x \<Rightarrow> f x)"

definition require :: "bool \<Rightarrow> exn \<Rightarrow> unit result" where
  "require b e = (if b then Inr () else Inl e)"

fun rmap :: "('a \<Rightarrow> 'b result) \<Rightarrow> 'a list \<Rightarrow> 'b list result" where
  "rmap f [] = Inr []"
| "rmap f (x # xs) = rbind (f x) (\<lambda>y. rbind (rmap f xs) (\<lambda>ys. Inr (y # ys)))"

declare rbind_def [code_unfold]

lemma rbind_Inl [simp, result_simps]: "rbind (Inl e) f = Inl e"
  by (simp add: rbind_def)

lemma rbind_Inr [simp, result_simps]: "rbind (Inr x) f = f x"
  by (simp add: rbind_def)

lemma rbind_eq_Inr [simp]: "rbind m f = Inr y \<longleftrightarrow> (\<exists>x. m = Inr x \<and> f x = Inr y)"
  by (cases m) simp_all

lemma rbind_eq_Inl: "rbind m f = Inl e \<longleftrightarrow> m = Inl e \<or> (\<exists>x. m = Inr x \<and> f x = Inl e)"
  by (cases m) simp_all

lemma rbind_cong [fundef_cong]:
  "m = m' \<Longrightarrow> (\<And>x. m' = Inr x \<Longrightarrow> f x = f' x) \<Longrightarrow> rbind m f = rbind m' f'"
  by (cases m') simp_all

lemma require_eq_Inr [simp]: "require b e = Inr u \<longleftrightarrow> b"
  by (simp add: require_def)

lemma require_True [simp]: "require True e = Inr ()"
  by (simp add: require_def)

lemma require_False [simp]: "require False e = Inl e"
  by (simp add: require_def)

lemma require_eq_Inl [simp]: "require b e = Inl e' \<longleftrightarrow> \<not> b \<and> e' = e"
  by (auto simp: require_def)

lemma rmap_eq_Inr_length: "rmap f xs = Inr ys \<Longrightarrow> length ys = length xs"
  by (induction xs arbitrary: ys) auto

section \<open>Dictionaries\<close>

text \<open>
  A Python dictionary is an association list with distinct keys in insertion order:
  \<open>AList.update\<close> keeps the place of a present key and appends a new one, as
  \<open>d[k] = v\<close> does; \<open>map_of\<close> is \<open>d.get(k)\<close>.
\<close>

type_synonym ('k, 'v) dict = "('k \<times> 'v) list"

definition dict_get :: "('k, 'v) dict \<Rightarrow> 'k \<Rightarrow> 'v \<Rightarrow> 'v" where
  "dict_get d k v = (case map_of d k of None \<Rightarrow> v | Some w \<Rightarrow> w)"

definition dict_ok :: "('k, 'v) dict \<Rightarrow> bool" where
  "dict_ok d \<longleftrightarrow> distinct (map fst d)"

lemma dict_ok_Nil [simp]: "dict_ok []"
  by (simp add: dict_ok_def)

lemma dict_ok_update [simp]: "dict_ok d \<Longrightarrow> dict_ok (AList.update k v d)"
  by (simp add: dict_ok_def distinct_update)

lemma map_of_update [simp]: "map_of (AList.update k v d) = (map_of d)(k \<mapsto> v)"
  by (simp add: update_conv')

lemma dict_get_update [simp]:
  "dict_get (AList.update k v d) k' w = (if k' = k then v else dict_get d k' w)"
  by (simp add: dict_get_def)

lemma dict_get_Nil [simp]: "dict_get [] k w = w"
  by (simp add: dict_get_def)

lemma set_update_subset: "set (AList.update k v d) \<subseteq> insert (k, v) (set d)"
  by (induction d) auto

lemma update_values: "snd ` set (AList.update k v d) \<subseteq> insert v (snd ` set d)"
  using set_update_subset [of k v d] by auto

lemma list_all_update [simp]: "list_all P d \<Longrightarrow> P (k, v) \<Longrightarrow> list_all P (AList.update k v d)"
  using set_update_subset [of k v d] by (auto simp: list_all_iff)

lemma sum_update:
  fixes f :: "'v \<Rightarrow> 'a::ab_group_add"
  assumes "dict_ok d"
  shows "sum_list (map f (map snd (AList.update k v d)))
    = sum_list (map f (map snd d)) - (case map_of d k of None \<Rightarrow> 0 | Some w \<Rightarrow> f w) + f v"
  using assms by (induction d) (auto simp: dict_ok_def algebra_simps split: option.splits)

section \<open>Order-preserving de-duplication\<close>

text \<open>\<open>tuple(dict.fromkeys(xs))\<close> keeps the first occurrence of each element.\<close>

definition dedup :: "'a list \<Rightarrow> 'a list" where
  "dedup xs = rev (remdups (rev xs))"

lemma set_dedup [simp]: "set (dedup xs) = set xs"
  by (simp add: dedup_def)

lemma distinct_dedup [simp]: "distinct (dedup xs)"
  by (simp add: dedup_def)

lemma dedup_eq_Nil [simp]: "dedup xs = [] \<longleftrightarrow> xs = []"
  by (simp add: dedup_def)

lemma dedup_distinct [simp]: "distinct xs \<Longrightarrow> dedup xs = xs"
  by (simp add: dedup_def distinct_remdups_id)

text \<open>\<open>sorted(set(xs))\<close> on texts.\<close>

definition sorted_set :: "string list \<Rightarrow> string list" where
  "sorted_set xs = sort (remdups xs)"

lemma set_sorted_set [simp]: "set (sorted_set xs) = set xs"
  by (simp add: sorted_set_def)

lemma sorted_set_props [simp]: "sorted (sorted_set xs)" "distinct (sorted_set xs)"
  by (simp_all add: sorted_set_def)

text \<open>\<open>d.setdefault(k, v)\<close> for its effect on the dictionary.\<close>

definition dict_setdefault :: "'k \<Rightarrow> 'v \<Rightarrow> ('k, 'v) dict \<Rightarrow> ('k, 'v) dict" where
  "dict_setdefault k v d = (if map_of d k = None then d @ [(k, v)] else d)"

lemma dict_ok_setdefault [simp]: "dict_ok d \<Longrightarrow> dict_ok (dict_setdefault k v d)"
  by (auto simp: dict_ok_def dict_setdefault_def map_of_eq_None_iff)

text \<open>\<open>xs[i]\<close>: a negative index counts from the end.\<close>

definition py_index :: "'a list \<Rightarrow> int \<Rightarrow> 'a result" where
  "py_index xs i = (let j = (if i < 0 then i + int (length xs) else i) in
     if 0 \<le> j \<and> j < int (length xs) then Inr (xs ! nat j) else Inl (IndexError ''list index out of range''))"

section \<open>Operations on keyed state\<close>

text \<open>
  The contract several components share: an operation names the one key it acts on, keeps the
  invariant and leaves the view of every other key as it was, whether it returns or raises.
  Runs of such operations then keep the invariant, and a key no operation names keeps its view.
\<close>

locale keyed_state =
  fixes step :: "'op \<Rightarrow> 'st \<Rightarrow> 'r \<times> 'st"
    and key_of :: "'op \<Rightarrow> 'k"
    and view :: "'st \<Rightarrow> 'k \<Rightarrow> 'v"
    and inv :: "'st \<Rightarrow> bool"
  assumes step_inv: "inv st \<Longrightarrow> inv (snd (step c st))"
    and step_other: "inv st \<Longrightarrow> k \<noteq> key_of c \<Longrightarrow> view (snd (step c st)) k = view st k"
begin

lemma run_inv: "inv st \<Longrightarrow> inv (fold (\<lambda>c s. snd (step c s)) cs st)"
  by (induction cs arbitrary: st) (simp_all add: step_inv)

lemma run_other:
  "inv st \<Longrightarrow> k \<notin> key_of ` set cs \<Longrightarrow> view (fold (\<lambda>c s. snd (step c s)) cs st) k = view st k"
  by (induction cs arbitrary: st) (simp_all add: step_other step_inv)

end

text \<open>If moreover what an operation leaves at its key is a function of what it found there, a run
  decomposes: the final view of a key is the fold of the effects of its own operations.\<close>

locale effect_state = keyed_state +
  fixes eff :: "'op \<Rightarrow> 'v \<Rightarrow> 'v"
  assumes step_own: "inv st \<Longrightarrow> view (snd (step c st)) (key_of c) = eff c (view st (key_of c))"
begin

lemma run_view:
  "inv st \<Longrightarrow> view (fold (\<lambda>c s. snd (step c s)) cs st) k
    = fold eff (filter (\<lambda>c. key_of c = k) cs) (view st k)"
proof (induction cs arbitrary: st)
  case (Cons c cs)
  with step_own [of st c] step_other [of st k c] show ?case by (auto simp: step_inv)
qed simp

end

end
