(* ===== verification/Rounding.thy ===== *)
theory Rounding
  imports Prelude
begin

text \<open>
  Correct rounding of rational numbers to 28 significant decimal digits with ties to even:
  the arithmetic specification of Python's default \<open>decimal\<close> context, against which the
  executable operations of theory \<open>Decimals\<close> are proved. The laws that sizing code relies
  on (monotone, exact on representable values, sign-preserving) form the locale
  \<open>rounding\<close>, interpreted here on \<open>rnd\<close>.
\<close>

section \<open>The interface clients rely on\<close>

locale rounding =
  fixes r :: "rat \<Rightarrow> rat" and exact :: "rat \<Rightarrow> bool"
  assumes mono: "x \<le> y \<Longrightarrow> r x \<le> r y"
    and exact_id: "exact x \<Longrightarrow> r x = x"
    and exact_r: "exact (r x)"
    and exact_0: "exact 0"
begin

lemma zero: "r 0 = 0"
  by (simp add: exact_id exact_0)

lemma nonneg: "0 \<le> x \<Longrightarrow> 0 \<le> r x"
  using mono [of 0 x] by (simp add: zero)

lemma nonpos: "x \<le> 0 \<Longrightarrow> r x \<le> 0"
  using mono [of x 0] by (simp add: zero)

lemma le_exact: "x \<le> y \<Longrightarrow> exact y \<Longrightarrow> r x \<le> y"
  using mono [of x y] by (simp add: exact_id)

lemma ge_exact: "y \<le> x \<Longrightarrow> exact y \<Longrightarrow> y \<le> r x"
  using mono [of y x] by (simp add: exact_id)

lemma idem: "r (r x) = r x"
  by (simp add: exact_id exact_r)

lemma less_imp: "exact y \<Longrightarrow> r x < y \<Longrightarrow> x < y"
  using ge_exact [of y x] by (meson leD leI)

end

section \<open>Rounding to an integer, ties to even\<close>

definition rhe :: "rat \<Rightarrow> int" where
  "rhe y = (let f = \<lfloor>y\<rfloor>; d = y - of_int f in
     if d < 1 / 2 then f else if 1 / 2 < d then f + 1 else if even f then f else f + 1)"

lemma rhe_of_int [simp]: "rhe (of_int n) = n"
  by (simp add: rhe_def)

lemma rhe_bounds: "\<lfloor>y\<rfloor> \<le> rhe y \<and> rhe y \<le> \<lfloor>y\<rfloor> + 1"
  by (simp add: rhe_def Let_def)

lemma rhe_mono: assumes "y \<le> z" shows "rhe y \<le> rhe z"
proof (cases "\<lfloor>y\<rfloor> = \<lfloor>z\<rfloor>")
  case True
  then show ?thesis using assms by (auto simp: rhe_def Let_def)
next
  case False
  with floor_mono [OF assms] have "\<lfloor>y\<rfloor> + 1 \<le> \<lfloor>z\<rfloor>" by linarith
  with rhe_bounds [of y] rhe_bounds [of z] show ?thesis by linarith
qed

lemma rhe_error: "\<bar>of_int (rhe y) - y\<bar> \<le> 1 / 2"
proof -
  have "of_int \<lfloor>y\<rfloor> \<le> y" "y < of_int \<lfloor>y\<rfloor> + 1"
    using floor_correct [of y] by simp_all
  then show ?thesis unfolding rhe_def Let_def by (simp add: abs_le_iff)
qed

lemma rhe_ge: "of_int n \<le> y \<Longrightarrow> n \<le> rhe y"
  using rhe_mono [of "of_int n" y] by simp

lemma rhe_le: "y \<le> of_int n \<Longrightarrow> rhe y \<le> n"
  using rhe_mono [of y "of_int n"] by simp

section \<open>Decades\<close>

definition in_decade :: "rat \<Rightarrow> int \<Rightarrow> bool" where
  "in_decade x e \<longleftrightarrow> 10 powi e \<le> x \<and> x < 10 powi (e + 1)"

definition decade :: "rat \<Rightarrow> int" where
  "decade x = (THE e. in_decade x e)"

lemma ten_powi_pos [simp]: "0 < (10::rat) powi e"
  by (simp add: zero_less_power_int)

lemma ten_powi_le_iff [simp]: "(10::rat) powi a \<le> 10 powi b \<longleftrightarrow> a \<le> b"
  using power_int_strict_increasing [of b a "10::rat"] power_int_increasing [of a b "10::rat"]
  by (meson linorder_not_le one_less_numeral_iff one_le_numeral semiring_norm(76))

lemma ten_powi_less_iff [simp]: "(10::rat) powi a < 10 powi b \<longleftrightarrow> a < b"
  by (meson linorder_not_less ten_powi_le_iff)

lemma ten_powi_add: "(10::rat) powi (a + b) = 10 powi a * 10 powi b"
  by (simp add: power_int_add)

lemma ten_powi_nat: "0 \<le> e \<Longrightarrow> (10::rat) powi e = of_int (10 ^ nat e)"
  by (simp add: power_int_def)

lemma in_decade_unique: "in_decade x a \<Longrightarrow> in_decade x b \<Longrightarrow> a = b"
proof -
  assume "in_decade x a" "in_decade x b"
  then have "(10::rat) powi a < 10 powi (b + 1)" "(10::rat) powi b < 10 powi (a + 1)"
    unfolding in_decade_def by linarith+
  then have "a < b + 1" "b < a + 1" by (simp_all only: ten_powi_less_iff)
  then show ?thesis by linarith
qed

lemma decade_eqI: "in_decade x e \<Longrightarrow> decade x = e"
  unfolding decade_def by (rule the_equality) (auto intro: in_decade_unique)

lemma ten_powi_unbounded: "\<exists>n::nat. (x::rat) < 10 powi (int n)"
proof -
  obtain n :: nat where n: "x < of_nat n" using reals_Archimedean2 by blast
  have "of_nat n \<le> (10::rat) ^ n"
  proof (induction n)
    case (Suc n)
    moreover have "1 \<le> (10::rat) ^ n" by simp
    ultimately show ?case unfolding of_nat_Suc power_Suc by linarith
  qed simp
  with n have "x < 10 ^ n" by linarith
  then show ?thesis by (auto simp: power_int_def)
qed

lemma in_decade_ex: assumes "0 < x" shows "\<exists>e. in_decade x e"
proof -
  obtain m :: nat where m: "x < 10 powi int m" using ten_powi_unbounded by blast
  obtain n :: nat where "inverse x < 10 powi int n" using ten_powi_unbounded by blast
  then have n: "10 powi (- int n) < x"
    using assms by (simp add: power_int_minus) (metis inverse_inverse_eq less_imp_inverse_less
        positive_imp_inverse_positive)
  let ?P = "\<lambda>k. x < 10 powi (int k - int n)"
  have "?P (m + n)" using m by simp
  then have k: "?P (LEAST k. ?P k)" by (rule LeastI)
  define k where "k = (LEAST k. ?P k)"
  have "k \<noteq> 0" using k n unfolding k_def [symmetric] by (cases "k = 0") auto
  then have "\<not> ?P (k - 1)" unfolding k_def using not_less_Least [of "k - 1" ?P] k_def by fastforce
  with \<open>k \<noteq> 0\<close> k have "in_decade x (int k - 1 - int n)"
    unfolding k_def [symmetric] in_decade_def by (simp add: of_nat_diff algebra_simps)
  then show ?thesis by blast
qed

lemma decade_in: "0 < x \<Longrightarrow> in_decade x (decade x)"
  using in_decade_ex decade_eqI by fastforce

lemma decade_mono: assumes "0 < x" "x \<le> y" shows "decade x \<le> decade y"
proof -
  have "10 powi decade x \<le> x" "y < 10 powi (decade y + 1)"
    using decade_in [of x] decade_in [of y] assms by (auto simp: in_decade_def)
  with assms have "(10::rat) powi decade x < 10 powi (decade y + 1)" by linarith
  then show ?thesis by (simp only: ten_powi_less_iff)
qed

lemma in_decade_scale: "in_decade x e \<Longrightarrow> in_decade (x * 10 powi k) (e + k)"
  unfolding in_decade_def by (simp add: ten_powi_add algebra_simps)

section \<open>Rounding to 28 significant digits\<close>

definition prec :: nat where
  "prec = 28"

definition unit :: "rat \<Rightarrow> rat" where
  "unit x = 10 powi (decade \<bar>x\<bar> - 27)"

definition rnd :: "rat \<Rightarrow> rat" where
  "rnd x = (if x = 0 then 0 else sgn x * of_int (rhe (\<bar>x\<bar> / unit x)) * unit x)"

definition exact28 :: "rat \<Rightarrow> bool" where
  "exact28 x \<longleftrightarrow> (\<exists>n e. x = of_int n * 10 powi e \<and> \<bar>n\<bar> \<le> 10 ^ 28)"

lemma unit_pos [simp]: "0 < unit x"
  by (simp add: unit_def)

lemma scaled_bounds:
  assumes "x \<noteq> 0" shows "10 ^ 27 \<le> \<bar>x\<bar> / unit x \<and> \<bar>x\<bar> / unit x < 10 ^ 28"
proof -
  have "in_decade \<bar>x\<bar> (decade \<bar>x\<bar>)" using assms by (intro decade_in) simp
  then have "in_decade (\<bar>x\<bar> * 10 powi (27 - decade \<bar>x\<bar>)) 27"
    using in_decade_scale [of "\<bar>x\<bar>" "decade \<bar>x\<bar>" "27 - decade \<bar>x\<bar>"] by simp
  moreover have "\<bar>x\<bar> * 10 powi (27 - decade \<bar>x\<bar>) = \<bar>x\<bar> / unit x"
    unfolding unit_def by (simp add: divide_inverse flip: power_int_minus)
  ultimately show ?thesis by (simp add: in_decade_def)
qed

lemma rhe_scaled_bounds:
  assumes "x \<noteq> 0" shows "10 ^ 27 \<le> rhe (\<bar>x\<bar> / unit x) \<and> rhe (\<bar>x\<bar> / unit x) \<le> 10 ^ 28"
  using scaled_bounds [OF assms] rhe_ge [of "10 ^ 27"] rhe_le [of _ "10 ^ 28"] by auto

lemma rnd_0 [simp]: "rnd 0 = 0"
  by (simp add: rnd_def)

lemma rnd_minus: "rnd (- x) = - rnd x"
  by (simp add: rnd_def unit_def)

lemma rnd_pos_ge: assumes "0 < x" shows "10 powi decade x \<le> rnd x"
proof -
  have b: "10 ^ 27 \<le> rhe (\<bar>x\<bar> / unit x)" using rhe_scaled_bounds [of x] assms by simp
  have "(10::rat) powi decade x = of_int (10 ^ 27) * unit x"
    using assms ten_powi_add [of 27 "decade x - 27"] by (simp add: unit_def)
  also have "\<dots> \<le> of_int (rhe (\<bar>x\<bar> / unit x)) * unit x"
    using b by (intro mult_right_mono) (simp_all only: of_int_le_iff less_imp_le [OF unit_pos])
  finally show ?thesis using assms by (simp add: rnd_def)
qed

lemma rnd_pos_le: assumes "0 < x" shows "rnd x \<le> 10 powi (decade x + 1)"
proof -
  have b: "rhe (\<bar>x\<bar> / unit x) \<le> 10 ^ 28" using rhe_scaled_bounds [of x] assms by simp
  have "of_int (rhe (\<bar>x\<bar> / unit x)) * unit x \<le> of_int (10 ^ 28) * unit x"
    using b by (intro mult_right_mono) (simp_all only: of_int_le_iff less_imp_le [OF unit_pos])
  also have "\<dots> = 10 powi (decade x + 1)"
    using assms ten_powi_add [of 28 "decade x - 27"] by (simp add: unit_def algebra_simps)
  finally show ?thesis using assms by (simp add: rnd_def)
qed

lemma rnd_pos: "0 < x \<Longrightarrow> 0 < rnd x"
  using rnd_pos_ge [of x] ten_powi_pos [of "decade x"] by linarith

lemma rnd_mono_pos: assumes "0 < x" "x \<le> y" shows "rnd x \<le> rnd y"
proof (cases "decade x = decade y")
  case True
  then have u: "unit x = unit y" using assms by (simp add: unit_def)
  have "rhe (x / unit y) \<le> rhe (y / unit y)"
    using assms by (intro rhe_mono divide_right_mono) (simp_all add: less_imp_le)
  then show ?thesis using assms u by (simp add: rnd_def less_imp_le)
next
  case False
  with decade_mono [OF assms] have "decade x + 1 \<le> decade y" by linarith
  then have "(10::rat) powi (decade x + 1) \<le> 10 powi decade y" by (simp only: ten_powi_le_iff)
  with rnd_pos_le [of x] rnd_pos_ge [of y] assms show ?thesis by linarith
qed

lemma rnd_mono: assumes "x \<le> y" shows "rnd x \<le> rnd y"
proof -
  consider "0 < x" | "y < 0" | "x \<le> 0" "0 \<le> y" by linarith
  then show ?thesis
  proof cases
    case 1 then show ?thesis using assms by (rule rnd_mono_pos)
  next
    case 2
    then have "rnd (- y) \<le> rnd (- x)" using assms by (intro rnd_mono_pos) simp_all
    then show ?thesis by (simp add: rnd_minus)
  next
    case 3
    have "rnd x \<le> 0" using 3(1) rnd_pos [of "- x"] by (cases "x = 0") (simp_all add: rnd_minus)
    moreover have "0 \<le> rnd y" using 3(2) rnd_pos [of y] by (cases "y = 0") simp_all
    ultimately show ?thesis by linarith
  qed
qed

lemma rnd_eqI:
  assumes x: "x \<noteq> 0" and d: "in_decade \<bar>x\<bar> d"
  shows "rnd x = sgn x * of_int (rhe (\<bar>x\<bar> / 10 powi (d - 27))) * 10 powi (d - 27)"
  using x decade_eqI [OF d] by (simp add: rnd_def unit_def)

lemma exact28_0 [simp]: "exact28 0"
  unfolding exact28_def by (rule exI [of _ 0]) simp

lemma rnd_exact: assumes "exact28 x" shows "rnd x = x"
proof (cases "x = 0")
  case False
  obtain n e where x: "x = of_int n * 10 powi e" and n: "\<bar>n\<bar> \<le> 10 ^ 28"
    using assms by (auto simp: exact28_def)
  have "\<bar>x\<bar> \<le> 10 powi 28 * 10 powi e"
    using n by (simp add: x abs_mult power_int_abs mult_right_mono flip: of_int_abs)
  then have "10 powi decade \<bar>x\<bar> \<le> (10::rat) powi (28 + e)"
    using decade_in [of "\<bar>x\<bar>"] False by (simp add: in_decade_def ten_powi_add)
  then have le: "decade \<bar>x\<bar> \<le> 28 + e" by (simp only: ten_powi_le_iff)
  have "\<exists>m::int. \<bar>x\<bar> / unit x = of_int m"
  proof (cases "decade \<bar>x\<bar> = 28 + e")
    case True
    have "10 powi (28 + e) \<le> \<bar>x\<bar>" using decade_in [of "\<bar>x\<bar>"] False True by (simp add: in_decade_def)
    with \<open>\<bar>x\<bar> \<le> 10 powi 28 * 10 powi e\<close> have "\<bar>x\<bar> = 10 powi (28 + e)"
      by (simp add: ten_powi_add)
    then have "\<bar>x\<bar> / unit x = of_int (10 ^ 27)"
      unfolding unit_def True by (simp flip: power_int_diff add: ten_powi_nat)
    then show ?thesis by blast
  next
    case False
    with le have k: "0 \<le> e - (decade \<bar>x\<bar> - 27)" by linarith
    have "\<bar>x\<bar> / unit x = of_int \<bar>n\<bar> * 10 powi (e - (decade \<bar>x\<bar> - 27))"
      by (simp add: x unit_def abs_mult power_int_abs power_int_diff)
    also have "\<dots> = of_int (\<bar>n\<bar> * 10 ^ nat (e - (decade \<bar>x\<bar> - 27)))"
      using ten_powi_nat [OF k] by simp
    finally show ?thesis by blast
  qed
  then obtain m :: int where "\<bar>x\<bar> / unit x = of_int m" by blast
  then have "of_int (rhe (\<bar>x\<bar> / unit x)) * unit x = \<bar>x\<bar>"
    by (metis less_numeral_extra(3) nonzero_eq_divide_eq rhe_of_int unit_pos)
  with False show ?thesis by (simp add: rnd_def mult.assoc sgn_mult_abs)
qed simp

lemma exact28_rnd: "exact28 (rnd x)"
proof (cases "x = 0")
  case False
  define m where "m = rhe (\<bar>x\<bar> / unit x)"
  have m: "10 ^ 27 \<le> m" "m \<le> 10 ^ 28"
    using rhe_scaled_bounds [OF False] by (simp_all add: m_def)
  have "rnd x = of_int (if 0 < x then m else - m) * 10 powi (decade \<bar>x\<bar> - 27)"
    using False unfolding rnd_def unit_def [symmetric] m_def [symmetric] by (simp add: sgn_if)
  moreover have "\<bar>if 0 < x then m else - m\<bar> \<le> 10 ^ 28"
    using m by simp
  ultimately show ?thesis unfolding exact28_def by blast
qed simp

lemma rnd_error: assumes "x \<noteq> 0" shows "\<bar>rnd x - x\<bar> \<le> unit x / 2"
proof -
  have "\<bar>rnd x - x\<bar> = \<bar>sgn x * (of_int (rhe (\<bar>x\<bar> / unit x)) - \<bar>x\<bar> / unit x) * unit x\<bar>"
    using assms less_imp_neq [OF unit_pos [of x]] mult_sgn_abs [of x]
    by (simp add: rnd_def algebra_simps)
  also have "\<dots> = \<bar>of_int (rhe (\<bar>x\<bar> / unit x)) - \<bar>x\<bar> / unit x\<bar> * unit x"
    using assms unit_pos [of x] by (simp add: abs_mult less_imp_le)
  also have "\<dots> \<le> 1 / 2 * unit x"
    by (intro mult_right_mono rhe_error) (simp add: less_imp_le)
  finally show ?thesis by simp
qed

interpretation half_even: rounding rnd exact28
  by unfold_locales (simp_all add: rnd_mono rnd_exact exact28_rnd)

lemma exact28_minus: "exact28 (- x) \<longleftrightarrow> exact28 x"
proof -
  have "exact28 (- y)" if "exact28 y" for y
    using that unfolding exact28_def by (metis abs_minus_cancel minus_mult_left of_int_minus)
  from this [of x] this [of "- x"] show ?thesis by auto
qed

lemma exact28_of_int: "\<bar>n\<bar> \<le> 10 ^ 28 \<Longrightarrow> exact28 (of_int n)"
  unfolding exact28_def by (metis mult.right_neutral power_int_0_right)

lemmas rnd_simps = half_even.zero half_even.idem

end
