(* ===== verification/Decimals.thy ===== *)
theory Decimals
  imports Rounding
begin

text \<open>
  Python's \<open>decimal.Decimal\<close>, for finite values in the default context (precision 28, ties to
  even): a sign, a coefficient and an exponent, with the arithmetic, comparison, integer
  division and quantization operators the program uses. Every operator is executable and is
  proved to return the exact rational result rounded by \<open>rnd\<close>. The exponent limits of the
  context (999999 in magnitude) are not modelled. The laws of theory \<open>Rounding\<close> carry over to
  the operators in the collection \<open>decimal_simps\<close>.
\<close>

section \<open>Representation and value\<close>

datatype decimal = Dec (dneg: bool) (dcoeff: nat) (dexp: int)

abbreviation dec :: "nat \<Rightarrow> decimal" where
  "dec n \<equiv> Dec False n 0"

definition dsigned :: "bool \<Rightarrow> 'a::ring_1 \<Rightarrow> 'a" where
  "dsigned s x = (if s then - x else x)"

definition dval :: "decimal \<Rightarrow> rat" where
  "dval d = dsigned (dneg d) (of_nat (dcoeff d) * 10 powi dexp d)"

named_theorems decimal_simps \<open>values of decimal operators\<close>

text \<open>The coefficient at an exponent \<open>m\<close> not above that of \<open>d\<close>, as a signed integer.\<close>

definition dint :: "int \<Rightarrow> decimal \<Rightarrow> int" where
  "dint m d = dsigned (dneg d) (int (dcoeff d) * 10 ^ nat (dexp d - m))"

lemma dval_dec [simp, decimal_simps]: "dval (dec n) = of_nat n"
  by (simp add: dval_def dsigned_def)

lemma dval_dint: assumes "m \<le> dexp d" shows "dval d = of_int (dint m d) * 10 powi m"
proof -
  have "(10::rat) powi dexp d = of_int (10 ^ nat (dexp d - m)) * 10 powi m"
    using assms ten_powi_add [of "dexp d - m" m] ten_powi_nat [of "dexp d - m"] by simp
  then show ?thesis by (simp add: dval_def dint_def dsigned_def)
qed

lemma dint_min:
  "dval a = of_int (dint (min (dexp a) (dexp b)) a) * 10 powi min (dexp a) (dexp b)"
  "dval b = of_int (dint (min (dexp a) (dexp b)) b) * 10 powi min (dexp a) (dexp b)"
  by (simp_all add: dval_dint)

section \<open>Comparison\<close>

instantiation decimal :: preorder
begin

definition less_eq_decimal :: "decimal \<Rightarrow> decimal \<Rightarrow> bool" where
  "less_eq_decimal a b \<longleftrightarrow> (let m = min (dexp a) (dexp b) in dint m a \<le> dint m b)"

definition less_decimal :: "decimal \<Rightarrow> decimal \<Rightarrow> bool" where
  "less_decimal a b \<longleftrightarrow> (let m = min (dexp a) (dexp b) in dint m a < dint m b)"

lemma decimal_le_val: "a \<le> b \<longleftrightarrow> dval a \<le> dval b"
  unfolding less_eq_decimal_def Let_def dint_min [where a = a and b = b] by simp

lemma decimal_less_val: "a < b \<longleftrightarrow> dval a < dval b"
  unfolding less_decimal_def Let_def dint_min [where a = a and b = b] by simp

instance
  by standard (auto simp: decimal_le_val decimal_less_val)

end

text \<open>Python's \<open>==\<close> compares values, not representations.\<close>

definition deq :: "decimal \<Rightarrow> decimal \<Rightarrow> bool" where
  "deq a b \<longleftrightarrow> a \<le> b \<and> b \<le> a"

lemma deq_val: "deq a b \<longleftrightarrow> dval a = dval b"
  by (auto simp: deq_def decimal_le_val)

lemmas [decimal_simps] = decimal_le_val decimal_less_val deq_val

text \<open>\<open>min(a, b)\<close> and \<open>max(a, b)\<close> return the first argument when both are equal.\<close>

definition dmin :: "decimal \<Rightarrow> decimal \<Rightarrow> decimal" where
  "dmin a b = (if b < a then b else a)"

definition dmax :: "decimal \<Rightarrow> decimal \<Rightarrow> decimal" where
  "dmax a b = (if a < b then b else a)"

lemma dval_dmin [decimal_simps]: "dval (dmin a b) = min (dval a) (dval b)"
  by (simp add: dmin_def decimal_less_val)

lemma dval_dmax [decimal_simps]: "dval (dmax a b) = max (dval a) (dval b)"
  by (simp add: dmax_def decimal_less_val)

section \<open>Digits and rounding of coefficients\<close>

fun ndigits :: "nat \<Rightarrow> nat" where
  "ndigits n = (if n < 10 then 1 else Suc (ndigits (n div 10)))"

declare ndigits.simps [simp del]

lemma ndigits_pos: "0 < ndigits n"
  by (subst ndigits.simps) simp

lemma ndigits_upper: "n < 10 ^ ndigits n"
proof (induction n rule: ndigits.induct)
  case (1 n)
  show ?case
  proof (cases "n < 10")
    case True
    then show ?thesis by (subst ndigits.simps) simp
  next
    case False
    with 1 have "n div 10 < 10 ^ ndigits (n div 10)" by simp
    then have "n < 10 * 10 ^ ndigits (n div 10)" by (simp add: div_less_iff_less_mult mult.commute)
    with False show ?thesis by (subst ndigits.simps) simp
  qed
qed

lemma ndigits_lower: "0 < n \<Longrightarrow> 10 ^ (ndigits n - 1) \<le> n"
proof (induction n rule: ndigits.induct)
  case (1 n)
  show ?case
  proof (cases "n < 10")
    case True
    with "1.prems" show ?thesis by (subst ndigits.simps) simp
  next
    case False
    with 1 have "10 ^ (ndigits (n div 10) - 1) \<le> n div 10" by simp
    then have "10 * 10 ^ (ndigits (n div 10) - 1) \<le> n"
      by (simp add: less_eq_div_iff_mult_less_eq mult.commute)
    with False ndigits_pos [of "n div 10"] show ?thesis
      by (subst ndigits.simps) (simp flip: power_Suc)
  qed
qed

lemma ndigits_gt: "10 ^ k \<le> n \<Longrightarrow> k < ndigits n"
  using ndigits_upper [of n] by (meson le_less_trans less_imp_neq nat_power_less_imp_less
      power_strict_increasing_iff one_less_numeral_iff semiring_norm(76))

text \<open>Division of natural numbers, rounded to nearest with ties to even.\<close>

definition rne :: "nat \<Rightarrow> nat \<Rightarrow> nat" where
  "rne n d = (let q = n div d; r = n mod d in
     if 2 * r < d then q else if d < 2 * r then q + 1 else if even q then q else q + 1)"

lemma rne_rhe: assumes "0 < d" shows "rhe (of_nat n / of_nat d) = int (rne n d)"
proof -
  have f: "\<lfloor>(of_nat n / of_nat d :: rat)\<rfloor> = int (n div d)" by (simp add: floor_divide_of_nat_eq)
  have "(of_nat n :: rat) = of_nat (n div d) * of_nat d + of_nat (n mod d)"
    by (metis of_nat_add of_nat_mult div_mult_mod_eq)
  then have r: "(of_nat n / of_nat d :: rat) - of_int (int (n div d)) = of_nat (n mod d) / of_nat d"
    using assms by (simp add: field_simps)
  have lt: "((of_nat (n mod d) / of_nat d :: rat) < 1 / 2) = (2 * (n mod d) < d)"
    and gt: "((1 / 2 :: rat) < of_nat (n mod d) / of_nat d) = (d < 2 * (n mod d))"
    using assms of_nat_less_iff [where 'a = rat, of "2 * (n mod d)" d]
      of_nat_less_iff [where 'a = rat, of d "2 * (n mod d)"]
    by (simp_all add: field_simps del: of_nat_less_iff)
  show ?thesis unfolding rhe_def rne_def f Let_def r lt gt by simp
qed

definition dround :: "bool \<Rightarrow> nat \<Rightarrow> nat \<Rightarrow> nat \<Rightarrow> int \<Rightarrow> decimal" where
  "dround s n d k e = (let c = rne n (d * 10 ^ k) in
     if c = 10 ^ 28 then Dec s (10 ^ 27) (e + int k + 1) else Dec s c (e + int k))"

definition dfix :: "bool \<Rightarrow> nat \<Rightarrow> int \<Rightarrow> decimal" where
  "dfix s c e = (if c < 10 ^ 28 then Dec s c e else dround s c 1 (ndigits c - 28) e)"

lemma rnd_dsigned: "rnd (dsigned s x) = dsigned s (rnd x)"
  by (simp add: dsigned_def rnd_minus)

lemma dval_dround_eq: "dval (dround s n d k e) = dsigned s (of_nat (rne n (d * 10 ^ k)) * 10 powi (e + int k))"
proof (cases "rne n (d * 10 ^ k) = 10 ^ 28")
  case True
  have "(10::rat) ^ 27 * 10 powi (e + int k + 1) = 10 ^ 28 * 10 powi (e + int k)"
    by (simp add: power_int_add_1)
  with True show ?thesis by (simp add: dround_def dval_def)
qed (simp add: dround_def dval_def)

lemma dval_dround:
  assumes d: "0 < d" and q: "10 ^ 28 \<le> n div d" and k: "k = ndigits (n div d) - 28"
  shows "dval (dround s n d k e) = dsigned s (rnd (of_nat n / of_nat d * 10 powi e))"
proof -
  let ?x = "of_nat n / of_nat d :: rat" and ?D = "int (ndigits (n div d)) - 1"
  from ndigits_gt [OF q] have k': "int k = ?D - 27" by (simp add: k of_nat_diff)
  have dig: "28 < ndigits (n div d)" using ndigits_gt [OF q] .
  have fl: "\<lfloor>?x\<rfloor> = int (n div d)" by (simp add: floor_divide_of_nat_eq)
  have "of_nat (n div d) \<le> ?x" "?x < of_nat (n div d) + 1"
    using floor_correct [of ?x] unfolding fl by simp_all
  moreover have "(10::rat) powi ?D \<le> of_nat (n div d)"
  proof -
    have "(10::rat) powi ?D = of_nat (10 ^ (ndigits (n div d) - 1))"
      using dig by (simp add: power_int_def nat_diff_distrib')
    also have "\<dots> \<le> of_nat (n div d)"
      using q by (intro of_nat_mono ndigits_lower) simp
    finally show ?thesis .
  qed
  moreover have "of_nat (n div d) + 1 \<le> (10::rat) powi (?D + 1)"
  proof -
    have "(of_nat (Suc (n div d)) :: rat) \<le> of_nat (10 ^ ndigits (n div d))"
      by (intro of_nat_mono Suc_leI ndigits_upper)
    then show ?thesis by (simp add: add.commute)
  qed
  ultimately have "in_decade ?x ?D" unfolding in_decade_def by linarith
  then have dec: "in_decade (?x * 10 powi e) (?D + e)" by (rule in_decade_scale)
  define y where "y = ?x * 10 powi e"
  have pos: "0 < y" using dec unfolding in_decade_def y_def using ten_powi_pos less_le_trans by blast
  have "y / 10 powi (?D + e - 27) = ?x / 10 powi (int k)"
    unfolding k' y_def by (simp add: power_int_diff power_int_add)
  also have "\<dots> = of_nat n / of_nat (d * 10 ^ k)" by simp
  finally have "rhe (\<bar>y\<bar> / 10 powi (?D + e - 27)) = int (rne n (d * 10 ^ k))"
    using pos rne_rhe [of "d * 10 ^ k" n] d by simp
  moreover have "rnd y = sgn y * of_int (rhe (\<bar>y\<bar> / 10 powi (?D + e - 27))) * 10 powi (?D + e - 27)"
    using pos dec unfolding y_def [symmetric] by (intro rnd_eqI) simp_all
  moreover have "?D + e - 27 = e + int k" by (simp add: k')
  ultimately have "rnd y = of_nat (rne n (d * 10 ^ k)) * 10 powi (e + int k)"
    using pos by simp
  then show ?thesis by (simp add: dval_dround_eq y_def)
qed

lemma exact28_dec: assumes "dcoeff d \<le> 10 ^ 28" shows "exact28 (dval d)"
proof -
  have "dval d = of_int (dsigned (dneg d) (int (dcoeff d))) * 10 powi dexp d"
    by (simp add: dval_def dsigned_def)
  moreover have "\<bar>dsigned (dneg d) (int (dcoeff d))\<bar> \<le> 10 ^ 28"
    using assms by (simp add: dsigned_def)
  ultimately show ?thesis unfolding exact28_def by blast
qed

lemma dval_dfix: "dval (dfix s c e) = dsigned s (rnd (of_nat c * 10 powi e))"
proof (cases "c < 10 ^ 28")
  case True
  then have "exact28 (of_nat c * 10 powi e)"
    using exact28_dec [of "Dec False c e"] by (simp add: dval_def dsigned_def)
  with True show ?thesis by (simp add: dfix_def dval_def rnd_exact)
next
  case False
  then show ?thesis using dval_dround [of 1 c "ndigits c - 28" s e] by (simp add: dfix_def)
qed

section \<open>Arithmetic\<close>

instantiation decimal :: "{zero, plus, minus, uminus, times}"
begin

definition zero_decimal :: decimal where
  "zero_decimal = dec 0"

definition plus_decimal :: "decimal \<Rightarrow> decimal \<Rightarrow> decimal" where
  "plus_decimal a b = (let m = min (dexp a) (dexp b); t = dint m a + dint m b in
     dfix (if t = 0 then dneg a \<and> dneg b else t < 0) (nat \<bar>t\<bar>) m)"

definition minus_decimal :: "decimal \<Rightarrow> decimal \<Rightarrow> decimal" where
  "minus_decimal a b = a + Dec (\<not> dneg b) (dcoeff b) (dexp b)"

definition uminus_decimal :: "decimal \<Rightarrow> decimal" where
  "uminus_decimal a = dfix (\<not> dneg a \<and> dcoeff a \<noteq> 0) (dcoeff a) (dexp a)"

definition times_decimal :: "decimal \<Rightarrow> decimal \<Rightarrow> decimal" where
  "times_decimal a b = dfix (dneg a \<noteq> dneg b) (dcoeff a * dcoeff b) (dexp a + dexp b)"

instance ..

end

text \<open>\<open>abs(d)\<close> rounds to the context like every other operator.\<close>

definition dabs :: "decimal \<Rightarrow> decimal" where
  "dabs a = dfix False (dcoeff a) (dexp a)"

definition dsum :: "decimal list \<Rightarrow> decimal" where
  "dsum xs = foldl (+) 0 xs"

lemma dval_zero [simp, decimal_simps]: "dval 0 = 0"
  by (simp add: zero_decimal_def)

lemma dval_plus [decimal_simps]: "dval (a + b) = rnd (dval a + dval b)"
proof -
  define m where "m = min (dexp a) (dexp b)"
  define t where "t = dint m a + dint m b"
  have sum: "dval a + dval b = of_int t * 10 powi m"
    unfolding t_def m_def dint_min [where a = a and b = b] by (simp add: distrib_right)
  have "dval (a + b) = dsigned (if t = 0 then dneg a \<and> dneg b else t < 0)
      (rnd (of_int \<bar>t\<bar> * 10 powi m))"
    unfolding plus_decimal_def Let_def m_def [symmetric] t_def [symmetric] by (simp add: dval_dfix)
  also have "\<dots> = rnd (of_int t * 10 powi m)"
    by (cases t "0::int" rule: linorder_cases) (simp_all add: dsigned_def rnd_minus)
  finally show ?thesis by (simp add: sum)
qed

lemma dval_minus [decimal_simps]: "dval (a - b) = rnd (dval a - dval b)"
proof -
  have "dval (Dec (\<not> dneg b) (dcoeff b) (dexp b)) = - dval b"
    by (simp add: dval_def dsigned_def)
  then show ?thesis by (simp add: minus_decimal_def dval_plus)
qed

lemma dval_uminus [decimal_simps]: "dval (- a) = - rnd (dval a)"
  by (simp add: uminus_decimal_def dval_dfix) (simp add: dval_def dsigned_def rnd_minus)

lemma dval_times [decimal_simps]: "dval (a * b) = rnd (dval a * dval b)"
  by (simp add: times_decimal_def dval_dfix)
    (simp add: dval_def dsigned_def rnd_minus power_int_add algebra_simps)

lemma dval_dabs [decimal_simps]: "dval (dabs a) = rnd \<bar>dval a\<bar>"
  by (simp add: dabs_def dval_dfix) (simp add: dval_def dsigned_def abs_mult power_int_abs)

section \<open>Division\<close>

function strip :: "nat \<Rightarrow> int \<Rightarrow> int \<Rightarrow> nat \<times> int" where
  "strip c e ideal = (if e < ideal \<and> c mod 10 = 0 then strip (c div 10) (e + 1) ideal else (c, e))"
  by pat_completeness auto
termination
  by (relation "measure (\<lambda>(c, e, ideal). nat (ideal - e))") auto

declare strip.simps [simp del]

definition ddiv :: "decimal \<Rightarrow> decimal \<Rightarrow> decimal" where
  "ddiv a b = (let s = (dneg a \<noteq> dneg b); ideal = dexp a - dexp b in
     if dcoeff a = 0 then Dec s 0 ideal
     else let shift = int (ndigits (dcoeff b)) - int (ndigits (dcoeff a)) + 29;
       n = dcoeff a * 10 ^ nat shift; d = dcoeff b * 10 ^ nat (- shift); e = ideal - shift in
       if n mod d = 0 then (case strip (n div d) e ideal of (c, e') \<Rightarrow> dfix s c e')
       else dround s n d (ndigits (n div d) - 28) e)"

text \<open>\<open>a / b\<close> raises on a zero divisor; \<open>ddiv\<close> is its value otherwise.\<close>

definition decimal_truediv :: "decimal \<Rightarrow> decimal \<Rightarrow> decimal result" where
  "decimal_truediv a b = (if dcoeff b = 0
     then Inl (if dcoeff a = 0 then InvalidOperation else DivisionByZero) else Inr (ddiv a b))"

text \<open>
  \<open>a // b\<close> truncates towards zero and raises when the quotient needs more than 28 digits.
\<close>

definition decimal_floordiv :: "decimal \<Rightarrow> decimal \<Rightarrow> decimal result" where
  "decimal_floordiv a b = (if dcoeff b = 0
     then Inl (if dcoeff a = 0 then InvalidOperation else DivisionByZero)
     else let m = min (dexp a) (dexp b); q = nat \<bar>dint m a\<bar> div nat \<bar>dint m b\<bar> in
       if q < 10 ^ 28 then Inr (Dec (dneg a \<noteq> dneg b) q 0) else Inl InvalidOperation)"

text \<open>\<open>to_integral_value(rounding=ROUND_FLOOR)\<close> and \<open>quantize\<close> to \<open>k\<close> fractional digits.\<close>

definition decimal_floor :: "decimal \<Rightarrow> decimal" where
  "decimal_floor a = (if 0 \<le> dexp a then a
     else let p = 10 ^ nat (- dexp a); q = dcoeff a div p in
       Dec (dneg a) (if dneg a \<and> dcoeff a mod p \<noteq> 0 then q + 1 else q) 0)"

definition decimal_quantize :: "decimal \<Rightarrow> nat \<Rightarrow> decimal result" where
  "decimal_quantize a k =
    (let c = (if - int k \<le> dexp a then dcoeff a * 10 ^ nat (dexp a + int k)
              else rne (dcoeff a) (10 ^ nat (- int k - dexp a))) in
     if c < 10 ^ 28 then Inr (Dec (dneg a) c (- int k)) else Inl InvalidOperation)"

lemma strip_value:
  "strip c e i = (c', e') \<Longrightarrow> of_nat c' * (10::rat) powi e' = of_nat c * 10 powi e"
proof (induction c e i arbitrary: c' e' rule: strip.induct)
  case (1 c e i)
  show ?case
  proof (cases "e < i \<and> c mod 10 = 0")
    case True
    then have "c = 10 * (c div 10)" by auto
    then have "of_nat c * (10::rat) powi e = of_nat (c div 10) * 10 powi (e + 1)"
      by (metis (no_types, lifting) mult.assoc mult.commute of_nat_mult of_nat_numeral power_int_add_1
          zero_neq_numeral)
    with True 1 show ?thesis by (simp add: strip.simps [of c e i])
  next
    case False
    with "1.prems" show ?thesis by (simp add: strip.simps [of c e i])
  qed
qed

lemma ten_powi_neg: assumes "k < 0" shows "(10::rat) powi k = 1 / 10 ^ nat (- k)"
proof -
  obtain j where "k = - int j" using assms by (metis less_imp_le minus_minus nonpos_int_cases)
  then show ?thesis by (simp add: power_int_minus_divide)
qed

lemma ten_power_ratio: "(10::rat) ^ nat k / 10 ^ nat (- k) = 10 powi k"
  by (cases "0 \<le> k") (simp_all add: ten_powi_neg ten_powi_nat)

lemma dneg_le: "dneg a \<Longrightarrow> dval a \<le> 0"
  by (simp add: dval_def dsigned_def less_imp_le)

lemma ddiv_quotient_large:
  assumes "0 < x" "0 < y" and sh: "sh = int (ndigits y) - int (ndigits x) + 29"
  shows "10 ^ 28 \<le> (x * 10 ^ nat sh) div (y * 10 ^ nat (- sh))"
proof -
  have ry: "(of_nat y :: rat) \<le> 10 powi int (ndigits y)"
    using of_nat_mono [OF less_imp_le [OF ndigits_upper [of y]], where 'a = rat] by simp
  have "(10::rat) powi (int (ndigits x) - 1) = of_nat (10 ^ (ndigits x - 1))"
    using ndigits_pos [of x] by (simp add: power_int_def nat_diff_distrib')
  also have "\<dots> \<le> of_nat x" by (intro of_nat_mono ndigits_lower assms)
  finally have rx: "(10::rat) powi (int (ndigits x) - 1) \<le> of_nat x" .
  have "(10::rat) ^ 28 * of_nat y \<le> 10 powi 28 * 10 powi int (ndigits y)"
    using ry by simp
  also have "\<dots> = 10 powi (int (ndigits x) - 1) * 10 powi sh"
    unfolding sh ten_powi_add [symmetric] by (simp add: algebra_simps)
  also have "\<dots> \<le> of_nat x * (10 ^ nat sh / 10 ^ nat (- sh))"
    unfolding ten_power_ratio using rx by (intro mult_right_mono) (simp_all add: less_imp_le)
  finally have "(of_nat (10 ^ 28 * (y * 10 ^ nat (- sh))) :: rat) \<le> of_nat (x * 10 ^ nat sh)"
    by (simp add: field_simps)
  then have "10 ^ 28 * (y * 10 ^ nat (- sh)) \<le> x * 10 ^ nat sh" by (simp only: of_nat_le_iff)
  then show ?thesis using assms by (simp add: less_eq_div_iff_mult_less_eq)
qed

text \<open>
  Exact quotients: the digits need no stripping once the quotient is written at the smallest
  shift that makes it whole. As a code equation this evaluates exact divisions quickly.
\<close>

lemma strip_shifted:
  assumes "j = 0 \<or> c mod 10 \<noteq> 0"
  shows "strip (c * 10 ^ k) (i - int j - int k) i = (c, i - int j)"
proof (induction k)
  case 0
  with assms show ?case by (subst strip.simps) auto
next
  case (Suc k)
  have "strip (c * 10 ^ Suc k) (i - int j - int (Suc k)) i
      = strip (c * 10 ^ k) (i - int j - int (Suc k) + 1) i"
    by (subst strip.simps) simp
  then show ?case using Suc by (simp add: algebra_simps)
qed

lemma ddiv_exact:
  assumes q: "dcoeff a * 10 ^ j = dcoeff b * q" and nz: "0 < dcoeff a" "0 < dcoeff b"
    and small: "q < 10 ^ 28" and least: "j = 0 \<or> q mod 10 \<noteq> 0"
  shows "ddiv a b = Dec (dneg a \<noteq> dneg b) q (dexp a - dexp b - int j)"
proof -
  define x where "x = dcoeff a"
  define y where "y = dcoeff b"
  have "10 ^ (ndigits x - 1 + j) \<le> x * 10 ^ j"
    using ndigits_lower [of x] nz by (simp add: x_def power_add)
  also have "\<dots> < 10 ^ (ndigits y + 28)"
    using q small ndigits_upper [of y] nz mult_strict_mono [of y "10 ^ ndigits y" q "10 ^ 28"]
    by (simp add: x_def y_def power_add)
  finally have "ndigits x - 1 + j < ndigits y + 28"
    by (rule power_less_imp_less_exp [rotated]) simp
  with ndigits_pos [of x] have "int (ndigits y) - int (ndigits x) + 29
      = int (j + (ndigits y + 29 - ndigits x - j))" by linarith
  then obtain k where k: "int (ndigits y) - int (ndigits x) + 29 = int (j + k)" ..
  then have e: "x * 10 ^ (j + k) = y * (q * 10 ^ k)"
    using q by (simp add: x_def y_def power_add mult.assoc [symmetric])
  have nz': "x \<noteq> 0" "y \<noteq> 0" using nz by (simp_all add: x_def y_def)
  have "strip (q * 10 ^ k) (dexp a - dexp b - (int j + int k)) (dexp a - dexp b)
      = (q, dexp a - dexp b - int j)"
    using strip_shifted [OF least, of k "dexp a - dexp b"] by (simp add: diff_diff_eq add.assoc)
  then show ?thesis
    using k e nz' small
    by (simp add: ddiv_def x_def [symmetric] y_def [symmetric] dfix_def nat_add_distrib Let_def)
qed

fun exact_quotient :: "nat \<Rightarrow> nat \<Rightarrow> nat \<Rightarrow> nat \<Rightarrow> (nat \<times> nat) option" where
  "exact_quotient 0 j n d = None"
| "exact_quotient (Suc f) j n d = (if n mod d = 0 then Some (j, n div d)
     else exact_quotient f (Suc j) (n * 10) d)"

lemma exact_quotient_sound:
  assumes "exact_quotient f j0 n d = Some (j, q)" "0 < d"
    "j0 = 0 \<or> (\<exists>m. n = m * 10 \<and> m mod d \<noteq> 0)"
  shows "\<exists>i. j = j0 + i \<and> n * 10 ^ i = d * q \<and> (j = 0 \<or> q mod 10 \<noteq> 0)"
  using assms
proof (induction f arbitrary: j0 n)
  case (Suc f)
  show ?case
  proof (cases "n mod d = 0")
    case True
    with Suc.prems have j: "j = j0" "q = n div d" "n = d * q" by auto
    have "j0 = 0 \<or> q mod 10 \<noteq> 0"
      using Suc.prems(3) j(3) by (metis dvd_triv_left mod_0_imp_dvd dvd_div_mult_self mult.assoc
          mult_cancel_right mod_eq_0_iff_dvd zero_neq_numeral)
    with j show ?thesis by (intro exI [of _ 0]) simp
  next
    case False
    with Suc.prems obtain i where "j = Suc j0 + i" "n * 10 * 10 ^ i = d * q" "j = 0 \<or> q mod 10 \<noteq> 0"
      using Suc.IH [of "Suc j0" "n * 10"] by auto
    then show ?thesis by (intro exI [of _ "Suc i"]) (simp add: mult.assoc)
  qed
qed simp

definition ddiv_digits :: "decimal \<Rightarrow> decimal \<Rightarrow> decimal" where
  ddiv_digits_def [code del]: "ddiv_digits = ddiv"

lemma ddiv_digits_code [code]: "ddiv_digits a b = (let s = (dneg a \<noteq> dneg b); ideal = dexp a - dexp b;
     shift = int (ndigits (dcoeff b)) - int (ndigits (dcoeff a)) + 29;
     n = dcoeff a * 10 ^ nat shift; d = dcoeff b * 10 ^ nat (- shift); e = ideal - shift in
     if dcoeff a = 0 then Dec s 0 ideal
     else if n mod d = 0 then (case strip (n div d) e ideal of (c, e') \<Rightarrow> dfix s c e')
     else dround s n d (ndigits (n div d) - 28) e)"
  unfolding ddiv_digits_def ddiv_def Let_def by simp

lemma ddiv_code [code]:
  "ddiv a b = (let s = (dneg a \<noteq> dneg b); ideal = dexp a - dexp b in
     if dcoeff a = 0 then Dec s 0 ideal
     else case (if dcoeff b = 0 then None else exact_quotient 10 0 (dcoeff a) (dcoeff b)) of
       Some (j, q) \<Rightarrow> if q < 10 ^ 28 then Dec s q (ideal - int j) else ddiv_digits a b
     | None \<Rightarrow> ddiv_digits a b)"
proof (cases "dcoeff a = 0 \<or> dcoeff b = 0 \<or> exact_quotient 10 0 (dcoeff a) (dcoeff b) = None")
  case True
  moreover have "dcoeff a = 0 \<Longrightarrow> ddiv a b = Dec (dneg a \<noteq> dneg b) 0 (dexp a - dexp b)"
    by (simp add: ddiv_def)
  ultimately show ?thesis by (auto simp: ddiv_digits_def Let_def)
next
  case False
  then obtain j q where jq: "exact_quotient 10 0 (dcoeff a) (dcoeff b) = Some (j, q)" by auto
  with exact_quotient_sound [OF jq] False
  have "dcoeff a * 10 ^ j = dcoeff b * q" "j = 0 \<or> q mod 10 \<noteq> 0" by auto
  then show ?thesis using False jq ddiv_exact [of a j b q] by (auto simp: ddiv_digits_def Let_def)
qed

lemma dval_divide:
  "dval a / dval b = dsigned (dneg a \<noteq> dneg b)
     (of_nat (dcoeff a) / of_nat (dcoeff b) * 10 powi (dexp a - dexp b))"
  by (simp add: dval_def dsigned_def power_int_diff)

lemma dval_ddiv [decimal_simps]:
  assumes "dcoeff b \<noteq> 0" shows "dval (ddiv a b) = rnd (dval a / dval b)"
proof (cases "dcoeff a = 0")
  case True
  then show ?thesis by (simp add: ddiv_def dval_def dsigned_def)
next
  case False
  define sh where "sh = int (ndigits (dcoeff b)) - int (ndigits (dcoeff a)) + 29"
  define n where "n = dcoeff a * 10 ^ nat sh"
  define d where "d = dcoeff b * 10 ^ nat (- sh)"
  define e where "e = dexp a - dexp b - sh"
  define s where "s = (dneg a \<noteq> dneg b)"
  have d: "0 < d" using assms by (simp add: d_def)
  have large: "10 ^ 28 \<le> n div d"
    unfolding n_def d_def using assms False by (intro ddiv_quotient_large) (simp_all add: sh_def)
  have "(of_nat n / of_nat d :: rat) = of_nat (dcoeff a) / of_nat (dcoeff b) * 10 powi sh"
    unfolding ten_power_ratio [symmetric] by (simp add: n_def d_def)
  then have eq: "dval a / dval b = dsigned s (of_nat n / of_nat d * 10 powi e)"
    unfolding dval_divide s_def e_def by (simp add: power_int_diff)
  show ?thesis
  proof (cases "n mod d = 0")
    case True
    obtain c e' where st: "strip (n div d) e (dexp a - dexp b) = (c, e')" by fastforce
    have "(of_nat n / of_nat d :: rat) = of_nat (n div d)"
      using True d by (auto simp: of_nat_div field_simps)
    with strip_value [OF st] have "dsigned s (of_nat c * 10 powi e') = dval a / dval b"
      by (simp add: eq)
    moreover have "ddiv a b = dfix s c e'"
      using False True st by (simp add: ddiv_def Let_def n_def d_def e_def s_def sh_def)
    ultimately show ?thesis by (metis dval_dfix rnd_dsigned)
  next
    case rem: False
    have "ddiv a b = dround s n d (ndigits (n div d) - 28) e"
      using False rem by (simp add: ddiv_def Let_def n_def d_def e_def s_def sh_def)
    with dval_dround [OF d large refl] show ?thesis by (simp add: eq rnd_dsigned)
  qed
qed

lemma dcoeff_eq_0_iff: "dcoeff a = 0 \<longleftrightarrow> dval a = 0"
  by (simp add: dval_def dsigned_def)

lemma decimal_truediv_ok: "dval b \<noteq> 0 \<Longrightarrow> decimal_truediv a b = Inr (ddiv a b)"
  by (simp add: decimal_truediv_def dcoeff_eq_0_iff)

lemma decimal_truediv_eq_Inr [simp]:
  "decimal_truediv a b = Inr q \<longleftrightarrow> dval b \<noteq> 0 \<and> q = ddiv a b"
  by (auto simp: decimal_truediv_def dcoeff_eq_0_iff)

lemma dval_truediv: "decimal_truediv a b = Inr q \<Longrightarrow> dval q = rnd (dval a / dval b)"
  by (auto simp: dval_ddiv dcoeff_eq_0_iff)

lemma floordiv_quotient:
  assumes "dcoeff b \<noteq> 0"
  shows "int (nat \<bar>dint (min (dexp a) (dexp b)) a\<bar> div nat \<bar>dint (min (dexp a) (dexp b)) b\<bar>)
     = \<lfloor>\<bar>dval a\<bar> / \<bar>dval b\<bar>\<rfloor>"
proof -
  define m where "m = min (dexp a) (dexp b)"
  have "\<bar>dval a\<bar> / \<bar>dval b\<bar> = of_nat (nat \<bar>dint m a\<bar>) / of_nat (nat \<bar>dint m b\<bar>)"
    unfolding dint_min [where a = a and b = b] m_def by (simp add: abs_mult)
  then show ?thesis by (simp only: m_def [symmetric] floor_divide_of_nat_eq)
qed

lemma decimal_floordiv_eq_Inr:
  assumes "0 \<le> dval a" "0 < dval b"
  shows "decimal_floordiv a b = Inr q \<longleftrightarrow>
    \<lfloor>dval a / dval b\<rfloor> < 10 ^ 28 \<and> q = Dec (dneg a \<noteq> dneg b) (nat \<lfloor>dval a / dval b\<rfloor>) 0"
proof -
  have b: "dcoeff b \<noteq> 0" using assms by (simp add: dcoeff_eq_0_iff)
  define k where "k = nat \<bar>dint (min (dexp a) (dexp b)) a\<bar> div nat \<bar>dint (min (dexp a) (dexp b)) b\<bar>"
  have k: "\<lfloor>dval a / dval b\<rfloor> = int k"
    using floordiv_quotient [OF b, of a] assms by (simp add: k_def)
  show ?thesis using b unfolding decimal_floordiv_def Let_def k_def [symmetric] k by auto
qed

lemma dval_floordiv:
  assumes "decimal_floordiv a b = Inr q" "0 \<le> dval a" "0 < dval b"
  shows "dval q = of_int \<lfloor>dval a / dval b\<rfloor>"
proof (cases "dval a = 0")
  case True
  with assms show ?thesis by (auto simp: decimal_floordiv_eq_Inr dval_def dsigned_def)
next
  case False
  with assms have "\<not> dneg a" "\<not> dneg b"
    using dneg_le [of a] dneg_le [of b] by auto
  with assms show ?thesis by (simp add: decimal_floordiv_eq_Inr dval_def dsigned_def)
qed

lemma dval_decimal_floor: "dval (decimal_floor a) = of_int \<lfloor>dval a\<rfloor>"
proof (cases "0 \<le> dexp a")
  case True
  then have "dval a = of_int (dsigned (dneg a) (int (dcoeff a) * 10 ^ nat (dexp a)))"
    by (simp add: dval_def dsigned_def ten_powi_nat)
  with True show ?thesis by (simp add: decimal_floor_def)
next
  case False
  define p :: nat where "p = 10 ^ nat (- dexp a)"
  have p: "0 < p" by (simp add: p_def)
  have "dval a = dsigned (dneg a) (of_nat (dcoeff a) / of_nat p)"
    using False by (simp add: dval_def p_def ten_powi_neg)
  then have v: "dval a = of_int (dsigned (dneg a) (int (dcoeff a))) / of_int (int p)"
    by (simp add: dsigned_def)
  have "\<lfloor>dval a\<rfloor> = dsigned (dneg a) (int (dcoeff a)) div int p"
    unfolding v by (rule floor_divide_of_int_eq)
  also have "\<dots> = dsigned (dneg a)
      (int (if dneg a \<and> dcoeff a mod p \<noteq> 0 then dcoeff a div p + 1 else dcoeff a div p))"
    using p by (auto simp: dsigned_def zdiv_zminus1_eq_if zmod_int [symmetric] zdiv_int)
  finally show ?thesis using False
    by (simp add: decimal_floor_def Let_def p_def [symmetric]) (simp add: dval_def dsigned_def)
qed

section \<open>Exact arithmetic on a grid\<close>

text \<open>
  Non-negative multiples of \<open>10 powi e\<close> up to \<open>10 ^ 28\<close> of them: the quantities an exchange or a
  database column of fixed scale delivers. Differences of such quantities are exact.
\<close>

definition grid :: "int \<Rightarrow> decimal \<Rightarrow> bool" where
  "grid e d \<longleftrightarrow> e \<le> dexp d \<and> 0 \<le> dval d \<and> dval d \<le> 10 ^ 28 * 10 powi e"

lemma grid_multiple:
  assumes "grid e d" obtains k where "dval d = of_int k * 10 powi e" "0 \<le> k" "k \<le> 10 ^ 28"
proof -
  from assms have k: "dval d = of_int (dint e d) * 10 powi e" by (simp add: grid_def dval_dint)
  with assms have "0 \<le> of_int (dint e d) * (10::rat) powi e"
    "of_int (dint e d) * 10 powi e \<le> 10 ^ 28 * (10::rat) powi e" by (simp_all add: grid_def)
  then have "0 \<le> (of_int (dint e d) :: rat)" "(of_int (dint e d) :: rat) \<le> of_int (10 ^ 28)"
    using ten_powi_pos [of e] by (auto simp: zero_le_mult_iff mult_le_cancel_right)
  then show thesis using that [OF k] by (simp only: of_int_le_iff of_int_0_le_iff)
qed

lemma grid_exact: "grid e d \<Longrightarrow> exact28 (dval d)"
  unfolding exact28_def by (metis abs_of_nonneg grid_multiple)

lemma grid_0: "e \<le> 0 \<Longrightarrow> grid e 0"
  by (simp add: grid_def zero_decimal_def)

lemma exact28_grid_diff: assumes "grid e a" "grid e b" shows "exact28 (dval a - dval b)"
proof -
  obtain k where k: "dval a = of_int k * 10 powi e" "0 \<le> k" "k \<le> 10 ^ 28"
    by (rule grid_multiple [OF assms(1)])
  obtain l where l: "dval b = of_int l * 10 powi e" "0 \<le> l" "l \<le> 10 ^ 28"
    by (rule grid_multiple [OF assms(2)])
  have "dval a - dval b = of_int (k - l) * 10 powi e" by (simp add: k l algebra_simps)
  moreover have "\<bar>k - l\<bar> \<le> 10 ^ 28" using k l by linarith
  ultimately show ?thesis unfolding exact28_def by blast
qed

lemma dval_minus_grid: "grid e a \<Longrightarrow> grid e b \<Longrightarrow> dval (a - b) = dval a - dval b"
  by (simp add: dval_minus rnd_exact exact28_grid_diff)

lemma dexp_dround: "e \<le> dexp (dround s n d k e)"
  by (simp add: dround_def Let_def)

lemma dexp_dfix: "e \<le> dexp (dfix s c e)"
  by (simp add: dfix_def dexp_dround)

lemma dexp_plus: "min (dexp a) (dexp b) \<le> dexp (a + b)"
  by (simp only: plus_decimal_def Let_def dexp_dfix)

lemma dexp_minus: "min (dexp a) (dexp b) \<le> dexp (a - b)"
  using dexp_plus [of a "Dec (\<not> dneg b) (dcoeff b) (dexp b)"] by (simp add: minus_decimal_def)

lemma dval_plus_grid:
  assumes "grid e a" "grid e b" "dval a + dval b \<le> 10 ^ 28 * 10 powi e"
  shows "dval (a + b) = dval a + dval b"
proof -
  obtain k where k: "dval a = of_int k * 10 powi e" "0 \<le> k" by (rule grid_multiple [OF assms(1)])
  obtain l where l: "dval b = of_int l * 10 powi e" "0 \<le> l" by (rule grid_multiple [OF assms(2)])
  have s: "dval a + dval b = of_int (k + l) * 10 powi e" by (simp add: k l algebra_simps)
  with assms(3) have "of_int (k + l) * (10::rat) powi e \<le> of_int (10 ^ 28) * 10 powi e" by simp
  then have "k + l \<le> 10 ^ 28" unfolding mult_le_cancel_right of_int_le_iff using ten_powi_pos [of e] by auto
  with s k l have "exact28 (dval a + dval b)" unfolding exact28_def by (intro exI [of _ "k + l"] exI [of _ e]) simp
  then show ?thesis by (simp add: dval_plus rnd_exact)
qed

lemma grid_plus:
  assumes "grid e a" "grid e b" "dval a + dval b \<le> 10 ^ 28 * 10 powi e"
  shows "grid e (a + b)"
  using assms order_trans [OF _ dexp_plus [of a b], of e] by (simp add: grid_def dval_plus_grid [OF assms])

lemma grid_minus: assumes "grid e a" "grid e b" "dval b \<le> dval a" shows "grid e (a - b)"
  using assms order_trans [OF _ dexp_minus [of a b], of e] by (simp add: grid_def dval_minus_grid [OF assms(1,2)])

lemma grid_dmin: "grid e a \<Longrightarrow> grid e b \<Longrightarrow> grid e (dmin a b)"
  by (simp add: dmin_def)

lemma grid_dmax: "grid e a \<Longrightarrow> grid e b \<Longrightarrow> grid e (dmax a b)"
  by (simp add: dmax_def)

lemma grid_nonneg: "grid e a \<Longrightarrow> 0 \<le> dval a"
  by (simp add: grid_def)

lemma dsum_grid:
  assumes "grid e a" "list_all (grid e) xs" "dval a + sum_list (map dval xs) \<le> 10 ^ 28 * 10 powi e"
  shows "dval (foldl (+) a xs) = dval a + sum_list (map dval xs)"
  using assms
proof (induction xs arbitrary: a)
  case (Cons x xs)
  have "0 \<le> sum_list (map dval xs)" using Cons.prems(2) by (induction xs) (auto simp: grid_def)
  with Cons.prems have b: "dval a + dval x \<le> 10 ^ 28 * 10 powi e" by simp
  with Cons.prems have v: "dval (a + x) = dval a + dval x" by (intro dval_plus_grid) simp_all
  from b Cons.prems have "grid e (a + x)" by (intro grid_plus) simp_all
  from Cons.IH [OF this] Cons.prems v show ?case by (simp add: add.assoc)
qed simp

lemmas decimal_exact =
  half_even.exact_r half_even.le_exact half_even.ge_exact half_even.nonneg half_even.nonpos

lemma foldl_plus_nonneg:
  "(\<forall>x \<in> set xs. 0 \<le> dval x) \<Longrightarrow> 0 \<le> dval a \<Longrightarrow> 0 \<le> dval (foldl (+) a xs)"
  by (induction xs arbitrary: a) (simp_all add: dval_plus half_even.nonneg)

lemma dsum_nonneg: "(\<And>x. x \<in> set xs \<Longrightarrow> 0 \<le> dval x) \<Longrightarrow> 0 \<le> dval (dsum xs)"
  unfolding dsum_def by (rule foldl_plus_nonneg) simp_all

text \<open>\<open>max(values, default=None)\<close> and \<open>min\<close>: the first extreme element.\<close>

fun max_decimal :: "decimal list \<Rightarrow> decimal option" where
  "max_decimal [] = None"
| "max_decimal (x # xs) = Some (foldl dmax x xs)"

fun min_decimal :: "decimal list \<Rightarrow> decimal option" where
  "min_decimal [] = None"
| "min_decimal (x # xs) = Some (foldl dmin x xs)"

lemma dval_foldl_dmax: "dval (foldl dmax x xs) = foldl max (dval x) (map dval xs)"
  by (induction xs arbitrary: x) (simp_all add: dval_dmax)

lemma dval_foldl_dmin: "dval (foldl dmin x xs) = foldl min (dval x) (map dval xs)"
  by (induction xs arbitrary: x) (simp_all add: dval_dmin)

end
