(* ===== verification/DecimalText.thy ===== *)
theory DecimalText
  imports Decimals
begin

text \<open>
  Text conversions: \<open>str\<close> of integers and decimals, \<open>format(d, "f")\<close>, the parser behind
  \<open>Decimal(text)\<close>, and the ASCII string helpers (\<open>strip\<close>, \<open>upper\<close>, digit classes) the sources
  use. Strings are lists of ASCII characters. The main result is that the parser inverts the
  printer, exponent and sign of zero included.
\<close>

section \<open>Characters and strings\<close>

definition is_digit :: "char \<Rightarrow> bool" where
  "is_digit c \<longleftrightarrow> CHR ''0'' \<le> c \<and> c \<le> CHR ''9''"

definition is_upper_alnum :: "char \<Rightarrow> bool" where
  "is_upper_alnum c \<longleftrightarrow> (CHR ''A'' \<le> c \<and> c \<le> CHR ''Z'') \<or> is_digit c"

definition is_space :: "char \<Rightarrow> bool" where
  "is_space c \<longleftrightarrow> (let n = of_char c :: nat in n = 32 \<or> (9 \<le> n \<and> n \<le> 13) \<or> (28 \<le> n \<and> n \<le> 31))"

definition py_strip :: "string \<Rightarrow> string" where
  "py_strip s = rev (dropWhile is_space (rev (dropWhile is_space s)))"

definition upper_char :: "char \<Rightarrow> char" where
  "upper_char c = (if CHR ''a'' \<le> c \<and> c \<le> CHR ''z'' then char_of (of_char c - 32 :: nat) else c)"

definition py_upper :: "string \<Rightarrow> string" where
  "py_upper s = map upper_char s"

text \<open>\<open>str.isalnum\<close> on the code points below 256.\<close>

definition alnum_code :: "nat \<Rightarrow> bool" where
  "alnum_code c \<longleftrightarrow> 48 \<le> c \<and> c \<le> 57 \<or> 65 \<le> c \<and> c \<le> 90 \<or> 97 \<le> c \<and> c \<le> 122
     \<or> c \<in> {170, 178, 179, 181, 185, 186, 188, 189, 190} \<or> 192 \<le> c \<and> c \<noteq> 215 \<and> c \<noteq> 247"

definition isalnum :: "string \<Rightarrow> bool" where
  "isalnum s \<longleftrightarrow> s \<noteq> [] \<and> list_all (\<lambda>c. alnum_code (of_char c)) s"

fun rstrip_char :: "char \<Rightarrow> string \<Rightarrow> string" where
  "rstrip_char c s = rev (dropWhile (\<lambda>x. x = c) (rev s))"

declare rstrip_char.simps [simp del]

definition digit_char :: "nat \<Rightarrow> char" where
  "digit_char n = char_of (48 + n)"

definition digit_val :: "char \<Rightarrow> nat" where
  "digit_val c = of_char c - 48"

fun show_nat :: "nat \<Rightarrow> string" where
  "show_nat n = (if n < 10 then [digit_char n] else show_nat (n div 10) @ [digit_char (n mod 10)])"

declare show_nat.simps [simp del]

definition show_int :: "int \<Rightarrow> string" where
  "show_int i = (if i < 0 then CHR ''-'' # show_nat (nat (- i)) else show_nat (nat i))"

definition nat_of_digits :: "string \<Rightarrow> nat" where
  "nat_of_digits s = foldl (\<lambda>a c. 10 * a + digit_val c) 0 s"

section \<open>Printing decimals\<close>

definition dstr :: "decimal \<Rightarrow> string" where
  "dstr d = (let i = show_nat (dcoeff d); n = int (length i); left = dexp d + n;
      dot = (if dexp d \<le> 0 \<and> - 6 < left then left else 1);
      body = (if dot \<le> 0 then ''0.'' @ replicate (nat (- dot)) CHR ''0'' @ i
              else if n \<le> dot then i @ replicate (nat (dot - n)) CHR ''0''
              else take (nat dot) i @ ''.'' @ drop (nat dot) i);
      ex = (if left = dot then ''''
            else ''E'' @ (if left < dot then show_int (left - dot) else CHR ''+'' # show_int (left - dot)))
    in (if dneg d then ''-'' else '''') @ body @ ex)"

text \<open>\<open>format(d, "f")\<close>: no exponent, all fractional digits; a zero with a positive exponent is
  rescaled to exponent 0 first.\<close>

definition format_f :: "decimal \<Rightarrow> string" where
  "format_f d = (let e = (if dcoeff d = 0 \<and> 0 < dexp d then 0 else dexp d);
      i = show_nat (dcoeff d); n = int (length i); dot = e + n
    in (if dneg d then ''-'' else '''') @
       (if dot \<le> 0 then ''0'' @ (if e = 0 then '''' else ''.'' @ replicate (nat (- dot)) CHR ''0'' @ i)
        else if n \<le> dot then i @ replicate (nat (dot - n)) CHR ''0''
        else take (nat dot) i @ ''.'' @ drop (nat dot) i))"

section \<open>Parsing decimals\<close>

text \<open>\<open>Infinite\<close> carries the sign; a quiet NaN propagates through arithmetic and raises in ordering
  comparisons, a signaling one raises in every operation.\<close>

datatype parsed = Finite decimal | Infinite bool | QuietNaN | SignalingNaN | Malformed

definition split_sign :: "string \<Rightarrow> bool \<times> string" where
  "split_sign s = (case s of [] \<Rightarrow> (False, [])
     | c # r \<Rightarrow> if c = CHR ''-'' then (True, r) else if c = CHR ''+'' then (False, r) else (False, s))"

definition parse_exponent :: "string \<Rightarrow> int option" where
  "parse_exponent s = (case s of [] \<Rightarrow> Some 0
     | c # r \<Rightarrow> if c = CHR ''E'' \<or> c = CHR ''e''
        then (case split_sign r of (neg, ds) \<Rightarrow>
          if ds \<noteq> [] \<and> list_all is_digit ds
          then Some (if neg then - int (nat_of_digits ds) else int (nat_of_digits ds)) else None)
        else None)"

definition is_special :: "string \<Rightarrow> bool" where
  "is_special s \<longleftrightarrow> (let u = py_upper s in u = ''INF'' \<or> u = ''INFINITY''
     \<or> (take 3 u = ''NAN'' \<and> list_all is_digit (drop 3 u))
     \<or> (take 4 u = ''SNAN'' \<and> list_all is_digit (drop 4 u)))"

definition special_value :: "bool \<Rightarrow> string \<Rightarrow> parsed" where
  "special_value neg s = (let u = py_upper s in
     if u = ''INF'' \<or> u = ''INFINITY'' then Infinite neg
     else if take 1 u = ''S'' then SignalingNaN else QuietNaN)"

definition parse_number :: "bool \<Rightarrow> string \<Rightarrow> parsed" where
  "parse_number neg s =
    (let ip = takeWhile is_digit s; r = dropWhile is_digit s;
       (fp, t) = (case r of [] \<Rightarrow> ([], r) | c # r' \<Rightarrow>
          if c = CHR ''.'' then (takeWhile is_digit r', dropWhile is_digit r') else ([], r))
     in if ip = [] \<and> fp = [] then Malformed
        else (case parse_exponent t of None \<Rightarrow> Malformed
          | Some e \<Rightarrow> Finite (Dec neg (nat_of_digits (ip @ fp)) (e - int (length fp)))))"

definition parse_decimal :: "string \<Rightarrow> parsed" where
  "parse_decimal s = (case split_sign (filter (\<lambda>c. c \<noteq> CHR ''_'') (py_strip s)) of
     (neg, t) \<Rightarrow> if is_special t then special_value neg t else parse_number neg t)"

section \<open>Printing and parsing natural numbers\<close>

lemma digit_char_props:
  assumes "n < 10"
  shows "is_digit (digit_char n)" "digit_val (digit_char n) = n"
    "\<not> is_space (digit_char n)" "digit_char n \<noteq> CHR ''_''" "digit_char n \<noteq> CHR ''-''"
    "digit_char n \<noteq> CHR ''+''" "digit_char n = CHR ''0'' \<longleftrightarrow> n = 0" "digit_char n \<noteq> CHR ''.''"
proof -
  have c: "of_char (digit_char n) = 48 + n" using assms by (simp add: digit_char_def)
  have ne: "of_char (digit_char n) \<noteq> (of_char d :: nat) \<Longrightarrow> digit_char n \<noteq> d" for d by auto
  show "is_digit (digit_char n)" "digit_val (digit_char n) = n" "\<not> is_space (digit_char n)"
    using assms by (simp_all add: is_digit_def digit_val_def is_space_def Let_def less_eq_char_def c)
  show "digit_char n \<noteq> CHR ''_''" "digit_char n \<noteq> CHR ''-''"
    "digit_char n \<noteq> CHR ''+''" "digit_char n \<noteq> CHR ''.''"
    using assms by (rule_tac ne; simp add: c)+
  show "digit_char n = CHR ''0'' \<longleftrightarrow> n = 0"
    using ne [of "CHR ''0''"] c char_of_char [of "CHR ''0''"]
    by (cases "n = 0") (auto simp: digit_char_def)
qed

lemma show_nat_digits: "c \<in> set (show_nat n) \<Longrightarrow> \<exists>k < 10. c = digit_char k"
proof (induction n rule: show_nat.induct)
  case (1 n)
  show ?case
  proof (cases "n < 10")
    case True
    with "1.prems" show ?thesis by (auto simp: show_nat.simps [of n])
  next
    case False
    have "n mod 10 < 10" by simp
    with False 1 show ?thesis by (auto simp: show_nat.simps [of n] simp del: mod_less_divisor)
  qed
qed

lemma show_nat_nonempty [simp]: "show_nat n \<noteq> []"
  by (subst show_nat.simps) simp

lemma length_show_nat: "length (show_nat n) = ndigits n"
  by (induction n rule: show_nat.induct) (simp add: show_nat.simps ndigits.simps)

lemma show_nat_all_digit: "list_all is_digit (show_nat n)"
  using show_nat_digits digit_char_props(1) by (fastforce simp: list_all_iff)

lemma nat_of_digits_append:
  "nat_of_digits (xs @ ys) = nat_of_digits xs * 10 ^ length ys + nat_of_digits ys"
proof (induction ys rule: rev_induct)
  case (snoc y ys)
  then show ?case unfolding append_assoc [symmetric] nat_of_digits_def
    by (simp add: algebra_simps)
qed (simp add: nat_of_digits_def)

lemma nat_of_digits_zeros [simp]: "nat_of_digits (replicate k CHR ''0'' @ s) = nat_of_digits s"
proof -
  have "nat_of_digits (replicate k CHR ''0'') = 0"
    by (induction k) (simp_all add: nat_of_digits_def digit_val_def of_char_def)
  then show ?thesis by (simp add: nat_of_digits_append)
qed

lemma nat_of_show_nat [simp]: "nat_of_digits (show_nat n) = n"
proof (induction n rule: show_nat.induct)
  case (1 n)
  show ?case
  proof (cases "n < 10")
    case True
    then show ?thesis by (simp add: show_nat.simps [of n] nat_of_digits_def digit_char_props)
  next
    case False
    then have "nat_of_digits (show_nat n) = n div 10 * 10 + nat_of_digits [digit_char (n mod 10)]"
      using 1 by (simp add: show_nat.simps [of n] nat_of_digits_append)
    then show ?thesis by (simp add: nat_of_digits_def digit_char_props)
  qed
qed

section \<open>The parser inverts the printer\<close>

definition plain_char :: "char \<Rightarrow> bool" where
  "plain_char c \<longleftrightarrow> \<not> is_space c \<and> c \<noteq> CHR ''_''"

lemma plain_show_nat: "list_all plain_char (show_nat n)"
  using show_nat_digits digit_char_props by (fastforce simp: list_all_iff plain_char_def)

lemma plain_consts [simp]:
  "plain_char (CHR ''.'')" "plain_char (CHR ''E'')" "plain_char (CHR ''+'')"
  "plain_char (CHR ''-'')" "plain_char (CHR ''0'')"
  by (simp_all add: plain_char_def is_space_def Let_def)

lemma plain_show_int: "list_all plain_char (show_int i)"
  by (simp add: show_int_def plain_show_nat)

lemma py_strip_plain: "list_all plain_char s \<Longrightarrow> py_strip s = s"
proof -
  assume "list_all plain_char s"
  then have all: "\<forall>c \<in> set s. \<not> is_space c" by (simp add: list_all_iff plain_char_def)
  then have d: "dropWhile is_space s = s" by (cases s) auto
  have "dropWhile is_space (rev s) = rev s"
    using all by (auto simp: dropWhile_eq_self_iff hd_rev)
  with d show ?thesis by (simp add: py_strip_def)
qed

lemma filter_plain: "list_all plain_char s \<Longrightarrow> filter (\<lambda>c. c \<noteq> CHR ''_'') s = s"
  by (simp add: list_all_iff plain_char_def)

lemma takeWhile_digits [simp]:
  assumes "list_all is_digit ds"
  shows "takeWhile is_digit ds = ds" "dropWhile is_digit ds = []"
    "\<not> is_digit c \<Longrightarrow> takeWhile is_digit (ds @ c # r) = ds"
    "\<not> is_digit c \<Longrightarrow> dropWhile is_digit (ds @ c # r) = c # r"
  using assms by (simp_all add: list_all_iff takeWhile_append dropWhile_append)

lemma not_digit_consts [simp]:
  "\<not> is_digit (CHR ''.'')" "\<not> is_digit (CHR ''E'')" "\<not> is_digit (CHR ''-'')" "\<not> is_digit (CHR ''+'')"
  by (simp_all add: is_digit_def less_eq_char_def)

lemma digit_0 [simp]: "is_digit (CHR ''0'')"
  by (simp add: is_digit_def less_eq_char_def)

lemma split_sign_digit: "is_digit c \<Longrightarrow> split_sign (c # r) = (False, c # r)"
  by (auto simp: split_sign_def)

lemma parse_exponent_int:
  "parse_exponent (CHR ''E'' # (if i < 0 then show_int i else CHR ''+'' # show_int i)) = Some i"
proof (cases "i < 0")
  case True
  then show ?thesis
    by (simp add: parse_exponent_def show_int_def split_sign_def show_nat_all_digit)
next
  case False
  then show ?thesis
    by (simp add: parse_exponent_def show_int_def split_sign_def show_nat_all_digit)
qed

definition exponent_text :: "int \<Rightarrow> string" where
  "exponent_text x = (if x = 0 then []
     else CHR ''E'' # (if x < 0 then show_int x else CHR ''+'' # show_int x))"

lemma parse_exponent_text: "parse_exponent (exponent_text x) = Some x"
proof (cases "x = 0")
  case True
  then show ?thesis by (simp add: exponent_text_def parse_exponent_def)
next
  case False
  then show ?thesis using parse_exponent_int [of x] by (simp add: exponent_text_def)
qed

lemma exponent_text_shape: "exponent_text x = [] \<or> (\<exists>r. exponent_text x = CHR ''E'' # r)"
  by (simp add: exponent_text_def)

lemma plain_exponent_text: "list_all plain_char (exponent_text x)"
  by (simp add: exponent_text_def plain_show_int)

lemma digits_exponent_text:
  assumes "list_all is_digit ds"
  shows "takeWhile is_digit (ds @ exponent_text x) = ds"
    "dropWhile is_digit (ds @ exponent_text x) = exponent_text x"
  using assms exponent_text_shape [of x] by auto

lemma parse_number_point:
  assumes "list_all is_digit ip" "ip \<noteq> []" "list_all is_digit fp"
  shows "parse_number neg (ip @ CHR ''.'' # fp @ exponent_text x) =
    Finite (Dec neg (nat_of_digits (ip @ fp)) (x - int (length fp)))"
  using assms by (simp add: parse_number_def parse_exponent_text digits_exponent_text)

lemma parse_number_int:
  assumes "list_all is_digit ip" "ip \<noteq> []"
  shows "parse_number neg (ip @ exponent_text x) = Finite (Dec neg (nat_of_digits ip) x)"
  using assms exponent_text_shape [of x] parse_exponent_text [of x]
  by (auto simp: parse_number_def)

lemma parse_decimal_digits:
  assumes "is_digit c" "list_all plain_char (c # r)"
  shows "parse_decimal (c # r) = parse_number False (c # r)"
    "parse_decimal (CHR ''-'' # c # r) = parse_number True (c # r)"
proof -
  have "\<not> is_special (c # r)"
    using assms(1) by (auto simp: is_special_def Let_def py_upper_def upper_char_def is_digit_def
        less_eq_char_def split: if_splits)
  with assms show "parse_decimal (c # r) = parse_number False (c # r)"
    by (simp only: parse_decimal_def py_strip_plain filter_plain split_sign_digit) simp
  have "list_all plain_char (CHR ''-'' # c # r)" using assms(2) by simp
  with \<open>\<not> is_special (c # r)\<close> show "parse_decimal (CHR ''-'' # c # r) = parse_number True (c # r)"
    by (simp only: parse_decimal_def py_strip_plain filter_plain) (simp add: split_sign_def)
qed

text \<open>The printed form, with the sign and the exponent separated.\<close>

definition body_text :: "decimal \<Rightarrow> string" where
  "body_text d = (let i = show_nat (dcoeff d); n = int (length i); left = dexp d + n;
      dot = (if dexp d \<le> 0 \<and> - 6 < left then left else 1) in
    (if dot \<le> 0 then ''0.'' @ replicate (nat (- dot)) CHR ''0'' @ i
     else if n \<le> dot then i @ replicate (nat (dot - n)) CHR ''0''
     else take (nat dot) i @ ''.'' @ drop (nat dot) i) @ exponent_text (left - dot))"

lemma dstr_body: "dstr d = (if dneg d then ''-'' else []) @ body_text d"
  by (simp add: dstr_def body_text_def exponent_text_def Let_def)

lemma parse_body:
  "parse_number neg (body_text d) = Finite (Dec neg (dcoeff d) (dexp d))
   \<and> (\<exists>c r. body_text d = c # r \<and> is_digit c) \<and> list_all plain_char (body_text d)"
proof -
  define i where "i = show_nat (dcoeff d)"
  define n where "n = int (length i)"
  define left where "left = dexp d + n"
  define dot where "dot = (if dexp d \<le> 0 \<and> - 6 < left then left else 1)"
  have i: "list_all is_digit i" "i \<noteq> []" "nat_of_digits i = dcoeff d" "list_all plain_char i"
    by (simp_all add: i_def show_nat_all_digit plain_show_nat)
  have n: "0 < n" using i(2) by (simp add: n_def)
  have head: "\<exists>c r. i = c # r \<and> is_digit c" using i by (cases i) auto
  have body: "body_text d =
    (if dot \<le> 0 then ''0.'' @ replicate (nat (- dot)) CHR ''0'' @ i
     else if n \<le> dot then i @ replicate (nat (dot - n)) CHR ''0''
     else take (nat dot) i @ ''.'' @ drop (nat dot) i) @ exponent_text (left - dot)"
    unfolding body_text_def Let_def i_def [symmetric] n_def [symmetric] left_def [symmetric]
      dot_def [symmetric] by simp
  have zeros: "list_all is_digit (replicate k CHR ''0'' @ i)"
    "list_all plain_char (replicate k CHR ''0'' @ i)" for k
    using i by (auto simp: list_all_iff)
  consider (small) "dot \<le> 0" | (whole) "0 < dot" "n \<le> dot" | (mid) "0 < dot" "dot < n" by linarith
  then show ?thesis
  proof cases
    case small
    then have "dot = left" by (simp add: dot_def split: if_splits)
    then have len: "int (length (replicate (nat (- dot)) CHR ''0'' @ i)) = - dexp d"
      using small by (simp add: n_def left_def)
    have "body_text d = ''0'' @ CHR ''.'' # (replicate (nat (- dot)) CHR ''0'' @ i) @ exponent_text 0"
      using small \<open>dot = left\<close> by (simp add: body)
    then show ?thesis
      using parse_number_point [of "''0''" "replicate (nat (- dot)) CHR ''0'' @ i" neg 0] zeros len i
        nat_of_digits_zeros [of 1 "replicate (nat (- dot)) CHR ''0'' @ i"]
      by (simp add: plain_exponent_text)
  next
    case whole
    then have dn: "dot = n" using n by (auto simp: dot_def left_def split: if_splits)
    then have "left - dot = dexp d" by (simp add: left_def)
    then have "body_text d = i @ exponent_text (dexp d)" using whole dn by (simp add: body)
    then show ?thesis using parse_number_int [OF i(1,2), of neg "dexp d"] i head
      by (auto simp: plain_exponent_text)
  next
    case mid
    have digs: "list_all is_digit (take (nat dot) i)" "list_all is_digit (drop (nat dot) i)"
      "list_all plain_char (take (nat dot) i)" "list_all plain_char (drop (nat dot) i)"
      using i by (auto simp: list_all_iff dest: in_set_takeD in_set_dropD)
    have ne: "take (nat dot) i \<noteq> []" using mid i by simp
    have ex: "left - dot - int (length (drop (nat dot) i)) = dexp d"
      using mid by (simp add: left_def n_def of_nat_diff)
    have b: "body_text d = take (nat dot) i @ CHR ''.'' # drop (nat dot) i @ exponent_text (left - dot)"
      using mid by (simp add: body)
    have hd: "\<exists>c r. body_text d = c # r \<and> is_digit c"
      using ne digs(1) unfolding b by (cases "take (nat dot) i") auto
    have "parse_number neg (body_text d) =
        Finite (Dec neg (nat_of_digits (take (nat dot) i @ drop (nat dot) i)) (dexp d))"
      unfolding b using parse_number_point [OF digs(1) ne digs(2), of neg "left - dot"] ex by simp
    moreover have "list_all plain_char (body_text d)"
      unfolding b using digs by (simp add: plain_exponent_text)
    ultimately show ?thesis using hd i(3) by simp
  qed
qed

lemma parse_dstr: "parse_decimal (dstr d) = Finite d"
proof -
  obtain c r where b: "body_text d = c # r" "is_digit c" "list_all plain_char (c # r)"
    using parse_body [of _ d] by metis
  show ?thesis
  proof (cases "dneg d")
    case True
    then have "parse_decimal (dstr d) = parse_number True (c # r)"
      using parse_decimal_digits(2) [OF b(2,3)] by (simp add: dstr_body b(1))
    also have "\<dots> = Finite (Dec True (dcoeff d) (dexp d))" using parse_body [of True d] b(1) by simp
    finally show ?thesis using True by (cases d) simp
  next
    case False
    then have "parse_decimal (dstr d) = parse_number False (c # r)"
      using parse_decimal_digits(1) [OF b(2,3)] by (simp add: dstr_body b(1))
    also have "\<dots> = Finite (Dec False (dcoeff d) (dexp d))" using parse_body [of False d] b(1) by simp
    finally show ?thesis using False by (cases d) simp
  qed
qed

corollary dstr_inject: "dstr a = dstr b \<longleftrightarrow> a = b"
  using parse_dstr by (metis parsed.inject)

end
