(* ===== verification/Digest.thy ===== *)
theory Digest
  imports DecimalText "HOL-Library.Word"
begin

unbundle bit_operations_syntax

text \<open>
  JSON documents, their canonical serialization \<open>json.dumps(..., sort_keys=True,
  separators=(",", ":"))\<close>, and \<open>hashlib.sha256(...).hexdigest()\<close>, as the identity keys of the
  copy-trading models use them. A JSON float is represented by its Python \<open>repr\<close> text, which is
  the only thing the program reads of it.
\<close>

section \<open>JSON documents\<close>

datatype json =
    JNull
  | JBool bool
  | JInt int
  | JFloat string
  | JStr string
  | JArr "json list"
  | JObj "(string \<times> json) list"

type_synonym document = "(string \<times> json) list"

text \<open>\<open>document.get(key)\<close>: a missing key and a JSON null both give \<open>None\<close>.\<close>

definition doc_get :: "document \<Rightarrow> string \<Rightarrow> json" where
  "doc_get d k = (case map_of d k of None \<Rightarrow> JNull | Some v \<Rightarrow> v)"

text \<open>\<open>v in texts\<close> for a set of texts: a list or an object cannot be hashed.\<close>

definition in_texts :: "json \<Rightarrow> string set \<Rightarrow> bool result" where
  "in_texts v texts = (case v of JStr s \<Rightarrow> Inr (s \<in> texts)
     | JArr _ \<Rightarrow> Inl (TypeError ''unhashable type: list'') | JObj _ \<Rightarrow> Inl (TypeError ''unhashable type: dict'')
     | _ \<Rightarrow> Inr False)"

section \<open>Canonical serialization\<close>

text \<open>
  The flag is \<open>ensure_ascii\<close>: with it set, characters above \<open>~\<close> are escaped, otherwise they are
  copied. Documents that carry text beyond ASCII are serialized with the flag off only, and
  their strings are then UTF-8 bytes.
\<close>

definition hex_digit :: "nat \<Rightarrow> char" where
  "hex_digit n = (if n < 10 then char_of (48 + n) else char_of (87 + n))"

definition json_char :: "bool \<Rightarrow> char \<Rightarrow> string" where
  "json_char ea c = (let n = of_char c :: nat in
     if n = 34 then [CHR 0x5C, CHR 0x22] else if n = 92 then [CHR 0x5C, CHR 0x5C]
     else if n = 10 then [CHR 0x5C, CHR ''n''] else if n = 13 then [CHR 0x5C, CHR ''r'']
     else if n = 9 then [CHR 0x5C, CHR ''t''] else if n = 12 then [CHR 0x5C, CHR ''f'']
     else if n = 8 then [CHR 0x5C, CHR ''b'']
     else if n < 32 \<or> (ea \<and> 126 < n) then [CHR 0x5C, CHR ''u'', CHR ''0'', CHR ''0'', hex_digit (n div 16), hex_digit (n mod 16)]
     else [c])"

definition json_string :: "bool \<Rightarrow> string \<Rightarrow> string" where
  "json_string ea s = [CHR 0x22] @ concat (map (json_char ea) s) @ [CHR 0x22]"

fun join :: "string \<Rightarrow> string list \<Rightarrow> string" where
  "join sep [] = []"
| "join sep [x] = x"
| "join sep (x # xs) = x @ sep @ join sep xs"

fun json_dumps :: "bool \<Rightarrow> json \<Rightarrow> string" where
  "json_dumps ea JNull = ''null''"
| "json_dumps ea (JBool b) = (if b then ''true'' else ''false'')"
| "json_dumps ea (JInt i) = show_int i"
| "json_dumps ea (JFloat r) = r"
| "json_dumps ea (JStr s) = json_string ea s"
| "json_dumps ea (JArr xs) = ''['' @ join '','' (map (json_dumps ea) xs) @ '']''"
| "json_dumps ea (JObj kvs) = ''{'' @ join '',''
     (map (\<lambda>kv. json_string ea (fst kv) @ '':'' @ snd kv)
       (sort_key fst (map (\<lambda>kv. (fst kv, json_dumps ea (snd kv))) kvs))) @ ''}''"

section \<open>SHA-256\<close>

type_synonym w32 = "32 word"

definition sha_k :: "w32 list" where
  "sha_k = [1116352408, 1899447441, 3049323471, 3921009573, 961987163, 1508970993, 2453635748,
    2870763221, 3624381080, 310598401, 607225278, 1426881987, 1925078388, 2162078206, 2614888103,
    3248222580, 3835390401, 4022224774, 264347078, 604807628, 770255983, 1249150122, 1555081692,
    1996064986, 2554220882, 2821834349, 2952996808, 3210313671, 3336571891, 3584528711, 113926993,
    338241895, 666307205, 773529912, 1294757372, 1396182291, 1695183700, 1986661051, 2177026350,
    2456956037, 2730485921, 2820302411, 3259730800, 3345764771, 3516065817, 3600352804, 4094571909,
    275423344, 430227734, 506948616, 659060556, 883997877, 958139571, 1322822218, 1537002063,
    1747873779, 1955562222, 2024104815, 2227730452, 2361852424, 2428436474, 2756734187, 3204031479,
    3329325298]"

definition sha_h0 :: "w32 list" where
  "sha_h0 = [1779033703, 3144134277, 1013904242, 2773480762, 1359893119, 2600822924, 528734635,
    1541459225]"

definition sigma0 :: "w32 \<Rightarrow> w32" where
  "sigma0 x = word_rotr 7 x XOR word_rotr 18 x XOR drop_bit 3 x"

definition sigma1 :: "w32 \<Rightarrow> w32" where
  "sigma1 x = word_rotr 17 x XOR word_rotr 19 x XOR drop_bit 10 x"

definition Sigma0 :: "w32 \<Rightarrow> w32" where
  "Sigma0 x = word_rotr 2 x XOR word_rotr 13 x XOR word_rotr 22 x"

definition Sigma1 :: "w32 \<Rightarrow> w32" where
  "Sigma1 x = word_rotr 6 x XOR word_rotr 11 x XOR word_rotr 25 x"

fun sha_schedule :: "nat \<Rightarrow> w32 list \<Rightarrow> w32 list" where
  "sha_schedule 0 w = w"
| "sha_schedule (Suc n) w = (let t = length w in
     sha_schedule n (w @ [sigma1 (w ! (t - 2)) + w ! (t - 7) + sigma0 (w ! (t - 15)) + w ! (t - 16)]))"

fun sha_round :: "w32 list \<Rightarrow> w32 \<times> w32 \<Rightarrow> w32 list" where
  "sha_round [a, b, c, d, e, f, g, h] (k, w) =
    (let t1 = h + Sigma1 e + ((e AND f) XOR (NOT e AND g)) + k + w;
         t2 = Sigma0 a + ((a AND b) XOR (a AND c) XOR (b AND c))
     in [t1 + t2, a, b, c, d + t1, e, f, g])"
| "sha_round st kw = st"

definition word_of_bytes :: "nat list \<Rightarrow> w32" where
  "word_of_bytes bs = of_nat (foldl (\<lambda>a b. 256 * a + b) 0 bs)"

function chunks :: "nat \<Rightarrow> 'a list \<Rightarrow> 'a list list" where
  "chunks n xs = (if xs = [] \<or> n = 0 then [] else take n xs # chunks n (drop n xs))"
  by pat_completeness auto
termination
  by (relation "measure (\<lambda>(n, xs). length xs)") auto

declare chunks.simps [simp del]

definition sha_block :: "w32 list \<Rightarrow> nat list \<Rightarrow> w32 list" where
  "sha_block h blk = (let w = sha_schedule 48 (map word_of_bytes (chunks 4 blk))
     in map2 (+) h (foldl sha_round h (zip sha_k w)))"

definition sha_pad :: "nat list \<Rightarrow> nat list" where
  "sha_pad m = (let n = length m in m @ [128] @ replicate ((119 - n mod 64) mod 64) 0
     @ map (\<lambda>i. (8 * n) div 256 ^ (7 - i) mod 256) [0..<8])"

definition hex_word :: "w32 \<Rightarrow> string" where
  "hex_word w = map (\<lambda>i. hex_digit (unat w div 16 ^ (7 - i) mod 16)) [0..<8]"

definition sha256_hex :: "string \<Rightarrow> string" where
  "sha256_hex s = concat (map hex_word
     (foldl sha_block sha_h0 (chunks 64 (sha_pad (map of_char s)))))"

definition digest :: "document \<Rightarrow> string" where
  "digest d = sha256_hex (json_dumps True (JObj d))"

section \<open>Shape of a digest\<close>

definition is_hex :: "char \<Rightarrow> bool" where
  "is_hex c \<longleftrightarrow> c \<in> set ''0123456789abcdef''"

definition sha256_text :: "string \<Rightarrow> bool" where
  "sha256_text s \<longleftrightarrow> length s = 64 \<and> list_all is_hex s"

lemma hex_digit_is_hex: assumes "n < 16" shows "is_hex (hex_digit n)"
proof -
  from assms have "n \<in> set [0..<16]" by simp
  moreover have "list_all (\<lambda>n. is_hex (hex_digit n)) [0..<16]" by code_simp
  ultimately show ?thesis by (simp add: list_all_iff)
qed

lemma hex_word_hex: "length (hex_word w) = 8" "list_all is_hex (hex_word w)"
  by (simp_all add: hex_word_def list_all_iff hex_digit_is_hex)

lemma length_sha_round: "length (sha_round st kw) = length st"
  by (induction st kw rule: sha_round.induct) (simp_all add: Let_def)

lemma length_sha_rounds: "length (foldl sha_round st kws) = length st"
  by (induction kws arbitrary: st) (simp_all add: length_sha_round)

lemma length_sha_block: "length (sha_block h b) = length h"
  by (simp add: sha_block_def Let_def length_sha_rounds)

lemma length_sha_blocks: "length (foldl sha_block h bs) = length h"
  by (induction bs arbitrary: h) (simp_all add: length_sha_block)

lemma hex_words: "length (concat (map hex_word ws)) = 8 * length ws"
  "list_all is_hex (concat (map hex_word ws))"
  by (induction ws) (simp_all add: hex_word_hex)

lemma sha256_hex_text: "sha256_text (sha256_hex s)"
  by (simp add: sha256_text_def sha256_hex_def hex_words length_sha_blocks sha_h0_def)

lemma digest_text [simp]: "sha256_text (digest d)"
  by (simp add: digest_def sha256_hex_text)

lemma digest_nonempty [simp]: "digest d \<noteq> []"
  using digest_text [of d] by (auto simp: sha256_text_def)

end
