(* ===== verification/Models.thy ===== *)
theory Models
  imports Digest
begin

text \<open>
  \<open>copy_trading/models.py\<close>: the enumerations, the leader snapshot, the public leader order and
  the normalized signal, their parsers from API documents and their identity digests. The
  parsers raise in the order in which the source evaluates its fields.
\<close>

section \<open>Enumerations\<close>

datatype leader_lifecycle = CANDIDATE | OBSERVE_ONLY | ACTIVE | DRAINING | RETIRED

datatype position_side = LONG | SHORT

datatype source_position_side = SRC_LONG | SRC_SHORT | SRC_BOTH

datatype order_side = BUY | SELL

datatype signal_kind = INCREASE | REDUCE

datatype runtime_control_state = RUNNING | PAUSED_NEW_ENTRIES | REDUCE_ALL

fun position_side_value :: "position_side \<Rightarrow> string" where
  "position_side_value LONG = ''LONG''"
| "position_side_value SHORT = ''SHORT''"

fun source_side_value :: "source_position_side \<Rightarrow> string" where
  "source_side_value SRC_LONG = ''LONG''"
| "source_side_value SRC_SHORT = ''SHORT''"
| "source_side_value SRC_BOTH = ''BOTH''"

fun order_side_value :: "order_side \<Rightarrow> string" where
  "order_side_value BUY = ''BUY''"
| "order_side_value SELL = ''SELL''"

fun control_state_value :: "runtime_control_state \<Rightarrow> string" where
  "control_state_value RUNNING = ''RUNNING''"
| "control_state_value PAUSED_NEW_ENTRIES = ''PAUSED_NEW_ENTRIES''"
| "control_state_value REDUCE_ALL = ''REDUCE_ALL''"

definition source_side_of :: "string \<Rightarrow> source_position_side result" where
  "source_side_of s = (if s = ''LONG'' then Inr SRC_LONG else if s = ''SHORT'' then Inr SRC_SHORT
     else if s = ''BOTH'' then Inr SRC_BOTH else Inl (ValueError s))"

definition order_side_of :: "string \<Rightarrow> order_side result" where
  "order_side_of s = (if s = ''BUY'' then Inr BUY else if s = ''SELL'' then Inr SELL
     else Inl (ValueError s))"

definition position_side_of :: "string \<Rightarrow> position_side result" where
  "position_side_of s = (if s = ''LONG'' then Inr LONG else if s = ''SHORT'' then Inr SHORT
     else Inl (ValueError s))"

section \<open>Field parsers\<close>

definition leader_id_ok :: "string \<Rightarrow> bool" where
  "leader_id_ok s \<longleftrightarrow> 10 \<le> length s \<and> length s \<le> 24 \<and> list_all is_digit s"

definition symbol_ok :: "string \<Rightarrow> bool" where
  "symbol_ok s \<longleftrightarrow> 3 \<le> length s \<and> length s \<le> 24 \<and> list_all is_upper_alnum s"

definition order_type_ok :: "string \<Rightarrow> bool" where
  "order_type_ok s \<longleftrightarrow> 2 \<le> length s \<and> length s \<le> 32
     \<and> list_all (\<lambda>c. (CHR ''A'' \<le> c \<and> c \<le> CHR ''Z'') \<or> c = CHR ''_'') s"

definition field_error :: "string \<Rightarrow> exn" where
  "field_error key = PublicCopyDataError (''COPY_FIELD_'' @ py_upper key @ ''_INVALID'')"

definition required_string :: "document \<Rightarrow> string \<Rightarrow> string result" where
  "required_string d key = (case doc_get d key of
     JStr v \<Rightarrow> if v = [] \<or> v \<noteq> py_strip v then Inl (field_error key) else Inr v
   | _ \<Rightarrow> Inl (field_error key))"

text \<open>
  \<open>Decimal(str(value))\<close> for a JSON value: the text of a list or an object starts with a
  bracket and never parses as a number.
\<close>

definition json_decimal :: "json \<Rightarrow> parsed" where
  "json_decimal v = (case v of JStr s \<Rightarrow> parse_decimal s | JInt i \<Rightarrow> parse_decimal (show_int i)
     | JFloat r \<Rightarrow> parse_decimal r | _ \<Rightarrow> Malformed)"

definition decimal_field :: "json \<Rightarrow> string \<Rightarrow> decimal result" where
  "decimal_field v key = (case v of JBool _ \<Rightarrow> Inl (field_error key) | JNull \<Rightarrow> Inl (field_error key)
     | _ \<Rightarrow> (case json_decimal v of Finite x \<Rightarrow> Inr x | _ \<Rightarrow> Inl (field_error key)))"

definition positive_decimal :: "json \<Rightarrow> string \<Rightarrow> decimal result" where
  "positive_decimal v key = rbind (decimal_field v key)
     (\<lambda>x. if x \<le> 0 then Inl (field_error key) else Inr x)"

definition nonnegative_decimal :: "json \<Rightarrow> string \<Rightarrow> decimal result" where
  "nonnegative_decimal v key = rbind (decimal_field v key)
     (\<lambda>x. if x < 0 then Inl (field_error key) else Inr x)"

definition bounded_percent :: "json \<Rightarrow> string \<Rightarrow> decimal result" where
  "bounded_percent v key = rbind (nonnegative_decimal v key)
     (\<lambda>x. if dec 100 < x then Inl (field_error key) else Inr x)"

definition positive_integer :: "json \<Rightarrow> string \<Rightarrow> int result" where
  "positive_integer v key = (case v of JInt i \<Rightarrow> if i \<le> 0 then Inl (field_error key) else Inr i
     | _ \<Rightarrow> Inl (field_error key))"

definition nonnegative_integer :: "json \<Rightarrow> string \<Rightarrow> int result" where
  "nonnegative_integer v key = (case v of JInt i \<Rightarrow> if i < 0 then Inl (field_error key) else Inr i
     | _ \<Rightarrow> Inl (field_error key))"

text \<open>A parsed JSON document always serializes, so the hash of the payload never raises.\<close>

definition payload_hash :: "document \<Rightarrow> string" where
  "payload_hash d = sha256_hex (json_dumps False (JObj d))"

section \<open>Leader snapshots\<close>

record leader_snapshot =
  ls_lead_portfolio_id :: string
  ls_nickname :: string
  ls_roi_pct :: decimal
  ls_pnl_usdt :: decimal
  ls_aum_usdt :: decimal
  ls_maximum_drawdown_pct :: decimal
  ls_win_rate_pct :: decimal
  ls_current_copy_count :: int
  ls_maximum_copy_count :: int
  ls_start_time_ms :: int
  ls_portfolio_type :: string
  ls_sharp_ratio :: "decimal option"
  ls_raw_payload_hash :: string

definition leader_snapshot_from_api :: "document \<Rightarrow> leader_snapshot result" where
  "leader_snapshot_from_api d =
    rbind (required_string d ''leadPortfolioId'') (\<lambda>leader_id.
    rbind (require (leader_id_ok leader_id) (PublicCopyDataError ''COPY_LEADER_ID_INVALID'')) (\<lambda>_.
    rbind (required_string d ''nickname'') (\<lambda>nickname.
    rbind (require (\<not> 200 < length nickname) (PublicCopyDataError ''COPY_LEADER_NICKNAME_INVALID'')) (\<lambda>_.
    rbind (required_string d ''portfolioType'') (\<lambda>portfolio_type.
    rbind (case doc_get d ''sharpRatio'' of JNull \<Rightarrow> Inr None
           | v \<Rightarrow> rbind (decimal_field v ''sharpRatio'') (\<lambda>x. Inr (Some x))) (\<lambda>sharp.
    rbind (decimal_field (doc_get d ''roi'') ''roi'') (\<lambda>roi.
    rbind (decimal_field (doc_get d ''pnl'') ''pnl'') (\<lambda>pnl.
    rbind (nonnegative_decimal (doc_get d ''aum'') ''aum'') (\<lambda>aum.
    rbind (bounded_percent (doc_get d ''mdd'') ''mdd'') (\<lambda>mdd.
    rbind (bounded_percent (doc_get d ''winRate'') ''winRate'') (\<lambda>win.
    rbind (nonnegative_integer (doc_get d ''currentCopyCount'') ''currentCopyCount'') (\<lambda>current_count.
    rbind (nonnegative_integer (doc_get d ''maxCopyCount'') ''maxCopyCount'') (\<lambda>maximum_count.
    rbind (positive_integer (doc_get d ''startTime'') ''startTime'') (\<lambda>start.
    Inr \<lparr>ls_lead_portfolio_id = leader_id, ls_nickname = nickname, ls_roi_pct = roi,
      ls_pnl_usdt = pnl, ls_aum_usdt = aum, ls_maximum_drawdown_pct = mdd, ls_win_rate_pct = win,
      ls_current_copy_count = current_count, ls_maximum_copy_count = maximum_count,
      ls_start_time_ms = start, ls_portfolio_type = portfolio_type, ls_sharp_ratio = sharp,
      ls_raw_payload_hash = payload_hash d\<rparr>))))))))))))))"

section \<open>Public leader orders\<close>

record public_leader_order =
  po_lead_portfolio_id :: string
  po_symbol :: string
  po_position_side :: source_position_side
  po_order_side :: order_side
  po_order_type :: string
  po_executed_quantity :: decimal
  po_average_price :: decimal
  po_total_pnl :: decimal
  po_order_time_ms :: int
  po_update_time_ms :: int
  po_identity_key :: string
  po_event_key :: string
  po_raw_payload_hash :: string

definition order_identity_key ::
  "string \<Rightarrow> int \<Rightarrow> string \<Rightarrow> source_position_side \<Rightarrow> order_side \<Rightarrow> string \<Rightarrow> string" where
  "order_identity_key leader t ty pside side symbol = digest
    [(''lead_portfolio_id'', JStr leader), (''order_time_ms'', JInt t), (''order_type'', JStr ty),
     (''position_side'', JStr (source_side_value pside)), (''side'', JStr (order_side_value side)),
     (''symbol'', JStr symbol)]"

definition order_event_key :: "decimal \<Rightarrow> decimal \<Rightarrow> string \<Rightarrow> decimal \<Rightarrow> int \<Rightarrow> string" where
  "order_event_key price quantity identity pnl t = digest
    [(''average_price'', JStr (dstr price)), (''executed_quantity'', JStr (dstr quantity)),
     (''identity_key'', JStr identity), (''total_pnl'', JStr (dstr pnl)),
     (''update_time_ms'', JInt t)]"

definition discriminator_ok :: "string \<Rightarrow> bool" where
  "discriminator_ok s \<longleftrightarrow> 3 \<le> length s \<and> length s \<le> 96
     \<and> list_all (\<lambda>c. is_upper_alnum c \<or> c \<in> set ''_.:-'') s"

definition with_identity_discriminator ::
  "public_leader_order \<Rightarrow> string \<Rightarrow> public_leader_order result" where
  "with_identity_discriminator o0 discriminator =
    rbind (require (discriminator_ok discriminator)
      (PublicCopyDataError ''COPY_ORDER_IDENTITY_DISCRIMINATOR_INVALID'')) (\<lambda>_.
    let identity = digest [(''discriminator'', JStr discriminator),
          (''source_identity_key'', JStr (po_identity_key o0))]
    in Inr (o0\<lparr>po_identity_key := identity,
      po_event_key := order_event_key (po_average_price o0) (po_executed_quantity o0) identity
        (po_total_pnl o0) (po_update_time_ms o0)\<rparr>))"

definition resolve_position_side ::
  "public_leader_order \<Rightarrow> source_position_side \<Rightarrow> decimal option \<Rightarrow> decimal option
     \<Rightarrow> public_leader_order result" where
  "resolve_position_side o0 side executed_quantity total_pnl =
    rbind (require (po_position_side o0 = SRC_BOTH)
      (PublicCopyDataError ''COPY_ORDER_POSITION_SIDE_ALREADY_EXPLICIT'')) (\<lambda>_.
    rbind (require (side \<noteq> SRC_BOTH)
      (PublicCopyDataError ''COPY_ORDER_POSITION_SIDE_UNRESOLVED'')) (\<lambda>_.
    let quantity = (case executed_quantity of None \<Rightarrow> po_executed_quantity o0 | Some q \<Rightarrow> q);
        pnl = (case total_pnl of None \<Rightarrow> po_total_pnl o0 | Some p \<Rightarrow> p)
    in rbind (require (\<not> quantity \<le> 0)
      (PublicCopyDataError ''COPY_ORDER_RESOLVED_QUANTITY_INVALID'')) (\<lambda>_.
    let identity = order_identity_key (po_lead_portfolio_id o0) (po_order_time_ms o0)
          (po_order_type o0) side (po_order_side o0) (po_symbol o0)
    in Inr (o0\<lparr>po_position_side := side, po_executed_quantity := quantity, po_total_pnl := pnl,
      po_identity_key := identity,
      po_event_key := order_event_key (po_average_price o0) quantity identity pnl
        (po_update_time_ms o0)\<rparr>))))"

definition side_error :: "'a result \<Rightarrow> 'a result" where
  "side_error m = (case m of Inl e \<Rightarrow> Inl (if is_value_error e
      then PublicCopyDataError ''COPY_ORDER_SIDE_INVALID'' else e) | Inr x \<Rightarrow> Inr x)"

definition order_from_api :: "string \<Rightarrow> document \<Rightarrow> public_leader_order result" where
  "order_from_api leader d =
    rbind (require (leader_id_ok leader) (PublicCopyDataError ''COPY_LEADER_ID_INVALID'')) (\<lambda>_.
    rbind (required_string d ''symbol'') (\<lambda>symbol.
    rbind (require (symbol_ok symbol) (PublicCopyDataError ''COPY_ORDER_SYMBOL_INVALID'')) (\<lambda>_.
    rbind (side_error (rbind (required_string d ''positionSide'') source_side_of)) (\<lambda>position_side.
    rbind (side_error (rbind (required_string d ''side'') order_side_of)) (\<lambda>order_side.
    rbind (required_string d ''type'') (\<lambda>order_type.
    rbind (require (order_type_ok order_type) (PublicCopyDataError ''COPY_ORDER_TYPE_INVALID'')) (\<lambda>_.
    rbind (positive_decimal (doc_get d ''executedQty'') ''executedQty'') (\<lambda>quantity.
    rbind (positive_decimal (doc_get d ''avgPrice'') ''avgPrice'') (\<lambda>average_price.
    rbind (decimal_field (doc_get d ''totalPnl'') ''totalPnl'') (\<lambda>total_pnl.
    rbind (positive_integer (doc_get d ''orderTime'') ''orderTime'') (\<lambda>order_time_ms.
    rbind (positive_integer (doc_get d ''orderUpdateTime'') ''orderUpdateTime'') (\<lambda>update_time_ms.
    rbind (require (\<not> update_time_ms < order_time_ms)
      (PublicCopyDataError ''COPY_ORDER_TIME_INVALID'')) (\<lambda>_.
    let identity = order_identity_key leader order_time_ms order_type position_side order_side symbol
    in Inr \<lparr>po_lead_portfolio_id = leader, po_symbol = symbol, po_position_side = position_side,
      po_order_side = order_side, po_order_type = order_type, po_executed_quantity = quantity,
      po_average_price = average_price, po_total_pnl = total_pnl,
      po_order_time_ms = order_time_ms, po_update_time_ms = update_time_ms,
      po_identity_key = identity,
      po_event_key = order_event_key average_price quantity identity total_pnl update_time_ms,
      po_raw_payload_hash = payload_hash d\<rparr>)))))))))))))"

section \<open>Normalized signals\<close>

record normalized_signal =
  sg_signal_id :: string
  sg_source_event_key :: string
  sg_source_identity_key :: string
  sg_lead_portfolio_id :: string
  sg_symbol :: string
  sg_position_side :: position_side
  sg_kind :: signal_kind
  sg_source_delta_quantity :: decimal
  sg_source_cumulative_quantity :: decimal
  sg_reference_price :: decimal
  sg_occurred_at_ms :: int

definition is_increase :: "source_position_side \<Rightarrow> order_side \<Rightarrow> bool" where
  "is_increase pside side \<longleftrightarrow> (pside, side) \<in> {(SRC_LONG, BUY), (SRC_SHORT, SELL)}"

definition signal_from_order :: "public_leader_order \<Rightarrow> decimal \<Rightarrow> normalized_signal result" where
  "signal_from_order o0 delta =
    (if delta \<le> 0 \<or> po_executed_quantity o0 < delta
     then Inl (PublicCopyDataError ''COPY_SIGNAL_DELTA_INVALID'')
     else if po_position_side o0 = SRC_BOTH
     then Inl (PublicCopyDataError ''COPY_SIGNAL_POSITION_SIDE_AMBIGUOUS'')
     else rbind (position_side_of (source_side_value (po_position_side o0))) (\<lambda>pside.
       Inr \<lparr>sg_signal_id = digest [(''delta_quantity'', JStr (dstr delta)),
              (''source_event_key'', JStr (po_event_key o0))],
         sg_source_event_key = po_event_key o0, sg_source_identity_key = po_identity_key o0,
         sg_lead_portfolio_id = po_lead_portfolio_id o0, sg_symbol = po_symbol o0,
         sg_position_side = pside,
         sg_kind = (if is_increase (po_position_side o0) (po_order_side o0) then INCREASE else REDUCE),
         sg_source_delta_quantity = delta,
         sg_source_cumulative_quantity = po_executed_quantity o0,
         sg_reference_price = po_average_price o0, sg_occurred_at_ms = po_update_time_ms o0\<rparr>))"

end
