(* ===== verification/Normalization.thy ===== *)
theory Normalization
  imports Models "HOL-Library.Multiset"
begin

text \<open>
  \<open>copy_trading/normalization.py\<close>: the per-leader order tracker. It turns cumulative fills into
  fill deltas, establishes a baseline on first use and never replays an event.
\<close>

section \<open>State\<close>

record watermark_state =
  ws_primed :: bool
  ws_maximum_update_time_ms :: int
  ws_executed_quantities :: "(string \<times> string) list"
  ws_seen_event_keys :: "string list"

record tracker =
  tk_primed :: bool
  tk_maximum_update_time_ms :: int
  tk_executed :: "(string, decimal) dict"
  tk_seen :: "string set"

text \<open>
  \<open>__init__\<close>: a stored quantity that is not the text of a finite decimal raises. The tracker
  itself only ever stores finite quantities.
\<close>

fun restore_executed :: "(string \<times> string) list \<Rightarrow> (string, decimal) dict \<Rightarrow> (string, decimal) dict result" where
  "restore_executed [] d = Inr d"
| "restore_executed ((identity, quantity) # rest) d = (case parse_decimal quantity of
     Finite q \<Rightarrow> restore_executed rest (AList.update identity q d) | _ \<Rightarrow> Inl InvalidOperation)"

definition new_tracker :: "watermark_state option \<Rightarrow> tracker result" where
  "new_tracker st = (case st of
     None \<Rightarrow> Inr \<lparr>tk_primed = False, tk_maximum_update_time_ms = 0, tk_executed = [], tk_seen = {}\<rparr>
   | Some w \<Rightarrow> rbind (restore_executed (ws_executed_quantities w) []) (\<lambda>ex.
       Inr \<lparr>tk_primed = ws_primed w, tk_maximum_update_time_ms = ws_maximum_update_time_ms w,
         tk_executed = ex, tk_seen = set (ws_seen_event_keys w)\<rparr>))"

definition tracker_snapshot :: "tracker \<Rightarrow> watermark_state" where
  "tracker_snapshot t = \<lparr>ws_primed = tk_primed t,
     ws_maximum_update_time_ms = tk_maximum_update_time_ms t,
     ws_executed_quantities = sort (map (\<lambda>(identity, q). (identity, dstr q)) (tk_executed t)),
     ws_seen_event_keys = sorted_list_of_set (tk_seen t)\<rparr>"

section \<open>Operations\<close>

definition order_key :: "public_leader_order \<Rightarrow> int \<times> string" where
  "order_key o0 = (po_update_time_ms o0, po_event_key o0)"

definition prime_order :: "tracker \<Rightarrow> public_leader_order \<Rightarrow> tracker" where
  "prime_order t o0 = (let previous = dict_get (tk_executed t) (po_identity_key o0) 0 in
     t\<lparr>tk_executed := AList.update (po_identity_key o0) (dmax previous (po_executed_quantity o0))
          (tk_executed t),
       tk_seen := insert (po_event_key o0) (tk_seen t),
       tk_maximum_update_time_ms := max (tk_maximum_update_time_ms t) (po_update_time_ms o0)\<rparr>)"

definition prime :: "public_leader_order list \<Rightarrow> tracker \<Rightarrow> tracker" where
  "prime os t = (foldl prime_order t os)\<lparr>tk_primed := True\<rparr>"

text \<open>
  One pass of the loop of \<open>ingest\<close>: the signal it appends, if any, and the state it leaves. When
  the construction of a signal raises, the state has already changed.
\<close>

definition ingest_one ::
  "public_leader_order \<Rightarrow> tracker \<Rightarrow> normalized_signal option result \<times> tracker" where
  "ingest_one o0 t =
    (if po_event_key o0 \<in> tk_seen t then (Inr None, t)
     else let previous = map_of (tk_executed t) (po_identity_key o0);
              seen = insert (po_event_key o0) (tk_seen t) in
       if previous = None \<and> po_update_time_ms o0 < tk_maximum_update_time_ms t
       then (Inr None, t\<lparr>tk_seen := seen\<rparr>)
       else let delta = (case previous of None \<Rightarrow> po_executed_quantity o0
                  | Some p \<Rightarrow> po_executed_quantity o0 - p);
              grows = (case previous of None \<Rightarrow> True | Some p \<Rightarrow> p < po_executed_quantity o0);
              t' = t\<lparr>tk_seen := seen,
                 tk_maximum_update_time_ms := max (tk_maximum_update_time_ms t) (po_update_time_ms o0),
                 tk_executed := (if grows
                   then AList.update (po_identity_key o0) (po_executed_quantity o0) (tk_executed t)
                   else tk_executed t)\<rparr> in
         if delta \<le> 0 then (Inr None, t')
         else if po_position_side o0 = SRC_BOTH then (Inr None, t')
         else (rbind (signal_from_order o0 delta) (\<lambda>s. Inr (Some s)), t'))"

fun ingest_all ::
  "public_leader_order list \<Rightarrow> tracker \<Rightarrow> normalized_signal list result \<times> tracker" where
  "ingest_all [] t = (Inr [], t)"
| "ingest_all (o0 # os) t = (case ingest_one o0 t of
     (Inl e, t') \<Rightarrow> (Inl e, t')
   | (Inr so, t') \<Rightarrow> (case ingest_all os t' of
        (Inl e, t'') \<Rightarrow> (Inl e, t'')
      | (Inr ss, t'') \<Rightarrow> (Inr (case so of None \<Rightarrow> ss | Some s \<Rightarrow> s # ss), t'')))"

definition ingest ::
  "public_leader_order list \<Rightarrow> tracker \<Rightarrow> normalized_signal list result \<times> tracker" where
  "ingest orders t = (let ordered = sort_key order_key orders in
     if \<not> tk_primed t then (Inr [], prime ordered t) else ingest_all ordered t)"

section \<open>Baseline\<close>

lemma prime_orders_state:
  "tk_seen (foldl prime_order t os) = po_event_key ` set os \<union> tk_seen t
   \<and> tk_maximum_update_time_ms t \<le> tk_maximum_update_time_ms (foldl prime_order t os)
   \<and> (\<forall>o0 \<in> set os. po_update_time_ms o0 \<le> tk_maximum_update_time_ms (foldl prime_order t os))"
proof (induction os arbitrary: t)
  case (Cons o0 os)
  from Cons [of "prime_order t o0"] show ?case by (auto simp: prime_order_def Let_def)
qed simp

lemma prime_executed_mono:
  "dict_get (tk_executed t) i 0 \<le> dict_get (tk_executed (foldl prime_order t os)) i 0"
proof (induction os arbitrary: t)
  case (Cons o0 os)
  have "dict_get (tk_executed t) i 0 \<le> dict_get (tk_executed (prime_order t o0)) i 0"
    by (simp add: prime_order_def Let_def decimal_le_val dval_dmax)
  also note Cons [of "prime_order t o0"]
  finally show ?case by simp
qed simp

lemma prime_executed_ge:
  "o0 \<in> set os \<Longrightarrow>
    po_executed_quantity o0 \<le> dict_get (tk_executed (foldl prime_order t os)) (po_identity_key o0) 0"
proof (induction os arbitrary: t)
  case (Cons o1 os)
  show ?case
  proof (cases "o0 \<in> set os")
    case True
    with Cons show ?thesis by simp
  next
    case False
    with Cons.prems have "o0 = o1" by simp
    then have "po_executed_quantity o0 \<le> dict_get (tk_executed (prime_order t o1)) (po_identity_key o0) 0"
      by (simp add: prime_order_def Let_def decimal_le_val dval_dmax)
    also note prime_executed_mono [of "prime_order t o1" "po_identity_key o0" os]
    finally show ?thesis by simp
  qed
qed simp

section \<open>Replays\<close>

lemma ingest_one_seen:
  "ingest_one o0 t = (r, t') \<Longrightarrow> tk_seen t' = insert (po_event_key o0) (tk_seen t)"
  by (auto simp: ingest_one_def Let_def split: if_splits option.splits)

lemma ingest_one_primed: "ingest_one o0 t = (r, t') \<Longrightarrow> tk_primed t' = tk_primed t"
  by (auto simp: ingest_one_def Let_def split: if_splits option.splits)

lemma ingest_all_primed: "ingest_all os t = (r, t') \<Longrightarrow> tk_primed t' = tk_primed t"
  by (induction os arbitrary: t r) (auto split: prod.splits sum.splits dest: ingest_one_primed)

lemma ingest_all_seen:
  "ingest_all os t = (Inr ss, t') \<Longrightarrow> tk_seen t' = po_event_key ` set os \<union> tk_seen t"
  by (induction os arbitrary: t ss) (auto split: prod.splits sum.splits dest!: ingest_one_seen)

lemma ingest_all_skip:
  "po_event_key ` set os \<subseteq> tk_seen t \<Longrightarrow> ingest_all os t = (Inr [], t)"
  by (induction os) (auto simp: ingest_one_def)

lemma ingest_skip:
  "tk_primed t \<Longrightarrow> po_event_key ` set os \<subseteq> tk_seen t \<Longrightarrow> ingest os t = (Inr [], t)"
  by (simp add: ingest_def Let_def ingest_all_skip)

lemma ingest_seen:
  assumes "ingest os t = (Inr ss, t')"
  shows "tk_primed t' \<and> tk_seen t' = po_event_key ` set os \<union> tk_seen t"
proof (cases "tk_primed t")
  case True
  with assms have "ingest_all (sort_key order_key os) t = (Inr ss, t')" by (simp add: ingest_def Let_def)
  with True show ?thesis by (auto dest: ingest_all_seen ingest_all_primed)
next
  case False
  with assms show ?thesis by (auto simp: ingest_def Let_def prime_def prime_orders_state)
qed

section \<open>Conservation of copied quantity\<close>

definition tracker_grid :: "int \<Rightarrow> tracker \<Rightarrow> bool" where
  "tracker_grid e t \<longleftrightarrow> e \<le> 0 \<and> list_all (\<lambda>kv. grid e (snd kv)) (tk_executed t)"

definition batch_grid :: "int \<Rightarrow> public_leader_order list \<Rightarrow> bool" where
  "batch_grid e os \<longleftrightarrow> list_all (\<lambda>o0. grid e (po_executed_quantity o0)) os"

definition executed_of :: "tracker \<Rightarrow> string \<Rightarrow> rat" where
  "executed_of t i = dval (dict_get (tk_executed t) i 0)"

text \<open>The order can still be one-way evidence of identity \<open>i\<close>, which the tracker does not copy.\<close>

definition explicit_for :: "string \<Rightarrow> public_leader_order \<Rightarrow> bool" where
  "explicit_for i o0 \<longleftrightarrow> (po_identity_key o0 = i \<longrightarrow> po_position_side o0 \<noteq> SRC_BOTH)"

definition emitted :: "string \<Rightarrow> normalized_signal list \<Rightarrow> rat" where
  "emitted i ss = (\<Sum>s \<leftarrow> filter (\<lambda>s. sg_source_identity_key s = i) ss. dval (sg_source_delta_quantity s))"

lemma tracker_grid_lookup:
  "tracker_grid e t \<Longrightarrow> map_of (tk_executed t) i = Some q \<Longrightarrow> grid e q"
  by (auto simp: tracker_grid_def list_all_iff dest!: map_of_SomeD)

lemma executed_of_map:
  "executed_of t i = (case map_of (tk_executed t) i of None \<Rightarrow> 0 | Some q \<Rightarrow> dval q)"
  by (simp add: executed_of_def dict_get_def split: option.splits)

lemma signal_from_order_ok:
  assumes "0 < dval d" "dval d \<le> dval (po_executed_quantity o0)" "po_position_side o0 \<noteq> SRC_BOTH"
  shows "\<exists>s. signal_from_order o0 d = Inr s \<and> sg_source_identity_key s = po_identity_key o0
    \<and> sg_source_delta_quantity s = d"
  using assms by (cases "po_position_side o0")
    (auto simp: signal_from_order_def decimal_less_val decimal_le_val position_side_of_def)

lemma ingest_one_conserves:
  assumes t: "tracker_grid e t" and q: "grid e (po_executed_quantity o0)"
  shows "\<exists>so t'. ingest_one o0 t = (Inr so, t') \<and> tracker_grid e t'
    \<and> emitted i (case so of None \<Rightarrow> [] | Some s \<Rightarrow> [s]) \<le> executed_of t' i - executed_of t i
    \<and> (explicit_for i o0 \<longrightarrow>
        emitted i (case so of None \<Rightarrow> [] | Some s \<Rightarrow> [s]) = executed_of t' i - executed_of t i)"
proof (cases "map_of (tk_executed t) (po_identity_key o0)")
  case None
  have nn: "0 \<le> dval (po_executed_quantity o0)" using q by (simp add: grid_def)
  show ?thesis
  proof (cases "po_executed_quantity o0 \<le> 0 \<or> po_position_side o0 = SRC_BOTH")
    case True
    with None nn t q show ?thesis
      by (auto simp: ingest_one_def Let_def emitted_def explicit_for_def executed_of_map decimal_le_val
          tracker_grid_def)
  next
    case False
    then obtain s where s: "signal_from_order o0 (po_executed_quantity o0) = Inr s"
      "sg_source_identity_key s = po_identity_key o0"
      "sg_source_delta_quantity s = po_executed_quantity o0"
      using signal_from_order_ok [of "po_executed_quantity o0" o0] by (auto simp: decimal_le_val)
    with False None t q show ?thesis
      by (auto simp: ingest_one_def Let_def emitted_def explicit_for_def executed_of_map tracker_grid_def)
  qed
next
  case (Some p)
  let ?x = "po_executed_quantity o0"
  have d: "dval (?x - p) = dval ?x - dval p"
    using dval_minus_grid [OF q tracker_grid_lookup [OF t Some]] .
  have p0: "0 \<le> dval p" using tracker_grid_lookup [OF t Some] by (simp add: grid_def)
  show ?thesis
  proof (cases "dval ?x \<le> dval p")
    case True
    with Some d t show ?thesis
      by (auto simp: ingest_one_def Let_def emitted_def explicit_for_def executed_of_map decimal_le_val
          decimal_less_val tracker_grid_def)
  next
    case False
    then have s: "po_position_side o0 \<noteq> SRC_BOTH \<Longrightarrow> \<exists>s. signal_from_order o0 (?x - p) = Inr s
        \<and> sg_source_identity_key s = po_identity_key o0 \<and> sg_source_delta_quantity s = ?x - p"
      using d p0 by (intro signal_from_order_ok) auto
    show ?thesis
    proof (cases "po_position_side o0 = SRC_BOTH")
      case True
      with False Some d t q show ?thesis
        by (auto simp: ingest_one_def Let_def emitted_def explicit_for_def executed_of_map decimal_le_val
            decimal_less_val tracker_grid_def)
    next
      case both: False
      with s obtain s where "signal_from_order o0 (?x - p) = Inr s"
        "sg_source_identity_key s = po_identity_key o0" "sg_source_delta_quantity s = ?x - p" by blast
      with both False Some d t q show ?thesis
        by (auto simp: ingest_one_def Let_def emitted_def explicit_for_def executed_of_map decimal_le_val
            decimal_less_val tracker_grid_def)
    qed
  qed
qed

lemma emitted_append [simp]: "emitted i (xs @ ys) = emitted i xs + emitted i ys"
  by (simp add: emitted_def)

lemma ingest_all_conserves:
  assumes "tracker_grid e t" "batch_grid e os"
  shows "\<exists>ss t'. ingest_all os t = (Inr ss, t') \<and> tracker_grid e t'
    \<and> emitted i ss \<le> executed_of t' i - executed_of t i
    \<and> (list_all (explicit_for i) os \<longrightarrow> emitted i ss = executed_of t' i - executed_of t i)"
  using assms
proof (induction os arbitrary: t)
  case Nil
  then show ?case by (simp add: emitted_def)
next
  case (Cons o0 os)
  from Cons.prems obtain so t1 where one: "ingest_one o0 t = (Inr so, t1)" "tracker_grid e t1"
    "emitted i (case so of None \<Rightarrow> [] | Some s \<Rightarrow> [s]) \<le> executed_of t1 i - executed_of t i"
    "explicit_for i o0 \<Longrightarrow>
      emitted i (case so of None \<Rightarrow> [] | Some s \<Rightarrow> [s]) = executed_of t1 i - executed_of t i"
    using ingest_one_conserves [of e t o0 i] by (auto simp: batch_grid_def)
  from Cons.IH [OF one(2)] Cons.prems obtain ss t2 where "ingest_all os t1 = (Inr ss, t2)" "tracker_grid e t2"
    "emitted i ss \<le> executed_of t2 i - executed_of t1 i"
    "list_all (explicit_for i) os \<Longrightarrow> emitted i ss = executed_of t2 i - executed_of t1 i"
    by (auto simp: batch_grid_def)
  moreover have "emitted i (case so of None \<Rightarrow> ss | Some s \<Rightarrow> s # ss)
      = emitted i (case so of None \<Rightarrow> [] | Some s \<Rightarrow> [s]) + emitted i ss"
    by (cases so) (simp_all add: emitted_def)
  ultimately show ?case using one by simp
qed

text \<open>Polling cycles: each batch is one observation of the leader's history.\<close>

fun ingest_batches ::
  "public_leader_order list list \<Rightarrow> tracker \<Rightarrow> normalized_signal list result \<times> tracker" where
  "ingest_batches [] t = (Inr [], t)"
| "ingest_batches (b # bs) t = (case ingest b t of
     (Inl e, t') \<Rightarrow> (Inl e, t')
   | (Inr ss, t') \<Rightarrow> (case ingest_batches bs t' of
        (Inl e, t'') \<Rightarrow> (Inl e, t'') | (Inr ss', t'') \<Rightarrow> (Inr (ss @ ss'), t'')))"

lemma ingest_batches_conserves:
  assumes "tk_primed t" "tracker_grid e t" "list_all (batch_grid e) bs"
  shows "\<exists>ss t'. ingest_batches bs t = (Inr ss, t') \<and> tk_primed t' \<and> tracker_grid e t'
    \<and> emitted i ss \<le> executed_of t' i - executed_of t i
    \<and> (list_all (list_all (explicit_for i)) bs \<longrightarrow> emitted i ss = executed_of t' i - executed_of t i)"
  using assms
proof (induction bs arbitrary: t)
  case Nil
  then show ?case by (simp add: emitted_def)
next
  case (Cons b bs)
  from Cons.prems have "batch_grid e (sort_key order_key b)" by (simp add: batch_grid_def list_all_iff)
  with Cons.prems obtain ss t1 where one: "ingest b t = (Inr ss, t1)" "tracker_grid e t1"
    "emitted i ss \<le> executed_of t1 i - executed_of t i" "tk_primed t1"
    "list_all (explicit_for i) b \<Longrightarrow> emitted i ss = executed_of t1 i - executed_of t i"
    using ingest_all_conserves [of e t "sort_key order_key b" i]
    by (auto simp: ingest_def Let_def list_all_iff dest: ingest_all_primed)
  from Cons.IH [OF one(4,2)] Cons.prems obtain ss' t2 where "ingest_batches bs t1 = (Inr ss', t2)" "tk_primed t2"
    "tracker_grid e t2" "emitted i ss' \<le> executed_of t2 i - executed_of t1 i"
    "list_all (list_all (explicit_for i)) bs \<Longrightarrow> emitted i ss' = executed_of t2 i - executed_of t1 i" by auto
  with one show ?case by simp
qed

section \<open>Snapshot and restore\<close>

text \<open>Two trackers that differ in the order of their dictionary only.\<close>

definition tracker_equiv :: "tracker \<Rightarrow> tracker \<Rightarrow> bool" where
  "tracker_equiv t u \<longleftrightarrow> tk_primed t = tk_primed u
     \<and> tk_maximum_update_time_ms t = tk_maximum_update_time_ms u
     \<and> map_of (tk_executed t) = map_of (tk_executed u) \<and> tk_seen t = tk_seen u"

definition tracker_inv :: "tracker \<Rightarrow> bool" where
  "tracker_inv t \<longleftrightarrow> dict_ok (tk_executed t) \<and> finite (tk_seen t)"

lemma ingest_one_inv: "ingest_one o0 t = (r, t') \<Longrightarrow> tracker_inv t \<Longrightarrow> tracker_inv t'"
  by (auto simp: ingest_one_def tracker_inv_def Let_def split: if_splits option.splits)

lemma ingest_all_inv: "ingest_all os t = (r, t') \<Longrightarrow> tracker_inv t \<Longrightarrow> tracker_inv t'"
  by (induction os arbitrary: t r) (auto split: prod.splits sum.splits dest: ingest_one_inv)

lemma prime_inv: "tracker_inv t \<Longrightarrow> tracker_inv (prime os t)"
proof -
  have "tracker_inv (foldl prime_order t os)" if "tracker_inv t" for t
    using that by (induction os arbitrary: t) (simp_all add: prime_order_def tracker_inv_def Let_def)
  then show "tracker_inv t \<Longrightarrow> tracker_inv (prime os t)" by (simp add: prime_def tracker_inv_def)
qed

lemma ingest_inv: "ingest os t = (r, t') \<Longrightarrow> tracker_inv t \<Longrightarrow> tracker_inv t'"
  by (auto simp: ingest_def Let_def prime_inv dest: ingest_all_inv split: if_splits)

lemma ingest_one_equiv:
  assumes "tracker_equiv t u"
  shows "fst (ingest_one o0 t) = fst (ingest_one o0 u)
    \<and> tracker_equiv (snd (ingest_one o0 t)) (snd (ingest_one o0 u))"
  using assms by (auto simp: tracker_equiv_def ingest_one_def Let_def split: option.splits)

lemma ingest_all_equiv:
  "tracker_equiv t u \<Longrightarrow> fst (ingest_all os t) = fst (ingest_all os u)
    \<and> tracker_equiv (snd (ingest_all os t)) (snd (ingest_all os u))"
proof (induction os arbitrary: t u)
  case (Cons o0 os)
  obtain r t1 where t1: "ingest_one o0 t = (r, t1)" by fastforce
  obtain r' u1 where u1: "ingest_one o0 u = (r', u1)" by fastforce
  from ingest_one_equiv [OF Cons.prems, of o0] have "r' = r" "tracker_equiv t1 u1"
    by (simp_all add: t1 u1)
  with Cons.IH [of t1 u1] show ?case by (auto simp: t1 u1 split: prod.splits sum.splits)
qed simp

lemma prime_orders_equiv:
  "tracker_equiv t u \<Longrightarrow> tracker_equiv (foldl prime_order t os) (foldl prime_order u os)"
  by (induction os arbitrary: t u)
    (simp_all add: prime_order_def tracker_equiv_def Let_def dict_get_def)

lemma prime_equiv: "tracker_equiv t u \<Longrightarrow> tracker_equiv (prime os t) (prime os u)"
  using prime_orders_equiv [of t u os] by (simp add: prime_def tracker_equiv_def)

lemma ingest_equiv:
  assumes "tracker_equiv t u"
  shows "fst (ingest os t) = fst (ingest os u) \<and> tracker_equiv (snd (ingest os t)) (snd (ingest os u))"
proof -
  have p: "tk_primed t = tk_primed u" using assms by (simp add: tracker_equiv_def)
  show ?thesis
  proof (cases "tk_primed u")
    case True
    then show ?thesis using ingest_all_equiv [OF assms] p by (simp add: ingest_def Let_def)
  next
    case False
    then show ?thesis using prime_equiv [OF assms] p by (simp add: ingest_def Let_def)
  qed
qed

lemma restore_executed_map:
  assumes "distinct (map fst xs)" "\<And>i s. (i, s) \<in> set xs \<Longrightarrow> \<exists>q. s = dstr q"
  shows "\<exists>ex. restore_executed xs d = Inr ex
    \<and> (\<forall>i q. map_of xs i = Some (dstr q) \<longrightarrow> map_of ex i = Some q)
    \<and> (\<forall>i. map_of xs i = None \<longrightarrow> map_of ex i = map_of d i)"
  using assms
proof (induction xs arbitrary: d)
  case (Cons x xs)
  obtain i q where x: "x = (i, dstr q)" using Cons.prems(2) by (cases x) fastforce
  obtain ex where ex: "restore_executed xs (AList.update i q d) = Inr ex"
    "\<And>j q'. map_of xs j = Some (dstr q') \<Longrightarrow> map_of ex j = Some q'"
    "\<And>j. map_of xs j = None \<Longrightarrow> map_of ex j = map_of (AList.update i q d) j"
    using Cons.IH [of "AList.update i q d"] Cons.prems by auto
  have "map_of xs i = None" using Cons.prems(1) by (simp add: x map_of_eq_None_iff)
  then show ?case using ex by (auto simp: x parse_dstr dstr_inject)
qed simp

lemma snapshot_executed:
  assumes "dict_ok d"
  shows "\<exists>ex. restore_executed (sort (map (\<lambda>(i, q). (i, dstr q)) d)) [] = Inr ex \<and> map_of ex = map_of d"
proof -
  define f where "f = (\<lambda>(i :: string, q). (i, dstr q))"
  define xs where "xs = sort (map f d)"
  have "map fst (map f d) = map fst d" by (simp add: f_def case_prod_beta)
  then have d1: "distinct (map fst (map f d))" using assms by (metis dict_ok_def)
  moreover have "mset xs = mset (map f d)" by (simp add: xs_def)
  ultimately have d2: "distinct (map fst xs)"
    by (metis mset_map mset_eq_imp_distinct_iff)
  have "map_of xs = map_of (map f d)"
    using d1 d2 by (intro map_of_inject_set [THEN iffD2]) (simp_all add: xs_def)
  also have "\<dots> = map_option dstr \<circ> map_of d"
    by (induction d) (auto simp: f_def fun_eq_iff)
  finally have m: "map_of xs i = map_option dstr (map_of d i)" for i by simp
  have "\<exists>q. s = dstr q" if "(i, s) \<in> set xs" for i s
    using that by (auto simp: xs_def f_def)
  with restore_executed_map [OF d2, of "[]"] obtain ex where ex: "restore_executed xs [] = Inr ex"
    "\<And>i q. map_of xs i = Some (dstr q) \<Longrightarrow> map_of ex i = Some q"
    "\<And>i. map_of xs i = None \<Longrightarrow> map_of ex i = None" by auto
  have "map_of ex i = map_of d i" for i
    by (cases "map_of d i") (simp_all add: m ex)
  with ex(1) show ?thesis unfolding xs_def f_def by blast
qed

lemma restore_snapshot:
  assumes "tracker_inv t"
  shows "\<exists>u. new_tracker (Some (tracker_snapshot t)) = Inr u \<and> tracker_equiv t u"
  using assms snapshot_executed [of "tk_executed t"]
  by (auto simp: new_tracker_def tracker_snapshot_def tracker_equiv_def tracker_inv_def)

section \<open>Properties of the tracker\<close>

text \<open>Baseline. The first observation of a leader emits no signal, whatever the history
  holds; afterwards the tracker is primed, has seen every observed event, and its watermark and
  executed quantities cover every observed order, so none of them can be replayed later.\<close>

theorem first_observation_is_baseline:
  assumes "\<not> tk_primed t"
  shows "\<exists>t'. ingest orders t = (Inr [], t') \<and> tk_primed t'
    \<and> tk_seen t' = po_event_key ` set orders \<union> tk_seen t
    \<and> list_all (\<lambda>o0. po_update_time_ms o0 \<le> tk_maximum_update_time_ms t'
        \<and> po_executed_quantity o0 \<le> dict_get (tk_executed t') (po_identity_key o0) 0) orders
    \<and> (\<forall>later. set later \<subseteq> set orders \<longrightarrow> ingest later t' = (Inr [], t'))"
proof -
  let ?os = "sort_key order_key orders" and ?t' = "prime (sort_key order_key orders) t"
  have "ingest orders t = (Inr [], ?t')" using assms by (simp add: ingest_def Let_def)
  moreover have "tk_primed ?t'" "tk_seen ?t' = po_event_key ` set orders \<union> tk_seen t"
    by (simp_all add: prime_def prime_orders_state)
  moreover have "list_all (\<lambda>o0. po_update_time_ms o0 \<le> tk_maximum_update_time_ms ?t'
        \<and> po_executed_quantity o0 \<le> dict_get (tk_executed ?t') (po_identity_key o0) 0) orders"
    using prime_orders_state [of t ?os] prime_executed_ge [of _ ?os t]
    by (auto simp: list_all_iff prime_def)
  ultimately show ?thesis using ingest_skip [of ?t'] by (blast intro: subset_trans)
qed

text \<open>C2: no replay. Once a batch has been ingested, ingesting it again, in whole, in part or in
  another order, emits nothing and leaves the tracker unchanged.\<close>

theorem ingest_never_replays:
  assumes "ingest orders t = (Inr signals, t')" and "set again \<subseteq> set orders"
  shows "ingest again t' = (Inr [], t')"
  using ingest_seen [OF assms(1)] assms(2) by (intro ingest_skip) auto


text \<open>C3: restart. The state written by \<open>snapshot\<close> can always be restored, and the restored
  tracker reports for every further batch exactly the signals, or the error, that the tracker
  that wrote it would have reported. The invariant assumed holds for a new tracker and is kept by
  every ingestion.\<close>

theorem restored_tracker_agrees:
  assumes "tracker_inv t"
  shows "\<exists>u. new_tracker (Some (tracker_snapshot t)) = Inr u
    \<and> (\<forall>orders. fst (ingest orders u) = fst (ingest orders t))
    \<and> (\<forall>orders. tracker_inv (snd (ingest orders t)))"
  using restore_snapshot [OF assms] ingest_equiv ingest_inv assms by (metis prod.collapse)

subsection \<open>Witnesses\<close>

definition sample_order :: "string \<Rightarrow> nat \<Rightarrow> int \<Rightarrow> string \<Rightarrow> public_leader_order" where
  "sample_order identity quantity t event = \<lparr>po_lead_portfolio_id = ''1234567890'',
     po_symbol = ''BTCUSDT'', po_position_side = SRC_LONG, po_order_side = BUY,
     po_order_type = ''LIMIT'', po_executed_quantity = dec quantity, po_average_price = dec 100,
     po_total_pnl = dec 0, po_order_time_ms = 1, po_update_time_ms = t,
     po_identity_key = identity, po_event_key = event, po_raw_payload_hash = []\<rparr>"

definition sample_tracker :: tracker where
  "sample_tracker = \<lparr>tk_primed = True, tk_maximum_update_time_ms = 5,
     tk_executed = [(''a'', dec 3)], tk_seen = {''e0''}\<rparr>"

theorem first_observation_is_baseline_witness:
  "\<not> tk_primed (sample_tracker\<lparr>tk_primed := False\<rparr>) \<and>
   (\<exists>t'. ingest [sample_order ''a'' 7 6 ''e1''] (sample_tracker\<lparr>tk_primed := False\<rparr>) = (Inr [], t')
     \<and> tk_primed t')"
  using first_observation_is_baseline [of "sample_tracker\<lparr>tk_primed := False\<rparr>" "[sample_order ''a'' 7 6 ''e1'']"]
  by auto

lemma sample_ingest:
  "\<exists>s t'. ingest [sample_order ''a'' 7 6 ''e1''] sample_tracker = (Inr [s], t')"
proof -
  have "dec 7 - dec 3 = dec 4" by code_simp
  moreover have "\<not> dec 4 \<le> 0" "\<not> dec 7 < dec 4" by code_simp+
  ultimately show ?thesis
    by (simp add: ingest_def sample_order_def sample_tracker_def ingest_one_def Let_def
        signal_from_order_def position_side_of_def)
qed

theorem ingest_never_replays_witness:
  "\<exists>s t'. ingest [sample_order ''a'' 7 6 ''e1''] sample_tracker = (Inr [s], t')
     \<and> ingest [sample_order ''a'' 7 6 ''e1''] t' = (Inr [], t')"
  using sample_ingest ingest_never_replays [of "[sample_order ''a'' 7 6 ''e1'']" sample_tracker]
  by (metis order_refl)


theorem restored_tracker_agrees_witness:
  "tracker_inv sample_tracker \<and> (\<exists>u. new_tracker (Some (tracker_snapshot sample_tracker)) = Inr u
     \<and> fst (ingest [sample_order ''a'' 7 6 ''e1''] u)
       = fst (ingest [sample_order ''a'' 7 6 ''e1''] sample_tracker))"
proof -
  have "tracker_inv sample_tracker" by (simp add: tracker_inv_def sample_tracker_def dict_ok_def)
  with restored_tracker_agrees [OF this] show ?thesis by blast
qed

end
