(* ===== verification/Allocation.thy ===== *)
theory Allocation
  imports Models
begin

text \<open>
  \<open>copy_trading/allocation.py\<close>: the entry policy, the portfolio usage, the exchange rules of a
  symbol and the sizing of an increase. The theorems bound the margin an approved entry commits
  and the quantity it sends.
\<close>

section \<open>Records and their constructors' checks\<close>

definition DEFAULT_ENTRY_MARGIN_LIMIT_USDT :: decimal where
  "DEFAULT_ENTRY_MARGIN_LIMIT_USDT = dec 120"

definition MINIMUM_ENTRY_MARGIN_LIMIT_USDT :: decimal where
  "MINIMUM_ENTRY_MARGIN_LIMIT_USDT = dec 5"

record allocation_policy =
  ap_operating_envelope_usdt :: decimal
  ap_entry_allocation_usdt :: decimal
  ap_reserve_usdt :: decimal
  ap_default_leverage :: int
  ap_maximum_leverage :: int
  ap_maximum_order_margin_usdt :: decimal

definition default_allocation_policy :: allocation_policy where
  "default_allocation_policy = \<lparr>ap_operating_envelope_usdt = dec 150,
     ap_entry_allocation_usdt = DEFAULT_ENTRY_MARGIN_LIMIT_USDT, ap_reserve_usdt = dec 30,
     ap_default_leverage = 10, ap_maximum_leverage = 125, ap_maximum_order_margin_usdt = dec 5\<rparr>"

definition allocation_policy_check :: "allocation_policy \<Rightarrow> allocation_policy result" where
  "allocation_policy_check p =
    (if ap_operating_envelope_usdt p \<le> 0
     then Inl (ValueError ''copy operating envelope must be positive'')
     else if \<not> deq (ap_entry_allocation_usdt p + ap_reserve_usdt p) (ap_operating_envelope_usdt p)
     then Inl (ValueError ''copy entry allocation and reserve must equal the envelope'')
     else if \<not> (1 \<le> ap_default_leverage p \<and> ap_default_leverage p \<le> ap_maximum_leverage p
       \<and> ap_maximum_leverage p \<le> 125)
     then Inl (ValueError ''copy leverage policy is invalid'')
     else if \<not> (0 < ap_maximum_order_margin_usdt p
       \<and> ap_maximum_order_margin_usdt p \<le> ap_entry_allocation_usdt p)
     then Inl (ValueError ''copy order margin cap is invalid'') else Inr p)"

record leader_allocation =
  la_lead_portfolio_id :: string
  la_source_aum_usdt :: decimal
  la_portfolio_weight :: decimal
  la_follow_multiplier :: int

definition leader_allocation_check :: "leader_allocation \<Rightarrow> leader_allocation result" where
  "leader_allocation_check a =
    (if la_lead_portfolio_id a = [] then Inl (ValueError ''copy leader ID is required'')
     else if la_source_aum_usdt a \<le> 0 then Inl (ValueError ''copy leader AUM must be positive'')
     else if \<not> (0 < la_portfolio_weight a \<and> la_portfolio_weight a \<le> dec 1)
     then Inl (ValueError ''copy leader weight must be within (0,1]'')
     else if \<not> (1 \<le> la_follow_multiplier a \<and> la_follow_multiplier a \<le> 10)
     then Inl (ValueError ''copy leader follow multiplier must be within [1,10]'') else Inr a)"

record portfolio_usage =
  pu_account_equity_usdt :: decimal
  pu_total_committed_margin_usdt :: decimal
  pu_leader_committed_margin_usdt :: decimal
  pu_symbol_committed_margin_usdt :: decimal
  pu_account_available_balance_usdt :: "decimal option"
  pu_configured_entry_margin_usdt :: "decimal option"

text \<open>Every decimal of the model is finite, so the finiteness test of the source passes.\<close>

definition portfolio_usage_check :: "portfolio_usage \<Rightarrow> portfolio_usage result" where
  "portfolio_usage_check u =
    (let values = [pu_account_equity_usdt u, pu_total_committed_margin_usdt u,
       pu_leader_committed_margin_usdt u, pu_symbol_committed_margin_usdt u,
       (case pu_account_available_balance_usdt u of None \<Rightarrow> pu_account_equity_usdt u | Some v \<Rightarrow> v),
       (case pu_configured_entry_margin_usdt u of None \<Rightarrow> pu_account_equity_usdt u | Some v \<Rightarrow> v)] in
     if (case pu_configured_entry_margin_usdt u of None \<Rightarrow> False
         | Some c \<Rightarrow> \<not> (0 < c \<and> c \<le> DEFAULT_ENTRY_MARGIN_LIMIT_USDT))
     then Inl (ValueError ''copy configured entry margin is outside policy bounds'')
     else if foldl dmin (hd values) (tl values) < 0
     then Inl (ValueError ''copy portfolio usage cannot be negative'') else Inr u)"

record symbol_rules =
  sr_quantity_step :: decimal
  sr_minimum_quantity :: decimal
  sr_maximum_quantity :: decimal
  sr_minimum_notional_usdt :: decimal
  sr_exchange_maximum_leverage :: int
  sr_current_leverage :: int
  sr_price_tick :: decimal

definition symbol_rules_check :: "symbol_rules \<Rightarrow> symbol_rules result" where
  "symbol_rules_check r =
    (if foldl dmin (sr_quantity_step r) [sr_minimum_quantity r, sr_maximum_quantity r,
       sr_minimum_notional_usdt r, sr_price_tick r] \<le> 0
     then Inl (ValueError ''copy symbol rules must be positive'')
     else if sr_maximum_quantity r < sr_minimum_quantity r
     then Inl (ValueError ''copy symbol quantity range is invalid'')
     else if \<not> (1 \<le> sr_exchange_maximum_leverage r \<and> sr_exchange_maximum_leverage r \<le> 125)
     then Inl (ValueError ''copy exchange leverage is invalid'')
     else if \<not> (1 \<le> sr_current_leverage r \<and> sr_current_leverage r \<le> sr_exchange_maximum_leverage r)
     then Inl (ValueError ''copy current symbol leverage is invalid'') else Inr r)"

record size_decision =
  sd_approved :: bool
  sd_local_quantity :: decimal
  sd_local_notional_usdt :: decimal
  sd_committed_margin_usdt :: decimal
  sd_leverage :: int
  sd_source_quantity_scale :: decimal
  sd_reason_codes :: "string list"

section \<open>Sizing\<close>

definition dec_int :: "int \<Rightarrow> decimal" where
  "dec_int i = Dec (i < 0) (nat \<bar>i\<bar>) 0"

definition floor_to_step :: "decimal \<Rightarrow> decimal \<Rightarrow> decimal result" where
  "floor_to_step v step = (if v \<le> 0 then Inr 0
     else rbind (decimal_floordiv v step) (\<lambda>q. Inr (q * step)))"

definition ceil_to_step :: "decimal \<Rightarrow> decimal \<Rightarrow> decimal result" where
  "ceil_to_step v step = rbind (floor_to_step v step) (\<lambda>f. Inr (if deq f v then f else f + step))"

definition rejected_size :: "string \<Rightarrow> int \<Rightarrow> size_decision" where
  "rejected_size reason leverage = \<lparr>sd_approved = False, sd_local_quantity = 0,
     sd_local_notional_usdt = 0, sd_committed_margin_usdt = 0, sd_leverage = leverage,
     sd_source_quantity_scale = 0, sd_reason_codes = [reason]\<rparr>"

text \<open>\<open>min(items, key=...)\<close>: the first item with the least key.\<close>

fun min_capacity :: "(string \<times> decimal) \<Rightarrow> (string \<times> decimal) list \<Rightarrow> string \<times> decimal" where
  "min_capacity best [] = best"
| "min_capacity best (x # xs) = min_capacity (if snd x < snd best then x else best) xs"

definition account_entry_capacity :: "allocation_policy \<Rightarrow> portfolio_usage \<Rightarrow> decimal" where
  "account_entry_capacity p u = dmin (ap_entry_allocation_usdt p)
     (case pu_configured_entry_margin_usdt u of None \<Rightarrow> ap_entry_allocation_usdt p | Some c \<Rightarrow> c)"

definition account_available_balance :: "portfolio_usage \<Rightarrow> decimal" where
  "account_available_balance u =
     (case pu_account_available_balance_usdt u of None \<Rightarrow> pu_account_equity_usdt u | Some b \<Rightarrow> b)"

definition margin_capacity :: "allocation_policy \<Rightarrow> portfolio_usage \<Rightarrow> string \<times> decimal" where
  "margin_capacity p u = min_capacity
     (''COPY_SIZE_TOTAL_MARGIN_CAP_REACHED'',
       account_entry_capacity p u - pu_total_committed_margin_usdt u)
     [(''COPY_SIZE_AVAILABLE_BALANCE_RESERVE_REACHED'', account_available_balance u - ap_reserve_usdt p),
      (''COPY_SIZE_ORDER_MARGIN_CAP_REACHED'', ap_maximum_order_margin_usdt p)]"

definition size_increase ::
  "allocation_policy \<Rightarrow> normalized_signal \<Rightarrow> decimal \<Rightarrow> leader_allocation \<Rightarrow> portfolio_usage
     \<Rightarrow> symbol_rules \<Rightarrow> size_decision result" where
  "size_increase p signal market_price leader u rules =
    (if sg_kind signal \<noteq> INCREASE then Inr (rejected_size ''COPY_SIZE_NOT_AN_INCREASE'' 0)
     else if sg_lead_portfolio_id signal \<noteq> la_lead_portfolio_id leader
     then Inr (rejected_size ''COPY_SIZE_LEADER_MISMATCH'' 0)
     else if market_price \<le> 0 then Inr (rejected_size ''COPY_SIZE_MARKET_PRICE_INVALID'' 0)
     else let leverage = min (ap_maximum_leverage p) (sr_exchange_maximum_leverage rules) in
       if 0 < pu_symbol_committed_margin_usdt u \<and> leverage < sr_current_leverage rules
       then Inr (rejected_size ''COPY_SIZE_CURRENT_LEVERAGE_ABOVE_POLICY'' (sr_current_leverage rules))
       else let (reason, available) = margin_capacity p u in
         if available \<le> 0 then Inr (rejected_size reason leverage)
         else
           let target_notional = sg_source_delta_quantity signal * sg_reference_price signal
                 * dec_int (la_follow_multiplier leader) in
           rbind (decimal_truediv target_notional market_price) (\<lambda>target_quantity.
           rbind (decimal_truediv (sr_minimum_notional_usdt rules) market_price) (\<lambda>min_by_notional.
           rbind (ceil_to_step min_by_notional (sr_quantity_step rules)) (\<lambda>min_ceil.
           let minimum_quantity = dmax (sr_minimum_quantity rules) min_ceil;
               desired = dmin (dmax target_quantity minimum_quantity) (sr_maximum_quantity rules) in
           rbind (decimal_truediv (available * dec_int leverage) market_price) (\<lambda>raw_capacity.
           rbind (floor_to_step raw_capacity (sr_quantity_step rules)) (\<lambda>capacity.
           rbind (floor_to_step (dmin desired capacity) (sr_quantity_step rules)) (\<lambda>local_quantity.
           let local_notional = local_quantity * market_price in
           if local_quantity < minimum_quantity then Inr (rejected_size reason leverage)
           else if local_quantity < sr_minimum_quantity rules
           then Inr (rejected_size ''COPY_SIZE_BELOW_MINIMUM_QUANTITY'' leverage)
           else if local_notional < sr_minimum_notional_usdt rules
           then Inr (rejected_size ''COPY_SIZE_BELOW_MINIMUM_NOTIONAL'' leverage)
           else rbind (decimal_truediv local_notional (dec_int leverage)) (\<lambda>committed.
             if available < committed then Inr (rejected_size reason leverage)
             else rbind (decimal_truediv local_quantity (sg_source_delta_quantity signal)) (\<lambda>scale.
               Inr \<lparr>sd_approved = True, sd_local_quantity = local_quantity,
                 sd_local_notional_usdt = local_notional, sd_committed_margin_usdt = committed,
                 sd_leverage = leverage, sd_source_quantity_scale = scale,
                 sd_reason_codes = []\<rparr>)))))))))"

section \<open>Steps\<close>

lemma dval_dec_int [simp, decimal_simps]: "dval (dec_int i) = of_int i"
  by (simp add: dec_int_def dval_def dsigned_def)

definition steps :: "rat \<Rightarrow> rat \<Rightarrow> int" where
  "steps v s = \<lfloor>max 0 v / s\<rfloor>"

lemma floor_to_step_value:
  assumes "floor_to_step v s = Inr q" "0 < dval s"
  shows "dval q = rnd (of_int (steps (dval v) (dval s)) * dval s)"
proof (cases "v \<le> 0")
  case True
  with assms show ?thesis by (simp add: floor_to_step_def steps_def decimal_le_val max_def)
next
  case False
  with assms obtain k where "decimal_floordiv v s = Inr k" "q = k * s"
    by (auto simp: floor_to_step_def)
  with False assms(2) show ?thesis
    by (simp add: dval_times dval_floordiv decimal_le_val steps_def max_def)
qed

lemma steps_nonneg: "0 < s \<Longrightarrow> 0 \<le> steps v s"
  by (simp add: steps_def)

lemma steps_le: assumes "0 < s" shows "of_int (steps v s) * s \<le> max 0 v"
proof -
  have "of_int (steps v s) \<le> max 0 v / s" unfolding steps_def by simp
  then show ?thesis using assms by (simp add: pos_le_divide_eq)
qed

lemma floor_to_step_nonneg:
  "floor_to_step v s = Inr q \<Longrightarrow> 0 < dval s \<Longrightarrow> 0 \<le> dval q"
  using floor_to_step_value [of v s q] steps_nonneg [of "dval s" "dval v"]
  by (simp add: half_even.nonneg)

lemma floor_to_step_le:
  assumes "floor_to_step v s = Inr q" "0 < dval s" "exact28 (dval v)"
  shows "dval q \<le> max 0 (dval v)"
  unfolding floor_to_step_value [OF assms(1,2)]
  using steps_le [OF assms(2)] assms(3) by (intro half_even.le_exact) (auto simp: max_def)

lemma floor_to_step_exact: "floor_to_step v s = Inr q \<Longrightarrow> 0 < dval s \<Longrightarrow> exact28 (dval q)"
  by (simp add: floor_to_step_value exact28_rnd)

lemma ceil_to_step_exact: "ceil_to_step v s = Inr q \<Longrightarrow> 0 < dval s \<Longrightarrow> exact28 (dval q)"
  by (auto simp: ceil_to_step_def floor_to_step_exact dval_plus exact28_rnd split: if_splits)

lemma exact28_dmin: "exact28 (dval a) \<Longrightarrow> exact28 (dval b) \<Longrightarrow> exact28 (dval (dmin a b))"
  by (simp add: dval_dmin min_def)

lemma exact28_dmax: "exact28 (dval a) \<Longrightarrow> exact28 (dval b) \<Longrightarrow> exact28 (dval (dmax a b))"
  by (simp add: dval_dmax max_def)

lemma min_capacity_le:
  "snd (min_capacity b xs) \<le> snd b \<and> (\<forall>x \<in> set xs. snd (min_capacity b xs) \<le> snd x)"
proof (induction xs arbitrary: b)
  case (Cons x xs)
  from Cons [of "if snd x < snd b then x else b"] show ?case
    by (auto simp: decimal_le_val decimal_less_val split: if_splits)
qed simp

lemma margin_capacity_le:
  "snd (margin_capacity p u) \<le> account_entry_capacity p u - pu_total_committed_margin_usdt u"
  "snd (margin_capacity p u) \<le> account_available_balance u - ap_reserve_usdt p"
  "snd (margin_capacity p u) \<le> ap_maximum_order_margin_usdt p"
  using min_capacity_le [of "(''COPY_SIZE_TOTAL_MARGIN_CAP_REACHED'',
      account_entry_capacity p u - pu_total_committed_margin_usdt u)"
    "[(''COPY_SIZE_AVAILABLE_BALANCE_RESERVE_REACHED'', account_available_balance u - ap_reserve_usdt p),
      (''COPY_SIZE_ORDER_MARGIN_CAP_REACHED'', ap_maximum_order_margin_usdt p)]"]
  unfolding margin_capacity_def by simp_all

section \<open>What an approval implies\<close>

definition rules_ok :: "symbol_rules \<Rightarrow> bool" where
  "rules_ok r \<longleftrightarrow> symbol_rules_check r = Inr r"

lemma rules_ok_pos:
  assumes "rules_ok r"
  shows "0 < dval (sr_quantity_step r)" "0 < dval (sr_minimum_quantity r)"
    "0 < dval (sr_maximum_quantity r)" "0 < dval (sr_minimum_notional_usdt r)"
    "0 < dval (sr_price_tick r)" "dval (sr_minimum_quantity r) \<le> dval (sr_maximum_quantity r)"
    "1 \<le> sr_exchange_maximum_leverage r" "sr_exchange_maximum_leverage r \<le> 125"
    "1 \<le> sr_current_leverage r" "sr_current_leverage r \<le> sr_exchange_maximum_leverage r"
  using assms by (auto simp: rules_ok_def symbol_rules_check_def decimal_simps not_le split: if_splits)

definition policy_ok :: "allocation_policy \<Rightarrow> bool" where
  "policy_ok p \<longleftrightarrow> allocation_policy_check p = Inr p"

lemma policy_ok_leverage: "policy_ok p \<Longrightarrow> 1 \<le> ap_maximum_leverage p \<and> ap_maximum_leverage p \<le> 125"
  by (auto simp: policy_ok_def allocation_policy_check_def split: if_splits)

text \<open>The facts an approval carries, in the vocabulary of the code.\<close>

lemma size_increase_approvedE:
  assumes "size_increase p sg m l u r = Inr d" "sd_approved d"
  obtains reason available desired capacity minimum mn where
    "margin_capacity p u = (reason, available)" "0 < dval available" "0 < dval m"
    "sg_kind sg = INCREASE" "sg_lead_portfolio_id sg = la_lead_portfolio_id l"
    "sd_leverage d = min (ap_maximum_leverage p) (sr_exchange_maximum_leverage r)"
    "dval desired \<le> dval (sr_maximum_quantity r)"
    "desired = dmin (dmax (ddiv (sg_source_delta_quantity sg * sg_reference_price sg
        * dec_int (la_follow_multiplier l)) m) minimum) (sr_maximum_quantity r)"
    "ceil_to_step (ddiv (sr_minimum_notional_usdt r) m) (sr_quantity_step r) = Inr mn"
    "minimum = dmax (sr_minimum_quantity r) mn" "minimum \<le> sd_local_quantity d"
    "floor_to_step (dmin desired capacity) (sr_quantity_step r) = Inr (sd_local_quantity d)"
    "floor_to_step (ddiv (available * dec_int (sd_leverage d)) m) (sr_quantity_step r) = Inr capacity"
    "sd_local_notional_usdt d = sd_local_quantity d * m"
    "sr_minimum_notional_usdt r \<le> sd_local_notional_usdt d"
    "sr_minimum_quantity r \<le> sd_local_quantity d"
    "sd_committed_margin_usdt d = ddiv (sd_local_notional_usdt d) (dec_int (sd_leverage d))"
    "sd_committed_margin_usdt d \<le> available" "sd_reason_codes d = []"
    "0 < pu_symbol_committed_margin_usdt u \<longrightarrow> sr_current_leverage r \<le> sd_leverage d"
proof -
  obtain reason available where mc: "margin_capacity p u = (reason, available)" by fastforce
  define lev where "lev = min (ap_maximum_leverage p) (sr_exchange_maximum_leverage r)"
  from assms mc obtain mn cp where
    guards: "sg_kind sg = INCREASE" "sg_lead_portfolio_id sg = la_lead_portfolio_id l"
      "\<not> m \<le> 0" "\<not> available \<le> 0" "\<not> (0 < pu_symbol_committed_margin_usdt u \<and> lev < sr_current_leverage r)"
    and mn: "ceil_to_step (ddiv (sr_minimum_notional_usdt r) m) (sr_quantity_step r) = Inr mn"
    and cp: "floor_to_step (ddiv (available * dec_int lev) m) (sr_quantity_step r) = Inr cp"
    and q: "floor_to_step (dmin (dmin (dmax (ddiv (sg_source_delta_quantity sg * sg_reference_price sg
        * dec_int (la_follow_multiplier l)) m) (dmax (sr_minimum_quantity r) mn)) (sr_maximum_quantity r)) cp)
        (sr_quantity_step r) = Inr (sd_local_quantity d)"
    and d: "sd_leverage d = lev" "sd_local_notional_usdt d = sd_local_quantity d * m"
      "sd_committed_margin_usdt d = ddiv (sd_local_notional_usdt d) (dec_int lev)" "sd_reason_codes d = []"
      "\<not> sd_local_quantity d < dmax (sr_minimum_quantity r) mn"
      "\<not> sd_local_quantity d < sr_minimum_quantity r"
      "\<not> sd_local_notional_usdt d < sr_minimum_notional_usdt r"
      "\<not> available < sd_committed_margin_usdt d"
    unfolding lev_def
    by (auto simp: size_increase_def Let_def rejected_size_def split: if_splits)
  show thesis
    by (rule that [OF mc, where desired = "dmin (dmax (ddiv (sg_source_delta_quantity sg
        * sg_reference_price sg * dec_int (la_follow_multiplier l)) m)
        (dmax (sr_minimum_quantity r) mn)) (sr_maximum_quantity r)"
        and capacity = cp and minimum = "dmax (sr_minimum_quantity r) mn"])
      (use guards mn cp q d in \<open>auto simp: decimal_le_val decimal_less_val dval_dmin dval_dmax lev_def not_le not_less\<close>)
qed

text \<open>All money amounts that enter the capacity computation lie on a common decimal grid.\<close>

definition money_grid :: "int \<Rightarrow> allocation_policy \<Rightarrow> portfolio_usage \<Rightarrow> bool" where
  "money_grid e p u \<longleftrightarrow> grid e (ap_entry_allocation_usdt p) \<and> grid e (ap_reserve_usdt p)
     \<and> grid e (pu_total_committed_margin_usdt u) \<and> grid e (account_available_balance u)
     \<and> (case pu_configured_entry_margin_usdt u of None \<Rightarrow> True | Some c \<Rightarrow> grid e c)"

lemma grid_entry_capacity: "money_grid e p u \<Longrightarrow> grid e (account_entry_capacity p u)"
  by (auto simp: money_grid_def account_entry_capacity_def intro!: grid_dmin split: option.splits)

lemma entry_capacity_le: "dval (account_entry_capacity p u) \<le> dval (ap_entry_allocation_usdt p)"
  by (simp add: account_entry_capacity_def dval_dmin)

section \<open>Properties of the allocator\<close>

text \<open>C4: margin safety. An approved entry commits no more than the per-order cap, keeps the
  committed total within the shared entry ceiling (the policy's, or the smaller configured one),
  and leaves the reserve of the available balance untouched.\<close>

theorem approved_margin_within_limits:
  assumes "size_increase p sg m l u r = Inr d" "sd_approved d" "money_grid e p u"
  shows "dval (sd_committed_margin_usdt d) \<le> dval (ap_maximum_order_margin_usdt p)
    \<and> dval (pu_total_committed_margin_usdt u) + dval (sd_committed_margin_usdt d)
        \<le> dval (account_entry_capacity p u)
    \<and> dval (account_entry_capacity p u) \<le> dval (ap_entry_allocation_usdt p)
    \<and> dval (ap_reserve_usdt p) + dval (sd_committed_margin_usdt d) \<le> dval (account_available_balance u)"
proof -
  obtain reason available where a: "margin_capacity p u = (reason, available)"
    "sd_committed_margin_usdt d \<le> available"
    using size_increase_approvedE [OF assms(1,2)] by metis
  have g: "grid e (ap_reserve_usdt p)" "grid e (pu_total_committed_margin_usdt u)"
    "grid e (account_available_balance u)" using assms(3) by (simp_all add: money_grid_def)
  note le = margin_capacity_le [of p u, unfolded a(1) snd_conv decimal_le_val]
  have "dval (account_entry_capacity p u - pu_total_committed_margin_usdt u)
      = dval (account_entry_capacity p u) - dval (pu_total_committed_margin_usdt u)"
    using dval_minus_grid [OF grid_entry_capacity [OF assms(3)] g(2)] .
  moreover have "dval (account_available_balance u - ap_reserve_usdt p)
      = dval (account_available_balance u) - dval (ap_reserve_usdt p)"
    using dval_minus_grid [OF g(3,1)] .
  ultimately show ?thesis
    using le a(2) entry_capacity_le [of p u] by (simp add: decimal_le_val)
qed

text \<open>Quantity safety. Under valid exchange rules whose quantity limits fit the context's
  precision, an approved quantity is a whole number of quantity steps (as the context rounds their
  product), lies within the exchange's quantity limits, meets the minimum notional, and does not
  exceed the leader's fill value times the multiplier unless the exchange minimum forces it.\<close>

theorem approved_quantity_within_rules:
  assumes "size_increase p sg m l u r = Inr d" "sd_approved d" "rules_ok r"
    "exact28 (dval (sr_minimum_quantity r))" "exact28 (dval (sr_maximum_quantity r))"
  shows "dval (sr_minimum_quantity r) \<le> dval (sd_local_quantity d)
    \<and> dval (sd_local_quantity d) \<le> dval (sr_maximum_quantity r)
    \<and> dval (sr_minimum_notional_usdt r) \<le> dval (sd_local_quantity d * m)
    \<and> (\<exists>k \<ge> 0. dval (sd_local_quantity d) = rnd (of_int k * dval (sr_quantity_step r)))
    \<and> (dval (sd_local_quantity d) \<le> dval (ddiv (sg_source_delta_quantity sg * sg_reference_price sg
          * dec_int (la_follow_multiplier l)) m)
       \<or> (\<exists>c. ceil_to_step (ddiv (sr_minimum_notional_usdt r) m) (sr_quantity_step r) = Inr c
            \<and> dval (sd_local_quantity d) = dval (dmax (sr_minimum_quantity r) c)))"
proof -
  note s = rules_ok_pos [OF assms(3)]
  let ?t = "ddiv (sg_source_delta_quantity sg * sg_reference_price sg * dec_int (la_follow_multiplier l)) m"
  let ?q = "sd_local_quantity d"
  obtain desired capacity available minimum mn where f: "0 < dval m"
    "desired = dmin (dmax ?t minimum) (sr_maximum_quantity r)"
    "ceil_to_step (ddiv (sr_minimum_notional_usdt r) m) (sr_quantity_step r) = Inr mn"
    "minimum = dmax (sr_minimum_quantity r) mn" "minimum \<le> ?q"
    "floor_to_step (dmin desired capacity) (sr_quantity_step r) = Inr ?q"
    "floor_to_step (ddiv (available * dec_int (sd_leverage d)) m) (sr_quantity_step r) = Inr capacity"
    "sd_local_notional_usdt d = ?q * m"
    "sr_minimum_notional_usdt r \<le> sd_local_notional_usdt d"
    "sr_minimum_quantity r \<le> ?q"
    by (rule size_increase_approvedE [OF assms(1,2)])
  have "exact28 (dval ?t)" using f(1) by (subst dval_ddiv) (auto simp: exact28_rnd dcoeff_eq_0_iff)
  moreover have "exact28 (dval minimum)"
    using f(3,4) s(1) assms(4) by (auto intro: exact28_dmax ceil_to_step_exact)
  ultimately have "exact28 (dval (dmin desired capacity))"
    using f(2,7) s(1) assms(5) by (auto intro!: exact28_dmin exact28_dmax dest: floor_to_step_exact)
  with f(6) s(1) have "dval ?q \<le> max 0 (dval (dmin desired capacity))" by (rule floor_to_step_le)
  moreover have "0 < dval ?q" using f(10) s(2) by (simp add: decimal_le_val)
  ultimately have "dval ?q \<le> dval desired" by (simp add: dval_dmin max_def split: if_splits)
  then have q: "dval ?q \<le> dval (sr_maximum_quantity r)" "dval ?q \<le> max (dval ?t) (dval minimum)"
    using f(2) by (simp_all add: dval_dmin dval_dmax)
  have "dval ?q \<le> dval ?t \<or> dval ?q = dval minimum"
    using q(2) f(5) by (auto simp: decimal_le_val max_def split: if_splits)
  moreover have "\<exists>k \<ge> 0. dval ?q = rnd (of_int k * dval (sr_quantity_step r))"
    using floor_to_step_value [OF f(6) s(1)] steps_nonneg [OF s(1)] by blast
  ultimately show ?thesis using q(1) f(3,4,8,9,10) by (auto simp: decimal_le_val)
qed

text \<open>Every decision of the allocator is either an approval or a rejection that names exactly
  one reason and carries zero quantity, notional and margin; an approval has no reason code, and
  its leverage is the smaller of the policy's and the exchange's maximum, between 1 and 125, and
  never below the symbol's current leverage while the symbol carries exposure.\<close>

theorem size_decision_shape:
  assumes "size_increase p sg m l u r = Inr d" "policy_ok p" "rules_ok r"
  shows "(sd_approved d \<and> sd_reason_codes d = [] \<and> 1 \<le> sd_leverage d \<and> sd_leverage d \<le> 125
      \<and> sd_leverage d = min (ap_maximum_leverage p) (sr_exchange_maximum_leverage r)
      \<and> (0 < pu_symbol_committed_margin_usdt u \<longrightarrow> sr_current_leverage r \<le> sd_leverage d))
    \<or> (\<exists>reason lev. d = rejected_size reason lev)"
proof (cases "sd_approved d")
  case True
  obtain "sd_leverage d = min (ap_maximum_leverage p) (sr_exchange_maximum_leverage r)"
    "sd_reason_codes d = []" "0 < pu_symbol_committed_margin_usdt u \<longrightarrow> sr_current_leverage r \<le> sd_leverage d"
    by (rule size_increase_approvedE [OF assms(1) True])
  with True policy_ok_leverage [OF assms(2)] rules_ok_pos(7,8) [OF assms(3)] show ?thesis by auto
next
  case False
  with assms(1) show ?thesis
    by (auto simp: size_increase_def Let_def split: if_splits prod.splits)
qed

section \<open>A concrete entry\<close>

definition sample_signal :: normalized_signal where
  "sample_signal = \<lparr>sg_signal_id = ''s1'', sg_source_event_key = ''e1'', sg_source_identity_key = ''i1'',
     sg_lead_portfolio_id = ''4001'', sg_symbol = ''BTCUSDT'', sg_position_side = LONG,
     sg_kind = INCREASE, sg_source_delta_quantity = Dec False 2 (- 3),
     sg_source_cumulative_quantity = Dec False 2 (- 3), sg_reference_price = dec 20000,
     sg_occurred_at_ms = 1700000000000\<rparr>"

definition sample_rules :: symbol_rules where
  "sample_rules = \<lparr>sr_quantity_step = Dec False 1 (- 3), sr_minimum_quantity = Dec False 1 (- 3),
     sr_maximum_quantity = dec 1000, sr_minimum_notional_usdt = dec 5,
     sr_exchange_maximum_leverage = 125, sr_current_leverage = 20, sr_price_tick = Dec False 1 (- 1)\<rparr>"

definition sample_usage :: portfolio_usage where
  "sample_usage = \<lparr>pu_account_equity_usdt = dec 150, pu_total_committed_margin_usdt = dec 10,
     pu_leader_committed_margin_usdt = dec 10, pu_symbol_committed_margin_usdt = dec 0,
     pu_account_available_balance_usdt = None, pu_configured_entry_margin_usdt = Some (dec 60)\<rparr>"

definition sample_leader :: leader_allocation where
  "sample_leader = \<lparr>la_lead_portfolio_id = ''4001'', la_source_aum_usdt = dec 100000,
     la_portfolio_weight = dec 1, la_follow_multiplier = 3\<rparr>"

lemma sample_entry:
  "\<exists>d. size_increase default_allocation_policy sample_signal (dec 20000) sample_leader sample_usage
       sample_rules = Inr d \<and> sd_approved d"
proof -
  have "case size_increase default_allocation_policy sample_signal (dec 20000) sample_leader sample_usage
       sample_rules of Inl e \<Rightarrow> False | Inr d \<Rightarrow> sd_approved d" by code_simp
  then show ?thesis by (simp split: sum.splits)
qed

lemma sample_premises: "rules_ok sample_rules" "policy_ok default_allocation_policy"
  "money_grid 0 default_allocation_policy sample_usage"
  by code_simp+

theorem approved_margin_within_limits_witness:
  "\<exists>d. size_increase default_allocation_policy sample_signal (dec 20000) sample_leader sample_usage
       sample_rules = Inr d \<and> sd_approved d
     \<and> dval (sd_committed_margin_usdt d) \<le> dval (ap_maximum_order_margin_usdt default_allocation_policy)"
  using sample_entry approved_margin_within_limits [OF _ _ sample_premises(3)] by blast

theorem approved_quantity_within_rules_witness:
  "\<exists>d. size_increase default_allocation_policy sample_signal (dec 20000) sample_leader sample_usage
       sample_rules = Inr d \<and> sd_approved d
     \<and> dval (sr_minimum_quantity sample_rules) \<le> dval (sd_local_quantity d)
     \<and> dval (sd_local_quantity d) \<le> dval (sr_maximum_quantity sample_rules)"
proof -
  have "exact28 (dval (sr_minimum_quantity sample_rules))" "exact28 (dval (sr_maximum_quantity sample_rules))"
    by (rule exact28_dec, simp add: sample_rules_def)+
  with sample_entry approved_quantity_within_rules [OF _ _ sample_premises(1)] show ?thesis by blast
qed

theorem size_decision_shape_witness:
  "\<exists>d. size_increase default_allocation_policy sample_signal (dec 20000) sample_leader sample_usage
       sample_rules = Inr d \<and> (sd_approved d \<or> (\<exists>reason lev. d = rejected_size reason lev))"
  using sample_entry size_decision_shape [OF _ sample_premises(2,1)] by blast

end
