(* ===== verification/Ledger.thy ===== *)
theory Ledger
  imports Allocation
begin

text \<open>
  \<open>copy_trading/ledger.py\<close>: the virtual positions of each leader over the exchange-level
  aggregate, the planning of a reduction, the recording of fills and the reconciliation with the
  exchange. The ledger object is the association list of its dictionary; each method returns its
  result together with the ledger it leaves, also when it raises.
\<close>

section \<open>Positions and the ledger\<close>

record virtual_position_key =
  vk_lead_portfolio_id :: string
  vk_symbol :: string
  vk_position_side :: position_side

record virtual_position =
  vp_key :: virtual_position_key
  vp_local_quantity :: decimal
  vp_observed_source_quantity :: decimal

definition virtual_position_check :: "virtual_position \<Rightarrow> virtual_position result" where
  "virtual_position_check p = (if dmin (vp_local_quantity p) (vp_observed_source_quantity p) < 0
     then Inl (ValueError ''copy virtual quantities cannot be negative'') else Inr p)"

record reduction_plan =
  rp_approved :: bool
  rp_key :: virtual_position_key
  rp_requested_local_quantity :: decimal
  rp_attributed_source_quantity :: decimal
  rp_closes_virtual_position :: bool
  rp_reason_codes :: "string list"

record aggregate_mismatch =
  am_symbol :: string
  am_position_side :: position_side
  am_virtual_quantity :: decimal
  am_exchange_quantity :: decimal

type_synonym ledger = "(virtual_position_key, virtual_position) dict"

fun load_positions :: "virtual_position list \<Rightarrow> ledger \<Rightarrow> ledger result" where
  "load_positions [] l = Inr l"
| "load_positions (p # ps) l = (case map_of l (vp_key p) of
     Some _ \<Rightarrow> Inl (ValueError ''duplicate copy virtual position key'')
   | None \<Rightarrow> load_positions ps (AList.update (vp_key p) p l))"

definition new_ledger :: "virtual_position list \<Rightarrow> ledger result" where
  "new_ledger ps = load_positions ps []"

definition key_for :: "normalized_signal \<Rightarrow> virtual_position_key" where
  "key_for s = \<lparr>vk_lead_portfolio_id = sg_lead_portfolio_id s, vk_symbol = sg_symbol s,
     vk_position_side = sg_position_side s\<rparr>"

definition empty_position :: "virtual_position_key \<Rightarrow> virtual_position" where
  "empty_position k = \<lparr>vp_key = k, vp_local_quantity = 0, vp_observed_source_quantity = 0\<rparr>"

definition position_at :: "ledger \<Rightarrow> virtual_position_key \<Rightarrow> virtual_position" where
  "position_at l k = dict_get l k (empty_position k)"

definition position_for :: "ledger \<Rightarrow> normalized_signal \<Rightarrow> virtual_position" where
  "position_for l s = position_at l (key_for s)"

section \<open>Operations\<close>

text \<open>\<open>self._positions[k] = VirtualPosition(...)\<close>: nothing is stored when the constructor raises.\<close>

definition store :: "virtual_position_key \<Rightarrow> virtual_position \<Rightarrow> ledger \<Rightarrow> virtual_position result \<times> ledger" where
  "store k p l = (case virtual_position_check p of Inl e \<Rightarrow> (Inl e, l)
     | Inr q \<Rightarrow> (Inr q, AList.update k q l))"

text \<open>\<open>attributed or default\<close>: a missing quantity and a zero quantity are both falsy.\<close>

definition or_else :: "decimal option \<Rightarrow> decimal \<Rightarrow> decimal" where
  "or_else o0 d = (case o0 of None \<Rightarrow> d | Some q \<Rightarrow> if dcoeff q = 0 then d else q)"

definition record_increase_fill ::
  "normalized_signal \<Rightarrow> decimal \<Rightarrow> decimal option \<Rightarrow> ledger \<Rightarrow> virtual_position result \<times> ledger" where
  "record_increase_fill s filled attributed l =
    (if sg_kind s \<noteq> INCREASE \<or> filled \<le> 0 then (Inl (ValueError ''copy increase fill is invalid''), l)
     else let source_quantity = or_else attributed (sg_source_delta_quantity s) in
       if \<not> (0 < source_quantity \<and> source_quantity \<le> sg_source_delta_quantity s)
       then (Inl (ValueError ''copy attributed source increase is invalid''), l)
       else let current = position_for l s in
         store (vp_key current) \<lparr>vp_key = vp_key current,
           vp_local_quantity = vp_local_quantity current + filled,
           vp_observed_source_quantity = vp_observed_source_quantity current + source_quantity\<rparr> l)"

definition rejected_reduction :: "virtual_position_key \<Rightarrow> string \<Rightarrow> reduction_plan" where
  "rejected_reduction k reason = \<lparr>rp_approved = False, rp_key = k, rp_requested_local_quantity = 0,
     rp_attributed_source_quantity = 0, rp_closes_virtual_position = False, rp_reason_codes = [reason]\<rparr>"

text \<open>The part of the planning after the position is known: it reads no state.\<close>

definition plan_for_position ::
  "virtual_position_key \<Rightarrow> virtual_position \<Rightarrow> normalized_signal \<Rightarrow> symbol_rules \<Rightarrow> reduction_plan result" where
  "plan_for_position key current s rules =
    (let owned = vp_local_quantity current; observed = vp_observed_source_quantity current;
         delta = sg_source_delta_quantity s in
     if owned \<le> 0 then Inr (rejected_reduction key ''COPY_REDUCTION_ORPHAN'')
     else rbind
       (if observed \<le> 0 then Inr (delta, True, owned)
        else let source_reduction = dmin delta observed; closes = (observed \<le> delta) in
          if closes then Inr (source_reduction, closes, owned)
          else rbind (decimal_truediv source_reduction observed) (\<lambda>ratio.
            Inr (source_reduction, closes, owned * ratio)))
       (\<lambda>(source_reduction, closes, raw).
        rbind (if closes then Inr owned
               else rbind (floor_to_step raw (sr_quantity_step rules)) (\<lambda>f.
                 Inr (dmax (sr_quantity_step rules) f)))
          (\<lambda>wanted.
           let local_reduction = dmin wanted owned in
           if local_reduction \<le> 0
           then Inr (rejected_reduction key ''COPY_REDUCTION_BELOW_EXCHANGE_STEP'')
           else Inr \<lparr>rp_approved = True, rp_key = key, rp_requested_local_quantity = local_reduction,
             rp_attributed_source_quantity = source_reduction,
             rp_closes_virtual_position = deq local_reduction owned, rp_reason_codes = []\<rparr>)))"

definition plan_reduction ::
  "normalized_signal \<Rightarrow> symbol_rules \<Rightarrow> decimal option \<Rightarrow> ledger \<Rightarrow> reduction_plan result \<times> ledger" where
  "plan_reduction s rules source_position_quantity l =
    (let key = key_for s in
     if sg_kind s \<noteq> REDUCE then (Inr (rejected_reduction key ''COPY_REDUCTION_NOT_A_REDUCTION''), l)
     else let current = position_for l s in
       case source_position_quantity of
         None \<Rightarrow> (plan_for_position key current s rules, l)
       | Some source \<Rightarrow>
           if source < 0
           then (Inr (rejected_reduction key ''COPY_SOURCE_POSITION_QUANTITY_INVALID''), l)
           else (case store key (current\<lparr>vp_observed_source_quantity := source\<rparr>) l of
               (Inl e, l') \<Rightarrow> (Inl e, l')
             | (Inr p, l') \<Rightarrow> (plan_for_position key p s rules, l')))"

definition record_reduction_fill ::
  "reduction_plan \<Rightarrow> decimal \<Rightarrow> ledger \<Rightarrow> virtual_position result \<times> ledger" where
  "record_reduction_fill plan filled l =
    (if \<not> rp_approved plan \<or> \<not> (0 < filled \<and> filled \<le> rp_requested_local_quantity plan)
     then (Inl (ValueError ''copy reduction fill is invalid''), l)
     else case map_of l (rp_key plan) of
       None \<Rightarrow> (Inl (ValueError ''copy reduction exceeds leader-owned position''), l)
     | Some current \<Rightarrow>
         if vp_local_quantity current < filled
         then (Inl (ValueError ''copy reduction exceeds leader-owned position''), l)
         else case decimal_truediv filled (rp_requested_local_quantity plan) of
           Inl e \<Rightarrow> (Inl e, l)
         | Inr fill_ratio \<Rightarrow>
             let source_reduction = dmin (vp_observed_source_quantity current)
                   (rp_attributed_source_quantity plan * fill_ratio);
                 remaining_local = vp_local_quantity current - filled;
                 remaining_source = vp_observed_source_quantity current - source_reduction
             in store (vp_key current) \<lparr>vp_key = vp_key current, vp_local_quantity = remaining_local,
                  vp_observed_source_quantity = (if deq remaining_local 0 then 0 else remaining_source)\<rparr> l)"

definition aggregate_quantity :: "ledger \<Rightarrow> string \<Rightarrow> position_side \<Rightarrow> decimal" where
  "aggregate_quantity l symbol side = dsum (map vp_local_quantity
     (filter (\<lambda>p. vk_symbol (vp_key p) = symbol \<and> vk_position_side (vp_key p) = side) (map snd l)))"

text \<open>The set of keys of the source is sorted by symbol and side before it is visited.\<close>

definition reconcile_keys ::
  "ledger \<Rightarrow> (string \<times> position_side, decimal) dict \<Rightarrow> (string \<times> position_side) list" where
  "reconcile_keys l exchange = sort_key (\<lambda>(symbol, side). (symbol, position_side_value side))
     (remdups (map (\<lambda>p. (vk_symbol (vp_key p), vk_position_side (vp_key p)))
        (filter (\<lambda>p. 0 < vp_local_quantity p) (map snd l)) @ map fst exchange))"

definition mismatch_at :: "ledger \<Rightarrow> (string \<times> position_side, decimal) dict \<Rightarrow> decimal
    \<Rightarrow> string \<times> position_side \<Rightarrow> aggregate_mismatch list" where
  "mismatch_at l exchange tolerance = (\<lambda>(symbol, side).
     let virtual = aggregate_quantity l symbol side; ex = dict_get exchange (symbol, side) 0 in
     if tolerance < dabs (virtual - ex)
     then [\<lparr>am_symbol = symbol, am_position_side = side, am_virtual_quantity = virtual,
       am_exchange_quantity = ex\<rparr>] else [])"

definition reconcile_aggregate :: "ledger \<Rightarrow> (string \<times> position_side, decimal) dict \<Rightarrow> decimal
    \<Rightarrow> aggregate_mismatch list result" where
  "reconcile_aggregate l exchange tolerance =
    (if tolerance < 0 then Inl (ValueError ''copy reconciliation tolerance cannot be negative'')
     else Inr (concat (map (mismatch_at l exchange tolerance) (reconcile_keys l exchange))))"

definition snapshot_key :: "virtual_position \<Rightarrow> string \<times> string \<times> string" where
  "snapshot_key p = (vk_lead_portfolio_id (vp_key p), vk_symbol (vp_key p),
     position_side_value (vk_position_side (vp_key p)))"

definition ledger_snapshot :: "ledger \<Rightarrow> virtual_position list" where
  "ledger_snapshot l = sort_key snapshot_key (map snd l)"

definition exchange_order_side :: "normalized_signal \<Rightarrow> string" where
  "exchange_order_side s = (case sg_position_side s of
     LONG \<Rightarrow> if sg_kind s = INCREASE then ''BUY'' else ''SELL''
   | SHORT \<Rightarrow> if sg_kind s = INCREASE then ''SELL'' else ''BUY'')"

section \<open>The ledger invariant\<close>

definition position_ok :: "virtual_position \<Rightarrow> bool" where
  "position_ok p \<longleftrightarrow> 0 \<le> vp_local_quantity p \<and> 0 \<le> vp_observed_source_quantity p"

definition ledger_inv :: "ledger \<Rightarrow> bool" where
  "ledger_inv l \<longleftrightarrow> dict_ok l \<and> list_all (\<lambda>(k, p). vp_key p = k \<and> position_ok p) l"

lemma position_check_ok: "virtual_position_check p = Inr q \<longleftrightarrow> q = p \<and> position_ok p"
  by (auto simp: virtual_position_check_def position_ok_def decimal_simps not_less)

lemma ledger_inv_lookup: "ledger_inv l \<Longrightarrow> map_of l k = Some p \<Longrightarrow> vp_key p = k \<and> position_ok p"
  by (auto simp: ledger_inv_def list_all_iff dest: map_of_SomeD)

lemma position_at_ok: "ledger_inv l \<Longrightarrow> vp_key (position_at l k) = k \<and> position_ok (position_at l k)"
  by (cases "map_of l k") (auto simp: position_at_def dict_get_def empty_position_def position_ok_def
      decimal_simps dest: ledger_inv_lookup)

lemma store_inv: "ledger_inv l \<Longrightarrow> vp_key p = k \<Longrightarrow> ledger_inv (snd (store k p l))"
  by (auto simp: store_def ledger_inv_def position_check_ok split: sum.splits)

lemma store_view: "vp_key p = k
  \<Longrightarrow> position_at (snd (store k p l)) k' = (if k' = k \<and> position_ok p then p else position_at l k')"
  by (cases "virtual_position_check p")
    (auto simp: store_def position_at_def position_check_ok virtual_position_check_def position_ok_def
      decimal_simps not_less split: if_splits)

lemma load_positions_inv:
  assumes "ledger_inv l" "list_all position_ok ps" "load_positions ps l = Inr l'"
  shows "ledger_inv l'"
  using assms
proof (induction ps arbitrary: l)
  case (Cons p ps)
  then have "ledger_inv (AList.update (vp_key p) p l)" by (auto simp: ledger_inv_def)
  with Cons show ?case by (auto split: option.splits)
qed simp

section \<open>Operations as commands on the ledger\<close>

datatype ledger_op =
    IncreaseFill normalized_signal decimal "decimal option"
  | PlanReduction normalized_signal symbol_rules "decimal option"
  | ReductionFill reduction_plan decimal

fun ledger_step :: "ledger_op \<Rightarrow> ledger \<Rightarrow> (virtual_position result + reduction_plan result) \<times> ledger" where
  "ledger_step (IncreaseFill s q a) l = (case record_increase_fill s q a l of (r, l') \<Rightarrow> (Inl r, l'))"
| "ledger_step (PlanReduction s r o0) l = (case plan_reduction s r o0 l of (p, l') \<Rightarrow> (Inr p, l'))"
| "ledger_step (ReductionFill p q) l = (case record_reduction_fill p q l of (r, l') \<Rightarrow> (Inl r, l'))"

fun op_key :: "ledger_op \<Rightarrow> virtual_position_key" where
  "op_key (IncreaseFill s q a) = key_for s"
| "op_key (PlanReduction s r o0) = key_for s"
| "op_key (ReductionFill p q) = rp_key p"

definition ledger_run :: "ledger_op list \<Rightarrow> ledger \<Rightarrow> ledger" where
  "ledger_run cs l = fold (\<lambda>c s. snd (ledger_step c s)) cs l"

text \<open>What a command leaves at its own key, as a function of the position found there.\<close>

definition increase_effect :: "normalized_signal \<Rightarrow> decimal \<Rightarrow> decimal option \<Rightarrow> virtual_position \<Rightarrow> virtual_position" where
  "increase_effect s q a p = (let src = or_else a (sg_source_delta_quantity s) in
     if sg_kind s = INCREASE \<and> 0 < q \<and> 0 < src \<and> src \<le> sg_source_delta_quantity s
     then p\<lparr>vp_local_quantity := vp_local_quantity p + q,
       vp_observed_source_quantity := vp_observed_source_quantity p + src\<rparr> else p)"

definition plan_effect :: "normalized_signal \<Rightarrow> decimal option \<Rightarrow> virtual_position \<Rightarrow> virtual_position" where
  "plan_effect s o0 p = (case o0 of
     Some q \<Rightarrow> if sg_kind s = REDUCE \<and> 0 \<le> q then p\<lparr>vp_observed_source_quantity := q\<rparr> else p
   | None \<Rightarrow> p)"

definition reduction_effect :: "reduction_plan \<Rightarrow> decimal \<Rightarrow> virtual_position \<Rightarrow> virtual_position" where
  "reduction_effect plan q p =
    (if rp_approved plan \<and> 0 < q \<and> q \<le> rp_requested_local_quantity plan \<and> q \<le> vp_local_quantity p
     then let left = vp_local_quantity p - q in p\<lparr>vp_local_quantity := left,
       vp_observed_source_quantity := (if deq left 0 then 0 else vp_observed_source_quantity p
         - dmin (vp_observed_source_quantity p) (rp_attributed_source_quantity plan
             * ddiv q (rp_requested_local_quantity plan)))\<rparr>
     else p)"

fun op_effect :: "ledger_op \<Rightarrow> virtual_position \<Rightarrow> virtual_position" where
  "op_effect (IncreaseFill s q a) p = increase_effect s q a p"
| "op_effect (PlanReduction s r o0) p = plan_effect s o0 p"
| "op_effect (ReductionFill plan q) p = reduction_effect plan q p"

lemma position_ok_val: "position_ok p \<longleftrightarrow> 0 \<le> dval (vp_local_quantity p) \<and> 0 \<le> dval (vp_observed_source_quantity p)"
  by (simp add: position_ok_def decimal_simps)

lemma increase_effect_ok: "position_ok p \<Longrightarrow> position_ok (increase_effect s q a p)"
  by (simp add: increase_effect_def Let_def position_ok_val decimal_simps half_even.nonneg)

lemma plan_effect_ok: "position_ok p \<Longrightarrow> position_ok (plan_effect s o0 p)"
  by (auto simp: plan_effect_def position_ok_val decimal_simps split: option.splits)

lemma reduction_effect_ok: "position_ok p \<Longrightarrow> position_ok (reduction_effect plan q p)"
  by (auto simp: reduction_effect_def Let_def position_ok_val decimal_simps intro!: half_even.nonneg)

lemma op_effect_ok: "position_ok p \<Longrightarrow> position_ok (op_effect c p)"
  by (cases c) (simp_all add: increase_effect_ok plan_effect_ok reduction_effect_ok)

lemma effect_key [simp]: "vp_key (op_effect c p) = vp_key p"
  by (cases c) (auto simp: increase_effect_def plan_effect_def reduction_effect_def Let_def split: option.splits)

lemma position_at_cases:
  assumes "ledger_inv l"
  obtains x y where "position_at l k = \<lparr>vp_key = k, vp_local_quantity = x, vp_observed_source_quantity = y\<rparr>"
    "0 \<le> dval x" "0 \<le> dval y"
  using position_at_ok [OF assms, of k] by (cases "position_at l k") (auto simp: position_ok_val)

lemma increase_inv: "ledger_inv l \<Longrightarrow> ledger_inv (snd (record_increase_fill s q a l))"
  by (auto simp: record_increase_fill_def Let_def intro!: store_inv)

lemma increase_view:
  assumes "ledger_inv l"
  shows "position_at (snd (record_increase_fill s q a l)) k
    = (if k = key_for s then increase_effect s q a (position_at l k) else position_at l k)"
proof -
  obtain x y where p: "position_at l (key_for s) = \<lparr>vp_key = key_for s, vp_local_quantity = x,
    vp_observed_source_quantity = y\<rparr>" "0 \<le> dval x" "0 \<le> dval y"
    using position_at_cases [OF assms] .
  then have "position_ok (increase_effect s q a \<lparr>vp_key = key_for s, vp_local_quantity = x,
    vp_observed_source_quantity = y\<rparr>)"
    by (intro increase_effect_ok) (simp add: position_ok_val)
  with p show ?thesis
    by (auto simp: record_increase_fill_def position_for_def increase_effect_def store_view Let_def
        decimal_simps not_le not_less split: if_splits)
qed

lemma plan_inv: "ledger_inv l \<Longrightarrow> ledger_inv (snd (plan_reduction s r o0 l))"
  using store_inv [of l "(position_for l s)\<lparr>vp_observed_source_quantity := the o0\<rparr>" "key_for s"]
    position_at_ok [of l "key_for s"]
  by (auto simp: plan_reduction_def Let_def position_for_def split: option.splits prod.splits sum.splits)

lemma plan_view:
  assumes "ledger_inv l"
  shows "position_at (snd (plan_reduction s r o0 l)) k
    = (if k = key_for s then plan_effect s o0 (position_at l k) else position_at l k)"
proof -
  obtain x y where p: "position_at l (key_for s) = \<lparr>vp_key = key_for s, vp_local_quantity = x,
    vp_observed_source_quantity = y\<rparr>" "0 \<le> dval x" "0 \<le> dval y"
    using position_at_cases [OF assms] .
  have v: "position_at (snd (store (key_for s) \<lparr>vp_key = key_for s, vp_local_quantity = x,
      vp_observed_source_quantity = q\<rparr> l)) k = (if k = key_for s \<and> 0 \<le> dval q
      then \<lparr>vp_key = key_for s, vp_local_quantity = x, vp_observed_source_quantity = q\<rparr>
      else position_at l k)" for q
    by (subst store_view) (use p in \<open>auto simp: position_ok_val\<close>)
  show ?thesis
  proof (cases o0)
    case None
    then show ?thesis by (simp add: plan_reduction_def plan_effect_def Let_def)
  next
    case (Some q)
    then show ?thesis using p(1) v [of q]
      by (cases "sg_kind s")
        (auto simp: plan_reduction_def plan_effect_def Let_def position_for_def decimal_simps not_less
          split: prod.splits sum.splits)
  qed
qed

lemma reduction_inv: "ledger_inv l \<Longrightarrow> ledger_inv (snd (record_reduction_fill plan q l))"
  by (auto simp: record_reduction_fill_def Let_def intro!: store_inv split: option.splits sum.splits)

lemma reduction_view:
  assumes "ledger_inv l"
  shows "position_at (snd (record_reduction_fill plan q l)) k
    = (if k = rp_key plan then reduction_effect plan q (position_at l k) else position_at l k)"
proof (cases "map_of l (rp_key plan)")
  case None
  then have "position_at l (rp_key plan) = empty_position (rp_key plan)"
    by (simp add: position_at_def dict_get_def)
  with None show ?thesis
    by (auto simp: record_reduction_fill_def reduction_effect_def empty_position_def decimal_simps)
next
  case (Some p)
  then have at: "position_at l (rp_key plan) = p" by (simp add: position_at_def dict_get_def)
  with assms have p: "vp_key p = rp_key plan" "position_ok p" using position_at_ok by metis+
  then have "position_ok (reduction_effect plan q p)" by (simp add: reduction_effect_ok)
  with Some at p show ?thesis
    by (cases p) (auto simp: record_reduction_fill_def reduction_effect_def store_view Let_def
        decimal_simps decimal_truediv_def dcoeff_eq_0_iff not_le not_less split: if_splits)
qed

lemma ledger_step_inv: "ledger_inv l \<Longrightarrow> ledger_inv (snd (ledger_step c l))"
  using increase_inv plan_inv reduction_inv by (cases c) (auto split: prod.splits, (metis snd_conv)+)

lemma ledger_step_view:
  "ledger_inv l \<Longrightarrow> position_at (snd (ledger_step c l)) k
    = (if k = op_key c then op_effect c (position_at l k) else position_at l k)"
  using increase_view [of l] plan_view [of l] reduction_view [of l]
  by (cases c) (simp_all add: split_beta)

interpretation positions: effect_state ledger_step op_key position_at ledger_inv op_effect
  by unfold_locales (simp_all add: ledger_step_inv ledger_step_view)

section \<open>Properties of the ledger\<close>

text \<open>A ledger built from stored positions keeps one position per key, filed under its own
  key, with non-negative local and source quantities, through every sequence of increase fills,
  reduction plans and reduction fills, whichever of them raise.\<close>

theorem ledger_stays_wellformed:
  assumes "new_ledger ps = Inr l" "list_all position_ok ps"
  shows "ledger_inv (ledger_run cs l)"
proof -
  have "ledger_inv []" by (simp add: ledger_inv_def)
  with assms have "ledger_inv l" unfolding new_ledger_def by (metis load_positions_inv)
  then show ?thesis unfolding ledger_run_def by (rule positions.run_inv)
qed

text \<open>C5: ownership isolation. The ledger refines one independent position per leader, symbol and
  side: after any sequence of operations the position of a key is the fold of the effects of the
  operations on that key alone, so no leader's fills or plans can move another leader's position.\<close>

theorem ledger_refines_positions:
  assumes "ledger_inv l"
  shows "position_at (ledger_run cs l) k = fold op_effect (filter (\<lambda>c. op_key c = k) cs) (position_at l k)"
  unfolding ledger_run_def using assms by (rule positions.run_view)

lemma plan_for_position_approved:
  assumes "plan_for_position k p s r = Inr plan" "rp_approved plan"
  shows "rp_key plan = k" "0 < dval (rp_requested_local_quantity plan)"
    "dval (rp_requested_local_quantity plan) \<le> dval (vp_local_quantity p)"
    "rp_closes_virtual_position plan = deq (rp_requested_local_quantity plan) (vp_local_quantity p)"
    "rp_attributed_source_quantity plan = (if vp_observed_source_quantity p \<le> 0
      then sg_source_delta_quantity s else dmin (sg_source_delta_quantity s) (vp_observed_source_quantity p))"
    "dval (vp_observed_source_quantity p) \<le> 0 \<or> vp_observed_source_quantity p \<le> sg_source_delta_quantity s
      \<Longrightarrow> dval (rp_requested_local_quantity plan) = dval (vp_local_quantity p)"
    "0 < dval (vp_observed_source_quantity p) \<Longrightarrow> sg_source_delta_quantity s < vp_observed_source_quantity p
      \<Longrightarrow> \<exists>f. floor_to_step (vp_local_quantity p * ddiv (sg_source_delta_quantity s)
            (vp_observed_source_quantity p)) (sr_quantity_step r) = Inr f
          \<and> rp_requested_local_quantity plan = dmin (dmax (sr_quantity_step r) f) (vp_local_quantity p)"
  using assms
  by (auto simp: plan_for_position_def Let_def rejected_reduction_def decimal_simps not_le not_less dmin_def
      split: if_splits) (auto simp: max_def split: if_splits)

lemma partial_reduction_le:
  assumes "floor_to_step (a * ddiv b c) st = Inr f" "0 < dval st" "0 < dval c"
  shows "dval (dmin (dmax st f) a) \<le> max (dval st) (rnd (dval a * rnd (dval b / dval c)))"
proof -
  have raw: "dval (a * ddiv b c) = rnd (dval a * rnd (dval b / dval c))"
    using assms(3) by (simp add: dval_times dval_ddiv dcoeff_eq_0_iff)
  with floor_to_step_le [OF assms(1,2)] have "dval f \<le> max 0 (rnd (dval a * rnd (dval b / dval c)))"
    by (simp add: exact28_rnd)
  with assms(2) show ?thesis by (auto simp: dval_dmin dval_dmax max_def min_def split: if_splits)
qed

lemma plan_reduction_approved:
  assumes "ledger_inv l" "plan_reduction s r o0 l = (Inr plan, l')" "rp_approved plan"
  shows "sg_kind s = REDUCE" "ledger_inv l'"
    "plan_for_position (key_for s) (position_at l' (key_for s)) s r = Inr plan"
    "vp_local_quantity (position_at l' (key_for s)) = vp_local_quantity (position_at l (key_for s))"
proof -
  show k: "sg_kind s = REDUCE"
    using assms(2,3) by (auto simp: plan_reduction_def rejected_reduction_def Let_def split: if_splits)
  show "ledger_inv l'" using plan_inv [OF assms(1), of s r o0] assms(2) by simp
  have v: "position_at l' (key_for s) = plan_effect s o0 (position_at l (key_for s))"
    using plan_view [OF assms(1), of s r o0 "key_for s"] assms(2) by simp
  then show "vp_local_quantity (position_at l' (key_for s)) = vp_local_quantity (position_at l (key_for s))"
    by (auto simp: plan_effect_def split: option.splits)
  obtain x y where p: "position_at l (key_for s) = \<lparr>vp_key = key_for s, vp_local_quantity = x,
    vp_observed_source_quantity = y\<rparr>" "0 \<le> dval x" "0 \<le> dval y"
    using position_at_cases [OF assms(1)] .
  show "plan_for_position (key_for s) (position_at l' (key_for s)) s r = Inr plan"
    using assms(2,3) k v p
    by (auto simp: plan_reduction_def plan_effect_def Let_def position_for_def rejected_reduction_def
        store_def virtual_position_check_def decimal_simps not_less split: option.splits if_splits)
qed


text \<open>Filling a plan. After a plan was approved, recording a fill of any positive part of the
  requested quantity never raises: the local position shrinks by exactly that fill (up to the
  context's rounding), and the complete fill of a closing plan leaves zero local and zero source
  quantity, so no residue of a closed position can distort a later reduction.\<close>

theorem reduction_fill_applies:
  assumes "ledger_inv l" "plan_reduction s r o0 l = (Inr plan, l')" "rp_approved plan"
    "0 < dval q" "dval q \<le> dval (rp_requested_local_quantity plan)"
  shows "\<exists>p l''. record_reduction_fill plan q l' = (Inr p, l'') \<and> position_at l'' (key_for s) = p
    \<and> dval (vp_local_quantity p) = rnd (dval (vp_local_quantity (position_at l (key_for s))) - dval q)
    \<and> (rp_closes_virtual_position plan \<and> dval q = dval (rp_requested_local_quantity plan)
        \<longrightarrow> dval (vp_local_quantity p) = 0 \<and> dval (vp_observed_source_quantity p) = 0)"
proof -
  note a = plan_reduction_approved [OF assms(1-3)]
  note b = plan_for_position_approved [OF a(3) assms(3)]
  let ?p = "position_at l' (key_for s)"
  from b(2,3) have own: "0 < dval (vp_local_quantity ?p)" by linarith
  then have "map_of l' (key_for s) = Some ?p"
    by (cases "map_of l' (key_for s)") (simp_all add: position_at_def dict_get_def empty_position_def)
  moreover have "vp_key ?p = key_for s" "position_ok ?p" using position_at_ok [OF a(2)] by simp_all
  moreover from this have "position_ok (reduction_effect plan q ?p)" by (simp add: reduction_effect_ok)
  moreover have "dval (rp_requested_local_quantity plan) \<noteq> 0" using b(2) by simp
  ultimately have "record_reduction_fill plan q l'
      = (Inr (reduction_effect plan q ?p), AList.update (key_for s) (reduction_effect plan q ?p) l')"
    using b(1,3) assms(3-5)
    by (cases ?p) (simp add: record_reduction_fill_def reduction_effect_def store_def position_ok_val
        virtual_position_check_def decimal_truediv_def dcoeff_eq_0_iff Let_def decimal_simps not_less
        half_even.nonneg)
  moreover have "dval (vp_local_quantity (reduction_effect plan q ?p)) = rnd (dval (vp_local_quantity ?p) - dval q)"
    "rp_closes_virtual_position plan \<and> dval q = dval (rp_requested_local_quantity plan)
      \<longrightarrow> dval (vp_local_quantity (reduction_effect plan q ?p)) = 0
        \<and> dval (vp_observed_source_quantity (reduction_effect plan q ?p)) = 0"
    using b(3,4) assms(3-5) by (simp_all add: reduction_effect_def Let_def decimal_simps)
  ultimately show ?thesis using a(4) by (simp add: position_at_def)
qed

text \<open>Reconciliation.\<close>

lemma dsum_zero: "\<forall>x \<in> set xs. dval x = 0 \<Longrightarrow> dval a = 0 \<Longrightarrow> dval (foldl (+) a xs) = 0"
  by (induction xs arbitrary: a) (simp_all add: dval_plus)

lemma aggregate_zero:
  assumes "ledger_inv l" "(symbol, side) \<notin> set (reconcile_keys l exchange)"
  shows "dval (aggregate_quantity l symbol side) = 0"
  unfolding aggregate_quantity_def dsum_def
proof (rule dsum_zero)
  show "\<forall>x \<in> set (map vp_local_quantity (filter (\<lambda>p. vk_symbol (vp_key p) = symbol
      \<and> vk_position_side (vp_key p) = side) (map snd l))). dval x = 0"
  proof clarsimp
    fix k p assume e: "(k, p) \<in> set l" "symbol = vk_symbol (vp_key p)" "side = vk_position_side (vp_key p)"
    with assms(2) have "\<not> 0 < vp_local_quantity p" by (force simp: reconcile_keys_def)
    moreover have "position_ok p" using assms(1) e(1) by (auto simp: ledger_inv_def list_all_iff)
    ultimately show "dval (vp_local_quantity p) = 0" by (simp add: position_ok_val decimal_less_val)
  qed
qed simp

lemma exchange_default:
  "(symbol, side) \<notin> set (reconcile_keys l exchange) \<Longrightarrow> dict_get exchange (symbol, side) 0 = 0"
  by (cases "map_of exchange (symbol, side)")
    (force simp: reconcile_keys_def dict_get_def dest: map_of_SomeD)+

text \<open>Reconciliation is exact. With a non-negative tolerance the report lists a symbol and side
  if and only if the leaders' total and the exchange's position (zero when absent) differ by more
  than the tolerance, each at most once; so an empty report means that every symbol agrees.\<close>

theorem reconcile_reports_exactly:
  assumes "ledger_inv l" "0 \<le> dval tolerance"
  shows "\<exists>ms. reconcile_aggregate l exchange tolerance = Inr ms
    \<and> distinct (map (\<lambda>m. (am_symbol m, am_position_side m)) ms)
    \<and> (\<forall>symbol side. (symbol, side) \<in> set (map (\<lambda>m. (am_symbol m, am_position_side m)) ms) \<longleftrightarrow>
        dval tolerance < \<bar>rnd (dval (aggregate_quantity l symbol side) - dval (dict_get exchange (symbol, side) 0))\<bar>)"
proof -
  define bad where "bad = (\<lambda>(symbol, side). tolerance < dabs (aggregate_quantity l symbol side
     - dict_get exchange (symbol, side) 0))"
  define ms where "ms = concat (map (mismatch_at l exchange tolerance) (reconcile_keys l exchange))"
  have "map (\<lambda>m. (am_symbol m, am_position_side m)) (concat (map (mismatch_at l exchange tolerance) ks))
      = filter bad ks" for ks
    by (induction ks) (auto simp: mismatch_at_def bad_def Let_def)
  then have keys: "map (\<lambda>m. (am_symbol m, am_position_side m)) ms = filter bad (reconcile_keys l exchange)"
    by (simp add: ms_def)
  have "distinct (filter bad (reconcile_keys l exchange))" by (simp add: reconcile_keys_def)
  moreover have "bad (symbol, side) \<Longrightarrow> (symbol, side) \<in> set (reconcile_keys l exchange)" for symbol side
    using aggregate_zero [OF assms(1)] exchange_default [of symbol side l exchange] assms(2)
    by (rule_tac ccontr) (simp add: bad_def decimal_simps)
  moreover have "bad (symbol, side) \<longleftrightarrow> dval tolerance < \<bar>rnd (dval (aggregate_quantity l symbol side)
      - dval (dict_get exchange (symbol, side) 0))\<bar>" for symbol side
    by (simp add: bad_def decimal_simps abs_if rnd_minus half_even.idem)
  moreover have "reconcile_aggregate l exchange tolerance = Inr ms"
    using assms(2) by (simp add: reconcile_aggregate_def ms_def decimal_simps)
  ultimately show ?thesis using keys by (intro exI [of _ ms]) auto
qed

text \<open>Direction. The exchange order side computed for a signal is the side of the leader's own
  order, for every combination of position side and order side a signal can be made from.\<close>

theorem copied_order_side:
  assumes "signal_from_order o0 delta = Inr s"
  shows "exchange_order_side s = order_side_value (po_order_side o0)"
  using assms
  by (cases "po_position_side o0"; cases "po_order_side o0")
    (auto simp: signal_from_order_def exchange_order_side_def is_increase_def position_side_of_def
      split: if_splits)

section \<open>A concrete ledger\<close>

definition sample_key :: virtual_position_key where
  "sample_key = \<lparr>vk_lead_portfolio_id = ''4001'', vk_symbol = ''BTCUSDT'', vk_position_side = LONG\<rparr>"

definition sample_position :: virtual_position where
  "sample_position = \<lparr>vp_key = sample_key, vp_local_quantity = Dec False 9 (- 3),
     vp_observed_source_quantity = Dec False 4 (- 3)\<rparr>"

definition sample_ledger :: ledger where
  "sample_ledger = [(sample_key, sample_position)]"

definition sample_reduction :: normalized_signal where
  "sample_reduction = sample_signal\<lparr>sg_kind := REDUCE, sg_source_delta_quantity := Dec False 1 (- 3)\<rparr>"

definition sample_close :: normalized_signal where
  "sample_close = sample_signal\<lparr>sg_kind := REDUCE, sg_source_delta_quantity := Dec False 4 (- 3)\<rparr>"

lemma sample_ledger_inv: "ledger_inv sample_ledger" "new_ledger [sample_position] = Inr sample_ledger"
  "list_all position_ok [sample_position]"
  by code_simp+

lemma sample_plans:
  "\<exists>plan l'. plan_reduction sample_reduction sample_rules None sample_ledger = (Inr plan, l')
     \<and> rp_approved plan \<and> deq (rp_requested_local_quantity plan) (Dec False 2 (- 3))"
  "\<exists>plan l'. plan_reduction sample_close sample_rules (Some (Dec False 4 (- 3))) sample_ledger = (Inr plan, l')
     \<and> rp_approved plan \<and> rp_closes_virtual_position plan
     \<and> deq (rp_requested_local_quantity plan) (Dec False 9 (- 3))"
proof -
  have "case plan_reduction sample_reduction sample_rules None sample_ledger of (Inr plan, _) \<Rightarrow>
      rp_approved plan \<and> deq (rp_requested_local_quantity plan) (Dec False 2 (- 3)) | _ \<Rightarrow> False"
    by code_simp
  then show "\<exists>plan l'. plan_reduction sample_reduction sample_rules None sample_ledger = (Inr plan, l')
     \<and> rp_approved plan \<and> deq (rp_requested_local_quantity plan) (Dec False 2 (- 3))"
    by (auto split: prod.splits sum.splits)
  have "case plan_reduction sample_close sample_rules (Some (Dec False 4 (- 3))) sample_ledger of (Inr plan, _) \<Rightarrow>
      rp_approved plan \<and> rp_closes_virtual_position plan
      \<and> deq (rp_requested_local_quantity plan) (Dec False 9 (- 3)) | _ \<Rightarrow> False"
    by code_simp
  then show "\<exists>plan l'. plan_reduction sample_close sample_rules (Some (Dec False 4 (- 3))) sample_ledger = (Inr plan, l')
     \<and> rp_approved plan \<and> rp_closes_virtual_position plan
     \<and> deq (rp_requested_local_quantity plan) (Dec False 9 (- 3))"
    by (auto split: prod.splits sum.splits)
qed

theorem ledger_stays_wellformed_witness:
  "ledger_inv (ledger_run [IncreaseFill sample_signal (Dec False 3 (- 3)) None,
     PlanReduction sample_reduction sample_rules None] sample_ledger)"
  by (rule ledger_stays_wellformed [OF sample_ledger_inv(2,3)])

theorem ledger_refines_positions_witness:
  "position_at (ledger_run [IncreaseFill (sample_signal\<lparr>sg_lead_portfolio_id := ''4002''\<rparr>) (dec 5) None]
     sample_ledger) sample_key = sample_position"
  unfolding ledger_refines_positions [OF sample_ledger_inv(1)]
  by (simp add: key_for_def sample_key_def sample_signal_def position_at_def sample_ledger_def dict_get_def)


theorem reduction_fill_applies_witness:
  "\<exists>plan l' p l''. plan_reduction sample_close sample_rules (Some (Dec False 4 (- 3))) sample_ledger = (Inr plan, l')
     \<and> record_reduction_fill plan (Dec False 9 (- 3)) l' = (Inr p, l'')
     \<and> dval (vp_local_quantity p) = 0 \<and> dval (vp_observed_source_quantity p) = 0"
proof -
  obtain plan l' where p: "plan_reduction sample_close sample_rules (Some (Dec False 4 (- 3))) sample_ledger = (Inr plan, l')"
    "rp_approved plan" "rp_closes_virtual_position plan"
    "dval (rp_requested_local_quantity plan) = dval (Dec False 9 (- 3))"
    using sample_plans(2) by (auto simp: deq_val)
  have "0 < dval (Dec False 9 (- 3))" by (simp add: dval_def dsigned_def)
  from reduction_fill_applies [OF sample_ledger_inv(1) p(1,2) this] p show ?thesis by fastforce
qed

theorem reconcile_reports_exactly_witness:
  "\<exists>ms. reconcile_aggregate sample_ledger [((''BTCUSDT'', LONG), Dec False 9 (- 3))] (dec 0) = Inr ms
     \<and> distinct (map (\<lambda>m. (am_symbol m, am_position_side m)) ms)"
proof -
  have "0 \<le> dval (dec 0)" by simp
  from reconcile_reports_exactly [OF sample_ledger_inv(1) this] show ?thesis by blast
qed

theorem copied_order_side_witness:
  "\<exists>s. signal_from_order \<lparr>po_lead_portfolio_id = ''4001'', po_symbol = ''BTCUSDT'', po_position_side = SRC_SHORT,
     po_order_side = BUY, po_order_type = ''MARKET'', po_executed_quantity = dec 5, po_average_price = dec 3,
     po_total_pnl = dec 0, po_order_time_ms = 1, po_update_time_ms = 2, po_identity_key = ''i'',
     po_event_key = ''e'', po_raw_payload_hash = ''h''\<rparr> (dec 5) = Inr s \<and> exchange_order_side s = ''BUY''"
    (is "\<exists>s. signal_from_order ?o (dec 5) = Inr s \<and> _")
proof -
  have "\<exists>s. signal_from_order ?o (dec 5) = Inr s"
    by (simp add: signal_from_order_def position_side_of_def decimal_simps)
  then show ?thesis using copied_order_side [of ?o "dec 5"] by auto
qed

end
