(* ===== verification/OneWay.thy ===== *)
theory OneWay
  imports Normalization
begin

text \<open>
  \<open>copy_trading/one_way.py\<close>: the resolution of \<open>BOTH\<close>-side (one-way mode) leader orders into long
  and short views, and \<open>ClosedLeaderPosition\<close> of \<open>copy_trading/binance_public.py\<close>. The two
  dictionaries of the resolver are the fields of a state record; a run that raises has no state,
  since both are local to the call. The central theorem shows that, without interval evidence, the
  per-side bookkeeping refines a single signed net position.
\<close>

section \<open>Evidence and resolver state\<close>

record closed_leader_position =
  cp_symbol :: string
  cp_position_side :: source_position_side
  cp_opened_at_ms :: int
  cp_closed_at_ms :: "int option"
  cp_maximum_open_quantity :: decimal
  cp_closed_quantity :: decimal
  cp_evidence_updated_at_ms :: "int option"

type_synonym raw_order_key = "string \<times> order_side \<times> string \<times> int"
type_synonym by_side = "(source_position_side, decimal) dict"

record one_way_state =
  ow_positions :: "(string \<times> source_position_side, decimal) dict"
  ow_cumulative :: "(raw_order_key, by_side) dict"

definition raw_key :: "public_leader_order \<Rightarrow> raw_order_key" where
  "raw_key o0 = (po_symbol o0, po_order_side o0, po_order_type o0, po_order_time_ms o0)"

definition opening_side :: "order_side \<Rightarrow> source_position_side" where
  "opening_side side = (if side = BUY then SRC_LONG else SRC_SHORT)"

definition reduction_side :: "order_side \<Rightarrow> source_position_side" where
  "reduction_side side = (if side = BUY then SRC_SHORT else SRC_LONG)"

definition apply_position_delta ::
  "string \<Rightarrow> source_position_side \<Rightarrow> order_side \<Rightarrow> decimal
     \<Rightarrow> (string \<times> source_position_side, decimal) dict \<Rightarrow> (string \<times> source_position_side, decimal) dict" where
  "apply_position_delta symbol pside side quantity positions =
    (let current = dict_get positions (symbol, pside) 0 in
     AList.update (symbol, pside)
       (if is_increase pside side then current + quantity else dmax 0 (current - quantity)) positions)"

section \<open>Evidence from earlier orders and closed intervals\<close>

text \<open>Tuple comparison: the first differing component decides, decimals compare by value.\<close>

definition later_version :: "public_leader_order \<Rightarrow> public_leader_order \<Rightarrow> bool" where
  "later_version a b =
    (if po_update_time_ms a \<noteq> po_update_time_ms b then po_update_time_ms b < po_update_time_ms a
     else if \<not> deq (po_executed_quantity a) (po_executed_quantity b)
     then po_executed_quantity b < po_executed_quantity a
     else po_event_key b < po_event_key a)"

definition latest_insert ::
  "public_leader_order \<Rightarrow> (string, public_leader_order) dict \<Rightarrow> (string, public_leader_order) dict" where
  "latest_insert o0 latest = (case map_of latest (po_identity_key o0) of
     None \<Rightarrow> AList.update (po_identity_key o0) o0 latest
   | Some previous \<Rightarrow> if later_version o0 previous then AList.update (po_identity_key o0) o0 latest
       else latest)"

definition latest_by_identity :: "public_leader_order list \<Rightarrow> public_leader_order list" where
  "latest_by_identity orders = map snd (fold latest_insert orders [])"

definition interval_end :: "closed_leader_position \<Rightarrow> int option" where
  "interval_end p = (case cp_closed_at_ms p of Some t \<Rightarrow> Some t | None \<Rightarrow> cp_evidence_updated_at_ms p)"

definition covers :: "public_leader_order \<Rightarrow> closed_leader_position \<Rightarrow> bool" where
  "covers o0 p = (cp_symbol p = po_symbol o0 \<and> (case interval_end p of None \<Rightarrow> False
     | Some t \<Rightarrow> (cp_opened_at_ms p \<le> po_order_time_ms o0 \<and> po_order_time_ms o0 \<le> t)
         \<or> (cp_opened_at_ms p \<le> po_update_time_ms o0 \<and> po_update_time_ms o0 \<le> t)))"

definition closed_interval ::
  "public_leader_order \<Rightarrow> closed_leader_position list \<Rightarrow> closed_leader_position option result" where
  "closed_interval o0 positions = (case filter (covers o0) positions of
     [] \<Rightarrow> Inr None | [p] \<Rightarrow> Inr (Some p)
   | _ \<Rightarrow> Inl (OneWayResolutionError ''COPY_ONE_WAY_POSITION_INTERVAL_OVERLAP''))"

section \<open>Allocation of a delta to position sides\<close>

type_synonym allocations = "(source_position_side \<times> decimal) list"

definition allocate_against_position ::
  "public_leader_order \<Rightarrow> decimal \<Rightarrow> (string \<times> source_position_side, decimal) dict \<Rightarrow> allocations result" where
  "allocate_against_position o0 delta positions =
    (let opening = opening_side (po_order_side o0); reducing = reduction_side (po_order_side o0);
         opposing_quantity = dict_get positions (po_symbol o0, reducing) 0;
         same_quantity = dict_get positions (po_symbol o0, opening) 0 in
     if 0 < opposing_quantity \<and> 0 < same_quantity
     then Inl (OneWayResolutionError ''COPY_ONE_WAY_SOURCE_STATE_HEDGED'')
     else if opposing_quantity \<le> 0
     then if \<not> deq (po_total_pnl o0) 0 \<and> same_quantity \<le> 0
       then Inl (OneWayResolutionError ''COPY_ONE_WAY_REDUCTION_STATE_MISSING'')
       else Inr [(opening, delta)]
     else let reduction = dmin opposing_quantity delta; increase = delta - reduction in
       Inr ((reducing, reduction) # (if 0 < increase then [(opening, increase)] else [])))"

definition allocate_with_closed_interval ::
  "public_leader_order \<Rightarrow> decimal \<Rightarrow> closed_leader_position \<Rightarrow> by_side \<Rightarrow> allocations result" where
  "allocate_with_closed_interval o0 delta interval previous =
    (let side = cp_position_side interval in
     if is_increase side (po_order_side o0) then Inr [(side, delta)]
     else case cp_closed_at_ms interval of None \<Rightarrow> Inr [(side, delta)]
     | Some _ \<Rightarrow>
         let already = dict_get previous side 0;
             remaining = dmax 0 (cp_closed_quantity interval - already);
             reduction = dmin delta remaining; increase = delta - reduction;
             allocs = (if 0 < reduction then [(side, reduction)] else [])
               @ (if 0 < increase then [(opening_side (po_order_side o0), increase)] else [])
         in if allocs = [] then Inl (OneWayResolutionError ''COPY_ONE_WAY_CLOSED_VOLUME_EXHAUSTED'')
            else Inr allocs)"

section \<open>The resolver\<close>

definition prime_prior :: "public_leader_order \<Rightarrow> one_way_state \<Rightarrow> one_way_state" where
  "prime_prior p st =
    (let by_side = dict_get (ow_cumulative st) (raw_key p) []; side = po_position_side p in
     st\<lparr>ow_positions := apply_position_delta (po_symbol p) side (po_order_side p)
          (po_executed_quantity p) (ow_positions st),
        ow_cumulative := AList.update (raw_key p)
          (AList.update side (dmax (dict_get by_side side 0) (po_executed_quantity p)) by_side)
          (ow_cumulative st)\<rparr>)"

text \<open>One pass of the inner loop; \<open>n\<close> is the number of allocations.\<close>

definition apply_allocation ::
  "public_leader_order \<Rightarrow> nat \<Rightarrow> source_position_side \<times> decimal \<Rightarrow> one_way_state
     \<Rightarrow> (public_leader_order list \<times> one_way_state) result" where
  "apply_allocation o0 n = (\<lambda>(side, allocated) st.
    if allocated \<le> 0 then Inr ([], st)
    else let by_side = dict_get (ow_cumulative st) (raw_key o0) [];
             quantity = dict_get by_side side 0 + allocated in
      rbind (resolve_position_side o0 side (Some quantity)
          (Some (if side = reduction_side (po_order_side o0) \<or> n = 1 then po_total_pnl o0 else 0)))
        (\<lambda>resolved. Inr ([resolved], st\<lparr>
           ow_cumulative := AList.update (raw_key o0) (AList.update side quantity by_side) (ow_cumulative st),
           ow_positions := apply_position_delta (po_symbol o0) side (po_order_side o0) allocated
             (ow_positions st)\<rparr>)))"

fun apply_allocations ::
  "public_leader_order \<Rightarrow> nat \<Rightarrow> allocations \<Rightarrow> one_way_state
     \<Rightarrow> (public_leader_order list \<times> one_way_state) result" where
  "apply_allocations o0 n [] st = Inr ([], st)"
| "apply_allocations o0 n (a # as) st = rbind (apply_allocation o0 n a st) (\<lambda>(out, st').
     rbind (apply_allocations o0 n as st') (\<lambda>(outs, st''). Inr (out @ outs, st'')))"

definition resolve_order ::
  "closed_leader_position list \<Rightarrow> public_leader_order \<Rightarrow> one_way_state
     \<Rightarrow> (public_leader_order list \<times> one_way_state) result" where
  "resolve_order intervals o0 st =
    (if po_position_side o0 \<noteq> SRC_BOTH then Inr ([o0], st)
     else let previous = dict_get (ow_cumulative st) (raw_key o0) [];
              st1 = st\<lparr>ow_cumulative := AList.update (raw_key o0) previous (ow_cumulative st)\<rparr>;
              previous_total = dsum (map snd previous) in
       if po_executed_quantity o0 \<le> previous_total then Inr ([], st1)
       else let delta = po_executed_quantity o0 - previous_total in
         rbind (closed_interval o0 intervals) (\<lambda>interval.
         rbind (case interval of
             Some i \<Rightarrow> allocate_with_closed_interval o0 delta i previous
           | None \<Rightarrow> allocate_against_position o0 delta (ow_positions st1)) (\<lambda>allocs.
         apply_allocations o0 (length allocs) allocs st1)))"

fun resolve_orders ::
  "closed_leader_position list \<Rightarrow> public_leader_order list \<Rightarrow> one_way_state
     \<Rightarrow> (public_leader_order list \<times> one_way_state) result" where
  "resolve_orders intervals [] st = Inr ([], st)"
| "resolve_orders intervals (x # xs) st = rbind (resolve_order intervals x st) (\<lambda>(out, st').
     rbind (resolve_orders intervals xs st') (\<lambda>(outs, st''). Inr (out @ outs, st'')))"

definition prior_state :: "public_leader_order list \<Rightarrow> one_way_state" where
  "prior_state priors = fold prime_prior (sort_key order_key (latest_by_identity priors))
     \<lparr>ow_positions = [], ow_cumulative = []\<rparr>"

definition resolve_one_way_orders ::
  "public_leader_order list \<Rightarrow> public_leader_order list \<Rightarrow> closed_leader_position list
     \<Rightarrow> public_leader_order list result" where
  "resolve_one_way_orders orders priors intervals =
    rbind (require (\<not> 1 < length (remdups (map po_lead_portfolio_id (priors @ orders))))
      (OneWayResolutionError ''COPY_ONE_WAY_LEADER_MISMATCH'')) (\<lambda>_.
    rbind (require (\<not> list_ex (\<lambda>o0. po_position_side o0 = SRC_BOTH) priors)
      (OneWayResolutionError ''COPY_ONE_WAY_PRIOR_ORDER_UNRESOLVED'')) (\<lambda>_.
    rbind (resolve_orders intervals (sort_key order_key orders) (prior_state priors)) (\<lambda>(resolved, _).
    if list_ex (\<lambda>o0. po_position_side o0 = SRC_BOTH) resolved
    then Inl (AssertionError ''one-way resolver returned an ambiguous order'') else Inr resolved)))"

section \<open>The net position a one-way account holds\<close>

definition side_quantity :: "one_way_state \<Rightarrow> string \<Rightarrow> source_position_side \<Rightarrow> rat" where
  "side_quantity st symbol side = dval (dict_get (ow_positions st) (symbol, side) 0)"

definition net_position :: "one_way_state \<Rightarrow> string \<Rightarrow> rat" where
  "net_position st symbol = side_quantity st symbol SRC_LONG - side_quantity st symbol SRC_SHORT"

definition order_total :: "one_way_state \<Rightarrow> raw_order_key \<Rightarrow> rat" where
  "order_total st k = sum_list (map dval (map snd (dict_get (ow_cumulative st) k [])))"

definition direction :: "order_side \<Rightarrow> rat" where
  "direction side = (if side = BUY then 1 else - 1)"

text \<open>The abstract account: cumulative quantity per order, signed net quantity per symbol.\<close>

definition net_step :: "public_leader_order \<Rightarrow> (raw_order_key \<Rightarrow> rat) \<times> (string \<Rightarrow> rat)
    \<Rightarrow> (raw_order_key \<Rightarrow> rat) \<times> (string \<Rightarrow> rat)" where
  "net_step o0 = (\<lambda>(totals, net).
     let d = max 0 (dval (po_executed_quantity o0) - totals (raw_key o0)) in
     (totals(raw_key o0 := totals (raw_key o0) + d),
      net(po_symbol o0 := net (po_symbol o0) + direction (po_order_side o0) * d)))"

definition net_view :: "one_way_state \<Rightarrow> (raw_order_key \<Rightarrow> rat) \<times> (string \<Rightarrow> rat)" where
  "net_view st = (order_total st, net_position st)"

definition capacity :: "int \<Rightarrow> rat" where
  "capacity e = 10 ^ 28 * 10 powi e"

definition ow_inv :: "int \<Rightarrow> one_way_state \<Rightarrow> bool" where
  "ow_inv e st \<longleftrightarrow> e \<le> 0 \<and> list_all (\<lambda>(k, q). grid e q) (ow_positions st)
     \<and> list_all (\<lambda>(k, by). dict_ok by \<and> list_all (grid e) (map snd by)
         \<and> sum_list (map dval (map snd by)) \<le> capacity e) (ow_cumulative st)"

definition one_sided :: "one_way_state \<Rightarrow> bool" where
  "one_sided st \<longleftrightarrow> (\<forall>symbol. side_quantity st symbol SRC_LONG = 0 \<or> side_quantity st symbol SRC_SHORT = 0)"

lemma ow_inv_side: "ow_inv e st \<Longrightarrow> grid e (dict_get (ow_positions st) k 0)"
  by (auto simp: ow_inv_def dict_get_def list_all_iff grid_0 split: option.splits dest!: map_of_SomeD)

lemma side_quantity_nonneg: "ow_inv e st \<Longrightarrow> 0 \<le> side_quantity st symbol side"
  unfolding side_quantity_def by (rule grid_nonneg [OF ow_inv_side])

lemma ow_inv_by:
  assumes "ow_inv e st"
  shows "dict_ok (dict_get (ow_cumulative st) k [])"
    "list_all (grid e) (map snd (dict_get (ow_cumulative st) k []))"
    "sum_list (map dval (map snd (dict_get (ow_cumulative st) k []))) \<le> capacity e"
proof -
  have "dict_ok by \<and> list_all (grid e) (map snd by) \<and> sum_list (map dval (map snd by)) \<le> capacity e"
    if "map_of (ow_cumulative st) k = Some by" for "by"
    using map_of_SomeD [OF that] assms unfolding ow_inv_def list_all_iff by fast
  then show "dict_ok (dict_get (ow_cumulative st) k [])"
    "list_all (grid e) (map snd (dict_get (ow_cumulative st) k []))"
    "sum_list (map dval (map snd (dict_get (ow_cumulative st) k []))) \<le> capacity e"
    by (cases "map_of (ow_cumulative st) k"; simp add: dict_get_def capacity_def)+
qed

lemma grid_sum_nonneg: "list_all (grid e) xs \<Longrightarrow> 0 \<le> sum_list (map dval xs)"
  by (intro sum_list_nonneg) (auto simp: list_all_iff grid_def)

lemma by_lookup_le:
  "list_all (grid e) (map snd by) \<Longrightarrow> dval (dict_get by side 0) \<le> sum_list (map dval (map snd by))"
proof (induction "by")
  case (Cons kv "by")
  then show ?case using grid_sum_nonneg [of e "map snd by"] grid_nonneg [of e "snd kv"]
    by (cases kv) (auto simp: dict_get_def split: if_splits option.splits)
qed simp

lemma by_lookup: "list_all (grid e) (map snd by) \<Longrightarrow> e \<le> 0 \<Longrightarrow> grid e (dict_get by side 0)"
  by (auto simp: dict_get_def list_all_iff grid_0 split: option.splits dest!: map_of_SomeD)

lemma total_sum_update:
  assumes "dict_ok by"
  shows "sum_list (map dval (map snd (AList.update side q by)))
    = sum_list (map dval (map snd by)) - dval (dict_get by side 0) + dval q"
  by (subst sum_update [OF assms]) (simp add: dict_get_def split: option.split)

lemma by_update_grid:
  "list_all (grid e) (map snd by) \<Longrightarrow> grid e q \<Longrightarrow> list_all (grid e) (map snd (AList.update side q by))"
  using list_all_update [of "\<lambda>kv. grid e (snd kv)" "by" side q] by (simp add: list.pred_map comp_def)

lemma dsum_dexp: "e \<le> dexp a \<Longrightarrow> list_all (\<lambda>x. e \<le> dexp x) xs \<Longrightarrow> e \<le> dexp (foldl (+) a xs)"
proof (induction xs arbitrary: a)
  case (Cons x xs)
  then have "e \<le> dexp (a + x)" by (intro order_trans [OF _ dexp_plus]) simp
  with Cons show ?case by simp
qed simp

lemma order_total_dsum:
  assumes "ow_inv e st"
  shows "dval (dsum (map snd (dict_get (ow_cumulative st) k []))) = order_total st k"
  unfolding dsum_def order_total_def
  using dsum_grid [of e 0] ow_inv_by [OF assms, of k] assms
  by (simp add: grid_0 ow_inv_def capacity_def)

lemma apply_delta_view:
  "dval (dict_get (apply_position_delta symbol side os q ps) k 0) = (if k = (symbol, side)
     then if is_increase side os then dval (dict_get ps k 0 + q) else max 0 (dval (dict_get ps k 0 - q))
     else dval (dict_get ps k 0))"
  by (simp add: apply_position_delta_def Let_def dval_dmax)

lemma apply_delta_grid:
  assumes "list_all (\<lambda>(k, q). grid e q) ps" "e \<le> 0" "grid e q"
    "is_increase side os \<Longrightarrow> dval (dict_get ps (symbol, side) 0) + dval q \<le> capacity e"
  shows "list_all (\<lambda>(k, q). grid e q) (apply_position_delta symbol side os q ps)"
proof -
  have c: "grid e (dict_get ps (symbol, side) 0)"
    using assms(1,2) by (auto simp: dict_get_def list_all_iff grid_0 split: option.splits dest!: map_of_SomeD)
  have "grid e (dmax 0 (dict_get ps (symbol, side) 0 - q))"
  proof (cases "dval q \<le> dval (dict_get ps (symbol, side) 0)")
    case True
    then show ?thesis using grid_minus [OF c assms(3)] assms(2) by (simp add: grid_dmax grid_0)
  next
    case False
    then show ?thesis using dval_minus_grid [OF c assms(3)] assms(2) by (simp add: dmax_def decimal_less_val grid_0)
  qed
  with grid_plus [OF c assms(3)] assms show ?thesis
    by (auto simp: apply_position_delta_def Let_def capacity_def)
qed

text \<open>The effect of one allocation on the views of the state.\<close>

lemma apply_allocation_effect:
  assumes inv: "ow_inv e st" and q: "grid e q" "0 < dval q" and both: "po_position_side o0 = SRC_BOTH"
    and side: "side \<noteq> SRC_BOTH" and total: "order_total st (raw_key o0) + dval q \<le> capacity e"
    and room: "is_increase side (po_order_side o0)
      \<Longrightarrow> side_quantity st (po_symbol o0) side + dval q \<le> capacity e"
  shows "\<exists>r st'. apply_allocation o0 n (side, q) st = Inr ([r], st') \<and> ow_inv e st' \<and> po_position_side r = side
    \<and> order_total st' = (order_total st)(raw_key o0 := order_total st (raw_key o0) + dval q)
    \<and> (\<forall>symbol s. side_quantity st' symbol s = (if symbol = po_symbol o0 \<and> s = side
        then if is_increase side (po_order_side o0) then side_quantity st symbol s + dval q
          else max 0 (side_quantity st symbol s - dval q) else side_quantity st symbol s))"
proof -
  let ?by = "dict_get (ow_cumulative st) (raw_key o0) []"
  let ?old = "dict_get ?by side 0"
  let ?ps = "apply_position_delta (po_symbol o0) side (po_order_side o0) q (ow_positions st)"
  have e: "e \<le> 0" using inv by (simp add: ow_inv_def)
  note b = ow_inv_by [OF inv, of "raw_key o0"]
  have g: "grid e ?old" using b(2) e by (rule by_lookup)
  from by_lookup_le [OF b(2), of side] total have fit: "dval ?old + dval q \<le> 10 ^ 28 * 10 powi e" unfolding order_total_def capacity_def by linarith
  note plus = dval_plus_grid [OF g q(1) fit] grid_plus [OF g q(1) fit]
  have pos: "\<not> ?old + q \<le> 0" using q(2) grid_nonneg [OF g] by (simp add: decimal_le_val plus(1))
  obtain r where r: "resolve_position_side o0 side (Some (?old + q))
      (Some (if side = reduction_side (po_order_side o0) \<or> n = 1 then po_total_pnl o0 else 0)) = Inr r"
    "po_position_side r = side"
    using both side pos by (auto simp: resolve_position_side_def Let_def)
  define st' where "st' = st\<lparr>ow_cumulative := AList.update (raw_key o0) (AList.update side (?old + q) ?by)
    (ow_cumulative st), ow_positions := ?ps\<rparr>"
  have run: "apply_allocation o0 n (side, q) st = Inr ([r], st')"
    using q(2) r(1) by (simp add: apply_allocation_def decimal_le_val Let_def st'_def)
  have t: "sum_list (map dval (map snd (AList.update side (?old + q) ?by))) = order_total st (raw_key o0) + dval q"
    unfolding total_sum_update [OF b(1)] plus(1) order_total_def by simp
  have "list_all (\<lambda>(k, q). grid e q) ?ps"
    by (rule apply_delta_grid) (use inv room q(1) in \<open>auto simp: ow_inv_def side_quantity_def\<close>)
  then have inv': "ow_inv e st'"
    using inv b t total plus(2) by (auto simp: ow_inv_def st'_def intro!: list_all_update by_update_grid)
  have tot: "order_total st' = (order_total st)(raw_key o0 := order_total st (raw_key o0) + dval q)"
    using t by (auto simp: fun_eq_iff st'_def order_total_def)
  have "side_quantity st' symbol s = (if symbol = po_symbol o0 \<and> s = side
        then if is_increase side (po_order_side o0) then side_quantity st symbol s + dval q
          else max 0 (side_quantity st symbol s - dval q) else side_quantity st symbol s)" for symbol s
    using dval_minus_grid [OF ow_inv_side [OF inv] q(1)] dval_plus_grid [OF ow_inv_side [OF inv] q(1)] room
    by (simp add: side_quantity_def st'_def apply_delta_view capacity_def)
  with run inv' r(2) tot show ?thesis by blast
qed

lemma sides_of_order:
  "opening_side os \<noteq> reduction_side os" "is_increase (opening_side os) os" "\<not> is_increase (reduction_side os) os"
  "opening_side os \<noteq> SRC_BOTH" "reduction_side os \<noteq> SRC_BOTH"
  by (cases os; simp add: opening_side_def reduction_side_def is_increase_def)+

lemma net_of_sides:
  "net_position st symbol = direction os * (side_quantity st symbol (opening_side os)
     - side_quantity st symbol (reduction_side os))"
  by (cases os) (simp_all add: net_position_def direction_def opening_side_def reduction_side_def)

lemma one_sided_sides:
  "one_sided st \<longleftrightarrow> (\<forall>symbol. side_quantity st symbol (opening_side os) = 0
     \<or> side_quantity st symbol (reduction_side os) = 0)"
  by (cases os) (auto simp: one_sided_def opening_side_def reduction_side_def)

text \<open>\<open>setdefault\<close> stores what a lookup would have returned: no view of the state changes.\<close>

definition with_default :: "raw_order_key \<Rightarrow> one_way_state \<Rightarrow> one_way_state" where
  "with_default k st = st\<lparr>ow_cumulative := AList.update k (dict_get (ow_cumulative st) k []) (ow_cumulative st)\<rparr>"

lemma with_default_views:
  "order_total (with_default k st) = order_total st"
  "side_quantity (with_default k st) = side_quantity st" "ow_positions (with_default k st) = ow_positions st"
  by (auto simp: with_default_def order_total_def side_quantity_def fun_eq_iff)

lemma with_default_inv: "ow_inv e st \<Longrightarrow> ow_inv e (with_default k st)"
  using ow_inv_by [of e st k] by (auto simp: ow_inv_def with_default_def intro!: list_all_update)

lemma with_default_net: "net_position (with_default k st) = net_position st"
  "one_sided (with_default k st) = one_sided st"
  by (simp_all add: net_position_def one_sided_def with_default_views fun_eq_iff)

definition moves :: "public_leader_order \<Rightarrow> rat \<Rightarrow> one_way_state \<Rightarrow> one_way_state \<Rightarrow> bool" where
  "moves o0 d st st' \<longleftrightarrow> one_sided st' \<and> net_view st' =
     ((order_total st)(raw_key o0 := order_total st (raw_key o0) + d),
      (net_position st)(po_symbol o0 := net_position st (po_symbol o0) + direction (po_order_side o0) * d))"

lemma single_allocation_moves:
  assumes "ow_inv e st" "one_sided st" "grid e q" "0 < dval q" "po_position_side o0 = SRC_BOTH"
    "order_total st (raw_key o0) + dval q \<le> capacity e"
    "(side = opening_side (po_order_side o0) \<and> side_quantity st (po_symbol o0) (reduction_side (po_order_side o0)) = 0
        \<and> side_quantity st (po_symbol o0) side + dval q \<le> capacity e)
     \<or> (side = reduction_side (po_order_side o0) \<and> dval q \<le> side_quantity st (po_symbol o0) side)"
  shows "\<exists>r st'. apply_allocation o0 n (side, q) st = Inr ([r], st') \<and> ow_inv e st' \<and> po_position_side r = side
    \<and> moves o0 (dval q) st st'
    \<and> (side = reduction_side (po_order_side o0) \<longrightarrow> side_quantity st' (po_symbol o0) side
        = side_quantity st (po_symbol o0) side - dval q)
    \<and> (side = reduction_side (po_order_side o0) \<longrightarrow> side_quantity st' (po_symbol o0) (opening_side (po_order_side o0))
        = side_quantity st (po_symbol o0) (opening_side (po_order_side o0)))"
proof -
  let ?os = "po_order_side o0"
  have "side \<noteq> SRC_BOTH" using assms(7) sides_of_order [of ?os] by auto
  moreover have "is_increase side ?os \<Longrightarrow> side_quantity st (po_symbol o0) side + dval q \<le> capacity e"
    using assms(7) sides_of_order [of ?os] by auto
  ultimately obtain r st' where a: "apply_allocation o0 n (side, q) st = Inr ([r], st')" "ow_inv e st'"
    "po_position_side r = side"
    "order_total st' = (order_total st)(raw_key o0 := order_total st (raw_key o0) + dval q)"
    "\<forall>symbol s. side_quantity st' symbol s = (if symbol = po_symbol o0 \<and> s = side
        then if is_increase side ?os then side_quantity st symbol s + dval q
          else max 0 (side_quantity st symbol s - dval q) else side_quantity st symbol s)"
    using apply_allocation_effect [OF assms(1,3,4,5) _ assms(6), of side n] by blast
  have "side = reduction_side ?os \<Longrightarrow> side_quantity st (po_symbol o0) (opening_side ?os) = 0"
    using assms(2,4,7) sides_of_order [of ?os] unfolding one_sided_sides [where os = ?os]
    by (metis less_le_not_le)
  then have m: "moves o0 (dval q) st st'"
    using a(4,5) assms(2,7) sides_of_order [of ?os]
    by (auto simp: moves_def net_view_def net_of_sides [where os = ?os] one_sided_sides [where os = ?os]
        fun_eq_iff algebra_simps max_def)
  show ?thesis
    using a m sides_of_order [of ?os] assms(7) by auto
qed

lemma moves_trans:
  assumes "moves o0 a st st1" "moves o0 b st1 st2" shows "moves o0 (a + b) st st2"
proof -
  have "order_total st1 = (order_total st)(raw_key o0 := order_total st (raw_key o0) + a)"
    "net_position st1 = (net_position st)(po_symbol o0 := net_position st (po_symbol o0)
      + direction (po_order_side o0) * a)"
    using assms(1) by (simp_all add: moves_def net_view_def)
  with assms(2) show ?thesis by (simp add: moves_def net_view_def algebra_simps)
qed

text \<open>Allocation against the reconstructed position moves the net position by the whole delta.\<close>

lemma allocate_position_moves:
  assumes inv: "ow_inv e st" "one_sided st" and d: "grid e d" "0 < dval d"
    and both: "po_position_side o0 = SRC_BOTH" and tot: "order_total st (raw_key o0) + dval d \<le> capacity e"
    and fit: "\<bar>net_position st (po_symbol o0)\<bar> + dval d \<le> capacity e"
    and alloc: "allocate_against_position o0 d (ow_positions st) = Inr allocs"
  shows "\<exists>out st'. apply_allocations o0 n allocs st = Inr (out, st') \<and> ow_inv e st' \<and> moves o0 (dval d) st st'
    \<and> list_all (\<lambda>r. po_position_side r \<noteq> SRC_BOTH) out"
proof -
  let ?os = "po_order_side o0"
  let ?opp = "dict_get (ow_positions st) (po_symbol o0, reduction_side ?os) 0"
  let ?same = "dict_get (ow_positions st) (po_symbol o0, opening_side ?os) 0"
  have q: "side_quantity st (po_symbol o0) (reduction_side ?os) = dval ?opp"
    "side_quantity st (po_symbol o0) (opening_side ?os) = dval ?same" by (simp_all add: side_quantity_def)
  have g: "grid e ?opp" "grid e ?same" using ow_inv_side [OF inv(1)] by auto
  have nn: "0 \<le> dval ?opp" "0 \<le> dval ?same" using g grid_nonneg by auto
  have one: "dval ?opp = 0 \<or> dval ?same = 0"
    using inv(2) unfolding one_sided_sides [where os = ?os] q [symmetric] by blast
  have sz: "dval ?same + dval d \<le> capacity e"
    using fit one nn by (auto simp: net_of_sides [where os = ?os] q direction_def split: if_splits)
  note sides = sides_of_order [of ?os]
  consider (open_only) "dval ?opp = 0" "allocs = [(opening_side ?os, d)]"
    | (reduce_only) r where "allocs = [(reduction_side ?os, r)]" "dval r = dval d" "grid e r" "dval d \<le> dval ?opp"
    | (cross) r i where "allocs = [(reduction_side ?os, r), (opening_side ?os, i)]" "dval r = dval ?opp" "grid e r"
        "0 < dval r" "grid e i" "0 < dval i" "dval r + dval i = dval d" "dval ?same = 0"
  proof (cases "dval ?opp = 0")
    case True
    with alloc that(1) show thesis
      by (auto simp: allocate_against_position_def Let_def decimal_simps split: if_splits)
  next
    case False
    let ?r = "dmin ?opp d"
    have r: "grid e ?r" "dval ?r = min (dval ?opp) (dval d)" using g(1) d(1) by (simp_all add: grid_dmin dval_dmin)
    have i: "dval (d - ?r) = dval d - dval ?r" "grid e (d - ?r)"
      using dval_minus_grid [OF d(1) r(1)] grid_minus [OF d(1) r(1)] r(2) by simp_all
    have allocs: "allocs = (reduction_side ?os, ?r) # (if dval ?r < dval d then [(opening_side ?os, d - ?r)] else [])"
      using alloc False nn one i(1) by (auto simp: allocate_against_position_def Let_def decimal_simps split: if_splits)
    show thesis
    proof (cases "dval ?r < dval d")
      case True
      then show thesis using that(3) [OF _ _ r(1) _ i(2)] allocs r(2) i(1) False nn one
        by (auto simp: min_def split: if_splits)
    next
      case False
      with allocs r that(2) [of ?r] show thesis by (auto simp: min_def split: if_splits)
    qed
  qed
  then show ?thesis
  proof cases
    case open_only
    then show ?thesis
      using single_allocation_moves [OF inv d both tot, of "opening_side ?os" n] sz q sides by fastforce
  next
    case reduce_only
    then show ?thesis
      using single_allocation_moves [OF inv reduce_only(3) _ both, of "reduction_side ?os" n] d(2) tot q sides
      by fastforce
  next
    case cross
    obtain r1 st1 where s1: "apply_allocation o0 n (reduction_side ?os, r) st = Inr ([r1], st1)" "ow_inv e st1"
      "po_position_side r1 = reduction_side ?os" "moves o0 (dval r) st st1"
      "side_quantity st1 (po_symbol o0) (reduction_side ?os) = 0"
      "side_quantity st1 (po_symbol o0) (opening_side ?os) = 0"
      using single_allocation_moves [OF inv cross(3,4) both, of "reduction_side ?os" n] cross tot q by fastforce
    have "order_total st1 (raw_key o0) + dval i \<le> capacity e" "one_sided st1"
      using s1(4) tot cross(7) by (simp_all add: moves_def net_view_def)
    with s1 obtain r2 st2 where s2: "apply_allocation o0 n (opening_side ?os, i) st1 = Inr ([r2], st2)" "ow_inv e st2"
      "po_position_side r2 = opening_side ?os" "moves o0 (dval i) st1 st2"
      using single_allocation_moves [OF s1(2) _ cross(5,6) both, of "opening_side ?os" n] sz cross(4,7,8) by fastforce
    show ?thesis
      using cross(1,7) s1(1,3) s2(1-3) moves_trans [OF s1(4) s2(4)] sides by simp
  qed
qed

definition state_missing :: exn where
  "state_missing = OneWayResolutionError ''COPY_ONE_WAY_REDUCTION_STATE_MISSING''"

lemma resolve_order_net:
  assumes inv: "ow_inv e st" "one_sided st" and both: "po_position_side o0 = SRC_BOTH"
    and q: "grid e (po_executed_quantity o0)"
    and fit: "\<bar>net_position st (po_symbol o0)\<bar> + dval (po_executed_quantity o0) \<le> capacity e"
  shows "case resolve_order [] o0 st of Inl err \<Rightarrow> err = state_missing
    | Inr (out, st') \<Rightarrow> ow_inv e st' \<and> one_sided st' \<and> net_view st' = net_step o0 (net_view st)
        \<and> list_all (\<lambda>r. po_position_side r \<noteq> SRC_BOTH) out"
proof -
  let ?st = "with_default (raw_key o0) st" and ?x = "po_executed_quantity o0"
  let ?t = "dsum (map snd (dict_get (ow_cumulative st) (raw_key o0) []))"
  note views = with_default_views [of "raw_key o0" st] with_default_net [of "raw_key o0" st]
  note inv1 = with_default_inv [OF inv(1), of "raw_key o0"]
  have t: "dval ?t = order_total st (raw_key o0)" by (rule order_total_dsum [OF inv(1)])
  show ?thesis
  proof (cases "?x \<le> ?t")
    case True
    then have "resolve_order [] o0 st = Inr ([], ?st)"
      using both by (simp add: resolve_order_def Let_def with_default_def)
    moreover have "net_step o0 (net_view st) = net_view st"
      using True t by (simp add: net_step_def net_view_def Let_def decimal_le_val)
    ultimately show ?thesis using inv inv1 views by (simp add: net_view_def)
  next
    case False
    have e: "e \<le> 0" using inv(1) by (simp add: ow_inv_def)
    have nt: "0 \<le> order_total st (raw_key o0)"
      unfolding order_total_def by (rule grid_sum_nonneg [OF ow_inv_by(2) [OF inv(1)]])
    from False t have lt: "order_total st (raw_key o0) < dval ?x" by (simp add: decimal_le_val)
    have "dval ?t \<le> 10 ^ 28 * 10 powi e" using lt t q by (simp add: grid_def)
    moreover have "e \<le> dexp ?t"
      using dsum_dexp [of e 0 "map snd (dict_get (ow_cumulative st) (raw_key o0) [])"]
        ow_inv_by(2) [OF inv(1), of "raw_key o0"] e
      by (simp add: dsum_def zero_decimal_def list_all_iff grid_def)
    ultimately have tg: "grid e ?t" using t nt by (simp add: grid_def)
    have d: "dval (?x - ?t) = dval ?x - order_total st (raw_key o0)" "grid e (?x - ?t)"
      using dval_minus_grid [OF q tg] grid_minus [OF q tg] lt t by simp_all
    show ?thesis
    proof (cases "allocate_against_position o0 (?x - ?t) (ow_positions ?st)")
      case (Inl err)
      have "one_sided st \<Longrightarrow> err = state_missing"
        using Inl views(3) unfolding one_sided_sides [where os = "po_order_side o0"]
        by (auto simp: allocate_against_position_def Let_def state_missing_def side_quantity_def decimal_simps
            split: if_splits) (metis less_irrefl)+
      with Inl False both inv(2) show ?thesis
        by (simp add: resolve_order_def Let_def with_default_def closed_interval_def)
    next
      case (Inr allocs)
      obtain out st' where r: "apply_allocations o0 (length allocs) allocs ?st = Inr (out, st')" "ow_inv e st'"
        "moves o0 (dval (?x - ?t)) ?st st'" "list_all (\<lambda>r. po_position_side r \<noteq> SRC_BOTH) out"
        using allocate_position_moves [OF inv1 _ d(2) _ both _ _ Inr, of "length allocs"] inv(2) d(1) lt nt fit q views
        by (auto simp: grid_def capacity_def)
      then have "resolve_order [] o0 st = Inr (out, st')"
        using False both Inr by (simp add: resolve_order_def Let_def with_default_def closed_interval_def)
      with r d(1) lt views show ?thesis
        by (simp add: moves_def net_view_def net_step_def Let_def)
    qed
  qed
qed

lemma net_step_bound:
  assumes "0 \<le> totals (raw_key o0)" "0 \<le> dval (po_executed_quantity o0)"
  shows "\<bar>snd (net_step o0 (totals, net)) symbol\<bar> \<le> \<bar>net symbol\<bar> + dval (po_executed_quantity o0)"
  using assms by (auto simp: net_step_def Let_def direction_def)

lemma order_total_nonneg: "ow_inv e st \<Longrightarrow> 0 \<le> order_total st k"
  unfolding order_total_def by (rule grid_sum_nonneg [OF ow_inv_by(2)])

section \<open>Properties of the resolver\<close>


lemma resolve_position_side_explicit:
  "resolve_position_side o0 side q p = Inr r \<Longrightarrow> po_position_side r = side \<and> side \<noteq> SRC_BOTH"
  by (auto simp: resolve_position_side_def Let_def)

text \<open>A view of an order: everything but the side, the quantity, the profit and the keys.\<close>

definition view_of :: "public_leader_order \<Rightarrow> public_leader_order \<Rightarrow> bool" where
  "view_of o0 r \<longleftrightarrow> po_position_side r \<noteq> SRC_BOTH \<and> po_lead_portfolio_id r = po_lead_portfolio_id o0
     \<and> po_symbol r = po_symbol o0 \<and> po_order_side r = po_order_side o0 \<and> po_order_type r = po_order_type o0
     \<and> po_average_price r = po_average_price o0 \<and> po_order_time_ms r = po_order_time_ms o0
     \<and> po_update_time_ms r = po_update_time_ms o0"

lemma apply_allocation_view:
  "apply_allocation o0 n a st = Inr (out, st') \<Longrightarrow> list_all (view_of o0) out"
  by (cases a) (auto simp: apply_allocation_def resolve_position_side_def view_of_def Let_def split: if_splits)

lemma apply_allocations_view:
  "apply_allocations o0 n as st = Inr (out, st') \<Longrightarrow> list_all (view_of o0) out"
  by (induction as arbitrary: st out) (fastforce dest: apply_allocation_view)+

lemma resolve_order_view: "resolve_order intervals o0 st = Inr (out, st') \<Longrightarrow> list_all (view_of o0) out"
  by (auto simp: resolve_order_def Let_def view_of_def dest: apply_allocations_view split: if_splits)

lemma resolve_orders_view:
  "resolve_orders intervals os st = Inr (out, st') \<Longrightarrow> \<forall>r \<in> set out. \<exists>o0 \<in> set os. view_of o0 r"
  by (induction os arbitrary: st out) (fastforce simp: list_all_iff dest: resolve_order_view)+

lemma resolve_position_side_error: "resolve_position_side o0 side q p \<noteq> Inl (AssertionError msg)"
  by (auto simp: resolve_position_side_def rbind_eq_Inl Let_def)

lemma apply_allocations_no_assertion: "apply_allocations o0 n as st \<noteq> Inl (AssertionError msg)"
proof (induction as arbitrary: st)
  case (Cons a as)
  have "apply_allocation o0 n a st \<noteq> Inl (AssertionError msg)"
    by (cases a) (auto simp: apply_allocation_def rbind_eq_Inl Let_def resolve_position_side_error)
  with Cons show ?case by (auto simp: rbind_eq_Inl)
qed simp

lemma resolve_order_no_assertion: "resolve_order intervals o0 st \<noteq> Inl (AssertionError msg)"
proof -
  have "allocate_with_closed_interval o0 d i previous \<noteq> Inl (AssertionError msg)"
    "allocate_against_position o0 d ps \<noteq> Inl (AssertionError msg)"
    "closed_interval o0 intervals \<noteq> Inl (AssertionError msg)" for d i previous ps
    by (auto simp: allocate_with_closed_interval_def allocate_against_position_def closed_interval_def Let_def
        split: option.splits list.splits)
  then show ?thesis
    by (auto simp: resolve_order_def rbind_eq_Inl Let_def apply_allocations_no_assertion split: option.splits)
qed

lemma resolve_orders_no_assertion: "resolve_orders intervals os st \<noteq> Inl (AssertionError msg)"
  by (induction os arbitrary: st) (auto simp: rbind_eq_Inl resolve_order_no_assertion)

text \<open>Fail-closed resolution. For every input, evidence included, the resolver's final assertion
  cannot fire: it either raises a resolution or data error, or returns orders that all have an
  explicit side, each a view of one of the given orders with the same leader, symbol, direction,
  type, price and times.\<close>

theorem resolution_is_explicit:
  "(\<forall>msg. resolve_one_way_orders orders priors intervals \<noteq> Inl (AssertionError msg))
   \<and> (case resolve_one_way_orders orders priors intervals of Inl _ \<Rightarrow> True
      | Inr out \<Rightarrow> \<forall>r \<in> set out. \<exists>o0 \<in> set orders. view_of o0 r)"
proof -
  obtain res where res: "resolve_orders intervals (sort_key order_key orders) (prior_state priors) = res" by simp
  have no: "res \<noteq> Inl (AssertionError msg)" for msg
    using resolve_orders_no_assertion res by blast
  have "res = Inr (out, st') \<Longrightarrow> \<forall>r \<in> set out. \<exists>o0 \<in> set orders. view_of o0 r" for out st'
    using resolve_orders_view [of intervals "sort_key order_key orders" "prior_state priors"] res by auto
  moreover from this have "res = Inr (out, st') \<Longrightarrow> \<not> list_ex (\<lambda>o0. po_position_side o0 = SRC_BOTH) out" for out st'
    by (fastforce simp: list_ex_iff view_of_def)
  ultimately show ?thesis
    using no res by (cases res) (auto simp: resolve_one_way_orders_def rbind_eq_Inl require_def split: sum.splits)
qed

section \<open>A concrete crossing order\<close>

definition sample_both :: "order_side \<Rightarrow> nat \<Rightarrow> int \<Rightarrow> string \<Rightarrow> public_leader_order" where
  "sample_both side q t key = \<lparr>po_lead_portfolio_id = ''4001'', po_symbol = ''BTCUSDT'',
     po_position_side = SRC_BOTH, po_order_side = side, po_order_type = ''MARKET'',
     po_executed_quantity = dec q, po_average_price = dec 100, po_total_pnl = dec 0,
     po_order_time_ms = t, po_update_time_ms = t, po_identity_key = key, po_event_key = key,
     po_raw_payload_hash = key\<rparr>"

lemma sample_arith: "dec 3 - dec 0 = dec 3" "dec 0 + dec 3 = dec 3" "dec 5 - dec 0 = dec 5"
  "dec 5 - dec 3 = dec 2" "dec 3 + dec 3 = dec 6" "dec 0 + dec 2 = dec 2" "dec 3 - dec 3 = dec 0" "(0::decimal) = dec 0"
  "dmin (dec 3) (dec 5) = dec 3" "dmax (dec 0) (dec 0) = dec 0"
  by code_simp+

lemma prior_state_Nil: "prior_state [] = \<lparr>ow_positions = [], ow_cumulative = []\<rparr>"
  by (simp add: prior_state_def latest_by_identity_def)

lemma sample_resolution:
  "case resolve_orders [] [sample_both BUY 3 1 ''a'', sample_both SELL 5 2 ''b''] (prior_state []) of Inl err \<Rightarrow> False
     | Inr (out, st') \<Rightarrow> map po_position_side out = [SRC_LONG, SRC_LONG, SRC_SHORT]"
  unfolding prior_state_Nil
  by (simp add: sample_both_def resolve_order_def raw_key_def closed_interval_def allocate_against_position_def
      Let_def opening_side_def reduction_side_def dict_get_def decimal_le_val decimal_less_val deq_val apply_allocation_def resolve_position_side_def
      apply_position_delta_def is_increase_def dsum_def sample_arith)


theorem resolution_is_explicit_witness:
  "\<exists>out. resolve_one_way_orders [sample_both BUY 3 1 ''a'', sample_both SELL 5 2 ''b''] [] [] = Inr out
     \<and> (\<forall>r \<in> set out. po_position_side r \<noteq> SRC_BOTH)"
proof -
  let ?os = "[sample_both BUY 3 1 ''a'', sample_both SELL 5 2 ''b'']"
  obtain out st' where r: "resolve_orders [] ?os (prior_state []) = Inr (out, st')"
    "map po_position_side out = [SRC_LONG, SRC_LONG, SRC_SHORT]"
    using sample_resolution by (auto split: sum.splits)
  have ids: "(\<not> 1 < length (remdups (map po_lead_portfolio_id ([] @ ?os)))) = True" by (simp add: sample_both_def)
  have srt: "sort_key order_key ?os = ?os" by (simp add: order_key_def sample_both_def less_eq_prod_def)
  have ex: "list_ex (\<lambda>o0. po_position_side o0 = SRC_BOTH) out = False"
  proof -
    have "\<not> list_ex (\<lambda>side. side = SRC_BOTH) (map po_position_side out)" by (simp add: r(2))
    then show ?thesis by (simp add: list_ex_iff image_iff) metis
  qed
  have "resolve_one_way_orders ?os [] [] = Inr out"
    unfolding resolve_one_way_orders_def ids srt r(1) by (simp add: ex)
  with resolution_is_explicit [of ?os "[]" "[]"] show ?thesis by (auto simp: view_of_def)
qed

end
