(* ===== verification/Clock.thy ===== *)
theory Clock
  imports DecimalText
begin

text \<open>
  What the program uses of \<open>datetime\<close>: an instant in microseconds with the UTC offset of its time
  zone, which a naive value does not have. Intervals (\<open>timedelta\<close>) are integers in microseconds.
\<close>

record datetime =
  dt_instant :: int
  dt_utcoffset :: "int option"

definition seconds :: "int \<Rightarrow> int" where "seconds n = n * 1000000"
definition minutes :: "int \<Rightarrow> int" where "minutes n = n * seconds 60"
definition hours :: "int \<Rightarrow> int" where "hours n = n * minutes 60"
definition days :: "int \<Rightarrow> int" where "days n = n * hours 24"

lemmas interval_simps = seconds_def minutes_def hours_def days_def

definition is_utc :: "datetime \<Rightarrow> bool" where
  "is_utc t \<longleftrightarrow> dt_utcoffset t = Some 0"

definition is_aware :: "datetime \<Rightarrow> bool" where
  "is_aware t \<longleftrightarrow> dt_utcoffset t \<noteq> None"

text \<open>Comparison and subtraction raise for one naive and one aware operand; aware operands compare
  by instant, naive ones by their wall clock, which is their instant here.\<close>

definition comparable :: "datetime \<Rightarrow> datetime \<Rightarrow> unit result" where
  "comparable a b = require (is_aware a = is_aware b)
     (TypeError ''can't compare offset-naive and offset-aware datetimes'')"

definition dt_greater :: "datetime \<Rightarrow> datetime \<Rightarrow> bool result" where
  "dt_greater a b = rbind (comparable a b) (\<lambda>_. Inr (dt_instant b < dt_instant a))"

definition dt_less :: "datetime \<Rightarrow> datetime \<Rightarrow> bool result" where
  "dt_less a b = rbind (comparable a b) (\<lambda>_. Inr (dt_instant a < dt_instant b))"

definition dt_diff :: "datetime \<Rightarrow> datetime \<Rightarrow> int result" where
  "dt_diff a b = rbind (comparable a b) (\<lambda>_. Inr (dt_instant a - dt_instant b))"

definition dt_add :: "datetime \<Rightarrow> int \<Rightarrow> datetime" where
  "dt_add t d = t\<lparr>dt_instant := dt_instant t + d\<rparr>"

lemma dt_less_utc [simp]: "is_utc a \<Longrightarrow> is_utc b \<Longrightarrow> dt_less a b = Inr (dt_instant a < dt_instant b)"
  by (simp add: dt_less_def comparable_def is_utc_def is_aware_def)

lemma dt_greater_utc [simp]: "is_utc a \<Longrightarrow> is_utc b \<Longrightarrow> dt_greater a b = Inr (dt_instant b < dt_instant a)"
  by (simp add: dt_greater_def comparable_def is_utc_def is_aware_def)

lemma dt_diff_utc [simp]: "is_utc a \<Longrightarrow> is_utc b \<Longrightarrow> dt_diff a b = Inr (dt_instant a - dt_instant b)"
  by (simp add: dt_diff_def comparable_def is_utc_def is_aware_def)

section \<open>ISO 8601 text of a UTC time\<close>

text \<open>The proleptic Gregorian date of a day number counted from 1970-01-01: the number is split into
  400-year eras of 146097 days that begin on March 1.\<close>

definition civil_from_days :: "int \<Rightarrow> int \<times> int \<times> int" where
  "civil_from_days n =
    (let z = n + 719468; era = z div 146097; doe = z mod 146097;
         yoe = (doe - doe div 1460 + doe div 36524 - doe div 146096) div 365;
         doy = doe - (365 * yoe + yoe div 4 - yoe div 100);
         mp = (5 * doy + 2) div 153;
         d = doy - (153 * mp + 2) div 5 + 1;
         m = (if mp < 10 then mp + 3 else mp - 9);
         y = yoe + era * 400 + (if m \<le> 2 then 1 else 0)
     in (y, m, d))"

definition pad :: "nat \<Rightarrow> int \<Rightarrow> string" where
  "pad w n = (let s = show_int n in replicate (w - length s) CHR ''0'' @ s)"

definition isoformat_utc :: "datetime \<Rightarrow> string" where
  "isoformat_utc t =
    (let us = dt_instant t; day = us div days 1; rest = us mod days 1;
         (y, m, d) = civil_from_days day; sec = rest div seconds 1; frac = rest mod seconds 1
     in pad 4 y @ ''-'' @ pad 2 m @ ''-'' @ pad 2 d @ ''T'' @ pad 2 (sec div 3600) @ '':''
        @ pad 2 (sec div 60 mod 60) @ '':'' @ pad 2 (sec mod 60)
        @ (if frac = 0 then '''' else ''.'' @ pad 6 frac) @ ''+00:00'')"

lemma isoformat_epoch: "isoformat_utc \<lparr>dt_instant = 0, dt_utcoffset = Some 0\<rparr> = ''1970-01-01T00:00:00+00:00''"
  by code_simp

lemma isoformat_leap_day:
  "isoformat_utc \<lparr>dt_instant = 1709251199000001, dt_utcoffset = Some 0\<rparr> = ''2024-02-29T23:59:59.000001+00:00''"
  by code_simp

text \<open>\<open>int(t.timestamp())\<close>: whole seconds, truncated towards zero. The intermediate float keeps the
  integral part of every instant up to the year 2242.\<close>

definition whole_seconds :: "datetime \<Rightarrow> int" where
  "whole_seconds t = (if 0 \<le> dt_instant t then dt_instant t div seconds 1 else - ((- dt_instant t) div seconds 1))"

end
