(* ===== verification/Risk.thy ===== *)
theory Risk
  imports Models Clock
begin

text \<open>
  \<open>copy_trading/risk.py\<close>: the account snapshot, the risk policy, the free margin computations and
  the account-level gate; and \<open>copy_trading/leader_symbol_stop.py\<close>: the profit and loss of the
  positions still open, netted per leader and symbol.
\<close>

section \<open>Account snapshots\<close>

datatype account_risk_level = NORMAL | WARNING | EMERGENCY | INVALID

record copy_account_snapshot =
  ca_observed_at :: datetime
  ca_hedge_mode :: bool
  ca_can_trade :: bool
  ca_wallet_balance_usdt :: decimal
  ca_margin_balance_usdt :: decimal
  ca_available_balance_usdt :: decimal
  ca_total_initial_margin_usdt :: decimal
  ca_total_maintenance_margin_usdt :: decimal

definition account_decimal_error :: exn where
  "account_decimal_error = ValueError ''COPY_ACCOUNT_DECIMAL_INVALID''"

definition account_decimal :: "json \<Rightarrow> decimal result" where
  "account_decimal v = (case v of JBool _ \<Rightarrow> Inl account_decimal_error | JNull \<Rightarrow> Inl account_decimal_error
     | _ \<Rightarrow> (case json_decimal v of Finite x \<Rightarrow> if x < 0 then Inl account_decimal_error else Inr x
         | _ \<Rightarrow> Inl account_decimal_error))"

definition require_utc :: "datetime \<Rightarrow> unit result" where
  "require_utc t = require (is_utc t) (ValueError ''copy account time must be timezone-aware UTC'')"

definition account_from_api :: "document \<Rightarrow> document \<Rightarrow> datetime \<Rightarrow> copy_account_snapshot result" where
  "account_from_api account position_mode observed_at =
    rbind (require_utc observed_at) (\<lambda>_.
    case (doc_get position_mode ''dualSidePosition'', doc_get account ''canTrade'') of
      (JBool hedge_mode, JBool can_trade) \<Rightarrow>
        rbind (account_decimal (doc_get account ''totalWalletBalance'')) (\<lambda>wallet.
        rbind (account_decimal (doc_get account ''totalMarginBalance'')) (\<lambda>margin.
        rbind (account_decimal (doc_get account ''availableBalance'')) (\<lambda>available.
        rbind (account_decimal (doc_get account ''totalInitialMargin'')) (\<lambda>initial.
        rbind (account_decimal (doc_get account ''totalMaintMargin'')) (\<lambda>maintenance.
        Inr \<lparr>ca_observed_at = observed_at, ca_hedge_mode = hedge_mode, ca_can_trade = can_trade,
          ca_wallet_balance_usdt = wallet, ca_margin_balance_usdt = margin,
          ca_available_balance_usdt = available, ca_total_initial_margin_usdt = initial,
          ca_total_maintenance_margin_usdt = maintenance\<rparr>)))))
    | _ \<Rightarrow> Inl (ValueError ''COPY_ACCOUNT_BOOLEAN_INVALID''))"

definition maintenance_margin_ratio_pct :: "copy_account_snapshot \<Rightarrow> decimal result" where
  "maintenance_margin_ratio_pct s =
    (if ca_margin_balance_usdt s \<le> 0
     then Inr (if 0 < ca_total_maintenance_margin_usdt s then dec 100 else dec 0)
     else rbind (decimal_truediv (ca_total_maintenance_margin_usdt s) (ca_margin_balance_usdt s))
       (\<lambda>r. Inr (r * dec 100)))"

section \<open>The risk gate\<close>

record copy_account_risk_policy =
  rk_warning_equity_usdt :: decimal
  rk_emergency_equity_usdt :: decimal
  rk_warning_margin_ratio_pct :: decimal
  rk_emergency_margin_ratio_pct :: decimal
  rk_maximum_snapshot_age :: int
  rk_automatic_intervention_enabled :: bool

definition default_risk_policy :: copy_account_risk_policy where
  "default_risk_policy = \<lparr>rk_warning_equity_usdt = dec 120, rk_emergency_equity_usdt = dec 105,
     rk_warning_margin_ratio_pct = dec 65, rk_emergency_margin_ratio_pct = dec 80,
     rk_maximum_snapshot_age = seconds 15, rk_automatic_intervention_enabled = False\<rparr>"

definition risk_policy_check :: "copy_account_risk_policy \<Rightarrow> copy_account_risk_policy result" where
  "risk_policy_check p =
    (if \<not> (0 < rk_emergency_equity_usdt p \<and> rk_emergency_equity_usdt p < rk_warning_equity_usdt p)
     then Inl (ValueError ''copy equity risk thresholds are invalid'')
     else if \<not> (0 < rk_warning_margin_ratio_pct p
       \<and> rk_warning_margin_ratio_pct p < rk_emergency_margin_ratio_pct p
       \<and> rk_emergency_margin_ratio_pct p < dec 100)
     then Inl (ValueError ''copy margin risk thresholds are invalid'')
     else if \<not> (seconds 1 \<le> rk_maximum_snapshot_age p \<and> rk_maximum_snapshot_age p \<le> minutes 1)
     then Inl (ValueError ''copy account snapshot age is invalid'') else Inr p)"

record account_risk_decision =
  ad_level :: account_risk_level
  ad_allow_execution :: bool
  ad_pause_new_entries :: bool
  ad_reduce_all_required :: bool
  ad_reason_codes :: "string list"

definition logical_available_balance :: "decimal \<Rightarrow> decimal \<Rightarrow> decimal \<Rightarrow> decimal result" where
  "logical_available_balance exchange_available equity initial =
    (if list_ex (\<lambda>v. v < 0) [exchange_available, equity, initial]
     then Inl (ValueError ''copy logical available balance values are invalid'')
     else Inr (dmin exchange_available (dmax 0 (equity - initial))))"

definition available_entry_margin_balance :: "decimal \<Rightarrow> decimal \<Rightarrow> decimal \<Rightarrow> decimal \<Rightarrow> decimal result" where
  "available_entry_margin_balance unoccupied limit committed pending =
    (if list_ex (\<lambda>v. v < 0) [unoccupied, limit, committed, pending]
     then Inl (ValueError ''copy available entry margin values are invalid'')
     else Inr (dmin unoccupied (dmax 0 (limit - committed - pending))))"

definition evaluate_account_risk ::
  "copy_account_snapshot \<Rightarrow> signal_kind \<Rightarrow> datetime \<Rightarrow> copy_account_risk_policy option
     \<Rightarrow> account_risk_decision result" where
  "evaluate_account_risk s kind now policy =
    rbind (require_utc now) (\<lambda>_.
    let p = (case policy of None \<Rightarrow> default_risk_policy | Some p \<Rightarrow> p);
        auto = rk_automatic_intervention_enabled p in
    rbind (dt_greater (ca_observed_at s) now) (\<lambda>future.
    rbind (if future then Inr True
           else rbind (dt_diff now (ca_observed_at s)) (\<lambda>age. Inr (rk_maximum_snapshot_age p < age))) (\<lambda>stale.
    let invalid = (if stale then [''COPY_ACCOUNT_SNAPSHOT_STALE''] else [])
          @ (if \<not> ca_hedge_mode s then [''COPY_ACCOUNT_HEDGE_MODE_REQUIRED''] else [])
          @ (if \<not> ca_can_trade s then [''COPY_ACCOUNT_TRADING_DISABLED''] else []) in
    if invalid \<noteq> []
    then Inr \<lparr>ad_level = INVALID, ad_allow_execution = False, ad_pause_new_entries = True,
      ad_reduce_all_required = False, ad_reason_codes = invalid\<rparr>
    else rbind (maintenance_margin_ratio_pct s) (\<lambda>margin_ratio.
      let emergency = (ca_margin_balance_usdt s \<le> rk_emergency_equity_usdt p
            \<or> rk_emergency_margin_ratio_pct p \<le> margin_ratio);
          warning = (ca_margin_balance_usdt s \<le> rk_warning_equity_usdt p
            \<or> rk_warning_margin_ratio_pct p \<le> margin_ratio) in
      if emergency
      then Inr \<lparr>ad_level = EMERGENCY, ad_allow_execution = (if auto then kind = REDUCE else True),
        ad_pause_new_entries = auto, ad_reduce_all_required = auto,
        ad_reason_codes = [''COPY_ACCOUNT_EMERGENCY_RISK_LINE'']\<rparr>
      else if warning
      then Inr \<lparr>ad_level = WARNING, ad_allow_execution = (if auto then kind = REDUCE else True),
        ad_pause_new_entries = auto, ad_reduce_all_required = False,
        ad_reason_codes = [''COPY_ACCOUNT_WARNING_RISK_LINE'']\<rparr>
      else Inr \<lparr>ad_level = NORMAL, ad_allow_execution = True, ad_pause_new_entries = False,
        ad_reduce_all_required = False, ad_reason_codes = []\<rparr>))))"

section \<open>Open profit and loss per leader and symbol\<close>

definition LEADER_SYMBOL_STOP_LOSS_USDT :: decimal where
  "LEADER_SYMBOL_STOP_LOSS_USDT = dec 10"

definition LEADER_SYMBOL_STOP_COOLDOWN :: int where
  "LEADER_SYMBOL_STOP_COOLDOWN = hours 24"

record leader_symbol_position_pnl =
  lp_lead_portfolio_id :: string
  lp_symbol :: string
  lp_position_side :: position_side
  lp_position_event_id :: string
  lp_quantity :: decimal
  lp_average_entry_price :: decimal
  lp_mark_price :: decimal

definition unrealized_pnl_usdt :: "leader_symbol_position_pnl \<Rightarrow> decimal" where
  "unrealized_pnl_usdt p = (lp_mark_price p - lp_average_entry_price p) * lp_quantity p
     * (if lp_position_side p = LONG then dec 1 else Dec True 1 0)"

definition pnl_key :: "leader_symbol_position_pnl \<Rightarrow> string \<times> string" where
  "pnl_key p = (lp_lead_portfolio_id p, lp_symbol p)"

definition aggregate_leader_symbol_pnl ::
  "leader_symbol_position_pnl list \<Rightarrow> (string \<times> string, decimal) dict" where
  "aggregate_leader_symbol_pnl ps = fold (\<lambda>p totals.
     AList.update (pnl_key p) (dict_get totals (pnl_key p) 0 + unrealized_pnl_usdt p) totals) ps []"

section \<open>Properties\<close>

text \<open>The risk gate. With UTC times the gate always decides, and its decision is exactly this
  table: the snapshot is invalid when it is from the future, too old, not in hedge mode or not
  allowed to trade, and then nothing executes; otherwise reductions always execute, and increases
  execute unless automatic intervention is on and a warning or emergency line is crossed; flattening
  is demanded only under automatic intervention in an emergency.\<close>

theorem risk_gate_decides:
  assumes "is_utc now" "is_utc (ca_observed_at s)"
  shows "\<exists>d. evaluate_account_risk s kind now (Some p) = Inr d
    \<and> (ad_level d = INVALID \<longleftrightarrow> dt_instant now < dt_instant (ca_observed_at s)
        \<or> rk_maximum_snapshot_age p < dt_instant now - dt_instant (ca_observed_at s)
        \<or> \<not> ca_hedge_mode s \<or> \<not> ca_can_trade s)
    \<and> (ad_allow_execution d \<longleftrightarrow> ad_level d \<noteq> INVALID
        \<and> (kind = REDUCE \<or> ad_level d = NORMAL \<or> \<not> rk_automatic_intervention_enabled p))
    \<and> (ad_reduce_all_required d \<longleftrightarrow> ad_level d = EMERGENCY \<and> rk_automatic_intervention_enabled p)
    \<and> (ad_pause_new_entries d \<longleftrightarrow> ad_level d = INVALID
        \<or> ad_level d \<noteq> NORMAL \<and> rk_automatic_intervention_enabled p)
    \<and> (ad_reason_codes d = [] \<longleftrightarrow> ad_level d = NORMAL)"
proof -
  obtain r where r: "maintenance_margin_ratio_pct s = Inr r"
    by (cases "ca_margin_balance_usdt s \<le> 0")
      (auto simp: maintenance_margin_ratio_pct_def decimal_truediv_def dcoeff_eq_0_iff decimal_simps)
  show ?thesis
    using assms r by (cases "dt_instant now < dt_instant (ca_observed_at s)")
      (auto simp: evaluate_account_risk_def require_utc_def Let_def)
qed

text \<open>Free entry margin. What is reported as still available never exceeds the unoccupied
  balance, and together with the committed and the pending margin it never exceeds the entry limit
  unless nothing is available at all.\<close>

theorem entry_margin_never_overcommits:
  assumes "available_entry_margin_balance unoccupied limit committed pending = Inr a"
    "grid e limit" "grid e committed" "grid e pending" "dval committed \<le> dval limit"
  shows "0 \<le> dval a \<and> dval a \<le> dval unoccupied
    \<and> (dval a = 0 \<or> dval committed + dval pending + dval a \<le> dval limit)"
proof -
  have c: "dval (limit - committed) = dval limit - dval committed" "grid e (limit - committed)"
    using assms by (auto intro: dval_minus_grid grid_minus)
  have "dval (limit - committed - pending) = dval limit - dval committed - dval pending"
    using dval_minus_grid [OF c(2) assms(4)] c(1) by simp
  with assms(1) show ?thesis
    by (auto simp: available_entry_margin_balance_def decimal_simps split: if_splits)
qed

text \<open>Netting. The total of a leader and symbol is the context's sum of the profits of that
  leader's positions in that symbol, in order; positions of other leaders or symbols do not count.\<close>

theorem pnl_is_netted_per_key:
  "dict_get (aggregate_leader_symbol_pnl ps) k 0
     = dsum (map unrealized_pnl_usdt (filter (\<lambda>p. pnl_key p = k) ps))"
proof -
  have "dict_get (fold (\<lambda>p totals. AList.update (pnl_key p)
        (dict_get totals (pnl_key p) 0 + unrealized_pnl_usdt p) totals) ps d) k 0
      = foldl (+) (dict_get d k 0) (map unrealized_pnl_usdt (filter (\<lambda>p. pnl_key p = k) ps))" for d
    by (induction ps arbitrary: d) auto
  from this [of "[]"] show ?thesis by (simp add: aggregate_leader_symbol_pnl_def dsum_def)
qed

section \<open>Concrete inputs\<close>

definition sample_account :: copy_account_snapshot where
  "sample_account = \<lparr>ca_observed_at = \<lparr>dt_instant = 0, dt_utcoffset = Some 0\<rparr>, ca_hedge_mode = True,
     ca_can_trade = True, ca_wallet_balance_usdt = dec 150, ca_margin_balance_usdt = dec 110,
     ca_available_balance_usdt = dec 90, ca_total_initial_margin_usdt = dec 20,
     ca_total_maintenance_margin_usdt = dec 11\<rparr>"

theorem risk_gate_decides_witness:
  "\<exists>d. evaluate_account_risk sample_account INCREASE \<lparr>dt_instant = seconds 3, dt_utcoffset = Some 0\<rparr>
       (Some (default_risk_policy\<lparr>rk_automatic_intervention_enabled := True\<rparr>)) = Inr d
     \<and> ad_level d \<noteq> INVALID"
  using risk_gate_decides [of "\<lparr>dt_instant = seconds 3, dt_utcoffset = Some 0\<rparr>" sample_account INCREASE
      "default_risk_policy\<lparr>rk_automatic_intervention_enabled := True\<rparr>"]
  by (auto simp: is_utc_def sample_account_def interval_simps default_risk_policy_def)

theorem entry_margin_never_overcommits_witness:
  "\<exists>a. available_entry_margin_balance (dec 90) (dec 120) (dec 40) (dec 5) = Inr a
     \<and> (dval a = 0 \<or> dval (dec 40) + dval (dec 5) + dval a \<le> dval (dec 120))"
proof -
  have "\<exists>a. available_entry_margin_balance (dec 90) (dec 120) (dec 40) (dec 5) = Inr a"
    by (simp add: available_entry_margin_balance_def decimal_simps)
  moreover have "grid 0 (dec 120)" "grid 0 (dec 40)" "grid 0 (dec 5)" "dval (dec 40) \<le> dval (dec 120)"
    by (simp_all add: grid_def)
  ultimately show ?thesis using entry_margin_never_overcommits by blast
qed

end
