(* ===== verification/Slots.thy ===== *)
theory Slots
  imports Clock "HOL-Library.Multiset"
begin

text \<open>
  \<open>copy_trading/leader_slots.py\<close>: the leader slots with their callback names, the stable
  assignment of selected leaders to slots and the activity record of a candidate. The display labels
  (\<open>leader_slot_label\<close>) are text for the chat client and are not modelled.
\<close>

section \<open>Slots and callbacks\<close>

datatype leader_slot = LONG_TERM | SHORT_TERM_1 | SHORT_TERM_2 | CUSTOM_1 | CUSTOM_2 | CUSTOM_3
  | CUSTOM_4 | CUSTOM_5 | CUSTOM_6 | CUSTOM_7

datatype selection_strategy = STRATEGY_LONG_TERM | STRATEGY_SHORT_TERM

fun strategy_slots :: "selection_strategy \<Rightarrow> leader_slot list" where
  "strategy_slots STRATEGY_LONG_TERM = [LONG_TERM]"
| "strategy_slots STRATEGY_SHORT_TERM = [SHORT_TERM_1, SHORT_TERM_2]"

fun leader_slot_value :: "leader_slot \<Rightarrow> string" where
  "leader_slot_value LONG_TERM = ''LONG_TERM''"
| "leader_slot_value SHORT_TERM_1 = ''SHORT_TERM_1''"
| "leader_slot_value SHORT_TERM_2 = ''SHORT_TERM_2''"
| "leader_slot_value CUSTOM_1 = ''CUSTOM_1''"
| "leader_slot_value CUSTOM_2 = ''CUSTOM_2''"
| "leader_slot_value CUSTOM_3 = ''CUSTOM_3''"
| "leader_slot_value CUSTOM_4 = ''CUSTOM_4''"
| "leader_slot_value CUSTOM_5 = ''CUSTOM_5''"
| "leader_slot_value CUSTOM_6 = ''CUSTOM_6''"
| "leader_slot_value CUSTOM_7 = ''CUSTOM_7''"

definition callback_to_slot :: "(string, leader_slot) dict" where
  "callback_to_slot = [(''long'', LONG_TERM), (''short1'', SHORT_TERM_1), (''short2'', SHORT_TERM_2),
     (''custom1'', CUSTOM_1), (''custom2'', CUSTOM_2), (''custom3'', CUSTOM_3), (''custom4'', CUSTOM_4),
     (''custom5'', CUSTOM_5), (''custom6'', CUSTOM_6), (''custom7'', CUSTOM_7)]"

definition leader_slot_from_callback :: "string \<Rightarrow> leader_slot result" where
  "leader_slot_from_callback v = (case map_of callback_to_slot v of
     Some slot \<Rightarrow> Inr slot | None \<Rightarrow> Inl (ValueError ''copy leader slot callback is invalid''))"

definition leader_slot_callback :: "leader_slot \<Rightarrow> string result" where
  "leader_slot_callback slot = (case find (\<lambda>kv. snd kv = slot) callback_to_slot of
     Some kv \<Rightarrow> Inr (fst kv) | None \<Rightarrow> Inl (AssertionError ''unreachable leader slot''))"

definition is_custom_slot :: "leader_slot \<Rightarrow> bool" where
  "is_custom_slot slot \<longleftrightarrow> take 7 (leader_slot_value slot) = ''CUSTOM_''"

definition slot_replacement_wait :: "leader_slot \<Rightarrow> int" where
  "slot_replacement_wait slot = (if slot = LONG_TERM then days 1 else hours 2)"

section \<open>Stable assignment\<close>

text \<open>\<open>next(newcomers)\<close> raises \<open>StopIteration\<close> when the iterator is exhausted.\<close>

fun fill_slots ::
  "leader_slot list \<Rightarrow> string list \<Rightarrow> (leader_slot, string) dict \<Rightarrow> (leader_slot, string) dict result" where
  "fill_slots [] newcomers assigned = Inr assigned"
| "fill_slots (slot # slots) newcomers assigned = (case map_of assigned slot of
     Some _ \<Rightarrow> fill_slots slots newcomers assigned
   | None \<Rightarrow> (case newcomers of [] \<Rightarrow> Inl StopIteration
       | x # rest \<Rightarrow> fill_slots slots rest (AList.update slot x assigned)))"

definition kept_assignments ::
  "leader_slot list \<Rightarrow> string list \<Rightarrow> (leader_slot \<rightharpoonup> string) \<Rightarrow> (leader_slot, string) dict" where
  "kept_assignments targets ranked current = fold (\<lambda>slot assigned. case current slot of
       Some leader \<Rightarrow> if leader \<in> set ranked then AList.update slot leader assigned else assigned
     | None \<Rightarrow> assigned) targets []"

text \<open>\<open>assigned[slot]\<close> raises \<open>KeyError\<close> for a missing slot.\<close>

definition slot_lookup :: "(leader_slot, string) dict \<Rightarrow> leader_slot \<Rightarrow> (leader_slot \<times> string) result" where
  "slot_lookup assigned slot = (case map_of assigned slot of
     Some x \<Rightarrow> Inr (slot, x) | None \<Rightarrow> Inl (KeyError (leader_slot_value slot)))"

definition stable_slot_assignments ::
  "leader_slot list \<Rightarrow> string list \<Rightarrow> (leader_slot \<rightharpoonup> string) \<Rightarrow> (leader_slot \<times> string) list result" where
  "stable_slot_assignments targets ranked current =
    (if targets = [] \<or> length ranked \<noteq> length targets \<or> \<not> distinct targets \<or> \<not> distinct ranked
       \<or> list_ex (\<lambda>x. x = []) ranked
     then Inl (ValueError ''copy stable slot assignment inputs are invalid'')
     else if \<not> distinct (List.map_filter current targets)
     then Inl (ValueError ''copy target slots contain a duplicate incumbent'')
     else let assigned = kept_assignments targets ranked current;
              newcomers = filter (\<lambda>x. x \<notin> snd ` set assigned) ranked in
       rbind (fill_slots targets newcomers assigned) (\<lambda>final.
         rmap (slot_lookup final) targets))"

section \<open>Candidate activity\<close>

record candidate_activity =
  cy_lead_portfolio_id :: string
  cy_observed_at :: datetime
  cy_sample_order_count :: int
  cy_orders_1d :: int
  cy_orders_3d :: int
  cy_orders_7d :: int
  cy_active_days_7d :: int
  cy_latest_operation_time_ms :: "int option"
  cy_profitable_close_count :: int
  cy_losing_close_count :: int
  cy_testnet_symbol_compatibility_pct :: int

definition candidate_activity_check :: "candidate_activity \<Rightarrow> candidate_activity result" where
  "candidate_activity_check a =
    (if \<not> is_aware (cy_observed_at a)
     then Inl (ValueError ''copy candidate activity time must be timezone-aware'')
     else if list_ex (\<lambda>v. v < 0) [cy_sample_order_count a, cy_orders_1d a, cy_orders_3d a, cy_orders_7d a,
       cy_active_days_7d a, cy_profitable_close_count a, cy_losing_close_count a]
     then Inl (ValueError ''copy candidate activity counts cannot be negative'')
     else if \<not> (0 \<le> cy_testnet_symbol_compatibility_pct a \<and> cy_testnet_symbol_compatibility_pct a \<le> 100)
     then Inl (ValueError ''copy candidate compatibility is invalid'') else Inr a)"

definition eligible_for_short_term :: "candidate_activity \<Rightarrow> int \<Rightarrow> bool" where
  "eligible_for_short_term a observed_at_ms = (case cy_latest_operation_time_ms a of
     None \<Rightarrow> False
   | Some latest \<Rightarrow> 0 \<le> observed_at_ms - latest \<and> observed_at_ms - latest \<le> 36 * 3600000
       \<and> 1 \<le> cy_orders_1d a \<and> 5 \<le> cy_orders_3d a \<and> 14 \<le> cy_orders_7d a
       \<and> 3 \<le> cy_active_days_7d a \<and> 80 \<le> cy_testnet_symbol_compatibility_pct a)"

section \<open>Properties\<close>

text \<open>Callback names and slots correspond one to one: printing a slot never raises, parsing its
  name gives it back, and every name that parses is the printed name of its slot.\<close>

theorem slot_callback_roundtrip:
  "(\<exists>name. leader_slot_callback slot = Inr name \<and> leader_slot_from_callback name = Inr slot)
   \<and> (leader_slot_from_callback v = Inr slot \<longleftrightarrow> leader_slot_callback slot = Inr v)"
  by (cases slot) (auto simp: leader_slot_callback_def leader_slot_from_callback_def callback_to_slot_def)

text \<open>The kept incumbents, as a map.\<close>

lemma kept_fold:
  "distinct targets \<Longrightarrow> set targets \<inter> dom (map_of acc) = {} \<Longrightarrow>
   map_of (fold (\<lambda>slot assigned. case current slot of
       Some leader \<Rightarrow> if leader \<in> set ranked then AList.update slot leader assigned else assigned
     | None \<Rightarrow> assigned) targets acc)
   = (\<lambda>slot. if slot \<in> set targets then (case current slot of Some l \<Rightarrow> if l \<in> set ranked then Some l else None
       | None \<Rightarrow> None) else map_of acc slot)"
proof (induction targets arbitrary: acc)
  case (Cons t ts)
  let ?acc = "case current t of Some leader \<Rightarrow> if leader \<in> set ranked then AList.update t leader acc else acc
     | None \<Rightarrow> acc"
  have "set ts \<inter> dom (map_of ?acc) = {}" using Cons.prems by (auto split: option.splits)
  from Cons.IH [OF _ this] Cons.prems show ?case by (auto simp: fun_eq_iff split: option.splits)
qed (auto simp: fun_eq_iff)

lemma kept_map:
  assumes "distinct targets"
  shows "map_of (kept_assignments targets ranked current) slot
    = (if slot \<in> set targets then (case current slot of Some l \<Rightarrow> if l \<in> set ranked then Some l else None
       | None \<Rightarrow> None) else None)"
  unfolding kept_assignments_def by (subst kept_fold [OF assms]) simp_all

lemma fill_slots_map:
  assumes "distinct slots" "length (filter (\<lambda>s. map_of assigned s = None) slots) \<le> length newcomers"
  shows "\<exists>final. fill_slots slots newcomers assigned = Inr final
    \<and> map_of final = map_of assigned ++ map_of (zip (filter (\<lambda>s. map_of assigned s = None) slots) newcomers)"
  using assms
proof (induction slots arbitrary: newcomers assigned)
  case (Cons s slots)
  show ?case
  proof (cases "map_of assigned s")
    case None
    with Cons.prems obtain x rest where n: "newcomers = x # rest" by (cases newcomers) auto
    have f: "filter (\<lambda>s'. map_of (AList.update s x assigned) s' = None) slots
        = filter (\<lambda>s'. map_of assigned s' = None) slots"
      using Cons.prems(1) by (intro filter_cong) auto
    obtain final where "fill_slots slots rest (AList.update s x assigned) = Inr final"
      "map_of final = (map_of assigned)(s \<mapsto> x) ++ map_of (zip (filter (\<lambda>s. map_of assigned s = None) slots) rest)"
      using Cons.IH [of "AList.update s x assigned" rest] Cons.prems None n f by (auto simp: fun_upd_def)
    moreover have "s \<notin> dom (map_of (zip (filter (\<lambda>s. map_of assigned s = None) slots) rest))"
      using Cons.prems(1) by (auto dest!: map_of_SomeD set_zip_leftD)
    ultimately show ?thesis using None n by (auto simp: fun_eq_iff map_add_def split: option.splits)
  next
    case (Some l)
    with Cons show ?thesis by simp
  qed
qed simp

lemma kept_ok: "dict_ok (kept_assignments targets ranked current)"
proof -
  have "dict_ok d \<Longrightarrow> dict_ok (fold (\<lambda>slot assigned. case current slot of
       Some leader \<Rightarrow> if leader \<in> set ranked then AList.update slot leader assigned else assigned
     | None \<Rightarrow> assigned) targets d)" for d
    by (induction targets arbitrary: d) (auto split: option.splits)
  then show ?thesis by (simp add: kept_assignments_def)
qed

lemma kept_values:
  "map (\<lambda>s. the (f s)) (filter (\<lambda>s. f s \<noteq> None) ts) = filter (\<lambda>l. l \<in> R) (List.map_filter current ts)"
  if "\<And>s. s \<in> set ts \<Longrightarrow> f s = (case current s of Some l \<Rightarrow> if l \<in> R then Some l else None | None \<Rightarrow> None)"
  using that by (induction ts) (auto simp: List.map_filter_simps split: option.splits)

lemma zip_lookup:
  "distinct xs \<Longrightarrow> length xs = length ys \<Longrightarrow> map (\<lambda>x. the (map_of (zip xs ys) x)) xs = ys"
  by (intro nth_equalityI) (simp_all add: map_of_zip_nth)

lemma mset_partition: "mset (map f xs) = mset (map f (filter P xs)) + mset (map f (filter (\<lambda>x. \<not> P x) xs))"
  by (induction xs) auto

lemma kept_values_set:
  assumes "distinct targets"
  shows "snd ` set (kept_assignments targets ranked current)
    = {l \<in> set ranked. \<exists>slot \<in> set targets. current slot = Some l}"
proof -
  have "snd ` set (kept_assignments targets ranked current) = ran (map_of (kept_assignments targets ranked current))"
    by (rule ran_distinct [symmetric]) (use kept_ok in \<open>simp add: dict_ok_def\<close>)
  then show ?thesis by (auto simp: ran_def kept_map [OF assms] split: if_splits option.splits)
qed

text \<open>The lists the assignment works on, for valid inputs.\<close>

lemma stable_parts:
  assumes "distinct targets" "distinct ranked" "length ranked = length targets"
    "distinct (List.map_filter current targets)"
  defines "assigned \<equiv> kept_assignments targets ranked current"
  defines "kept \<equiv> filter (\<lambda>s. map_of assigned s \<noteq> None) targets"
    and "free \<equiv> filter (\<lambda>s. map_of assigned s = None) targets"
    and "new \<equiv> filter (\<lambda>x. x \<notin> snd ` set assigned) ranked"
  shows "length free = length new" "mset (map (\<lambda>s. the (map_of assigned s)) kept) + mset new = mset ranked"
proof -
  let ?K = "map (\<lambda>s. the (map_of assigned s)) kept"
  have K: "?K = filter (\<lambda>l. l \<in> set ranked) (List.map_filter current targets)"
    unfolding kept_def by (rule kept_values) (simp add: assigned_def kept_map [OF assms(1)])
  have d: "distinct ?K" unfolding K using assms(4) by (rule distinct_filter)
  have vals: "snd ` set assigned = set ?K"
    unfolding K unfolding assigned_def kept_values_set [OF assms(1)]
    by (force simp: List.map_filter_def)
  have sub: "set ?K \<subseteq> set ranked" unfolding K by auto
  have "set (filter (\<lambda>x. x \<in> set ?K) ranked) = set ?K" using sub by (simp only: set_filter) blast
  then have e1: "mset (filter (\<lambda>x. x \<in> set ?K) ranked) = mset ?K"
    using d assms(2) set_eq_iff_mset_eq_distinct [OF distinct_filter [OF assms(2)] d] by blast
  have "mset ranked = mset (filter (\<lambda>x. x \<in> set ?K) ranked) + mset new"
    unfolding new_def vals using mset_partition [of "\<lambda>x. x" ranked "\<lambda>x. x \<in> set ?K"] by (simp only: list.map_ident)
  then show m: "mset ?K + mset new = mset ranked" unfolding e1 by (rule sym)
  have "size (mset ?K + mset new) = size (mset ranked)" unfolding m ..
  then have "length kept + length new = length targets"
    using assms(3) by (simp only: size_union size_mset length_map)
  moreover have "length kept + length free = length targets"
    unfolding kept_def free_def using sum_length_filter_compl [of "\<lambda>s. map_of assigned s \<noteq> None" targets] by simp
  ultimately show "length free = length new" by simp
qed

lemma stable_result:
  assumes "targets \<noteq> []" "distinct targets" "distinct ranked" "length ranked = length targets"
    "[] \<notin> set ranked" "distinct (List.map_filter current targets)"
  defines "a \<equiv> map_of (kept_assignments targets ranked current)"
  obtains g where "stable_slot_assignments targets ranked current = Inr (map (\<lambda>s. (s, g s)) targets)"
    "\<forall>s. a s \<noteq> None \<longrightarrow> g s = the (a s)"
    "map g (filter (\<lambda>s. a s = None) targets)
      = filter (\<lambda>x. x \<notin> snd ` set (kept_assignments targets ranked current)) ranked"
proof -
  let ?free = "filter (\<lambda>s. a s = None) targets"
  let ?new = "filter (\<lambda>x. x \<notin> snd ` set (kept_assignments targets ranked current)) ranked"
  have len: "length ?free = length ?new" using stable_parts(1) [OF assms(2-4,6)] by (simp add: a_def)
  obtain final where f: "fill_slots targets ?new (kept_assignments targets ranked current) = Inr final"
    "map_of final = a ++ map_of (zip ?free ?new)"
    using fill_slots_map [OF assms(2), of "kept_assignments targets ranked current" ?new] len by (auto simp: a_def)
  define g where "g = (\<lambda>s. the (map_of final s))"
  have none: "map_of (zip ?free ?new) s = None \<longleftrightarrow> s \<notin> set ?free" for s
    using len by (simp add: map_of_zip_is_None)
  have dom: "map_of final s = Some (g s)" if "s \<in> set targets" for s
    using none [of s] that f(2) by (cases "map_of (zip ?free ?new) s") (auto simp: g_def map_add_def)
  have "rmap (slot_lookup final) ts = Inr (map (\<lambda>s. (s, g s)) ts)" if "set ts \<subseteq> set targets" for ts
    using that by (induction ts) (auto simp: slot_lookup_def dom)
  then have out: "stable_slot_assignments targets ranked current = Inr (map (\<lambda>s. (s, g s)) targets)"
    using assms f(1) by (auto simp: stable_slot_assignments_def Let_def list_ex_iff)
  have keep: "g s = the (a s)" if "a s \<noteq> None" for s
    using none [of s] that f(2) by (auto simp: g_def map_add_def)
  have "map g ?free = map (\<lambda>s. the (map_of (zip ?free ?new) s)) ?free"
    using none f(2) by (intro map_cong refl) (fastforce simp: g_def map_add_def split: option.splits)
  also have "\<dots> = ?new" using assms(2) len by (intro zip_lookup) simp_all
  finally show thesis using out keep that by blast
qed

text \<open>C24: stable slots. For valid inputs the assignment never runs out of newcomers: it fills exactly
  the target slots, in order, with exactly the selected leaders, each once; every incumbent that was
  selected again keeps its slot, and the others take the vacated slots in ranking order.\<close>

theorem stable_assignment:
  assumes "targets \<noteq> []" "distinct targets" "distinct ranked" "length ranked = length targets"
    "[] \<notin> set ranked" "distinct (List.map_filter current targets)"
  shows "\<exists>out. stable_slot_assignments targets ranked current = Inr out \<and> map fst out = targets
    \<and> mset (map snd out) = mset ranked
    \<and> (\<forall>slot \<in> set targets. \<forall>l \<in> set ranked. current slot = Some l \<longrightarrow> (slot, l) \<in> set out)
    \<and> map snd (filter (\<lambda>(slot, l). current slot \<noteq> Some l) out)
      = filter (\<lambda>l. \<not> (\<exists>slot \<in> set targets. current slot = Some l)) ranked"
proof -
  define a where "a = map_of (kept_assignments targets ranked current)"
  obtain g where g: "stable_slot_assignments targets ranked current = Inr (map (\<lambda>s. (s, g s)) targets)"
    "\<forall>s. a s \<noteq> None \<longrightarrow> g s = the (a s)"
    "map g (filter (\<lambda>s. a s = None) targets)
      = filter (\<lambda>x. x \<notin> snd ` set (kept_assignments targets ranked current)) ranked"
    unfolding a_def by (rule stable_result [OF assms])
  have a: "a s = (case current s of Some l \<Rightarrow> if l \<in> set ranked then Some l else None | None \<Rightarrow> None)"
    if "s \<in> set targets" for s
    using that by (simp add: a_def kept_map [OF assms(2)])
  have new: "map g (filter (\<lambda>s. a s = None) targets)
      = filter (\<lambda>l. \<not> (\<exists>slot \<in> set targets. current slot = Some l)) ranked"
    unfolding g(3) kept_values_set [OF assms(2)] by (rule filter_cong) auto
  have "map g (filter (\<lambda>s. a s \<noteq> None) targets) = map (\<lambda>s. the (a s)) (filter (\<lambda>s. a s \<noteq> None) targets)"
    using g(2) by (intro map_cong refl) simp
  then have perm: "mset (map g targets) = mset ranked"
    using mset_partition [of g targets "\<lambda>s. a s \<noteq> None"] g(3) stable_parts(2) [OF assms(2-4,6)]
    unfolding a_def by (simp only: not_not)
  have "current s \<noteq> Some (g s) \<longleftrightarrow> a s = None" if "s \<in> set targets" for s
  proof (cases "a s")
    case None
    with that have "g s \<in> set (map g (filter (\<lambda>s. a s = None) targets))" by simp
    with new that None show ?thesis by auto
  next
    case (Some l)
    with a [OF that] g(2) show ?thesis by (auto split: option.splits if_splits)
  qed
  then have "filter (\<lambda>s. current s \<noteq> Some (g s)) targets = filter (\<lambda>s. a s = None) targets"
    by (intro filter_cong) auto
  with new have moved: "map snd (filter (\<lambda>(slot, l). current slot \<noteq> Some l) (map (\<lambda>s. (s, g s)) targets))
      = filter (\<lambda>l. \<not> (\<exists>slot \<in> set targets. current slot = Some l)) ranked"
    by (simp add: filter_map comp_def)
  have "\<forall>slot \<in> set targets. \<forall>l \<in> set ranked. current slot = Some l \<longrightarrow> g slot = l" using a g(2) by fastforce
  then have "\<forall>slot \<in> set targets. \<forall>l \<in> set ranked. current slot = Some l
      \<longrightarrow> (slot, l) \<in> set (map (\<lambda>s. (s, g s)) targets)" by auto
  moreover have "map fst (map (\<lambda>s. (s, g s)) targets) = targets"
    "map snd (map (\<lambda>s. (s, g s)) targets) = map g targets" by (simp_all add: comp_def)
  ultimately show ?thesis using g(1) perm moved
    by (intro exI [of _ "map (\<lambda>s. (s, g s)) targets"] conjI) (simp_all only:)
qed

theorem stable_assignment_witness:
  "\<exists>out. stable_slot_assignments [SHORT_TERM_1, SHORT_TERM_2] [''b'', ''c''] [SHORT_TERM_1 \<mapsto> ''a'', SHORT_TERM_2 \<mapsto> ''b'']
      = Inr out \<and> (SHORT_TERM_2, ''b'') \<in> set out \<and> mset (map snd out) = mset [''b'', ''c'']"
  using stable_assignment [of "[SHORT_TERM_1, SHORT_TERM_2]" "[''b'', ''c'']"
      "[SHORT_TERM_1 \<mapsto> ''a'', SHORT_TERM_2 \<mapsto> ''b'']"]
  by (auto simp: List.map_filter_simps)

end
