(* ===== verification/CopyOrder.thy ===== *)
theory CopyOrder
  imports Ledger Clock
begin

text \<open>
  The data and the pure functions of \<open>copy_trading/execution.py\<close>: orders and their policy checks,
  claims and their restoration, client order identities, the protected entry price, the exchange
  parameters with their canonical decimal text and hash, and the classification of responses. The
  executor that uses them is in theory \<open>Executor\<close>.
\<close>

section \<open>Data\<close>

datatype copy_execution_state = ACKNOWLEDGED | PARTIALLY_FILLED | FILLED | REJECTED | UNKNOWN | RECONCILED

datatype copy_order_type = MARKET | LIMIT

datatype futures_environment = TESTNET | PRODUCTION

fun execution_state_value :: "copy_execution_state \<Rightarrow> string" where
  "execution_state_value ACKNOWLEDGED = ''ACKNOWLEDGED''"
| "execution_state_value PARTIALLY_FILLED = ''PARTIALLY_FILLED''"
| "execution_state_value FILLED = ''FILLED''"
| "execution_state_value REJECTED = ''REJECTED''"
| "execution_state_value UNKNOWN = ''UNKNOWN''"
| "execution_state_value RECONCILED = ''RECONCILED''"

fun order_type_value :: "copy_order_type \<Rightarrow> string" where
  "order_type_value MARKET = ''MARKET''"
| "order_type_value LIMIT = ''LIMIT''"

record copy_market_order =
  mo_signal :: normalized_signal
  mo_local_quantity :: decimal
  mo_leverage :: int
  mo_order_type :: copy_order_type
  mo_limit_price :: "decimal option"
  mo_expires_at :: "datetime option"

definition execution_require_utc :: "datetime \<Rightarrow> unit result" where
  "execution_require_utc t = require (is_utc t) (ValueError ''copy execution time must be timezone-aware UTC'')"

definition copy_market_order_check :: "copy_market_order \<Rightarrow> copy_market_order result" where
  "copy_market_order_check m =
    (if mo_local_quantity m \<le> 0 then Inl (ValueError ''copy order quantity must be positive'')
     else if \<not> (1 \<le> mo_leverage m \<and> mo_leverage m \<le> 125)
     then Inl (ValueError ''copy order leverage is invalid'')
     else if mo_order_type m = MARKET
     then if mo_limit_price m \<noteq> None \<or> mo_expires_at m \<noteq> None
       then Inl (ValueError ''copy market order cannot have limit policy'') else Inr m
     else if sg_kind (mo_signal m) \<noteq> INCREASE
     then Inl (ValueError ''copy protected limit is only valid for entries'')
     else if (case mo_limit_price m of None \<Rightarrow> True | Some p \<Rightarrow> p \<le> 0)
     then Inl (ValueError ''copy protected limit price is invalid'')
     else case mo_expires_at m of None \<Rightarrow> Inr m
       | Some t \<Rightarrow> rbind (execution_require_utc t) (\<lambda>_. Inr m))"

record copy_execution_receipt =
  cr_signal_id :: string
  cr_client_order_id :: string
  cr_state :: copy_execution_state
  cr_requested_quantity :: decimal
  cr_leverage :: int
  cr_filled_quantity :: decimal
  cr_average_price :: decimal
  cr_exchange_order_id :: "string option"
  cr_reason_codes :: "string list"

record submission_event =
  se_event_id :: string
  se_signal_id :: string
  se_state :: string
  se_filled_quantity :: decimal
  se_exchange_order_id :: "string option"
  se_response_hash :: "string option"
  se_reason_codes :: "string list"
  se_occurred_at :: datetime

record submission_claim =
  sc_signal_id :: string
  sc_client_order_id :: string
  sc_request_hash :: string
  sc_requested_quantity :: "decimal option"
  sc_leverage :: "int option"
  sc_order_type :: copy_order_type
  sc_limit_price :: "decimal option"
  sc_expires_at :: "datetime option"
  sc_request_hash_version :: int
  sc_claimed_at :: "datetime option"
  sc_policy_upgraded :: bool

section \<open>Client order identities\<close>

definition signal_id_ok :: "string \<Rightarrow> bool" where
  "signal_id_ok s \<longleftrightarrow> length s = 64 \<and> list_all (\<lambda>c. c \<in> set ''0123456789abcdef'') s"

definition client_id_with :: "string \<Rightarrow> string \<Rightarrow> string result" where
  "client_id_with prefix signal_id = (if \<not> signal_id_ok signal_id
     then Inl (ValueError ''copy signal ID must be a lowercase SHA-256 digest'')
     else Inr (prefix @ ''-'' @ take 28 signal_id))"

definition copy_client_order_id :: "string \<Rightarrow> futures_environment \<Rightarrow> string result" where
  "copy_client_order_id signal_id environment =
     client_id_with (case environment of TESTNET \<Rightarrow> ''aqc-t'' | PRODUCTION \<Rightarrow> ''aqc-p'') signal_id"

definition copy_gtc_upgrade_client_order_id :: "string \<Rightarrow> futures_environment \<Rightarrow> string result" where
  "copy_gtc_upgrade_client_order_id signal_id environment =
     client_id_with (case environment of TESTNET \<Rightarrow> ''aqg-t'' | PRODUCTION \<Rightarrow> ''aqg-p'') signal_id"

section \<open>The protected entry price\<close>

definition protected_entry_price :: "normalized_signal \<Rightarrow> decimal \<Rightarrow> decimal option \<Rightarrow> decimal result" where
  "protected_entry_price s price_tick market_price =
    (if sg_kind s \<noteq> INCREASE then Inl (ValueError ''copy protected price requires an increase signal'')
     else if price_tick \<le> 0 then Inl (ValueError ''copy protected price tick is invalid'')
     else rbind (decimal_floordiv (sg_reference_price s) price_tick) (\<lambda>steps.
       let floor_price = steps * price_tick;
           price = (if exchange_order_side s = ''SELL'' \<and> floor_price < sg_reference_price s
             then floor_price + price_tick else floor_price) in
       if price \<le> 0 then Inl (ValueError ''copy protected price is below one exchange tick'')
       else if (case market_price of None \<Rightarrow> False | Some p \<Rightarrow> p \<le> 0)
       then Inl (ValueError ''copy protected market price is invalid'') else Inr price))"

section \<open>Exchange parameters\<close>

definition decimal_parameter :: "decimal \<Rightarrow> string" where
  "decimal_parameter v =
    (let text = format_f v;
         stripped = (if CHR ''.'' \<in> set text then rstrip_char CHR ''.'' (rstrip_char CHR ''0'' text) else text)
     in if stripped = [] then ''0'' else stripped)"

definition order_parameters :: "copy_market_order \<Rightarrow> string \<Rightarrow> (string \<times> string) list result" where
  "order_parameters m client_order_id =
    (let base = [(''symbol'', sg_symbol (mo_signal m)), (''side'', exchange_order_side (mo_signal m)),
           (''positionSide'', position_side_value (sg_position_side (mo_signal m))),
           (''type'', order_type_value (mo_order_type m)),
           (''quantity'', decimal_parameter (mo_local_quantity m)), (''newOrderRespType'', ''RESULT''),
           (''newClientOrderId'', client_order_id)] in
     if mo_order_type m \<noteq> LIMIT then Inr base
     else case mo_limit_price m of
       None \<Rightarrow> Inl (ValueError ''copy protected limit policy is missing'')
     | Some p \<Rightarrow> Inr (base @ [(''price'', decimal_parameter p)]
         @ (case mo_expires_at m of None \<Rightarrow> [(''timeInForce'', ''GTC'')]
            | Some t \<Rightarrow> [(''timeInForce'', ''GTD''),
                (''goodTillDate'', show_int (whole_seconds t * 1000))])))"

definition text_document :: "(string \<times> string) list \<Rightarrow> document" where
  "text_document kvs = map (\<lambda>(k, v). (k, JStr v)) kvs"

definition request_hash :: "copy_market_order \<Rightarrow> string \<Rightarrow> string result" where
  "request_hash m client_order_id =
    rbind (order_parameters m client_order_id) (\<lambda>parameters.
    case mo_expires_at m of None \<Rightarrow> Inr (digest (text_document parameters))
    | Some t \<Rightarrow> Inr (digest [(''exchange_parameters'', JObj (text_document parameters)),
        (''expires_at'', JStr (isoformat_utc t))]))"

section \<open>Restoring the claimed order\<close>

definition claim_order :: "submission_claim \<Rightarrow> normalized_signal \<Rightarrow> decimal \<Rightarrow> int \<Rightarrow> copy_market_order" where
  "claim_order c s quantity leverage = \<lparr>mo_signal = s, mo_local_quantity = quantity, mo_leverage = leverage,
     mo_order_type = sc_order_type c, mo_limit_price = sc_limit_price c, mo_expires_at = sc_expires_at c\<rparr>"

definition allowed_client_order_ids :: "submission_claim \<Rightarrow> string \<Rightarrow> string list result" where
  "allowed_client_order_ids c signal_id =
    rbind (copy_client_order_id signal_id TESTNET) (\<lambda>t.
    rbind (copy_client_order_id signal_id PRODUCTION) (\<lambda>p.
    if \<not> sc_policy_upgraded c then Inr [t, p]
    else rbind (copy_gtc_upgrade_client_order_id signal_id TESTNET) (\<lambda>gt.
      rbind (copy_gtc_upgrade_client_order_id signal_id PRODUCTION) (\<lambda>gp. Inr [t, p, gt, gp]))))"

text \<open>The constructor raises only \<open>ValueError\<close> here, which is caught; the hash is then computed
  outside the handler.\<close>

definition restored_order :: "submission_claim \<Rightarrow> normalized_signal \<Rightarrow> copy_market_order option result" where
  "restored_order c s =
    rbind (allowed_client_order_ids c (sg_signal_id s)) (\<lambda>allowed.
    if sc_signal_id c \<noteq> sg_signal_id s \<or> sc_client_order_id c \<notin> set allowed then Inr None
    else case (sc_requested_quantity c, sc_leverage c) of
      (Some quantity, Some leverage) \<Rightarrow>
        (case copy_market_order_check (claim_order c s quantity leverage) of
           Inl _ \<Rightarrow> Inr None
         | Inr m \<Rightarrow>
             if sc_request_hash_version c = 1 then Inr (Some m)
             else if sc_request_hash_version c \<noteq> 2 then Inr None
             else rbind (request_hash m (sc_client_order_id c)) (\<lambda>expected.
               Inr (if expected = sc_request_hash c then Some m else None)))
    | _ \<Rightarrow> Inr None)"

section \<open>Responses\<close>

definition map_exchange_state :: "string \<Rightarrow> decimal \<Rightarrow> bool \<Rightarrow> copy_execution_state \<times> string list" where
  "map_exchange_state status filled reconciled =
    (if status = ''FILLED''
     then (if reconciled then (RECONCILED, [''COPY_ORDER_RECONCILED'']) else (FILLED, []))
     else if status = ''PARTIALLY_FILLED'' then (PARTIALLY_FILLED, [''COPY_ORDER_PARTIAL_PENDING''])
     else if status = ''NEW'' then (ACKNOWLEDGED, [])
     else if status \<in> {''CANCELED'', ''EXPIRED'', ''REJECTED''}
     then if 0 < filled then (PARTIALLY_FILLED, [''COPY_ORDER_PARTIAL_TERMINAL'', ''COPY_ORDER_'' @ status])
       else (REJECTED, [''COPY_ORDER_'' @ status])
     else if 0 < filled then (UNKNOWN, [''COPY_ORDER_STATUS_UNKNOWN_WITH_FILL''])
     else (UNKNOWN, [''COPY_ORDER_STATUS_UNKNOWN'']))"

definition place_error_prefix :: string where
  "place_error_prefix = ''PLACE_ORDER_HTTP_400_CODE_''"

definition place_error_code :: "string \<Rightarrow> int option" where
  "place_error_code msg =
    (let n = length place_error_prefix; (neg, ds) = (case drop n msg of
         [] \<Rightarrow> (False, []) | c # r \<Rightarrow> if c = CHR ''-'' then (True, r) else (False, c # r)) in
     if take n msg = place_error_prefix \<and> ds \<noteq> [] \<and> list_all is_digit ds
     then Some (if neg then - int (nat_of_digits ds) else int (nat_of_digits ds)) else None)"

definition definitive_place_rejection_reasons :: "string \<Rightarrow> string list" where
  "definitive_place_rejection_reasons msg = (case place_error_code msg of None \<Rightarrow> []
     | Some code \<Rightarrow>
         if code \<in> {- 1006, - 1007, - 4116} then []
         else if code = - 4164 then [''COPY_ORDER_NOTIONAL_BELOW_EXCHANGE_MINIMUM'', ''COPY_EXCHANGE_CODE_4164'']
         else if code = - 4411 then [''COPY_TRADIFI_AGREEMENT_REQUIRED'', ''COPY_EXCHANGE_CODE_4411'']
         else [''COPY_ORDER_REJECTED_BY_EXCHANGE'', ''COPY_EXCHANGE_CODE_'' @ show_int \<bar>code\<bar>])"

definition query_reports_order_missing :: "string \<Rightarrow> bool" where
  "query_reports_order_missing msg \<longleftrightarrow> msg = ''QUERY_ORDER_HTTP_400_CODE_-2013''"

text \<open>\<open>response.get(key, "0")\<close> as a number.\<close>

definition response_number :: "document \<Rightarrow> string \<Rightarrow> parsed" where
  "response_number r key = json_decimal (dict_get r key (JStr ''0''))"

text \<open>The average price for a finite executed quantity: a non-finite result stands for a price that
  the caller then refuses, \<open>None\<close> for the \<open>ValueError\<close>.\<close>

definition response_average_price :: "document \<Rightarrow> decimal \<Rightarrow> parsed option" where
  "response_average_price r filled =
    (let from_quote = (case response_number r ''cumQuote'' of
         Finite q \<Rightarrow> if 0 < q then Some (Finite (ddiv q filled)) else Some (Finite (dec 0))
       | Infinite neg \<Rightarrow> if neg then Some (Finite (dec 0)) else Some (Infinite (dneg filled))
       | _ \<Rightarrow> None) in
     case response_number r ''avgPrice'' of
       Finite a \<Rightarrow> if 0 < a \<or> dcoeff filled = 0 then Some (Finite a) else from_quote
     | Infinite neg \<Rightarrow> if \<not> neg \<or> dcoeff filled = 0 then Some (Infinite neg) else from_quote
     | _ \<Rightarrow> None)"

text \<open>Executed quantity and average price of a response that passes the numeric checks; a non-finite
  quantity is refused whichever way its price computation ends.\<close>

definition response_fill :: "document \<Rightarrow> (decimal \<times> decimal) option" where
  "response_fill r = (case response_number r ''executedQty'' of
     Finite filled \<Rightarrow> (case response_average_price r filled of
         Some (Finite price) \<Rightarrow> Some (filled, price) | _ \<Rightarrow> None)
   | _ \<Rightarrow> None)"

definition response_has_positive_fill_price :: "document \<Rightarrow> bool" where
  "response_has_positive_fill_price r = (case response_fill r of None \<Rightarrow> False
     | Some (filled, price) \<Rightarrow> 0 < filled \<and> 0 < price)"

definition terminal_fill_price_missing :: "copy_execution_receipt \<Rightarrow> bool" where
  "terminal_fill_price_missing r \<longleftrightarrow>
     (cr_state r \<in> {FILLED, RECONCILED}
        \<or> cr_state r = PARTIALLY_FILLED \<and> ''COPY_ORDER_PARTIAL_TERMINAL'' \<in> set (cr_reason_codes r))
     \<and> 0 < cr_filled_quantity r \<and> cr_average_price r \<le> 0"

section \<open>Receipts without a fill\<close>

definition plain_receipt :: "copy_execution_state \<Rightarrow> copy_market_order \<Rightarrow> string \<Rightarrow> string list \<Rightarrow> copy_execution_receipt" where
  "plain_receipt state m client_order_id reasons = \<lparr>cr_signal_id = sg_signal_id (mo_signal m),
     cr_client_order_id = client_order_id, cr_state = state, cr_requested_quantity = mo_local_quantity m,
     cr_leverage = mo_leverage m, cr_filled_quantity = dec 0, cr_average_price = dec 0,
     cr_exchange_order_id = None, cr_reason_codes = reasons\<rparr>"

definition rejected_receipt :: "copy_market_order \<Rightarrow> string \<Rightarrow> string list \<Rightarrow> copy_execution_receipt" where
  "rejected_receipt = plain_receipt REJECTED"

definition unknown_receipt :: "copy_market_order \<Rightarrow> string \<Rightarrow> string list \<Rightarrow> copy_execution_receipt" where
  "unknown_receipt = plain_receipt UNKNOWN"

definition unknown_signal_receipt ::
  "normalized_signal \<Rightarrow> string \<Rightarrow> string \<Rightarrow> decimal \<Rightarrow> int \<Rightarrow> copy_execution_receipt" where
  "unknown_signal_receipt s client_order_id reason quantity leverage = \<lparr>cr_signal_id = sg_signal_id s,
     cr_client_order_id = client_order_id, cr_state = UNKNOWN, cr_requested_quantity = quantity,
     cr_leverage = leverage, cr_filled_quantity = dec 0, cr_average_price = dec 0,
     cr_exchange_order_id = None, cr_reason_codes = [reason]\<rparr>"

section \<open>Canonical decimal text\<close>

lemma show_nat_times_10: "0 < c \<Longrightarrow> show_nat (c * 10) = show_nat c @ ''0''"
  using digit_char_props(7) [of 0] by (subst show_nat.simps) simp

lemma rstrip_char_snoc [simp]: "rstrip_char c (s @ [c]) = rstrip_char c s"
  by (simp add: rstrip_char.simps)

lemma rstrip_char_other: "x \<noteq> c \<Longrightarrow> rstrip_char c (s @ [x]) = s @ [x]"
  by (simp add: rstrip_char.simps)

lemma show_nat_no_dot: "CHR ''.'' \<notin> set (show_nat n)"
  using show_nat_all_digit [of n] by (auto simp: list_all_iff is_digit_def)

definition strip_fraction :: "string \<Rightarrow> string" where
  "strip_fraction text = (let stripped = (if CHR ''.'' \<in> set text
      then rstrip_char CHR ''.'' (rstrip_char CHR ''0'' text) else text) in if stripped = [] then ''0'' else stripped)"

lemma decimal_parameter_strip: "decimal_parameter v = strip_fraction (format_f v)"
  by (simp add: decimal_parameter_def strip_fraction_def)

lemma strip_fraction_zero: "CHR ''.'' \<in> set s \<Longrightarrow> strip_fraction (s @ ''0'') = strip_fraction s"
  by (simp add: strip_fraction_def)

lemma strip_fraction_point: "CHR ''.'' \<notin> set s \<Longrightarrow> s \<noteq> [] \<Longrightarrow> strip_fraction (s @ ''.0'') = strip_fraction s"
  using rstrip_char_snoc [of "CHR ''0''" "s @ ''.''"] rstrip_char_other [of "CHR ''.''" "CHR ''0''" s]
    rstrip_char_snoc [of "CHR ''.''" s]
  by (cases s rule: rev_cases) (auto simp: strip_fraction_def rstrip_char_other)

lemma decimal_parameter_step:
  assumes "0 < c"
  shows "decimal_parameter (Dec False (c * 10) e) = decimal_parameter (Dec False c (e + 1))"
proof -
  define i where "i = show_nat c"
  define dot where "dot = e + 1 + int (length i)"
  have n: "0 < length i" "1 \<le> int (length i)"
    using show_nat_nonempty [of c] by (cases i; simp add: i_def)+
  have i: "show_nat (c * 10) = i @ ''0''" "i \<noteq> []" "CHR ''.'' \<notin> set i"
    using show_nat_times_10 [OF assms] show_nat_nonempty show_nat_no_dot by (simp_all add: i_def)
  have l: "format_f (Dec False (c * 10) e) = (if dot \<le> 0 then ''0.'' @ replicate (nat (- dot)) CHR ''0'' @ i @ ''0''
      else if 0 \<le> e then i @ ''0'' @ replicate (nat e) CHR ''0''
      else take (nat dot) (i @ ''0'') @ ''.'' @ drop (nat dot) (i @ ''0''))"
    using assms n by (auto simp: format_f_def Let_def i(1) dot_def algebra_simps)
  have r: "format_f (Dec False c (e + 1)) = (if dot \<le> 0 then ''0.'' @ replicate (nat (- dot)) CHR ''0'' @ i
      else if - 1 \<le> e then i @ replicate (nat (e + 1)) CHR ''0''
      else take (nat dot) i @ ''.'' @ drop (nat dot) i)"
    using assms n(2) by (auto simp: format_f_def Let_def i_def [symmetric] dot_def algebra_simps)
  consider "dot \<le> 0" | "0 < dot" "0 \<le> e" | "0 < dot" "e = - 1" | "0 < dot" "e < - 1" by linarith
  then show ?thesis
  proof cases
    case 1
    then show ?thesis unfolding decimal_parameter_strip l r
      using strip_fraction_zero [of "''0.'' @ replicate (nat (- dot)) CHR ''0'' @ i"] by simp
  next
    case 2
    then have "nat (e + 1) = Suc (nat e)" by simp
    with 2 show ?thesis unfolding decimal_parameter_strip l r by simp
  next
    case 3
    then show ?thesis unfolding decimal_parameter_strip l r
      using strip_fraction_point [OF i(3,2)] by (simp add: dot_def)
  next
    case 4
    then have "nat dot \<le> length i" by (simp add: dot_def)
    with 4 show ?thesis unfolding decimal_parameter_strip l r
      using strip_fraction_zero [of "take (nat dot) i @ ''.'' @ drop (nat dot) i"] by simp
  qed
qed

lemma decimal_parameter_shift:
  "0 < c \<Longrightarrow> decimal_parameter (Dec False (c * 10 ^ k) e) = decimal_parameter (Dec False c (e + int k))"
proof (induction k arbitrary: c e)
  case (Suc k)
  have "decimal_parameter (Dec False (c * 10 ^ Suc k) e) = decimal_parameter (Dec False (c * 10 ^ k * 10) e)"
    by (simp only: power_Suc mult.assoc mult.commute [of 10 "10 ^ k"])
  also have "\<dots> = decimal_parameter (Dec False (c * 10 ^ k) (e + 1))" using Suc.prems by (intro decimal_parameter_step) simp
  finally show ?case using Suc.IH [OF Suc.prems, of "e + 1"] by (simp add: algebra_simps)
qed simp

lemma decimal_parameter_le:
  assumes "0 < dval a" "dval a = dval b" "dexp a \<le> dexp b"
  shows "decimal_parameter a = decimal_parameter b"
proof -
  obtain ca ea cb eb where d: "a = Dec False ca ea" "b = Dec False cb eb"
    using assms(1,2) dneg_le by (cases a; cases b) (metis decimal.sel(1) less_le_not_le)
  define k where "k = nat (eb - ea)"
  with assms(3) d have eb: "eb = ea + int k" by simp
  have "(of_nat ca :: rat) * 10 powi ea = of_nat (cb * 10 ^ k) * 10 powi ea"
    using assms(2) by (simp add: d dval_def dsigned_def eb power_int_add)
  then have ca: "ca = cb * 10 ^ k" using ten_powi_pos [of ea] by (simp only: mult_right_cancel of_nat_eq_iff)
  moreover have "0 < cb" using assms(1) ca by (auto simp: d dval_def dsigned_def intro: ccontr)
  ultimately show ?thesis using decimal_parameter_shift [of cb k ea] by (simp add: d eb)
qed

lemma decimal_parameter_eq: "0 < dval a \<Longrightarrow> dval a = dval b \<Longrightarrow> decimal_parameter a = decimal_parameter b"
  using decimal_parameter_le [of a b] decimal_parameter_le [of b a] by (metis linorder_le_cases)

text \<open>Canonical requests. Positive decimals that are equal in value have the same exchange text,
  whatever their exponents: a quantity or price that comes back from the database with another
  exponent produces the same request.\<close>

theorem decimal_parameter_canonical:
  assumes "0 < dval a" "dval a = dval b"
  shows "decimal_parameter a = decimal_parameter b"
  using assms by (rule decimal_parameter_eq)

section \<open>The protected price\<close>

lemma grid_multiple_exact:
  assumes "grid e t" "0 \<le> n" "of_int n * dval t \<le> 10 ^ 28 * 10 powi e"
  shows "exact28 (of_int n * dval t)"
proof -
  obtain k where k: "dval t = of_int k * 10 powi e" "0 \<le> k" by (rule grid_multiple [OF assms(1)])
  have eq: "of_int n * dval t = of_int (n * k) * 10 powi e" by (simp add: k mult.assoc)
  have "of_int (n * k) * (10::rat) powi e \<le> of_int (10 ^ 28) * 10 powi e"
    using assms(3) unfolding eq by simp
  then have "n * k \<le> 10 ^ 28"
    unfolding mult_le_cancel_right of_int_le_iff using ten_powi_pos [of e] by auto
  with eq assms(2) k(2) show ?thesis unfolding exact28_def by (intro exI [of _ "n * k"] exI [of _ e]) simp
qed

text \<open>Protected entries. The limit price of an entry is a positive whole number of exchange ticks
  within one tick of the leader's price and never worse than it: at or below it for a buy, at or
  above it for a sell.\<close>

theorem protected_price_is_tick_safe:
  assumes "protected_entry_price s tick mp = Inr p" "grid e (sg_reference_price s)" "grid e tick"
    "dval (sg_reference_price s) + dval tick \<le> 10 ^ 28 * 10 powi e"
  shows "0 < dval p \<and> (\<exists>n. dval p = of_int n * dval tick)
    \<and> (exchange_order_side s = ''BUY'' \<longrightarrow> dval p \<le> dval (sg_reference_price s)
        \<and> dval (sg_reference_price s) < dval p + dval tick)
    \<and> (exchange_order_side s = ''SELL'' \<longrightarrow> dval (sg_reference_price s) \<le> dval p
        \<and> dval p < dval (sg_reference_price s) + dval tick)"
proof -
  let ?r = "sg_reference_price s" and ?n = "\<lfloor>dval (sg_reference_price s) / dval tick\<rfloor>"
  have t: "0 < dval tick" and r: "0 \<le> dval ?r"
    using assms(1) grid_nonneg [OF assms(2)]
    by (auto simp: protected_entry_price_def decimal_simps split: if_splits)
  obtain steps where st: "decimal_floordiv ?r tick = Inr steps" "0 < dval p"
    "p = (if exchange_order_side s = ''SELL'' \<and> steps * tick < ?r then steps * tick + tick else steps * tick)"
    using assms(1) by (auto simp: protected_entry_price_def Let_def decimal_le_val not_le split: if_splits)
  have n: "0 \<le> ?n" "of_int ?n * dval tick \<le> dval ?r" "dval ?r < of_int (?n + 1) * dval tick"
    using t r floor_divide_lower [OF t] floor_divide_upper [OF t] by (simp_all add: algebra_simps)
  then have bound: "of_int ?n * dval tick \<le> 10 ^ 28 * 10 powi e" using assms(4) t by linarith
  have "dval (steps * tick) = rnd (of_int ?n * dval tick)"
    using dval_floordiv [OF st(1)] t r by (simp add: dval_times)
  then have f: "dval (steps * tick) = of_int ?n * dval tick"
    using grid_multiple_exact [OF assms(3) n(1) bound] by (simp add: rnd_exact)
  have "of_int (?n + 1) * dval tick \<le> 10 ^ 28 * 10 powi e" using n(2) assms(4) by (simp add: algebra_simps)
  with n(1) have "exact28 (of_int (?n + 1) * dval tick)" by (intro grid_multiple_exact [OF assms(3)]) simp_all
  then have c: "dval (steps * tick + tick) = of_int (?n + 1) * dval tick"
    by (simp add: dval_plus f algebra_simps rnd_exact)
  show ?thesis
  proof (cases "exchange_order_side s = ''SELL'' \<and> steps * tick < ?r")
    case True
    then have "dval p = of_int (?n + 1) * dval tick" using st(3) c by simp
    with True st(2) n f show ?thesis by (auto simp: decimal_less_val algebra_simps intro!: exI [of _ "?n + 1"])
  next
    case False
    then have "p = steps * tick" using st(3) by (simp only: if_False simp_thms)
    then have "dval p = of_int ?n * dval tick" using f by simp
    with False st(2) n f t show ?thesis by (auto simp: decimal_less_val algebra_simps intro!: exI [of _ ?n])
  qed
qed

section \<open>Client order identities and restored claims\<close>

text \<open>Deterministic identities. A signal digest has one client order id per environment, of 34
  characters (within the exchange's 36), the same for the same signal, different across
  environments, and equal for two signals only when their digests share the first 28 characters.\<close>

theorem client_order_id_deterministic:
  assumes "signal_id_ok a" "signal_id_ok b"
  shows "\<exists>x y. copy_client_order_id a e = Inr x \<and> copy_client_order_id b e' = Inr y \<and> length x = 34
    \<and> (x = y \<longleftrightarrow> e = e' \<and> take 28 a = take 28 b)"
  using assms
  by (cases e; cases e') (auto simp: copy_client_order_id_def client_id_with_def signal_id_ok_def)

lemma digest_signal_id_ok: "signal_id_ok (digest d)"
  using digest_text [of d] by (auto simp: signal_id_ok_def sha256_text_def list_all_iff is_hex_def)

text \<open>Two orders that the exchange cannot tell apart.\<close>

definition same_request :: "copy_market_order \<Rightarrow> copy_market_order \<Rightarrow> bool" where
  "same_request a b \<longleftrightarrow> mo_signal a = mo_signal b \<and> mo_leverage a = mo_leverage b
     \<and> mo_order_type a = mo_order_type b \<and> mo_expires_at a = mo_expires_at b
     \<and> dval (mo_local_quantity a) = dval (mo_local_quantity b)
     \<and> map_option dval (mo_limit_price a) = map_option dval (mo_limit_price b)"

lemma copy_market_order_check_ok:
  "copy_market_order_check m = Inr m' \<longleftrightarrow> m' = m \<and> 0 < dval (mo_local_quantity m)
     \<and> 1 \<le> mo_leverage m \<and> mo_leverage m \<le> 125
     \<and> (if mo_order_type m = MARKET then mo_limit_price m = None \<and> mo_expires_at m = None
        else sg_kind (mo_signal m) = INCREASE \<and> (\<exists>p. mo_limit_price m = Some p \<and> 0 < dval p)
          \<and> (\<forall>t. mo_expires_at m = Some t \<longrightarrow> is_utc t))"
  by (cases "mo_limit_price m"; cases "mo_expires_at m")
    (auto simp: copy_market_order_check_def execution_require_utc_def decimal_simps)

lemma same_request_check:
  "same_request a b \<Longrightarrow> copy_market_order_check a = Inr a \<Longrightarrow> copy_market_order_check b = Inr b"
  by (cases "mo_limit_price b") (auto simp: same_request_def copy_market_order_check_ok split: if_splits)

lemma same_request_parameters:
  assumes "same_request a b" "copy_market_order_check a = Inr a"
  shows "order_parameters a cid = order_parameters b cid"
proof -
  have "decimal_parameter (mo_local_quantity a) = decimal_parameter (mo_local_quantity b)"
    using assms by (intro decimal_parameter_eq) (auto simp: same_request_def copy_market_order_check_ok)
  moreover have "map_option decimal_parameter (mo_limit_price a) = map_option decimal_parameter (mo_limit_price b)"
    using assms by (cases "mo_limit_price b") (auto simp: same_request_def copy_market_order_check_ok
        split: if_splits intro!: decimal_parameter_eq)
  ultimately show ?thesis
    using assms(1) by (cases "mo_limit_price a"; cases "mo_limit_price b")
      (auto simp: order_parameters_def same_request_def Let_def)
qed

lemma same_request_hash:
  "same_request a b \<Longrightarrow> copy_market_order_check a = Inr a \<Longrightarrow> request_hash a cid = request_hash b cid"
  using same_request_parameters [of a b cid] by (simp add: request_hash_def same_request_def)

lemma order_parameters_ok: "copy_market_order_check m = Inr m \<Longrightarrow> \<exists>ps. order_parameters m cid = Inr ps"
  by (auto simp: order_parameters_def copy_market_order_check_ok Let_def split: if_splits option.splits)

lemma request_hash_ok: "copy_market_order_check m = Inr m \<Longrightarrow> \<exists>h. request_hash m cid = Inr h"
  using order_parameters_ok [of m cid] by (cases "mo_expires_at m") (auto simp: request_hash_def)

text \<open>C14: restart recovery. A claim written for a valid order, read back with quantities equal in value
  but of any exponent, restores an order with the same exchange request, byte for byte.\<close>

theorem claim_restores_same_request:
  assumes "copy_market_order_check m = Inr m" "copy_client_order_id (sg_signal_id (mo_signal m)) env = Inr cid"
    "request_hash m cid = Inr h"
    "sc_signal_id c = sg_signal_id (mo_signal m)" "sc_client_order_id c = cid" "sc_request_hash c = h"
    "sc_request_hash_version c = 2" "\<not> sc_policy_upgraded c" "sc_leverage c = Some (mo_leverage m)"
    "sc_order_type c = mo_order_type m" "sc_expires_at c = mo_expires_at m"
    "map_option dval (sc_requested_quantity c) = Some (dval (mo_local_quantity m))"
    "map_option dval (sc_limit_price c) = map_option dval (mo_limit_price m)"
  shows "\<exists>m'. restored_order c (mo_signal m) = Inr (Some m') \<and> same_request m m'
    \<and> order_parameters m' cid = order_parameters m cid"
proof -
  obtain q where q: "sc_requested_quantity c = Some q" "dval q = dval (mo_local_quantity m)"
    using assms(12) by auto
  let ?m = "claim_order c (mo_signal m) q (mo_leverage m)"
  have same: "same_request m ?m"
    using assms(10,11,13) q(2) by (simp add: same_request_def claim_order_def)
  obtain t p where ids: "copy_client_order_id (sg_signal_id (mo_signal m)) TESTNET = Inr t"
    "copy_client_order_id (sg_signal_id (mo_signal m)) PRODUCTION = Inr p" "cid \<in> {t, p}"
    using assms(2) by (cases env) (auto simp: copy_client_order_id_def client_id_with_def split: if_splits)
  have "restored_order c (mo_signal m) = Inr (Some ?m)"
    using ids assms(4-9) q(1) same_request_check [OF same assms(1)] same_request_hash [OF same assms(1), of cid] assms(3)
    by (auto simp: restored_order_def allowed_client_order_ids_def)
  with same same_request_parameters [OF same assms(1)] show ?thesis by auto
qed

section \<open>Concrete orders\<close>

definition sample_id :: string where
  "sample_id = replicate 64 CHR ''a''"

definition sample_limit_order :: copy_market_order where
  "sample_limit_order = \<lparr>mo_signal = sample_signal\<lparr>sg_signal_id := sample_id\<rparr>,
     mo_local_quantity = Dec False 2 (- 3), mo_leverage = 20, mo_order_type = LIMIT,
     mo_limit_price = Some (dec 20000), mo_expires_at = None\<rparr>"

lemma sample_order_ok: "copy_market_order_check sample_limit_order = Inr sample_limit_order" "signal_id_ok sample_id"
  by code_simp+

theorem decimal_parameter_canonical_witness:
  "0 < dval (Dec False 15 (- 1)) \<and> decimal_parameter (Dec False 15 (- 1)) = decimal_parameter (Dec False 1500000 (- 6))"
proof -
  have "0 < dval (Dec False 15 (- 1))" "dval (Dec False 15 (- 1)) = dval (Dec False 1500000 (- 6))"
    by (simp_all add: dval_def dsigned_def power_int_def power_divide)
  with decimal_parameter_canonical [OF this] show ?thesis by simp
qed

theorem protected_price_is_tick_safe_witness:
  "\<exists>p. protected_entry_price (sample_signal\<lparr>sg_reference_price := Dec False 200037 (- 1)\<rparr>) (Dec False 5 (- 1)) None = Inr p
     \<and> 0 < dval p \<and> dval p \<le> dval (Dec False 200037 (- 1))"
proof -
  let ?s = "sample_signal\<lparr>sg_reference_price := Dec False 200037 (- 1)\<rparr>"
  have "case protected_entry_price ?s (Dec False 5 (- 1)) None of Inr p \<Rightarrow> True | Inl _ \<Rightarrow> False" by code_simp
  then obtain p where p: "protected_entry_price ?s (Dec False 5 (- 1)) None = Inr p" by (auto split: sum.splits)
  have g: "grid (- 1) (sg_reference_price ?s)" "grid (- 1) (Dec False 5 (- 1))"
    "dval (sg_reference_price ?s) + dval (Dec False 5 (- 1)) \<le> 10 ^ 28 * 10 powi (- 1)"
    by (simp_all add: grid_def dval_def dsigned_def power_int_def)
  have "exchange_order_side ?s = ''BUY''" by (simp add: exchange_order_side_def sample_signal_def)
  with protected_price_is_tick_safe [OF p g] p show ?thesis by simp
qed

theorem client_order_id_deterministic_witness:
  "\<exists>x y. copy_client_order_id sample_id TESTNET = Inr x \<and> copy_client_order_id sample_id PRODUCTION = Inr y \<and> x \<noteq> y"
  using client_order_id_deterministic [OF sample_order_ok(2) sample_order_ok(2), of TESTNET PRODUCTION] by auto

theorem claim_restores_same_request_witness:
  "\<exists>c m'. sc_requested_quantity c = Some (Dec False 2000000 (- 9))
     \<and> restored_order c (mo_signal sample_limit_order) = Inr (Some m') \<and> same_request sample_limit_order m'"
proof -
  let ?m = sample_limit_order
  have id: "sg_signal_id (mo_signal ?m) = sample_id" by (simp add: sample_limit_order_def)
  obtain cid where cid: "copy_client_order_id (sg_signal_id (mo_signal ?m)) TESTNET = Inr cid"
    using sample_order_ok(2) by (simp add: id copy_client_order_id_def client_id_with_def)
  obtain h where h: "request_hash ?m cid = Inr h" using request_hash_ok [OF sample_order_ok(1)] by blast
  define c where "c = \<lparr>sc_signal_id = sample_id, sc_client_order_id = cid, sc_request_hash = h,
    sc_requested_quantity = Some (Dec False 2000000 (- 9)), sc_leverage = Some 20, sc_order_type = LIMIT,
    sc_limit_price = Some (Dec False 2000000 (- 2)), sc_expires_at = None, sc_request_hash_version = 2,
    sc_claimed_at = None, sc_policy_upgraded = False\<rparr>"
  have "\<exists>m'. restored_order c (mo_signal ?m) = Inr (Some m') \<and> same_request ?m m'
      \<and> order_parameters m' cid = order_parameters ?m cid"
    by (rule claim_restores_same_request [OF sample_order_ok(1) cid h])
      (simp_all add: c_def id, simp_all add: sample_limit_order_def dval_def dsigned_def power_int_def power_divide)
  moreover have "sc_requested_quantity c = Some (Dec False 2000000 (- 9))" by (simp add: c_def)
  ultimately show ?thesis by blast
qed

end
