(* ===== verification/Computations.thy ===== *)
theory Computations
  imports Prelude
begin

text \<open>
  Computations over a state: code that reads and changes a state and may raise. The combinators are
  sequencing and the two forms of exception handling the source uses; the rules at the end let the
  component theories show that a computation keeps a property of the state, or what it returns.
\<close>

section \<open>Combinators\<close>

text \<open>A computation over a state returns or raises, and leaves a state.\<close>

type_synonym ('s, 'a) comp = "'s \<Rightarrow> 'a result \<times> 's"

definition ret :: "'a \<Rightarrow> ('s, 'a) comp" where
  "ret a = (\<lambda>w. (Inr a, w))"

definition raise :: "exn \<Rightarrow> ('s, 'a) comp" where
  "raise e = (\<lambda>w. (Inl e, w))"

definition lift :: "'a result \<Rightarrow> ('s, 'a) comp" where
  "lift r = (\<lambda>w. (r, w))"

definition andThen :: "('s, 'a) comp \<Rightarrow> ('a \<Rightarrow> ('s, 'b) comp) \<Rightarrow> ('s, 'b) comp" where
  "andThen m f = (\<lambda>w. case m w of (Inl e, w') \<Rightarrow> (Inl e, w') | (Inr a, w') \<Rightarrow> f a w')"

text \<open>\<open>try: m except TestnetProbeError as error: handle(error) else: f(result)\<close>.\<close>

definition tryProbe :: "('s, 'a) comp \<Rightarrow> (string \<Rightarrow> ('s, 'b) comp) \<Rightarrow> ('a \<Rightarrow> ('s, 'b) comp) \<Rightarrow> ('s, 'b) comp" where
  "tryProbe m handle f = (\<lambda>w. case m w of
     (Inl (TestnetProbeError msg), w') \<Rightarrow> handle msg w'
   | (Inl e, w') \<Rightarrow> (Inl e, w')
   | (Inr a, w') \<Rightarrow> f a w')"

text \<open>\<open>try: m except ... as error: handle(error) else: f(result)\<close> for a set of exceptions.\<close>

definition tryExcept :: "(exn \<Rightarrow> bool) \<Rightarrow> ('s, 'a) comp \<Rightarrow> (exn \<Rightarrow> ('s, 'b) comp) \<Rightarrow> ('a \<Rightarrow> ('s, 'b) comp) \<Rightarrow> ('s, 'b) comp" where
  "tryExcept catches m handle f = (\<lambda>s. case m s of
     (Inl e, s') \<Rightarrow> if catches e then handle e s' else (Inl e, s') | (Inr a, s') \<Rightarrow> f a s')"

text \<open>A substring test, \<open>t in s\<close>.\<close>

fun contains_text :: "string \<Rightarrow> string \<Rightarrow> bool" where
  "contains_text t [] \<longleftrightarrow> t = []"
| "contains_text t (c # s) \<longleftrightarrow> take (length t) (c # s) = t \<or> contains_text t s"

lemma andThen_ret [simp]: "andThen (ret a) f = f a"
  by (simp add: andThen_def ret_def)

lemma andThen_InrE:
  assumes "andThen f g r = (Inr b, r')"
  obtains a w where "f r = (Inr a, w)" "g a w = (Inr b, r')"
proof -
  obtain x w where f: "f r = (x, w)" by fastforce
  with assms that show thesis by (cases x) (simp_all add: andThen_def)
qed

named_theorems rkeeps_intros \<open>computations that keep a property\<close>
named_theorems returns_intros \<open>results of computations\<close>

section \<open>Keeping a property of the state\<close>

definition rkeeps :: "('s \<Rightarrow> bool) \<Rightarrow> ('s, 'a) comp \<Rightarrow> bool" where
  "rkeeps I f \<longleftrightarrow> (\<forall>r. I r \<longrightarrow> I (snd (f r)))"

lemma rkeepsD: "rkeeps I f \<Longrightarrow> I r \<Longrightarrow> I (snd (f r))"
  by (simp add: rkeeps_def)

lemma rkeeps_ret [rkeeps_intros]: "rkeeps I (ret a)"
  by (simp add: rkeeps_def ret_def)

lemma rkeeps_raise [rkeeps_intros]: "rkeeps I (raise e)"
  by (simp add: rkeeps_def raise_def)

lemma rkeeps_lift [rkeeps_intros]: "rkeeps I (lift x)"
  by (simp add: rkeeps_def lift_def)

lemma rkeeps_andThen [rkeeps_intros]: "rkeeps I f \<Longrightarrow> (\<And>a. rkeeps I (g a)) \<Longrightarrow> rkeeps I (andThen f g)"
  by (auto simp: rkeeps_def andThen_def split: prod.split sum.split)

lemma rkeeps_if [rkeeps_intros]: "(b \<Longrightarrow> rkeeps I f) \<Longrightarrow> (\<not> b \<Longrightarrow> rkeeps I g) \<Longrightarrow> rkeeps I (if b then f else g)"
  by simp

lemma rkeeps_option [rkeeps_intros]:
  "rkeeps I f \<Longrightarrow> (\<And>a. rkeeps I (g a)) \<Longrightarrow> rkeeps I (case x of None \<Rightarrow> f | Some a \<Rightarrow> g a)"
  by (simp split: option.split)

lemma rkeeps_prod [rkeeps_intros]: "(\<And>a b. rkeeps I (g a b)) \<Longrightarrow> rkeeps I (case x of (a, b) \<Rightarrow> g a b)"
  by (simp split: prod.split)

lemma rkeeps_tryExcept [rkeeps_intros]:
  "rkeeps I f \<Longrightarrow> (\<And>e. rkeeps I (h e)) \<Longrightarrow> (\<And>a. rkeeps I (g a)) \<Longrightarrow> rkeeps I (tryExcept c f h g)"
  by (fastforce simp: rkeeps_def tryExcept_def split: prod.split sum.split)

text \<open>With what the first computation can return.\<close>

lemma rkeeps_andThen_of:
  "rkeeps I f \<Longrightarrow> (\<And>a r r'. f r = (Inr a, r') \<Longrightarrow> rkeeps I (g a)) \<Longrightarrow> rkeeps I (andThen f g)"
  by (fastforce simp: rkeeps_def andThen_def split: prod.split sum.split)

section \<open>What a computation returns\<close>

definition returns :: "('a \<Rightarrow> bool) \<Rightarrow> ('s, 'a) comp \<Rightarrow> bool" where
  "returns P f \<longleftrightarrow> (\<forall>w r w'. f w = (Inr r, w') \<longrightarrow> P r)"

lemma returnsD: "returns P f \<Longrightarrow> f w = (Inr r, w') \<Longrightarrow> P r"
  unfolding returns_def by blast

lemma returns_ret [returns_intros]: "P a \<Longrightarrow> returns P (ret a)"
  by (simp add: returns_def ret_def)

lemma returns_andThen [returns_intros]: "(\<And>a. returns P (g a)) \<Longrightarrow> returns P (andThen f g)"
  by (auto simp: returns_def andThen_def split: prod.splits sum.splits)

lemma returns_andThen_of: "returns R f \<Longrightarrow> (\<And>a. R a \<Longrightarrow> returns P (g a)) \<Longrightarrow> returns P (andThen f g)"
  unfolding returns_def [of P "andThen f g"]
  by (fastforce simp: andThen_def dest: returnsD split: prod.splits sum.splits)

lemma returns_tryProbe [returns_intros]:
  assumes "\<And>e. returns P (h e)" "\<And>a. returns P (g a)"
  shows "returns P (tryProbe f h g)"
  unfolding returns_def
proof (intro allI impI)
  fix w r w' assume "tryProbe f h g w = (Inr r, w')"
  then show "P r" using returnsD [OF assms(1)] returnsD [OF assms(2)]
    by (auto simp: tryProbe_def split: prod.splits sum.splits exn.splits)
qed

lemma returns_if [returns_intros]: "(b \<Longrightarrow> returns P f) \<Longrightarrow> (\<not> b \<Longrightarrow> returns P g) \<Longrightarrow> returns P (if b then f else g)"
  by simp

lemma returns_lift_andThen: "(\<And>a. r = Inr a \<Longrightarrow> returns P (g a)) \<Longrightarrow> returns P (andThen (lift r) g)"
  by (cases r) (simp_all add: returns_def andThen_def lift_def)

lemma returns_tryExcept [returns_intros]:
  "(\<And>e. returns P (h e)) \<Longrightarrow> (\<And>a. returns P (g a)) \<Longrightarrow> returns P (tryExcept c f h g)"
  by (fastforce simp: returns_def tryExcept_def split: prod.splits sum.splits if_splits)

lemma returns_raise [returns_intros]: "returns P (raise e)"
  by (simp add: returns_def raise_def)

end
