(* ===== verification/Journal.thy ===== *)
theory Journal
  imports CopyOrder Computations
begin

text \<open>
  The stateful setting of the executor: computations that may raise and act on a world, the durable
  submission journal of \<open>copy_trading/postgres.py\<close>, and the outside services as parameters.

  The tables of the journal are the fields of a record, keyed as the migrations declare them:
  \<open>submission_claims\<close> by signal with unique client order ids, \<open>submission_policy_upgrade_events\<close> by
  signal, \<open>submission_events\<close> by event. The database server itself is outside the repository: whether a
  transaction commits is decided by the environment, which may also lose the acknowledgement of a
  commit, and how a decimal comes back from a numeric column is a parameter.
\<close>

section \<open>The outside world\<close>

datatype db_outcome = Committed | RolledBack | CommittedUnseen

text \<open>
  \<open>'x\<close> is the state of everything outside the process: the exchange, the clock, the database server.
  Each client method returns a response or raises; a refusal of the exchange or of the transport is a
  \<open>TestnetProbeError\<close>.
\<close>

record 'x environment =
  env_now :: "'x \<Rightarrow> datetime \<times> 'x"
  env_db :: "'x \<Rightarrow> db_outcome \<times> 'x"
  env_numeric :: "decimal \<Rightarrow> decimal"
  env_position_mode :: "'x \<Rightarrow> document result \<times> 'x"
  env_change_initial_leverage :: "string \<Rightarrow> int \<Rightarrow> 'x \<Rightarrow> document result \<times> 'x"
  env_position_risk :: "string \<Rightarrow> 'x \<Rightarrow> document list result \<times> 'x"
  env_place_order :: "(string \<times> string) list \<Rightarrow> 'x \<Rightarrow> document result \<times> 'x"
  env_query_order :: "string \<Rightarrow> string \<Rightarrow> 'x \<Rightarrow> document result \<times> 'x"
  env_cancel_order :: "string \<Rightarrow> string \<Rightarrow> 'x \<Rightarrow> document result \<times> 'x"
  env_open_orders :: "string \<Rightarrow> 'x \<Rightarrow> json list result \<times> 'x"
  env_sleep :: "rat \<Rightarrow> 'x \<Rightarrow> 'x"

record policy_upgrade =
  pg_client_order_id :: string
  pg_occurred_at :: datetime

record journal =
  jn_claims :: "(string, submission_claim) dict"
  jn_upgrades :: "(string, policy_upgrade) dict"
  jn_events :: "submission_event list"

text \<open>The requests sent to the exchange that can create, change or cancel an order, newest first.\<close>

datatype request = Place "(string \<times> string) list" | Cancel string string | Leverage string int

record 'x world =
  wd_journal :: journal
  wd_requests :: "request list"
  wd_outside :: 'x

section \<open>Computations\<close>

type_synonym ('x, 'a) act = "('x world, 'a) comp"

definition outside :: "('x \<Rightarrow> 'a result \<times> 'x) \<Rightarrow> ('x, 'a) act" where
  "outside op = (\<lambda>w. case op (wd_outside w) of (r, x) \<Rightarrow> (r, w\<lparr>wd_outside := x\<rparr>))"

definition emit :: "request \<Rightarrow> ('x, unit) act" where
  "emit q = (\<lambda>w. (Inr (), w\<lparr>wd_requests := q # wd_requests w\<rparr>))"

definition clock :: "'x environment \<Rightarrow> ('x, datetime) act" where
  "clock E = outside (\<lambda>x. case env_now E x of (t, x') \<Rightarrow> (Inr t, x'))"

definition sleep :: "'x environment \<Rightarrow> rat \<Rightarrow> ('x, unit) act" where
  "sleep E d = outside (\<lambda>x. (Inr (), env_sleep E d x))"

definition place_order :: "'x environment \<Rightarrow> (string \<times> string) list \<Rightarrow> ('x, document) act" where
  "place_order E ps = andThen (emit (Place ps)) (\<lambda>_. outside (env_place_order E ps))"

definition cancel_order :: "'x environment \<Rightarrow> string \<Rightarrow> string \<Rightarrow> ('x, document) act" where
  "cancel_order E symbol cid = andThen (emit (Cancel symbol cid)) (\<lambda>_. outside (env_cancel_order E symbol cid))"

definition change_initial_leverage :: "'x environment \<Rightarrow> string \<Rightarrow> int \<Rightarrow> ('x, document) act" where
  "change_initial_leverage E symbol lev = andThen (emit (Leverage symbol lev))
     (\<lambda>_. outside (env_change_initial_leverage E symbol lev))"

section \<open>The journal\<close>

definition journal_error :: "string \<Rightarrow> exn" where
  "journal_error = RuntimeError"

text \<open>A transaction: it takes effect unless it is rolled back, and reports success only when the
  commit is seen.\<close>

definition transaction :: "'x environment \<Rightarrow> string \<Rightarrow> (journal \<Rightarrow> 'a \<times> journal) \<Rightarrow> ('x, 'a) act" where
  "transaction E error t = (\<lambda>w. case env_db E (wd_outside w) of (outcome, x) \<Rightarrow>
     (case t (wd_journal w) of (a, j) \<Rightarrow>
       (case outcome of
          Committed \<Rightarrow> (Inr a, w\<lparr>wd_outside := x, wd_journal := j\<rparr>)
        | RolledBack \<Rightarrow> (Inl (journal_error error), w\<lparr>wd_outside := x\<rparr>)
        | CommittedUnseen \<Rightarrow> (Inl (journal_error error), w\<lparr>wd_outside := x, wd_journal := j\<rparr>))))"

definition later :: "datetime \<Rightarrow> datetime \<Rightarrow> datetime" where
  "later a b = (if dt_instant a < dt_instant b then b else a)"

definition last_submitting :: "journal \<Rightarrow> string \<Rightarrow> datetime \<Rightarrow> datetime" where
  "last_submitting j sid claimed = (case filter (\<lambda>e. se_signal_id e = sid \<and> se_state e = ''SUBMITTING'') (jn_events j) of
     [] \<Rightarrow> claimed | e # es \<Rightarrow> foldl later (se_occurred_at e) (map se_occurred_at es))"

definition lookup_row :: "'x environment \<Rightarrow> journal \<Rightarrow> string \<Rightarrow> submission_claim option" where
  "lookup_row E j sid = (case map_of (jn_claims j) sid of None \<Rightarrow> None
     | Some c \<Rightarrow>
         let upgrade = map_of (jn_upgrades j) sid in
         Some (c\<lparr>sc_client_order_id := (case upgrade of None \<Rightarrow> sc_client_order_id c | Some u \<Rightarrow> pg_client_order_id u),
           sc_request_hash_version := (if upgrade = None then sc_request_hash_version c else 1),
           sc_requested_quantity := map_option (env_numeric E) (sc_requested_quantity c),
           sc_limit_price := map_option (env_numeric E) (sc_limit_price c),
           sc_expires_at := (if upgrade = None then sc_expires_at c else None),
           sc_claimed_at := map_option (\<lambda>t. later (case upgrade of None \<Rightarrow> t | Some u \<Rightarrow> pg_occurred_at u)
             (last_submitting j sid t)) (sc_claimed_at c),
           sc_policy_upgraded := (upgrade \<noteq> None)\<rparr>))"

definition lookup :: "'x environment \<Rightarrow> string \<Rightarrow> ('x, submission_claim option) act" where
  "lookup E sid = transaction E ''COPY_SUBMISSION_LOOKUP_UNAVAILABLE'' (\<lambda>j. (lookup_row E j sid, j))"

text \<open>\<open>INSERT ... ON CONFLICT DO NOTHING\<close>: a conflict is a claim of the same signal or with the same
  client order id.\<close>

definition conflicting :: "submission_claim \<Rightarrow> journal \<Rightarrow> bool" where
  "conflicting c j \<longleftrightarrow> map_of (jn_claims j) (sc_signal_id c) \<noteq> None
     \<or> list_ex (\<lambda>kv. sc_client_order_id (snd kv) = sc_client_order_id c) (jn_claims j)"

definition event_known :: "submission_event \<Rightarrow> journal \<Rightarrow> bool" where
  "event_known ev j \<longleftrightarrow> list_ex (\<lambda>e. se_event_id e = se_event_id ev) (jn_events j)"

definition insert_claim :: "submission_claim \<Rightarrow> submission_event \<Rightarrow> journal \<Rightarrow> journal" where
  "insert_claim c ev j = j\<lparr>jn_claims := AList.update (sc_signal_id c) c (jn_claims j), jn_events := jn_events j @ [ev]\<rparr>"

text \<open>The second insert of the transaction has no conflict clause: a known event id aborts both.\<close>

definition claim :: "'x environment \<Rightarrow> submission_claim \<Rightarrow> submission_event \<Rightarrow> ('x, bool) act" where
  "claim E c ev =
    (if se_signal_id ev \<noteq> sc_signal_id c \<or> se_state ev \<noteq> ''SUBMITTING''
     then raise (ValueError ''copy submitting event does not match its claim'')
     else (\<lambda>w. if \<not> conflicting c (wd_journal w) \<and> event_known ev (wd_journal w)
       then (Inl (journal_error ''COPY_SUBMISSION_CLAIM_UNAVAILABLE''), w)
       else transaction E ''COPY_SUBMISSION_CLAIM_UNAVAILABLE'' (\<lambda>j.
         if conflicting c j then (False, j) else (True, insert_claim c ev j)) w))"

definition record_event :: "'x environment \<Rightarrow> submission_event \<Rightarrow> ('x, unit) act" where
  "record_event E ev = transaction E ''COPY_SUBMISSION_EVENT_UNAVAILABLE'' (\<lambda>j.
     if event_known ev j then ((), j) else ((), j\<lparr>jn_events := jn_events j @ [ev]\<rparr>))"

end
