(* ===== verification/Executor.thy ===== *)
theory Executor
  imports Journal Risk
begin

text \<open>
  \<open>HedgeTestnetMarketExecutor\<close> of \<open>copy_trading/execution.py\<close>: one definition per method, over the
  world of theory \<open>Journal\<close>. A method that raises leaves the world as it is at that moment.
\<close>

record executor =
  ex_fill_price_retry_delays :: "rat list"
  ex_environment :: futures_environment

definition ABSENCE_CONFIRMATION_DELAY :: int where
  "ABSENCE_CONFIRMATION_DELAY = minutes 2"

definition executor_check :: "executor \<Rightarrow> executor result" where
  "executor_check x = (let delays = ex_fill_price_retry_delays x in
     if delays = [] \<or> 5 < length delays \<or> list_ex (\<lambda>d. d < 0 \<or> 2 < d) delays
     then Inl (ValueError ''copy fill price retry policy is invalid'') else Inr x)"

section \<open>Events\<close>

definition option_json :: "string option \<Rightarrow> json" where
  "option_json o0 = (case o0 of None \<Rightarrow> JNull | Some s \<Rightarrow> JStr s)"

definition make_submission_event ::
  "string \<Rightarrow> string \<Rightarrow> datetime \<Rightarrow> decimal \<Rightarrow> string option \<Rightarrow> document option \<Rightarrow> string list \<Rightarrow> submission_event result" where
  "make_submission_event sid state occurred_at filled exchange_order_id response reasons =
    rbind (execution_require_utc occurred_at) (\<lambda>_.
    let response_hash = map_option digest response;
        event_id = digest [(''exchange_order_id'', option_json exchange_order_id),
          (''filled_quantity'', JStr (dstr filled)), (''occurred_at'', JStr (isoformat_utc occurred_at)),
          (''response_hash'', option_json response_hash), (''signal_id'', JStr sid), (''state'', JStr state)]
    in Inr \<lparr>se_event_id = event_id, se_signal_id = sid, se_state = state, se_filled_quantity = filled,
         se_exchange_order_id = exchange_order_id, se_response_hash = response_hash,
         se_reason_codes = reasons, se_occurred_at = occurred_at\<rparr>)"

definition record_at ::
  "'x environment \<Rightarrow> string \<Rightarrow> string \<Rightarrow> datetime \<Rightarrow> decimal \<Rightarrow> string option \<Rightarrow> document option \<Rightarrow> string list
     \<Rightarrow> ('x, unit) act" where
  "record_at E sid state t filled exchange_order_id response reasons =
    andThen (lift (make_submission_event sid state t filled exchange_order_id response reasons)) (record_event E)"

text \<open>\<open>_record(..., occurred_at=self._clock())\<close>.\<close>

definition record_now ::
  "'x environment \<Rightarrow> string \<Rightarrow> string \<Rightarrow> decimal \<Rightarrow> string option \<Rightarrow> document option \<Rightarrow> string list \<Rightarrow> ('x, unit) act" where
  "record_now E sid state filled exchange_order_id response reasons =
    andThen (clock E) (\<lambda>t. record_at E sid state t filled exchange_order_id response reasons)"

definition now_utc :: "'x environment \<Rightarrow> ('x, datetime) act" where
  "now_utc E = andThen (clock E) (\<lambda>t. andThen (lift (execution_require_utc t)) (\<lambda>_. ret t))"

text \<open>Record a receipt that carries no fill, and return it.\<close>

definition finish ::
  "'x environment \<Rightarrow> document option \<Rightarrow> copy_execution_receipt \<Rightarrow> ('x, copy_execution_receipt) act" where
  "finish E response r = andThen (record_now E (cr_signal_id r) (execution_state_value (cr_state r)) (dec 0) None
     response (cr_reason_codes r)) (\<lambda>_. ret r)"

section \<open>Receipts from responses\<close>

definition protected_code :: "string \<Rightarrow> bool" where
  "protected_code c \<longleftrightarrow> take 21 c = ''COPY_PROTECTED_LIMIT_''"

text \<open>Status, executed quantity and average price of an acceptable response. Every way a response can
  be refused has the same consequence, so they are one case.\<close>

definition response_facts :: "copy_market_order \<Rightarrow> string \<Rightarrow> document \<Rightarrow> (string \<times> decimal \<times> decimal) option" where
  "response_facts m cid r = (case (map_of r ''clientOrderId'', map_of r ''status'', response_fill r) of
     (Some (JStr returned), Some (JStr status), Some (filled, price)) \<Rightarrow>
       if returned \<noteq> cid \<or> filled < 0 \<or> mo_local_quantity m < filled \<or> price < 0 then None
       else Some (status, filled, price)
   | _ \<Rightarrow> None)"

definition exchange_order_id_of :: "document \<Rightarrow> string option" where
  "exchange_order_id_of r = (case doc_get r ''orderId'' of JStr s \<Rightarrow> Some s | JInt i \<Rightarrow> Some (show_int i)
     | JBool b \<Rightarrow> Some (if b then ''True'' else ''False'') | _ \<Rightarrow> None)"

definition expiry_reason :: "'x environment \<Rightarrow> copy_market_order \<Rightarrow> string \<Rightarrow> string list \<Rightarrow> ('x, string list) act" where
  "expiry_reason E m status codes =
    (if mo_order_type m = LIMIT \<and> status \<in> {''CANCELED'', ''EXPIRED''} \<and> \<not> list_ex protected_code codes
     then andThen (now_utc E) (\<lambda>now.
       andThen (if status = ''EXPIRED'' then ret True
                else case mo_expires_at m of None \<Rightarrow> ret False
                  | Some t \<Rightarrow> andThen (lift (dt_less now t)) (\<lambda>early. ret (\<not> early))) (\<lambda>expired.
       ret (codes @ [if expired then ''COPY_PROTECTED_LIMIT_EXPIRED''
         else ''COPY_PROTECTED_LIMIT_CANCELLED_EXTERNALLY''])))
     else ret codes)"

definition receipt_from_response ::
  "'x environment \<Rightarrow> copy_market_order \<Rightarrow> string \<Rightarrow> document \<Rightarrow> bool \<Rightarrow> string list \<Rightarrow> ('x, copy_execution_receipt) act" where
  "receipt_from_response E m cid response reconciled additional =
    (case response_facts m cid response of
       None \<Rightarrow> finish E (Some response) (unknown_receipt m cid [''COPY_ORDER_RESPONSE_INVALID''])
     | Some (status, filled, price) \<Rightarrow>
         let (state, mapped) = map_exchange_state status filled reconciled;
             codes = (if state = ACKNOWLEDGED \<and> mo_order_type m = LIMIT
               then additional @ [''COPY_PROTECTED_LIMIT_PENDING''] else additional) in
         andThen (expiry_reason E m status codes) (\<lambda>codes'.
         let mapped' = (if list_ex protected_code codes'
               then filter (\<lambda>c. c \<notin> {''COPY_ORDER_CANCELED'', ''COPY_ORDER_EXPIRED''}) mapped else mapped);
             reasons = dedup (codes' @ mapped');
             order_id = exchange_order_id_of response;
             receipt = \<lparr>cr_signal_id = sg_signal_id (mo_signal m), cr_client_order_id = cid, cr_state = state,
               cr_requested_quantity = mo_local_quantity m, cr_leverage = mo_leverage m,
               cr_filled_quantity = filled, cr_average_price = price, cr_exchange_order_id = order_id,
               cr_reason_codes = reasons\<rparr> in
         andThen (record_now E (sg_signal_id (mo_signal m)) (execution_state_value state) filled order_id
           (Some response) reasons) (\<lambda>_. ret receipt)))"

fun fill_price_loop ::
  "'x environment \<Rightarrow> copy_market_order \<Rightarrow> string \<Rightarrow> string list \<Rightarrow> copy_execution_receipt \<Rightarrow> rat list
     \<Rightarrow> ('x, copy_execution_receipt) act" where
  "fill_price_loop E m cid additional receipt [] =
    (let pending = receipt\<lparr>cr_reason_codes := dedup (cr_reason_codes receipt @ [''COPY_FILL_PRICE_PENDING''])\<rparr> in
     andThen (record_now E (sg_signal_id (mo_signal m)) (execution_state_value (cr_state pending))
       (cr_filled_quantity pending) (cr_exchange_order_id pending) None (cr_reason_codes pending)) (\<lambda>_. ret pending))"
| "fill_price_loop E m cid additional receipt (delay # delays) =
    andThen (if delay = 0 then ret () else sleep E delay) (\<lambda>_.
    tryProbe (outside (env_query_order E (sg_symbol (mo_signal m)) cid))
      (\<lambda>_. fill_price_loop E m cid additional receipt delays)
      (\<lambda>queried. if \<not> response_has_positive_fill_price queried
         then fill_price_loop E m cid additional receipt delays
         else receipt_from_response E m cid queried True additional))"

definition receipt_with_immediate_fill_price ::
  "'x environment \<Rightarrow> executor \<Rightarrow> copy_market_order \<Rightarrow> string \<Rightarrow> document \<Rightarrow> bool \<Rightarrow> string list
     \<Rightarrow> ('x, copy_execution_receipt) act" where
  "receipt_with_immediate_fill_price E X m cid response reconciled additional =
    andThen (receipt_from_response E m cid response reconciled additional) (\<lambda>receipt.
    if \<not> terminal_fill_price_missing receipt then ret receipt
    else fill_price_loop E m cid additional receipt (ex_fill_price_retry_delays X))"

section \<open>Reconciliation\<close>

definition submission_definitively_absent ::
  "'x environment \<Rightarrow> copy_market_order \<Rightarrow> string \<Rightarrow> string \<Rightarrow> datetime option \<Rightarrow> ('x, bool) act" where
  "submission_definitively_absent E m cid error claimed_at =
    (if \<not> query_reports_order_missing error then ret False
     else case claimed_at of None \<Rightarrow> ret False
     | Some claimed \<Rightarrow>
         andThen (now_utc E) (\<lambda>now.
         andThen (lift (execution_require_utc claimed)) (\<lambda>_.
         andThen (lift (dt_less now claimed)) (\<lambda>early.
         andThen (lift (dt_diff now claimed)) (\<lambda>age.
         if early \<or> age < ABSENCE_CONFIRMATION_DELAY then ret False
         else tryProbe (outside (env_open_orders E (sg_symbol (mo_signal m))))
           (\<lambda>_. ret False)
           (\<lambda>orders. ret (\<not> list_ex (\<lambda>item. case item of JObj kvs \<Rightarrow> doc_get kvs ''clientOrderId'' = JStr cid
              | _ \<Rightarrow> False) orders)))))))"

definition reconcile_after_uncertain_submit ::
  "'x environment \<Rightarrow> executor \<Rightarrow> copy_market_order \<Rightarrow> string \<Rightarrow> string list \<Rightarrow> ('x, copy_execution_receipt) act" where
  "reconcile_after_uncertain_submit E X m cid additional =
    tryProbe (outside (env_query_order E (sg_symbol (mo_signal m)) cid))
      (\<lambda>_. finish E None (unknown_receipt m cid (additional @ [''COPY_SUBMISSION_STATUS_UNKNOWN''])))
      (\<lambda>response. receipt_with_immediate_fill_price E X m cid response True additional)"

text \<open>The common end of a submission: place the order and classify the outcome.\<close>

definition submit ::
  "'x environment \<Rightarrow> executor \<Rightarrow> copy_market_order \<Rightarrow> string \<Rightarrow> (string \<times> string) list \<Rightarrow> string list
     \<Rightarrow> ('x, copy_execution_receipt) act" where
  "submit E X m cid parameters additional =
    tryProbe (place_order E parameters)
      (\<lambda>error. let reasons = definitive_place_rejection_reasons error in
         if reasons \<noteq> [] then finish E None (rejected_receipt m cid reasons)
         else reconcile_after_uncertain_submit E X m cid additional)
      (\<lambda>response. receipt_with_immediate_fill_price E X m cid response False additional)"

definition resubmit_persistent_entry ::
  "'x environment \<Rightarrow> executor \<Rightarrow> copy_market_order \<Rightarrow> string \<Rightarrow> ('x, copy_execution_receipt) act" where
  "resubmit_persistent_entry E X m cid =
    andThen (now_utc E) (\<lambda>now.
    let retry = [''COPY_PERSISTENT_ENTRY_RESUBMITTED_AFTER_CONFIRMED_ABSENCE''] in
    andThen (record_at E (sg_signal_id (mo_signal m)) ''SUBMITTING'' now (dec 0) None None retry) (\<lambda>_.
    andThen (change_initial_leverage E (sg_symbol (mo_signal m)) (mo_leverage m)) (\<lambda>_.
    andThen (lift (order_parameters m cid)) (\<lambda>parameters.
    submit E X m cid parameters retry))))"

definition cancel_existing ::
  "'x environment \<Rightarrow> executor \<Rightarrow> copy_market_order \<Rightarrow> string \<Rightarrow> string \<Rightarrow> datetime option \<Rightarrow> ('x, copy_execution_receipt) act" where
  "cancel_existing E X m cid reason claimed_at =
    (let conclude = (\<lambda>response. receipt_with_immediate_fill_price E X m cid response True [reason]) in
     tryProbe (cancel_order E (sg_symbol (mo_signal m)) cid)
       (\<lambda>_. tryProbe (outside (env_query_order E (sg_symbol (mo_signal m)) cid))
          (\<lambda>error. andThen (submission_definitively_absent E m cid error claimed_at) (\<lambda>absent.
             if absent then finish E None (rejected_receipt m cid [reason, ''COPY_SUBMISSION_CONFIRMED_ABSENT''])
             else finish E None (unknown_receipt m cid [''COPY_PROTECTED_LIMIT_CANCEL_STATUS_UNKNOWN''])))
          conclude)
       conclude)"

text \<open>\<open>response.get("status") in {...}\<close> raises for an unhashable value.\<close>

definition status_is_open :: "document \<Rightarrow> bool result" where
  "status_is_open r = (case doc_get r ''status'' of JStr s \<Rightarrow> Inr (s \<in> {''NEW'', ''PARTIALLY_FILLED''})
     | JArr _ \<Rightarrow> Inl (TypeError ''unhashable type: list'') | JObj _ \<Rightarrow> Inl (TypeError ''unhashable type: dict'')
     | _ \<Rightarrow> Inr False)"

definition reconcile_existing ::
  "'x environment \<Rightarrow> executor \<Rightarrow> copy_market_order \<Rightarrow> string \<Rightarrow> datetime option \<Rightarrow> ('x, copy_execution_receipt) act" where
  "reconcile_existing E X m cid claimed_at =
    tryProbe (outside (env_query_order E (sg_symbol (mo_signal m)) cid))
      (\<lambda>error. andThen (submission_definitively_absent E m cid error claimed_at) (\<lambda>absent.
         if absent
         then if sg_kind (mo_signal m) = INCREASE \<and> mo_order_type m = LIMIT \<and> mo_expires_at m = None
           then resubmit_persistent_entry E X m cid
           else finish E None (rejected_receipt m cid [''COPY_SUBMISSION_NOT_FOUND_AFTER_GRACE''])
         else ret (unknown_receipt m cid [''COPY_SUBMISSION_ALREADY_CLAIMED_UNRESOLVED''])))
      (\<lambda>response. andThen (now_utc E) (\<lambda>now.
         andThen (case mo_expires_at m of
             Some t \<Rightarrow> if mo_order_type m \<noteq> LIMIT then ret False
               else andThen (lift (dt_less now t)) (\<lambda>early.
                 if early then ret False else lift (status_is_open response))
           | None \<Rightarrow> ret False) (\<lambda>overdue.
         if overdue then cancel_existing E X m cid ''COPY_PROTECTED_LIMIT_EXPIRED'' claimed_at
         else receipt_with_immediate_fill_price E X m cid response True [])))"

definition reconcile_claim ::
  "'x environment \<Rightarrow> executor \<Rightarrow> copy_market_order \<Rightarrow> submission_claim \<Rightarrow> ('x, copy_execution_receipt) act" where
  "reconcile_claim E X current c =
    andThen (lift (restored_order c (mo_signal current))) (\<lambda>restored.
    case restored of
      None \<Rightarrow> finish E None (unknown_receipt current (sc_client_order_id c) [''COPY_SUBMISSION_CLAIM_PARAMETERS_INVALID''])
    | Some m \<Rightarrow> reconcile_existing E X m (sc_client_order_id c) (sc_claimed_at c))"

definition reduction_fits_exchange_position :: "'x environment \<Rightarrow> copy_market_order \<Rightarrow> ('x, bool) act" where
  "reduction_fits_exchange_position E m =
    andThen (outside (env_position_risk E (sg_symbol (mo_signal m)))) (\<lambda>positions.
    let matching = filter (\<lambda>item. dict_get item ''symbol'' (JStr (sg_symbol (mo_signal m))) = JStr (sg_symbol (mo_signal m))
          \<and> doc_get item ''positionSide'' = JStr (position_side_value (sg_position_side (mo_signal m)))) positions in
    case matching of
      [item] \<Rightarrow> (case json_decimal (doc_get item ''positionAmt'') of
          Finite q \<Rightarrow> ret (mo_local_quantity m \<le> dabs q)
        | Infinite _ \<Rightarrow> ret True
        | QuietNaN \<Rightarrow> raise InvalidOperation
        | _ \<Rightarrow> ret False)
    | _ \<Rightarrow> ret False)"

section \<open>The public methods\<close>

definition new_claim :: "copy_market_order \<Rightarrow> string \<Rightarrow> string \<Rightarrow> datetime \<Rightarrow> submission_claim" where
  "new_claim m cid hash now = \<lparr>sc_signal_id = sg_signal_id (mo_signal m), sc_client_order_id = cid,
     sc_request_hash = hash, sc_requested_quantity = Some (mo_local_quantity m), sc_leverage = Some (mo_leverage m),
     sc_order_type = mo_order_type m, sc_limit_price = mo_limit_price m, sc_expires_at = mo_expires_at m,
     sc_request_hash_version = 2, sc_claimed_at = Some now, sc_policy_upgraded = False\<rparr>"

definition claim_and_submit ::
  "'x environment \<Rightarrow> executor \<Rightarrow> copy_market_order \<Rightarrow> string \<Rightarrow> ('x, copy_execution_receipt) act" where
  "claim_and_submit E X m cid =
    andThen (lift (order_parameters m cid)) (\<lambda>parameters.
    andThen (lift (request_hash m cid)) (\<lambda>hash.
    andThen (now_utc E) (\<lambda>now.
    andThen (lift (make_submission_event (sg_signal_id (mo_signal m)) ''SUBMITTING'' now (dec 0) None None [])) (\<lambda>ev.
    andThen (claim E (new_claim m cid hash now) ev) (\<lambda>claimed.
    if \<not> claimed
    then andThen (lookup E (sg_signal_id (mo_signal m))) (\<lambda>existing. case existing of
        None \<Rightarrow> ret (unknown_receipt m cid [''COPY_SUBMISSION_CLAIM_RACE_UNRESOLVED''])
      | Some c \<Rightarrow> reconcile_claim E X m c)
    else submit E X m cid parameters [])))))"

definition execute ::
  "'x environment \<Rightarrow> executor \<Rightarrow> copy_market_order \<Rightarrow> account_risk_decision \<Rightarrow> ('x, copy_execution_receipt) act" where
  "execute E X m risk =
    andThen (lift (copy_client_order_id (sg_signal_id (mo_signal m)) (ex_environment X))) (\<lambda>cid.
    andThen (lookup E (sg_signal_id (mo_signal m))) (\<lambda>existing.
    case existing of Some c \<Rightarrow> reconcile_claim E X m c
    | None \<Rightarrow>
        if \<not> ad_allow_execution risk
        then ret (rejected_receipt m cid (if ad_reason_codes risk = [] then [''COPY_ACCOUNT_RISK_DENIED''] else ad_reason_codes risk))
        else andThen (outside (env_position_mode E)) (\<lambda>mode.
          if doc_get mode ''dualSidePosition'' \<noteq> JBool True
          then ret (rejected_receipt m cid [''COPY_ACCOUNT_HEDGE_MODE_REQUIRED''])
          else if sg_kind (mo_signal m) = INCREASE
          then andThen (change_initial_leverage E (sg_symbol (mo_signal m)) (mo_leverage m)) (\<lambda>_.
            claim_and_submit E X m cid)
          else andThen (reduction_fits_exchange_position E m) (\<lambda>fits.
            if \<not> fits then ret (rejected_receipt m cid [''COPY_REDUCTION_EXCHANGE_POSITION_INSUFFICIENT''])
            else claim_and_submit E X m cid))))"

definition claimed_order :: "'x environment \<Rightarrow> normalized_signal \<Rightarrow> ('x, copy_market_order option) act" where
  "claimed_order E s = andThen (lookup E (sg_signal_id s)) (\<lambda>existing.
     case existing of None \<Rightarrow> ret None | Some c \<Rightarrow> lift (restored_order c s))"

definition cancel_pending_increase ::
  "'x environment \<Rightarrow> executor \<Rightarrow> normalized_signal \<Rightarrow> string \<Rightarrow> ('x, copy_execution_receipt) act" where
  "cancel_pending_increase E X s reason =
    andThen (lookup E (sg_signal_id s)) (\<lambda>existing. case existing of
      None \<Rightarrow> andThen (lift (copy_client_order_id (sg_signal_id s) (ex_environment X))) (\<lambda>cid.
        ret (unknown_signal_receipt s cid ''COPY_PENDING_ENTRY_CLAIM_MISSING'' (dec 0) 1))
    | Some c \<Rightarrow> andThen (lift (restored_order c s)) (\<lambda>restored. case restored of
        None \<Rightarrow> ret (unknown_signal_receipt s (sc_client_order_id c) ''COPY_SUBMISSION_CLAIM_PARAMETERS_INVALID''
          (or_else (sc_requested_quantity c) (dec 0))
          (case sc_leverage c of None \<Rightarrow> 1 | Some l \<Rightarrow> if l = 0 then 1 else l))
      | Some m \<Rightarrow>
          if mo_order_type m \<noteq> LIMIT
          then reconcile_existing E X m (sc_client_order_id c) (sc_claimed_at c)
          else cancel_existing E X m (sc_client_order_id c) reason (sc_claimed_at c)))"

end
