(* ===== verification/Doubles.thy ===== *)
theory Doubles
  imports Clock "HOL-Library.Log_Nat"
begin

text \<open>
  Binary floating point as far as the program uses it on times: a double is the rational number it
  denotes, and division and multiplication round to 53 significant bits with ties to even. The
  quantities here are far from the ends of the exponent range.
\<close>

text \<open>The exponent of the leading bit of a positive rational number.\<close>

definition leading_bit :: "rat \<Rightarrow> int" where
  "leading_bit x = (case quotient_of x of (p, q) \<Rightarrow>
     let k = int (floorlog 2 (nat p)) - int (floorlog 2 (nat q)) in
     if of_int q * 2 powi k \<le> (of_int p :: rat) then k else k - 1)"

definition round_double :: "rat \<Rightarrow> rat" where
  "round_double x = (if x = 0 then 0 else let e = leading_bit \<bar>x\<bar> - 52 in of_int (rhe (x / 2 powi e)) * 2 powi e)"

text \<open>\<open>int(x)\<close> truncates towards zero.\<close>

definition truncate :: "rat \<Rightarrow> int" where
  "truncate x = (if 0 \<le> x then \<lfloor>x\<rfloor> else \<lceil>x\<rceil>)"

text \<open>\<open>d.total_seconds()\<close> of an interval in microseconds, and \<open>int(d.total_seconds() * 1000)\<close>.\<close>

definition total_seconds :: "int \<Rightarrow> rat" where
  "total_seconds d = round_double (of_int d / 1000000)"

definition float_milliseconds :: "int \<Rightarrow> int" where
  "float_milliseconds d = truncate (round_double (total_seconds d * 1000))"

lemma float_milliseconds_0: "float_milliseconds 0 = 0"
  by (simp add: float_milliseconds_def total_seconds_def round_double_def truncate_def)

end
