(* ===== verification/JsonValues.thy ===== *)
theory JsonValues
  imports Digest Doubles
begin

text \<open>What the sources use of Python on JSON values beyond reading a field: \<open>d[k]\<close>, \<open>int(value)\<close> and \<open>str(value)\<close>.\<close>

text \<open>\<open>d[k]\<close>, with the exception that a missing key ends in.\<close>

definition doc_item :: "document \<Rightarrow> string \<Rightarrow> exn \<Rightarrow> json result" where
  "doc_item d k e = (case map_of d k of None \<Rightarrow> Inl e | Some v \<Rightarrow> Inr v)"

text \<open>\<open>int(value)\<close> of a JSON value: text is digits with single underscores between them, a float is
  truncated, and a list, an object or null is a \<open>TypeError\<close>.\<close>

fun digit_groups :: "string \<Rightarrow> bool" where
  "digit_groups [] \<longleftrightarrow> False"
| "digit_groups [c] \<longleftrightarrow> is_digit c"
| "digit_groups (c # d # r) \<longleftrightarrow> is_digit c \<and> (if d = CHR ''_'' then digit_groups r else digit_groups (d # r))"

definition MAX_STR_DIGITS :: nat where "MAX_STR_DIGITS = 4300"

definition int_of_text :: "string \<Rightarrow> int result" where
  "int_of_text t = (case split_sign (py_strip t) of (neg, ds) \<Rightarrow>
     let digits = filter (\<lambda>c. c \<noteq> CHR ''_'') ds; n = int (nat_of_digits digits) in
     if \<not> digit_groups ds \<or> MAX_STR_DIGITS < length digits then Inl (ValueError ''invalid literal for int() with base 10'')
     else Inr (if neg then - n else n))"

definition json_int :: "json \<Rightarrow> int result" where
  "json_int v = (case v of JInt i \<Rightarrow> Inr i | JBool b \<Rightarrow> Inr (if b then 1 else 0) | JStr t \<Rightarrow> int_of_text t
     | JFloat t \<Rightarrow> (case parse_decimal t of Finite d \<Rightarrow> Inr (Doubles.truncate (round_double (dval d)))
         | Infinite _ \<Rightarrow> Inl OverflowError | _ \<Rightarrow> Inl (ValueError ''cannot convert float NaN to integer''))
     | _ \<Rightarrow> Inl (TypeError ''int() argument must be a string or a real number''))"

text \<open>\<open>str(value)\<close> of a JSON value. The text of a list or an object shows its members by \<open>repr\<close>: a text is quoted, with
  double quotes only where it holds a single quote and no double one, and what cannot be printed is escaped.\<close>

definition repr_char :: "char \<Rightarrow> char \<Rightarrow> string" where
  "repr_char q c = (let n = of_char c :: nat in
     if c = q \<or> n = 92 then [CHR 0x5C, c]
     else if n = 10 then [CHR 0x5C, CHR ''n''] else if n = 13 then [CHR 0x5C, CHR ''r''] else if n = 9 then [CHR 0x5C, CHR ''t'']
     else if n < 32 \<or> 127 \<le> n \<and> n \<le> 160 \<or> n = 173 then [CHR 0x5C, CHR ''x'', hex_digit (n div 16), hex_digit (n mod 16)]
     else [c])"

definition repr_text :: "string \<Rightarrow> string" where
  "repr_text s = (let q = (if CHR 0x27 \<in> set s \<and> CHR 0x22 \<notin> set s then CHR 0x22 else CHR 0x27) in [q] @ concat (map (repr_char q) s) @ [q])"

fun py_repr :: "json \<Rightarrow> string" where
  "py_repr JNull = ''None''"
| "py_repr (JBool b) = (if b then ''True'' else ''False'')"
| "py_repr (JInt i) = show_int i"
| "py_repr (JFloat r) = r"
| "py_repr (JStr s) = repr_text s"
| "py_repr (JArr vs) = ''['' @ join '', '' (map py_repr vs) @ '']''"
| "py_repr (JObj kvs) = ''{'' @ join '', '' (map (\<lambda>kv. repr_text (fst kv) @ '': '' @ py_repr (snd kv)) kvs) @ ''}''"

definition py_str :: "json \<Rightarrow> string" where
  "py_str v = (case v of JStr s \<Rightarrow> s | _ \<Rightarrow> py_repr v)"

end
