(* ===== verification/Runtime.thy ===== *)
theory Runtime
  imports Executor Slots JsonValues
begin

text \<open>
  Orchestration of one signal: \<open>CopyTradingRuntime\<close> of \<open>copy_trading/application.py\<close>, from reading account
  and symbol rules to sizing or planning, execution and attribution. It composes the models of the
  allocator, the ledger, the risk gate and the executor.

  The repository of the copy-trading tables and the exchange client are services: each method is an
  operation on the outside state that returns or raises, about which nothing is assumed; only
  \<open>copy_trading/postgres.py\<close> writes the submission tables, so no service changes the journal. What the
  runtime asks them to write is recorded in the order of the calls.
\<close>

section \<open>Services and state\<close>

datatype runtime_mode = OBSERVE | SHADOW | TESTNET_MODE | PRODUCTION_MODE

fun runtime_mode_value :: "runtime_mode \<Rightarrow> string" where
  "runtime_mode_value OBSERVE = ''observe''"
| "runtime_mode_value SHADOW = ''shadow''"
| "runtime_mode_value TESTNET_MODE = ''testnet''"
| "runtime_mode_value PRODUCTION_MODE = ''production''"

record leader_assignment =
  lg_lead_portfolio_id :: string
  lg_nickname :: string
  lg_lifecycle :: leader_lifecycle
  lg_source_aum_usdt :: decimal
  lg_portfolio_weight :: decimal
  lg_slot :: "leader_slot option"
  lg_follow_multiplier :: int

record runtime_control =
  ct_event_id :: "string option"
  ct_state :: runtime_control_state
  ct_actor_id :: string
  ct_occurred_at :: "datetime option"
  ct_reason_codes :: "string list"

record account_position_mark =
  mk_symbol :: string
  mk_position_side :: position_side
  mk_exchange_quantity :: decimal
  mk_mark_price :: decimal

record leader_symbol_stop =
  st_stop_event_id :: string
  st_lead_portfolio_id :: string
  st_leader_nickname :: string
  st_symbol :: string
  st_net_position_pnl_usdt :: decimal
  st_loss_limit_usdt :: decimal
  st_triggered_at :: datetime
  st_blocked_until :: datetime
  st_newly_triggered :: bool

record account_valuation =
  av_wallet :: decimal
  av_margin :: decimal
  av_available :: decimal
  av_baseline :: decimal
  av_envelope :: decimal
  av_initial_margin :: decimal
  av_maintenance_margin :: decimal
  av_marks :: "account_position_mark list"
  av_observed_at :: datetime

text \<open>A service acts on the outside state and may read the submission tables, which share its database.\<close>

type_synonym ('x, 'a) op = "journal \<Rightarrow> 'x \<Rightarrow> 'a result \<times> 'x"

record 'x services =
  sv_attributed_fill_quantity :: "string \<Rightarrow> ('x, decimal option) op"
  sv_latest_runtime_control :: "('x, runtime_control) op"
  sv_active_leader_symbol_stop :: "string \<Rightarrow> string \<Rightarrow> datetime \<Rightarrow> ('x, leader_symbol_stop option) op"
  sv_append_runtime_control :: "runtime_control_state \<Rightarrow> string \<Rightarrow> string list \<Rightarrow> datetime \<Rightarrow> bool \<Rightarrow> ('x, unit) op"
  sv_source_position_quantity_before :: "normalized_signal \<Rightarrow> ('x, decimal option) op"
  sv_load_virtual_ledger :: "('x, ledger) op"
  sv_portfolio_usage :: "string \<Rightarrow> string \<Rightarrow> decimal \<Rightarrow> decimal \<Rightarrow> int \<Rightarrow> ('x, portfolio_usage) op"
  sv_record_virtual_position :: "normalized_signal \<Rightarrow> virtual_position \<Rightarrow> virtual_position \<Rightarrow> decimal \<Rightarrow> int \<Rightarrow> datetime \<Rightarrow> ('x, unit) op"
  sv_record_signal_decision :: "normalized_signal \<Rightarrow> string \<Rightarrow> decimal \<Rightarrow> string list \<Rightarrow> datetime \<Rightarrow> ('x, unit) op"
  sv_pending_increase_signals :: "string \<Rightarrow> string \<Rightarrow> position_side \<Rightarrow> int \<Rightarrow> ('x, normalized_signal list) op"
  sv_ensure_envelope_baseline :: "decimal \<Rightarrow> decimal \<Rightarrow> datetime \<Rightarrow> ('x, decimal) op"
  sv_record_account_valuation :: "account_valuation \<Rightarrow> ('x, string) op"
  sv_exchange_info :: "('x, document) op"
  sv_account_information :: "('x, document) op"
  sv_account_information_v2 :: "('x, document) op"
  sv_position_mode :: "('x, document) op"
  sv_symbol_config :: "string \<Rightarrow> ('x, document list) op"
  sv_leverage_brackets :: "string \<Rightarrow> ('x, document list) op"
  sv_all_open_orders :: "('x, document list) op"
  sv_incident_callback :: "(string \<Rightarrow> ('x, unit) op) option"
  sv_invalid_operation_text :: string

text \<open>What is handed to the repository and to the incident callback, newest first.\<close>

datatype effect =
    Decision string string decimal "string list" datetime
  | Attribution string virtual_position virtual_position decimal int datetime
  | Control runtime_control_state string "string list" datetime
  | Incident string
  | Valuation account_valuation
  | Poll string string nat "int option" "string list" datetime
  | Lifecycle string leader_lifecycle "string list" datetime

record runtime_config =
  cf_mode :: runtime_mode
  cf_allocation_policy :: allocation_policy
  cf_executor :: executor

text \<open>The attributes of a runtime, and \<open>rt_processed\<close> for the counter of its current cycle.\<close>

record 'x runtime =
  rt_world :: "'x world"
  rt_exchange_info :: "document option"
  rt_cycle_account :: "copy_account_snapshot option"
  rt_cycle_position_marks :: "account_position_mark list"
  rt_cycle_valuation_event_id :: "string option"
  rt_recover_all_on_next_cycle :: bool
  rt_recovery_pending_leaders :: "string set"
  rt_processed :: nat
  rt_effects :: "effect list"

type_synonym ('x, 'a) run = "('x runtime, 'a) comp"

definition on_world :: "('x, 'a) act \<Rightarrow> ('x, 'a) run" where
  "on_world f = (\<lambda>r. case f (rt_world r) of (a, w) \<Rightarrow> (a, r\<lparr>rt_world := w\<rparr>))"

definition service :: "('x, 'a) op \<Rightarrow> ('x, 'a) run" where
  "service op = (\<lambda>r. on_world (outside (op (wd_journal (rt_world r)))) r)"

definition reading :: "('x runtime \<Rightarrow> 'a) \<Rightarrow> ('x, 'a) run" where
  "reading f = (\<lambda>r. (Inr (f r), r))"

definition changing :: "('x runtime \<Rightarrow> 'x runtime) \<Rightarrow> ('x, unit) run" where
  "changing f = (\<lambda>r. (Inr (), f r))"

definition wrote :: "effect \<Rightarrow> ('x, unit) run" where
  "wrote e = changing (\<lambda>r. r\<lparr>rt_effects := e # rt_effects r\<rparr>)"

definition execution_enabled :: "runtime_config \<Rightarrow> bool" where
  "execution_enabled c \<longleftrightarrow> cf_mode c \<in> {TESTNET_MODE, PRODUCTION_MODE}"

definition runtime_require_utc :: "datetime \<Rightarrow> unit result" where
  "runtime_require_utc t = require (is_utc t) (ValueError ''copy runtime time must be timezone-aware UTC'')"

text \<open>\<open>CopyTradingRuntime(...)\<close> on a given world.\<close>

definition new_runtime :: "'x world \<Rightarrow> bool \<Rightarrow> 'x runtime" where
  "new_runtime w recover_on_startup = \<lparr>rt_world = w, rt_exchange_info = None, rt_cycle_account = None, rt_cycle_position_marks = [],
     rt_cycle_valuation_event_id = None, rt_recover_all_on_next_cycle = recover_on_startup,
     rt_recovery_pending_leaders = {}, rt_processed = 0, rt_effects = []\<rparr>"

definition mark_recovery_required :: "('x, unit) run" where
  "mark_recovery_required = changing (\<lambda>r. r\<lparr>rt_recover_all_on_next_cycle := True\<rparr>)"

definition runtime_clock :: "'x environment \<Rightarrow> ('x, datetime) run" where
  "runtime_clock E = on_world (clock E)"

section \<open>Decisions and incidents\<close>

definition request_incident :: "'x services \<Rightarrow> string \<Rightarrow> ('x, unit) run" where
  "request_incident S key = (case sv_incident_callback S of None \<Rightarrow> ret ()
     | Some callback \<Rightarrow> andThen (wrote (Incident key)) (\<lambda>_. service (callback key)))"

definition RECONCILIATION_GRACE_REASON_CODES :: "string list" where
  "RECONCILIATION_GRACE_REASON_CODES = [''COPY_ORDER_PARTIAL_PENDING'']"

definition record_decision ::
  "'x services \<Rightarrow> normalized_signal \<Rightarrow> string \<Rightarrow> decimal \<Rightarrow> string list \<Rightarrow> datetime \<Rightarrow> ('x, unit) run" where
  "record_decision S s state local_quantity reason_codes occurred_at =
    andThen (wrote (Decision (sg_signal_id s) state local_quantity reason_codes occurred_at)) (\<lambda>_.
    andThen (service (sv_record_signal_decision S s state local_quantity reason_codes occurred_at)) (\<lambda>_.
    let grace = (state = ''UNCERTAIN'' \<and> reason_codes \<noteq> [] \<and> set reason_codes \<subseteq> set RECONCILIATION_GRACE_REASON_CODES) in
    if state \<in> {''FAILED'', ''UNCERTAIN''} \<and> \<not> grace
    then let joined = join '','' reason_codes; reasons = (if joined = '''' then ''NO_REASON_CODE'' else joined) in
      request_incident S (''signal:'' @ sg_signal_id s @ '':'' @ state @ '':'' @ reasons)
    else ret ()))"

definition fill_price_details_pending :: "copy_execution_receipt \<Rightarrow> bool" where
  "fill_price_details_pending r \<longleftrightarrow> cr_average_price r \<le> 0 \<and> ''COPY_FILL_PRICE_PENDING'' \<in> set (cr_reason_codes r)"

definition operator_flatten :: "runtime_control \<Rightarrow> bool" where
  "operator_flatten c \<longleftrightarrow> take 9 (ct_actor_id c) = ''telegram:'' \<and> ''TELEGRAM_REDUCE_ALL'' \<in> set (ct_reason_codes c)"

definition flatten_completion :: "runtime_control \<Rightarrow> runtime_control_state \<times> string" where
  "flatten_completion c = (if operator_flatten c then (RUNNING, ''COPY_OPERATOR_FLATTEN_COMPLETED_AUTO_RESUME'')
     else (PAUSED_NEW_ENTRIES, ''COPY_SAFETY_FLATTEN_COMPLETED_REMAINS_PAUSED''))"

definition terminal_partial :: "copy_execution_receipt \<Rightarrow> bool" where
  "terminal_partial r \<longleftrightarrow> cr_state r = PARTIALLY_FILLED \<and> ''COPY_ORDER_PARTIAL_TERMINAL'' \<in> set (cr_reason_codes r)"

definition terminal_fill :: "copy_execution_receipt \<Rightarrow> bool" where
  "terminal_fill r \<longleftrightarrow> cr_state r \<in> {FILLED, RECONCILED} \<or> terminal_partial r"

section \<open>Account and symbol data\<close>

definition json_finite :: "json \<Rightarrow> exn \<Rightarrow> decimal result" where
  "json_finite v e = (case json_decimal v of Finite d \<Rightarrow> Inr d | _ \<Rightarrow> Inl e)"

definition POSITIONS_INVALID :: exn where
  "POSITIONS_INVALID = RuntimeError ''COPY_ACCOUNT_POSITIONS_INVALID''"

definition MARK_INVALID :: exn where
  "MARK_INVALID = RuntimeError ''COPY_ACCOUNT_POSITION_MARK_INVALID''"

text \<open>\<open>symbol == symbol.upper()\<close> on the code points below 256: no character has another upper case.\<close>

definition upper_stable :: "string \<Rightarrow> bool" where
  "upper_stable s \<longleftrightarrow> list_all (\<lambda>c. let n = of_char c :: nat in
     \<not> (97 \<le> n \<and> n \<le> 122 \<or> n = 181 \<or> 223 \<le> n \<and> n \<noteq> 247)) s"

definition mark_symbol_ok :: "json \<Rightarrow> string option" where
  "mark_symbol_ok v = (case v of JStr s \<Rightarrow>
     if s = [] \<or> 24 < length s \<or> \<not> isalnum s \<or> \<not> upper_stable s then None else Some s | _ \<Rightarrow> None)"

definition mark_side :: "json \<Rightarrow> position_side option" where
  "mark_side v = (if v = JStr ''LONG'' then Some LONG else if v = JStr ''SHORT'' then Some SHORT else None)"

definition mark_price_of :: "document \<Rightarrow> decimal \<Rightarrow> decimal result" where
  "mark_price_of item quantity =
    (if doc_get item ''markPrice'' \<noteq> JNull then json_finite (doc_get item ''markPrice'') MARK_INVALID
     else rbind (doc_item item ''notional'' MARK_INVALID) (\<lambda>v.
       rbind (json_finite v MARK_INVALID) (\<lambda>notional.
       rbind (decimal_truediv notional quantity) (\<lambda>p. Inr (dabs p)))))"

text \<open>One position of the account document: nothing for an empty one. The checks of
  \<open>AccountPositionMark\<close> hold for what is built here.\<close>

definition position_mark :: "json \<Rightarrow> account_position_mark option result" where
  "position_mark item = (case item of
     JObj d \<Rightarrow>
       rbind (doc_item d ''positionAmt'' POSITIONS_INVALID) (\<lambda>v.
       rbind (json_finite v POSITIONS_INVALID) (\<lambda>quantity.
       if deq quantity 0 then Inr None
       else (case mark_side (doc_get d ''positionSide'') of
           None \<Rightarrow> Inl POSITIONS_INVALID
         | Some side \<Rightarrow> (case mark_symbol_ok (doc_get d ''symbol'') of
             None \<Rightarrow> Inl POSITIONS_INVALID
           | Some symbol \<Rightarrow> rbind (mark_price_of d quantity) (\<lambda>price.
               Inr (Some \<lparr>mk_symbol = symbol, mk_position_side = side, mk_exchange_quantity = dabs quantity,
                 mk_mark_price = price\<rparr>))))))
   | _ \<Rightarrow> Inl POSITIONS_INVALID)"

fun collect_marks :: "json list \<Rightarrow> account_position_mark list \<Rightarrow> account_position_mark list result" where
  "collect_marks [] marks = Inr marks"
| "collect_marks (item # items) marks = rbind (position_mark item) (\<lambda>m. case m of
     None \<Rightarrow> collect_marks items marks
   | Some mark \<Rightarrow>
       if (\<exists>x \<in> set marks. mk_symbol x = mk_symbol mark \<and> mk_position_side x = mk_position_side mark) \<or> mk_mark_price mark \<le> 0
       then Inl MARK_INVALID else collect_marks items (marks @ [mark]))"

definition account_position_marks :: "document \<Rightarrow> account_position_mark list result" where
  "account_position_marks document = (case doc_get document ''positions'' of
     JArr items \<Rightarrow> rbind (collect_marks items []) (\<lambda>marks.
       Inr (sort_key (\<lambda>m. (mk_symbol m, position_side_value (mk_position_side m))) marks))
   | _ \<Rightarrow> Inl POSITIONS_INVALID)"

definition is_trading :: "string \<Rightarrow> json \<Rightarrow> document option" where
  "is_trading symbol item = (case item of JObj d \<Rightarrow>
     if doc_get d ''symbol'' = JStr symbol \<and> doc_get d ''status'' = JStr ''TRADING'' then Some d else None | _ \<Rightarrow> None)"

text \<open>\<open>by_type.get(kind)\<close>: the last filter object of that type.\<close>

definition filter_by_type :: "json list \<Rightarrow> string \<Rightarrow> document option" where
  "filter_by_type filters kind = (case List.map_filter (\<lambda>item. case item of JObj d \<Rightarrow>
     if map_of d ''filterType'' = Some (JStr kind) then Some d else None | _ \<Rightarrow> None) filters of
     [] \<Rightarrow> None | ds \<Rightarrow> Some (last ds))"

definition RULES_INVALID :: exn where
  "RULES_INVALID = RuntimeError ''COPY_SYMBOL_RULES_INVALID''"

definition rule_number :: "document \<Rightarrow> string \<Rightarrow> parsed result" where
  "rule_number d k = rbind (doc_item d k RULES_INVALID) (\<lambda>v.
     case json_decimal v of Malformed \<Rightarrow> Inl RULES_INVALID | x \<Rightarrow> Inr x)"

text \<open>\<open>x <= 0\<close> of a parsed number: an ordering comparison of a NaN raises.\<close>

definition parsed_nonpositive :: "parsed \<Rightarrow> bool result" where
  "parsed_nonpositive x = (case x of Finite d \<Rightarrow> Inr (d \<le> 0) | Infinite neg \<Rightarrow> Inr neg | _ \<Rightarrow> Inl InvalidOperation)"

text \<open>The numbers handed to \<open>SymbolTradingRules\<close>: its minimum compares all of them, so a NaN raises and a
  negative infinity is refused as not positive. A positive infinity has no decimal here; the exchange
  publishes finite filters, and the model raises.\<close>

definition finite_rules :: "parsed list \<Rightarrow> decimal list result" where
  "finite_rules xs =
    (if list_ex (\<lambda>x. x \<in> {QuietNaN, SignalingNaN, Malformed}) xs then Inl InvalidOperation
     else if Infinite True \<in> set xs then Inl (ValueError ''copy symbol rules must be positive'')
     else rmap (\<lambda>x. case x of Finite d \<Rightarrow> Inr d | _ \<Rightarrow> Inl InvalidOperation) xs)"

text \<open>Step, minimum, maximum, minimum notional and tick of the filters of a symbol.\<close>

definition filter_numbers :: "json list \<Rightarrow> parsed list result" where
  "filter_numbers filters =
    (case (case filter_by_type filters ''LOT_SIZE'' of None \<Rightarrow> filter_by_type filters ''MARKET_LOT_SIZE'' | x \<Rightarrow> x,
        filter_by_type filters ''PRICE_FILTER'') of
       (Some lot, Some price_filter) \<Rightarrow>
         rbind (rule_number lot ''stepSize'') (\<lambda>step.
         rbind (rule_number lot ''minQty'') (\<lambda>minimum.
         rbind (rule_number lot ''maxQty'') (\<lambda>maximum.
         rbind (rule_number price_filter ''tickSize'') (\<lambda>tick.
         let notional_filter = (case filter_by_type filters ''MIN_NOTIONAL'' of None \<Rightarrow> [] | Some d \<Rightarrow> d) in
         rbind (case json_decimal (dict_get notional_filter ''notional'' (dict_get notional_filter ''minNotional'' (JStr ''0''))) of
             Malformed \<Rightarrow> Inl RULES_INVALID | x \<Rightarrow> Inr x) (\<lambda>notional.
         rbind (parsed_nonpositive maximum) (\<lambda>missing.
         rbind (if \<not> missing then Inr maximum
                else (case filter_by_type filters ''LOT_SIZE'' of None \<Rightarrow> Inl RULES_INVALID
                  | Some standard \<Rightarrow> rbind (doc_item standard ''maxQty'' (KeyError ''maxQty'')) (\<lambda>v.
                      case json_decimal v of Malformed \<Rightarrow> Inl InvalidOperation | x \<Rightarrow> Inr x))) (\<lambda>maximum'.
         Inr [step, minimum, maximum', notional, tick])))))))
     | _ \<Rightarrow> Inl RULES_INVALID)"

definition bracket_leverages :: "string \<Rightarrow> document list \<Rightarrow> int list result" where
  "bracket_leverages symbol items = rmap json_int (concat (map (\<lambda>item.
     case doc_get item ''brackets'' of
       JArr bs \<Rightarrow> if doc_get item ''symbol'' = JStr symbol
         then List.map_filter (\<lambda>b. case b of JObj d \<Rightarrow> map_of d ''initialLeverage'' | _ \<Rightarrow> None) bs else []
     | _ \<Rightarrow> []) items))"

definition LEVERAGE_INVALID :: exn where
  "LEVERAGE_INVALID = RuntimeError ''COPY_SYMBOL_CURRENT_LEVERAGE_INVALID''"

definition configured_leverage :: "document \<Rightarrow> int result" where
  "configured_leverage d = rbind (doc_item d ''leverage'' LEVERAGE_INVALID) (\<lambda>v. case json_int v of
     Inl (TypeError _) \<Rightarrow> Inl LEVERAGE_INVALID | Inl (ValueError _) \<Rightarrow> Inl LEVERAGE_INVALID | x \<Rightarrow> x)"

text \<open>\<open>self._exchange_info\<close>, read once per cycle.\<close>

definition exchange_info :: "'x services \<Rightarrow> ('x, document) run" where
  "exchange_info S = andThen (reading rt_exchange_info) (\<lambda>known. case known of Some d \<Rightarrow> ret d
     | None \<Rightarrow> andThen (service (sv_exchange_info S)) (\<lambda>d.
         andThen (changing (\<lambda>r. r\<lparr>rt_exchange_info := Some d\<rparr>)) (\<lambda>_. ret d)))"

definition rules_of :: "string \<Rightarrow> parsed list \<Rightarrow> int list \<Rightarrow> document list \<Rightarrow> symbol_rules result" where
  "rules_of symbol numbers leverages configs =
    (case filter (\<lambda>d. doc_get d ''symbol'' = JStr symbol) configs of
       [config] \<Rightarrow> rbind (configured_leverage config) (\<lambda>configured.
         let current = (if configured = 0 then 1 else configured); maximum = Max (set leverages) in
         if \<not> (1 \<le> current \<and> current \<le> maximum) then Inl LEVERAGE_INVALID
         else rbind (finite_rules numbers) (\<lambda>ds.
           symbol_rules_check \<lparr>sr_quantity_step = ds ! 0, sr_minimum_quantity = ds ! 1, sr_maximum_quantity = ds ! 2,
             sr_minimum_notional_usdt = ds ! 3, sr_exchange_maximum_leverage = maximum, sr_current_leverage = current,
             sr_price_tick = ds ! 4\<rparr>))
     | _ \<Rightarrow> Inl (RuntimeError ''COPY_SYMBOL_CONFIG_INVALID''))"

definition listed_filters :: "string \<Rightarrow> document \<Rightarrow> json list result" where
  "listed_filters symbol info = (case doc_get info ''symbols'' of
     JArr items \<Rightarrow> (case List.map_filter (is_trading symbol) items of
         [] \<Rightarrow> Inl (RuntimeError ''COPY_SYMBOL_NOT_AVAILABLE_ON_EXCHANGE'')
       | d # _ \<Rightarrow> (case doc_get d ''filters'' of JArr filters \<Rightarrow> Inr filters | _ \<Rightarrow> Inl RULES_INVALID))
   | _ \<Rightarrow> Inl (RuntimeError ''COPY_EXCHANGE_INFO_INVALID''))"

definition read_symbol_rules :: "'x services \<Rightarrow> string \<Rightarrow> ('x, symbol_rules) run" where
  "read_symbol_rules S symbol =
    andThen (exchange_info S) (\<lambda>info.
    andThen (lift (rbind (listed_filters symbol info) filter_numbers)) (\<lambda>numbers.
    andThen (service (sv_leverage_brackets S symbol)) (\<lambda>brackets.
    andThen (lift (bracket_leverages symbol brackets)) (\<lambda>leverages.
    if leverages = [] then raise (RuntimeError ''COPY_SYMBOL_LEVERAGE_INVALID'')
    else andThen (service (sv_symbol_config S symbol)) (\<lambda>configs.
      lift (rules_of symbol numbers leverages configs))))))"

section \<open>The logical account\<close>

definition cached_account :: "datetime \<Rightarrow> copy_account_snapshot option \<Rightarrow> copy_account_snapshot option result" where
  "cached_account now known = (case known of None \<Rightarrow> Inr None
     | Some a \<Rightarrow> rbind (dt_greater (ca_observed_at a) now) (\<lambda>future.
         if future then Inr None
         else rbind (dt_diff now (ca_observed_at a)) (\<lambda>age. Inr (if total_seconds age \<le> 15 then Some a else None))))"

definition logical_account :: "allocation_policy \<Rightarrow> copy_account_snapshot \<Rightarrow> decimal \<Rightarrow> copy_account_snapshot result" where
  "logical_account p raw baseline =
    (let margin = dmax (dec 0) (ap_operating_envelope_usdt p + ca_margin_balance_usdt raw - baseline) in
     rbind (logical_available_balance (ca_available_balance_usdt raw) margin (ca_total_initial_margin_usdt raw)) (\<lambda>available.
     Inr (raw\<lparr>ca_wallet_balance_usdt := margin, ca_margin_balance_usdt := margin, ca_available_balance_usdt := available\<rparr>)))"

definition logical_account_snapshot :: "runtime_config \<Rightarrow> 'x services \<Rightarrow> datetime \<Rightarrow> ('x, copy_account_snapshot) run" where
  "logical_account_snapshot C S now =
    andThen (lift (runtime_require_utc now)) (\<lambda>_.
    andThen (reading rt_cycle_account) (\<lambda>known.
    andThen (lift (cached_account now known)) (\<lambda>cached. case cached of Some a \<Rightarrow> ret a
    | None \<Rightarrow>
      andThen (service (sv_account_information S)) (\<lambda>account_v3.
      andThen (service (sv_account_information_v2 S)) (\<lambda>account_v2.
      andThen (service (sv_position_mode S)) (\<lambda>mode.
      andThen (lift (account_from_api (AList.update ''canTrade'' (doc_get account_v2 ''canTrade'') account_v3) mode now)) (\<lambda>raw.
      let envelope = ap_operating_envelope_usdt (cf_allocation_policy C) in
      andThen (service (sv_ensure_envelope_baseline S (ca_margin_balance_usdt raw) envelope now)) (\<lambda>baseline.
      andThen (lift (logical_account (cf_allocation_policy C) raw baseline)) (\<lambda>logical.
      andThen (lift (account_position_marks account_v2)) (\<lambda>marks.
      andThen (changing (\<lambda>r. r\<lparr>rt_cycle_position_marks := marks\<rparr>)) (\<lambda>_.
      let valuation = \<lparr>av_wallet = ca_wallet_balance_usdt raw, av_margin = ca_margin_balance_usdt raw,
            av_available = ca_available_balance_usdt raw, av_baseline = baseline, av_envelope = envelope,
            av_initial_margin = ca_total_initial_margin_usdt raw,
            av_maintenance_margin = ca_total_maintenance_margin_usdt raw, av_marks = marks, av_observed_at = now\<rparr> in
      andThen (wrote (Valuation valuation)) (\<lambda>_.
      andThen (service (sv_record_account_valuation S valuation)) (\<lambda>event_id.
      andThen (changing (\<lambda>r. r\<lparr>rt_cycle_valuation_event_id := Some event_id, rt_cycle_account := Some logical\<rparr>)) (\<lambda>_.
      ret logical))))))))))))))"

text \<open>Both the exchange positions and the open orders of this program must be gone.\<close>

definition own_order :: "document \<Rightarrow> bool" where
  "own_order d = (case doc_get d ''clientOrderId'' of JStr c \<Rightarrow> take 4 c \<in> {''aqc-'', ''aqg-''} | _ \<Rightarrow> False)"

definition exchange_flatten_confirmed :: "'x services \<Rightarrow> ('x, bool) run" where
  "exchange_flatten_confirmed S =
    andThen (service (sv_account_information_v2 S)) (\<lambda>account.
    andThen (lift (account_position_marks account)) (\<lambda>marks.
    if marks \<noteq> [] then ret False
    else andThen (service (sv_all_open_orders S)) (\<lambda>orders. ret (\<not> list_ex own_order orders))))"

section \<open>Attribution of fills\<close>

definition record_virtual_position ::
  "'x services \<Rightarrow> normalized_signal \<Rightarrow> virtual_position \<Rightarrow> virtual_position \<Rightarrow> decimal \<Rightarrow> int \<Rightarrow> datetime \<Rightarrow> ('x, unit) run" where
  "record_virtual_position S s previous updated price leverage occurred_at =
    andThen (wrote (Attribution (sg_signal_id s) previous updated price leverage occurred_at)) (\<lambda>_.
    service (sv_record_virtual_position S s previous updated price leverage occurred_at))"

definition append_runtime_control ::
  "'x services \<Rightarrow> runtime_control_state \<Rightarrow> string \<Rightarrow> string list \<Rightarrow> datetime \<Rightarrow> bool \<Rightarrow> ('x, unit) run" where
  "append_runtime_control S state actor reasons occurred_at notify =
    andThen (wrote (Control state actor reasons occurred_at)) (\<lambda>_.
    service (sv_append_runtime_control S state actor reasons occurred_at notify))"

definition attribute_increase ::
  "'x services \<Rightarrow> normalized_signal \<Rightarrow> copy_execution_receipt \<Rightarrow> datetime \<Rightarrow> ('x, bool) run" where
  "attribute_increase S s receipt occurred_at =
    (if cr_requested_quantity receipt \<le> 0 \<or> cr_filled_quantity receipt \<le> 0
        \<or> cr_requested_quantity receipt < cr_filled_quantity receipt \<or> cr_average_price receipt \<le> 0
     then ret False
     else
       andThen (service (sv_load_virtual_ledger S)) (\<lambda>ledger.
       let previous = position_for ledger s in
       andThen (lift (decimal_truediv (cr_filled_quantity receipt) (cr_requested_quantity receipt))) (\<lambda>share.
       andThen (lift (fst (record_increase_fill s (cr_filled_quantity receipt)
         (Some (sg_source_delta_quantity s * share)) ledger))) (\<lambda>updated.
       andThen (record_virtual_position S s previous updated (cr_average_price receipt) (cr_leverage receipt) occurred_at) (\<lambda>_.
       andThen (record_decision S s ''FILLED'' (cr_filled_quantity receipt) (cr_reason_codes receipt) occurred_at) (\<lambda>_.
       ret True))))))"

definition BLOCKED_CANCELLATIONS :: "string list" where
  "BLOCKED_CANCELLATIONS = [''COPY_PROTECTED_LIMIT_EXPIRED'', ''COPY_PROTECTED_LIMIT_CANCELLED_BY_CONTROL'',
     ''COPY_PROTECTED_LIMIT_CANCELLED_BY_LEADER_DRAINING'', ''COPY_PROTECTED_LIMIT_CANCELLED_BY_LEADER_SYMBOL_STOP'',
     ''COPY_PROTECTED_LIMIT_CANCELLED_EXTERNALLY'']"

definition SOURCE_REDUCTION :: string where
  "SOURCE_REDUCTION = ''COPY_PROTECTED_LIMIT_CANCELLED_BY_SOURCE_REDUCTION''"

definition record_blocked_claim_result ::
  "'x services \<Rightarrow> normalized_signal \<Rightarrow> copy_execution_receipt \<Rightarrow> datetime \<Rightarrow> ('x, unit) run" where
  "record_blocked_claim_result S s receipt occurred_at =
    (let decide = (\<lambda>state codes. record_decision S s state (cr_requested_quantity receipt) codes occurred_at) in
     if terminal_fill receipt
     then if fill_price_details_pending receipt then decide ''SUBMITTED'' (cr_reason_codes receipt)
       else andThen (attribute_increase S s receipt occurred_at) (\<lambda>done.
         if done then ret () else decide ''UNCERTAIN'' [''COPY_ENTRY_FILL_ATTRIBUTION_FAILED''])
     else if cr_state receipt = REJECTED \<and> list_ex (\<lambda>c. c \<in> set BLOCKED_CANCELLATIONS) (cr_reason_codes receipt)
     then decide ''CANCELLED'' (cr_reason_codes receipt)
     else decide ''UNCERTAIN'' (cr_reason_codes receipt))"

text \<open>Cancelling one page of pending entries: \<open>False\<close> leaves both loops of \<open>_cancel_superseded_entries\<close>.\<close>

fun cancel_entries ::
  "'x environment \<Rightarrow> runtime_config \<Rightarrow> 'x services \<Rightarrow> datetime \<Rightarrow> normalized_signal list \<Rightarrow> ('x, bool) run" where
  "cancel_entries E C S now [] = ret True"
| "cancel_entries E C S now (entry # entries) =
    andThen (on_world (cancel_pending_increase E (cf_executor C) entry SOURCE_REDUCTION)) (\<lambda>receipt.
    if terminal_fill receipt
    then andThen (attribute_increase S entry receipt now) (\<lambda>done.
      if done then cancel_entries E C S now entries else ret False)
    else if cr_state receipt = REJECTED \<and> SOURCE_REDUCTION \<in> set (cr_reason_codes receipt)
    then andThen (record_decision S entry ''CANCELLED'' (cr_requested_quantity receipt) (cr_reason_codes receipt) now) (\<lambda>_.
      cancel_entries E C S now entries)
    else andThen (record_decision S entry ''UNCERTAIN'' (cr_requested_quantity receipt) (cr_reason_codes receipt) now) (\<lambda>_.
      ret False))"

fun cancel_rounds ::
  "'x environment \<Rightarrow> runtime_config \<Rightarrow> 'x services \<Rightarrow> normalized_signal \<Rightarrow> datetime \<Rightarrow> nat \<Rightarrow> ('x, bool) run" where
  "cancel_rounds E C S reduction now 0 = ret False"
| "cancel_rounds E C S reduction now (Suc n) =
    andThen (service (sv_pending_increase_signals S (sg_lead_portfolio_id reduction) (sg_symbol reduction)
      (sg_position_side reduction) 100)) (\<lambda>pending.
    if pending = [] then ret True
    else andThen (cancel_entries E C S now pending) (\<lambda>done.
      if \<not> done then ret False
      else if length pending < 100 then ret True else cancel_rounds E C S reduction now n))"

definition cancel_superseded_entries ::
  "'x environment \<Rightarrow> runtime_config \<Rightarrow> 'x services \<Rightarrow> normalized_signal \<Rightarrow> datetime \<Rightarrow> ('x, bool) run" where
  "cancel_superseded_entries E C S reduction now = cancel_rounds E C S reduction now 10"

section \<open>Processing a signal\<close>

text \<open>Why an entry is refused before anything is sized: state, reason and the reason to cancel with.\<close>

definition blocked_entry ::
  "runtime_config \<Rightarrow> leader_assignment \<Rightarrow> leader_symbol_stop option \<Rightarrow> runtime_control \<Rightarrow> (string \<times> string \<times> string) option" where
  "blocked_entry C a stop control =
    (if stop \<noteq> None
     then Some (''RISK_REJECTED'', ''COPY_LEADER_SYMBOL_ENTRY_COOLDOWN_ACTIVE'', ''COPY_PROTECTED_LIMIT_CANCELLED_BY_LEADER_SYMBOL_STOP'')
     else if execution_enabled C \<and> ct_state control \<noteq> RUNNING
     then Some (''RISK_REJECTED'', ''COPY_NEW_ENTRIES_'' @ control_state_value (ct_state control), ''COPY_PROTECTED_LIMIT_CANCELLED_BY_CONTROL'')
     else if lg_lifecycle a = DRAINING
     then Some (''IGNORED_DRAINING'', if lg_nickname a = ''recovered-unassigned'' then ''COPY_RECOVERED_LEADER_NO_LONGER_ASSIGNED''
       else ''COPY_LEADER_DRAINING_NO_NEW_ENTRY'', ''COPY_PROTECTED_LIMIT_CANCELLED_BY_LEADER_DRAINING'')
     else None)"

definition skipped_decision :: "runtime_control \<Rightarrow> string \<Rightarrow> string \<Rightarrow> string \<times> string list" where
  "skipped_decision control state reason =
    (if ct_state control = REDUCE_ALL \<and> operator_flatten control
     then (''CANCELLED'', [''COPY_ENTRY_SKIPPED_DURING_OPERATOR_FLATTEN'']) else (state, [reason]))"

definition settle_blocked ::
  "'x environment \<Rightarrow> runtime_config \<Rightarrow> 'x services \<Rightarrow> normalized_signal \<Rightarrow> runtime_control \<Rightarrow> copy_market_order option \<Rightarrow> datetime
     \<Rightarrow> string \<times> string \<times> string \<Rightarrow> ('x, unit) run" where
  "settle_blocked E C S s control claimed now = (\<lambda>(state, reason, cancellation). case claimed of
     None \<Rightarrow> (case skipped_decision control state reason of (state', codes) \<Rightarrow> record_decision S s state' (dec 0) codes now)
   | Some _ \<Rightarrow> andThen (on_world (cancel_pending_increase E (cf_executor C) s cancellation)) (\<lambda>receipt.
       record_blocked_claim_result S s receipt now))"

text \<open>The rules, the protected price of an entry and the account that a decision rests on.\<close>

definition signal_inputs ::
  "runtime_config \<Rightarrow> 'x services \<Rightarrow> normalized_signal \<Rightarrow> datetime
     \<Rightarrow> ('x, symbol_rules \<times> decimal option \<times> copy_account_snapshot) run" where
  "signal_inputs C S s now =
    andThen (read_symbol_rules S (sg_symbol s)) (\<lambda>rules.
    andThen (if sg_kind s = INCREASE
      then andThen (lift (protected_entry_price s (sr_price_tick rules) None)) (\<lambda>p. ret (Some p)) else ret None) (\<lambda>price.
    andThen (logical_account_snapshot C S now) (\<lambda>account. ret (rules, price, account))))"

text \<open>\<open>except TestnetProbeError: raise\<close> before \<open>except (RuntimeError, ValueError, InvalidOperation)\<close>.\<close>

fun rejects_signal :: "exn \<Rightarrow> bool" where
  "rejects_signal (TestnetProbeError _) = False"
| "rejects_signal (TypeError _) = False"
| "rejects_signal (AssertionError _) = False"
| "rejects_signal (KeyError _) = False"
| "rejects_signal DivisionByZero = False"
| "rejects_signal OverflowError = False"
| "rejects_signal StopIteration = False"
| "rejects_signal _ = True"

fun error_text :: "'x services \<Rightarrow> exn \<Rightarrow> string" where
  "error_text S (ValueError m) = m"
| "error_text S (PublicCopyDataError m) = m"
| "error_text S (OneWayResolutionError m) = m"
| "error_text S (RuntimeError m) = m"
| "error_text S (BinancePublicCopyError m) = m"
| "error_text S (CommandConflictError m) = m"
| "error_text S (ChallengeError m) = m"
| "error_text S _ = sv_invalid_operation_text S"

definition react_to_risk :: "runtime_config \<Rightarrow> 'x services \<Rightarrow> account_risk_decision \<Rightarrow> datetime \<Rightarrow> ('x, unit) run" where
  "react_to_risk C S risk now =
    (if \<not> execution_enabled C then ret ()
     else andThen (service (sv_latest_runtime_control S)) (\<lambda>current.
       if ad_reduce_all_required risk \<and> ct_state current \<noteq> REDUCE_ALL
       then append_runtime_control S REDUCE_ALL ''account-risk-engine'' (ad_reason_codes risk) now False
       else if ad_pause_new_entries risk \<and> ct_state current = RUNNING
       then append_runtime_control S PAUSED_NEW_ENTRIES ''account-risk-engine'' (ad_reason_codes risk) now False
       else ret ()))"

text \<open>The order a signal asks for, with the ledger facts its fill is attributed to; \<open>None\<close> when the
  signal ended in a decision.\<close>

record signal_plan =
  pl_quantity :: decimal
  pl_order :: "copy_market_order option"
  pl_reduction :: "reduction_plan option"
  pl_previous :: virtual_position
  pl_ledger :: ledger

definition reject_size :: "'x services \<Rightarrow> normalized_signal \<Rightarrow> size_decision \<Rightarrow> datetime \<Rightarrow> ('x, unit) run" where
  "reject_size S s sizing now =
    (let minimum = list_ex (contains_text ''MINIMUM'') (sd_reason_codes sizing) in
     andThen (record_decision S s (if minimum then ''IGNORED_MINIMUM'' else ''RISK_REJECTED'') (dec 0) (sd_reason_codes sizing) now) (\<lambda>_.
     if minimum
     then request_incident S (''allocation-minimum:'' @ sg_lead_portfolio_id s @ '':'' @ sg_symbol s @ '':''
       @ join '','' (sd_reason_codes sizing))
     else ret ()))"

definition plan_entry ::
  "runtime_config \<Rightarrow> 'x services \<Rightarrow> normalized_signal \<Rightarrow> leader_assignment \<Rightarrow> symbol_rules \<Rightarrow> decimal option
     \<Rightarrow> copy_account_snapshot \<Rightarrow> datetime \<Rightarrow> ledger \<Rightarrow> ('x, signal_plan option) run" where
  "plan_entry C S s a rules price account now ledger = (case price of
     None \<Rightarrow> raise (RuntimeError ''COPY_PROTECTED_ENTRY_PRICE_MISSING'')
   | Some entry_price \<Rightarrow>
     andThen (service (sv_portfolio_usage S (sg_lead_portfolio_id s) (sg_symbol s) (ca_margin_balance_usdt account)
       (ca_available_balance_usdt account) (sr_current_leverage rules))) (\<lambda>usage.
     andThen (lift (leader_allocation_check \<lparr>la_lead_portfolio_id = lg_lead_portfolio_id a,
       la_source_aum_usdt = lg_source_aum_usdt a, la_portfolio_weight = lg_portfolio_weight a,
       la_follow_multiplier = lg_follow_multiplier a\<rparr>)) (\<lambda>leader.
     andThen (lift (size_increase (cf_allocation_policy C) s entry_price leader usage rules)) (\<lambda>sizing.
     if \<not> sd_approved sizing then andThen (reject_size S s sizing now) (\<lambda>_. ret None)
     else andThen (lift (copy_market_order_check \<lparr>mo_signal = s, mo_local_quantity = sd_local_quantity sizing,
         mo_leverage = sd_leverage sizing, mo_order_type = LIMIT, mo_limit_price = Some entry_price, mo_expires_at = None\<rparr>)) (\<lambda>m.
       ret (Some \<lparr>pl_quantity = sd_local_quantity sizing, pl_order = Some m, pl_reduction = None,
         pl_previous = position_for ledger s, pl_ledger = ledger\<rparr>))))))"

definition plan_exit ::
  "runtime_config \<Rightarrow> 'x services \<Rightarrow> normalized_signal \<Rightarrow> copy_market_order option \<Rightarrow> symbol_rules \<Rightarrow> decimal option
     \<Rightarrow> datetime \<Rightarrow> ledger \<Rightarrow> ('x, signal_plan option) run" where
  "plan_exit C S s claimed rules source_before now ledger =
    (case plan_reduction s rules source_before ledger of (outcome, ledger') \<Rightarrow>
     andThen (lift outcome) (\<lambda>plan.
     if \<not> rp_approved plan
     then andThen (record_decision S s ''IGNORED_ORPHAN'' (dec 0) (rp_reason_codes plan) now) (\<lambda>_. ret None)
     else andThen (case claimed of Some m \<Rightarrow> ret m
       | None \<Rightarrow> lift (copy_market_order_check \<lparr>mo_signal = s, mo_local_quantity = rp_requested_local_quantity plan,
           mo_leverage = min (sr_current_leverage rules) (ap_maximum_leverage (cf_allocation_policy C)),
           mo_order_type = MARKET, mo_limit_price = None, mo_expires_at = None\<rparr>)) (\<lambda>m.
       ret (Some \<lparr>pl_quantity = rp_requested_local_quantity plan, pl_order = Some m, pl_reduction = Some plan,
         pl_previous = position_for ledger' s, pl_ledger = ledger'\<rparr>))))"

definition plan_signal ::
  "runtime_config \<Rightarrow> 'x services \<Rightarrow> normalized_signal \<Rightarrow> leader_assignment \<Rightarrow> copy_market_order option \<Rightarrow> symbol_rules
     \<Rightarrow> decimal option \<Rightarrow> copy_account_snapshot \<Rightarrow> decimal option \<Rightarrow> datetime \<Rightarrow> ('x, signal_plan option) run" where
  "plan_signal C S s a claimed rules price account source_before now =
    andThen (service (sv_load_virtual_ledger S)) (\<lambda>ledger.
    if sg_kind s = INCREASE
    then (case claimed of
        Some m \<Rightarrow> ret (Some \<lparr>pl_quantity = mo_local_quantity m, pl_order = Some m, pl_reduction = None,
          pl_previous = position_for ledger s, pl_ledger = ledger\<rparr>)
      | None \<Rightarrow> plan_entry C S s a rules price account now ledger)
    else plan_exit C S s claimed rules source_before now ledger)"

definition RESUBMITTED :: string where
  "RESUBMITTED = ''COPY_PERSISTENT_ENTRY_RESUBMITTED_AFTER_CONFIRMED_ABSENCE''"

text \<open>What a terminal fill of the order becomes: an attributed position and a decision.\<close>

definition settle_fill ::
  "'x services \<Rightarrow> normalized_signal \<Rightarrow> signal_plan \<Rightarrow> copy_execution_receipt \<Rightarrow> datetime \<Rightarrow> ('x, unit) run" where
  "settle_fill S s p receipt outcome_at =
    (let uncertain = (\<lambda>code. record_decision S s ''UNCERTAIN'' (cr_requested_quantity receipt) [code] outcome_at) in
     if cr_filled_quantity receipt \<le> 0 then uncertain ''COPY_ORDER_TERMINAL_WITHOUT_FILL''
     else if cr_average_price receipt \<le> 0
     then if fill_price_details_pending receipt then ret () else uncertain ''COPY_ORDER_TERMINAL_WITHOUT_FILL_PRICE''
     else if sg_kind s = REDUCE
     then (case pl_reduction p of None \<Rightarrow> uncertain ''COPY_RECOVERED_REDUCTION_PLAN_CHANGED''
       | Some plan \<Rightarrow>
           if \<not> deq (rp_requested_local_quantity plan) (cr_requested_quantity receipt)
           then uncertain ''COPY_RECOVERED_REDUCTION_PLAN_CHANGED''
           else andThen (lift (fst (record_reduction_fill plan (cr_filled_quantity receipt) (pl_ledger p)))) (\<lambda>updated.
             andThen (record_virtual_position S s (pl_previous p) updated (cr_average_price receipt) (cr_leverage receipt) outcome_at) (\<lambda>_.
             record_decision S s ''FILLED'' (cr_filled_quantity receipt) (cr_reason_codes receipt) outcome_at)))
     else andThen (attribute_increase S s receipt outcome_at) (\<lambda>done.
       if done then ret () else uncertain ''COPY_ENTRY_FILL_ATTRIBUTION_FAILED''))"

definition settle_receipt ::
  "'x services \<Rightarrow> normalized_signal \<Rightarrow> signal_plan \<Rightarrow> copy_execution_receipt \<Rightarrow> datetime \<Rightarrow> ('x, unit) run" where
  "settle_receipt S s p receipt outcome_at =
    (let decide = (\<lambda>state. record_decision S s state (cr_requested_quantity receipt) (cr_reason_codes receipt) outcome_at) in
     if terminal_fill receipt then settle_fill S s p receipt outcome_at
     else if cr_state receipt = PARTIALLY_FILLED then decide ''UNCERTAIN''
     else if cr_state receipt = ACKNOWLEDGED then ret ()
     else if cr_state receipt = UNKNOWN then decide ''UNCERTAIN''
     else if cr_state receipt = REJECTED \<and> list_ex (\<lambda>c. c \<in> set (SOURCE_REDUCTION # BLOCKED_CANCELLATIONS)) (cr_reason_codes receipt)
     then decide ''CANCELLED''
     else if cr_state receipt = REJECTED \<and> ''COPY_TRADIFI_AGREEMENT_REQUIRED'' \<in> set (cr_reason_codes receipt)
     then decide ''RISK_REJECTED''
     else decide ''FAILED'')"

text \<open>\<open>max(self._clock(), now + timedelta(microseconds=1))\<close>.\<close>

definition outcome_time :: "'x environment \<Rightarrow> datetime \<Rightarrow> ('x, datetime) run" where
  "outcome_time E now = andThen (runtime_clock E) (\<lambda>t.
     andThen (lift (dt_greater (dt_add now 1) t)) (\<lambda>later. ret (if later then dt_add now 1 else t)))"

definition execute_plan ::
  "'x environment \<Rightarrow> runtime_config \<Rightarrow> 'x services \<Rightarrow> normalized_signal \<Rightarrow> account_risk_decision \<Rightarrow> datetime \<Rightarrow> signal_plan
     \<Rightarrow> ('x, unit) run" where
  "execute_plan E C S s risk now p =
    (if \<not> ad_allow_execution risk \<and> execution_enabled C
     then record_decision S s ''RISK_REJECTED'' (pl_quantity p) (ad_reason_codes risk) now
     else if \<not> execution_enabled C
     then record_decision S s ''SHADOW_ONLY'' (pl_quantity p) [''COPY_RUNTIME_'' @ py_upper (runtime_mode_value (cf_mode C))] now
     else case pl_order p of
       None \<Rightarrow> record_decision S s ''UNCERTAIN'' (pl_quantity p) [''COPY_ORDER_REQUEST_MISSING''] now
     | Some m \<Rightarrow>
         andThen (on_world (execute E (cf_executor C) m risk)) (\<lambda>receipt.
         andThen (if cr_state receipt = REJECTED then ret ()
           else record_decision S s ''SUBMITTED'' (cr_requested_quantity receipt)
             (if RESUBMITTED \<in> set (cr_reason_codes receipt) then [RESUBMITTED] else []) now) (\<lambda>_.
         andThen (outcome_time E now) (\<lambda>outcome_at. settle_receipt S s p receipt outcome_at))))"

definition decide_signal ::
  "'x environment \<Rightarrow> runtime_config \<Rightarrow> 'x services \<Rightarrow> normalized_signal \<Rightarrow> leader_assignment \<Rightarrow> copy_market_order option \<Rightarrow> datetime
     \<Rightarrow> symbol_rules \<times> decimal option \<times> copy_account_snapshot \<Rightarrow> ('x, unit) run" where
  "decide_signal E C S s a claimed now = (\<lambda>(rules, price, account).
    andThen (lift (evaluate_account_risk account (sg_kind s) now None)) (\<lambda>risk.
    andThen (react_to_risk C S risk now) (\<lambda>_.
    andThen (if sg_kind s = REDUCE then service (sv_source_position_quantity_before S s) else ret None) (\<lambda>source_before.
    let closes = (case source_before of None \<Rightarrow> True | Some q \<Rightarrow> q \<le> sg_source_delta_quantity s) in
    andThen (if execution_enabled C \<and> sg_kind s = REDUCE \<and> closes then cancel_superseded_entries E C S s now else ret True) (\<lambda>clear.
    if \<not> clear then record_decision S s ''UNCERTAIN'' (dec 0) [''COPY_PENDING_ENTRY_CANCEL_UNRESOLVED''] now
    else andThen (plan_signal C S s a claimed rules price account source_before now) (\<lambda>planned. case planned of
        None \<Rightarrow> ret () | Some p \<Rightarrow> execute_plan E C S s risk now p))))))"

definition process_signal ::
  "'x environment \<Rightarrow> runtime_config \<Rightarrow> 'x services \<Rightarrow> normalized_signal \<Rightarrow> leader_assignment \<Rightarrow> ('x, unit) run" where
  "process_signal E C S s a =
    andThen (runtime_clock E) (\<lambda>now.
    andThen (lift (runtime_require_utc now)) (\<lambda>_.
    andThen (service (sv_attributed_fill_quantity S (sg_signal_id s))) (\<lambda>attributed. case attributed of
      Some q \<Rightarrow> record_decision S s ''FILLED'' q [''COPY_ATTRIBUTED_FILL_RECOVERED''] now
    | None \<Rightarrow>
      andThen (if execution_enabled C then on_world (claimed_order E s) else ret None) (\<lambda>claimed.
      andThen (service (sv_latest_runtime_control S)) (\<lambda>control.
      andThen (if sg_kind s = INCREASE \<and> execution_enabled C
        then service (sv_active_leader_symbol_stop S (sg_lead_portfolio_id s) (sg_symbol s) now) else ret None) (\<lambda>stop.
      case (if sg_kind s = INCREASE then blocked_entry C a stop control else None) of
        Some blocked \<Rightarrow> settle_blocked E C S s control claimed now blocked
      | None \<Rightarrow> tryExcept rejects_signal (signal_inputs C S s now)
          (\<lambda>error. record_decision S s ''RISK_REJECTED'' (dec 0) [error_text S error] now)
          (decide_signal E C S s a claimed now)))))))"

text \<open>Entries of a stopped leader and symbol, one page per side.\<close>

fun process_all ::
  "'x environment \<Rightarrow> runtime_config \<Rightarrow> 'x services \<Rightarrow> leader_assignment \<Rightarrow> normalized_signal list \<Rightarrow> ('x, unit) run" where
  "process_all E C S a [] = ret ()"
| "process_all E C S a (s # ss) = andThen (process_signal E C S s a) (\<lambda>_. process_all E C S a ss)"

fun cancel_stopped_sides ::
  "'x environment \<Rightarrow> runtime_config \<Rightarrow> 'x services \<Rightarrow> leader_symbol_stop \<Rightarrow> leader_assignment \<Rightarrow> position_side list \<Rightarrow> ('x, string set) run" where
  "cancel_stopped_sides E C S stop a [] = ret {}"
| "cancel_stopped_sides E C S stop a (side # sides) =
    andThen (service (sv_pending_increase_signals S (st_lead_portfolio_id stop) (st_symbol stop) side 100)) (\<lambda>pending.
    andThen (process_all E C S a pending) (\<lambda>_.
    andThen (if 100 \<le> length pending
      then request_incident S (''leader-symbol-stop-pending-backlog:'' @ st_lead_portfolio_id stop @ '':'' @ st_symbol stop
        @ '':'' @ position_side_value side) else ret ()) (\<lambda>_.
    andThen (cancel_stopped_sides E C S stop a sides) (\<lambda>processed. ret (sg_signal_id ` set pending \<union> processed)))))"

definition cancel_stopped_leader_symbol_entries ::
  "'x environment \<Rightarrow> runtime_config \<Rightarrow> 'x services \<Rightarrow> leader_symbol_stop \<Rightarrow> leader_assignment \<Rightarrow> ('x, string set) run" where
  "cancel_stopped_leader_symbol_entries E C S stop a = cancel_stopped_sides E C S stop a [LONG, SHORT]"

end
