(* ===== verification/PublicClient.thy ===== *)
theory PublicClient
  imports OneWay Computations
begin

text \<open>
  \<open>copy_trading/binance_public.py\<close>: the reader of the public leader directory, order history and
  position history. The HTTP opener, the JSON decoder and the sleep function are parameters; the
  allowlist of destinations, the retries, the paging, the checks of every row, the removal of repeated
  rows and the refusal of ambiguous identities are modelled, with every exception they raise.
\<close>

section \<open>Records and constants\<close>

definition BINANCE_WEB_BASE :: string where
  "BINANCE_WEB_BASE = ''https://www.binance.com''"

definition LEADER_LIST_PATH :: string where
  "LEADER_LIST_PATH = ''/bapi/futures/v1/friendly/future/copy-trade/home-page/query-list''"

definition LEADER_DETAIL_PATH :: string where
  "LEADER_DETAIL_PATH = ''/bapi/futures/v1/friendly/future/copy-trade/lead-portfolio/detail''"

definition ORDER_HISTORY_PATH :: string where
  "ORDER_HISTORY_PATH = ''/bapi/futures/v1/friendly/future/copy-trade/lead-portfolio/order-history''"

definition POSITION_HISTORY_PATH :: string where
  "POSITION_HISTORY_PATH = ''/bapi/futures/v1/friendly/future/copy-trade/lead-portfolio/position-history''"

definition MAX_PUBLIC_RESPONSE_BYTES :: nat where
  "MAX_PUBLIC_RESPONSE_BYTES = 4 * 1024 * 1024"

definition COPY_ORDER_POLL_PAGE_SIZE :: int where
  "COPY_ORDER_POLL_PAGE_SIZE = 30"

definition FAST_LEADER_LOOKUP_RANKINGS :: "string list" where
  "FAST_LEADER_LOOKUP_RANKINGS = [''AUM'', ''WIN_RATE'', ''MDD'']"

type_synonym headers = "(string \<times> string) list"

record public_http_result =
  hr_status :: int
  hr_headers :: headers
  hr_body :: string

record leader_page =
  lp_leaders :: "leader_snapshot list"
  lp_total :: int
  lp_invalid_row_count :: int
  lp_invalid_reason_codes :: "string list"
  lp_invalid_leader_ids :: "string list"

record availability =
  la_lead_portfolio_id :: string
  la_state :: string
  la_source_status :: string
  la_nickname :: "string option"

record order_history_page =
  hp_orders :: "public_leader_order list"
  hp_total :: int

record position_history_page =
  pp_positions :: "closed_leader_position list"
  pp_total :: int

text \<open>
  The client: its transport, its number of attempts and its sleep function; \<open>cl_loads\<close> is
  \<open>json.loads\<close> on a response body, \<open>None\<close> when it raises.
\<close>

type_synonym 'x transport = "string \<Rightarrow> string \<Rightarrow> headers \<Rightarrow> string \<Rightarrow> ('x, public_http_result) comp"

record 'x copy_client =
  cl_transport :: "'x transport"
  cl_loads :: "string \<Rightarrow> json option"
  cl_retry_attempts :: int
  cl_sleeper :: "rat \<Rightarrow> 'x \<Rightarrow> 'x"

definition copy_client_check :: "'x copy_client \<Rightarrow> 'x copy_client result" where
  "copy_client_check C =
    rbind (require (1 \<le> cl_retry_attempts C \<and> cl_retry_attempts C \<le> 5)
      (ValueError ''copy public retry count is outside the supported range'')) (\<lambda>_. Inr C)"

definition public_error :: "string \<Rightarrow> exn" where
  "public_error = BinancePublicCopyError"

fun is_public_error :: "exn \<Rightarrow> bool" where
  "is_public_error (BinancePublicCopyError _) = True"
| "is_public_error _ = False"

text \<open>\<open>except PublicCopyDataError as error: raise BinancePublicCopyError(str(error))\<close>.\<close>

fun as_public_error :: "'a result \<Rightarrow> 'a result" where
  "as_public_error (Inl (PublicCopyDataError m)) = Inl (BinancePublicCopyError m)"
| "as_public_error r = r"

section \<open>Transport\<close>

text \<open>What opening a request gives: a response, an HTTP error with its body, a failure of the
  connection, or another exception.\<close>

datatype opened = Response int headers string | HTTPError int headers string | ConnectionFailed | OpenRaised exn

definition detail_url_ok :: "string \<Rightarrow> bool" where
  "detail_url_ok url \<longleftrightarrow> (let prefix = BINANCE_WEB_BASE @ LEADER_DETAIL_PATH @ ''?portfolioId='' in
     take (length prefix) url = prefix \<and> leader_id_ok (drop (length prefix) url))"

definition destination_allowed :: "string \<Rightarrow> string \<Rightarrow> bool" where
  "destination_allowed method url \<longleftrightarrow>
     (method = ''POST'' \<and> url \<in> {BINANCE_WEB_BASE @ LEADER_LIST_PATH, BINANCE_WEB_BASE @ ORDER_HISTORY_PATH,
        BINANCE_WEB_BASE @ POSITION_HISTORY_PATH})
   \<or> (method = ''GET'' \<and> detail_url_ok url)"

definition bounded_payload :: "int \<Rightarrow> headers \<Rightarrow> string \<Rightarrow> public_http_result result" where
  "bounded_payload status headers body = (let payload = take (MAX_PUBLIC_RESPONSE_BYTES + 1) body in
     rbind (require (\<not> MAX_PUBLIC_RESPONSE_BYTES < length payload) (public_error ''COPY_PUBLIC_RESPONSE_TOO_LARGE'')) (\<lambda>_.
     Inr \<lparr>hr_status = status, hr_headers = headers, hr_body = payload\<rparr>))"

definition urllib_transport ::
  "(string \<Rightarrow> string \<Rightarrow> headers \<Rightarrow> string \<Rightarrow> 'x \<Rightarrow> opened \<times> 'x) \<Rightarrow> 'x transport" where
  "urllib_transport opener method url headers body =
    (if \<not> destination_allowed method url then raise (public_error ''COPY_PUBLIC_DESTINATION_DENIED'')
     else (\<lambda>x. case opener method url headers body x of (answer, x') \<Rightarrow>
       ((case answer of Response status hs payload \<Rightarrow> bounded_payload status hs payload
         | HTTPError status hs payload \<Rightarrow> bounded_payload status hs payload
         | ConnectionFailed \<Rightarrow> Inl (public_error ''COPY_PUBLIC_TRANSPORT_FAILED'')
         | OpenRaised e \<Rightarrow> Inl e), x')))"

section \<open>Requests with retries\<close>

text \<open>\<open>for attempt in range(n)\<close> around a body that returns or continues, with what follows the loop.\<close>

fun for_attempts :: "(nat \<Rightarrow> ('s, 'a option) comp) \<Rightarrow> exn \<Rightarrow> nat \<Rightarrow> nat \<Rightarrow> ('s, 'a) comp" where
  "for_attempts body unreachable attempt 0 = raise unreachable"
| "for_attempts body unreachable attempt (Suc n) =
    andThen (body attempt) (\<lambda>r. case r of Some a \<Rightarrow> ret a | None \<Rightarrow> for_attempts body unreachable (Suc attempt) n)"

definition retry :: "'x copy_client \<Rightarrow> nat \<Rightarrow> ('x, unit) comp" where
  "retry C attempt = (\<lambda>x. (Inr (), cl_sleeper C (1 / 2 * 2 ^ attempt) x))"

definition retry_continue :: "'x copy_client \<Rightarrow> nat \<Rightarrow> ('x, 'a option) comp" where
  "retry_continue C attempt = andThen (retry C attempt) (\<lambda>_. ret None)"

definition attempts_left :: "'x copy_client \<Rightarrow> nat \<Rightarrow> bool" where
  "attempts_left C attempt \<longleftrightarrow> int attempt + 1 < cl_retry_attempts C"

definition get_headers :: headers where
  "get_headers = [(''Accept'', ''application/json''), (''Accept-Language'', ''zh-CN,zh;q=0.9,en;q=0.8''),
     (''User-Agent'', ''aiq-copy-trading/1.0 (+public-data-poller)'')]"

definition post_headers :: headers where
  "post_headers = [(''Accept'', ''application/json''), (''Accept-Language'', ''zh-CN,zh;q=0.9,en;q=0.8''),
     (''Content-Type'', ''application/json''), (''User-Agent'', ''aiq-copy-trading/1.0 (+public-data-poller)'')]"

text \<open>The first half of both retry loops: one request, \<open>None\<close> when the attempt is to be repeated.\<close>

definition send_once ::
  "'x copy_client \<Rightarrow> string \<Rightarrow> string \<Rightarrow> headers \<Rightarrow> string \<Rightarrow> string \<Rightarrow> nat \<Rightarrow> ('x, public_http_result option) comp" where
  "send_once C method path headers body operation attempt =
    tryExcept is_public_error (cl_transport C method (BINANCE_WEB_BASE @ path) headers body)
      (\<lambda>e. if e = public_error ''COPY_PUBLIC_TRANSPORT_FAILED'' \<and> attempts_left C attempt
        then retry_continue C attempt else raise e)
      (\<lambda>result.
        if hr_status result \<in> {202, 401, 403} then raise (public_error (operation @ ''_ACCESS_DENIED''))
        else if (hr_status result = 429 \<or> 500 \<le> hr_status result) \<and> attempts_left C attempt then retry_continue C attempt
        else ret (Some result))"

definition accepted :: "document \<Rightarrow> bool" where
  "accepted response \<longleftrightarrow> doc_get response ''success'' = JBool True \<and> doc_get response ''code'' = JStr ''000000''"

definition json_object_text :: "document \<Rightarrow> string" where
  "json_object_text d = ''{'' @ join '','' (map (\<lambda>(k, v). json_string True k @ '':'' @ json_dumps True v) d) @ ''}''"

definition post_answer :: "'x copy_client \<Rightarrow> string \<Rightarrow> nat \<Rightarrow> public_http_result \<Rightarrow> ('x, document option) comp" where
  "post_answer C operation attempt result = (case cl_loads C (hr_body result) of
     None \<Rightarrow> raise (public_error (operation @ ''_INVALID_JSON''))
   | Some response \<Rightarrow>
     if \<not> (200 \<le> hr_status result \<and> hr_status result < 300)
     then raise (public_error (operation @ ''_HTTP_'' @ show_int (hr_status result)))
     else (case response of JObj d \<Rightarrow>
         if \<not> accepted d then (if attempts_left C attempt then retry_continue C attempt
           else raise (public_error (operation @ ''_API_REJECTED'')))
         else (case doc_get d ''data'' of JObj data \<Rightarrow> ret (Some data)
           | _ \<Rightarrow> raise (public_error (operation @ ''_INVALID_RESPONSE'')))
       | _ \<Rightarrow> raise (public_error (operation @ ''_INVALID_RESPONSE''))))"

definition post_once :: "'x copy_client \<Rightarrow> string \<Rightarrow> document \<Rightarrow> string \<Rightarrow> nat \<Rightarrow> ('x, document option) comp" where
  "post_once C path document operation attempt =
    andThen (send_once C ''POST'' path post_headers (json_object_text document) operation attempt) (\<lambda>sent. case sent of
      None \<Rightarrow> ret None | Some result \<Rightarrow> post_answer C operation attempt result)"

definition UNREACHABLE_RETRY :: exn where
  "UNREACHABLE_RETRY = AssertionError ''unreachable public copy retry state''"

definition post :: "'x copy_client \<Rightarrow> string \<Rightarrow> document \<Rightarrow> string \<Rightarrow> ('x, document) comp" where
  "post C path document operation =
    for_attempts (post_once C path document operation) UNREACHABLE_RETRY 0 (nat (cl_retry_attempts C))"

definition get_result :: "'x copy_client \<Rightarrow> string \<Rightarrow> string \<Rightarrow> ('x, public_http_result) comp" where
  "get_result C path operation =
    for_attempts (send_once C ''GET'' path get_headers [] operation) UNREACHABLE_RETRY 0 (nat (cl_retry_attempts C))"

section \<open>One leader\<close>

definition leader_missing :: "string \<Rightarrow> availability" where
  "leader_missing leader = \<lparr>la_lead_portfolio_id = leader, la_state = ''MISSING'', la_source_status = ''NOT_FOUND'', la_nickname = None\<rparr>"

definition availability_of :: "string \<Rightarrow> document \<Rightarrow> availability result" where
  "availability_of leader data =
    (let invalid = Inl (public_error ''COPY_LEADER_DETAIL_IDENTITY_INVALID'') in
     if doc_get data ''leadPortfolioId'' \<noteq> JStr leader then invalid
     else (case (doc_get data ''status'', doc_get data ''nickname'') of (JStr status, JStr nickname) \<Rightarrow>
         if py_strip nickname = [] then invalid
         else rbind (if status = ''ACTIVE'' then Inr ''AVAILABLE''
             else if status \<in> {''CLOSING'', ''CLOSED''} then Inr ''MISSING''
             else Inl (public_error ''COPY_LEADER_DETAIL_STATUS_UNKNOWN'')) (\<lambda>state.
           Inr \<lparr>la_lead_portfolio_id = leader, la_state = state, la_source_status = status, la_nickname = Some (py_strip nickname)\<rparr>)
       | _ \<Rightarrow> invalid))"

definition availability_answer :: "string \<Rightarrow> int \<Rightarrow> json option \<Rightarrow> availability result" where
  "availability_answer leader status body = (case body of
     None \<Rightarrow> Inl (public_error ''COPY_LEADER_DETAIL_INVALID_JSON'')
   | Some (JObj response) \<Rightarrow>
     if status = 400 then
       (if doc_get response ''success'' = JBool False \<and> doc_get response ''code'' = JStr ''000002''
           \<and> doc_get response ''message'' = JStr ''illegal parameter'' \<and> doc_get response ''data'' = JNull
        then Inr (leader_missing leader) else Inl (public_error ''COPY_LEADER_DETAIL_HTTP_400''))
     else if \<not> (200 \<le> status \<and> status < 300) then Inl (public_error (''COPY_LEADER_DETAIL_HTTP_'' @ show_int status))
     else if \<not> accepted response then Inl (public_error ''COPY_LEADER_DETAIL_API_REJECTED'')
     else (case doc_get response ''data'' of JObj data \<Rightarrow> availability_of leader data
       | _ \<Rightarrow> Inl (public_error ''COPY_LEADER_DETAIL_INVALID_RESPONSE''))
   | Some _ \<Rightarrow> Inl (public_error ''COPY_LEADER_DETAIL_INVALID_RESPONSE''))"

definition LEADER_ID_INVALID :: exn where
  "LEADER_ID_INVALID = ValueError ''copy leader portfolio ID is invalid''"

definition leader_availability :: "'x copy_client \<Rightarrow> string \<Rightarrow> ('x, availability) comp" where
  "leader_availability C leader =
    (if \<not> leader_id_ok leader then raise LEADER_ID_INVALID
     else andThen (get_result C (LEADER_DETAIL_PATH @ ''?portfolioId='' @ leader) ''COPY_LEADER_DETAIL'') (\<lambda>result.
       lift (availability_answer leader (hr_status result) (cl_loads C (hr_body result)))))"

section \<open>The directory\<close>

definition require_mapping :: "json \<Rightarrow> document result" where
  "require_mapping v = (case v of JObj d \<Rightarrow> Inr d | _ \<Rightarrow> Inl (PublicCopyDataError ''COPY_ROW_INVALID''))"

text \<open>\<open>isinstance(total, int) and total >= 0\<close>: a JSON boolean is an \<open>int\<close> in Python.\<close>

definition json_total :: "json \<Rightarrow> int option" where
  "json_total v = (case v of JInt i \<Rightarrow> if i < 0 then None else Some i
     | JBool b \<Rightarrow> Some (if b then 1 else 0) | _ \<Rightarrow> None)"

definition rows_and_total :: "string \<Rightarrow> document \<Rightarrow> (json list \<times> int) result" where
  "rows_and_total error data = (case (doc_get data ''list'', json_total (doc_get data ''total'')) of
     (JArr rows, Some n) \<Rightarrow> Inr (rows, n) | _ \<Rightarrow> Inl (public_error error))"

definition leader_rows :: "'x copy_client \<Rightarrow> int \<Rightarrow> int \<Rightarrow> string \<Rightarrow> string \<Rightarrow> ('x, json list \<times> int) comp" where
  "leader_rows C page_number page_size time_range data_type =
    andThen (post C LEADER_LIST_PATH
        [(''pageNumber'', JInt page_number), (''pageSize'', JInt page_size), (''timeRange'', JStr time_range),
         (''dataType'', JStr data_type), (''favoriteOnly'', JBool False), (''hideFull'', JBool False)]
        ''COPY_LEADER_LIST'')
      (\<lambda>data. lift (rows_and_total ''COPY_LEADER_LIST_INVALID_RESPONSE'' data))"

text \<open>\<open>str(row.get("leadPortfolioId"))\<close>; the text of a list or an object starts with a bracket and is no
  identifier, which \<open>None\<close> stands for.\<close>

definition id_text :: "json \<Rightarrow> string option" where
  "id_text v = (case v of JStr s \<Rightarrow> Some s | JInt i \<Rightarrow> Some (show_int i) | JFloat r \<Rightarrow> Some r
     | JBool b \<Rightarrow> Some (if b then ''True'' else ''False'') | JNull \<Rightarrow> Some ''None'' | _ \<Rightarrow> None)"

definition invalid_row_id :: "json \<Rightarrow> string list" where
  "invalid_row_id row = (case row of JObj d \<Rightarrow>
       (case id_text (doc_get d ''leadPortfolioId'') of Some s \<Rightarrow> if leader_id_ok s then [s] else [] | None \<Rightarrow> [])
     | _ \<Rightarrow> [])"

definition leader_of_row :: "json \<Rightarrow> leader_snapshot result" where
  "leader_of_row row = rbind (require_mapping row) leader_snapshot_from_api"

fun page_rows :: "bool \<Rightarrow> json list \<Rightarrow> (leader_snapshot list \<times> string list \<times> string list) result" where
  "page_rows skip [] = Inr ([], [], [])"
| "page_rows skip (row # rows) = (case leader_of_row row of
     Inr leader \<Rightarrow> rbind (page_rows skip rows) (\<lambda>(leaders, reasons, ids). Inr (leader # leaders, reasons, ids))
   | Inl (PublicCopyDataError m) \<Rightarrow>
       if \<not> skip then Inl (BinancePublicCopyError m)
       else rbind (page_rows skip rows) (\<lambda>(leaders, reasons, ids). Inr (leaders, m # reasons, invalid_row_id row @ ids))
   | Inl e \<Rightarrow> Inl e)"

definition leader_page_of :: "bool \<Rightarrow> json list \<Rightarrow> int \<Rightarrow> leader_page result" where
  "leader_page_of skip rows row_total = rbind (page_rows skip rows) (\<lambda>(leaders, reasons, ids).
     Inr \<lparr>lp_leaders = leaders, lp_total = row_total, lp_invalid_row_count = int (length reasons),
       lp_invalid_reason_codes = sorted_set reasons, lp_invalid_leader_ids = sorted_set ids\<rparr>)"

definition list_leaders :: "'x copy_client \<Rightarrow> int \<Rightarrow> int \<Rightarrow> string \<Rightarrow> string \<Rightarrow> bool \<Rightarrow> ('x, leader_page) comp" where
  "list_leaders C page_number page_size time_range data_type skip_invalid_rows =
    andThen (lift (require (1 \<le> page_number \<and> page_number \<le> 10000 \<and> 1 \<le> page_size \<and> page_size \<le> 100)
      (ValueError ''copy leader page is outside the supported range''))) (\<lambda>_.
    andThen (lift (require (time_range \<in> {''7D'', ''30D'', ''90D''})
      (ValueError ''copy leader time range is unsupported''))) (\<lambda>_.
    andThen (lift (require (data_type \<in> {''ROI'', ''PNL'', ''AUM'', ''MDD'', ''WIN_RATE''})
      (ValueError ''copy leader ranking type is unsupported''))) (\<lambda>_.
    andThen (leader_rows C page_number page_size time_range data_type) (\<lambda>(rows, row_total).
    lift (leader_page_of skip_invalid_rows rows row_total)))))"

record directory =
  dr_leaders :: "(string, leader_snapshot) dict"
  dr_invalid_count :: int
  dr_invalid_reasons :: "string list"
  dr_invalid_leader_ids :: "string list"
  dr_raw_rows_seen :: int
  dr_latest_total :: int

definition put_leaders :: "leader_snapshot list \<Rightarrow> (string, leader_snapshot) dict \<Rightarrow> (string, leader_snapshot) dict" where
  "put_leaders leaders d = fold (\<lambda>l. AList.update (ls_lead_portfolio_id l) l) leaders d"

definition raw_rows :: "leader_page \<Rightarrow> int" where
  "raw_rows p = int (length (lp_leaders p)) + lp_invalid_row_count p"

definition required_pages_of :: "int \<Rightarrow> int \<Rightarrow> int" where
  "required_pages_of row_total raw_page_size = (if row_total = 0 then 0 else (row_total + raw_page_size - 1) div raw_page_size)"

definition DIRECTORY_INCOMPLETE :: exn where
  "DIRECTORY_INCOMPLETE = BinancePublicCopyError ''COPY_LEADER_DIRECTORY_INCOMPLETE''"

definition DIRECTORY_PAGE_LIMIT :: exn where
  "DIRECTORY_PAGE_LIMIT = BinancePublicCopyError ''COPY_LEADER_DIRECTORY_PAGE_LIMIT''"

definition first_directory :: "leader_page \<Rightarrow> directory" where
  "first_directory p = \<lparr>dr_leaders = put_leaders (lp_leaders p) [], dr_invalid_count = lp_invalid_row_count p,
     dr_invalid_reasons = lp_invalid_reason_codes p, dr_invalid_leader_ids = lp_invalid_leader_ids p,
     dr_raw_rows_seen = raw_rows p, dr_latest_total = lp_total p\<rparr>"

definition add_page :: "leader_page \<Rightarrow> directory \<Rightarrow> directory" where
  "add_page p d = \<lparr>dr_leaders = put_leaders (lp_leaders p) (dr_leaders d),
     dr_invalid_count = dr_invalid_count d + lp_invalid_row_count p,
     dr_invalid_reasons = dr_invalid_reasons d @ lp_invalid_reason_codes p,
     dr_invalid_leader_ids = dr_invalid_leader_ids d @ lp_invalid_leader_ids p,
     dr_raw_rows_seen = dr_raw_rows_seen d + raw_rows p, dr_latest_total = lp_total p\<rparr>"

text \<open>
  \<open>while page_number <= required_pages\<close>: the number of required pages follows the latest total and may
  grow, so the loop ends because it is compared with the limit on every page.
\<close>

function directory_loop ::
  "'x copy_client \<Rightarrow> string \<Rightarrow> string \<Rightarrow> int \<Rightarrow> int \<Rightarrow> directory \<Rightarrow> int \<Rightarrow> int \<Rightarrow> ('x, directory) comp" where
  "directory_loop C time_range data_type maximum_pages raw_page_size d page_number required_pages =
    (if required_pages < page_number then ret d
     else andThen (list_leaders C page_number 100 time_range data_type True) (\<lambda>page.
       if raw_rows page = 0 then
         (if lp_total page \<le> dr_raw_rows_seen d then ret (d\<lparr>dr_latest_total := lp_total page\<rparr>)
          else raise DIRECTORY_INCOMPLETE)
       else if maximum_pages < required_pages_of (lp_total page) raw_page_size then raise DIRECTORY_PAGE_LIMIT
       else directory_loop C time_range data_type maximum_pages raw_page_size (add_page page d)
         (page_number + 1) (required_pages_of (lp_total page) raw_page_size)))"
  by pat_completeness auto
termination
  by (relation "measure (\<lambda>(C, time_range, data_type, maximum_pages, raw_page_size, d, page_number, required_pages).
        nat (max required_pages maximum_pages + 1 - page_number))") auto

declare directory_loop.simps [simp del]

definition directory_page :: "directory \<Rightarrow> leader_page result" where
  "directory_page d =
    rbind (require (\<not> dr_raw_rows_seen d < dr_latest_total d) DIRECTORY_INCOMPLETE) (\<lambda>_.
    Inr \<lparr>lp_leaders = map snd (dr_leaders d), lp_total = dr_latest_total d, lp_invalid_row_count = dr_invalid_count d,
      lp_invalid_reason_codes = sorted_set (dr_invalid_reasons d),
      lp_invalid_leader_ids = sorted_set (dr_invalid_leader_ids d)\<rparr>)"

definition list_all_leaders_snapshot :: "'x copy_client \<Rightarrow> string \<Rightarrow> string \<Rightarrow> int \<Rightarrow> ('x, leader_page) comp" where
  "list_all_leaders_snapshot C time_range data_type maximum_pages =
    andThen (list_leaders C 1 100 time_range data_type True) (\<lambda>first.
    let raw_page_size = raw_rows first; required_pages = required_pages_of (lp_total first) raw_page_size in
    if 0 < lp_total first \<and> raw_page_size = 0 then raise DIRECTORY_INCOMPLETE
    else if maximum_pages < required_pages then raise DIRECTORY_PAGE_LIMIT
    else andThen (directory_loop C time_range data_type maximum_pages raw_page_size (first_directory first) 2 required_pages)
      (\<lambda>d. lift (directory_page d)))"

text \<open>Both catch-up reads repeat the whole snapshot while one reason code may still go away.\<close>

definition snapshot_once :: "'x copy_client \<Rightarrow> exn \<Rightarrow> ('x, 'a) comp \<Rightarrow> nat \<Rightarrow> ('x, 'a option) comp" where
  "snapshot_once C retryable m attempt =
    tryExcept is_public_error m
      (\<lambda>e. if e \<noteq> retryable \<or> \<not> attempts_left C attempt then raise e else retry_continue C attempt)
      (\<lambda>a. ret (Some a))"

definition list_all_leaders :: "'x copy_client \<Rightarrow> string \<Rightarrow> string \<Rightarrow> int \<Rightarrow> ('x, leader_page) comp" where
  "list_all_leaders C time_range data_type maximum_pages =
    andThen (lift (require (1 \<le> maximum_pages \<and> maximum_pages \<le> 1000)
      (ValueError ''copy leader directory page limit is invalid''))) (\<lambda>_.
    for_attempts (snapshot_once C DIRECTORY_INCOMPLETE (list_all_leaders_snapshot C time_range data_type maximum_pages))
      (AssertionError ''unreachable public directory retry state'') 0 (nat (cl_retry_attempts C)))"

definition LOOKUP_RANGE_INVALID :: exn where
  "LOOKUP_RANGE_INVALID = ValueError ''copy leader lookup range is invalid''"

fun leader_with_id :: "json list \<Rightarrow> string \<Rightarrow> leader_snapshot option result" where
  "leader_with_id [] leader = Inr None"
| "leader_with_id (row # rows) leader =
    (if (case row of JObj d \<Rightarrow> id_text (doc_get d ''leadPortfolioId'') \<noteq> Some leader | _ \<Rightarrow> True)
     then leader_with_id rows leader
     else (case leader_of_row row of Inr l \<Rightarrow> Inr (Some l)
       | Inl (PublicCopyDataError m) \<Rightarrow> Inl (public_error ''COPY_LEADER_LOOKUP_INVALID'') | Inl e \<Rightarrow> Inl e))"

text \<open>The first pages of the complementary rankings; a failed read is skipped.\<close>

fun find_fast :: "'x copy_client \<Rightarrow> string \<Rightarrow> string \<Rightarrow> string list \<Rightarrow> ('x, leader_snapshot option) comp" where
  "find_fast C leader time_range [] = ret None"
| "find_fast C leader time_range (data_type # rest) =
    tryExcept is_public_error (leader_rows C 1 100 time_range data_type)
      (\<lambda>_. find_fast C leader time_range rest)
      (\<lambda>(rows, _). andThen (lift (leader_with_id rows leader)) (\<lambda>found. case found of
          Some l \<Rightarrow> ret (Some l) | None \<Rightarrow> find_fast C leader time_range rest))"

fun find_pages :: "'x copy_client \<Rightarrow> string \<Rightarrow> string \<Rightarrow> int list \<Rightarrow> ('x, leader_snapshot) comp" where
  "find_pages C leader time_range [] = raise (public_error ''COPY_LEADER_LOOKUP_NOT_FOUND'')"
| "find_pages C leader time_range (page_number # rest) =
    andThen (leader_rows C page_number 100 time_range ''ROI'') (\<lambda>(rows, row_total).
    andThen (lift (leader_with_id rows leader)) (\<lambda>found. case found of
        Some l \<Rightarrow> ret l
      | None \<Rightarrow> if row_total \<le> page_number * 100 then raise (public_error ''COPY_LEADER_LOOKUP_NOT_FOUND'')
          else find_pages C leader time_range rest))"

definition find_leader :: "'x copy_client \<Rightarrow> string \<Rightarrow> string \<Rightarrow> int \<Rightarrow> ('x, leader_snapshot) comp" where
  "find_leader C leader time_range maximum_pages =
    (if \<not> leader_id_ok leader then raise LEADER_ID_INVALID
     else if time_range \<notin> {''7D'', ''30D'', ''90D''} \<or> \<not> (1 \<le> maximum_pages \<and> maximum_pages \<le> 100)
     then raise LOOKUP_RANGE_INVALID
     else andThen (find_fast C leader time_range FAST_LEADER_LOOKUP_RANKINGS) (\<lambda>found. case found of
         Some l \<Rightarrow> ret l | None \<Rightarrow> find_pages C leader time_range [1..maximum_pages]))"

text \<open>The search by nickname: exact and partial matches and the identifiers seen. The case folding of
  text, a table of the Unicode standard, is an argument.\<close>

record leader_matches =
  lm_exact :: "leader_snapshot list"
  lm_partial :: "leader_snapshot list"
  lm_seen :: "string list"

definition match_row :: "(string \<Rightarrow> string) \<Rightarrow> string \<Rightarrow> json \<Rightarrow> leader_matches \<Rightarrow> leader_matches result" where
  "match_row casefold query row acc = (case row of JObj d \<Rightarrow>
       (case (doc_get d ''nickname'', doc_get d ''leadPortfolioId'') of (JStr nickname, JStr leader) \<Rightarrow>
          if leader \<in> set (lm_seen acc) \<or> \<not> contains_text query (casefold nickname) then Inr acc
          else (case leader_of_row row of Inl (PublicCopyDataError _) \<Rightarrow> Inr acc | Inl e \<Rightarrow> Inl e
            | Inr l \<Rightarrow> let acc' = acc\<lparr>lm_seen := lm_seen acc @ [leader]\<rparr> in
                Inr (if casefold nickname = query then acc'\<lparr>lm_exact := lm_exact acc @ [l]\<rparr>
                  else acc'\<lparr>lm_partial := lm_partial acc @ [l]\<rparr>))
        | _ \<Rightarrow> Inr acc)
     | _ \<Rightarrow> Inr acc)"

fun match_rows :: "(string \<Rightarrow> string) \<Rightarrow> string \<Rightarrow> json list \<Rightarrow> leader_matches \<Rightarrow> leader_matches result" where
  "match_rows casefold query [] acc = Inr acc"
| "match_rows casefold query (row # rows) acc =
    rbind (match_row casefold query row acc) (\<lambda>acc'. match_rows casefold query rows acc')"

fun search_pages ::
  "'x copy_client \<Rightarrow> (string \<Rightarrow> string) \<Rightarrow> string \<Rightarrow> string \<Rightarrow> int list \<Rightarrow> leader_matches \<Rightarrow> ('x, leader_matches) comp" where
  "search_pages C casefold query time_range [] acc = ret acc"
| "search_pages C casefold query time_range (page_number # rest) acc =
    andThen (leader_rows C page_number 100 time_range ''ROI'') (\<lambda>(rows, row_total).
    andThen (lift (match_rows casefold query rows acc)) (\<lambda>acc'.
    if row_total \<le> page_number * 100 then ret acc' else search_pages C casefold query time_range rest acc'))"

definition search_leaders ::
  "'x copy_client \<Rightarrow> (string \<Rightarrow> string) \<Rightarrow> string \<Rightarrow> string \<Rightarrow> int \<Rightarrow> int \<Rightarrow> ('x, leader_snapshot list) comp" where
  "search_leaders C casefold nickname_query time_range maximum_results maximum_pages =
    (let query = casefold (py_strip nickname_query) in
     if \<not> (2 \<le> length query \<and> length query \<le> 80) \<or> CHR 0x0A \<in> set query \<or> CHR 0x0D \<in> set query
     then raise (ValueError ''copy leader nickname query is invalid'')
     else if time_range \<notin> {''7D'', ''30D'', ''90D''} then raise LOOKUP_RANGE_INVALID
     else if \<not> (1 \<le> maximum_results \<and> maximum_results \<le> 12) \<or> \<not> (1 \<le> maximum_pages \<and> maximum_pages \<le> 100)
     then raise (ValueError ''copy leader lookup limit is invalid'')
     else andThen (search_pages C casefold query time_range [1..maximum_pages] \<lparr>lm_exact = [], lm_partial = [], lm_seen = []\<rparr>)
       (\<lambda>found. ret (take (nat maximum_results) (lm_exact found @ lm_partial found))))"

section \<open>Order history\<close>

definition deduplicate_exact_order_events :: "public_leader_order list \<Rightarrow> public_leader_order list" where
  "deduplicate_exact_order_events orders = map snd (fold (\<lambda>o0. dict_setdefault (po_event_key o0) o0) orders [])"

definition group_indexes :: "public_leader_order list \<Rightarrow> (string, nat list) dict" where
  "group_indexes orders = fold (\<lambda>(i, o0) grouped.
     AList.update (po_identity_key o0) (dict_get grouped (po_identity_key o0) [] @ [i]) grouped) (enumerate 0 orders) []"

text \<open>A group of rows that provably are distinct orders: a ladder of limit orders at distinct prices, or
  market orders at distinct prices of one instant. Prices compare as numbers.\<close>

definition provably_distinct :: "public_leader_order list \<Rightarrow> bool" where
  "provably_distinct orders \<longleftrightarrow>
    (let prices_are_unique = distinct (map (\<lambda>o0. dval (po_average_price o0)) orders);
         order_types = set (map po_order_type orders); update_times = remdups (map po_update_time_ms orders) in
     (order_types = {''LIMIT''} \<and> prices_are_unique)
     \<or> (order_types = {''MARKET''} \<and> length update_times = 1 \<and> prices_are_unique))"

definition batch_discriminator :: "public_leader_order \<Rightarrow> string" where
  "batch_discriminator o0 = po_order_type o0 @ ''_BATCH_AVG_PRICE:'' @ dstr (po_average_price o0)"

fun relabel :: "public_leader_order list \<Rightarrow> nat list \<Rightarrow> public_leader_order list \<Rightarrow> public_leader_order list result" where
  "relabel orders [] resolved = Inr resolved"
| "relabel orders (i # is) resolved =
    rbind (with_identity_discriminator (orders ! i) (batch_discriminator (orders ! i))) (\<lambda>o1.
    relabel orders is (resolved[i := o1]))"

fun relabel_groups ::
  "public_leader_order list \<Rightarrow> nat list list \<Rightarrow> public_leader_order list \<Rightarrow> public_leader_order list result" where
  "relabel_groups orders [] resolved = Inr resolved"
| "relabel_groups orders (indexes # groups) resolved =
    (if length indexes < 2 \<or> \<not> provably_distinct (map ((!) orders) indexes)
     then relabel_groups orders groups resolved
     else rbind (relabel orders indexes resolved) (\<lambda>resolved'. relabel_groups orders groups resolved'))"

definition disambiguate_same_timestamp_batch_orders :: "public_leader_order list \<Rightarrow> public_leader_order list result" where
  "disambiguate_same_timestamp_batch_orders orders = relabel_groups orders (map snd (group_indexes orders)) orders"

definition guarded_orders :: "int option \<Rightarrow> public_leader_order list \<Rightarrow> public_leader_order list" where
  "guarded_orders identity_guard_after_ms orders = (case identity_guard_after_ms of None \<Rightarrow> orders
     | Some t \<Rightarrow> filter (\<lambda>o0. t \<le> po_update_time_ms o0) orders)"

definition IDENTITY_AMBIGUOUS :: exn where
  "IDENTITY_AMBIGUOUS = BinancePublicCopyError ''COPY_ORDER_IDENTITY_AMBIGUOUS''"

definition order_page_of :: "string \<Rightarrow> int option \<Rightarrow> json list \<Rightarrow> int \<Rightarrow> order_history_page result" where
  "order_page_of leader identity_guard_after_ms rows row_total =
    rbind (as_public_error (rmap (\<lambda>row. rbind (require_mapping row) (order_from_api leader)) rows)) (\<lambda>parsed_orders.
    rbind (disambiguate_same_timestamp_batch_orders (deduplicate_exact_order_events parsed_orders)) (\<lambda>orders.
    rbind (require (distinct (map po_identity_key (guarded_orders identity_guard_after_ms orders))) IDENTITY_AMBIGUOUS) (\<lambda>_.
    Inr \<lparr>hp_orders = orders, hp_total = row_total\<rparr>)))"

definition history_request :: "int \<Rightarrow> int \<Rightarrow> string \<Rightarrow> document" where
  "history_request page_number page_size leader =
    [(''pageNumber'', JInt page_number), (''pageSize'', JInt page_size), (''portfolioId'', JStr leader)]"

definition read_order_history_page ::
  "'x copy_client \<Rightarrow> string \<Rightarrow> int \<Rightarrow> int \<Rightarrow> int option \<Rightarrow> ('x, order_history_page) comp" where
  "read_order_history_page C leader page_number page_size identity_guard_after_ms =
    andThen (lift (require (1 \<le> page_number \<and> page_number \<le> 10000 \<and> 1 \<le> page_size \<and> page_size \<le> 100)
      (ValueError ''copy order-history page is outside the supported range''))) (\<lambda>_.
    andThen (post C ORDER_HISTORY_PATH (history_request page_number page_size leader) ''COPY_ORDER_HISTORY'') (\<lambda>data.
    andThen (lift (rows_and_total ''COPY_ORDER_HISTORY_INVALID_RESPONSE'' data)) (\<lambda>(rows, row_total).
    lift (order_page_of leader identity_guard_after_ms rows row_total))))"

definition order_history :: "'x copy_client \<Rightarrow> string \<Rightarrow> int \<Rightarrow> int \<Rightarrow> ('x, order_history_page) comp" where
  "order_history C leader page_number page_size = read_order_history_page C leader page_number page_size None"

definition order_history_baseline :: "'x copy_client \<Rightarrow> string \<Rightarrow> int \<Rightarrow> int \<Rightarrow> ('x, order_history_page) comp" where
  "order_history_baseline C leader identity_guard_after_ms page_size =
    (if identity_guard_after_ms \<le> 0 then raise (ValueError ''copy order-history baseline fence is invalid'')
     else read_order_history_page C leader 1 page_size (Some identity_guard_after_ms))"

section \<open>Catching up with the order history\<close>

definition WATERMARK_NOT_COVERED :: exn where
  "WATERMARK_NOT_COVERED = BinancePublicCopyError ''COPY_ORDER_HISTORY_WATERMARK_NOT_COVERED''"

definition merge_orders :: "public_leader_order list \<Rightarrow> (string, public_leader_order) dict \<Rightarrow> (string, public_leader_order) dict" where
  "merge_orders orders merged = fold (\<lambda>o0. dict_setdefault (po_event_key o0) o0) orders merged"

text \<open>The loop over the pages: the rows merged so far and the total of the first page, once the watermark
  is covered.\<close>

fun since_pages ::
  "'x copy_client \<Rightarrow> string \<Rightarrow> int \<Rightarrow> int \<Rightarrow> int list \<Rightarrow> (string, public_leader_order) dict \<Rightarrow> int
     \<Rightarrow> ('x, (string, public_leader_order) dict \<times> int) comp" where
  "since_pages C leader after page_size [] merged first_total = raise WATERMARK_NOT_COVERED"
| "since_pages C leader after page_size (page_number # rest) merged first_total =
    andThen (read_order_history_page C leader page_number page_size (Some after)) (\<lambda>page.
    let first_total' = (if page_number = 1 then hp_total page else first_total);
        merged' = merge_orders (hp_orders page) merged in
    if page_number = 1 \<and> hp_orders page = [] then raise WATERMARK_NOT_COVERED
    else if \<exists>o0 \<in> set (hp_orders page). po_update_time_ms o0 \<le> after then ret (merged', first_total')
    else if int (length (hp_orders page)) < page_size then raise WATERMARK_NOT_COVERED
    else since_pages C leader after page_size rest merged' first_total')"

definition order_history_since_snapshot ::
  "'x copy_client \<Rightarrow> string \<Rightarrow> int \<Rightarrow> int \<Rightarrow> int \<Rightarrow> ('x, order_history_page) comp" where
  "order_history_since_snapshot C leader after page_size maximum_pages =
    andThen (since_pages C leader after page_size [1..maximum_pages] [] 0) (\<lambda>(merged, first_total).
    ret \<lparr>hp_orders = sort_key (\<lambda>o0. (po_update_time_ms o0, po_event_key o0))
        (filter (\<lambda>o0. after \<le> po_update_time_ms o0) (map snd merged)), hp_total = first_total\<rparr>)"

definition order_history_since ::
  "'x copy_client \<Rightarrow> string \<Rightarrow> int \<Rightarrow> int \<Rightarrow> int \<Rightarrow> ('x, order_history_page) comp" where
  "order_history_since C leader after page_size maximum_pages =
    (if after \<le> 0 then raise (ValueError ''copy order-history watermark is invalid'')
     else if \<not> (1 \<le> page_size \<and> page_size \<le> 100) \<or> \<not> (1 \<le> maximum_pages \<and> maximum_pages \<le> 20)
     then raise (ValueError ''copy order-history catch-up limit is invalid'')
     else for_attempts (snapshot_once C IDENTITY_AMBIGUOUS (order_history_since_snapshot C leader after page_size maximum_pages))
       (AssertionError ''unreachable public history retry state'') 0 (nat (cl_retry_attempts C)))"

section \<open>Position history\<close>

definition position_quantity :: "json \<Rightarrow> string \<Rightarrow> bool \<Rightarrow> decimal result" where
  "position_quantity v field allow_zero =
    (let invalid = PublicCopyDataError (''COPY_POSITION_HISTORY_'' @ py_upper field @ ''_INVALID'') in
     case json_decimal v of Finite q \<Rightarrow> if q < 0 \<or> deq q 0 \<and> \<not> allow_zero then Inl invalid else Inr q
     | _ \<Rightarrow> Inl invalid)"

text \<open>\<open>v in {...}\<close> on a set of texts: a list or an object is not hashable.\<close>

definition ROW_INVALID :: exn where
  "ROW_INVALID = PublicCopyDataError ''COPY_POSITION_HISTORY_ROW_INVALID''"

definition int_from :: "json \<Rightarrow> int \<Rightarrow> int result" where
  "int_from v lower = (case v of JInt i \<Rightarrow> if i < lower then Inl ROW_INVALID else Inr i | _ \<Rightarrow> Inl ROW_INVALID)"

definition position_from_row :: "json \<Rightarrow> closed_leader_position result" where
  "position_from_row v =
    rbind (require_mapping v) (\<lambda>row.
    rbind (case doc_get row ''symbol'' of JStr s \<Rightarrow> if symbol_ok s then Inr s else Inl ROW_INVALID | _ \<Rightarrow> Inl ROW_INVALID) (\<lambda>symbol.
    rbind (in_texts (doc_get row ''side'') {''Long'', ''Short''}) (\<lambda>known_side.
    rbind (require known_side ROW_INVALID) (\<lambda>_.
    rbind (int_from (doc_get row ''opened'') 1) (\<lambda>opened.
    let open_interval = (doc_get row ''closed'' = JNull) in
    rbind (if open_interval
        then rbind (in_texts (doc_get row ''status'') {''Open'', ''Partially Closed''}) (\<lambda>known_status.
          rbind (require known_status ROW_INVALID) (\<lambda>_.
          rbind (int_from (doc_get row ''updateTime'') opened) (\<lambda>update_time. Inr (None, Some update_time))))
        else rbind (int_from (doc_get row ''closed'') opened) (\<lambda>closed. Inr (Some closed, None))) (\<lambda>(closed, updated).
    rbind (position_quantity (doc_get row ''maxOpenInterest'') ''maxOpenInterest'' False) (\<lambda>maximum_open.
    rbind (position_quantity (doc_get row ''closedVolume'') ''closedVolume'' open_interval) (\<lambda>closed_quantity.
    Inr \<lparr>cp_symbol = symbol, cp_position_side = (if doc_get row ''side'' = JStr ''Long'' then SRC_LONG else SRC_SHORT),
      cp_opened_at_ms = opened, cp_closed_at_ms = closed, cp_maximum_open_quantity = maximum_open,
      cp_closed_quantity = closed_quantity, cp_evidence_updated_at_ms = updated\<rparr>))))))))"

definition position_history :: "'x copy_client \<Rightarrow> string \<Rightarrow> int \<Rightarrow> int \<Rightarrow> ('x, position_history_page) comp" where
  "position_history C leader page_number page_size =
    (if \<not> leader_id_ok leader then raise LEADER_ID_INVALID
     else andThen (lift (require (1 \<le> page_number \<and> page_number \<le> 10000 \<and> 1 \<le> page_size \<and> page_size \<le> 100)
       (ValueError ''copy position-history page is outside the supported range''))) (\<lambda>_.
     andThen (post C POSITION_HISTORY_PATH (history_request page_number page_size leader) ''COPY_POSITION_HISTORY'') (\<lambda>data.
     andThen (lift (rows_and_total ''COPY_POSITION_HISTORY_INVALID_RESPONSE'' data)) (\<lambda>(rows, row_total).
     andThen (lift (as_public_error (rmap position_from_row rows))) (\<lambda>positions.
     ret \<lparr>pp_positions = positions, pp_total = row_total\<rparr>)))))"

end
