(* ===== verification/Cycle.thy ===== *)
theory Cycle
  imports Runtime PublicClient
begin

text \<open>
  One polling cycle: \<open>CopyTradingRuntime.run_cycle\<close> of \<open>copy_trading/application.py\<close>. It enforces the stops of
  leaders and symbols, settles recoverable signals, polls every assigned leader and processes the new
  signals, and completes a flatten.

  The public data client and the further methods of the repository are services as in theory \<open>Runtime\<close>;
  \<open>binance_public\<close> provides the former by the client of theory \<open>PublicClient\<close>.
\<close>

section \<open>Services\<close>

text \<open>The baseline reader is optional, as the code looks it up by name.\<close>

record 'x public_client =
  pc_order_history_baseline :: "(string \<Rightarrow> int \<Rightarrow> int \<Rightarrow> ('x, order_history_page) op) option"
  pc_order_history :: "string \<Rightarrow> int \<Rightarrow> ('x, order_history_page) op"
  pc_order_history_since :: "string \<Rightarrow> int \<Rightarrow> int \<Rightarrow> int \<Rightarrow> ('x, order_history_page) op"
  pc_position_history :: "string \<Rightarrow> int \<Rightarrow> ('x, closed_leader_position list) op"

definition binance_public :: "'x copy_client \<Rightarrow> 'x public_client" where
  "binance_public C = \<lparr>
     pc_order_history_baseline = Some (\<lambda>leader fence_ms page_size _. order_history_baseline C leader fence_ms page_size),
     pc_order_history = (\<lambda>leader page_size _. order_history C leader 1 page_size),
     pc_order_history_since = (\<lambda>leader watermark page_size maximum_pages _. order_history_since C leader watermark page_size maximum_pages),
     pc_position_history = (\<lambda>leader page_size _. andThen (position_history C leader 1 page_size) (\<lambda>page. ret (pp_positions page)))\<rparr>"

record 'x cycle_services =
  cy_services :: "'x services"
  cy_public :: "'x public_client"
  cy_active_assignments :: "('x, leader_assignment list) op"
  cy_enforce_leader_symbol_stops :: "string \<Rightarrow> account_position_mark list \<Rightarrow> datetime \<Rightarrow> ('x, leader_symbol_stop list) op"
  cy_recoverable_leader_symbol_stop_signals :: "string \<Rightarrow> ('x, normalized_signal list) op"
  cy_ensure_control_reduction_signals :: "string \<Rightarrow> datetime \<Rightarrow> ('x, unit) op"
  cy_recoverable_signals :: "int \<Rightarrow> ('x, normalized_signal list) op"
  cy_source_watermark :: "string \<Rightarrow> ('x, int option) op"
  cy_source_orders_for_resolution :: "string \<Rightarrow> ('x, public_leader_order list) op"
  cy_ingest_orders :: "string \<Rightarrow> public_leader_order list \<Rightarrow> bool \<Rightarrow> datetime \<Rightarrow> ('x, normalized_signal list) op"
  cy_record_poll :: "string \<Rightarrow> string \<Rightarrow> nat \<Rightarrow> int option \<Rightarrow> string list \<Rightarrow> datetime \<Rightarrow> ('x, unit) op"
  cy_append_lifecycle :: "string \<Rightarrow> leader_lifecycle \<Rightarrow> datetime \<Rightarrow> string list \<Rightarrow> ('x, unit) op"
  cy_reconcile_pending_slot_replacements :: "datetime \<Rightarrow> ('x, int) op"
  cy_retire_drained_leaders :: "datetime \<Rightarrow> ('x, string list) op"

record poll_cycle_report =
  pr_leader_count :: nat
  pr_successful_polls :: nat
  pr_failed_polls :: nat
  pr_new_signal_count :: nat
  pr_processed_signal_count :: nat

section \<open>Stops and recovery\<close>

definition draining_assignment :: "string \<Rightarrow> string \<Rightarrow> leader_assignment" where
  "draining_assignment leader nickname = \<lparr>lg_lead_portfolio_id = leader, lg_nickname = nickname, lg_lifecycle = DRAINING,
     lg_source_aum_usdt = dec 1, lg_portfolio_weight = dec 0, lg_slot = None, lg_follow_multiplier = 1\<rparr>"

text \<open>\<open>by_leader.get(leader)\<close>: a later assignment of the same leader replaces an earlier one.\<close>

definition assignment_of :: "leader_assignment list \<Rightarrow> string \<Rightarrow> leader_assignment option" where
  "assignment_of assignments leader = map_of (rev (map (\<lambda>a. (lg_lead_portfolio_id a, a)) assignments)) leader"

definition assigned_or :: "leader_assignment list \<Rightarrow> string \<Rightarrow> string \<Rightarrow> leader_assignment" where
  "assigned_or assignments leader nickname = (case assignment_of assignments leader of
     Some a \<Rightarrow> a | None \<Rightarrow> draining_assignment leader nickname)"

definition VALUATION_MISSING :: exn where
  "VALUATION_MISSING = RuntimeError ''COPY_ACCOUNT_VALUATION_EVENT_MISSING''"

definition enforce_stops :: "'x environment \<Rightarrow> 'x cycle_services \<Rightarrow> string \<Rightarrow> ('x, leader_symbol_stop list) run" where
  "enforce_stops E Y valuation_event_id =
    andThen (reading rt_cycle_position_marks) (\<lambda>marks.
    andThen (runtime_clock E) (\<lambda>t. service (cy_enforce_leader_symbol_stops Y valuation_event_id marks t)))"

text \<open>The account is read first, because the stops are judged by its valuation.\<close>

definition first_stops :: "'x environment \<Rightarrow> runtime_config \<Rightarrow> 'x cycle_services \<Rightarrow> ('x, (string \<times> leader_symbol_stop list) option) run" where
  "first_stops E C Y =
    (if \<not> execution_enabled C then ret None
     else andThen (runtime_clock E) (\<lambda>t.
       andThen (logical_account_snapshot C (cy_services Y) t) (\<lambda>_.
       andThen (reading rt_cycle_valuation_event_id) (\<lambda>valuation. case valuation of
           None \<Rightarrow> raise VALUATION_MISSING
         | Some v \<Rightarrow> andThen (enforce_stops E Y v) (\<lambda>stops. ret (Some (v, stops)))))))"

text \<open>Cancelling the pending entries of each stop: the assignment used for a stop and the signals processed.\<close>

fun cancel_stops ::
  "'x environment \<Rightarrow> runtime_config \<Rightarrow> 'x cycle_services \<Rightarrow> leader_assignment list \<Rightarrow> leader_symbol_stop list
     \<Rightarrow> (string, leader_assignment) dict \<Rightarrow> string set \<Rightarrow> ('x, (string, leader_assignment) dict \<times> string set) run" where
  "cancel_stops E C Y assignments [] used settled = ret (used, settled)"
| "cancel_stops E C Y assignments (stop # stops) used settled =
    (let a = assigned_or assignments (st_lead_portfolio_id stop) (st_leader_nickname stop) in
     andThen (cancel_stopped_leader_symbol_entries E C (cy_services Y) stop a) (\<lambda>processed.
     cancel_stops E C Y assignments stops (AList.update (st_stop_event_id stop) a used) (settled \<union> processed)))"

text \<open>Signals not processed yet, one after the other; each one processed is remembered.\<close>

fun process_new ::
  "'x environment \<Rightarrow> runtime_config \<Rightarrow> 'x services \<Rightarrow> leader_assignment \<Rightarrow> normalized_signal list \<Rightarrow> string set \<Rightarrow> ('x, string set) run" where
  "process_new E C S a [] settled = ret settled"
| "process_new E C S a (s # ss) settled =
    (if sg_signal_id s \<in> settled then process_new E C S a ss settled
     else andThen (process_signal E C S s a) (\<lambda>_. process_new E C S a ss (insert (sg_signal_id s) settled)))"

fun close_stops ::
  "'x environment \<Rightarrow> runtime_config \<Rightarrow> 'x cycle_services \<Rightarrow> leader_assignment list \<Rightarrow> (string, leader_assignment) dict
     \<Rightarrow> leader_symbol_stop list \<Rightarrow> string set \<Rightarrow> ('x, string set) run" where
  "close_stops E C Y assignments used [] settled = ret settled"
| "close_stops E C Y assignments used (stop # stops) settled =
    (let a = (case map_of used (st_stop_event_id stop) of Some a \<Rightarrow> a
       | None \<Rightarrow> assigned_or assignments (st_lead_portfolio_id stop) (st_leader_nickname stop)) in
     andThen (service (cy_recoverable_leader_symbol_stop_signals Y (st_stop_event_id stop))) (\<lambda>signals.
     andThen (process_new E C (cy_services Y) a signals settled) (\<lambda>settled'.
     close_stops E C Y assignments used stops settled')))"

definition settle_stops ::
  "'x environment \<Rightarrow> runtime_config \<Rightarrow> 'x cycle_services \<Rightarrow> leader_assignment list \<Rightarrow> ('x, string set) run" where
  "settle_stops E C Y assignments =
    andThen (first_stops E C Y) (\<lambda>found. case found of None \<Rightarrow> ret {}
    | Some (valuation, stops) \<Rightarrow>
      andThen (cancel_stops E C Y assignments stops [] {}) (\<lambda>(used, settled).
      andThen (if stops = [] then ret [] else enforce_stops E Y valuation) (\<lambda>stops'.
      close_stops E C Y assignments used stops' settled)))"

definition count_processed :: "('x, unit) run" where
  "count_processed = changing (\<lambda>r. r\<lparr>rt_processed := rt_processed r + 1\<rparr>)"

fun recover_signals ::
  "'x environment \<Rightarrow> runtime_config \<Rightarrow> 'x services \<Rightarrow> leader_assignment list \<Rightarrow> string set \<Rightarrow> normalized_signal list \<Rightarrow> ('x, unit) run" where
  "recover_signals E C S assignments settled [] = ret ()"
| "recover_signals E C S assignments settled (s # ss) =
    (if sg_signal_id s \<in> settled then recover_signals E C S assignments settled ss
     else andThen (process_signal E C S s (assigned_or assignments (sg_lead_portfolio_id s) ''recovered-unassigned'')) (\<lambda>_.
       andThen count_processed (\<lambda>_. recover_signals E C S assignments settled ss)))"

section \<open>Polling a leader\<close>

definition is_both :: "public_leader_order \<Rightarrow> bool" where
  "is_both o0 \<longleftrightarrow> po_position_side o0 = SRC_BOTH"

definition read_baseline :: "'x cycle_services \<Rightarrow> string \<Rightarrow> int \<Rightarrow> ('x, order_history_page) run" where
  "read_baseline Y leader fence_ms = (case pc_order_history_baseline (cy_public Y) of
     Some baseline_reader \<Rightarrow> service (baseline_reader leader fence_ms COPY_ORDER_POLL_PAGE_SIZE)
   | None \<Rightarrow> service (pc_order_history (cy_public Y) leader COPY_ORDER_POLL_PAGE_SIZE))"

definition read_since :: "'x cycle_services \<Rightarrow> string \<Rightarrow> ('x, order_history_page) run" where
  "read_since Y leader =
    andThen (service (cy_source_watermark Y leader)) (\<lambda>watermark. case watermark of
      None \<Rightarrow> raise (BinancePublicCopyError ''COPY_ORDER_HISTORY_WATERMARK_MISSING'')
    | Some w \<Rightarrow> service (pc_order_history_since (cy_public Y) leader w 100 20))"

text \<open>\<open>except OneWayResolutionError as error: raise BinancePublicCopyError(str(error))\<close> around the resolver and
  the calls that provide its arguments.\<close>

fun resolution_error :: "exn \<Rightarrow> exn" where
  "resolution_error (OneWayResolutionError m) = BinancePublicCopyError m"
| "resolution_error e = e"

definition resolve_page :: "'x cycle_services \<Rightarrow> string \<Rightarrow> order_history_page \<Rightarrow> ('x, order_history_page) run" where
  "resolve_page Y leader page =
    tryExcept (\<lambda>_. True)
      (andThen (service (pc_position_history (cy_public Y) leader 100)) (\<lambda>positions.
       andThen (service (cy_source_orders_for_resolution Y leader)) (\<lambda>priors.
       lift (resolve_one_way_orders (hp_orders page) priors positions))))
      (\<lambda>e. raise (resolution_error e))
      (\<lambda>orders. ret \<lparr>hp_orders = orders, hp_total = hp_total page\<rparr>)"

definition poll_maximum :: "public_leader_order list \<Rightarrow> int option" where
  "poll_maximum orders = (case map po_update_time_ms orders of [] \<Rightarrow> None | ts \<Rightarrow> Some (Max (set ts)))"

definition record_poll ::
  "'x cycle_services \<Rightarrow> string \<Rightarrow> string \<Rightarrow> nat \<Rightarrow> int option \<Rightarrow> string list \<Rightarrow> datetime \<Rightarrow> ('x, unit) run" where
  "record_poll Y leader state rows maximum reasons now =
    andThen (wrote (Poll leader state rows maximum reasons now)) (\<lambda>_.
    service (cy_record_poll Y leader state rows maximum reasons now))"

fun process_polled ::
  "'x environment \<Rightarrow> runtime_config \<Rightarrow> 'x services \<Rightarrow> leader_assignment \<Rightarrow> normalized_signal list \<Rightarrow> ('x, unit) run" where
  "process_polled E C S a [] = ret ()"
| "process_polled E C S a (s # ss) =
    andThen (process_signal E C S s a) (\<lambda>_. andThen count_processed (\<lambda>_. process_polled E C S a ss))"

text \<open>Activation of an observed leader once its history is known.\<close>

definition activate :: "'x cycle_services \<Rightarrow> leader_assignment \<Rightarrow> bool \<Rightarrow> datetime \<Rightarrow> ('x, unit) run" where
  "activate Y a protects_local_risk now =
    (if lg_lifecycle a \<noteq> OBSERVE_ONLY then ret ()
     else let reasons = (if protects_local_risk then [''COPY_EXISTING_POSITION_HISTORY_RECOVERED''] else [''COPY_BASELINE_ESTABLISHED'']) in
       andThen (wrote (Lifecycle (lg_lead_portfolio_id a) ACTIVE reasons now)) (\<lambda>_.
       service (cy_append_lifecycle Y (lg_lead_portfolio_id a) ACTIVE now reasons)))"

text \<open>The body of the \<open>try\<close>: the number of new signals.\<close>

definition poll_body ::
  "'x environment \<Rightarrow> runtime_config \<Rightarrow> 'x cycle_services \<Rightarrow> string set \<Rightarrow> leader_assignment \<Rightarrow> datetime \<Rightarrow> ('x, nat) run" where
  "poll_body E C Y protected_leaders a now =
    (let leader = lg_lead_portfolio_id a; protects_local_risk = (leader \<in> protected_leaders) in
     andThen (reading rt_recovery_pending_leaders) (\<lambda>pending.
     let recovery_baseline = (leader \<in> pending \<and> \<not> protects_local_risk);
         baseline = (lg_lifecycle a = OBSERVE_ONLY \<and> \<not> protects_local_risk \<or> recovery_baseline);
         fence_ms = float_milliseconds (dt_instant now) in
     andThen (if baseline then read_baseline Y leader fence_ms else read_since Y leader) (\<lambda>page.
     let raw_orders = hp_orders page; ambiguity = (baseline \<and> \<not> distinct (map po_identity_key raw_orders));
         deferred = (baseline \<and> list_ex is_both raw_orders) in
     andThen (if \<not> baseline \<and> list_ex is_both raw_orders then resolve_page Y leader page else ret page) (\<lambda>page'.
     andThen (service (cy_ingest_orders Y leader (hp_orders page') baseline now)) (\<lambda>signals.
     let latest = poll_maximum raw_orders;
         maximum = (if ambiguity then Some (max (case latest of None \<Rightarrow> 0 | Some t \<Rightarrow> t) fence_ms) else latest);
         reasons = (if recovery_baseline then [''COPY_RECOVERY_BASELINE_NO_OWNED_POSITION''] else [])
           @ (if deferred then [''COPY_BASELINE_POSITION_SIDE_EVIDENCE_DEFERRED''] else [])
           @ (if ambiguity then [''COPY_BASELINE_ORDER_IDENTITY_AMBIGUITY_FENCED''] else []) in
     andThen (record_poll Y leader ''SUCCEEDED'' (length (hp_orders page')) maximum reasons now) (\<lambda>_.
     andThen (activate Y a protects_local_risk now) (\<lambda>_.
     andThen (process_polled E C (cy_services Y) a signals) (\<lambda>_.
     andThen (changing (\<lambda>r. r\<lparr>rt_recovery_pending_leaders := rt_recovery_pending_leaders r - {leader}\<rparr>)) (\<lambda>_.
     ret (length signals))))))))))"

definition poll_failure_state :: "string \<Rightarrow> string" where
  "poll_failure_state reason = (if contains_text ''WATERMARK'' reason then ''HISTORY_GAP''
     else if contains_text ''ACCESS_DENIED'' reason then ''ACCESS_DENIED'' else ''CONTRACT_DRIFT'')"

definition poll_failed :: "'x cycle_services \<Rightarrow> string \<Rightarrow> datetime \<Rightarrow> exn \<Rightarrow> ('x, nat option) run" where
  "poll_failed Y leader now error =
    (let reason = error_text (cy_services Y) error; state = poll_failure_state reason in
     andThen (changing (\<lambda>r. r\<lparr>rt_recovery_pending_leaders := insert leader (rt_recovery_pending_leaders r)\<rparr>)) (\<lambda>_.
     andThen (record_poll Y leader state 0 None [reason] now) (\<lambda>_.
     andThen (request_incident (cy_services Y) (''leader-poll:'' @ leader @ '':'' @ state @ '':'' @ reason)) (\<lambda>_.
     ret None))))"

text \<open>The new signals of a successful poll, \<open>None\<close> for a failed one.\<close>

definition poll_leader ::
  "'x environment \<Rightarrow> runtime_config \<Rightarrow> 'x cycle_services \<Rightarrow> string set \<Rightarrow> leader_assignment \<Rightarrow> ('x, nat option) run" where
  "poll_leader E C Y protected_leaders a =
    andThen (runtime_clock E) (\<lambda>now.
    andThen (lift (runtime_require_utc now)) (\<lambda>_.
    tryExcept is_public_error (poll_body E C Y protected_leaders a now)
      (poll_failed Y (lg_lead_portfolio_id a) now) (\<lambda>n. ret (Some n))))"

fun poll_leaders ::
  "'x environment \<Rightarrow> runtime_config \<Rightarrow> 'x cycle_services \<Rightarrow> string set \<Rightarrow> leader_assignment list \<Rightarrow> ('x, nat option list) run" where
  "poll_leaders E C Y protected_leaders [] = ret []"
| "poll_leaders E C Y protected_leaders (a # as) =
    andThen (poll_leader E C Y protected_leaders a) (\<lambda>n.
    andThen (poll_leaders E C Y protected_leaders as) (\<lambda>ns. ret (n # ns)))"

section \<open>The cycle\<close>

definition begin_cycle :: "leader_assignment list \<Rightarrow> 'x runtime \<Rightarrow> 'x runtime" where
  "begin_cycle assignments r = r\<lparr>rt_cycle_account := None, rt_cycle_position_marks := [], rt_cycle_valuation_event_id := None,
     rt_recover_all_on_next_cycle := False,
     rt_recovery_pending_leaders := rt_recovery_pending_leaders r \<union> (if rt_recover_all_on_next_cycle r
       then set (map lg_lead_portfolio_id (filter (\<lambda>a. lg_lifecycle a \<noteq> OBSERVE_ONLY) assignments)) else {})\<rparr>"

definition request_control_reductions :: "'x environment \<Rightarrow> runtime_config \<Rightarrow> 'x cycle_services \<Rightarrow> ('x, unit) run" where
  "request_control_reductions E C Y =
    andThen (service (sv_latest_runtime_control (cy_services Y))) (\<lambda>control. case ct_event_id control of
      Some event_id \<Rightarrow> if execution_enabled C \<and> ct_state control = REDUCE_ALL
        then andThen (runtime_clock E) (\<lambda>t. service (cy_ensure_control_reduction_signals Y event_id t)) else ret ()
    | None \<Rightarrow> ret ())"

text \<open>A flatten is complete when nothing is held, nothing is recoverable and the exchange agrees.\<close>

definition complete_flatten :: "'x environment \<Rightarrow> runtime_config \<Rightarrow> 'x cycle_services \<Rightarrow> ('x, unit) run" where
  "complete_flatten E C Y =
    andThen (service (sv_latest_runtime_control (cy_services Y))) (\<lambda>control.
    if \<not> (execution_enabled C \<and> ct_state control = REDUCE_ALL) then ret ()
    else andThen (service (sv_load_virtual_ledger (cy_services Y))) (\<lambda>ledger.
      if \<not> list_all (\<lambda>p. deq (vp_local_quantity p) 0) (ledger_snapshot ledger) then ret ()
      else andThen (service (cy_recoverable_signals Y 1)) (\<lambda>open_signals.
        if open_signals \<noteq> [] then ret ()
        else andThen (exchange_flatten_confirmed (cy_services Y)) (\<lambda>flat.
          if \<not> flat then ret ()
          else case flatten_completion control of (state, reason) \<Rightarrow>
            andThen (runtime_clock E) (\<lambda>t.
            append_runtime_control (cy_services Y) state ''copy-executor'' [reason] t True)))))"

definition protected_leaders :: "ledger \<Rightarrow> normalized_signal list \<Rightarrow> string set" where
  "protected_leaders ledger recovered =
    set (map (vk_lead_portfolio_id \<circ> vp_key) (filter (\<lambda>p. 0 < vp_local_quantity p) (ledger_snapshot ledger)))
    \<union> set (map sg_lead_portfolio_id recovered)"

definition cycle_report :: "nat \<Rightarrow> nat option list \<Rightarrow> nat \<Rightarrow> poll_cycle_report" where
  "cycle_report leaders polls processed = \<lparr>pr_leader_count = leaders, pr_successful_polls = length (filter (\<lambda>p. p \<noteq> None) polls),
     pr_failed_polls = length (filter (\<lambda>p. p = None) polls), pr_new_signal_count = sum_list (List.map_filter id polls),
     pr_processed_signal_count = processed\<rparr>"

text \<open>Polling, rotation and completion, after the recovery of earlier work.\<close>

definition poll_phase ::
  "'x environment \<Rightarrow> runtime_config \<Rightarrow> 'x cycle_services \<Rightarrow> leader_assignment list \<Rightarrow> normalized_signal list \<Rightarrow> ('x, nat option list) run" where
  "poll_phase E C Y assignments recovered =
    andThen (service (sv_load_virtual_ledger (cy_services Y))) (\<lambda>ledger.
    andThen (poll_leaders E C Y (protected_leaders ledger recovered) assignments) (\<lambda>polls.
    andThen (runtime_clock E) (\<lambda>t. andThen (service (cy_reconcile_pending_slot_replacements Y t)) (\<lambda>_.
    andThen (runtime_clock E) (\<lambda>t'. andThen (service (cy_retire_drained_leaders Y t')) (\<lambda>_.
    andThen (complete_flatten E C Y) (\<lambda>_. ret polls)))))))"

definition run_cycle :: "'x environment \<Rightarrow> runtime_config \<Rightarrow> 'x cycle_services \<Rightarrow> ('x, poll_cycle_report) run" where
  "run_cycle E C Y =
    andThen (changing (\<lambda>r. r\<lparr>rt_exchange_info := None\<rparr>)) (\<lambda>_.
    andThen (service (cy_active_assignments Y)) (\<lambda>assignments.
    andThen (changing (begin_cycle assignments)) (\<lambda>_.
    andThen (settle_stops E C Y assignments) (\<lambda>settled.
    andThen (request_control_reductions E C Y) (\<lambda>_.
    andThen (service (cy_recoverable_signals Y 100)) (\<lambda>recovered.
    andThen (changing (\<lambda>r. r\<lparr>rt_processed := card settled\<rparr>)) (\<lambda>_.
    andThen (recover_signals E C (cy_services Y) assignments settled recovered) (\<lambda>_.
    andThen (if 100 \<le> length recovered then ret [] else poll_phase E C Y assignments recovered) (\<lambda>polls.
    andThen (reading rt_processed) (\<lambda>processed.
    ret (cycle_report (length assignments) polls processed)))))))))))"

end
