(* ===== verification/ExecutorSafety.thy ===== *)
theory ExecutorSafety
  imports Executor
begin

text \<open>
  Safety of the executor for every behaviour of the exchange, the clock and the database: what it may
  send, and what its receipts may claim. The methods are shown once, inside a locale, to keep any
  property of journal and requests that is stable under recorded events and harmless requests; the
  locale is then interpreted on the submission invariant.
\<close>

section \<open>Keeping a property of the journal and the requests\<close>

definition keeps :: "(journal \<Rightarrow> request list \<Rightarrow> bool) \<Rightarrow> ('x, 'a) act \<Rightarrow> bool" where
  "keeps Q f \<longleftrightarrow> (\<forall>w. Q (wd_journal w) (wd_requests w)
     \<longrightarrow> Q (wd_journal (snd (f w))) (wd_requests (snd (f w))))"

named_theorems keeps_intros \<open>computations that keep a property\<close>

lemma keepsD: "keeps Q f \<Longrightarrow> Q (wd_journal w) (wd_requests w)
    \<Longrightarrow> Q (wd_journal (snd (f w))) (wd_requests (snd (f w)))"
  by (simp add: keeps_def)

lemma keeps_ret [keeps_intros]: "keeps Q (ret a)"
  by (simp add: keeps_def ret_def)

lemma keeps_raise [keeps_intros]: "keeps Q (raise e)"
  by (simp add: keeps_def raise_def)

lemma keeps_lift [keeps_intros]: "keeps Q (lift r)"
  by (simp add: keeps_def lift_def)

lemma keeps_outside [keeps_intros]: "keeps Q (outside op)"
  by (simp add: keeps_def outside_def split_beta)

lemma keeps_andThen [keeps_intros]: "keeps Q f \<Longrightarrow> (\<And>a. keeps Q (g a)) \<Longrightarrow> keeps Q (andThen f g)"
  by (auto simp: keeps_def andThen_def split: prod.split sum.split)

lemma keeps_tryProbe [keeps_intros]:
  fixes f :: "('x, 'a) act"
  assumes "keeps Q f" "\<And>e. keeps Q (h e)" "\<And>a. keeps Q (g a)"
  shows "keeps Q (tryProbe f h g)"
  unfolding keeps_def
proof (intro allI impI)
  fix w :: "'x world" assume Q: "Q (wd_journal w) (wd_requests w)"
  obtain r w' where f: "f w = (r, w')" by fastforce
  with keepsD [OF assms(1) Q] have Q': "Q (wd_journal w') (wd_requests w')" by simp
  show "Q (wd_journal (snd (tryProbe f h g w))) (wd_requests (snd (tryProbe f h g w)))"
  proof (cases r)
    case (Inl e)
    then show ?thesis using f Q' keepsD [OF assms(2)] by (cases e) (simp_all add: tryProbe_def)
  next
    case (Inr a)
    then show ?thesis using f Q' keepsD [OF assms(3)] by (simp add: tryProbe_def)
  qed
qed

lemma keeps_if [keeps_intros]: "keeps Q f \<Longrightarrow> keeps Q g \<Longrightarrow> keeps Q (if b then f else g)"
  by simp

lemma keeps_option [keeps_intros]:
  "keeps Q f \<Longrightarrow> (\<And>a. keeps Q (g a)) \<Longrightarrow> keeps Q (case x of None \<Rightarrow> f | Some a \<Rightarrow> g a)"
  by (simp split: option.split)

lemma keeps_clock [keeps_intros]: "keeps Q (clock E)"
  by (simp add: clock_def keeps_intros)

lemma keeps_sleep [keeps_intros]: "keeps Q (sleep E d)"
  by (simp add: sleep_def keeps_intros)

lemma keeps_now_utc [keeps_intros]: "keeps Q (now_utc E)"
  by (simp add: now_utc_def keeps_intros)

lemma keeps_expiry_reason [keeps_intros]: "keeps Q (expiry_reason E m status codes)"
  unfolding expiry_reason_def by (intro keeps_intros)

lemma keeps_absent [keeps_intros]: "keeps Q (submission_definitively_absent E m cid error t)"
  unfolding submission_definitively_absent_def by (intro keeps_intros)

lemma keeps_reduction_fits [keeps_intros]: "keeps Q (reduction_fits_exchange_position E m)"
  unfolding reduction_fits_exchange_position_def Let_def
  by (intro keeps_intros) (auto split: list.split parsed.split intro: keeps_intros)

text \<open>The properties methods keep: stable under recorded events and under requests that place nothing.\<close>

fun places :: "request \<Rightarrow> bool" where
  "places (Place _) = True"
| "places _ = False"

locale stable_property =
  fixes Q :: "journal \<Rightarrow> request list \<Rightarrow> bool"
  assumes events: "Q j rs \<Longrightarrow> Q (j\<lparr>jn_events := es\<rparr>) rs"
    and harmless: "Q j rs \<Longrightarrow> \<not> places q \<Longrightarrow> Q j (q # rs)"
begin

lemma keeps_record_event: "keeps Q (record_event E ev)"
  using events by (auto simp: keeps_def record_event_def transaction_def split_beta split: db_outcome.split)

lemma keeps_lookup: "keeps Q (lookup E sid)"
  by (auto simp: keeps_def lookup_def transaction_def split_beta split: db_outcome.split)

lemma keeps_emit: "\<not> places q \<Longrightarrow> keeps Q (emit q)"
  by (simp add: keeps_def emit_def harmless)

lemma keeps_record_at: "keeps Q (record_at E sid st t f o0 r rs)"
  unfolding record_at_def by (intro keeps_intros keeps_record_event)

lemma keeps_record_now: "keeps Q (record_now E sid st f o0 r rs)"
  unfolding record_now_def by (intro keeps_intros keeps_record_at)

lemma keeps_finish: "keeps Q (finish E r receipt)"
  unfolding finish_def by (intro keeps_intros keeps_record_now)

lemma keeps_change_leverage: "keeps Q (change_initial_leverage E s l)"
  unfolding change_initial_leverage_def by (intro keeps_intros keeps_emit) simp

lemma keeps_cancel_order: "keeps Q (cancel_order E s cid)"
  unfolding cancel_order_def by (intro keeps_intros keeps_emit) simp

lemma keeps_receipt: "keeps Q (receipt_from_response E m cid r b add)"
  unfolding receipt_from_response_def Let_def split_beta
  by (intro keeps_intros keeps_finish keeps_record_now)

lemma keeps_loop: "keeps Q (fill_price_loop E m cid add receipt delays)"
proof (induction delays)
  case Nil
  show ?case unfolding fill_price_loop.simps Let_def by (intro keeps_intros keeps_record_now)
next
  case (Cons d ds)
  show ?case unfolding fill_price_loop.simps by (intro keeps_intros Cons keeps_receipt)
qed

lemma keeps_immediate: "keeps Q (receipt_with_immediate_fill_price E X m cid r b add)"
  unfolding receipt_with_immediate_fill_price_def by (intro keeps_intros keeps_receipt keeps_loop)

lemma keeps_uncertain: "keeps Q (reconcile_after_uncertain_submit E X m cid add)"
  unfolding reconcile_after_uncertain_submit_def by (intro keeps_intros keeps_finish keeps_immediate)

lemma keeps_cancel_existing: "keeps Q (cancel_existing E X m cid reason t)"
  unfolding cancel_existing_def Let_def
  by (intro keeps_intros keeps_cancel_order keeps_finish keeps_immediate)

text \<open>Once its order is placed, a submission keeps the property.\<close>

lemma keeps_after_place:
  "keeps Q (tryProbe (outside (env_place_order E ps))
      (\<lambda>error. let reasons = definitive_place_rejection_reasons error in
         if reasons \<noteq> [] then finish E None (rejected_receipt m cid reasons)
         else reconcile_after_uncertain_submit E X m cid add)
      (\<lambda>response. receipt_with_immediate_fill_price E X m cid response False add))"
  unfolding Let_def by (intro keeps_intros keeps_finish keeps_uncertain keeps_immediate)

lemma submit_keeps:
  assumes "Q (wd_journal w) (Place ps # wd_requests w)"
  shows "Q (wd_journal (snd (submit E X m cid ps add w))) (wd_requests (snd (submit E X m cid ps add w)))"
proof -
  let ?w = "w\<lparr>wd_requests := Place ps # wd_requests w\<rparr>"
  have "submit E X m cid ps add w = tryProbe (outside (env_place_order E ps))
      (\<lambda>error. let reasons = definitive_place_rejection_reasons error in
         if reasons \<noteq> [] then finish E None (rejected_receipt m cid reasons)
         else reconcile_after_uncertain_submit E X m cid add)
      (\<lambda>response. receipt_with_immediate_fill_price E X m cid response False add) ?w"
    by (simp add: submit_def place_order_def tryProbe_def andThen_def emit_def)
  with keepsD [OF keeps_after_place, of ?w] assms show ?thesis by simp
qed

end

text \<open>A property that moreover allows an order to be placed again when it is a persistent entry.\<close>

locale resubmittable = stable_property +
  fixes m :: copy_market_order and cid :: string
  assumes again: "Q j rs \<Longrightarrow> mo_order_type m = LIMIT \<Longrightarrow> mo_expires_at m = None
    \<Longrightarrow> order_parameters m cid = Inr ps \<Longrightarrow> Q j (Place ps # rs)"
begin

lemma keeps_resubmit:
  assumes "mo_order_type m = LIMIT" "mo_expires_at m = None"
  shows "keeps Q (resubmit_persistent_entry E X m cid)"
proof -
  have "keeps Q (andThen (lift (order_parameters m cid)) (\<lambda>ps. submit E X m cid ps add))" for add
    by (auto simp: keeps_def andThen_def lift_def split: sum.split intro!: submit_keeps again [OF _ assms])
  then show ?thesis unfolding resubmit_persistent_entry_def Let_def
    by (rule_tac keeps_andThen [OF keeps_now_utc], rule_tac keeps_andThen [OF keeps_record_at],
        rule_tac keeps_andThen [OF keeps_change_leverage])
qed

lemma keeps_reconcile_existing: "keeps Q (reconcile_existing E X m cid t)"
proof -
  have "keeps Q (if sg_kind (mo_signal m) = INCREASE \<and> mo_order_type m = LIMIT \<and> mo_expires_at m = None
      then resubmit_persistent_entry E X m cid
      else finish E None (rejected_receipt m cid [''COPY_SUBMISSION_NOT_FOUND_AFTER_GRACE'']))"
    by (simp add: keeps_resubmit keeps_finish)
  then have a: "keeps Q (andThen (submission_definitively_absent E m cid error t) (\<lambda>absent. if absent
      then if sg_kind (mo_signal m) = INCREASE \<and> mo_order_type m = LIMIT \<and> mo_expires_at m = None
        then resubmit_persistent_entry E X m cid
        else finish E None (rejected_receipt m cid [''COPY_SUBMISSION_NOT_FOUND_AFTER_GRACE''])
      else ret (unknown_receipt m cid [''COPY_SUBMISSION_ALREADY_CLAIMED_UNRESOLVED''])))" for error
    by (rule_tac keeps_andThen [OF keeps_absent], rule_tac keeps_if [OF _ keeps_ret])
  show ?thesis unfolding reconcile_existing_def
    by (rule keeps_tryProbe [OF keeps_outside a]) (intro keeps_intros keeps_cancel_existing keeps_immediate)
qed

end

section \<open>The submission invariant\<close>

definition placed :: "request list \<Rightarrow> (string \<times> string) list list" where
  "placed rs = concat (map (\<lambda>q. case q of Place ps \<Rightarrow> [ps] | _ \<Rightarrow> []) rs)"

lemma placed_simps [simp]: "placed [] = []" "placed (Place ps # rs) = ps # placed rs"
  "\<not> places q \<Longrightarrow> placed (q # rs) = placed rs"
  by (simp_all add: placed_def) (cases q; simp)

definition client_id :: "(string \<times> string) list \<Rightarrow> string option" where
  "client_id ps = map_of ps ''newClientOrderId''"

definition submissions :: "string \<Rightarrow> request list \<Rightarrow> nat" where
  "submissions cid rs = length (filter (\<lambda>ps. client_id ps = Some cid) (placed rs))"

definition claims_of :: "journal \<Rightarrow> submission_claim list" where
  "claims_of j = map snd (jn_claims j)"

text \<open>The order is the one the claim was made for: same signal, identity, policy and request hash.\<close>

definition claim_matches :: "submission_claim \<Rightarrow> copy_market_order \<Rightarrow> bool" where
  "claim_matches c m \<longleftrightarrow> sc_signal_id c = sg_signal_id (mo_signal m) \<and> sc_order_type c = mo_order_type m
     \<and> sc_expires_at c = mo_expires_at m \<and> request_hash m (sc_client_order_id c) = Inr (sc_request_hash c)"

definition backed :: "journal \<Rightarrow> (string \<times> string) list \<Rightarrow> bool" where
  "backed j ps \<longleftrightarrow> (\<exists>c \<in> set (claims_of j). \<exists>m. claim_matches c m
     \<and> order_parameters m (sc_client_order_id c) = Inr ps)"

definition persistent :: "submission_claim \<Rightarrow> bool" where
  "persistent c \<longleftrightarrow> sc_order_type c = LIMIT \<and> sc_expires_at c = None"

definition journal_ok :: "journal \<Rightarrow> bool" where
  "journal_ok j \<longleftrightarrow> dict_ok (jn_claims j) \<and> jn_upgrades j = []
     \<and> distinct (map sc_client_order_id (claims_of j))
     \<and> (\<forall>(k, c) \<in> set (jn_claims j). sc_signal_id c = k \<and> sc_request_hash_version c = 2)"

definition submission_inv :: "journal \<Rightarrow> request list \<Rightarrow> bool" where
  "submission_inv j rs \<longleftrightarrow> journal_ok j \<and> (\<forall>ps \<in> set (placed rs). backed j ps)
     \<and> (\<forall>c \<in> set (claims_of j). \<not> persistent c \<longrightarrow> submissions (sc_client_order_id c) rs \<le> 1)"

definition claimed_inv :: "copy_market_order \<Rightarrow> string \<Rightarrow> journal \<Rightarrow> request list \<Rightarrow> bool" where
  "claimed_inv m cid j rs \<longleftrightarrow> submission_inv j rs
     \<and> (\<exists>c \<in> set (claims_of j). sc_client_order_id c = cid \<and> claim_matches c m)"

lemma order_parameters_client_id: "order_parameters m cid = Inr ps \<Longrightarrow> client_id ps = Some cid"
  by (auto simp: order_parameters_def client_id_def Let_def split: if_splits option.splits)

lemma journal_ok_events [simp]: "journal_ok (j\<lparr>jn_events := es\<rparr>) = journal_ok j"
  "backed (j\<lparr>jn_events := es\<rparr>) = backed j" "claims_of (j\<lparr>jn_events := es\<rparr>) = claims_of j"
  by (auto simp: journal_ok_def backed_def claims_of_def fun_eq_iff)

lemma submissions_harmless [simp]: "\<not> places q \<Longrightarrow> submissions cid (q # rs) = submissions cid rs"
  by (simp add: submissions_def)

lemma submissions_place: "submissions cid (Place ps # rs) = (if client_id ps = Some cid then 1 else 0) + submissions cid rs"
  by (simp add: submissions_def)

interpretation submission: stable_property submission_inv
  by unfold_locales (auto simp: submission_inv_def)

lemma same_claim:
  "journal_ok j \<Longrightarrow> c \<in> set (claims_of j) \<Longrightarrow> c' \<in> set (claims_of j)
    \<Longrightarrow> sc_client_order_id c = sc_client_order_id c' \<Longrightarrow> c = c'"
  by (simp add: journal_ok_def distinct_map inj_on_def)

lemma claimed_place_again:
  assumes "claimed_inv m cid j rs" "mo_order_type m = LIMIT" "mo_expires_at m = None"
    "order_parameters m cid = Inr ps"
  shows "claimed_inv m cid j (Place ps # rs)"
proof -
  obtain c where c: "c \<in> set (claims_of j)" "sc_client_order_id c = cid" "claim_matches c m"
    using assms(1) by (auto simp: claimed_inv_def)
  have inv: "submission_inv j rs" using assms(1) by (simp add: claimed_inv_def)
  have id: "client_id ps = Some cid" using assms(4) by (rule order_parameters_client_id)
  have p: "persistent c" using c(3) assms(2,3) by (simp add: claim_matches_def persistent_def)
  have "backed j ps" using c assms(4) by (auto simp: backed_def)
  moreover have "submissions (sc_client_order_id c') (Place ps # rs) \<le> 1"
    if "c' \<in> set (claims_of j)" "\<not> persistent c'" for c'
  proof -
    have "sc_client_order_id c' \<noteq> cid" using same_claim [of j c' c] inv that c p by (auto simp: submission_inv_def)
    then show ?thesis using id inv that by (simp add: submissions_place submission_inv_def)
  qed
  ultimately show ?thesis using assms(1) c inv by (auto simp: claimed_inv_def submission_inv_def)
qed

interpretation claimed: resubmittable "claimed_inv m cid" m cid for m cid
proof unfold_locales
  show "claimed_inv m cid (j\<lparr>jn_events := es\<rparr>) rs" if "claimed_inv m cid j rs" for j rs es
    using that by (simp add: claimed_inv_def submission.events)
  show "claimed_inv m cid j (q # rs)" if "claimed_inv m cid j rs" "\<not> places q" for j rs q
    using that by (simp add: claimed_inv_def submission.harmless)
qed (rule claimed_place_again)

section \<open>Claims\<close>

lemma keeps_lift_andThen: "(\<And>a. r = Inr a \<Longrightarrow> keeps Q (g a)) \<Longrightarrow> keeps Q (andThen (lift r) g)"
  by (cases r) (simp_all add: keeps_def andThen_def lift_def)

lemma restored_matches:
  "restored_order c s = Inr (Some m) \<Longrightarrow> sc_request_hash_version c = 2 \<Longrightarrow> claim_matches c m"
  by (auto simp: restored_order_def claim_matches_def claim_order_def copy_market_order_check_ok
      split: if_splits option.splits sum.splits)

lemma lookup_row_claim:
  assumes "journal_ok j" "lookup_row E j sid = Some c"
  obtains row where "row \<in> set (claims_of j)" "sc_client_order_id row = sc_client_order_id c"
    "sc_request_hash_version c = 2" "\<And>m. claim_matches c m \<Longrightarrow> claim_matches row m"
proof -
  obtain row where r: "map_of (jn_claims j) sid = Some row" using assms(2) by (auto simp: lookup_row_def split: option.splits)
  then have m: "(sid, row) \<in> set (jn_claims j)" by (rule map_of_SomeD)
  then have "row \<in> set (claims_of j)" by (force simp: claims_of_def)
  moreover have "sc_request_hash_version row = 2" using m assms(1) by (auto simp: journal_ok_def)
  ultimately show thesis
    using that r assms by (auto simp: lookup_row_def Let_def journal_ok_def claim_matches_def)
qed

lemma keeps_with_claim:
  fixes f :: "('x, 'a) act"
  assumes "keeps submission_inv f" "\<And>c. keeps submission_inv (g c)"
    "\<And>c m. keeps (claimed_inv m (sc_client_order_id c)) (h c m)"
  shows "keeps submission_inv (andThen (lookup E sid) (\<lambda>existing. case existing of None \<Rightarrow> f
    | Some c \<Rightarrow> andThen (lift (restored_order c s)) (\<lambda>restored. case restored of None \<Rightarrow> g c | Some m \<Rightarrow> h c m)))"
    (is "keeps _ (andThen _ ?k)")
  unfolding keeps_def
proof (intro allI impI)
  fix w :: "'x world" assume inv: "submission_inv (wd_journal w) (wd_requests w)"
  obtain r w1 where l: "lookup E sid w = (r, w1)" by fastforce
  then have w1: "wd_journal w1 = wd_journal w" "wd_requests w1 = wd_requests w"
    "\<And>ex. r = Inr ex \<Longrightarrow> ex = lookup_row E (wd_journal w) sid"
    by (auto simp: lookup_def transaction_def split: prod.splits db_outcome.splits)
  show "submission_inv (wd_journal (snd (andThen (lookup E sid) ?k w))) (wd_requests (snd (andThen (lookup E sid) ?k w)))"
  proof (cases "\<exists>c m. r = Inr (Some c) \<and> restored_order c s = Inr (Some m)")
    case True
    then obtain c m where c: "r = Inr (Some c)" "restored_order c s = Inr (Some m)" by blast
    obtain row where "row \<in> set (claims_of (wd_journal w))" "sc_client_order_id row = sc_client_order_id c"
      "sc_request_hash_version c = 2" "\<And>m. claim_matches c m \<Longrightarrow> claim_matches row m"
      using lookup_row_claim [of "wd_journal w" E sid c] w1(3) [OF c(1)] inv by (metis submission_inv_def)
    with restored_matches [OF c(2)] inv w1
    have "claimed_inv m (sc_client_order_id c) (wd_journal w1) (wd_requests w1)"
      by (auto simp: claimed_inv_def)
    from keepsD [OF assms(3) this] show ?thesis
      using l c by (simp add: andThen_def lift_def claimed_inv_def)
  next
    case False
    have "keeps submission_inv (?k ex)" if "\<forall>c m. ex = Some c \<longrightarrow> restored_order c s \<noteq> Inr (Some m)" for ex
      using that assms(1,2) by (auto split: option.splits intro!: keeps_lift_andThen)
    with False show ?thesis
      using l inv w1 keepsD [of submission_inv "?k (projr r)" w1] by (cases r) (auto simp: andThen_def)
  qed
qed

lemma update_new: "map_of d k = None \<Longrightarrow> AList.update k v d = d @ [(k, v)]"
  by (induction d) (auto split: if_splits)

lemma claim_post:
  assumes inv: "submission_inv (wd_journal w) (wd_requests w)"
    and c: "sc_request_hash_version c = 2" and run: "claim E c ev w = (r, w')"
  shows "submission_inv (wd_journal w') (wd_requests w')
    \<and> (r = Inr True \<longrightarrow> c \<in> set (claims_of (wd_journal w')) \<and> submissions (sc_client_order_id c) (wd_requests w') = 0)"
proof -
  have "submission_inv (insert_claim c ev (wd_journal w)) (wd_requests w)
      \<and> c \<in> set (claims_of (insert_claim c ev (wd_journal w)))
      \<and> submissions (sc_client_order_id c) (wd_requests w) = 0" if n: "\<not> conflicting c (wd_journal w)"
  proof -
    let ?j = "wd_journal w" and ?j' = "insert_claim c ev (wd_journal w)"
    have new: "map_of (jn_claims ?j) (sc_signal_id c) = None"
      "sc_client_order_id c \<notin> set (map sc_client_order_id (claims_of ?j))"
      using n by (auto simp: conflicting_def claims_of_def list_ex_iff)
    have cl: "claims_of ?j' = claims_of ?j @ [c]"
      by (simp add: insert_claim_def claims_of_def update_new [OF new(1)])
    have "dict_ok (jn_claims ?j')" using inv by (simp add: submission_inv_def journal_ok_def insert_claim_def)
    then have ok: "journal_ok ?j'"
      using inv new cl c by (auto simp: submission_inv_def journal_ok_def insert_claim_def update_new)
    have "client_id ps \<noteq> Some (sc_client_order_id c)" if p: "ps \<in> set (placed (wd_requests w))" for ps
    proof -
      obtain c' where "c' \<in> set (claims_of ?j)" "client_id ps = Some (sc_client_order_id c')"
        using inv p order_parameters_client_id unfolding submission_inv_def backed_def by blast
      with new(2) show ?thesis by (metis image_eqI image_set option.inject)
    qed
    then have zero: "submissions (sc_client_order_id c) (wd_requests w) = 0" by (simp add: submissions_def)
    have "\<forall>ps \<in> set (placed (wd_requests w)). backed ?j' ps"
      using inv cl by (auto simp: submission_inv_def backed_def)
    with inv ok cl zero show ?thesis by (auto simp: submission_inv_def)
  qed
  then show ?thesis using inv run
    by (auto simp: claim_def raise_def transaction_def split: if_splits prod.splits db_outcome.splits)
qed

lemma submit_after_claim:
  assumes inv: "submission_inv j rs" and c: "c \<in> set (claims_of j)" "submissions (sc_client_order_id c) rs = 0"
    and m: "claim_matches c m" "order_parameters m (sc_client_order_id c) = Inr ps"
  shows "submission_inv j (Place ps # rs)"
proof -
  have "backed j ps" using c(1) m by (auto simp: backed_def)
  moreover have "submissions (sc_client_order_id c') (Place ps # rs) \<le> 1"
    if "c' \<in> set (claims_of j)" "\<not> persistent c'" for c'
    using that inv c(2) order_parameters_client_id [OF m(2)]
    by (cases "sc_client_order_id c' = sc_client_order_id c") (auto simp: submissions_place submission_inv_def)
  ultimately show ?thesis using inv by (auto simp: submission_inv_def)
qed

lemma keeps_reconcile_claim:
  "keeps submission_inv f \<Longrightarrow> keeps submission_inv (andThen (lookup E sid) (\<lambda>existing. case existing of None \<Rightarrow> f
    | Some c \<Rightarrow> reconcile_claim E X m c))"
  unfolding reconcile_claim_def
  by (intro keeps_with_claim submission.keeps_finish claimed.keeps_reconcile_existing)

lemma keeps_claim_and_submit:
  fixes E :: "'x environment"
  shows "keeps submission_inv (claim_and_submit E X m cid)"
  unfolding claim_and_submit_def
proof (intro keeps_lift_andThen keeps_andThen [OF keeps_now_utc])
  fix ps hash now ev
  assume ps: "order_parameters m cid = Inr ps" and hash: "request_hash m cid = Inr hash"
  let ?c = "new_claim m cid hash now"
  let ?k = "\<lambda>claimed. if \<not> claimed then andThen (lookup E (sg_signal_id (mo_signal m))) (\<lambda>existing. case existing of
        None \<Rightarrow> ret (unknown_receipt m cid [''COPY_SUBMISSION_CLAIM_RACE_UNRESOLVED''])
      | Some c \<Rightarrow> reconcile_claim E X m c) else submit E X m cid ps []"
  show "keeps submission_inv (andThen (claim E ?c ev) ?k)"
    unfolding keeps_def
  proof (intro allI impI)
    fix w :: "'x world" assume inv: "submission_inv (wd_journal w) (wd_requests w)"
    obtain r w1 where run: "claim E ?c ev w = (r, w1)" by fastforce
    have post: "submission_inv (wd_journal w1) (wd_requests w1)"
      "r = Inr True \<Longrightarrow> ?c \<in> set (claims_of (wd_journal w1)) \<and> submissions cid (wd_requests w1) = 0"
      using claim_post [OF inv _ run] by (simp_all add: new_claim_def)
    have match: "claim_matches ?c m" using hash by (simp add: claim_matches_def new_claim_def)
    have "submission_inv (wd_journal (snd (?k b w1))) (wd_requests (snd (?k b w1)))" if "r = Inr b" for b
    proof (cases b)
      case True
      with post that match ps have "submission_inv (wd_journal w1) (Place ps # wd_requests w1)"
        by (intro submit_after_claim [of _ _ ?c m]) (simp_all add: new_claim_def)
      then show ?thesis using True submission.submit_keeps by simp
    next
      case False
      then show ?thesis using keepsD [OF keeps_reconcile_claim [OF keeps_ret] post(1)] by simp
    qed
    with run post(1) show "submission_inv (wd_journal (snd (andThen (claim E ?c ev) ?k w)))
        (wd_requests (snd (andThen (claim E ?c ev) ?k w)))"
      by (cases r) (simp_all add: andThen_def)
  qed
qed

lemma keeps_execute: "keeps submission_inv (execute E X m risk)"
  unfolding execute_def
  by (intro keeps_lift_andThen keeps_reconcile_claim keeps_if keeps_ret keeps_andThen [OF keeps_outside]
      keeps_andThen [OF submission.keeps_change_leverage] keeps_andThen [OF keeps_reduction_fits] keeps_claim_and_submit)

lemma keeps_claimed_order: "keeps submission_inv (claimed_order E s)"
  unfolding claimed_order_def by (intro keeps_intros submission.keeps_lookup)

lemma keeps_cancel_pending: "keeps submission_inv (cancel_pending_increase E X s reason)"
  unfolding cancel_pending_increase_def
  by (rule keeps_with_claim) (intro keeps_intros claimed.keeps_reconcile_existing claimed.keeps_cancel_existing)+

section \<open>Reachable worlds\<close>

text \<open>Any sequence of calls of the executor's methods, with anything happening outside in between. A
  call runs to its end or to its first exception; a crash is an exception of the outside call during
  which it happens. Calls of several processes that share the journal take turns.\<close>

inductive reachable :: "'x environment \<Rightarrow> executor \<Rightarrow> 'x world \<Rightarrow> bool" for E :: "'x environment" and X :: executor where
  start: "wd_journal w = \<lparr>jn_claims = [], jn_upgrades = [], jn_events = []\<rparr> \<Longrightarrow> wd_requests w = [] \<Longrightarrow> reachable E X w"
| elapse: "reachable E X w \<Longrightarrow> reachable E X (w\<lparr>wd_outside := x\<rparr>)"
| execute: "reachable E X w \<Longrightarrow> reachable E X (snd (execute E X m risk w))"
| claimed_order: "reachable E X w \<Longrightarrow> reachable E X (snd (claimed_order E s w))"
| cancel_pending: "reachable E X w \<Longrightarrow> reachable E X (snd (cancel_pending_increase E X s reason w))"

lemma reachable_inv: "reachable E X w \<Longrightarrow> submission_inv (wd_journal w) (wd_requests w)"
proof (induction rule: reachable.induct)
  case (start w)
  then show ?case by (simp add: submission_inv_def journal_ok_def claims_of_def)
qed (simp_all add: keepsD [OF keeps_execute] keepsD [OF keeps_claimed_order] keepsD [OF keeps_cancel_pending])

text \<open>Nothing is sent without a durable claim. In every reachable world, whatever the exchange, the
  clock and the database did, each order ever placed is exactly the request of a claim in the journal:
  it carries that claim's client order id and hashes to that claim's request hash; and client order
  ids belong to one claim each.\<close>

theorem placed_orders_are_claimed:
  assumes "reachable E X w" "ps \<in> set (placed (wd_requests w))"
  shows "\<exists>c m. c \<in> set (claims_of (wd_journal w)) \<and> client_id ps = Some (sc_client_order_id c)
    \<and> sc_signal_id c = sg_signal_id (mo_signal m) \<and> order_parameters m (sc_client_order_id c) = Inr ps
    \<and> request_hash m (sc_client_order_id c) = Inr (sc_request_hash c)
    \<and> (\<forall>c' \<in> set (claims_of (wd_journal w)). sc_client_order_id c' = sc_client_order_id c \<longrightarrow> c' = c)"
proof -
  have inv: "submission_inv (wd_journal w) (wd_requests w)" using assms(1) by (rule reachable_inv)
  with assms(2) obtain c m where c: "c \<in> set (claims_of (wd_journal w))" "claim_matches c m"
    "order_parameters m (sc_client_order_id c) = Inr ps" by (auto simp: submission_inv_def backed_def)
  moreover have "\<forall>c' \<in> set (claims_of (wd_journal w)). sc_client_order_id c' = sc_client_order_id c \<longrightarrow> c' = c"
    using inv c(1) same_claim by (auto simp: submission_inv_def)
  ultimately show ?thesis using order_parameters_client_id by (auto simp: claim_matches_def)
qed

text \<open>At most one submission. A claim of a market order, or of a limit order with an expiry, is sent
  to the exchange at most once, ever: lost acknowledgements, aborted calls, retries and restarts
  never send it again. (A persistent entry may be sent again, as the same request.)\<close>

theorem submitted_at_most_once:
  assumes "reachable E X w" "c \<in> set (claims_of (wd_journal w))" "sc_order_type c = MARKET \<or> sc_expires_at c \<noteq> None"
  shows "submissions (sc_client_order_id c) (wd_requests w) \<le> 1"
  using reachable_inv [OF assms(1)] assms(2,3) by (auto simp: submission_inv_def persistent_def)

section \<open>What receipts claim\<close>

definition receipt_for :: "normalized_signal \<Rightarrow> copy_execution_receipt \<Rightarrow> bool" where
  "receipt_for s r \<longleftrightarrow> cr_signal_id r = sg_signal_id s \<and> 0 < dval (cr_requested_quantity r)
     \<and> 0 \<le> dval (cr_filled_quantity r) \<and> dval (cr_filled_quantity r) \<le> dval (cr_requested_quantity r)
     \<and> 0 \<le> dval (cr_average_price r) \<and> (cr_state r = REJECTED \<longrightarrow> dval (cr_filled_quantity r) = 0)"

lemma plain_receipt_for: "0 < dval (mo_local_quantity m) \<Longrightarrow> receipt_for (mo_signal m) (plain_receipt st m cid rs)"
  by (simp add: receipt_for_def plain_receipt_def)

lemma returns_finish: "P r \<Longrightarrow> returns P (finish E o0 r)"
  unfolding finish_def by (intro returns_intros)

lemma response_facts_bounds:
  assumes "response_facts m cid r = Some (status, filled, price)"
  shows "0 \<le> dval filled" "dval filled \<le> dval (mo_local_quantity m)" "0 \<le> dval price"
proof -
  have "\<not> (filled < 0 \<or> mo_local_quantity m < filled \<or> price < 0)"
    using assms by (auto simp: response_facts_def split: option.splits json.splits if_splits prod.splits)
  then show "0 \<le> dval filled" "dval filled \<le> dval (mo_local_quantity m)" "0 \<le> dval price"
    by (auto simp: decimal_less_val)
qed

lemma rejected_state: "fst (map_exchange_state status filled b) = REJECTED \<Longrightarrow> \<not> 0 < filled"
  by (auto simp: map_exchange_state_def split: if_splits)

lemma receipt_for_response:
  assumes "0 < dval (mo_local_quantity m)"
  shows "returns (receipt_for (mo_signal m)) (receipt_from_response E m cid r b add)"
proof (cases "response_facts m cid r")
  case None
  then show ?thesis using plain_receipt_for [OF assms]
    by (auto simp: receipt_from_response_def unknown_receipt_def intro!: returns_finish)
next
  case (Some f)
  obtain status filled price where f: "f = (status, filled, price)" by (cases f)
  note b = response_facts_bounds [OF Some [unfolded f]]
  show ?thesis unfolding receipt_from_response_def Some f option.case prod.case Let_def split_beta
    by (intro returns_intros) (use b assms rejected_state [of status filled] in
        \<open>auto simp: receipt_for_def decimal_less_val\<close>)
qed

lemma receipt_for_loop:
  assumes "0 < dval (mo_local_quantity m)" "receipt_for (mo_signal m) receipt"
  shows "returns (receipt_for (mo_signal m)) (fill_price_loop E m cid add receipt delays)"
proof (induction delays)
  case Nil
  show ?case unfolding fill_price_loop.simps Let_def
    by (intro returns_intros) (use assms(2) in \<open>simp add: receipt_for_def\<close>)
next
  case (Cons d ds)
  show ?case unfolding fill_price_loop.simps by (intro returns_intros Cons receipt_for_response assms(1))
qed

lemma receipt_for_immediate:
  assumes "0 < dval (mo_local_quantity m)"
  shows "returns (receipt_for (mo_signal m)) (receipt_with_immediate_fill_price E X m cid r b add)"
  unfolding receipt_with_immediate_fill_price_def
  by (rule returns_andThen_of [OF receipt_for_response [OF assms]])
    (intro returns_intros receipt_for_loop assms)

lemma receipt_for_plain:
  assumes "0 < dval (mo_local_quantity m)"
  shows "returns (receipt_for (mo_signal m)) (finish E o0 (rejected_receipt m cid rs))"
    "returns (receipt_for (mo_signal m)) (finish E o0 (unknown_receipt m cid rs))"
    "returns (receipt_for (mo_signal m)) (ret (unknown_receipt m cid rs))"
    "returns (receipt_for (mo_signal m)) (ret (rejected_receipt m cid rs))"
  using plain_receipt_for [OF assms]
  by (auto simp: rejected_receipt_def unknown_receipt_def intro!: returns_finish returns_ret)

lemma receipt_for_submit:
  assumes "0 < dval (mo_local_quantity m)"
  shows "returns (receipt_for (mo_signal m)) (submit E X m cid ps add)"
  unfolding submit_def reconcile_after_uncertain_submit_def Let_def
  by (intro returns_tryProbe returns_if receipt_for_plain receipt_for_immediate assms)

lemma receipt_for_reconcile:
  assumes "0 < dval (mo_local_quantity m)"
  shows "returns (receipt_for (mo_signal m)) (reconcile_existing E X m cid t)"
  unfolding reconcile_existing_def resubmit_persistent_entry_def cancel_existing_def Let_def
  by (intro returns_tryProbe returns_andThen returns_if receipt_for_plain receipt_for_immediate receipt_for_submit assms)

lemma restored_positive: "restored_order c s = Inr (Some m) \<Longrightarrow> mo_signal m = s \<and> 0 < dval (mo_local_quantity m)"
  by (auto simp: restored_order_def claim_order_def copy_market_order_check_ok
      split: if_splits option.splits sum.splits)

lemma receipt_for_reconcile_claim:
  assumes "0 < dval (mo_local_quantity m)"
  shows "returns (receipt_for (mo_signal m)) (reconcile_claim E X m c)"
  unfolding reconcile_claim_def
proof (rule returns_lift_andThen)
  fix restored assume r: "restored_order c (mo_signal m) = Inr restored"
  show "returns (receipt_for (mo_signal m)) (case restored of
      None \<Rightarrow> finish E None (unknown_receipt m (sc_client_order_id c) [''COPY_SUBMISSION_CLAIM_PARAMETERS_INVALID''])
    | Some m' \<Rightarrow> reconcile_existing E X m' (sc_client_order_id c) (sc_claimed_at c))"
  proof (cases restored)
    case None
    then show ?thesis using receipt_for_plain [OF assms] by simp
  next
    case (Some m')
    then show ?thesis using restored_positive [of c "mo_signal m" m'] receipt_for_reconcile [of m'] r by simp
  qed
qed

lemma returns_option [returns_intros]:
  "returns P f \<Longrightarrow> (\<And>a. returns P (g a)) \<Longrightarrow> returns P (case x of None \<Rightarrow> f | Some a \<Rightarrow> g a)"
  by (simp split: option.split)


text \<open>A denied risk decision stops a new signal before the exchange: without a claim nothing is
  sent, nothing is written to the journal, and the result, if there is one, is a rejection.\<close>

theorem denied_execution_sends_nothing:
  assumes "\<not> ad_allow_execution risk" "map_of (jn_claims (wd_journal w)) (sg_signal_id (mo_signal m)) = None"
  shows "wd_requests (snd (execute E X m risk w)) = wd_requests w
    \<and> wd_journal (snd (execute E X m risk w)) = wd_journal w
    \<and> (\<forall>r. fst (execute E X m risk w) = Inr r \<longrightarrow> cr_state r = REJECTED)"
  using assms
  by (cases "copy_client_order_id (sg_signal_id (mo_signal m)) (ex_environment X)")
    (auto simp: execute_def andThen_def lift_def lookup_def transaction_def lookup_row_def ret_def
      rejected_receipt_def plain_receipt_def split: prod.splits db_outcome.splits)

section \<open>A concrete run\<close>

text \<open>An exchange in hedge mode that answers no order call in time, and a database that commits.\<close>

definition sample_environment :: "unit environment" where
  "sample_environment = \<lparr>env_now = (\<lambda>x. (\<lparr>dt_instant = 0, dt_utcoffset = Some 0\<rparr>, x)),
     env_db = (\<lambda>x. (Committed, x)), env_numeric = (\<lambda>d. d),
     env_position_mode = (\<lambda>x. (Inr [(''dualSidePosition'', JBool True)], x)),
     env_change_initial_leverage = (\<lambda>s l x. (Inr [], x)),
     env_position_risk = (\<lambda>s x. (Inl (TestnetProbeError ''timeout''), x)),
     env_place_order = (\<lambda>ps x. (Inl (TestnetProbeError ''timeout''), x)),
     env_query_order = (\<lambda>s c x. (Inl (TestnetProbeError ''timeout''), x)),
     env_cancel_order = (\<lambda>s c x. (Inl (TestnetProbeError ''timeout''), x)),
     env_open_orders = (\<lambda>s x. (Inl (TestnetProbeError ''timeout''), x)),
     env_sleep = (\<lambda>d x. x)\<rparr>"

definition sample_executor :: executor where
  "sample_executor = \<lparr>ex_fill_price_retry_delays = [0, 1], ex_environment = TESTNET\<rparr>"

definition sample_market_order :: copy_market_order where
  "sample_market_order = sample_limit_order\<lparr>mo_order_type := MARKET, mo_limit_price := None\<rparr>"

definition sample_risk :: "bool \<Rightarrow> account_risk_decision" where
  "sample_risk b = \<lparr>ad_level = NORMAL, ad_allow_execution = b, ad_pause_new_entries = False,
     ad_reduce_all_required = False, ad_reason_codes = []\<rparr>"

definition sample_world :: "unit world" where
  "sample_world = \<lparr>wd_journal = \<lparr>jn_claims = [], jn_upgrades = [], jn_events = []\<rparr>, wd_requests = [], wd_outside = ()\<rparr>"

lemma sample_market_order_ok: "copy_market_order_check sample_market_order = Inr sample_market_order"
  by code_simp

lemma sample_market_order_simps:
  "sg_signal_id (mo_signal sample_market_order) = sample_id" "sg_kind (mo_signal sample_market_order) = INCREASE"
  "mo_order_type sample_market_order = MARKET"
  by (simp_all add: sample_market_order_def sample_limit_order_def sample_signal_def)

lemma timeout_reasons: "definitive_place_rejection_reasons ''timeout'' = []"
  by code_simp

lemma sample_finish:
  "\<exists>w'. finish sample_environment None r w = (Inr r, w') \<and> wd_requests w' = wd_requests w
     \<and> claims_of (wd_journal w') = claims_of (wd_journal w)"
  by (auto simp: finish_def record_now_def record_at_def record_event_def make_submission_event_def
      execution_require_utc_def is_utc_def clock_def andThen_def lift_def ret_def outside_def transaction_def
      sample_environment_def claims_of_def Let_def)

lemma sample_run:
  assumes "copy_client_order_id sample_id TESTNET = Inr cid" "order_parameters sample_market_order cid = Inr ps"
    "request_hash sample_market_order cid = Inr hash"
  shows "\<exists>w. execute sample_environment sample_executor sample_market_order (sample_risk True) sample_world
      = (Inr (unknown_receipt sample_market_order cid [''COPY_SUBMISSION_STATUS_UNKNOWN'']), w)
    \<and> placed (wd_requests w) = [ps]
    \<and> claims_of (wd_journal w) = [new_claim sample_market_order cid hash \<lparr>dt_instant = 0, dt_utcoffset = Some 0\<rparr>]"
proof -
  let ?r = "unknown_receipt sample_market_order cid [''COPY_SUBMISSION_STATUS_UNKNOWN'']"
  have "\<exists>w. execute sample_environment sample_executor sample_market_order (sample_risk True) sample_world
        = finish sample_environment None ?r w \<and> placed (wd_requests w) = [ps]
      \<and> claims_of (wd_journal w) = [new_claim sample_market_order cid hash \<lparr>dt_instant = 0, dt_utcoffset = Some 0\<rparr>]"
    using assms
    by (auto simp: execute_def claim_and_submit_def submit_def reconcile_after_uncertain_submit_def
        make_submission_event_def execution_require_utc_def is_utc_def
        now_utc_def clock_def andThen_def tryProbe_def lift_def ret_def outside_def emit_def place_order_def
        change_initial_leverage_def lookup_def lookup_row_def transaction_def claim_def conflicting_def event_known_def
        insert_claim_def claims_of_def timeout_reasons sample_market_order_simps sample_environment_def placed_def
        sample_executor_def sample_risk_def sample_world_def doc_get_def Let_def new_claim_def)
  then show ?thesis using sample_finish [of ?r] by metis
qed

lemma sample_reached:
  obtains w ps c cid hash where "reachable sample_environment sample_executor w" "ps \<in> set (placed (wd_requests w))"
    "c \<in> set (claims_of (wd_journal w))" "sc_order_type c = MARKET"
    "execute sample_environment sample_executor sample_market_order (sample_risk True) sample_world
      = (Inr (unknown_receipt sample_market_order cid [''COPY_SUBMISSION_STATUS_UNKNOWN'']), w)"
proof -
  obtain cid where cid: "copy_client_order_id sample_id TESTNET = Inr cid"
    using sample_order_ok(2) by (auto simp: copy_client_order_id_def client_id_with_def)
  obtain ps where ps: "order_parameters sample_market_order cid = Inr ps"
    by (simp add: order_parameters_def sample_market_order_simps)
  obtain hash where hash: "request_hash sample_market_order cid = Inr hash"
    using request_hash_ok [OF sample_market_order_ok] by blast
  obtain w where w: "execute sample_environment sample_executor sample_market_order (sample_risk True) sample_world
      = (Inr (unknown_receipt sample_market_order cid [''COPY_SUBMISSION_STATUS_UNKNOWN'']), w)"
    "placed (wd_requests w) = [ps]"
    "claims_of (wd_journal w) = [new_claim sample_market_order cid hash \<lparr>dt_instant = 0, dt_utcoffset = Some 0\<rparr>]"
    using sample_run [OF cid ps hash] by blast
  have "reachable sample_environment sample_executor sample_world" by (rule start) (simp_all add: sample_world_def)
  from reachable.execute [OF this, of sample_market_order "sample_risk True"]
  have "reachable sample_environment sample_executor w" by (simp add: w(1))
  with w show thesis
    by (intro that [of w ps "new_claim sample_market_order cid hash \<lparr>dt_instant = 0, dt_utcoffset = Some 0\<rparr>"]) (simp_all add: new_claim_def sample_market_order_simps)
qed

theorem placed_orders_are_claimed_witness:
  "\<exists>w ps c. reachable sample_environment sample_executor w \<and> ps \<in> set (placed (wd_requests w))
     \<and> c \<in> set (claims_of (wd_journal w)) \<and> client_id ps = Some (sc_client_order_id c)"
proof -
  obtain w ps where w: "reachable sample_environment sample_executor w" "ps \<in> set (placed (wd_requests w))"
    by (rule sample_reached)
  with placed_orders_are_claimed [OF this] show ?thesis by blast
qed

theorem submitted_at_most_once_witness:
  "\<exists>w c. reachable sample_environment sample_executor w \<and> c \<in> set (claims_of (wd_journal w))
     \<and> submissions (sc_client_order_id c) (wd_requests w) \<le> 1"
proof -
  obtain w c where w: "reachable sample_environment sample_executor w" "c \<in> set (claims_of (wd_journal w))"
    "sc_order_type c = MARKET"
    by (rule sample_reached)
  with submitted_at_most_once [OF w(1,2)] show ?thesis by blast
qed


theorem denied_execution_sends_nothing_witness:
  "wd_requests (snd (execute sample_environment sample_executor sample_market_order (sample_risk False) sample_world)) = []"
  using denied_execution_sends_nothing [of "sample_risk False" sample_world sample_market_order sample_environment sample_executor]
  by (simp add: sample_world_def sample_risk_def)

end
