(* ===== verification/RuntimeSafety.thy ===== *)
theory RuntimeSafety
  imports Runtime ExecutorSafety
begin

text \<open>
  Safety of the orchestration of theory \<open>Runtime\<close>, for every behaviour of the repository and the
  exchange. Its methods are shown once, inside a locale, to keep any property of the runtime that does
  not depend on the outside state, the attributes of the runtime and harmless writes; the locale is then
  interpreted on what each theorem needs.
\<close>

section \<open>Keeping a property of the runtime\<close>

lemma rkeeps_reading [rkeeps_intros]: "rkeeps I (reading f)"
  by (simp add: rkeeps_def reading_def)

locale runtime_property =
  fixes I :: "'x runtime \<Rightarrow> bool" and harmless :: "effect \<Rightarrow> bool"
  assumes outside: "I r \<Longrightarrow> I (r\<lparr>rt_world := (rt_world r)\<lparr>wd_outside := x\<rparr>\<rparr>)"
    and attributes: "I r \<Longrightarrow> rt_world r' = rt_world r \<Longrightarrow> rt_effects r' = rt_effects r \<Longrightarrow> rt_processed r' = rt_processed r \<Longrightarrow> I r'"
    and writes: "I r \<Longrightarrow> harmless e \<Longrightarrow> I (r\<lparr>rt_effects := e # rt_effects r\<rparr>)"
    and harmless: "harmless (Incident k)" "harmless (Valuation av)"
      "harmless (Poll l ps n u cs t)" "harmless (Lifecycle l lc cs t)"
begin

lemma rkeeps_service: "rkeeps I (service op)"
  by (simp add: rkeeps_def service_def on_world_def outside_def split_beta outside)

lemma rkeeps_clock: "rkeeps I (runtime_clock E)"
  by (simp add: rkeeps_def runtime_clock_def clock_def on_world_def outside_def split_beta outside)

lemma rkeeps_wrote: "harmless e \<Longrightarrow> rkeeps I (wrote e)"
  by (simp add: rkeeps_def wrote_def changing_def writes)

lemma rkeeps_changing:
  "(\<And>r. rt_world (f r) = rt_world r) \<Longrightarrow> (\<And>r. rt_effects (f r) = rt_effects r)
    \<Longrightarrow> (\<And>r. rt_processed (f r) = rt_processed r) \<Longrightarrow> rkeeps I (changing f)"
  using attributes by (auto simp: rkeeps_def changing_def)

lemmas base_intros = rkeeps_intros rkeeps_service rkeeps_clock rkeeps_changing rkeeps_wrote harmless

lemma rkeeps_request_incident: "rkeeps I (request_incident S k)"
  unfolding request_incident_def by (intro base_intros)

lemma rkeeps_read_symbol_rules: "rkeeps I (read_symbol_rules S symbol)"
  unfolding read_symbol_rules_def exchange_info_def by (intro base_intros; simp)

lemma rkeeps_logical_account_snapshot: "rkeeps I (logical_account_snapshot C S now)"
  unfolding logical_account_snapshot_def Let_def by (intro base_intros; simp)

lemma rkeeps_signal_inputs: "rkeeps I (signal_inputs C S s now)"
  unfolding signal_inputs_def by (intro base_intros rkeeps_read_symbol_rules rkeeps_logical_account_snapshot)

lemma rkeeps_outcome_time: "rkeeps I (outcome_time E now)"
  unfolding outcome_time_def by (intro base_intros)

end

text \<open>A property that also allows decisions to be recorded.\<close>

locale deciding_property = runtime_property +
  assumes deciding: "harmless (Decision i st q cs t)"
begin

lemma rkeeps_record_decision: "rkeeps I (record_decision S s st q cs t)"
  unfolding record_decision_def Let_def by (intro base_intros deciding rkeeps_request_incident)

lemma rkeeps_plan_signal: "rkeeps I (plan_signal C S s a claimed rules price account source_before now)"
  unfolding plan_signal_def plan_entry_def plan_exit_def reject_size_def Let_def
  by (intro base_intros rkeeps_record_decision rkeeps_request_incident)

text \<open>Without execution the runtime only decides.\<close>

lemma rkeeps_decide_shadow:
  assumes "\<not> execution_enabled C"
  shows "rkeeps I (decide_signal E C S s a claimed now x)"
  unfolding decide_signal_def react_to_risk_def execute_plan_def Let_def using assms
  by (intro base_intros rkeeps_plan_signal rkeeps_record_decision; simp)

lemma rkeeps_settle_unclaimed: "rkeeps I (settle_blocked E C S s control None now x)"
  unfolding settle_blocked_def option.case by (intro base_intros rkeeps_record_decision)

lemma rkeeps_process_shadow:
  assumes "\<not> execution_enabled C"
  shows "rkeeps I (process_signal E C S s a)"
  unfolding process_signal_def if_not_P [OF assms] andThen_ret
  by (intro base_intros rkeeps_record_decision rkeeps_settle_unclaimed rkeeps_signal_inputs rkeeps_decide_shadow [OF assms])

end

text \<open>A property that also allows fills to be attributed and the control state to be changed.\<close>

locale acting_property = deciding_property +
  assumes acting: "harmless (Control st actor cs t)" "harmless (Attribution i p u pr l t)"
begin

lemma rkeeps_attribute_increase: "rkeeps I (attribute_increase S s receipt t)"
  unfolding attribute_increase_def record_virtual_position_def Let_def
  by (intro base_intros acting rkeeps_record_decision)

lemma rkeeps_react: "rkeeps I (react_to_risk C S risk now)"
  unfolding react_to_risk_def append_runtime_control_def by (intro base_intros acting)

lemma rkeeps_blocked_result: "rkeeps I (record_blocked_claim_result S s receipt t)"
  unfolding record_blocked_claim_result_def Let_def
  by (intro base_intros rkeeps_record_decision rkeeps_attribute_increase)

lemma rkeeps_settle: "rkeeps I (settle_receipt S s p receipt t)"
  unfolding settle_receipt_def settle_fill_def record_virtual_position_def Let_def
  by (intro base_intros acting rkeeps_record_decision rkeeps_attribute_increase)

text \<open>An entry that is blocked only needs its pending order to be cancelled.\<close>

lemma rkeeps_settle_blocked:
  assumes "\<And>reason. rkeeps I (on_world (cancel_pending_increase E (cf_executor C) s reason))"
  shows "rkeeps I (settle_blocked E C S s control claimed now x)"
  unfolding settle_blocked_def by (intro base_intros assms rkeeps_record_decision rkeeps_blocked_result)

end

text \<open>A property that the methods of the executor keep as well.\<close>

locale executing_property = acting_property I harmless for I :: "'x runtime \<Rightarrow> bool" and harmless +
  fixes E :: "'x environment" and C :: runtime_config
  assumes execute: "rkeeps I (on_world (execute E (cf_executor C) m risk))"
    and claimed_order: "rkeeps I (on_world (claimed_order E s))"
    and cancel: "rkeeps I (on_world (cancel_pending_increase E (cf_executor C) s reason))"
begin

lemma rkeeps_cancel_entries: "rkeeps I (cancel_entries E C S now entries)"
proof (induction entries)
  case Nil
  show ?case unfolding cancel_entries.simps by (rule rkeeps_ret)
next
  case (Cons e es)
  show ?case unfolding cancel_entries.simps
    by (intro base_intros cancel rkeeps_attribute_increase rkeeps_record_decision Cons)
qed

lemma rkeeps_cancel_rounds: "rkeeps I (cancel_rounds E C S s now n)"
proof (induction n)
  case 0
  show ?case unfolding cancel_rounds.simps by (rule rkeeps_ret)
next
  case (Suc n)
  show ?case unfolding cancel_rounds.simps by (intro base_intros rkeeps_cancel_entries Suc)
qed

lemma rkeeps_decide: "rkeeps I (decide_signal E C S s a claimed now x)"
  unfolding decide_signal_def execute_plan_def cancel_superseded_entries_def Let_def
  by (intro base_intros execute rkeeps_react rkeeps_cancel_rounds rkeeps_record_decision rkeeps_plan_signal
      rkeeps_outcome_time rkeeps_settle)

lemma rkeeps_process_signal: "rkeeps I (process_signal E C S s a)"
  unfolding process_signal_def
  by (intro base_intros claimed_order rkeeps_settle_blocked cancel rkeeps_record_decision rkeeps_signal_inputs rkeeps_decide)

lemma rkeeps_process_all: "rkeeps I (process_all E C S a ss)"
proof (induction ss)
  case Nil
  show ?case unfolding process_all.simps by (rule rkeeps_ret)
next
  case (Cons s ss)
  show ?case unfolding process_all.simps by (intro base_intros rkeeps_process_signal Cons)
qed

lemma rkeeps_cancel_stopped_sides: "rkeeps I (cancel_stopped_sides E C S stop a sides)"
proof (induction sides)
  case Nil
  show ?case unfolding cancel_stopped_sides.simps by (rule rkeeps_ret)
next
  case (Cons s ss)
  show ?case unfolding cancel_stopped_sides.simps
    by (intro base_intros rkeeps_process_all rkeeps_request_incident Cons)
qed

lemma rkeeps_cancel_stopped: "rkeeps I (cancel_stopped_leader_symbol_entries E C S stop a)"
  unfolding cancel_stopped_leader_symbol_entries_def by (rule rkeeps_cancel_stopped_sides)

end

section \<open>Shadow and observe modes\<close>

fun is_decision :: "effect \<Rightarrow> bool" where
  "is_decision (Decision _ _ _ _ _) = True"
| "is_decision _ = False"

fun is_action :: "effect \<Rightarrow> bool" where
  "is_action (Control _ _ _ _) = True"
| "is_action (Attribution _ _ _ _ _ _) = True"
| "is_action _ = False"

definition decisions :: "'x runtime \<Rightarrow> effect list" where
  "decisions r = filter is_decision (rt_effects r)"

text \<open>The journal, the requests and the consequential writes stay as they are.\<close>

definition untouched :: "journal \<Rightarrow> request list \<Rightarrow> effect list \<Rightarrow> 'x runtime \<Rightarrow> bool" where
  "untouched j q es r \<longleftrightarrow> wd_journal (rt_world r) = j \<and> wd_requests (rt_world r) = q \<and> filter is_action (rt_effects r) = es"

interpretation observing: deciding_property "untouched j q es" "\<lambda>e. \<not> is_action e" for j q es
  by unfold_locales (simp_all add: untouched_def)

interpretation undecided: runtime_property "\<lambda>r. decisions r = ds" "\<lambda>e. \<not> is_decision e" for ds
  by unfold_locales (simp_all add: decisions_def)

text \<open>Computations that return with one decision on a signal, when \<open>c\<close> holds of the result, or none.\<close>

definition decided :: "normalized_signal \<Rightarrow> bool \<Rightarrow> effect list \<Rightarrow> effect list \<Rightarrow> bool" where
  "decided s b ds ds' \<longleftrightarrow> (if b then \<exists>st q cs t. ds' = Decision (sg_signal_id s) st q cs t # ds else ds' = ds)"

definition decides :: "normalized_signal \<Rightarrow> ('a \<Rightarrow> bool) \<Rightarrow> ('x, 'a) run \<Rightarrow> bool" where
  "decides s c f \<longleftrightarrow> (\<forall>r a r'. f r = (Inr a, r') \<longrightarrow> decided s (c a) (decisions r) (decisions r'))"

definition silent :: "('x, 'a) run \<Rightarrow> bool" where
  "silent f \<longleftrightarrow> (\<forall>ds. rkeeps (\<lambda>r. decisions r = ds) f)"

named_theorems decides_intros \<open>computations that decide a signal\<close>

lemma silentD: "silent f \<Longrightarrow> f r = (x, r') \<Longrightarrow> decisions r' = decisions r"
  using rkeepsD [of "\<lambda>w. decisions w = decisions r" f r] by (simp add: silent_def)

lemma silent_intros:
  "silent (ret a)" "silent (lift x)" "silent (reading f)" "silent (service op)" "silent (runtime_clock E)"
  "silent (signal_inputs C S s now)" "silent (request_incident S k)"
  by (simp_all add: silent_def rkeeps_intros undecided.rkeeps_service undecided.rkeeps_clock
      undecided.rkeeps_signal_inputs undecided.rkeeps_request_incident)

lemma decides_after [decides_intros]:
  assumes "silent f" "\<And>a. decides s c (g a)"
  shows "decides s c (andThen f g)"
  unfolding decides_def
proof (intro allI impI)
  fix r b r' assume "andThen f g r = (Inr b, r')"
  then obtain a w where f: "f r = (Inr a, w)" and g: "g a w = (Inr b, r')" by (rule andThen_InrE)
  have "decided s (c b) (decisions w) (decisions r')"
    using assms(2) g by (simp add: decides_def)
  then show "decided s (c b) (decisions r) (decisions r')"
    by (simp only: silentD [OF assms(1) f])
qed

text \<open>After a computation that may decide: nothing more when it did.\<close>

lemma decides_then:
  assumes "decides s d f" "\<And>a. d a \<Longrightarrow> silent (g a)" "\<And>a r b r'. d a \<Longrightarrow> g a r = (Inr b, r') \<Longrightarrow> c b"
    "\<And>a. \<not> d a \<Longrightarrow> decides s c (g a)"
  shows "decides s c (andThen f g)"
  unfolding decides_def
proof (intro allI impI)
  fix r b r' assume "andThen f g r = (Inr b, r')"
  then obtain a w where f: "f r = (Inr a, w)" and g: "g a w = (Inr b, r')" by (rule andThen_InrE)
  have fd: "decided s (d a) (decisions r) (decisions w)"
    using assms(1) f by (simp add: decides_def)
  show "decided s (c b) (decisions r) (decisions r')"
  proof (cases "d a")
    case True
    with fd show ?thesis by (simp add: assms(3) [OF True g] silentD [OF assms(2) [OF True] g])
  next
    case False
    have "decided s (c b) (decisions w) (decisions r')"
      using assms(4) [OF False] g by (simp add: decides_def)
    with False fd show ?thesis by (simp add: decided_def)
  qed
qed

lemma decides_ret [decides_intros]: "\<not> c a \<Longrightarrow> decides s c (ret a)"
  by (simp add: decides_def ret_def decided_def)

lemma decides_raise [decides_intros]: "decides s c (raise e)"
  by (simp add: decides_def raise_def)

lemma decides_if [decides_intros]: "(b \<Longrightarrow> decides s c f) \<Longrightarrow> (\<not> b \<Longrightarrow> decides s c g) \<Longrightarrow> decides s c (if b then f else g)"
  by simp

lemma decides_option [decides_intros]:
  "decides s c f \<Longrightarrow> (\<And>a. decides s c (g a)) \<Longrightarrow> decides s c (case x of None \<Rightarrow> f | Some a \<Rightarrow> g a)"
  by (simp split: option.split)

lemma decides_prod [decides_intros]: "(\<And>a b. decides s c (g a b)) \<Longrightarrow> decides s c (case x of (a, b) \<Rightarrow> g a b)"
  by (simp split: prod.split)

lemma decides_tryExcept [decides_intros]:
  assumes "silent f" "\<And>e. decides s c (h e)" "\<And>a. decides s c (g a)"
  shows "decides s c (tryExcept p f h g)"
  unfolding decides_def
proof (intro allI impI)
  fix r b r' assume run: "tryExcept p f h g r = (Inr b, r')"
  obtain x w where f: "f r = (x, w)" by fastforce
  with run consider e where "h e w = (Inr b, r')" | a where "g a w = (Inr b, r')"
    by (cases x) (auto simp: tryExcept_def split: if_splits)
  then have "decided s (c b) (decisions w) (decisions r')"
    using assms(2,3) by cases (simp_all add: decides_def)
  then show "decided s (c b) (decisions r) (decisions r')"
    by (simp only: silentD [OF assms(1) f])
qed

lemma decides_record [decides_intros]: "decides s (\<lambda>_. True) (record_decision S s st q cs t)"
proof -
  have w: "decides s (\<lambda>_. True) (wrote (Decision (sg_signal_id s) st q cs t))"
    by (auto simp: decides_def decided_def wrote_def changing_def decisions_def)
  have "silent (andThen (service op) (\<lambda>_. if b then request_incident S k else ret ()))" for op b k
    by (simp add: silent_def rkeeps_intros undecided.rkeeps_service undecided.rkeeps_request_incident)
  then show ?thesis unfolding record_decision_def Let_def by (intro decides_then [OF w]) (simp_all only: simp_thms)
qed

lemma decides_plan: "decides s (\<lambda>p. p = None) (plan_signal C S s a claimed rules price account source_before now)"
proof -
  have r: "decides s (\<lambda>p. p = None) (andThen (record_decision S s st q cs t) (\<lambda>_. ret None))" for st q cs t
    by (rule decides_then [OF decides_record]) (simp_all add: silent_intros, simp add: ret_def)
  have z: "decides s (\<lambda>p. p = None) (andThen (reject_size S s d t) (\<lambda>_. ret None))" for d t
    unfolding reject_size_def Let_def
    by (intro decides_then [of _ "\<lambda>_. True"] decides_record) (simp_all add: silent_intros, simp add: ret_def)
  have o: "silent (case claimed of Some m \<Rightarrow> ret m | None \<Rightarrow> lift x)" for x :: "copy_market_order result"
    by (simp add: silent_intros split: option.split)
  show ?thesis unfolding plan_signal_def plan_entry_def plan_exit_def
    by (intro decides_intros silent_intros r z o) (simp_all add: ret_def)
qed

lemma shadow_decides:
  assumes "\<not> execution_enabled C"
  shows "decides s (\<lambda>_. True) (process_signal E C S s a)"
proof -
  have blocked: "decides s (\<lambda>_. True) (settle_blocked E C S s control None now x)" for control now x
    unfolding settle_blocked_def option.case by (intro decides_intros)
  have exec: "decides s (\<lambda>_. True) (execute_plan E C S s risk now p)" for risk now p
    unfolding execute_plan_def using assms by (simp add: decides_record)
  have planned: "decides s (\<lambda>_. True) (andThen (plan_signal C S s a claimed rules price account source now) (\<lambda>planned.
      case planned of None \<Rightarrow> ret () | Some p \<Rightarrow> execute_plan E C S s risk now p))" for claimed rules price account source now risk
    by (rule decides_then [OF decides_plan]) (auto simp: silent_intros exec)
  have "decides s (\<lambda>_. True) (decide_signal E C S s a claimed now x)" for claimed now x
    unfolding decide_signal_def react_to_risk_def Let_def using assms
    by (auto intro!: decides_intros silent_intros planned split: prod.split)
  then show ?thesis unfolding process_signal_def if_not_P [OF assms] andThen_ret
    by (intro decides_intros silent_intros blocked) (simp_all add: silent_intros)
qed

text \<open>Shadow and observe modes only observe. Whatever the repository and the exchange do, processing a
  signal leaves the submission journal and the requests sent to the exchange untouched, attributes no
  fill and changes no control state; and a signal that is processed to the end gets exactly one
  decision.\<close>

theorem shadow_mode_only_observes:
  assumes "\<not> execution_enabled C" "process_signal E C S s a r = (x, r')"
  shows "wd_journal (rt_world r') = wd_journal (rt_world r) \<and> wd_requests (rt_world r') = wd_requests (rt_world r)
    \<and> filter is_action (rt_effects r') = filter is_action (rt_effects r)
    \<and> (x = Inr () \<longrightarrow> (\<exists>st q cs t. filter is_decision (rt_effects r')
        = Decision (sg_signal_id s) st q cs t # filter is_decision (rt_effects r)))"
proof -
  let ?I = "untouched (wd_journal (rt_world r)) (wd_requests (rt_world r)) (filter is_action (rt_effects r))"
  have "rkeeps ?I (process_signal E C S s a)" using assms(1) by (rule observing.rkeeps_process_shadow)
  from rkeepsD [OF this, of r] assms(2) have "?I r'" by (simp add: untouched_def)
  moreover have "x = Inr () \<longrightarrow> decided s True (decisions r) (decisions r')"
    using shadow_decides [OF assms(1), of s E S a] assms(2) by (auto simp: decides_def)
  ultimately show ?thesis by (simp add: untouched_def decided_def decisions_def)
qed

section \<open>Blocked entries\<close>

text \<open>No order is placed and no claim is written.\<close>

definition unplaced :: "(string \<times> string) list list \<Rightarrow> submission_claim list \<Rightarrow> journal \<Rightarrow> request list \<Rightarrow> bool" where
  "unplaced ps cs j rs \<longleftrightarrow> placed rs = ps \<and> claims_of j = cs"

interpretation unplaced: stable_property "unplaced ps cs" for ps cs
  by unfold_locales (simp_all add: unplaced_def)

lemma cancel_places_nothing: "keeps (unplaced ps cs) (cancel_pending_increase E X s reason)"
proof -
  have "keeps (unplaced ps cs) (reconcile_existing E X m cid t)" if "mo_order_type m \<noteq> LIMIT" for m cid t
  proof -
    have "resubmittable (unplaced ps cs) m cid" using that by unfold_locales simp
    then show ?thesis by (rule resubmittable.keeps_reconcile_existing)
  qed
  then have "keeps (unplaced ps cs) (if mo_order_type m \<noteq> LIMIT then reconcile_existing E X m cid t
      else cancel_existing E X m cid reason t)" for m cid t
    by (simp add: unplaced.keeps_cancel_existing)
  then show ?thesis unfolding cancel_pending_increase_def
    by (intro keeps_andThen keeps_option keeps_ret keeps_lift unplaced.keeps_lookup)
qed

text \<open>Properties of journal and requests alone.\<close>

definition of_world :: "(journal \<Rightarrow> request list \<Rightarrow> bool) \<Rightarrow> 'x runtime \<Rightarrow> bool" where
  "of_world Q r \<longleftrightarrow> Q (wd_journal (rt_world r)) (wd_requests (rt_world r))"

interpretation worldly: acting_property "of_world Q" "\<lambda>_. True" for Q
  by unfold_locales (simp_all add: of_world_def)

lemma on_world_keeps: "keeps Q f \<Longrightarrow> rkeeps (of_world Q) (on_world f)"
  by (simp add: keeps_def rkeeps_def of_world_def on_world_def split_beta)

lemma service_returns:
  assumes "service op r = (Inr a, r')"
  obtains j x x' where "op j x = (Inr a, x')"
  using assms by (auto simp: service_def on_world_def outside_def split: prod.splits)

lemma blocked_runtime_places_nothing:
  assumes "sg_kind s = INCREASE"
    and gate: "\<And>control stop. (\<exists>j x x'. sv_latest_runtime_control S j x = (Inr control, x'))
      \<Longrightarrow> (execution_enabled C \<Longrightarrow> \<exists>t j x x'. sv_active_leader_symbol_stop S (sg_lead_portfolio_id s) (sg_symbol s) t j x = (Inr stop, x'))
      \<Longrightarrow> (\<not> execution_enabled C \<Longrightarrow> stop = None) \<Longrightarrow> blocked_entry C a stop control \<noteq> None"
  shows "rkeeps (of_world (unplaced ps cs)) (process_signal E C S s a)"
proof -
  let ?I = "of_world (unplaced ps cs)"
  note cancel = on_world_keeps [OF cancel_places_nothing, of ps cs E "cf_executor C" s]
  have lookup: "rkeeps ?I (if execution_enabled C then on_world (claimed_order E s) else ret None)"
    unfolding claimed_order_def
    by (intro rkeeps_intros on_world_keeps keeps_andThen keeps_option keeps_ret keeps_lift unplaced.keeps_lookup)
  have settled: "rkeeps ?I (case blocked_entry C a stop control of
      Some blocked \<Rightarrow> settle_blocked E C S s control claimed now blocked | None \<Rightarrow> g)"
    if "blocked_entry C a stop control \<noteq> None" for stop control claimed now g
    using that worldly.rkeeps_settle_blocked [OF cancel] by auto
  have gated: "rkeeps ?I (andThen (service (sv_latest_runtime_control S)) (\<lambda>control.
      andThen (if execution_enabled C then service (sv_active_leader_symbol_stop S (sg_lead_portfolio_id s) (sg_symbol s) now)
        else ret None) (\<lambda>stop. case blocked_entry C a stop control of
          Some blocked \<Rightarrow> settle_blocked E C S s control claimed now blocked | None \<Rightarrow> g)))" for now claimed g
  proof (intro rkeeps_andThen_of [OF worldly.rkeeps_service] rkeeps_andThen_of settled gate)
    show "rkeeps ?I (if execution_enabled C then service (sv_active_leader_symbol_stop S (sg_lead_portfolio_id s) (sg_symbol s) now)
        else ret None)" by (intro rkeeps_intros worldly.rkeeps_service)
  qed (auto simp: ret_def split: if_splits elim!: service_returns)
  show ?thesis unfolding process_signal_def assms(1) simp_thms if_True
    by (intro rkeeps_andThen [OF worldly.rkeeps_clock] rkeeps_andThen [OF rkeeps_lift]
        rkeeps_andThen [OF worldly.rkeeps_service] rkeeps_option worldly.rkeeps_record_decision
        rkeeps_andThen [OF lookup] gated)
qed

text \<open>C8: a blocked entry opens nothing. When the leader is draining, or the runtime executes and the
  repository reports paused entries, a running flatten or a cooling-down stop of the leader and
  symbol, processing an increase places no order and claims none, whatever else happens: a pending
  order is at most cancelled, including one whose state at the exchange is unknown.\<close>

theorem blocked_entries_place_nothing:
  assumes "sg_kind s = INCREASE" "process_signal E C S s a r = (x, r')"
    and "lg_lifecycle a = DRAINING \<or> execution_enabled C
      \<and> ((\<forall>j y c y'. sv_latest_runtime_control S j y = (Inr c, y') \<longrightarrow> ct_state c \<noteq> RUNNING)
        \<or> (\<forall>t j y v y'. sv_active_leader_symbol_stop S (sg_lead_portfolio_id s) (sg_symbol s) t j y = (Inr v, y') \<longrightarrow> v \<noteq> None))"
  shows "placed (wd_requests (rt_world r')) = placed (wd_requests (rt_world r))
    \<and> claims_of (wd_journal (rt_world r')) = claims_of (wd_journal (rt_world r))"
proof -
  let ?Q = "unplaced (placed (wd_requests (rt_world r))) (claims_of (wd_journal (rt_world r)))"
  have "rkeeps (of_world ?Q) (process_signal E C S s a)"
    using assms(3) by (intro blocked_runtime_places_nothing [OF assms(1)]) (auto simp: blocked_entry_def, meson+)
  from rkeepsD [OF this, of r] assms(2) show ?thesis by (simp add: of_world_def unplaced_def)
qed

section \<open>Concrete runs\<close>

definition sample_info :: document where
  "sample_info = [(''symbols'', JArr [JObj [(''symbol'', JStr ''BTCUSDT''), (''status'', JStr ''TRADING''), (''filters'', JArr
     [JObj [(''filterType'', JStr ''LOT_SIZE''), (''stepSize'', JStr ''0.001''), (''minQty'', JStr ''0.001''), (''maxQty'', JStr ''1000'')],
      JObj [(''filterType'', JStr ''PRICE_FILTER''), (''tickSize'', JStr ''0.10'')],
      JObj [(''filterType'', JStr ''MIN_NOTIONAL''), (''notional'', JStr ''5'')]])]])]"

definition sample_account_document :: document where
  "sample_account_document = [(''canTrade'', JBool True), (''totalWalletBalance'', JStr ''5000''),
     (''totalMarginBalance'', JStr ''5000''), (''availableBalance'', JStr ''5000''), (''totalInitialMargin'', JStr ''0''),
     (''totalMaintMargin'', JStr ''0''), (''positions'', JArr [])]"

definition sample_services :: "runtime_control_state \<Rightarrow> unit services" where
  "sample_services state = \<lparr>sv_attributed_fill_quantity = (\<lambda>_ _ x. (Inr None, x)),
     sv_latest_runtime_control = (\<lambda>_ x. (Inr \<lparr>ct_event_id = None, ct_state = state, ct_actor_id = ''operator'',
       ct_occurred_at = None, ct_reason_codes = []\<rparr>, x)),
     sv_active_leader_symbol_stop = (\<lambda>_ _ _ _ x. (Inr None, x)),
     sv_append_runtime_control = (\<lambda>_ _ _ _ _ _ x. (Inr (), x)),
     sv_source_position_quantity_before = (\<lambda>_ _ x. (Inr None, x)),
     sv_load_virtual_ledger = (\<lambda>_ x. (Inr [], x)),
     sv_portfolio_usage = (\<lambda>_ _ _ _ _ _ x. (Inr sample_usage, x)),
     sv_record_virtual_position = (\<lambda>_ _ _ _ _ _ _ x. (Inr (), x)),
     sv_record_signal_decision = (\<lambda>_ _ _ _ _ _ x. (Inr (), x)),
     sv_pending_increase_signals = (\<lambda>_ _ _ _ _ x. (Inr [], x)),
     sv_ensure_envelope_baseline = (\<lambda>m _ _ _ x. (Inr m, x)),
     sv_record_account_valuation = (\<lambda>_ _ x. (Inr ''event'', x)),
     sv_exchange_info = (\<lambda>_ x. (Inr sample_info, x)),
     sv_account_information = (\<lambda>_ x. (Inr sample_account_document, x)),
     sv_account_information_v2 = (\<lambda>_ x. (Inr sample_account_document, x)),
     sv_position_mode = (\<lambda>_ x. (Inr [(''dualSidePosition'', JBool True)], x)),
     sv_symbol_config = (\<lambda>_ _ x. (Inr [[(''symbol'', JStr ''BTCUSDT''), (''leverage'', JInt 0)]], x)),
     sv_leverage_brackets = (\<lambda>_ _ x. (Inr [[(''symbol'', JStr ''BTCUSDT''), (''brackets'', JArr [JObj [(''initialLeverage'', JInt 20)]])]], x)),
     sv_all_open_orders = (\<lambda>_ x. (Inr [], x)),
     sv_incident_callback = None,
     sv_invalid_operation_text = ''[<class 'decimal.InvalidOperation'>]''\<rparr>"

definition sample_config :: "runtime_mode \<Rightarrow> runtime_config" where
  "sample_config mode = \<lparr>cf_mode = mode, cf_allocation_policy = default_allocation_policy, cf_executor = sample_executor\<rparr>"

definition sample_assignment :: leader_assignment where
  "sample_assignment = \<lparr>lg_lead_portfolio_id = ''4001'', lg_nickname = ''leader'', lg_lifecycle = ACTIVE,
     lg_source_aum_usdt = dec 100000, lg_portfolio_weight = dec 1, lg_slot = None, lg_follow_multiplier = 1\<rparr>"

definition sample_start :: "unit runtime" where
  "sample_start = new_runtime sample_world True"

theorem shadow_mode_only_observes_witness:
  "\<exists>r' st q cs t. process_signal sample_environment (sample_config SHADOW) (sample_services RUNNING) (mo_signal sample_limit_order)
      (sample_assignment\<lparr>lg_lifecycle := DRAINING\<rparr>) sample_start = (Inr (), r')
    \<and> wd_requests (rt_world r') = [] \<and> filter is_decision (rt_effects r') = [Decision sample_id st q cs t]"
proof -
  let ?run = "process_signal sample_environment (sample_config SHADOW) (sample_services RUNNING) (mo_signal sample_limit_order)
      (sample_assignment\<lparr>lg_lifecycle := DRAINING\<rparr>) sample_start"
  have "fst ?run = Inr ()" by code_simp
  then have run: "?run = (Inr (), snd ?run)" by (metis prod.collapse)
  have "\<not> execution_enabled (sample_config SHADOW)" by (simp add: execution_enabled_def sample_config_def)
  from shadow_mode_only_observes [OF this run] run show ?thesis
    by (auto simp: sample_start_def new_runtime_def sample_world_def sample_limit_order_def)
qed

theorem blocked_entries_place_nothing_witness:
  "placed (wd_requests (rt_world (snd (process_signal sample_environment (sample_config TESTNET_MODE)
     (sample_services PAUSED_NEW_ENTRIES) (mo_signal sample_limit_order) sample_assignment sample_start)))) = []"
proof -
  let ?run = "process_signal sample_environment (sample_config TESTNET_MODE) (sample_services PAUSED_NEW_ENTRIES)
      (mo_signal sample_limit_order) sample_assignment sample_start"
  have "sg_kind (mo_signal sample_limit_order) = INCREASE" by (simp add: sample_limit_order_def sample_signal_def)
  moreover have "?run = (fst ?run, snd ?run)" by simp
  ultimately have "placed (wd_requests (rt_world (snd ?run))) = placed (wd_requests (rt_world sample_start))"
    using blocked_entries_place_nothing [of "mo_signal sample_limit_order" sample_environment "sample_config TESTNET_MODE"
        "sample_services PAUSED_NEW_ENTRIES" sample_assignment sample_start "fst ?run" "snd ?run"]
    by (simp add: execution_enabled_def sample_config_def sample_services_def)
  then show ?thesis by (simp add: sample_start_def new_runtime_def sample_world_def)
qed

end
