(* ===== verification/PublicSafety.thy ===== *)
theory PublicSafety
  imports PublicClient
begin

text \<open>
  What the public data client guarantees for every behaviour of the service behind it: the number of
  requests of each read is bounded, only allowlisted destinations are contacted, rows are merged without
  repetition and refused when their identity is ambiguous, and a catch-up read covers its watermark.
\<close>

section \<open>Bounded reads\<close>

text \<open>A computation adds at most \<open>k\<close> to a meter of the outside state.\<close>

definition uses :: "('s \<Rightarrow> nat) \<Rightarrow> nat \<Rightarrow> ('s, 'a) comp \<Rightarrow> bool" where
  "uses m k f \<longleftrightarrow> (\<forall>x. m (snd (f x)) \<le> m x + k)"

lemma usesD: "uses m k f \<Longrightarrow> f x = (r, y) \<Longrightarrow> m y \<le> m x + k"
  by (metis uses_def snd_conv)

lemma usesI: "(\<And>x r y. f x = (r, y) \<Longrightarrow> m y \<le> m x + k) \<Longrightarrow> uses m k f"
  by (metis uses_def prod.collapse)

lemma uses_ret [simp]: "uses m k (ret a)" and uses_raise [simp]: "uses m k (raise e)"
  and uses_lift [simp]: "uses m k (lift r)"
  by (simp_all add: uses_def ret_def raise_def lift_def)

lemma uses_mono: "uses m j f \<Longrightarrow> j \<le> k \<Longrightarrow> uses m k f"
  by (auto simp: uses_def intro: order_trans)

lemma uses_andThen:
  assumes "uses m j f" "\<And>a. uses m k (g a)" "j + k \<le> n"
  shows "uses m n (andThen f g)"
proof (rule usesI)
  fix x r y assume run: "andThen f g x = (r, y)"
  obtain q w where f: "f x = (q, w)" by fastforce
  note b = usesD [OF assms(1) f]
  show "m y \<le> m x + n"
  proof (cases q)
    case (Inl e) with run f b assms(3) show ?thesis by (simp add: andThen_def)
  next
    case (Inr a) with run f have "g a w = (r, y)" by (simp add: andThen_def)
    from usesD [OF assms(2) this] b assms(3) show ?thesis by simp
  qed
qed

lemma uses_tryExcept:
  assumes "uses m j f" "\<And>e. uses m k (h e)" "\<And>a. uses m k (g a)" "j + k \<le> n"
  shows "uses m n (tryExcept c f h g)"
proof (rule usesI)
  fix x r y assume run: "tryExcept c f h g x = (r, y)"
  obtain q w where f: "f x = (q, w)" by fastforce
  note b = usesD [OF assms(1) f]
  show "m y \<le> m x + n"
  proof (cases q)
    case (Inl e) with run f usesD [OF assms(2) [of e], of w] b assms(4) show ?thesis
      by (fastforce simp: tryExcept_def split: if_splits)
  next
    case (Inr a) with run f have "g a w = (r, y)" by (simp add: tryExcept_def)
    from usesD [OF assms(3) this] b assms(4) show ?thesis by simp
  qed
qed

lemma uses_for_attempts: "(\<And>i. uses m k (body i)) \<Longrightarrow> uses m (n * k) (for_attempts body e i n)"
proof (induction n arbitrary: i)
  case (Suc n)
  have "uses m (n * k) (case r of Some a \<Rightarrow> ret a | None \<Rightarrow> for_attempts body e (Suc i) n)" for r
    using Suc by (cases r) simp_all
  with Suc.prems show ?case by (auto intro: uses_andThen)
qed simp

text \<open>A meter of requests: one request adds at most one, sleeping adds nothing.\<close>

locale metered =
  fixes C :: "'x copy_client" and requests :: "'x \<Rightarrow> nat"
  assumes transport_meter: "requests (snd (cl_transport C method url hs body x)) \<le> requests x + 1"
    and sleeper_meter: "requests (cl_sleeper C d x) = requests x"
begin

lemma uses_retry: "uses requests 0 (retry_continue C attempt)"
  unfolding retry_continue_def
  by (rule uses_andThen [where j = 0 and k = 0]) (simp_all add: uses_def retry_def sleeper_meter ret_def)

lemma uses_send_once: "uses requests 1 (send_once C method path hs body operation attempt)"
  unfolding send_once_def
proof (rule uses_tryExcept [where j = 1 and k = 0])
  show "uses requests 1 (cl_transport C method (BINANCE_WEB_BASE @ path) hs body)"
    using transport_meter by (simp add: uses_def)
qed (simp_all add: uses_retry)

lemma uses_post: "uses requests (nat (cl_retry_attempts C)) (post C path document operation)"
proof -
  have "uses requests 0 (post_answer C operation attempt result)" for attempt result
    by (simp add: post_answer_def uses_retry split: option.split json.split)
  then have "uses requests 1 (post_once C path document operation attempt)" for attempt
    unfolding post_once_def
    by (intro uses_andThen [OF uses_send_once, where k = 0]) (auto split: option.split)
  then show ?thesis unfolding post_def by (metis uses_for_attempts mult.right_neutral)
qed

lemma uses_get_result: "uses requests (nat (cl_retry_attempts C)) (get_result C path operation)"
  unfolding get_result_def by (metis uses_for_attempts uses_send_once mult.right_neutral)

lemma uses_leader_rows: "uses requests (nat (cl_retry_attempts C)) (leader_rows C page rows_per_page tr dt)"
  unfolding leader_rows_def by (rule uses_andThen [OF uses_post, where k = 0]) simp_all

lemma uses_list_leaders: "uses requests (nat (cl_retry_attempts C)) (list_leaders C page rows_per_page tr dt skip)"
  unfolding list_leaders_def
  by (intro uses_andThen [where j = 0 and k = "nat (cl_retry_attempts C)"]
      uses_andThen [OF uses_leader_rows, where k = 0]) (simp_all split: prod.split)

lemma uses_directory_loop:
  "uses requests (nat (max required maximum + 1 - page) * nat (cl_retry_attempts C))
    (directory_loop C tr dt maximum raw d page required)"
proof (induction "nat (max required maximum + 1 - page)" arbitrary: page required d rule: less_induct)
  case less
  let ?a = "nat (cl_retry_attempts C)"
  show ?case
  proof (cases "required < page")
    case True then show ?thesis by (subst directory_loop.simps) simp
  next
    case False
    let ?n = "nat (max required maximum + 1 - page)"
    have "uses requests ((?n - 1) * ?a) (directory_loop C tr dt maximum raw d' (page + 1) required')"
      if "\<not> maximum < required'" for d' required'
    proof (rule uses_mono [OF less])
      show "nat (max required' maximum + 1 - (page + 1)) < ?n" using that False by auto
      have "nat (max required' maximum + 1 - (page + 1)) \<le> ?n - 1" using that False by auto
      then show "nat (max required' maximum + 1 - (page + 1)) * ?a \<le> (?n - 1) * ?a" by simp
    qed
    moreover have "?a + (?n - 1) * ?a = ?n * ?a"
    proof -
      have "?n = Suc (?n - 1)" using False by auto
      then show ?thesis by (metis mult_Suc)
    qed
    ultimately show ?thesis
      using False by (subst directory_loop.simps)
        (auto simp del: One_nat_def intro!: uses_andThen [OF uses_list_leaders _ eq_refl])
  qed
qed

lemma uses_list_all_snapshot:
  "1 \<le> maximum \<Longrightarrow> uses requests (nat maximum * nat (cl_retry_attempts C)) (list_all_leaders_snapshot C tr dt maximum)"
proof -
  assume m: "1 \<le> maximum"
  let ?a = "nat (cl_retry_attempts C)"
  have loop: "uses requests ((nat maximum - 1) * ?a) (directory_loop C tr dt maximum raw d 2 required)"
    if "\<not> maximum < required" for raw d required
  proof -
    have "nat (max required maximum + 1 - 2) = nat maximum - 1" using that by auto
    then show ?thesis by (metis uses_directory_loop)
  qed
  have "?a + (nat maximum - 1) * ?a \<le> nat maximum * ?a"
    using m by (cases "nat maximum") auto
  then show ?thesis unfolding list_all_leaders_snapshot_def Let_def
    by (intro uses_andThen [OF uses_list_leaders]) (auto intro!: uses_andThen [OF loop, where k = 0])
qed

lemma uses_snapshot_once: "uses requests k f \<Longrightarrow> uses requests k (snapshot_once C e f attempt)"
  unfolding snapshot_once_def by (rule uses_tryExcept [where j = k and k = 0]) (simp_all add: uses_retry)

lemma uses_list_all_leaders:
  "uses requests (nat (cl_retry_attempts C) * (nat maximum * nat (cl_retry_attempts C))) (list_all_leaders C tr dt maximum)"
proof (cases "1 \<le> maximum")
  case True
  then show ?thesis unfolding list_all_leaders_def
    by (intro uses_andThen [where j = 0 and k = "nat (cl_retry_attempts C) * (nat maximum * nat (cl_retry_attempts C))"] uses_for_attempts uses_snapshot_once uses_list_all_snapshot) simp_all
next
  case False
  then show ?thesis by (simp add: list_all_leaders_def andThen_def lift_def uses_def)
qed

lemma uses_history_page: "uses requests (nat (cl_retry_attempts C)) (read_order_history_page C leader page rows_per_page guard)"
  unfolding read_order_history_page_def
  by (intro uses_andThen [where j = 0 and k = "nat (cl_retry_attempts C)"] uses_andThen [OF uses_post, where k = 0]
      uses_andThen [where j = 0 and k = 0]) (simp_all split: prod.split)

lemma uses_since_pages:
  "uses requests (length pages * nat (cl_retry_attempts C)) (since_pages C leader after page_size pages merged first_total)"
proof (induction pages arbitrary: merged first_total)
  case (Cons page pages)
  then show ?case by (auto simp: Let_def intro!: uses_andThen [OF uses_history_page])
qed simp

lemma uses_order_history_since:
  "uses requests (nat (cl_retry_attempts C) * (nat maximum * nat (cl_retry_attempts C))) (order_history_since C leader after page_size maximum)"
proof -
  have "uses requests (nat maximum * nat (cl_retry_attempts C)) (order_history_since_snapshot C leader after page_size maximum)"
    unfolding order_history_since_snapshot_def
    by (rule uses_andThen [OF uses_since_pages, where k = 0]) (simp_all split: prod.split)
  then show ?thesis unfolding order_history_since_def by (auto intro!: uses_for_attempts uses_snapshot_once)
qed

lemma uses_find_fast: "uses requests (length rankings * nat (cl_retry_attempts C)) (find_fast C leader tr rankings)"
proof (induction rankings)
  case (Cons ranking rankings)
  then have "uses requests (length rankings * nat (cl_retry_attempts C))
      (case found of None \<Rightarrow> find_fast C leader tr rankings | Some l \<Rightarrow> ret (Some l))" for found
    by (cases found) simp_all
  with Cons show ?case
    by (auto simp: split_beta intro!: uses_tryExcept [OF uses_leader_rows] uses_andThen [where j = 0, OF uses_lift])
qed simp

lemma uses_find_pages: "uses requests (length pages * nat (cl_retry_attempts C)) (find_pages C leader tr pages)"
proof (induction pages)
  case (Cons page pages)
  then have "uses requests (length pages * nat (cl_retry_attempts C))
      (case found of None \<Rightarrow> if b then raise e else find_pages C leader tr pages | Some l \<Rightarrow> ret l)" for found b e
    by (cases found) simp_all
  then show ?case
    by (auto simp: split_beta intro!: uses_andThen [OF uses_leader_rows] uses_andThen [where j = 0, OF uses_lift])
qed simp

lemma uses_find_leader: "uses requests ((3 + nat maximum) * nat (cl_retry_attempts C)) (find_leader C leader tr maximum)"
proof -
  let ?a = "nat (cl_retry_attempts C)"
  have "uses requests (nat maximum * ?a) (case found of None \<Rightarrow> find_pages C leader tr [1..maximum] | Some l \<Rightarrow> ret l)" for found
    using uses_find_pages [of "[1..maximum]"] by (cases found) simp_all
  then show ?thesis using uses_find_fast [of FAST_LEADER_LOOKUP_RANKINGS]
    by (auto simp: find_leader_def FAST_LEADER_LOOKUP_RANKINGS_def add_mult_distrib intro!: uses_andThen)
qed

lemma uses_search_pages:
  "uses requests (length pages * nat (cl_retry_attempts C)) (search_pages C casefold query tr pages acc)"
proof (induction pages arbitrary: acc)
  case (Cons page pages)
  then have "uses requests (length pages * nat (cl_retry_attempts C))
      (if b then ret acc' else search_pages C casefold query tr pages acc')" for b acc'
    by simp
  then show ?case unfolding search_pages.simps split_beta
    by (intro uses_andThen [OF uses_leader_rows, where k = "length pages * nat (cl_retry_attempts C)"]
      uses_andThen [where j = 0 and k = "length pages * nat (cl_retry_attempts C)", OF uses_lift]) simp_all
qed simp

lemma uses_search_leaders:
  "uses requests (nat maximum * nat (cl_retry_attempts C)) (search_leaders C casefold query tr results maximum)"
  using uses_search_pages [of "[1..maximum]"]
  by (auto simp: search_leaders_def Let_def intro!: uses_andThen [where k = 0])

lemma uses_single_reads:
  "uses requests (nat (cl_retry_attempts C)) (leader_availability C leader)"
  "uses requests (nat (cl_retry_attempts C)) (position_history C leader page rows_per_page)"
  by (auto simp: leader_availability_def position_history_def split_beta
      intro!: uses_andThen [OF uses_get_result, where k = 0] uses_andThen [where j = 0, OF uses_lift]
        uses_andThen [OF uses_post, where k = 0])

end

text \<open>The client with a counter of the requests it makes.\<close>

definition counting :: "'x copy_client \<Rightarrow> ('x \<times> nat) copy_client" where
  "counting C = \<lparr>cl_transport = (\<lambda>method url hs body (x, n).
       (case cl_transport C method url hs body x of (r, x') \<Rightarrow> (r, (x', n + 1)))),
     cl_loads = cl_loads C, cl_retry_attempts = cl_retry_attempts C, cl_sleeper = (\<lambda>d (x, n). (cl_sleeper C d x, n))\<rparr>"

interpretation counted: metered "counting C" snd for C :: "'x copy_client"
  by unfold_locales (auto simp: counting_def split: prod.split)

lemma counting_attempts [simp]: "cl_retry_attempts (counting C) = cl_retry_attempts C"
  by (simp add: counting_def)

text \<open>C31: every read of the public service ends after a bounded number of requests, whatever the service
  answers: a directory read repeats at most as often as attempts are configured, reads at most
  \<open>maximum_pages\<close> pages each time although the reported total may grow while it reads, and repeats one page
  at most as often as attempts are configured; likewise for the catch-up, the lookup and the search.\<close>

theorem reads_end:
  "snd (snd (list_all_leaders (counting C) tr dt maximum (x, n))) \<le> n + nat (cl_retry_attempts C) * (nat maximum * nat (cl_retry_attempts C))
    \<and> snd (snd (order_history_since (counting C) leader after page_size maximum (x, n))) \<le> n + nat (cl_retry_attempts C) * (nat maximum * nat (cl_retry_attempts C))
    \<and> snd (snd (find_leader (counting C) leader tr maximum (x, n))) \<le> n + (3 + nat maximum) * nat (cl_retry_attempts C)
    \<and> snd (snd (search_leaders (counting C) casefold query tr results maximum (x, n))) \<le> n + nat maximum * nat (cl_retry_attempts C)
    \<and> snd (snd (leader_availability (counting C) leader (x, n))) \<le> n + nat (cl_retry_attempts C)
    \<and> snd (snd (position_history (counting C) leader page rows_per_page (x, n))) \<le> n + nat (cl_retry_attempts C)
    \<and> snd (snd (read_order_history_page (counting C) leader page rows_per_page guard (x, n))) \<le> n + nat (cl_retry_attempts C)"
  using counted.uses_list_all_leaders [where C = C] counted.uses_order_history_since [where C = C] counted.uses_find_leader [where C = C]
    counted.uses_search_leaders [where C = C] counted.uses_single_reads [where C = C] counted.uses_history_page [where C = C]
  by (simp add: uses_def)

section \<open>Destinations\<close>

text \<open>The client with a transport that refuses what the allowlist of the program refuses.\<close>

definition guarded :: "'x copy_client \<Rightarrow> 'x copy_client" where
  "guarded C = C\<lparr>cl_transport := (\<lambda>method url hs body.
     if destination_allowed method url then cl_transport C method url hs body
     else raise (public_error ''COPY_PUBLIC_DESTINATION_DENIED''))\<rparr>"

lemma guarded_fields [simp]:
  "cl_loads (guarded C) = cl_loads C" "cl_retry_attempts (guarded C) = cl_retry_attempts C" "cl_sleeper (guarded C) = cl_sleeper C"
  by (simp_all add: guarded_def)

lemma guarded_retry [simp]:
  "retry_continue (guarded C) = retry_continue C" "attempts_left (guarded C) = attempts_left C"
  by (simp_all add: fun_eq_iff retry_continue_def retry_def attempts_left_def)

lemma guarded_post:
  assumes "path \<in> {LEADER_LIST_PATH, ORDER_HISTORY_PATH, POSITION_HISTORY_PATH}"
  shows "post (guarded C) path document operation = post C path document operation"
proof -
  have allowed: "cl_transport (guarded C) ''POST'' (BINANCE_WEB_BASE @ path) hs body
      = cl_transport C ''POST'' (BINANCE_WEB_BASE @ path) hs body" for hs body
    using assms by (auto simp: guarded_def destination_allowed_def)
  have "post_once (guarded C) path document operation attempt = post_once C path document operation attempt" for attempt
    unfolding post_once_def send_once_def post_answer_def allowed guarded_retry guarded_fields ..
  then have "post_once (guarded C) path document operation = post_once C path document operation" by (rule ext)
  then show ?thesis by (simp add: post_def)
qed

lemma guarded_get_result:
  assumes "leader_id_ok leader"
  shows "get_result (guarded C) (LEADER_DETAIL_PATH @ ''?portfolioId='' @ leader) operation
    = get_result C (LEADER_DETAIL_PATH @ ''?portfolioId='' @ leader) operation"
proof -
  have "detail_url_ok (BINANCE_WEB_BASE @ LEADER_DETAIL_PATH @ ''?portfolioId='' @ leader)"
    using assms by (simp add: detail_url_ok_def Let_def)
  then have allowed: "cl_transport (guarded C) ''GET'' (BINANCE_WEB_BASE @ LEADER_DETAIL_PATH @ ''?portfolioId='' @ leader) hs body
      = cl_transport C ''GET'' (BINANCE_WEB_BASE @ LEADER_DETAIL_PATH @ ''?portfolioId='' @ leader) hs body" for hs body
    by (simp add: guarded_def destination_allowed_def)
  have "send_once (guarded C) ''GET'' (LEADER_DETAIL_PATH @ ''?portfolioId='' @ leader) get_headers [] operation
      = send_once C ''GET'' (LEADER_DETAIL_PATH @ ''?portfolioId='' @ leader) get_headers [] operation"
    unfolding fun_eq_iff [of "send_once (guarded C) _ _ _ _ _"] send_once_def allowed guarded_retry by simp
  then show ?thesis unfolding get_result_def guarded_fields by (rule arg_cong)
qed

lemma guarded_leader_rows: "leader_rows (guarded C) = leader_rows C"
  by (simp add: fun_eq_iff leader_rows_def guarded_post)

lemma guarded_list_leaders: "list_leaders (guarded C) = list_leaders C"
  by (simp add: fun_eq_iff list_leaders_def guarded_leader_rows)

lemma guarded_directory_loop:
  "directory_loop (guarded C) tr dt maximum raw d page required = directory_loop C tr dt maximum raw d page required"
proof (induction "nat (max required maximum + 1 - page)" arbitrary: page required d rule: less_induct)
  case less
  show ?case
  proof (cases "required < page")
    case True then show ?thesis by (simp add: directory_loop.simps)
  next
    case False
    then have "directory_loop (guarded C) tr dt maximum raw d' (page + 1) required'
        = directory_loop C tr dt maximum raw d' (page + 1) required'" if "\<not> maximum < required'" for d' required'
      using that by (intro less) auto
    with False show ?thesis
      by (subst (1 2) directory_loop.simps) (simp add: guarded_list_leaders cong: if_cong)
  qed
qed

lemma guarded_snapshot_once: "snapshot_once (guarded C) e f = snapshot_once C e f"
  by (simp add: fun_eq_iff snapshot_once_def cong: if_cong)

lemma guarded_find_fast: "find_fast (guarded C) leader tr rankings = find_fast C leader tr rankings"
  by (induction rankings) (simp_all add: guarded_leader_rows)

lemma guarded_find_pages: "find_pages (guarded C) leader tr pages = find_pages C leader tr pages"
  by (induction pages) (simp_all add: guarded_leader_rows cong: if_cong option.case_cong)

lemma guarded_search_pages: "search_pages (guarded C) casefold query tr pages acc = search_pages C casefold query tr pages acc"
  by (induction pages arbitrary: acc) (simp_all add: guarded_leader_rows cong: if_cong)

lemma guarded_history_page: "read_order_history_page (guarded C) = read_order_history_page C"
  by (simp add: fun_eq_iff read_order_history_page_def guarded_post)

lemma guarded_since_pages:
  "since_pages (guarded C) leader after page_size pages merged n = since_pages C leader after page_size pages merged n"
  by (induction pages arbitrary: merged n) (simp_all add: guarded_history_page Let_def cong: if_cong)

text \<open>C32: the client contacts only the destinations the transport allows: each of its operations behaves the
  same when the transport refuses every other destination, so the refusal is never met. In particular an
  identifier reaches the query of the detail page only after it was checked to be ten to twenty-four digits.\<close>

theorem destinations_are_allowed:
  "list_all_leaders (guarded C) = list_all_leaders C \<and> find_leader (guarded C) = find_leader C
    \<and> search_leaders (guarded C) = search_leaders C \<and> leader_availability (guarded C) = leader_availability C
    \<and> order_history (guarded C) = order_history C \<and> order_history_baseline (guarded C) = order_history_baseline C
    \<and> order_history_since (guarded C) = order_history_since C \<and> position_history (guarded C) = position_history C"
proof (intro conjI)
  have "list_all_leaders_snapshot (guarded C) = list_all_leaders_snapshot C"
    by (simp add: fun_eq_iff list_all_leaders_snapshot_def guarded_list_leaders guarded_directory_loop Let_def cong: if_cong)
  then show "list_all_leaders (guarded C) = list_all_leaders C"
    by (intro ext) (simp add: list_all_leaders_def guarded_snapshot_once cong: if_cong)
  have "order_history_since_snapshot (guarded C) = order_history_since_snapshot C"
    by (simp add: fun_eq_iff order_history_since_snapshot_def guarded_since_pages)
  then show "order_history_since (guarded C) = order_history_since C"
    by (intro ext) (simp add: order_history_since_def guarded_snapshot_once cong: if_cong)
qed (simp_all add: fun_eq_iff find_leader_def search_leaders_def leader_availability_def order_history_def
    order_history_baseline_def position_history_def guarded_find_fast guarded_find_pages guarded_search_pages
    guarded_get_result [simplified] guarded_history_page guarded_post Let_def cong: if_cong)

section \<open>Retries\<close>

text \<open>The last attempt never asks for another one, so what follows a retry loop is not reached.\<close>

definition returns_last :: "'x copy_client \<Rightarrow> (nat \<Rightarrow> ('x, 'a option) comp) \<Rightarrow> bool" where
  "returns_last C body \<longleftrightarrow> (\<forall>i. \<not> attempts_left C i \<longrightarrow> returns (\<lambda>r. r \<noteq> None) (body i))"

lemma for_attempts_unreachable:
  assumes "returns_last C body" "i + n = nat (cl_retry_attempts C)" "0 < n"
  shows "for_attempts body e i n = for_attempts body e' i n"
  using assms(2,3)
proof (induction n arbitrary: i)
  case (Suc n)
  show ?case
  proof (cases n)
    case 0
    then have "\<not> attempts_left C i" using Suc.prems by (auto simp: attempts_left_def)
    then have last: "returns (\<lambda>r. r \<noteq> None) (body i)" using assms(1) by (auto simp: returns_last_def)
    show ?thesis using 0 returnsD [OF last]
      by (auto simp: fun_eq_iff andThen_def split: prod.split sum.split option.split)
  next
    case (Suc k)
    with Suc.prems Suc.IH [of "Suc i"] show ?thesis by simp
  qed
qed simp

lemma send_once_last: "returns_last C (send_once C method path hs body operation)"
  unfolding returns_last_def send_once_def by (auto intro!: returns_intros)

lemma post_answer_last: "\<not> attempts_left C i \<Longrightarrow> returns (\<lambda>r. r \<noteq> None) (post_answer C operation i result)"
  unfolding post_answer_def by (auto intro!: returns_intros split: option.split json.split)

lemma post_once_last: "returns_last C (post_once C path document operation)"
  unfolding returns_last_def post_once_def
proof (intro allI impI)
  fix i assume last: "\<not> attempts_left C i"
  show "returns (\<lambda>r. r \<noteq> None) (andThen (send_once C ''POST'' path post_headers (json_object_text document) operation i)
      (\<lambda>sent. case sent of None \<Rightarrow> ret None | Some result \<Rightarrow> post_answer C operation i result))"
  proof (rule returns_andThen_of)
    show "returns (\<lambda>r. r \<noteq> None) (send_once C ''POST'' path post_headers (json_object_text document) operation i)"
      using send_once_last [of C] last unfolding returns_last_def by blast
  qed (use post_answer_last [OF last, of operation] in auto)
qed

lemma snapshot_once_last: "returns_last C (snapshot_once C e f)"
  unfolding returns_last_def snapshot_once_def by (auto intro!: returns_intros)

text \<open>The assertions after the retry loops are unreachable once the number of attempts passed the check of
  the constructor: the loops give the same result whatever would be raised after them.\<close>

theorem retries_are_exhaustive:
  assumes "copy_client_check C = Inr C"
  shows "post C path document operation = for_attempts (post_once C path document operation) e 0 (nat (cl_retry_attempts C))
    \<and> get_result C path operation = for_attempts (send_once C ''GET'' path get_headers [] operation) e 0 (nat (cl_retry_attempts C))
    \<and> for_attempts (snapshot_once C retryable snapshot) e 0 (nat (cl_retry_attempts C))
      = for_attempts (snapshot_once C retryable snapshot) e' 0 (nat (cl_retry_attempts C))"
proof -
  have n: "0 < nat (cl_retry_attempts C)" using assms by (simp add: copy_client_check_def)
  note u = for_attempts_unreachable [OF _ add_0 n]
  show ?thesis unfolding post_def get_result_def
    by (intro conjI u [OF post_once_last] u [OF send_once_last] u [OF snapshot_once_last])
qed

section \<open>Merging rows\<close>

text \<open>Inserting rows under their event keys keeps the first row of each key.\<close>

definition keyed :: "(string, public_leader_order) dict \<Rightarrow> bool" where
  "keyed d \<longleftrightarrow> dict_ok d \<and> (\<forall>(k, o0) \<in> set d. po_event_key o0 = k)"

lemma keyed_Nil [simp]: "keyed []"
  by (simp add: keyed_def)

lemma keyed_setdefault: "keyed d \<Longrightarrow> keyed (dict_setdefault (po_event_key o0) o0 d)"
  by (auto simp: keyed_def) (auto simp: dict_setdefault_def split: if_splits)

lemma keyed_merge: "keyed d \<Longrightarrow> keyed (merge_orders orders d)"
  by (induction orders arbitrary: d) (simp_all add: merge_orders_def keyed_setdefault)

lemma set_setdefault:
  "set d \<subseteq> set (dict_setdefault k v d)" "set (dict_setdefault k v d) \<subseteq> insert (k, v) (set d)"
  by (auto simp: dict_setdefault_def)

lemma merge_orders_sound: "set (map snd (merge_orders orders d)) \<subseteq> set (map snd d) \<union> set orders"
proof (induction orders arbitrary: d)
  case (Cons o0 orders)
  have "set (map snd (dict_setdefault (po_event_key o0) o0 d)) \<subseteq> insert o0 (set (map snd d))"
    using set_setdefault(2) [of "po_event_key o0" o0 d] by auto
  with Cons [of "dict_setdefault (po_event_key o0) o0 d"] show ?case by (auto simp: merge_orders_def)
qed (simp add: merge_orders_def)

lemma merge_orders_keys: "fst ` set (merge_orders orders d) = fst ` set d \<union> po_event_key ` set orders"
proof (induction orders arbitrary: d)
  case (Cons o0 orders)
  have "fst ` set (dict_setdefault (po_event_key o0) o0 d) = insert (po_event_key o0) (fst ` set d)"
    by (auto simp: dict_setdefault_def map_of_eq_None_iff split: if_splits)
  with Cons show ?case by (simp add: merge_orders_def)
qed (simp add: merge_orders_def)

lemma keyed_distinct: "keyed d \<Longrightarrow> distinct (map po_event_key (map snd d))"
  and keyed_events: "keyed d \<Longrightarrow> po_event_key ` set (map snd d) = fst ` set d"
proof -
  assume "keyed d"
  then have "map po_event_key (map snd d) = map fst d" by (auto simp: keyed_def)
  then show "distinct (map po_event_key (map snd d))" using \<open>keyed d\<close> unfolding keyed_def dict_ok_def by metis
  then show "po_event_key ` set (map snd d) = fst ` set d"
    using \<open>map po_event_key (map snd d) = map fst d\<close> by (metis list.set_map)
qed

lemma deduplicate_as_merge: "deduplicate_exact_order_events orders = map snd (merge_orders orders [])"
  by (simp add: deduplicate_exact_order_events_def merge_orders_def)

lemma deduplicate_facts:
  "distinct (map po_event_key (deduplicate_exact_order_events orders))"
  "set (deduplicate_exact_order_events orders) \<subseteq> set orders"
  "po_event_key ` set (deduplicate_exact_order_events orders) = po_event_key ` set orders"
  using keyed_distinct [OF keyed_merge [OF keyed_Nil]] merge_orders_sound [of orders "[]"]
    keyed_events [OF keyed_merge [OF keyed_Nil], of orders] merge_orders_keys [of orders "[]"]
  by (auto simp: deduplicate_as_merge)

section \<open>Distinguishing batch rows\<close>

text \<open>What the grouping computes, row by row: a row takes a new identity exactly when the rows that share its
  identity are several and provably distinct.\<close>

definition same_identity :: "public_leader_order list \<Rightarrow> public_leader_order \<Rightarrow> public_leader_order list" where
  "same_identity orders o0 = filter (\<lambda>p. po_identity_key p = po_identity_key o0) orders"

definition disambiguated :: "public_leader_order list \<Rightarrow> public_leader_order \<Rightarrow> bool" where
  "disambiguated orders o0 \<longleftrightarrow> 2 \<le> length (same_identity orders o0) \<and> provably_distinct (same_identity orders o0)"

definition resolved_row :: "public_leader_order list \<Rightarrow> public_leader_order \<Rightarrow> public_leader_order result" where
  "resolved_row orders o0 = (if disambiguated orders o0
     then with_identity_discriminator o0 (batch_discriminator o0) else Inr o0)"

definition positions_of :: "public_leader_order list \<Rightarrow> string \<Rightarrow> nat list" where
  "positions_of orders k = filter (\<lambda>i. po_identity_key (orders ! i) = k) [0..<length orders]"

lemma positions_of_snoc:
  "positions_of (orders @ [o0]) k = positions_of orders k @ (if po_identity_key o0 = k then [length orders] else [])"
proof -
  have "filter (\<lambda>i. po_identity_key ((orders @ [o0]) ! i) = k) [0..<length orders] = positions_of orders k"
    unfolding positions_of_def by (rule filter_cong) (auto simp: nth_append)
  then show ?thesis by (simp add: positions_of_def)
qed

lemma group_indexes_lookup:
  "dict_ok (group_indexes orders) \<and> (\<forall>k. map_of (group_indexes orders) k
    = (if k \<in> po_identity_key ` set orders then Some (positions_of orders k) else None))"
proof (induction orders rule: rev_induct)
  case Nil then show ?case by (simp add: group_indexes_def)
next
  case (snoc o0 orders)
  let ?k = "po_identity_key o0"
  have step: "group_indexes (orders @ [o0])
      = AList.update ?k (dict_get (group_indexes orders) ?k [] @ [length orders]) (group_indexes orders)"
    by (simp add: group_indexes_def enumerate_append_eq)
  have "positions_of orders ?k = []" if "?k \<notin> po_identity_key ` set orders"
    unfolding positions_of_def filter_empty_conv using that by (metis atLeastLessThan_iff image_eqI nth_mem set_upt)
  then have "dict_get (group_indexes orders) ?k [] = positions_of orders ?k"
    using snoc by (simp add: dict_get_def)
  with snoc show ?case by (auto simp: step positions_of_snoc)
qed

lemma set_group_indexes: "set (map snd (group_indexes orders)) = positions_of orders ` (po_identity_key ` set orders)"
proof -
  have "set (map snd (group_indexes orders)) = ran (map_of (group_indexes orders))"
    using group_indexes_lookup [of orders] by (simp add: ran_distinct dict_ok_def)
  then show ?thesis by (auto simp: group_indexes_lookup ran_def)
qed

definition relabelled :: "public_leader_order \<Rightarrow> public_leader_order" where
  "relabelled o0 = projr (with_identity_discriminator o0 (batch_discriminator o0))"

abbreviation "label_ok o0 \<equiv> discriminator_ok (batch_discriminator o0)"
abbreviation "label_error \<equiv> PublicCopyDataError ''COPY_ORDER_IDENTITY_DISCRIMINATOR_INVALID''"

lemma with_batch_discriminator:
  "with_identity_discriminator o0 (batch_discriminator o0) = (if label_ok o0 then Inr (relabelled o0) else Inl label_error)"
  by (simp add: with_identity_discriminator_def relabelled_def Let_def require_def)

lemma relabel_as_fold:
  "relabel orders is res = (if \<forall>i \<in> set is. label_ok (orders ! i)
     then Inr (fold (\<lambda>i l. l[i := relabelled (orders ! i)]) is res) else Inl label_error)"
  by (induction "is" arbitrary: res) (auto simp: with_batch_discriminator)

lemma relabel_groups_as_fold:
  "relabel_groups orders gs res = (let sel = concat (filter (\<lambda>g. \<not> (length g < 2 \<or> \<not> provably_distinct (map ((!) orders) g))) gs) in
     if \<forall>i \<in> set sel. label_ok (orders ! i) then Inr (fold (\<lambda>i l. l[i := relabelled (orders ! i)]) sel res) else Inl label_error)"
  by (induction gs arbitrary: res) (auto simp: relabel_as_fold Let_def)

lemma fold_update_nth:
  "i < length l \<Longrightarrow> fold (\<lambda>i l. l[i := f i]) is l ! i = (if i \<in> set is then f i else l ! i)"
  "length (fold (\<lambda>i l. l[i := f i]) is l) = length l"
  by (induction "is" arbitrary: l) auto

lemma map_positions_of: "map ((!) orders) (positions_of orders k) = filter (\<lambda>p. po_identity_key p = k) orders"
proof -
  have "filter (\<lambda>p. po_identity_key p = k) (map ((!) orders) [0..<length orders]) = map ((!) orders) (positions_of orders k)"
    by (simp add: positions_of_def filter_map o_def)
  then show ?thesis by (simp add: map_nth)
qed

lemma selected_positions:
  "set (concat (filter (\<lambda>g. \<not> (length g < 2 \<or> \<not> provably_distinct (map ((!) orders) g))) (map snd (group_indexes orders))))
    = {i. i < length orders \<and> disambiguated orders (orders ! i)}" (is "?lhs = ?rhs")
proof -
  have group: "\<not> (length (positions_of orders (po_identity_key p)) < 2
      \<or> \<not> provably_distinct (map ((!) orders) (positions_of orders (po_identity_key p)))) \<longleftrightarrow> disambiguated orders p" for p
  proof -
    have "length (positions_of orders (po_identity_key p)) = length (same_identity orders p)"
      using arg_cong [OF map_positions_of [of orders "po_identity_key p"], of length] by (simp add: same_identity_def)
    then show ?thesis by (auto simp: disambiguated_def same_identity_def map_positions_of)
  qed
  have key: "disambiguated orders p \<longleftrightarrow> disambiguated orders q" if "po_identity_key p = po_identity_key q" for p q
    using that by (simp add: disambiguated_def same_identity_def)
  have "?lhs = (\<Union>p \<in> {p \<in> set orders. disambiguated orders p}. set (positions_of orders (po_identity_key p)))"
    using set_group_indexes [of orders] by (simp only: set_concat set_filter image_image) (auto simp: group [symmetric])
  also have "\<dots> = ?rhs"
  proof (intro equalityI subsetI)
    fix i assume "i \<in> (\<Union>p \<in> {p \<in> set orders. disambiguated orders p}. set (positions_of orders (po_identity_key p)))"
    then obtain p where "disambiguated orders p" "i < length orders" "po_identity_key (orders ! i) = po_identity_key p"
      by (auto simp: positions_of_def)
    with key [of "orders ! i" p] show "i \<in> ?rhs" by simp
  next
    fix i assume "i \<in> ?rhs"
    then show "i \<in> (\<Union>p \<in> {p \<in> set orders. disambiguated orders p}. set (positions_of orders (po_identity_key p)))"
      by (auto simp: positions_of_def intro!: exI [of _ "orders ! i"])
  qed
  finally show ?thesis .
qed

lemma rmap_total:
  assumes "\<And>x. x \<in> set xs \<Longrightarrow> f x = (if ok x then Inr (g x) else Inl e)"
  shows "rmap f xs = (if \<forall>x \<in> set xs. ok x then Inr (map g xs) else Inl e)"
  using assms by (induction xs) auto

lemma disambiguate_rows:
  "disambiguate_same_timestamp_batch_orders orders = rmap (resolved_row orders) orders"
proof -
  let ?new = "\<lambda>o0. if disambiguated orders o0 then relabelled o0 else o0"
  let ?ok = "\<lambda>o0. disambiguated orders o0 \<longrightarrow> label_ok o0"
  let ?sel = "concat (filter (\<lambda>g. \<not> (length g < 2 \<or> \<not> provably_distinct (map ((!) orders) g))) (map snd (group_indexes orders)))"
  have rows: "rmap (resolved_row orders) orders = (if \<forall>o0 \<in> set orders. ?ok o0 then Inr (map ?new orders) else Inl label_error)"
    by (rule rmap_total) (simp add: resolved_row_def with_batch_discriminator)
  have "fold (\<lambda>i l. l[i := relabelled (orders ! i)]) ?sel orders = map ?new orders"
    by (rule nth_equalityI) (simp_all only: fold_update_nth selected_positions, simp_all)
  moreover have "(\<forall>i \<in> set ?sel. label_ok (orders ! i)) \<longleftrightarrow> (\<forall>o0 \<in> set orders. ?ok o0)"
    unfolding selected_positions by (fastforce simp: in_set_conv_nth)
  ultimately show ?thesis
    unfolding disambiguate_same_timestamp_batch_orders_def relabel_groups_as_fold Let_def rows by simp
qed

text \<open>The grouping by index computes what a row-by-row definition says: each row gets a new identity, built
  from its price, exactly when several rows share its identity and these are limit orders at distinct prices,
  or market orders at distinct prices of one instant; every other row is unchanged.\<close>

theorem disambiguation_is_row_wise:
  "disambiguate_same_timestamp_batch_orders orders = rmap (resolved_row orders) orders"
  by (rule disambiguate_rows)

text \<open>A row of the history after its checks: it belongs to the leader, with a positive quantity and price and
  ordered positive times.\<close>

definition row_ok :: "string \<Rightarrow> public_leader_order \<Rightarrow> bool" where
  "row_ok leader o0 \<longleftrightarrow> po_lead_portfolio_id o0 = leader \<and> leader_id_ok leader \<and> symbol_ok (po_symbol o0)
     \<and> 0 < dval (po_executed_quantity o0) \<and> 0 < dval (po_average_price o0)
     \<and> 0 < po_order_time_ms o0 \<and> po_order_time_ms o0 \<le> po_update_time_ms o0"

lemma rmap_members: "rmap f xs = Inr ys \<Longrightarrow> y \<in> set ys \<Longrightarrow> \<exists>x \<in> set xs. f x = Inr y"
  by (induction xs arbitrary: ys) auto

lemma positive_decimal_positive: "positive_decimal v key = Inr x \<Longrightarrow> 0 < dval x"
  by (auto simp: positive_decimal_def decimal_le_val split: if_splits)

lemma positive_integer_positive: "positive_integer v key = Inr i \<Longrightarrow> 0 < i"
  by (auto simp: positive_integer_def split: json.splits if_splits)

lemma order_from_api_row_ok: "order_from_api leader d = Inr o0 \<Longrightarrow> row_ok leader o0"
  by (auto simp: order_from_api_def Let_def row_ok_def dest: positive_decimal_positive positive_integer_positive)

lemma resolved_row_ok: "resolved_row orders o0 = Inr o1 \<Longrightarrow> row_ok leader o0 \<Longrightarrow> row_ok leader o1"
  by (auto simp: resolved_row_def with_identity_discriminator_def Let_def row_ok_def split: if_splits)

lemma as_public_error_Inr [simp]: "as_public_error r = Inr a \<longleftrightarrow> r = Inr a"
  by (cases r rule: as_public_error.cases) simp_all

lemma order_page_facts:
  assumes "order_page_of leader guard rows n = Inr page"
  shows "distinct (map po_identity_key (guarded_orders guard (hp_orders page)))" "\<forall>o0 \<in> set (hp_orders page). row_ok leader o0"
proof -
  from assms obtain raw orders where raw: "rmap (\<lambda>row. rbind (require_mapping row) (order_from_api leader)) rows = Inr raw"
    and orders: "rmap (resolved_row (deduplicate_exact_order_events raw)) (deduplicate_exact_order_events raw) = Inr orders"
    and unique: "distinct (map po_identity_key (guarded_orders guard orders))" and page: "page = \<lparr>hp_orders = orders, hp_total = n\<rparr>"
    by (auto simp: order_page_of_def disambiguate_rows)
  have "row_ok leader o0" if "o0 \<in> set raw" for o0
    using rmap_members [OF raw that] by (auto dest: order_from_api_row_ok)
  then have "row_ok leader o0" if "o0 \<in> set (deduplicate_exact_order_events raw)" for o0
    using that deduplicate_facts(2) by blast
  then have "row_ok leader o0" if "o0 \<in> set orders" for o0
    using rmap_members [OF orders that] by (auto dest: resolved_row_ok)
  with unique page show "distinct (map po_identity_key (guarded_orders guard (hp_orders page)))"
    "\<forall>o0 \<in> set (hp_orders page). row_ok leader o0" by simp_all
qed

lemma history_page_facts:
  assumes "read_order_history_page C leader n page_size guard x = (Inr page, y)"
  shows "distinct (map po_identity_key (guarded_orders guard (hp_orders page)))" "\<forall>o0 \<in> set (hp_orders page). row_ok leader o0"
proof -
  from assms obtain rows row_total where "order_page_of leader guard rows row_total = Inr page"
    by (auto simp: read_order_history_page_def lift_def split_beta elim!: andThen_InrE)
  then show "distinct (map po_identity_key (guarded_orders guard (hp_orders page)))" "\<forall>o0 \<in> set (hp_orders page). row_ok leader o0"
    by (rule order_page_facts)+
qed

text \<open>A page of the order history that is handed on has no ambiguous identity: its rows, or those from the
  guard on where the caller gives one, have pairwise distinct identities, and every row belongs to the requested
  leader with a positive quantity and price and with its times in order. Otherwise the read raises.\<close>

theorem history_page_is_unambiguous:
  assumes "read_order_history_page C leader n page_size guard x = (Inr page, y)"
  shows "distinct (map po_identity_key (guarded_orders guard (hp_orders page))) \<and> list_all (row_ok leader) (hp_orders page)"
  using history_page_facts [OF assms] by (simp add: list_all_iff)

section \<open>Catching up\<close>

text \<open>Pages as the loop of the catch-up reads them: page \<open>i\<close> is an answer to the request for page \<open>i + 1\<close>;
  only the last one reaches the watermark, and the earlier ones are full.\<close>

definition answered :: "'x copy_client \<Rightarrow> string \<Rightarrow> int \<Rightarrow> int \<Rightarrow> int \<Rightarrow> order_history_page \<Rightarrow> bool" where
  "answered C leader after page_size page_number page \<longleftrightarrow>
    (\<exists>x y. read_order_history_page C leader page_number page_size (Some after) x = (Inr page, y))"

definition reaches :: "int \<Rightarrow> order_history_page \<Rightarrow> bool" where
  "reaches after page \<longleftrightarrow> (\<exists>o0 \<in> set (hp_orders page). po_update_time_ms o0 \<le> after)"

definition full_page :: "int \<Rightarrow> order_history_page \<Rightarrow> bool" where
  "full_page page_size page \<longleftrightarrow> page_size \<le> int (length (hp_orders page))"

definition covering :: "'x copy_client \<Rightarrow> string \<Rightarrow> int \<Rightarrow> int \<Rightarrow> int \<Rightarrow> order_history_page list \<Rightarrow> bool" where
  "covering C leader after page_size first pages \<longleftrightarrow> pages \<noteq> []
     \<and> (\<forall>i < length pages. answered C leader after page_size (first + int i) (pages ! i))
     \<and> reaches after (last pages)
     \<and> (\<forall>page \<in> set (butlast pages). full_page page_size page \<and> \<not> reaches after page)"

lemma covering_Cons:
  assumes "answered C leader after page_size n page"
  shows "reaches after page \<Longrightarrow> covering C leader after page_size n [page]"
    and "full_page page_size page \<Longrightarrow> \<not> reaches after page \<Longrightarrow> covering C leader after page_size (n + 1) pages
      \<Longrightarrow> covering C leader after page_size n (page # pages)"
  using assms by (auto simp: covering_def nth_Cons ac_simps split: nat.split)

lemma since_pages_covering:
  assumes "since_pages C leader after page_size [n..maximum] merged t x = (Inr (merged', t'), y)" "1 \<le> n"
  shows "\<exists>pages. covering C leader after page_size n pages \<and> n + int (length pages) \<le> maximum + 1
    \<and> merged' = fold (\<lambda>page. merge_orders (hp_orders page)) pages merged \<and> t' = (if n = 1 then hp_total (hd pages) else t)"
  using assms
proof (induction "nat (maximum + 1 - n)" arbitrary: n merged t x)
  case 0 then show ?case by (simp add: raise_def)
next
  case (Suc k)
  then have n: "n \<le> maximum" by simp
  from Suc.prems(1) obtain page z where page: "read_order_history_page C leader n page_size (Some after) x = (Inr page, z)"
    and rest: "(let t1 = (if n = 1 then hp_total page else t); m1 = merge_orders (hp_orders page) merged in
      if n = 1 \<and> hp_orders page = [] then raise WATERMARK_NOT_COVERED
      else if reaches after page then ret (m1, t1)
      else if int (length (hp_orders page)) < page_size then raise WATERMARK_NOT_COVERED
      else since_pages C leader after page_size [n + 1..maximum] m1 t1) z = (Inr (merged', t'), y)"
    by (subst (asm) upto_rec1 [OF n]) (auto simp: reaches_def elim!: andThen_InrE cong: if_cong)
  let ?m = "merge_orders (hp_orders page) merged"
  let ?t = "if n = 1 then hp_total page else t"
  have ans: "answered C leader after page_size n page" using page by (auto simp: answered_def)
  show ?case
  proof (cases "reaches after page")
    case True
    then have "hp_orders page \<noteq> []" by (auto simp: reaches_def)
    with True rest have "merged' = ?m" "t' = ?t" by (auto simp: Let_def ret_def)
    then show ?thesis using True n covering_Cons(1) [OF ans] by (intro exI [of _ "[page]"]) auto
  next
    case False
    with rest have full: "full_page page_size page"
      and later_pages: "since_pages C leader after page_size [n + 1..maximum] ?m ?t z = (Inr (merged', t'), y)"
      by (auto simp: Let_def raise_def full_page_def split: if_splits)
    have "k = nat (maximum + 1 - (n + 1))" "1 \<le> n + 1" using Suc.hyps(2) Suc.prems(2) by simp_all
    from Suc.hyps(1) [OF this(1) later_pages this(2)] obtain pages where
      "covering C leader after page_size (n + 1) pages" "n + 1 + int (length pages) \<le> maximum + 1"
      "merged' = fold (\<lambda>page. merge_orders (hp_orders page)) pages ?m"
      "t' = (if n + 1 = 1 then hp_total (hd pages) else ?t)" by blast
    then show ?thesis using covering_Cons(2) [OF ans full False] Suc.prems(2)
      by (intro exI [of _ "page # pages"]) auto
  qed
qed

lemma merge_pages_facts:
  "keyed d \<Longrightarrow> keyed (fold (\<lambda>page. merge_orders (hp_orders page)) pages d)"
  "set (map snd (fold (\<lambda>page. merge_orders (hp_orders page)) pages d)) \<subseteq> set (map snd d) \<union> (\<Union>page \<in> set pages. set (hp_orders page))"
  "fst ` set (fold (\<lambda>page. merge_orders (hp_orders page)) pages d) = fst ` set d \<union> (\<Union>page \<in> set pages. po_event_key ` set (hp_orders page))"
proof (induction pages arbitrary: d)
  case (Cons page pages)
  { case 1 with Cons(1) keyed_merge show ?case by simp }
  { case 2 show ?case using Cons(2) [of "merge_orders (hp_orders page) d"] merge_orders_sound [of "hp_orders page" d] by auto }
  { case 3 show ?case using Cons(3) [of "merge_orders (hp_orders page) d"] by (auto simp: merge_orders_keys) }
qed simp_all

lemma for_attempts_returns:
  assumes "for_attempts body e i n x = (Inr a, y)"
  obtains j z where "body j z = (Inr (Some a), y)"
  using assms
proof (induction n arbitrary: i x thesis)
  case (Suc n)
  from Suc.prems(2) obtain r w where b: "body i x = (Inr r, w)"
    and r: "(case r of Some a \<Rightarrow> ret a | None \<Rightarrow> for_attempts body e (Suc i) n) w = (Inr a, y)"
    by (auto elim!: andThen_InrE)
  show ?case
  proof (cases r)
    case None with r Suc.IH Suc.prems(1) show ?thesis by auto
  next
    case (Some a') with r b Suc.prems(1) [of i x] show ?thesis by (simp add: ret_def)
  qed
qed (simp add: raise_def)

lemma snapshot_once_returns:
  assumes "snapshot_once C e m i x = (Inr (Some a), y)"
  shows "m x = (Inr a, y)"
  using assms
  by (auto simp: snapshot_once_def tryExcept_def retry_continue_def retry_def andThen_def ret_def raise_def
      split: prod.splits sum.splits if_splits)

lemma sorted_merge_result:
  assumes "keyed d"
  shows "sorted (map (\<lambda>o0. (po_update_time_ms o0, po_event_key o0)) (sort_key (\<lambda>o0. (po_update_time_ms o0, po_event_key o0))
      (filter P (map snd d))))"
    and "distinct (map po_event_key (sort_key (\<lambda>o0. (po_update_time_ms o0, po_event_key o0)) (filter P (map snd d))))"
proof -
  have "distinct (map po_event_key (filter P (map snd d)))"
    using keyed_distinct [OF assms] distinct_map_filter by blast
  then show "distinct (map po_event_key (sort_key (\<lambda>o0. (po_update_time_ms o0, po_event_key o0)) (filter P (map snd d))))"
    by (metis (no_types, lifting) distinct_map distinct_sort set_sort)
qed simp

lemma catch_up_facts:
  assumes "order_history_since C leader after page_size maximum x = (Inr page, y)"
  shows "sorted (map (\<lambda>o0. (po_update_time_ms o0, po_event_key o0)) (hp_orders page))
    \<and> distinct (map po_event_key (hp_orders page))
    \<and> (\<forall>o0 \<in> set (hp_orders page). after \<le> po_update_time_ms o0)
    \<and> (\<exists>pages. covering C leader after page_size 1 pages \<and> int (length pages) \<le> maximum
        \<and> set (hp_orders page) \<subseteq> (\<Union>p \<in> set pages. set (hp_orders p))
        \<and> hp_total page = hp_total (hd pages)
        \<and> (\<forall>p \<in> set pages. \<forall>o0 \<in> set (hp_orders p). (\<forall>q \<in> set pages. \<forall>o1 \<in> set (hp_orders q).
            po_event_key o1 = po_event_key o0 \<longrightarrow> after \<le> po_update_time_ms o1)
          \<longrightarrow> po_event_key o0 \<in> po_event_key ` set (hp_orders page)))"
proof -
  from assms obtain j z where "snapshot_once C IDENTITY_AMBIGUOUS (order_history_since_snapshot C leader after page_size maximum) j z
      = (Inr (Some page), y)"
    by (auto simp: order_history_since_def raise_def elim: for_attempts_returns split: if_splits)
  then have "order_history_since_snapshot C leader after page_size maximum z = (Inr page, y)" by (rule snapshot_once_returns)
  then obtain d t where since: "since_pages C leader after page_size [1..maximum] [] 0 z = (Inr (d, t), y)"
    and page: "page = \<lparr>hp_orders = sort_key (\<lambda>o0. (po_update_time_ms o0, po_event_key o0))
        (filter (\<lambda>o0. after \<le> po_update_time_ms o0) (map snd d)), hp_total = t\<rparr>"
    by (auto simp: order_history_since_snapshot_def ret_def elim!: andThen_InrE)
  from since_pages_covering [OF since order_refl] obtain pages where pages: "covering C leader after page_size 1 pages"
      "1 + int (length pages) \<le> maximum + 1" "d = fold (\<lambda>page. merge_orders (hp_orders page)) pages []" "t = hp_total (hd pages)"
    by auto
  have d: "keyed d" using pages merge_pages_facts(1) [of "[]" pages] by simp
  have sub: "set (map snd d) \<subseteq> (\<Union>p \<in> set pages. set (hp_orders p))" using merge_pages_facts(2) [of pages "[]"] pages by simp
  have keys: "po_event_key ` set (map snd d) = (\<Union>p \<in> set pages. po_event_key ` set (hp_orders p))"
    using keyed_events [OF d] merge_pages_facts(3) [of pages "[]"] pages by simp
  have present: "po_event_key o0 \<in> po_event_key ` set (hp_orders page)"
    if "p \<in> set pages" "o0 \<in> set (hp_orders p)" "\<forall>q \<in> set pages. \<forall>o1 \<in> set (hp_orders q).
      po_event_key o1 = po_event_key o0 \<longrightarrow> after \<le> po_update_time_ms o1" for p o0
  proof -
    from that keys obtain o1 where "o1 \<in> set (map snd d)" "po_event_key o1 = po_event_key o0" by (metis (mono_tags, lifting) UN_I image_iff)
    with sub that(3) have "o1 \<in> set (hp_orders page)" by (auto simp: page)
    with \<open>po_event_key o1 = po_event_key o0\<close> show ?thesis by (metis imageI)
  qed
  show ?thesis
    using sorted_merge_result [OF d, of "\<lambda>o0. after \<le> po_update_time_ms o0"] pages sub present
    by (intro conjI exI [of _ pages]) (auto simp: page)
qed

text \<open>A catch-up read that returns covers its watermark. Its rows are ordered by time and event key and no
  event appears twice; all are at or after the watermark; they come from consecutive pages, from the first on,
  each an answer of the service to the request for that page, of which exactly the last contains a row at or
  before the watermark while the earlier ones are full, so nothing between was skipped; and every event of these
  pages at or after the watermark is present, up to rows that repeat an event key.\<close>

theorem catch_up_covers_watermark:
  assumes "order_history_since C leader after page_size maximum x = (Inr page, y)"
  shows "sorted (map (\<lambda>o0. (po_update_time_ms o0, po_event_key o0)) (hp_orders page))
    \<and> distinct (map po_event_key (hp_orders page))
    \<and> (\<forall>o0 \<in> set (hp_orders page). after \<le> po_update_time_ms o0)
    \<and> (\<exists>pages. covering C leader after page_size 1 pages \<and> int (length pages) \<le> maximum
        \<and> set (hp_orders page) \<subseteq> (\<Union>p \<in> set pages. set (hp_orders p))
        \<and> hp_total page = hp_total (hd pages)
        \<and> (\<forall>p \<in> set pages. \<forall>o0 \<in> set (hp_orders p). (\<forall>q \<in> set pages. \<forall>o1 \<in> set (hp_orders q).
            po_event_key o1 = po_event_key o0 \<longrightarrow> after \<le> po_update_time_ms o1)
          \<longrightarrow> po_event_key o0 \<in> po_event_key ` set (hp_orders page)))"
  using assms by (rule catch_up_facts)

section \<open>The directory\<close>

definition listed :: "'x copy_client \<Rightarrow> string \<Rightarrow> string \<Rightarrow> int \<Rightarrow> leader_page \<Rightarrow> bool" where
  "listed C time_range data_type page_number page \<longleftrightarrow>
    (\<exists>x y. list_leaders C page_number 100 time_range data_type True x = (Inr page, y))"

lemma page_rows_length: "page_rows skip rows = Inr (ls, rs, ids) \<Longrightarrow> length ids \<le> length rs"
proof (induction rows arbitrary: ls rs ids)
  case (Cons row rows)
  have "length (invalid_row_id row) \<le> 1" by (auto simp: invalid_row_id_def split: json.split option.split)
  with Cons show ?case by (fastforce split: sum.splits exn.splits if_splits)
qed simp

lemma listed_facts:
  assumes "listed C tr dt n page"
  shows "0 \<le> raw_rows page" "raw_rows page = 0 \<Longrightarrow> lp_leaders page = [] \<and> lp_invalid_row_count page = 0
    \<and> lp_invalid_reason_codes page = [] \<and> lp_invalid_leader_ids page = []"
proof -
  from assms obtain rows row_total where "leader_page_of True rows row_total = Inr page"
    by (auto simp: listed_def list_leaders_def lift_def split_beta elim!: andThen_InrE)
  then obtain ls rs ids where rows: "page_rows True rows = Inr (ls, rs, ids)"
    and page: "page = \<lparr>lp_leaders = ls, lp_total = row_total, lp_invalid_row_count = int (length rs),
      lp_invalid_reason_codes = sorted_set rs, lp_invalid_leader_ids = sorted_set ids\<rparr>"
    by (auto simp: leader_page_of_def)
  have "int (length ls) + int (length rs) = 0 \<longleftrightarrow> ls = [] \<and> rs = []" by (auto simp: int_plus [symmetric] simp del: of_nat_add)
  with page page_rows_length [OF rows] show "0 \<le> raw_rows page" "raw_rows page = 0 \<Longrightarrow> lp_leaders page = [] \<and> lp_invalid_row_count page = 0
    \<and> lp_invalid_reason_codes page = [] \<and> lp_invalid_leader_ids page = []"
    by (auto simp: raw_rows_def sorted_set_def)
qed

lemma add_empty_page: "listed C tr dt n page \<Longrightarrow> raw_rows page = 0 \<Longrightarrow> add_page page d = d\<lparr>dr_latest_total := lp_total page\<rparr>"
  using listed_facts(2) [of C tr dt n page] by (simp add: add_page_def put_leaders_def)

text \<open>The loop adds consecutive pages.\<close>

lemma directory_loop_pages:
  assumes "directory_loop C tr dt maximum raw d n required x = (Inr d', y)" "required \<le> maximum"
  shows "\<exists>pages. (\<forall>i < length pages. listed C tr dt (n + int i) (pages ! i)) \<and> d' = fold add_page pages d
    \<and> n + int (length pages) \<le> max n (maximum + 1)"
  using assms
proof (induction "nat (max required maximum + 1 - n)" arbitrary: n required d x rule: less_induct)
  case less
  show ?case
  proof (cases "required < n")
    case True
    with less.prems have "d' = d" by (simp add: directory_loop.simps ret_def)
    then show ?thesis using less.prems(2) by (intro exI [of _ "[]"]) auto
  next
    case False
    from less.prems(1) obtain page z where list: "list_leaders C n 100 tr dt True x = (Inr page, z)"
      and rest: "(if raw_rows page = 0 then (if lp_total page \<le> dr_raw_rows_seen d then ret (d\<lparr>dr_latest_total := lp_total page\<rparr>)
            else raise DIRECTORY_INCOMPLETE)
          else if maximum < required_pages_of (lp_total page) raw then raise DIRECTORY_PAGE_LIMIT
          else directory_loop C tr dt maximum raw (add_page page d) (n + 1) (required_pages_of (lp_total page) raw)) z = (Inr d', y)"
      using False by (subst (asm) directory_loop.simps) (auto elim!: andThen_InrE)
    then have page: "listed C tr dt n page" by (auto simp: listed_def)
    show ?thesis
    proof (cases "raw_rows page = 0")
      case True
      with rest have "d' = d\<lparr>dr_latest_total := lp_total page\<rparr>" by (auto simp: ret_def raise_def split: if_splits)
      then have "d' = add_page page d" by (simp add: add_empty_page [OF page True])
      then show ?thesis using page False less.prems(2) by (intro exI [of _ "[page]"]) auto
    next
      case r: False
      let ?required = "required_pages_of (lp_total page) raw"
      from rest r have m: "?required \<le> maximum"
        and loop: "directory_loop C tr dt maximum raw (add_page page d) (n + 1) ?required z = (Inr d', y)"
        by (auto simp: raise_def split: if_splits)
      have "nat (max ?required maximum + 1 - (n + 1)) < nat (max required maximum + 1 - n)" using m False by auto
      from less.hyps [OF this loop m] obtain pages where pages: "\<forall>i < length pages. listed C tr dt (n + 1 + int i) (pages ! i)"
        "d' = fold add_page pages (add_page page d)" "n + 1 + int (length pages) \<le> max (n + 1) (maximum + 1)" by blast
      have "listed C tr dt (n + int i) ((page # pages) ! i)" if "i < length (page # pages)" for i
        using that pages(1) page by (cases i) (auto simp: ac_simps)
      then show ?thesis using pages False less.prems(2) by (intro exI [of _ "page # pages"]) auto
    qed
  qed
qed

lemma put_leaders_facts:
  "dict_ok d \<Longrightarrow> dict_ok (put_leaders ls d)"
  "\<forall>(k, l) \<in> set d. ls_lead_portfolio_id l = k \<Longrightarrow> \<forall>(k, l) \<in> set (put_leaders ls d). ls_lead_portfolio_id l = k"
  "fst ` set (put_leaders ls d) = fst ` set d \<union> ls_lead_portfolio_id ` set ls"
proof (induction ls arbitrary: d)
  case (Cons l ls)
  { case 1 then show ?case using Cons(1) by (simp add: put_leaders_def) }
  { case 2 then have "\<forall>(k, l') \<in> set (AList.update (ls_lead_portfolio_id l) l d). ls_lead_portfolio_id l' = k"
      using set_update_subset [of "ls_lead_portfolio_id l" l d] by blast
    then show ?case using Cons(2) by (simp add: put_leaders_def) }
  { case 3 show ?case using Cons(3) by (simp add: put_leaders_def dom_update) }
qed (simp_all add: put_leaders_def)

lemma put_leaders_distinct:
  assumes "dict_ok d" "\<forall>(k, l) \<in> set d. ls_lead_portfolio_id l = k"
  shows "distinct (map ls_lead_portfolio_id (map snd d))" "ls_lead_portfolio_id ` set (map snd d) = fst ` set d"
proof -
  have "map ls_lead_portfolio_id (map snd d) = map fst d" using assms(2) by auto
  then show "distinct (map ls_lead_portfolio_id (map snd d))" using assms(1) unfolding dict_ok_def by metis
  then show "ls_lead_portfolio_id ` set (map snd d) = fst ` set d"
    using \<open>map ls_lead_portfolio_id (map snd d) = map fst d\<close> by (metis list.set_map)
qed

text \<open>What a directory has accumulated from its pages.\<close>

definition accumulates :: "leader_page list \<Rightarrow> directory \<Rightarrow> bool" where
  "accumulates pages d \<longleftrightarrow> dict_ok (dr_leaders d) \<and> (\<forall>(k, l) \<in> set (dr_leaders d). ls_lead_portfolio_id l = k)
     \<and> fst ` set (dr_leaders d) = (\<Union>p \<in> set pages. ls_lead_portfolio_id ` set (lp_leaders p))
     \<and> dr_invalid_count d = sum_list (map lp_invalid_row_count pages) \<and> dr_raw_rows_seen d = sum_list (map raw_rows pages)
     \<and> dr_latest_total d = lp_total (last pages)"

lemma accumulates_first: "accumulates [p] (first_directory p)"
  using put_leaders_facts [where d = "[]" and ls = "lp_leaders p"] by (simp add: accumulates_def first_directory_def)

lemma accumulates_add: "accumulates pages d \<Longrightarrow> accumulates (pages @ [p]) (add_page p d)"
  using put_leaders_facts [where d = "dr_leaders d" and ls = "lp_leaders p"] by (auto simp: accumulates_def add_page_def)

lemma accumulates_pages: "accumulates pages d \<Longrightarrow> accumulates (pages @ later_pages) (fold add_page later_pages d)"
proof (induction later_pages arbitrary: pages d)
  case (Cons p later_pages)
  from Cons.IH [OF accumulates_add [OF Cons.prems]] show ?case by simp
qed simp

text \<open>A directory read that returns is complete: its leaders are those of consecutive pages of the ranking,
  from the first on and at most the permitted number, each an answer of the service to the request for that page;
  each leader appears once; the reported total is that of the last page, and the rows of the pages, valid or not,
  are at least that many.\<close>

theorem directory_is_complete:
  assumes "list_all_leaders C tr dt maximum x = (Inr page, y)"
  shows "distinct (map ls_lead_portfolio_id (lp_leaders page))
    \<and> (\<exists>pages. pages \<noteq> [] \<and> int (length pages) \<le> maximum
      \<and> (\<forall>i < length pages. listed C tr dt (1 + int i) (pages ! i))
      \<and> ls_lead_portfolio_id ` set (lp_leaders page) = (\<Union>p \<in> set pages. ls_lead_portfolio_id ` set (lp_leaders p))
      \<and> lp_invalid_row_count page = sum_list (map lp_invalid_row_count pages)
      \<and> lp_total page = lp_total (last pages) \<and> lp_total page \<le> sum_list (map raw_rows pages))"
proof -
  from assms obtain j z where max: "1 \<le> maximum"
    and "snapshot_once C DIRECTORY_INCOMPLETE (list_all_leaders_snapshot C tr dt maximum) j z = (Inr (Some page), y)"
    by (auto simp: list_all_leaders_def lift_def elim!: andThen_InrE for_attempts_returns)
  then have "list_all_leaders_snapshot C tr dt maximum z = (Inr page, y)" by (blast dest: snapshot_once_returns)
  then obtain p w d where p: "listed C tr dt 1 p" and required: "required_pages_of (lp_total p) (raw_rows p) \<le> maximum"
    and loop: "directory_loop C tr dt maximum (raw_rows p) (first_directory p) 2 (required_pages_of (lp_total p) (raw_rows p)) w = (Inr d, y)"
    and page: "directory_page d = Inr page"
    by (fastforce simp: list_all_leaders_snapshot_def Let_def listed_def lift_def raise_def not_less elim!: andThen_InrE split: if_splits)
  from directory_loop_pages [OF loop required] obtain later_pages where
    later_pages: "\<forall>i < length later_pages. listed C tr dt (2 + int i) (later_pages ! i)" "d = fold add_page later_pages (first_directory p)"
      "2 + int (length later_pages) \<le> max 2 (maximum + 1)" by blast
  have d: "accumulates (p # later_pages) d" using accumulates_pages [OF accumulates_first, of p later_pages] later_pages(2) by simp
  have "listed C tr dt (1 + int i) ((p # later_pages) ! i)" if "i < length (p # later_pages)" for i
    using that later_pages(1) p by (cases i) (auto simp: ac_simps)
  moreover have "lp_leaders page = map snd (dr_leaders d)" "lp_total page = dr_latest_total d"
      "lp_invalid_row_count page = dr_invalid_count d" "dr_latest_total d \<le> dr_raw_rows_seen d"
    using page by (auto simp: directory_page_def)
  moreover have "distinct (map ls_lead_portfolio_id (map snd (dr_leaders d)))"
      "ls_lead_portfolio_id ` set (map snd (dr_leaders d)) = (\<Union>p \<in> set (p # later_pages). ls_lead_portfolio_id ` set (lp_leaders p))"
    using put_leaders_distinct [of "dr_leaders d"] d unfolding accumulates_def by simp_all
  moreover have "int (length (p # later_pages)) \<le> maximum" using later_pages(3) max by auto
  ultimately show ?thesis using d unfolding accumulates_def
    by (intro conjI exI [of _ "p # later_pages"]) simp_all
qed

section \<open>Concrete reads\<close>

text \<open>A service with one leader and one order, which answers every request with the same text.\<close>

definition sample_leader_id :: string where "sample_leader_id = ''1234567890''"

definition sample_row :: document where
  "sample_row = [(''symbol'', JStr ''BTCUSDT''), (''positionSide'', JStr ''LONG''), (''side'', JStr ''BUY''),
    (''type'', JStr ''LIMIT''), (''executedQty'', JStr ''1''), (''avgPrice'', JStr ''100''), (''totalPnl'', JStr ''0''),
    (''orderTime'', JInt 900), (''orderUpdateTime'', JInt 1000)]"

definition sample_reply :: "json list \<Rightarrow> json" where
  "sample_reply rows = JObj [(''success'', JBool True), (''code'', JStr ''000000''),
     (''data'', JObj [(''list'', JArr rows), (''total'', JInt (int (length rows)))])]"

definition sample_client :: "json list \<Rightarrow> unit copy_client" where
  "sample_client rows = \<lparr>cl_transport = (\<lambda>method url hs body. ret \<lparr>hr_status = 200, hr_headers = [], hr_body = ''text''\<rparr>),
     cl_loads = (\<lambda>body. Some (sample_reply rows)), cl_retry_attempts = 3, cl_sleeper = (\<lambda>d x. x)\<rparr>"

lemma sample_fields:
  "leader_id_ok sample_leader_id" "required_string sample_row ''symbol'' = Inr ''BTCUSDT''" "symbol_ok ''BTCUSDT''"
  "required_string sample_row ''positionSide'' = Inr ''LONG''" "required_string sample_row ''side'' = Inr ''BUY''"
  "required_string sample_row ''type'' = Inr ''LIMIT''" "order_type_ok ''LIMIT''"
  "positive_decimal (doc_get sample_row ''executedQty'') ''executedQty'' = Inr (dec 1)"
  "positive_decimal (doc_get sample_row ''avgPrice'') ''avgPrice'' = Inr (dec 100)"
  "decimal_field (doc_get sample_row ''totalPnl'') ''totalPnl'' = Inr (dec 0)"
  "positive_integer (doc_get sample_row ''orderTime'') ''orderTime'' = Inr 900"
  "positive_integer (doc_get sample_row ''orderUpdateTime'') ''orderUpdateTime'' = Inr 1000"
  by code_simp+

lemma sample_order_parses:
  "\<exists>o0. order_from_api sample_leader_id sample_row = Inr o0 \<and> po_update_time_ms o0 = 1000"
  by (simp add: order_from_api_def sample_fields side_error_def source_side_of_def order_side_of_def Let_def)

lemma sample_read:
  assumes "order_from_api sample_leader_id sample_row = Inr o0"
  shows "read_order_history_page (sample_client [JObj sample_row]) sample_leader_id 1 100 (Some 1000) ()
    = (Inr \<lparr>hp_orders = [o0], hp_total = 1\<rparr>, ())"
proof -
  have "post (sample_client [JObj sample_row]) ORDER_HISTORY_PATH d op ()
      = (Inr [(''list'', JArr [JObj sample_row]), (''total'', JInt 1)], ())" for d op
    by (simp add: post_def post_once_def send_once_def post_answer_def sample_client_def sample_reply_def accepted_def
        tryExcept_def ret_def andThen_def doc_get_def numeral_eq_Suc)
  moreover have "order_page_of sample_leader_id (Some 1000) [JObj sample_row] 1 = Inr \<lparr>hp_orders = [o0], hp_total = 1\<rparr>"
    using assms by (simp add: order_page_of_def require_mapping_def deduplicate_exact_order_events_def dict_setdefault_def
        disambiguate_same_timestamp_batch_orders_def group_indexes_def dict_get_def guarded_orders_def)
  ultimately show ?thesis
    by (simp add: read_order_history_page_def andThen_def lift_def rows_and_total_def doc_get_def json_total_def)
qed

lemma sample_history:
  assumes "order_from_api sample_leader_id sample_row = Inr o0" "po_update_time_ms o0 = 1000"
  shows "order_history_since (sample_client [JObj sample_row]) sample_leader_id 1000 100 20 ()
    = (Inr \<lparr>hp_orders = [o0], hp_total = 1\<rparr>, ())"
proof -
  have "order_history_since_snapshot (sample_client [JObj sample_row]) sample_leader_id 1000 100 20 ()
      = (Inr \<lparr>hp_orders = [o0], hp_total = 1\<rparr>, ())"
    using assms by (simp add: order_history_since_snapshot_def andThen_def ret_def sample_read [OF assms(1)]
        merge_orders_def dict_setdefault_def Let_def upto_rec1 [of 1 20])
  then show ?thesis
    by (simp add: order_history_since_def snapshot_once_def sample_client_def tryExcept_def andThen_def ret_def numeral_eq_Suc)
qed

theorem catch_up_covers_watermark_witness:
  "\<exists>o0. order_history_since (sample_client [JObj sample_row]) sample_leader_id 1000 100 20 () = (Inr \<lparr>hp_orders = [o0], hp_total = 1\<rparr>, ())
    \<and> po_update_time_ms o0 = 1000
    \<and> (\<exists>pages. covering (sample_client [JObj sample_row]) sample_leader_id 1000 100 1 pages \<and> int (length pages) \<le> 20)"
proof -
  obtain o0 where o0: "order_from_api sample_leader_id sample_row = Inr o0" "po_update_time_ms o0 = 1000"
    using sample_order_parses by blast
  with catch_up_covers_watermark [OF sample_history [OF o0]] sample_history [OF o0] show ?thesis by blast
qed

theorem history_page_is_unambiguous_witness:
  "\<exists>o0. read_order_history_page (sample_client [JObj sample_row]) sample_leader_id 1 100 (Some 1000) ()
      = (Inr \<lparr>hp_orders = [o0], hp_total = 1\<rparr>, ()) \<and> row_ok sample_leader_id o0"
proof -
  obtain o0 where o0: "order_from_api sample_leader_id sample_row = Inr o0"
    using sample_order_parses by blast
  with history_page_is_unambiguous [OF sample_read [OF o0]] sample_read [OF o0] show ?thesis by auto
qed

theorem retries_are_exhaustive_witness:
  "get_result (sample_client []) ''/path'' ''READ'' ()
    = for_attempts (send_once (sample_client []) ''GET'' ''/path'' get_headers [] ''READ'') OverflowError 0 3 ()"
  using retries_are_exhaustive [of "sample_client []" "''/path''" "[]" "''READ''" OverflowError OverflowError "ret ()" OverflowError]
  by (simp add: copy_client_check_def sample_client_def)

theorem directory_is_complete_witness:
  "\<exists>page. list_all_leaders (sample_client []) ''30D'' ''ROI'' 5 () = (Inr page, ()) \<and> lp_total page = 0
     \<and> distinct (map ls_lead_portfolio_id (lp_leaders page))"
proof -
  let ?p = "\<lparr>lp_leaders = [], lp_total = 0, lp_invalid_row_count = 0, lp_invalid_reason_codes = [], lp_invalid_leader_ids = []\<rparr>"
  have "post (sample_client []) LEADER_LIST_PATH d op () = (Inr [(''list'', JArr []), (''total'', JInt 0)], ())" for d op
    by (simp add: post_def post_once_def send_once_def post_answer_def sample_client_def sample_reply_def accepted_def
        tryExcept_def ret_def andThen_def doc_get_def numeral_eq_Suc)
  then have "list_leaders (sample_client []) 1 100 ''30D'' ''ROI'' True () = (Inr ?p, ())"
    by (simp add: list_leaders_def leader_rows_def andThen_def lift_def rows_and_total_def doc_get_def json_total_def
        leader_page_of_def sorted_set_def)
  then have "list_all_leaders_snapshot (sample_client []) ''30D'' ''ROI'' 5 () = (Inr ?p, ())"
    by (simp add: list_all_leaders_snapshot_def andThen_def raw_rows_def required_pages_of_def directory_loop.simps
        ret_def lift_def directory_page_def first_directory_def put_leaders_def sorted_set_def)
  then have "list_all_leaders (sample_client []) ''30D'' ''ROI'' 5 () = (Inr ?p, ())"
    by (simp add: list_all_leaders_def snapshot_once_def sample_client_def tryExcept_def andThen_def ret_def lift_def numeral_eq_Suc)
  from this directory_is_complete [OF this] show ?thesis by auto
qed

section \<open>Errors that escape\<close>

text \<open>Some malformed rows raise an exception that is not the error class the callers of the client handle: a
  list or an object as the side of a position is tested for membership in a set of texts, and the label of a
  batch row may have characters its check refuses.\<close>

lemma unhashable_side_escapes:
  assumes "doc_get row ''symbol'' = JStr symbol" "symbol_ok symbol" "doc_get row ''side'' = JArr values"
  shows "as_public_error (rmap position_from_row (JObj row # rows)) = Inl (TypeError ''unhashable type: list'')"
  using assms by (simp add: position_from_row_def require_mapping_def in_texts_def)

lemma unlabelled_batch_escapes:
  assumes "disambiguated orders o0" "o0 \<in> set orders" "\<not> label_ok o0"
  shows "disambiguate_same_timestamp_batch_orders orders = Inl label_error"
proof -
  have "rmap (resolved_row orders) orders = (if \<forall>o0 \<in> set orders. disambiguated orders o0 \<longrightarrow> label_ok o0
      then Inr (map (\<lambda>o0. if disambiguated orders o0 then relabelled o0 else o0) orders) else Inl label_error)"
    by (rule rmap_total) (simp add: resolved_row_def with_batch_discriminator)
  with assms show ?thesis by (auto simp: disambiguate_rows)
qed

end
