(* ===== verification/CycleSafety.thy ===== *)
theory CycleSafety
  imports Cycle RuntimeSafety PublicSafety
begin

text \<open>
  Safety of whole polling cycles of theory \<open>Cycle\<close>: the properties that the processing of a signal keeps
  carry over to \<open>run_cycle\<close>, and the report of a cycle accounts for its polls and signals.
\<close>

section \<open>Keeping a property over a cycle\<close>

text \<open>A property that does not mind the counter of a cycle going up.\<close>

locale counting_property = runtime_property +
  assumes counts: "I r \<Longrightarrow> I (r\<lparr>rt_processed := rt_processed r + 1\<rparr>)"
begin

lemma rkeeps_count: "rkeeps I count_processed"
  using counts by (simp add: rkeeps_def count_processed_def changing_def)

lemma rkeeps_read_page: "rkeeps I (read_baseline Y leader ms)" "rkeeps I (read_since Y leader)" "rkeeps I (resolve_page Y leader page)"
  unfolding read_baseline_def read_since_def resolve_page_def by (intro base_intros)+

lemma rkeeps_record_poll: "rkeeps I (record_poll Y leader state n u cs t)"
  unfolding record_poll_def by (intro base_intros)

lemma rkeeps_activate: "rkeeps I (activate Y a b now)"
  unfolding activate_def Let_def by (intro base_intros)

text \<open>Recovery and polling, when the processing of signals keeps the property.\<close>

lemma rkeeps_recover:
  assumes "\<And>s a. rkeeps I (process_signal E C S s a)"
  shows "rkeeps I (recover_signals E C S as done ss)"
proof (induction ss)
  case Nil
  show ?case unfolding recover_signals.simps by (rule rkeeps_ret)
next
  case (Cons s ss)
  show ?case unfolding recover_signals.simps by (intro base_intros assms rkeeps_count Cons)
qed

lemma rkeeps_process_polled:
  assumes "\<And>s a. rkeeps I (process_signal E C S s a)"
  shows "rkeeps I (process_polled E C S a ss)"
proof (induction ss)
  case Nil
  show ?case unfolding process_polled.simps by (rule rkeeps_ret)
next
  case (Cons s ss)
  show ?case unfolding process_polled.simps by (intro base_intros assms rkeeps_count Cons)
qed

lemma rkeeps_poll_leader:
  assumes "\<And>s a. rkeeps I (process_signal E C (cy_services Y) s a)"
  shows "rkeeps I (poll_leader E C Y ps a)"
  unfolding poll_leader_def poll_body_def poll_failed_def Let_def
  by (intro base_intros rkeeps_read_page rkeeps_record_poll rkeeps_activate rkeeps_process_polled assms
      rkeeps_request_incident; simp)

lemma rkeeps_poll_leaders:
  assumes "\<And>s a. rkeeps I (process_signal E C (cy_services Y) s a)"
  shows "rkeeps I (poll_leaders E C Y ps as)"
proof (induction as)
  case Nil
  show ?case unfolding poll_leaders.simps by (rule rkeeps_ret)
next
  case (Cons a as)
  show ?case unfolding poll_leaders.simps by (intro base_intros rkeeps_poll_leader assms Cons)
qed

lemma rkeeps_control_reductions: "rkeeps I (request_control_reductions E C Y)"
  unfolding request_control_reductions_def by (intro base_intros)

lemma rkeeps_poll_phase:
  assumes "\<And>s a. rkeeps I (process_signal E C (cy_services Y) s a)" and "rkeeps I (complete_flatten E C Y)"
  shows "rkeeps I (poll_phase E C Y as recovered)"
  unfolding poll_phase_def by (intro base_intros assms rkeeps_poll_leaders)

text \<open>A cycle keeps what its signals, its stops, the reset of the counter and the completion of a flatten
  keep.\<close>

lemma rkeeps_run_cycle:
  assumes "\<And>s a. rkeeps I (process_signal E C (cy_services Y) s a)"
    and "\<And>as. rkeeps I (settle_stops E C Y as)" and "rkeeps I (complete_flatten E C Y)"
    and "\<And>n. rkeeps I (changing (\<lambda>r. r\<lparr>rt_processed := n\<rparr>))"
  shows "rkeeps I (run_cycle E C Y)"
  unfolding run_cycle_def
  by (intro base_intros assms rkeeps_control_reductions rkeeps_recover rkeeps_poll_phase; simp add: begin_cycle_def)

end

text \<open>In shadow and observe modes.\<close>

locale observing_cycle = counting_property + deciding_property
begin

lemma rkeeps_cycle_shadow:
  assumes "\<not> execution_enabled C"
    and "\<And>n. rkeeps I (changing (\<lambda>r. r\<lparr>rt_processed := n\<rparr>))"
  shows "rkeeps I (run_cycle E C Y)"
proof (rule rkeeps_run_cycle [OF rkeeps_process_shadow [OF assms(1)]])
  show "rkeeps I (settle_stops E C Y as)" for as
    using assms by (simp add: settle_stops_def first_stops_def rkeeps_ret)
  show "rkeeps I (complete_flatten E C Y)"
    using assms by (simp add: complete_flatten_def rkeeps_andThen rkeeps_service rkeeps_ret)
qed (rule assms(2))


end

text \<open>With execution.\<close>

locale executing_cycle = counting_property I harmless + executing_property I harmless E C
  for I :: "'x runtime \<Rightarrow> bool" and harmless and E :: "'x environment" and C :: runtime_config
begin

lemma rkeeps_cancel_stops: "rkeeps I (cancel_stops E C Y as stops used done)"
proof (induction stops arbitrary: used "done")
  case Nil
  show ?case unfolding cancel_stops.simps by (rule rkeeps_ret)
next
  case (Cons stop stops)
  show ?case unfolding cancel_stops.simps Let_def by (intro rkeeps_andThen rkeeps_cancel_stopped Cons)
qed

lemma rkeeps_process_new: "rkeeps I (process_new E C S a ss done)"
proof (induction ss arbitrary: "done")
  case Nil
  show ?case unfolding process_new.simps by (rule rkeeps_ret)
next
  case (Cons s ss)
  show ?case unfolding process_new.simps by (intro base_intros rkeeps_process_signal Cons)
qed

lemma rkeeps_close_stops: "rkeeps I (close_stops E C Y as used stops done)"
proof (induction stops arbitrary: "done")
  case Nil
  show ?case unfolding close_stops.simps by (rule rkeeps_ret)
next
  case (Cons stop stops)
  show ?case unfolding close_stops.simps Let_def by (intro base_intros rkeeps_process_new Cons)
qed

lemma rkeeps_settle_stops: "rkeeps I (settle_stops E C Y as)"
  unfolding settle_stops_def first_stops_def enforce_stops_def
  by (intro base_intros rkeeps_logical_account_snapshot rkeeps_cancel_stops rkeeps_close_stops)

lemma rkeeps_complete_flatten: "rkeeps I (complete_flatten E C Y)"
  unfolding complete_flatten_def exchange_flatten_confirmed_def append_runtime_control_def
  by (intro base_intros acting)

lemmas rkeeps_cycle = rkeeps_run_cycle [OF rkeeps_process_signal rkeeps_settle_stops rkeeps_complete_flatten]
lemmas rkeeps_polls = rkeeps_poll_leader [OF rkeeps_process_signal]

end

section \<open>Runs of the runtime\<close>

text \<open>Any sequence of cycles and of signals processed on their own, each with any behaviour of the
  services, with anything happening outside and to the attributes in between, started on an empty
  journal or on what earlier calls of the executor left.\<close>

inductive runtime_reachable :: "'x environment \<Rightarrow> runtime_config \<Rightarrow> 'x runtime \<Rightarrow> bool"
  for E :: "'x environment" and C :: runtime_config where
  launch: "reachable E (cf_executor C) (rt_world r) \<Longrightarrow> runtime_reachable E C r"
| elapses: "runtime_reachable E C r \<Longrightarrow> rt_world r' = (rt_world r)\<lparr>wd_outside := x\<rparr> \<Longrightarrow> runtime_reachable E C r'"
| signal: "runtime_reachable E C r \<Longrightarrow> runtime_reachable E C (snd (process_signal E C S s a r))"
| cycles: "runtime_reachable E C r \<Longrightarrow> runtime_reachable E C (snd (run_cycle E C Y r))"

text \<open>The runtime reaches only worlds that calls of the executor reach.\<close>

interpretation reach: executing_cycle "\<lambda>r. reachable E (cf_executor C) (rt_world r)" "\<lambda>_. True" E C for E C
  by unfold_locales (auto simp: rkeeps_def on_world_def split_beta intro: reachable.intros)

lemma runtime_reachable_world: "runtime_reachable E C r \<Longrightarrow> reachable E (cf_executor C) (rt_world r)"
proof (induction rule: runtime_reachable.induct)
  case (signal r S s a)
  show ?case by (rule rkeepsD [OF reach.rkeeps_process_signal signal.IH])
next
  case (cycles r Y)
  show ?case by (rule rkeepsD [OF reach.rkeeps_cycle cycles.IH]) (simp add: rkeeps_def changing_def)
qed (auto intro: reachable.intros)

text \<open>C7: the whole runtime submits only what it claimed, and once. After any run of the runtime every
  order ever placed is the request of a durable claim for its signal, and a claim of a market order
  or of a limit order with an expiry was placed at most once.\<close>

theorem runtime_submits_claimed_once:
  assumes "runtime_reachable E C r"
  shows "(\<forall>ps \<in> set (placed (wd_requests (rt_world r))). \<exists>c \<in> set (claims_of (wd_journal (rt_world r))). \<exists>m.
      sc_signal_id c = sg_signal_id (mo_signal m) \<and> order_parameters m (sc_client_order_id c) = Inr ps
      \<and> request_hash m (sc_client_order_id c) = Inr (sc_request_hash c))
    \<and> (\<forall>c \<in> set (claims_of (wd_journal (rt_world r))). sc_order_type c = MARKET \<or> sc_expires_at c \<noteq> None
      \<longrightarrow> submissions (sc_client_order_id c) (wd_requests (rt_world r)) \<le> 1)"
proof -
  note inv = reachable_inv [OF runtime_reachable_world [OF assms]]
  then have "\<forall>ps \<in> set (placed (wd_requests (rt_world r))). backed (wd_journal (rt_world r)) ps"
    by (simp add: submission_inv_def)
  moreover have "\<forall>c \<in> set (claims_of (wd_journal (rt_world r))). sc_order_type c = MARKET \<or> sc_expires_at c \<noteq> None
      \<longrightarrow> submissions (sc_client_order_id c) (wd_requests (rt_world r)) \<le> 1"
    using inv by (auto simp: submission_inv_def persistent_def)
  ultimately show ?thesis unfolding backed_def claim_matches_def by meson
qed

section \<open>Cycles without execution\<close>

interpretation observing_cycles: observing_cycle "untouched j q es" "\<lambda>e. \<not> is_action e" for j q es
  by unfold_locales (simp_all add: untouched_def)

text \<open>C9: a whole cycle in shadow or observe mode only observes: whatever the public client, the repository
  and the exchange do, and whether the cycle ends or raises, nothing is sent to the exchange, nothing
  is written to the submission journal, no fill is attributed and the control state is not changed.\<close>

theorem shadow_cycle_only_observes:
  assumes "\<not> execution_enabled C" "run_cycle E C Y r = (x, r')"
  shows "wd_journal (rt_world r') = wd_journal (rt_world r) \<and> wd_requests (rt_world r') = wd_requests (rt_world r)
    \<and> filter is_action (rt_effects r') = filter is_action (rt_effects r)"
proof -
  let ?I = "untouched (wd_journal (rt_world r)) (wd_requests (rt_world r)) (filter is_action (rt_effects r))"
  have "rkeeps ?I (run_cycle E C Y)"
    using assms(1) by (rule observing_cycles.rkeeps_cycle_shadow) (simp add: rkeeps_def changing_def untouched_def)
  from rkeepsD [OF this, of r] assms(2) show ?thesis by (simp add: untouched_def)
qed

section \<open>The report of a cycle\<close>

interpretation growing: executing_cycle "\<lambda>r. n \<le> rt_processed r" "\<lambda>_. True" E C for n E C
  by unfold_locales (simp_all add: rkeeps_def on_world_def split_beta)

lemma process_polled_counts:
  "process_polled E C S a ss r = (Inr u, r') \<Longrightarrow> rt_processed r + length ss \<le> rt_processed r'"
proof (induction ss arbitrary: r)
  case (Cons s ss)
  from Cons.prems obtain r1 r2 where run: "process_signal E C S s a r = (Inr (), r1)" "count_processed r1 = (Inr (), r2)"
    "process_polled E C S a ss r2 = (Inr u, r')"
    by (auto elim!: andThen_InrE)
  have "rt_processed r \<le> rt_processed r1"
    using rkeepsD [OF growing.rkeeps_process_signal [of "rt_processed r" E C S s a], of r] run(1) by simp
  moreover have "rt_processed r2 = rt_processed r1 + 1" using run(2) by (auto simp: count_processed_def changing_def)
  ultimately show ?case using Cons.IH [OF run(3)] by simp
qed (simp add: ret_def)

text \<open>Computations that raise the counter by at least an amount given by their result.\<close>

definition adds :: "('a \<Rightarrow> nat) \<Rightarrow> ('x, 'a) run \<Rightarrow> bool" where
  "adds k f \<longleftrightarrow> (\<forall>r a r'. f r = (Inr a, r') \<longrightarrow> rt_processed r + k a \<le> rt_processed r')"

lemma adds_after:
  assumes "\<And>n. rkeeps (\<lambda>r. n \<le> rt_processed r) f" "\<And>a. adds k (g a)"
  shows "adds k (andThen f g)"
  unfolding adds_def
proof (intro allI impI)
  fix r b r' assume "andThen f g r = (Inr b, r')"
  then obtain a w where f: "f r = (Inr a, w)" and g: "g a w = (Inr b, r')" by (rule andThen_InrE)
  have "rt_processed r \<le> rt_processed w" using rkeepsD [OF assms(1), of "rt_processed r" r] f by simp
  with assms(2) g show "rt_processed r + k b \<le> rt_processed r'" by (fastforce simp: adds_def)
qed

lemma adds_polled:
  "adds (\<lambda>n. n) (andThen (process_polled E C S a ss) (\<lambda>_. andThen (changing (\<lambda>r. r\<lparr>rt_recovery_pending_leaders := f r\<rparr>))
     (\<lambda>_. ret (length ss))))"
  by (auto simp: adds_def changing_def ret_def elim!: andThen_InrE dest: process_polled_counts)

lemma poll_body_adds: "adds (\<lambda>n. n) (poll_body E C Y ps a now)"
  unfolding poll_body_def Let_def
  by (intro adds_after adds_polled growing.base_intros growing.rkeeps_read_page growing.rkeeps_record_poll growing.rkeeps_activate)

lemma poll_leader_adds: "adds (\<lambda>p. case p of None \<Rightarrow> 0 | Some n \<Rightarrow> n) (poll_leader E C Y ps a)"
  unfolding poll_leader_def
proof (intro adds_after growing.rkeeps_clock rkeeps_lift)
  fix now
  let ?k = "\<lambda>p. case p of None \<Rightarrow> 0 | Some n \<Rightarrow> n"
  let ?attempt = "tryExcept is_public_error (poll_body E C Y ps a now) (poll_failed Y (lg_lead_portfolio_id a) now) (\<lambda>n. ret (Some n))"
  show "adds ?k ?attempt" unfolding adds_def
  proof (intro allI impI)
    fix r p r' assume run: "?attempt r = (Inr p, r')"
    obtain x w where body: "poll_body E C Y ps a now r = (x, w)" by fastforce
    have grows: "rkeeps (\<lambda>r. n \<le> rt_processed r) ?attempt" for n
      unfolding poll_body_def poll_failed_def Let_def
      by (intro growing.base_intros growing.rkeeps_read_page growing.rkeeps_record_poll growing.rkeeps_activate
          growing.rkeeps_process_polled growing.rkeeps_process_signal growing.rkeeps_request_incident; simp)
    show "rt_processed r + ?k p \<le> rt_processed r'"
    proof (cases p)
      case None
      then show ?thesis using rkeepsD [OF grows, of "rt_processed r" r] run by simp
    next
      case (Some n)
      with run body have "x = Inr n" "r' = w"
        by (auto simp: tryExcept_def ret_def poll_failed_def Let_def elim!: andThen_InrE split: sum.splits if_splits)
      with body poll_body_adds [of E C Y ps a now] Some show ?thesis by (auto simp: adds_def)
    qed
  qed
qed

lemma poll_leaders_adds:
  "poll_leaders E C Y ps as r = (Inr ns, r') \<Longrightarrow> length ns = length as \<and> rt_processed r + sum_list (List.map_filter id ns) \<le> rt_processed r'"
proof (induction as arbitrary: r ns)
  case Nil
  then show ?case by (simp add: ret_def map_filter_def)
next
  case (Cons a as)
  from Cons.prems obtain p ms r1 where run: "poll_leader E C Y ps a r = (Inr p, r1)"
    "poll_leaders E C Y ps as r1 = (Inr ms, r')" "ns = p # ms"
    by (auto simp: ret_def elim!: andThen_InrE)
  have "rt_processed r + (case p of None \<Rightarrow> 0 | Some n \<Rightarrow> n) \<le> rt_processed r1"
    using poll_leader_adds [of E C Y ps a] run(1) by (simp add: adds_def)
  with Cons.IH [OF run(2)] run(3) show ?case by (auto simp: map_filter_def split: option.splits)
qed

lemma poll_phase_report:
  assumes "poll_phase E C Y as recovered r = (Inr polls, r')"
  shows "length polls = length as \<and> sum_list (List.map_filter id polls) \<le> rt_processed r'"
proof -
  let ?rest = "\<lambda>ns. andThen (runtime_clock E) (\<lambda>t. andThen (service (cy_reconcile_pending_slot_replacements Y t)) (\<lambda>_.
    andThen (runtime_clock E) (\<lambda>t'. andThen (service (cy_retire_drained_leaders Y t')) (\<lambda>_.
    andThen (complete_flatten E C Y) (\<lambda>_. ret ns)))))"
  from assms obtain l r1 where "andThen (poll_leaders E C Y (protected_leaders l recovered) as) ?rest r1 = (Inr polls, r')"
    unfolding poll_phase_def by (rule andThen_InrE)
  then obtain ns r2 where polled: "poll_leaders E C Y (protected_leaders l recovered) as r1 = (Inr ns, r2)"
    and rest: "?rest ns r2 = (Inr polls, r')" by (rule andThen_InrE)
  have "rkeeps (\<lambda>r. n \<le> rt_processed r) (?rest ns)" for n
    by (intro growing.base_intros growing.rkeeps_complete_flatten)
  from rkeepsD [OF this, of "rt_processed r2" r2] rest have "rt_processed r2 \<le> rt_processed r'" by simp
  moreover have "ns = polls" using rest by (auto simp: ret_def elim!: andThen_InrE)
  ultimately show ?thesis using poll_leaders_adds [OF polled] by simp
qed


section \<open>Polling with the public client\<close>

lemma service_run:
  "service op r = (let (a, x) = op (wd_journal (rt_world r)) (wd_outside (rt_world r)) in
     (a, r\<lparr>rt_world := (rt_world r)\<lparr>wd_outside := x\<rparr>\<rparr>))"
  by (simp add: service_def on_world_def outside_def Let_def split_beta)

text \<open>C33: the composition of the cycle with the public client. When a leader is read from its stored watermark on,
  every row that reaches the order tracker is a well-formed row of that leader at or after the watermark the
  repository gave, no event is repeated, and the rows come from consecutive pages of the service of which the last
  reaches the watermark; otherwise the read raises and the poll is recorded as failed.\<close>

theorem polled_history_covers_watermark:
  assumes "cy_public Y = binance_public C" "read_since Y leader r = (Inr page, r')"
  shows "\<exists>w. (\<exists>j x x'. cy_source_watermark Y leader j x = (Inr (Some w), x'))
    \<and> list_all (\<lambda>o0. row_ok leader o0 \<and> w \<le> po_update_time_ms o0) (hp_orders page)
    \<and> distinct (map po_event_key (hp_orders page))
    \<and> (\<exists>pages. covering C leader w 100 1 pages \<and> int (length pages) \<le> 20
        \<and> set (hp_orders page) \<subseteq> (\<Union>p \<in> set pages. set (hp_orders p)))"
proof -
  from assms obtain w r0 r1 where w: "service (cy_source_watermark Y leader) r0 = (Inr (Some w), r1)"
    and read: "service (\<lambda>_. order_history_since C leader w 100 20) r1 = (Inr page, r')"
    by (auto simp: read_since_def binance_public_def raise_def elim!: andThen_InrE split: option.splits)
  from w have "\<exists>j x x'. cy_source_watermark Y leader j x = (Inr (Some w), x')"
    by (blast elim: service_returns)
  moreover from read obtain x x' where "order_history_since C leader w 100 20 x = (Inr page, x')"
    by (rule service_returns)
  note facts = catch_up_facts [OF this]
  from facts obtain pages where pages: "covering C leader w 100 1 pages" "int (length pages) \<le> 20"
    "set (hp_orders page) \<subseteq> (\<Union>p \<in> set pages. set (hp_orders p))" by blast
  have "row_ok leader o0" if "o0 \<in> set (hp_orders page)" for o0
  proof -
    from that pages(3) obtain p where "p \<in> set pages" "o0 \<in> set (hp_orders p)" by blast
    then obtain i where "i < length pages" "o0 \<in> set (hp_orders (pages ! i))" by (metis in_set_conv_nth)
    with pages(1) show ?thesis by (auto simp: covering_def answered_def dest!: history_page_facts(2))
  qed
  ultimately show ?thesis using facts pages by (auto simp: list_all_iff)
qed

section \<open>A concrete cycle\<close>

text \<open>A public client that refuses access, one assigned leader and nothing to recover.\<close>

definition sample_cycle_services :: "unit cycle_services" where
  "sample_cycle_services = \<lparr>cy_services = sample_services RUNNING,
     cy_public = \<lparr>pc_order_history_baseline = None, pc_order_history = (\<lambda>_ _ _ x. (Inl (BinancePublicCopyError ''ACCESS_DENIED''), x)),
       pc_order_history_since = (\<lambda>_ _ _ _ _ x. (Inl (BinancePublicCopyError ''ACCESS_DENIED''), x)),
       pc_position_history = (\<lambda>_ _ _ x. (Inr [], x))\<rparr>,
     cy_active_assignments = (\<lambda>_ x. (Inr [sample_assignment], x)),
     cy_enforce_leader_symbol_stops = (\<lambda>_ _ _ _ x. (Inr [], x)),
     cy_recoverable_leader_symbol_stop_signals = (\<lambda>_ _ x. (Inr [], x)),
     cy_ensure_control_reduction_signals = (\<lambda>_ _ _ x. (Inr (), x)),
     cy_recoverable_signals = (\<lambda>_ _ x. (Inr [], x)),
     cy_source_watermark = (\<lambda>_ _ x. (Inr None, x)),
     cy_source_orders_for_resolution = (\<lambda>_ _ x. (Inr [], x)),
     cy_ingest_orders = (\<lambda>_ _ _ _ _ x. (Inr [], x)),
     cy_record_poll = (\<lambda>_ _ _ _ _ _ _ x. (Inr (), x)),
     cy_append_lifecycle = (\<lambda>_ _ _ _ _ x. (Inr (), x)),
     cy_reconcile_pending_slot_replacements = (\<lambda>_ _ x. (Inr 0, x)),
     cy_retire_drained_leaders = (\<lambda>_ _ x. (Inr [], x))\<rparr>"

lemma sample_cycle:
  "case run_cycle sample_environment (sample_config SHADOW) sample_cycle_services sample_start of
     (Inr rep, r) \<Rightarrow> pr_failed_polls rep = 1 \<and> pr_leader_count rep = 1 | _ \<Rightarrow> False"
  by (simp add: run_cycle_def andThen_def changing_def service_def on_world_def outside_def settle_stops_def first_stops_def
      request_control_reductions_def poll_phase_def runtime_clock_def clock_def complete_flatten_def reading_def ret_def raise_def lift_def
      poll_leader_def poll_body_def poll_failed_def read_baseline_def tryExcept_def record_poll_def wrote_def request_incident_def
      cycle_report_def begin_cycle_def runtime_require_utc_def is_utc_def execution_enabled_def protected_leaders_def
      ledger_snapshot_def Let_def sample_cycle_services_def sample_services_def sample_config_def sample_start_def
      new_runtime_def sample_world_def sample_environment_def sample_assignment_def)

theorem shadow_cycle_only_observes_witness:
  "wd_requests (rt_world (snd (run_cycle sample_environment (sample_config SHADOW) sample_cycle_services sample_start))) = []"
proof -
  have "\<not> execution_enabled (sample_config SHADOW)" by (simp add: execution_enabled_def sample_config_def)
  from shadow_cycle_only_observes [OF this, of sample_environment sample_cycle_services sample_start] show ?thesis
    by (metis new_runtime_def prod.collapse runtime.select_convs(1) sample_start_def sample_world_def world.select_convs(2))
qed


theorem polled_history_covers_watermark_witness:
  "\<exists>o0 r'. read_since (sample_cycle_services\<lparr>cy_public := binance_public (sample_client [JObj sample_row]),
       cy_source_watermark := (\<lambda>_ _ x. (Inr (Some 1000), x))\<rparr>) sample_leader_id sample_start
     = (Inr \<lparr>hp_orders = [o0], hp_total = 1\<rparr>, r') \<and> row_ok sample_leader_id o0"
proof -
  let ?Y = "sample_cycle_services\<lparr>cy_public := binance_public (sample_client [JObj sample_row]),
       cy_source_watermark := (\<lambda>_ _ x. (Inr (Some 1000), x))\<rparr>"
  obtain o0 where o0: "order_from_api sample_leader_id sample_row = Inr o0" "po_update_time_ms o0 = 1000"
    using sample_order_parses by blast
  have "\<exists>r'. read_since ?Y sample_leader_id sample_start = (Inr \<lparr>hp_orders = [o0], hp_total = 1\<rparr>, r')"
    by (simp add: read_since_def andThen_def service_run Let_def binance_public_def sample_history [OF o0])
  then obtain r' where r': "read_since ?Y sample_leader_id sample_start = (Inr \<lparr>hp_orders = [o0], hp_total = 1\<rparr>, r')" by blast
  with polled_history_covers_watermark [OF _ r', of "sample_client [JObj sample_row]"] show ?thesis by auto
qed

theorem runtime_submits_claimed_once_witness:
  "\<exists>r ps c m. runtime_reachable sample_environment (sample_config TESTNET_MODE) r \<and> ps \<in> set (placed (wd_requests (rt_world r)))
     \<and> c \<in> set (claims_of (wd_journal (rt_world r))) \<and> order_parameters m (sc_client_order_id c) = Inr ps"
proof -
  obtain w ps where w: "reachable sample_environment sample_executor w" "ps \<in> set (placed (wd_requests w))"
    by (rule sample_reached)
  define r where "r = sample_start\<lparr>rt_world := w\<rparr>"
  have r: "runtime_reachable sample_environment (sample_config TESTNET_MODE) r"
    using w(1) by (intro launch) (simp add: sample_config_def r_def)
  have ps: "ps \<in> set (placed (wd_requests (rt_world r)))" using w(2) by (simp add: r_def)
  with runtime_submits_claimed_once [OF r] r show ?thesis by meson
qed



end
