(* ===== verification/OrderBook.thy ===== *)
theory OrderBook
  imports CopyOrder Doubles
begin

text \<open>
  Market data and the local order book: \<open>market_data/models.py\<close> (levels, snapshots, updates, health)
  and \<open>orderbook/book.py\<close>. Prices and quantities stay texts in the records, as in the source; the
  book holds decimals. The book is a record of its fields, an operation returns what the method
  returns or raises together with the book it leaves.
\<close>

section \<open>Market data records\<close>

text \<open>A validator of the models raises; the message is the one of the validator, or names the field
  whose declared constraint fails.\<close>

definition market_require_utc :: "datetime \<Rightarrow> unit result" where
  "market_require_utc t = require (is_utc t) (ValueError ''timestamp must be timezone-aware UTC'')"

definition market_decimal :: "string \<Rightarrow> bool \<Rightarrow> unit result" where
  "market_decimal value positive =
    (let refused = Inl (ValueError (''decimal must be finite and '' @ (if positive then ''positive'' else ''non-negative''))) in
     case parse_decimal value of
       Malformed \<Rightarrow> Inl (ValueError ''invalid decimal string'')
     | Finite d \<Rightarrow> if (if positive then d \<le> 0 else d < 0) then refused else Inr ()
     | _ \<Rightarrow> refused)"

record depth_level =
  dl_price :: string
  dl_quantity :: string

definition depth_level_check :: "depth_level \<Rightarrow> unit result" where
  "depth_level_check l = rbind (market_decimal (dl_price l) True) (\<lambda>_. market_decimal (dl_quantity l) False)"

definition symbol_check :: "string \<Rightarrow> unit result" where
  "symbol_check s = require (2 \<le> length s \<and> length s \<le> 24 \<and> list_all is_upper_alnum s) (ValueError ''symbol'')"

definition levels_check :: "depth_level list \<Rightarrow> unit result" where
  "levels_check ls = rbind (rmap depth_level_check ls) (\<lambda>_. Inr ())"

record book_snapshot =
  sn_symbol :: string
  sn_connection_id :: string
  sn_received_at :: datetime
  sn_last_update_id :: int
  sn_bids :: "depth_level list"
  sn_asks :: "depth_level list"

definition book_snapshot_check :: "book_snapshot \<Rightarrow> unit result" where
  "book_snapshot_check s =
    rbind (symbol_check (sn_symbol s)) (\<lambda>_.
    rbind (market_require_utc (sn_received_at s)) (\<lambda>_.
    rbind (require (0 \<le> sn_last_update_id s) (ValueError ''last_update_id'')) (\<lambda>_.
    rbind (levels_check (sn_bids s)) (\<lambda>_.
    rbind (levels_check (sn_asks s)) (\<lambda>_.
    require (sn_bids s \<noteq> [] \<and> sn_asks s \<noteq> []) (ValueError ''snapshot must contain both book sides''))))))"

text \<open>A float that is only carried along is its \<open>repr\<close> text.\<close>

record depth_update =
  du_environment :: string
  du_symbol :: string
  du_connection_id :: string
  du_subscription_id :: string
  du_event_time :: datetime
  du_transaction_time :: datetime
  du_received_at :: datetime
  du_first_update_id :: int
  du_final_update_id :: int
  du_previous_final_update_id :: int
  du_bids :: "depth_level list"
  du_asks :: "depth_level list"
  du_raw_hash :: string
  du_clock_offset_ms :: string
  du_rest_base :: string
  du_route_role :: string
  du_route_base_hash :: string
  du_duplicate :: bool
  du_out_of_order :: bool

definition depth_update_check :: "depth_update \<Rightarrow> unit result" where
  "depth_update_check u =
    rbind (require (du_environment u \<in> {''shadow'', ''paper'', ''testnet'', ''production''}) (ValueError ''environment'')) (\<lambda>_.
    rbind (symbol_check (du_symbol u)) (\<lambda>_.
    rbind (market_require_utc (du_event_time u)) (\<lambda>_.
    rbind (market_require_utc (du_transaction_time u)) (\<lambda>_.
    rbind (market_require_utc (du_received_at u)) (\<lambda>_.
    rbind (require (0 \<le> du_first_update_id u) (ValueError ''U'')) (\<lambda>_.
    rbind (require (0 \<le> du_final_update_id u) (ValueError ''u'')) (\<lambda>_.
    rbind (require (0 \<le> du_previous_final_update_id u) (ValueError ''pu'')) (\<lambda>_.
    rbind (levels_check (du_bids u)) (\<lambda>_.
    rbind (levels_check (du_asks u)) (\<lambda>_.
    rbind (require (sha256_text (du_raw_hash u)) (ValueError ''raw_hash'')) (\<lambda>_.
    rbind (require (sha256_text (du_route_base_hash u)) (ValueError ''route_base_hash'')) (\<lambda>_.
    require (\<not> du_final_update_id u < du_first_update_id u)
      (ValueError ''final update id precedes first update id'')))))))))))))"

datatype data_health_status = DH_HEALTHY | DH_WARMING_UP | DH_STALE | DH_GAP_DETECTED | DH_CLOCK_UNSAFE | DH_INVALID

record market_data_health =
  mh_status :: data_health_status
  mh_book_valid :: bool
  mh_warmed_up :: bool
  mh_last_update_id :: "int option"
  mh_event_lag_ms :: int
  mh_clock_offset_ms :: string
  mh_gap_count :: int
  mh_duplicate_count :: int
  mh_out_of_order_count :: int
  mh_stale_for_ms :: int
  mh_reason_codes :: "string list"

definition market_data_health_check :: "market_data_health \<Rightarrow> market_data_health result" where
  "market_data_health_check h =
    rbind (require (case mh_last_update_id h of None \<Rightarrow> True | Some i \<Rightarrow> 0 \<le> i) (ValueError ''last_update_id'')) (\<lambda>_.
    rbind (require (0 \<le> mh_event_lag_ms h) (ValueError ''event_lag_ms'')) (\<lambda>_.
    rbind (require (0 \<le> mh_gap_count h) (ValueError ''gap_count'')) (\<lambda>_.
    rbind (require (0 \<le> mh_duplicate_count h) (ValueError ''duplicate_count'')) (\<lambda>_.
    rbind (require (0 \<le> mh_out_of_order_count h) (ValueError ''out_of_order_count'')) (\<lambda>_.
    rbind (require (0 \<le> mh_stale_for_ms h) (ValueError ''stale_for_ms'')) (\<lambda>_.
    if mh_status h = DH_HEALTHY
    then if \<not> mh_book_valid h \<or> \<not> mh_warmed_up h \<or> mh_gap_count h \<noteq> 0 \<or> mh_out_of_order_count h \<noteq> 0
           \<or> mh_stale_for_ms h \<noteq> 0 \<or> mh_reason_codes h \<noteq> []
         then Inl (ValueError ''HEALTHY violates closed health contract'') else Inr h
    else if mh_reason_codes h = [] then Inl (ValueError ''non-healthy state requires a reason code'') else Inr h))))))"

section \<open>The book\<close>

datatype order_book_state = DISCONNECTED | BUFFERING | SNAPSHOT_LOADING | SYNCING | HEALTHY | STALE | GAP | ROTATING

datatype boundary_rule = COVER_LAST_UPDATE_ID | COVER_NEXT_UPDATE_ID

text \<open>A dictionary keyed by decimals: keys are equal when they denote the same number, and an
  assignment keeps the key that is there.\<close>

type_synonym book_side = "(decimal \<times> decimal) list"

fun put_level :: "decimal \<Rightarrow> decimal \<Rightarrow> book_side \<Rightarrow> book_side" where
  "put_level p q [] = [(p, q)]"
| "put_level p q ((p', q') # ls) = (if deq p' p then (p', q) # ls else (p', q') # put_level p q ls)"

definition drop_level :: "decimal \<Rightarrow> book_side \<Rightarrow> book_side" where
  "drop_level p ls = filter (\<lambda>l. \<not> deq (fst l) p) ls"

text \<open>\<open>Decimal(text)\<close> for the texts of a validated level, which denote finite numbers.\<close>

definition text_decimal :: "string \<Rightarrow> decimal" where
  "text_decimal s = (case parse_decimal s of Finite d \<Rightarrow> d | _ \<Rightarrow> 0)"

definition apply_level :: "depth_level \<Rightarrow> book_side \<Rightarrow> book_side" where
  "apply_level l target = (let price = text_decimal (dl_price l); quantity = text_decimal (dl_quantity l) in
     if deq quantity 0 then drop_level price target else put_level price quantity target)"

definition apply_levels :: "depth_level list \<Rightarrow> book_side \<Rightarrow> book_side" where
  "apply_levels = fold apply_level"

definition sides_valid :: "book_side \<Rightarrow> book_side \<Rightarrow> bool" where
  "sides_valid bids asks \<longleftrightarrow> (case (map fst bids, map fst asks) of
     (b # bs, a # as) \<Rightarrow> foldl dmax b bs < foldl dmin a as | _ \<Rightarrow> False)"

type_synonym event_key = "string \<times> int \<times> int \<times> int \<times> string"

record order_book =
  ob_symbol :: string
  ob_state :: order_book_state
  ob_connection_id :: "string option"
  ob_buffer :: "depth_update list"
  ob_buffer_limit :: int
  ob_stale_after :: int
  ob_bids :: book_side
  ob_asks :: book_side
  ob_last_update_id :: "int option"
  ob_last_received_at :: "datetime option"
  ob_seen :: "event_key list"
  ob_seen_order :: "event_key list"
  ob_seen_limit :: int
  ob_applied_count :: int
  ob_duplicate_count :: int
  ob_gap_count :: int
  ob_out_of_order_count :: int
  ob_invalid_count :: int
  ob_reason :: string

definition new_book :: "string \<Rightarrow> int \<Rightarrow> int \<Rightarrow> order_book result" where
  "new_book symbol buffer_limit stale_after =
    (if buffer_limit < 1 then Inl (ValueError ''buffer_limit must be positive'')
     else Inr \<lparr>ob_symbol = symbol, ob_state = DISCONNECTED, ob_connection_id = None, ob_buffer = [],
       ob_buffer_limit = buffer_limit, ob_stale_after = stale_after, ob_bids = [], ob_asks = [],
       ob_last_update_id = None, ob_last_received_at = None, ob_seen = [], ob_seen_order = [],
       ob_seen_limit = max (buffer_limit * 2) 100000, ob_applied_count = 0, ob_duplicate_count = 0,
       ob_gap_count = 0, ob_out_of_order_count = 0, ob_invalid_count = 0, ob_reason = ''DISCONNECTED''\<rparr>)"

definition book_valid :: "order_book \<Rightarrow> bool" where
  "book_valid b \<longleftrightarrow> ob_state b = HEALTHY"

record order_book_stats =
  bs_applied_count :: int
  bs_duplicate_count :: int
  bs_gap_count :: int
  bs_out_of_order_count :: int
  bs_invalid_count :: int

definition book_stats :: "order_book \<Rightarrow> order_book_stats" where
  "book_stats b = \<lparr>bs_applied_count = ob_applied_count b, bs_duplicate_count = ob_duplicate_count b,
     bs_gap_count = ob_gap_count b, bs_out_of_order_count = ob_out_of_order_count b,
     bs_invalid_count = ob_invalid_count b\<rparr>"

definition clear_book :: "order_book \<Rightarrow> order_book" where
  "clear_book b = b\<lparr>ob_bids := [], ob_asks := [], ob_last_update_id := None, ob_last_received_at := None\<rparr>"

definition invalidate :: "string \<Rightarrow> bool \<Rightarrow> order_book \<Rightarrow> order_book" where
  "invalidate reason gap b = clear_book (b\<lparr>ob_state := (if gap then GAP else DISCONNECTED), ob_reason := reason,
     ob_invalid_count := ob_invalid_count b + 1,
     ob_gap_count := (if gap then ob_gap_count b + 1 else ob_gap_count b), ob_buffer := []\<rparr>)"

definition start_buffering :: "string \<Rightarrow> order_book \<Rightarrow> order_book" where
  "start_buffering connection_id b = clear_book (b\<lparr>ob_connection_id := Some connection_id, ob_state := BUFFERING,
     ob_reason := ''SNAPSHOT_REQUIRED'', ob_buffer := []\<rparr>)"

definition rotate_book :: "string \<Rightarrow> order_book \<Rightarrow> order_book" where
  "rotate_book connection_id b = start_buffering connection_id (b\<lparr>ob_state := ROTATING, ob_reason := ''CONNECTION_ROTATING''\<rparr>)"

definition disconnect :: "order_book \<Rightarrow> order_book" where
  "disconnect b = clear_book (b\<lparr>ob_state := DISCONNECTED, ob_connection_id := None, ob_reason := ''DISCONNECTED'',
     ob_buffer := []\<rparr>)"

definition event_key :: "depth_update \<Rightarrow> event_key" where
  "event_key u = (du_connection_id u, du_first_update_id u, du_final_update_id u, du_previous_final_update_id u, du_raw_hash u)"

definition remember :: "event_key \<Rightarrow> order_book \<Rightarrow> order_book" where
  "remember key b =
    (let b' = (if ob_seen_limit b \<le> int (length (ob_seen_order b))
       then b\<lparr>ob_seen_order := tl (ob_seen_order b), ob_seen := filter (\<lambda>k. k \<noteq> hd (ob_seen_order b)) (ob_seen b)\<rparr> else b)
     in b'\<lparr>ob_seen := List.insert key (ob_seen b'), ob_seen_order := ob_seen_order b' @ [key]\<rparr>)"

definition apply_contiguous :: "depth_update \<Rightarrow> order_book \<Rightarrow> bool \<times> order_book" where
  "apply_contiguous u b =
    (if ob_last_update_id b \<noteq> Some (du_previous_final_update_id u)
     then (False, (case ob_last_update_id b of
         Some previous \<Rightarrow> if du_final_update_id u \<le> previous
           then invalidate ''OUT_OF_ORDER_UPDATE'' False (b\<lparr>ob_out_of_order_count := ob_out_of_order_count b + 1\<rparr>)
           else invalidate ''SEQUENCE_GAP'' True b
       | None \<Rightarrow> invalidate ''SEQUENCE_GAP'' True b))
     else let bids = apply_levels (du_bids u) (ob_bids b); asks = apply_levels (du_asks u) (ob_asks b) in
       if \<not> sides_valid bids asks then (False, invalidate ''CROSSED_OR_EMPTY_BOOK'' False b)
       else let b' = b\<lparr>ob_bids := bids, ob_asks := asks, ob_last_update_id := Some (du_final_update_id u),
              ob_last_received_at := Some (du_received_at u), ob_applied_count := ob_applied_count b + 1\<rparr> in
         (True, if ob_state b = SYNCING then b' else b'\<lparr>ob_state := HEALTHY, ob_reason := ''''\<rparr>))"

definition ingest_update :: "depth_update \<Rightarrow> order_book \<Rightarrow> bool result \<times> order_book" where
  "ingest_update u b =
    (if du_symbol u \<noteq> ob_symbol b \<or> Some (du_connection_id u) \<noteq> ob_connection_id b
     then (Inl (ValueError ''update does not belong to this book connection''), invalidate ''STREAM_IDENTITY_MISMATCH'' False b)
     else if event_key u \<in> set (ob_seen b)
     then (Inr False, b\<lparr>ob_duplicate_count := ob_duplicate_count b + 1\<rparr>)
     else let b' = remember (event_key u) b in
       if ob_state b' \<in> {BUFFERING, SNAPSHOT_LOADING, SYNCING}
       then if int (length (ob_buffer b')) = ob_buffer_limit b' then (Inr False, invalidate ''BUFFER_OVERFLOW'' True b')
         else (Inr False, b'\<lparr>ob_buffer := ob_buffer b' @ [u]\<rparr>)
       else if ob_state b' \<noteq> HEALTHY then (Inr False, b')
       else case apply_contiguous u b' of (applied, b'') \<Rightarrow> (Inr applied, b''))"

fun apply_all :: "depth_update list \<Rightarrow> order_book \<Rightarrow> bool \<times> order_book" where
  "apply_all [] b = (True, b)"
| "apply_all (u # us) b = (case apply_contiguous u b of (True, b') \<Rightarrow> apply_all us b' | (False, b') \<Rightarrow> (False, b'))"

definition boundary_id :: "boundary_rule \<Rightarrow> book_snapshot \<Rightarrow> int" where
  "boundary_id rule s = (if rule = COVER_LAST_UPDATE_ID then sn_last_update_id s else sn_last_update_id s + 1)"

definition covers_boundary :: "int \<Rightarrow> depth_update \<Rightarrow> bool" where
  "covers_boundary i u \<longleftrightarrow> du_first_update_id u \<le> i \<and> i \<le> du_final_update_id u"

definition load_snapshot :: "book_snapshot \<Rightarrow> boundary_rule \<Rightarrow> order_book \<Rightarrow> unit result \<times> order_book" where
  "load_snapshot s rule b =
    (if ob_state b \<noteq> BUFFERING then (Inl (RuntimeError ''snapshot can only be loaded while buffering''), b)
     else (Inr (),
       if sn_symbol s \<noteq> ob_symbol b \<or> Some (sn_connection_id s) \<noteq> ob_connection_id b
       then invalidate ''SNAPSHOT_IDENTITY_MISMATCH'' False b
       else let b1 = b\<lparr>ob_state := SNAPSHOT_LOADING\<rparr>;
                bids = apply_levels (sn_bids s) []; asks = apply_levels (sn_asks s) [] in
         if \<not> sides_valid bids asks then invalidate ''SNAPSHOT_BOOK_INVALID'' False b1
         else let b2 = b1\<lparr>ob_bids := bids, ob_asks := asks, ob_last_update_id := Some (sn_last_update_id s),
                    ob_last_received_at := Some (sn_received_at s), ob_state := SYNCING, ob_buffer := []\<rparr>;
                  candidates = filter (\<lambda>u. sn_last_update_id s \<le> du_final_update_id u) (ob_buffer b) in
           if candidates = [] then invalidate ''SNAPSHOT_BOUNDARY_MISSING'' True b2
           else case dropWhile (\<lambda>u. \<not> covers_boundary (boundary_id rule s) u) candidates of
             [] \<Rightarrow> invalidate ''SNAPSHOT_BOUNDARY_GAP'' True b2
           | first # rest \<Rightarrow>
               (case apply_all (first # rest) (b2\<lparr>ob_last_update_id := Some (du_previous_final_update_id first)\<rparr>) of
                 (False, b3) \<Rightarrow> b3
               | (True, b3) \<Rightarrow> b3\<lparr>ob_state := HEALTHY, ob_reason := ''''\<rparr>)))"

definition book_require_utc :: "datetime \<Rightarrow> unit result" where
  "book_require_utc now = require (is_utc now) (ValueError ''now must be timezone-aware UTC'')"

definition mark_stale :: "datetime \<Rightarrow> order_book \<Rightarrow> bool result \<times> order_book" where
  "mark_stale now b = (case book_require_utc now of Inl e \<Rightarrow> (Inl e, b)
   | Inr _ \<Rightarrow> (case ob_last_received_at b of None \<Rightarrow> (Inr False, b)
     | Some t \<Rightarrow> (case dt_diff now t of Inl e \<Rightarrow> (Inl e, b)
       | Inr age \<Rightarrow>
           if age \<le> ob_stale_after b then (Inr False, b)
           else if ob_state b = HEALTHY
           then (Inr True, clear_book (b\<lparr>ob_state := STALE, ob_reason := ''EVENT_STREAM_STALE''\<rparr>))
           else (Inr False, b))))"

definition format_level :: "decimal \<Rightarrow> string" where
  "format_level v =
    (let rendered = format_f v;
         stripped = (if CHR ''.'' \<in> set rendered then rstrip_char CHR ''.'' (rstrip_char CHR ''0'' rendered) else rendered)
     in if stripped = [] then ''0'' else stripped)"

text \<open>Items sorted by price; the prices of a side are distinct numbers.\<close>

definition sorted_levels :: "book_side \<Rightarrow> book_side" where
  "sorted_levels = sort_key (\<lambda>l. dval (fst l))"

text \<open>\<open>xs[:depth]\<close>.\<close>

definition prefix_slice :: "int \<Rightarrow> 'a list \<Rightarrow> 'a list" where
  "prefix_slice depth xs = (if 0 \<le> depth then take (nat depth) xs else take (nat (int (length xs) + depth)) xs)"

definition format_levels :: "book_side \<Rightarrow> (string \<times> string) list" where
  "format_levels = map (\<lambda>l. (format_level (fst l), format_level (snd l)))"

definition book_top :: "int \<Rightarrow> order_book \<Rightarrow> (string \<times> string) list result" where
  "book_top depth b = (if \<not> book_valid b then Inl (RuntimeError ''order book is not valid'')
     else Inr (format_levels (prefix_slice depth (rev (sorted_levels (ob_bids b))) @ prefix_slice depth (sorted_levels (ob_asks b)))))"

definition levels_json :: "book_side \<Rightarrow> json" where
  "levels_json ls = JArr (map (\<lambda>(p, q). JArr [JStr p, JStr q]) (format_levels ls))"

definition book_hash :: "order_book \<Rightarrow> string result" where
  "book_hash b = (if \<not> book_valid b then Inl (RuntimeError ''order book is not valid'')
     else Inr (digest [(''asks'', levels_json (sorted_levels (ob_asks b))),
       (''bids'', levels_json (rev (sorted_levels (ob_bids b)))),
       (''last_update_id'', case ob_last_update_id b of None \<Rightarrow> JNull | Some i \<Rightarrow> JInt i),
       (''symbol'', JStr (ob_symbol b))]))"

definition book_health :: "datetime \<Rightarrow> bool \<Rightarrow> string \<Rightarrow> bool \<Rightarrow> order_book \<Rightarrow> market_data_health result" where
  "book_health now warmed_up clock_offset_ms clock_safe b =
    rbind (book_require_utc now) (\<lambda>_.
    rbind (case ob_last_received_at b of None \<Rightarrow> Inr 0
      | Some t \<Rightarrow> rbind (dt_diff now t) (\<lambda>age. Inr (max 0 (float_milliseconds age)))) (\<lambda>lag.
    let (status, reason) =
        (if \<not> clock_safe then (DH_CLOCK_UNSAFE, [''CLOCK_OFFSET_UNSAFE''])
         else if ob_state b = HEALTHY \<and> warmed_up then (DH_HEALTHY, [])
         else if ob_state b = HEALTHY then (DH_WARMING_UP, [''WARMUP_INCOMPLETE''])
         else if ob_state b = STALE then (DH_STALE, [ob_reason b])
         else if ob_state b = GAP then (DH_GAP_DETECTED, [ob_reason b])
         else (DH_INVALID, [ob_reason b]))
    in market_data_health_check \<lparr>mh_status = status, mh_book_valid = book_valid b, mh_warmed_up = (warmed_up \<and> book_valid b),
         mh_last_update_id = ob_last_update_id b, mh_event_lag_ms = lag, mh_clock_offset_ms = clock_offset_ms,
         mh_gap_count = (if book_valid b then 0 else ob_gap_count b), mh_duplicate_count = ob_duplicate_count b,
         mh_out_of_order_count = (if book_valid b then 0 else ob_out_of_order_count b),
         mh_stale_for_ms = (if ob_state b = STALE then lag else 0), mh_reason_codes = reason\<rparr>))"

end
