(* ===== verification/BookSafety.thy ===== *)
theory BookSafety
  imports OrderBook "HOL-Library.Sublist"
begin

text \<open>
  Correctness of the local order book: a usable book is never crossed or empty, an unusable one holds
  nothing; a usable book is the replay of a snapshot and of a gap-free chain of updates; the health
  report never breaks its own contract; and the hash is a function of what the book says.
\<close>

section \<open>Sides as price maps\<close>

definition side_view :: "book_side \<Rightarrow> rat \<Rightarrow> rat option" where
  "side_view ls = map_of (map (\<lambda>l. (dval (fst l), dval (snd l))) ls)"

definition side_ok :: "book_side \<Rightarrow> bool" where
  "side_ok ls \<longleftrightarrow> distinct (map (\<lambda>l. dval (fst l)) ls) \<and> (\<forall>l \<in> set ls. 0 < dval (fst l) \<and> 0 < dval (snd l))"

definition level_price :: "depth_level \<Rightarrow> rat" where
  "level_price l = dval (text_decimal (dl_price l))"

definition level_quantity :: "depth_level \<Rightarrow> rat" where
  "level_quantity l = dval (text_decimal (dl_quantity l))"

definition set_level :: "depth_level \<Rightarrow> (rat \<Rightarrow> rat option) \<Rightarrow> rat \<Rightarrow> rat option" where
  "set_level l m = m(level_price l := (if level_quantity l = 0 then None else Some (level_quantity l)))"

lemma side_view_Nil [simp]: "side_view [] = Map.empty"
  by (simp add: side_view_def)

lemma side_ok_Nil [simp]: "side_ok []"
  by (simp add: side_ok_def)

lemma side_view_put: "side_view (put_level p q ls) = (side_view ls)(dval p \<mapsto> dval q)"
  by (induction p q ls rule: put_level.induct) (auto simp: side_view_def deq_val)

lemma side_view_drop: "side_view (drop_level p ls) = (side_view ls)(dval p := None)"
  by (induction ls) (auto simp: side_view_def drop_level_def deq_val)

lemma prices_put: "dval ` fst ` set (put_level p q ls) = insert (dval p) (dval ` fst ` set ls)"
  by (induction p q ls rule: put_level.induct) (auto simp: deq_val)

lemma side_ok_put: "side_ok ls \<Longrightarrow> 0 < dval p \<Longrightarrow> 0 < dval q \<Longrightarrow> side_ok (put_level p q ls)"
proof (induction p q ls rule: put_level.induct)
  case (2 p q p' q' ls)
  have "dval p' \<notin> (\<lambda>l. dval (fst l)) ` set (put_level p q ls)" if "dval p' \<noteq> dval p"
    using 2(2) that prices_put [of p q ls] by (simp add: image_image side_ok_def)
  with 2 show ?case by (cases "dval p' = dval p") (simp_all add: side_ok_def deq_val)
qed (simp add: side_ok_def)

lemma side_ok_drop: "side_ok ls \<Longrightarrow> side_ok (drop_level p ls)"
  by (auto simp: side_ok_def drop_level_def distinct_map_filter)

lemma market_decimal_ok:
  "market_decimal s positive = Inr () \<Longrightarrow> 0 \<le> dval (text_decimal s) \<and> (positive \<longrightarrow> 0 < dval (text_decimal s))"
  by (auto simp: market_decimal_def text_decimal_def decimal_simps Let_def split: parsed.splits if_splits)

lemma side_view_apply_level: "side_view (apply_level l ls) = set_level l (side_view ls)"
  by (simp add: apply_level_def set_level_def level_price_def level_quantity_def side_view_put side_view_drop deq_val Let_def)

lemma side_ok_apply_level: "depth_level_check l = Inr () \<Longrightarrow> side_ok ls \<Longrightarrow> side_ok (apply_level l ls)"
  using market_decimal_ok [of "dl_price l" True] market_decimal_ok [of "dl_quantity l" False]
  by (auto simp: apply_level_def depth_level_check_def deq_val Let_def side_ok_drop intro!: side_ok_put)

lemma side_view_apply_levels: "side_view (apply_levels us ls) = fold set_level us (side_view ls)"
  by (induction us arbitrary: ls) (simp_all add: apply_levels_def side_view_apply_level)

lemma levels_check_iff: "levels_check us = Inr () \<longleftrightarrow> (\<forall>l \<in> set us. depth_level_check l = Inr ())"
proof -
  have "(\<exists>ys. rmap depth_level_check us = Inr ys) \<longleftrightarrow> (\<forall>l \<in> set us. depth_level_check l = Inr ())"
    by (induction us) auto
  then show ?thesis by (auto simp: levels_check_def)
qed

lemma side_ok_apply_levels: "levels_check us = Inr () \<Longrightarrow> side_ok ls \<Longrightarrow> side_ok (apply_levels us ls)"
  unfolding levels_check_iff by (induction us arbitrary: ls) (simp_all add: apply_levels_def side_ok_apply_level)

lemma foldl_dmax_less: "foldl dmax b bs < x \<longleftrightarrow> (\<forall>c \<in> set (b # bs). dval c < dval x)"
  by (induction bs arbitrary: b) (auto simp: decimal_simps)

lemma less_foldl_dmin: "x < foldl dmin a as \<longleftrightarrow> (\<forall>c \<in> set (a # as). dval x < dval c)"
  by (induction as arbitrary: a) (auto simp: decimal_simps)

lemma max_less_min: "foldl dmax b bs < foldl dmin a as \<longleftrightarrow> (\<forall>c \<in> set (a # as). \<forall>d \<in> set (b # bs). dval d < dval c)"
proof -
  have "foldl dmax b bs < foldl dmin a as \<longleftrightarrow> (\<forall>c \<in> set (a # as). foldl dmax b bs < c)"
    using less_foldl_dmin [of "foldl dmax b bs" a as] by (simp only: decimal_less_val)
  then show ?thesis unfolding foldl_dmax_less .
qed

text \<open>Both sides are there and every bid is below every ask.\<close>

lemma sides_valid_iff:
  "sides_valid bids asks \<longleftrightarrow> bids \<noteq> [] \<and> asks \<noteq> [] \<and> (\<forall>b \<in> set bids. \<forall>a \<in> set asks. dval (fst b) < dval (fst a))"
  by (cases bids; cases asks) (auto simp: sides_valid_def max_less_min)

section \<open>Reachable books\<close>

text \<open>Updates and snapshots are the validated ones; \<open>book_step\<close> is any call of a method that changes the
  book, whether it returns or raises.\<close>

inductive book_step :: "order_book \<Rightarrow> order_book \<Rightarrow> bool" where
  start_buffering: "book_step b (start_buffering connection_id b)"
| rotate: "book_step b (rotate_book connection_id b)"
| disconnect: "book_step b (disconnect b)"
| ingest: "depth_update_check u = Inr () \<Longrightarrow> book_step b (snd (ingest_update u b))"
| load_snapshot: "book_snapshot_check s = Inr () \<Longrightarrow> book_step b (snd (load_snapshot s rule b))"
| mark_stale: "book_step b (snd (mark_stale now b))"

inductive book_reachable :: "order_book \<Rightarrow> bool" where
  new: "new_book symbol limit stale_after = Inr b \<Longrightarrow> book_reachable b"
| step: "book_reachable b \<Longrightarrow> book_step b b' \<Longrightarrow> book_reachable b'"

inductive_cases book_stepE: "book_step b b'"

text \<open>The content of a book that is usable or being synchronised.\<close>

definition content_ok :: "order_book \<Rightarrow> bool" where
  "content_ok b \<longleftrightarrow> sides_valid (ob_bids b) (ob_asks b) \<and> side_ok (ob_bids b) \<and> side_ok (ob_asks b)
     \<and> (\<exists>i \<ge> 0. ob_last_update_id b = Some i) \<and> (\<exists>t. is_utc t \<and> ob_last_received_at b = Some t) \<and> ob_buffer b = []"

definition empty_book :: "order_book \<Rightarrow> bool" where
  "empty_book b \<longleftrightarrow> ob_bids b = [] \<and> ob_asks b = [] \<and> ob_last_update_id b = None \<and> ob_last_received_at b = None"

definition bounds_ok :: "order_book \<Rightarrow> bool" where
  "bounds_ok b \<longleftrightarrow> 1 \<le> ob_buffer_limit b \<and> 1 \<le> ob_seen_limit b \<and> int (length (ob_buffer b)) \<le> ob_buffer_limit b
     \<and> int (length (ob_seen_order b)) \<le> ob_seen_limit b \<and> set (ob_seen b) = set (ob_seen_order b) \<and> distinct (ob_seen_order b)
     \<and> (\<forall>u \<in> set (ob_buffer b). depth_update_check u = Inr ())
     \<and> 0 \<le> ob_gap_count b \<and> 0 \<le> ob_duplicate_count b \<and> 0 \<le> ob_out_of_order_count b"

definition book_inv :: "order_book \<Rightarrow> bool" where
  "book_inv b \<longleftrightarrow> bounds_ok b \<and> ob_state b \<in> {DISCONNECTED, BUFFERING, HEALTHY, STALE, GAP}
     \<and> (if book_valid b then content_ok b else empty_book b)"

lemma bounds_ok_invalidate: "bounds_ok b \<Longrightarrow> bounds_ok (invalidate reason gap b)"
  by (simp add: bounds_ok_def invalidate_def clear_book_def)

lemma invalidate_inv: "bounds_ok b \<Longrightarrow> book_inv (invalidate reason gap b)"
  by (simp add: book_inv_def bounds_ok_invalidate)
    (simp add: invalidate_def clear_book_def empty_book_def book_valid_def)

lemma depth_update_ok:
  assumes "depth_update_check u = Inr ()"
  shows "levels_check (du_bids u) = Inr ()" "levels_check (du_asks u) = Inr ()" "0 \<le> du_final_update_id u"
    "0 \<le> du_previous_final_update_id u" "is_utc (du_received_at u)"
  using assms by (auto simp: depth_update_check_def market_require_utc_def)

lemma apply_contiguous_cases:
  assumes "depth_update_check u = Inr ()" "content_ok b" "bounds_ok b" "ob_state b \<in> {SYNCING, HEALTHY}"
    "apply_contiguous u b = (applied, b')"
  shows "if applied then content_ok b' \<and> bounds_ok b' \<and> ob_state b' = ob_state b else book_inv b' \<and> \<not> book_valid b'"
proof -
  note u = depth_update_ok [OF assms(1)]
  have ok: "side_ok (apply_levels (du_bids u) (ob_bids b))" "side_ok (apply_levels (du_asks u) (ob_asks b))"
    using assms(2) u(1,2) by (auto simp: content_ok_def intro: side_ok_apply_levels)
  have bounds: "bounds_ok (b\<lparr>ob_out_of_order_count := ob_out_of_order_count b + 1\<rparr>)"
    using assms(3) by (simp add: bounds_ok_def)
  have "\<not> book_valid (invalidate reason gap x)" for reason gap x
    by (simp add: invalidate_def clear_book_def book_valid_def)
  then show ?thesis
    using assms ok u(3,5) invalidate_inv [OF bounds] invalidate_inv [OF assms(3)]
    by (auto simp: apply_contiguous_def content_ok_def bounds_ok_def Let_def split: if_splits option.splits)
qed

lemma apply_all_cases:
  assumes "\<forall>u \<in> set us. depth_update_check u = Inr ()" "content_ok b" "bounds_ok b" "ob_state b \<in> {SYNCING, HEALTHY}"
    "apply_all us b = (applied, b')"
  shows "if applied then content_ok b' \<and> bounds_ok b' \<and> ob_state b' = ob_state b else book_inv b' \<and> \<not> book_valid b'"
  using assms
proof (induction us arbitrary: b)
  case (Cons u us)
  obtain ok b1 where b1: "apply_contiguous u b = (ok, b1)" by fastforce
  note step = apply_contiguous_cases [OF _ Cons.prems(2-4) b1]
  show ?case
  proof (cases ok)
    case True
    with step Cons.prems(1,4) have "content_ok b1" "bounds_ok b1" "ob_state b1 = ob_state b" by auto
    moreover have "apply_all us b1 = (applied, b')" using True b1 Cons.prems(5) by simp
    ultimately show ?thesis using Cons.IH [of b1] Cons.prems(1,4) by auto
  next
    case False
    with step b1 Cons.prems show ?thesis by auto
  qed
qed simp

lemma bounds_ok_remember:
  assumes "bounds_ok b" "key \<notin> set (ob_seen b)"
  shows "bounds_ok (remember key b)"
proof (cases "ob_seen_limit b \<le> int (length (ob_seen_order b))")
  case True
  with assms(1) obtain k ks where ks: "ob_seen_order b = k # ks"
    by (cases "ob_seen_order b") (auto simp: bounds_ok_def)
  with True assms show ?thesis by (auto simp: bounds_ok_def remember_def Let_def)
next
  case False
  with assms show ?thesis by (auto simp: bounds_ok_def remember_def Let_def)
qed

lemma remember_simps [simp]:
  "ob_state (remember key b) = ob_state b" "ob_buffer (remember key b) = ob_buffer b"
  "ob_buffer_limit (remember key b) = ob_buffer_limit b" "content_ok (remember key b) = content_ok b"
  "empty_book (remember key b) = empty_book b" "ob_bids (remember key b) = ob_bids b" "ob_asks (remember key b) = ob_asks b"
  "ob_last_update_id (remember key b) = ob_last_update_id b"
  by (simp_all add: remember_def Let_def content_ok_def empty_book_def)

lemma ingest_update_inv:
  assumes "depth_update_check u = Inr ()" "book_inv b"
  shows "book_inv (snd (ingest_update u b))"
proof -
  have bounds: "bounds_ok b" using assms(2) by (simp add: book_inv_def)
  let ?r = "remember (event_key u) b"
  show ?thesis
  proof (cases "event_key u \<in> set (ob_seen b)")
    case True
    have "book_inv (b\<lparr>ob_duplicate_count := ob_duplicate_count b + 1\<rparr>)"
      using assms(2) by (auto simp: book_inv_def bounds_ok_def book_valid_def content_ok_def empty_book_def split: if_splits)
    with True show ?thesis using invalidate_inv [OF bounds] by (simp add: ingest_update_def)
  next
    case False
    note r = bounds_ok_remember [OF bounds False]
    have buffering: "book_inv (?r\<lparr>ob_buffer := ob_buffer b @ [u]\<rparr>)"
      if "ob_state b = BUFFERING" "int (length (ob_buffer b)) \<noteq> ob_buffer_limit b"
      using that r assms by (auto simp: book_inv_def book_valid_def bounds_ok_def empty_book_def remember_def Let_def)
    have idle: "book_inv ?r" if "ob_state b \<noteq> HEALTHY"
      using that r assms(2) by (simp add: book_inv_def book_valid_def)
    have healthy: "book_inv b'" if "ob_state b = HEALTHY" "apply_contiguous u ?r = (ok, b')" for ok b'
      using apply_contiguous_cases [OF assms(1) _ r _ that(2)] that(1) assms(2)
      by (auto simp: book_inv_def book_valid_def split: if_splits)
    show ?thesis
      using False buffering idle healthy invalidate_inv [OF bounds] invalidate_inv [OF r] assms(2)
      by (auto simp: ingest_update_def Let_def book_inv_def split: prod.splits if_splits)
  qed
qed

lemma snapshot_content:
  assumes "book_snapshot_check s = Inr ()"
  shows "side_ok (apply_levels (sn_bids s) [])" "side_ok (apply_levels (sn_asks s) [])" "is_utc (sn_received_at s)"
    "0 \<le> sn_last_update_id s"
  using assms by (auto simp: book_snapshot_check_def market_require_utc_def intro: side_ok_apply_levels)

text \<open>The book between the snapshot and the buffered updates.\<close>

definition loaded :: "book_snapshot \<Rightarrow> int \<Rightarrow> order_book \<Rightarrow> order_book" where
  "loaded s i b = b\<lparr>ob_bids := apply_levels (sn_bids s) [], ob_asks := apply_levels (sn_asks s) [],
     ob_last_update_id := Some i, ob_last_received_at := Some (sn_received_at s), ob_state := SYNCING, ob_buffer := []\<rparr>"

lemma loaded_shift:
  "b\<lparr>ob_bids := apply_levels (sn_bids s) [], ob_asks := apply_levels (sn_asks s) [],
     ob_last_received_at := Some (sn_received_at s), ob_state := SYNCING, ob_buffer := [], ob_last_update_id := Some i\<rparr>
   = loaded s i b"
  by (cases b) (simp add: loaded_def)

lemma loaded_loading: "loaded s i (b\<lparr>ob_state := SNAPSHOT_LOADING\<rparr>) = loaded s i b"
  by (simp add: loaded_def)

lemma loaded_ok:
  assumes "book_snapshot_check s = Inr ()" "bounds_ok b" "0 \<le> i"
    "sides_valid (apply_levels (sn_bids s) []) (apply_levels (sn_asks s) [])"
  shows "content_ok (loaded s i b)" "bounds_ok (loaded s i b)" "ob_state (loaded s i b) = SYNCING"
  using assms snapshot_content [OF assms(1)] by (simp_all add: loaded_def content_ok_def bounds_ok_def)

text \<open>A snapshot either leads to an unusable book or is followed by the buffered updates from the first
  that covers the boundary.\<close>

lemma load_snapshot_cases:
  assumes "load_snapshot s rule b = (Inr (), b')"
  shows "(\<exists>reason gap x. b' = invalidate reason gap x \<and> (bounds_ok b \<longrightarrow> bounds_ok x))
    \<or> (sides_valid (apply_levels (sn_bids s) []) (apply_levels (sn_asks s) [])
      \<and> (\<exists>u us ok b3. subseq (u # us) (ob_buffer b) \<and> covers_boundary (boundary_id rule s) u
        \<and> apply_all (u # us) (loaded s (du_previous_final_update_id u) b) = (ok, b3)
        \<and> b' = (if ok then b3\<lparr>ob_state := HEALTHY, ob_reason := ''''\<rparr> else b3)))"
proof -
  let ?cs = "filter (\<lambda>u. sn_last_update_id s \<le> du_final_update_id u) (ob_buffer b)"
  let ?ds = "dropWhile (\<lambda>u. \<not> covers_boundary (boundary_id rule s) u) ?cs"
  have sub: "subseq ?ds (ob_buffer b)"
    by (meson subseq_filter_left suffix_dropWhile suffix_imp_subseq subseq_order.trans)
  have cov: "covers_boundary (boundary_id rule s) u" if "?ds = u # us" for u us
    using that by (metis dropWhile_eq_Cons_conv)
  have x: "bounds_ok (b\<lparr>ob_state := SNAPSHOT_LOADING\<rparr>) = bounds_ok b"
    "bounds_ok b \<Longrightarrow> bounds_ok (loaded s i b)" for i
    by (auto simp: bounds_ok_def loaded_def)
  have st: "ob_state b = BUFFERING" using assms by (simp add: load_snapshot_def split: if_splits)
  consider (mismatch) "sn_symbol s \<noteq> ob_symbol b \<or> Some (sn_connection_id s) \<noteq> ob_connection_id b"
    | (invalid) "sn_symbol s = ob_symbol b" "Some (sn_connection_id s) = ob_connection_id b"
        "\<not> sides_valid (apply_levels (sn_bids s) []) (apply_levels (sn_asks s) [])"
    | (missing) "sn_symbol s = ob_symbol b" "Some (sn_connection_id s) = ob_connection_id b"
        "sides_valid (apply_levels (sn_bids s) []) (apply_levels (sn_asks s) [])" "?cs = []"
    | (gap) "sn_symbol s = ob_symbol b" "Some (sn_connection_id s) = ob_connection_id b"
        "sides_valid (apply_levels (sn_bids s) []) (apply_levels (sn_asks s) [])" "?cs \<noteq> []" "?ds = []"
    | (sync) u us where "sn_symbol s = ob_symbol b" "Some (sn_connection_id s) = ob_connection_id b"
        "sides_valid (apply_levels (sn_bids s) []) (apply_levels (sn_asks s) [])" "?cs \<noteq> []" "?ds = u # us"
    by (cases ?ds) auto
  then show ?thesis
  proof cases
    case mismatch
    then have "b' = invalidate ''SNAPSHOT_IDENTITY_MISMATCH'' False b" using assms st by (simp add: load_snapshot_def)
    then show ?thesis by blast
  next
    case invalid
    then have "b' = invalidate ''SNAPSHOT_BOOK_INVALID'' False (b\<lparr>ob_state := SNAPSHOT_LOADING\<rparr>)"
      using assms st by (simp add: load_snapshot_def Let_def)
    then show ?thesis using x(1) by blast
  next
    case missing
    then have "b' = invalidate ''SNAPSHOT_BOUNDARY_MISSING'' True (loaded s (sn_last_update_id s) b)"
      using assms st by (simp add: load_snapshot_def Let_def loaded_def)
    then show ?thesis using x(2) by blast
  next
    case gap
    then have "b' = invalidate ''SNAPSHOT_BOUNDARY_GAP'' True (loaded s (sn_last_update_id s) b)"
      using assms st by (simp add: load_snapshot_def Let_def loaded_def del: dropWhile_eq_Nil_conv)
    then show ?thesis using x(2) by blast
  next
    case sync
    obtain ok b3 where b3: "apply_all (u # us) (loaded s (du_previous_final_update_id u) b) = (ok, b3)" by fastforce
    then have "b' = (if ok then b3\<lparr>ob_state := HEALTHY, ob_reason := ''''\<rparr> else b3)"
      using assms st sync by (cases ok) (simp_all add: load_snapshot_def Let_def loaded_shift loaded_loading del: apply_all.simps)
    moreover have "subseq (u # us) (ob_buffer b)" using sub sync by simp
    ultimately show ?thesis using sync(3) b3 cov [OF sync(5)] by blast
  qed
qed

lemma subseq_subset: "subseq xs ys \<Longrightarrow> set xs \<subseteq> set ys"
  by (auto elim: list_emb_set)

lemma healthy_inv: "content_ok b \<Longrightarrow> bounds_ok b \<Longrightarrow> book_inv (b\<lparr>ob_state := HEALTHY, ob_reason := r\<rparr>)"
  by (simp add: book_inv_def book_valid_def content_ok_def bounds_ok_def)

lemma load_snapshot_inv:
  assumes "book_snapshot_check s = Inr ()" "book_inv b"
  shows "book_inv (snd (load_snapshot s rule b))"
proof (cases "load_snapshot s rule b")
  case (Pair r b')
  have bounds: "bounds_ok b" using assms(2) by (simp add: book_inv_def)
  show ?thesis
  proof (cases r)
    case (Inl e)
    with Pair have "b' = b" by (simp add: load_snapshot_def Let_def split: if_splits)
    with Pair assms(2) show ?thesis by simp
  next
    case (Inr i)
    consider (unusable) reason gap x where "b' = invalidate reason gap x" "bounds_ok x"
      | (sync) u us ok b3 where "sides_valid (apply_levels (sn_bids s) []) (apply_levels (sn_asks s) [])"
          "subseq (u # us) (ob_buffer b)" "apply_all (u # us) (loaded s (du_previous_final_update_id u) b) = (ok, b3)"
          "b' = (if ok then b3\<lparr>ob_state := HEALTHY, ob_reason := ''''\<rparr> else b3)"
      using load_snapshot_cases [of s rule b b'] Pair Inr bounds by (metis old.unit.exhaust)
    then have "book_inv b'"
    proof cases
      case unusable
      then show ?thesis using invalidate_inv by simp
    next
      case sync
      have us: "\<forall>v \<in> set (u # us). depth_update_check v = Inr ()"
        using bounds subseq_subset [OF sync(2)] by (auto simp: bounds_ok_def)
      then have "0 \<le> du_previous_final_update_id u" using depth_update_ok by simp
      note l = loaded_ok [OF assms(1) bounds this sync(1)]
      have "if ok then content_ok b3 \<and> bounds_ok b3 \<and> ob_state b3 = SYNCING else book_inv b3 \<and> \<not> book_valid b3"
        using apply_all_cases [OF us l(1,2) _ sync(3)] l(3) by simp
      with sync(4) healthy_inv show ?thesis by (cases ok) simp_all
    qed
    with Pair show ?thesis by simp
  qed
qed

lemma mark_stale_inv: "book_inv b \<Longrightarrow> book_inv (snd (mark_stale now b))"
  by (auto simp: mark_stale_def book_inv_def bounds_ok_def clear_book_def empty_book_def book_valid_def
      split: sum.splits option.splits if_splits)

lemma clearing_inv:
  assumes "bounds_ok b"
  shows "book_inv (start_buffering c b)" "book_inv (rotate_book c b)" "book_inv (disconnect b)"
  using assms by (auto simp: start_buffering_def rotate_book_def disconnect_def clear_book_def book_inv_def
      bounds_ok_def book_valid_def empty_book_def)

lemma book_step_inv: "book_step b b' \<Longrightarrow> book_inv b \<Longrightarrow> book_inv b'"
proof (induction rule: book_step.induct)
  case (start_buffering b c)
  then show ?case by (simp add: book_inv_def [of b] clearing_inv)
next
  case (rotate b c)
  then show ?case by (simp add: book_inv_def [of b] clearing_inv)
next
  case (disconnect b)
  then show ?case by (simp add: book_inv_def [of b] clearing_inv)
qed (simp_all add: ingest_update_inv load_snapshot_inv mark_stale_inv)

lemma book_reachable_inv: "book_reachable b \<Longrightarrow> book_inv b"
proof (induction rule: book_reachable.induct)
  case (new symbol limit stale_after b)
  then show ?case by (auto simp: new_book_def book_inv_def bounds_ok_def book_valid_def empty_book_def split: if_splits)
qed (rule book_step_inv)

text \<open>C25: fail-closed book. Whatever validated updates and snapshots arrive, in any order: a usable book has
  both sides, only positive prices and quantities, one level per price and every bid below every
  ask; a book that is not usable holds no level and no sequence number; and the buffer and the memory
  of seen events stay within their limits.\<close>

theorem book_is_fail_closed:
  assumes "book_reachable b"
  shows "(if book_valid b
    then ob_bids b \<noteq> [] \<and> ob_asks b \<noteq> [] \<and> side_ok (ob_bids b) \<and> side_ok (ob_asks b)
      \<and> (\<forall>bid \<in> set (ob_bids b). \<forall>ask \<in> set (ob_asks b). dval (fst bid) < dval (fst ask))
    else ob_bids b = [] \<and> ob_asks b = [] \<and> ob_last_update_id b = None)
    \<and> int (length (ob_buffer b)) \<le> ob_buffer_limit b \<and> int (length (ob_seen_order b)) \<le> ob_seen_limit b"
  using book_reachable_inv [OF assms]
  by (auto simp: book_inv_def content_ok_def empty_book_def bounds_ok_def sides_valid_iff split: if_splits)

section \<open>A usable book is a replay\<close>

text \<open>The specification: a pair of price maps, changed by one update at a time.\<close>

type_synonym book_view = "(rat \<Rightarrow> rat option) \<times> (rat \<Rightarrow> rat option)"

definition book_view :: "order_book \<Rightarrow> book_view" where
  "book_view b = (side_view (ob_bids b), side_view (ob_asks b))"

definition snapshot_view :: "book_snapshot \<Rightarrow> book_view" where
  "snapshot_view s = (fold set_level (sn_bids s) Map.empty, fold set_level (sn_asks s) Map.empty)"

definition update_view :: "depth_update \<Rightarrow> book_view \<Rightarrow> book_view" where
  "update_view u v = (fold set_level (du_bids u) (fst v), fold set_level (du_asks u) (snd v))"

text \<open>Each update continues the one before it.\<close>

definition gapless :: "depth_update list \<Rightarrow> bool" where
  "gapless = successively (\<lambda>a b. du_previous_final_update_id b = du_final_update_id a)"

definition replays :: "order_book \<Rightarrow> book_snapshot \<Rightarrow> depth_update list \<Rightarrow> bool" where
  "replays b s us \<longleftrightarrow> us \<noteq> [] \<and> gapless us \<and> book_view b = fold update_view us (snapshot_view s)
     \<and> ob_last_update_id b = Some (du_final_update_id (last us))"

lemma apply_contiguous_True:
  "apply_contiguous u b = (True, b') \<Longrightarrow> ob_last_update_id b = Some (du_previous_final_update_id u)
     \<and> book_view b' = update_view u (book_view b) \<and> ob_last_update_id b' = Some (du_final_update_id u)"
  by (auto simp: apply_contiguous_def Let_def book_view_def update_view_def side_view_apply_levels split: if_splits)

lemma apply_contiguous_False: "apply_contiguous u b = (False, b') \<Longrightarrow> \<not> book_valid b'"
  by (auto simp: apply_contiguous_def Let_def book_valid_def invalidate_def clear_book_def split: if_splits option.splits)

lemma replays_snoc:
  assumes "replays b s us" "apply_contiguous u b = (True, b')"
  shows "replays b' s (us @ [u])"
  using assms apply_contiguous_True [OF assms(2)] by (simp add: replays_def gapless_def successively_append_iff)

lemma replays_apply_all:
  "replays b s us \<Longrightarrow> apply_all vs b = (True, b') \<Longrightarrow> replays b' s (us @ vs)"
proof (induction vs arbitrary: b us)
  case (Cons v vs)
  obtain ok b1 where b1: "apply_contiguous v b = (ok, b1)" by fastforce
  with Cons.prems have ok: "ok" by (cases ok) auto
  with b1 Cons.prems have "apply_all vs b1 = (True, b')" by simp
  with Cons.IH [OF replays_snoc [OF Cons.prems(1)]] b1 ok show ?case by simp
qed simp

lemma replays_state: "replays (b\<lparr>ob_state := st, ob_reason := r\<rparr>) s us = replays b s us"
  by (simp add: replays_def book_view_def)

lemma load_snapshot_replays:
  assumes "load_snapshot s rule b = (Inr (), b')" "book_valid b'"
  shows "\<exists>us. replays b' s us \<and> subseq us (ob_buffer b) \<and> covers_boundary (boundary_id rule s) (hd us)"
proof -
  have "\<not> book_valid (invalidate reason gap x)" for reason gap x
    by (simp add: invalidate_def clear_book_def book_valid_def)
  with load_snapshot_cases [OF assms(1)] assms(2) obtain u us ok b3 where
    u: "subseq (u # us) (ob_buffer b)" "covers_boundary (boundary_id rule s) u"
      "apply_all (u # us) (loaded s (du_previous_final_update_id u) b) = (ok, b3)"
      "b' = (if ok then b3\<lparr>ob_state := HEALTHY, ob_reason := ''''\<rparr> else b3)" by blast
  let ?l = "loaded s (du_previous_final_update_id u) b"
  obtain first b1 where b1: "apply_contiguous u ?l = (first, b1)" by fastforce
  have "ok"
  proof (rule ccontr)
    have "\<not> book_valid y" if "apply_all vs x = (False, y)" for vs x y
      using that by (induction vs arbitrary: x) (auto dest: apply_contiguous_False split: prod.splits bool.splits)
    moreover assume "\<not> ok"
    ultimately show False using u(3,4) assms(2) by (metis (full_types))
  qed
  with u(3) b1 have all: "first" "apply_all us b1 = (True, b3)" by (cases first; simp)+
  have "book_view ?l = snapshot_view s"
    by (simp add: loaded_def book_view_def snapshot_view_def side_view_apply_levels)
  with apply_contiguous_True [of u ?l b1] b1 all(1) have "replays b1 s [u]" by (simp add: replays_def gapless_def)
  from replays_apply_all [OF this all(2)] u \<open>ok\<close> show ?thesis
    by (intro exI [of _ "u # us"]) (simp add: replays_state)
qed

lemma ingest_replays:
  assumes "replays b s us" "book_valid (snd (ingest_update u b))" "book_valid b"
  shows "\<exists>vs. replays (snd (ingest_update u b)) s vs \<and> (vs = us \<or> vs = us @ [u])"
proof -
  let ?r = "remember (event_key u) b"
  have r: "replays ?r s us" "replays (b\<lparr>ob_duplicate_count := n\<rparr>) s us" for n
    using assms(1) by (simp_all add: replays_def book_view_def)
  obtain ok b' where a: "apply_contiguous u ?r = (ok, b')" by fastforce
  have "\<not> book_valid (invalidate reason gap x)" for reason gap x
    by (simp add: invalidate_def clear_book_def book_valid_def)
  with assms(2,3) consider (dup) "snd (ingest_update u b) = b\<lparr>ob_duplicate_count := ob_duplicate_count b + 1\<rparr>"
    | (app) "snd (ingest_update u b) = b'"
    using a by (auto simp: ingest_update_def Let_def book_valid_def split: if_splits)
  then show ?thesis
  proof cases
    case dup
    then show ?thesis using r(2) by metis
  next
    case app
    with assms(2) a have "ok" using apply_contiguous_False [of u ?r b'] by (cases ok) auto
    with replays_snoc [OF r(1)] a app show ?thesis by auto
  qed
qed

lemma ingest_unusable: "\<not> book_valid b \<Longrightarrow> \<not> book_valid (snd (ingest_update u b))"
  by (auto simp: ingest_update_def Let_def book_valid_def invalidate_def clear_book_def)

lemma run_replays:
  assumes "replays b s c" "book_valid b" "book_valid (fold (\<lambda>u x. snd (ingest_update u x)) us b)"
  shows "\<exists>vs. replays (fold (\<lambda>u x. snd (ingest_update u x)) us b) s (c @ vs) \<and> subseq vs us"
  using assms
proof (induction us arbitrary: b c)
  case (Cons u us)
  let ?b = "snd (ingest_update u b)"
  have unusable: "\<not> book_valid (fold (\<lambda>u x. snd (ingest_update u x)) us x)" if "\<not> book_valid x" for x
    using that by (induction us arbitrary: x) (simp_all add: ingest_unusable)
  with Cons.prems(3) have v: "book_valid ?b" by auto
  obtain vs where vs: "replays ?b s vs" "vs = c \<or> vs = c @ [u]"
    using ingest_replays [OF Cons.prems(1) v Cons.prems(2)] by blast
  obtain ws where ws: "replays (fold (\<lambda>u x. snd (ingest_update u x)) us ?b) s (vs @ ws)" "subseq ws us"
    using Cons.IH [OF vs(1) v] Cons.prems(3) by auto
  from vs(2) show ?case
  proof
    assume "vs = c"
    with ws show ?thesis by (intro exI [of _ ws]) (simp add: list_emb_Cons)
  next
    assume "vs = c @ [u]"
    with ws show ?thesis by (intro exI [of _ "u # ws"]) simp
  qed
qed (auto intro: exI [of _ "[]"])

text \<open>C26: a usable book is exact. After a snapshot and any further updates, if the book is usable then
  it is the snapshot with a chain of the received updates applied in order: a subsequence of what
  was buffered and then ingested, whose first element covers the snapshot boundary and whose every
  element continues the previous one without a gap; and the book's sequence number is that of the
  last element.\<close>

theorem healthy_book_is_replay:
  assumes "load_snapshot s rule b = (Inr (), b1)"
    "book_valid (fold (\<lambda>u x. snd (ingest_update u x)) us b1)"
  shows "\<exists>chain. replays (fold (\<lambda>u x. snd (ingest_update u x)) us b1) s chain
    \<and> subseq chain (ob_buffer b @ us) \<and> covers_boundary (boundary_id rule s) (hd chain)"
proof -
  have "\<not> book_valid (fold (\<lambda>u x. snd (ingest_update u x)) us x)" if "\<not> book_valid x" for x
    using that by (induction us arbitrary: x) (simp_all add: ingest_unusable)
  with assms(2) have v: "book_valid b1" by auto
  obtain c where c: "replays b1 s c" "subseq c (ob_buffer b)" "covers_boundary (boundary_id rule s) (hd c)"
    using load_snapshot_replays [OF assms(1) v] by blast
  obtain vs where vs: "replays (fold (\<lambda>u x. snd (ingest_update u x)) us b1) s (c @ vs)" "subseq vs us"
    using run_replays [OF c(1) v assms(2)] by blast
  have "c \<noteq> []" using c(1) by (simp add: replays_def)
  with c vs show ?thesis by (intro exI [of _ "c @ vs"]) (simp add: list_emb_append_mono)
qed

section \<open>Health\<close>

text \<open>Truthful health. For a reachable book and a UTC time the health report is always produced: it
  never violates the closed contract of its own model, and it says HEALTHY exactly when the clock is
  safe, the warm-up is over and the book is usable.\<close>

theorem health_report_is_closed:
  assumes "book_reachable b" "is_utc now"
  shows "\<exists>h. book_health now warmed_up offset clock_safe b = Inr h
    \<and> (mh_status h = DH_HEALTHY \<longleftrightarrow> clock_safe \<and> warmed_up \<and> book_valid b) \<and> mh_book_valid h = book_valid b"
proof -
  have inv: "bounds_ok b" "if book_valid b then content_ok b else empty_book b"
    using book_reachable_inv [OF assms(1)] by (simp_all add: book_inv_def)
  obtain lag where lag: "(case ob_last_received_at b of None \<Rightarrow> Inr 0
      | Some t \<Rightarrow> rbind (dt_diff now t) (\<lambda>age. Inr (max 0 (float_milliseconds age)))) = Inr lag" "0 \<le> lag"
    using inv(2) assms(2) by (auto simp: content_ok_def empty_book_def split: if_splits)
  have i: "case ob_last_update_id b of None \<Rightarrow> True | Some i \<Rightarrow> 0 \<le> i"
    using inv(2) by (auto simp: content_ok_def empty_book_def split: if_splits)
  show ?thesis
    unfolding book_health_def lag(1)
    using lag(2) i inv(1) assms(2)
    by (auto simp: book_require_utc_def market_data_health_check_def book_valid_def bounds_ok_def Let_def split_beta)
qed

section \<open>The hash\<close>

lemma sorted_prices:
  assumes "side_ok ls"
  shows "map (\<lambda>l. dval (fst l)) (sorted_levels ls) = sorted_list_of_set (dom (side_view ls))"
proof -
  have d: "dom (side_view ls) = set (map (\<lambda>l. dval (fst l)) (sorted_levels ls))"
    by (force simp: side_view_def dom_map_of_conv_image_fst sorted_levels_def)
  have "distinct (map (\<lambda>l. dval (fst l)) (sorted_levels ls))"
    using assms by (simp add: side_ok_def sorted_levels_def distinct_map distinct_sort inj_on_def)
  moreover have "sorted (map (\<lambda>l. dval (fst l)) (sorted_levels ls))" by (simp add: sorted_levels_def)
  ultimately show ?thesis unfolding d by (simp only: sorted_list_of_set_sort_remdups distinct_remdups_id sorted_sort_id)
qed

lemma side_view_member: "side_ok ls \<Longrightarrow> l \<in> set ls \<Longrightarrow> side_view ls (dval (fst l)) = Some (dval (snd l))"
  unfolding side_view_def side_ok_def by (intro map_of_is_SomeI) (auto simp: comp_def)

lemma format_level_parameter: "format_level = decimal_parameter"
  by (simp add: format_level_def decimal_parameter_def fun_eq_iff)

definition level_values :: "book_side \<Rightarrow> (rat \<times> rat) list" where
  "level_values = map (\<lambda>l. (dval (fst l), dval (snd l)))"

lemma format_levels_cong:
  assumes "level_values xs = level_values ys" "\<forall>l \<in> set xs. 0 < dval (fst l) \<and> 0 < dval (snd l)"
  shows "format_levels xs = format_levels ys"
proof -
  have "length xs = length ys" using assms(1) by (auto simp: level_values_def dest: arg_cong [of _ _ length])
  then show ?thesis using assms
    by (induction xs ys rule: list_induct2)
      (auto simp: format_levels_def level_values_def format_level_parameter intro!: decimal_parameter_eq)
qed

lemma sorted_level_values:
  assumes "side_ok ls"
  shows "level_values (sorted_levels ls) = map (\<lambda>p. (p, the (side_view ls p))) (sorted_list_of_set (dom (side_view ls)))"
  unfolding sorted_prices [OF assms, symmetric]
  using side_view_member [OF assms] by (auto simp: level_values_def sorted_levels_def)

lemma sorted_formats:
  assumes "side_ok xs" "side_ok ys" "side_view xs = side_view ys"
  shows "format_levels (sorted_levels xs) = format_levels (sorted_levels ys)"
  using assms by (intro format_levels_cong) (auto simp: sorted_level_values, auto simp: sorted_levels_def side_ok_def)

text \<open>The hash identifies the book. Two usable books of one symbol with the same sequence number and
  the same quantities at the same prices have the same hash, whatever way they were built and
  however their decimals are written.\<close>

theorem book_hash_is_canonical:
  assumes "book_reachable a" "book_reachable b" "book_valid a" "book_valid b" "ob_symbol a = ob_symbol b"
    "ob_last_update_id a = ob_last_update_id b" "book_view a = book_view b"
  shows "\<exists>h. book_hash a = Inr h \<and> book_hash b = Inr h"
proof -
  have ok: "side_ok (ob_bids a)" "side_ok (ob_asks a)" "side_ok (ob_bids b)" "side_ok (ob_asks b)"
    using book_reachable_inv [OF assms(1)] book_reachable_inv [OF assms(2)] assms(3,4)
    by (simp_all add: book_inv_def content_ok_def)
  have "format_levels (rev ls) = rev (format_levels ls)" for ls by (simp add: format_levels_def rev_map)
  moreover have "format_levels (sorted_levels (ob_bids a)) = format_levels (sorted_levels (ob_bids b))"
    "format_levels (sorted_levels (ob_asks a)) = format_levels (sorted_levels (ob_asks b))"
    using sorted_formats [OF ok(1,3)] sorted_formats [OF ok(2,4)] assms(7) by (simp_all add: book_view_def)
  ultimately show ?thesis using assms(3-6) by (simp add: book_hash_def levels_json_def)
qed

section \<open>A concrete book\<close>

definition sample_update :: "int \<Rightarrow> string \<Rightarrow> depth_update" where
  "sample_update i q = \<lparr>du_environment = ''testnet'', du_symbol = ''BTCUSDT'', du_connection_id = ''c'',
     du_subscription_id = ''s'', du_event_time = \<lparr>dt_instant = 0, dt_utcoffset = Some 0\<rparr>,
     du_transaction_time = \<lparr>dt_instant = 0, dt_utcoffset = Some 0\<rparr>,
     du_received_at = \<lparr>dt_instant = 0, dt_utcoffset = Some 0\<rparr>, du_first_update_id = i, du_final_update_id = i,
     du_previous_final_update_id = i - 1, du_bids = [\<lparr>dl_price = ''99'', dl_quantity = q\<rparr>], du_asks = [],
     du_raw_hash = replicate 64 CHR ''a'', du_clock_offset_ms = ''0.0'', du_rest_base = ''r'', du_route_role = ''r'',
     du_route_base_hash = replicate 64 CHR ''a'', du_duplicate = False, du_out_of_order = False\<rparr>"

definition sample_snapshot :: book_snapshot where
  "sample_snapshot = \<lparr>sn_symbol = ''BTCUSDT'', sn_connection_id = ''c'',
     sn_received_at = \<lparr>dt_instant = 0, dt_utcoffset = Some 0\<rparr>, sn_last_update_id = 5,
     sn_bids = [\<lparr>dl_price = ''98.5'', dl_quantity = ''2''\<rparr>], sn_asks = [\<lparr>dl_price = ''101'', dl_quantity = ''1.0''\<rparr>]\<rparr>"

definition sample_new :: order_book where
  "sample_new = \<lparr>ob_symbol = ''BTCUSDT'', ob_state = DISCONNECTED, ob_connection_id = None, ob_buffer = [],
     ob_buffer_limit = 10, ob_stale_after = seconds 3, ob_bids = [], ob_asks = [],
     ob_last_update_id = None, ob_last_received_at = None, ob_seen = [], ob_seen_order = [],
     ob_seen_limit = 100000, ob_applied_count = 0, ob_duplicate_count = 0,
     ob_gap_count = 0, ob_out_of_order_count = 0, ob_invalid_count = 0, ob_reason = ''DISCONNECTED''\<rparr>"

definition sample_buffering :: order_book where
  "sample_buffering = snd (ingest_update (sample_update 6 ''3'') (start_buffering ''c'' sample_new))"

definition sample_loaded :: order_book where
  "sample_loaded = snd (load_snapshot sample_snapshot COVER_NEXT_UPDATE_ID sample_buffering)"

lemma sample_facts:
  "new_book ''BTCUSDT'' 10 (seconds 3) = Inr sample_new"
  "depth_update_check (sample_update 6 ''3'') = Inr ()" "depth_update_check (sample_update 7 ''1.5'') = Inr ()"
  "book_snapshot_check sample_snapshot = Inr ()"
  "load_snapshot sample_snapshot COVER_NEXT_UPDATE_ID sample_buffering = (Inr (), sample_loaded)"
  "book_valid (fold (\<lambda>u x. snd (ingest_update u x)) [sample_update 7 ''1.5''] sample_loaded)"
  "book_valid sample_loaded"
  by code_simp+

lemma sample_reachable: "book_reachable sample_loaded"
  unfolding sample_loaded_def sample_buffering_def
  by (intro book_reachable.step [OF _ book_step.load_snapshot] book_reachable.step [OF _ book_step.ingest]
      book_reachable.step [OF _ book_step.start_buffering] book_reachable.new [OF sample_facts(1)] sample_facts)

theorem book_is_fail_closed_witness:
  "book_valid sample_loaded \<and> ob_bids sample_loaded \<noteq> [] \<and> ob_asks sample_loaded \<noteq> [] \<and> side_ok (ob_bids sample_loaded)
     \<and> dval (fst (hd (ob_bids sample_loaded))) < dval (fst (hd (ob_asks sample_loaded)))"
  using book_is_fail_closed [OF sample_reachable] sample_facts(7) by simp

theorem healthy_book_is_replay_witness:
  "\<exists>chain. replays (fold (\<lambda>u x. snd (ingest_update u x)) [sample_update 7 ''1.5''] sample_loaded) sample_snapshot chain
     \<and> covers_boundary 6 (hd chain)"
  using healthy_book_is_replay [OF sample_facts(5,6)] by (auto simp: boundary_id_def sample_snapshot_def)

theorem health_report_is_closed_witness:
  "\<exists>h. book_health \<lparr>dt_instant = 0, dt_utcoffset = Some 0\<rparr> True ''0.0'' True sample_loaded = Inr h \<and> mh_status h = DH_HEALTHY"
proof -
  have "is_utc \<lparr>dt_instant = 0, dt_utcoffset = Some 0\<rparr>" by (simp add: is_utc_def)
  with health_report_is_closed [OF sample_reachable this, of True "''0.0''" True] sample_facts(7) show ?thesis by auto
qed

theorem book_hash_is_canonical_witness: "\<exists>h. book_hash sample_loaded = Inr h"
  using book_hash_is_canonical [OF sample_reachable sample_reachable sample_facts(7,7) refl refl refl] by blast

end
