(* ===== verification/Orders.thy ===== *)
theory Orders
  imports Clock
begin

text \<open>
  Order projection from immutable events: \<open>execution/orders.py\<close>. The lifecycle table, the projection of
  an event stream with all its refusals, client order ids and the translation of Algo updates. The
  projection is shown to accept exactly the streams of a declarative specification.
\<close>

section \<open>Lifecycle\<close>

datatype order_transport = STANDARD | ALGO

datatype order_state =
    CREATED | RISK_APPROVED | SUBMITTING | ACKNOWLEDGED | TRIGGER_PENDING | TRIGGERING | TRIGGERED
  | PARTIALLY_FILLED | CANCEL_PENDING | UNKNOWN | RECONCILING | REJECTED | NOT_FOUND_CONFIRMED
  | CANCELED | EXPIRED | FILLED

definition TERMINAL_STATES :: "order_state set" where
  "TERMINAL_STATES = {REJECTED, NOT_FOUND_CONFIRMED, CANCELED, EXPIRED, FILLED}"

text \<open>\<open>_TRANSITIONS.get(state, set())\<close>.\<close>

fun transitions :: "order_state \<Rightarrow> order_state set" where
  "transitions CREATED = {RISK_APPROVED}"
| "transitions RISK_APPROVED = {SUBMITTING}"
| "transitions SUBMITTING = {ACKNOWLEDGED, TRIGGER_PENDING, REJECTED, UNKNOWN}"
| "transitions UNKNOWN = {ACKNOWLEDGED, TRIGGER_PENDING, TRIGGERING, TRIGGERED, PARTIALLY_FILLED, FILLED,
     NOT_FOUND_CONFIRMED, RECONCILING}"
| "transitions RECONCILING = {ACKNOWLEDGED, TRIGGER_PENDING, TRIGGERING, TRIGGERED, PARTIALLY_FILLED, FILLED,
     NOT_FOUND_CONFIRMED}"
| "transitions ACKNOWLEDGED = {PARTIALLY_FILLED, CANCEL_PENDING, EXPIRED, FILLED}"
| "transitions TRIGGER_PENDING = {TRIGGERING, TRIGGERED, RECONCILING, CANCEL_PENDING, CANCELED, EXPIRED, REJECTED}"
| "transitions TRIGGERING = {TRIGGERED, RECONCILING, REJECTED}"
| "transitions TRIGGERED = {RECONCILING, ACKNOWLEDGED, PARTIALLY_FILLED, FILLED}"
| "transitions PARTIALLY_FILLED = {PARTIALLY_FILLED, FILLED, CANCEL_PENDING, EXPIRED}"
| "transitions CANCEL_PENDING = {CANCELED, PARTIALLY_FILLED, FILLED, UNKNOWN}"
| "transitions _ = {}"

section \<open>Events and projections\<close>

record order_event =
  oe_event_id :: string
  oe_occurred_at :: datetime
  oe_state :: order_state
  oe_cumulative_filled_quantity :: decimal
  oe_order_id :: "string option"
  oe_algo_id :: "string option"
  oe_actual_order_id :: "string option"
  oe_algo_status :: "string option"
  oe_reason_codes :: "string list"

record order_projection =
  op_intent_id :: string
  op_transport :: order_transport
  op_client_id :: string
  op_state :: order_state
  op_cumulative_filled_quantity :: decimal
  op_order_id :: "string option"
  op_algo_id :: "string option"
  op_actual_order_id :: "string option"
  op_event_count :: nat
  op_reconciliation_required :: bool

text \<open>Truth value of an optional text, and \<open>a or b\<close> on such values.\<close>

definition truthy :: "string option \<Rightarrow> bool" where
  "truthy v \<longleftrightarrow> v \<noteq> None \<and> v \<noteq> Some ''''"

definition or_text :: "string option \<Rightarrow> string option \<Rightarrow> string option" where
  "or_text a b = (if truthy a then a else b)"

definition validate_event :: "order_event \<Rightarrow> unit result" where
  "validate_event e =
    rbind (require (is_utc (oe_occurred_at e)) (ValueError ''order event time must be timezone-aware UTC'')) (\<lambda>_.
    require (\<not> oe_cumulative_filled_quantity e < 0) (ValueError ''filled quantity cannot be negative''))"

text \<open>The variables of the loop: the previous event and the three identifiers.\<close>

record order_scan =
  os_previous :: order_event
  os_order_id :: "string option"
  os_algo_id :: "string option"
  os_actual_order_id :: "string option"

definition changed :: "string option \<Rightarrow> string option \<Rightarrow> bool" where
  "changed bound new \<longleftrightarrow> truthy bound \<and> truthy new \<and> new \<noteq> bound"

definition project_event :: "order_transport \<Rightarrow> order_scan \<Rightarrow> order_event \<Rightarrow> order_scan result" where
  "project_event transport s e =
    rbind (validate_event e) (\<lambda>_.
    if oe_state e \<notin> transitions (oe_state (os_previous s)) then Inl (ValueError ''EXEC_ORDER_STATE_INVARIANT_BREACH'')
    else if oe_cumulative_filled_quantity e < oe_cumulative_filled_quantity (os_previous s)
    then Inl (ValueError ''cumulative filled quantity cannot decrease'')
    else if changed (os_order_id s) (oe_order_id e) then Inl (ValueError ''ordinary order id changed'')
    else if changed (os_algo_id s) (oe_algo_id e) then Inl (ValueError ''algo id changed'')
    else if changed (os_actual_order_id s) (oe_actual_order_id e) then Inl (ValueError ''actual order id changed'')
    else let s' = \<lparr>os_previous = e, os_order_id = or_text (oe_order_id e) (os_order_id s),
           os_algo_id = or_text (oe_algo_id e) (os_algo_id s),
           os_actual_order_id = or_text (oe_actual_order_id e) (os_actual_order_id s)\<rparr> in
      if transport = STANDARD \<and> (truthy (os_algo_id s') \<or> truthy (os_actual_order_id s'))
      then Inl (ValueError ''STANDARD intent cannot bind Algo identifiers'')
      else if oe_state e = TRIGGERED \<and> \<not> truthy (os_actual_order_id s')
      then Inl (ValueError ''TRIGGERED requires actual order id'')
      else Inr s')"

fun project_events :: "order_transport \<Rightarrow> order_scan \<Rightarrow> order_event list \<Rightarrow> order_scan result" where
  "project_events transport s [] = Inr s"
| "project_events transport s (e # es) = rbind (project_event transport s e) (\<lambda>s'. project_events transport s' es)"

definition initial_scan :: "order_event \<Rightarrow> order_scan" where
  "initial_scan e = \<lparr>os_previous = e, os_order_id = oe_order_id e, os_algo_id = oe_algo_id e,
     os_actual_order_id = oe_actual_order_id e\<rparr>"

definition project_order :: "string \<Rightarrow> order_transport \<Rightarrow> string \<Rightarrow> order_event list \<Rightarrow> order_projection result" where
  "project_order intent_id transport client_id events = (case events of
     [] \<Rightarrow> Inl (ValueError ''order stream must begin with CREATED'')
   | first # rest \<Rightarrow>
       if oe_state first \<noteq> CREATED then Inl (ValueError ''order stream must begin with CREATED'')
       else if length (remdups (map oe_event_id events)) \<noteq> length events then Inl (ValueError ''duplicate order event id'')
       else rbind (validate_event first) (\<lambda>_.
         rbind (project_events transport (initial_scan first) rest) (\<lambda>s.
         Inr \<lparr>op_intent_id = intent_id, op_transport = transport, op_client_id = client_id,
           op_state = oe_state (os_previous s),
           op_cumulative_filled_quantity = oe_cumulative_filled_quantity (os_previous s),
           op_order_id = os_order_id s, op_algo_id = os_algo_id s, op_actual_order_id = os_actual_order_id s,
           op_event_count = length events,
           op_reconciliation_required = (oe_state (os_previous s) \<in> {UNKNOWN, RECONCILING})\<rparr>)))"

section \<open>Client order ids and Algo updates\<close>

definition environment_code :: "string \<Rightarrow> string option" where
  "environment_code environment = map_of [(''testnet'', ''t''), (''shadow'', ''s''), (''production'', ''l'')] environment"

definition client_order_id :: "string \<Rightarrow> string \<Rightarrow> order_transport \<Rightarrow> string result" where
  "client_order_id environment intent_ulid transport = (case environment_code environment of
     None \<Rightarrow> Inl (ValueError ''invalid order id inputs'')
   | Some code \<Rightarrow>
       if \<not> isalnum intent_ulid then Inl (ValueError ''invalid order id inputs'')
       else let prefix = (if transport = ALGO then ''aqa'' else ''aq'');
                value = prefix @ ''-'' @ code @ ''-'' @ intent_ulid in
         if 36 < length value then Inl (ValueError ''client order id exceeds exchange maximum'') else Inr value)"

definition state_by_status :: "(string, order_state) dict" where
  "state_by_status = [(''NEW'', TRIGGER_PENDING), (''TRIGGERING'', TRIGGERING), (''CANCELED'', CANCELED),
     (''REJECTED'', REJECTED), (''EXPIRED'', EXPIRED)]"

definition algo_update_event ::
  "string \<Rightarrow> datetime \<Rightarrow> string \<Rightarrow> string option \<Rightarrow> string option \<Rightarrow> decimal \<Rightarrow> order_event" where
  "algo_update_event event_id occurred_at algo_status algo_id actual_order_id cumulative =
    (let normalized = or_text actual_order_id None;
         (state, reasons) =
           (if algo_status = ''TRIGGERED''
            then if truthy normalized then (TRIGGERED, []) else (RECONCILING, [''EXEC_ALGO_ACTUAL_ORDER_RECONCILING''])
            else if algo_status = ''FINISHED'' then (RECONCILING, [''EXEC_ALGO_CHILD_RECONCILING''])
            else case map_of state_by_status algo_status of
                Some st \<Rightarrow> (st, [])
              | None \<Rightarrow> (UNKNOWN, [''EXEC_ALGO_STATUS_UNKNOWN'']))
     in \<lparr>oe_event_id = event_id, oe_occurred_at = occurred_at, oe_state = state,
          oe_cumulative_filled_quantity = cumulative, oe_order_id = None, oe_algo_id = algo_id,
          oe_actual_order_id = normalized,
          oe_algo_status = Some (if algo_status \<in> set (map fst state_by_status) \<or> algo_status \<in> {''TRIGGERED'', ''FINISHED''}
            then algo_status else ''UNKNOWN''),
          oe_reason_codes = reasons\<rparr>)"

section \<open>Specification of acceptable streams\<close>

definition event_ok :: "order_event \<Rightarrow> bool" where
  "event_ok e \<longleftrightarrow> is_utc (oe_occurred_at e) \<and> 0 \<le> dval (oe_cumulative_filled_quantity e)"

text \<open>Consecutive events follow the lifecycle and never lower the filled quantity.\<close>

definition follows :: "order_event \<Rightarrow> order_event \<Rightarrow> bool" where
  "follows a b \<longleftrightarrow> oe_state b \<in> transitions (oe_state a)
     \<and> dval (oe_cumulative_filled_quantity a) \<le> dval (oe_cumulative_filled_quantity b)"

text \<open>At most one identifier is ever named.\<close>

definition one_value :: "string option list \<Rightarrow> bool" where
  "one_value vs \<longleftrightarrow> (\<forall>a \<in> set vs. \<forall>b \<in> set vs. truthy a \<longrightarrow> truthy b \<longrightarrow> a = b)"

definition binds :: "string option \<Rightarrow> string option list \<Rightarrow> string option" where
  "binds = foldl (\<lambda>bound v. or_text v bound)"

text \<open>An event that is triggered comes at or after the one that names the actual order.\<close>

definition triggers_named :: "bool \<Rightarrow> order_event list \<Rightarrow> bool" where
  "triggers_named named es \<longleftrightarrow> (\<forall>i < length es. oe_state (es ! i) = TRIGGERED
     \<longrightarrow> named \<or> (\<exists>e \<in> set (take (Suc i) es). truthy (oe_actual_order_id e)))"

definition stream_ok :: "order_transport \<Rightarrow> order_event list \<Rightarrow> bool" where
  "stream_ok transport es \<longleftrightarrow> es \<noteq> [] \<and> oe_state (hd es) = CREATED \<and> distinct (map oe_event_id es)
     \<and> (\<forall>e \<in> set es. event_ok e) \<and> successively follows es
     \<and> one_value (map oe_order_id es) \<and> one_value (map oe_algo_id es) \<and> one_value (map oe_actual_order_id es)
     \<and> (transport = STANDARD \<longrightarrow> 1 < length es
        \<longrightarrow> (\<forall>e \<in> set es. \<not> truthy (oe_algo_id e) \<and> \<not> truthy (oe_actual_order_id e)))
     \<and> triggers_named False es"

section \<open>The projection accepts exactly these streams\<close>

named_theorems stream_simps \<open>streams, one event at a time\<close>

lemma validate_event_iff [stream_simps]: "validate_event e = Inr u \<longleftrightarrow> event_ok e"
  by (auto simp: validate_event_def event_ok_def decimal_less_val not_less)

lemma truthy_or_text [simp]: "truthy (or_text a b) \<longleftrightarrow> truthy b \<or> truthy a"
  by (auto simp: or_text_def)

lemma one_value_Cons2 [stream_simps]:
  "one_value (bound # v # vs) \<longleftrightarrow> \<not> changed bound v \<and> one_value (or_text v bound # vs)"
  by (auto simp: one_value_def changed_def or_text_def)

lemma triggers_named_Cons [stream_simps]:
  "triggers_named named (e # es) \<longleftrightarrow> (oe_state e = TRIGGERED \<longrightarrow> named \<or> truthy (oe_actual_order_id e))
     \<and> triggers_named (named \<or> truthy (oe_actual_order_id e)) es"
  by (auto simp: triggers_named_def All_less_Suc2)

lemma triggers_named_Nil [simp]: "triggers_named named []"
  by (simp add: triggers_named_def)

lemma one_value_single [simp]: "one_value [v]"
  by (simp add: one_value_def)

lemma binds_simps [simp]: "binds bound [] = bound" "binds bound (v # vs) = binds (or_text v bound) vs"
  by (simp_all add: binds_def)

lemma project_event_iff [stream_simps]:
  "project_event transport s e = Inr s' \<longleftrightarrow> event_ok e \<and> follows (os_previous s) e
     \<and> \<not> changed (os_order_id s) (oe_order_id e) \<and> \<not> changed (os_algo_id s) (oe_algo_id e)
     \<and> \<not> changed (os_actual_order_id s) (oe_actual_order_id e)
     \<and> (transport = STANDARD \<longrightarrow> \<not> truthy (oe_algo_id e) \<and> \<not> truthy (oe_actual_order_id e)
        \<and> \<not> truthy (os_algo_id s) \<and> \<not> truthy (os_actual_order_id s))
     \<and> (oe_state e = TRIGGERED \<longrightarrow> truthy (os_actual_order_id s) \<or> truthy (oe_actual_order_id e))
     \<and> s' = \<lparr>os_previous = e, os_order_id = or_text (oe_order_id e) (os_order_id s),
           os_algo_id = or_text (oe_algo_id e) (os_algo_id s),
           os_actual_order_id = or_text (oe_actual_order_id e) (os_actual_order_id s)\<rparr>"
  by (auto simp: project_event_def validate_event_iff follows_def decimal_less_val Let_def)

lemma project_events_iff:
  "project_events transport s es = Inr s' \<longleftrightarrow> (\<forall>e \<in> set es. event_ok e) \<and> successively follows (os_previous s # es)
     \<and> one_value (os_order_id s # map oe_order_id es) \<and> one_value (os_algo_id s # map oe_algo_id es)
     \<and> one_value (os_actual_order_id s # map oe_actual_order_id es)
     \<and> (transport = STANDARD \<longrightarrow> es \<noteq> [] \<longrightarrow> \<not> truthy (os_algo_id s) \<and> \<not> truthy (os_actual_order_id s)
        \<and> (\<forall>e \<in> set es. \<not> truthy (oe_algo_id e) \<and> \<not> truthy (oe_actual_order_id e)))
     \<and> triggers_named (truthy (os_actual_order_id s)) es
     \<and> s' = \<lparr>os_previous = last (os_previous s # es), os_order_id = binds (os_order_id s) (map oe_order_id es),
          os_algo_id = binds (os_algo_id s) (map oe_algo_id es),
          os_actual_order_id = binds (os_actual_order_id s) (map oe_actual_order_id es)\<rparr>"
proof (induction es arbitrary: s)
  case Nil
  show ?case by auto
next
  case (Cons e es)
  show ?case by (cases "es = []") (simp_all add: Cons.IH stream_simps, blast+)
qed

lemma project_order_spec_iff:
  "project_order intent_id transport client_id events = Inr p \<longleftrightarrow> stream_ok transport events
     \<and> p = \<lparr>op_intent_id = intent_id, op_transport = transport, op_client_id = client_id,
        op_state = oe_state (last events), op_cumulative_filled_quantity = oe_cumulative_filled_quantity (last events),
        op_order_id = binds (oe_order_id (hd events)) (map oe_order_id (tl events)), op_algo_id = binds (oe_algo_id (hd events)) (map oe_algo_id (tl events)),
        op_actual_order_id = binds (oe_actual_order_id (hd events)) (map oe_actual_order_id (tl events)), op_event_count = length events,
        op_reconciliation_required = (oe_state (last events) \<in> {UNKNOWN, RECONCILING})\<rparr>"
proof (cases events)
  case Nil
  then show ?thesis by (simp add: project_order_def stream_ok_def)
next
  case (Cons e es)
  have d: "length (remdups (map oe_event_id events)) = length events \<longleftrightarrow> distinct (map oe_event_id events)"
    by (metis length_map length_remdups_eq remdups_id_iff_distinct)
  have n: "triggers_named False events \<longleftrightarrow> triggers_named (truthy (oe_actual_order_id e)) es" if "oe_state e = CREATED"
    using that by (simp add: Cons triggers_named_Cons)
  show ?thesis
    unfolding project_order_def Cons list.case d [unfolded Cons]
    using n by (auto simp: Cons stream_ok_def project_events_iff initial_scan_def validate_event_iff)
qed

text \<open>C27: the projection is its specification. \<open>project_order\<close> accepts a stream exactly when it begins
  with CREATED, has distinct event ids, UTC times and non-negative fills, follows the lifecycle with
  non-decreasing fills, names at most one order, algo and actual order, binds no algo identifiers on
  a STANDARD intent (of more than one event) and names the actual order no later than the trigger;
  and what it returns is then read off the last event and the identifiers named.\<close>

theorem project_order_spec:
  "project_order intent_id transport client_id events = Inr p \<longleftrightarrow> stream_ok transport events
     \<and> p = \<lparr>op_intent_id = intent_id, op_transport = transport, op_client_id = client_id,
        op_state = oe_state (last events), op_cumulative_filled_quantity = oe_cumulative_filled_quantity (last events),
        op_order_id = binds (oe_order_id (hd events)) (map oe_order_id (tl events)), op_algo_id = binds (oe_algo_id (hd events)) (map oe_algo_id (tl events)),
        op_actual_order_id = binds (oe_actual_order_id (hd events)) (map oe_actual_order_id (tl events)), op_event_count = length events,
        op_reconciliation_required = (oe_state (last events) \<in> {UNKNOWN, RECONCILING})\<rparr>"
  by (rule project_order_spec_iff)

section \<open>Where orders can end\<close>

definition plain_intent :: "order_transport \<Rightarrow> order_event list \<Rightarrow> bool" where
  "plain_intent transport es \<longleftrightarrow> transport = STANDARD
     \<longrightarrow> \<not> truthy (oe_algo_id (hd es)) \<and> \<not> truthy (oe_actual_order_id (hd es))"

text \<open>An event with a fresh id that only moves the state on.\<close>

definition silent_event :: "order_event list \<Rightarrow> order_state \<Rightarrow> order_event" where
  "silent_event es st = \<lparr>oe_event_id = CHR ''x'' # concat (map oe_event_id es),
     oe_occurred_at = oe_occurred_at (last es), oe_state = st,
     oe_cumulative_filled_quantity = oe_cumulative_filled_quantity (last es), oe_order_id = None,
     oe_algo_id = None, oe_actual_order_id = None, oe_algo_status = None, oe_reason_codes = []\<rparr>"

lemma fresh_id: "CHR ''x'' # concat (map oe_event_id es) \<notin> oe_event_id ` set es"
proof
  assume "CHR ''x'' # concat (map oe_event_id es) \<in> oe_event_id ` set es"
  then obtain e where e: "e \<in> set es" "oe_event_id e = CHR ''x'' # concat (map oe_event_id es)" by auto
  from e(1) have "length (oe_event_id e) \<le> length (concat (map oe_event_id es))"
    by (simp add: length_concat member_le_sum_list)
  with e(2) show False by simp
qed

lemma one_value_None: "one_value (vs @ [None]) \<longleftrightarrow> one_value vs"
  by (auto simp: one_value_def truthy_def)

lemma triggers_named_snoc: "st \<noteq> TRIGGERED \<Longrightarrow> triggers_named named es \<Longrightarrow> triggers_named named (es @ [silent_event xs st])"
  by (auto simp: triggers_named_def nth_append silent_event_def less_Suc_eq)

lemma stream_ok_silent:
  assumes "stream_ok transport es" "plain_intent transport es"
    "st \<in> transitions (oe_state (last es))" "st \<noteq> TRIGGERED"
  shows "stream_ok transport (es @ [silent_event es st]) \<and> plain_intent transport (es @ [silent_event es st])"
proof -
  have ne: "es \<noteq> []" using assms(1) by (simp add: stream_ok_def)
  have "event_ok (silent_event es st)" "follows (last es) (silent_event es st)"
    using assms(1,3) ne by (auto simp: stream_ok_def silent_event_def event_ok_def follows_def)
  moreover have "oe_order_id (silent_event es st) = None" "oe_algo_id (silent_event es st) = None"
    "oe_actual_order_id (silent_event es st) = None" "oe_event_id (silent_event es st) \<notin> oe_event_id ` set es"
    using fresh_id [of es] by (simp_all add: silent_event_def)
  moreover have "transport = STANDARD \<Longrightarrow> \<forall>e \<in> set es. \<not> truthy (oe_algo_id e) \<and> \<not> truthy (oe_actual_order_id e)"
    using assms(1,2) ne by (cases es; cases "tl es") (auto simp: stream_ok_def plain_intent_def)
  moreover have "\<not> truthy None" by (simp add: truthy_def)
  ultimately show ?thesis
    using assms ne by (auto simp: stream_ok_def plain_intent_def one_value_None successively_append_iff triggers_named_snoc)
qed

text \<open>The shortest way from each state to a terminal one that needs no identifier.\<close>

fun way_out :: "order_state \<Rightarrow> order_state list" where
  "way_out CREATED = [RISK_APPROVED, SUBMITTING, REJECTED]"
| "way_out RISK_APPROVED = [SUBMITTING, REJECTED]"
| "way_out st = (if st \<in> TERMINAL_STATES then [] else if st \<in> {SUBMITTING, TRIGGER_PENDING, TRIGGERING} then [REJECTED] else [FILLED])"

lemma way_out_ok: "successively (\<lambda>a b. b \<in> transitions a \<and> b \<noteq> TRIGGERED) (st # way_out st)
    \<and> last (st # way_out st) \<in> TERMINAL_STATES"
  by (cases st) (simp_all add: TERMINAL_STATES_def)

lemma stream_ok_follow:
  assumes "stream_ok transport es" "plain_intent transport es"
    "successively (\<lambda>a b. b \<in> transitions a \<and> b \<noteq> TRIGGERED) (oe_state (last es) # sts)"
  shows "\<exists>more. stream_ok transport (es @ more) \<and> map oe_state more = sts
    \<and> (\<forall>e \<in> set more. oe_cumulative_filled_quantity e = oe_cumulative_filled_quantity (last es))"
  using assms
proof (induction sts arbitrary: es)
  case Nil
  then show ?case by (intro exI [of _ "[]"]) simp
next
  case (Cons st sts)
  let ?e = "silent_event es st"
  have e: "oe_state ?e = st" "oe_cumulative_filled_quantity ?e = oe_cumulative_filled_quantity (last es)"
    by (simp_all add: silent_event_def)
  obtain more where "stream_ok transport ((es @ [?e]) @ more)" "map oe_state more = sts"
    "\<forall>x \<in> set more. oe_cumulative_filled_quantity x = oe_cumulative_filled_quantity ?e"
    using Cons.IH [of "es @ [?e]"] stream_ok_silent [OF Cons.prems(1,2), of st] Cons.prems(3) e by auto
  with e show ?case by (intro exI [of _ "?e # more"]) auto
qed

lemma terminal_no_transition: "st \<in> TERMINAL_STATES \<longleftrightarrow> transitions st = {}"
  by (cases st) (auto simp: TERMINAL_STATES_def)

text \<open>Orders can always be finished, and finished orders stay finished. A projected order can be
  continued to a terminal state without changing its filled quantity, provided a STANDARD intent
  named no algo identifiers in its first event; and once its state is terminal, every further event is
  refused.\<close>

theorem order_lifecycle_ends:
  assumes "project_order intent_id transport client_id events = Inr p"
  shows "(plain_intent transport events \<longrightarrow> (\<exists>more q. project_order intent_id transport client_id (events @ more) = Inr q
        \<and> op_state q \<in> TERMINAL_STATES \<and> op_cumulative_filled_quantity q = op_cumulative_filled_quantity p))
    \<and> (op_state p \<in> TERMINAL_STATES \<longrightarrow> (\<forall>e es q. project_order intent_id transport client_id (events @ e # es) \<noteq> Inr q))"
proof (intro conjI impI allI notI)
  note ok = assms [unfolded project_order_spec_iff]
  {
    assume "plain_intent transport events"
    with ok obtain more where more: "stream_ok transport (events @ more)"
      "map oe_state more = way_out (oe_state (last events))"
      "\<forall>e \<in> set more. oe_cumulative_filled_quantity e = oe_cumulative_filled_quantity (last events)"
      using stream_ok_follow [of transport events "way_out (oe_state (last events))"] way_out_ok by blast
    have "oe_state (last (events @ more)) = last (oe_state (last events) # map oe_state more)"
      by (cases more rule: rev_cases) simp_all
    then have "oe_state (last (events @ more)) \<in> TERMINAL_STATES" using way_out_ok by (simp only: more(2))
    moreover have "oe_cumulative_filled_quantity (last (events @ more)) = oe_cumulative_filled_quantity (last events)"
      using more(3) by (cases more rule: rev_cases) simp_all
    ultimately show "\<exists>more q. project_order intent_id transport client_id (events @ more) = Inr q
        \<and> op_state q \<in> TERMINAL_STATES \<and> op_cumulative_filled_quantity q = op_cumulative_filled_quantity p"
      using more(1) ok by (intro exI [of _ more]) (simp add: project_order_spec_iff)
  next
    fix e es q
    assume "op_state p \<in> TERMINAL_STATES" "project_order intent_id transport client_id (events @ e # es) = Inr q"
    with ok show False
      by (simp add: project_order_spec_iff stream_ok_def successively_append_iff follows_def terminal_no_transition)
  }
qed

text \<open>The proviso is needed: the transport check runs from the second event on, so a STANDARD intent
  whose first event names an algo order is projected, and can never be continued.\<close>

lemma standard_intent_stuck:
  assumes "truthy (oe_algo_id e)" "oe_state e = CREATED" "event_ok e"
  shows "\<exists>p. project_order intent_id STANDARD client_id [e] = Inr p"
    "project_order intent_id STANDARD client_id (e # e' # es) \<noteq> Inr q"
  using assms by (auto simp: project_order_spec_iff stream_ok_def triggers_named_Cons)

text \<open>Algo updates name the actual order whenever they report a trigger.\<close>

lemma algo_update_names_trigger:
  "oe_state (algo_update_event i t st a x q) = TRIGGERED \<Longrightarrow> truthy (oe_actual_order_id (algo_update_event i t st a x q))"
  by (auto simp: algo_update_event_def state_by_status_def Let_def split: if_splits option.splits)

lemma client_order_id_length: "client_order_id env ulid transport = Inr v \<Longrightarrow> 6 \<le> length v \<and> length v \<le> 36"
  by (auto simp: client_order_id_def environment_code_def isalnum_def Let_def Suc_le_eq split: option.splits if_splits)

section \<open>A concrete stream\<close>

definition sample_event :: "string \<Rightarrow> order_state \<Rightarrow> nat \<Rightarrow> order_event" where
  "sample_event i st q = \<lparr>oe_event_id = i, oe_occurred_at = \<lparr>dt_instant = 0, dt_utcoffset = Some 0\<rparr>, oe_state = st,
     oe_cumulative_filled_quantity = dec q, oe_order_id = Some ''7'', oe_algo_id = None, oe_actual_order_id = None,
     oe_algo_status = None, oe_reason_codes = []\<rparr>"

definition sample_stream :: "order_event list" where
  "sample_stream = [sample_event ''a'' CREATED 0, sample_event ''b'' RISK_APPROVED 0, sample_event ''c'' SUBMITTING 0,
     sample_event ''d'' ACKNOWLEDGED 0, sample_event ''e'' PARTIALLY_FILLED 2]"

theorem order_lifecycle_ends_witness:
  "\<exists>p more q. project_order ''i'' STANDARD ''c'' sample_stream = Inr p \<and> op_state p = PARTIALLY_FILLED
     \<and> project_order ''i'' STANDARD ''c'' (sample_stream @ more) = Inr q \<and> op_state q \<in> TERMINAL_STATES"
proof -
  have "case project_order ''i'' STANDARD ''c'' sample_stream of Inr p \<Rightarrow> op_state p = PARTIALLY_FILLED | Inl _ \<Rightarrow> False"
    by code_simp
  then obtain p where p: "project_order ''i'' STANDARD ''c'' sample_stream = Inr p" "op_state p = PARTIALLY_FILLED"
    by (auto split: sum.splits)
  have "plain_intent STANDARD sample_stream" by (simp add: plain_intent_def sample_stream_def sample_event_def truthy_def)
  with order_lifecycle_ends [OF p(1)] p show ?thesis by blast
qed

end
