(* ===== verification/Sizing.thy ===== *)
theory Sizing
  imports Decimals
begin

text \<open>
  Hard-limit sizing of entries: \<open>risk/sizing.py\<close>. Limits with their immutable caps, the scaling by the
  risk multiplier, the margin ceiling of an order, and the sizing decision, in the arithmetic of the
  decimal context; the bounds proved account for its rounding.
\<close>

section \<open>Limits\<close>

definition BINANCE_USDM_LEVERAGE_PROTOCOL_MAXIMUM :: decimal where
  "BINANCE_USDM_LEVERAGE_PROTOCOL_MAXIMUM = dec 125"

record risk_limits =
  rl_per_trade_initial_stop_pct :: decimal
  rl_total_open_risk_pct :: decimal
  rl_correlation_cluster_risk_pct :: decimal
  rl_utc_daily_net_loss_pct :: decimal
  rl_intraday_equity_drawdown_pct :: decimal
  rl_effective_leverage :: decimal
  rl_concurrent_positions :: int

definition per_mille :: "nat \<Rightarrow> decimal" where
  "per_mille n = Dec False n (- 3)"

definition default_risk_limits :: risk_limits where
  "default_risk_limits = \<lparr>rl_per_trade_initial_stop_pct = per_mille 5, rl_total_open_risk_pct = per_mille 20,
     rl_correlation_cluster_risk_pct = per_mille 10, rl_utc_daily_net_loss_pct = per_mille 40,
     rl_intraday_equity_drawdown_pct = per_mille 50, rl_effective_leverage = dec 125, rl_concurrent_positions = 10\<rparr>"

definition risk_limits_check :: "risk_limits \<Rightarrow> risk_limits result" where
  "risk_limits_check l =
    (if list_ex (\<lambda>(value, cap). value < 0 \<or> cap < value)
         [(rl_per_trade_initial_stop_pct l, per_mille 5), (rl_total_open_risk_pct l, per_mille 20),
          (rl_correlation_cluster_risk_pct l, per_mille 10), (rl_utc_daily_net_loss_pct l, per_mille 40),
          (rl_intraday_equity_drawdown_pct l, per_mille 50)]
     then Inl (ValueError ''configured risk limit exceeds immutable hard cap'')
     else if \<not> (dec 1 \<le> rl_effective_leverage l \<and> rl_effective_leverage l \<le> BINANCE_USDM_LEVERAGE_PROTOCOL_MAXIMUM)
     then Inl (ValueError ''exchange-selected leverage exceeds Binance protocol range'')
     else if \<not> (0 \<le> rl_concurrent_positions l \<and> rl_concurrent_positions l \<le> 10)
     then Inl (ValueError ''configured position count exceeds immutable hard cap'') else Inr l)"

text \<open>Configured and effective limits have the same fields.\<close>

definition effective_limits :: "risk_limits \<Rightarrow> decimal \<Rightarrow> risk_limits result" where
  "effective_limits c multiplier =
    (if \<not> (0 \<le> multiplier \<and> multiplier \<le> dec 1) then Inl (ValueError ''risk multiplier must be within [0,1]'')
     else Inr \<lparr>rl_per_trade_initial_stop_pct = rl_per_trade_initial_stop_pct c * multiplier,
       rl_total_open_risk_pct = rl_total_open_risk_pct c * multiplier,
       rl_correlation_cluster_risk_pct = rl_correlation_cluster_risk_pct c * multiplier,
       rl_utc_daily_net_loss_pct = rl_utc_daily_net_loss_pct c * multiplier,
       rl_intraday_equity_drawdown_pct = rl_intraday_equity_drawdown_pct c * multiplier,
       rl_effective_leverage = rl_effective_leverage c, rl_concurrent_positions = rl_concurrent_positions c\<rparr>)"

section \<open>Sizing\<close>

record risk_sizing_input =
  ri_equity :: decimal
  ri_entry_assumption :: decimal
  ri_stop_trigger :: decimal
  ri_entry_slippage_per_unit :: decimal
  ri_emergency_exit_slippage_per_unit :: decimal
  ri_entry_fee_per_unit :: decimal
  ri_exit_fee_per_unit :: decimal
  ri_funding_buffer_per_unit :: decimal
  ri_reserved_episode_risk :: decimal
  ri_reserved_all_risk :: decimal
  ri_reserved_cluster_risk :: decimal
  ri_current_daily_loss :: decimal
  ri_current_drawdown :: decimal
  ri_current_gross_notional :: decimal
  ri_current_positions :: int
  ri_step_size :: decimal
  ri_minimum_quantity :: decimal
  ri_minimum_notional :: decimal
  ri_maximum_executable_quantity :: decimal

record risk_sizing_decision =
  rd_approved :: bool
  rd_quantity :: decimal
  rd_loss_per_unit :: decimal
  rd_reserved_risk :: decimal
  rd_available_risk :: decimal
  rd_reason_codes :: "string list"

definition denied :: "string \<Rightarrow> risk_sizing_decision" where
  "denied reason = \<lparr>rd_approved = False, rd_quantity = dec 0, rd_loss_per_unit = dec 0, rd_reserved_risk = dec 0,
     rd_available_risk = dec 0, rd_reason_codes = [reason]\<rparr>"

text \<open>\<open>(value / step).to_integral_value(rounding=ROUND_FLOOR) * step\<close>.\<close>

definition floor_quantity :: "decimal \<Rightarrow> decimal \<Rightarrow> decimal result" where
  "floor_quantity v step = rbind (decimal_truediv v step) (\<lambda>n. Inr (decimal_floor n * step))"

definition maximum_quantity_for_margin_budget :: "decimal \<Rightarrow> decimal \<Rightarrow> decimal \<Rightarrow> decimal \<Rightarrow> decimal result" where
  "maximum_quantity_for_margin_budget margin_budget initial_leverage entry_price step_size =
    (if margin_budget \<le> 0 \<or> entry_price \<le> 0 \<or> step_size \<le> 0 then Inl (ValueError ''margin sizing inputs must be positive'')
     else if \<not> (dec 1 \<le> initial_leverage \<and> initial_leverage \<le> BINANCE_USDM_LEVERAGE_PROTOCOL_MAXIMUM)
     then Inl (ValueError ''initial leverage exceeds Binance protocol range'')
     else rbind (decimal_truediv (margin_budget * initial_leverage) entry_price) (\<lambda>raw_quantity.
       floor_quantity raw_quantity step_size))"

definition loss_per_unit :: "risk_sizing_input \<Rightarrow> decimal" where
  "loss_per_unit r = dabs (ri_entry_assumption r - ri_stop_trigger r) + ri_entry_slippage_per_unit r
     + ri_emergency_exit_slippage_per_unit r + ri_entry_fee_per_unit r + ri_exit_fee_per_unit r + ri_funding_buffer_per_unit r"

definition available_risk :: "risk_sizing_input \<Rightarrow> risk_limits \<Rightarrow> decimal" where
  "available_risk r l = dmax (dec 0) (foldl dmin
     (ri_equity r * rl_per_trade_initial_stop_pct l - ri_reserved_episode_risk r)
     [ri_equity r * rl_total_open_risk_pct l - ri_reserved_all_risk r,
      ri_equity r * rl_correlation_cluster_risk_pct l - ri_reserved_cluster_risk r,
      ri_equity r * rl_utc_daily_net_loss_pct l - ri_current_daily_loss r,
      ri_equity r * rl_intraday_equity_drawdown_pct l - ri_current_drawdown r])"

definition leverage_headroom :: "risk_sizing_input \<Rightarrow> risk_limits \<Rightarrow> decimal" where
  "leverage_headroom r l = dmax (dec 0) (ri_equity r * rl_effective_leverage l - ri_current_gross_notional r)"

definition sizing_values :: "risk_sizing_input \<Rightarrow> decimal list" where
  "sizing_values r = [ri_equity r, ri_entry_assumption r, ri_stop_trigger r, ri_entry_slippage_per_unit r,
     ri_emergency_exit_slippage_per_unit r, ri_entry_fee_per_unit r, ri_exit_fee_per_unit r, ri_funding_buffer_per_unit r,
     ri_reserved_episode_risk r, ri_reserved_all_risk r, ri_reserved_cluster_risk r, ri_current_daily_loss r,
     ri_current_drawdown r, ri_current_gross_notional r, ri_step_size r, ri_minimum_quantity r, ri_minimum_notional r,
     ri_maximum_executable_quantity r]"

definition size_entry :: "risk_sizing_input \<Rightarrow> risk_limits option \<Rightarrow> decimal \<Rightarrow> risk_sizing_decision result" where
  "size_entry r configured multiplier =
    (if list_ex (\<lambda>v. v < 0) (sizing_values r) then Inr (denied ''RISK_INPUT_INVALID'')
     else if ri_equity r \<le> 0 \<or> ri_step_size r \<le> 0 \<or> ri_entry_assumption r \<le> 0 \<or> ri_stop_trigger r \<le> 0
     then Inr (denied ''RISK_INPUT_INVALID'')
     else rbind (effective_limits (case configured of None \<Rightarrow> default_risk_limits | Some c \<Rightarrow> c) multiplier) (\<lambda>l.
       if rl_concurrent_positions l \<le> ri_current_positions r then Inr (denied ''RISK_POSITION_COUNT_LIMIT'')
       else let loss = loss_per_unit r; available = available_risk r l;
                refused = (\<lambda>reason. Inr \<lparr>rd_approved = False, rd_quantity = dec 0, rd_loss_per_unit = loss,
                  rd_reserved_risk = dec 0, rd_available_risk = available, rd_reason_codes = [reason]\<rparr>) in
         if loss \<le> 0 then Inr (denied ''RISK_STOP_DISTANCE_INVALID'')
         else if available \<le> 0 then refused ''RISK_BUDGET_EXHAUSTED''
         else rbind (decimal_truediv available loss) (\<lambda>quantity_by_risk.
           rbind (decimal_truediv (leverage_headroom r l) (ri_entry_assumption r)) (\<lambda>quantity_by_leverage.
           let raw_quantity = dmin (dmin quantity_by_risk quantity_by_leverage) (ri_maximum_executable_quantity r) in
           rbind (floor_quantity raw_quantity (ri_step_size r)) (\<lambda>quantity.
           if quantity < ri_minimum_quantity r then refused ''RISK_MIN_QUANTITY''
           else if quantity * ri_entry_assumption r < ri_minimum_notional r then refused ''RISK_MIN_NOTIONAL''
           else Inr \<lparr>rd_approved = True, rd_quantity = quantity, rd_loss_per_unit = loss,
             rd_reserved_risk = quantity * loss, rd_available_risk = available, rd_reason_codes = []\<rparr>)))))"

section \<open>Rounding slack\<close>

text \<open>One rounding enlarges a non-negative value by at most this factor.\<close>

definition slack :: rat where
  "slack = 1 + 5 / 10 ^ 28"

lemma rnd_le_slack: assumes "0 \<le> x" shows "rnd x \<le> x * slack"
proof (cases "x = 0")
  case False
  with assms have x: "0 < x" by simp
  then have "10 powi decade x \<le> x" using decade_in [of x] by (simp add: in_decade_def)
  moreover have "unit x = 10 powi decade x / 10 ^ 27"
    using x by (simp add: unit_def prec_def ten_powi_add power_int_diff)
  ultimately have "unit x / 2 \<le> x * (5 / 10 ^ 28)" by simp
  moreover have "rnd x - x \<le> unit x / 2" using rnd_error [of x] False by linarith
  ultimately show ?thesis by (simp add: slack_def algebra_simps)
qed simp

lemma slack_ge_1: "1 \<le> slack"
  by (simp add: slack_def)

lemma rnd_le_slack_trans: "0 \<le> x \<Longrightarrow> x \<le> y \<Longrightarrow> rnd x \<le> y * slack"
  using rnd_le_slack [of x] mult_right_mono [of x y slack] slack_ge_1 by linarith

lemma floor_quantity_bounds:
  assumes "floor_quantity v s = Inr q" "0 < dval s" "0 \<le> dval v"
  shows "\<exists>n. 0 \<le> n \<and> dval q = rnd (of_int n * dval s)" "0 \<le> dval q" "dval q \<le> dval v * slack ^ 2"
proof -
  define n where "n = \<lfloor>rnd (dval v / dval s)\<rfloor>"
  have q: "dval q = rnd (of_int n * dval s)"
    using assms(1) dval_truediv [of v s] by (auto simp: floor_quantity_def n_def dval_times dval_decimal_floor simp del: decimal_truediv_eq_Inr)
  have v: "0 \<le> dval v / dval s" using assms(2,3) by simp
  then have n: "0 \<le> n" by (simp add: n_def half_even.nonneg)
  have "of_int n \<le> rnd (dval v / dval s)" by (simp add: n_def)
  also have "\<dots> \<le> dval v / dval s * slack" by (rule rnd_le_slack [OF v])
  finally have "of_int n * dval s \<le> dval v / dval s * slack * dval s" using assms(2) by (intro mult_right_mono) simp_all
  then have "of_int n * dval s \<le> dval v * slack" using assms(2) by simp
  moreover have p: "0 \<le> of_int n * dval s" using n assms(2) by simp
  ultimately have "dval q \<le> dval v * slack * slack" unfolding q by (intro rnd_le_slack_trans)
  then show "dval q \<le> dval v * slack ^ 2" by (simp add: power2_eq_square mult.assoc)
  show "\<exists>n. 0 \<le> n \<and> dval q = rnd (of_int n * dval s)" using n q by blast
  show "0 \<le> dval q" unfolding q using p by (rule half_even.nonneg)
qed

section \<open>Hard caps\<close>

text \<open>The risk budget that a share of the equity leaves after what is used of it.\<close>

definition budget :: "rat \<Rightarrow> rat \<Rightarrow> rat \<Rightarrow> rat" where
  "budget equity share used = rnd (rnd (equity * share) - used)"

definition within_hard_caps :: "risk_sizing_input \<Rightarrow> rat \<Rightarrow> bool" where
  "within_hard_caps r x \<longleftrightarrow> x \<le> budget (dval (ri_equity r)) (5 / 1000) (dval (ri_reserved_episode_risk r))
     \<and> x \<le> budget (dval (ri_equity r)) (20 / 1000) (dval (ri_reserved_all_risk r))
     \<and> x \<le> budget (dval (ri_equity r)) (10 / 1000) (dval (ri_reserved_cluster_risk r))
     \<and> x \<le> budget (dval (ri_equity r)) (40 / 1000) (dval (ri_current_daily_loss r))
     \<and> x \<le> budget (dval (ri_equity r)) (50 / 1000) (dval (ri_current_drawdown r))"

lemma dval_per_mille: "dval (per_mille n) = of_nat n / 1000"
  by (simp add: per_mille_def dval_def dsigned_def power_int_def power_divide)

lemma exact_per_mille: "n < 1000 \<Longrightarrow> exact28 (of_nat n / 1000)"
  unfolding exact28_def
  by (rule exI [of _ "int n"], rule exI [of _ "- 3"]) (simp add: power_int_def power_divide)

lemma scaled_share:
  assumes "0 \<le> dval p" "dval p \<le> of_nat n / 1000" "0 \<le> dval m" "dval m \<le> 1" "n < 1000"
  shows "dval (p * m) \<le> of_nat n / 1000"
proof -
  have "dval p * dval m \<le> of_nat n / 1000" using assms mult_mono [of "dval p" "of_nat n / 1000" "dval m" 1] by simp
  then show ?thesis unfolding dval_times using exact_per_mille [OF assms(5)] by (rule half_even.le_exact)
qed

lemma budget_mono:
  "0 \<le> dval e \<Longrightarrow> dval p \<le> share \<Longrightarrow> dval (e * p - u) \<le> budget (dval e) share (dval u)"
  by (auto simp: budget_def dval_minus dval_times intro!: rnd_mono diff_right_mono mult_left_mono)

lemma available_within_hard_caps:
  assumes "risk_limits_check c = Inr c" "effective_limits c m = Inr l" "0 \<le> dval (ri_equity r)" "0 < available_risk r l"
  shows "within_hard_caps r (dval (available_risk r l))"
proof -
  have m: "0 \<le> dval m" "dval m \<le> 1" using assms(2) by (auto simp: effective_limits_def decimal_simps split: if_splits)
  have c: "0 \<le> dval (rl_per_trade_initial_stop_pct c)" "dval (rl_per_trade_initial_stop_pct c) \<le> of_nat 5 / 1000"
    "0 \<le> dval (rl_total_open_risk_pct c)" "dval (rl_total_open_risk_pct c) \<le> of_nat 20 / 1000"
    "0 \<le> dval (rl_correlation_cluster_risk_pct c)" "dval (rl_correlation_cluster_risk_pct c) \<le> of_nat 10 / 1000"
    "0 \<le> dval (rl_utc_daily_net_loss_pct c)" "dval (rl_utc_daily_net_loss_pct c) \<le> of_nat 40 / 1000"
    "0 \<le> dval (rl_intraday_equity_drawdown_pct c)" "dval (rl_intraday_equity_drawdown_pct c) \<le> of_nat 50 / 1000"
    using assms(1) by (auto simp: risk_limits_check_def decimal_less_val dval_per_mille split: if_splits)
  note scaled = scaled_share [OF c(1,2) m] scaled_share [OF c(3,4) m] scaled_share [OF c(5,6) m]
    scaled_share [OF c(7,8) m] scaled_share [OF c(9,10) m]
  have l: "rl_per_trade_initial_stop_pct l = rl_per_trade_initial_stop_pct c * m"
    "rl_total_open_risk_pct l = rl_total_open_risk_pct c * m"
    "rl_correlation_cluster_risk_pct l = rl_correlation_cluster_risk_pct c * m"
    "rl_utc_daily_net_loss_pct l = rl_utc_daily_net_loss_pct c * m"
    "rl_intraday_equity_drawdown_pct l = rl_intraday_equity_drawdown_pct c * m"
    using assms(2) by (auto simp: effective_limits_def split: if_splits)
  define t1 where "t1 = ri_equity r * rl_per_trade_initial_stop_pct l - ri_reserved_episode_risk r"
  define t2 where "t2 = ri_equity r * rl_total_open_risk_pct l - ri_reserved_all_risk r"
  define t3 where "t3 = ri_equity r * rl_correlation_cluster_risk_pct l - ri_reserved_cluster_risk r"
  define t4 where "t4 = ri_equity r * rl_utc_daily_net_loss_pct l - ri_current_daily_loss r"
  define t5 where "t5 = ri_equity r * rl_intraday_equity_drawdown_pct l - ri_current_drawdown r"
  have "dval (available_risk r l) = max 0 (min (min (min (min (dval t1) (dval t2)) (dval t3)) (dval t4)) (dval t5))"
    by (simp add: available_risk_def t1_def t2_def t3_def t4_def t5_def dval_dmin dval_dmax)
  then have le: "dval (available_risk r l) \<le> dval t1" "dval (available_risk r l) \<le> dval t2"
    "dval (available_risk r l) \<le> dval t3" "dval (available_risk r l) \<le> dval t4" "dval (available_risk r l) \<le> dval t5"
    using assms(4) by (simp_all add: decimal_less_val max_def split: if_splits)
  note b = budget_mono [OF assms(3)]
  have b1: "dval t1 \<le> budget (dval (ri_equity r)) (of_nat 5 / 1000) (dval (ri_reserved_episode_risk r))"
    unfolding t1_def l by (rule b [OF scaled(1)]) simp
  have b2: "dval t2 \<le> budget (dval (ri_equity r)) (of_nat 20 / 1000) (dval (ri_reserved_all_risk r))"
    unfolding t2_def l by (rule b [OF scaled(2)]) simp
  have b3: "dval t3 \<le> budget (dval (ri_equity r)) (of_nat 10 / 1000) (dval (ri_reserved_cluster_risk r))"
    unfolding t3_def l by (rule b [OF scaled(3)]) simp
  have b4: "dval t4 \<le> budget (dval (ri_equity r)) (of_nat 40 / 1000) (dval (ri_current_daily_loss r))"
    unfolding t4_def l by (rule b [OF scaled(4)]) simp
  have b5: "dval t5 \<le> budget (dval (ri_equity r)) (of_nat 50 / 1000) (dval (ri_current_drawdown r))"
    unfolding t5_def l by (rule b [OF scaled(5)]) simp
  show ?thesis
    using order_trans [OF le(1) b1] order_trans [OF le(2) b2] order_trans [OF le(3) b3] order_trans [OF le(4) b4]
      order_trans [OF le(5) b5] by (simp only: within_hard_caps_def of_nat_numeral simp_thms)
qed

lemma quantity_times:
  assumes "q \<le> raw * slack ^ 2" "raw \<le> rnd (x / y)" "0 \<le> x" "0 < y"
  shows "q * y \<le> x * slack ^ 3"
proof -
  have "raw \<le> x / y * slack" using assms(2) rnd_le_slack [of "x / y"] assms(3,4) by (auto intro: order_trans)
  then have "raw * slack ^ 2 \<le> x / y * slack * slack ^ 2" by (intro mult_right_mono) simp_all
  with assms(1) have "q \<le> x / y * slack ^ 3" by (simp add: power2_eq_square power3_eq_cube mult.assoc)
  then have "q * y \<le> x / y * slack ^ 3 * y" using assms(4) by (intro mult_right_mono) simp_all
  with assms(4) show ?thesis by simp
qed

text \<open>C28: hard risk limits. With limits that respect the immutable caps, an approved entry fits every risk
  budget at its hard cap; its reserved risk exceeds the available risk, its notional the leverage
  headroom and its quantity the executable maximum by no more than the rounding of the decimal
  operations involved; it is a whole number of steps up to rounding, meets the minimum quantity
  and notional, and fewer positions than the limit are open.\<close>

theorem entry_within_risk_limits:
  assumes "size_entry r configured multiplier = Inr d" "rd_approved d"
    "\<forall>c. configured = Some c \<longrightarrow> risk_limits_check c = Inr c"
  shows "within_hard_caps r (dval (rd_available_risk d))
    \<and> dval (rd_reserved_risk d) \<le> dval (rd_available_risk d) * slack ^ 4
    \<and> dval (rd_quantity d) * dval (ri_entry_assumption r) \<le> dval (leverage_headroom r
        (case configured of None \<Rightarrow> default_risk_limits | Some c \<Rightarrow> c)) * slack ^ 3
    \<and> dval (rd_quantity d) \<le> dval (ri_maximum_executable_quantity r) * slack ^ 2
    \<and> (\<exists>n. 0 \<le> n \<and> dval (rd_quantity d) = rnd (of_int n * dval (ri_step_size r)))
    \<and> dval (ri_minimum_quantity r) \<le> dval (rd_quantity d)
    \<and> dval (ri_minimum_notional r) \<le> rnd (dval (rd_quantity d) * dval (ri_entry_assumption r))
    \<and> ri_current_positions r < 10"
proof -
  let ?c = "case configured of None \<Rightarrow> default_risk_limits | Some c \<Rightarrow> c"
  have c: "risk_limits_check ?c = Inr ?c"
    using assms(3) by (cases configured) (simp_all, code_simp)
  obtain l q1 q2 where l: "effective_limits ?c multiplier = Inr l" "0 < dval (ri_equity r)" "0 < dval (ri_step_size r)"
      "0 < dval (ri_entry_assumption r)" "ri_current_positions r < rl_concurrent_positions l"
      "0 < dval (loss_per_unit r)" "0 < dval (available_risk r l)" "0 \<le> dval (ri_maximum_executable_quantity r)"
    and q: "decimal_truediv (available_risk r l) (loss_per_unit r) = Inr q1"
      "decimal_truediv (leverage_headroom r l) (ri_entry_assumption r) = Inr q2"
      "floor_quantity (dmin (dmin q1 q2) (ri_maximum_executable_quantity r)) (ri_step_size r) = Inr (rd_quantity d)"
    and d: "rd_available_risk d = available_risk r l" "rd_reserved_risk d = rd_quantity d * loss_per_unit r"
      "dval (ri_minimum_quantity r) \<le> dval (rd_quantity d)"
      "dval (ri_minimum_notional r) \<le> dval (rd_quantity d * ri_entry_assumption r)"
    using assms(1,2) unfolding size_entry_def
    by (auto simp: denied_def Let_def decimal_le_val decimal_less_val not_le not_less sizing_values_def
        simp del: decimal_truediv_eq_Inr split: if_splits)
  define raw where "raw = dmin (dmin q1 q2) (ri_maximum_executable_quantity r)"
  have same: "leverage_headroom r l = leverage_headroom r ?c" "rl_concurrent_positions l \<le> 10"
    using l(1) c by (auto simp: effective_limits_def leverage_headroom_def risk_limits_check_def split: if_splits)
  have h: "0 \<le> dval (leverage_headroom r l)" by (simp add: leverage_headroom_def dval_dmax)
  have r: "dval q1 = rnd (dval (available_risk r l) / dval (loss_per_unit r))"
    "dval q2 = rnd (dval (leverage_headroom r l) / dval (ri_entry_assumption r))"
    using dval_truediv [OF q(1)] dval_truediv [OF q(2)] by simp_all
  then have pos: "0 \<le> dval q1" "0 \<le> dval q2" using l h by (simp_all add: half_even.nonneg)
  have le: "dval raw \<le> dval q1" "dval raw \<le> dval q2" "dval raw \<le> dval (ri_maximum_executable_quantity r)" "0 \<le> dval raw"
    using pos l(8) by (simp_all add: raw_def dval_dmin)
  note f = floor_quantity_bounds [OF q(3) l(3) le(4) [unfolded raw_def], folded raw_def]
  have by_quotient: "dval (rd_quantity d) * y \<le> x * slack ^ 3" if "dval raw \<le> rnd (x / y)" "0 \<le> x" "0 < y" for x y
    using f(3) that by (rule quantity_times)
  have risk: "dval (rd_quantity d) * dval (loss_per_unit r) \<le> dval (available_risk r l) * slack ^ 3"
    using by_quotient [OF le(1) [unfolded r]] l(6,7) by simp
  have "dval (rd_reserved_risk d) \<le> dval (available_risk r l) * slack ^ 3 * slack"
    unfolding d(2) dval_times using f(2) l(6) risk by (intro rnd_le_slack_trans) simp_all
  then have "dval (rd_reserved_risk d) \<le> dval (rd_available_risk d) * slack ^ 4"
    unfolding d(1) by (simp add: numeral_eq_Suc mult_ac)
  moreover have "dval (rd_quantity d) * dval (ri_entry_assumption r) \<le> dval (leverage_headroom r ?c) * slack ^ 3"
    using by_quotient [OF le(2) [unfolded r]] h l(4) by (simp add: same(1))
  moreover have "dval (rd_quantity d) \<le> dval (ri_maximum_executable_quantity r) * slack ^ 2"
    using f(3) mult_right_mono [OF le(3), of "slack ^ 2"] by simp
  moreover have "within_hard_caps r (dval (rd_available_risk d))"
    unfolding d(1) using available_within_hard_caps [OF c l(1)] l(2,7) by (simp add: decimal_less_val)
  ultimately show ?thesis using f(1) d(3,4) l(5) same(2) by (simp add: dval_times)
qed

section \<open>A concrete entry\<close>

definition sample_request :: risk_sizing_input where
  "sample_request = \<lparr>ri_equity = dec 1000, ri_entry_assumption = dec 100, ri_stop_trigger = dec 99,
     ri_entry_slippage_per_unit = dec 0, ri_emergency_exit_slippage_per_unit = dec 0, ri_entry_fee_per_unit = dec 0,
     ri_exit_fee_per_unit = dec 0, ri_funding_buffer_per_unit = dec 0, ri_reserved_episode_risk = dec 0,
     ri_reserved_all_risk = dec 0, ri_reserved_cluster_risk = dec 0, ri_current_daily_loss = dec 0,
     ri_current_drawdown = dec 0, ri_current_gross_notional = dec 0, ri_current_positions = 0, ri_step_size = dec 1,
     ri_minimum_quantity = dec 1, ri_minimum_notional = dec 5, ri_maximum_executable_quantity = dec 100\<rparr>"

theorem entry_within_risk_limits_witness:
  "\<exists>d. size_entry sample_request None (dec 1) = Inr d \<and> rd_approved d \<and> dval (rd_quantity d) = 5
     \<and> dval (rd_reserved_risk d) \<le> dval (rd_available_risk d) * slack ^ 4"
proof -
  have "case size_entry sample_request None (dec 1) of Inr d \<Rightarrow> rd_approved d \<and> deq (rd_quantity d) (dec 5) | Inl _ \<Rightarrow> False"
    by code_simp
  then obtain d where d: "size_entry sample_request None (dec 1) = Inr d" "rd_approved d" "dval (rd_quantity d) = 5"
    by (auto simp: deq_val split: sum.splits)
  with entry_within_risk_limits [OF d(1,2)] show ?thesis by simp
qed

end
