(* ===== verification/Control.thy ===== *)
theory Control
  imports Clock Digest
begin

text \<open>
  Control plane: the in-memory command store of \<open>control/commands.py\<close> with idempotent commands and
  one-use confirmation challenges, and the decision authority of \<open>orchestration/authority.py\<close>.
\<close>

section \<open>The command store\<close>

datatype command_state = PENDING | ACCEPTED | COMMAND_REJECTED | COMPLETED | FAILED

record command_record =
  cm_command_id :: string
  cm_command_type :: string
  cm_request_hash :: string
  cm_idempotency_key :: string
  cm_actor_id :: string
  cm_state :: command_state
  cm_accepted_at :: datetime
  cm_updated_at :: datetime
  cm_audit_event_id :: string
  cm_reason_codes :: "string list"

record flatten_challenge =
  fc_challenge_id :: string
  fc_actor_id :: string
  fc_positions_digest :: string
  fc_confirmation_phrase :: string
  fc_expires_at :: datetime
  fc_consumed :: bool

record command_store =
  cs_commands :: "(string, command_record) dict"
  cs_by_idempotency :: "(string, string) dict"
  cs_challenges :: "(string, flatten_challenge) dict"

definition new_store :: command_store where
  "new_store = \<lparr>cs_commands = [], cs_by_idempotency = [], cs_challenges = []\<rparr>"

text \<open>The hash of a JSON payload.\<close>

definition command_hash :: "document \<Rightarrow> string" where
  "command_hash payload = digest payload"

definition stored_command :: "string \<Rightarrow> command_store \<Rightarrow> command_record result" where
  "stored_command i st = (case map_of (cs_commands st) i of None \<Rightarrow> Inl (KeyError i) | Some r \<Rightarrow> Inr r)"

definition accept ::
  "string \<Rightarrow> string \<Rightarrow> string \<Rightarrow> document \<Rightarrow> datetime \<Rightarrow> command_store \<Rightarrow> command_record result \<times> command_store" where
  "accept command_type key actor payload now st =
    (let request_hash = command_hash payload; existing_id = dict_get (cs_by_idempotency st) key '''' in
     if existing_id \<noteq> ''''
     then (rbind (stored_command existing_id st) (\<lambda>existing.
         if cm_request_hash existing \<noteq> request_hash \<or> cm_command_type existing \<noteq> command_type
         then Inl (CommandConflictError ''IDEMPOTENCY_CONFLICT'') else Inr existing), st)
     else let identity = sha256_hex (command_type @ ''|'' @ key @ ''|'' @ request_hash);
              r = \<lparr>cm_command_id = take 32 identity, cm_command_type = command_type, cm_request_hash = request_hash,
                cm_idempotency_key = key, cm_actor_id = actor, cm_state = ACCEPTED, cm_accepted_at = now,
                cm_updated_at = now, cm_audit_event_id = drop 32 identity, cm_reason_codes = []\<rparr> in
       (Inr r, st\<lparr>cs_commands := AList.update (cm_command_id r) r (cs_commands st),
          cs_by_idempotency := AList.update key (cm_command_id r) (cs_by_idempotency st)\<rparr>))"

definition find_idempotent :: "string \<Rightarrow> string \<Rightarrow> document \<Rightarrow> command_store \<Rightarrow> command_record option result" where
  "find_idempotent command_type key payload st = (case map_of (cs_by_idempotency st) key of
     None \<Rightarrow> Inr None
   | Some existing_id \<Rightarrow> rbind (stored_command existing_id st) (\<lambda>existing.
       if cm_command_type existing \<noteq> command_type \<or> cm_request_hash existing \<noteq> command_hash payload
       then Inl (CommandConflictError ''IDEMPOTENCY_CONFLICT'') else Inr (Some existing)))"

definition complete :: "string \<Rightarrow> datetime \<Rightarrow> command_store \<Rightarrow> command_record result \<times> command_store" where
  "complete command_id now st = (case stored_command command_id st of
     Inl e \<Rightarrow> (Inl e, st)
   | Inr r \<Rightarrow> let r' = r\<lparr>cm_state := COMPLETED, cm_updated_at := now\<rparr> in
       (Inr r', st\<lparr>cs_commands := AList.update command_id r' (cs_commands st)\<rparr>))"

definition prepare_flatten ::
  "string \<Rightarrow> string \<Rightarrow> string \<Rightarrow> datetime \<Rightarrow> command_store \<Rightarrow> flatten_challenge result \<times> command_store" where
  "prepare_flatten actor positions_digest key now st =
    (let identity = sha256_hex (''flatten|'' @ actor @ ''|'' @ positions_digest @ ''|'' @ key) in
     case map_of (cs_challenges st) (take 32 identity) of
       Some c \<Rightarrow> (Inr c, st)
     | None \<Rightarrow> let c = \<lparr>fc_challenge_id = take 32 identity, fc_actor_id = actor, fc_positions_digest = positions_digest,
           fc_confirmation_phrase = ''FLATTEN-'' @ py_upper (take 8 (drop 32 identity)),
           fc_expires_at = dt_add now (seconds 60), fc_consumed = False\<rparr> in
         (Inr c, st\<lparr>cs_challenges := AList.update (fc_challenge_id c) c (cs_challenges st)\<rparr>))"

definition consume_flatten ::
  "string \<Rightarrow> string \<Rightarrow> string \<Rightarrow> string \<Rightarrow> datetime \<Rightarrow> command_store \<Rightarrow> flatten_challenge result \<times> command_store" where
  "consume_flatten challenge_id actor positions_digest phrase now st = (case map_of (cs_challenges st) challenge_id of
     None \<Rightarrow> (Inl (ChallengeError ''CONFIRMATION_REQUIRED''), st)
   | Some c \<Rightarrow>
       if fc_consumed c then (Inl (ChallengeError ''CONFIRMATION_USED''), st)
       else (case dt_greater now (fc_expires_at c) of
         Inl e \<Rightarrow> (Inl e, st)
       | Inr True \<Rightarrow> (Inl (ChallengeError ''CONFIRMATION_EXPIRED''), st)
       | Inr False \<Rightarrow>
           if fc_actor_id c \<noteq> actor \<or> fc_positions_digest c \<noteq> positions_digest \<or> fc_confirmation_phrase c \<noteq> phrase
           then (Inl (ChallengeError ''CONFIRMATION_REQUIRED''), st)
           else let c' = c\<lparr>fc_consumed := True\<rparr> in
             (Inr c', st\<lparr>cs_challenges := AList.update challenge_id c' (cs_challenges st)\<rparr>)))"

section \<open>Decision authority\<close>

datatype decision_authority = CODEX_PRIMARY | RULE_FALLBACK | NO_AUTHORITY

datatype codex_state = CODEX_HEALTHY | COOLDOWN | DRY_RUN_RECOVERY | UNAVAILABLE

record fresh_context_evidence =
  fe_analysis_run_id :: string
  fe_thread_id :: string
  fe_workspace_id :: string
  fe_ephemeral :: bool
  fe_resume_used :: bool
  fe_history_or_transcript_input :: bool
  fe_memory_input :: bool
  fe_prior_cycle_canary_seen :: bool
  fe_duration :: int

definition validate_fresh_context ::
  "fresh_context_evidence \<Rightarrow> string list \<Rightarrow> string list \<Rightarrow> string list \<Rightarrow> bool \<times> string list" where
  "validate_fresh_context e prior_run_ids prior_thread_ids prior_workspace_ids =
    (let reasons =
       (if fe_analysis_run_id e \<in> set prior_run_ids \<or> fe_thread_id e \<in> set prior_thread_ids
           \<or> fe_workspace_id e \<in> set prior_workspace_ids then [''CODEX_CONTEXT_REUSED''] else [])
       @ (if \<not> fe_ephemeral e \<or> fe_resume_used e then [''CODEX_EPHEMERAL_ISOLATION_FAILED''] else [])
       @ (if fe_history_or_transcript_input e \<or> fe_memory_input e then [''CODEX_PRIOR_CONTEXT_PRESENT''] else [])
       @ (if fe_prior_cycle_canary_seen e then [''CODEX_CANARY_LEAKED''] else [])
       @ (if seconds 90 < fe_duration e then [''CODEX_ANALYSIS_TIMEOUT''] else [])
     in (reasons = [], reasons))"

record authority_controller =
  ac_authority :: decision_authority
  ac_codex_state :: codex_state
  ac_successful_recovery_dry_runs :: int
  ac_active_epoch :: "string option"

definition new_controller :: authority_controller where
  "new_controller = \<lparr>ac_authority = CODEX_PRIMARY, ac_codex_state = CODEX_HEALTHY,
     ac_successful_recovery_dry_runs = 0, ac_active_epoch = None\<rparr>"

definition require_schedule_utc :: "datetime \<Rightarrow> unit result" where
  "require_schedule_utc t = require (is_utc t) (ValueError ''schedule must use UTC'')"

text \<open>\<open>t.replace(second=0, microsecond=0)\<close>.\<close>

definition whole_minute :: "datetime \<Rightarrow> datetime" where
  "whole_minute t = t\<lparr>dt_instant := dt_instant t - dt_instant t mod minutes 1\<rparr>"

definition acquire_epoch :: "datetime \<Rightarrow> authority_controller \<Rightarrow> string result \<times> authority_controller" where
  "acquire_epoch scheduled_at a = (case require_schedule_utc scheduled_at of Inl e \<Rightarrow> (Inl e, a)
   | Inr _ \<Rightarrow> let epoch = isoformat_utc (whole_minute scheduled_at) in
       if ac_active_epoch a = Some epoch then (Inl (RuntimeError ''DECISION_EPOCH_ALREADY_ACQUIRED''), a)
       else (Inr epoch, a\<lparr>ac_active_epoch := Some epoch\<rparr>))"

record ai_cycle =
  cy_valid :: bool
  cy_quota_available :: bool
  cy_tool_available :: bool

definition record_ai_cycle :: "ai_cycle \<Rightarrow> authority_controller \<Rightarrow> authority_controller" where
  "record_ai_cycle c a =
    (if cy_valid c \<and> cy_quota_available c \<and> cy_tool_available c
     then if ac_authority a = RULE_FALLBACK
       then let a' = a\<lparr>ac_codex_state := DRY_RUN_RECOVERY,
              ac_successful_recovery_dry_runs := ac_successful_recovery_dry_runs a + 1\<rparr> in
         if 3 \<le> ac_successful_recovery_dry_runs a'
         then a'\<lparr>ac_authority := CODEX_PRIMARY, ac_codex_state := CODEX_HEALTHY, ac_successful_recovery_dry_runs := 0\<rparr>
         else a'
       else a\<lparr>ac_codex_state := CODEX_HEALTHY\<rparr>
     else a\<lparr>ac_authority := RULE_FALLBACK,
       ac_codex_state := (if cy_quota_available c then COOLDOWN else UNAVAILABLE), ac_successful_recovery_dry_runs := 0\<rparr>)"

definition scheduled_engines :: "datetime \<Rightarrow> string list result" where
  "scheduled_engines t = rbind (require_schedule_utc t) (\<lambda>_.
     let minute = dt_instant t div minutes 1 mod 60 in
     Inr ((if minute \<in> {0, 20, 40} then [''RULE''] else []) @ (if minute \<in> {0, 30} then [''CODEX''] else [])))"

section \<open>Commands\<close>

text \<open>A retried command is answered with the stored record and changes nothing; the same key with another
  payload is a conflict.\<close>

lemma accept_retry:
  assumes "accept ct key actor payload now st = (Inr r, st')"
  shows "accept ct key actor' payload now' st' = (Inr r, st')"
    "command_hash payload' \<noteq> command_hash payload
      \<Longrightarrow> accept ct key actor' payload' now' st' = (Inl (CommandConflictError ''IDEMPOTENCY_CONFLICT''), st')"
proof -
  have "take 32 (sha256_hex s) \<noteq> []" for s using sha256_hex_text [of s] by (auto simp: sha256_text_def)
  then have i: "dict_get (cs_by_idempotency st') key '''' \<noteq> ''''"
    "stored_command (dict_get (cs_by_idempotency st') key '''') st' = Inr r"
    "cm_request_hash r = command_hash payload" "cm_command_type r = ct"
    using assms by (auto simp: accept_def stored_command_def Let_def rbind_def split: if_splits option.splits)
  show "accept ct key actor' payload now' st' = (Inr r, st')" using i by (simp add: accept_def)
  show "accept ct key actor' payload' now' st' = (Inl (CommandConflictError ''IDEMPOTENCY_CONFLICT''), st')"
    if "command_hash payload' \<noteq> command_hash payload" using i that by (simp add: accept_def)
qed

section \<open>One-use challenges\<close>

datatype store_op =
    Accept string string string document datetime
  | Complete string datetime
  | Prepare string string string datetime
  | Consume string string string string datetime

fun store_step :: "store_op \<Rightarrow> command_store \<Rightarrow> bool \<times> command_store" where
  "store_step (Accept ct key actor payload now) st = apfst (\<lambda>r. \<not> isl r) (accept ct key actor payload now st)"
| "store_step (Complete i now) st = apfst (\<lambda>r. \<not> isl r) (complete i now st)"
| "store_step (Prepare actor dg key now) st = apfst (\<lambda>r. \<not> isl r) (prepare_flatten actor dg key now st)"
| "store_step (Consume i actor dg phrase now) st = apfst (\<lambda>r. \<not> isl r) (consume_flatten i actor dg phrase now st)"

fun consumes :: "string \<Rightarrow> store_op \<Rightarrow> bool" where
  "consumes i (Consume j _ _ _ _) = (i = j)"
| "consumes i _ = False"

text \<open>How often a challenge is consumed successfully in a sequence of calls.\<close>

fun consumptions :: "string \<Rightarrow> store_op list \<Rightarrow> command_store \<Rightarrow> nat" where
  "consumptions i [] st = 0"
| "consumptions i (c # cs) st = (case store_step c st of (ok, st') \<Rightarrow>
     (if ok \<and> consumes i c then 1 else 0) + consumptions i cs st')"

definition is_consumed :: "string \<Rightarrow> command_store \<Rightarrow> bool" where
  "is_consumed i st \<longleftrightarrow> (\<exists>c. map_of (cs_challenges st) i = Some c \<and> fc_consumed c)"

lemma consumed_stays: "is_consumed i st \<Longrightarrow> is_consumed i (snd (store_step c st))"
  by (cases c) (auto simp: is_consumed_def accept_def complete_def prepare_flatten_def consume_flatten_def Let_def
      split: option.splits sum.splits bool.splits)

lemma consumed_refuses: "is_consumed i st \<Longrightarrow> consumes i c \<Longrightarrow> \<not> fst (store_step c st)"
  by (cases c) (auto simp: is_consumed_def consume_flatten_def)

lemma consuming: "fst (store_step c st) \<Longrightarrow> consumes i c \<Longrightarrow> is_consumed i (snd (store_step c st))"
  by (cases c) (auto simp: is_consumed_def consume_flatten_def Let_def split: option.splits sum.splits bool.splits if_splits)

lemma no_consumptions: "is_consumed i st \<Longrightarrow> consumptions i cs st = 0"
proof (induction cs arbitrary: st)
  case (Cons c cs)
  then show ?case using consumed_refuses [of i st c] consumed_stays [of i st c] by (auto simp: split_beta)
qed simp

text \<open>C29: emergency confirmations are one-use. In any sequence of calls on the store, however they
  interleave commands, preparations and confirmations, a challenge is consumed at most once; and
  a successful confirmation names a prepared, unconsumed challenge, comes from the actor it was
  prepared for, with its positions digest and phrase, and is not late.\<close>

theorem flatten_challenge_is_one_use:
  "consumptions i cs st \<le> 1
   \<and> (case consume_flatten i actor dg phrase now st of (Inl _, st') \<Rightarrow> st' = st
      | (Inr c, st') \<Rightarrow> map_of (cs_challenges st) i = Some (c\<lparr>fc_consumed := False\<rparr>) \<and> fc_consumed c
          \<and> fc_actor_id c = actor \<and> fc_positions_digest c = dg \<and> fc_confirmation_phrase c = phrase
          \<and> dt_greater now (fc_expires_at c) = Inr False)"
proof
  show "consumptions i cs st \<le> 1"
  proof (induction cs arbitrary: st)
    case (Cons c cs)
    then show ?case using no_consumptions [of i "snd (store_step c st)" cs] consuming [of c st i] by (auto simp: split_beta)
  qed simp
  show "case consume_flatten i actor dg phrase now st of (Inl _, st') \<Rightarrow> st' = st
      | (Inr c, st') \<Rightarrow> map_of (cs_challenges st) i = Some (c\<lparr>fc_consumed := False\<rparr>) \<and> fc_consumed c
          \<and> fc_actor_id c = actor \<and> fc_positions_digest c = dg \<and> fc_confirmation_phrase c = phrase
          \<and> dt_greater now (fc_expires_at c) = Inr False"
    by (auto simp: consume_flatten_def Let_def split: option.splits sum.splits bool.splits)
qed

section \<open>Failover\<close>

definition good :: "ai_cycle \<Rightarrow> bool" where
  "good c \<longleftrightarrow> cy_valid c \<and> cy_quota_available c \<and> cy_tool_available c"

definition trailing_good :: "ai_cycle list \<Rightarrow> nat" where
  "trailing_good cs = length (takeWhile good (rev cs))"

text \<open>The specification, over the whole history of cycles.\<close>

definition authority_spec :: "ai_cycle list \<Rightarrow> decision_authority" where
  "authority_spec cs = (if list_all good cs \<or> 3 \<le> trailing_good cs then CODEX_PRIMARY else RULE_FALLBACK)"

lemma trailing_good_snoc: "trailing_good (cs @ [c]) = (if good c then Suc (trailing_good cs) else 0)"
  by (simp add: trailing_good_def)

lemma failover_state:
  "(let a = fold record_ai_cycle cs new_controller in
    ac_authority a = authority_spec cs
    \<and> ac_successful_recovery_dry_runs a = (if ac_authority a = CODEX_PRIMARY then 0 else int (trailing_good cs))
    \<and> (ac_authority a = CODEX_PRIMARY \<longleftrightarrow> ac_codex_state a = CODEX_HEALTHY))"
proof (induction cs rule: rev_induct)
  case Nil
  show ?case by (simp add: new_controller_def authority_spec_def)
next
  case (snoc c cs)
  have all: "list_all good cs \<Longrightarrow> trailing_good cs = length cs"
    by (simp add: trailing_good_def list_all_iff) (metis length_rev set_rev takeWhile_eq_all_conv)
  show ?case
  proof (cases "good c")
    case True
    with snoc show ?thesis
      by (auto simp: Let_def record_ai_cycle_def good_def [symmetric] authority_spec_def trailing_good_snoc split: if_splits)
  next
    case False
    then have step: "\<exists>x. record_ai_cycle c a = a\<lparr>ac_authority := RULE_FALLBACK, ac_codex_state := x,
        ac_successful_recovery_dry_runs := 0\<rparr> \<and> x \<noteq> CODEX_HEALTHY" for a
      by (auto simp: record_ai_cycle_def good_def)
    obtain x where "record_ai_cycle c (fold record_ai_cycle cs new_controller)
        = (fold record_ai_cycle cs new_controller)\<lparr>ac_authority := RULE_FALLBACK, ac_codex_state := x,
          ac_successful_recovery_dry_runs := 0\<rparr>" "x \<noteq> CODEX_HEALTHY" using step by blast
    with False show ?thesis by (simp add: Let_def authority_spec_def trailing_good_snoc)
  qed
qed

text \<open>C30: failover is deterministic and slow to return. After any history of cycles the AI has authority
  exactly when no cycle ever failed or at least the last three were good; one failure hands over at once;
  and the reported state is healthy exactly when the AI has authority.\<close>

theorem authority_follows_history:
  "ac_authority (fold record_ai_cycle cs new_controller) = authority_spec cs
   \<and> (ac_codex_state (fold record_ai_cycle cs new_controller) = CODEX_HEALTHY \<longleftrightarrow> authority_spec cs = CODEX_PRIMARY)"
  using failover_state [of cs] by (auto simp: Let_def)

end
