(* ===== verification/PriceAction.thy ===== *)
theory PriceAction
  imports Decimals Clock Digest
begin

text \<open>
  \<open>features/price_action.py\<close>: true ranges, average true range, efficiency ratio, confirmed swings, market structure
  and the regime of a series of closed bars.
\<close>

section \<open>Bars and frames\<close>

datatype regime = TREND_UP | TREND_DOWN | RANGE_REGIME | TRANSITION | INVALID_REGIME

datatype market_structure = HH_HL | LH_LL | COMPRESSION | RANGE_BOUND | UNCONFIRMED

datatype direction = LONG | SHORT | NEUTRAL

datatype swing_kind = HIGH | LOW

fun swing_kind_value :: "swing_kind \<Rightarrow> string" where
  "swing_kind_value HIGH = ''HIGH''"
| "swing_kind_value LOW = ''LOW''"

record closed_bar =
  br_symbol :: string
  br_timeframe :: string
  br_open_time :: datetime
  br_close_time :: datetime
  br_open :: decimal
  br_high :: decimal
  br_low :: decimal
  br_close :: decimal
  br_volume :: decimal
  br_closed :: bool

definition closed_bar_check :: "closed_bar \<Rightarrow> closed_bar result" where
  "closed_bar_check b =
    rbind (require (br_closed b) (ValueError ''Price Action accepts only closed bars'')) (\<lambda>_.
    rbind (require (is_utc (br_open_time b) \<and> is_utc (br_close_time b)) (ValueError ''bar times must be timezone-aware UTC'')) (\<lambda>_.
    rbind (require (\<not> (dt_instant (br_close_time b) \<le> dt_instant (br_open_time b) \<or> br_low b \<le> 0 \<or> br_high b < br_low b
        \<or> br_high b < dmax (br_open b) (br_close b) \<or> dmin (br_open b) (br_close b) < br_low b \<or> br_volume b < 0))
      (ValueError ''invalid OHLCV bar'')) (\<lambda>_. Inr b)))"

record confirmed_swing =
  cs_swing_id :: string
  cs_kind :: swing_kind
  cs_price :: decimal
  cs_open_time :: datetime
  cs_confirm_time :: datetime
  cs_atr :: decimal

record price_action_frame =
  pf_as_of :: datetime
  pf_regime :: regime
  pf_structure :: market_structure
  pf_direction :: direction
  pf_atr :: "decimal option"
  pf_efficiency_ratio :: "decimal option"
  pf_reason_codes :: "string list"

section \<open>Ranges\<close>

definition true_range :: "closed_bar \<Rightarrow> closed_bar \<Rightarrow> decimal" where
  "true_range previous current = dmax (dmax (br_high current - br_low current) (dabs (br_high current - br_close previous)))
     (dabs (br_low current - br_close previous))"

definition true_ranges :: "closed_bar list \<Rightarrow> decimal option list" where
  "true_ranges bars = (if bars = [] then [] else None # map (\<lambda>(previous, current). Some (true_range previous current)) (zip bars (tl bars)))"

definition atr_at :: "nat \<Rightarrow> decimal option list \<Rightarrow> nat \<Rightarrow> decimal option" where
  "atr_at period ranges index =
    (let first = max 1 (index + 1 - period); window = take (index + 1 - first) (drop first ranges) in
     if length window < period \<or> None \<in> set window then None else Some (ddiv (dsum (map the window)) (dec period)))"

definition simple_atr :: "closed_bar list \<Rightarrow> int \<Rightarrow> decimal option list result" where
  "simple_atr bars period =
    rbind (require (\<not> period < 1) (ValueError ''ATR period must be positive'')) (\<lambda>_.
    let ranges = true_ranges bars in Inr (map (atr_at (nat period) ranges) [0..<length ranges]))"

definition efficiency_ratio :: "closed_bar list \<Rightarrow> int \<Rightarrow> decimal option" where
  "efficiency_ratio bars lookback =
    (if lookback < 1 \<or> int (length bars) \<le> lookback then None
     else let selected = drop (length bars - (nat lookback + 1)) bars;
              denominator = dsum (map (\<lambda>(previous, current). dabs (br_close current - br_close previous)) (zip selected (tl selected))) in
       if denominator \<le> 0 then None else Some (ddiv (dabs (br_close (last selected) - br_close (hd selected))) denominator))"

section \<open>Swings\<close>

definition highest :: "closed_bar list \<Rightarrow> decimal" where
  "highest bars = foldl dmax (br_high (hd bars)) (map br_high (tl bars))"

definition lowest :: "closed_bar list \<Rightarrow> decimal" where
  "lowest bars = foldl dmin (br_low (hd bars)) (map br_low (tl bars))"

text \<open>The bars on both sides of a candidate; \<open>left\<close> and \<open>right\<close> are positive and the index leaves room for both.\<close>

definition swing_kind_at :: "closed_bar list \<Rightarrow> nat \<Rightarrow> nat \<Rightarrow> nat \<Rightarrow> swing_kind option" where
  "swing_kind_at bars left right index =
    (let candidate = bars ! index;
         past = take left (drop (index - left) bars);
         future = take right (drop (index + 1) bars);
         is_high = (highest past < br_high candidate \<and> highest future \<le> br_high candidate);
         is_low = (br_low candidate < lowest past \<and> br_low candidate \<le> lowest future) in
     if is_high \<and> is_low then
       let high_prominence = br_high candidate - highest past; low_prominence = lowest past - br_low candidate in
       if deq high_prominence low_prominence then None
       else Some (if low_prominence < high_prominence then HIGH else LOW)
     else if is_high then Some HIGH else if is_low then Some LOW else None)"

definition swing_at :: "closed_bar list \<Rightarrow> decimal option list \<Rightarrow> nat \<Rightarrow> nat \<Rightarrow> nat \<Rightarrow> confirmed_swing option" where
  "swing_at bars atr_values left right index = (case atr_values ! index of
     None \<Rightarrow> None
   | Some atr \<Rightarrow>
     if atr \<le> 0 then None
     else (case swing_kind_at bars left right index of None \<Rightarrow> None
       | Some kind \<Rightarrow>
         let candidate = bars ! index in
         Some \<lparr>cs_swing_id = sha256_hex (br_symbol candidate @ ''|'' @ br_timeframe candidate @ ''|'' @ isoformat_utc (br_open_time candidate)
                 @ ''|'' @ swing_kind_value kind),
               cs_kind = kind, cs_price = (if kind = HIGH then br_high candidate else br_low candidate),
               cs_open_time = br_open_time candidate, cs_confirm_time = br_close_time (bars ! (index + right)), cs_atr = atr\<rparr>))"

definition more_extreme :: "confirmed_swing \<Rightarrow> confirmed_swing \<Rightarrow> bool" where
  "more_extreme s previous = (if cs_kind s = HIGH then cs_price previous < cs_price s else cs_price s < cs_price previous)"

definition add_swing :: "confirmed_swing list \<Rightarrow> confirmed_swing \<Rightarrow> confirmed_swing list" where
  "add_swing swings s =
    (if swings \<noteq> [] \<and> cs_kind (last swings) = cs_kind s
     then if more_extreme s (last swings) then swings[length swings - 1 := s] else swings
     else swings @ [s])"

definition swing_step :: "closed_bar list \<Rightarrow> decimal option list \<Rightarrow> nat \<Rightarrow> nat \<Rightarrow> confirmed_swing list \<Rightarrow> nat \<Rightarrow> confirmed_swing list" where
  "swing_step bars atr_values left right swings index =
    (case swing_at bars atr_values left right index of None \<Rightarrow> swings | Some s \<Rightarrow> add_swing swings s)"

definition confirmed_swings :: "closed_bar list \<Rightarrow> decimal option list \<Rightarrow> int \<Rightarrow> int \<Rightarrow> confirmed_swing list result" where
  "confirmed_swings bars atr_values left right =
    rbind (require (\<not> (left < 1 \<or> right < 1 \<or> length atr_values \<noteq> length bars)) (ValueError ''invalid swing inputs'')) (\<lambda>_.
    Inr (foldl (swing_step bars atr_values (nat left) (nat right)) [] [nat left..<length bars - nat right]))"

section \<open>Structure and regime\<close>

definition swing_direction :: "decimal \<Rightarrow> confirmed_swing \<Rightarrow> confirmed_swing \<Rightarrow> int" where
  "swing_direction equal_tolerance_atr older newer =
    (let tolerance = cs_atr newer * equal_tolerance_atr in
     if cs_price older + tolerance < cs_price newer then 1
     else if cs_price newer < cs_price older - tolerance then - 1 else 0)"

definition swing_trend :: "int \<Rightarrow> decimal \<Rightarrow> confirmed_swing list \<Rightarrow> int" where
  "swing_trend required_pairs equal_tolerance_atr values =
    (let relevant = drop (length values - (nat required_pairs + 1)) values;
         directions = map (\<lambda>(older, newer). swing_direction equal_tolerance_atr older newer) (zip relevant (tl relevant)) in
     if directions \<noteq> [] \<and> length (remdups directions) = 1 then hd directions else 0)"

definition classify_structure :: "confirmed_swing list \<Rightarrow> int \<Rightarrow> decimal \<Rightarrow> market_structure" where
  "classify_structure swings required_pairs equal_tolerance_atr =
    (let highs = filter (\<lambda>s. cs_kind s = HIGH) swings; lows = filter (\<lambda>s. cs_kind s = LOW) swings in
     if required_pairs < 1 \<or> int (length highs) < required_pairs + 1 \<or> int (length lows) < required_pairs + 1 then UNCONFIRMED
     else let high_trend = swing_trend required_pairs equal_tolerance_atr highs; low_trend = swing_trend required_pairs equal_tolerance_atr lows in
       if high_trend = 1 \<and> low_trend = 1 then HH_HL
       else if high_trend = - 1 \<and> low_trend = - 1 then LH_LL else UNCONFIRMED)"

record price_action_settings =
  ps_atr_period :: int
  ps_efficiency_lookback :: int
  ps_efficiency_threshold :: decimal
  ps_slope_lookback :: int
  ps_slope_threshold_atr :: decimal
  ps_swing_left :: int
  ps_swing_right :: int
  ps_required_pairs :: int
  ps_equal_tolerance_atr :: decimal

definition decimal_of_int :: "int \<Rightarrow> decimal" where
  "decimal_of_int n = Dec (n < 0) (nat \<bar>n\<bar>) 0"

definition analyze_price_action :: "closed_bar list \<Rightarrow> price_action_settings \<Rightarrow> price_action_frame result" where
  "analyze_price_action bars p =
    rbind (require (bars \<noteq> []) (ValueError ''at least one closed bar is required'')) (\<lambda>_.
    rbind (simple_atr bars (ps_atr_period p)) (\<lambda>atrs.
    let atr = last atrs; efficiency = efficiency_ratio bars (ps_efficiency_lookback p) in
    rbind (confirmed_swings bars atrs (ps_swing_left p) (ps_swing_right p)) (\<lambda>swings.
    let shape = classify_structure swings (ps_required_pairs p) (ps_equal_tolerance_atr p);
        frame = (\<lambda>r d reasons. \<lparr>pf_as_of = br_close_time (last bars), pf_regime = r, pf_structure = shape, pf_direction = d,
          pf_atr = atr, pf_efficiency_ratio = efficiency, pf_reason_codes = reasons\<rparr>) in
    case (atr, efficiency) of
      (Some a, Some e) \<Rightarrow>
        if a \<le> 0 \<or> int (length bars) \<le> ps_slope_lookback p then Inr (frame INVALID_REGIME NEUTRAL [''PA_REGIME_INVALID''])
        else rbind (py_index bars (- 1 - ps_slope_lookback p)) (\<lambda>earlier.
          rbind (decimal_truediv (br_close (last bars) - br_close earlier) (a * decimal_of_int (ps_slope_lookback p))) (\<lambda>slope.
          Inr (if shape = HH_HL \<and> ps_efficiency_threshold p \<le> e \<and> ps_slope_threshold_atr p \<le> slope then frame TREND_UP LONG []
            else if shape = LH_LL \<and> ps_efficiency_threshold p \<le> e \<and> slope \<le> - ps_slope_threshold_atr p then frame TREND_DOWN SHORT []
            else frame TRANSITION NEUTRAL [''PA_DIRECTION_NEUTRAL''])))
    | _ \<Rightarrow> Inr (frame INVALID_REGIME NEUTRAL [''PA_REGIME_INVALID'']))))"

section \<open>Swings are never repainted\<close>

text \<open>A swing outdoes another when it is of the same kind and at least as extreme.\<close>

definition outdoes :: "confirmed_swing \<Rightarrow> confirmed_swing \<Rightarrow> bool" where
  "outdoes s t \<longleftrightarrow> cs_kind s = cs_kind t \<and> (if cs_kind t = HIGH then cs_price t \<le> cs_price s else cs_price s \<le> cs_price t)"

definition extends :: "confirmed_swing list \<Rightarrow> confirmed_swing list \<Rightarrow> bool" where
  "extends old new \<longleftrightarrow> length old \<le> length new \<and> (\<forall>i. Suc i < length old \<longrightarrow> new ! i = old ! i)
     \<and> (old \<noteq> [] \<longrightarrow> outdoes (new ! (length old - 1)) (last old))"

definition alternating :: "confirmed_swing list \<Rightarrow> bool" where
  "alternating swings \<longleftrightarrow> (\<forall>i. Suc i < length swings \<longrightarrow> cs_kind (swings ! i) \<noteq> cs_kind (swings ! Suc i))"

lemma outdoes_refl: "outdoes s s"
  by (simp add: outdoes_def decimal_le_val)

lemma outdoes_more: "outdoes s t \<Longrightarrow> cs_kind u = cs_kind s \<Longrightarrow> more_extreme u s \<Longrightarrow> outdoes u t"
  by (auto simp: outdoes_def more_extreme_def decimal_le_val decimal_less_val split: if_splits)

lemma extends_refl: "extends swings swings"
  by (simp add: extends_def last_conv_nth outdoes_refl)

lemma extends_add:
  assumes "extends old new"
  shows "extends old (add_swing new s)"
proof (cases "new \<noteq> [] \<and> cs_kind (last new) = cs_kind s \<and> more_extreme s (last new)")
  case True
  have "outdoes (new[length new - 1 := s] ! (length old - 1)) (last old)" if "old \<noteq> []"
  proof (cases "length old = length new")
    case eq: True
    with assms that True outdoes_more [of "last new" "last old" s] show ?thesis by (auto simp: extends_def last_conv_nth)
  next
    case neq: False
    with assms that have "length new - 1 \<noteq> length old - 1" by (cases old) (auto simp: extends_def)
    with assms that show ?thesis by (simp add: extends_def)
  qed
  with assms True show ?thesis by (auto simp: extends_def add_swing_def nth_list_update)
next
  case False
  with assms show ?thesis by (cases old) (auto simp: extends_def add_swing_def nth_append)
qed

lemma alternating_add: "alternating swings \<Longrightarrow> alternating (add_swing swings s)"
proof (cases swings rule: rev_cases)
  case (snoc xs x)
  moreover assume "alternating swings"
  ultimately show ?thesis by (auto simp: alternating_def add_swing_def nth_append nth_list_update less_Suc_eq)
qed (simp add: alternating_def add_swing_def)

lemma swing_steps:
  "extends old new \<Longrightarrow> extends old (foldl (swing_step bars atrs l r) new is)"
  "alternating new \<Longrightarrow> alternating (foldl (swing_step bars atrs l r) new is)"
  by (induction "is" arbitrary: new) (auto simp: swing_step_def extends_add alternating_add split: option.splits)

text \<open>What is computed for a bar does not read the bars after the confirming one.\<close>

lemma length_true_ranges [simp]: "length (true_ranges bars) = length bars"
  by (cases bars) (simp_all add: true_ranges_def)

lemma true_ranges_nth: "i < length bars \<Longrightarrow> true_ranges bars ! i = (if i = 0 then None else Some (true_range (bars ! (i - 1)) (bars ! i)))"
  by (cases bars) (auto simp: true_ranges_def nth_Cons' nth_tl)

lemma true_ranges_take: "true_ranges (take n bars) = take n (true_ranges bars)"
  by (rule nth_equalityI) (auto simp: true_ranges_nth)

lemma atr_at_take: "i < n \<Longrightarrow> atr_at period (take n ranges) i = atr_at period ranges i"
proof -
  assume "i < n"
  then have "take (i + 1 - k) (drop k (take n ranges)) = take (i + 1 - k) (drop k ranges)" for k
    by (simp add: drop_take take_take min_def)
  then show ?thesis unfolding atr_at_def Let_def by simp
qed

lemma simple_atr_take:
  assumes "simple_atr bars period = Inr atrs"
  shows "simple_atr (take n bars) period = Inr (take n atrs)"
proof -
  have "map (atr_at p (take n (true_ranges bars))) [0..<min (length bars) n] = take n (map (atr_at p (true_ranges bars)) [0..<length bars])" for p
    by (rule nth_equalityI) (simp_all add: atr_at_take)
  with assms show ?thesis by (auto simp: simple_atr_def Let_def true_ranges_take)
qed

lemma swing_at_take:
  assumes "left \<le> i" "i + right < n"
  shows "swing_at (take n bars) (take n atrs) left right i = swing_at bars atrs left right i"
proof -
  have here: "take n bars ! i = bars ! i" "take n bars ! (i + right) = bars ! (i + right)" "take n atrs ! i = atrs ! i"
    using assms by simp_all
  have "left \<le> n - (i - left)" "right \<le> n - (i + 1)" using assms by arith+
  then have "take left (drop (i - left) (take n bars)) = take left (drop (i - left) bars)"
    "take right (drop (i + 1) (take n bars)) = take right (drop (i + 1) bars)"
    by (simp_all only: drop_take take_take min_absorb1)
  then have kind: "swing_kind_at (take n bars) left right i = swing_kind_at bars left right i"
    unfolding swing_kind_at_def Let_def here by simp
  show ?thesis unfolding swing_at_def Let_def here kind ..
qed

lemma confirmed_swings_take:
  assumes "confirmed_swings bars atrs left right = Inr swings" "n \<le> length bars"
  obtains earlier where "confirmed_swings (take n bars) (take n atrs) left right = Inr earlier" "extends earlier swings"
proof -
  let ?l = "nat left" and ?r = "nat right"
  have valid: "1 \<le> left" "1 \<le> right" "length atrs = length bars"
    and sw: "swings = foldl (swing_step bars atrs ?l ?r) [] [?l..<length bars - ?r]"
    using assms(1) by (auto simp: confirmed_swings_def)
  let ?earlier = "foldl (swing_step bars atrs ?l ?r) [] [?l..<n - ?r]"
  have "foldl (swing_step (take n bars) (take n atrs) ?l ?r) [] [?l..<n - ?r] = ?earlier"
    using assms(2) valid(2) by (intro foldl_cong) (auto simp: swing_step_def swing_at_take)
  then have "confirmed_swings (take n bars) (take n atrs) left right = Inr ?earlier"
    using valid assms(2) by (simp add: confirmed_swings_def min_def)
  moreover have "extends ?earlier swings"
  proof (cases "?l \<le> n - ?r")
    case True
    then have "[?l..<length bars - ?r] = [?l..<n - ?r] @ [n - ?r..<length bars - ?r]"
      using assms(2) upt_add_eq_append [of ?l "n - ?r" "length bars - n"] by (metis diff_le_mono le_add_diff_inverse upt_add_eq_append)
    then show ?thesis using swing_steps(1) [OF extends_refl] unfolding sw by simp
  next
    case False
    then show ?thesis by (simp add: extends_def)
  qed
  ultimately show thesis by (rule that)
qed

text \<open>What was confirmed stays. When more bars arrive, the swings found on the bars so far remain, in place and
  unchanged, except that the last one may be outdone by a later extreme of its own kind; nothing computed for a bar
  reads bars after the confirming one. In every result highs and lows alternate.\<close>

theorem swings_never_repaint:
  assumes "simple_atr bars period = Inr atrs" "confirmed_swings bars atrs left right = Inr swings" "n \<le> length bars"
  shows "alternating swings \<and> (\<exists>atrs' earlier. simple_atr (take n bars) period = Inr atrs'
    \<and> confirmed_swings (take n bars) atrs' left right = Inr earlier \<and> extends earlier swings)"
proof -
  have "alternating swings" using assms(2) swing_steps(2) [of "[]"] by (auto simp: confirmed_swings_def alternating_def)
  moreover obtain earlier where "confirmed_swings (take n bars) (take n atrs) left right = Inr earlier" "extends earlier swings"
    using confirmed_swings_take [OF assms(2,3)] .
  ultimately show ?thesis using simple_atr_take [OF assms(1), of n] by blast
qed

section \<open>Witnesses\<close>

definition sample_bar :: "nat \<Rightarrow> nat \<Rightarrow> nat \<Rightarrow> closed_bar" where
  "sample_bar n low high = \<lparr>br_symbol = ''BTCUSDT'', br_timeframe = ''1m'', br_open_time = \<lparr>dt_instant = int n * 60000000, dt_utcoffset = Some 0\<rparr>,
     br_close_time = \<lparr>dt_instant = int (n + 1) * 60000000, dt_utcoffset = Some 0\<rparr>, br_open = dec low, br_high = dec high, br_low = dec low,
     br_close = dec low, br_volume = dec 1, br_closed = True\<rparr>"

theorem swings_never_repaint_witness:
  "\<exists>atrs swings. simple_atr [sample_bar 0 8 9, sample_bar 1 8 12, sample_bar 2 8 10, sample_bar 3 8 9] 1 = Inr atrs
    \<and> confirmed_swings [sample_bar 0 8 9, sample_bar 1 8 12, sample_bar 2 8 10, sample_bar 3 8 9] atrs 1 1 = Inr swings
    \<and> alternating swings"
proof -
  let ?bars = "[sample_bar 0 8 9, sample_bar 1 8 12, sample_bar 2 8 10, sample_bar 3 8 9]"
  obtain atrs where atrs: "simple_atr ?bars 1 = Inr atrs" "length atrs = 4" by (simp add: simple_atr_def true_ranges_def Let_def)
  then obtain swings where swings: "confirmed_swings ?bars atrs 1 1 = Inr swings" by (simp add: confirmed_swings_def)
  from swings_never_repaint [OF atrs(1) swings, of 3] atrs(1) swings show ?thesis by auto
qed

end
