(* ===== verification/ExecutionChecks.thy ===== *)
theory ExecutionChecks
  imports Clock PriceAction
begin

text \<open>
  The decision functions around order execution: native protection (\<open>execution/protection.py\<close>), the
  classification of submission responses (\<open>execution/classifier.py\<close>), the resolution of unknown
  orders (\<open>execution/reconciliation.py\<close>), the conservative fill model (\<open>execution/simulator.py\<close>) and the
  startup reconciliation (\<open>execution/startup.py\<close>).
\<close>

section \<open>Native protection\<close>

datatype protection_role = STOP_LOSS | TAKE_PROFIT

record native_protection_order =
  np_role :: protection_role
  np_side :: string
  np_order_type :: string
  np_trigger_price :: decimal
  np_working_type :: string
  np_price_protect :: bool
  np_close_position :: bool
  np_reduce_only :: bool

record native_protection_plan =
  pp_stop_loss :: native_protection_order
  pp_take_profit :: native_protection_order

definition build_native_protection_plan ::
  "direction \<Rightarrow> decimal \<Rightarrow> decimal \<Rightarrow> decimal \<Rightarrow> string \<Rightarrow> bool \<Rightarrow> native_protection_plan result" where
  "build_native_protection_plan direction entry_price stop_trigger target_trigger working_type price_protect =
    (if dmin (dmin entry_price stop_trigger) target_trigger \<le> 0 then Inl (ValueError ''protection prices must be positive'')
     else rbind (case direction of
         LONG \<Rightarrow> Inr (stop_trigger < entry_price \<and> entry_price < target_trigger, ''SELL'')
       | SHORT \<Rightarrow> Inr (target_trigger < entry_price \<and> entry_price < stop_trigger, ''BUY'')
       | NEUTRAL \<Rightarrow> Inl (ValueError ''protection direction must be LONG or SHORT'')) (\<lambda>(valid_structure, side).
       if \<not> valid_structure then Inl (ValueError ''protection trigger structure is invalid'')
       else if working_type \<notin> {''MARK_PRICE'', ''CONTRACT_PRICE''} then Inl (ValueError ''unsupported protection working type'')
       else Inr \<lparr>pp_stop_loss = \<lparr>np_role = STOP_LOSS, np_side = side, np_order_type = ''STOP_MARKET'',
                   np_trigger_price = stop_trigger, np_working_type = working_type, np_price_protect = price_protect,
                   np_close_position = True, np_reduce_only = False\<rparr>,
                 pp_take_profit = \<lparr>np_role = TAKE_PROFIT, np_side = side, np_order_type = ''TAKE_PROFIT_MARKET'',
                   np_trigger_price = target_trigger, np_working_type = working_type, np_price_protect = price_protect,
                   np_close_position = True, np_reduce_only = False\<rparr>\<rparr>))"

record protection_status =
  ps_healthy :: bool
  ps_action :: string
  ps_reason_codes :: "string list"

definition evaluate_protection ::
  "decimal \<Rightarrow> decimal \<Rightarrow> datetime \<Rightarrow> datetime \<Rightarrow> bool \<Rightarrow> bool \<Rightarrow> bool \<Rightarrow> int \<Rightarrow> protection_status result" where
  "evaluate_protection position_quantity protected_quantity first_fill_at now exchange_confirmed direction_correct
      reduce_only confirmation_deadline =
    (if deq position_quantity 0
     then Inr \<lparr>ps_healthy = True, ps_action = ''CANCEL_ORPHAN_PROTECTION'', ps_reason_codes = []\<rparr>
     else if exchange_confirmed \<and> direction_correct \<and> reduce_only \<and> dabs position_quantity \<le> protected_quantity
     then Inr \<lparr>ps_healthy = True, ps_action = ''NONE'', ps_reason_codes = []\<rparr>
     else rbind (dt_diff now first_fill_at) (\<lambda>age.
       if age \<le> confirmation_deadline
       then Inr \<lparr>ps_healthy = False, ps_action = ''CREATE_OR_ADJUST_PROTECTION'', ps_reason_codes = [''PROTECTION_PENDING'']\<rparr>
       else Inr \<lparr>ps_healthy = False, ps_action = ''CANCEL_ENTRY_RETRY_PROTECTION_THEN_FLATTEN'',
         ps_reason_codes = [''RISK_PROTECTION_UNAVAILABLE'']\<rparr>))"

section \<open>Submission responses\<close>

datatype submission_outcome = OUTCOME_ACCEPTED | DEFINITE_FAILURE | OUTCOME_UNKNOWN

definition UNKNOWN_503 :: string where
  "UNKNOWN_503 = ''Unknown error, please check your request or try again later.''"

definition DEFINITE_503 :: "string list" where
  "DEFINITE_503 = [''Service Unavailable.'', ''Internal error; unable to process your request. Please try again.'']"

definition http_between :: "int \<Rightarrow> int \<Rightarrow> int option \<Rightarrow> bool" where
  "http_between low high status \<longleftrightarrow> (case status of None \<Rightarrow> False | Some s \<Rightarrow> low \<le> s \<and> s < high)"

definition classify_submission ::
  "int option \<Rightarrow> int option \<Rightarrow> string option \<Rightarrow> bool \<Rightarrow> bool \<Rightarrow> submission_outcome" where
  "classify_submission http_status binance_code message send_timed_out connection_lost_after_send =
    (if send_timed_out \<or> connection_lost_after_send then OUTCOME_UNKNOWN
     else if http_between 200 300 http_status then OUTCOME_ACCEPTED
     else if http_status = Some 503 \<and> message = Some UNKNOWN_503 then OUTCOME_UNKNOWN
     else if message \<in> Some ` set DEFINITE_503 \<or> binance_code \<in> {Some (- 1008), Some (- 4120)}
       \<or> http_status \<in> {Some 418, Some 429} \<or> http_between 400 500 http_status then DEFINITE_FAILURE
     else if (case http_status of None \<Rightarrow> False | Some s \<Rightarrow> 500 \<le> s) then OUTCOME_UNKNOWN
     else DEFINITE_FAILURE)"

section \<open>Unknown orders\<close>

datatype reconciliation_decision = EXISTS | NOT_FOUND_CONFIRMED | KEEP_RECONCILING | FLATTEN_AND_LOCK

record reconciliation_evidence =
  re_queried_at :: datetime
  re_order_query_found :: bool
  re_open_orders_found :: bool
  re_recent_trade_found :: bool
  re_position_increased :: bool
  re_user_stream_found :: bool
  re_all_queries_succeeded :: bool

definition reconcile_unknown :: "datetime \<Rightarrow> reconciliation_evidence \<Rightarrow> int \<Rightarrow> reconciliation_decision result" where
  "reconcile_unknown unknown_since e visibility_window =
    rbind (require (is_utc unknown_since \<and> is_utc (re_queried_at e))
      (ValueError ''reconciliation time must be timezone-aware UTC'')) (\<lambda>_.
    if re_order_query_found e \<or> re_open_orders_found e \<or> re_recent_trade_found e \<or> re_position_increased e
      \<or> re_user_stream_found e then Inr EXISTS
    else rbind (dt_diff (re_queried_at e) unknown_since) (\<lambda>elapsed.
      if elapsed < visibility_window then Inr KEEP_RECONCILING
      else if re_all_queries_succeeded e then Inr NOT_FOUND_CONFIRMED else Inr FLATTEN_AND_LOCK))"

section \<open>Simulated fills\<close>

datatype simulated_order_type = MAKER | TAKER

record fill_result =
  fr_filled_quantity :: decimal
  fr_average_price :: "decimal option"
  fr_remaining_quantity :: decimal

text \<open>The loop over the visible levels: remaining, notional and filled quantity.\<close>

fun take_levels :: "(decimal \<times> decimal) list \<Rightarrow> decimal \<Rightarrow> decimal \<Rightarrow> decimal \<Rightarrow> decimal \<times> decimal \<times> decimal" where
  "take_levels [] remaining notional filled = (remaining, notional, filled)"
| "take_levels ((price, available) # levels) remaining notional filled =
    (let taken = dmin remaining available in
     if taken \<le> 0 then take_levels levels remaining notional filled
     else let remaining' = remaining - taken; notional' = notional + taken * price; filled' = filled + taken in
       if deq remaining' 0 then (remaining', notional', filled') else take_levels levels remaining' notional' filled')"

definition simulate_fill ::
  "string \<Rightarrow> decimal \<Rightarrow> simulated_order_type \<Rightarrow> decimal option \<Rightarrow> (decimal \<times> decimal) list \<Rightarrow> decimal
     \<Rightarrow> decimal option \<Rightarrow> fill_result result" where
  "simulate_fill side quantity order_type limit_price visible_levels traded_at_limit queue_ahead =
    (if quantity \<le> 0 \<or> side \<notin> {''BUY'', ''SELL''} then Inl (ValueError ''invalid simulated order'')
     else case order_type of
       MAKER \<Rightarrow> (case (limit_price, queue_ahead) of
           (Some limit, Some queue) \<Rightarrow>
             let provable = dmax (dec 0) (traded_at_limit - queue); filled = dmin quantity provable in
             Inr \<lparr>fr_filled_quantity = filled, fr_average_price = (if deq filled 0 then None else Some limit),
               fr_remaining_quantity = quantity - filled\<rparr>
         | _ \<Rightarrow> Inr \<lparr>fr_filled_quantity = dec 0, fr_average_price = None, fr_remaining_quantity = quantity\<rparr>)
     | TAKER \<Rightarrow> (case take_levels visible_levels quantity (dec 0) (dec 0) of (remaining, notional, filled) \<Rightarrow>
         if deq filled 0
         then Inr \<lparr>fr_filled_quantity = filled, fr_average_price = None, fr_remaining_quantity = remaining\<rparr>
         else rbind (decimal_truediv notional filled) (\<lambda>average.
           Inr \<lparr>fr_filled_quantity = filled, fr_average_price = Some average, fr_remaining_quantity = remaining\<rparr>)))"

section \<open>Startup reconciliation\<close>

record account_state =
  as_one_way_mode :: bool
  as_cross_margin :: bool
  as_equity :: decimal
  as_positions :: "(string, decimal) dict"
  as_ordinary_open_orders :: "string list"
  as_algo_open_orders :: "string list"
  as_protected_quantity :: "(string, decimal) dict"

record startup_reconciliation =
  sr_runtime_state :: string
  sr_consistent :: bool
  sr_blocking_reasons :: "string list"
  sr_repair_symbols :: "string list"
  sr_orphan_local_orders :: "string list"
  sr_external_orders :: "string list"

definition position_mismatch :: "account_state \<Rightarrow> account_state \<Rightarrow> string \<Rightarrow> bool" where
  "position_mismatch local exchange symbol \<longleftrightarrow>
     \<not> deq (dict_get (as_positions local) symbol (dec 0)) (dict_get (as_positions exchange) symbol (dec 0))"

definition protection_insufficient :: "account_state \<Rightarrow> string \<Rightarrow> bool" where
  "protection_insufficient exchange symbol \<longleftrightarrow> (let q = dict_get (as_positions exchange) symbol (dec 0) in
     \<not> deq q 0 \<and> dict_get (as_protected_quantity exchange) symbol (dec 0) < dabs q)"

definition symbol_reasons :: "account_state \<Rightarrow> account_state \<Rightarrow> string \<Rightarrow> string list" where
  "symbol_reasons local exchange symbol =
     (if position_mismatch local exchange symbol then [''POSITION_RECONCILIATION_MISMATCH''] else [])
     @ (if protection_insufficient exchange symbol then [''POSITION_PROTECTION_INSUFFICIENT''] else [])"

definition open_orders :: "account_state \<Rightarrow> string list" where
  "open_orders a = as_ordinary_open_orders a @ as_algo_open_orders a"

text \<open>The iteration order over the set of symbols is not determined by the program: it is the first argument,
  which enumerates the set.\<close>

definition reconcile_startup :: "string list \<Rightarrow> account_state \<Rightarrow> account_state \<Rightarrow> startup_reconciliation" where
  "reconcile_startup all_symbols local exchange =
    (let orphan_local = filter (\<lambda>x. x \<notin> set (open_orders exchange)) (open_orders local);
         external = filter (\<lambda>x. x \<notin> set (open_orders local)) (open_orders exchange);
         reasons = (if \<not> as_one_way_mode exchange then [''ACCOUNT_POSITION_MODE_MISMATCH''] else [])
           @ (if \<not> as_cross_margin exchange then [''ACCOUNT_MARGIN_MODE_MISMATCH''] else [])
           @ concat (map (symbol_reasons local exchange) all_symbols)
           @ (if orphan_local \<noteq> [] then [''LOCAL_ORDER_MISSING_AT_EXCHANGE''] else [])
           @ (if external \<noteq> [] then [''EXTERNAL_ORDER_REQUIRES_REPAIR''] else []);
         unique_reasons = dedup reasons
     in \<lparr>sr_runtime_state = ''RISK_LOCKED'', sr_consistent = (unique_reasons = []),
          sr_blocking_reasons = (if unique_reasons = [] then [''MANUAL_UNLOCK_REQUIRED''] else unique_reasons),
          sr_repair_symbols = sorted_set (filter (\<lambda>s. symbol_reasons local exchange s \<noteq> []) all_symbols),
          sr_orphan_local_orders = sorted_set orphan_local, sr_external_orders = sorted_set external\<rparr>)"

section \<open>Properties\<close>

text \<open>A protection plan closes the position on both sides of the entry, and nothing else is built.\<close>

lemma protection_plan_brackets_entry:
  assumes "build_native_protection_plan dir entry stop target wt pp = Inr plan"
  shows "np_close_position (pp_stop_loss plan) \<and> np_close_position (pp_take_profit plan)
    \<and> (dir = LONG \<longrightarrow> np_side (pp_stop_loss plan) = ''SELL'' \<and> dval stop < dval entry \<and> dval entry < dval target)
    \<and> (dir = SHORT \<longrightarrow> np_side (pp_stop_loss plan) = ''BUY'' \<and> dval target < dval entry \<and> dval entry < dval stop)
    \<and> np_side (pp_take_profit plan) = np_side (pp_stop_loss plan) \<and> dir \<noteq> NEUTRAL"
  using assms by (cases dir) (auto simp: build_native_protection_plan_def decimal_less_val split: if_splits)

text \<open>A response counts as a definite failure or a success only when the request was answered.\<close>

lemma ambiguous_send_is_unknown:
  "timed_out \<or> lost \<Longrightarrow> classify_submission http code message timed_out lost = OUTCOME_UNKNOWN"
  by (simp add: classify_submission_def)

text \<open>An order is only declared absent after the visibility window, with every query answered and no
  trace of it.\<close>

lemma absence_needs_evidence:
  "reconcile_unknown since e w = Inr NOT_FOUND_CONFIRMED \<longleftrightarrow> is_utc since \<and> is_utc (re_queried_at e)
     \<and> \<not> re_order_query_found e \<and> \<not> re_open_orders_found e \<and> \<not> re_recent_trade_found e \<and> \<not> re_position_increased e
     \<and> \<not> re_user_stream_found e \<and> re_all_queries_succeeded e \<and> w \<le> dt_instant (re_queried_at e) - dt_instant since"
  by (cases "is_utc since \<and> is_utc (re_queried_at e)") (simp_all add: reconcile_unknown_def, auto)

text \<open>The simulated taker fill conserves the quantity.\<close>

lemma take_levels_conserves:
  assumes "grid e r" "grid e f" "list_all (\<lambda>l. grid e (snd l)) levels" "dval r + dval f \<le> 10 ^ 28 * 10 powi e"
    "take_levels levels r n f = (r', n', f')"
  shows "dval r' + dval f' = dval r + dval f \<and> 0 \<le> dval r' \<and> dval f \<le> dval f'"
  using assms
proof (induction levels arbitrary: r n f)
  case Nil
  then show ?case by (simp add: grid_nonneg)
next
  case (Cons l levels)
  obtain price available where l: "l = (price, available)" by (cases l)
  let ?t = "dmin r available"
  have t: "grid e ?t" "dval ?t \<le> dval r" using Cons.prems l by (auto simp: grid_dmin dval_dmin)
  have sum: "dval f + dval ?t \<le> 10 ^ 28 * 10 powi e" using Cons.prems(4) t(2) by linarith
  have v: "dval (r - ?t) = dval r - dval ?t" "grid e (r - ?t)" "dval (f + ?t) = dval f + dval ?t" "grid e (f + ?t)"
    using Cons.prems(1,2) t sum by (auto simp: dval_minus_grid grid_minus dval_plus_grid grid_plus)
  have p: "0 \<le> dval ?t" using t(1) by (rule grid_nonneg)
  show ?case
  proof (cases "?t \<le> 0")
    case True
    with Cons l show ?thesis by (auto simp: Let_def)
  next
    case False
    show ?thesis
    proof (cases "deq (r - ?t) 0")
      case True
      with False Cons.prems(5) l v p show ?thesis by (auto simp: Let_def deq_val)
    next
      case neq: False
      have "take_levels levels (r - ?t) (n + ?t * price) (f + ?t) = (r', n', f')"
        using False neq Cons.prems(5) l by (simp add: Let_def)
      from Cons.IH [OF v(2,4) _ _ this] Cons.prems(3,4) l v p show ?thesis by auto
    qed
  qed
qed

text \<open>Startup is fail-closed and exact. In whatever order the symbols are visited, the runtime stays
  locked with at least one reason; the state is consistent exactly when the exchange is in one-way
  cross-margin mode, every position agrees and is fully protected, and both sides know the same open
  orders; and the repair list is the sorted list of the symbols that disagree or lack protection.\<close>

theorem startup_reconciliation_exact:
  assumes "set all_symbols = fst ` set (as_positions local) \<union> fst ` set (as_positions exchange)"
  shows "sr_runtime_state (reconcile_startup all_symbols local exchange) = ''RISK_LOCKED''
    \<and> sr_blocking_reasons (reconcile_startup all_symbols local exchange) \<noteq> []
    \<and> (sr_consistent (reconcile_startup all_symbols local exchange) \<longleftrightarrow> as_one_way_mode exchange \<and> as_cross_margin exchange
        \<and> (\<forall>s. \<not> position_mismatch local exchange s \<and> \<not> protection_insufficient exchange s)
        \<and> set (open_orders local) = set (open_orders exchange))
    \<and> sorted (sr_repair_symbols (reconcile_startup all_symbols local exchange))
    \<and> distinct (sr_repair_symbols (reconcile_startup all_symbols local exchange))
    \<and> set (sr_repair_symbols (reconcile_startup all_symbols local exchange))
      = {s. position_mismatch local exchange s \<or> protection_insufficient exchange s}"
proof -
  have absent: "dict_get (as_positions a) s (dec 0) = dec 0" if "s \<notin> fst ` set (as_positions a)" for a s
    using that by (simp add: dict_get_def map_of_eq_None_iff [THEN iffD2])
  have seen: "s \<in> set all_symbols" if "position_mismatch local exchange s \<or> protection_insufficient exchange s" for s
  proof (rule ccontr)
    assume "s \<notin> set all_symbols"
    then have "dict_get (as_positions local) s (dec 0) = dec 0" "dict_get (as_positions exchange) s (dec 0) = dec 0"
      using assms absent by auto
    with that show False by (simp add: position_mismatch_def protection_insufficient_def deq_val)
  qed
  have r: "symbol_reasons local exchange s = [] \<longleftrightarrow> \<not> position_mismatch local exchange s \<and> \<not> protection_insufficient exchange s" for s
    by (simp add: symbol_reasons_def)
  have "(\<forall>s \<in> set all_symbols. symbol_reasons local exchange s = [])
      \<longleftrightarrow> (\<forall>s. \<not> position_mismatch local exchange s \<and> \<not> protection_insufficient exchange s)"
    using seen r by blast
  then have consistent: "sr_consistent (reconcile_startup all_symbols local exchange) \<longleftrightarrow> as_one_way_mode exchange
      \<and> as_cross_margin exchange \<and> (\<forall>s. \<not> position_mismatch local exchange s \<and> \<not> protection_insufficient exchange s)
      \<and> set (open_orders local) = set (open_orders exchange)"
    by (auto simp: reconcile_startup_def Let_def filter_empty_conv)
  have "set (sr_repair_symbols (reconcile_startup all_symbols local exchange))
      = {s. position_mismatch local exchange s \<or> protection_insufficient exchange s}"
    using seen r by (auto simp: reconcile_startup_def Let_def sorted_set_def)
  with consistent show ?thesis by (simp add: reconcile_startup_def Let_def sorted_set_def)
qed

section \<open>A concrete startup\<close>

definition sample_state :: "nat \<Rightarrow> account_state" where
  "sample_state q = \<lparr>as_one_way_mode = True, as_cross_margin = True, as_equity = dec 100,
     as_positions = [(''BTCUSDT'', dec q)], as_ordinary_open_orders = [''o1''], as_algo_open_orders = [],
     as_protected_quantity = [(''BTCUSDT'', dec q)]\<rparr>"

theorem startup_reconciliation_exact_witness:
  "\<not> sr_consistent (reconcile_startup [''BTCUSDT''] (sample_state 2) (sample_state 3))
   \<and> set (sr_repair_symbols (reconcile_startup [''BTCUSDT''] (sample_state 2) (sample_state 3))) = {''BTCUSDT''}"
proof -
  have keys: "set [''BTCUSDT''] = fst ` set (as_positions (sample_state 2)) \<union> fst ` set (as_positions (sample_state 3))"
    by (simp add: sample_state_def)
  have pm: "position_mismatch (sample_state 2) (sample_state 3) s \<longleftrightarrow> s = ''BTCUSDT''" for s
    by (simp add: position_mismatch_def sample_state_def dict_get_def deq_val)
  have "dabs (dec 3) = dec 3" by code_simp
  then have pi: "\<not> protection_insufficient (sample_state 3) s" for s
    by (simp add: protection_insufficient_def sample_state_def dict_get_def deq_val decimal_less_val Let_def)
  from startup_reconciliation_exact [OF keys] pm pi show ?thesis by auto
qed

end
