(* ===== verification/Selection.thy ===== *)
theory Selection
  imports PublicClient
begin

text \<open>
  The choice of leaders: the deterministic filter of \<open>copy_trading/selection.py\<close>, the profile of a
  candidate's recent orders and the admission of the structured answer of the reviewing model from
  \<open>copy_trading/codex_selection.py\<close>, and the gates and scores per objective of
  \<open>copy_trading/selection_quality.py\<close>. The run of the reviewing model and the validator of its schema
  are parameters.
\<close>

section \<open>Square roots\<close>

text \<open>\<open>Decimal.sqrt\<close> in the default context: Newton's iteration for the integer root of a rescaled
  coefficient, then rounding; an exact root keeps the ideal exponent.\<close>

function isqrt_loop :: "nat \<Rightarrow> nat \<Rightarrow> nat" where
  "isqrt_loop c n = (let q = c div n in if n \<le> q then n else isqrt_loop c ((n + q) div 2))"
  by pat_completeness auto
termination
  by (relation "measure snd") (auto simp: not_le)

declare isqrt_loop.simps [simp del]

definition decimal_sqrt :: "decimal \<Rightarrow> decimal result" where
  "decimal_sqrt a =
    (if dcoeff a = 0 then Inr (dfix (dneg a) 0 (dexp a div 2))
     else if dneg a then Inl InvalidOperation
     else let odd_exponent = (dexp a mod 2 = 1);
         c0 = (if odd_exponent then dcoeff a * 10 else dcoeff a);
         l = (if odd_exponent then ndigits (dcoeff a) div 2 + 1 else (ndigits (dcoeff a) + 1) div 2);
         shift = 29 - int l;
         c = (if 0 \<le> shift then c0 * 100 ^ nat shift else c0 div 100 ^ nat (- shift));
         n = isqrt_loop c (10 ^ 29);
         exact = ((0 \<le> shift \<or> c0 mod 100 ^ nat (- shift) = 0) \<and> n * n = c) in
       Inr (if exact then dfix False (if 0 \<le> shift then n div 10 ^ nat shift else n * 10 ^ nat (- shift)) (dexp a div 2)
         else dfix False (if n mod 5 = 0 then n + 1 else n) (dexp a div 2 - shift)))"

section \<open>The deterministic filter\<close>

abbreviation cents :: "nat \<Rightarrow> decimal" where
  "cents n \<equiv> Dec False n (- 2)"

record selection_policy =
  sp_minimum_win_rate_pct :: decimal
  sp_maximum_drawdown_pct :: decimal
  sp_minimum_aum_usdt :: decimal
  sp_minimum_track_record_days :: int
  sp_minimum_current_copy_count :: int

definition default_selection_policy :: selection_policy where
  "default_selection_policy = \<lparr>sp_minimum_win_rate_pct = dec 55, sp_maximum_drawdown_pct = dec 35,
     sp_minimum_aum_usdt = dec 10000, sp_minimum_track_record_days = 7, sp_minimum_current_copy_count = 0\<rparr>"

definition selection_policy_check :: "selection_policy \<Rightarrow> selection_policy result" where
  "selection_policy_check p =
    rbind (require (dec 0 \<le> sp_minimum_win_rate_pct p \<and> sp_minimum_win_rate_pct p \<le> dec 100)
      (ValueError ''copy minimum win rate is invalid'')) (\<lambda>_.
    rbind (require (dec 0 \<le> sp_maximum_drawdown_pct p \<and> sp_maximum_drawdown_pct p \<le> dec 100)
      (ValueError ''copy maximum drawdown is invalid'')) (\<lambda>_.
    rbind (require (\<not> (sp_minimum_aum_usdt p \<le> 0 \<or> \<not> (1 \<le> sp_minimum_track_record_days p \<and> sp_minimum_track_record_days p \<le> 3650)
        \<or> sp_minimum_current_copy_count p < 0))
      (ValueError ''copy selection policy is invalid'')) (\<lambda>_. Inr p)))"

record candidate_assessment =
  ca_lead_portfolio_id :: string
  ca_eligible :: bool
  ca_deterministic_score :: decimal
  ca_reason_codes :: "string list"

definition copy_social_proof_score :: "int \<Rightarrow> decimal result" where
  "copy_social_proof_score current_copy_count =
    (if current_copy_count < 0 then Inl (ValueError ''copy follower count is invalid'')
     else rbind (decimal_sqrt (dec (nat current_copy_count))) (\<lambda>root.
       rbind (decimal_sqrt (dec 600)) (\<lambda>full.
       rbind (decimal_truediv root full) (\<lambda>ratio.
       decimal_quantize (dmin (dec 100) (ratio * dec 100)) 6))))"

definition track_record_days :: "int \<Rightarrow> leader_snapshot \<Rightarrow> int" where
  "track_record_days observed_at_ms leader = max 0 ((observed_at_ms - ls_start_time_ms leader) div 86400000)"

definition candidate_reasons :: "selection_policy \<Rightarrow> int \<Rightarrow> leader_snapshot \<Rightarrow> string list" where
  "candidate_reasons p days leader =
    (if ls_win_rate_pct leader < sp_minimum_win_rate_pct p then [''COPY_SELECTION_WIN_RATE_LOW''] else [])
    @ (if sp_maximum_drawdown_pct p < ls_maximum_drawdown_pct leader then [''COPY_SELECTION_DRAWDOWN_HIGH''] else [])
    @ (if ls_aum_usdt leader < sp_minimum_aum_usdt p then [''COPY_SELECTION_AUM_LOW''] else [])
    @ (if ls_roi_pct leader \<le> 0 \<or> ls_pnl_usdt leader \<le> 0 then [''COPY_SELECTION_RETURN_NONPOSITIVE''] else [])
    @ (if days < sp_minimum_track_record_days p then [''COPY_SELECTION_TRACK_RECORD_SHORT''] else [])
    @ (if ls_current_copy_count leader < sp_minimum_current_copy_count p then [''COPY_SELECTION_FOLLOWER_COUNT_LOW''] else [])"

definition candidate_score :: "int \<Rightarrow> leader_snapshot \<Rightarrow> decimal result" where
  "candidate_score days leader =
    (let roi_component = ddiv (dmin (dmax (ls_roi_pct leader) (dec 0)) (dec 500)) (dec 5);
         drawdown_component = dec 100 - ls_maximum_drawdown_pct leader;
         aum_component = dmin (dec 100) (ddiv (ls_aum_usdt leader) (dec 100000) * dec 100);
         track_component = dmin (dec 100) (ddiv (dec (nat days)) (dec 90) * dec 100) in
     rbind (copy_social_proof_score (ls_current_copy_count leader)) (\<lambda>social_proof_component.
     decimal_quantize (social_proof_component * cents 40 + ls_win_rate_pct leader * cents 18
       + drawdown_component * cents 17 + roi_component * cents 10 + aum_component * cents 6
       + track_component * cents 9) 6))"

definition assess_candidate :: "leader_snapshot \<Rightarrow> int \<Rightarrow> selection_policy \<Rightarrow> candidate_assessment result" where
  "assess_candidate leader observed_at_ms policy =
    (let days = track_record_days observed_at_ms leader; reasons = candidate_reasons policy days leader in
     rbind (candidate_score days leader) (\<lambda>score.
     Inr \<lparr>ca_lead_portfolio_id = ls_lead_portfolio_id leader, ca_eligible = (reasons = []),
       ca_deterministic_score = score, ca_reason_codes = reasons\<rparr>))"

section \<open>Order profiles\<close>

record candidate_order_profile =
  op_order_count :: nat
  op_symbols :: "string list"
  op_latest_operation_time_ms :: "int option"
  op_increase_count :: nat
  op_reduction_count :: nat
  op_profitable_close_count :: nat
  op_losing_close_count :: nat
  op_breakeven_close_count :: nat
  op_total_realized_pnl :: decimal
  op_gross_profit :: decimal
  op_gross_loss :: decimal
  op_profit_factor :: "decimal option"
  op_profitable_close_rate_pct :: "decimal option"
  op_median_profit :: "decimal option"
  op_median_loss :: "decimal option"
  op_largest_profit :: "decimal option"
  op_largest_loss :: "decimal option"
  op_top_two_profit_contribution_pct :: "decimal option"
  op_robust_realized_pnl_ex_largest_profit :: decimal
  op_maximum_consecutive_losing_closes :: nat
  op_realized_pnl_1d :: decimal
  op_realized_pnl_3d :: decimal
  op_realized_pnl_7d :: decimal
  op_ambiguous_position_side_count :: nat
  op_orders_1d :: nat
  op_orders_3d :: nat
  op_orders_7d :: nat
  op_active_days_7d :: nat

text \<open>\<open>max(values, default=None)\<close> on integers.\<close>

fun max_int :: "int list \<Rightarrow> int option" where
  "max_int [] = None"
| "max_int (x # xs) = Some (foldl max x xs)"

definition default_to :: "'a \<Rightarrow> 'a option \<Rightarrow> 'a" where
  "default_to d v = (case v of None \<Rightarrow> d | Some x \<Rightarrow> x)"

definition median_decimal :: "decimal list \<Rightarrow> decimal option" where
  "median_decimal values = (if values = [] then None else
     let ordered = sort_key dval values; midpoint = length ordered div 2 in
     if odd (length ordered) then Some (ordered ! midpoint)
     else Some (ddiv (ordered ! (midpoint - 1) + ordered ! midpoint) (dec 2)))"

definition recent_realized_pnl :: "(int \<times> decimal) list \<Rightarrow> int \<Rightarrow> decimal" where
  "recent_realized_pnl close_results cutoff_ms = dsum (map snd (filter (\<lambda>(t, _). cutoff_ms \<le> t) close_results))"

definition explicit_side :: "public_leader_order \<Rightarrow> bool" where
  "explicit_side o0 \<longleftrightarrow> po_position_side o0 \<noteq> SRC_BOTH"

definition order_increases :: "public_leader_order \<Rightarrow> bool" where
  "order_increases o0 \<longleftrightarrow> is_increase (po_position_side o0) (po_order_side o0)"

definition close_results :: "public_leader_order list \<Rightarrow> (int \<times> decimal) list" where
  "close_results orders = map (\<lambda>o0. (po_update_time_ms o0, po_total_pnl o0))
     (filter (\<lambda>o0. explicit_side o0 \<and> \<not> order_increases o0) orders)"

text \<open>The loop over the closes in order of time and result: the longest run of losses so far and the
  current one.\<close>

fun losing_runs :: "decimal list \<Rightarrow> nat \<Rightarrow> nat \<Rightarrow> nat" where
  "losing_runs [] longest consecutive = longest"
| "losing_runs (pnl # rest) longest consecutive =
    (if pnl < 0 then losing_runs rest (max longest (consecutive + 1)) (consecutive + 1)
     else losing_runs rest longest 0)"

text \<open>The date of a time in milliseconds: times beyond the year 9999 have none and the conversion raises.\<close>

definition date_of_ms :: "int \<Rightarrow> int result" where
  "date_of_ms ms = (if ms < 253402300800000 then Inr (ms div 86400000) else Inl (ValueError ''year is out of range''))"

definition from_orders :: "public_leader_order list \<Rightarrow> int option \<Rightarrow> candidate_order_profile result" where
  "from_orders orders observed_at_ms =
    (let closes = close_results orders; pnls = map snd closes; times = map po_update_time_ms orders;
         observed = (case observed_at_ms of Some t \<Rightarrow> if t = 0 then default_to 0 (max_int times) else t
           | None \<Rightarrow> default_to 0 (max_int times));
         profits = filter (\<lambda>p. 0 < p) pnls; losses = filter (\<lambda>p. p < 0) pnls;
         gross_profit = dsum profits; gross_loss = - dsum losses;
         nonzero_close_count = length profits + length losses;
         total_realized_pnl = dsum (map po_total_pnl orders);
         since = (\<lambda>days. filter (\<lambda>o0. observed - days * 86400000 \<le> po_update_time_ms o0) orders) in
     rbind (rmap (\<lambda>o0. date_of_ms (po_update_time_ms o0)) (since 7)) (\<lambda>dates.
     Inr \<lparr>op_order_count = length orders, op_symbols = sorted_set (map po_symbol orders),
       op_latest_operation_time_ms = max_int times,
       op_increase_count = length (filter (\<lambda>o0. explicit_side o0 \<and> order_increases o0) orders),
       op_reduction_count = length closes,
       op_profitable_close_count = length profits, op_losing_close_count = length losses,
       op_breakeven_close_count = length (filter (\<lambda>p. deq p 0) pnls),
       op_total_realized_pnl = total_realized_pnl, op_gross_profit = gross_profit, op_gross_loss = gross_loss,
       op_profit_factor = (if 0 < gross_loss then Some (ddiv gross_profit gross_loss) else None),
       op_profitable_close_rate_pct = (if nonzero_close_count \<noteq> 0
         then Some (ddiv (dec (length profits)) (dec nonzero_close_count) * dec 100) else None),
       op_median_profit = median_decimal profits, op_median_loss = median_decimal (map uminus losses),
       op_largest_profit = max_decimal profits,
       op_largest_loss = map_option uminus (min_decimal losses),
       op_top_two_profit_contribution_pct = (if 0 < gross_profit
         then Some (ddiv (dsum (take 2 (rev (sort_key dval (rev profits))))) gross_profit * dec 100) else None),
       op_robust_realized_pnl_ex_largest_profit = total_realized_pnl - default_to 0 (max_decimal profits),
       op_maximum_consecutive_losing_closes = losing_runs (map snd (sort_key (\<lambda>(t, p). (t, dval p)) closes)) 0 0,
       op_realized_pnl_1d = recent_realized_pnl closes (observed - 86400000),
       op_realized_pnl_3d = recent_realized_pnl closes (observed - 3 * 86400000),
       op_realized_pnl_7d = recent_realized_pnl closes (observed - 7 * 86400000),
       op_ambiguous_position_side_count = length (filter (\<lambda>o0. \<not> explicit_side o0) orders),
       op_orders_1d = length (since 1), op_orders_3d = length (since 3), op_orders_7d = length (since 7),
       op_active_days_7d = length (remdups dates)\<rparr>))"

section \<open>Objective-specific quality\<close>

datatype objective = OBJ_LONG_TERM | OBJ_SHORT_TERM_WIN_RATE | OBJ_SHORT_TERM_INTRADAY

fun objective_value :: "objective \<Rightarrow> string" where
  "objective_value OBJ_LONG_TERM = ''LONG_TERM''"
| "objective_value OBJ_SHORT_TERM_WIN_RATE = ''SHORT_TERM_WIN_RATE''"
| "objective_value OBJ_SHORT_TERM_INTRADAY = ''SHORT_TERM_INTRADAY''"

definition objective_of :: "string \<Rightarrow> objective option" where
  "objective_of s = (if s = ''LONG_TERM'' then Some OBJ_LONG_TERM
     else if s = ''SHORT_TERM_WIN_RATE'' then Some OBJ_SHORT_TERM_WIN_RATE
     else if s = ''SHORT_TERM_INTRADAY'' then Some OBJ_SHORT_TERM_INTRADAY else None)"

record leader_performance_trend =
  tr_baseline_age_hours :: decimal
  tr_roi_change_pct :: decimal
  tr_pnl_change_pct :: decimal
  tr_aum_change_pct :: decimal
  tr_maximum_drawdown_change_points :: decimal

record quality_policy =
  qp_minimum_track_record_days :: int
  qp_maximum_drawdown_pct :: decimal
  qp_minimum_nonzero_close_count :: nat
  qp_minimum_profitable_close_rate_pct :: decimal
  qp_minimum_profit_factor :: decimal
  qp_maximum_top_two_profit_contribution_pct :: decimal
  qp_maximum_consecutive_losing_closes :: nat
  qp_maximum_profit_factor_before_warning :: decimal
  qp_maximum_drawdown_acceleration_points :: decimal
  qp_maximum_recent_roi_drop_pct :: decimal
  qp_maximum_recent_aum_drop_pct_before_warning :: decimal
  qp_minimum_orders_1d :: nat
  qp_minimum_orders_3d :: nat
  qp_minimum_orders_7d :: nat
  qp_minimum_active_days_7d :: nat
  qp_maximum_operation_age_hours :: "int option"

fun quality_policy_of :: "objective \<Rightarrow> quality_policy" where
  "quality_policy_of OBJ_LONG_TERM = \<lparr>qp_minimum_track_record_days = 30, qp_maximum_drawdown_pct = dec 18,
     qp_minimum_nonzero_close_count = 30, qp_minimum_profitable_close_rate_pct = dec 55, qp_minimum_profit_factor = cents 125,
     qp_maximum_top_two_profit_contribution_pct = dec 45, qp_maximum_consecutive_losing_closes = 4,
     qp_maximum_profit_factor_before_warning = dec 50, qp_maximum_drawdown_acceleration_points = dec 3,
     qp_maximum_recent_roi_drop_pct = dec 5, qp_maximum_recent_aum_drop_pct_before_warning = dec 35,
     qp_minimum_orders_1d = 0, qp_minimum_orders_3d = 0, qp_minimum_orders_7d = 0, qp_minimum_active_days_7d = 0,
     qp_maximum_operation_age_hours = None\<rparr>"
| "quality_policy_of OBJ_SHORT_TERM_WIN_RATE = \<lparr>qp_minimum_track_record_days = 18, qp_maximum_drawdown_pct = dec 18,
     qp_minimum_nonzero_close_count = 20, qp_minimum_profitable_close_rate_pct = dec 70, qp_minimum_profit_factor = cents 120,
     qp_maximum_top_two_profit_contribution_pct = dec 70, qp_maximum_consecutive_losing_closes = 3,
     qp_maximum_profit_factor_before_warning = dec 50, qp_maximum_drawdown_acceleration_points = dec 3,
     qp_maximum_recent_roi_drop_pct = dec 5, qp_maximum_recent_aum_drop_pct_before_warning = dec 35,
     qp_minimum_orders_1d = 0, qp_minimum_orders_3d = 0, qp_minimum_orders_7d = 10, qp_minimum_active_days_7d = 3,
     qp_maximum_operation_age_hours = Some 48\<rparr>"
| "quality_policy_of OBJ_SHORT_TERM_INTRADAY = \<lparr>qp_minimum_track_record_days = 18, qp_maximum_drawdown_pct = dec 20,
     qp_minimum_nonzero_close_count = 20, qp_minimum_profitable_close_rate_pct = dec 65, qp_minimum_profit_factor = cents 120,
     qp_maximum_top_two_profit_contribution_pct = dec 70, qp_maximum_consecutive_losing_closes = 3,
     qp_maximum_profit_factor_before_warning = dec 50, qp_maximum_drawdown_acceleration_points = dec 3,
     qp_maximum_recent_roi_drop_pct = dec 5, qp_maximum_recent_aum_drop_pct_before_warning = dec 35,
     qp_minimum_orders_1d = 1, qp_minimum_orders_3d = 5, qp_minimum_orders_7d = 14, qp_minimum_active_days_7d = 3,
     qp_maximum_operation_age_hours = Some 36\<rparr>"

record selection_quality_assessment =
  qa_objective :: string
  qa_eligible :: bool
  qa_score :: decimal
  qa_reason_codes :: "string list"
  qa_warning_codes :: "string list"
  qa_track_record_days :: int
  qa_confidence_cap :: string
  qa_copy_social_proof_score :: decimal

definition operation_is_stale :: "candidate_order_profile \<Rightarrow> int \<Rightarrow> int option \<Rightarrow> bool" where
  "operation_is_stale profile observed_at_ms maximum_age_hours = (case maximum_age_hours of None \<Rightarrow> False
     | Some h \<Rightarrow> (case op_latest_operation_time_ms profile of None \<Rightarrow> True | Some t \<Rightarrow> t < observed_at_ms - h * 3600000))"

definition quality_reasons :: "quality_policy \<Rightarrow> int \<Rightarrow> int \<Rightarrow> leader_snapshot \<Rightarrow> candidate_order_profile \<Rightarrow> string list" where
  "quality_reasons q observed_at_ms days leader profile =
    (if days < qp_minimum_track_record_days q then [''COPY_SELECTION_TRACK_RECORD_SHORT''] else [])
    @ (if qp_maximum_drawdown_pct q < ls_maximum_drawdown_pct leader then [''COPY_SELECTION_DRAWDOWN_HIGH''] else [])
    @ (if op_profitable_close_count profile + op_losing_close_count profile < qp_minimum_nonzero_close_count q
       then [''COPY_SELECTION_CLOSE_SAMPLE_SMALL''] else [])
    @ (if (case op_profitable_close_rate_pct profile of None \<Rightarrow> True | Some r \<Rightarrow> r < qp_minimum_profitable_close_rate_pct q)
       then [''COPY_SELECTION_CLOSE_QUALITY_LOW''] else [])
    @ (if (case op_profit_factor profile of None \<Rightarrow> False | Some f \<Rightarrow> f < qp_minimum_profit_factor q)
       then [''COPY_SELECTION_PROFIT_FACTOR_LOW''] else [])
    @ (if (case op_top_two_profit_contribution_pct profile of None \<Rightarrow> True
         | Some c \<Rightarrow> qp_maximum_top_two_profit_contribution_pct q < c)
       then [''COPY_SELECTION_PROFIT_CONCENTRATED''] else [])
    @ (if op_robust_realized_pnl_ex_largest_profit profile \<le> 0 then [''COPY_SELECTION_ROBUST_PNL_NONPOSITIVE''] else [])
    @ (if qp_maximum_consecutive_losing_closes q < op_maximum_consecutive_losing_closes profile
       then [''COPY_SELECTION_LOSS_STREAK_HIGH''] else [])
    @ (if op_orders_1d profile < qp_minimum_orders_1d q \<or> op_orders_3d profile < qp_minimum_orders_3d q
         \<or> op_orders_7d profile < qp_minimum_orders_7d q \<or> op_active_days_7d profile < qp_minimum_active_days_7d q
         \<or> operation_is_stale profile observed_at_ms (qp_maximum_operation_age_hours q)
       then [''COPY_SELECTION_ACTIVITY_LOW''] else [])"

definition no_observed_losses :: "candidate_order_profile \<Rightarrow> bool" where
  "no_observed_losses profile \<longleftrightarrow> 0 < op_gross_profit profile \<and> deq (op_gross_loss profile) 0"

definition short_term :: "objective \<Rightarrow> bool" where
  "short_term objective \<longleftrightarrow> objective \<in> {OBJ_SHORT_TERM_WIN_RATE, OBJ_SHORT_TERM_INTRADAY}"

definition quality_warnings ::
  "objective \<Rightarrow> int \<Rightarrow> candidate_order_profile \<Rightarrow> leader_performance_trend option \<Rightarrow> string list" where
  "quality_warnings objective days profile trend =
    (let q = quality_policy_of objective in
     (if short_term objective \<and> op_realized_pnl_3d profile \<le> 0 then [''COPY_SELECTION_RECENT_PNL_NONPOSITIVE''] else [])
     @ (case trend of None \<Rightarrow> [] | Some t \<Rightarrow>
         (if qp_maximum_drawdown_acceleration_points q \<le> tr_maximum_drawdown_change_points t
          then [''COPY_SELECTION_DRAWDOWN_ACCELERATING''] else [])
         @ (if tr_roi_change_pct t \<le> - qp_maximum_recent_roi_drop_pct q then [''COPY_SELECTION_ROI_DROPPING_FAST''] else [])
         @ (if tr_aum_change_pct t \<le> - qp_maximum_recent_aum_drop_pct_before_warning q then [''COPY_SELECTION_AUM_DROPPING_FAST''] else []))
     @ (if (case op_profit_factor profile of None \<Rightarrow> no_observed_losses profile
          | Some f \<Rightarrow> qp_maximum_profit_factor_before_warning q < f)
        then [''COPY_SELECTION_PROFIT_FACTOR_ANOMALOUS''] else [])
     @ (if days < 45 then [''COPY_SELECTION_TRACK_RECORD_MATURING''] else []))"

definition confidence_cap :: "int \<Rightarrow> string list \<Rightarrow> leader_performance_trend option \<Rightarrow> string" where
  "confidence_cap days warning_codes trend =
    (if days < 21 \<or> trend = None then ''LOW'' else if days < 45 \<or> warning_codes \<noteq> [] then ''MEDIUM'' else ''HIGH'')"

definition bounded :: "decimal \<Rightarrow> decimal" where
  "bounded value = dmin (dec 100) (dmax (dec 0) value)"

definition profit_factor_score :: "candidate_order_profile \<Rightarrow> decimal" where
  "profit_factor_score profile = (case op_profit_factor profile of
     None \<Rightarrow> if no_observed_losses profile then dec 70 else dec 0
   | Some v \<Rightarrow>
     if v \<le> dec 1 then bounded (v * dec 30)
     else if v \<le> dec 5 then dec 30 + ddiv (v - dec 1) (dec 4) * dec 70
     else if v \<le> dec 20 then dec 100 - ddiv (v - dec 5) (dec 15) * dec 15
     else if v \<le> dec 50 then dec 85 - ddiv (v - dec 20) (dec 30) * dec 15
     else dec 60)"

definition recent_health_score :: "candidate_order_profile \<Rightarrow> decimal" where
  "recent_health_score profile = (if op_realized_pnl_3d profile \<le> 0 then dec 0
     else if op_realized_pnl_1d profile < 0 then dec 35
     else if deq (op_realized_pnl_1d profile) 0 then dec 65 else dec 100)"

definition recent_performance_penalty :: "candidate_order_profile \<Rightarrow> decimal" where
  "recent_performance_penalty profile =
    (let penalty = (if op_realized_pnl_3d profile \<le> 0 then dec 0 + dec 6 else dec 0) in
     if op_realized_pnl_1d profile < 0 then penalty + dec 2 else penalty)"

definition trend_penalty :: "leader_performance_trend option \<Rightarrow> decimal" where
  "trend_penalty trend = (case trend of None \<Rightarrow> dec 3 | Some t \<Rightarrow>
     let p0 = dec 0;
         p1 = (if tr_roi_change_pct t < 0 then p0 + dmin (dec 12) ((- tr_roi_change_pct t) * Dec False 6 (- 1)) else p0);
         p2 = (if 0 < tr_maximum_drawdown_change_points t
           then p1 + dmin (dec 12) (tr_maximum_drawdown_change_points t * dec 2) else p1) in
     if tr_aum_change_pct t < Dec True 20 0
     then p2 + dmin (dec 5) ((- tr_aum_change_pct t - dec 20) * Dec False 1 (- 1)) else p2)"

definition activity_score :: "candidate_order_profile \<Rightarrow> decimal" where
  "activity_score profile =
    bounded (ddiv (dec (op_orders_1d profile)) (dec 8) * dec 100) * cents 35
    + bounded (ddiv (dec (op_orders_3d profile)) (dec 24) * dec 100) * cents 25
    + bounded (ddiv (dec (op_orders_7d profile)) (dec 60) * dec 100) * cents 20
    + bounded (ddiv (dec (op_active_days_7d profile)) (dec 7) * dec 100) * cents 20"

text \<open>\<open>value or default\<close> on an optional decimal: zero is false as well.\<close>

definition decimal_or :: "decimal option \<Rightarrow> decimal \<Rightarrow> decimal" where
  "decimal_or v d = (case v of None \<Rightarrow> d | Some x \<Rightarrow> if dcoeff x = 0 then d else x)"

definition weighted_score ::
  "objective \<Rightarrow> int \<Rightarrow> leader_snapshot \<Rightarrow> candidate_order_profile \<Rightarrow> decimal \<Rightarrow> decimal" where
  "weighted_score objective days leader profile social_proof =
    (let close_rate = decimal_or (op_profitable_close_rate_pct profile) (dec 0);
         drawdown = dec 100 - bounded (ls_maximum_drawdown_pct leader);
         concentration = dec 100 - bounded (decimal_or (op_top_two_profit_contribution_pct profile) (dec 100));
         profit_factor = profit_factor_score profile;
         sample_size = bounded (ddiv (dec (op_profitable_close_count profile + op_losing_close_count profile)) (dec 40) * dec 100);
         track_record = bounded (ddiv (dec (nat days)) (dec 90) * dec 100) in
     case objective of
       OBJ_LONG_TERM \<Rightarrow> social_proof * cents 35 + drawdown * cents 15 + close_rate * cents 12 + profit_factor * cents 10
         + concentration * cents 12 + track_record * cents 10 + sample_size * cents 6
     | OBJ_SHORT_TERM_WIN_RATE \<Rightarrow> social_proof * cents 35 + bounded (ls_win_rate_pct leader) * cents 20 + close_rate * cents 16
         + drawdown * cents 10 + concentration * cents 8 + profit_factor * cents 7 + sample_size * cents 4
     | OBJ_SHORT_TERM_INTRADAY \<Rightarrow> social_proof * cents 35 + close_rate * cents 10 + bounded (ls_win_rate_pct leader) * cents 6
         + drawdown * cents 14 + concentration * cents 11 + profit_factor * cents 8 + recent_health_score profile * cents 6
         + track_record * cents 4 + activity_score profile * cents 6)"

definition selection_score ::
  "objective \<Rightarrow> int \<Rightarrow> leader_snapshot \<Rightarrow> candidate_order_profile \<Rightarrow> leader_performance_trend option \<Rightarrow> decimal result" where
  "selection_score objective days leader profile trend =
    rbind (copy_social_proof_score (ls_current_copy_count leader)) (\<lambda>social_proof.
    let score = weighted_score objective days leader profile social_proof - trend_penalty trend in
    decimal_quantize (if short_term objective then score - recent_performance_penalty profile else score) 6)"

definition assess_selection_quality ::
  "leader_snapshot \<Rightarrow> candidate_order_profile \<Rightarrow> string \<Rightarrow> int \<Rightarrow> leader_performance_trend option
     \<Rightarrow> selection_quality_assessment result" where
  "assess_selection_quality leader profile objective observed_at_ms trend = (case objective_of objective of
     None \<Rightarrow> Inl (ValueError ''copy selection quality objective is invalid'')
   | Some obj \<Rightarrow>
     if observed_at_ms \<le> 0 then Inl (ValueError ''copy selection quality observation time is invalid'')
     else let days = track_record_days observed_at_ms leader;
         reasons = quality_reasons (quality_policy_of obj) observed_at_ms days leader profile;
         warnings = quality_warnings obj days profile trend in
       rbind (selection_score obj days leader profile trend) (\<lambda>score.
       rbind (copy_social_proof_score (ls_current_copy_count leader)) (\<lambda>social_proof.
       Inr \<lparr>qa_objective = objective, qa_eligible = (reasons = []), qa_score = score, qa_reason_codes = dedup reasons,
         qa_warning_codes = dedup warnings, qa_track_record_days = days, qa_confidence_cap = confidence_cap days warnings trend,
         qa_copy_social_proof_score = social_proof\<rparr>)))"

section \<open>Documents for the reviewing model\<close>

definition decimal_json :: "decimal option \<Rightarrow> json" where
  "decimal_json v = (case v of None \<Rightarrow> JNull | Some d \<Rightarrow> JStr (dstr d))"

definition texts_json :: "string list \<Rightarrow> json" where
  "texts_json xs = JArr (map JStr xs)"

definition count_json :: "nat \<Rightarrow> json" where
  "count_json n = JInt (int n)"

definition quality_document :: "selection_quality_assessment \<Rightarrow> document" where
  "quality_document a = [(''eligible'', JBool (qa_eligible a)), (''objective_score'', JStr (dstr (qa_score a))),
     (''reason_codes'', texts_json (qa_reason_codes a)), (''warning_codes'', texts_json (qa_warning_codes a)),
     (''track_record_days'', JInt (qa_track_record_days a)), (''confidence_cap'', JStr (qa_confidence_cap a)),
     (''copy_social_proof_score'', JStr (dstr (qa_copy_social_proof_score a)))]"

definition trend_document :: "leader_performance_trend \<Rightarrow> document" where
  "trend_document t = [(''baseline_age_hours'', JStr (dstr (tr_baseline_age_hours t))),
     (''roi_change_pct'', JStr (dstr (tr_roi_change_pct t))), (''pnl_change_pct'', JStr (dstr (tr_pnl_change_pct t))),
     (''aum_change_pct'', JStr (dstr (tr_aum_change_pct t))),
     (''maximum_drawdown_change_points'', JStr (dstr (tr_maximum_drawdown_change_points t)))]"

definition close_quality_document :: "candidate_order_profile \<Rightarrow> document" where
  "close_quality_document p = [(''gross_profit'', JStr (dstr (op_gross_profit p))), (''gross_loss'', JStr (dstr (op_gross_loss p))),
     (''profit_factor'', decimal_json (op_profit_factor p)),
     (''profitable_close_rate_pct'', decimal_json (op_profitable_close_rate_pct p)),
     (''median_profit'', decimal_json (op_median_profit p)), (''median_loss'', decimal_json (op_median_loss p)),
     (''largest_profit'', decimal_json (op_largest_profit p)), (''largest_loss'', decimal_json (op_largest_loss p)),
     (''top_two_profit_contribution_pct'', decimal_json (op_top_two_profit_contribution_pct p)),
     (''robust_realized_pnl_ex_largest_profit'', JStr (dstr (op_robust_realized_pnl_ex_largest_profit p))),
     (''maximum_consecutive_losing_closes'', count_json (op_maximum_consecutive_losing_closes p)),
     (''realized_pnl_1d'', JStr (dstr (op_realized_pnl_1d p))), (''realized_pnl_3d'', JStr (dstr (op_realized_pnl_3d p))),
     (''realized_pnl_7d'', JStr (dstr (op_realized_pnl_7d p)))]"

definition recent_orders_document :: "candidate_order_profile \<Rightarrow> string list \<Rightarrow> string \<Rightarrow> document" where
  "recent_orders_document p trading_symbols environment =
    (let compatible = filter (\<lambda>s. s \<in> set trading_symbols) (op_symbols p);
         unavailable = filter (\<lambda>s. s \<notin> set trading_symbols) (op_symbols p);
         compatibility_pct = (if op_symbols p \<noteq> []
           then ddiv (dec (length compatible)) (dec (length (op_symbols p))) * dec 100 else dec 0) in
     [(''execution_environment'', JStr environment), (''sample_size'', count_json (op_order_count p)),
      (''symbols'', texts_json (op_symbols p)),
      (''latest_operation_time_ms'', (case op_latest_operation_time_ms p of None \<Rightarrow> JNull | Some t \<Rightarrow> JInt t)),
      (''increase_count'', count_json (op_increase_count p)), (''reduction_count'', count_json (op_reduction_count p)),
      (''profitable_close_count'', count_json (op_profitable_close_count p)),
      (''losing_close_count'', count_json (op_losing_close_count p)),
      (''breakeven_close_count'', count_json (op_breakeven_close_count p)),
      (''total_realized_pnl'', JStr (dstr (op_total_realized_pnl p))),
      (''realized_close_quality'', JObj (close_quality_document p)),
      (''ambiguous_position_side_count'', count_json (op_ambiguous_position_side_count p)),
      (''orders_1d'', count_json (op_orders_1d p)), (''orders_3d'', count_json (op_orders_3d p)),
      (''orders_7d'', count_json (op_orders_7d p)), (''active_days_7d'', count_json (op_active_days_7d p)),
      (''execution_compatible_symbols'', texts_json compatible), (''execution_unavailable_symbols'', texts_json unavailable),
      (''execution_symbol_compatibility_pct'', JStr (dstr compatibility_pct))])"

definition candidate_document ::
  "leader_snapshot \<Rightarrow> candidate_assessment \<Rightarrow> candidate_order_profile \<Rightarrow> string list \<Rightarrow> string \<Rightarrow> document result" where
  "candidate_document leader assessment profile trading_symbols environment =
    rbind (require (environment \<in> {''TESTNET'', ''PRODUCTION''}) (ValueError ''copy candidate execution environment is invalid'')) (\<lambda>_.
    rbind (copy_social_proof_score (ls_current_copy_count leader)) (\<lambda>social_proof.
    Inr [(''lead_portfolio_id'', JStr (ls_lead_portfolio_id leader)), (''nickname'', JStr (take 80 (ls_nickname leader))),
      (''roi_pct'', JStr (dstr (ls_roi_pct leader))), (''pnl_usdt'', JStr (dstr (ls_pnl_usdt leader))),
      (''aum_usdt'', JStr (dstr (ls_aum_usdt leader))),
      (''maximum_drawdown_pct'', JStr (dstr (ls_maximum_drawdown_pct leader))),
      (''win_rate_pct'', JStr (dstr (ls_win_rate_pct leader))),
      (''current_copy_count'', JInt (ls_current_copy_count leader)), (''maximum_copy_count'', JInt (ls_maximum_copy_count leader)),
      (''copy_social_proof_score'', JStr (dstr social_proof)),
      (''sharp_ratio'', decimal_json (ls_sharp_ratio leader)), (''track_record_start_time_ms'', JInt (ls_start_time_ms leader)),
      (''deterministic_score'', JStr (dstr (ca_deterministic_score assessment))),
      (''recent_public_orders'', JObj (recent_orders_document profile trading_symbols environment))]))"

section \<open>Admission of the structured answer\<close>

record codex_selection_result =
  cs_selected_leader_ids :: "string list"
  cs_document :: document
  cs_candidate_digest :: string
  cs_report_digest :: string

text \<open>
  What is outside: the run of the reviewing model on the canonical candidates under a strategy, \<open>None\<close>
  when it fails or leaves no decodable document, and the schema validator.
\<close>

record codex_reviewer =
  cx_run :: "string \<Rightarrow> string \<Rightarrow> int \<Rightarrow> json option"
  cx_schema_valid :: "json \<Rightarrow> bool"

definition canonical_digest_of :: "document \<Rightarrow> string" where
  "canonical_digest_of d = sha256_hex (json_dumps False (JObj d))"

definition STRATEGIES :: "string list" where
  "STRATEGIES = [''SHORT_TERM'', ''SHORT_TERM_WIN_RATE'', ''SHORT_TERM_INTRADAY'', ''LONG_TERM'']"

definition candidate_ids :: "document list \<Rightarrow> string option list" where
  "candidate_ids candidates = map (\<lambda>c. id_text (doc_get c ''lead_portfolio_id''))
     (filter (\<lambda>c. map_of c ''lead_portfolio_id'' \<noteq> None) candidates)"

definition candidate_payload :: "document list \<Rightarrow> int \<Rightarrow> string \<Rightarrow> document" where
  "candidate_payload candidates leader_count strategy =
    [(''schema_version'', JStr ''1.0.0''), (''selection_strategy'', JStr strategy), (''leader_count'', JInt leader_count),
     (''operating_envelope_usdt'', JStr ''150''), (''shared_margin_budget'', JBool True), (''maximum_order_margin_usdt'', JStr ''5''),
     (''leverage_selection'', JStr ''EXCHANGE_MAXIMUM''),
     (''sizing_policy'', JStr ''MATCH_SOURCE_NOTIONAL_WITHIN_AVAILABLE_SHARED_CAPACITY''),
     (''position_mode'', JStr ''HEDGE_WITH_PER_LEADER_VIRTUAL_LEDGER''), (''candidates'', JArr (map JObj candidates))]"

fun document_of :: "json \<Rightarrow> document option" where
  "document_of (JObj d) = Some d"
| "document_of _ = None"

definition decision_ids :: "json list \<Rightarrow> string option list" where
  "decision_ids decisions = map (\<lambda>d. id_text (doc_get d ''lead_portfolio_id'')) (List.map_filter document_of decisions)"

definition confidence_rank :: "string \<Rightarrow> nat option" where
  "confidence_rank s = (if s = ''LOW'' then Some 0 else if s = ''MEDIUM'' then Some 1 else if s = ''HIGH'' then Some 2 else None)"

definition CONFIDENCES :: "string set" where
  "CONFIDENCES = {''LOW'', ''MEDIUM'', ''HIGH''}"

definition rank_of_json :: "json \<Rightarrow> nat" where
  "rank_of_json v = (case v of JStr s \<Rightarrow> default_to 0 (confidence_rank s) | _ \<Rightarrow> 0)"

definition CAP_EXCEEDED :: exn where
  "CAP_EXCEEDED = CodexSelectionError ''COPY_CODEX_CONFIDENCE_CAP_EXCEEDED''"

text \<open>\<open>candidate_by_id.get(leader_id)\<close>: a later candidate of the same identifier replaces an earlier one.\<close>

definition candidate_quality :: "document list \<Rightarrow> string \<Rightarrow> string option \<Rightarrow> json" where
  "candidate_quality candidates key leader =
    (case map_of (rev (map (\<lambda>c. (id_text (doc_get c ''lead_portfolio_id''), c)) candidates)) leader of None \<Rightarrow> JNull
     | Some c \<Rightarrow> (case doc_get c ''objective_quality'' of JObj q \<Rightarrow> doc_get q key | _ \<Rightarrow> JNull))"

definition check_confidence :: "document list \<Rightarrow> string \<Rightarrow> json \<Rightarrow> unit result" where
  "check_confidence candidates key decision = (case decision of JObj d \<Rightarrow>
       (case candidate_quality candidates key (id_text (doc_get d ''lead_portfolio_id'')) of JObj quality \<Rightarrow>
          rbind (in_texts (doc_get quality ''confidence_cap'') CONFIDENCES) (\<lambda>cap_known.
          rbind (require cap_known CAP_EXCEEDED) (\<lambda>_.
          rbind (in_texts (doc_get d ''confidence'') CONFIDENCES) (\<lambda>confidence_known.
          require (confidence_known \<and> rank_of_json (doc_get d ''confidence'') \<le> rank_of_json (doc_get quality ''confidence_cap'')) CAP_EXCEEDED)))
        | _ \<Rightarrow> Inr ())
     | _ \<Rightarrow> Inl (CodexSelectionError ''COPY_CODEX_OUTPUT_INVALID''))"

definition admit_document :: "document list \<Rightarrow> int \<Rightarrow> string \<Rightarrow> string \<Rightarrow> json \<Rightarrow> codex_selection_result result" where
  "admit_document candidates leader_count strategy digest_text answer = (case answer of JObj doc \<Rightarrow>
       (case (doc_get doc ''selected_leader_ids'', doc_get doc ''decisions'') of (JArr selected_raw, JArr decisions) \<Rightarrow>
          let selected = map id_text selected_raw in
          rbind (require (int (length selected) = leader_count \<and> int (length (remdups selected)) = leader_count
              \<and> set selected \<subseteq> set (candidate_ids candidates) \<and> None \<notin> set selected
              \<and> set (decision_ids decisions) = set selected)
            (CodexSelectionError ''COPY_CODEX_SELECTION_NOT_ADMISSIBLE'')) (\<lambda>_.
          rbind (case objective_of strategy of None \<Rightarrow> Inr ()
             | Some obj \<Rightarrow> rbind (rmap (check_confidence candidates (objective_value obj)) decisions) (\<lambda>_. Inr ())) (\<lambda>_.
          Inr \<lparr>cs_selected_leader_ids = map the selected, cs_document = doc, cs_candidate_digest = digest_text,
            cs_report_digest = canonical_digest_of doc\<rparr>))
        | _ \<Rightarrow> Inl (CodexSelectionError ''COPY_CODEX_OUTPUT_INVALID''))
     | _ \<Rightarrow> Inl (CodexSelectionError ''COPY_CODEX_OUTPUT_SCHEMA_INVALID''))"

definition codex_select :: "codex_reviewer \<Rightarrow> document list \<Rightarrow> int \<Rightarrow> string \<Rightarrow> codex_selection_result result" where
  "codex_select R candidates leader_count strategy =
    rbind (require (1 \<le> leader_count \<and> leader_count \<le> 8 \<and> leader_count \<le> int (length candidates))
      (CodexSelectionError ''COPY_CODEX_CANDIDATE_COUNT_INVALID'')) (\<lambda>_.
    rbind (require (length (remdups (candidate_ids candidates)) = length candidates)
      (CodexSelectionError ''COPY_CODEX_CANDIDATE_ID_INVALID'')) (\<lambda>_.
    let canonical = json_dumps False (JObj (candidate_payload candidates leader_count strategy)) in
    rbind (require (strategy \<in> set STRATEGIES) (CodexSelectionError ''COPY_CODEX_SELECTION_STRATEGY_INVALID'')) (\<lambda>_.
    case cx_run R canonical strategy leader_count of
      None \<Rightarrow> Inl (CodexSelectionError ''COPY_CODEX_EXECUTION_FAILED'')
    | Some answer \<Rightarrow>
      rbind (require (cx_schema_valid R answer) (CodexSelectionError ''COPY_CODEX_OUTPUT_SCHEMA_INVALID'')) (\<lambda>_.
      admit_document candidates leader_count strategy (sha256_hex canonical) answer))))"

end
