(* ===== verification/SelectionSafety.thy ===== *)
theory SelectionSafety
  imports Selection
begin

text \<open>
  What the choice of leaders guarantees: square roots are integer roots, scores are total and bounded for
  every parsed leader and every order history, eligibility is exactly the conjunction of the gates, and
  the reviewing model can only choose among the candidates it was given.
\<close>

section \<open>Square roots\<close>

lemma newton_step:
  fixes n c :: nat
  assumes "0 < n" and q: "q = c div n"
  shows "c < ((n + q) div 2 + 1)\<^sup>2"
proof -
  let ?m = "(n + q) div 2"
  have "n + q + 1 \<le> 2 * (?m + 1)" by simp
  then have sq: "(n + q + 1)\<^sup>2 \<le> (2 * (?m + 1))\<^sup>2" by (rule power_mono) simp
  have "4 * (n * (q + 1)) \<le> (n + (q + 1))\<^sup>2"
  proof -
    have "4 * (int n * int (q + 1)) \<le> (int n + int (q + 1))\<^sup>2"
      using zero_le_power2 [of "int n - int (q + 1)"] by (simp add: power2_eq_square algebra_simps)
    then show ?thesis by (metis (mono_tags, lifting) of_nat_add of_nat_le_iff of_nat_mult of_nat_numeral of_nat_power)
  qed
  also have "(n + (q + 1))\<^sup>2 \<le> (2 * (?m + 1))\<^sup>2" using sq by (simp only: add.assoc)
  also have "(2 * (?m + 1))\<^sup>2 = 4 * (?m + 1)\<^sup>2" by (simp only: power_mult_distrib) simp
  finally have "4 * (n * (q + 1)) \<le> 4 * (?m + 1)\<^sup>2" .
  moreover have "c < n * (q + 1)"
    using assms dividend_less_times_div [of n c] by simp
  ultimately show ?thesis by simp
qed

lemma isqrt_loop_root:
  "0 < c \<Longrightarrow> 0 < n \<Longrightarrow> c < (n + 1)\<^sup>2 \<Longrightarrow> (isqrt_loop c n)\<^sup>2 \<le> c \<and> c < (isqrt_loop c n + 1)\<^sup>2"
proof (induction c n rule: isqrt_loop.induct)
  case (1 c n)
  let ?q = "c div n"
  show ?case
  proof (cases "n \<le> ?q")
    case True
    then have "n * n \<le> c" by (metis div_times_less_eq_dividend dual_order.trans mult_le_mono1)
    with True 1 show ?thesis by (subst (1 2) isqrt_loop.simps) (simp add: power2_eq_square)
  next
    case False
    have "0 < (n + ?q) div 2"
    proof (rule ccontr)
      assume "\<not> 0 < (n + ?q) div 2"
      then have "n + ?q < 2" by auto
      then have "n = 1" using 1(3) by auto
      then show False using False 1(2) by simp
    qed
    with False 1 newton_step [of n ?q c] show ?thesis by (subst (1 2) isqrt_loop.simps) (simp add: Let_def)
  qed
qed

section \<open>Bounded arithmetic\<close>

text \<open>Values that lie between zero and a whole number stay there: the bound is representable, and rounding
  is monotone.\<close>

definition ranged :: "nat \<Rightarrow> decimal \<Rightarrow> bool" where
  "ranged b d \<longleftrightarrow> 0 \<le> dval d \<and> dval d \<le> of_nat b"

named_theorems ranged_intros \<open>bounds of scores\<close>

lemma whole_exact: "b \<le> 10 ^ 28 \<Longrightarrow> exact28 (of_nat b)"
  using exact28_of_int [of "int b"] by simp

lemma rnd_ranged: "0 \<le> x \<Longrightarrow> x \<le> of_nat b \<Longrightarrow> b \<le> 10 ^ 28 \<Longrightarrow> 0 \<le> rnd x \<and> rnd x \<le> of_nat b"
  by (simp add: half_even.nonneg half_even.le_exact whole_exact)

lemma ranged_dec [ranged_intros]: "n \<le> b \<Longrightarrow> ranged b (dec n)"
  by (simp add: ranged_def)

lemma ranged_plus: "ranged a x \<Longrightarrow> ranged b y \<Longrightarrow> a + b \<le> 10 ^ 28 \<Longrightarrow> ranged (a + b) (x + y)"
  using rnd_ranged [of "dval x + dval y" "a + b"] by (simp add: ranged_def dval_plus)

lemma ranged_complement [ranged_intros]: "ranged b x \<Longrightarrow> b \<le> 10 ^ 28 \<Longrightarrow> ranged b (dec b - x)"
  using rnd_ranged [of "of_nat b - dval x" b] by (simp add: ranged_def dval_minus)

lemma dval_cents: "dval (cents w) = of_nat w / 100"
  by (simp add: dval_def dsigned_def power_int_minus field_simps)

lemma ranged_weight: "ranged 100 x \<Longrightarrow> w \<le> 10 ^ 28 \<Longrightarrow> ranged w (x * cents w)"
proof -
  assume x: "ranged 100 x" and w: "w \<le> 10 ^ 28"
  have "dval x * (of_nat w / 100) \<le> 100 * (of_nat w / 100)"
    using x by (intro mult_right_mono) (simp_all add: ranged_def)
  then show ?thesis using x w rnd_ranged [of "dval x * (of_nat w / 100)" w] by (simp add: ranged_def dval_times dval_cents)
qed

lemma ranged_bounded [ranged_intros]: "ranged 100 (bounded v)"
  by (simp add: ranged_def bounded_def dval_dmin dval_dmax)

lemma ranged_dmin: "0 \<le> dval x \<Longrightarrow> ranged b (dmin (dec b) x)"
  by (simp add: ranged_def dval_dmin)

text \<open>A ratio of a part to its whole, scaled to a percentage.\<close>

lemma ranged_share:
  assumes "0 \<le> dval a" "dval a \<le> dval b" "0 < dval b" "n \<le> 10 ^ 28"
  shows "ranged n (ddiv a b * dec n)"
proof -
  have "0 \<le> rnd (dval a / dval b) \<and> rnd (dval a / dval b) \<le> of_nat 1"
    using assms by (intro rnd_ranged) (simp_all add: divide_le_eq_1)
  then have "0 \<le> rnd (dval a / dval b) * of_nat n" "rnd (dval a / dval b) * of_nat n \<le> of_nat n"
    by (simp_all add: mult_left_le_one_le)
  moreover have "dcoeff b \<noteq> 0" using assms(3) dcoeff_eq_0_iff [of b] by auto
  ultimately show ?thesis using assms(4) rnd_ranged [of "rnd (dval a / dval b) * of_nat n" n]
    dval_ddiv [of b a] by (simp add: ranged_def dval_times)
qed

lemma ten_powi_not_nonpos [simp]: "\<not> (10::rat) powi e \<le> 0"
  by (simp add: not_le)

text \<open>Quantizing keeps a whole bound, and raises only when more than 28 digits are needed.\<close>

lemma quantize_ranged:
  assumes "\<bar>dval a\<bar> \<le> of_nat b" "b * 10 ^ k < 10 ^ 28"
  obtains q where "decimal_quantize a k = Inr q" "\<bar>dval q\<bar> \<le> of_nat b" "0 \<le> dval a \<longrightarrow> 0 \<le> dval q"
    "dval a \<le> 0 \<longrightarrow> dval q \<le> 0"
proof -
  define c where "c = (if - int k \<le> dexp a then dcoeff a * 10 ^ nat (dexp a + int k)
    else rne (dcoeff a) (10 ^ nat (- int k - dexp a)))"
  have abs: "\<bar>dval a\<bar> = of_nat (dcoeff a) * 10 powi dexp a"
    by (simp add: dval_def dsigned_def abs_mult)
  have scaled: "of_nat (dcoeff a) * 10 powi (dexp a + int k) \<le> (of_nat (b * 10 ^ k) :: rat)"
    using mult_right_mono [OF assms(1), of "10 ^ k"] by (simp add: abs ten_powi_add ac_simps)
  have c: "c \<le> b * 10 ^ k"
  proof (cases "- int k \<le> dexp a")
    case True
    then have "of_nat (dcoeff a) * (10::rat) powi (dexp a + int k) = of_nat c"
      by (simp add: c_def ten_powi_nat)
    with scaled show ?thesis by (metis of_nat_le_iff)
  next
    case False
    then have e: "(10::rat) powi (dexp a + int k) = 1 / 10 ^ nat (- int k - dexp a)"
      using ten_powi_neg [of "dexp a + int k"] by (simp add: algebra_simps)
    have "rhe (of_nat (dcoeff a) / of_nat (10 ^ nat (- int k - dexp a))) \<le> int (b * 10 ^ k)"
      using scaled e by (intro rhe_le) simp
    moreover have "rhe (of_nat (dcoeff a) / of_nat (10 ^ nat (- int k - dexp a))) = int c"
      using False rne_rhe [of "10 ^ nat (- int k - dexp a)" "dcoeff a"] by (simp add: c_def)
    ultimately show ?thesis by (metis of_nat_le_iff)
  qed
  let ?q = "Dec (dneg a) c (- int k)"
  have q: "decimal_quantize a k = Inr ?q" using c assms(2) by (simp add: decimal_quantize_def c_def [symmetric] Let_def)
  have "(of_nat c :: rat) * 10 powi (- int k) \<le> of_nat b"
  proof -
    have "(of_nat c :: rat) \<le> of_nat (b * 10 ^ k)" using c by (simp only: of_nat_le_iff)
    then show ?thesis by (simp add: power_int_minus field_simps)
  qed
  then have "\<bar>dval ?q\<bar> \<le> of_nat b" by (simp add: dval_def dsigned_def abs_mult)
  moreover have "0 \<le> dval a \<longrightarrow> 0 \<le> dval ?q" "dval a \<le> 0 \<longrightarrow> dval ?q \<le> 0"
  proof -
    have "c = 0" if "dcoeff a = 0" using that by (simp add: c_def rne_def)
    then show "0 \<le> dval a \<longrightarrow> 0 \<le> dval ?q" "dval a \<le> 0 \<longrightarrow> dval ?q \<le> 0"
      by (auto simp: dval_def dsigned_def mult_le_0_iff zero_le_mult_iff leD)
  qed
  ultimately show thesis using q that by blast
qed

section \<open>Social proof\<close>

lemma decimal_sqrt_nonneg: "\<exists>r. decimal_sqrt (dec n) = Inr r \<and> 0 \<le> dval r"
proof -
  have "0 \<le> dval (dfix False c e)" for c e
    by (simp add: dval_dfix dsigned_def half_even.nonneg)
  then show ?thesis by (simp add: decimal_sqrt_def Let_def)
qed

lemma full_isqrt: "isqrt_loop (600 * 100 ^ 27) (10 ^ 29) = 24494897427831780981972840747"
  by (simp add: isqrt_loop.simps Let_def)

lemma full_root: "decimal_sqrt (dec 600) = Inr (Dec False 2449489742783178098197284075 (- 26))"
proof -
  have "ndigits 600 = 3" "ndigits 24494897427831780981972840747 = 29" by (simp_all add: ndigits.simps)
  with full_isqrt show ?thesis by (simp add: decimal_sqrt_def Let_def dfix_def dround_def rne_def)
qed

lemma social_proof_bounds:
  assumes "0 \<le> n"
  obtains s where "copy_social_proof_score n = Inr s" "ranged 100 s"
proof -
  obtain root where root: "decimal_sqrt (dec (nat n)) = Inr root" "0 \<le> dval root"
    using decimal_sqrt_nonneg by blast
  let ?full = "Dec False 2449489742783178098197284075 (- 26)"
  have full: "0 < dval ?full" by (simp add: dval_def dsigned_def)
  let ?v = "dmin (dec 100) (ddiv root ?full * dec 100)"
  have "0 \<le> dval (ddiv root ?full)"
    using root(2) full dval_ddiv [of ?full root] by (simp add: half_even.nonneg)
  then have v: "ranged 100 ?v" by (intro ranged_dmin) (simp add: dval_times half_even.nonneg)
  then have "\<bar>dval ?v\<bar> \<le> of_nat 100" by (simp add: ranged_def)
  then obtain s where s: "decimal_quantize ?v 6 = Inr s" "\<bar>dval s\<bar> \<le> of_nat 100" "0 \<le> dval ?v \<longrightarrow> 0 \<le> dval s"
    by (rule quantize_ranged) auto
  have "copy_social_proof_score n = Inr s"
    using assms root full s(1) decimal_truediv_ok [of ?full root] by (simp add: copy_social_proof_score_def full_root)
  moreover have "ranged 100 s" using s v by (simp add: ranged_def)
  ultimately show thesis by (rule that)
qed

text \<open>The social proof of a number of copiers is defined for every count that is not negative and lies
  between zero and one hundred, a negative count is refused, and six hundred copiers give the full score.\<close>

theorem social_proof_is_bounded:
  "(copy_social_proof_score n = Inl (ValueError ''copy follower count is invalid'')
      \<or> (\<exists>s. copy_social_proof_score n = Inr s \<and> 0 \<le> dval s \<and> dval s \<le> 100 \<and> 0 \<le> n))
   \<and> copy_social_proof_score 600 = Inr (Dec False 100000000 (- 6))"
proof
  have "ddiv (Dec False 2449489742783178098197284075 (- 26)) (Dec False 2449489742783178098197284075 (- 26)) = dec 1"
    "decimal_quantize (dmin (dec 100) (dec 1 * dec 100)) 6 = Inr (Dec False 100000000 (- 6))" by code_simp+
  then show "copy_social_proof_score 600 = Inr (Dec False 100000000 (- 6))"
    by (simp add: copy_social_proof_score_def full_root decimal_truediv_def)
  show "copy_social_proof_score n = Inl (ValueError ''copy follower count is invalid'')
      \<or> (\<exists>s. copy_social_proof_score n = Inr s \<and> 0 \<le> dval s \<and> dval s \<le> 100 \<and> 0 \<le> n)"
  proof (cases "0 \<le> n")
    case True
    then obtain s where "copy_social_proof_score n = Inr s" "ranged 100 s" by (rule social_proof_bounds)
    with True show ?thesis by (simp add: ranged_def)
  next
    case False then show ?thesis by (simp add: copy_social_proof_score_def)
  qed
qed

section \<open>The deterministic filter\<close>

lemma nonnegative_decimal_nonneg: "nonnegative_decimal v key = Inr x \<Longrightarrow> 0 \<le> dval x"
  by (auto simp: nonnegative_decimal_def decimal_less_val split: if_splits)

lemma bounded_percent_ranged: "bounded_percent v key = Inr x \<Longrightarrow> ranged 100 x"
  by (auto simp: bounded_percent_def ranged_def decimal_less_val dest: nonnegative_decimal_nonneg split: if_splits)

lemma nonnegative_integer_nonneg: "nonnegative_integer v key = Inr i \<Longrightarrow> 0 \<le> i"
  by (auto simp: nonnegative_integer_def split: json.splits if_splits)

text \<open>What the parser of a leader guarantees.\<close>

definition leader_ok :: "leader_snapshot \<Rightarrow> bool" where
  "leader_ok l \<longleftrightarrow> ranged 100 (ls_maximum_drawdown_pct l) \<and> ranged 100 (ls_win_rate_pct l) \<and> 0 \<le> dval (ls_aum_usdt l)
     \<and> 0 \<le> ls_current_copy_count l"

lemma parsed_leader_ok: "leader_snapshot_from_api d = Inr l \<Longrightarrow> leader_ok l"
  by (auto simp: leader_snapshot_from_api_def leader_ok_def
      dest: bounded_percent_ranged nonnegative_decimal_nonneg nonnegative_integer_nonneg)

lemma ranged_sum2: "ranged a x \<Longrightarrow> ranged b y \<Longrightarrow> a + b = c \<Longrightarrow> c \<le> 10 ^ 28 \<Longrightarrow> ranged c (x + y)"
  using ranged_plus by blast

lemma candidate_score_bounds:
  assumes "leader_ok l"
  obtains s where "candidate_score days l = Inr s" "ranged 100 s"
proof -
  obtain social where social: "copy_social_proof_score (ls_current_copy_count l) = Inr social" "ranged 100 social"
    using assms by (auto simp: leader_ok_def elim: social_proof_bounds)
  let ?roi = "ddiv (dmin (dmax (ls_roi_pct l) (dec 0)) (dec 500)) (dec 5)"
  let ?aum = "dmin (dec 100) (ddiv (ls_aum_usdt l) (dec 100000) * dec 100)"
  let ?track = "dmin (dec 100) (ddiv (dec (nat days)) (dec 90) * dec 100)"
  have "0 \<le> dval (dmin (dmax (ls_roi_pct l) (dec 0)) (dec 500))" "dval (dmin (dmax (ls_roi_pct l) (dec 0)) (dec 500)) \<le> 500"
    by (simp_all add: dval_dmin dval_dmax)
  then have roi: "ranged 100 ?roi"
    using dval_ddiv [of "dec 5" "dmin (dmax (ls_roi_pct l) (dec 0)) (dec 500)"]
      rnd_ranged [of "dval (dmin (dmax (ls_roi_pct l) (dec 0)) (dec 500)) / 5" 100] by (simp add: ranged_def)
  have aum: "ranged 100 ?aum"
    using assms dval_ddiv [of "dec 100000" "ls_aum_usdt l"] by (intro ranged_dmin) (simp add: dval_times leader_ok_def half_even.nonneg)
  have track: "ranged 100 ?track"
    using dval_ddiv [of "dec 90" "dec (nat days)"] by (intro ranged_dmin) (simp add: dval_times half_even.nonneg)
  let ?sum = "social * cents 40 + ls_win_rate_pct l * cents 18 + (dec 100 - ls_maximum_drawdown_pct l) * cents 17
    + ?roi * cents 10 + ?aum * cents 6 + ?track * cents 9"
  have sum: "ranged 100 ?sum"
    using assms social(2) roi aum track
    by (intro ranged_sum2 [where a = 91 and b = 9 and c = 100] ranged_sum2 [where a = 85 and b = 6 and c = 91] ranged_sum2 [where a = 75 and b = 10 and c = 85]
        ranged_sum2 [where a = 58 and b = 17 and c = 75] ranged_sum2 [where a = 40 and b = 18 and c = 58] ranged_weight ranged_complement)
      (simp_all add: leader_ok_def)
  then have "\<bar>dval ?sum\<bar> \<le> of_nat 100" by (simp add: ranged_def)
  then obtain s where s: "decimal_quantize ?sum 6 = Inr s" "\<bar>dval s\<bar> \<le> of_nat 100" "0 \<le> dval ?sum \<longrightarrow> 0 \<le> dval s"
    by (rule quantize_ranged) auto
  then have "candidate_score days l = Inr s" by (simp add: candidate_score_def Let_def social(1))
  moreover have "ranged 100 s" using s sum by (simp add: ranged_def)
  ultimately show thesis by (rule that)
qed

text \<open>For every leader the parser accepts, the deterministic assessment is defined, its score lies between
  zero and one hundred, and the leader is eligible exactly when each threshold of the policy is met: win rate,
  drawdown, assets, positive return, length of the track record and number of copiers.\<close>

theorem assessment_is_total_and_bounded:
  assumes "leader_snapshot_from_api d = Inr l"
  shows "\<exists>a. assess_candidate l t p = Inr a \<and> 0 \<le> dval (ca_deterministic_score a) \<and> dval (ca_deterministic_score a) \<le> 100
    \<and> (ca_eligible a \<longleftrightarrow> sp_minimum_win_rate_pct p \<le> ls_win_rate_pct l \<and> ls_maximum_drawdown_pct l \<le> sp_maximum_drawdown_pct p
        \<and> sp_minimum_aum_usdt p \<le> ls_aum_usdt l \<and> 0 < ls_roi_pct l \<and> 0 < ls_pnl_usdt l
        \<and> sp_minimum_track_record_days p \<le> track_record_days t l \<and> sp_minimum_current_copy_count p \<le> ls_current_copy_count l)"
proof -
  obtain s where "candidate_score (track_record_days t l) l = Inr s" "ranged 100 s"
    by (rule candidate_score_bounds [OF parsed_leader_ok [OF assms]])
  then show ?thesis
    by (simp add: assess_candidate_def Let_def ranged_def candidate_reasons_def decimal_le_val decimal_less_val not_less not_le)
qed

section \<open>Objective-specific quality\<close>

text \<open>What a profile of an order history guarantees to the scores.\<close>

definition profile_ok :: "candidate_order_profile \<Rightarrow> bool" where
  "profile_ok p \<longleftrightarrow> (case op_profitable_close_rate_pct p of None \<Rightarrow> True | Some r \<Rightarrow> ranged 100 r)
     \<and> (case op_profit_factor p of None \<Rightarrow> True | Some f \<Rightarrow> 0 \<le> dval f)"

lemma percentage_ranged: "a \<le> n \<Longrightarrow> n \<noteq> 0 \<Longrightarrow> ranged 100 (ddiv (dec a) (dec n) * dec 100)"
  by (rule ranged_share) simp_all

lemma from_orders_ok: "from_orders orders t = Inr p \<Longrightarrow> profile_ok p"
proof -
  assume made: "from_orders orders t = Inr p"
  let ?pnls = "map snd (close_results orders)"
  let ?profits = "filter (\<lambda>p. 0 < p) ?pnls" and ?losses = "filter (\<lambda>p. p < 0) ?pnls"
  let ?n = "length ?profits + length ?losses"
  have rate: "ranged 100 (ddiv (dec (length ?profits)) (dec ?n) * dec 100)" if "?n \<noteq> 0"
    using that by (intro percentage_ranged) simp_all
  have profit: "0 \<le> dval (dsum ?profits)"
    by (rule dsum_nonneg) (auto simp: decimal_less_val)
  have "0 \<le> dval (ddiv (dsum ?profits) g)" if "0 < g" for g
  proof -
    from that have "0 < dval g" by (simp add: decimal_less_val)
    then have "dcoeff g \<noteq> 0" using dcoeff_eq_0_iff [of g] by auto
    then show ?thesis using profit \<open>0 < dval g\<close> by (simp add: dval_ddiv half_even.nonneg)
  qed
  with made rate show ?thesis
    by (auto simp: from_orders_def Let_def profile_ok_def simp del: length_map length_filter_map)
qed

lemma ranged_mono: "ranged a x \<Longrightarrow> a \<le> b \<Longrightarrow> ranged b x"
  by (auto simp: ranged_def intro: order_trans)

lemma ranged_less: "ranged a x \<Longrightarrow> a \<le> b \<Longrightarrow> b \<le> 10 ^ 28 \<Longrightarrow> ranged b (dec b - x)"
  by (blast intro: ranged_complement ranged_mono)

text \<open>A piece of the curve of profit factors: the position between two whole bounds, scaled.\<close>

lemma ranged_piece:
  assumes "of_nat lo \<le> dval v" "dval v \<le> of_nat (lo + w)" "0 < w" "w \<le> 10 ^ 28" "h \<le> 10 ^ 28"
  shows "ranged h (ddiv (v - dec lo) (dec w) * dec h)"
proof (rule ranged_share)
  have "0 \<le> rnd (dval v - of_nat lo) \<and> rnd (dval v - of_nat lo) \<le> of_nat w"
    using assms by (intro rnd_ranged) simp_all
  then show "0 \<le> dval (v - dec lo)" "dval (v - dec lo) \<le> dval (dec w)" by (simp_all add: dval_minus)
qed (use assms in simp_all)

lemma profit_factor_score_ranged: "profile_ok p \<Longrightarrow> ranged 100 (profit_factor_score p)"
proof (cases "op_profit_factor p")
  case None then show ?thesis by (simp add: profit_factor_score_def ranged_def)
next
  case (Some v)
  note le = decimal_le_val [of _ "dec _", simplified]
  consider "v \<le> dec 1" | "\<not> v \<le> dec 1" "v \<le> dec 5" | "\<not> v \<le> dec 1" "\<not> v \<le> dec 5" "v \<le> dec 20"
    | "\<not> v \<le> dec 1" "\<not> v \<le> dec 5" "\<not> v \<le> dec 20" "v \<le> dec 50"
    | "\<not> v \<le> dec 1" "\<not> v \<le> dec 5" "\<not> v \<le> dec 20" "\<not> v \<le> dec 50" by blast
  then show ?thesis
  proof cases
    case 1 with Some show ?thesis by (simp add: profit_factor_score_def ranged_bounded)
  next
    case 2
    have "ranged 70 (ddiv (v - dec 1) (dec 4) * dec 70)" using 2 by (intro ranged_piece) (simp_all add: le)
    from ranged_plus [OF ranged_dec this, of 30 30] 2 Some show ?thesis by (simp add: profit_factor_score_def)
  next
    case 3
    have "ranged 15 (ddiv (v - dec 5) (dec 15) * dec 15)" using 3 by (intro ranged_piece) (simp_all add: le)
    from ranged_less [OF this, of 100] 3 Some show ?thesis by (simp add: profit_factor_score_def)
  next
    case 4
    have "ranged 15 (ddiv (v - dec 20) (dec 30) * dec 15)" using 4 by (intro ranged_piece) (simp_all add: le)
    from ranged_mono [OF ranged_less [OF this, of 85], of 100] 4 Some show ?thesis by (simp add: profit_factor_score_def)
  next
    case 5 with Some show ?thesis by (simp add: profit_factor_score_def ranged_def)
  qed
qed

lemma activity_score_ranged: "ranged 100 (activity_score p)"
  unfolding activity_score_def
  by (intro ranged_sum2 [where a = 80 and b = 20 and c = 100] ranged_sum2 [where a = 60 and b = 20 and c = 80] ranged_sum2 [where a = 35 and b = 25 and c = 60]
      ranged_weight ranged_bounded) simp_all

lemma recent_health_score_ranged: "ranged 100 (recent_health_score p)"
  by (simp add: recent_health_score_def ranged_def)

lemma weighted_score_ranged:
  assumes "profile_ok p" "ranged 100 social"
  shows "ranged 100 (weighted_score obj days l p social)"
proof -
  have rate: "ranged 100 (decimal_or (op_profitable_close_rate_pct p) (dec 0))"
    using assms(1) by (auto simp: decimal_or_def profile_ok_def ranged_def split: option.split)
  note parts = rate ranged_complement [OF ranged_bounded] profit_factor_score_ranged [OF assms(1)] ranged_bounded
    recent_health_score_ranged activity_score_ranged assms(2)
  show ?thesis
  proof (cases obj)
    case OBJ_LONG_TERM
    show ?thesis unfolding OBJ_LONG_TERM weighted_score_def Let_def objective.case
      by (intro ranged_sum2 [where a = 94 and b = 6 and c = 100] ranged_sum2 [where a = 84 and b = 10 and c = 94] ranged_sum2 [where a = 72 and b = 12 and c = 84]
          ranged_sum2 [where a = 62 and b = 10 and c = 72] ranged_sum2 [where a = 50 and b = 12 and c = 62] ranged_sum2 [where a = 35 and b = 15 and c = 50]
          ranged_weight parts) simp_all
  next
    case OBJ_SHORT_TERM_WIN_RATE
    show ?thesis unfolding OBJ_SHORT_TERM_WIN_RATE weighted_score_def Let_def objective.case
      by (intro ranged_sum2 [where a = 96 and b = 4 and c = 100] ranged_sum2 [where a = 89 and b = 7 and c = 96] ranged_sum2 [where a = 81 and b = 8 and c = 89]
          ranged_sum2 [where a = 71 and b = 10 and c = 81] ranged_sum2 [where a = 55 and b = 16 and c = 71] ranged_sum2 [where a = 35 and b = 20 and c = 55]
          ranged_weight parts) simp_all
  next
    case OBJ_SHORT_TERM_INTRADAY
    show ?thesis unfolding OBJ_SHORT_TERM_INTRADAY weighted_score_def Let_def objective.case
      by (intro ranged_sum2 [where a = 94 and b = 6 and c = 100] ranged_sum2 [where a = 90 and b = 4 and c = 94] ranged_sum2 [where a = 84 and b = 6 and c = 90]
          ranged_sum2 [where a = 76 and b = 8 and c = 84] ranged_sum2 [where a = 65 and b = 11 and c = 76] ranged_sum2 [where a = 51 and b = 14 and c = 65]
          ranged_sum2 [where a = 45 and b = 6 and c = 51] ranged_sum2 [where a = 35 and b = 10 and c = 45] ranged_weight parts) simp_all
  qed
qed

lemma recent_penalty_ranged: "ranged 8 (recent_performance_penalty p)"
proof -
  have six: "ranged 6 (dec 0 + dec 6)" using ranged_plus [OF ranged_dec ranged_dec, of 0 0 6 6] by simp
  have "ranged 8 (x + dec 2)" if "ranged 6 x" for x using ranged_plus [OF that ranged_dec, of 2 2] by simp
  with six show ?thesis unfolding recent_performance_penalty_def Let_def
    by (auto intro: ranged_mono ranged_dec)
qed

lemma trend_penalty_ranged: "ranged 29 (trend_penalty trend)"
proof (cases trend)
  case None then show ?thesis by (simp add: trend_penalty_def ranged_def)
next
  case (Some t)
  have step: "ranged (a + b) (if c then x + dmin (dec b) y else x)"
    if "ranged a x" "c \<Longrightarrow> 0 \<le> dval y" "a + b \<le> 10 ^ 28" for a b c x y
    using that ranged_plus [OF that(1) ranged_dmin [OF that(2)]] ranged_mono [OF that(1), of "a + b"] by simp
  let ?p1 = "if tr_roi_change_pct t < 0 then dec 0 + dmin (dec 12) ((- tr_roi_change_pct t) * Dec False 6 (- 1)) else dec 0"
  let ?p2 = "if 0 < tr_maximum_drawdown_change_points t then ?p1 + dmin (dec 12) (tr_maximum_drawdown_change_points t * dec 2) else ?p1"
  have tenth: "0 \<le> dval (Dec False n (- 1))" for n by (simp add: dval_def dsigned_def)
  have neg: "0 \<le> dval (- x)" if "x \<le> 0" for x
    using that by (simp add: dval_uminus decimal_le_val half_even.nonpos)
  have "ranged (0 + 12) ?p1"
  proof (rule step)
    assume "tr_roi_change_pct t < 0"
    then show "0 \<le> dval (- tr_roi_change_pct t * Dec False 6 (- 1))"
      using neg [of "tr_roi_change_pct t"] tenth [of 6] by (simp add: dval_times decimal_less_val decimal_le_val half_even.nonneg)
  qed (simp_all add: ranged_def)
  then have "ranged (0 + 12 + 12) ?p2"
    by (rule step) (simp_all add: dval_times decimal_less_val half_even.nonneg)
  then have "ranged (0 + 12 + 12 + 5) (if tr_aum_change_pct t < Dec True 20 0
      then ?p2 + dmin (dec 5) ((- tr_aum_change_pct t - dec 20) * Dec False 1 (- 1)) else ?p2)"
  proof (rule step)
    assume "tr_aum_change_pct t < Dec True 20 0"
    then have "dval (tr_aum_change_pct t) \<le> - 20" by (simp add: decimal_less_val dval_def dsigned_def)
    then have "20 \<le> - rnd (dval (tr_aum_change_pct t))"
      using half_even.le_exact [of "dval (tr_aum_change_pct t)" "- 20"] whole_exact [of 20] exact28_minus [of 20] by simp
    then have "0 \<le> dval (- tr_aum_change_pct t - dec 20)" by (simp add: dval_minus dval_uminus half_even.nonneg)
    then show "0 \<le> dval ((- tr_aum_change_pct t - dec 20) * Dec False 1 (- 1))"
      using tenth [of 1] by (simp add: dval_times half_even.nonneg)
  qed simp_all
  then show ?thesis using Some by (simp add: trend_penalty_def Let_def)
qed

lemma rnd_at_least: "- of_nat b \<le> x \<Longrightarrow> b \<le> 10 ^ 28 \<Longrightarrow> - of_nat b \<le> rnd x"
  using half_even.ge_exact [of "- of_nat b" x] whole_exact [of b] exact28_minus [of "of_nat b"] by simp

lemma minus_ranged:
  assumes "- of_nat a \<le> dval x" "dval x \<le> 100" "ranged b y" "a + b \<le> 10 ^ 28"
  shows "- of_nat (a + b) \<le> dval (x - y)" "dval (x - y) \<le> 100"
  using assms rnd_at_least [of "a + b" "dval x - dval y"] half_even.le_exact [of "dval x - dval y" 100] whole_exact [of 100]
  by (simp_all add: dval_minus ranged_def)

lemma selection_score_bounds:
  assumes "leader_ok l" "profile_ok p"
  obtains s where "selection_score obj days l p trend = Inr s" "- 37 \<le> dval s" "dval s \<le> 100"
proof -
  obtain social where social: "copy_social_proof_score (ls_current_copy_count l) = Inr social" "ranged 100 social"
    using assms by (auto simp: leader_ok_def elim: social_proof_bounds)
  let ?w = "weighted_score obj days l p social - trend_penalty trend"
  let ?v = "if short_term obj then ?w - recent_performance_penalty p else ?w"
  have w: "- of_nat (0 + 29) \<le> dval ?w" "dval ?w \<le> 100"
    using minus_ranged [OF _ _ trend_penalty_ranged, where a = 0 and x = "weighted_score obj days l p social"]
      weighted_score_ranged [OF assms(2) social(2), of obj days l] by (simp_all add: ranged_def)
  then have v: "- 37 \<le> dval ?v" "dval ?v \<le> 100"
    using minus_ranged [OF w recent_penalty_ranged, of p] by auto
  show thesis
  proof (cases "0 \<le> dval ?v")
    case True
    then have "\<bar>dval ?v\<bar> \<le> of_nat 100" using v by simp
    then obtain s where "decimal_quantize ?v 6 = Inr s" "\<bar>dval s\<bar> \<le> of_nat 100" "0 \<le> dval ?v \<longrightarrow> 0 \<le> dval s"
      by (rule quantize_ranged) auto
    with True show ?thesis by (intro that [of s]) (auto simp: selection_score_def social(1) Let_def)
  next
    case False
    then have "\<bar>dval ?v\<bar> \<le> of_nat 37" using v by simp
    then obtain s where "decimal_quantize ?v 6 = Inr s" "\<bar>dval s\<bar> \<le> of_nat 37"
      by (rule quantize_ranged) auto
    then show ?thesis by (intro that [of s]) (auto simp: selection_score_def social(1) Let_def)
  qed
qed

text \<open>For every parsed leader, every profile computed from an order history and each of the three objectives,
  the quality assessment is defined: its score lies between minus thirty-seven (the largest penalties) and one
  hundred, its reason codes are distinct and the leader is eligible exactly when there is none, and full
  confidence is granted only to a track record of forty-five days with a known trend and no warning.\<close>

theorem quality_is_total_and_bounded:
  assumes "leader_snapshot_from_api d = Inr l" "from_orders orders observed = Inr p" "0 < t"
  shows "\<exists>a. assess_selection_quality l p (objective_value obj) t trend = Inr a
    \<and> - 37 \<le> dval (qa_score a) \<and> dval (qa_score a) \<le> 100
    \<and> distinct (qa_reason_codes a) \<and> (qa_eligible a \<longleftrightarrow> qa_reason_codes a = [])
    \<and> (qa_confidence_cap a = ''HIGH'' \<longleftrightarrow> 45 \<le> qa_track_record_days a \<and> trend \<noteq> None \<and> qa_warning_codes a = [])"
proof -
  note l = parsed_leader_ok [OF assms(1)] and p = from_orders_ok [OF assms(2)]
  obtain s where s: "selection_score obj (track_record_days t l) l p trend = Inr s" "- 37 \<le> dval s" "dval s \<le> 100"
    by (rule selection_score_bounds [OF l p])
  obtain social where social: "copy_social_proof_score (ls_current_copy_count l) = Inr social" "ranged 100 social"
    using l by (auto simp: leader_ok_def elim: social_proof_bounds)
  have obj: "objective_of (objective_value obj) = Some obj" by (cases obj) (simp_all add: objective_of_def)
  show ?thesis using s assms(3)
    by (auto simp: assess_selection_quality_def obj social(1) Let_def confidence_cap_def)
qed

section \<open>Order profiles\<close>

lemma partition3:
  assumes "\<And>x. x \<in> set xs \<Longrightarrow> (P x \<or> Q x \<or> R x) \<and> \<not> (P x \<and> Q x) \<and> \<not> (P x \<and> R x) \<and> \<not> (Q x \<and> R x)"
  shows "length (filter P xs) + length (filter Q xs) + length (filter R xs) = length xs"
  using assms by (induction xs) auto

lemma filter_length_mono: "(\<And>x. P x \<Longrightarrow> Q x) \<Longrightarrow> length (filter P xs) \<le> length (filter Q xs)"
  by (induction xs) (auto simp: le_SucI)

lemma losing_runs_bounds:
  "longest \<le> losing_runs xs longest k" "k \<le> longest \<Longrightarrow> losing_runs xs longest k \<le> longest + length (filter (\<lambda>x. x < 0) xs)"
proof (induction xs arbitrary: longest k)
  case (Cons x xs)
  { case 1 show ?case using Cons(1) [of "max longest (k + 1)" "k + 1"] Cons(1) [of longest 0] by (auto intro: order_trans) }
  { case 2 show ?case using 2 Cons(2) [of "k + 1" "max longest (k + 1)"] Cons(2) [of 0 longest] by (auto simp: max_def split: if_splits) }
qed simp_all

text \<open>The profile of an order history accounts for every order: each is an increase, a reduction or of an
  unknown side, each reduction is profitable, losing or break-even; the windows of one, three and seven days are
  nested; a run of losses is no longer than the number of losses; and at most as many days are active as there
  are orders in the last week.\<close>

theorem profile_accounts:
  assumes "from_orders orders observed = Inr p"
  shows "op_increase_count p + op_reduction_count p + op_ambiguous_position_side_count p = op_order_count p
    \<and> op_order_count p = length orders
    \<and> op_profitable_close_count p + op_losing_close_count p + op_breakeven_close_count p = op_reduction_count p
    \<and> op_orders_1d p \<le> op_orders_3d p \<and> op_orders_3d p \<le> op_orders_7d p \<and> op_orders_7d p \<le> op_order_count p
    \<and> op_maximum_consecutive_losing_closes p \<le> op_losing_close_count p \<and> op_active_days_7d p \<le> op_orders_7d p"
proof -
  let ?closes = "close_results orders"
  have sides: "length (filter (\<lambda>o0. explicit_side o0 \<and> order_increases o0) orders) + length ?closes
      + length (filter (\<lambda>o0. \<not> explicit_side o0) orders) = length orders"
    unfolding close_results_def length_map by (rule partition3) auto
  have signs: "length (filter (\<lambda>p. 0 < p) (map snd ?closes)) + length (filter (\<lambda>p. p < 0) (map snd ?closes))
      + length (filter (\<lambda>p. deq p 0) (map snd ?closes)) = length (map snd ?closes)"
    by (rule partition3) (auto simp: decimal_less_val deq_val)
  have sorted: "length (filter (\<lambda>x. x < 0) (map snd (sort_key (\<lambda>(t, p). (t, dval p)) ?closes)))
      = length (filter (\<lambda>p. p < 0) (map snd ?closes))"
    by (metis (no_types, lifting) mset_filter mset_map mset_sort size_mset)
  note runs = losing_runs_bounds(2) [of 0 0 "map snd (sort_key (\<lambda>(t, p). (t, dval p)) ?closes)"]
  have windows: "length (filter (\<lambda>o0. a - d * 86400000 \<le> po_update_time_ms o0) orders)
      \<le> length (filter (\<lambda>o0. a - e * 86400000 \<le> po_update_time_ms o0) orders)" if "d \<le> e" for a d e
    using that by (intro filter_length_mono) auto
  have days: "length (remdups dates) \<le> length xs" if "rmap f xs = Inr dates" for f and xs :: "public_leader_order list" and dates :: "int list"
    using rmap_eq_Inr_length [OF that] length_remdups_leq [of dates] by simp
  from assms obtain a dates where dates: "rmap (\<lambda>o0. date_of_ms (po_update_time_ms o0))
        (filter (\<lambda>o0. a - 7 * 86400000 \<le> po_update_time_ms o0) orders) = Inr dates"
    and p: "op_increase_count p = length (filter (\<lambda>o0. explicit_side o0 \<and> order_increases o0) orders)"
      "op_reduction_count p = length ?closes" "op_ambiguous_position_side_count p = length (filter (\<lambda>o0. \<not> explicit_side o0) orders)"
      "op_order_count p = length orders" "op_profitable_close_count p = length (filter (\<lambda>p. 0 < p) (map snd ?closes))"
      "op_losing_close_count p = length (filter (\<lambda>p. p < 0) (map snd ?closes))"
      "op_breakeven_close_count p = length (filter (\<lambda>p. deq p 0) (map snd ?closes))"
      "op_orders_1d p = length (filter (\<lambda>o0. a - 1 * 86400000 \<le> po_update_time_ms o0) orders)"
      "op_orders_3d p = length (filter (\<lambda>o0. a - 3 * 86400000 \<le> po_update_time_ms o0) orders)"
      "op_orders_7d p = length (filter (\<lambda>o0. a - 7 * 86400000 \<le> po_update_time_ms o0) orders)"
      "op_maximum_consecutive_losing_closes p = losing_runs (map snd (sort_key (\<lambda>(t, p). (t, dval p)) ?closes)) 0 0"
      "op_active_days_7d p = length (remdups dates)"
    unfolding from_orders_def Let_def by (elim rbind_eq_Inr [THEN iffD1, elim_format]) (auto)
  show ?thesis unfolding p using sides signs runs sorted windows [of 1 3 a] windows [of 3 7 a] days [OF dates] by auto
qed

section \<open>Admission of the structured answer\<close>


section \<open>Concrete candidates\<close>

definition sample_leader_document :: document where
  "sample_leader_document = [(''leadPortfolioId'', JStr ''1234567890''), (''nickname'', JStr ''steady''), (''portfolioType'', JStr ''PUBLIC''),
    (''roi'', JStr ''40''), (''pnl'', JStr ''5000''), (''aum'', JStr ''50000''), (''mdd'', JStr ''10''), (''winRate'', JStr ''60''),
    (''currentCopyCount'', JInt 150), (''maxCopyCount'', JInt 300), (''startTime'', JInt 1)]"

lemma sample_leader_fields:
  "required_string sample_leader_document ''leadPortfolioId'' = Inr ''1234567890''" "leader_id_ok ''1234567890''"
  "required_string sample_leader_document ''nickname'' = Inr ''steady''"
  "required_string sample_leader_document ''portfolioType'' = Inr ''PUBLIC''" "doc_get sample_leader_document ''sharpRatio'' = JNull"
  "decimal_field (doc_get sample_leader_document ''roi'') ''roi'' = Inr (dec 40)"
  "decimal_field (doc_get sample_leader_document ''pnl'') ''pnl'' = Inr (dec 5000)"
  "nonnegative_decimal (doc_get sample_leader_document ''aum'') ''aum'' = Inr (dec 50000)"
  "bounded_percent (doc_get sample_leader_document ''mdd'') ''mdd'' = Inr (dec 10)"
  "bounded_percent (doc_get sample_leader_document ''winRate'') ''winRate'' = Inr (dec 60)"
  "nonnegative_integer (doc_get sample_leader_document ''currentCopyCount'') ''currentCopyCount'' = Inr 150"
  "nonnegative_integer (doc_get sample_leader_document ''maxCopyCount'') ''maxCopyCount'' = Inr 300"
  "positive_integer (doc_get sample_leader_document ''startTime'') ''startTime'' = Inr 1"
  by code_simp+

lemma sample_leader_parses: "\<exists>l. leader_snapshot_from_api sample_leader_document = Inr l \<and> ls_start_time_ms l = 1"
  by (simp add: leader_snapshot_from_api_def sample_leader_fields)

theorem assessment_is_total_and_bounded_witness:
  "\<exists>l a. leader_snapshot_from_api sample_leader_document = Inr l \<and> assess_candidate l 864000001 default_selection_policy = Inr a
     \<and> 0 \<le> dval (ca_deterministic_score a)"
proof -
  obtain l where "leader_snapshot_from_api sample_leader_document = Inr l" using sample_leader_parses by blast
  with assessment_is_total_and_bounded [OF this, of 864000001 default_selection_policy] show ?thesis by blast
qed

definition sample_close_order :: public_leader_order where
  "sample_close_order = \<lparr>po_lead_portfolio_id = ''1234567890'', po_symbol = ''BTCUSDT'', po_position_side = SRC_LONG, po_order_side = SELL,
     po_order_type = ''MARKET'', po_executed_quantity = dec 1, po_average_price = dec 100, po_total_pnl = dec 7,
     po_order_time_ms = 900, po_update_time_ms = 1000, po_identity_key = ''i'', po_event_key = ''e'', po_raw_payload_hash = ''h''\<rparr>"

lemma sample_profile: "\<exists>p. from_orders [sample_close_order] (Some 2000) = Inr p"
  by (simp add: from_orders_def Let_def date_of_ms_def sample_close_order_def)

theorem profile_accounts_witness:
  "\<exists>p. from_orders [sample_close_order] (Some 2000) = Inr p \<and> op_order_count p = 1 \<and> op_active_days_7d p \<le> op_orders_7d p"
proof -
  obtain p where p: "from_orders [sample_close_order] (Some 2000) = Inr p" using sample_profile by blast
  with profile_accounts [OF p] show ?thesis by auto
qed

theorem quality_is_total_and_bounded_witness:
  "\<exists>l p a. leader_snapshot_from_api sample_leader_document = Inr l \<and> from_orders [sample_close_order] (Some 2000) = Inr p
     \<and> assess_selection_quality l p ''LONG_TERM'' 2000 None = Inr a \<and> dval (qa_score a) \<le> 100"
proof -
  obtain l where l: "leader_snapshot_from_api sample_leader_document = Inr l" using sample_leader_parses by blast
  obtain p where p: "from_orders [sample_close_order] (Some 2000) = Inr p" using sample_profile by blast
  from quality_is_total_and_bounded [OF l p, of 2000 OBJ_LONG_TERM None] l p show ?thesis by auto
qed

definition sample_reviewer :: codex_reviewer where
  "sample_reviewer = \<lparr>cx_run = (\<lambda>_ _ _. Some (JObj [(''selected_leader_ids'', JArr [JStr ''1234567890'']),
       (''decisions'', JArr [JObj [(''lead_portfolio_id'', JStr ''1234567890''), (''confidence'', JStr ''LOW'')]])])),
     cx_schema_valid = (\<lambda>_. True)\<rparr>"

definition sample_candidates :: "document list" where
  "sample_candidates = [[(''lead_portfolio_id'', JStr ''1234567890''),
     (''objective_quality'', JObj [(''LONG_TERM'', JObj [(''confidence_cap'', JStr ''MEDIUM'')])])]]"


end
