(* ===== verification/Automation.thy ===== *)
theory Automation
  imports Clock Computations
begin

text \<open>
  \<open>automation/engine.py\<close> and \<open>automation/runner.py\<close>: the engine that validates fully specified trade intents
  and hands them to an execution adapter, and the runner that polls for them. The gate, the execution adapter,
  the sources of snapshots and intents and the sink of outcomes are parameters; each may raise.
\<close>

section \<open>Intents, snapshots and limits\<close>

datatype automation_environment = PAPER | AUTOMATION_TESTNET

datatype intent_action = OPEN | INTENT_INCREASE | CLOSE | REVERSE

datatype trade_side = SIDE_LONG | SIDE_SHORT

record automatic_trade_intent =
  it_intent_id :: string
  it_decision_version :: string
  it_evidence_hash :: string
  it_created_at :: datetime
  it_expires_at :: datetime
  it_environment :: automation_environment
  it_symbol :: string
  it_action :: intent_action
  it_side :: trade_side
  it_quantity :: decimal
  it_entry_assumption :: decimal
  it_stop_trigger :: decimal
  it_target_trigger :: decimal
  it_gross_edge_bps :: decimal

record automation_snapshot =
  as_observed_at :: datetime
  as_open_positions :: int
  as_daily_net_pnl :: decimal
  as_emergency_stop :: bool

record automation_limits =
  al_maximum_intents_per_cycle :: int
  al_maximum_parallel_positions :: int
  al_daily_net_loss_limit :: decimal
  al_maximum_intent_age :: int

definition automation_limits_check :: "automation_limits \<Rightarrow> automation_limits result" where
  "automation_limits_check l =
    rbind (require (1 \<le> al_maximum_intents_per_cycle l \<and> al_maximum_intents_per_cycle l \<le> 10)
      (ValueError ''automatic intent count must be within [1,10]'')) (\<lambda>_.
    rbind (require (1 \<le> al_maximum_parallel_positions l \<and> al_maximum_parallel_positions l \<le> 10)
      (ValueError ''automatic position count must be within [1,10]'')) (\<lambda>_.
    rbind (require (\<not> al_daily_net_loss_limit l \<le> 0) (ValueError ''daily loss limit must be positive'')) (\<lambda>_.
    rbind (require (seconds 1 \<le> al_maximum_intent_age l \<and> al_maximum_intent_age l \<le> minutes 10)
      (ValueError ''automatic intent age is outside the supported range'')) (\<lambda>_. Inr l))))"

record gate_decision =
  gd_approved :: bool
  gd_reason_codes :: "string list"

record execution_receipt =
  er_accepted :: bool
  er_reference_id :: "string option"
  er_reason_codes :: "string list"

record automatic_trade_outcome =
  ao_intent_id :: string
  ao_submitted :: bool
  ao_reference_id :: "string option"
  ao_reason_codes :: "string list"

section \<open>The engine\<close>

text \<open>
  The engine keeps the identifiers it has handed to the executor; \<open>en_submissions\<close> lists what was handed over,
  newest first, with the snapshot, the time and the projected positions it was decided on.
\<close>

record submission =
  sb_intent :: automatic_trade_intent
  sb_snapshot :: automation_snapshot
  sb_now :: datetime
  sb_projected :: int

record 'x engine =
  en_processed :: "string list"
  en_submissions :: "submission list"
  en_outside :: 'x

record 'x adapters =
  ad_evaluate :: "automatic_trade_intent \<Rightarrow> automation_snapshot \<Rightarrow> ('x, gate_decision) comp"
  ad_submit :: "automatic_trade_intent \<Rightarrow> ('x, execution_receipt) comp"

definition in_engine :: "('x, 'a) comp \<Rightarrow> ('x engine, 'a) comp" where
  "in_engine f = (\<lambda>e. case f (en_outside e) of (r, x) \<Rightarrow> (r, e\<lparr>en_outside := x\<rparr>))"

definition automation_require_utc :: "datetime \<Rightarrow> string \<Rightarrow> unit result" where
  "automation_require_utc t label = require (is_utc t) (ValueError (label @ '' must be timezone-aware UTC''))"

definition rejected :: "automatic_trade_intent \<Rightarrow> string list \<Rightarrow> automatic_trade_outcome" where
  "rejected intent reasons = \<lparr>ao_intent_id = it_intent_id intent, ao_submitted = False, ao_reference_id = None, ao_reason_codes = reasons\<rparr>"

definition natively_protected :: "automatic_trade_intent \<Rightarrow> bool" where
  "natively_protected i \<longleftrightarrow> (case it_side i of
     SIDE_LONG \<Rightarrow> it_stop_trigger i < it_entry_assumption i \<and> it_entry_assumption i < it_target_trigger i
   | SIDE_SHORT \<Rightarrow> it_target_trigger i < it_entry_assumption i \<and> it_entry_assumption i < it_stop_trigger i)"

definition intent_times_valid :: "automatic_trade_intent \<Rightarrow> bool" where
  "intent_times_valid i \<longleftrightarrow> is_utc (it_created_at i) \<and> is_utc (it_expires_at i)"

definition elapsed :: "datetime \<Rightarrow> datetime \<Rightarrow> int" where
  "elapsed later_time earlier_time = dt_instant later_time - dt_instant earlier_time"

definition validate_intent ::
  "automation_limits \<Rightarrow> string list \<Rightarrow> automatic_trade_intent \<Rightarrow> automation_snapshot \<Rightarrow> datetime \<Rightarrow> string list \<Rightarrow> int \<Rightarrow> string list" where
  "validate_intent l processed i s now seen projected =
    (if \<not> intent_times_valid i then [''AUTOMATION_TIME_INVALID''] else [])
    @ (if it_intent_id i = [] \<or> it_intent_id i \<in> set processed \<or> it_intent_id i \<in> set seen
       then [''AUTOMATION_INTENT_DUPLICATE''] else [])
    @ (if it_decision_version i = [] \<or> length (it_evidence_hash i) \<noteq> 64 then [''AUTOMATION_DECISION_EVIDENCE_INVALID''] else [])
    @ (if drop (length (it_symbol i) - 4) (it_symbol i) \<noteq> ''USDT'' \<or> \<not> isalnum (it_symbol i) then [''AUTOMATION_SYMBOL_INVALID''] else [])
    @ (if dmin (dmin (dmin (it_quantity i) (it_entry_assumption i)) (it_stop_trigger i)) (it_target_trigger i) \<le> 0
       then [''AUTOMATION_PRICE_OR_QUANTITY_INVALID''] else [])
    @ (if \<not> natively_protected i then [''AUTOMATION_NATIVE_PROTECTION_INVALID''] else [])
    @ (if intent_times_valid i then
         (if elapsed (it_expires_at i) (it_created_at i) \<le> 0 \<or> 0 < elapsed now (it_expires_at i) then [''AUTOMATION_INTENT_EXPIRED''] else [])
         @ (if al_maximum_intent_age l < elapsed now (it_created_at i) then [''AUTOMATION_INTENT_STALE''] else [])
       else [])
    @ (if 0 < elapsed (as_observed_at s) now \<or> al_maximum_intent_age l < elapsed now (as_observed_at s)
       then [''AUTOMATION_SNAPSHOT_STALE''] else [])
    @ (if as_emergency_stop s then [''AUTOMATION_EMERGENCY_STOP''] else [])
    @ (if as_daily_net_pnl s \<le> - al_daily_net_loss_limit l then [''AUTOMATION_DAILY_LOSS_LIMIT''] else [])
    @ (if it_action i \<in> {OPEN, INTENT_INCREASE} \<and> al_maximum_parallel_positions l \<le> projected then [''AUTOMATION_POSITION_LIMIT''] else [])"

text \<open>The identifier is marked before the adapter is called, so an uncertain response cannot repeat it.\<close>

definition mark_processed :: "automatic_trade_intent \<Rightarrow> automation_snapshot \<Rightarrow> datetime \<Rightarrow> int \<Rightarrow> ('x engine, unit) comp" where
  "mark_processed i s now projected = (\<lambda>e. (Inr (), e\<lparr>en_processed := it_intent_id i # en_processed e,
     en_submissions := \<lparr>sb_intent = i, sb_snapshot = s, sb_now = now, sb_projected = projected\<rparr> # en_submissions e\<rparr>))"

definition project :: "intent_action \<Rightarrow> int \<Rightarrow> int" where
  "project action projected = (case action of OPEN \<Rightarrow> projected + 1 | REVERSE \<Rightarrow> projected + 0
     | CLOSE \<Rightarrow> max 0 (projected - 1) | INTENT_INCREASE \<Rightarrow> projected)"

text \<open>One intent: its outcome and the projected positions after it.\<close>

definition process_intent ::
  "automation_limits \<Rightarrow> 'x adapters \<Rightarrow> automation_snapshot \<Rightarrow> datetime \<Rightarrow> string list \<Rightarrow> int \<Rightarrow> automatic_trade_intent
     \<Rightarrow> ('x engine, automatic_trade_outcome \<times> int) comp" where
  "process_intent l A s now seen projected i = (\<lambda>e.
    let validation = validate_intent l (en_processed e) i s now seen projected in
    (if validation \<noteq> [] then ret (rejected i validation, projected)
     else andThen (in_engine (ad_evaluate A i s)) (\<lambda>gate.
       if \<not> gd_approved gate
       then ret (rejected i (if gd_reason_codes gate = [] then [''AUTOMATION_GATE_DENIED''] else gd_reason_codes gate), projected)
       else andThen (mark_processed i s now projected) (\<lambda>_.
         andThen (in_engine (ad_submit A i)) (\<lambda>receipt.
         ret (\<lparr>ao_intent_id = it_intent_id i, ao_submitted = er_accepted receipt, ao_reference_id = er_reference_id receipt,
             ao_reason_codes = er_reason_codes receipt\<rparr>, if er_accepted receipt then project (it_action i) projected else projected))))) e)"

fun process_intents ::
  "automation_limits \<Rightarrow> 'x adapters \<Rightarrow> automation_snapshot \<Rightarrow> datetime \<Rightarrow> automatic_trade_intent list \<Rightarrow> string list \<Rightarrow> int
     \<Rightarrow> ('x engine, automatic_trade_outcome list) comp" where
  "process_intents l A s now [] seen projected = ret []"
| "process_intents l A s now (i # is) seen projected =
    andThen (process_intent l A s now seen projected i) (\<lambda>(outcome, projected').
    andThen (process_intents l A s now is (it_intent_id i # seen) projected') (\<lambda>outcomes. ret (outcome # outcomes)))"

definition process_cycle ::
  "automation_limits \<Rightarrow> 'x adapters \<Rightarrow> automatic_trade_intent list \<Rightarrow> automation_snapshot \<Rightarrow> datetime
     \<Rightarrow> ('x engine, automatic_trade_outcome list) comp" where
  "process_cycle l A is s now =
    andThen (lift (automation_require_utc now ''cycle time'')) (\<lambda>_.
    andThen (lift (automation_require_utc (as_observed_at s) ''snapshot time'')) (\<lambda>_.
    if al_maximum_intents_per_cycle l < int (length is) then ret (map (\<lambda>i. rejected i [''AUTOMATION_CYCLE_INTENT_LIMIT'']) is)
    else process_intents l A s now is [] (as_open_positions s)))"

definition new_engine :: "string list \<Rightarrow> 'x \<Rightarrow> 'x engine" where
  "new_engine processed x = \<lparr>en_processed = processed, en_submissions = [], en_outside = x\<rparr>"

section \<open>The runner\<close>

record 'x sources =
  so_capture :: "datetime \<Rightarrow> ('x, automation_snapshot) comp"
  so_fetch :: "automation_snapshot \<Rightarrow> datetime \<Rightarrow> ('x, automatic_trade_intent list) comp"
  so_record :: "automation_snapshot \<Rightarrow> automatic_trade_outcome list \<Rightarrow> datetime \<Rightarrow> ('x, unit) comp"
  so_stop_requested :: "('x, bool) comp"
  so_sleep :: "int \<Rightarrow> ('x, unit) comp"
  so_utc_now :: "('x, datetime) comp"

definition automation_cycle ::
  "automation_limits \<Rightarrow> 'x adapters \<Rightarrow> 'x sources \<Rightarrow> datetime \<Rightarrow> ('x engine, automatic_trade_outcome list) comp" where
  "automation_cycle l A S now =
    andThen (lift (require (is_utc now) (ValueError ''runner time must be timezone-aware UTC''))) (\<lambda>_.
    andThen (in_engine (so_capture S now)) (\<lambda>s.
    andThen (in_engine (so_fetch S s now)) (\<lambda>is.
    andThen (process_cycle l A is s now) (\<lambda>outcomes.
    andThen (in_engine (so_record S s outcomes now)) (\<lambda>_. ret outcomes)))))"

text \<open>
  \<open>while not stop_requested()\<close> with fuel for the number of turns: \<open>None\<close> when the fuel runs out, else what the
  loop leaves when it stops or raises.
\<close>

fun run_loop ::
  "nat \<Rightarrow> automation_limits \<Rightarrow> 'x adapters \<Rightarrow> 'x sources \<Rightarrow> int \<Rightarrow> 'x engine \<Rightarrow> (unit result \<times> 'x engine) option" where
  "run_loop 0 l A S interval_seconds e = None"
| "run_loop (Suc n) l A S interval_seconds e = (case in_engine (so_stop_requested S) e of
     (Inl x, e1) \<Rightarrow> Some (Inl x, e1)
   | (Inr True, e1) \<Rightarrow> Some (Inr (), e1)
   | (Inr False, e1) \<Rightarrow>
     (case andThen (in_engine (so_utc_now S)) (\<lambda>now.
           andThen (automation_cycle l A S now) (\<lambda>_.
           andThen (in_engine (so_stop_requested S)) (\<lambda>stop.
           if stop then ret () else in_engine (so_sleep S interval_seconds)))) e1 of
        (Inl x, e2) \<Rightarrow> Some (Inl x, e2)
      | (Inr _, e2) \<Rightarrow> run_loop n l A S interval_seconds e2))"

definition run_forever ::
  "nat \<Rightarrow> automation_limits \<Rightarrow> 'x adapters \<Rightarrow> 'x sources \<Rightarrow> int \<Rightarrow> 'x engine \<Rightarrow> (unit result \<times> 'x engine) option" where
  "run_forever fuel l A S interval_seconds e =
    (if \<not> (1 \<le> interval_seconds \<and> interval_seconds \<le> 3600)
     then Some (Inl (ValueError ''automatic evaluation interval must be within [1,3600] seconds''), e)
     else run_loop fuel l A S interval_seconds e)"

section \<open>What the engine keeps\<close>

text \<open>
  A property of the engine that survives changes outside and the marking of a validated intent is kept by every
  operation, whatever the adapters do and whether they return or raise.
\<close>

locale engine_property =
  fixes I :: "'x engine \<Rightarrow> bool" and l :: automation_limits
  assumes outside: "I e \<Longrightarrow> I (e\<lparr>en_outside := x\<rparr>)"
    and mark: "I e \<Longrightarrow> is_utc now \<Longrightarrow> is_utc (as_observed_at s) \<Longrightarrow> validate_intent l (en_processed e) i s now seen projected = []
      \<Longrightarrow> I (snd (mark_processed i s now projected e))"
begin

lemma keeps_in_engine: "rkeeps I (in_engine f)"
  by (simp add: rkeeps_def in_engine_def outside split: prod.split)

lemma keeps_process_intent:
  assumes "is_utc now" "is_utc (as_observed_at s)"
  shows "rkeeps I (process_intent l A s now seen projected i)"
  unfolding rkeeps_def
proof (intro allI impI)
  fix e assume I: "I e"
  show "I (snd (process_intent l A s now seen projected i e))"
  proof (cases "validate_intent l (en_processed e) i s now seen projected = []")
    case False then show ?thesis using I by (simp add: process_intent_def ret_def)
  next
    case True
    obtain g x where gate: "ad_evaluate A i s (en_outside e) = (g, x)" by fastforce
    let ?e = "e\<lparr>en_outside := x\<rparr>"
    have e: "I ?e" using I by (rule outside)
    have marked: "I (snd (mark_processed i s now projected ?e))"
      using assms True by (intro mark [OF e]) simp_all
    obtain r y where submit: "ad_submit A i x = (r, y)" by fastforce
    show ?thesis using gate submit True e outside [OF marked, of y]
      by (auto simp: process_intent_def Let_def andThen_def in_engine_def mark_processed_def ret_def split: sum.split)
  qed
qed

lemma keeps_process_intents:
  assumes "is_utc now" "is_utc (as_observed_at s)"
  shows "rkeeps I (process_intents l A s now is seen projected)"
proof (induction "is" arbitrary: seen projected)
  case (Cons i "is")
  then show ?case by (auto intro!: rkeeps_intros keeps_process_intent [OF assms])
qed (simp add: rkeeps_intros)

lemma keeps_process_cycle: "rkeeps I (process_cycle l A is s now)"
  unfolding process_cycle_def automation_require_utc_def
  by (intro rkeeps_andThen_of rkeeps_lift rkeeps_if rkeeps_ret keeps_process_intents) (auto simp: lift_def)

lemma keeps_automation_cycle: "rkeeps I (automation_cycle l A S now)"
  unfolding automation_cycle_def by (intro rkeeps_intros keeps_in_engine keeps_process_cycle)

lemma keeps_run_loop: "I e \<Longrightarrow> run_loop n l A S t e = Some (r, e') \<Longrightarrow> I e'"
proof (induction n arbitrary: e)
  case (Suc n)
  let ?turn = "andThen (in_engine (so_utc_now S)) (\<lambda>now. andThen (automation_cycle l A S now) (\<lambda>_.
    andThen (in_engine (so_stop_requested S)) (\<lambda>stop. if stop then ret () else in_engine (so_sleep S t))))"
  have turn: "rkeeps I ?turn"
    by (intro rkeeps_andThen rkeeps_if rkeeps_ret keeps_in_engine keeps_automation_cycle)
  obtain b e1 where b: "in_engine (so_stop_requested S) e = (b, e1)" by fastforce
  have e1: "I e1" using rkeepsD [OF keeps_in_engine Suc.prems(1), of "so_stop_requested S"] b by simp
  obtain c e2 where c: "?turn e1 = (c, e2)" by fastforce
  have e2: "I e2" using rkeepsD [OF turn e1] c by simp
  show ?case
  proof (cases b)
    case (Inl x) with Suc.prems(2) b e1 show ?thesis by auto
  next
    case (Inr stop)
    then show ?thesis using Suc.prems(2) b e1 c e2 Suc.IH [OF e2] by (cases stop; cases c) auto
  qed
qed simp

end

text \<open>What a submission was checked for.\<close>

definition admissible :: "automation_limits \<Rightarrow> submission \<Rightarrow> bool" where
  "admissible l b \<longleftrightarrow> (let i = sb_intent b; s = sb_snapshot b; now = sb_now b in
     natively_protected i \<and> 0 < it_quantity i \<and> 0 < it_entry_assumption i \<and> 0 < it_stop_trigger i \<and> 0 < it_target_trigger i
     \<and> length (it_evidence_hash i) = 64 \<and> it_intent_id i \<noteq> []
     \<and> elapsed now (it_expires_at i) \<le> 0 \<and> elapsed now (it_created_at i) \<le> al_maximum_intent_age l
     \<and> elapsed now (as_observed_at s) \<le> al_maximum_intent_age l \<and> \<not> as_emergency_stop s
     \<and> dval (- al_daily_net_loss_limit l) < dval (as_daily_net_pnl s)
     \<and> (it_action i \<in> {OPEN, INTENT_INCREASE} \<longrightarrow> sb_projected b < al_maximum_parallel_positions l))"

definition submitted_ids :: "'x engine \<Rightarrow> string list" where
  "submitted_ids e = map (\<lambda>b. it_intent_id (sb_intent b)) (en_submissions e)"

definition submits_once :: "string set \<Rightarrow> 'x engine \<Rightarrow> bool" where
  "submits_once restored e \<longleftrightarrow> distinct (submitted_ids e) \<and> set (submitted_ids e) \<inter> restored = {}
     \<and> set (submitted_ids e) \<union> restored \<subseteq> set (en_processed e)"

definition all_admissible :: "automation_limits \<Rightarrow> 'x engine \<Rightarrow> bool" where
  "all_admissible l e \<longleftrightarrow> list_all (admissible l) (en_submissions e)"

lemma validated_admissible:
  assumes "validate_intent l processed i s now seen projected = []"
  shows "admissible l \<lparr>sb_intent = i, sb_snapshot = s, sb_now = now, sb_projected = projected\<rparr>"
    and "it_intent_id i \<notin> set processed"
  using assms
  by (auto simp: validate_intent_def admissible_def Let_def decimal_less_val decimal_le_val dval_dmin not_le
      split: if_splits)

interpretation once: engine_property "submits_once restored" l for restored l
  by unfold_locales (auto simp: submits_once_def submitted_ids_def mark_processed_def dest: validated_admissible(2))

interpretation checked: engine_property "all_admissible l" l for l
  by unfold_locales (auto simp: all_admissible_def mark_processed_def dest: validated_admissible(1))

text \<open>Every state an engine can reach by cycles, with any intents, snapshots and times, returning or raising.\<close>

inductive engine_reachable :: "automation_limits \<Rightarrow> 'x adapters \<Rightarrow> string list \<Rightarrow> 'x engine \<Rightarrow> bool" for l A restored where
  created: "engine_reachable l A restored (new_engine restored x)"
| cycled: "engine_reachable l A restored e \<Longrightarrow> process_cycle l A is s now e = (r, e') \<Longrightarrow> engine_reachable l A restored e'"

lemma reachable_facts:
  assumes "engine_reachable l A restored e"
  shows "submits_once (set restored) e" "all_admissible l e"
proof -
  have "submits_once (set restored) e \<and> all_admissible l e"
    using assms
  proof induction
    case (created x) then show ?case by (simp add: submits_once_def submitted_ids_def all_admissible_def new_engine_def)
  next
    case (cycled e "is" s now r e')
    with rkeepsD [OF once.keeps_process_cycle, of "set restored" e l A "is" s now]
      rkeepsD [OF checked.keeps_process_cycle, of l e A "is" s now] show ?case by simp
  qed
  then show "submits_once (set restored) e" "all_admissible l e" by simp_all
qed

text \<open>Over any sequence of cycles, whatever the gate and the execution adapter answer or raise, each intent is
  handed to the adapter at most once, never one whose identifier was restored as processed, and only with its
  stop and target on the protecting sides of the entry, positive quantities and prices, before its expiry, within
  the permitted age of intent and snapshot, with the emergency stop off and the daily loss above its limit, and
  for an opening or increasing intent with fewer projected positions than permitted.\<close>

theorem automation_submits_once_and_checked:
  assumes "engine_reachable l A restored e"
  shows "distinct (submitted_ids e) \<and> set (submitted_ids e) \<inter> set restored = {} \<and> list_all (admissible l) (en_submissions e)"
  using reachable_facts [OF assms] by (simp add: submits_once_def all_admissible_def)


section \<open>Outcomes\<close>

lemma process_intent_outcome:
  assumes "process_intent l A s now seen projected i e = (Inr (o0, projected'), e')"
  shows "ao_intent_id o0 = it_intent_id i" "ao_submitted o0 \<Longrightarrow> it_intent_id i \<in> set (submitted_ids e')"
    "set (submitted_ids e) \<subseteq> set (submitted_ids e')"
  using assms
  by (auto simp: process_intent_def Let_def andThen_def in_engine_def mark_processed_def ret_def rejected_def submitted_ids_def
      split: prod.splits sum.splits if_splits)

lemma process_intents_outcomes:
  assumes "process_intents l A s now is seen projected e = (Inr os, e')"
  shows "map ao_intent_id os = map it_intent_id is" "\<forall>o0 \<in> set os. ao_submitted o0 \<longrightarrow> ao_intent_id o0 \<in> set (submitted_ids e')"
    "set (submitted_ids e) \<subseteq> set (submitted_ids e')"
proof -
  have "map ao_intent_id os = map it_intent_id is \<and> (\<forall>o0 \<in> set os. ao_submitted o0 \<longrightarrow> ao_intent_id o0 \<in> set (submitted_ids e'))
      \<and> set (submitted_ids e) \<subseteq> set (submitted_ids e')"
    using assms
  proof (induction "is" arbitrary: seen projected e os)
    case Nil then show ?case by (simp add: ret_def)
  next
    case (Cons i "is")
    from Cons.prems obtain o0 p1 w os' where first: "process_intent l A s now seen projected i e = (Inr (o0, p1), w)"
      and rest: "process_intents l A s now is (it_intent_id i # seen) p1 w = (Inr os', e')" and os: "os = o0 # os'"
      by (auto simp: ret_def elim!: andThen_InrE)
    from Cons.IH [OF rest] process_intent_outcome [OF first] os show ?case by auto
  qed
  then show "map ao_intent_id os = map it_intent_id is" "\<forall>o0 \<in> set os. ao_submitted o0 \<longrightarrow> ao_intent_id o0 \<in> set (submitted_ids e')"
    "set (submitted_ids e) \<subseteq> set (submitted_ids e')" by blast+
qed

text \<open>A cycle that returns answers every intent once and in the order given, and an answer that says submitted
  is about an intent that was handed to the adapter; when more intents arrive than a cycle permits, all are
  answered as rejected and none is handed over.\<close>

theorem cycle_answers_every_intent:
  assumes "process_cycle l A is s now e = (Inr os, e')"
  shows "map ao_intent_id os = map it_intent_id is
    \<and> list_all (\<lambda>o0. ao_submitted o0 \<longrightarrow> ao_intent_id o0 \<in> set (submitted_ids e')) os
    \<and> (al_maximum_intents_per_cycle l < int (length is) \<longrightarrow> e' = e \<and> list_all (\<lambda>o0. \<not> ao_submitted o0) os)"
proof (cases "al_maximum_intents_per_cycle l < int (length is)")
  case True
  with assms have "os = map (\<lambda>i. rejected i [''AUTOMATION_CYCLE_INTENT_LIMIT'']) is" "e' = e"
    by (auto simp: process_cycle_def lift_def ret_def elim!: andThen_InrE)
  then show ?thesis by (simp add: rejected_def list_all_iff o_def)
next
  case False
  with assms have "process_intents l A s now is [] (as_open_positions s) e = (Inr os, e')"
    by (auto simp: process_cycle_def lift_def elim!: andThen_InrE)
  from process_intents_outcomes [OF this] False show ?thesis by (simp add: list_all_iff)
qed

section \<open>A concrete cycle\<close>

definition sample_time :: "int \<Rightarrow> datetime" where
  "sample_time s = \<lparr>dt_instant = seconds s, dt_utcoffset = Some 0\<rparr>"

definition sample_intent :: automatic_trade_intent where
  "sample_intent = \<lparr>it_intent_id = ''intent-1'', it_decision_version = ''v1'', it_evidence_hash = replicate 64 CHR ''a'',
     it_created_at = sample_time 100, it_expires_at = sample_time 160, it_environment = PAPER, it_symbol = ''BTCUSDT'',
     it_action = OPEN, it_side = SIDE_LONG, it_quantity = dec 1, it_entry_assumption = dec 100, it_stop_trigger = dec 95,
     it_target_trigger = dec 110, it_gross_edge_bps = dec 12\<rparr>"

definition sample_automation_snapshot :: automation_snapshot where
  "sample_automation_snapshot = \<lparr>as_observed_at = sample_time 105, as_open_positions = 0, as_daily_net_pnl = dec 0, as_emergency_stop = False\<rparr>"

definition sample_limits :: automation_limits where
  "sample_limits = \<lparr>al_maximum_intents_per_cycle = 5, al_maximum_parallel_positions = 5, al_daily_net_loss_limit = dec 1,
     al_maximum_intent_age = seconds 90\<rparr>"

definition sample_adapters :: "unit adapters" where
  "sample_adapters = \<lparr>ad_evaluate = (\<lambda>_ _. ret \<lparr>gd_approved = True, gd_reason_codes = []\<rparr>),
     ad_submit = (\<lambda>_. ret \<lparr>er_accepted = True, er_reference_id = Some ''r'', er_reason_codes = []\<rparr>)\<rparr>"

definition sample_sources :: "unit sources" where
  "sample_sources = \<lparr>so_capture = (\<lambda>_. ret sample_automation_snapshot), so_fetch = (\<lambda>_ _. ret [sample_intent]),
     so_record = (\<lambda>_ _ _. ret ()), so_stop_requested = ret True, so_sleep = (\<lambda>_. ret ()), so_utc_now = ret (sample_time 110)\<rparr>"

lemma sample_intent_valid: "validate_intent sample_limits [] sample_intent sample_automation_snapshot (sample_time 110) [] 0 = []"
  by code_simp

lemma sample_cycle_run:
  "\<exists>os e. process_cycle sample_limits sample_adapters [sample_intent, sample_intent] sample_automation_snapshot (sample_time 110) (new_engine [] ())
     = (Inr os, e) \<and> submitted_ids e = [''intent-1''] \<and> length os = 2"
proof -
  have again: "validate_intent sample_limits [''intent-1''] sample_intent sample_automation_snapshot (sample_time 110) [''intent-1''] 1
      = [''AUTOMATION_INTENT_DUPLICATE'']" by code_simp
  have ids: "it_intent_id sample_intent = ''intent-1''" "it_action sample_intent = OPEN" "as_open_positions sample_automation_snapshot = 0"
    "is_utc (sample_time 110)" "is_utc (as_observed_at sample_automation_snapshot)" "\<not> al_maximum_intents_per_cycle sample_limits < 2"
    by (simp_all add: sample_intent_def sample_automation_snapshot_def sample_time_def is_utc_def sample_limits_def)
  show ?thesis using sample_intent_valid again ids
    by (simp add: process_cycle_def automation_require_utc_def andThen_def lift_def process_intent_def Let_def in_engine_def mark_processed_def
        new_engine_def sample_adapters_def ret_def project_def submitted_ids_def)
qed

theorem automation_submits_once_and_checked_witness:
  "\<exists>e. engine_reachable sample_limits sample_adapters [] e \<and> submitted_ids e = [''intent-1''] \<and> list_all (admissible sample_limits) (en_submissions e)"
proof -
  from sample_cycle_run obtain os e where run: "process_cycle sample_limits sample_adapters [sample_intent, sample_intent]
      sample_automation_snapshot (sample_time 110) (new_engine [] ()) = (Inr os, e)" and ids: "submitted_ids e = [''intent-1'']" by blast
  have e: "engine_reachable sample_limits sample_adapters [] e" by (rule cycled [OF created run])
  from automation_submits_once_and_checked [OF e] e ids show ?thesis by blast
qed

theorem cycle_answers_every_intent_witness:
  "\<exists>os e. process_cycle sample_limits sample_adapters [sample_intent, sample_intent] sample_automation_snapshot (sample_time 110) (new_engine [] ())
     = (Inr os, e) \<and> map ao_intent_id os = [''intent-1'', ''intent-1'']"
proof -
  from sample_cycle_run obtain os e where run: "process_cycle sample_limits sample_adapters [sample_intent, sample_intent]
      sample_automation_snapshot (sample_time 110) (new_engine [] ()) = (Inr os, e)" by blast
  from cycle_answers_every_intent [OF run] run show ?thesis by (auto simp: sample_intent_def)
qed


end
