(* ===== verification/Edge.thy ===== *)
theory Edge
  imports Decimals Doubles
begin

text \<open>
  The net edge of an entry: \<open>cost/edge.py\<close>, the seven mandatory cost components and the decision on them,
  and \<open>cost/gross_edge.py\<close>, the lookup of the gross edge in cells of recorded observations with a fallback
  to ever coarser parent cells.
\<close>

section \<open>Costs and the decision\<close>

record cost_component =
  cc_bps :: decimal
  cc_observed_at :: datetime
  cc_evidence_hash :: string

definition cost_component_check :: "cost_component \<Rightarrow> cost_component result" where
  "cost_component_check c =
    rbind (require (\<not> (cc_bps c < 0 \<or> length (cc_evidence_hash c) \<noteq> 64)) (ValueError ''invalid cost component'')) (\<lambda>_.
    rbind (require (is_utc (cc_observed_at c)) (ValueError ''cost timestamp must be timezone-aware UTC'')) (\<lambda>_. Inr c))"

record cost_breakdown =
  cb_entry_fee :: cost_component
  cb_exit_fee :: cost_component
  cb_entry_slippage :: cost_component
  cb_exit_slippage :: cost_component
  cb_adverse_selection :: cost_component
  cb_funding :: cost_component
  cb_failure_and_cancel :: cost_component

definition cost_components :: "cost_breakdown \<Rightarrow> cost_component list" where
  "cost_components b = [cb_entry_fee b, cb_exit_fee b, cb_entry_slippage b, cb_exit_slippage b, cb_adverse_selection b,
     cb_funding b, cb_failure_and_cancel b]"

definition total_bps :: "cost_breakdown \<Rightarrow> decimal" where
  "total_bps b = dsum (map cc_bps (cost_components b))"

record edge_decision =
  ed_approved :: bool
  ed_gross_edge_bps :: decimal
  ed_total_cost_bps :: decimal
  ed_net_edge_bps :: decimal
  ed_reason_codes :: "string list"

text \<open>\<open>gross_edge_bps or Decimal(0)\<close>: a zero of any scale counts as missing.\<close>

definition gross_or_zero :: "decimal option \<Rightarrow> decimal" where
  "gross_or_zero g = (case g of None \<Rightarrow> 0 | Some x \<Rightarrow> if dcoeff x = 0 then 0 else x)"

text \<open>The generator inside \<open>any\<close> stops at the first stale component.\<close>

fun any_stale :: "datetime \<Rightarrow> int \<Rightarrow> cost_component list \<Rightarrow> bool result" where
  "any_stale now maximum_age [] = Inr False"
| "any_stale now maximum_age (c # cs) =
    rbind (dt_diff now (cc_observed_at c)) (\<lambda>age.
    if of_int maximum_age < total_seconds age then Inr True else any_stale now maximum_age cs)"

definition evaluate_edge ::
  "decimal option \<Rightarrow> cost_breakdown option \<Rightarrow> datetime \<Rightarrow> int \<Rightarrow> decimal \<Rightarrow> bool \<Rightarrow> edge_decision result" where
  "evaluate_edge gross_edge_bps costs now maximum_component_age_seconds minimum_net_edge_bps reducing_risk =
    (if reducing_risk then
       let gross = gross_or_zero gross_edge_bps; cost = (case costs of None \<Rightarrow> 0 | Some b \<Rightarrow> total_bps b) in
       Inr \<lparr>ed_approved = True, ed_gross_edge_bps = gross, ed_total_cost_bps = cost, ed_net_edge_bps = gross - cost,
         ed_reason_codes = [''RISK_REDUCING_EXIT'']\<rparr>
     else (case (gross_edge_bps, costs) of
       (Some gross, Some b) \<Rightarrow>
         rbind (any_stale now maximum_component_age_seconds (cost_components b)) (\<lambda>stale.
         let net = gross - total_bps b in
         if stale then Inr \<lparr>ed_approved = False, ed_gross_edge_bps = gross, ed_total_cost_bps = total_bps b,
           ed_net_edge_bps = net, ed_reason_codes = [''NET_EDGE_COMPONENT_STALE'']\<rparr>
         else Inr \<lparr>ed_approved = minimum_net_edge_bps \<le> net, ed_gross_edge_bps = gross, ed_total_cost_bps = total_bps b,
           ed_net_edge_bps = net, ed_reason_codes = (if minimum_net_edge_bps \<le> net then [] else [''NET_EDGE_INSUFFICIENT''])\<rparr>)
     | _ \<Rightarrow> Inr \<lparr>ed_approved = False, ed_gross_edge_bps = gross_or_zero gross_edge_bps, ed_total_cost_bps = 0,
         ed_net_edge_bps = 0, ed_reason_codes = [''NET_EDGE_EVIDENCE_INCOMPLETE'']\<rparr>))"

section \<open>The gross edge\<close>

record gross_edge_key =
  gk_setup_type :: string
  gk_pa_regime :: string
  gk_liquidity_bucket :: string
  gk_side :: string
  gk_entry_path :: string

definition gross_edge_key_check :: "gross_edge_key \<Rightarrow> gross_edge_key result" where
  "gross_edge_key_check k =
    rbind (require ([] \<notin> set [gk_setup_type k, gk_pa_regime k, gk_liquidity_bucket k, gk_side k, gk_entry_path k])
      (ValueError ''gross-edge key dimensions must be non-empty'')) (\<lambda>_.
    rbind (require (gk_side k \<in> {''BUY'', ''SELL''}) (ValueError ''gross-edge side must be BUY or SELL'')) (\<lambda>_. Inr k))"

record gross_edge_cell =
  gc_setup_type :: "string option"
  gc_pa_regime :: "string option"
  gc_liquidity_bucket :: "string option"
  gc_side :: "string option"
  gc_entry_path :: "string option"
  gc_observations :: int
  gc_mean_gross_edge_bps :: decimal
  gc_evidence_hash :: string

definition cell_identity :: "gross_edge_cell \<Rightarrow> string option list" where
  "cell_identity c = [gc_setup_type c, gc_pa_regime c, gc_liquidity_bucket c, gc_side c, gc_entry_path c]"

text \<open>The loop over the dimensions with its flag.\<close>

fun dimensions_in_order :: "bool \<Rightarrow> string option list \<Rightarrow> bool" where
  "dimensions_in_order seen_none [] = True"
| "dimensions_in_order seen_none (None # ds) = dimensions_in_order True ds"
| "dimensions_in_order seen_none (Some d # ds) = (\<not> seen_none \<and> dimensions_in_order seen_none ds)"

definition gross_edge_cell_check :: "gross_edge_cell \<Rightarrow> gross_edge_cell result" where
  "gross_edge_cell_check c =
    rbind (require (\<not> gc_observations c < 1) (ValueError ''gross-edge cell observations must be positive'')) (\<lambda>_.
    rbind (require (\<not> (length (gc_evidence_hash c) \<noteq> 64 \<or> list_ex (\<lambda>x. x \<notin> set ''0123456789abcdef'') (gc_evidence_hash c)))
      (ValueError ''gross-edge cell evidence hash is invalid'')) (\<lambda>_.
    rbind (require (dimensions_in_order False (cell_identity c))
      (ValueError ''gross-edge parent cell must drop dimensions in frozen order'')) (\<lambda>_.
    rbind (require (gc_side c \<in> {None, Some ''BUY'', Some ''SELL''}) (ValueError ''gross-edge cell side is invalid'')) (\<lambda>_.
    Inr c))))"

record gross_edge_estimate =
  ge_approved :: bool
  ge_gross_edge_bps :: "decimal option"
  ge_exact_observations :: int
  ge_parent_observations :: int
  ge_source_level :: "string option"
  ge_evidence_hashes :: "string list"
  ge_reason_codes :: "string list"

fun by_identity :: "gross_edge_cell list \<Rightarrow> (string option list, gross_edge_cell) dict \<Rightarrow> (string option list, gross_edge_cell) dict result" where
  "by_identity [] known = Inr known"
| "by_identity (c # cs) known =
    (if map_of known (cell_identity c) \<noteq> None then Inl (ValueError ''duplicate gross-edge lookup cell'')
     else by_identity cs (AList.update (cell_identity c) c known))"

definition exact_identity :: "gross_edge_key \<Rightarrow> string option list" where
  "exact_identity k = [Some (gk_setup_type k), Some (gk_pa_regime k), Some (gk_liquidity_bucket k), Some (gk_side k), Some (gk_entry_path k)]"

definition parent_levels :: "gross_edge_key \<Rightarrow> (string \<times> string option list) list" where
  "parent_levels k =
    [(''DROP_ENTRY_PATH'', [Some (gk_setup_type k), Some (gk_pa_regime k), Some (gk_liquidity_bucket k), Some (gk_side k), None]),
     (''DROP_SIDE'', [Some (gk_setup_type k), Some (gk_pa_regime k), Some (gk_liquidity_bucket k), None, None]),
     (''DROP_LIQUIDITY_BUCKET'', [Some (gk_setup_type k), Some (gk_pa_regime k), None, None, None]),
     (''SETUP_ONLY'', [Some (gk_setup_type k), None, None, None, None]),
     (''GLOBAL'', [None, None, None, None, None])]"

text \<open>The loop over the levels breaks at the first adequate candidate.\<close>

fun select_parent ::
  "(string option list, gross_edge_cell) dict \<Rightarrow> int \<Rightarrow> (string \<times> string option list) list \<Rightarrow> (string \<times> gross_edge_cell) option" where
  "select_parent known minimum [] = None"
| "select_parent known minimum ((level, identity) # levels) = (case map_of known identity of
     None \<Rightarrow> select_parent known minimum levels
   | Some c \<Rightarrow> if minimum \<le> gc_observations c then Some (level, c) else select_parent known minimum levels)"

definition shrunk_mean :: "gross_edge_cell \<Rightarrow> gross_edge_cell \<Rightarrow> int \<Rightarrow> decimal result" where
  "shrunk_mean exact parent shrinkage =
    (let strength = dec (nat shrinkage); exact_weight = dec (nat (gc_observations exact)) in
     decimal_truediv (gc_mean_gross_edge_bps exact * exact_weight + gc_mean_gross_edge_bps parent * strength) (exact_weight + strength))"

definition estimate_gross_edge ::
  "gross_edge_key \<Rightarrow> gross_edge_cell list \<Rightarrow> int \<Rightarrow> int \<Rightarrow> int \<Rightarrow> gross_edge_estimate result" where
  "estimate_gross_edge key cells minimum_cell minimum_parent shrinkage =
    rbind (require (\<not> min (min minimum_cell minimum_parent) shrinkage < 1)
      (ValueError ''gross-edge observation thresholds must be positive'')) (\<lambda>_.
    rbind (by_identity cells []) (\<lambda>known.
    let exact = map_of known (exact_identity key);
        exact_count = (case exact of None \<Rightarrow> 0 | Some c \<Rightarrow> gc_observations c);
        parent = select_parent known minimum_parent (parent_levels key);
        exact_adequate = (case exact of None \<Rightarrow> False | Some c \<Rightarrow> minimum_cell \<le> gc_observations c) in
    if \<not> exact_adequate \<and> parent = None then
      Inr \<lparr>ge_approved = False, ge_gross_edge_bps = None, ge_exact_observations = exact_count, ge_parent_observations = 0,
        ge_source_level = None, ge_evidence_hashes = [], ge_reason_codes = [''NET_EDGE_EVIDENCE_INCOMPLETE'']\<rparr>
    else if \<not> exact_adequate then (case parent of
        None \<Rightarrow> Inl (RuntimeError ''gross-edge parent selection invariant breached'')
      | Some (level, p) \<Rightarrow>
        Inr \<lparr>ge_approved = True, ge_gross_edge_bps = Some (gc_mean_gross_edge_bps p), ge_exact_observations = exact_count,
          ge_parent_observations = gc_observations p, ge_source_level = Some level, ge_evidence_hashes = [gc_evidence_hash p],
          ge_reason_codes = [''GROSS_EDGE_PARENT_FALLBACK'']\<rparr>)
    else (case exact of
        None \<Rightarrow> Inl (RuntimeError ''gross-edge exact-cell selection invariant breached'')
      | Some c \<Rightarrow> (case parent of
          None \<Rightarrow>
            Inr \<lparr>ge_approved = True, ge_gross_edge_bps = Some (gc_mean_gross_edge_bps c), ge_exact_observations = gc_observations c,
              ge_parent_observations = 0, ge_source_level = Some ''EXACT_UNSHRUNK'', ge_evidence_hashes = [gc_evidence_hash c],
              ge_reason_codes = [''GROSS_EDGE_PARENT_UNAVAILABLE'']\<rparr>
        | Some (level, p) \<Rightarrow> rbind (shrunk_mean c p shrinkage) (\<lambda>m.
            Inr \<lparr>ge_approved = True, ge_gross_edge_bps = Some m, ge_exact_observations = gc_observations c,
              ge_parent_observations = gc_observations p, ge_source_level = Some (''EXACT_SHRUNK_TO_'' @ level),
              ge_evidence_hashes = [gc_evidence_hash c, gc_evidence_hash p], ge_reason_codes = []\<rparr>)))))"

section \<open>The decision is fail-closed\<close>

lemma any_stale_utc:
  assumes "is_utc now" "\<forall>c \<in> set cs. is_utc (cc_observed_at c)"
  shows "any_stale now maximum cs = Inr (\<exists>c \<in> set cs. of_int maximum < total_seconds (dt_instant now - dt_instant (cc_observed_at c)))"
  using assms(2) by (induction cs) (auto simp: dt_diff_utc assms(1))


section \<open>The lookup of the gross edge\<close>

text \<open>A declarative reading of the hierarchy: a cell applies to a key when each dimension it names agrees, and
  it is the more specific the more it names.\<close>

definition key_values :: "gross_edge_key \<Rightarrow> string list" where
  "key_values k = [gk_setup_type k, gk_pa_regime k, gk_liquidity_bucket k, gk_side k, gk_entry_path k]"

definition applies :: "gross_edge_key \<Rightarrow> gross_edge_cell \<Rightarrow> bool" where
  "applies k c \<longleftrightarrow> list_all2 (\<lambda>d v. d = None \<or> d = Some v) (cell_identity c) (key_values k)"

definition specificity :: "gross_edge_cell \<Rightarrow> nat" where
  "specificity c = length (filter (\<lambda>d. d \<noteq> None) (cell_identity c))"

definition prefix_identity :: "gross_edge_key \<Rightarrow> nat \<Rightarrow> string option list" where
  "prefix_identity k n = map Some (take n (key_values k)) @ replicate (5 - n) None"

lemma specificity_le: "specificity c \<le> 5"
  using length_filter_le [of _ "cell_identity c"] by (simp add: specificity_def cell_identity_def)

lemma by_identity_lookup:
  assumes "distinct (map cell_identity cs)" "\<forall>c \<in> set cs. map_of known (cell_identity c) = None"
  shows "\<exists>known'. by_identity cs known = Inr known'
    \<and> (\<forall>i c. map_of known' i = Some c \<longleftrightarrow> map_of known i = Some c \<or> c \<in> set cs \<and> cell_identity c = i)"
  using assms
proof (induction cs arbitrary: known)
  case (Cons c cs)
  have "\<forall>d \<in> set cs. map_of (AList.update (cell_identity c) c known) (cell_identity d) = None"
    using Cons.prems by (auto simp: map_of_update image_iff)
  from Cons.IH [OF _ this] Cons.prems(1) obtain known' where
    "by_identity cs (AList.update (cell_identity c) c known) = Inr known'"
    "\<forall>i d. map_of known' i = Some d \<longleftrightarrow> map_of (AList.update (cell_identity c) c known) i = Some d \<or> d \<in> set cs \<and> cell_identity d = i"
    by auto
  with Cons.prems show ?case by (auto simp: map_of_update)
qed simp

lemma in_order_prefix:
  assumes "dimensions_in_order False ds" "list_all2 (\<lambda>d v. d = None \<or> d = Some v) ds vs"
  shows "ds = map Some (take (length (filter (\<lambda>d. d \<noteq> None) ds)) vs) @ replicate (length vs - length (filter (\<lambda>d. d \<noteq> None) ds)) None"
proof -
  have none: "dimensions_in_order True es \<Longrightarrow> filter (\<lambda>d. d \<noteq> None) es = [] \<and> es = replicate (length es) None" for es
    by (induction True es rule: dimensions_in_order.induct) auto
  from assms(2,1) show ?thesis
  proof (induction rule: list_all2_induct)
    case (Cons d ds v vs)
    then show ?case using none [of ds] list_all2_lengthD [of _ ds vs] by (cases d) (auto simp: list_all2_lengthD)
  qed simp
qed

lemma applies_iff:
  assumes "gross_edge_cell_check c = Inr c"
  shows "applies k c \<longleftrightarrow> (\<exists>n \<le> 5. cell_identity c = prefix_identity k n)"
    and "cell_identity c = prefix_identity k n \<Longrightarrow> n \<le> 5 \<Longrightarrow> specificity c = n"
proof -
  have order: "dimensions_in_order False (cell_identity c)" using assms by (simp add: gross_edge_cell_check_def)
  have five: "length (key_values k) = 5" by (simp add: key_values_def)
  show "specificity c = n" if "cell_identity c = prefix_identity k n" "n \<le> 5" for n
    using that five by (simp add: specificity_def prefix_identity_def filter_replicate)
  show "applies k c \<longleftrightarrow> (\<exists>n \<le> 5. cell_identity c = prefix_identity k n)"
  proof
    assume "applies k c"
    then have "cell_identity c = prefix_identity k (specificity c)"
      using in_order_prefix [OF order, of "key_values k"] unfolding applies_def specificity_def prefix_identity_def five by blast
    then show "\<exists>n \<le> 5. cell_identity c = prefix_identity k n" using specificity_le by blast
  next
    assume "\<exists>n \<le> 5. cell_identity c = prefix_identity k n"
    then obtain n where n: "n \<le> 5" "cell_identity c = prefix_identity k n" by blast
    have "list_all2 (\<lambda>d v. d = None \<or> d = Some v) (map Some (take n (key_values k)) @ replicate (5 - n) None)
        (take n (key_values k) @ drop n (key_values k))"
      using five n(1) by (intro list_all2_appendI) (auto simp: list_all2_conv_all_nth)
    with n(2) show "applies k c" by (simp add: applies_def prefix_identity_def)
  qed
qed

lemma named_prefix:
  assumes "gross_edge_cell_check c = Inr c" "n \<le> 5"
  shows "cell_identity c = prefix_identity k n \<longleftrightarrow> applies k c \<and> specificity c = n"
  using applies_iff [OF assms(1)] assms(2) by metis

lemma parent_levels_prefixes:
  "parent_levels k = map (\<lambda>n. ([''GLOBAL'', ''SETUP_ONLY'', ''DROP_LIQUIDITY_BUCKET'', ''DROP_SIDE'', ''DROP_ENTRY_PATH''] ! n,
     prefix_identity k n)) [4, 3, 2, 1, 0]"
  by (simp add: parent_levels_def prefix_identity_def key_values_def eval_nat_numeral)

lemma exact_identity_prefix: "exact_identity k = prefix_identity k 5"
  by (simp add: exact_identity_def prefix_identity_def key_values_def)

lemma select_parent_first:
  assumes "select_parent known m (map (\<lambda>n. (level n, pre n)) ns) = Some (l, p)" "sorted_wrt (>) (ns :: nat list)"
  shows "\<exists>n \<in> set ns. l = level n \<and> map_of known (pre n) = Some p \<and> m \<le> gc_observations p
    \<and> (\<forall>i \<in> set ns. \<forall>q. map_of known (pre i) = Some q \<longrightarrow> m \<le> gc_observations q \<longrightarrow> i \<le> n)"
  using assms
proof (induction ns)
  case (Cons i ns)
  show ?case
  proof (cases "\<exists>q. map_of known (pre i) = Some q \<and> m \<le> gc_observations q")
    case True
    with Cons.prems(1) have "l = level i \<and> map_of known (pre i) = Some p \<and> m \<le> gc_observations p" by auto
    moreover have "\<forall>j \<in> set (i # ns). j \<le> i" using Cons.prems(2) by (auto intro: less_imp_le)
    ultimately show ?thesis by (intro bexI [of _ i]) auto
  next
    case False
    with Cons.prems(1) have "select_parent known m (map (\<lambda>n. (level n, pre n)) ns) = Some (l, p)"
      by (auto split: option.splits)
    with Cons.IH Cons.prems(2) False show ?thesis by auto
  qed
qed simp

lemma select_parent_none:
  "select_parent known m (map (\<lambda>n. (level n, pre n)) ns) = None
    \<longleftrightarrow> (\<forall>n \<in> set ns. \<forall>q. map_of known (pre n) = Some q \<longrightarrow> gc_observations q < m)"
  by (induction ns) (auto split: option.splits)

lemma five_levels: "set [4, 3, 2, 1, 0] = {..<(5::nat)}"
  by auto

lemma parent_chosen:
  assumes "select_parent known mp (parent_levels k) = Some (l, p)"
  shows "\<exists>n<5. map_of known (prefix_identity k n) = Some p \<and> mp \<le> gc_observations p
    \<and> (\<forall>i<5. \<forall>q. map_of known (prefix_identity k i) = Some q \<longrightarrow> mp \<le> gc_observations q \<longrightarrow> i \<le> n)"
proof -
  have "sorted_wrt (>) [4, 3, 2, 1, 0::nat]" by simp
  from select_parent_first [OF assms [unfolded parent_levels_prefixes] this] show ?thesis
    unfolding five_levels by (auto simp: Bex_def)
qed

lemma parent_missing:
  assumes "select_parent known mp (parent_levels k) = None" "n < 5" "map_of known (prefix_identity k n) = Some q"
  shows "gc_observations q < mp"
  using assms unfolding parent_levels_prefixes select_parent_none five_levels by auto

lemma shrunk_mean_sign:
  assumes "1 \<le> gc_observations c" "1 \<le> s"
  shows "\<exists>m. shrunk_mean c p s = Inr m
    \<and> (0 \<le> dval (gc_mean_gross_edge_bps c) \<longrightarrow> 0 \<le> dval (gc_mean_gross_edge_bps p) \<longrightarrow> 0 \<le> dval m)
    \<and> (dval (gc_mean_gross_edge_bps c) \<le> 0 \<longrightarrow> dval (gc_mean_gross_edge_bps p) \<le> 0 \<longrightarrow> dval m \<le> 0)"
proof -
  let ?w = "dec (nat (gc_observations c))" and ?s = "dec (nat s)"
  have pos: "0 < dval (?w + ?s)" using assms by (simp add: dval_plus rnd_pos)
  then have "dcoeff (?w + ?s) \<noteq> 0" using dcoeff_eq_0_iff [of "?w + ?s"] by auto
  with pos have "shrunk_mean c p s = Inr (ddiv (gc_mean_gross_edge_bps c * ?w + gc_mean_gross_edge_bps p * ?s) (?w + ?s))"
    and "dval (ddiv a (?w + ?s)) = rnd (dval a / dval (?w + ?s))" for a
    by (simp_all add: shrunk_mean_def Let_def decimal_truediv_ok dval_ddiv)
  with pos show ?thesis
    by (auto simp: dval_plus [of "_ * _"] dval_times intro!: half_even.nonneg half_even.nonpos divide_nonneg_pos divide_nonpos_pos
        add_nonneg_nonneg add_nonpos_nonpos mult_nonneg_nonneg mult_nonpos_nonneg)
qed

definition enough :: "gross_edge_key \<Rightarrow> int \<Rightarrow> int \<Rightarrow> gross_edge_cell \<Rightarrow> bool" where
  "enough k minimum_cell minimum_parent c \<longleftrightarrow>
    applies k c \<and> (if specificity c = 5 then minimum_cell else minimum_parent) \<le> gc_observations c"

definition best_cells :: "gross_edge_key \<Rightarrow> int \<Rightarrow> int \<Rightarrow> gross_edge_cell list \<Rightarrow> gross_edge_cell list \<Rightarrow> bool" where
  "best_cells k minimum_cell minimum_parent cells used \<longleftrightarrow>
    set used \<subseteq> set cells \<and> list_all (enough k minimum_cell minimum_parent) used
    \<and> (\<forall>c \<in> set cells. enough k minimum_cell minimum_parent c \<longrightarrow>
        (\<exists>u \<in> set used. specificity c \<le> specificity u \<and> (specificity u = 5 \<longrightarrow> specificity c = 5)))"

lemma best_cells_nonempty: "best_cells k mc mp cells used \<Longrightarrow> used \<noteq> [] \<longleftrightarrow> (\<exists>c \<in> set cells. enough k mc mp c)"
  by (cases used) (auto simp: best_cells_def)

definition used_cells :: "gross_edge_cell option \<Rightarrow> (string \<times> gross_edge_cell) option \<Rightarrow> int \<Rightarrow> gross_edge_cell list" where
  "used_cells exact parent minimum_cell =
    (case exact of None \<Rightarrow> [] | Some c \<Rightarrow> if minimum_cell \<le> gc_observations c then [c] else [])
    @ (case parent of None \<Rightarrow> [] | Some (_, p) \<Rightarrow> [p])"

lemma estimate_from_used:
  assumes "by_identity cells [] = Inr known" "1 \<le> mc" "1 \<le> mp" "1 \<le> s"
    "used = used_cells (map_of known (exact_identity k)) (select_parent known mp (parent_levels k)) mc"
  shows "\<exists>e. estimate_gross_edge k cells mc mp s = Inr e \<and> ge_evidence_hashes e = map gc_evidence_hash used
    \<and> (ge_approved e \<longleftrightarrow> used \<noteq> []) \<and> (ge_approved e \<longleftrightarrow> ge_gross_edge_bps e \<noteq> None)
    \<and> (\<forall>m. ge_gross_edge_bps e = Some m \<longrightarrow>
        (list_all (\<lambda>c. 0 \<le> dval (gc_mean_gross_edge_bps c)) used \<longrightarrow> 0 \<le> dval m)
        \<and> (list_all (\<lambda>c. dval (gc_mean_gross_edge_bps c) \<le> 0) used \<longrightarrow> dval m \<le> 0))"
proof (cases "map_of known (exact_identity k)")
  case None
  with assms show ?thesis
    by (cases "select_parent known mp (parent_levels k)") (auto simp: estimate_gross_edge_def Let_def used_cells_def)
next
  case (Some c)
  show ?thesis
  proof (cases "select_parent known mp (parent_levels k)")
    case None
    with Some assms show ?thesis by (auto simp: estimate_gross_edge_def Let_def used_cells_def)
  next
    case (Some lp)
    obtain l p where lp: "lp = (l, p)" by force
    show ?thesis
    proof (cases "mc \<le> gc_observations c")
      case True
      with assms(2) have "1 \<le> gc_observations c" by simp
      with shrunk_mean_sign [OF this assms(4), of p] True Some \<open>map_of known (exact_identity k) = Some c\<close> assms lp show ?thesis
        by (auto simp: estimate_gross_edge_def Let_def used_cells_def)
    next
      case False
      with Some \<open>map_of known (exact_identity k) = Some c\<close> assms lp show ?thesis
        by (auto simp: estimate_gross_edge_def Let_def used_cells_def)
    qed
  qed
qed

lemma used_cells_best:
  assumes "list_all (\<lambda>c. gross_edge_cell_check c = Inr c) cells"
    and known: "\<And>i c. map_of known i = Some c \<longleftrightarrow> c \<in> set cells \<and> cell_identity c = i"
  shows "best_cells k mc mp cells (used_cells (map_of known (exact_identity k)) (select_parent known mp (parent_levels k)) mc)"
proof -
  have checked: "gross_edge_cell_check c = Inr c" if "c \<in> set cells" for c using assms(1) that by (simp add: list_all_iff)
  let ?exact = "map_of known (exact_identity k)" and ?parent = "select_parent known mp (parent_levels k)"
  have exact: "?exact = Some c \<longleftrightarrow> c \<in> set cells \<and> applies k c \<and> specificity c = 5" for c
    using named_prefix [OF checked, of c 5 k] by (auto simp: exact_identity_prefix known)
  have level: "specificity q < 5 \<and> map_of known (prefix_identity k (specificity q)) = Some q"
    if "q \<in> set cells" "enough k mc mp q" "specificity q \<noteq> 5" for q
    using specificity_le [of q] that named_prefix [OF checked [OF that(1)] specificity_le, of k] by (simp add: known enough_def)
  have parent: "p \<in> set cells \<and> applies k p \<and> specificity p < 5 \<and> mp \<le> gc_observations p
      \<and> (\<forall>q \<in> set cells. enough k mc mp q \<longrightarrow> specificity q = 5 \<or> specificity q \<le> specificity p)" if chosen: "?parent = Some (l, p)" for l p
  proof -
    from parent_chosen [OF chosen] obtain n where n: "n < 5" "map_of known (prefix_identity k n) = Some p" "mp \<le> gc_observations p"
        "\<And>i q. i < 5 \<Longrightarrow> map_of known (prefix_identity k i) = Some q \<Longrightarrow> mp \<le> gc_observations q \<Longrightarrow> i \<le> n"
      by blast
    from n(1,2) have "p \<in> set cells" "applies k p" "specificity p = n"
      using named_prefix [OF checked, of p n k] by (simp_all add: known)
    moreover have "specificity q \<le> n" if "q \<in> set cells" "enough k mc mp q" "specificity q \<noteq> 5" for q
      using n(4) [of "specificity q" q] level [OF that] that by (simp add: enough_def)
    ultimately show ?thesis using n(1,3) by auto
  qed
  have no_parent: "specificity q = 5" if "?parent = None" "q \<in> set cells" "enough k mc mp q" for q
    using parent_missing [OF that(1), of "specificity q" q] level [OF that(2,3)] that(3) by (auto simp: enough_def split: if_splits)
  have adequate: "?exact = Some q \<and> mc \<le> gc_observations q" if "q \<in> set cells" "enough k mc mp q" "specificity q = 5" for q
    using exact [of q] that by (simp add: enough_def)
  have taken: "u \<in> set cells \<and> enough k mc mp u" if "u \<in> set (used_cells ?exact ?parent mc)" for u
  proof -
    from that consider "?exact = Some u" "mc \<le> gc_observations u" | l where "?parent = Some (l, u)"
      by (cases ?exact; cases ?parent) (auto simp: used_cells_def split: if_splits)
    then show ?thesis by cases (use exact [of u] parent [of _ u] in \<open>auto simp: enough_def\<close>)
  qed
  show ?thesis unfolding best_cells_def
  proof (intro conjI ballI impI)
    show "set (used_cells ?exact ?parent mc) \<subseteq> set cells" "list_all (enough k mc mp) (used_cells ?exact ?parent mc)"
      using taken by (auto simp: list_all_iff)
  next
    fix q assume q: "q \<in> set cells" "enough k mc mp q"
    show "\<exists>u \<in> set (used_cells ?exact ?parent mc). specificity q \<le> specificity u \<and> (specificity u = 5 \<longrightarrow> specificity q = 5)"
    proof (cases "specificity q = 5")
      case True
      with adequate [OF q] show ?thesis by (auto simp: used_cells_def)
    next
      case False
      with no_parent q obtain l p where "?parent = Some (l, p)" by (cases ?parent) auto
      with parent [of l p] q False show ?thesis by (auto simp: used_cells_def intro!: bexI [of _ p])
    qed
  qed
qed

text \<open>The lookup of the gross edge is the most specific evidence there is. For checked cells of distinct
  identities it never fails, neither assertion about its own selection is reachable, and it approves exactly when
  some cell that applies to the key has enough observations. The evidence it names is that of cells that apply and
  are enough: the exact cell when it is, and of the coarser ones the most specific. Shrinking never turns the sign:
  from cells with a mean of one sign comes an estimate of that sign.\<close>

theorem gross_edge_is_most_specific:
  assumes "list_all (\<lambda>c. gross_edge_cell_check c = Inr c) cells" "distinct (map cell_identity cells)" "1 \<le> mc" "1 \<le> mp" "1 \<le> s"
  shows "\<exists>e used. estimate_gross_edge k cells mc mp s = Inr e \<and> best_cells k mc mp cells used
    \<and> ge_evidence_hashes e = map gc_evidence_hash used
    \<and> (ge_approved e \<longleftrightarrow> (\<exists>c \<in> set cells. enough k mc mp c)) \<and> (ge_approved e \<longleftrightarrow> ge_gross_edge_bps e \<noteq> None)
    \<and> (\<forall>m. ge_gross_edge_bps e = Some m \<longrightarrow>
        (list_all (\<lambda>c. 0 \<le> dval (gc_mean_gross_edge_bps c)) used \<longrightarrow> 0 \<le> dval m)
        \<and> (list_all (\<lambda>c. dval (gc_mean_gross_edge_bps c) \<le> 0) used \<longrightarrow> dval m \<le> 0))"
proof -
  obtain known where known: "by_identity cells [] = Inr known"
    "\<And>i c. map_of known i = Some c \<longleftrightarrow> c \<in> set cells \<and> cell_identity c = i"
    using by_identity_lookup [OF assms(2), of "[]"] by auto
  from used_cells_best [OF assms(1) known(2), of k mc mp] estimate_from_used [OF known(1) assms(3-5) refl, of k]
  show ?thesis using best_cells_nonempty by metis
qed

section \<open>Witnesses\<close>

definition sample_component :: cost_component where
  "sample_component = \<lparr>cc_bps = dec 1, cc_observed_at = \<lparr>dt_instant = 0, dt_utcoffset = Some 0\<rparr>, cc_evidence_hash = replicate 64 CHR ''a''\<rparr>"

definition sample_costs :: cost_breakdown where
  "sample_costs = \<lparr>cb_entry_fee = sample_component, cb_exit_fee = sample_component, cb_entry_slippage = sample_component,
     cb_exit_slippage = sample_component, cb_adverse_selection = sample_component, cb_funding = sample_component,
     cb_failure_and_cancel = sample_component\<rparr>"


definition sample_cell :: "string option \<Rightarrow> nat \<Rightarrow> gross_edge_cell" where
  "sample_cell setup n = \<lparr>gc_setup_type = setup, gc_pa_regime = None, gc_liquidity_bucket = None, gc_side = None, gc_entry_path = None,
     gc_observations = int n, gc_mean_gross_edge_bps = dec 4, gc_evidence_hash = replicate 64 CHR ''a''\<rparr>"

definition sample_edge_key :: gross_edge_key where
  "sample_edge_key = \<lparr>gk_setup_type = ''BREAKOUT'', gk_pa_regime = ''TREND'', gk_liquidity_bucket = ''DEEP'', gk_side = ''BUY'', gk_entry_path = ''MAKER''\<rparr>"

theorem gross_edge_is_most_specific_witness:
  "\<exists>e. estimate_gross_edge sample_edge_key [sample_cell None 100, sample_cell (Some ''BREAKOUT'') 50] 30 40 20 = Inr e \<and> ge_approved e"
proof -
  let ?cells = "[sample_cell None 100, sample_cell (Some ''BREAKOUT'') 50]"
  have "list_all (\<lambda>c. gross_edge_cell_check c = Inr c) ?cells" "distinct (map cell_identity ?cells)"
    "\<exists>c \<in> set ?cells. enough sample_edge_key 30 40 c"
    by (simp_all add: gross_edge_cell_check_def sample_cell_def cell_identity_def list_ex_iff enough_def applies_def key_values_def specificity_def)
  with gross_edge_is_most_specific [of ?cells 30 40 20 sample_edge_key] show ?thesis by auto
qed

end
