(* ===== verification/Iteration.thy ===== *)
theory Iteration
  imports Decimals Clock
begin

text \<open>
  The research loop: the queue of iteration cycles (\<open>iteration/queue.py\<close>), the gate over a continuous period
  of observation (\<open>validation/gates.py\<close>) and the criteria for keeping a champion (\<open>research/evaluation.py\<close>).
\<close>

section \<open>The queue\<close>

datatype cycle_state = QUEUED | CYCLE_RUNNING | DEFERRED_QUOTA | COMPLETED | FAILED

record iteration_cycle =
  ic_cycle_id :: string
  ic_scheduled_for :: datetime
  ic_data_cutoff_at :: datetime
  ic_champion_hash :: string
  ic_state :: cycle_state
  ic_attempt_count :: int
  ic_retry_after :: "datetime option"

record iteration_queue =
  iq_cycles :: "(string, iteration_cycle) dict"
  iq_running :: "string option"

definition new_queue :: iteration_queue where
  "new_queue = \<lparr>iq_cycles = [], iq_running = None\<rparr>"

text \<open>Equality of times ignores the offset of aware times and never holds between a naive and an aware one.\<close>

definition same_time :: "datetime \<Rightarrow> datetime \<Rightarrow> bool" where
  "same_time a b \<longleftrightarrow> is_aware a = is_aware b \<and> dt_instant a = dt_instant b"

definition same_retry :: "datetime option \<Rightarrow> datetime option \<Rightarrow> bool" where
  "same_retry a b = (case (a, b) of (None, None) \<Rightarrow> True | (Some s, Some t) \<Rightarrow> same_time s t | _ \<Rightarrow> False)"

definition same_cycle :: "iteration_cycle \<Rightarrow> iteration_cycle \<Rightarrow> bool" where
  "same_cycle a b \<longleftrightarrow> ic_cycle_id a = ic_cycle_id b \<and> same_time (ic_scheduled_for a) (ic_scheduled_for b)
     \<and> same_time (ic_data_cutoff_at a) (ic_data_cutoff_at b) \<and> ic_champion_hash a = ic_champion_hash b
     \<and> ic_state a = ic_state b \<and> ic_attempt_count a = ic_attempt_count b \<and> same_retry (ic_retry_after a) (ic_retry_after b)"

definition enqueue :: "iteration_cycle \<Rightarrow> iteration_queue \<Rightarrow> iteration_queue result" where
  "enqueue c q = rbind (require (case map_of (iq_cycles q) (ic_cycle_id c) of None \<Rightarrow> True | Some existing \<Rightarrow> same_cycle existing c)
      (ValueError ''cycle identity conflict'')) (\<lambda>_.
    Inr (q\<lparr>iq_cycles := dict_setdefault (ic_cycle_id c) c (iq_cycles q)\<rparr>))"

definition not_after :: "datetime \<Rightarrow> datetime \<Rightarrow> bool result" where
  "not_after a b = rbind (dt_greater a b) (\<lambda>g. Inr (\<not> g))"

definition cycle_eligible :: "datetime \<Rightarrow> iteration_cycle \<Rightarrow> bool result" where
  "cycle_eligible now c =
    (if ic_state c \<notin> {QUEUED, DEFERRED_QUOTA} then Inr False
     else rbind (not_after (ic_scheduled_for c) now) (\<lambda>due.
       if \<not> due then Inr False
       else (case ic_retry_after c of None \<Rightarrow> Inr True | Some t \<Rightarrow> not_after t now)))"

fun eligible_cycles :: "datetime \<Rightarrow> iteration_cycle list \<Rightarrow> iteration_cycle list result" where
  "eligible_cycles now [] = Inr []"
| "eligible_cycles now (c # cs) =
    rbind (cycle_eligible now c) (\<lambda>e. rbind (eligible_cycles now cs) (\<lambda>es. Inr (if e then c # es else es)))"

text \<open>The key of the minimum; the eligible times all compare with \<open>now\<close>, hence with one another.\<close>

definition cycle_key :: "iteration_cycle \<Rightarrow> int \<times> string" where
  "cycle_key c = (dt_instant (ic_scheduled_for c), ic_cycle_id c)"

fun first_cycle :: "iteration_cycle \<Rightarrow> iteration_cycle list \<Rightarrow> iteration_cycle" where
  "first_cycle b [] = b"
| "first_cycle b (c # cs) = first_cycle (if cycle_key c < cycle_key b then c else b) cs"

definition claim_cycle :: "datetime \<Rightarrow> bool \<Rightarrow> iteration_queue \<Rightarrow> (iteration_cycle option \<times> iteration_queue) result" where
  "claim_cycle now quota_available q =
    (if iq_running q \<noteq> None then Inr (None, q)
     else rbind (eligible_cycles now (map snd (iq_cycles q))) (\<lambda>eligible. case eligible of
         [] \<Rightarrow> Inr (None, q)
       | b # cs \<Rightarrow>
         let c = first_cycle b cs in
         if \<not> quota_available then
           let deferred = c\<lparr>ic_state := DEFERRED_QUOTA, ic_retry_after := Some (dt_add now (days 1))\<rparr> in
           Inr (Some deferred, q\<lparr>iq_cycles := AList.update (ic_cycle_id c) deferred (iq_cycles q)\<rparr>)
         else
           let running = c\<lparr>ic_state := CYCLE_RUNNING, ic_attempt_count := ic_attempt_count c + 1, ic_retry_after := None\<rparr> in
           Inr (Some running, q\<lparr>iq_cycles := AList.update (ic_cycle_id c) running (iq_cycles q), iq_running := Some (ic_cycle_id c)\<rparr>)))"

definition finish_cycle :: "string \<Rightarrow> bool \<Rightarrow> iteration_queue \<Rightarrow> (iteration_cycle \<times> iteration_queue) result" where
  "finish_cycle cycle_id success q =
    rbind (require (iq_running q = Some cycle_id) (ValueError ''cycle is not the running attempt'')) (\<lambda>_.
    case map_of (iq_cycles q) cycle_id of None \<Rightarrow> Inl (KeyError cycle_id)
    | Some c \<Rightarrow>
      let finished = c\<lparr>ic_state := (if success then COMPLETED else FAILED)\<rparr> in
      Inr (finished, q\<lparr>iq_cycles := AList.update cycle_id finished (iq_cycles q), iq_running := None\<rparr>))"

section \<open>The continuous gate\<close>

record gate_observation =
  go_observed_at :: datetime
  go_release_hash :: string
  go_runtime_state :: string
  go_open_p0_p1 :: int
  go_order_discrepancies :: int
  go_duplicate_orders :: int
  go_unprotected_positions :: int

record gate_result =
  gr_passed :: bool
  gr_observed_duration :: int
  gr_reason_codes :: "string list"

text \<open>Sorting compares every element with some other one, so a mixture of naive and aware times raises.\<close>

definition sorted_observations :: "gate_observation list \<Rightarrow> gate_observation list result" where
  "sorted_observations observations =
    rbind (require (\<forall>a \<in> set observations. is_aware (go_observed_at a) = is_aware (go_observed_at (hd observations)))
      (TypeError ''can't compare offset-naive and offset-aware datetimes'')) (\<lambda>_.
    Inr (sort_key (\<lambda>a. dt_instant (go_observed_at a)) observations))"

fun observability_gap :: "int \<Rightarrow> gate_observation list \<Rightarrow> bool" where
  "observability_gap maximum_gap (a # b # rest) =
    (maximum_gap < dt_instant (go_observed_at b) - dt_instant (go_observed_at a) \<or> observability_gap maximum_gap (b # rest))"
| "observability_gap maximum_gap rest = False"

definition evaluate_continuous_gate :: "gate_observation list \<Rightarrow> int \<Rightarrow> int \<Rightarrow> string set \<Rightarrow> gate_result result" where
  "evaluate_continuous_gate observations required_duration maximum_gap allowed_runtime_states =
    (if length observations < 2 then Inr \<lparr>gr_passed = False, gr_observed_duration = 0, gr_reason_codes = [''INSUFFICIENT_OBSERVATION'']\<rparr>
     else rbind (sorted_observations observations) (\<lambda>ordered.
       let duration = dt_instant (go_observed_at (last ordered)) - dt_instant (go_observed_at (hd ordered));
           reasons =
             (if length (remdups (map go_release_hash ordered)) \<noteq> 1 then [''RELEASE_CHANGED_DURING_GATE''] else [])
             @ (if observability_gap maximum_gap ordered then [''OBSERVABILITY_GAP''] else [])
             @ (if list_ex (\<lambda>a. go_runtime_state a \<notin> allowed_runtime_states) ordered then [''RUNTIME_STATE_INVALID_DURING_GATE''] else [])
             @ (if list_ex (\<lambda>a. go_open_p0_p1 a \<noteq> 0) ordered then [''OPEN_P0_P1''] else [])
             @ (if list_ex (\<lambda>a. go_order_discrepancies a \<noteq> 0) ordered then [''ORDER_DISCREPANCY''] else [])
             @ (if list_ex (\<lambda>a. go_duplicate_orders a \<noteq> 0) ordered then [''DUPLICATE_ORDER''] else [])
             @ (if list_ex (\<lambda>a. go_unprotected_positions a \<noteq> 0) ordered then [''UNPROTECTED_POSITION''] else [])
             @ (if duration < required_duration then [''INSUFFICIENT_DURATION''] else []) in
       Inr \<lparr>gr_passed = (reasons = []), gr_observed_duration = duration, gr_reason_codes = dedup reasons\<rparr>))"

section \<open>The retention criteria\<close>

record forward_metrics =
  fm_trades :: int
  fm_net_expectancy :: decimal
  fm_profit_factor :: decimal
  fm_maximum_drawdown_pct :: decimal
  fm_stressed_net_expectancy :: decimal
  fm_all_parameter_variants_positive :: bool
  fm_maximum_symbol_positive_contribution_pct :: decimal
  fm_expectancy_without_top_symbol :: decimal

record research_gate_decision =
  rg_decision :: string
  rg_reason_codes :: "string list"
  rg_runtime_action :: string

definition evaluate_forward_metrics :: "forward_metrics \<Rightarrow> research_gate_decision" where
  "evaluate_forward_metrics m =
    (let reasons =
       (if fm_trades m < 500 then [''OOS_TRADES_INSUFFICIENT''] else [])
       @ (if fm_net_expectancy m \<le> 0 then [''NET_EXPECTANCY_NOT_POSITIVE''] else [])
       @ (if fm_profit_factor m < Dec False 115 (- 2) then [''PROFIT_FACTOR_BELOW_1_15''] else [])
       @ (if dec 5 < fm_maximum_drawdown_pct m then [''MAX_DRAWDOWN_ABOVE_5_PERCENT''] else [])
       @ (if fm_stressed_net_expectancy m < 0 then [''COST_STRESS_NEGATIVE''] else [])
       @ (if \<not> fm_all_parameter_variants_positive m then [''PARAMETER_STABILITY_FAILED''] else [])
       @ (if dec 40 < fm_maximum_symbol_positive_contribution_pct m then [''SYMBOL_CONCENTRATION_ABOVE_40_PERCENT''] else [])
       @ (if fm_expectancy_without_top_symbol m < 0 then [''TOP_SYMBOL_DEPENDENCY''] else []) in
     \<lparr>rg_decision = (if reasons \<noteq> [] then ''FAIL'' else ''PASS''), rg_reason_codes = reasons,
      rg_runtime_action = (if reasons \<noteq> [] then ''PAUSED_NEW_ENTRIES'' else ''ENABLE_MONTHLY_REVIEW'')\<rparr>)"

section \<open>One cycle at a time, the oldest first\<close>

text \<open>The runs of the queue: cycles are submitted in their initial state, then the queue serves.\<close>

inductive queue_reachable :: "iteration_queue \<Rightarrow> bool" where
  start: "queue_reachable new_queue"
| enqueued: "queue_reachable q \<Longrightarrow> ic_state c = QUEUED \<Longrightarrow> enqueue c q = Inr q' \<Longrightarrow> queue_reachable q'"
| claimed: "queue_reachable q \<Longrightarrow> claim_cycle now quota q = Inr (r, q') \<Longrightarrow> queue_reachable q'"
| finished: "queue_reachable q \<Longrightarrow> finish_cycle i success q = Inr (r, q') \<Longrightarrow> queue_reachable q'"

definition entry_ok :: "string option \<Rightarrow> string \<Rightarrow> iteration_cycle \<Rightarrow> bool" where
  "entry_ok running i c \<longleftrightarrow> ic_cycle_id c = i \<and> (ic_state c = CYCLE_RUNNING \<longleftrightarrow> running = Some i)"

definition queue_inv :: "iteration_queue \<Rightarrow> bool" where
  "queue_inv q \<longleftrightarrow> dict_ok (iq_cycles q) \<and> (\<forall>i c. map_of (iq_cycles q) i = Some c \<longrightarrow> entry_ok (iq_running q) i c)
     \<and> (\<forall>i. iq_running q = Some i \<longrightarrow> map_of (iq_cycles q) i \<noteq> None)"

lemma entry_ok_other: "entry_ok r i c \<Longrightarrow> i \<noteq> k \<Longrightarrow> r \<in> {None, Some k} \<Longrightarrow> r' \<in> {None, Some k} \<Longrightarrow> entry_ok r' i c"
  by (auto simp: entry_ok_def)

lemma queue_update_inv:
  assumes "queue_inv q" "iq_running q \<in> {None, Some k}" "r \<in> {None, Some k}" "entry_ok r k v"
  shows "queue_inv (q\<lparr>iq_cycles := AList.update k v (iq_cycles q), iq_running := r\<rparr>)"
  using assms entry_ok_other [of "iq_running q" _ _ k r] by (auto simp: queue_inv_def map_of_update)

lemma first_cycle_least:
  "first_cycle b cs \<in> insert b (set cs) \<and> (\<forall>c \<in> insert b (set cs). cycle_key (first_cycle b cs) \<le> cycle_key c)"
proof (induction cs arbitrary: b)
  case (Cons c cs)
  let ?b = "if cycle_key c < cycle_key b then c else b"
  have "cycle_key ?b \<le> cycle_key b" "cycle_key ?b \<le> cycle_key c" by auto
  with Cons.IH [of ?b] show ?case by (auto intro: order_trans split: if_splits)
qed simp

lemma eligible_cycles_set:
  assumes "eligible_cycles now cs = Inr es"
  shows "es = filter (\<lambda>c. cycle_eligible now c = Inr True) cs"
  using assms by (induction cs arbitrary: es) auto

lemma map_of_setdefault:
  "map_of (dict_setdefault k v d) i = (if map_of d k = None \<and> i = k then Some v else map_of d i)"
  by (auto simp: dict_setdefault_def map_add_def split: option.splits)

lemma enqueue_inv:
  assumes "queue_inv q" "ic_state c = QUEUED" "enqueue c q = Inr q'"
  shows "queue_inv q'"
  using assms by (auto simp: queue_inv_def entry_ok_def enqueue_def map_of_setdefault split: if_splits option.splits)

lemma finish_inv:
  assumes "queue_inv q" "finish_cycle i success q = Inr (r, q')"
  shows "queue_inv q'"
proof -
  from assms(2) obtain c where "iq_running q = Some i" "map_of (iq_cycles q) i = Some c"
    "q' = q\<lparr>iq_cycles := AList.update i (c\<lparr>ic_state := (if success then COMPLETED else FAILED)\<rparr>) (iq_cycles q), iq_running := None\<rparr>"
    by (auto simp: finish_cycle_def Let_def split: option.splits)
  moreover from this(2) assms(1) have "ic_cycle_id c = i" by (auto simp: queue_inv_def entry_ok_def)
  ultimately show ?thesis using assms(1) by (auto intro!: queue_update_inv simp: entry_ok_def)
qed

lemma claim_cases:
  assumes "queue_inv q" "claim_cycle now quota q = Inr (r, q')"
  obtains "r = None" "q' = q" "iq_running q \<noteq> None \<or> (\<forall>c \<in> set (map snd (iq_cycles q)). cycle_eligible now c \<noteq> Inr True)"
  | c where "iq_running q = None" "map_of (iq_cycles q) (ic_cycle_id c) = Some c" "cycle_eligible now c = Inr True"
      "\<forall>d \<in> set (map snd (iq_cycles q)). cycle_eligible now d = Inr True \<longrightarrow> cycle_key c \<le> cycle_key d"
      "r = Some (if quota then c\<lparr>ic_state := CYCLE_RUNNING, ic_attempt_count := ic_attempt_count c + 1, ic_retry_after := None\<rparr>
         else c\<lparr>ic_state := DEFERRED_QUOTA, ic_retry_after := Some (dt_add now (days 1))\<rparr>)"
      "q' = q\<lparr>iq_cycles := AList.update (ic_cycle_id c) (the r) (iq_cycles q), iq_running := (if quota then Some (ic_cycle_id c) else None)\<rparr>"
proof (cases "iq_running q")
  case (Some i)
  with assms that(1) show thesis by (auto simp: claim_cycle_def)
next
  case None
  with assms(2) obtain es where es: "eligible_cycles now (map snd (iq_cycles q)) = Inr es"
    by (cases "eligible_cycles now (map snd (iq_cycles q))") (auto simp: claim_cycle_def)
  note members = eligible_cycles_set [OF es]
  show thesis
  proof (cases es)
    case Nil
    then have "filter (\<lambda>c. cycle_eligible now c = Inr True) (map snd (iq_cycles q)) = []" using members by simp
    then have "\<forall>c \<in> set (map snd (iq_cycles q)). cycle_eligible now c \<noteq> Inr True" unfolding filter_empty_conv .
    moreover from None Nil es assms(2) have "r = None" "q' = q" by (simp_all add: claim_cycle_def)
    ultimately show thesis using that(1) by blast
  next
    case (Cons b cs)
    let ?c = "first_cycle b cs"
    from first_cycle_least [of b cs] Cons have least: "?c \<in> set es" "\<forall>d \<in> set es. cycle_key ?c \<le> cycle_key d" by auto
    then obtain i where "(i, ?c) \<in> set (iq_cycles q)" "cycle_eligible now ?c = Inr True" unfolding members by auto
    moreover from this(1) assms(1) have "map_of (iq_cycles q) (ic_cycle_id ?c) = Some ?c"
      by (auto simp: queue_inv_def dict_ok_def entry_ok_def)
    moreover have "\<forall>d \<in> set (map snd (iq_cycles q)). cycle_eligible now d = Inr True \<longrightarrow> cycle_key ?c \<le> cycle_key d"
      using least(2) unfolding members by simp
    ultimately show thesis using that(2) [of ?c] None Cons es assms(2) by (auto simp: claim_cycle_def Let_def split: if_splits)
  qed
qed

lemma claim_inv:
  assumes "queue_inv q" "claim_cycle now quota q = Inr (r, q')"
  shows "queue_inv q'"
proof (rule claim_cases [OF assms])
  fix c assume c: "iq_running q = None" "map_of (iq_cycles q) (ic_cycle_id c) = Some c"
    and r: "r = Some (if quota then c\<lparr>ic_state := CYCLE_RUNNING, ic_attempt_count := ic_attempt_count c + 1, ic_retry_after := None\<rparr>
         else c\<lparr>ic_state := DEFERRED_QUOTA, ic_retry_after := Some (dt_add now (days 1))\<rparr>)"
    and q': "q' = q\<lparr>iq_cycles := AList.update (ic_cycle_id c) (the r) (iq_cycles q), iq_running := (if quota then Some (ic_cycle_id c) else None)\<rparr>"
  from assms(1) c(1) show ?thesis unfolding q' r by (intro queue_update_inv) (auto simp: entry_ok_def)
qed (use assms(1) in simp)

lemma queue_reachable_inv: "queue_reachable q \<Longrightarrow> queue_inv q"
proof (induction rule: queue_reachable.induct)
  case start
  show ?case by (simp add: queue_inv_def new_queue_def)
qed (auto intro: enqueue_inv claim_inv finish_inv)

text \<open>The cycles that are due, and a worker that serves them: it claims, finishes with success and repeats.\<close>

definition due :: "datetime \<Rightarrow> iteration_queue \<Rightarrow> string set" where
  "due now q = {i. \<exists>c. map_of (iq_cycles q) i = Some c \<and> cycle_eligible now c = Inr True}"

definition times_compare :: "datetime \<Rightarrow> iteration_queue \<Rightarrow> bool" where
  "times_compare now q \<longleftrightarrow> (\<forall>i c. map_of (iq_cycles q) i = Some c \<longrightarrow> (\<exists>e. cycle_eligible now c = Inr e))"

fun serve :: "nat \<Rightarrow> datetime \<Rightarrow> iteration_queue \<Rightarrow> (iteration_cycle list \<times> iteration_queue) result" where
  "serve 0 now q = Inr ([], q)"
| "serve (Suc n) now q = rbind (claim_cycle now True q) (\<lambda>(r, q1). case r of
     None \<Rightarrow> Inr ([], q1)
   | Some c \<Rightarrow> rbind (finish_cycle (ic_cycle_id c) True q1) (\<lambda>(f, q2).
       rbind (serve n now q2) (\<lambda>(fs, q3). Inr (f # fs, q3))))"

lemma eligible_cycles_total:
  "(\<forall>c \<in> set cs. \<exists>e. cycle_eligible now c = Inr e) \<Longrightarrow> \<exists>es. eligible_cycles now cs = Inr es"
  by (induction cs) fastforce+

lemma due_finite: "finite (due now q)"
proof -
  have "due now q \<subseteq> dom (map_of (iq_cycles q))" by (auto simp: due_def)
  then show ?thesis using finite_dom_map_of finite_subset by blast
qed

lemma claim_total:
  assumes "queue_inv q" "times_compare now q"
  shows "\<exists>r q'. claim_cycle now quota q = Inr (r, q')"
proof -
  have "\<exists>es. eligible_cycles now (map snd (iq_cycles q)) = Inr es"
    using assms by (intro eligible_cycles_total) (auto simp: times_compare_def queue_inv_def dict_ok_def)
  then obtain es where "eligible_cycles now (map snd (iq_cycles q)) = Inr es" by blast
  then show ?thesis by (cases es) (auto simp: claim_cycle_def Let_def)
qed

lemma serve_one:
  assumes "queue_inv q" "times_compare now q" "iq_running q = None" "due now q \<noteq> {}"
  obtains c f q1 q2 where "claim_cycle now True q = Inr (Some c, q1)" "finish_cycle (ic_cycle_id c) True q1 = Inr (f, q2)"
    "queue_inv q2" "times_compare now q2" "iq_running q2 = None" "ic_state f = COMPLETED" "ic_cycle_id f \<in> due now q"
    "due now q2 = due now q - {ic_cycle_id f}"
    "\<And>i d. map_of (iq_cycles q) i = Some d \<Longrightarrow> cycle_eligible now d = Inr True \<Longrightarrow> cycle_key f \<le> cycle_key d"
    "\<And>i. i \<noteq> ic_cycle_id f \<Longrightarrow> map_of (iq_cycles q2) i = map_of (iq_cycles q) i"
    "\<exists>d. map_of (iq_cycles q) (ic_cycle_id f) = Some d \<and> cycle_eligible now d = Inr True \<and> cycle_key f = cycle_key d"
proof -
  from claim_total [OF assms(1,2)] obtain r q1 where made: "claim_cycle now True q = Inr (r, q1)" by blast
  show thesis
  proof (rule claim_cases [OF assms(1) made])
    assume "iq_running q \<noteq> None \<or> (\<forall>c \<in> set (map snd (iq_cycles q)). cycle_eligible now c \<noteq> Inr True)"
    with assms(3,4) show thesis by (fastforce simp: due_def dest: map_of_SomeD)
  next
    fix c
    assume c: "map_of (iq_cycles q) (ic_cycle_id c) = Some c" "cycle_eligible now c = Inr True"
      and least: "\<forall>d \<in> set (map snd (iq_cycles q)). cycle_eligible now d = Inr True \<longrightarrow> cycle_key c \<le> cycle_key d"
      and r: "r = Some (if True then c\<lparr>ic_state := CYCLE_RUNNING, ic_attempt_count := ic_attempt_count c + 1, ic_retry_after := None\<rparr>
         else c\<lparr>ic_state := DEFERRED_QUOTA, ic_retry_after := Some (dt_add now (days 1))\<rparr>)"
      and q1: "q1 = q\<lparr>iq_cycles := AList.update (ic_cycle_id c) (the r) (iq_cycles q),
         iq_running := (if True then Some (ic_cycle_id c) else None)\<rparr>"
    let ?f = "c\<lparr>ic_attempt_count := ic_attempt_count c + 1, ic_retry_after := None, ic_state := COMPLETED\<rparr>"
    define q2 where "q2 = q\<lparr>iq_cycles := AList.update (ic_cycle_id c) ?f (iq_cycles q1), iq_running := None\<rparr>"
    have fin: "finish_cycle (ic_cycle_id c) True q1 = Inr (?f, q2)"
      unfolding q1 r q2_def by (simp add: finish_cycle_def map_of_update Let_def)
    have look: "map_of (iq_cycles q2) i = (if i = ic_cycle_id c then Some ?f else map_of (iq_cycles q) i)" for i
      unfolding q1 q2_def by (simp add: map_of_update)
    have over: "cycle_eligible now ?f = Inr False" by (simp add: cycle_eligible_def)
    show thesis
    proof (rule that)
      show "claim_cycle now True q = Inr (Some (the r), q1)" using made r by simp
      show "finish_cycle (ic_cycle_id (the r)) True q1 = Inr (?f, q2)" using fin r by simp
      show "queue_inv q2" by (rule finish_inv [OF claim_inv [OF assms(1) made] fin])
      show "times_compare now q2" using assms(2) over by (auto simp: times_compare_def look)
      show "due now q2 = due now q - {ic_cycle_id ?f}" using over by (auto simp: due_def look)
      show "ic_cycle_id ?f \<in> due now q" using c by (auto simp: due_def)
      show "cycle_key ?f \<le> cycle_key d" if "map_of (iq_cycles q) i = Some d" "cycle_eligible now d = Inr True" for i d
      proof -
        have "d \<in> set (map snd (iq_cycles q))" using map_of_SomeD [OF that(1)] by force
        with least that(2) have "cycle_key c \<le> cycle_key d" by blast
        then show ?thesis by (simp add: cycle_key_def)
      qed
      show "\<exists>d. map_of (iq_cycles q) (ic_cycle_id ?f) = Some d \<and> cycle_eligible now d = Inr True \<and> cycle_key ?f = cycle_key d"
        using c by (simp add: cycle_key_def)
      show "iq_running q2 = None" by (simp add: q2_def)
    qed (simp_all add: look)
  qed
qed

lemma serve_all:
  assumes "queue_inv q" "times_compare now q" "iq_running q = None" "card (due now q) = n"
  shows "\<exists>fs q'. serve n now q = Inr (fs, q') \<and> ic_cycle_id ` set fs = due now q \<and> distinct (map ic_cycle_id fs)
    \<and> sorted (map cycle_key fs) \<and> list_all (\<lambda>f. ic_state f = COMPLETED) fs \<and> due now q' = {}
    \<and> (\<forall>f \<in> set fs. \<exists>i d. map_of (iq_cycles q) i = Some d \<and> cycle_eligible now d = Inr True \<and> cycle_key f = cycle_key d)"
  using assms
proof (induction n arbitrary: q)
  case 0
  then have "due now q = {}" using due_finite by simp
  then show ?case by simp
next
  case (Suc n)
  then have some: "due now q \<noteq> {}" by auto
  obtain c f q1 q2 where one:
    "claim_cycle now True q = Inr (Some c, q1)" "finish_cycle (ic_cycle_id c) True q1 = Inr (f, q2)"
    "queue_inv q2" "times_compare now q2" "iq_running q2 = None" "ic_state f = COMPLETED" "ic_cycle_id f \<in> due now q"
    "due now q2 = due now q - {ic_cycle_id f}"
    and least: "\<And>i d. map_of (iq_cycles q) i = Some d \<Longrightarrow> cycle_eligible now d = Inr True \<Longrightarrow> cycle_key f \<le> cycle_key d"
    and kept: "\<And>i. i \<noteq> ic_cycle_id f \<Longrightarrow> map_of (iq_cycles q2) i = map_of (iq_cycles q) i"
    and known: "\<exists>d. map_of (iq_cycles q) (ic_cycle_id f) = Some d \<and> cycle_eligible now d = Inr True \<and> cycle_key f = cycle_key d"
    by (rule serve_one [OF Suc.prems(1-3) some]) (rule that)
  have "card (due now q2) = n" using one(7,8) Suc.prems(4) due_finite by simp
  from Suc.IH [OF one(3-5) this] obtain fs q' where fs: "serve n now q2 = Inr (fs, q')" "ic_cycle_id ` set fs = due now q2"
    "distinct (map ic_cycle_id fs)" "sorted (map cycle_key fs)" "list_all (\<lambda>f. ic_state f = COMPLETED) fs" "due now q' = {}"
    and keys: "\<forall>g \<in> set fs. \<exists>i d. map_of (iq_cycles q2) i = Some d \<and> cycle_eligible now d = Inr True \<and> cycle_key g = cycle_key d"
    by blast
  have old: "\<exists>i d. map_of (iq_cycles q) i = Some d \<and> cycle_eligible now d = Inr True \<and> cycle_key g = cycle_key d" if "g \<in> set fs" for g
  proof -
    from keys that obtain i d where d: "map_of (iq_cycles q2) i = Some d" "cycle_eligible now d = Inr True" "cycle_key g = cycle_key d" by blast
    then have "i \<in> due now q2" by (auto simp: due_def)
    with one(8) have "i \<noteq> ic_cycle_id f" by simp
    with kept [of i] d show ?thesis by metis
  qed
  have "serve (Suc n) now q = Inr (f # fs, q')" using one(1,2) fs(1) by simp
  moreover have "ic_cycle_id ` set (f # fs) = due now q" "distinct (map ic_cycle_id (f # fs))" using one(7,8) fs(2,3) by auto
  moreover have "sorted (map cycle_key (f # fs))" using fs(4) old least by fastforce
  ultimately show ?case using fs(5,6) one(6) old known by (intro exI [of _ "f # fs"] exI [of _ q']) auto
qed

text \<open>The queue runs one cycle at a time. In every reachable state the running cycles are exactly the one the
  queue holds as running, if any; while there is one, nothing is claimed, and only its own identifier can finish
  it; the finish then succeeds and ends it.\<close>

theorem one_cycle_runs:
  assumes "queue_reachable q"
  shows "{i. \<exists>c. map_of (iq_cycles q) i = Some c \<and> ic_state c = CYCLE_RUNNING} = set_option (iq_running q)
    \<and> (\<forall>i. iq_running q = Some i \<longrightarrow> claim_cycle now quota q = Inr (None, q)
        \<and> (\<exists>f q'. finish_cycle i success q = Inr (f, q') \<and> iq_running q' = None \<and> ic_state f \<in> {COMPLETED, FAILED})
        \<and> (\<forall>j. j \<noteq> i \<longrightarrow> finish_cycle j success q = Inl (ValueError ''cycle is not the running attempt'')))"
proof -
  have inv: "queue_inv q" using assms by (rule queue_reachable_inv)
  then have "(\<exists>c. map_of (iq_cycles q) i = Some c \<and> ic_state c = CYCLE_RUNNING) \<longleftrightarrow> iq_running q = Some i" for i
    unfolding queue_inv_def entry_ok_def by (metis option.exhaust)
  with inv show ?thesis
    by (auto simp: claim_cycle_def finish_cycle_def queue_inv_def Let_def split: option.splits)
qed

text \<open>C37: no due cycle is starved and the oldest goes first. From every reachable state in which nothing runs, a
  worker that claims and finishes as often as cycles are due completes exactly those, each once, in the order of
  their scheduled time and identifier, and none is due afterwards. The times have to compare with the clock, that
  is, be all naive or all aware as it is; otherwise the claim raises.\<close>

theorem due_cycles_are_served_in_order:
  assumes "queue_reachable q" "times_compare now q" "iq_running q = None"
  shows "\<exists>fs q'. serve (card (due now q)) now q = Inr (fs, q') \<and> ic_cycle_id ` set fs = due now q \<and> distinct (map ic_cycle_id fs)
    \<and> sorted (map cycle_key fs) \<and> list_all (\<lambda>f. ic_state f = COMPLETED) fs \<and> due now q' = {}"
  using serve_all [OF queue_reachable_inv [OF assms(1)] assms(2,3) refl] by blast

section \<open>The gate covers the whole period\<close>

text \<open>Every instant of the period lies less than \<open>gap\<close> after some observation.\<close>

definition covered :: "int \<Rightarrow> int list \<Rightarrow> bool" where
  "covered gap ts \<longleftrightarrow> (\<forall>t. Min (set ts) \<le> t \<and> t < Max (set ts) \<longrightarrow> (\<exists>a \<in> set ts. a \<le> t \<and> t < a + gap))"

abbreviation observed_times :: "gate_observation list \<Rightarrow> int list" where
  "observed_times os \<equiv> map (\<lambda>a. dt_instant (go_observed_at a)) os"

lemma sorted_Max: "sorted ts \<Longrightarrow> ts \<noteq> [] \<Longrightarrow> Max (set ts) = last ts"
  by (induction ts) (auto simp: max_def dest: last_in_set)

lemma sorted_Min: "sorted ts \<Longrightarrow> ts \<noteq> [] \<Longrightarrow> Min (set ts) = hd ts"
  by (cases ts) (auto intro!: Min_eqI)

lemma covered_Cons:
  assumes "sorted (a # b # ts)" "0 \<le> gap"
  shows "covered gap (a # b # ts) \<longleftrightarrow> b - a \<le> gap \<and> covered gap (b # ts)"
proof -
  have ends: "Min (set (a # b # ts)) = a" "Max (set (a # b # ts)) = last (b # ts)" "Min (set (b # ts)) = b" "Max (set (b # ts)) = last (b # ts)"
    using sorted_Max [OF assms(1)] sorted_Min [OF assms(1)] sorted_Max [of "b # ts"] sorted_Min [of "b # ts"] assms(1) by simp_all
  have bound: "b \<le> last (b # ts)" using assms(1) last_in_set [of "b # ts"] by auto
  show ?thesis
  proof
    assume cov: "covered gap (a # b # ts)"
    have near: "b - a \<le> gap"
    proof (cases "a < b")
      case True
      with bound have "a \<le> b - 1 \<and> b - 1 < last (b # ts)" by linarith
      with cov obtain c where "c \<in> set (a # b # ts)" "c \<le> b - 1" "b - 1 < c + gap" unfolding covered_def ends by blast
      with assms(1) show ?thesis by auto
    qed (use assms in auto)
    moreover have "covered gap (b # ts)" unfolding covered_def ends
    proof (intro allI impI)
      fix t assume t: "b \<le> t \<and> t < last (b # ts)"
      with assms(1) have "a \<le> t" by auto
      with cov t obtain c where "c \<in> set (a # b # ts)" "c \<le> t" "t < c + gap" unfolding covered_def ends by blast
      with t assms(1) show "\<exists>c \<in> set (b # ts). c \<le> t \<and> t < c + gap" by auto
    qed
    ultimately show "b - a \<le> gap \<and> covered gap (b # ts)" by blast
  next
    assume both: "b - a \<le> gap \<and> covered gap (b # ts)"
    show "covered gap (a # b # ts)" unfolding covered_def ends
    proof (intro allI impI)
      fix t assume t: "a \<le> t \<and> t < last (b # ts)"
      show "\<exists>c \<in> set (a # b # ts). c \<le> t \<and> t < c + gap"
        using both t unfolding covered_def ends by (cases "t < b") auto
    qed
  qed
qed

lemma gap_iff_uncovered:
  "os \<noteq> [] \<Longrightarrow> sorted (observed_times os) \<Longrightarrow> 0 \<le> gap \<Longrightarrow> observability_gap gap os \<longleftrightarrow> \<not> covered gap (observed_times os)"
proof (induction gap os rule: observability_gap.induct)
  case (1 gap a b rest)
  then show ?case using covered_Cons [of "dt_instant (go_observed_at a)" "dt_instant (go_observed_at b)" "observed_times rest" gap]
    by auto
qed (auto simp: covered_def)

lemma one_release: "length (remdups xs) = 1 \<longleftrightarrow> xs \<noteq> [] \<and> (\<forall>x \<in> set xs. \<forall>y \<in> set xs. x = y)"
proof -
  have "length (remdups xs) = card (set xs)" by (simp add: length_remdups_card_conv)
  also have "\<dots> = 1 \<longleftrightarrow> xs \<noteq> [] \<and> (\<forall>x \<in> set xs. \<forall>y \<in> set xs. x = y)"
    by (cases xs) (auto simp: card_1_singleton_iff)
  finally show ?thesis .
qed

definition clean_observation :: "string set \<Rightarrow> gate_observation \<Rightarrow> bool" where
  "clean_observation allowed a \<longleftrightarrow> go_runtime_state a \<in> allowed \<and> go_open_p0_p1 a = 0 \<and> go_order_discrepancies a = 0
     \<and> go_duplicate_orders a = 0 \<and> go_unprotected_positions a = 0"

text \<open>C38: the gate passes on continuous evidence only. For times that compare and a gap that is not negative it
  passes exactly when there are two observations or more of one release, each clean and in a permitted state, they
  span the required duration, and every instant of that period lies less than the permitted gap after one of them;
  the order in which they are given does not matter. Otherwise it names a reason.\<close>

theorem gate_needs_continuous_evidence:
  assumes "\<forall>a \<in> set os. is_utc (go_observed_at a)" "0 \<le> gap"
  shows "\<exists>r. evaluate_continuous_gate os required gap allowed = Inr r \<and> (gr_passed r \<longleftrightarrow> gr_reason_codes r = [])
    \<and> (gr_passed r \<longleftrightarrow> 2 \<le> length os \<and> (\<forall>a \<in> set os. \<forall>b \<in> set os. go_release_hash a = go_release_hash b)
        \<and> list_all (clean_observation allowed) os \<and> covered gap (observed_times os)
        \<and> required \<le> Max (set (observed_times os)) - Min (set (observed_times os)))"
proof (cases "length os < 2")
  case False
  then have some: "os \<noteq> []" by auto
  let ?s = "sort_key (\<lambda>a. dt_instant (go_observed_at a)) os"
  have s: "set ?s = set os" "sorted (observed_times ?s)" "?s \<noteq> []" using some by (auto simp flip: length_greater_0_conv)
  have ordered: "sorted_observations os = Inr ?s"
    using assms(1) some hd_in_set [of os] by (simp add: sorted_observations_def is_utc_def is_aware_def)
  have gap: "observability_gap gap ?s \<longleftrightarrow> \<not> covered gap (observed_times os)"
    using gap_iff_uncovered [OF s(3,2) assms(2)] by (simp add: covered_def s(1))
  have ends: "dt_instant (go_observed_at (last ?s)) - dt_instant (go_observed_at (hd ?s)) = Max (set (observed_times os)) - Min (set (observed_times os))"
    using sorted_Max [OF s(2)] sorted_Min [OF s(2)] s(1,3) by (simp add: last_map hd_map)
  define same where "same \<longleftrightarrow> (\<forall>a \<in> set os. \<forall>b \<in> set os. go_release_hash a = go_release_hash b)"
  have release: "length (remdups (map go_release_hash ?s)) = 1 \<longleftrightarrow> same"
    using s(3) unfolding one_release same_def by (simp add: s(1))
  have clean: "list_all (clean_observation allowed) os \<longleftrightarrow> \<not> list_ex (\<lambda>a. go_runtime_state a \<notin> allowed) ?s
      \<and> \<not> list_ex (\<lambda>a. go_open_p0_p1 a \<noteq> 0) ?s \<and> \<not> list_ex (\<lambda>a. go_order_discrepancies a \<noteq> 0) ?s
      \<and> \<not> list_ex (\<lambda>a. go_duplicate_orders a \<noteq> 0) ?s \<and> \<not> list_ex (\<lambda>a. go_unprotected_positions a \<noteq> 0) ?s"
    unfolding list_ex_iff list_all_iff s(1) clean_observation_def by blast
  show ?thesis unfolding evaluate_continuous_gate_def ordered rbind_Inr Let_def ends release same_def [symmetric]
    using False by (simp add: clean gap not_less)
qed (auto simp: evaluate_continuous_gate_def)

section \<open>Witnesses\<close>

definition sample_instant :: "int \<Rightarrow> datetime" where
  "sample_instant n = \<lparr>dt_instant = n, dt_utcoffset = Some 0\<rparr>"

definition sample_cycle_of :: "string \<Rightarrow> int \<Rightarrow> iteration_cycle" where
  "sample_cycle_of i n = \<lparr>ic_cycle_id = i, ic_scheduled_for = sample_instant n, ic_data_cutoff_at = sample_instant n, ic_champion_hash = ''a'',
     ic_state = QUEUED, ic_attempt_count = 0, ic_retry_after = None\<rparr>"

definition sample_queue :: iteration_queue where
  "sample_queue = \<lparr>iq_cycles = [(''new'', sample_cycle_of ''new'' 1), (''old'', sample_cycle_of ''old'' 0)], iq_running = None\<rparr>"

lemma sample_queue_reachable: "queue_reachable sample_queue"
proof -
  have "enqueue (sample_cycle_of ''new'' 1) new_queue = Inr \<lparr>iq_cycles = [(''new'', sample_cycle_of ''new'' 1)], iq_running = None\<rparr>"
    and "enqueue (sample_cycle_of ''old'' 0) \<lparr>iq_cycles = [(''new'', sample_cycle_of ''new'' 1)], iq_running = None\<rparr> = Inr sample_queue"
    by (simp_all add: enqueue_def new_queue_def sample_cycle_of_def dict_setdefault_def sample_queue_def)
  then show ?thesis
    by (metis (no_types, lifting) queue_reachable.start queue_reachable.enqueued sample_cycle_of_def iteration_cycle.select_convs(5))
qed

lemmas sample_queue_simps = sample_queue_def sample_cycle_of_def sample_instant_def cycle_eligible_def not_after_def dt_greater_def
  comparable_def is_aware_def claim_cycle_def cycle_key_def Let_def

theorem one_cycle_runs_witness:
  "\<exists>q. iq_running q = Some ''old'' \<and> claim_cycle (sample_instant 5) True q = Inr (None, q)
    \<and> finish_cycle ''new'' True q = Inl (ValueError ''cycle is not the running attempt'')"
proof -
  obtain r q where q: "claim_cycle (sample_instant 5) True sample_queue = Inr (r, q)" "iq_running q = Some ''old''"
    by (simp add: sample_queue_simps)
  from queue_reachable.claimed [OF sample_queue_reachable q(1)] have "queue_reachable q" .
  from one_cycle_runs [OF this, of "sample_instant 5" True True] q(2) show ?thesis by (intro exI [of _ q]) simp
qed

theorem due_cycles_are_served_in_order_witness:
  "\<exists>fs q'. serve 2 (sample_instant 5) sample_queue = Inr (fs, q') \<and> ic_cycle_id ` set fs = {''new'', ''old''} \<and> sorted (map cycle_key fs)"
proof -
  have e: "cycle_eligible (sample_instant 5) (sample_cycle_of i n) = Inr (n \<le> 5)" for i n
    by (auto simp: sample_queue_simps)
  have look: "map_of (iq_cycles sample_queue) i
      = (if i = ''new'' then Some (sample_cycle_of ''new'' 1) else if i = ''old'' then Some (sample_cycle_of ''old'' 0) else None)" for i
    by (simp add: sample_queue_def)
  have d: "due (sample_instant 5) sample_queue = {''new'', ''old''}"
    unfolding due_def look by (auto simp: e)
  then have "card (due (sample_instant 5) sample_queue) = 2" by simp
  moreover have "times_compare (sample_instant 5) sample_queue"
    unfolding times_compare_def look by (simp add: e) blast
  moreover have "iq_running sample_queue = None" by (simp add: sample_queue_def)
  ultimately show ?thesis
    using due_cycles_are_served_in_order [OF sample_queue_reachable, of "sample_instant 5"] d by metis
qed

definition sample_observation :: "int \<Rightarrow> gate_observation" where
  "sample_observation n = \<lparr>go_observed_at = sample_instant n, go_release_hash = ''r'', go_runtime_state = ''RUNNING'', go_open_p0_p1 = 0,
     go_order_discrepancies = 0, go_duplicate_orders = 0, go_unprotected_positions = 0\<rparr>"

theorem gate_needs_continuous_evidence_witness:
  "\<exists>r. evaluate_continuous_gate [sample_observation 0, sample_observation 10] 8 20 {''RUNNING''} = Inr r \<and> gr_passed r"
proof -
  have "covered 20 [0, 10]" by (auto simp: covered_def)
  then show ?thesis
    using gate_needs_continuous_evidence [of "[sample_observation 0, sample_observation 10]" 20 8 "{''RUNNING''}"]
    by (auto simp: sample_observation_def sample_instant_def is_utc_def clean_observation_def)
qed

end
