(* ===== verification/Universe.thy ===== *)
theory Universe
  imports Decimals Clock
begin

text \<open>
  \<open>universe/membership.py\<close>: which symbols are traded. A controller keeps at most a fixed number of active symbols
  and changes them with hysteresis: a symbol joins after it was confirmed in the top of the ranking, and replaces
  a member only after that one's minimum residence and by a margin of the score. The ranking itself
  (\<open>universe/ranking.py\<close>) uses logarithms in a context of its own and is an input here; it lists each symbol once.
\<close>

section \<open>The controller\<close>

record universe_rank =
  ur_symbol :: string
  ur_score :: decimal

record universe_snapshot =
  us_ranking :: "universe_rank list"
  us_eligible_count :: int
  us_reduced_pool_alert :: bool

record membership_view =
  mv_active :: "string list"
  mv_standby :: "string list"
  mv_managed_positions :: "string list"
  mv_reduced_pool_alert :: bool

record membership_controller =
  mc_size :: nat
  mc_minimum_residence :: int
  mc_replacement_margin :: decimal
  mc_confirmations :: int
  mc_active :: "string list"
  mc_entered_at :: "(string, datetime) dict"
  mc_streaks :: "(string, int) dict"

definition new_membership :: "nat \<Rightarrow> int \<Rightarrow> decimal \<Rightarrow> int \<Rightarrow> membership_controller" where
  "new_membership n minimum_residence replacement_margin confirmations =
    \<lparr>mc_size = n, mc_minimum_residence = minimum_residence, mc_replacement_margin = replacement_margin, mc_confirmations = confirmations,
     mc_active = [], mc_entered_at = [], mc_streaks = []\<rparr>"

definition membership_require_utc :: "datetime \<Rightarrow> unit result" where
  "membership_require_utc t = require (is_utc t) (ValueError ''computed_at must be timezone-aware UTC'')"

definition scores :: "universe_rank list \<Rightarrow> (string, decimal) dict" where
  "scores ranking = foldl (\<lambda>d r. AList.update (ur_symbol r) (ur_score r) d) [] ranking"

definition next_streak :: "string list \<Rightarrow> (string, int) dict \<Rightarrow> string \<Rightarrow> (string, int) dict" where
  "next_streak raw_top streaks s = AList.update s (if s \<in> set raw_top then dict_get streaks s 0 + 1 else 0) streaks"

definition update_streaks :: "string list \<Rightarrow> string list \<Rightarrow> (string, int) dict \<Rightarrow> (string, int) dict" where
  "update_streaks raw_top symbols streaks = foldl (next_streak raw_top) streaks symbols"

text \<open>The loop that fills free places, with its break. Each symbol of the top has a streak by now.\<close>

fun fill_places ::
  "membership_controller \<Rightarrow> (string, int) dict \<Rightarrow> string list \<Rightarrow> datetime \<Rightarrow> string list \<Rightarrow> string list \<times> (string, datetime) dict
     \<Rightarrow> string list \<times> (string, datetime) dict" where
  "fill_places m streaks ineligible computed_at [] (active, entered) = (active, entered)"
| "fill_places m streaks ineligible computed_at (s # ss) (active, entered) =
    (if mc_size m \<le> length active then (active, entered)
     else if s \<notin> set ineligible \<and> s \<notin> set active \<and> mc_confirmations m \<le> dict_get streaks s 0
     then fill_places m streaks ineligible computed_at ss (active @ [s], AList.update s computed_at entered)
     else fill_places m streaks ineligible computed_at ss (active, entered))"

text \<open>A symbol without a score counts as minus infinity, also after the margin is added.\<close>

definition score_rank :: "(string, decimal) dict \<Rightarrow> string \<Rightarrow> (nat \<times> rat) \<times> string" where
  "score_rank score s = ((case map_of score s of None \<Rightarrow> (0, 0) | Some v \<Rightarrow> (1, dval v)), s)"

definition beats :: "decimal \<Rightarrow> (string, decimal) dict \<Rightarrow> string \<Rightarrow> string \<Rightarrow> bool" where
  "beats margin score challenger incumbent \<longleftrightarrow> (case map_of score incumbent of None \<Rightarrow> True
     | Some v \<Rightarrow> v + margin \<le> dict_get score challenger 0)"

fun challenge ::
  "membership_controller \<Rightarrow> (string, decimal) dict \<Rightarrow> (string, int) dict \<Rightarrow> datetime \<Rightarrow> string list \<Rightarrow> string list
     \<Rightarrow> string list \<times> (string, datetime) dict \<Rightarrow> (string list \<times> (string, datetime) dict) result" where
  "challenge m score streaks computed_at [] incumbents (active, entered) = Inr (active, entered)"
| "challenge m score streaks computed_at (c # cs) [] (active, entered) = Inr (active, entered)"
| "challenge m score streaks computed_at (c # cs) (incumbent # rest) (active, entered) =
    (case map_of entered incumbent of None \<Rightarrow> Inl (KeyError incumbent)
     | Some resident_since \<Rightarrow> rbind (dt_diff computed_at resident_since) (\<lambda>residence.
       if residence < mc_minimum_residence m then challenge m score streaks computed_at cs (incumbent # rest) (active, entered)
       else if mc_confirmations m \<le> dict_get streaks c 0 \<and> beats (mc_replacement_margin m) score c incumbent
       then challenge m score streaks computed_at cs rest
         (remove1 incumbent active @ [c], AList.update c computed_at (AList.delete incumbent entered))
       else challenge m score streaks computed_at cs (incumbent # rest) (active, entered)))"

definition rank_index :: "string list \<Rightarrow> string \<Rightarrow> nat \<times> string" where
  "rank_index symbols s = ((case map_of (zip symbols [0..<length symbols]) s of None \<Rightarrow> 10 ^ 9 | Some i \<Rightarrow> i), s)"

definition apply_membership ::
  "universe_snapshot \<Rightarrow> datetime \<Rightarrow> string list \<Rightarrow> string list \<Rightarrow> membership_controller
     \<Rightarrow> (membership_view \<times> membership_controller) result" where
  "apply_membership snapshot computed_at ineligible managed m =
    rbind (membership_require_utc computed_at) (\<lambda>_.
    let ranking = us_ranking snapshot;
        symbols = map ur_symbol ranking;
        score = scores ranking;
        raw_top = take (mc_size m) symbols;
        streaks = update_streaks raw_top (map fst score) (mc_streaks m);
        kept = filter (\<lambda>s. s \<notin> set ineligible) (mc_active m);
        (active, entered) = fill_places m streaks ineligible computed_at raw_top (kept, mc_entered_at m) in
    rbind (if mc_size m \<le> length active
       then challenge m score streaks computed_at
         (filter (\<lambda>s. s \<notin> set active \<and> s \<notin> set ineligible) raw_top) (sort_key (score_rank score) active) (active, entered)
       else Inr (active, entered)) (\<lambda>(active', entered').
    let sorted_active = sort_key (rank_index symbols) active' in
    Inr (\<lparr>mv_active = sorted_active,
          mv_standby = filter (\<lambda>s. s \<notin> set ineligible) (take 5 (drop (mc_size m) symbols)),
          mv_managed_positions = sorted_set (filter (\<lambda>s. s \<notin> set sorted_active) managed),
          mv_reduced_pool_alert = (length sorted_active < mc_size m)\<rparr>,
         m\<lparr>mc_active := sorted_active, mc_entered_at := entered', mc_streaks := streaks\<rparr>)))"

section \<open>Filling and replacing\<close>

text \<open>Members are distinct, no more than there are places, and each has a time of entry.\<close>

definition members_ok :: "nat \<Rightarrow> string list \<Rightarrow> (string, datetime) dict \<Rightarrow> bool" where
  "members_ok n active entered \<longleftrightarrow> distinct active \<and> length active \<le> n
     \<and> (\<forall>s \<in> set active. \<exists>t. map_of entered s = Some t \<and> is_utc t)"

lemma members_ok_update: "members_ok n active entered \<Longrightarrow> is_utc t \<Longrightarrow> members_ok n active (AList.update s t entered)"
  by (auto simp: members_ok_def map_of_update)

lemma fill_places_facts:
  assumes "fill_places m streaks ineligible t ss (active, entered) = (active', entered')"
    "members_ok (mc_size m) active entered" "is_utc t"
  shows "members_ok (mc_size m) active' entered' \<and> set active \<subseteq> set active'
    \<and> (\<forall>s \<in> set active. map_of entered' s = map_of entered s)
    \<and> (\<forall>s \<in> set active' - set active. s \<in> set ss \<and> s \<notin> set ineligible \<and> mc_confirmations m \<le> dict_get streaks s 0 \<and> map_of entered' s = Some t)"
  using assms
proof (induction m streaks ineligible t ss "(active, entered)" arbitrary: active entered rule: fill_places.induct)
  case (2 m streaks ineligible t s ss active entered)
  let ?joins = "s \<notin> set ineligible \<and> s \<notin> set active \<and> mc_confirmations m \<le> dict_get streaks s 0"
  consider "mc_size m \<le> length active" | "length active < mc_size m" "?joins" | "length active < mc_size m" "\<not> ?joins" by linarith
  then show ?case
  proof cases
    case 1
    with 2(3,4) show ?thesis by simp
  next
    case here: 2
    then have "members_ok (mc_size m) (active @ [s]) (AList.update s t entered)"
      using 2(4,5) by (auto simp: members_ok_def map_of_update)
    moreover have "fill_places m streaks ineligible t ss (active @ [s], AList.update s t entered) = (active', entered')"
      using here 2(3) by simp
    ultimately have "members_ok (mc_size m) active' entered' \<and> set (active @ [s]) \<subseteq> set active'
      \<and> (\<forall>x \<in> set (active @ [s]). map_of entered' x = map_of (AList.update s t entered) x)
      \<and> (\<forall>x \<in> set active' - set (active @ [s]). x \<in> set ss \<and> x \<notin> set ineligible \<and> mc_confirmations m \<le> dict_get streaks x 0 \<and> map_of entered' x = Some t)"
      using 2(1) here 2(5) by simp
    with here show ?thesis by (auto simp: map_of_update)
  next
    case 3
    with 2(2-5) show ?thesis by (auto simp: not_le)
  qed
qed auto

definition replaced ::
  "membership_controller \<Rightarrow> (string, decimal) dict \<Rightarrow> (string, int) dict \<Rightarrow> datetime \<Rightarrow> string list
     \<Rightarrow> string list \<times> (string, datetime) dict \<Rightarrow> string list \<times> (string, datetime) dict \<Rightarrow> bool" where
  "replaced m score streaks t cs = (\<lambda>(active, entered) (active', entered').
     (\<forall>s \<in> set active' - set active. s \<in> set cs \<and> mc_confirmations m \<le> dict_get streaks s 0 \<and> map_of entered' s = Some t)
     \<and> (\<forall>s \<in> set active - set active'. \<exists>since. map_of entered s = Some since \<and> mc_minimum_residence m \<le> dt_instant t - dt_instant since
         \<and> (\<exists>c \<in> set active' - set active. beats (mc_replacement_margin m) score c s))
     \<and> (\<forall>s \<in> set active \<inter> set active'. map_of entered' s = map_of entered s))"

lemma replaced_refl: "replaced m score streaks t cs (active, entered) (active, entered)"
  by (simp add: replaced_def)

lemma replaced_mono: "replaced m score streaks t cs p q \<Longrightarrow> replaced m score streaks t (c # cs) p q"
  by (cases p; cases q) (simp add: replaced_def)

lemma replaced_step:
  assumes "distinct active" "c \<notin> set active" "c \<notin> set cs" "incumbent \<in> set active" "set cs \<inter> set active = {}"
    and since: "map_of entered incumbent = Some since" "mc_minimum_residence m \<le> dt_instant t - dt_instant since"
    and wins: "mc_confirmations m \<le> dict_get streaks c 0" "beats (mc_replacement_margin m) score c incumbent"
    and rest: "replaced m score streaks t cs (remove1 incumbent active @ [c], AList.update c t (AList.delete incumbent entered)) (active', entered')"
    and stays: "c \<in> set active'"
  shows "replaced m score streaks t (c # cs) (active, entered) (active', entered')"
proof -
  let ?active = "remove1 incumbent active @ [c]" and ?now = "insert c (set active - {incumbent})" and ?entered = "AList.update c t (AList.delete incumbent entered)"
  have now: "set ?active = ?now" using assms(1) by simp
  have look: "map_of ?entered s = (if s = c then Some t else if s = incumbent then None else map_of entered s)" for s
    by (auto simp: map_of_update delete_conv')
  have new: "\<And>s. s \<in> set active' \<Longrightarrow> s \<notin> ?now \<Longrightarrow> s \<in> set cs \<and> mc_confirmations m \<le> dict_get streaks s 0 \<and> map_of entered' s = Some t"
    and gone: "\<And>s. s \<in> ?now \<Longrightarrow> s \<notin> set active' \<Longrightarrow> \<exists>since. map_of ?entered s = Some since
        \<and> mc_minimum_residence m \<le> dt_instant t - dt_instant since \<and> (\<exists>d \<in> set active' - ?now. beats (mc_replacement_margin m) score d s)"
    and same: "\<And>s. s \<in> ?now \<Longrightarrow> s \<in> set active' \<Longrightarrow> map_of entered' s = map_of ?entered s"
    using rest unfolding replaced_def prod.case now by blast+
  have out: "incumbent \<notin> set active'" using new [of incumbent] assms(2,4,5) by auto
  show ?thesis unfolding replaced_def prod.case
  proof (intro conjI ballI)
    fix s assume s: "s \<in> set active' - set active"
    show "s \<in> set (c # cs)" "mc_confirmations m \<le> dict_get streaks s 0" "map_of entered' s = Some t"
      using s new [of s] same [of c] stays wins(1) by (cases "s = c"; auto simp: look)+
  next
    fix s assume s: "s \<in> set active - set active'"
    show "\<exists>since. map_of entered s = Some since \<and> mc_minimum_residence m \<le> dt_instant t - dt_instant since
        \<and> (\<exists>d \<in> set active' - set active. beats (mc_replacement_margin m) score d s)"
    proof (cases "s = incumbent")
      case True
      with since wins(2) stays assms(2) show ?thesis by auto
    next
      case False
      with s have "s \<in> ?now" "s \<noteq> c" using assms(2) stays by auto
      with gone [of s] s False obtain since' d where "map_of entered s = Some since'"
        "mc_minimum_residence m \<le> dt_instant t - dt_instant since'" "d \<in> set active' - ?now" "beats (mc_replacement_margin m) score d s"
        by (auto simp: look)
      moreover from this(3) out have "d \<notin> set active" by auto
      ultimately show ?thesis by blast
    qed
  next
    fix s assume s: "s \<in> set active \<inter> set active'"
    then have "s \<noteq> incumbent" "s \<noteq> c" using out assms(2) by auto
    with s same [of s] show "map_of entered' s = map_of entered s" by (simp add: look)
  qed
qed

lemma challenge_facts:
  assumes "members_ok n active entered" "is_utc t" "distinct cs" "set cs \<inter> set active = {}" "distinct incs" "set incs \<subseteq> set active"
  shows "\<exists>active' entered'. challenge m score streaks t cs incs (active, entered) = Inr (active', entered') \<and> members_ok n active' entered'
    \<and> set active - set active' \<subseteq> set incs \<and> replaced m score streaks t cs (active, entered) (active', entered')"
  using assms
proof (induction cs arbitrary: incs active entered)
  case (Cons c cs)
  show ?case
  proof (cases incs)
    case Nil
    with Cons.prems show ?thesis by (simp add: replaced_refl)
  next
    case (Cons inc rest)
    from Cons.prems Cons obtain since where since: "map_of entered inc = Some since" "is_utc since" "inc \<in> set active"
      by (auto simp: members_ok_def)
    let ?residence = "dt_instant t - dt_instant since"
    let ?wins = "mc_confirmations m \<le> dict_get streaks c 0 \<and> beats (mc_replacement_margin m) score c inc"
    show ?thesis
    proof (cases "?residence < mc_minimum_residence m \<or> \<not> ?wins")
      case True
      with since Cons Cons.prems(2) have "challenge m score streaks t (c # cs) incs (active, entered) = challenge m score streaks t cs incs (active, entered)"
        by auto
      with Cons.IH [of active entered incs] Cons.prems show ?thesis by (auto intro: replaced_mono)
    next
      case False
      let ?a = "remove1 inc active @ [c]" and ?e = "AList.update c t (AList.delete inc entered)"
      have step: "challenge m score streaks t (c # cs) incs (active, entered) = challenge m score streaks t cs rest (?a, ?e)"
        using since Cons Cons.prems(2) False by auto
      have dist: "distinct active" using Cons.prems(1) by (simp add: members_ok_def)
      have "members_ok n ?a ?e" using Cons.prems(1,2,4) since(3) dist length_pos_if_in_set [OF since(3)]
        by (auto simp: members_ok_def map_of_update delete_conv' length_remove1)
      moreover have "set cs \<inter> set ?a = {}" using Cons.prems(3,4) dist by auto
      moreover have "set rest \<subseteq> set ?a" "distinct rest" using Cons.prems(5,6) Cons dist by auto
      ultimately obtain active' entered' where more: "challenge m score streaks t cs rest (?a, ?e) = Inr (active', entered')"
        "members_ok n active' entered'" "set ?a - set active' \<subseteq> set rest" "replaced m score streaks t cs (?a, ?e) (active', entered')"
        using Cons.IH [of ?a ?e rest] Cons.prems(2,3) by auto
      have "c \<notin> set rest" using Cons.prems(4,6) Cons by auto
      with more(3) have stays: "c \<in> set active'" by auto
      have "replaced m score streaks t (c # cs) (active, entered) (active', entered')"
        using replaced_step [OF dist _ _ since(3) _ since(1) _ _ _ more(4) stays] Cons.prems(3,4) False by auto
      moreover have "set active - set active' \<subseteq> set incs" using more(3) Cons dist by auto
      ultimately show ?thesis using step more(1,2) by auto
    qed
  qed
qed (simp add: replaced_refl)

section \<open>Membership changes with hysteresis\<close>

inductive membership_reachable :: "membership_controller \<Rightarrow> bool" where
  start: "membership_reachable (new_membership n r margin k)"
| applied: "membership_reachable m \<Longrightarrow> distinct (map ur_symbol (us_ranking s))
    \<Longrightarrow> apply_membership s t ineligible managed m = Inr (v, m') \<Longrightarrow> membership_reachable m'"

abbreviation controller_ok :: "membership_controller \<Rightarrow> bool" where
  "controller_ok m \<equiv> members_ok (mc_size m) (mc_active m) (mc_entered_at m)"

lemma scores_keys: "distinct (map fst (scores rs)) \<and> set (map fst (scores rs)) = ur_symbol ` set rs"
proof -
  have "distinct (map fst d) \<Longrightarrow> distinct (map fst (foldl (\<lambda>d r. AList.update (ur_symbol r) (ur_score r) d) d rs))
    \<and> fst ` set (foldl (\<lambda>d r. AList.update (ur_symbol r) (ur_score r) d) d rs) = fst ` set d \<union> ur_symbol ` set rs" for d
    by (induction rs arbitrary: d) (auto simp: distinct_update dom_update)
  from this [of "[]"] show ?thesis by (simp add: scores_def)
qed

lemma update_streaks_get:
  assumes "distinct ss"
  shows "dict_get (update_streaks best ss streaks) x 0
    = (if x \<in> set ss then if x \<in> set best then dict_get streaks x 0 + 1 else 0 else dict_get streaks x 0)"
  using assms
proof (induction ss arbitrary: streaks)
  case (Cons s ss)
  have "dict_get (next_streak best streaks s) x 0 = (if x = s then if s \<in> set best then dict_get streaks s 0 + 1 else 0 else dict_get streaks x 0)"
    by (simp add: next_streak_def dict_get_def map_of_update)
  with Cons show ?case by (auto simp: update_streaks_def)
qed (simp add: update_streaks_def)

lemma membership_step:
  assumes "controller_ok m" "distinct (map ur_symbol (us_ranking s))" "is_utc t"
    and names: "best = take (mc_size m) (map ur_symbol (us_ranking s))" "st = update_streaks best (map fst (scores (us_ranking s))) (mc_streaks m)"
  shows "\<exists>v m'. apply_membership s t ineligible managed m = Inr (v, m') \<and> controller_ok m' \<and> mc_size m' = mc_size m
    \<and> mc_active m' = mv_active v \<and> mc_streaks m' = st
    \<and> set (mv_active v) \<inter> set ineligible = {} \<and> (mv_reduced_pool_alert v \<longleftrightarrow> length (mv_active v) < mc_size m)
    \<and> (\<forall>x \<in> set (mv_active v) - set (mc_active m). x \<in> set best \<and> mc_confirmations m \<le> dict_get st x 0)
    \<and> (\<forall>x \<in> set (mc_active m) - set (mv_active v). x \<in> set ineligible
        \<or> (\<exists>since. map_of (mc_entered_at m) x = Some since \<and> mc_minimum_residence m \<le> dt_instant t - dt_instant since
          \<and> (\<exists>c \<in> set (mv_active v) - set (mc_active m). beats (mc_replacement_margin m) (scores (us_ranking s)) c x)))"
proof -
  let ?score = "scores (us_ranking s)" and ?kept = "filter (\<lambda>s. s \<notin> set ineligible) (mc_active m)"
  obtain a e where filled: "fill_places m st ineligible t best (?kept, mc_entered_at m) = (a, e)" by force
  have "members_ok (mc_size m) ?kept (mc_entered_at m)"
    using assms(1) by (auto simp: members_ok_def intro: order_trans [OF length_filter_le])
  note fill = fill_places_facts [OF filled this assms(3)]
  let ?cs = "filter (\<lambda>s. s \<notin> set a \<and> s \<notin> set ineligible) best"
  let ?incs = "sort_key (score_rank ?score) a"
  have a: "members_ok (mc_size m) a e" using fill by blast
  have ready: "distinct ?cs" "set ?cs \<inter> set a = {}" "distinct ?incs" "set ?incs \<subseteq> set a"
    using a assms(2) by (auto simp: names(1) members_ok_def )
  from challenge_facts [OF a assms(3) ready, of m ?score st]
  obtain a' e' where fought: "challenge m ?score st t ?cs ?incs (a, e) = Inr (a', e')"
    "members_ok (mc_size m) a' e'" "replaced m ?score st t ?cs (a, e) (a', e')"
    by blast
  obtain b f where made: "(if mc_size m \<le> length a then challenge m ?score st t ?cs (sort_key (score_rank ?score) a) (a, e) else Inr (a, e)) = Inr (b, f)"
    and b: "members_ok (mc_size m) b f" "replaced m ?score st t ?cs (a, e) (b, f)"
    using fought a replaced_refl by (cases "mc_size m \<le> length a") auto
  define v where "v = \<lparr>mv_active = sort_key (rank_index (map ur_symbol (us_ranking s))) b,
     mv_standby = filter (\<lambda>s. s \<notin> set ineligible) (take 5 (drop (mc_size m) (map ur_symbol (us_ranking s)))),
     mv_managed_positions = sorted_set (filter (\<lambda>x. x \<notin> set b) managed), mv_reduced_pool_alert = (length b < mc_size m)\<rparr>"
  have run: "apply_membership s t ineligible managed m
      = Inr (v, m\<lparr>mc_active := mv_active v, mc_entered_at := f, mc_streaks := st\<rparr>)"
    unfolding apply_membership_def membership_require_utc_def Let_def names(1) [symmetric] names(2) [symmetric]
    using assms(3) made by (simp add: filled v_def)
  have new: "x \<in> set best \<and> x \<notin> set ineligible \<and> mc_confirmations m \<le> dict_get st x 0" if "x \<in> set b" "x \<notin> set ?kept" for x
  proof (cases "x \<in> set a")
    case True
    with fill that(2) show ?thesis by blast
  next
    case False
    with b(2) that(1) have "x \<in> set ?cs" "mc_confirmations m \<le> dict_get st x 0" unfolding replaced_def by blast+
    then show ?thesis by simp
  qed
  have gone: "\<exists>since. map_of (mc_entered_at m) x = Some since \<and> mc_minimum_residence m \<le> dt_instant t - dt_instant since
      \<and> (\<exists>c \<in> set b - set (mc_active m). beats (mc_replacement_margin m) ?score c x)" if "x \<in> set ?kept" "x \<notin> set b" for x
  proof -
    from fill that(1) have x: "x \<in> set a" "map_of e x = map_of (mc_entered_at m) x" by blast+
    with b(2) that(2) obtain since c where c: "map_of e x = Some since" "mc_minimum_residence m \<le> dt_instant t - dt_instant since"
      "c \<in> set b - set a" "beats (mc_replacement_margin m) ?score c x" unfolding replaced_def by blast
    have "c \<notin> set ?kept" using fill c(3) by blast
    moreover from this c(3) new [of c] have "c \<notin> set ineligible" by blast
    ultimately have "c \<in> set b - set (mc_active m)" using c(3) by simp
    with c(1,2,4) x(2) show ?thesis by auto
  qed
  have "set (mv_active v) = set b" "length (mv_active v) = length b" "distinct (mv_active v) \<longleftrightarrow> distinct b" by (simp_all add: v_def)
  moreover have "mv_reduced_pool_alert v \<longleftrightarrow> length b < mc_size m" by (simp add: v_def)
  moreover have "set b \<inter> set ineligible = {}" using new by auto
  ultimately show ?thesis using b(1) run new gone by (intro exI [of _ v] exI) (simp add: members_ok_def, auto)
qed

lemma membership_reachable_ok: "membership_reachable m \<Longrightarrow> controller_ok m"
proof (induction rule: membership_reachable.induct)
  case (start n r margin k)
  show ?case by (simp add: new_membership_def members_ok_def)
next
  case (applied m s t ineligible managed v m')
  from applied.hyps(3) have "is_utc t"
    by (auto simp: apply_membership_def membership_require_utc_def)
  from membership_step [OF applied.IH applied.hyps(2) this refl refl, of ineligible managed] applied.hyps(3) show ?case by auto
qed

text \<open>C39: membership changes with hysteresis. From every reachable state and for every ranking of distinct symbols
  at a UTC time the update succeeds; the active symbols are distinct, no more than there are places and none is
  ineligible, and a reduced pool is reported exactly when places stay free. A symbol joins only from the top of the
  ranking and with the required number of confirmations. A member leaves only when it is ineligible or when it has
  stayed for the minimum residence and a symbol that joins beats its score by the margin. The confirmations count
  up while a symbol is in the top and restart when it is ranked below; a symbol that is not ranked keeps its count.\<close>

theorem membership_has_hysteresis:
  assumes "membership_reachable m" "distinct (map ur_symbol (us_ranking s))" "is_utc t"
  shows "\<exists>v m'. apply_membership s t ineligible managed m = Inr (v, m') \<and> mc_active m' = mv_active v
    \<and> distinct (mv_active v) \<and> length (mv_active v) \<le> mc_size m \<and> set (mv_active v) \<inter> set ineligible = {}
    \<and> (mv_reduced_pool_alert v \<longleftrightarrow> length (mv_active v) < mc_size m)
    \<and> (\<forall>x \<in> set (mv_active v) - set (mc_active m).
        x \<in> set (take (mc_size m) (map ur_symbol (us_ranking s))) \<and> mc_confirmations m \<le> dict_get (mc_streaks m') x 0)
    \<and> (\<forall>x \<in> set (mc_active m) - set (mv_active v). x \<in> set ineligible
        \<or> (\<exists>since. map_of (mc_entered_at m) x = Some since \<and> mc_minimum_residence m \<le> dt_instant t - dt_instant since
          \<and> (\<exists>c \<in> set (mv_active v) - set (mc_active m). beats (mc_replacement_margin m) (scores (us_ranking s)) c x)))
    \<and> (\<forall>x. dict_get (mc_streaks m') x 0 =
        (if x \<in> ur_symbol ` set (us_ranking s)
         then if x \<in> set (take (mc_size m) (map ur_symbol (us_ranking s))) then dict_get (mc_streaks m) x 0 + 1 else 0
         else dict_get (mc_streaks m) x 0))"
proof -
  have streaks: "dict_get (update_streaks best (map fst (scores (us_ranking s))) (mc_streaks m)) x 0
      = (if x \<in> ur_symbol ` set (us_ranking s) then if x \<in> set best then dict_get (mc_streaks m) x 0 + 1 else 0
         else dict_get (mc_streaks m) x 0)" for best x
    using scores_keys [of "us_ranking s"] by (subst update_streaks_get) (simp_all del: set_map)
  obtain v m' where "apply_membership s t ineligible managed m = Inr (v, m')" "controller_ok m'" "mc_size m' = mc_size m"
    "mc_active m' = mv_active v"
    and st: "mc_streaks m' = update_streaks (take (mc_size m) (map ur_symbol (us_ranking s))) (map fst (scores (us_ranking s))) (mc_streaks m)"
    and others: "set (mv_active v) \<inter> set ineligible = {}" "mv_reduced_pool_alert v \<longleftrightarrow> length (mv_active v) < mc_size m"
    "\<forall>x \<in> set (mv_active v) - set (mc_active m). x \<in> set (take (mc_size m) (map ur_symbol (us_ranking s)))
       \<and> mc_confirmations m \<le> dict_get (mc_streaks m') x 0"
    "\<forall>x \<in> set (mc_active m) - set (mv_active v). x \<in> set ineligible
        \<or> (\<exists>since. map_of (mc_entered_at m) x = Some since \<and> mc_minimum_residence m \<le> dt_instant t - dt_instant since
          \<and> (\<exists>c \<in> set (mv_active v) - set (mc_active m). beats (mc_replacement_margin m) (scores (us_ranking s)) c x))"
    using membership_step [OF membership_reachable_ok [OF assms(1)] assms(2,3) refl refl, of ineligible managed] by metis
  then show ?thesis using streaks [folded st] unfolding members_ok_def by (intro exI [of _ v] exI [of _ m'] conjI) simp_all
qed

section \<open>Witnesses\<close>

definition sample_ranking :: "(string \<times> nat) list \<Rightarrow> universe_snapshot" where
  "sample_ranking xs = \<lparr>us_ranking = map (\<lambda>(s, n). \<lparr>ur_symbol = s, ur_score = dec n\<rparr>) xs,
     us_eligible_count = int (length xs), us_reduced_pool_alert = True\<rparr>"

definition sample_computed :: "int \<Rightarrow> datetime" where
  "sample_computed n = \<lparr>dt_instant = n, dt_utcoffset = Some 0\<rparr>"

theorem membership_has_hysteresis_witness:
  "\<exists>v m'. apply_membership (sample_ranking [(''BTCUSDT'', 9), (''ETHUSDT'', 7)]) (sample_computed 0) [] [] (new_membership 1 60 (dec 5) 1) = Inr (v, m')
    \<and> length (mv_active v) \<le> 1"
proof -
  have "membership_reachable (new_membership 1 60 (dec 5) 1)" by (rule membership_reachable.start)
  from membership_has_hysteresis [OF this, of "sample_ranking [(''BTCUSDT'', 9), (''ETHUSDT'', 7)]" "sample_computed 0" "[]" "[]"] show ?thesis
    by (auto simp: sample_ranking_def sample_computed_def is_utc_def new_membership_def)
qed

text \<open>A symbol ranked first twice joins with two confirmations although it was missing from a ranking in between.\<close>

lemma interrupted_streak_confirms:
  "\<exists>m1 m2 v m3 w1 w2.
    apply_membership (sample_ranking [(''BTCUSDT'', 9)]) (sample_computed 0) [] [] (new_membership 1 60 (dec 5) 2) = Inr (w1, m1)
    \<and> apply_membership (sample_ranking []) (sample_computed 1) [] [] m1 = Inr (w2, m2)
    \<and> apply_membership (sample_ranking [(''BTCUSDT'', 9)]) (sample_computed 2) [] [] m2 = Inr (v, m3) \<and> mv_active v = [''BTCUSDT'']"
  by (simp add: apply_membership_def membership_require_utc_def sample_ranking_def sample_computed_def is_utc_def new_membership_def scores_def
      update_streaks_def next_streak_def dict_get_def Let_def)

end
