(* ===== verification/MarketFlow.thy ===== *)
theory MarketFlow
  imports OrderBook
begin

text \<open>
  Market data before it is traded on: the aggregate trades of \<open>market_data/models.py\<close>, the order flow frame of
  \<open>features/order_flow.py\<close> and the warm-up gate of \<open>market_data/warmup.py\<close>.
\<close>

section \<open>Aggregate trades\<close>

record aggregate_trade =
  at_environment :: string
  at_symbol :: string
  at_connection_id :: string
  at_event_time :: datetime
  at_received_at :: datetime
  at_aggregate_trade_id :: int
  at_first_trade_id :: int
  at_last_trade_id :: int
  at_price :: string
  at_quantity :: string
  at_notional_quantity :: string
  at_settlement_time :: datetime
  at_price_scale :: "int option"
  at_buyer_is_maker :: bool
  at_raw_hash :: string
  at_route_role :: string
  at_route_base_hash :: string

definition aggregate_trade_check :: "aggregate_trade \<Rightarrow> unit result" where
  "aggregate_trade_check a =
    rbind (require (at_environment a \<in> {''shadow'', ''paper'', ''testnet'', ''production''}) (ValueError ''environment'')) (\<lambda>_.
    rbind (symbol_check (at_symbol a)) (\<lambda>_.
    rbind (market_require_utc (at_event_time a)) (\<lambda>_.
    rbind (market_require_utc (at_received_at a)) (\<lambda>_.
    rbind (require (0 \<le> at_aggregate_trade_id a) (ValueError ''aggregate_trade_id'')) (\<lambda>_.
    rbind (require (0 \<le> at_first_trade_id a) (ValueError ''first_trade_id'')) (\<lambda>_.
    rbind (require (0 \<le> at_last_trade_id a) (ValueError ''last_trade_id'')) (\<lambda>_.
    rbind (market_decimal (at_price a) True) (\<lambda>_.
    rbind (market_decimal (at_quantity a) False) (\<lambda>_.
    rbind (market_decimal (at_notional_quantity a) False) (\<lambda>_.
    rbind (market_require_utc (at_settlement_time a)) (\<lambda>_.
    rbind (require (case at_price_scale a of None \<Rightarrow> True | Some n \<Rightarrow> 0 \<le> n) (ValueError ''price_scale'')) (\<lambda>_.
    rbind (require (sha256_text (at_raw_hash a)) (ValueError ''raw_hash'')) (\<lambda>_.
    rbind (require (sha256_text (at_route_base_hash a)) (ValueError ''route_base_hash'')) (\<lambda>_.
    require (\<not> at_last_trade_id a < at_first_trade_id a)
      (ValueError ''last trade id precedes first trade id'')))))))))))))))"

section \<open>Order flow\<close>

record book_level =
  bl_price :: decimal
  bl_quantity :: decimal

record order_flow_frame =
  of_book_imbalance :: decimal
  of_microprice :: decimal
  of_microprice_mid_bps :: decimal
  of_trade_imbalance :: decimal
  of_aggressive_notional :: decimal
  of_cvd_notional :: decimal
  of_valid :: bool
  of_reason_codes :: "string list"

text \<open>\<open>Decimal(text)\<close> of a text the record accepted.\<close>

definition decimal_of_text :: "string \<Rightarrow> decimal result" where
  "decimal_of_text s = (case parse_decimal s of Finite d \<Rightarrow> Inr d | _ \<Rightarrow> Inl InvalidOperation)"

fun aggression :: "aggregate_trade list \<Rightarrow> decimal \<Rightarrow> decimal \<Rightarrow> (decimal \<times> decimal) result" where
  "aggression [] buyer seller = Inr (buyer, seller)"
| "aggression (a # as) buyer seller =
    rbind (decimal_of_text (at_notional_quantity a)) (\<lambda>normal_quantity.
    rbind (decimal_of_text (at_price a)) (\<lambda>price.
    let notional = price * normal_quantity in
    if at_buyer_is_maker a then aggression as buyer (seller + notional) else aggression as (buyer + notional) seller))"

definition calculate_order_flow :: "book_level list \<Rightarrow> book_level list \<Rightarrow> aggregate_trade list \<Rightarrow> int \<Rightarrow> order_flow_frame result" where
  "calculate_order_flow bids asks trades depth_levels =
    (let selected_bids = take (nat depth_levels) bids; selected_asks = take (nat depth_levels) asks in
     if depth_levels < 1 \<or> selected_bids = [] \<or> selected_asks = []
     then Inl (ValueError ''both book sides and a positive depth are required'')
     else let bid_quantity = dsum (map bl_quantity selected_bids); ask_quantity = dsum (map bl_quantity selected_asks);
              total_depth = bid_quantity + ask_quantity;
              bid = hd selected_bids; ask = hd selected_asks;
              top_quantity = bl_quantity bid + bl_quantity ask;
              mid = ddiv (bl_price bid + bl_price ask) (dec 2) in
       if total_depth \<le> 0 \<or> top_quantity \<le> 0 \<or> mid \<le> 0 then Inl (ValueError ''order-flow denominator is non-positive'')
       else let book_imbalance = ddiv (bid_quantity - ask_quantity) total_depth;
                microprice = ddiv (bl_price ask * bl_quantity bid + bl_price bid * bl_quantity ask) top_quantity;
                microprice_mid_bps = ddiv (microprice - mid) mid * dec 10000 in
         rbind (aggression trades 0 0) (\<lambda>(buyer, seller).
         let total_aggressive = buyer + seller in
         if total_aggressive \<le> 0 then
           Inr \<lparr>of_book_imbalance = book_imbalance, of_microprice = microprice, of_microprice_mid_bps = microprice_mid_bps,
             of_trade_imbalance = 0, of_aggressive_notional = 0, of_cvd_notional = 0, of_valid = False,
             of_reason_codes = [''OF_INSUFFICIENT_AGGRESSION'']\<rparr>
         else
           Inr \<lparr>of_book_imbalance = book_imbalance, of_microprice = microprice, of_microprice_mid_bps = microprice_mid_bps,
             of_trade_imbalance = ddiv (buyer - seller) total_aggressive, of_aggressive_notional = total_aggressive,
             of_cvd_notional = buyer - seller, of_valid = True, of_reason_codes = []\<rparr>))"

section \<open>The warm-up gate\<close>

record warmup_gate =
  wg_continuous_for :: int
  wg_minimum_trades :: int
  wg_minimum_1m_bars :: int
  wg_minimum_5m_bars :: int
  wg_healthy_since :: "datetime option"
  wg_valid_trades :: int
  wg_bars_1m :: int
  wg_bars_5m :: int

definition new_warmup_gate :: "int \<Rightarrow> int \<Rightarrow> int \<Rightarrow> int \<Rightarrow> warmup_gate" where
  "new_warmup_gate continuous_for minimum_trades minimum_1m_bars minimum_5m_bars =
    \<lparr>wg_continuous_for = continuous_for, wg_minimum_trades = minimum_trades, wg_minimum_1m_bars = minimum_1m_bars,
     wg_minimum_5m_bars = minimum_5m_bars, wg_healthy_since = None, wg_valid_trades = 0, wg_bars_1m = 0, wg_bars_5m = 0\<rparr>"

definition warmup_require_utc :: "datetime \<Rightarrow> unit result" where
  "warmup_require_utc t = require (is_utc t) (ValueError ''timestamp must be timezone-aware UTC'')"

definition reset_warmup :: "warmup_gate \<Rightarrow> warmup_gate" where
  "reset_warmup g = g\<lparr>wg_healthy_since := None, wg_valid_trades := 0, wg_bars_1m := 0, wg_bars_5m := 0\<rparr>"

definition observe_health :: "bool \<Rightarrow> datetime \<Rightarrow> warmup_gate \<Rightarrow> warmup_gate result" where
  "observe_health healthy observed_at g = rbind (warmup_require_utc observed_at) (\<lambda>_.
     Inr (if \<not> healthy then reset_warmup g
       else if wg_healthy_since g = None then g\<lparr>wg_healthy_since := Some observed_at\<rparr> else g))"

definition record_valid_trades :: "int \<Rightarrow> warmup_gate \<Rightarrow> warmup_gate result" where
  "record_valid_trades n g = rbind (require (\<not> n < 0) (ValueError ''trade count cannot be negative'')) (\<lambda>_.
     Inr (g\<lparr>wg_valid_trades := wg_valid_trades g + n\<rparr>))"

definition record_closed_bar :: "string \<Rightarrow> warmup_gate \<Rightarrow> warmup_gate result" where
  "record_closed_bar interval g =
    (if interval = ''1m'' then Inr (g\<lparr>wg_bars_1m := wg_bars_1m g + 1\<rparr>)
     else if interval = ''5m'' then Inr (g\<lparr>wg_bars_5m := wg_bars_5m g + 1\<rparr>)
     else Inl (ValueError ''only 1m and 5m closed bars satisfy the warm-up contract''))"

definition warmup_ready :: "datetime \<Rightarrow> bool \<Rightarrow> warmup_gate \<Rightarrow> bool result" where
  "warmup_ready now clock_safe g = rbind (warmup_require_utc now) (\<lambda>_.
     Inr (clock_safe \<and> (case wg_healthy_since g of None \<Rightarrow> False | Some t \<Rightarrow> wg_continuous_for g \<le> dt_instant now - dt_instant t)
       \<and> wg_minimum_trades g \<le> wg_valid_trades g \<and> wg_minimum_1m_bars g \<le> wg_bars_1m g \<and> wg_minimum_5m_bars g \<le> wg_bars_5m g))"

section \<open>Bounds of the order flow\<close>

lemma difference_bounded:
  assumes "0 \<le> dval a" "0 \<le> dval b"
  shows "\<bar>dval (a - b)\<bar> \<le> dval (a + b)"
proof -
  have "rnd (dval a - dval b) \<le> rnd (dval a + dval b)" "rnd (- (dval a + dval b)) \<le> rnd (dval a - dval b)"
    using assms by (auto intro!: rnd_mono)
  then show ?thesis unfolding rnd_minus by (simp add: dval_minus dval_plus abs_le_iff)
qed

lemma imbalance_bounded:
  assumes "0 \<le> dval a" "0 \<le> dval b" "0 < dval (a + b)"
  shows "\<bar>dval (ddiv (a - b) (a + b))\<bar> \<le> 1"
proof -
  note difference_bounded [OF assms(1,2)]
  then have "dval (a - b) / dval (a + b) \<le> 1" "- 1 \<le> dval (a - b) / dval (a + b)"
    using assms(3) by (auto simp: abs_le_iff field_simps)
  moreover have "exact28 1" "exact28 (- 1)" using exact28_of_int [of 1] exact28_of_int [of "- 1"] by simp_all
  moreover have "dcoeff (a + b) \<noteq> 0" using assms(3) dcoeff_eq_0_iff [of "a + b"] by auto
  ultimately show ?thesis by (simp add: dval_ddiv half_even.le_exact half_even.ge_exact abs_le_iff)
qed

lemma aggression_nonneg:
  assumes "aggression as buyer seller = Inr (b, s)" "list_all (\<lambda>a. aggregate_trade_check a = Inr ()) as" "0 \<le> dval buyer" "0 \<le> dval seller"
  shows "0 \<le> dval b \<and> 0 \<le> dval s"
  using assms
proof (induction as arbitrary: buyer seller)
  case (Cons a as)
  from Cons.prems(1) obtain q p where qp: "parse_decimal (at_notional_quantity a) = Finite q" "parse_decimal (at_price a) = Finite p"
    by (auto simp: decimal_of_text_def split: parsed.splits)
  with Cons.prems(2) have "0 \<le> dval q" "0 \<le> dval p"
    by (auto simp: aggregate_trade_check_def market_decimal_def Let_def decimal_le_val decimal_less_val split: if_splits)
  then have "0 \<le> dval (p * q)" by (simp add: dval_times half_even.nonneg)
  with Cons qp show ?case by (auto simp: decimal_of_text_def Let_def dval_plus half_even.nonneg split: if_splits)
qed simp

text \<open>The order flow frame stays in its ranges. For levels with quantities that are not negative and trades
  the record accepted, a frame that is returned has both imbalances between minus one and one after all rounding,
  an aggressive volume that is not negative and bounds the signed volume, and it is valid exactly when there was
  aggression; otherwise it says so and reports no flow.\<close>

theorem order_flow_is_bounded:
  assumes "calculate_order_flow bids asks trades depth = Inr f"
    "list_all (\<lambda>l. 0 \<le> bl_quantity l) (bids @ asks)" "list_all (\<lambda>a. aggregate_trade_check a = Inr ()) trades"
  shows "\<bar>dval (of_book_imbalance f)\<bar> \<le> 1 \<and> \<bar>dval (of_trade_imbalance f)\<bar> \<le> 1
    \<and> \<bar>dval (of_cvd_notional f)\<bar> \<le> dval (of_aggressive_notional f)
    \<and> (of_valid f \<longleftrightarrow> of_reason_codes f = []) \<and> (of_valid f \<longleftrightarrow> 0 < dval (of_aggressive_notional f))"
proof -
  let ?bid = "dsum (map bl_quantity (take (nat depth) bids))" and ?ask = "dsum (map bl_quantity (take (nat depth) asks))"
  from assms(1) obtain buyer seller where flow: "aggression trades 0 0 = Inr (buyer, seller)"
    by (auto simp: calculate_order_flow_def Let_def split: if_splits)
  from assms(1) have depth: "0 < dval (?bid + ?ask)" by (auto simp: calculate_order_flow_def Let_def decimal_le_val split: if_splits)
  have sides: "0 \<le> dval ?bid" "0 \<le> dval ?ask"
    using assms(2) by (auto intro!: dsum_nonneg simp: list_all_iff decimal_le_val dest!: in_set_takeD)
  from aggression_nonneg [OF flow assms(3)] have nonneg: "0 \<le> dval buyer" "0 \<le> dval seller" by simp_all
  have cvd: "\<bar>dval (buyer - seller)\<bar> \<le> dval (buyer + seller)" by (rule difference_bounded [OF nonneg])
  have book: "of_book_imbalance f = ddiv (?bid - ?ask) (?bid + ?ask)"
    using assms(1) by (auto simp: calculate_order_flow_def Let_def flow split: if_splits)
  show ?thesis
  proof (cases "buyer + seller \<le> 0")
    case True
    with assms(1) have "of_trade_imbalance f = 0" "of_aggressive_notional f = 0" "of_cvd_notional f = 0" "\<not> of_valid f" "of_reason_codes f \<noteq> []"
      by (auto simp: calculate_order_flow_def Let_def flow split: if_splits)
    then show ?thesis using imbalance_bounded [OF sides depth] by (simp add: book)
  next
    case False
    with assms(1) have f: "of_trade_imbalance f = ddiv (buyer - seller) (buyer + seller)" "of_aggressive_notional f = buyer + seller"
      "of_cvd_notional f = buyer - seller" "of_valid f" "of_reason_codes f = []"
      by (auto simp: calculate_order_flow_def Let_def flow split: if_splits)
    from False have "0 < dval (buyer + seller)" by (simp add: decimal_le_val)
    with imbalance_bounded [OF nonneg this] imbalance_bounded [OF sides depth] cvd show ?thesis by (simp add: f book)
  qed
qed

section \<open>The warm-up gate reflects the current healthy period\<close>

datatype warmup_event = Health bool datetime | Trades int | Bar string

definition warmup_event_step :: "warmup_event \<Rightarrow> warmup_gate \<Rightarrow> warmup_gate result" where
  "warmup_event_step e g = (case e of Health healthy t \<Rightarrow> observe_health healthy t g | Trades n \<Rightarrow> record_valid_trades n g
     | Bar interval \<Rightarrow> record_closed_bar interval g)"

text \<open>A refused call leaves the gate as it was.\<close>

definition warmup_after :: "warmup_gate \<Rightarrow> warmup_event list \<Rightarrow> warmup_gate" where
  "warmup_after g es = foldl (\<lambda>g e. case warmup_event_step e g of Inl _ \<Rightarrow> g | Inr g' \<Rightarrow> g') g es"

definition interrupts :: "warmup_event \<Rightarrow> bool" where
  "interrupts e = (case e of Health healthy t \<Rightarrow> \<not> healthy \<and> is_utc t | _ \<Rightarrow> False)"

definition current_period :: "warmup_event list \<Rightarrow> warmup_event list" where
  "current_period es = rev (takeWhile (\<lambda>e. \<not> interrupts e) (rev es))"

definition healthy_times :: "warmup_event list \<Rightarrow> datetime list" where
  "healthy_times es = concat (map (\<lambda>e. case e of Health healthy t \<Rightarrow> if healthy \<and> is_utc t then [t] else [] | _ \<Rightarrow> []) es)"

definition trades_in :: "warmup_event list \<Rightarrow> int" where
  "trades_in es = sum_list (map (\<lambda>e. case e of Trades n \<Rightarrow> max 0 n | _ \<Rightarrow> 0) es)"

definition bars_in :: "string \<Rightarrow> warmup_event list \<Rightarrow> int" where
  "bars_in interval es = int (length (filter (\<lambda>e. e = Bar interval) es))"

definition reflects :: "warmup_gate \<Rightarrow> warmup_event list \<Rightarrow> bool" where
  "reflects g es \<longleftrightarrow> wg_healthy_since g = (case healthy_times es of [] \<Rightarrow> None | t # _ \<Rightarrow> Some t)
     \<and> wg_valid_trades g = trades_in es \<and> wg_bars_1m g = bars_in ''1m'' es \<and> wg_bars_5m g = bars_in ''5m'' es"

lemma current_period_snoc: "current_period (es @ [e]) = (if interrupts e then [] else current_period es @ [e])"
  by (simp add: current_period_def)

lemma reflects_snoc:
  "healthy_times (es @ [e]) = healthy_times es @ healthy_times [e]" "trades_in (es @ [e]) = trades_in es + trades_in [e]"
  "bars_in i (es @ [e]) = bars_in i es + bars_in i [e]"
  by (simp_all add: healthy_times_def trades_in_def bars_in_def)

lemmas warmup_steps = warmup_event_step_def observe_health_def record_valid_trades_def record_closed_bar_def warmup_require_utc_def reset_warmup_def

lemma reflects_step:
  assumes "reflects g es"
  shows "reflects (case warmup_event_step e g of Inl _ \<Rightarrow> g | Inr g' \<Rightarrow> g') (if interrupts e then [] else es @ [e])"
proof (cases "interrupts e")
  case True
  then obtain t where "e = Health False t" "is_utc t" by (auto simp: interrupts_def split: warmup_event.splits)
  then show ?thesis by (simp add: interrupts_def warmup_steps reflects_def healthy_times_def trades_in_def bars_in_def)
next
  case False
  then show ?thesis using assms
    by (cases e) (auto simp: warmup_steps reflects_def reflects_snoc interrupts_def healthy_times_def [of "[_]"] trades_in_def [of "[_]"]
        bars_in_def [of _ "[_]"] require_def split: list.splits)
qed

lemma warmup_after_snoc:
  "warmup_after g (es @ [e]) = (case warmup_event_step e (warmup_after g es) of Inl _ \<Rightarrow> warmup_after g es | Inr g' \<Rightarrow> g')"
  unfolding warmup_after_def by simp

lemma warmup_reflects:
  "reflects (warmup_after (new_warmup_gate c n a b) es) (current_period es)"
proof (induction es rule: rev_induct)
  case Nil
  show ?case by (simp add: reflects_def warmup_after_def new_warmup_gate_def current_period_def healthy_times_def trades_in_def bars_in_def)
next
  case (snoc e es)
  from reflects_step [OF this, of e] show ?case unfolding warmup_after_snoc current_period_snoc .
qed

lemma warmup_settings:
  "wg_continuous_for (warmup_after g es) = wg_continuous_for g \<and> wg_minimum_trades (warmup_after g es) = wg_minimum_trades g
    \<and> wg_minimum_1m_bars (warmup_after g es) = wg_minimum_1m_bars g \<and> wg_minimum_5m_bars (warmup_after g es) = wg_minimum_5m_bars g"
proof (induction es rule: rev_induct)
  case (snoc e es)
  then show ?case by (cases e) (auto simp: warmup_after_snoc warmup_steps require_def)
qed (simp add: warmup_after_def)

text \<open>C40: the gate refines a reading of the history. After any sequence of calls, refused ones included, it is ready
  exactly when the clock is safe and, since the last unhealthy observation, health was first seen at least the
  required time ago and the required trades and bars of both intervals were recorded; whatever happened before an
  unhealthy observation does not count.\<close>

theorem warmup_reflects_current_period:
  "warmup_ready now clock_safe (warmup_after (new_warmup_gate c n a b) es)
    = (if is_utc now then Inr (clock_safe
         \<and> (\<exists>t ts. healthy_times (current_period es) = t # ts \<and> c \<le> dt_instant now - dt_instant t)
         \<and> n \<le> trades_in (current_period es) \<and> a \<le> bars_in ''1m'' (current_period es) \<and> b \<le> bars_in ''5m'' (current_period es))
       else Inl (ValueError ''timestamp must be timezone-aware UTC''))"
  using warmup_reflects [of c n a b es] warmup_settings [of "new_warmup_gate c n a b" es]
  by (auto simp: warmup_ready_def warmup_require_utc_def reflects_def new_warmup_gate_def require_def split: list.splits)

theorem order_flow_is_bounded_witness:
  "\<exists>f. calculate_order_flow [\<lparr>bl_price = dec 99, bl_quantity = dec 3\<rparr>] [\<lparr>bl_price = dec 101, bl_quantity = dec 1\<rparr>] [] 5 = Inr f
    \<and> \<bar>dval (of_book_imbalance f)\<bar> \<le> 1"
proof -
  have "0 < dval (dsum [dec 3] + dsum [dec 1])" "0 < dval (dec 3 + dec 1)" "0 < dval (ddiv (dec 99 + dec 101) (dec 2))"
    by (simp_all add: dsum_def dval_plus dval_ddiv rnd_pos add_pos_pos)
  then have "\<exists>f. calculate_order_flow [\<lparr>bl_price = dec 99, bl_quantity = dec 3\<rparr>] [\<lparr>bl_price = dec 101, bl_quantity = dec 1\<rparr>] [] 5 = Inr f"
    by (simp add: calculate_order_flow_def Let_def decimal_le_val not_le)
  then obtain f where f: "calculate_order_flow [\<lparr>bl_price = dec 99, bl_quantity = dec 3\<rparr>] [\<lparr>bl_price = dec 101, bl_quantity = dec 1\<rparr>] [] 5 = Inr f" ..
  from order_flow_is_bounded [OF f] f show ?thesis by (simp add: decimal_le_val)
qed

end
