(* ===== verification/Retention.thy ===== *)
theory Retention
  imports Clock
begin

text \<open>
  \<open>archive/retention.py\<close>: which local archive files may be deleted. Only files whose remote copy was verified are
  eligible; first those beyond the maximum age, then the oldest of the rest until the archive fits.
\<close>

section \<open>The plan\<close>

record retention_candidate =
  rc_path :: string
  rc_size_bytes :: int
  rc_modified_at :: datetime

text \<open>Sorting by time and path; a mixture of naive and aware times raises.\<close>

definition sorted_candidates :: "retention_candidate list \<Rightarrow> retention_candidate list result" where
  "sorted_candidates cs = rbind (require (\<forall>c \<in> set cs. is_aware (rc_modified_at c) = is_aware (rc_modified_at (hd cs)))
      (TypeError ''can't compare offset-naive and offset-aware datetimes'')) (\<lambda>_.
    Inr (sort_key (\<lambda>c. (dt_instant (rc_modified_at c), rc_path c)) cs))"

fun select_expired :: "datetime \<Rightarrow> string set \<Rightarrow> retention_candidate list \<Rightarrow> retention_candidate list result" where
  "select_expired limit verified [] = Inr []"
| "select_expired limit verified (c # cs) =
    rbind (dt_less (rc_modified_at c) limit) (\<lambda>old.
    rbind (select_expired limit verified cs) (\<lambda>rest.
    Inr (if old \<and> rc_path c \<in> verified then c # rest else rest)))"

fun select_for_space ::
  "int \<Rightarrow> string set \<Rightarrow> retention_candidate list \<Rightarrow> retention_candidate list \<Rightarrow> int \<Rightarrow> retention_candidate list" where
  "select_for_space maximum_bytes verified [] selected remaining = selected"
| "select_for_space maximum_bytes verified (c # cs) selected remaining =
    (if remaining \<le> maximum_bytes then selected
     else if rc_path c \<in> verified \<and> rc_path c \<notin> rc_path ` set selected
     then select_for_space maximum_bytes verified cs (selected @ [c]) (remaining - rc_size_bytes c)
     else select_for_space maximum_bytes verified cs selected remaining)"

definition remaining_bytes :: "retention_candidate list \<Rightarrow> retention_candidate list \<Rightarrow> int" where
  "remaining_bytes cs selected = sum_list (map rc_size_bytes (filter (\<lambda>c. rc_path c \<notin> rc_path ` set selected) cs))"

definition plan_verified_deletions ::
  "retention_candidate list \<Rightarrow> string set \<Rightarrow> datetime \<Rightarrow> int \<Rightarrow> int \<Rightarrow> retention_candidate list result" where
  "plan_verified_deletions candidates remotely_verified now maximum_age maximum_bytes =
    rbind (require (is_utc now) (ValueError ''now must be timezone-aware UTC'')) (\<lambda>_.
    rbind (sorted_candidates candidates) (\<lambda>ordered.
    rbind (select_expired (dt_add now (- maximum_age)) remotely_verified ordered) (\<lambda>selected.
    Inr (select_for_space maximum_bytes remotely_verified ordered selected (remaining_bytes ordered selected)))))"

section \<open>What is deleted and what remains\<close>

lemma select_expired_filter:
  assumes "is_utc limit" "\<forall>c \<in> set cs. is_aware (rc_modified_at c)"
  shows "select_expired limit verified cs = Inr (filter (\<lambda>c. dt_instant (rc_modified_at c) < dt_instant limit \<and> rc_path c \<in> verified) cs)"
  using assms by (induction cs) (auto simp: dt_less_def comparable_def is_utc_def is_aware_def)

lemma select_expired_aware: "select_expired limit verified cs = Inr selected \<Longrightarrow> is_aware limit \<Longrightarrow> \<forall>c \<in> set cs. is_aware (rc_modified_at c)"
  by (induction cs arbitrary: selected) (auto simp: dt_less_def comparable_def)

lemma remaining_bytes_snoc:
  assumes "distinct (map rc_path cs)" "c \<in> set cs" "rc_path c \<notin> rc_path ` set selected"
  shows "remaining_bytes cs (selected @ [c]) = remaining_bytes cs selected - rc_size_bytes c"
  using assms
proof (induction cs)
  case (Cons d cs)
  show ?case
  proof (cases "d = c")
    case True
    with Cons.prems(1) have "rc_path c \<notin> rc_path ` set cs" by simp
    then have "\<forall>e \<in> set cs. rc_path e \<noteq> rc_path c" by (metis image_eqI)
    then have "filter (\<lambda>e. rc_path e \<notin> rc_path ` set (selected @ [c])) cs = filter (\<lambda>e. rc_path e \<notin> rc_path ` set selected) cs"
      by (intro filter_cong) auto
    with True Cons.prems(3) show ?thesis by (simp add: remaining_bytes_def)
  next
    case False
    with Cons.prems have "rc_path d \<noteq> rc_path c" "c \<in> set cs" by auto
    with Cons show ?thesis by (auto simp: remaining_bytes_def)
  qed
qed simp

lemma select_for_space_facts:
  assumes "distinct (map rc_path cs)" "cs = seen @ todo" "distinct (map rc_path selected)" "set selected \<subseteq> set cs"
    "rc_path ` set selected \<subseteq> verified" "remaining = remaining_bytes cs selected"
    "\<forall>c \<in> set seen. rc_path c \<in> verified \<longrightarrow> c \<in> set selected"
    "result = select_for_space maximum verified todo selected remaining"
  shows "distinct (map rc_path result) \<and> set result \<subseteq> set cs \<and> rc_path ` set result \<subseteq> verified \<and> set selected \<subseteq> set result
    \<and> (remaining_bytes cs result \<le> maximum \<or> (\<forall>c \<in> set cs. rc_path c \<in> verified \<longrightarrow> c \<in> set result))"
  using assms
proof (induction todo arbitrary: seen selected remaining)
  case (Cons c todo)
  show ?case
  proof (cases "remaining \<le> maximum")
    case True
    with Cons.prems show ?thesis by auto
  next
    case False
    show ?thesis
    proof (cases "rc_path c \<in> verified \<and> rc_path c \<notin> rc_path ` set selected")
      case True
      have "result = select_for_space maximum verified todo (selected @ [c]) (remaining - rc_size_bytes c)"
        using Cons.prems(8) False True by simp
      moreover have "remaining - rc_size_bytes c = remaining_bytes cs (selected @ [c])"
        using Cons.prems True by (subst remaining_bytes_snoc) auto
      ultimately show ?thesis using Cons.IH [of "seen @ [c]" "selected @ [c]" "remaining - rc_size_bytes c"] Cons.prems True by auto
    next
      case skip: False
      have "c \<in> set selected" if "rc_path c \<in> verified"
      proof -
        from skip that obtain d where "d \<in> set selected" "rc_path d = rc_path c" by auto
        moreover from this(1) Cons.prems(2,4) have "d \<in> set cs" "c \<in> set cs" by auto
        ultimately show ?thesis using Cons.prems(1) by (metis (no_types, lifting) distinct_map inj_onD)
      qed
      moreover have "result = select_for_space maximum verified todo selected remaining" using Cons.prems(8) False skip by auto
      ultimately show ?thesis using Cons.IH [of "seen @ [c]" selected remaining] Cons.prems by auto
    qed
  qed
qed auto

text \<open>Nothing unverified is ever deleted, and the plan does what it can. For candidates with distinct paths a
  plan that is returned names candidates only, each once and each with a verified remote copy; it contains every
  verified candidate beyond the maximum age; and after it either the files that remain fit into the permitted
  space or no verified file is left.\<close>

theorem deletions_are_verified_and_sufficient:
  assumes "plan_verified_deletions candidates verified now age maximum = Inr deleted" "distinct (map rc_path candidates)"
  shows "distinct (map rc_path deleted) \<and> set deleted \<subseteq> set candidates \<and> rc_path ` set deleted \<subseteq> verified
    \<and> (\<forall>c \<in> set candidates. rc_path c \<in> verified \<and> dt_instant (rc_modified_at c) < dt_instant now - age \<longrightarrow> c \<in> set deleted)
    \<and> (remaining_bytes candidates deleted \<le> maximum \<or> (\<forall>c \<in> set candidates. rc_path c \<in> verified \<longrightarrow> c \<in> set deleted))"
proof -
  let ?s = "sort_key (\<lambda>c. (dt_instant (rc_modified_at c), rc_path c)) candidates"
  let ?limit = "dt_add now (- age)"
  from assms(1) obtain selected where run: "is_utc now" "sorted_candidates candidates = Inr ?s" "select_expired ?limit verified ?s = Inr selected"
    "deleted = select_for_space maximum verified ?s selected (remaining_bytes ?s selected)"
    by (auto simp: plan_verified_deletions_def sorted_candidates_def)
  have utc: "is_utc ?limit" using run(1) by (simp add: is_utc_def dt_add_def)
  have aware: "\<forall>c \<in> set ?s. is_aware (rc_modified_at c)"
    using select_expired_aware [OF run(3)] utc by (simp add: is_utc_def is_aware_def)
  have selected: "selected = filter (\<lambda>c. dt_instant (rc_modified_at c) < dt_instant ?limit \<and> rc_path c \<in> verified) ?s"
    using run(3) select_expired_filter [OF utc aware] by simp
  have d: "distinct (map rc_path ?s)" using assms(2) by (simp add: distinct_map)
  have "distinct (map rc_path selected)" using d unfolding selected by (rule distinct_map_filter)
  then have "distinct (map rc_path deleted) \<and> set deleted \<subseteq> set ?s \<and> rc_path ` set deleted \<subseteq> verified \<and> set selected \<subseteq> set deleted
    \<and> (remaining_bytes ?s deleted \<le> maximum \<or> (\<forall>c \<in> set ?s. rc_path c \<in> verified \<longrightarrow> c \<in> set deleted))"
    using d run(4) by (intro select_for_space_facts [of ?s "[]"]) (auto simp: selected)
  moreover have "remaining_bytes ?s deleted = remaining_bytes candidates deleted"
    using assms(2) by (simp add: remaining_bytes_def sum_list_distinct_conv_sum_set distinct_map)
  ultimately show ?thesis by (auto simp: selected dt_add_def)
qed

definition sample_candidate :: "string \<Rightarrow> int \<Rightarrow> retention_candidate" where
  "sample_candidate path n = \<lparr>rc_path = path, rc_size_bytes = 10, rc_modified_at = \<lparr>dt_instant = n, dt_utcoffset = Some 0\<rparr>\<rparr>"

theorem deletions_are_verified_and_sufficient_witness:
  "\<exists>deleted. plan_verified_deletions [sample_candidate ''a'' 0, sample_candidate ''b'' 5] {''a''} \<lparr>dt_instant = 9, dt_utcoffset = Some 0\<rparr> 6 100 = Inr deleted
    \<and> rc_path ` set deleted \<subseteq> {''a''} \<and> sample_candidate ''a'' 0 \<in> set deleted"
proof -
  obtain deleted where d: "plan_verified_deletions [sample_candidate ''a'' 0, sample_candidate ''b'' 5] {''a''}
      \<lparr>dt_instant = 9, dt_utcoffset = Some 0\<rparr> 6 100 = Inr deleted"
    by (simp add: plan_verified_deletions_def sorted_candidates_def sample_candidate_def is_utc_def is_aware_def dt_add_def dt_less_def comparable_def)
  from deletions_are_verified_and_sufficient [OF d] d show ?thesis by (auto simp: sample_candidate_def)
qed

end
