(* ===== verification/Authorization.thy ===== *)
theory Authorization
  imports JsonValues Computations
begin

text \<open>
  \<open>rate_budget/authorization.py\<close>: signed trust bundles, signed configuration documents, the access lists of callers
  and protocol peers, and the capability that authorises one request. The cryptographic library, the canonical
  JSON of RFC 8785 and the two text decoders are parameters; SHA-256 is the modelled one. Reading of the protected
  files and of the socket credentials is left to the operating system.
\<close>

section \<open>Primitives and helpers\<close>

text \<open>A public key is its 32 raw bytes, a digest its hexadecimal text. \<open>pr_verify\<close> is false where the library raises
  \<open>InvalidSignature\<close>; the decoders give no value where theirs raise \<open>ValueError\<close>.\<close>

record primitives =
  pr_canonical :: "json \<Rightarrow> string option"
  pr_verify :: "string \<Rightarrow> string \<Rightarrow> string \<Rightarrow> bool"
  pr_b64decode :: "string \<Rightarrow> string option"
  pr_fromisoformat :: "string \<Rightarrow> datetime option"

definition authorization_denied :: "string \<Rightarrow> 'a result" where
  "authorization_denied reason = Inl (AuthorizationDenied reason)"

definition permit_if :: "bool \<Rightarrow> string \<Rightarrow> unit result" where
  "permit_if b reason = require b (AuthorizationDenied reason)"

definition canonical_digest :: "primitives \<Rightarrow> json \<Rightarrow> string result" where
  "canonical_digest P value = (case pr_canonical P value of None \<Rightarrow> Inl (ValueError ''CANONICALIZATION'') | Some text \<Rightarrow> Inr (sha256_hex text))"

definition as_utc :: "datetime \<Rightarrow> datetime" where
  "as_utc t = \<lparr>dt_instant = dt_instant t, dt_utcoffset = Some 0\<rparr>"

text \<open>\<open>value.replace("Z", "+00:00")\<close>\<close>

definition zulu_offset :: "string \<Rightarrow> string" where
  "zulu_offset s = concat (map (\<lambda>c. if c = CHR ''Z'' then ''+00:00'' else [c]) s)"

definition parse_time :: "primitives \<Rightarrow> json \<Rightarrow> string \<Rightarrow> datetime result" where
  "parse_time P value reason = (case value of JStr s \<Rightarrow>
       (case pr_fromisoformat P (zulu_offset s) of None \<Rightarrow> authorization_denied reason
        | Some t \<Rightarrow> if dt_utcoffset t = None then authorization_denied reason else Inr (as_utc t))
     | _ \<Rightarrow> authorization_denied reason)"

definition decode_base64 :: "primitives \<Rightarrow> json \<Rightarrow> nat \<Rightarrow> string \<Rightarrow> string result" where
  "decode_base64 P value expected_bytes reason = (case value of JStr s \<Rightarrow>
       (case pr_b64decode P s of None \<Rightarrow> authorization_denied reason
        | Some decoded \<Rightarrow> if length decoded \<noteq> expected_bytes then authorization_denied reason else Inr decoded)
     | _ \<Rightarrow> authorization_denied reason)"

definition as_mapping :: "json \<Rightarrow> string \<Rightarrow> document result" where
  "as_mapping value reason = (case value of JObj d \<Rightarrow> Inr d | _ \<Rightarrow> authorization_denied reason)"

fun unique_items :: "string \<Rightarrow> string \<Rightarrow> json list \<Rightarrow> (string, document) dict \<Rightarrow> (string, document) dict result" where
  "unique_items field reason [] items = Inr items"
| "unique_items field reason (raw # raws) items =
    rbind (as_mapping raw reason) (\<lambda>item. case doc_get item field of
       JStr key \<Rightarrow> if map_of items key \<noteq> None then authorization_denied reason else unique_items field reason raws (items @ [(key, item)])
     | _ \<Rightarrow> authorization_denied reason)"

definition unique_by :: "json \<Rightarrow> string \<Rightarrow> string \<Rightarrow> (string, document) dict result" where
  "unique_by items field reason = (case items of JArr raws \<Rightarrow> unique_items field reason raws [] | _ \<Rightarrow> authorization_denied reason)"

definition text_of :: "json \<Rightarrow> string option" where
  "text_of v = (case v of JStr s \<Rightarrow> Some s | _ \<Rightarrow> None)"

definition int_of :: "json \<Rightarrow> int option" where
  "int_of v = (case v of JInt n \<Rightarrow> Some n | _ \<Rightarrow> None)"

definition integer_of :: "json \<Rightarrow> string \<Rightarrow> int result" where
  "integer_of v reason = (case v of JInt n \<Rightarrow> Inr n | _ \<Rightarrow> authorization_denied reason)"

text \<open>A non-empty or possibly empty list of distinct values of one type; frozen sets are kept as lists.\<close>

definition distinct_values :: "(json \<Rightarrow> 'a option) \<Rightarrow> bool \<Rightarrow> json \<Rightarrow> string \<Rightarrow> 'a list result" where
  "distinct_values read allow_empty value reason = (case value of JArr vs \<Rightarrow>
       let xs = map read vs in
       if (vs = [] \<and> \<not> allow_empty) \<or> None \<in> set xs \<or> \<not> distinct xs then authorization_denied reason else Inr (map the xs)
     | _ \<Rightarrow> authorization_denied reason)"

definition string_set :: "json \<Rightarrow> string \<Rightarrow> string list result" where
  "string_set = distinct_values text_of False"

definition string_set_or_empty :: "json \<Rightarrow> string \<Rightarrow> string list result" where
  "string_set_or_empty = distinct_values text_of True"

definition integer_set :: "json \<Rightarrow> string \<Rightarrow> int list result" where
  "integer_set = distinct_values int_of False"

section \<open>Policies\<close>

record peer_credentials =
  pc_pid :: int
  pc_uid :: int
  pc_gid :: int

record issuer_policy =
  ip_issuer :: string
  ip_key_id :: string
  ip_public_key :: string
  ip_allowed_operation_classes :: "string list"
  ip_allowed_subject_services :: "string list"
  ip_allowed_endpoint_authorities :: "string list"
  ip_allowed_environments :: "string list"
  ip_not_before :: datetime
  ip_not_after :: datetime

record caller_acl =
  ac_service :: string
  ac_allowed_peer_uids :: "int list"
  ac_allowed_peer_gids :: "int list"
  ac_allowed_issuers :: "string list"
  ac_allowed_endpoint_authorities :: "string list"
  ac_allowed_environments :: "string list"

record protocol_acl =
  pa_service :: string
  pa_allowed_peer_uids :: "int list"
  pa_allowed_peer_gids :: "int list"
  pa_allowed_message_types :: "string list"

record attestation_signer_policy =
  as_key_id :: string
  as_public_key :: string
  as_holder_uid :: int
  as_holder_gid :: int
  as_max_evidence_ttl_seconds :: int
  as_refresh_before_expiry_seconds :: int
  as_not_before :: datetime
  as_not_after :: datetime

record runtime_trust_bundle =
  tb_bundle_id :: string
  tb_bundle_hash :: string
  tb_issued_at :: datetime
  tb_valid_until :: datetime
  tb_issuers :: "(string, issuer_policy) dict"
  tb_attestation_signers :: "(string, attestation_signer_policy) dict"
  tb_callers :: "(string, caller_acl) dict"
  tb_protocols :: "(string, protocol_acl) dict"

record capability_bindings =
  bd_caller_service :: string
  bd_environment :: string
  bd_operation_class :: string
  bd_endpoint_authority :: string
  bd_endpoint_id :: string
  bd_gateway_connection_id :: "string option"
  bd_canonical_request_hash :: string
  bd_operation_facts_hash :: string
  bd_causal_ref_type :: string
  bd_causal_ref_id :: string

record verified_capability =
  vc_capability_id :: string
  vc_payload_hash :: string
  vc_nonce :: string
  vc_issuer :: string
  vc_operation_class :: string
  vc_expires_at :: datetime

record verified_signed_document =
  vs_content :: document
  vs_content_hash :: string
  vs_signed_at :: datetime

section \<open>Keys and signatures\<close>

abbreviation before_or_at :: "datetime \<Rightarrow> datetime \<Rightarrow> bool" where
  "before_or_at a b \<equiv> dt_instant a \<le> dt_instant b"

abbreviation strictly_before :: "datetime \<Rightarrow> datetime \<Rightarrow> bool" where
  "strictly_before a b \<equiv> dt_instant a < dt_instant b"

definition signed_by :: "primitives \<Rightarrow> string \<Rightarrow> json \<Rightarrow> string \<Rightarrow> string \<Rightarrow> unit result" where
  "signed_by P public_key signature digest_text reason =
    rbind (decode_base64 P signature 64 reason) (\<lambda>bytes. permit_if (pr_verify P public_key bytes digest_text) reason)"

definition verify_rotation_proof :: "primitives \<Rightarrow> document \<Rightarrow> document \<Rightarrow> document \<Rightarrow> string \<Rightarrow> unit result" where
  "verify_rotation_proof P keyring old_key new_key keyring_hash =
    (let invalid = ''TRUST_ROOT_ROTATION_INVALID'' in
     rbind (as_mapping (doc_get keyring ''rotation_proof'') invalid) (\<lambda>proof.
     rbind (permit_if (doc_get proof ''old_key_id'' = doc_get old_key ''key_id'' \<and> doc_get proof ''new_key_id'' = doc_get new_key ''key_id'') invalid) (\<lambda>_.
     rbind (decode_base64 P (doc_get old_key ''public_key_base64'') 32 invalid) (\<lambda>old_public.
     rbind (signed_by P old_public (doc_get proof ''old_signature_base64'') keyring_hash invalid) (\<lambda>_.
     rbind (decode_base64 P (doc_get new_key ''public_key_base64'') 32 invalid) (\<lambda>new_public.
     signed_by P new_public (doc_get proof ''new_signature_base64'') keyring_hash invalid))))))"

definition keys_with_status :: "string \<Rightarrow> (string, document) dict \<Rightarrow> document list" where
  "keys_with_status status ks = filter (\<lambda>k. doc_get k ''status'' = JStr status) (map snd ks)"

definition verification_key :: "primitives \<Rightarrow> document \<Rightarrow> string \<Rightarrow> string \<Rightarrow> datetime \<Rightarrow> datetime \<Rightarrow> string result" where
  "verification_key P keyring expected_keyring_hash key_id signed_at now =
    rbind (as_mapping (doc_get keyring ''content'') ''TRUST_ROOT_INVALID'') (\<lambda>content.
    rbind (canonical_digest P (JObj content)) (\<lambda>calculated_hash.
    rbind (permit_if (doc_get keyring ''keyring_hash'' = JStr calculated_hash \<and> calculated_hash = expected_keyring_hash)
      ''TRUST_ROOT_HASH_MISMATCH'') (\<lambda>_.
    rbind (permit_if (doc_get content ''purpose'' = JStr ''HOST_CONTROL_CONFIG'') ''TRUST_ROOT_PURPOSE_MISMATCH'') (\<lambda>_.
    rbind (string_set_or_empty (doc_get content ''revoked_key_ids'') ''TRUST_ROOT_INVALID'') (\<lambda>revoked.
    rbind (unique_by (doc_get content ''keys'') ''key_id'' ''TRUST_ROOT_INVALID'') (\<lambda>ks.
    let current = keys_with_status ''CURRENT'' ks; next_keys = keys_with_status ''NEXT'' ks in
    rbind (permit_if (length current = 1 \<and> length next_keys \<le> 1) ''TRUST_ROOT_INVALID'') (\<lambda>_.
    rbind (if next_keys \<noteq> [] then verify_rotation_proof P keyring (hd current) (hd next_keys) calculated_hash
       else permit_if (doc_get keyring ''rotation_proof'' = JNull) ''TRUST_ROOT_ROTATION_INVALID'') (\<lambda>_.
    case map_of ks key_id of None \<Rightarrow> authorization_denied ''CONFIG_SIGNATURE_KEY_UNTRUSTED''
    | Some key \<Rightarrow>
      rbind (permit_if (key_id \<notin> set revoked) ''CONFIG_SIGNATURE_KEY_UNTRUSTED'') (\<lambda>_.
      rbind (in_texts (doc_get key ''status'') {''CURRENT'', ''NEXT''}) (\<lambda>usable.
      rbind (permit_if usable ''CONFIG_SIGNATURE_KEY_UNTRUSTED'') (\<lambda>_.
      rbind (parse_time P (doc_get key ''not_before'') ''TRUST_ROOT_INVALID'') (\<lambda>not_before.
      rbind (parse_time P (doc_get key ''not_after'') ''TRUST_ROOT_INVALID'') (\<lambda>not_after.
      rbind (permit_if (before_or_at not_before signed_at \<and> before_or_at signed_at now \<and> strictly_before now not_after)
        ''CONFIG_SIGNATURE_KEY_EXPIRED'') (\<lambda>_.
      decode_base64 P (doc_get key ''public_key_base64'') 32 ''TRUST_ROOT_INVALID''))))))))))))))"

text \<open>The checks that a signed bundle and a signed configuration document share, each with its own reason codes:
  \<open>missing\<close> when there is no signature and \<open>invalid\<close> when it does not hold. The bundle also refuses a
  signature older than its issue, \<open>earliest\<close>.\<close>

definition verify_signature ::
  "primitives \<Rightarrow> document \<Rightarrow> document \<Rightarrow> string \<Rightarrow> string \<Rightarrow> datetime \<Rightarrow> datetime option \<Rightarrow> string \<Rightarrow> string \<Rightarrow> datetime result" where
  "verify_signature P document keyring expected_keyring_hash digest_text now earliest missing invalid =
    rbind (as_mapping (doc_get document ''signature'') missing) (\<lambda>signature.
    rbind (permit_if (doc_get signature ''algorithm'' = JStr ''Ed25519'') invalid) (\<lambda>_.
    rbind (parse_time P (doc_get signature ''signed_at'') invalid) (\<lambda>signed_at.
    rbind (permit_if ((case earliest of None \<Rightarrow> True | Some t \<Rightarrow> before_or_at t signed_at) \<and> before_or_at signed_at now) invalid) (\<lambda>_.
    case doc_get signature ''key_id'' of JStr key_id \<Rightarrow>
      rbind (verification_key P keyring expected_keyring_hash key_id signed_at now) (\<lambda>public_key.
      rbind (signed_by P public_key (doc_get signature ''signature_base64'') digest_text invalid) (\<lambda>_. Inr signed_at))
    | _ \<Rightarrow> authorization_denied invalid))))"

definition verify_signed_config_document ::
  "primitives \<Rightarrow> document \<Rightarrow> document \<Rightarrow> string \<Rightarrow> string \<Rightarrow> string \<Rightarrow> datetime \<Rightarrow> string \<Rightarrow> verified_signed_document result" where
  "verify_signed_config_document P document keyring expected_keyring_hash hash_field status_field now expected_status =
    rbind (as_mapping (doc_get document ''content'') ''SIGNED_POLICY_INVALID'') (\<lambda>content.
    rbind (permit_if (doc_get content status_field = JStr expected_status) ''SIGNED_POLICY_NOT_RUNTIME'') (\<lambda>_.
    rbind (canonical_digest P (JObj content)) (\<lambda>digest_text.
    rbind (permit_if (doc_get document hash_field = JStr digest_text) ''SIGNED_POLICY_HASH_MISMATCH'') (\<lambda>_.
    rbind (verify_signature P document keyring expected_keyring_hash digest_text (as_utc now) None
      ''SIGNED_POLICY_SIGNATURE_MISSING'' ''SIGNED_POLICY_SIGNATURE_INVALID'') (\<lambda>signed_at.
    Inr \<lparr>vs_content = content, vs_content_hash = digest_text, vs_signed_at = signed_at\<rparr>)))))"

section \<open>The trust bundle\<close>

definition issuer_policy_of ::
  "primitives \<Rightarrow> string list \<Rightarrow> datetime \<Rightarrow> datetime \<Rightarrow> string list \<Rightarrow> string \<Rightarrow> document \<Rightarrow> issuer_policy result" where
  "issuer_policy_of P revoked issued_at valid_until issuer_key_ids issuer_name raw =
    (let invalid = ''TRUST_BUNDLE_ISSUER_INVALID'' in
     case doc_get raw ''key_id'' of JStr issuer_key_id \<Rightarrow>
       rbind (permit_if (issuer_key_id \<notin> set issuer_key_ids \<and> issuer_key_id \<notin> set revoked) invalid) (\<lambda>_.
       rbind (parse_time P (doc_get raw ''not_before'') invalid) (\<lambda>not_before.
       rbind (parse_time P (doc_get raw ''not_after'') invalid) (\<lambda>not_after.
       rbind (permit_if (before_or_at issued_at not_before \<and> strictly_before not_before not_after \<and> before_or_at not_after valid_until) invalid) (\<lambda>_.
       rbind (decode_base64 P (doc_get raw ''public_key_base64'') 32 invalid) (\<lambda>public_key.
       rbind (string_set (doc_get raw ''allowed_operation_classes'') invalid) (\<lambda>classes.
       rbind (string_set (doc_get raw ''allowed_subject_services'') invalid) (\<lambda>subjects.
       rbind (string_set (doc_get raw ''allowed_endpoint_authorities'') invalid) (\<lambda>authorities.
       rbind (string_set (doc_get raw ''allowed_environments'') invalid) (\<lambda>environments.
       Inr \<lparr>ip_issuer = issuer_name, ip_key_id = issuer_key_id, ip_public_key = public_key, ip_allowed_operation_classes = classes,
         ip_allowed_subject_services = subjects, ip_allowed_endpoint_authorities = authorities, ip_allowed_environments = environments,
         ip_not_before = not_before, ip_not_after = not_after\<rparr>)))))))))
     | _ \<Rightarrow> authorization_denied invalid)"

fun issuer_policies ::
  "primitives \<Rightarrow> string list \<Rightarrow> datetime \<Rightarrow> datetime \<Rightarrow> (string, document) dict \<Rightarrow> (string, issuer_policy) dict
     \<Rightarrow> (string, issuer_policy) dict result" where
  "issuer_policies P revoked issued_at valid_until [] issuers = Inr issuers"
| "issuer_policies P revoked issued_at valid_until ((name, raw) # raws) issuers =
    rbind (issuer_policy_of P revoked issued_at valid_until (map (ip_key_id \<circ> snd) issuers) name raw) (\<lambda>policy.
    issuer_policies P revoked issued_at valid_until raws (issuers @ [(name, policy)]))"

definition attestation_signer_of ::
  "primitives \<Rightarrow> string list \<Rightarrow> datetime \<Rightarrow> datetime \<Rightarrow> string \<Rightarrow> document \<Rightarrow> attestation_signer_policy result" where
  "attestation_signer_of P revoked issued_at valid_until signer_key_id raw =
    (let invalid = ''TRUST_BUNDLE_ATTESTATION_INVALID'' in
     rbind (parse_time P (doc_get raw ''not_before'') invalid) (\<lambda>not_before.
     rbind (parse_time P (doc_get raw ''not_after'') invalid) (\<lambda>not_after.
     rbind (integer_of (doc_get raw ''holder_uid'') invalid) (\<lambda>holder_uid.
     rbind (integer_of (doc_get raw ''holder_gid'') invalid) (\<lambda>holder_gid.
     rbind (integer_of (doc_get raw ''max_evidence_ttl_seconds'') invalid) (\<lambda>max_ttl.
     rbind (integer_of (doc_get raw ''refresh_before_expiry_seconds'') invalid) (\<lambda>refresh_before.
     rbind (permit_if (signer_key_id \<notin> set revoked
         \<and> doc_get raw ''purpose'' = JStr ''HOST_RATE_STARTUP_EVIDENCE''
         \<and> doc_get raw ''private_key_holder_service'' = JStr ''host-attestation-signer''
         \<and> doc_get raw ''payload'' = JStr ''RFC8785_JCS_UTF8_OF_CONTENT_THEN_SHA256_DIGEST_SIGNED_BY_ED25519''
         \<and> doc_get raw ''revoked'' = JBool False
         \<and> 1 \<le> holder_uid \<and> 1 \<le> holder_gid \<and> 1 \<le> max_ttl \<and> max_ttl \<le> 300 \<and> 1 \<le> refresh_before \<and> refresh_before < max_ttl
         \<and> before_or_at issued_at not_before \<and> strictly_before not_before not_after \<and> before_or_at not_after valid_until) invalid) (\<lambda>_.
     rbind (decode_base64 P (doc_get raw ''public_key_base64'') 32 invalid) (\<lambda>public_key.
     Inr \<lparr>as_key_id = signer_key_id, as_public_key = public_key, as_holder_uid = holder_uid, as_holder_gid = holder_gid,
       as_max_evidence_ttl_seconds = max_ttl, as_refresh_before_expiry_seconds = refresh_before,
       as_not_before = not_before, as_not_after = not_after\<rparr>)))))))))"

definition caller_acl_of :: "(string, issuer_policy) dict \<Rightarrow> string \<Rightarrow> document \<Rightarrow> caller_acl result" where
  "caller_acl_of issuers service raw =
    (let invalid = ''TRUST_BUNDLE_ACL_INVALID'' in
     rbind (string_set (doc_get raw ''allowed_issuers'') invalid) (\<lambda>allowed_issuers.
     rbind (permit_if (\<forall>i \<in> set allowed_issuers. case map_of issuers i of None \<Rightarrow> False
         | Some p \<Rightarrow> service \<in> set (ip_allowed_subject_services p)) ''TRUST_BUNDLE_ACL_NOT_CLOSED'') (\<lambda>_.
     rbind (integer_set (doc_get raw ''allowed_peer_uids'') invalid) (\<lambda>uids.
     rbind (integer_set (doc_get raw ''allowed_peer_gids'') invalid) (\<lambda>gids.
     rbind (string_set (doc_get raw ''allowed_endpoint_authorities'') invalid) (\<lambda>authorities.
     rbind (string_set (doc_get raw ''allowed_environments'') invalid) (\<lambda>environments.
     Inr \<lparr>ac_service = service, ac_allowed_peer_uids = uids, ac_allowed_peer_gids = gids, ac_allowed_issuers = allowed_issuers,
       ac_allowed_endpoint_authorities = authorities, ac_allowed_environments = environments\<rparr>)))))))"

definition protocol_acl_of :: "string \<Rightarrow> document \<Rightarrow> protocol_acl result" where
  "protocol_acl_of service raw =
    (let invalid = ''TRUST_BUNDLE_PROTOCOL_ACL_INVALID'' in
     rbind (integer_set (doc_get raw ''allowed_peer_uids'') invalid) (\<lambda>uids.
     rbind (integer_set (doc_get raw ''allowed_peer_gids'') invalid) (\<lambda>gids.
     rbind (string_set (doc_get raw ''allowed_message_types'') invalid) (\<lambda>types.
     Inr \<lparr>pa_service = service, pa_allowed_peer_uids = uids, pa_allowed_peer_gids = gids, pa_allowed_message_types = types\<rparr>))))"

text \<open>A dictionary built item by item, each with its key.\<close>

definition dict_of :: "('k \<Rightarrow> 'a \<Rightarrow> 'b result) \<Rightarrow> ('k, 'a) dict \<Rightarrow> ('k, 'b) dict result" where
  "dict_of f items = rmap (\<lambda>(k, v). rbind (f k v) (\<lambda>w. Inr (k, w))) items"

definition subject_services :: "(string, issuer_policy) dict \<Rightarrow> string set" where
  "subject_services issuers = (\<Union>(_, p) \<in> set issuers. set (ip_allowed_subject_services p))"

definition bundle_policies ::
  "primitives \<Rightarrow> document \<Rightarrow> string \<Rightarrow> datetime \<Rightarrow> datetime \<Rightarrow> runtime_trust_bundle result" where
  "bundle_policies P content bundle_hash issued_at valid_until =
    rbind (string_set_or_empty (doc_get content ''revoked_key_ids'') ''TRUST_BUNDLE_INVALID'') (\<lambda>revoked.
    rbind (unique_by (doc_get content ''issuers'') ''issuer'' ''TRUST_BUNDLE_INVALID'') (\<lambda>raw_issuers.
    rbind (issuer_policies P revoked issued_at valid_until raw_issuers []) (\<lambda>issuers.
    rbind (unique_by (doc_get content ''attestation_signers'') ''key_id'' ''TRUST_BUNDLE_ATTESTATION_INVALID'') (\<lambda>raw_signers.
    rbind (permit_if (length raw_signers = 1) ''TRUST_BUNDLE_ATTESTATION_INVALID'') (\<lambda>_.
    rbind (dict_of (attestation_signer_of P revoked issued_at valid_until) raw_signers) (\<lambda>signers.
    rbind (unique_by (doc_get content ''caller_acl'') ''service'' ''TRUST_BUNDLE_INVALID'') (\<lambda>raw_callers.
    rbind (permit_if (fst ` set raw_callers = subject_services issuers) ''TRUST_BUNDLE_ACL_NOT_CLOSED'') (\<lambda>_.
    rbind (dict_of (caller_acl_of issuers) raw_callers) (\<lambda>callers.
    rbind (unique_by (doc_get content ''protocol_acl'') ''service'' ''TRUST_BUNDLE_INVALID'') (\<lambda>raw_protocols.
    rbind (permit_if (fst ` set raw_protocols = {''binance-egress-gateway'', ''rate-budget-service''}) ''TRUST_BUNDLE_PROTOCOL_ACL_INVALID'') (\<lambda>_.
    rbind (dict_of protocol_acl_of raw_protocols) (\<lambda>protocols.
    rbind (permit_if (doc_get content ''gateway_holds_signing_key'' = JBool False) ''TRUST_BUNDLE_GATEWAY_KEY_FORBIDDEN'') (\<lambda>_.
    Inr \<lparr>tb_bundle_id = py_str (doc_get content ''bundle_id''), tb_bundle_hash = bundle_hash, tb_issued_at = issued_at, tb_valid_until = valid_until,
      tb_issuers = issuers, tb_attestation_signers = signers, tb_callers = callers, tb_protocols = protocols\<rparr>)))))))))))))"

definition verify_runtime_trust_bundle ::
  "primitives \<Rightarrow> document \<Rightarrow> document \<Rightarrow> string \<Rightarrow> datetime \<Rightarrow> runtime_trust_bundle result" where
  "verify_runtime_trust_bundle P bundle keyring expected_keyring_hash now =
    rbind (as_mapping (doc_get bundle ''content'') ''TRUST_BUNDLE_INVALID'') (\<lambda>content.
    rbind (permit_if (doc_get content ''bundle_status'' = JStr ''SIGNED_RUNTIME'') ''TRUST_BUNDLE_NOT_RUNTIME'') (\<lambda>_.
    rbind (canonical_digest P (JObj content)) (\<lambda>bundle_hash.
    rbind (permit_if (doc_get bundle ''bundle_hash'' = JStr bundle_hash) ''TRUST_BUNDLE_HASH_MISMATCH'') (\<lambda>_.
    rbind (parse_time P (doc_get content ''issued_at'') ''TRUST_BUNDLE_INVALID'') (\<lambda>issued_at.
    rbind (parse_time P (doc_get content ''valid_until'') ''TRUST_BUNDLE_INVALID'') (\<lambda>valid_until.
    rbind (permit_if (before_or_at issued_at now \<and> strictly_before now valid_until) ''RATE_TRUST_BUNDLE_EXPIRED'') (\<lambda>_.
    rbind (verify_signature P bundle keyring expected_keyring_hash bundle_hash (as_utc now) (Some issued_at)
      ''TRUST_BUNDLE_SIGNATURE_MISSING'' ''TRUST_BUNDLE_SIGNATURE_INVALID'') (\<lambda>_.
    bundle_policies P content bundle_hash issued_at valid_until))))))))"

section \<open>Peers and capabilities\<close>

definition authorize_protocol_peer :: "runtime_trust_bundle \<Rightarrow> string \<Rightarrow> string \<Rightarrow> peer_credentials \<Rightarrow> unit result" where
  "authorize_protocol_peer bundle claimed_service message_type peer =
    permit_if (case map_of (tb_protocols bundle) claimed_service of None \<Rightarrow> False
      | Some acl \<Rightarrow> pc_uid peer \<in> set (pa_allowed_peer_uids acl) \<and> pc_gid peer \<in> set (pa_allowed_peer_gids acl)
          \<and> message_type \<in> set (pa_allowed_message_types acl)) ''PROTOCOL_PEER_ACL_DENIED''"

definition expected_bindings :: "capability_bindings \<Rightarrow> (string \<times> json) list" where
  "expected_bindings b =
    [(''subject_caller_service'', JStr (bd_caller_service b)), (''environment'', JStr (bd_environment b)),
     (''allowed_operation_class'', JStr (bd_operation_class b)), (''endpoint_authority'', JStr (bd_endpoint_authority b)),
     (''endpoint_id'', JStr (bd_endpoint_id b)),
     (''gateway_connection_id'', case bd_gateway_connection_id b of None \<Rightarrow> JNull | Some c \<Rightarrow> JStr c),
     (''canonical_request_hash'', JStr (bd_canonical_request_hash b)), (''operation_facts_hash'', JStr (bd_operation_facts_hash b)),
     (''causal_ref_type'', JStr (bd_causal_ref_type b)), (''causal_ref_id'', JStr (bd_causal_ref_id b))]"

definition caller_allowed :: "runtime_trust_bundle \<Rightarrow> capability_bindings \<Rightarrow> peer_credentials \<Rightarrow> string \<Rightarrow> bool" where
  "caller_allowed bundle b peer issuer_name = (case map_of (tb_callers bundle) (bd_caller_service b) of None \<Rightarrow> False
     | Some acl \<Rightarrow> pc_uid peer \<in> set (ac_allowed_peer_uids acl) \<and> pc_gid peer \<in> set (ac_allowed_peer_gids acl)
         \<and> issuer_name \<in> set (ac_allowed_issuers acl) \<and> bd_endpoint_authority b \<in> set (ac_allowed_endpoint_authorities acl)
         \<and> bd_environment b \<in> set (ac_allowed_environments acl))"

definition in_scope :: "issuer_policy \<Rightarrow> capability_bindings \<Rightarrow> bool" where
  "in_scope issuer b \<longleftrightarrow> bd_caller_service b \<in> set (ip_allowed_subject_services issuer)
     \<and> bd_operation_class b \<in> set (ip_allowed_operation_classes issuer)
     \<and> bd_endpoint_authority b \<in> set (ip_allowed_endpoint_authorities issuer) \<and> bd_environment b \<in> set (ip_allowed_environments issuer)"

definition verify_causal_capability ::
  "primitives \<Rightarrow> document \<Rightarrow> runtime_trust_bundle \<Rightarrow> capability_bindings \<Rightarrow> peer_credentials \<Rightarrow> datetime \<Rightarrow> verified_capability result" where
  "verify_causal_capability P capability bundle b peer now =
    rbind (permit_if (before_or_at (tb_issued_at bundle) now \<and> strictly_before now (tb_valid_until bundle)) ''RATE_TRUST_BUNDLE_EXPIRED'') (\<lambda>_.
    rbind (as_mapping (doc_get capability ''signed_payload'') ''RATE_CAPABILITY_INVALID'') (\<lambda>payload.
    rbind (canonical_digest P (JObj payload)) (\<lambda>payload_hash.
    rbind (permit_if (doc_get capability ''payload_hash'' = JStr payload_hash) ''RATE_CAPABILITY_HASH_MISMATCH'') (\<lambda>_.
    case doc_get payload ''capability_id'' of JStr capability_id \<Rightarrow>
      rbind (permit_if (doc_get capability ''capability_id'' = JStr capability_id) ''RATE_CAPABILITY_BINDING_MISMATCH'') (\<lambda>_.
      case doc_get payload ''issuer'' of JStr issuer_name \<Rightarrow>
        (case map_of (tb_issuers bundle) issuer_name of None \<Rightarrow> authorization_denied ''RATE_CAPABILITY_ISSUER_UNTRUSTED''
         | Some issuer \<Rightarrow>
          rbind (as_mapping (doc_get capability ''signature'') ''RATE_CAPABILITY_SIGNATURE_INVALID'') (\<lambda>signature.
          rbind (permit_if (doc_get signature ''algorithm'' = JStr ''Ed25519'' \<and> doc_get signature ''key_id'' = JStr (ip_key_id issuer))
            ''RATE_CAPABILITY_SIGNATURE_INVALID'') (\<lambda>_.
          rbind (signed_by P (ip_public_key issuer) (doc_get signature ''signature_base64'') payload_hash ''RATE_CAPABILITY_SIGNATURE_INVALID'') (\<lambda>_.
          rbind (parse_time P (doc_get payload ''issued_at'') ''RATE_CAPABILITY_TIME_INVALID'') (\<lambda>issued_at.
          rbind (parse_time P (doc_get payload ''expires_at'') ''RATE_CAPABILITY_TIME_INVALID'') (\<lambda>expires_at.
          rbind (permit_if (before_or_at (ip_not_before issuer) issued_at \<and> before_or_at issued_at now \<and> strictly_before now expires_at
              \<and> before_or_at expires_at (ip_not_after issuer) \<and> strictly_before issued_at expires_at) ''RATE_CAPABILITY_TIME_INVALID'') (\<lambda>_.
          rbind (permit_if (caller_allowed bundle b peer issuer_name) ''RATE_CALLER_NOT_ALLOWED'') (\<lambda>_.
          rbind (permit_if (in_scope issuer b) ''RATE_CAPABILITY_SCOPE_DENIED'') (\<lambda>_.
          rbind (permit_if (list_all (\<lambda>(field, v). doc_get payload field = v) (expected_bindings b)) ''RATE_CAPABILITY_BINDING_MISMATCH'') (\<lambda>_.
          case doc_get payload ''nonce'' of JStr nonce \<Rightarrow>
            Inr \<lparr>vc_capability_id = capability_id, vc_payload_hash = payload_hash, vc_nonce = nonce, vc_issuer = issuer_name,
              vc_operation_class = bd_operation_class b, vc_expires_at = expires_at\<rparr>
          | _ \<Rightarrow> authorization_denied ''RATE_CAPABILITY_INVALID''))))))))))
      | _ \<Rightarrow> authorization_denied ''RATE_CAPABILITY_ISSUER_UNTRUSTED'')
    | _ \<Rightarrow> authorization_denied ''RATE_CAPABILITY_BINDING_MISMATCH''))))"

section \<open>What the helpers accept\<close>

lemma permit_if_eq_Inr [simp]: "permit_if b reason = Inr u \<longleftrightarrow> b"
  by (simp add: permit_if_def)

lemma authorization_denied_neq [simp]: "authorization_denied reason \<noteq> Inr x"
  by (simp add: authorization_denied_def)

lemma as_mapping_eq_Inr [simp]: "as_mapping v reason = Inr d \<longleftrightarrow> v = JObj d"
  by (cases v) (simp_all add: as_mapping_def)

lemma parse_time_utc: "parse_time P v reason = Inr t \<Longrightarrow> dt_utcoffset t = Some 0"
  by (auto simp: parse_time_def as_utc_def split: json.splits option.splits if_splits)

lemma decode_base64_length: "decode_base64 P v n reason = Inr bytes \<Longrightarrow> length bytes = n"
  by (auto simp: decode_base64_def split: json.splits option.splits if_splits)

lemma signed_by_iff:
  "signed_by P k v h reason = Inr u \<longleftrightarrow> (\<exists>s. decode_base64 P v 64 reason = Inr s \<and> pr_verify P k s h)"
  by (auto simp: signed_by_def)

lemma distinct_values_distinct:
  assumes "distinct_values read allow_empty v reason = Inr xs"
  shows "distinct xs" and "allow_empty \<or> xs \<noteq> []"
proof -
  from assms obtain vs where vs: "v = JArr vs" "None \<notin> set (map read vs)" "distinct (map read vs)" "xs = map the (map read vs)"
      "vs \<noteq> [] \<or> allow_empty"
    by (auto simp: distinct_values_def Let_def split: json.splits if_splits)
  have "inj_on the (set (map read vs))"
    by (rule inj_onI) (metis option.exhaust_sel vs(2))
  then show "distinct xs" using vs(3,4) by (simp add: distinct_map del: map_map)
  show "allow_empty \<or> xs \<noteq> []" using vs(4,5) by auto
qed

lemmas string_set_distinct = distinct_values_distinct [of text_of False, folded string_set_def]

lemma unique_items_keys:
  "unique_items field reason raws items = Inr items' \<Longrightarrow> dict_ok items \<Longrightarrow> dict_ok items'"
proof (induction raws arbitrary: items)
  case (Cons raw raws)
  from Cons.prems(1) obtain item where "raw = JObj item" by auto
  with Cons show ?case
    by (cases "doc_get item field") (auto simp: dict_ok_def map_of_eq_None_iff split: if_splits)
qed simp

lemma unique_by_keys: "unique_by v field reason = Inr items \<Longrightarrow> dict_ok items"
  by (auto simp: unique_by_def dict_ok_def split: json.splits dest!: unique_items_keys)

lemma dict_of_eq_Inr:
  "dict_of f items = Inr items' \<Longrightarrow> map fst items' = map fst items \<and> (\<forall>(k, w) \<in> set items'. \<exists>v. (k, v) \<in> set items \<and> f k v = Inr w)"
  unfolding dict_of_def by (induction items arbitrary: items') fastforce+

section \<open>Issuers, callers and signers of a verified bundle\<close>

text \<open>An issuer of a bundle: a key that is not revoked, valid within the bundle only, and lists that grant something.\<close>

definition issuer_ok :: "string set \<Rightarrow> datetime \<Rightarrow> datetime \<Rightarrow> string \<Rightarrow> issuer_policy \<Rightarrow> bool" where
  "issuer_ok revoked issued_at valid_until name p \<longleftrightarrow> ip_issuer p = name \<and> ip_key_id p \<notin> revoked \<and> length (ip_public_key p) = 32
     \<and> before_or_at issued_at (ip_not_before p) \<and> strictly_before (ip_not_before p) (ip_not_after p) \<and> before_or_at (ip_not_after p) valid_until
     \<and> ip_allowed_operation_classes p \<noteq> [] \<and> ip_allowed_subject_services p \<noteq> []"

definition signer_ok :: "string set \<Rightarrow> datetime \<Rightarrow> datetime \<Rightarrow> string \<Rightarrow> attestation_signer_policy \<Rightarrow> bool" where
  "signer_ok revoked issued_at valid_until key_id s \<longleftrightarrow> as_key_id s = key_id \<and> key_id \<notin> revoked \<and> length (as_public_key s) = 32
     \<and> 1 \<le> as_refresh_before_expiry_seconds s \<and> as_refresh_before_expiry_seconds s < as_max_evidence_ttl_seconds s \<and> as_max_evidence_ttl_seconds s \<le> 300
     \<and> before_or_at issued_at (as_not_before s) \<and> strictly_before (as_not_before s) (as_not_after s) \<and> before_or_at (as_not_after s) valid_until"

definition caller_ok :: "(string, issuer_policy) dict \<Rightarrow> string \<Rightarrow> caller_acl \<Rightarrow> bool" where
  "caller_ok issuers service acl \<longleftrightarrow> ac_service acl = service \<and> ac_allowed_issuers acl \<noteq> []
     \<and> (\<forall>i \<in> set (ac_allowed_issuers acl). \<exists>p. map_of issuers i = Some p \<and> service \<in> set (ip_allowed_subject_services p))"

lemma issuer_policy_of_ok:
  assumes "issuer_policy_of P revoked issued_at valid_until ks name raw = Inr p"
  shows "issuer_ok (set revoked) issued_at valid_until name p" and "ip_key_id p \<notin> set ks"
  using assms
  by (auto simp: issuer_policy_of_def issuer_ok_def Let_def split: json.splits dest: decode_base64_length string_set_distinct)

lemma issuer_policies_ok:
  "issuer_policies P revoked issued_at valid_until raws issuers = Inr issuers'
   \<Longrightarrow> distinct (map (ip_key_id \<circ> snd) issuers) \<Longrightarrow> \<forall>(n, p) \<in> set issuers. issuer_ok (set revoked) issued_at valid_until n p
   \<Longrightarrow> distinct (map (ip_key_id \<circ> snd) issuers') \<and> (\<forall>(n, p) \<in> set issuers'. issuer_ok (set revoked) issued_at valid_until n p)
       \<and> map fst issuers' = map fst issuers @ map fst raws"
proof (induction raws arbitrary: issuers)
  case (Cons r raws)
  obtain name raw where r: "r = (name, raw)" by fastforce
  from Cons.prems(1) obtain p where p: "issuer_policy_of P revoked issued_at valid_until (map (ip_key_id \<circ> snd) issuers) name raw = Inr p"
      and rest: "issuer_policies P revoked issued_at valid_until raws (issuers @ [(name, p)]) = Inr issuers'"
    by (auto simp: r)
  have d: "distinct (map (ip_key_id \<circ> snd) (issuers @ [(name, p)]))"
    using Cons.prems(2) issuer_policy_of_ok(2) [OF p] by (simp add: comp_def)
  have ok: "\<forall>(n, p) \<in> set (issuers @ [(name, p)]). issuer_ok (set revoked) issued_at valid_until n p"
    using Cons.prems(3) issuer_policy_of_ok(1) [OF p] by simp
  show ?case using Cons.IH [OF rest d ok] by (simp add: r)
qed simp

lemma attestation_signer_of_ok:
  assumes "attestation_signer_of P revoked issued_at valid_until k raw = Inr s"
  shows "signer_ok (set revoked) issued_at valid_until k s"
  using assms by (auto simp: attestation_signer_of_def signer_ok_def Let_def dest: decode_base64_length)

lemma caller_acl_of_ok: "caller_acl_of issuers service raw = Inr acl \<Longrightarrow> caller_ok issuers service acl"
  by (fastforce simp: caller_acl_of_def caller_ok_def Let_def split: option.splits dest: string_set_distinct)

text \<open>A closed bundle: what every later decision may rely on.\<close>

definition closed_bundle :: "string set \<Rightarrow> runtime_trust_bundle \<Rightarrow> bool" where
  "closed_bundle revoked tb \<longleftrightarrow>
     dict_ok (tb_issuers tb) \<and> distinct (map (ip_key_id \<circ> snd) (tb_issuers tb))
     \<and> (\<forall>(n, p) \<in> set (tb_issuers tb). issuer_ok revoked (tb_issued_at tb) (tb_valid_until tb) n p)
     \<and> dict_ok (tb_callers tb) \<and> fst ` set (tb_callers tb) = subject_services (tb_issuers tb)
     \<and> (\<forall>(s, acl) \<in> set (tb_callers tb). caller_ok (tb_issuers tb) s acl)
     \<and> (\<exists>k s. tb_attestation_signers tb = [(k, s)] \<and> signer_ok revoked (tb_issued_at tb) (tb_valid_until tb) k s)
     \<and> fst ` set (tb_protocols tb) = {''binance-egress-gateway'', ''rate-budget-service''}"

lemma bundle_policies_closed:
  assumes "bundle_policies P content h issued_at valid_until = Inr tb"
  shows "\<exists>revoked. string_set_or_empty (doc_get content ''revoked_key_ids'') ''TRUST_BUNDLE_INVALID'' = Inr revoked
     \<and> closed_bundle (set revoked) tb \<and> tb_issued_at tb = issued_at \<and> tb_valid_until tb = valid_until \<and> tb_bundle_hash tb = h"
proof -
  from assms obtain revoked ri issuers rs signers rc callers rp protocols where
    rev: "string_set_or_empty (doc_get content ''revoked_key_ids'') ''TRUST_BUNDLE_INVALID'' = Inr revoked"
    and ri: "unique_by (doc_get content ''issuers'') ''issuer'' ''TRUST_BUNDLE_INVALID'' = Inr ri"
    and issuers: "issuer_policies P revoked issued_at valid_until ri [] = Inr issuers"
    and rs: "length rs = 1" "dict_of (attestation_signer_of P revoked issued_at valid_until) rs = Inr signers"
    and rc: "unique_by (doc_get content ''caller_acl'') ''service'' ''TRUST_BUNDLE_INVALID'' = Inr rc"
    and closed: "fst ` set rc = subject_services issuers"
    and callers: "dict_of (caller_acl_of issuers) rc = Inr callers"
    and rp: "fst ` set rp = {''binance-egress-gateway'', ''rate-budget-service''}" "dict_of protocol_acl_of rp = Inr protocols"
    and tb: "tb = \<lparr>tb_bundle_id = py_str (doc_get content ''bundle_id''), tb_bundle_hash = h, tb_issued_at = issued_at, tb_valid_until = valid_until,
      tb_issuers = issuers, tb_attestation_signers = signers, tb_callers = callers, tb_protocols = protocols\<rparr>"
    unfolding bundle_policies_def by (simp only: rbind_eq_Inr permit_if_eq_Inr) blast
  have iss: "distinct (map (ip_key_id \<circ> snd) issuers)" "\<forall>(n, p) \<in> set issuers. issuer_ok (set revoked) issued_at valid_until n p"
      "map fst issuers = map fst ri"
    using issuer_policies_ok [OF issuers] by simp_all
  have keys: "map fst callers = map fst rc" "map fst protocols = map fst rp" "map fst signers = map fst rs"
    using dict_of_eq_Inr callers rp(2) rs(2) by blast+
  have "\<exists>k s. signers = [(k, s)]" using keys(3) rs(1) by (cases signers; cases rs) auto
  then have "\<exists>k s. signers = [(k, s)] \<and> signer_ok (set revoked) issued_at valid_until k s"
    using dict_of_eq_Inr [OF rs(2)] attestation_signer_of_ok by fastforce
  moreover have "\<forall>(s, acl) \<in> set callers. caller_ok issuers s acl"
    using dict_of_eq_Inr [OF callers] caller_acl_of_ok by fastforce
  moreover have "fst ` set callers = fst ` set rc" "fst ` set protocols = fst ` set rp"
    using keys(1,2) by (metis list.set_map)+
  ultimately show ?thesis
    using rev tb iss keys closed rp(1) unique_by_keys [OF ri] unique_by_keys [OF rc]
    by (simp add: closed_bundle_def dict_ok_def)
qed

section \<open>Chain of trust\<close>

text \<open>A key that may sign configuration: it is listed in the keyring with the pinned hash, not revoked, current or
  introduced by a rotation proof, and valid from before the signature until after now.\<close>

definition trusted_config_key :: "primitives \<Rightarrow> document \<Rightarrow> string \<Rightarrow> string \<Rightarrow> datetime \<Rightarrow> datetime \<Rightarrow> string \<Rightarrow> bool" where
  "trusted_config_key P keyring pin key_id signed_at now public_key \<longleftrightarrow>
    (\<exists>content revoked ks key not_before not_after. doc_get keyring ''content'' = JObj content \<and> canonical_digest P (JObj content) = Inr pin
       \<and> string_set_or_empty (doc_get content ''revoked_key_ids'') ''TRUST_ROOT_INVALID'' = Inr revoked \<and> key_id \<notin> set revoked
       \<and> unique_by (doc_get content ''keys'') ''key_id'' ''TRUST_ROOT_INVALID'' = Inr ks \<and> map_of ks key_id = Some key
       \<and> (doc_get key ''status'' = JStr ''CURRENT'' \<or> doc_get key ''status'' = JStr ''NEXT''
            \<and> (\<exists>old. verify_rotation_proof P keyring old key pin = Inr ()))
       \<and> parse_time P (doc_get key ''not_before'') ''TRUST_ROOT_INVALID'' = Inr not_before
       \<and> parse_time P (doc_get key ''not_after'') ''TRUST_ROOT_INVALID'' = Inr not_after
       \<and> before_or_at not_before signed_at \<and> before_or_at signed_at now \<and> strictly_before now not_after
       \<and> decode_base64 P (doc_get key ''public_key_base64'') 32 ''TRUST_ROOT_INVALID'' = Inr public_key)"

lemma next_key_is_hd:
  assumes "map_of ks k = Some key" "doc_get key ''status'' = JStr s" "length (keys_with_status s ks) \<le> 1"
  shows "keys_with_status s ks \<noteq> []" "hd (keys_with_status s ks) = key"
proof -
  have "key \<in> set (keys_with_status s ks)"
    using assms(2) map_of_SomeD [OF assms(1)] by (force simp: keys_with_status_def)
  with assms(3) show "keys_with_status s ks \<noteq> []" "hd (keys_with_status s ks) = key"
    by (cases "keys_with_status s ks"; auto)+
qed

lemma in_texts_eq_True: "in_texts v S = Inr True \<longleftrightarrow> (\<exists>s. v = JStr s \<and> s \<in> S)"
  by (cases v) (auto simp: in_texts_def)

lemma verification_key_trusted:
  assumes "verification_key P keyring pin key_id signed_at now = Inr public_key"
  shows "trusted_config_key P keyring pin key_id signed_at now public_key"
proof -
  from assms obtain content revoked ks where c: "doc_get keyring ''content'' = JObj content" "canonical_digest P (JObj content) = Inr pin"
      "string_set_or_empty (doc_get content ''revoked_key_ids'') ''TRUST_ROOT_INVALID'' = Inr revoked"
      "unique_by (doc_get content ''keys'') ''key_id'' ''TRUST_ROOT_INVALID'' = Inr ks"
    and one: "length (keys_with_status ''NEXT'' ks) \<le> 1"
    and rotation: "keys_with_status ''NEXT'' ks \<noteq> [] \<longrightarrow>
        verify_rotation_proof P keyring (hd (keys_with_status ''CURRENT'' ks)) (hd (keys_with_status ''NEXT'' ks)) pin = Inr ()"
    and key: "(case map_of ks key_id of None \<Rightarrow> authorization_denied ''CONFIG_SIGNATURE_KEY_UNTRUSTED''
      | Some key \<Rightarrow>
        rbind (permit_if (key_id \<notin> set revoked) ''CONFIG_SIGNATURE_KEY_UNTRUSTED'') (\<lambda>_.
        rbind (in_texts (doc_get key ''status'') {''CURRENT'', ''NEXT''}) (\<lambda>usable.
        rbind (permit_if usable ''CONFIG_SIGNATURE_KEY_UNTRUSTED'') (\<lambda>_.
        rbind (parse_time P (doc_get key ''not_before'') ''TRUST_ROOT_INVALID'') (\<lambda>not_before.
        rbind (parse_time P (doc_get key ''not_after'') ''TRUST_ROOT_INVALID'') (\<lambda>not_after.
        rbind (permit_if (before_or_at not_before signed_at \<and> before_or_at signed_at now \<and> strictly_before now not_after)
          ''CONFIG_SIGNATURE_KEY_EXPIRED'') (\<lambda>_.
        decode_base64 P (doc_get key ''public_key_base64'') 32 ''TRUST_ROOT_INVALID''))))))) = Inr public_key"
    unfolding verification_key_def Let_def
    by (simp only: rbind_eq_Inr permit_if_eq_Inr as_mapping_eq_Inr) (auto split: if_splits)
  from key obtain k nb na where k: "map_of ks key_id = Some k" "key_id \<notin> set revoked"
      "in_texts (doc_get k ''status'') {''CURRENT'', ''NEXT''} = Inr True"
      "parse_time P (doc_get k ''not_before'') ''TRUST_ROOT_INVALID'' = Inr nb"
      "parse_time P (doc_get k ''not_after'') ''TRUST_ROOT_INVALID'' = Inr na"
      "before_or_at nb signed_at" "before_or_at signed_at now" "strictly_before now na"
      "decode_base64 P (doc_get k ''public_key_base64'') 32 ''TRUST_ROOT_INVALID'' = Inr public_key"
    by (cases "map_of ks key_id") auto
  from k(3) have status: "doc_get k ''status'' = JStr ''CURRENT'' \<or> doc_get k ''status'' = JStr ''NEXT''"
    by (auto simp: in_texts_eq_True)
  moreover have "\<exists>old. verify_rotation_proof P keyring old k pin = Inr ()" if "doc_get k ''status'' = JStr ''NEXT''"
    using next_key_is_hd [OF k(1) that one] rotation by auto
  ultimately show ?thesis unfolding trusted_config_key_def using c k by blast
qed

lemma verify_signature_trusted:
  assumes "verify_signature P document keyring pin digest_text now earliest missing invalid = Inr signed_at"
  shows "\<exists>key_id public_key signature_bytes. trusted_config_key P keyring pin key_id signed_at now public_key
     \<and> pr_verify P public_key signature_bytes digest_text" and "earliest = Some t \<Longrightarrow> before_or_at t signed_at"
proof -
  from assms obtain signature where sig: "doc_get document ''signature'' = JObj signature" by (auto simp: verify_signature_def)
  then show "\<exists>key_id public_key signature_bytes. trusted_config_key P keyring pin key_id signed_at now public_key
     \<and> pr_verify P public_key signature_bytes digest_text"
    using assms by (cases "doc_get signature ''key_id''")
      (auto simp: verify_signature_def signed_by_iff intro: verification_key_trusted)
  show "before_or_at t signed_at" if "earliest = Some t"
    using assms that sig by (cases "doc_get signature ''key_id''") (auto simp: verify_signature_def)
qed

text \<open>A bundle is accepted only under the pinned keyring: its hash is the digest of its content and a trusted key of the
  keyring signed that hash after the issue of the bundle. An accepted bundle is in force and closed.\<close>

lemma verified_bundle:
  assumes "verify_runtime_trust_bundle P bundle keyring pin now = Inr tb"
  obtains content revoked signed_at key_id public_key signature_bytes where "doc_get bundle ''content'' = JObj content"
    "string_set_or_empty (doc_get content ''revoked_key_ids'') ''TRUST_BUNDLE_INVALID'' = Inr revoked" "closed_bundle (set revoked) tb"
    "canonical_digest P (JObj content) = Inr (tb_bundle_hash tb)" "before_or_at (tb_issued_at tb) signed_at"
    "before_or_at (tb_issued_at tb) now" "strictly_before now (tb_valid_until tb)"
    "trusted_config_key P keyring pin key_id signed_at (as_utc now) public_key" "pr_verify P public_key signature_bytes (tb_bundle_hash tb)"
proof -
  from assms obtain content issued_at valid_until signed_at h where c: "doc_get bundle ''content'' = JObj content"
      "before_or_at issued_at now" "strictly_before now valid_until"
      "canonical_digest P (JObj content) = Inr h"
      "verify_signature P bundle keyring pin h (as_utc now) (Some issued_at)
        ''TRUST_BUNDLE_SIGNATURE_MISSING'' ''TRUST_BUNDLE_SIGNATURE_INVALID'' = Inr signed_at"
      "bundle_policies P content h issued_at valid_until = Inr tb"
    unfolding verify_runtime_trust_bundle_def Let_def by auto
  with that verify_signature_trusted [OF c(5)] bundle_policies_closed [OF c(6)] show thesis by auto
qed

lemma expected_bindings_inj:
  assumes "list_all (\<lambda>(field, v). doc_get payload field = v) (expected_bindings b)"
    and "list_all (\<lambda>(field, v). doc_get payload field = v) (expected_bindings b')"
  shows "b = b'"
proof -
  have "bd_gateway_connection_id b = bd_gateway_connection_id b'"
    using assms by (auto simp: expected_bindings_def split: option.splits)
  with assms show ?thesis
    by (intro capability_bindings.equality) (simp_all add: expected_bindings_def)
qed

lemma verified_capability_facts:
  assumes "verify_causal_capability P capability tb b peer now = Inr vc"
  obtains payload issuer signature_bytes issued_at where "doc_get capability ''signed_payload'' = JObj payload"
    "canonical_digest P (JObj payload) = Inr (vc_payload_hash vc)" "map_of (tb_issuers tb) (vc_issuer vc) = Some issuer"
    "pr_verify P (ip_public_key issuer) signature_bytes (vc_payload_hash vc)"
    "before_or_at (ip_not_before issuer) issued_at" "before_or_at issued_at now" "strictly_before now (vc_expires_at vc)"
    "before_or_at (vc_expires_at vc) (ip_not_after issuer)" "caller_allowed tb b peer (vc_issuer vc)" "in_scope issuer b"
    "list_all (\<lambda>(field, v). doc_get payload field = v) (expected_bindings b)"
proof -
  from assms obtain payload where p: "doc_get capability ''signed_payload'' = JObj payload"
    by (auto simp: verify_causal_capability_def)
  from assms p obtain cid where cid: "doc_get payload ''capability_id'' = JStr cid"
    by (cases "doc_get payload ''capability_id''") (auto simp: verify_causal_capability_def)
  from assms p cid obtain name where name: "doc_get payload ''issuer'' = JStr name"
    by (cases "doc_get payload ''issuer''") (auto simp: verify_causal_capability_def)
  from assms p cid name obtain issuer where issuer: "map_of (tb_issuers tb) name = Some issuer"
    by (cases "map_of (tb_issuers tb) name") (auto simp: verify_causal_capability_def)
  from assms p cid name issuer obtain nonce where nonce: "doc_get payload ''nonce'' = JStr nonce"
    by (cases "doc_get payload ''nonce''") (auto simp: verify_causal_capability_def Let_def)
  show thesis
    using assms p cid name issuer nonce that [of payload issuer]
    by (auto simp: verify_causal_capability_def Let_def signed_by_iff)
qed

text \<open>The digests of accepted bundles are signed under the pinned keyring by a key that is not revoked, and what
  is accepted is closed: issuer keys are distinct, not revoked and valid within the bundle only, every service an
  issuer may speak for has exactly one access list and each list names known issuers that may speak for that service.\<close>

theorem trust_bundle_is_closed:
  assumes "verify_runtime_trust_bundle P bundle keyring pin now = Inr tb"
  shows "\<exists>content revoked signed_at key_id public_key signature_bytes. doc_get bundle ''content'' = JObj content
    \<and> string_set_or_empty (doc_get content ''revoked_key_ids'') ''TRUST_BUNDLE_INVALID'' = Inr revoked \<and> closed_bundle (set revoked) tb
    \<and> canonical_digest P (JObj content) = Inr (tb_bundle_hash tb) \<and> before_or_at (tb_issued_at tb) signed_at
    \<and> before_or_at (tb_issued_at tb) now \<and> strictly_before now (tb_valid_until tb)
    \<and> trusted_config_key P keyring pin key_id signed_at (as_utc now) public_key
    \<and> pr_verify P public_key signature_bytes (tb_bundle_hash tb)"
  using verified_bundle [OF assms] by metis

text \<open>Concrete primitives for the witnesses: texts stand for the bytes and times they decode to.\<close>

definition sample_primitives :: primitives where
  "sample_primitives = \<lparr>pr_canonical = (\<lambda>v. case v of JObj d \<Rightarrow> Some (concat (map fst d)) | _ \<Rightarrow> None), pr_verify = (\<lambda>key signature _. take 32 signature = key),
    pr_b64decode = (\<lambda>s. if s = ''key'' then Some (replicate 32 CHR ''k'') else if s = ''sig'' then Some (replicate 64 CHR ''k'') else None),
    pr_fromisoformat = (\<lambda>s. if s = ''early'' then Some \<lparr>dt_instant = 0, dt_utcoffset = Some 0\<rparr>
      else if s = ''late'' then Some \<lparr>dt_instant = 9, dt_utcoffset = Some 0\<rparr> else None)\<rparr>"

definition sample_digest :: "document \<Rightarrow> string" where
  "sample_digest d = sha256_hex (concat (map fst d))"

lemma sample_canonical_digest: "canonical_digest sample_primitives (JObj d) = Inr (sample_digest d)"
  by (simp add: canonical_digest_def sample_primitives_def sample_digest_def)

definition sample_keyring_content :: document where
  "sample_keyring_content = [(''purpose'', JStr ''HOST_CONTROL_CONFIG''), (''revoked_key_ids'', JArr []),
    (''keys'', JArr [JObj [(''key_id'', JStr ''root''), (''status'', JStr ''CURRENT''), (''not_before'', JStr ''early''),
       (''not_after'', JStr ''late''), (''public_key_base64'', JStr ''key'')]])]"

definition sample_pin :: string where
  "sample_pin = sample_digest sample_keyring_content"

definition sample_keyring :: document where
  "sample_keyring = [(''content'', JObj sample_keyring_content), (''keyring_hash'', JStr sample_pin)]"

definition sample_signature :: "string \<Rightarrow> json" where
  "sample_signature key_id = JObj [(''algorithm'', JStr ''Ed25519''), (''key_id'', JStr key_id), (''signed_at'', JStr ''early''), (''signature_base64'', JStr ''sig'')]"

definition sample_bundle_content :: document where
  "sample_bundle_content = [(''bundle_status'', JStr ''SIGNED_RUNTIME''), (''bundle_id'', JStr ''bundle-1''),
    (''issued_at'', JStr ''early''), (''valid_until'', JStr ''late''), (''revoked_key_ids'', JArr [JStr ''old-key'']),
    (''issuers'', JArr [JObj [(''issuer'', JStr ''planner''), (''key_id'', JStr ''planner-key''), (''public_key_base64'', JStr ''key''),
       (''not_before'', JStr ''early''), (''not_after'', JStr ''late''), (''allowed_operation_classes'', JArr [JStr ''READ'']),
       (''allowed_subject_services'', JArr [JStr ''reader'']), (''allowed_endpoint_authorities'', JArr [JStr ''FAPI'']),
       (''allowed_environments'', JArr [JStr ''testnet''])]]),
    (''attestation_signers'', JArr [JObj [(''key_id'', JStr ''host-key''), (''public_key_base64'', JStr ''key''), (''not_before'', JStr ''early''),
       (''not_after'', JStr ''late''), (''holder_uid'', JInt 7), (''holder_gid'', JInt 7), (''max_evidence_ttl_seconds'', JInt 300),
       (''refresh_before_expiry_seconds'', JInt 60), (''purpose'', JStr ''HOST_RATE_STARTUP_EVIDENCE''),
       (''private_key_holder_service'', JStr ''host-attestation-signer''), (''revoked'', JBool False),
       (''payload'', JStr ''RFC8785_JCS_UTF8_OF_CONTENT_THEN_SHA256_DIGEST_SIGNED_BY_ED25519'')]]),
    (''caller_acl'', JArr [JObj [(''service'', JStr ''reader''), (''allowed_issuers'', JArr [JStr ''planner'']), (''allowed_peer_uids'', JArr [JInt 1]),
       (''allowed_peer_gids'', JArr [JInt 2]), (''allowed_endpoint_authorities'', JArr [JStr ''FAPI'']), (''allowed_environments'', JArr [JStr ''testnet''])]]),
    (''protocol_acl'', JArr [JObj [(''service'', JStr ''binance-egress-gateway''), (''allowed_peer_uids'', JArr [JInt 3]), (''allowed_peer_gids'', JArr [JInt 3]),
         (''allowed_message_types'', JArr [JStr ''SendOutcome''])],
       JObj [(''service'', JStr ''rate-budget-service''), (''allowed_peer_uids'', JArr [JInt 4]), (''allowed_peer_gids'', JArr [JInt 4]),
         (''allowed_message_types'', JArr [JStr ''PermitConsumeDecision''])]]),
    (''gateway_holds_signing_key'', JBool False)]"

definition sample_bundle :: document where
  "sample_bundle = [(''content'', JObj sample_bundle_content), (''bundle_hash'', JStr (sample_digest sample_bundle_content)),
    (''signature'', sample_signature ''root'')]"

definition sample_now :: datetime where
  "sample_now = \<lparr>dt_instant = 5, dt_utcoffset = Some 0\<rparr>"

definition sample_issuer :: issuer_policy where
  "sample_issuer = \<lparr>ip_issuer = ''planner'', ip_key_id = ''planner-key'', ip_public_key = replicate 32 CHR ''k'',
    ip_allowed_operation_classes = [''READ''], ip_allowed_subject_services = [''reader''], ip_allowed_endpoint_authorities = [''FAPI''],
    ip_allowed_environments = [''testnet''], ip_not_before = \<lparr>dt_instant = 0, dt_utcoffset = Some 0\<rparr>,
    ip_not_after = \<lparr>dt_instant = 9, dt_utcoffset = Some 0\<rparr>\<rparr>"

definition sample_trust :: runtime_trust_bundle where
  "sample_trust = \<lparr>tb_bundle_id = ''bundle-1'', tb_bundle_hash = sample_digest sample_bundle_content,
    tb_issued_at = \<lparr>dt_instant = 0, dt_utcoffset = Some 0\<rparr>, tb_valid_until = \<lparr>dt_instant = 9, dt_utcoffset = Some 0\<rparr>,
    tb_issuers = [(''planner'', sample_issuer)],
    tb_attestation_signers = [(''host-key'', \<lparr>as_key_id = ''host-key'', as_public_key = replicate 32 CHR ''k'', as_holder_uid = 7, as_holder_gid = 7,
      as_max_evidence_ttl_seconds = 300, as_refresh_before_expiry_seconds = 60, as_not_before = \<lparr>dt_instant = 0, dt_utcoffset = Some 0\<rparr>,
      as_not_after = \<lparr>dt_instant = 9, dt_utcoffset = Some 0\<rparr>\<rparr>)],
    tb_callers = [(''reader'', \<lparr>ac_service = ''reader'', ac_allowed_peer_uids = [1], ac_allowed_peer_gids = [2], ac_allowed_issuers = [''planner''],
      ac_allowed_endpoint_authorities = [''FAPI''], ac_allowed_environments = [''testnet'']\<rparr>)],
    tb_protocols = [(''binance-egress-gateway'', \<lparr>pa_service = ''binance-egress-gateway'', pa_allowed_peer_uids = [3], pa_allowed_peer_gids = [3],
        pa_allowed_message_types = [''SendOutcome'']\<rparr>),
      (''rate-budget-service'', \<lparr>pa_service = ''rate-budget-service'', pa_allowed_peer_uids = [4], pa_allowed_peer_gids = [4],
        pa_allowed_message_types = [''PermitConsumeDecision'']\<rparr>)]\<rparr>"

definition sample_capability_bindings :: capability_bindings where
  "sample_capability_bindings = \<lparr>bd_caller_service = ''reader'', bd_environment = ''testnet'', bd_operation_class = ''READ'',
    bd_endpoint_authority = ''FAPI'', bd_endpoint_id = ''time'', bd_gateway_connection_id = None, bd_canonical_request_hash = ''h1'',
    bd_operation_facts_hash = ''h2'', bd_causal_ref_type = ''CYCLE'', bd_causal_ref_id = ''c1''\<rparr>"

definition sample_payload :: document where
  "sample_payload = [(''capability_id'', JStr ''cap-1''), (''issuer'', JStr ''planner''), (''issued_at'', JStr ''early''), (''expires_at'', JStr ''late''),
    (''nonce'', JStr ''n1'')] @ expected_bindings sample_capability_bindings"

definition sample_capability :: document where
  "sample_capability = [(''capability_id'', JStr ''cap-1''), (''signed_payload'', JObj sample_payload),
    (''payload_hash'', JStr (sample_digest sample_payload)), (''signature'', sample_signature ''planner-key'')]"

lemmas sample_simps = parse_time_def decode_base64_def as_utc_def zulu_offset_def unique_by_def distinct_values_def string_set_def string_set_or_empty_def
  integer_set_def integer_of_def text_of_def int_of_def doc_get_def permit_if_def signed_by_def verify_signature_def verification_key_def
  keys_with_status_def in_texts_def as_mapping_def canonical_digest_def sample_digest_def Let_def

lemma sample_bundle_verifies:
  "verify_runtime_trust_bundle sample_primitives sample_bundle sample_keyring sample_pin sample_now = Inr sample_trust"
  by (simp add: sample_bundle_def sample_keyring_def sample_pin_def sample_now_def sample_bundle_content_def sample_keyring_content_def
    sample_signature_def sample_primitives_def sample_simps verify_runtime_trust_bundle_def bundle_policies_def issuer_policy_of_def
    attestation_signer_of_def caller_acl_of_def protocol_acl_of_def dict_of_def subject_services_def sample_trust_def sample_issuer_def py_str_def)

definition sample_peer :: peer_credentials where
  "sample_peer = \<lparr>pc_pid = 10, pc_uid = 1, pc_gid = 2\<rparr>"

lemma sample_capability_verifies:
  "\<exists>vc. verify_causal_capability sample_primitives sample_capability sample_trust sample_capability_bindings sample_peer sample_now = Inr vc"
  by (simp add: verify_causal_capability_def sample_capability_def sample_payload_def sample_trust_def sample_issuer_def sample_capability_bindings_def
    sample_peer_def sample_now_def sample_signature_def sample_primitives_def sample_simps caller_allowed_def in_scope_def expected_bindings_def)

theorem trust_bundle_is_closed_witness:
  "(\<exists>content revoked signed_at key_id public_key signature_bytes. doc_get sample_bundle ''content'' = JObj content
    \<and> string_set_or_empty (doc_get content ''revoked_key_ids'') ''TRUST_BUNDLE_INVALID'' = Inr revoked \<and> closed_bundle (set revoked) sample_trust
    \<and> canonical_digest sample_primitives (JObj content) = Inr (tb_bundle_hash sample_trust) \<and> before_or_at (tb_issued_at sample_trust) signed_at
    \<and> before_or_at (tb_issued_at sample_trust) sample_now \<and> strictly_before sample_now (tb_valid_until sample_trust)
    \<and> trusted_config_key sample_primitives sample_keyring sample_pin key_id signed_at (as_utc sample_now) public_key
    \<and> pr_verify sample_primitives public_key signature_bytes (tb_bundle_hash sample_trust))"
  by (rule trust_bundle_is_closed [OF sample_bundle_verifies])

text \<open>What it takes for a capability to authorise a request under a bundle whose revoked keys are given.\<close>

definition capability_authorised ::
  "primitives \<Rightarrow> string set \<Rightarrow> runtime_trust_bundle \<Rightarrow> document \<Rightarrow> capability_bindings \<Rightarrow> peer_credentials \<Rightarrow> datetime \<Rightarrow> verified_capability \<Rightarrow> bool" where
  "capability_authorised P revoked tb capability b peer now vc \<longleftrightarrow> (\<exists>payload issuer signature_bytes acl.
      doc_get capability ''signed_payload'' = JObj payload \<and> canonical_digest P (JObj payload) = Inr (vc_payload_hash vc)
      \<and> pr_verify P (ip_public_key issuer) signature_bytes (vc_payload_hash vc)
      \<and> map_of (tb_issuers tb) (vc_issuer vc) = Some issuer \<and> ip_key_id issuer \<notin> revoked
      \<and> (\<forall>(n, p) \<in> set (tb_issuers tb). ip_key_id p = ip_key_id issuer \<longrightarrow> n = vc_issuer vc)
      \<and> strictly_before now (vc_expires_at vc) \<and> before_or_at (vc_expires_at vc) (tb_valid_until tb)
      \<and> map_of (tb_callers tb) (bd_caller_service b) = Some acl \<and> vc_issuer vc \<in> set (ac_allowed_issuers acl)
      \<and> pc_uid peer \<in> set (ac_allowed_peer_uids acl) \<and> pc_gid peer \<in> set (ac_allowed_peer_gids acl)
      \<and> bd_operation_class b \<in> set (ip_allowed_operation_classes issuer)
      \<and> (\<forall>(field, v) \<in> set (expected_bindings b). doc_get payload field = v))"

lemma capability_bindings_unique:
  assumes "verify_causal_capability P capability tb b peer now = Inr vc" "verify_causal_capability P capability tb' b' peer' now' = Inr vc'"
  shows "b' = b"
  using verified_capability_facts [OF assms(1)] verified_capability_facts [OF assms(2)] expected_bindings_inj by (metis json.inject(6))

lemma verified_capability_authorised:
  assumes "verify_runtime_trust_bundle P bundle keyring pin then_now = Inr tb"
    and "verify_causal_capability P capability tb b peer now = Inr vc"
  shows "\<exists>content revoked. doc_get bundle ''content'' = JObj content
      \<and> string_set_or_empty (doc_get content ''revoked_key_ids'') ''TRUST_BUNDLE_INVALID'' = Inr revoked
      \<and> capability_authorised P (set revoked) tb capability b peer now vc"
proof -
  from assms(1) obtain content revoked where c: "doc_get bundle ''content'' = JObj content"
      "string_set_or_empty (doc_get content ''revoked_key_ids'') ''TRUST_BUNDLE_INVALID'' = Inr revoked" and closed: "closed_bundle (set revoked) tb"
    by (rule verified_bundle)
  from assms(2) obtain payload issuer s issued_at where f: "doc_get capability ''signed_payload'' = JObj payload"
      "canonical_digest P (JObj payload) = Inr (vc_payload_hash vc)" "map_of (tb_issuers tb) (vc_issuer vc) = Some issuer"
      "pr_verify P (ip_public_key issuer) s (vc_payload_hash vc)" "strictly_before now (vc_expires_at vc)"
      "before_or_at (vc_expires_at vc) (ip_not_after issuer)" "caller_allowed tb b peer (vc_issuer vc)" "in_scope issuer b"
      "list_all (\<lambda>(field, v). doc_get payload field = v) (expected_bindings b)"
    by (rule verified_capability_facts)
  note member = map_of_SomeD [OF f(3)]
  have ok: "issuer_ok (set revoked) (tb_issued_at tb) (tb_valid_until tb) (vc_issuer vc) issuer"
    using closed member unfolding closed_bundle_def by fast
  have "distinct (map (ip_key_id \<circ> snd) (tb_issuers tb))" using closed by (simp add: closed_bundle_def)
  then have unique: "\<forall>(n, p) \<in> set (tb_issuers tb). ip_key_id p = ip_key_id issuer \<longrightarrow> n = vc_issuer vc"
    using member by (fastforce simp: distinct_map inj_on_def)
  from f(7) obtain acl where acl: "map_of (tb_callers tb) (bd_caller_service b) = Some acl" "vc_issuer vc \<in> set (ac_allowed_issuers acl)"
      "pc_uid peer \<in> set (ac_allowed_peer_uids acl)" "pc_gid peer \<in> set (ac_allowed_peer_gids acl)"
    by (auto simp: caller_allowed_def split: option.splits)
  have bound: "\<forall>(field, v) \<in> set (expected_bindings b). doc_get payload field = v" using f(9) by (simp add: list_all_iff)
  have expiry: "before_or_at (vc_expires_at vc) (tb_valid_until tb)" and key: "ip_key_id issuer \<notin> set revoked"
    using ok f(6) by (simp_all add: issuer_ok_def)
  have "capability_authorised P (set revoked) tb capability b peer now vc"
    using f(1-5,8) key unique expiry acl bound unfolding in_scope_def capability_authorised_def by blast
  then show ?thesis using c by blast
qed

text \<open>C18: A capability accepted under a verified bundle is authorised at every step: its payload hash carries a signature by
  the key of an issuer of the bundle, which no other issuer shares and which is not revoked; it is accepted within its own
  validity, which ends with that of the issuer and so of the bundle; the peer and the issuer are on the access list of the
  caller; and the payload names the caller, the endpoint and the two hashes of the request. The same capability document
  is never accepted for another request, under whatever bundle, peer or time.\<close>

theorem accepted_capability_is_authorised:
  assumes "verify_runtime_trust_bundle P bundle keyring pin then_now = Inr tb"
    and "verify_causal_capability P capability tb b peer now = Inr vc"
  shows "(\<exists>content revoked. doc_get bundle ''content'' = JObj content
      \<and> string_set_or_empty (doc_get content ''revoked_key_ids'') ''TRUST_BUNDLE_INVALID'' = Inr revoked
      \<and> capability_authorised P (set revoked) tb capability b peer now vc)
    \<and> (\<forall>tb' b' peer' now' vc'. verify_causal_capability P capability tb' b' peer' now' = Inr vc' \<longrightarrow> b' = b)"
  using verified_capability_authorised [OF assms] capability_bindings_unique [OF assms(2)] by blast

theorem accepted_capability_is_authorised_witness:
  "\<exists>vc. (\<exists>content revoked. doc_get sample_bundle ''content'' = JObj content
      \<and> string_set_or_empty (doc_get content ''revoked_key_ids'') ''TRUST_BUNDLE_INVALID'' = Inr revoked
      \<and> capability_authorised sample_primitives (set revoked) sample_trust sample_capability sample_capability_bindings sample_peer sample_now vc)"
  using sample_capability_verifies accepted_capability_is_authorised [OF sample_bundle_verifies] by blast

end
