(* ===== verification/Artifacts.thy ===== *)
theory Artifacts
  imports Authorization "HOL-Library.Sublist"
begin

text \<open>
  Files the services trust: the strict configuration documents of \<open>common/config.py\<close> with the search for embedded secrets,
  the recomputed hashes of \<open>common/artifacts.py\<close>, and the protected files of \<open>rate_budget/authorization.py\<close>. The operating system and the
  parsers of the two document formats are parameters: every look at a file may give another answer.
\<close>

section \<open>Paths\<close>

text \<open>A \<open>Path\<close> is its parts, the first of which is the root of an absolute path.\<close>

type_synonym path = "string list"

fun split_slash :: "string \<Rightarrow> string \<Rightarrow> string list" where
  "split_slash part [] = [part]"
| "split_slash part (c # cs) = (if c = CHR ''/'' then part # split_slash [] cs else split_slash (part @ [c]) cs)"

definition path_root :: "string \<Rightarrow> path" where
  "path_root s = (if take 2 s = ''//'' \<and> take 3 s \<noteq> ''///'' then [''//''] else if take 1 s = ''/'' then [''/''] else [])"

definition path_of :: "string \<Rightarrow> path" where
  "path_of s = path_root s @ filter (\<lambda>p. p \<noteq> [] \<and> p \<noteq> ''.'') (split_slash [] s)"

definition absolute_path :: "path \<Rightarrow> bool" where
  "absolute_path p \<longleftrightarrow> p \<noteq> [] \<and> hd p \<in> {''/'', ''//''}"

text \<open>\<open>a / b\<close>\<close>

definition path_join :: "path \<Rightarrow> path \<Rightarrow> path" where
  "path_join a b = (if absolute_path b then b else a @ b)"

fun collapse_parents :: "string list \<Rightarrow> string list \<Rightarrow> string list" where
  "collapse_parents kept [] = kept"
| "collapse_parents kept (p # ps) = collapse_parents (if p = ''..'' then butlast kept else kept @ [p]) ps"

text \<open>\<open>Path(os.path.abspath(p))\<close> for an absolute working directory.\<close>

definition abspath :: "path \<Rightarrow> path \<Rightarrow> path" where
  "abspath cwd p = (case path_join cwd p of [] \<Rightarrow> [] | anchor # ps \<Rightarrow> anchor # collapse_parents [] ps)"

definition path_parent :: "path \<Rightarrow> path" where
  "path_parent p = (if length p \<le> 1 then p else butlast p)"

text \<open>\<open>path.suffix\<close>: the last part from its last dot, if that is neither its first nor its last character.\<close>

definition path_suffix :: "path \<Rightarrow> string" where
  "path_suffix p = (if p = [] then [] else let name = last p; after = rev (takeWhile (\<lambda>c. c \<noteq> CHR ''.'') (rev name)) in
     if length after + 1 < length name \<and> after \<noteq> [] then CHR ''.'' # after else [])"

section \<open>The operating system\<close>

record file_metadata =
  md_mode :: int
  md_uid :: int
  md_gid :: int
  md_ino :: int
  md_size :: int
  md_mtime_ns :: int

record 's file_system =
  fs_cwd :: path
  fs_lstat :: "path \<Rightarrow> ('s, file_metadata) comp"
  fs_resolve :: "path \<Rightarrow> ('s, path) comp"
  fs_read_bytes :: "path \<Rightarrow> ('s, string) comp"
  fs_read_text :: "path \<Rightarrow> ('s, string) comp"
  fs_json_loads :: "string \<Rightarrow> json option"
  fs_yaml_load :: "string \<Rightarrow> json option"

definition s_isreg :: "file_metadata \<Rightarrow> bool" where
  "s_isreg m \<longleftrightarrow> md_mode m div 4096 mod 16 = 8"

definition s_isdir :: "file_metadata \<Rightarrow> bool" where
  "s_isdir m \<longleftrightarrow> md_mode m div 4096 mod 16 = 4"

definition s_imode :: "file_metadata \<Rightarrow> int" where
  "s_imode m = md_mode m mod 4096"

text \<open>\<open>mode & 0o022\<close>: writable for the group or for others.\<close>

definition writable_by_others :: "file_metadata \<Rightarrow> bool" where
  "writable_by_others m \<longleftrightarrow> odd (s_imode m div 2) \<or> odd (s_imode m div 16)"

fun is_os_error :: "exn \<Rightarrow> bool" where
  "is_os_error (OSError _) = True"
| "is_os_error _ = False"

text \<open>Reading a text fails with an \<open>OSError\<close> or, undecodable, with a \<open>UnicodeError\<close>, which is a \<open>ValueError\<close>.\<close>

fun is_read_error :: "exn \<Rightarrow> bool" where
  "is_read_error (OSError _) = True"
| "is_read_error (ValueError _) = True"
| "is_read_error _ = False"

fun is_content_error :: "exn \<Rightarrow> bool" where
  "is_content_error (OSError _) = True"
| "is_content_error (ConfigurationError _) = True"
| "is_content_error _ = False"

definition deny :: "string \<Rightarrow> ('s, 'a) comp" where
  "deny reason = raise (AuthorizationDenied reason)"

section \<open>Protected files\<close>

definition assert_root_owned_0444 :: "'s file_system \<Rightarrow> path \<Rightarrow> path \<Rightarrow> ('s, unit) comp" where
  "assert_root_owned_0444 F path trusted_directory =
    (let absolute_file = abspath (fs_cwd F) path; absolute_directory = abspath (fs_cwd F) trusted_directory;
         unsafe = deny ''TRUST_ROOT_FILE_UNSAFE'' in
     tryExcept is_os_error (andThen (fs_lstat F absolute_directory) (\<lambda>d. andThen (fs_lstat F absolute_file) (\<lambda>m. ret (d, m)))) (\<lambda>_. unsafe) (\<lambda>(d, m).
     if path \<noteq> absolute_file \<or> trusted_directory \<noteq> absolute_directory \<or> path_parent absolute_file \<noteq> absolute_directory then unsafe
     else andThen (fs_resolve F absolute_directory) (\<lambda>rd. if rd \<noteq> absolute_directory then unsafe
     else andThen (fs_resolve F absolute_file) (\<lambda>rf.
     if rf \<noteq> absolute_file \<or> \<not> s_isdir d \<or> md_uid d \<noteq> 0 \<or> writable_by_others d \<or> \<not> s_isreg m \<or> md_uid m \<noteq> 0 \<or> s_imode m \<noteq> 292
     then unsafe else ret ()))))"

definition load_pinned_sha256 :: "'s file_system \<Rightarrow> path \<Rightarrow> path \<Rightarrow> ('s, string) comp" where
  "load_pinned_sha256 F path trusted_directory =
    andThen (assert_root_owned_0444 F path trusted_directory) (\<lambda>_.
    tryExcept is_read_error (fs_read_text F path) (\<lambda>_. deny ''TRUST_ROOT_HASH_PIN_INVALID'') (\<lambda>text.
    let value = py_strip text in if sha256_text value then ret value else deny ''TRUST_ROOT_HASH_PIN_INVALID''))"

section \<open>Strict documents\<close>

definition load_strict_document :: "'s file_system \<Rightarrow> path \<Rightarrow> ('s, json) comp" where
  "load_strict_document F path =
    (let parsed = (\<lambda>r. case r of None \<Rightarrow> raise (ConfigurationError ''configuration cannot be parsed safely'') | Some d \<Rightarrow> ret d) in
     tryExcept is_read_error (fs_read_text F path) (\<lambda>_. raise (ConfigurationError ''configuration cannot be parsed safely'')) (\<lambda>text.
     if path_suffix path = ''.json'' then parsed (fs_json_loads F text)
     else if path_suffix path \<in> {''.yaml'', ''.yml''} then parsed (fs_yaml_load F text)
     else raise (ConfigurationError (''unsupported configuration format: '' @ path_suffix path))))"

definition ascii_lower :: "string \<Rightarrow> string" where
  "ascii_lower = map (\<lambda>c. if CHR ''A'' \<le> c \<and> c \<le> CHR ''Z'' then char_of (of_char c + 32 :: nat) else c)"

definition secret_words :: "string list" where
  "secret_words = [''apikey'', ''api_key'', ''secret'', ''password'', ''passphrase'', ''privatekey'', ''private_key'', ''accesstoken'', ''access_token'',
    ''bottoken'', ''bot_token'', ''listenkey'', ''listen_key'']"

text \<open>The search for \<open>(?:^|_)(?:word|...)$\<close> ignoring case; \<open>$\<close> also matches before a final line feed.\<close>

definition is_secret_key :: "string \<Rightarrow> bool" where
  "is_secret_key key \<longleftrightarrow> (\<exists>word \<in> set secret_words. \<exists>ending \<in> {[], [CHR 0x0A]}.
     ascii_lower key = word @ ending \<or> suffix (CHR ''_'' # word @ ending) (ascii_lower key))"

definition is_placeholder :: "string \<Rightarrow> bool" where
  "is_placeholder s \<longleftrightarrow> s = [] \<or> s = ''REQUIRED_AT_RUNTIME''
     \<or> (3 < length s \<and> take 2 s = [CHR ''$'', CHR 0x7B] \<and> last s = CHR 0x7D
         \<and> CHR ''A'' \<le> s ! 2 \<and> s ! 2 \<le> CHR ''Z''
         \<and> list_all (\<lambda>c. (CHR ''A'' \<le> c \<and> c \<le> CHR ''Z'') \<or> (CHR ''0'' \<le> c \<and> c \<le> CHR ''9'') \<or> c = CHR ''_'') (butlast (drop 2 s)))
     \<or> (2 < length s \<and> hd s = CHR ''<'' \<and> last s = CHR ''>'' \<and> list_all (\<lambda>c. c \<noteq> CHR ''>'') (butlast (tl s)))"

definition embedded_secret :: "string \<Rightarrow> json \<Rightarrow> bool" where
  "embedded_secret key child \<longleftrightarrow> is_secret_key key
     \<and> \<not> (\<exists>e \<in> {''_file'', ''_path'', ''_mount''}. suffix e (ascii_lower key))
     \<and> \<not> sublist ''public'' (ascii_lower key) \<and> \<not> sublist ''verification'' (ascii_lower key)
     \<and> (case child of JStr s \<Rightarrow> \<not> is_placeholder s | _ \<Rightarrow> False)"

fun reject_embedded_secret_values :: "json \<Rightarrow> string \<Rightarrow> unit result"
  and reject_members :: "document \<Rightarrow> string \<Rightarrow> unit result"
  and reject_elements :: "nat \<Rightarrow> json list \<Rightarrow> string \<Rightarrow> unit result" where
  "reject_embedded_secret_values (JObj d) path = reject_members d path"
| "reject_embedded_secret_values (JArr vs) path = reject_elements 0 vs path"
| "reject_embedded_secret_values _ path = Inr ()"
| "reject_members [] path = Inr ()"
| "reject_members ((key, child) # d) path =
    (let child_path = path @ ''.'' @ key in
     if embedded_secret key child then Inl (ConfigurationError (''embedded secret value rejected at '' @ child_path))
     else rbind (reject_embedded_secret_values child child_path) (\<lambda>_. reject_members d path))"
| "reject_elements i [] path = Inr ()"
| "reject_elements i (child # vs) path =
    rbind (reject_embedded_secret_values child (path @ ''['' @ show_int (int i) @ '']'')) (\<lambda>_. reject_elements (i + 1) vs path)"

text \<open>The schema validator is a parameter, the text of its errors or none.\<close>

definition validate_config :: "'s file_system \<Rightarrow> (json \<Rightarrow> string option) \<Rightarrow> path \<Rightarrow> ('s, json) comp" where
  "validate_config F schema_errors instance_path =
    andThen (load_strict_document F instance_path) (\<lambda>doc. case schema_errors doc of
       Some detail \<Rightarrow> raise (ConfigurationError detail)
     | None \<Rightarrow> andThen (lift (reject_embedded_secret_values doc ''$'')) (\<lambda>_. ret doc))"

definition load_runtime_trust_bundle ::
  "primitives \<Rightarrow> 's file_system \<Rightarrow> (json \<Rightarrow> string option) \<Rightarrow> (json \<Rightarrow> string option) \<Rightarrow> path \<Rightarrow> path \<Rightarrow> path \<Rightarrow> string \<Rightarrow> datetime
     \<Rightarrow> ('s, runtime_trust_bundle) comp" where
  "load_runtime_trust_bundle P F bundle_errors keyring_errors bundle_path keyring_path trusted_root_directory expected_keyring_hash now =
    andThen (assert_root_owned_0444 F keyring_path trusted_root_directory) (\<lambda>_.
    andThen (validate_config F bundle_errors bundle_path) (\<lambda>bundle.
    andThen (validate_config F keyring_errors keyring_path) (\<lambda>keyring.
    case (bundle, keyring) of (JObj b, JObj k) \<Rightarrow> lift (verify_runtime_trust_bundle P b k expected_keyring_hash now)
    | _ \<Rightarrow> deny ''SIGNED_POLICY_INVALID'')))"

section \<open>Artifact bindings\<close>

datatype artifact_hash_mode = RAW_BYTES | JCS_DOCUMENT | JCS_CONTENT

record artifact_binding_source =
  ab_path :: path
  ab_hash_mode :: artifact_hash_mode

definition is_within :: "path \<Rightarrow> path list \<Rightarrow> bool" where
  "is_within p roots \<longleftrightarrow> list_ex (\<lambda>r. prefix r p) roots"

type_synonym file_identity = "int \<times> int \<times> int \<times> int"

definition safe_identity :: "'s file_system \<Rightarrow> path \<Rightarrow> path list \<Rightarrow> ('s, file_identity) comp" where
  "safe_identity F path approved_roots =
    (let absolute_file = abspath (fs_cwd F) path; roots = map (abspath (fs_cwd F)) approved_roots; unsafe = deny ''ARTIFACT_FILE_UNSAFE'' in
     tryExcept is_os_error (fs_lstat F absolute_file) (\<lambda>_. unsafe) (\<lambda>m.
     if path \<noteq> absolute_file then unsafe
     else andThen (fs_resolve F absolute_file) (\<lambda>resolved.
     if resolved \<noteq> absolute_file \<or> \<not> s_isreg m \<or> \<not> is_within absolute_file roots then unsafe
     else ret (md_ino m, md_size m, md_mtime_ns m, md_mode m))))"

definition json_content :: "json \<Rightarrow> json option" where
  "json_content v = (case v of JObj d \<Rightarrow> (case doc_get d ''content'' of JObj c \<Rightarrow> Some (JObj c) | _ \<Rightarrow> None) | _ \<Rightarrow> None)"

definition document_hash :: "primitives \<Rightarrow> json \<Rightarrow> ('s, string) comp" where
  "document_hash P v = (case canonical_digest P v of Inl _ \<Rightarrow> deny ''ARTIFACT_CONTENT_INVALID'' | Inr h \<Rightarrow> ret h)"

definition artifact_hash :: "primitives \<Rightarrow> 's file_system \<Rightarrow> artifact_binding_source \<Rightarrow> ('s, string) comp" where
  "artifact_hash P F source =
    (let invalid = deny ''ARTIFACT_CONTENT_INVALID'' in
     if ab_hash_mode source = RAW_BYTES then tryExcept is_content_error (fs_read_bytes F (ab_path source)) (\<lambda>_. invalid) (\<lambda>bytes. ret (sha256_hex bytes))
     else tryExcept is_content_error (load_strict_document F (ab_path source)) (\<lambda>_. invalid) (\<lambda>doc.
       if ab_hash_mode source = JCS_CONTENT
       then (case json_content doc of None \<Rightarrow> invalid | Some content \<Rightarrow> document_hash P content)
       else document_hash P doc))"

fun check_bindings ::
  "primitives \<Rightarrow> 's file_system \<Rightarrow> (string, string) dict \<Rightarrow> (string, artifact_binding_source) dict \<Rightarrow> path list \<Rightarrow> string list
     \<Rightarrow> (string, string) dict \<Rightarrow> ('s, (string, string) dict) comp" where
  "check_bindings P F expected sources roots [] observed = ret observed"
| "check_bindings P F expected sources roots (name # names) observed =
    (let expected_hash = the (map_of expected name); source = the (map_of sources name) in
     if \<not> sha256_text expected_hash then deny ''ARTIFACT_BINDING_HASH_INVALID''
     else andThen (safe_identity F (ab_path source) roots) (\<lambda>identity_before.
       andThen (artifact_hash P F source) (\<lambda>observed_hash.
       andThen (safe_identity F (ab_path source) roots) (\<lambda>identity_after.
       if identity_before \<noteq> identity_after then deny ''ARTIFACT_FILE_CHANGED''
       else if observed_hash \<noteq> expected_hash then deny ''ARTIFACT_BINDING_MISMATCH''
       else check_bindings P F expected sources roots names (observed @ [(name, observed_hash)])))))"

definition verify_artifact_bindings ::
  "primitives \<Rightarrow> 's file_system \<Rightarrow> (string, string) dict \<Rightarrow> (string, artifact_binding_source) dict \<Rightarrow> path list
     \<Rightarrow> ('s, (string, string) dict) comp" where
  "verify_artifact_bindings P F expected sources approved_roots =
    (if approved_roots = [] \<or> fst ` set expected \<noteq> fst ` set sources then deny ''ARTIFACT_BINDING_COVERAGE_INVALID''
     else check_bindings P F expected sources approved_roots (sort (map fst expected)) [])"

fun measure_bindings ::
  "primitives \<Rightarrow> 's file_system \<Rightarrow> (string, artifact_binding_source) dict \<Rightarrow> path list \<Rightarrow> string list
     \<Rightarrow> (string, string) dict \<Rightarrow> ('s, (string, string) dict) comp" where
  "measure_bindings P F sources roots [] observed = ret observed"
| "measure_bindings P F sources roots (name # names) observed =
    (let source = the (map_of sources name) in
     andThen (safe_identity F (ab_path source) roots) (\<lambda>identity_before.
     andThen (artifact_hash P F source) (\<lambda>observed_hash.
     andThen (safe_identity F (ab_path source) roots) (\<lambda>identity_after.
     if identity_before \<noteq> identity_after then deny ''ARTIFACT_FILE_CHANGED''
     else measure_bindings P F sources roots names (observed @ [(name, observed_hash)])))))"

definition measure_artifact_bindings ::
  "primitives \<Rightarrow> 's file_system \<Rightarrow> (string, artifact_binding_source) dict \<Rightarrow> path list \<Rightarrow> ('s, (string, string) dict) comp" where
  "measure_artifact_bindings P F sources approved_roots =
    (if approved_roots = [] \<or> sources = [] then deny ''ARTIFACT_BINDING_COVERAGE_INVALID''
     else measure_bindings P F sources approved_roots (sort (map fst sources)) [])"

section \<open>No secret passes\<close>

text \<open>An entry of a document at any depth.\<close>

inductive entry_of :: "json \<Rightarrow> string \<Rightarrow> json \<Rightarrow> bool" where
  member: "(k, c) \<in> set d \<Longrightarrow> entry_of (JObj d) k c"
| in_member: "(k, c) \<in> set d \<Longrightarrow> entry_of c k' c' \<Longrightarrow> entry_of (JObj d) k' c'"
| in_element: "c \<in> set vs \<Longrightarrow> entry_of c k' c' \<Longrightarrow> entry_of (JArr vs) k' c'"

inductive_simps entry_of_object: "entry_of (JObj d) k c"
inductive_simps entry_of_array: "entry_of (JArr vs) k c"
inductive_simps entry_of_leaf: "entry_of JNull k c" "entry_of (JBool b) k c" "entry_of (JInt i) k c" "entry_of (JFloat r) k c" "entry_of (JStr t) k c"

definition holds_secret :: "json \<Rightarrow> bool" where
  "holds_secret v \<longleftrightarrow> (\<exists>k c. entry_of v k c \<and> embedded_secret k c)"

lemma holds_secret_simps:
  "holds_secret (JObj d) \<longleftrightarrow> (\<exists>(k, c) \<in> set d. embedded_secret k c \<or> holds_secret c)"
  "holds_secret (JArr vs) \<longleftrightarrow> (\<exists>c \<in> set vs. holds_secret c)"
  "\<not> holds_secret JNull" "\<not> holds_secret (JBool b)" "\<not> holds_secret (JInt i)" "\<not> holds_secret (JFloat r)" "\<not> holds_secret (JStr t)"
  by (auto simp: holds_secret_def entry_of_object entry_of_array entry_of_leaf; blast)+

lemma reject_iff:
  "reject_embedded_secret_values v path = Inr () \<longleftrightarrow> \<not> holds_secret v"
  "reject_members d path = Inr () \<longleftrightarrow> \<not> holds_secret (JObj d)"
  "reject_elements i vs path = Inr () \<longleftrightarrow> \<not> holds_secret (JArr vs)"
  by (induction v path and d path and i vs path rule: reject_embedded_secret_values_reject_members_reject_elements.induct)
     (auto simp: holds_secret_simps Let_def)

text \<open>C21: The search for secrets accepts a document exactly when no entry at any depth holds a secret: a text that is no
  placeholder under a key that names secret material and neither a location nor public or verification material.\<close>

theorem accepted_config_holds_no_secret:
  "reject_embedded_secret_values v path = Inr () \<longleftrightarrow> \<not> (\<exists>k c. entry_of v k c \<and> embedded_secret k c)"
  by (simp add: reject_iff holds_secret_def)

section \<open>Verified bindings\<close>

text \<open>A file is bound to a hash when it had that hash between two looks at it that saw the same safe file.\<close>

definition bound_file :: "primitives \<Rightarrow> 's file_system \<Rightarrow> path list \<Rightarrow> artifact_binding_source \<Rightarrow> string \<Rightarrow> bool" where
  "bound_file P F roots source h \<longleftrightarrow> (\<exists>s1 s2 s3 s4 i. safe_identity F (ab_path source) roots s1 = (Inr i, s2)
     \<and> artifact_hash P F source s2 = (Inr h, s3) \<and> safe_identity F (ab_path source) roots s3 = (Inr i, s4))"

lemma safe_identity_path:
  assumes "safe_identity F p roots s = (Inr i, s')"
  shows "abspath (fs_cwd F) p = p \<and> is_within p (map (abspath (fs_cwd F)) roots)"
  using assms
  by (auto simp: safe_identity_def Let_def tryExcept_def andThen_def deny_def raise_def ret_def split: prod.splits sum.splits if_splits)

lemma bound_file_path:
  "bound_file P F roots source h
    \<Longrightarrow> abspath (fs_cwd F) (ab_path source) = ab_path source \<and> is_within (ab_path source) (map (abspath (fs_cwd F)) roots)"
  unfolding bound_file_def by (metis safe_identity_path)

lemma check_bindings_result:
  assumes "check_bindings P F expected sources roots names observed s = (Inr r, s')"
  shows "r = observed @ map (\<lambda>n. (n, the (map_of expected n))) names
    \<and> (\<forall>n \<in> set names. bound_file P F roots (the (map_of sources n)) (the (map_of expected n)))"
  using assms
proof (induction names arbitrary: observed s)
  case (Cons n names)
  let ?source = "the (map_of sources n)" and ?h = "the (map_of expected n)"
  from Cons.prems obtain i s1 s2 s3 where step: "safe_identity F (ab_path ?source) roots s = (Inr i, s1)"
      "artifact_hash P F ?source s1 = (Inr ?h, s2)" "safe_identity F (ab_path ?source) roots s2 = (Inr i, s3)"
      and rest: "check_bindings P F expected sources roots names (observed @ [(n, ?h)]) s3 = (Inr r, s')"
    by (auto simp: Let_def deny_def raise_def split: if_splits elim!: andThen_InrE)
  from step have "bound_file P F roots ?source ?h" unfolding bound_file_def by blast
  with Cons.IH [OF rest] show ?case by simp
qed (simp add: ret_def)

lemma verified_bindings:
  assumes "verify_artifact_bindings P F expected sources roots s = (Inr observed, s')" and "dict_ok expected"
  shows "set observed = set expected \<and> sorted (map fst observed) \<and> fst ` set sources = fst ` set expected
    \<and> (\<forall>(name, h) \<in> set expected. \<exists>source. map_of sources name = Some source \<and> bound_file P F roots source h
         \<and> abspath (fs_cwd F) (ab_path source) = ab_path source \<and> is_within (ab_path source) (map (abspath (fs_cwd F)) roots))"
proof -
  from assms(1) have cover: "fst ` set expected = fst ` set sources"
      and run: "check_bindings P F expected sources roots (sort (map fst expected)) [] s = (Inr observed, s')"
    by (auto simp: verify_artifact_bindings_def deny_def raise_def split: if_splits)
  note result = check_bindings_result [OF run]
  have lookup: "the (map_of expected n) = h" if "(n, h) \<in> set expected" for n h
    using assms(2) that by (simp add: dict_ok_def)
  have "set observed = (\<lambda>n. (n, the (map_of expected n))) ` fst ` set expected" using result by simp
  also have "\<dots> = set expected" using lookup by force
  finally have "set observed = set expected" .
  moreover have "sorted (map fst observed)" using result by (simp add: comp_def)
  moreover have "\<exists>source. map_of sources n = Some source \<and> bound_file P F roots source h
         \<and> abspath (fs_cwd F) (ab_path source) = ab_path source \<and> is_within (ab_path source) (map (abspath (fs_cwd F)) roots)"
    if m: "(n, h) \<in> set expected" for n h
  proof -
    have "n \<in> fst ` set sources" using m cover by force
    then obtain source where source: "map_of sources n = Some source" by (metis not_None_eq map_of_eq_None_iff)
    have "bound_file P F roots source h" using result m source lookup [OF m] by force
    with source bound_file_path [OF this] show ?thesis by blast
  qed
  ultimately show ?thesis using cover by auto
qed

text \<open>Verified bindings cover exactly the expected names, each with its expected hash, and every file is bound to its hash:
  a regular file at a normalised path below an approved root whose identity did not change while it was read.\<close>

theorem artifact_bindings_are_exact:
  assumes "verify_artifact_bindings P F expected sources roots s = (Inr observed, s')" and "dict_ok expected"
  shows "set observed = set expected \<and> sorted (map fst observed) \<and> fst ` set sources = fst ` set expected
    \<and> (\<forall>(name, h) \<in> set expected. \<exists>source. map_of sources name = Some source \<and> bound_file P F roots source h
         \<and> abspath (fs_cwd F) (ab_path source) = ab_path source \<and> is_within (ab_path source) (map (abspath (fs_cwd F)) roots))"
  by (rule verified_bindings [OF assms])

text \<open>A file system with one regular file, for the witness.\<close>

definition sample_file_system :: "unit file_system" where
  "sample_file_system = \<lparr>fs_cwd = [''/''],
    fs_lstat = (\<lambda>p. if p = path_of ''/etc/a.json'' then ret \<lparr>md_mode = 33060, md_uid = 0, md_gid = 0, md_ino = 1, md_size = 1, md_mtime_ns = 1\<rparr> else raise (OSError ''ENOENT'')),
    fs_resolve = ret, fs_read_bytes = (\<lambda>_. ret ''x''), fs_read_text = (\<lambda>_. ret ''x''), fs_json_loads = (\<lambda>_. None), fs_yaml_load = (\<lambda>_. None)\<rparr>"

definition sample_source :: artifact_binding_source where
  "sample_source = \<lparr>ab_path = path_of ''/etc/a.json'', ab_hash_mode = RAW_BYTES\<rparr>"

lemma sample_bindings_verify:
  "verify_artifact_bindings sample_primitives sample_file_system [(''a'', sha256_hex ''x'')] [(''a'', sample_source)] [path_of ''/etc''] ()
    = (Inr [(''a'', sha256_hex ''x'')], ())"
  by (simp add: verify_artifact_bindings_def sample_file_system_def sample_source_def safe_identity_def artifact_hash_def path_of_def path_root_def
    abspath_def path_join_def absolute_path_def is_within_def s_isreg_def tryExcept_def andThen_def ret_def Let_def sha256_hex_text)

theorem artifact_bindings_are_exact_witness:
  "set [(''a'', sha256_hex ''x'')] = set [(''a'', sha256_hex ''x'')]
    \<and> (\<exists>source. map_of [(''a'', sample_source)] ''a'' = Some source
         \<and> bound_file sample_primitives sample_file_system [path_of ''/etc''] source (sha256_hex ''x''))"
  using artifact_bindings_are_exact [OF sample_bindings_verify] by (simp add: dict_ok_def)

end
