(* ===== verification/Catalog.thy ===== *)
theory Catalog
  imports Artifacts
begin

text \<open>
  \<open>rate_budget/policy.py\<close>: the signed catalog of exchange endpoints, its cost rules with their parameter tiers, and the closure of its
  source documents. Sets of texts are lists; a number in an endpoint identity is told apart from a number of another JSON type.
\<close>

section \<open>Cost rules\<close>

record cost_tier =
  ct_minimum :: int
  ct_maximum :: int
  ct_cost :: int

text \<open>The fixed cost is kept as it was read: the checks accept a Boolean where they ask for a number.\<close>

record cost_rule =
  cr_mode :: string
  cr_fixed_cost :: json
  cr_parameter_name :: "string option"
  cr_tiers :: "cost_tier list"

fun cost_tiers :: "int option \<Rightarrow> json list \<Rightarrow> cost_tier list result" where
  "cost_tiers previous_max [] = Inr []"
| "cost_tiers previous_max (item # items) =
    (let invalid = ''ENDPOINT_COST_TIERS_INVALID'' in
     rbind (as_mapping item invalid) (\<lambda>tier.
     rbind (integer_of (doc_get tier ''min_inclusive'') invalid) (\<lambda>minimum.
     rbind (integer_of (doc_get tier ''max_inclusive'') invalid) (\<lambda>maximum.
     rbind (integer_of (doc_get tier ''cost'') invalid) (\<lambda>cost.
     rbind (permit_if (0 \<le> minimum \<and> minimum \<le> maximum \<and> 0 \<le> cost) invalid) (\<lambda>_.
     rbind (permit_if (case previous_max of None \<Rightarrow> True | Some m \<Rightarrow> minimum = m + 1) invalid) (\<lambda>_.
     rbind (cost_tiers (Some maximum) items) (\<lambda>tiers.
     Inr (\<lparr>ct_minimum = minimum, ct_maximum = maximum, ct_cost = cost\<rparr> # tiers)))))))))"

definition required_text :: "json \<Rightarrow> string \<Rightarrow> string result" where
  "required_text v reason = (case v of JStr s \<Rightarrow> Inr s | _ \<Rightarrow> authorization_denied reason)"

definition as_list :: "json \<Rightarrow> string \<Rightarrow> json list result" where
  "as_list v reason = (case v of JArr vs \<Rightarrow> Inr vs | _ \<Rightarrow> authorization_denied reason)"

definition is_natural :: "json \<Rightarrow> bool" where
  "is_natural v = (case v of JInt n \<Rightarrow> 0 \<le> n | JBool _ \<Rightarrow> True | _ \<Rightarrow> False)"

text \<open>\<open>v == 0\<close>; the two floats that equal zero print as below.\<close>

definition equals_zero :: "json \<Rightarrow> bool" where
  "equals_zero v = (case v of JInt n \<Rightarrow> n = 0 | JBool b \<Rightarrow> \<not> b | JFloat r \<Rightarrow> r \<in> {''0.0'', ''-0.0''} | _ \<Rightarrow> False)"

definition rule_shape :: "string \<Rightarrow> json \<Rightarrow> json \<Rightarrow> cost_tier list \<Rightarrow> bool" where
  "rule_shape mode fixed_cost parameter_name tiers =
        (if mode = ''FIXED'' then is_natural fixed_cost \<and> parameter_name = JNull \<and> tiers = []
         else if mode = ''NOT_APPLICABLE'' then equals_zero fixed_cost \<and> parameter_name = JNull \<and> tiers = []
         else mode = ''SIGNED_PARAMETER_TIERS'' \<and> fixed_cost = JNull \<and> text_of parameter_name \<noteq> None \<and> tiers \<noteq> [])"

definition cost_rule_of :: "json \<Rightarrow> cost_rule result" where
  "cost_rule_of value =
    (let invalid = ''ENDPOINT_COST_RULE_INVALID'' in
     rbind (as_mapping value invalid) (\<lambda>raw.
     rbind (required_text (doc_get raw ''mode'') invalid) (\<lambda>mode.
     rbind (as_list (doc_get raw ''tiers'') invalid) (\<lambda>raw_tiers.
     rbind (cost_tiers None raw_tiers) (\<lambda>tiers.
     let fixed_cost = doc_get raw ''fixed_cost''; parameter_name = doc_get raw ''parameter_name'' in
     rbind (permit_if (rule_shape mode fixed_cost parameter_name tiers) invalid) (\<lambda>_.
     Inr \<lparr>cr_mode = mode, cr_fixed_cost = fixed_cost, cr_parameter_name = text_of parameter_name, cr_tiers = tiers\<rparr>))))))"

section \<open>Endpoints\<close>

record endpoint_policy =
  ep_endpoint_id :: string
  ep_authority :: string
  ep_transport :: string
  ep_method :: string
  ep_path :: string
  ep_market_stream_role :: json
  ep_control_frame_type :: json
  ep_allowed_operation_classes :: "string list"
  ep_causal_role_class_map :: "(string, string) dict"
  ep_request_weight_rule :: cost_rule
  ep_order_count_rule :: cost_rule
  ep_websocket_control_rule :: cost_rule
  ep_connection_attempt_rule :: cost_rule
  ep_parameter_policy :: string
  ep_allowed_parameter_names :: "string list"
  ep_required_parameter_names :: "string list"
  ep_forbidden_parameter_names :: "string list"
  ep_request_schema_sha256 :: string
  ep_contract_payload :: document
  ep_contract_hash :: string

type_synonym endpoint_key = "string \<times> string"

record runtime_endpoint_catalog =
  ca_catalog_id :: string
  ca_catalog_hash :: string
  ca_checked_at :: datetime
  ca_valid_until :: datetime
  ca_endpoints :: "(endpoint_key, endpoint_policy) dict"

definition strings_of :: "bool \<Rightarrow> json \<Rightarrow> string \<Rightarrow> string list result" where
  "strings_of allow_empty = distinct_values text_of allow_empty"

text \<open>A causal map: at least one role, each with an allowed class.\<close>

definition causal_map_of :: "document \<Rightarrow> string list \<Rightarrow> (string, string) dict result" where
  "causal_map_of raw allowed_classes =
    (if raw \<noteq> [] \<and> list_all (\<lambda>(k, v). \<exists>c \<in> set allowed_classes. v = JStr c) raw
     then Inr (map (\<lambda>(k, v). (k, the (text_of v))) raw) else authorization_denied ''ENDPOINT_CAUSAL_MAP_INVALID'')"

definition endpoint_policy_of :: "primitives \<Rightarrow> string set \<Rightarrow> string \<Rightarrow> document \<Rightarrow> (endpoint_policy \<times> string list) result" where
  "endpoint_policy_of P source_hashes expected_schema_hash contract =
    (let invalid = ''ENDPOINT_CATALOG_INVALID'' in
     rbind (strings_of False (doc_get contract ''endpoint_authorities'') invalid) (\<lambda>authorities.
     rbind (required_text (doc_get contract ''endpoint_id'') invalid) (\<lambda>endpoint_id.
     rbind (required_text (doc_get contract ''transport'') invalid) (\<lambda>transport.
     rbind (required_text (doc_get contract ''method'') invalid) (\<lambda>method.
     rbind (required_text (doc_get contract ''path'') invalid) (\<lambda>path.
     rbind (in_texts (doc_get contract ''source_document_sha256'') source_hashes) (\<lambda>known.
     rbind (permit_if (known \<and> doc_get contract ''request_schema_sha256'' = JStr expected_schema_hash) invalid) (\<lambda>_.
     rbind (strings_of False (doc_get contract ''allowed_operation_classes'') invalid) (\<lambda>allowed_classes.
     rbind (as_mapping (doc_get contract ''causal_role_class_map'') invalid) (\<lambda>raw_map.
     rbind (causal_map_of raw_map allowed_classes) (\<lambda>causal_map.
     rbind (strings_of True (doc_get contract ''allowed_parameter_names'') invalid) (\<lambda>allowed.
     rbind (strings_of True (doc_get contract ''required_parameter_names'') invalid) (\<lambda>required.
     rbind (strings_of True (doc_get contract ''forbidden_parameter_names'') invalid) (\<lambda>forbidden.
     rbind (permit_if (set required \<subseteq> set allowed \<and> set allowed \<inter> set forbidden = {}) ''ENDPOINT_PARAMETER_POLICY_INVALID'') (\<lambda>_.
     rbind (cost_rule_of (doc_get contract ''request_weight_rule'')) (\<lambda>weight.
     rbind (cost_rule_of (doc_get contract ''order_count_rule'')) (\<lambda>orders.
     rbind (cost_rule_of (doc_get contract ''websocket_control_rule'')) (\<lambda>control.
     rbind (cost_rule_of (doc_get contract ''connection_attempt_rule'')) (\<lambda>attempts.
     rbind (canonical_digest P (JObj contract)) (\<lambda>contract_hash.
     Inr (\<lparr>ep_endpoint_id = endpoint_id, ep_authority = '''', ep_transport = transport, ep_method = method, ep_path = path,
       ep_market_stream_role = doc_get contract ''market_stream_role'', ep_control_frame_type = doc_get contract ''control_frame_type'',
       ep_allowed_operation_classes = allowed_classes, ep_causal_role_class_map = causal_map, ep_request_weight_rule = weight,
       ep_order_count_rule = orders, ep_websocket_control_rule = control, ep_connection_attempt_rule = attempts,
       ep_parameter_policy = py_str (doc_get contract ''parameter_policy''), ep_allowed_parameter_names = allowed,
       ep_required_parameter_names = required, ep_forbidden_parameter_names = forbidden, ep_request_schema_sha256 = expected_schema_hash,
       ep_contract_payload = contract, ep_contract_hash = contract_hash\<rparr>, authorities)))))))))))))))))))))"

definition hashable :: "json \<Rightarrow> bool" where
  "hashable v = (case v of JArr _ \<Rightarrow> False | JObj _ \<Rightarrow> False | _ \<Rightarrow> True)"

definition endpoint_identity :: "endpoint_policy \<Rightarrow> string \<times> string \<times> string \<times> string \<times> json \<times> json" where
  "endpoint_identity p = (ep_authority p, ep_transport p, ep_method p, ep_path p, ep_market_stream_role p, ep_control_frame_type p)"

text \<open>The identities seen so far are those of the endpoints added so far.\<close>

fun add_authorities ::
  "endpoint_policy \<Rightarrow> string list \<Rightarrow> (endpoint_key, endpoint_policy) dict \<Rightarrow> (endpoint_key, endpoint_policy) dict result" where
  "add_authorities policy [] endpoints = Inr endpoints"
| "add_authorities policy (authority # authorities) endpoints =
    (let p = policy\<lparr>ep_authority := authority\<rparr>; key = (authority, ep_endpoint_id policy) in
     rbind (require (hashable (ep_market_stream_role p) \<and> hashable (ep_control_frame_type p)) (TypeError ''unhashable type'')) (\<lambda>_.
     rbind (permit_if (endpoint_identity p \<notin> endpoint_identity ` snd ` set endpoints \<and> map_of endpoints key = None) ''ENDPOINT_IDENTITY_DUPLICATE'') (\<lambda>_.
     add_authorities policy authorities (endpoints @ [(key, p)]))))"

fun add_contracts ::
  "primitives \<Rightarrow> string set \<Rightarrow> string \<Rightarrow> json list \<Rightarrow> (endpoint_key, endpoint_policy) dict \<Rightarrow> (endpoint_key, endpoint_policy) dict result" where
  "add_contracts P source_hashes schema_hash [] endpoints = Inr endpoints"
| "add_contracts P source_hashes schema_hash (item # items) endpoints =
    rbind (as_mapping item ''ENDPOINT_CATALOG_INVALID'') (\<lambda>contract.
    rbind (endpoint_policy_of P source_hashes schema_hash contract) (\<lambda>(policy, authorities).
    rbind (add_authorities policy authorities endpoints) (\<lambda>endpoints'.
    add_contracts P source_hashes schema_hash items endpoints')))"

section \<open>The catalog\<close>

text \<open>The source documents: paths and hashes are pairwise distinct.\<close>

fun catalog_sources :: "json list \<Rightarrow> (string, string) dict \<Rightarrow> (string, string) dict result" where
  "catalog_sources [] expected = Inr expected"
| "catalog_sources (item # items) expected =
    (let invalid = ''ENDPOINT_SOURCE_INVALID'' in
     rbind (as_mapping item invalid) (\<lambda>source.
     rbind (required_text (doc_get source ''artifact_path'') invalid) (\<lambda>relative.
     rbind (required_text (doc_get source ''sha256'') invalid) (\<lambda>expected_hash.
     rbind (permit_if (map_of expected relative = None \<and> expected_hash \<notin> snd ` set expected) invalid) (\<lambda>_.
     catalog_sources items (expected @ [(relative, expected_hash)]))))))"

definition source_files :: "path \<Rightarrow> (string, string) dict \<Rightarrow> (string, artifact_binding_source) dict" where
  "source_files source_artifact_root expected =
    map (\<lambda>(relative, _). (relative, \<lparr>ab_path = path_join source_artifact_root (path_of relative), ab_hash_mode = RAW_BYTES\<rparr>)) expected"

definition non_empty_list :: "json \<Rightarrow> string \<Rightarrow> json list result" where
  "non_empty_list v reason = rbind (as_list v reason) (\<lambda>vs. if vs = [] then authorization_denied reason else Inr vs)"

fun is_denied :: "exn \<Rightarrow> bool" where
  "is_denied (AuthorizationDenied _) = True"
| "is_denied _ = False"

definition verify_sources :: "primitives \<Rightarrow> 's file_system \<Rightarrow> path \<Rightarrow> (string, string) dict \<Rightarrow> ('s, unit) comp" where
  "verify_sources P F source_artifact_root expected =
    tryExcept is_denied (verify_artifact_bindings P F expected (source_files source_artifact_root expected) [source_artifact_root])
      (\<lambda>e. deny (if e = AuthorizationDenied ''ARTIFACT_BINDING_MISMATCH'' then ''ENDPOINT_SOURCE_HASH_MISMATCH'' else ''ENDPOINT_SOURCE_INVALID''))
      (\<lambda>_. ret ())"

definition catalog_endpoints ::
  "primitives \<Rightarrow> document \<Rightarrow> string \<Rightarrow> string set \<Rightarrow> (string \<times> (endpoint_key, endpoint_policy) dict) result" where
  "catalog_endpoints P content schema_hash source_hashes =
    rbind (non_empty_list (doc_get content ''endpoint_contracts'') ''ENDPOINT_CATALOG_INVALID'') (\<lambda>contracts.
    rbind (add_contracts P source_hashes schema_hash contracts []) (\<lambda>endpoints.
    rbind (as_mapping (doc_get content ''bootstrap'') ''ENDPOINT_BOOTSTRAP_INVALID'') (\<lambda>bootstrap.
    rbind (strings_of False (doc_get bootstrap ''allowed_endpoint_ids'') ''ENDPOINT_BOOTSTRAP_INVALID'') (\<lambda>bootstrap_ids.
    rbind (permit_if (set bootstrap_ids \<subseteq> (snd \<circ> fst) ` set endpoints) ''ENDPOINT_BOOTSTRAP_INVALID'') (\<lambda>_.
    rbind (required_text (doc_get content ''catalog_id'') ''ENDPOINT_CATALOG_INVALID'') (\<lambda>catalog_id.
    rbind (permit_if (doc_get content ''unknown_endpoint_policy'' = JStr ''DENY'') ''ENDPOINT_CATALOG_INVALID'') (\<lambda>_.
    Inr (catalog_id, endpoints))))))))"

definition verify_endpoint_catalog ::
  "primitives \<Rightarrow> 's file_system \<Rightarrow> document \<Rightarrow> document \<Rightarrow> string \<Rightarrow> path \<Rightarrow> path \<Rightarrow> datetime \<Rightarrow> ('s, runtime_endpoint_catalog) comp" where
  "verify_endpoint_catalog P F document keyring expected_keyring_hash request_schema_path source_artifact_root now =
    andThen (lift (verify_signed_config_document P document keyring expected_keyring_hash ''catalog_hash'' ''catalog_status'' now ''SIGNED_RUNTIME'')) (\<lambda>verified.
    let content = vs_content verified in
    andThen (lift (parse_time P (doc_get content ''checked_at'') ''ENDPOINT_CATALOG_TIME_INVALID'')) (\<lambda>checked_at.
    andThen (lift (parse_time P (doc_get content ''valid_until'') ''ENDPOINT_CATALOG_TIME_INVALID'')) (\<lambda>valid_until.
    andThen (lift (permit_if (before_or_at checked_at (vs_signed_at verified) \<and> before_or_at (vs_signed_at verified) now
       \<and> strictly_before now valid_until) ''ENDPOINT_CATALOG_EXPIRED'')) (\<lambda>_.
    andThen (fs_read_bytes F request_schema_path) (\<lambda>schema_bytes.
    andThen (lift (rbind (non_empty_list (doc_get content ''source_documents'') ''ENDPOINT_SOURCE_INVALID'') (\<lambda>items. catalog_sources items []))) (\<lambda>sources.
    andThen (verify_sources P F source_artifact_root sources) (\<lambda>_.
    andThen (lift (catalog_endpoints P content (sha256_hex schema_bytes) (snd ` set sources))) (\<lambda>(catalog_id, endpoints).
    ret \<lparr>ca_catalog_id = catalog_id, ca_catalog_hash = vs_content_hash verified, ca_checked_at = checked_at, ca_valid_until = valid_until,
      ca_endpoints = endpoints\<rparr>))))))))"

definition load_runtime_endpoint_catalog ::
  "primitives \<Rightarrow> 's file_system \<Rightarrow> (json \<Rightarrow> string option) \<Rightarrow> (json \<Rightarrow> string option) \<Rightarrow> path \<Rightarrow> path \<Rightarrow> path \<Rightarrow> string \<Rightarrow> path \<Rightarrow> path
     \<Rightarrow> datetime \<Rightarrow> ('s, runtime_endpoint_catalog) comp" where
  "load_runtime_endpoint_catalog P F catalog_errors keyring_errors catalog_path keyring_path trusted_root_directory expected_keyring_hash
     request_schema_path source_artifact_root now =
    andThen (assert_root_owned_0444 F keyring_path trusted_root_directory) (\<lambda>_.
    andThen (validate_config F catalog_errors catalog_path) (\<lambda>catalog.
    andThen (validate_config F keyring_errors keyring_path) (\<lambda>keyring.
    case (catalog, keyring) of (JObj c, JObj k) \<Rightarrow>
        verify_endpoint_catalog P F c k expected_keyring_hash request_schema_path source_artifact_root now
    | _ \<Rightarrow> deny ''ENDPOINT_CATALOG_INVALID'')))"

section \<open>Tiers\<close>

fun contiguous :: "cost_tier list \<Rightarrow> bool" where
  "contiguous [] \<longleftrightarrow> True"
| "contiguous [t] \<longleftrightarrow> 0 \<le> ct_minimum t \<and> ct_minimum t \<le> ct_maximum t \<and> 0 \<le> ct_cost t"
| "contiguous (t # u # ts) \<longleftrightarrow> 0 \<le> ct_minimum t \<and> ct_minimum t \<le> ct_maximum t \<and> 0 \<le> ct_cost t \<and> ct_minimum u = ct_maximum t + 1 \<and> contiguous (u # ts)"

lemma integer_of_eq_Inr [simp]: "integer_of v reason = Inr n \<longleftrightarrow> v = JInt n"
  by (cases v) (auto simp: integer_of_def)

lemma cost_tiers_contiguous:
  "cost_tiers previous_max items = Inr tiers
    \<Longrightarrow> contiguous tiers \<and> (\<forall>m. previous_max = Some m \<longrightarrow> tiers \<noteq> [] \<longrightarrow> ct_minimum (hd tiers) = m + 1)"
proof (induction previous_max items arbitrary: tiers rule: cost_tiers.induct)
  case (2 previous_max item items)
  from "2.prems" obtain t ts where t: "tiers = t # ts" "cost_tiers (Some (ct_maximum t)) items = Inr ts"
      "0 \<le> ct_minimum t" "ct_minimum t \<le> ct_maximum t" "0 \<le> ct_cost t" "\<forall>m. previous_max = Some m \<longrightarrow> ct_minimum t = m + 1"
    by (auto simp: Let_def split: option.splits)
  moreover have "contiguous ts \<and> (ts \<noteq> [] \<longrightarrow> ct_minimum (hd ts) = ct_maximum t + 1)"
    using "2.IH" "2.prems" t(1,2) by (auto simp: Let_def)
  ultimately show ?case by (cases ts) auto
qed simp

definition in_tier :: "int \<Rightarrow> cost_tier \<Rightarrow> bool" where
  "in_tier v t \<longleftrightarrow> ct_minimum t \<le> v \<and> v \<le> ct_maximum t"

lemma contiguous_ordered: "contiguous ts \<Longrightarrow> i < j \<Longrightarrow> j < length ts \<Longrightarrow> ct_maximum (ts ! i) < ct_minimum (ts ! j)"
proof (induction ts arbitrary: i j rule: contiguous.induct)
  case (3 t u ts)
  then obtain j' where j: "j = Suc j'" by (cases j) auto
  show ?case
  proof (cases i)
    case 0
    show ?thesis
    proof (cases j')
      case (Suc k)
      have "ct_maximum ((u # ts) ! 0) < ct_minimum ((u # ts) ! j')" using 3 j Suc by (intro "3.IH") simp_all
      moreover have "ct_minimum u \<le> ct_maximum u" using "3.prems"(1) by (cases ts) simp_all
      ultimately show ?thesis using "3.prems"(1) 0 j by simp
    qed (use 3 0 j in simp)
  next
    case (Suc i')
    with 3 j "3.IH" [of i' j'] show ?thesis by simp
  qed
qed simp_all

lemma contiguous_covers:
  "contiguous ts \<Longrightarrow> ts \<noteq> [] \<Longrightarrow> ct_minimum (hd ts) \<le> v \<Longrightarrow> v \<le> ct_maximum (last ts) \<Longrightarrow> \<exists>t \<in> set ts. in_tier v t"
proof (induction ts rule: contiguous.induct)
  case (3 t u ts)
  then show ?case by (cases "v \<le> ct_maximum t") (auto simp: in_tier_def)
qed (auto simp: in_tier_def)

lemma contiguous_tier:
  assumes "contiguous ts" "ts \<noteq> []" "ct_minimum (hd ts) \<le> v" "v \<le> ct_maximum (last ts)"
  shows "\<exists>!i. i < length ts \<and> in_tier v (ts ! i)"
proof -
  from contiguous_covers [OF assms] obtain i where i: "i < length ts" "in_tier v (ts ! i)" by (auto simp: in_set_conv_nth)
  have "j = i" if "j < length ts" "in_tier v (ts ! j)" for j
    using contiguous_ordered [OF assms(1), of i j] contiguous_ordered [OF assms(1), of j i] that i
    by (cases i j rule: linorder_cases) (auto simp: in_tier_def)
  with i show ?thesis by blast
qed

lemma cost_rule_tiers: "cost_rule_of value = Inr rule \<Longrightarrow> contiguous (cr_tiers rule)"
  using cost_tiers_contiguous by (auto simp: cost_rule_of_def Let_def)

lemma cost_rule_shape: "cost_rule_of value = Inr rule \<Longrightarrow> \<exists>fixed_cost parameter_name. rule_shape (cr_mode rule) fixed_cost parameter_name (cr_tiers rule)"
  by (auto simp: cost_rule_of_def Let_def; blast)

text \<open>The tiers of an accepted rule price every value between their first and their last bound exactly once, at a cost that
  is not negative, and only a rule of parameter tiers has any.\<close>

theorem tiers_price_every_value_once:
  assumes "cost_rule_of value = Inr rule" and "cr_mode rule = ''SIGNED_PARAMETER_TIERS''"
    and "ct_minimum (hd (cr_tiers rule)) \<le> v" and "v \<le> ct_maximum (last (cr_tiers rule))"
  shows "\<exists>!i. i < length (cr_tiers rule) \<and> in_tier v (cr_tiers rule ! i)"
proof -
  have "cr_tiers rule \<noteq> []" using cost_rule_shape [OF assms(1)] assms(2) by (simp add: rule_shape_def)
  with contiguous_tier [OF cost_rule_tiers [OF assms(1)]] assms(3,4) show ?thesis by blast
qed

definition sample_rule :: json where
  "sample_rule = JObj [(''mode'', JStr ''SIGNED_PARAMETER_TIERS''), (''fixed_cost'', JNull), (''parameter_name'', JStr ''limit''),
    (''tiers'', JArr [JObj [(''min_inclusive'', JInt 1), (''max_inclusive'', JInt 100), (''cost'', JInt 2)],
       JObj [(''min_inclusive'', JInt 101), (''max_inclusive'', JInt 500), (''cost'', JInt 5)]])]"

lemma sample_rule_accepted:
  "cost_rule_of sample_rule = Inr \<lparr>cr_mode = ''SIGNED_PARAMETER_TIERS'', cr_fixed_cost = JNull, cr_parameter_name = Some ''limit'',
     cr_tiers = [\<lparr>ct_minimum = 1, ct_maximum = 100, ct_cost = 2\<rparr>, \<lparr>ct_minimum = 101, ct_maximum = 500, ct_cost = 5\<rparr>]\<rparr>"
  by (simp add: sample_rule_def cost_rule_of_def rule_shape_def as_mapping_def required_text_def as_list_def doc_get_def integer_of_def permit_if_def text_of_def)

theorem tiers_price_every_value_once_witness:
  "\<exists>rule. cost_rule_of sample_rule = Inr rule \<and> (\<exists>!i. i < length (cr_tiers rule) \<and> in_tier 250 (cr_tiers rule ! i))"
  using tiers_price_every_value_once [OF sample_rule_accepted, of 250] sample_rule_accepted by simp

section \<open>Accepted catalogs\<close>

text \<open>An endpoint under the key it is looked up with: the parameters and classes it allows agree with each other.\<close>

definition endpoint_ok :: "string \<Rightarrow> endpoint_key \<Rightarrow> endpoint_policy \<Rightarrow> bool" where
  "endpoint_ok schema_hash key p \<longleftrightarrow> key = (ep_authority p, ep_endpoint_id p) \<and> ep_request_schema_sha256 p = schema_hash
     \<and> set (ep_required_parameter_names p) \<subseteq> set (ep_allowed_parameter_names p)
     \<and> set (ep_allowed_parameter_names p) \<inter> set (ep_forbidden_parameter_names p) = {}
     \<and> ep_causal_role_class_map p \<noteq> [] \<and> snd ` set (ep_causal_role_class_map p) \<subseteq> set (ep_allowed_operation_classes p)
     \<and> (\<forall>r \<in> {ep_request_weight_rule p, ep_order_count_rule p, ep_websocket_control_rule p, ep_connection_attempt_rule p}. contiguous (cr_tiers r))"

definition endpoints_ok :: "string \<Rightarrow> (endpoint_key, endpoint_policy) dict \<Rightarrow> bool" where
  "endpoints_ok schema_hash es \<longleftrightarrow> dict_ok es \<and> distinct (map (endpoint_identity \<circ> snd) es) \<and> (\<forall>(k, p) \<in> set es. endpoint_ok schema_hash k p)"

lemma causal_map_classes:
  "causal_map_of raw classes = Inr cm \<Longrightarrow> cm \<noteq> [] \<and> snd ` set cm \<subseteq> set classes"
  by (fastforce simp: causal_map_of_def list_all_iff text_of_def split: if_splits)

lemma endpoint_policy_of_ok:
  assumes "endpoint_policy_of P hs h contract = Inr (p, authorities)"
  shows "endpoint_ok h (authority, ep_endpoint_id p) (p\<lparr>ep_authority := authority\<rparr>)"
proof -
  from assms have "ep_request_schema_sha256 p = h" "set (ep_required_parameter_names p) \<subseteq> set (ep_allowed_parameter_names p)"
      "set (ep_allowed_parameter_names p) \<inter> set (ep_forbidden_parameter_names p) = {}"
      "\<exists>raw. causal_map_of raw (ep_allowed_operation_classes p) = Inr (ep_causal_role_class_map p)"
      "\<exists>v. cost_rule_of v = Inr (ep_request_weight_rule p)" "\<exists>v. cost_rule_of v = Inr (ep_order_count_rule p)"
      "\<exists>v. cost_rule_of v = Inr (ep_websocket_control_rule p)" "\<exists>v. cost_rule_of v = Inr (ep_connection_attempt_rule p)"
    by (auto simp: endpoint_policy_of_def Let_def)
  with causal_map_classes cost_rule_tiers show ?thesis by (simp add: endpoint_ok_def) blast
qed

lemma add_authorities_ok:
  "add_authorities p authorities es = Inr es' \<Longrightarrow> endpoints_ok h es
    \<Longrightarrow> (\<And>a. endpoint_ok h (a, ep_endpoint_id p) (p\<lparr>ep_authority := a\<rparr>)) \<Longrightarrow> endpoints_ok h es'"
proof (induction p authorities es rule: add_authorities.induct)
  case (2 p a authorities es)
  let ?p = "p\<lparr>ep_authority := a\<rparr>"
  from "2.prems"(1) have new: "endpoint_identity ?p \<notin> endpoint_identity ` snd ` set es" "map_of es (a, ep_endpoint_id p) = None"
      and hash: "hashable (ep_market_stream_role ?p) \<and> hashable (ep_control_frame_type ?p)"
      and rest: "add_authorities p authorities (es @ [((a, ep_endpoint_id p), ?p)]) = Inr es'"
    by (auto simp: Let_def)
  have "endpoints_ok h (es @ [((a, ep_endpoint_id p), ?p)])"
    using "2.prems"(2,3) new by (simp add: endpoints_ok_def dict_ok_def map_of_eq_None_iff image_image)
  with "2.IH" rest new hash "2.prems"(3) show ?case by simp
qed simp

lemma add_contracts_ok:
  "add_contracts P hs h items es = Inr es' \<Longrightarrow> endpoints_ok h es \<Longrightarrow> endpoints_ok h es'"
proof (induction items arbitrary: es)
  case (Cons item items)
  from Cons.prems(1) obtain contract p authorities es1 where "endpoint_policy_of P hs h contract = Inr (p, authorities)"
      "add_authorities p authorities es = Inr es1" "add_contracts P hs h items es1 = Inr es'"
    by (auto split: prod.splits)
  with Cons add_authorities_ok endpoint_policy_of_ok show ?case by metis
qed simp

lemma verified_document:
  assumes "verify_signed_config_document P document keyring pin hash_field status_field now status = Inr v"
  shows "doc_get document ''content'' = JObj (vs_content v) \<and> canonical_digest P (JObj (vs_content v)) = Inr (vs_content_hash v)
    \<and> (\<exists>key_id public_key signature_bytes. trusted_config_key P keyring pin key_id (vs_signed_at v) (as_utc now) public_key
         \<and> pr_verify P public_key signature_bytes (vs_content_hash v))"
  using assms verify_signature_trusted(1) by (fastforce simp: verify_signed_config_document_def)

lemma catalog_sources_grow:
  "catalog_sources items expected = Inr sources \<Longrightarrow> dict_ok expected \<Longrightarrow> dict_ok sources \<and> length sources = length expected + length items"
  by (induction items arbitrary: expected) (fastforce simp: Let_def dict_ok_def map_of_eq_None_iff)+

lemma catalog_sources_bound:
  assumes "rbind (non_empty_list v reason) (\<lambda>items. catalog_sources items []) = Inr sources"
    and "verify_sources P F artifact_root sources s1 = (Inr (), s2)"
  shows "sources \<noteq> [] \<and> (\<forall>(relative, h) \<in> set sources. bound_file P F [artifact_root]
          \<lparr>ab_path = path_join artifact_root (path_of relative), ab_hash_mode = RAW_BYTES\<rparr> h)"
proof -
  from assms(1) obtain items where items: "items \<noteq> []" "catalog_sources items [] = Inr sources"
    by (auto simp: non_empty_list_def split: if_splits)
  have ok: "dict_ok sources" "sources \<noteq> []" using catalog_sources_grow [OF items(2)] items(1) by auto
  from assms(2) obtain observed s3 where "verify_artifact_bindings P F sources (source_files artifact_root sources) [artifact_root] s1 = (Inr observed, s3)"
    by (auto simp: verify_sources_def tryExcept_def deny_def raise_def split: prod.splits sum.splits if_splits)
  note exact = verified_bindings [OF this ok(1)]
  have "source = \<lparr>ab_path = path_join artifact_root (path_of relative), ab_hash_mode = RAW_BYTES\<rparr>"
    if "map_of (source_files artifact_root sources) relative = Some source" for relative source
    using map_of_SomeD [OF that] by (auto simp: source_files_def)
  with exact ok(2) show ?thesis by fast
qed


definition sample_fixed_rule :: "string \<Rightarrow> json" where
  "sample_fixed_rule mode = JObj [(''mode'', JStr mode), (''fixed_cost'', JInt 0), (''parameter_name'', JNull), (''tiers'', JArr [])]"

definition sample_contract :: document where
  "sample_contract = [(''endpoint_id'', JStr ''depth''), (''endpoint_authorities'', JArr [JStr ''FAPI'']), (''transport'', JStr ''REST''),
    (''method'', JStr ''GET''), (''path'', JStr ''/fapi/v1/depth''), (''source_document_sha256'', JStr (sha256_hex ''x'')),
    (''request_schema_sha256'', JStr (sha256_hex ''x'')), (''allowed_operation_classes'', JArr [JStr ''READ'']),
    (''causal_role_class_map'', JObj [(''MARKET_DATA_READ'', JStr ''READ'')]), (''allowed_parameter_names'', JArr [JStr ''limit'']),
    (''required_parameter_names'', JArr []), (''forbidden_parameter_names'', JArr []), (''request_weight_rule'', sample_rule),
    (''order_count_rule'', sample_fixed_rule ''NOT_APPLICABLE''), (''websocket_control_rule'', sample_fixed_rule ''NOT_APPLICABLE''),
    (''connection_attempt_rule'', sample_fixed_rule ''FIXED''), (''parameter_policy'', JStr ''CLOSED'')]"

definition sample_catalog_content :: document where
  "sample_catalog_content = [(''catalog_status'', JStr ''SIGNED_RUNTIME''), (''catalog_id'', JStr ''catalog-1''), (''checked_at'', JStr ''early''),
    (''valid_until'', JStr ''late''), (''source_documents'', JArr [JObj [(''artifact_path'', JStr ''a.json''), (''sha256'', JStr (sha256_hex ''x''))]]),
    (''endpoint_contracts'', JArr [JObj sample_contract]), (''bootstrap'', JObj [(''allowed_endpoint_ids'', JArr [JStr ''depth''])]),
    (''unknown_endpoint_policy'', JStr ''DENY'')]"

definition sample_catalog :: document where
  "sample_catalog = [(''content'', JObj sample_catalog_content), (''catalog_hash'', JStr (sample_digest sample_catalog_content)),
    (''signature'', sample_signature ''root'')]"

lemma sample_catalog_signed:
  "verify_signed_config_document sample_primitives sample_catalog sample_keyring sample_pin ''catalog_hash'' ''catalog_status'' sample_now ''SIGNED_RUNTIME''
    = Inr \<lparr>vs_content = sample_catalog_content, vs_content_hash = sample_digest sample_catalog_content, vs_signed_at = \<lparr>dt_instant = 0, dt_utcoffset = Some 0\<rparr>\<rparr>"
  by (simp add: verify_signed_config_document_def sample_catalog_def sample_keyring_def sample_pin_def sample_now_def sample_keyring_content_def
    sample_catalog_content_def sample_signature_def sample_primitives_def sample_simps)

lemma sample_fixed_rules:
  "\<exists>r. cost_rule_of (sample_fixed_rule ''FIXED'') = Inr r" "\<exists>r. cost_rule_of (sample_fixed_rule ''NOT_APPLICABLE'') = Inr r"
  by (simp_all add: sample_fixed_rule_def cost_rule_of_def rule_shape_def as_mapping_def required_text_def as_list_def doc_get_def
    is_natural_def equals_zero_def permit_if_def)

lemma sample_endpoints:
  "\<exists>es. catalog_endpoints sample_primitives sample_catalog_content (sha256_hex ''x'') {sha256_hex ''x''} = Inr (''catalog-1'', es)"
  using sample_fixed_rules
  by (auto simp: catalog_endpoints_def sample_catalog_content_def sample_contract_def endpoint_policy_of_def sample_rule_accepted sample_canonical_digest
    non_empty_list_def as_list_def strings_of_def distinct_values_def text_of_def required_text_def in_texts_def as_mapping_def doc_get_def permit_if_def
    causal_map_of_def hashable_def Let_def)

lemma sample_sources_verify:
  "verify_sources sample_primitives sample_file_system (path_of ''/etc'') [(''a.json'', sha256_hex ''x'')] () = (Inr (), ())"
  by (simp add: verify_sources_def source_files_def verify_artifact_bindings_def sample_file_system_def safe_identity_def artifact_hash_def path_of_def path_root_def
    abspath_def path_join_def absolute_path_def is_within_def s_isreg_def tryExcept_def andThen_def ret_def Let_def sha256_hex_text)

lemma sample_catalog_verifies:
  "\<exists>c. verify_endpoint_catalog sample_primitives sample_file_system sample_catalog sample_keyring sample_pin (path_of ''/etc/a.json'') (path_of ''/etc'') sample_now ()
    = (Inr c, ())"
proof -
  have times: "parse_time sample_primitives (doc_get sample_catalog_content ''checked_at'') r = Inr \<lparr>dt_instant = 0, dt_utcoffset = Some 0\<rparr>"
    "parse_time sample_primitives (doc_get sample_catalog_content ''valid_until'') r = Inr \<lparr>dt_instant = 9, dt_utcoffset = Some 0\<rparr>" for r
    by (simp_all add: sample_catalog_content_def sample_primitives_def sample_simps)
  have sources: "rbind (non_empty_list (doc_get sample_catalog_content ''source_documents'') ''ENDPOINT_SOURCE_INVALID'') (\<lambda>items. catalog_sources items [])
      = Inr [(''a.json'', sha256_hex ''x'')]"
    by (simp add: sample_catalog_content_def doc_get_def non_empty_list_def as_list_def as_mapping_def required_text_def permit_if_def Let_def)
  have read: "fs_read_bytes sample_file_system p = ret ''x''" for p by (simp add: sample_file_system_def)
  have now: "dt_instant sample_now = 5" by (simp add: sample_now_def)
  obtain es where es: "catalog_endpoints sample_primitives sample_catalog_content (sha256_hex ''x'') {sha256_hex ''x''} = Inr (''catalog-1'', es)"
    using sample_endpoints by blast
  show ?thesis
    by (simp add: verify_endpoint_catalog_def sample_catalog_signed times sources read sample_sources_verify es now permit_if_def andThen_def lift_def ret_def)
qed


end
