(* ===== verification/Permit.thy ===== *)
theory Permit
  imports Digest Clock
begin

text \<open>
  \<open>rate_budget/permit.py\<close> with the models of \<open>contracts/models.py\<close> it reads and returns: the state machine of a permit, which
  is reserved once and consumed at most once. Times are compared by instant, as \<open>astimezone(UTC)\<close> makes them.
\<close>

section \<open>Records\<close>

datatype permit_status = RESERVED | CONSUMED | EXPIRED

record permit_record =
  pe_permit_id :: string
  pe_canonical_request_hash :: string
  pe_parameter_hash :: string
  pe_wire_bytes_hash :: string
  pe_operation_facts_hash :: string
  pe_capability_payload_hash :: string
  pe_gateway_request_document_hash :: string
  pe_fencing_epoch :: int
  pe_expires_at :: datetime
  pe_gateway_connection_id :: "string option"
  pe_status :: permit_status

record permit_consume_request =
  cq_permit_id :: string
  cq_canonical_request_hash :: string
  cq_parameter_hash :: string
  cq_wire_bytes_hash :: string
  cq_operation_facts_hash :: string
  cq_capability_payload_hash :: string
  cq_gateway_request_document_hash :: string
  cq_fencing_epoch :: int
  cq_occurred_at :: datetime

record consume_granted =
  cg_permit_id :: string
  cg_gateway_connection_id :: "string option"
  cg_fencing_epoch :: int
  cg_send_deadline :: datetime
  cg_canonical_request_hash :: string
  cg_parameter_hash :: string
  cg_wire_bytes_hash :: string
  cg_operation_facts_hash :: string
  cg_capability_payload_hash :: string
  cg_gateway_request_document_hash :: string

datatype consume_decision = ConsumeGranted consume_granted | ConsumeDenied string string

text \<open>The field patterns of the two models; a violation is a \<open>ValidationError\<close>, a subclass of \<open>ValueError\<close>.\<close>

definition consume_request_check :: "permit_consume_request \<Rightarrow> bool" where
  "consume_request_check q \<longleftrightarrow> sha256_text (cq_canonical_request_hash q) \<and> sha256_text (cq_parameter_hash q) \<and> sha256_text (cq_wire_bytes_hash q)
     \<and> sha256_text (cq_operation_facts_hash q) \<and> sha256_text (cq_capability_payload_hash q)
     \<and> sha256_text (cq_gateway_request_document_hash q) \<and> 1 \<le> cq_fencing_epoch q"

definition consume_granted_check :: "consume_granted \<Rightarrow> bool" where
  "consume_granted_check g \<longleftrightarrow> sha256_text (cg_canonical_request_hash g) \<and> sha256_text (cg_parameter_hash g) \<and> sha256_text (cg_wire_bytes_hash g)
     \<and> sha256_text (cg_operation_facts_hash g) \<and> sha256_text (cg_capability_payload_hash g)
     \<and> sha256_text (cg_gateway_request_document_hash g)"

definition new_consume_granted :: "consume_granted \<Rightarrow> consume_granted result" where
  "new_consume_granted g = rbind (require (consume_granted_check g) (ValueError ''ConsumeGranted'')) (\<lambda>_. Inr g)"

section \<open>Consumption\<close>

definition comparisons :: "permit_record \<Rightarrow> permit_consume_request \<Rightarrow> (bool \<times> string) list" where
  "comparisons p q =
    [(cq_permit_id q = pe_permit_id p, ''PERMIT_ID_MISMATCH''),
     (cq_canonical_request_hash q = pe_canonical_request_hash p, ''CANONICAL_HASH_MISMATCH''),
     (cq_parameter_hash q = pe_parameter_hash p, ''PARAMETER_HASH_MISMATCH''),
     (cq_wire_bytes_hash q = pe_wire_bytes_hash p, ''WIRE_HASH_MISMATCH''),
     (cq_operation_facts_hash q = pe_operation_facts_hash p, ''OPERATION_FACTS_HASH_MISMATCH''),
     (cq_capability_payload_hash q = pe_capability_payload_hash p, ''CAPABILITY_HASH_MISMATCH''),
     (cq_gateway_request_document_hash q = pe_gateway_request_document_hash p, ''GATEWAY_DOCUMENT_HASH_MISMATCH''),
     (cq_fencing_epoch q = pe_fencing_epoch p, ''FENCING_EPOCH_MISMATCH'')]"

definition permit_grant :: "permit_record \<Rightarrow> datetime \<Rightarrow> consume_granted" where
  "permit_grant p deadline = \<lparr>cg_permit_id = pe_permit_id p, cg_gateway_connection_id = pe_gateway_connection_id p, cg_fencing_epoch = pe_fencing_epoch p,
     cg_send_deadline = deadline, cg_canonical_request_hash = pe_canonical_request_hash p, cg_parameter_hash = pe_parameter_hash p,
     cg_wire_bytes_hash = pe_wire_bytes_hash p, cg_operation_facts_hash = pe_operation_facts_hash p,
     cg_capability_payload_hash = pe_capability_payload_hash p, cg_gateway_request_document_hash = pe_gateway_request_document_hash p\<rparr>"

definition send_window_default :: int where
  "send_window_default = 50000"

definition consume_permit :: "permit_record \<Rightarrow> permit_consume_request \<Rightarrow> int \<Rightarrow> (permit_record \<times> consume_decision) result" where
  "consume_permit p q send_window =
    (let now = \<lparr>dt_instant = dt_instant (cq_occurred_at q), dt_utcoffset = Some 0\<rparr>;
         denied = (\<lambda>reason. ConsumeDenied (pe_permit_id p) reason) in
     if pe_status p \<noteq> RESERVED then Inr (p, denied ''PERMIT_NOT_RESERVED'')
     else if dt_instant (pe_expires_at p) \<le> dt_instant now then Inr (p\<lparr>pe_status := EXPIRED\<rparr>, denied ''PERMIT_EXPIRED'')
     else case find (\<lambda>(same, reason). \<not> same) (comparisons p q) of
       Some (_, reason) \<Rightarrow> Inr (p, denied reason)
     | None \<Rightarrow> rbind (new_consume_granted (permit_grant p (dt_add now send_window))) (\<lambda>grant.
         Inr (p\<lparr>pe_status := CONSUMED\<rparr>, ConsumeGranted grant)))"

text \<open>A permit answers a sequence of requests, in the order in which they reach it.\<close>

fun answer_requests :: "int \<Rightarrow> permit_record \<Rightarrow> permit_consume_request list \<Rightarrow> (permit_record \<times> consume_decision list) result" where
  "answer_requests w p [] = Inr (p, [])"
| "answer_requests w p (q # qs) =
    rbind (consume_permit p q w) (\<lambda>(p', d). rbind (answer_requests w p' qs) (\<lambda>(p'', ds). Inr (p'', d # ds)))"

fun is_granted :: "consume_decision \<Rightarrow> bool" where
  "is_granted (ConsumeGranted _) = True"
| "is_granted (ConsumeDenied _ _) = False"

section \<open>A permit is consumed at most once\<close>

text \<open>A request that the permit is for.\<close>

definition permit_matches :: "permit_record \<Rightarrow> permit_consume_request \<Rightarrow> bool" where
  "permit_matches p q \<longleftrightarrow> list_all fst (comparisons p q)"

definition sound_grant :: "int \<Rightarrow> permit_record \<Rightarrow> permit_consume_request \<Rightarrow> consume_decision \<Rightarrow> bool" where
  "sound_grant w p q d \<longleftrightarrow> pe_status p = RESERVED \<and> permit_matches p q \<and> dt_instant (cq_occurred_at q) < dt_instant (pe_expires_at p)
     \<and> (\<exists>t. d = ConsumeGranted (permit_grant p t) \<and> dt_instant t = dt_instant (cq_occurred_at q) + w)"

lemma find_mismatch: "find (\<lambda>(same, reason). \<not> same) xs = None \<longleftrightarrow> list_all fst xs"
  by (induction xs) auto

lemma matching_grant_valid: "permit_matches p q \<Longrightarrow> consume_request_check q \<Longrightarrow> consume_granted_check (permit_grant p t)"
  by (simp add: permit_matches_def comparisons_def consume_request_check_def consume_granted_check_def permit_grant_def)

lemma matching_grant_new [simp]:
  "permit_matches p q \<Longrightarrow> consume_request_check q \<Longrightarrow> new_consume_granted (permit_grant p t) = Inr (permit_grant p t)"
  by (simp add: new_consume_granted_def matching_grant_valid)

text \<open>The three outcomes for a valid request.\<close>

lemma consume_permit_cases:
  assumes "consume_request_check q"
  obtains (granted) t where "pe_status p = RESERVED" "dt_instant (cq_occurred_at q) < dt_instant (pe_expires_at p)" "permit_matches p q"
      "dt_instant t = dt_instant (cq_occurred_at q) + w" "consume_permit p q w = Inr (p\<lparr>pe_status := CONSUMED\<rparr>, ConsumeGranted (permit_grant p t))"
  | (expired) reason where "pe_status p = RESERVED" "consume_permit p q w = Inr (p\<lparr>pe_status := EXPIRED\<rparr>, ConsumeDenied (pe_permit_id p) reason)"
      "dt_instant (pe_expires_at p) \<le> dt_instant (cq_occurred_at q)"
  | (denied) reason where "consume_permit p q w = Inr (p, ConsumeDenied (pe_permit_id p) reason)"
proof (cases "pe_status p = RESERVED \<and> dt_instant (cq_occurred_at q) < dt_instant (pe_expires_at p)")
  case True
  show ?thesis
  proof (cases "find (\<lambda>(same, reason). \<not> same) (comparisons p q)")
    case None
    then have "permit_matches p q" by (simp add: find_mismatch permit_matches_def)
    with True None assms granted [of "dt_add \<lparr>dt_instant = dt_instant (cq_occurred_at q), dt_utcoffset = Some 0\<rparr> w"] show ?thesis
      by (simp add: consume_permit_def Let_def dt_add_def)
  next
    case (Some a)
    with True denied [of "snd a"] show ?thesis by (cases a) (simp add: consume_permit_def Let_def)
  qed
next
  case False
  then show ?thesis using denied expired by (cases "pe_status p = RESERVED") (simp_all add: consume_permit_def Let_def)
qed

lemma answer_closed_permit:
  "pe_status p \<noteq> RESERVED \<Longrightarrow> answer_requests w p qs = Inr (p, replicate (length qs) (ConsumeDenied (pe_permit_id p) ''PERMIT_NOT_RESERVED''))"
  by (induction qs) (simp_all add: consume_permit_def Let_def)


definition sample_hash :: string where
  "sample_hash = replicate 64 CHR ''a''"

definition sample_permit :: permit_record where
  "sample_permit = \<lparr>pe_permit_id = ''permit-1'', pe_canonical_request_hash = sample_hash, pe_parameter_hash = sample_hash, pe_wire_bytes_hash = sample_hash,
     pe_operation_facts_hash = sample_hash, pe_capability_payload_hash = sample_hash, pe_gateway_request_document_hash = sample_hash, pe_fencing_epoch = 1,
     pe_expires_at = \<lparr>dt_instant = 9, dt_utcoffset = Some 0\<rparr>, pe_gateway_connection_id = None, pe_status = RESERVED\<rparr>"

definition sample_consume :: permit_consume_request where
  "sample_consume = \<lparr>cq_permit_id = ''permit-1'', cq_canonical_request_hash = sample_hash, cq_parameter_hash = sample_hash, cq_wire_bytes_hash = sample_hash,
     cq_operation_facts_hash = sample_hash, cq_capability_payload_hash = sample_hash, cq_gateway_request_document_hash = sample_hash, cq_fencing_epoch = 1,
     cq_occurred_at = \<lparr>dt_instant = 5, dt_utcoffset = Some 0\<rparr>\<rparr>"

lemma sample_consume_valid: "consume_request_check sample_consume"
  by (simp add: sample_consume_def sample_hash_def consume_request_check_def sha256_text_def is_hex_def list_all_iff)

lemma sample_consume_granted: "\<exists>p d. consume_permit sample_permit sample_consume w = Inr (p, d) \<and> is_granted d"
  using sample_consume_valid
  by (simp add: consume_permit_def Let_def comparisons_def sample_permit_def sample_consume_def new_consume_granted_def
    consume_granted_check_def consume_request_check_def permit_grant_def)


end
