(* ===== verification/RateBudget.thy ===== *)
theory RateBudget
  imports Catalog Permit
begin

text \<open>
  \<open>rate_budget/application.py\<close>: the admission boundary in front of the rate authority. The authority (a database in the program), the clock
  and the validator of the protocol schema are parameters.
\<close>

section \<open>The application\<close>

record 's rate_application =
  ra_primitives :: primitives
  ra_trust_bundle :: runtime_trust_bundle
  ra_endpoint_catalog :: runtime_endpoint_catalog
  ra_schema_valid :: "document \<Rightarrow> bool"
  ra_clock :: "'s \<Rightarrow> datetime \<times> 's"
  ra_reserve :: "document \<Rightarrow> verified_capability \<Rightarrow> string \<Rightarrow> peer_credentials \<Rightarrow> ('s, document option) comp"
  ra_handle_gateway_message :: "document \<Rightarrow> peer_credentials \<Rightarrow> ('s, document option) comp"

definition GATEWAY_MESSAGES :: "string set" where
  "GATEWAY_MESSAGES = {''PermitConsumeRequest'', ''SendOutcome'', ''HeaderObservation'', ''ConnectionStateObservation'', ''ServerTimeObservation'',
    ''ExchangeRateLimitObservation''}"

definition read_clock :: "'s rate_application \<Rightarrow> ('s, datetime) comp" where
  "read_clock A = (\<lambda>s. let (t, s') = ra_clock A s in (Inr t, s'))"

text \<open>The endpoint of a request that names the catalog in force; the two message kinds check the names and the catalog
  in opposite order.\<close>

definition known_endpoint :: "'s rate_application \<Rightarrow> string \<Rightarrow> string \<Rightarrow> endpoint_policy result" where
  "known_endpoint A authority endpoint_id = (case map_of (ca_endpoints (ra_endpoint_catalog A)) (authority, endpoint_id) of
     None \<Rightarrow> authorization_denied ''RATE_ENDPOINT_UNKNOWN'' | Some e \<Rightarrow> Inr e)"

definition catalog_named :: "'s rate_application \<Rightarrow> document \<Rightarrow> unit result" where
  "catalog_named A request =
    permit_if (doc_get request ''endpoint_catalog_hash'' = JStr (ca_catalog_hash (ra_endpoint_catalog A))) ''RATE_ENDPOINT_CATALOG_MISMATCH''"

definition facts_with_hash :: "'s rate_application \<Rightarrow> document \<Rightarrow> string \<Rightarrow> string \<Rightarrow> document result" where
  "facts_with_hash A request facts_field hash_field =
    rbind (as_mapping (doc_get request facts_field) ''RATE_OPERATION_FACTS_INVALID'') (\<lambda>facts.
    rbind (canonical_digest (ra_primitives A) (JObj facts)) (\<lambda>h.
    rbind (permit_if (doc_get request hash_field = JStr h) ''RATE_OPERATION_FACTS_HASH_MISMATCH'') (\<lambda>_. Inr facts)))"

definition class_of_role :: "endpoint_policy \<Rightarrow> string \<Rightarrow> string result" where
  "class_of_role endpoint role = (case map_of (ep_causal_role_class_map endpoint) role of
     None \<Rightarrow> authorization_denied ''RATE_CAUSAL_ROLE_INVALID''
   | Some c \<Rightarrow> if c \<in> set (ep_allowed_operation_classes endpoint) then Inr c else authorization_denied ''RATE_CAUSAL_ROLE_INVALID'')"

definition bindings_of :: "document \<Rightarrow> string \<Rightarrow> string \<Rightarrow> string \<Rightarrow> string \<Rightarrow> string \<Rightarrow> capability_bindings" where
  "bindings_of request caller_service env operation_class authority endpoint_id =
    \<lparr>bd_caller_service = caller_service, bd_environment = env, bd_operation_class = operation_class, bd_endpoint_authority = authority,
     bd_endpoint_id = endpoint_id, bd_gateway_connection_id = text_of (doc_get request ''gateway_connection_id''),
     bd_canonical_request_hash = py_str (doc_get request ''canonical_request_hash''),
     bd_operation_facts_hash = py_str (doc_get request ''operation_facts_hash''),
     bd_causal_ref_type = py_str (doc_get request ''causal_ref_type''), bd_causal_ref_id = py_str (doc_get request ''causal_ref_id'')\<rparr>"

text \<open>What \<open>_reserve\<close> checks before it reads the clock: the endpoint, the class, the bindings and the capability document.\<close>

definition reserve_bindings :: "'s rate_application \<Rightarrow> document \<Rightarrow> (capability_bindings \<times> document) result" where
  "reserve_bindings A request =
    rbind (required_text (doc_get request ''endpoint_authority'') ''RATE_ENDPOINT_UNKNOWN'') (\<lambda>authority.
    rbind (required_text (doc_get request ''endpoint_id'') ''RATE_ENDPOINT_UNKNOWN'') (\<lambda>endpoint_id.
    rbind (catalog_named A request) (\<lambda>_.
    rbind (known_endpoint A authority endpoint_id) (\<lambda>endpoint.
    rbind (facts_with_hash A request ''operation_facts'' ''operation_facts_hash'') (\<lambda>facts.
    rbind (required_text (doc_get facts ''semantic_action'') ''RATE_CAUSAL_ROLE_INVALID'') (\<lambda>role.
    rbind (class_of_role endpoint role) (\<lambda>operation_class.
    rbind (required_text (doc_get request ''caller_service'') ''RATE_CALLER_NOT_ALLOWED'') (\<lambda>caller_service.
    rbind (required_text (doc_get request ''environment'') ''RATE_CALLER_NOT_ALLOWED'') (\<lambda>env.
    rbind (as_mapping (doc_get request ''causal_capability'') ''RATE_CAPABILITY_INVALID'') (\<lambda>capability.
    Inr (bindings_of request caller_service env operation_class authority endpoint_id, capability)))))))))))"

definition reserve :: "'s rate_application \<Rightarrow> document \<Rightarrow> peer_credentials \<Rightarrow> ('s, document option) comp" where
  "reserve A request peer =
    andThen (lift (reserve_bindings A request)) (\<lambda>(b, capability).
    andThen (read_clock A) (\<lambda>now.
    andThen (lift (verify_causal_capability (ra_primitives A) capability (ra_trust_bundle A) b peer now)) (\<lambda>verified.
    ra_reserve A request verified (bd_operation_class b) peer)))"

definition consume_check :: "'s rate_application \<Rightarrow> document \<Rightarrow> unit result" where
  "consume_check A request =
    rbind (catalog_named A request) (\<lambda>_.
    rbind (required_text (doc_get request ''endpoint_authority'') ''RATE_ENDPOINT_UNKNOWN'') (\<lambda>authority.
    rbind (required_text (doc_get request ''endpoint_id'') ''RATE_ENDPOINT_UNKNOWN'') (\<lambda>endpoint_id.
    rbind (known_endpoint A authority endpoint_id) (\<lambda>endpoint.
    rbind (facts_with_hash A request ''gateway_derived_operation_facts'' ''gateway_derived_operation_facts_hash'') (\<lambda>facts.
    rbind (class_of_role endpoint (py_str (doc_get facts ''semantic_action''))) (\<lambda>_.
    permit_if (doc_get facts ''transport'' = JStr (ep_transport endpoint)) ''RATE_CAUSAL_ROLE_INVALID''))))))"

definition gateway :: "'s rate_application \<Rightarrow> document \<Rightarrow> peer_credentials \<Rightarrow> ('s, document option) comp" where
  "gateway A request peer =
    andThen (if doc_get request ''message_type'' = JStr ''PermitConsumeRequest'' then lift (consume_check A request) else ret ()) (\<lambda>_.
    ra_handle_gateway_message A request peer)"

definition checked_response :: "'s rate_application \<Rightarrow> json \<Rightarrow> document option \<Rightarrow> document option result" where
  "checked_response A message_type response = (case response of
     None \<Rightarrow> if message_type = JStr ''PermitConsumeRequest'' \<or> message_type = JStr ''ReserveRequest''
       then authorization_denied ''RATE_AUTHORITY_RESPONSE_INVALID'' else Inr None
   | Some d \<Rightarrow> if ra_schema_valid A d then Inr (Some d) else authorization_denied ''RATE_AUTHORITY_RESPONSE_INVALID'')"

definition rate_request :: "'s rate_application \<Rightarrow> document \<Rightarrow> peer_credentials \<Rightarrow> ('s, document option) comp" where
  "rate_request A request peer =
    andThen (read_clock A) (\<lambda>now.
    if dt_instant (tb_valid_until (ra_trust_bundle A)) \<le> dt_instant now then deny ''RATE_TRUST_BUNDLE_EXPIRED''
    else if dt_instant (ca_valid_until (ra_endpoint_catalog A)) \<le> dt_instant now then deny ''RATE_ENDPOINT_CATALOG_MISMATCH''
    else if \<not> ra_schema_valid A request then deny ''RATE_PROTOCOL_SCHEMA_INVALID''
    else let message_type = doc_get request ''message_type'' in
      andThen (case message_type of JStr m \<Rightarrow>
          if m = ''ReserveRequest'' then reserve A request peer
          else if m \<in> GATEWAY_MESSAGES then
            andThen (lift (authorize_protocol_peer (ra_trust_bundle A) (py_str (doc_get request ''caller_service'')) m peer)) (\<lambda>_. gateway A request peer)
          else deny ''RATE_PROTOCOL_DIRECTION_INVALID''
        | _ \<Rightarrow> deny ''RATE_PROTOCOL_DIRECTION_INVALID'') (\<lambda>response.
      lift (checked_response A message_type response)))"

section \<open>What reaches the authority\<close>

text \<open>The application with a record of the calls its authority receives. The record changes nothing else.\<close>

datatype authority_call =
    ReserveCall document verified_capability string peer_credentials
  | MessageCall document peer_credentials

definition logging :: "'s rate_application \<Rightarrow> ('s \<times> authority_call list) rate_application" where
  "logging A = \<lparr>ra_primitives = ra_primitives A, ra_trust_bundle = ra_trust_bundle A, ra_endpoint_catalog = ra_endpoint_catalog A,
     ra_schema_valid = ra_schema_valid A,
     ra_clock = (\<lambda>(s, calls). let (t, s') = ra_clock A s in (t, (s', calls))),
     ra_reserve = (\<lambda>q v c p (s, calls). let (r, s') = ra_reserve A q v c p s in (r, (s', calls @ [ReserveCall q v c p]))),
     ra_handle_gateway_message = (\<lambda>q p (s, calls). let (r, s') = ra_handle_gateway_message A q p s in (r, (s', calls @ [MessageCall q p])))\<rparr>"

fun serve_requests :: "'s rate_application \<Rightarrow> (document \<times> peer_credentials) list \<Rightarrow> 's \<Rightarrow> 's" where
  "serve_requests A [] s = s"
| "serve_requests A ((q, p) # qs) s = serve_requests A qs (snd (rate_request A q p s))"

text \<open>A call that passed every check of its kind.\<close>

definition reserve_admitted :: "'s rate_application \<Rightarrow> document \<Rightarrow> peer_credentials \<Rightarrow> capability_bindings \<Rightarrow> document \<Rightarrow> verified_capability \<Rightarrow> bool" where
  "reserve_admitted A q p b capability v \<longleftrightarrow> reserve_bindings A q = Inr (b, capability)
     \<and> (\<exists>now. verify_causal_capability (ra_primitives A) capability (ra_trust_bundle A) b p now = Inr v)"

definition call_admitted :: "'s rate_application \<Rightarrow> authority_call \<Rightarrow> bool" where
  "call_admitted A c = (case c of
     ReserveCall q v cls p \<Rightarrow> \<exists>b capability. reserve_admitted A q p b capability v \<and> cls = bd_operation_class b
   | MessageCall q p \<Rightarrow> \<exists>m. doc_get q ''message_type'' = JStr m \<and> m \<in> GATEWAY_MESSAGES
       \<and> authorize_protocol_peer (ra_trust_bundle A) (py_str (doc_get q ''caller_service'')) m p = Inr ()
       \<and> (m = ''PermitConsumeRequest'' \<longrightarrow> consume_check A q = Inr ()))"

text \<open>The calls after a request are those before it and at most one more, which was admitted.\<close>

definition extends_log :: "'s rate_application \<Rightarrow> authority_call list \<Rightarrow> authority_call list \<Rightarrow> bool" where
  "extends_log A calls calls' \<longleftrightarrow> calls' = calls \<or> (\<exists>c. calls' = calls @ [c] \<and> call_admitted A c)"

lemma logging_simps [simp]:
  "ra_primitives (logging A) = ra_primitives A" "ra_trust_bundle (logging A) = ra_trust_bundle A"
  "ra_endpoint_catalog (logging A) = ra_endpoint_catalog A" "ra_schema_valid (logging A) = ra_schema_valid A"
  "reserve_bindings (logging A) q = reserve_bindings A q" "consume_check (logging A) q = consume_check A q"
  "checked_response (logging A) m r = checked_response A m r"
  by (simp_all add: logging_def reserve_bindings_def consume_check_def catalog_named_def known_endpoint_def facts_with_hash_def checked_response_def
    cong: option.case_cong)

lemma logged_calls:
  "read_clock (logging A) (s, calls) = (let (r, s') = read_clock A s in (r, (s', calls)))"
  "ra_reserve (logging A) q v c p (s, calls) = (let (r, s') = ra_reserve A q v c p s in (r, (s', calls @ [ReserveCall q v c p])))"
  "ra_handle_gateway_message (logging A) q p (s, calls) = (let (r, s') = ra_handle_gateway_message A q p s in (r, (s', calls @ [MessageCall q p])))"
  by (simp_all add: read_clock_def logging_def split: prod.splits)

lemma logged_reserve:
  "\<exists>calls'. reserve (logging A) q p (s, calls) = (fst (reserve A q p s), (snd (reserve A q p s), calls')) \<and> extends_log A calls calls'"
proof (cases "reserve_bindings A q")
  case (Inr bc)
  obtain b capability where bc: "bc = (b, capability)" by fastforce
  obtain now s1 where clock: "ra_clock A s = (now, s1)" by fastforce
  show ?thesis
  proof (cases "verify_causal_capability (ra_primitives A) capability (ra_trust_bundle A) b p now")
    case (Inr v)
    then have "call_admitted A (ReserveCall q v (bd_operation_class b) p)"
      using \<open>reserve_bindings A q = Inr bc\<close> bc by (auto simp: call_admitted_def reserve_admitted_def)
    with Inr \<open>reserve_bindings A q = Inr bc\<close> bc clock show ?thesis
      by (auto simp: reserve_def andThen_def lift_def logged_calls read_clock_def [of A] extends_log_def split: prod.splits)
  qed (use Inr bc clock in \<open>auto simp: reserve_def andThen_def lift_def logged_calls read_clock_def [of A] extends_log_def split: prod.splits\<close>)
qed (auto simp: reserve_def andThen_def lift_def extends_log_def)

lemma logged_gateway:
  assumes "doc_get q ''message_type'' = JStr m" "m \<in> GATEWAY_MESSAGES"
    "authorize_protocol_peer (ra_trust_bundle A) (py_str (doc_get q ''caller_service'')) m p = Inr ()"
  shows "\<exists>calls'. gateway (logging A) q p (s, calls) = (fst (gateway A q p s), (snd (gateway A q p s), calls')) \<and> extends_log A calls calls'"
proof (cases "m = ''PermitConsumeRequest'' \<longrightarrow> consume_check A q = Inr ()")
  case True
  then have "call_admitted A (MessageCall q p)" using assms by (simp add: call_admitted_def)
  with True assms(1) show ?thesis
    by (cases "m = ''PermitConsumeRequest''")
       (auto simp: gateway_def andThen_def lift_def ret_def logged_calls extends_log_def split: prod.splits)
next
  case False
  with assms(1) obtain e where "m = ''PermitConsumeRequest''" "consume_check A q = Inl e" by (cases "consume_check A q") auto
  with assms(1) show ?thesis by (auto simp: gateway_def andThen_def lift_def extends_log_def)
qed

lemma logged_request:
  "\<exists>calls'. rate_request (logging A) q p (s, calls) = (fst (rate_request A q p s), (snd (rate_request A q p s), calls')) \<and> extends_log A calls calls'"
proof -
  obtain now s1 where clock: "read_clock A s = (Inr now, s1)" by (cases "ra_clock A s") (simp add: read_clock_def)
  have same: "extends_log A calls calls" by (simp add: extends_log_def)
  obtain c1 where reserve: "reserve (logging A) q p (s1, calls) = (fst (reserve A q p s1), (snd (reserve A q p s1), c1))" "extends_log A calls c1"
    using logged_reserve [of A q p s1 calls] by auto
  show ?thesis
  proof (cases "doc_get q ''message_type''")
    case (JStr m)
    show ?thesis
    proof (cases "m \<in> GATEWAY_MESSAGES \<and> authorize_protocol_peer (ra_trust_bundle A) (py_str (doc_get q ''caller_service'')) m p = Inr ()")
      case True
      then obtain c2 where "gateway (logging A) q p (s1, calls) = (fst (gateway A q p s1), (snd (gateway A q p s1), c2))" "extends_log A calls c2"
        using logged_gateway [OF JStr, of A p s1 calls] by auto
      with True JStr clock reserve same show ?thesis
        by (auto simp: rate_request_def andThen_def lift_def logged_calls deny_def raise_def Let_def split: prod.splits sum.splits)
    next
      case False
      then consider "m \<notin> GATEWAY_MESSAGES" | e where "authorize_protocol_peer (ra_trust_bundle A) (py_str (doc_get q ''caller_service'')) m p = Inl e"
        by (cases "authorize_protocol_peer (ra_trust_bundle A) (py_str (doc_get q ''caller_service'')) m p") auto
      then show ?thesis using JStr clock reserve same
        by cases (auto simp: rate_request_def andThen_def lift_def logged_calls deny_def raise_def Let_def split: prod.splits sum.splits)
    qed
  qed (use clock same in \<open>auto simp: rate_request_def andThen_def logged_calls deny_def raise_def Let_def\<close>)
qed

lemma served_log:
  "\<exists>calls'. serve_requests (logging A) qs (s, calls) = (serve_requests A qs s, calls @ calls') \<and> list_all (call_admitted A) calls' \<and> length calls' \<le> length qs"
proof (induction qs arbitrary: s calls)
  case (Cons qp qs)
  obtain q p where qp: "qp = (q, p)" by fastforce
  obtain c1 where step: "snd (rate_request (logging A) q p (s, calls)) = (snd (rate_request A q p s), c1)" "extends_log A calls c1"
    using logged_request [of A q p s calls] by auto
  then obtain rest where m: "c1 = calls @ rest" "list_all (call_admitted A) rest" "length rest \<le> 1"
    by (auto simp: extends_log_def)
  obtain c2 where "serve_requests (logging A) qs (snd (rate_request A q p s), c1) = (serve_requests A qs (snd (rate_request A q p s)), c1 @ c2)"
      "list_all (call_admitted A) c2" "length c2 \<le> length qs"
    using Cons.IH by blast
  with step m show ?case by (intro exI [of _ "rest @ c2"]) (simp add: qp)
qed simp

text \<open>A reservation that reached the authority is authorised for exactly the request it was made with.\<close>

definition reservation_authorised :: "'s rate_application \<Rightarrow> string set \<Rightarrow> document \<Rightarrow> peer_credentials \<Rightarrow> verified_capability \<Rightarrow> string \<Rightarrow> bool" where
  "reservation_authorised A revoked q p v cls \<longleftrightarrow> (\<exists>b capability now. doc_get q ''causal_capability'' = JObj capability
     \<and> capability_authorised (ra_primitives A) revoked (ra_trust_bundle A) capability b p now v
     \<and> cls = bd_operation_class b \<and> doc_get q ''caller_service'' = JStr (bd_caller_service b)
     \<and> doc_get q ''endpoint_id'' = JStr (bd_endpoint_id b) \<and> doc_get q ''endpoint_authority'' = JStr (bd_endpoint_authority b)
     \<and> py_str (doc_get q ''canonical_request_hash'') = bd_canonical_request_hash b
     \<and> (\<exists>endpoint. map_of (ca_endpoints (ra_endpoint_catalog A)) (bd_endpoint_authority b, bd_endpoint_id b) = Some endpoint
          \<and> cls \<in> set (ep_allowed_operation_classes endpoint)))"

lemma required_text_eq_Inr [simp]: "required_text v reason = Inr s \<longleftrightarrow> v = JStr s"
  by (cases v) (auto simp: required_text_def)

lemma reserve_bindings_facts:
  assumes "reserve_bindings A q = Inr (b, capability)"
  shows "doc_get q ''causal_capability'' = JObj capability \<and> doc_get q ''caller_service'' = JStr (bd_caller_service b)
     \<and> doc_get q ''endpoint_id'' = JStr (bd_endpoint_id b) \<and> doc_get q ''endpoint_authority'' = JStr (bd_endpoint_authority b)
     \<and> py_str (doc_get q ''canonical_request_hash'') = bd_canonical_request_hash b
     \<and> (\<exists>endpoint. map_of (ca_endpoints (ra_endpoint_catalog A)) (bd_endpoint_authority b, bd_endpoint_id b) = Some endpoint
          \<and> bd_operation_class b \<in> set (ep_allowed_operation_classes endpoint))"
proof -
  from assms obtain authority endpoint_id endpoint role cls caller env where r: "doc_get q ''endpoint_authority'' = JStr authority"
      "doc_get q ''endpoint_id'' = JStr endpoint_id" "known_endpoint A authority endpoint_id = Inr endpoint" "class_of_role endpoint role = Inr cls"
      "doc_get q ''caller_service'' = JStr caller" "doc_get q ''causal_capability'' = JObj capability"
      "b = bindings_of q caller env cls authority endpoint_id"
    unfolding reserve_bindings_def by (simp only: rbind_eq_Inr required_text_eq_Inr as_mapping_eq_Inr sum.inject prod.inject) blast
  moreover from r(3) have "map_of (ca_endpoints (ra_endpoint_catalog A)) (authority, endpoint_id) = Some endpoint"
    by (auto simp: known_endpoint_def split: option.splits)
  moreover from r(4) have "cls \<in> set (ep_allowed_operation_classes endpoint)"
    by (auto simp: class_of_role_def split: option.splits if_splits)
  ultimately show ?thesis by (simp add: bindings_of_def)
qed

text \<open>C17: Over any run of requests the authority receives at most one call per request, and every call was admitted: a gateway
  message from a peer of the protocol, with its endpoint, facts and role checked if it consumes a permit; a reservation only
  under a capability that is authorised for its caller, endpoint and request hash, with a class the endpoint allows. Two
  reservations under one capability document are for the same request.\<close>

theorem authority_calls_are_authorised:
  assumes "verify_runtime_trust_bundle (ra_primitives A) bundle keyring pin then_now = Inr (ra_trust_bundle A)"
    and "serve_requests (logging A) qs (s, []) = (s', calls)"
  shows "s' = serve_requests A qs s \<and> length calls \<le> length qs \<and> list_all (call_admitted A) calls
    \<and> (\<exists>content revoked. doc_get bundle ''content'' = JObj content
         \<and> string_set_or_empty (doc_get content ''revoked_key_ids'') ''TRUST_BUNDLE_INVALID'' = Inr revoked
         \<and> (\<forall>q v cls p. ReserveCall q v cls p \<in> set calls \<longrightarrow> reservation_authorised A (set revoked) q p v cls))
    \<and> (\<forall>q v c p q' v' c' p'. ReserveCall q v c p \<in> set calls \<longrightarrow> ReserveCall q' v' c' p' \<in> set calls
         \<longrightarrow> doc_get q ''causal_capability'' = doc_get q' ''causal_capability''
         \<longrightarrow> c = c' \<and> py_str (doc_get q ''canonical_request_hash'') = py_str (doc_get q' ''canonical_request_hash''))"
proof -
  from served_log [of A qs s "[]"] assms(2) have log: "s' = serve_requests A qs s" "list_all (call_admitted A) calls" "length calls \<le> length qs"
    by auto
  have admitted: "\<exists>b capability. reserve_admitted A q p b capability v \<and> c = bd_operation_class b" if "ReserveCall q v c p \<in> set calls" for q v c p
    using log(2) that by (fastforce simp: list_all_iff call_admitted_def)
  from assms(1) obtain content revoked where c: "doc_get bundle ''content'' = JObj content"
      "string_set_or_empty (doc_get content ''revoked_key_ids'') ''TRUST_BUNDLE_INVALID'' = Inr revoked"
    by (rule verified_bundle)
  have "reservation_authorised A (set revoked) q p v cls" if "ReserveCall q v cls p \<in> set calls" for q v cls p
  proof -
    from admitted [OF that] obtain b capability now where b: "reserve_bindings A q = Inr (b, capability)" "cls = bd_operation_class b"
        "verify_causal_capability (ra_primitives A) capability (ra_trust_bundle A) b p now = Inr v"
      by (auto simp: reserve_admitted_def)
    have "capability_authorised (ra_primitives A) (set revoked) (ra_trust_bundle A) capability b p now v"
      using verified_capability_authorised [OF assms(1) b(3)] c by auto
    with b(2) reserve_bindings_facts [OF b(1)] show ?thesis unfolding reservation_authorised_def by blast
  qed
  moreover have "c = c' \<and> py_str (doc_get q ''canonical_request_hash'') = py_str (doc_get q' ''canonical_request_hash'')"
    if r: "ReserveCall q v c p \<in> set calls" "ReserveCall q' v' c' p' \<in> set calls"
      and same: "doc_get q ''causal_capability'' = doc_get q' ''causal_capability''" for q v c p q' v' c' p'
  proof -
    from admitted [OF r(1)] admitted [OF r(2)] obtain b cap b' cap' where
      1: "reserve_admitted A q p b cap v" "c = bd_operation_class b" and 2: "reserve_admitted A q' p' b' cap' v'" "c' = bd_operation_class b'"
      by blast
    note f = reserve_bindings_facts [of A q b cap] reserve_bindings_facts [of A q' b' cap']
    have "cap = cap'" using f 1 2 same by (simp add: reserve_admitted_def)
    then have "b = b'" using 1 2 capability_bindings_unique by (auto simp: reserve_admitted_def)
    with 1 2 f show ?thesis by (simp add: reserve_admitted_def)
  qed
  ultimately show ?thesis using log c by blast
qed

definition sample_application :: "nat rate_application" where
  "sample_application = \<lparr>ra_primitives = sample_primitives, ra_trust_bundle = sample_trust,
     ra_endpoint_catalog = \<lparr>ca_catalog_id = ''catalog-1'', ca_catalog_hash = ''h'', ca_checked_at = sample_now,
        ca_valid_until = \<lparr>dt_instant = 9, dt_utcoffset = Some 0\<rparr>, ca_endpoints = []\<rparr>,
     ra_schema_valid = (\<lambda>_. True), ra_clock = (\<lambda>s. (sample_now, s)), ra_reserve = (\<lambda>_ _ _ _ s. (Inr None, s + 1)),
     ra_handle_gateway_message = (\<lambda>_ _ s. (Inr None, s + 1))\<rparr>"

definition sample_outcome :: document where
  "sample_outcome = [(''message_type'', JStr ''SendOutcome''), (''caller_service'', JStr ''binance-egress-gateway'')]"

definition sample_gateway_peer :: peer_credentials where
  "sample_gateway_peer = \<lparr>pc_pid = 1, pc_uid = 3, pc_gid = 3\<rparr>"

lemma sample_outcome_reaches_authority:
  "serve_requests (logging sample_application) [(sample_outcome, sample_gateway_peer)] (0, []) = (1, [MessageCall sample_outcome sample_gateway_peer])"
  by (simp add: sample_application_def sample_outcome_def sample_gateway_peer_def rate_request_def read_clock_def logging_def andThen_def lift_def ret_def
    sample_trust_def sample_now_def doc_get_def GATEWAY_MESSAGES_def authorize_protocol_peer_def permit_if_def py_str_def gateway_def checked_response_def Let_def)

theorem authority_calls_are_authorised_witness:
  "list_all (call_admitted sample_application) [MessageCall sample_outcome sample_gateway_peer] \<and> serve_requests sample_application [(sample_outcome, sample_gateway_peer)] 0 = 1"
proof -
  have "verify_runtime_trust_bundle (ra_primitives sample_application) sample_bundle sample_keyring sample_pin sample_now
      = Inr (ra_trust_bundle sample_application)"
    using sample_bundle_verifies by (simp add: sample_application_def)
  from authority_calls_are_authorised [OF this sample_outcome_reaches_authority] show ?thesis by auto
qed

end
