(* ===== verification/Gateway.thy ===== *)
theory Gateway
  imports RateBudget
begin

text \<open>
  \<open>binance_egress/gateway.py\<close> and \<open>binance_egress/application.py\<close>: the send pipeline that admits a closed request, has its permit consumed and calls
  the transport once. The rate service, the transport, the clock, the source of random identifiers, the validators of the
  message schemas and the field conversion of the model library are parameters.
\<close>

section \<open>Closed requests\<close>

record gateway_parameter =
  gp_location :: string
  gp_name :: string
  gp_value_base64 :: string
  gp_value_hash :: string
  gp_sensitivity_class :: string

record closed_gateway_request =
  gr_request_id :: string
  gr_created_at :: datetime
  gr_expires_at :: datetime
  gr_subject_caller_service :: string
  gr_subject_caller_instance_id :: string
  gr_environment :: string
  gr_endpoint_authority :: string
  gr_endpoint_id :: string
  gr_endpoint_catalog_hash :: string
  gr_endpoint_request_schema_hash :: string
  gr_gateway_connection_id :: "string option"
  gr_request_kind :: string
  gr_contains_sensitive_material :: bool
  gr_transport :: string
  gr_method :: string
  gr_scheme :: string
  gr_host :: string
  gr_port :: int
  gr_path :: string
  gr_parameters :: "gateway_parameter list"
  gr_body_base64 :: "string option"
  gr_websocket_frame :: json
  gr_immutable_wire_bytes_base64 :: "string option"
  gr_parameter_hash :: string
  gr_canonical_request_hash :: string
  gr_wire_bytes_hash :: string
  gr_persistence_allowed :: bool
  gr_logging_allowed :: bool

text \<open>The closed values and patterns of the model, and its validator.\<close>

definition name_char :: "char \<Rightarrow> bool" where
  "name_char c \<longleftrightarrow> (CHR ''A'' \<le> c \<and> c \<le> CHR ''Z'') \<or> (CHR ''a'' \<le> c \<and> c \<le> CHR ''z'') \<or> is_digit c \<or> c \<in> {CHR ''_'', CHR ''.'', CHR ''-''}"

definition gateway_parameter_check :: "gateway_parameter \<Rightarrow> bool" where
  "gateway_parameter_check p \<longleftrightarrow> gp_location p \<in> {''QUERY'', ''HEADER'', ''FORM'', ''WS_JSON''}
     \<and> gp_name p \<noteq> [] \<and> length (gp_name p) \<le> 64 \<and> list_all name_char (gp_name p) \<and> \<not> is_digit (hd (gp_name p)) \<and> hd (gp_name p) \<notin> {CHR ''_'', CHR ''.'', CHR ''-''}
     \<and> sha256_text (gp_value_hash p)
     \<and> gp_sensitivity_class p \<in> {''NONE'', ''API_KEY'', ''LISTEN_KEY'', ''SIGNED_QUERY'', ''PRIVATE_STREAM_URL''}"

definition closed_gateway_request_check :: "closed_gateway_request \<Rightarrow> bool" where
  "closed_gateway_request_check r \<longleftrightarrow> gr_environment r \<in> {''shadow'', ''paper'', ''testnet'', ''production''}
     \<and> gr_request_kind r \<in> {''STRUCTURED_UNSIGNED'', ''PRESIGNED_IMMUTABLE''} \<and> gr_transport r \<in> {''REST'', ''WS_API'', ''MARKET_STREAM_CONTROL''}
     \<and> gr_method r \<in> {''GET'', ''POST'', ''PUT'', ''DELETE'', ''CONNECT'', ''SEND''} \<and> gr_scheme r \<in> {''https'', ''wss''} \<and> gr_port r = 443
     \<and> length (gr_parameters r) \<le> 64 \<and> list_all gateway_parameter_check (gr_parameters r)
     \<and> sha256_text (gr_endpoint_catalog_hash r) \<and> sha256_text (gr_endpoint_request_schema_hash r) \<and> sha256_text (gr_parameter_hash r)
     \<and> sha256_text (gr_canonical_request_hash r) \<and> sha256_text (gr_wire_bytes_hash r)
     \<and> \<not> gr_persistence_allowed r \<and> \<not> gr_logging_allowed r"

definition validity_window_is_positive :: "closed_gateway_request \<Rightarrow> closed_gateway_request result" where
  "validity_window_is_positive r =
    rbind (dt_greater (gr_expires_at r) (gr_created_at r)) (\<lambda>positive.
    rbind (require positive (ValueError ''request expiry must be after creation'')) (\<lambda>_. Inr r))"

section \<open>The environment of the gateway\<close>

record gateway_transport_result =
  tr_protocol_status :: string
  tr_response_payload :: string
  tr_http_status :: "int option"
  tr_exchange_code :: "int option"
  tr_connection_state_after :: "string option"
  tr_sensitivity_class :: string

text \<open>\<open>gw_read_request\<close> and \<open>gw_read_grant\<close> convert the fields of a document, or find a type error; \<open>gw_dump_request\<close> is \<open>model_dump(mode="json")\<close>.\<close>

record 's gateway_environment =
  gw_primitives :: primitives
  gw_trust_bundle :: runtime_trust_bundle
  gw_endpoint_catalog :: runtime_endpoint_catalog
  gw_instance_id :: string
  gw_rate_instance_id :: string
  gw_read_request :: "document \<Rightarrow> closed_gateway_request option"
  gw_read_grant :: "document \<Rightarrow> consume_granted option"
  gw_dump_request :: "closed_gateway_request \<Rightarrow> json"
  gw_b64encode :: "string \<Rightarrow> string"
  gw_rate_schema_valid :: "document \<Rightarrow> bool"
  gw_ipc_schema_valid :: "document \<Rightarrow> bool"
  gw_clock :: "'s \<Rightarrow> datetime \<times> 's"
  gw_uuid :: "'s \<Rightarrow> string \<times> 's"
  gw_rate_request :: "document \<Rightarrow> ('s, document) comp"
  gw_rate_notify :: "document \<Rightarrow> ('s, unit) comp"
  gw_transport :: "closed_gateway_request \<Rightarrow> string \<Rightarrow> ('s, gateway_transport_result) comp"

text \<open>The gateway keeps one flag; the rest of its state is outside.\<close>

record 's gateway_state =
  gs_outcome_journal_failed :: bool
  gs_outside :: 's

definition outside_gateway :: "('s, 'a) comp \<Rightarrow> ('s gateway_state, 'a) comp" where
  "outside_gateway f = (\<lambda>g. let (r, s) = f (gs_outside g) in (r, g\<lparr>gs_outside := s\<rparr>))"

definition gateway_clock :: "'s gateway_environment \<Rightarrow> ('s gateway_state, datetime) comp" where
  "gateway_clock E = outside_gateway (\<lambda>s. let (t, s') = gw_clock E s in (Inr t, s'))"

definition gateway_message_id :: "'s gateway_environment \<Rightarrow> string \<Rightarrow> ('s gateway_state, string) comp" where
  "gateway_message_id E prefix_text = outside_gateway (\<lambda>s. let (u, s') = gw_uuid E s in (Inr (prefix_text @ u), s'))"

definition gateway_denied :: "string \<Rightarrow> 'a result" where
  "gateway_denied reason = Inl (GatewayDenied reason)"

abbreviation invalid_request :: "'a result" where
  "invalid_request \<equiv> gateway_denied ''LOCAL_REQUEST_INVALID''"

section \<open>Hashes and wire bytes\<close>

definition request_document_hash :: "'s gateway_environment \<Rightarrow> closed_gateway_request \<Rightarrow> string result" where
  "request_document_hash E r = canonical_digest (gw_primitives E) (gw_dump_request E r)"

definition peer_claim_hash :: "primitives \<Rightarrow> peer_credentials \<Rightarrow> string \<Rightarrow> string \<Rightarrow> string result" where
  "peer_claim_hash P peer caller_service caller_instance_id = canonical_digest P (JObj
     [(''pid'', JInt (pc_pid peer)), (''uid'', JInt (pc_uid peer)), (''gid'', JInt (pc_gid peer)),
      (''caller_service'', JStr caller_service), (''caller_instance_id'', JStr caller_instance_id)])"

definition normalized_parameter :: "primitives \<Rightarrow> gateway_parameter \<Rightarrow> json result" where
  "normalized_parameter P p = (case pr_b64decode P (gp_value_base64 p) of None \<Rightarrow> invalid_request
     | Some value \<Rightarrow> if sha256_hex value \<noteq> gp_value_hash p then invalid_request
         else Inr (JObj [(''location'', JStr (gp_location p)), (''name'', JStr (gp_name p)), (''value_hash'', JStr (gp_value_hash p)),
           (''sensitivity_class'', JStr (gp_sensitivity_class p))]))"

definition derive_parameter_hash :: "primitives \<Rightarrow> closed_gateway_request \<Rightarrow> string result" where
  "derive_parameter_hash P r = rbind (rmap (normalized_parameter P) (gr_parameters r)) (\<lambda>normalized. canonical_digest P (JArr normalized))"

definition derive_operation_facts :: "endpoint_policy \<Rightarrow> document result" where
  "derive_operation_facts endpoint = (case ep_causal_role_class_map endpoint of
     [(semantic_action, _)] \<Rightarrow>
       if semantic_action \<in> {''HOST_RATE_CONTROL'', ''MARKET_DATA_READ'', ''USER_STREAM_MAINTAIN'', ''CANCEL'', ''RECONCILE''}
       then Inr [(''semantic_action'', JStr semantic_action), (''transport'', JStr (ep_transport endpoint)), (''order_role'', JNull),
         (''reduce_only'', JNull), (''close_position'', JNull)]
       else invalid_request
   | _ \<Rightarrow> invalid_request)"

definition presigned_bytes :: "primitives \<Rightarrow> closed_gateway_request \<Rightarrow> string result" where
  "presigned_bytes P r = (case gr_immutable_wire_bytes_base64 r of None \<Rightarrow> invalid_request
     | Some text \<Rightarrow> (case pr_b64decode P text of None \<Rightarrow> invalid_request | Some wire \<Rightarrow> Inr wire))"

definition structured_unsigned :: "closed_gateway_request \<Rightarrow> unit result" where
  "structured_unsigned r = require (gr_parameters r = [] \<and> gr_body_base64 r = None) (GatewayDenied ''LOCAL_REQUEST_INVALID'')"

definition validate_request_against_endpoint :: "primitives \<Rightarrow> closed_gateway_request \<Rightarrow> endpoint_policy \<Rightarrow> document result" where
  "validate_request_against_endpoint P r endpoint =
    (let names = set (map gp_name (gr_parameters r)); invalid = GatewayDenied ''LOCAL_REQUEST_INVALID'' in
     rbind (require (gr_transport r = ep_transport endpoint \<and> gr_method r = ep_method endpoint \<and> gr_path r = ep_path endpoint
         \<and> gr_endpoint_request_schema_hash r = ep_request_schema_sha256 endpoint) invalid) (\<lambda>_.
     rbind (require (card names = length (gr_parameters r) \<and> set (ep_required_parameter_names endpoint) \<subseteq> names
         \<and> names \<subseteq> set (ep_allowed_parameter_names endpoint) \<and> names \<inter> set (ep_forbidden_parameter_names endpoint) = {}) invalid) (\<lambda>_.
     rbind (derive_parameter_hash P r) (\<lambda>h.
     rbind (require (h = gr_parameter_hash r) invalid) (\<lambda>_.
     rbind (if gr_request_kind r = ''PRESIGNED_IMMUTABLE''
         then rbind (presigned_bytes P r) (\<lambda>wire. require (sha256_hex wire = gr_wire_bytes_hash r) invalid)
         else structured_unsigned r) (\<lambda>_.
     derive_operation_facts endpoint))))))"

definition encode_ascii :: "string \<Rightarrow> string result" where
  "encode_ascii s = (if list_all (\<lambda>c. (of_char c :: nat) < 128) s then Inr s else Inl (ValueError ''ordinal not in range(128)''))"

definition crlf :: string where
  "crlf = [CHR 0x0D, CHR 0x0A]"

definition prepared_wire_bytes :: "primitives \<Rightarrow> closed_gateway_request \<Rightarrow> string result" where
  "prepared_wire_bytes P r = (if gr_request_kind r = ''PRESIGNED_IMMUTABLE'' then presigned_bytes P r
     else rbind (structured_unsigned r) (\<lambda>_. encode_ascii (gr_method r @ '' '' @ gr_path r @ '' HTTP/1.1'' @ crlf
       @ ''Host: '' @ gr_host r @ crlf @ ''Connection: close'' @ crlf @ crlf)))"

definition derive_canonical_request_hash :: "primitives \<Rightarrow> closed_gateway_request \<Rightarrow> string result" where
  "derive_canonical_request_hash P r = canonical_digest P (JObj
     [(''endpoint_authority'', JStr (gr_endpoint_authority r)), (''endpoint_id'', JStr (gr_endpoint_id r)), (''transport'', JStr (gr_transport r)),
      (''method'', JStr (gr_method r)), (''scheme'', JStr (gr_scheme r)), (''host'', JStr (gr_host r)), (''port'', JInt (gr_port r)),
      (''path'', JStr (gr_path r)), (''parameter_hash'', JStr (gr_parameter_hash r)), (''wire_bytes_hash'', JStr (gr_wire_bytes_hash r))])"

definition DESTINATIONS :: "((string \<times> string) \<times> (string \<times> string)) list" where
  "DESTINATIONS =
    [((''BINANCE_PRODUCTION_FAPI'', ''REST''), (''https'', ''fapi.binance.com'')),
     ((''BINANCE_PRODUCTION_FAPI'', ''WS_API''), (''wss'', ''ws-fapi.binance.com'')),
     ((''BINANCE_PRODUCTION_FSTREAM'', ''MARKET_STREAM_CONTROL''), (''wss'', ''fstream.binance.com'')),
     ((''BINANCE_TESTNET_FAPI'', ''REST''), (''https'', ''demo-fapi.binance.com'')),
     ((''BINANCE_TESTNET_FAPI'', ''WS_API''), (''wss'', ''testnet.binancefuture.com'')),
     ((''BINANCE_TESTNET_FSTREAM'', ''MARKET_STREAM_CONTROL''), (''wss'', ''demo-fstream.binance.com''))]"

definition validate_destination :: "closed_gateway_request \<Rightarrow> unit result" where
  "validate_destination r = require
     ((if prefix ''BINANCE_TESTNET_'' (gr_endpoint_authority r) then gr_environment r = ''testnet''
       else gr_environment r \<in> {''shadow'', ''paper'', ''production''})
      \<and> map_of DESTINATIONS (gr_endpoint_authority r, gr_transport r) = Some (gr_scheme r, gr_host r))
     (GatewayDenied ''DESTINATION_NOT_ALLOWLISTED'')"

definition timestamp :: "datetime \<Rightarrow> string" where
  "timestamp t = (let s = isoformat_utc t in take (length s - 6) s @ ''Z'')"

section \<open>One send\<close>

definition gateway_send_once ::
  "'s gateway_environment \<Rightarrow> closed_gateway_request \<Rightarrow> consume_granted \<Rightarrow> string \<Rightarrow> datetime \<Rightarrow> string \<Rightarrow> int \<Rightarrow> string \<Rightarrow> string
     \<Rightarrow> ('s gateway_state, gateway_transport_result) comp" where
  "gateway_send_once E r grant wire now expected_permit_id expected_fencing_epoch expected_operation_facts_hash expected_capability_payload_hash =
    andThen (lift (rbind (validate_destination r) (\<lambda>_.
      rbind (require (dt_instant now < dt_instant (gr_expires_at r)) (GatewayDenied ''GATEWAY_REQUEST_EXPIRED'')) (\<lambda>_.
      rbind (require (dt_instant now < dt_instant (cg_send_deadline grant)) (GatewayDenied ''SEND_DEADLINE_EXPIRED'')) (\<lambda>_.
      rbind (require (cg_permit_id grant \<noteq> []) (GatewayDenied ''PERMIT_ID_MISSING'')) (\<lambda>_.
      rbind (request_document_hash E r) (\<lambda>document_hash.
      require (cg_permit_id grant = expected_permit_id \<and> cg_gateway_connection_id grant = gr_gateway_connection_id r
        \<and> cg_fencing_epoch grant = expected_fencing_epoch \<and> gr_canonical_request_hash r = cg_canonical_request_hash grant
        \<and> gr_parameter_hash r = cg_parameter_hash grant \<and> gr_wire_bytes_hash r = cg_wire_bytes_hash grant
        \<and> document_hash = cg_gateway_request_document_hash grant \<and> cg_operation_facts_hash grant = expected_operation_facts_hash
        \<and> cg_capability_payload_hash grant = expected_capability_payload_hash) (GatewayDenied ''CONSUME_GRANT_BINDING_MISMATCH'')))))))) (\<lambda>_.
    outside_gateway (gw_transport E r wire))"

section \<open>Admission\<close>

definition read_closed_request :: "'s gateway_environment \<Rightarrow> json \<Rightarrow> closed_gateway_request result" where
  "read_closed_request E raw = (case raw of JObj d \<Rightarrow>
       (case gw_read_request E d of None \<Rightarrow> Inl (ValueError ''ClosedGatewayRequest'')
        | Some r \<Rightarrow> rbind (require (closed_gateway_request_check r) (ValueError ''ClosedGatewayRequest'')) (\<lambda>_. validity_window_is_positive r))
     | _ \<Rightarrow> invalid_request)"

definition gateway_caller_allowed :: "runtime_trust_bundle \<Rightarrow> closed_gateway_request \<Rightarrow> peer_credentials \<Rightarrow> string \<Rightarrow> string \<Rightarrow> bool" where
  "gateway_caller_allowed tb r peer caller_service caller_instance = (case map_of (tb_callers tb) caller_service of None \<Rightarrow> False
     | Some acl \<Rightarrow> pc_uid peer \<in> set (ac_allowed_peer_uids acl) \<and> pc_gid peer \<in> set (ac_allowed_peer_gids acl)
         \<and> gr_endpoint_authority r \<in> set (ac_allowed_endpoint_authorities acl) \<and> gr_environment r \<in> set (ac_allowed_environments acl)
         \<and> gr_subject_caller_service r = caller_service \<and> gr_subject_caller_instance_id r = caller_instance)"

definition optional_text :: "string option \<Rightarrow> json" where
  "optional_text x = (case x of None \<Rightarrow> JNull | Some s \<Rightarrow> JStr s)"

definition permit_binding_of :: "document \<Rightarrow> document result" where
  "permit_binding_of message = (case doc_get message ''permit_binding'' of JObj b \<Rightarrow> Inr b | _ \<Rightarrow> gateway_denied ''PERMIT_BINDING_INVALID'')"

text \<open>The permit binding names this request, all its hashes, and outlives it.\<close>

definition check_binding :: "'s gateway_environment \<Rightarrow> document \<Rightarrow> closed_gateway_request \<Rightarrow> document \<Rightarrow> datetime \<Rightarrow> unit result" where
  "check_binding E binding r facts now =
    (let mismatch = GatewayDenied ''PERMIT_BINDING_INVALID'' in
     rbind (case doc_get binding ''expires_at'' of JStr s \<Rightarrow>
         (case pr_fromisoformat (gw_primitives E) (zulu_offset s) of None \<Rightarrow> Inl mismatch | Some t \<Rightarrow> Inr (as_utc t))
       | _ \<Rightarrow> Inl mismatch) (\<lambda>binding_expiry.
     rbind (require (strictly_before now binding_expiry \<and> before_or_at (gr_expires_at r) binding_expiry) mismatch) (\<lambda>_.
     rbind (request_document_hash E r) (\<lambda>document_hash.
     rbind (canonical_digest (gw_primitives E) (JObj facts)) (\<lambda>facts_hash.
     require (doc_get binding ''allocated_gateway_connection_id'' = optional_text (gr_gateway_connection_id r)
       \<and> doc_get binding ''endpoint_catalog_hash'' = JStr (gr_endpoint_catalog_hash r)
       \<and> doc_get binding ''canonical_request_hash'' = JStr (gr_canonical_request_hash r)
       \<and> doc_get binding ''parameter_hash'' = JStr (gr_parameter_hash r)
       \<and> doc_get binding ''wire_bytes_hash'' = JStr (gr_wire_bytes_hash r)
       \<and> doc_get binding ''request_document_hash'' = JStr document_hash
       \<and> doc_get binding ''operation_facts_hash'' = JStr facts_hash) mismatch)))))"

definition admit :: "'s gateway_environment \<Rightarrow> bool \<Rightarrow> document \<Rightarrow> peer_credentials \<Rightarrow> datetime \<Rightarrow> (closed_gateway_request \<times> document) result" where
  "admit E journal_failed message peer now =
    (let P = gw_primitives E; invalid = GatewayDenied ''LOCAL_REQUEST_INVALID''; denied = GatewayDenied ''CALLER_ACL_DENIED'';
         caller_service = py_str (doc_get message ''caller_service''); caller_instance = py_str (doc_get message ''caller_instance_id'') in
     rbind (require (doc_get message ''message_type'' = JStr ''GatewaySendRequest'') invalid) (\<lambda>_.
     rbind (require (\<not> journal_failed) (GatewayDenied ''ALLOCATOR_UNAVAILABLE'')) (\<lambda>_.
     rbind (read_closed_request E (doc_get message ''request_document'')) (\<lambda>r.
     rbind (require (gateway_caller_allowed (gw_trust_bundle E) r peer caller_service caller_instance) denied) (\<lambda>_.
     rbind (peer_claim_hash P peer caller_service caller_instance) (\<lambda>claim.
     rbind (require (doc_get message ''peer_credential_claim_hash'' = JStr claim) denied) (\<lambda>_.
     rbind (require (strictly_before now (tb_valid_until (gw_trust_bundle E)) \<and> strictly_before now (ca_valid_until (gw_endpoint_catalog E))
         \<and> gr_endpoint_catalog_hash r = ca_catalog_hash (gw_endpoint_catalog E)) invalid) (\<lambda>_.
     case map_of (ca_endpoints (gw_endpoint_catalog E)) (gr_endpoint_authority r, gr_endpoint_id r) of None \<Rightarrow> Inl invalid
     | Some endpoint \<Rightarrow>
       rbind (validate_destination r) (\<lambda>_.
       rbind (require (before_or_at (gr_created_at r) now \<and> strictly_before now (gr_expires_at r)) invalid) (\<lambda>_.
       rbind (validate_request_against_endpoint P r endpoint) (\<lambda>facts.
       rbind (prepared_wire_bytes P r) (\<lambda>wire.
       rbind (require (sha256_hex wire = gr_wire_bytes_hash r) invalid) (\<lambda>_.
       rbind (derive_canonical_request_hash P r) (\<lambda>canonical_hash.
       rbind (require (canonical_hash = gr_canonical_request_hash r) invalid) (\<lambda>_.
       rbind (permit_binding_of message) (\<lambda>binding.
       rbind (check_binding E binding r facts now) (\<lambda>_.
       Inr (r, facts))))))))))))))))))"

section \<open>Messages to the rate service and to the caller\<close>

definition consume_request :: "'s gateway_environment \<Rightarrow> document \<Rightarrow> closed_gateway_request \<Rightarrow> document \<Rightarrow> document \<Rightarrow> datetime
     \<Rightarrow> ('s gateway_state, document) comp" where
  "consume_request E message r facts binding now =
    andThen (gateway_message_id E ''rate-msg-'') (\<lambda>message_id.
    lift (rbind (doc_item message ''correlation_id'' (KeyError ''correlation_id'')) (\<lambda>correlation_id.
      rbind (doc_item binding ''permit_id'' (KeyError ''permit_id'')) (\<lambda>permit_id.
      rbind (request_document_hash E r) (\<lambda>document_hash.
      rbind (canonical_digest (gw_primitives E) (JObj facts)) (\<lambda>facts_hash.
      rbind (doc_item binding ''causal_capability_payload_hash'' (KeyError ''causal_capability_payload_hash'')) (\<lambda>capability_hash.
      rbind (doc_item binding ''fencing_epoch'' (KeyError ''fencing_epoch'')) (\<lambda>fencing_epoch.
      Inr [(''schema_version'', JStr ''1.0.0''), (''message_type'', JStr ''PermitConsumeRequest''), (''message_id'', JStr message_id),
        (''occurred_at'', JStr (timestamp now)), (''caller_service'', JStr ''binance-egress-gateway''), (''caller_instance_id'', JStr (gw_instance_id E)),
        (''correlation_id'', correlation_id), (''permit_id'', permit_id), (''subject_caller_service'', JStr (gr_subject_caller_service r)),
        (''subject_caller_instance_id'', JStr (gr_subject_caller_instance_id r)), (''environment'', JStr (gr_environment r)),
        (''endpoint_authority'', JStr (gr_endpoint_authority r)), (''endpoint_id'', JStr (gr_endpoint_id r)),
        (''gateway_connection_id'', optional_text (gr_gateway_connection_id r)), (''endpoint_catalog_hash'', JStr (gr_endpoint_catalog_hash r)),
        (''canonical_request_hash'', JStr (gr_canonical_request_hash r)), (''gateway_derived_parameter_hash'', JStr (gr_parameter_hash r)),
        (''gateway_derived_wire_bytes_hash'', JStr (gr_wire_bytes_hash r)), (''gateway_request_document_hash'', JStr document_hash),
        (''gateway_derived_operation_facts'', JObj facts), (''gateway_derived_operation_facts_hash'', JStr facts_hash),
        (''causal_capability_payload_hash'', capability_hash), (''expected_fencing_epoch'', fencing_epoch)]))))))))"

definition time_of :: "primitives \<Rightarrow> document \<Rightarrow> string \<Rightarrow> datetime option" where
  "time_of P d k = (case map_of d k of None \<Rightarrow> None | Some v \<Rightarrow> map_option as_utc (pr_fromisoformat P (zulu_offset (py_str v))))"

definition consume_response_matches ::
  "'s gateway_environment \<Rightarrow> document \<Rightarrow> document \<Rightarrow> closed_gateway_request \<Rightarrow> document \<Rightarrow> bool result" where
  "consume_response_matches E response request_doc r binding =
    rbind (request_document_hash E r) (\<lambda>document_hash.
    Inr (doc_get response ''message_type'' = JStr ''PermitConsumeDecision'' \<and> doc_get response ''caller_service'' = JStr ''rate-budget-service''
      \<and> doc_get response ''caller_instance_id'' = JStr (gw_rate_instance_id E)
      \<and> doc_get response ''correlation_id'' = doc_get request_doc ''correlation_id''
      \<and> doc_get response ''request_message_id'' = doc_get request_doc ''message_id''
      \<and> doc_get response ''permit_id'' = doc_get binding ''permit_id''
      \<and> doc_get response ''gateway_connection_id'' = optional_text (gr_gateway_connection_id r)
      \<and> doc_get response ''canonical_request_hash'' = JStr (gr_canonical_request_hash r)
      \<and> doc_get response ''gateway_derived_parameter_hash'' = JStr (gr_parameter_hash r)
      \<and> doc_get response ''gateway_derived_wire_bytes_hash'' = JStr (gr_wire_bytes_hash r)
      \<and> doc_get response ''gateway_request_document_hash'' = JStr document_hash
      \<and> doc_get response ''gateway_derived_operation_facts_hash'' = doc_get request_doc ''gateway_derived_operation_facts_hash''
      \<and> doc_get response ''causal_capability_payload_hash'' = doc_get binding ''causal_capability_payload_hash''
      \<and> doc_get response ''fencing_epoch'' = doc_get binding ''fencing_epoch''
      \<and> (doc_get response ''decision'' \<noteq> JStr ''CONSUME_GRANTED''
         \<or> (case (time_of (gw_primitives E) response ''send_deadline'', time_of (gw_primitives E) binding ''expires_at'') of
              (Some deadline, Some binding_expiry) \<Rightarrow> doc_get response ''capability_nonce_state'' = JStr ''CONSUMED''
                \<and> doc_get response ''reason_code'' = JStr ''RATE_PERMIT_CONSUMED'' \<and> before_or_at deadline binding_expiry
                \<and> before_or_at deadline (gr_expires_at r)
            | _ \<Rightarrow> False))))"

definition option_int :: "int option \<Rightarrow> json" where
  "option_int x = (case x of None \<Rightarrow> JNull | Some n \<Rightarrow> JInt n)"

text \<open>\<open>self._rate_client.notify(document)\<close>, three times at most.\<close>

fun notify_attempts :: "nat \<Rightarrow> 's gateway_environment \<Rightarrow> document \<Rightarrow> ('s gateway_state, unit) comp" where
  "notify_attempts 0 E doc = (\<lambda>g. (Inl (GatewayDenied ''ALLOCATOR_UNAVAILABLE''), g\<lparr>gs_outcome_journal_failed := True\<rparr>))"
| "notify_attempts (Suc n) E doc = tryExcept (\<lambda>_. True) (outside_gateway (gw_rate_notify E doc)) (\<lambda>_. notify_attempts n E doc) (\<lambda>_. ret ())"

definition send_outcome ::
  "'s gateway_environment \<Rightarrow> closed_gateway_request \<Rightarrow> document \<Rightarrow> string \<Rightarrow> string \<Rightarrow> string \<Rightarrow> datetime option \<Rightarrow> gateway_transport_result option
     \<Rightarrow> ('s gateway_state, document) comp" where
  "send_outcome E r binding correlation_id outcome protocol_status sent_at result =
    (let sent = (case sent_at of None \<Rightarrow> JNull | Some t \<Rightarrow> JStr (timestamp t)); of_result = (\<lambda>f. case result of None \<Rightarrow> JNull | Some t \<Rightarrow> f t) in
     andThen (lift (doc_item binding ''permit_id'' (KeyError ''permit_id''))) (\<lambda>permit_id.
     andThen (lift (canonical_digest (gw_primitives E) (JObj [(''permit_id'', permit_id), (''outcome'', JStr outcome),
        (''protocol_status'', JStr protocol_status), (''sent_at'', sent)]))) (\<lambda>receipt.
     andThen (gateway_message_id E ''rate-msg-'') (\<lambda>message_id.
     andThen (gateway_clock E) (\<lambda>now.
     andThen (lift (doc_item binding ''fencing_epoch'' (KeyError ''fencing_epoch''))) (\<lambda>fencing_epoch.
     let doc = [(''schema_version'', JStr ''1.0.0''), (''message_type'', JStr ''SendOutcome''), (''message_id'', JStr message_id),
        (''occurred_at'', JStr (timestamp now)), (''caller_service'', JStr ''binance-egress-gateway''), (''caller_instance_id'', JStr (gw_instance_id E)),
        (''correlation_id'', JStr correlation_id), (''permit_id'', permit_id), (''gateway_connection_id'', optional_text (gr_gateway_connection_id r)),
        (''transport'', JStr (gr_transport r)), (''canonical_request_hash'', JStr (gr_canonical_request_hash r)), (''fencing_epoch'', fencing_epoch),
        (''outcome'', JStr outcome), (''protocol_status'', JStr protocol_status),
        (''connection_state_after'', of_result (optional_text \<circ> tr_connection_state_after)), (''sent_at'', sent),
        (''http_status'', of_result (option_int \<circ> tr_http_status)), (''exchange_code'', of_result (option_int \<circ> tr_exchange_code)),
        (''response_message_hash'', of_result (JStr \<circ> sha256_hex \<circ> tr_response_payload)),
        (''result_receipt_hash'', if outcome = ''SENT_DEFINITE_RESULT'' then JStr receipt else JNull)] in
     andThen (notify_attempts 3 E doc) (\<lambda>_. ret doc)))))))"

text \<open>What the caller of the gateway is told, and the context every answer repeats.\<close>

record send_context =
  sc_correlation_id :: string
  sc_request_message_id :: string
  sc_permit_id :: string

definition gateway_result ::
  "'s gateway_environment \<Rightarrow> send_context \<Rightarrow> datetime \<Rightarrow> string option \<Rightarrow> string \<Rightarrow> string \<Rightarrow> (string \<times> string) option \<Rightarrow> document option
     \<Rightarrow> string option \<Rightarrow> gateway_transport_result option \<Rightarrow> string option \<Rightarrow> ('s gateway_state, document) comp" where
  "gateway_result E c now connection_id status reason_code consume outcome protocol_status result response_payload =
    andThen (gateway_message_id E ''gateway-msg-'') (\<lambda>message_id.
    andThen (lift (case outcome of None \<Rightarrow> Inr JNull | Some d \<Rightarrow> doc_item d ''message_id'' (KeyError ''message_id''))) (\<lambda>outcome_id.
    andThen (lift (case outcome of None \<Rightarrow> Inr JNull | Some d \<Rightarrow> rbind (canonical_digest (gw_primitives E) (JObj d)) (\<lambda>h. Inr (JStr h)))) (\<lambda>outcome_hash.
    andThen (case outcome of None \<Rightarrow> ret JNull | Some _ \<Rightarrow> andThen (gateway_message_id E ''gateway-receipt-'') (\<lambda>i. ret (JStr i))) (\<lambda>receipt_id.
    ret [(''schema_version'', JStr ''1.0.0''), (''message_type'', JStr ''GatewaySendResult''), (''message_id'', JStr message_id),
      (''occurred_at'', JStr (timestamp now)), (''correlation_id'', JStr (sc_correlation_id c)), (''request_message_id'', JStr (sc_request_message_id c)),
      (''permit_id'', JStr (sc_permit_id c)), (''gateway_connection_id'', optional_text connection_id), (''status'', JStr status),
      (''reason_code'', JStr reason_code), (''protocol_status'', optional_text protocol_status),
      (''http_status'', case result of None \<Rightarrow> JNull | Some t \<Rightarrow> option_int (tr_http_status t)),
      (''exchange_code'', case result of None \<Rightarrow> JNull | Some t \<Rightarrow> option_int (tr_exchange_code t)),
      (''permit_consume_decision_message_id'', optional_text (map_option fst consume)), (''permit_consume_decision_hash'', optional_text (map_option snd consume)),
      (''send_outcome_message_id'', outcome_id), (''send_outcome_hash'', outcome_hash), (''result_receipt_id'', receipt_id), (''protected_result_ref'', JNull),
      (''response_payload_base64'', optional_text (map_option (gw_b64encode E) response_payload)),
      (''response_payload_hash'', case result of None \<Rightarrow> JNull | Some t \<Rightarrow> JStr (sha256_hex (tr_response_payload t))),
      (''sensitivity_class'', JStr (case result of None \<Rightarrow> ''PUBLIC'' | Some t \<Rightarrow> tr_sensitivity_class t)), (''logging_allowed'', JBool False)]))))"

section \<open>The pipeline\<close>

fun is_gateway_denied :: "exn \<Rightarrow> bool" where
  "is_gateway_denied (GatewayDenied _) = True"
| "is_gateway_denied _ = False"

definition is_denial :: "exn \<Rightarrow> bool" where
  "is_denial e \<longleftrightarrow> is_gateway_denied e \<or> is_value_error e"

fun is_key_error :: "exn \<Rightarrow> bool" where
  "is_key_error (KeyError _) = True"
| "is_key_error _ = False"

definition denial_reason :: "exn \<Rightarrow> string" where
  "denial_reason e = (case e of GatewayDenied s \<Rightarrow> if s \<in> {''CALLER_ACL_DENIED'', ''PERMIT_BINDING_INVALID''} then s else ''LOCAL_REQUEST_INVALID''
     | _ \<Rightarrow> ''LOCAL_REQUEST_INVALID'')"

definition not_sent ::
  "'s gateway_environment \<Rightarrow> send_context \<Rightarrow> closed_gateway_request \<Rightarrow> document \<Rightarrow> (string \<times> string) \<Rightarrow> string \<Rightarrow> ('s gateway_state, document) comp" where
  "not_sent E c r binding consume reason_code =
    andThen (send_outcome E r binding (sc_correlation_id c) ''NOT_SENT'' ''NOT_SENT'' None None) (\<lambda>outcome.
    andThen (gateway_clock E) (\<lambda>now.
    gateway_result E c now (gr_gateway_connection_id r) ''NOT_SENT_AFTER_CONSUME'' reason_code (Some consume) (Some outcome) None None None))"

definition sent_unknown ::
  "'s gateway_environment \<Rightarrow> send_context \<Rightarrow> closed_gateway_request \<Rightarrow> document \<Rightarrow> (string \<times> string) \<Rightarrow> ('s gateway_state, document) comp" where
  "sent_unknown E c r binding consume =
    andThen (gateway_clock E) (\<lambda>sent_at.
    andThen (send_outcome E r binding (sc_correlation_id c) ''SENT_UNKNOWN'' ''UNKNOWN'' (Some sent_at) None) (\<lambda>outcome.
    gateway_result E c sent_at (gr_gateway_connection_id r) ''SENT_UNKNOWN'' ''SEND_RESULT_UNKNOWN'' (Some consume) (Some outcome) (Some ''UNKNOWN'') None None))"

definition sent_definite ::
  "'s gateway_environment \<Rightarrow> send_context \<Rightarrow> document \<Rightarrow> closed_gateway_request \<Rightarrow> document \<Rightarrow> (string \<times> string) \<Rightarrow> gateway_transport_result
     \<Rightarrow> ('s gateway_state, document) comp" where
  "sent_definite E c message r binding consume result =
    andThen (gateway_clock E) (\<lambda>sent_at.
    andThen (send_outcome E r binding (sc_correlation_id c) ''SENT_DEFINITE_RESULT'' (tr_protocol_status result) (Some sent_at) (Some result)) (\<lambda>outcome.
    andThen (lift (rbind (doc_item message ''maximum_response_bytes'' (KeyError ''maximum_response_bytes'')) json_int)) (\<lambda>limit.
    let payload = (if int (length (tr_response_payload result)) \<le> limit then Some (tr_response_payload result) else None) in
    gateway_result E c sent_at (gr_gateway_connection_id r) ''SENT_DEFINITE_RESULT''
      (if payload = None then ''RESPONSE_TOO_LARGE'' else ''DEFINITE_EXCHANGE_RESULT'') (Some consume) (Some outcome)
      (Some (tr_protocol_status result)) (Some result) payload)))"

definition new_grant :: "'s gateway_environment \<Rightarrow> document \<Rightarrow> consume_granted result" where
  "new_grant E consume =
    rbind (rmap (\<lambda>k. doc_item consume k (KeyError k)) [''permit_id'', ''gateway_connection_id'', ''fencing_epoch'', ''send_deadline'', ''canonical_request_hash'',
      ''gateway_derived_parameter_hash'', ''gateway_derived_wire_bytes_hash'', ''gateway_derived_operation_facts_hash'', ''causal_capability_payload_hash'',
      ''gateway_request_document_hash'']) (\<lambda>_.
    case gw_read_grant E consume of None \<Rightarrow> Inl (ValueError ''ConsumeGranted'') | Some g \<Rightarrow> new_consume_granted g)"

text \<open>The one place that reaches the transport; the arguments of the call are evaluated under the same handler.\<close>

definition guarded_send ::
  "'s gateway_environment \<Rightarrow> closed_gateway_request \<Rightarrow> document \<Rightarrow> document \<Rightarrow> consume_granted \<Rightarrow> string \<Rightarrow> ('s gateway_state, gateway_transport_result) comp" where
  "guarded_send E r facts binding grant wire =
    andThen (gateway_clock E) (\<lambda>now.
    andThen (lift (doc_item binding ''permit_id'' (KeyError ''permit_id''))) (\<lambda>permit_id.
    andThen (lift (rbind (doc_item binding ''fencing_epoch'' (KeyError ''fencing_epoch'')) json_int)) (\<lambda>fencing_epoch.
    andThen (lift (canonical_digest (gw_primitives E) (JObj facts))) (\<lambda>facts_hash.
    andThen (lift (doc_item binding ''causal_capability_payload_hash'' (KeyError ''causal_capability_payload_hash''))) (\<lambda>capability_hash.
    gateway_send_once E r grant wire now (py_str permit_id) fencing_epoch facts_hash (py_str capability_hash))))))"

definition send_granted ::
  "'s gateway_environment \<Rightarrow> send_context \<Rightarrow> document \<Rightarrow> closed_gateway_request \<Rightarrow> document \<Rightarrow> document \<Rightarrow> (string \<times> string) \<Rightarrow> consume_granted
     \<Rightarrow> ('s gateway_state, document) comp" where
  "send_granted E c message r facts binding consume grant =
    andThen (lift (prepared_wire_bytes (gw_primitives E) r)) (\<lambda>wire.
    andThen (lift (require (sha256_hex wire = gr_wire_bytes_hash r) (GatewayDenied ''LOCAL_REQUEST_INVALID''))) (\<lambda>_.
    tryExcept (\<lambda>_. True) (guarded_send E r facts binding grant wire)
      (\<lambda>e. if is_gateway_denied e then not_sent E c r binding consume ''SEND_DEADLINE_EXPIRED'' else sent_unknown E c r binding consume)
      (\<lambda>result. sent_definite E c message r binding consume result)))"

definition after_consume ::
  "'s gateway_environment \<Rightarrow> send_context \<Rightarrow> document \<Rightarrow> closed_gateway_request \<Rightarrow> document \<Rightarrow> document \<Rightarrow> document \<Rightarrow> document \<Rightarrow> datetime
     \<Rightarrow> ('s gateway_state, document) comp" where
  "after_consume E c message r facts binding request_doc response now =
    andThen (lift (require (gw_rate_schema_valid E response) (GatewayDenied ''ALLOCATOR_RESPONSE_INVALID''))) (\<lambda>_.
    andThen (lift (canonical_digest (gw_primitives E) (JObj response))) (\<lambda>consume_hash.
    andThen (lift (doc_item response ''message_id'' (KeyError ''message_id''))) (\<lambda>message_id.
    let consume = (py_str message_id, consume_hash); granted = (doc_get response ''decision'' = JStr ''CONSUME_GRANTED'') in
    andThen (lift (consume_response_matches E response request_doc r binding)) (\<lambda>matches.
    if \<not> matches then (if granted then not_sent E c r binding consume ''LOCAL_WRITE_NOT_ATTEMPTED'' else raise (GatewayDenied ''ALLOCATOR_RESPONSE_INVALID''))
    else if \<not> granted then
      gateway_result E c now (gr_gateway_connection_id r) ''CONSUME_DENIED'' ''PERMIT_CONSUME_DENIED'' (Some consume) None None None None
    else tryExcept (\<lambda>e. is_denial e \<or> is_key_error e) (lift (new_grant E response))
      (\<lambda>_. not_sent E c r binding consume ''LOCAL_WRITE_NOT_ATTEMPTED'')
      (\<lambda>grant. send_granted E c message r facts binding consume grant)))))"

definition context_of :: "document \<Rightarrow> send_context" where
  "context_of message = \<lparr>sc_correlation_id = py_str (doc_get message ''correlation_id''), sc_request_message_id = py_str (doc_get message ''message_id''),
     sc_permit_id = (case doc_get message ''permit_binding'' of JObj b \<Rightarrow> py_str (doc_get b ''permit_id'') | _ \<Rightarrow> ''invalid-permit'')\<rparr>"

definition after_admission ::
  "'s gateway_environment \<Rightarrow> document \<Rightarrow> closed_gateway_request \<Rightarrow> document \<Rightarrow> datetime \<Rightarrow> ('s gateway_state, document) comp" where
  "after_admission E message r facts now =
    andThen (lift (permit_binding_of message)) (\<lambda>binding.
    andThen (consume_request E message r facts binding now) (\<lambda>request_doc.
    tryExcept is_os_error (outside_gateway (gw_rate_request E request_doc)) (\<lambda>_. raise (GatewayDenied ''ALLOCATOR_UNAVAILABLE'')) (\<lambda>response.
    after_consume E (context_of message) message r facts binding request_doc response now)))"

definition gateway_send :: "'s gateway_environment \<Rightarrow> document \<Rightarrow> peer_credentials \<Rightarrow> ('s gateway_state, document) comp" where
  "gateway_send E message peer =
    andThen (gateway_clock E) (\<lambda>now.
    tryExcept is_denial (\<lambda>g. (admit E (gs_outcome_journal_failed g) message peer now, g))
      (\<lambda>e. gateway_result E (context_of message) now None ''DENIED_BEFORE_CONSUME'' (denial_reason e) None None None None None)
      (\<lambda>(r, facts). after_admission E message r facts now))"

text \<open>\<open>GatewayProtocolApplication\<close>\<close>

definition gateway_protocol :: "'s gateway_environment \<Rightarrow> document \<Rightarrow> peer_credentials \<Rightarrow> ('s gateway_state, document) comp" where
  "gateway_protocol E message peer =
    andThen (lift (require (gw_ipc_schema_valid E message) (GatewayDenied ''GATEWAY_PROTOCOL_SCHEMA_INVALID''))) (\<lambda>_.
    andThen (lift (require (doc_get message ''message_type'' = JStr ''GatewaySendRequest'') (GatewayDenied ''GATEWAY_PROTOCOL_DIRECTION_INVALID''))) (\<lambda>_.
    andThen (gateway_send E message peer) (\<lambda>response.
    andThen (lift (require (gw_ipc_schema_valid E response) (GatewayDenied ''GATEWAY_RESPONSE_SCHEMA_INVALID''))) (\<lambda>_.
    ret response))))"

end
