(* ===== verification/GatewaySafety.thy ===== *)
theory GatewaySafety
  imports Gateway
begin

text \<open>
  What the send pipeline of \<open>Gateway\<close> guarantees for every rate service, transport and clock: the transport is called at most once per
  message, only for an admitted request with a matching grant in time, and the answer says truly whether it was called.
  The proofs run over an environment that records the calls of the transport; the recording is shown to change nothing.
\<close>

section \<open>Recording the transport\<close>

type_synonym transport_call = "closed_gateway_request \<times> string"

definition with_log :: "('s, 'a) comp \<Rightarrow> ('s \<times> transport_call list, 'a) comp" where
  "with_log f = (\<lambda>(s, calls). let (r, s') = f s in (r, (s', calls)))"

definition recording :: "'s gateway_environment \<Rightarrow> ('s \<times> transport_call list) gateway_environment" where
  "recording E = \<lparr>gw_primitives = gw_primitives E, gw_trust_bundle = gw_trust_bundle E, gw_endpoint_catalog = gw_endpoint_catalog E,
     gw_instance_id = gw_instance_id E, gw_rate_instance_id = gw_rate_instance_id E, gw_read_request = gw_read_request E,
     gw_read_grant = gw_read_grant E, gw_dump_request = gw_dump_request E, gw_b64encode = gw_b64encode E,
     gw_rate_schema_valid = gw_rate_schema_valid E, gw_ipc_schema_valid = gw_ipc_schema_valid E,
     gw_clock = (\<lambda>(s, calls). let (t, s') = gw_clock E s in (t, (s', calls))),
     gw_uuid = (\<lambda>(s, calls). let (t, s') = gw_uuid E s in (t, (s', calls))),
     gw_rate_request = (\<lambda>doc. with_log (gw_rate_request E doc)), gw_rate_notify = (\<lambda>doc. with_log (gw_rate_notify E doc)),
     gw_transport = (\<lambda>r wire (s, calls). let (x, s') = gw_transport E r wire s in (x, (s', calls @ [(r, wire)])))\<rparr>"

definition log_of :: "('s \<times> transport_call list) gateway_state \<Rightarrow> transport_call list" where
  "log_of g = snd (gs_outside g)"

definition forget :: "('s \<times> transport_call list) gateway_state \<Rightarrow> 's gateway_state" where
  "forget g = \<lparr>gs_outcome_journal_failed = gs_outcome_journal_failed g, gs_outside = fst (gs_outside g)\<rparr>"

lemma recording_simps [simp]:
  "gw_primitives (recording E) = gw_primitives E" "gw_trust_bundle (recording E) = gw_trust_bundle E"
  "gw_endpoint_catalog (recording E) = gw_endpoint_catalog E" "gw_instance_id (recording E) = gw_instance_id E"
  "gw_rate_instance_id (recording E) = gw_rate_instance_id E" "gw_b64encode (recording E) = gw_b64encode E"
  "gw_rate_schema_valid (recording E) = gw_rate_schema_valid E" "gw_ipc_schema_valid (recording E) = gw_ipc_schema_valid E"
  "gw_read_request (recording E) = gw_read_request E" "gw_read_grant (recording E) = gw_read_grant E" "gw_dump_request (recording E) = gw_dump_request E"
  by (simp_all add: recording_def)

lemma recording_checks [simp]:
  "request_document_hash (recording E) r = request_document_hash E r" "read_closed_request (recording E) v = read_closed_request E v"
  "check_binding (recording E) b r f t = check_binding E b r f t" "new_grant (recording E) d = new_grant E d"
  "consume_response_matches (recording E) d q r b = consume_response_matches E d q r b"
  unfolding request_document_hash_def read_closed_request_def check_binding_def new_grant_def consume_response_matches_def recording_simps
  by (rule refl)+

lemma admit_recording [simp]: "admit (recording E) failed message peer now = admit E failed message peer now"
  unfolding admit_def recording_simps recording_checks by (rule refl)

section \<open>The recording changes nothing else\<close>

named_theorems mirrors_intros \<open>computations that behave alike with and without the record\<close>

definition mirrors :: "(('s \<times> transport_call list) gateway_state, 'a) comp \<Rightarrow> ('s gateway_state, 'a) comp \<Rightarrow> bool" where
  "mirrors f f' \<longleftrightarrow> (\<forall>g. f' (forget g) = (fst (f g), forget (snd (f g))))"

lemma mirrors_lift [mirrors_intros]: "mirrors (lift x) (lift x)"
  by (simp add: mirrors_def lift_def)

lemma mirrors_ret [mirrors_intros]: "mirrors (ret x) (ret x)"
  by (simp add: mirrors_def ret_def)

lemma mirrors_raise [mirrors_intros]: "mirrors (raise e) (raise e)"
  by (simp add: mirrors_def raise_def)

lemma mirrors_andThen [mirrors_intros]:
  "mirrors f f' \<Longrightarrow> (\<And>a. mirrors (h a) (h' a)) \<Longrightarrow> mirrors (andThen f h) (andThen f' h')"
  by (auto simp: mirrors_def andThen_def split: prod.splits sum.splits)

lemma mirrors_tryExcept [mirrors_intros]:
  "mirrors f f' \<Longrightarrow> (\<And>e. mirrors (k e) (k' e)) \<Longrightarrow> (\<And>a. mirrors (h a) (h' a)) \<Longrightarrow> mirrors (tryExcept c f k h) (tryExcept c f' k' h')"
  by (auto simp: mirrors_def tryExcept_def split: prod.splits sum.splits)

lemma mirrors_if [mirrors_intros]: "mirrors f f' \<Longrightarrow> mirrors h h' \<Longrightarrow> mirrors (if b then f else h) (if b then f' else h')"
  by simp

lemma mirrors_option [mirrors_intros]:
  "mirrors f f' \<Longrightarrow> (\<And>a. mirrors (h a) (h' a)) \<Longrightarrow> mirrors (case x of None \<Rightarrow> f | Some a \<Rightarrow> h a) (case x of None \<Rightarrow> f' | Some a \<Rightarrow> h' a)"
  by (simp split: option.split)

lemma mirrors_prod [mirrors_intros]:
  "(\<And>a b. mirrors (h a b) (h' a b)) \<Longrightarrow> mirrors (case x of (a, b) \<Rightarrow> h a b) (case x of (a, b) \<Rightarrow> h' a b)"
  by (simp split: prod.split)

lemma mirrors_environment [mirrors_intros]:
  "mirrors (gateway_clock (recording E)) (gateway_clock E)" "mirrors (gateway_message_id (recording E) p) (gateway_message_id E p)"
  "mirrors (outside_gateway (gw_rate_request (recording E) doc)) (outside_gateway (gw_rate_request E doc))"
  "mirrors (outside_gateway (gw_rate_notify (recording E) doc)) (outside_gateway (gw_rate_notify E doc))"
  "mirrors (outside_gateway (gw_transport (recording E) r wire)) (outside_gateway (gw_transport E r wire))"
  by (simp_all add: mirrors_def gateway_clock_def gateway_message_id_def outside_gateway_def forget_def recording_def with_log_def split: prod.splits)

lemma mirrors_notify [mirrors_intros]: "mirrors (notify_attempts n (recording E) doc) (notify_attempts n E doc)"
proof (induction n)
  case 0
  show ?case by (simp add: mirrors_def forget_def)
qed (auto intro!: mirrors_intros)

lemma mirrors_Let [mirrors_intros]: "(\<And>x. mirrors (f x) (f' x)) \<Longrightarrow> mirrors (let x = v in f x) (let x = v in f' x)"
  by simp

lemma mirrors_result [mirrors_intros]:
  "mirrors (gateway_result (recording E) c now i s rc co oc p t rp) (gateway_result E c now i s rc co oc p t rp)"
  unfolding gateway_result_def recording_simps by (intro mirrors_intros)

lemma mirrors_outcome [mirrors_intros]: "mirrors (send_outcome (recording E) r b c oc p s t) (send_outcome E r b c oc p s t)"
  unfolding send_outcome_def recording_simps by (intro mirrors_intros)

lemma mirrors_answers [mirrors_intros]:
  "mirrors (not_sent (recording E) c r b co rc) (not_sent E c r b co rc)"
  "mirrors (sent_unknown (recording E) c r b co) (sent_unknown E c r b co)"
  "mirrors (sent_definite (recording E) c m r b co t) (sent_definite E c m r b co t)"
  unfolding not_sent_def sent_unknown_def sent_definite_def by (intro mirrors_intros)+

lemma mirrors_send [mirrors_intros]: "mirrors (send_granted (recording E) c m r f b co g) (send_granted E c m r f b co g)"
  unfolding send_granted_def guarded_send_def gateway_send_once_def recording_simps recording_checks by (intro mirrors_intros)

lemma mirrors_gateway_send: "mirrors (gateway_send (recording E) message peer) (gateway_send E message peer)"
proof -
  have admit: "mirrors (\<lambda>g. (admit (recording E) (gs_outcome_journal_failed g) message peer now, g))
      (\<lambda>g. (admit E (gs_outcome_journal_failed g) message peer now, g))" for now
    by (simp add: mirrors_def forget_def)
  show ?thesis
    unfolding gateway_send_def after_admission_def after_consume_def consume_request_def recording_simps recording_checks
    by (intro mirrors_intros admit)
qed

section \<open>Computations that do not call the transport\<close>

named_theorems quiet_intros \<open>computations without a transport call\<close>

definition quiet :: "(('s \<times> transport_call list) gateway_state, 'a) comp \<Rightarrow> bool" where
  "quiet f \<longleftrightarrow> (\<forall>g. log_of (snd (f g)) = log_of g)"

lemma quietD: "quiet f \<Longrightarrow> f g = (x, g') \<Longrightarrow> log_of g' = log_of g"
  by (metis quiet_def snd_conv)

lemma quiet_basic [quiet_intros]: "quiet (lift x)" "quiet (ret a)" "quiet (raise e)"
  by (simp_all add: quiet_def lift_def ret_def raise_def)

lemma quiet_andThen [quiet_intros]: "quiet f \<Longrightarrow> (\<And>a. quiet (h a)) \<Longrightarrow> quiet (andThen f h)"
  by (auto simp: quiet_def andThen_def split: prod.splits sum.splits) (metis snd_conv)+

lemma quiet_tryExcept [quiet_intros]:
  "quiet f \<Longrightarrow> (\<And>e. quiet (k e)) \<Longrightarrow> (\<And>a. quiet (h a)) \<Longrightarrow> quiet (tryExcept c f k h)"
  by (auto simp: quiet_def tryExcept_def split: prod.splits sum.splits) (metis snd_conv)+

lemma quiet_cases [quiet_intros]:
  "quiet f \<Longrightarrow> quiet h \<Longrightarrow> quiet (if b then f else h)"
  "quiet f \<Longrightarrow> (\<And>a. quiet (k a)) \<Longrightarrow> quiet (case x of None \<Rightarrow> f | Some a \<Rightarrow> k a)"
  "(\<And>a. quiet (k a)) \<Longrightarrow> quiet (let a = y in k a)"
  by (simp_all split: option.split)

lemma quiet_environment [quiet_intros]:
  "quiet (gateway_clock (recording E))" "quiet (gateway_message_id (recording E) p)"
  "quiet (outside_gateway (gw_rate_request (recording E) doc))" "quiet (outside_gateway (gw_rate_notify (recording E) doc))"
  by (simp_all add: quiet_def log_of_def gateway_clock_def gateway_message_id_def outside_gateway_def recording_def with_log_def split: prod.splits)

lemma quiet_notify [quiet_intros]: "quiet (notify_attempts n (recording E) doc)"
proof (induction n)
  case 0
  show ?case by (simp add: quiet_def log_of_def)
qed (auto intro!: quiet_intros)

lemma quiet_result [quiet_intros]: "quiet (gateway_result (recording E) c now i s rc co oc p t rp)"
  unfolding gateway_result_def by (intro quiet_intros)

lemma quiet_outcome [quiet_intros]: "quiet (send_outcome (recording E) r b c oc p s t)"
  unfolding send_outcome_def by (intro quiet_intros)

lemma quiet_answers [quiet_intros]:
  "quiet (not_sent (recording E) c r b co rc)" "quiet (sent_unknown (recording E) c r b co)" "quiet (sent_definite (recording E) c m r b co t)"
  unfolding not_sent_def sent_unknown_def sent_definite_def by (intro quiet_intros)+

lemma quiet_consume_request [quiet_intros]: "quiet (consume_request (recording E) m r f b now)"
  unfolding consume_request_def by (intro quiet_intros)

section \<open>At most one call\<close>

text \<open>A computation that calls the transport at most once, and then as \<open>A\<close> says.\<close>

definition calls_once :: "(transport_call \<Rightarrow> bool) \<Rightarrow> (('s \<times> transport_call list) gateway_state, 'a) comp \<Rightarrow> bool" where
  "calls_once A f \<longleftrightarrow> (\<forall>g. log_of (snd (f g)) = log_of g \<or> (\<exists>c. log_of (snd (f g)) = log_of g @ [c] \<and> A c))"

lemma calls_once_silent: "quiet f \<Longrightarrow> calls_once A f"
  by (simp add: quiet_def calls_once_def)

lemma calls_onceD: "calls_once A f \<Longrightarrow> log_of (snd (f g)) = log_of g \<or> (\<exists>c. log_of (snd (f g)) = log_of g @ [c] \<and> A c)"
  by (simp add: calls_once_def)

lemma calls_once_andThen:
  assumes "quiet f" and "\<And>a g g'. f g = (Inr a, g') \<Longrightarrow> calls_once A (h a)"
  shows "calls_once A (andThen f h)"
  unfolding calls_once_def
proof
  fix g
  obtain x g1 where f: "f g = (x, g1)" by fastforce
  then have log: "log_of g1 = log_of g" using assms(1) by (rule quietD [rotated])
  show "log_of (snd (andThen f h g)) = log_of g \<or> (\<exists>c. log_of (snd (andThen f h g)) = log_of g @ [c] \<and> A c)"
  proof (cases x)
    case (Inr a)
    with calls_onceD [OF assms(2), of g a g1 g1] f log show ?thesis by (simp add: andThen_def)
  qed (use f log in \<open>simp add: andThen_def\<close>)
qed

lemma calls_once_try:
  assumes "quiet f" and "\<And>e. calls_once A (k e)" and "\<And>a g g'. f g = (Inr a, g') \<Longrightarrow> calls_once A (h a)"
  shows "calls_once A (tryExcept c f k h)"
  unfolding calls_once_def
proof
  fix g
  obtain x g1 where f: "f g = (x, g1)" by fastforce
  then have log: "log_of g1 = log_of g" using assms(1) by (rule quietD [rotated])
  show "log_of (snd (tryExcept c f k h g)) = log_of g \<or> (\<exists>d. log_of (snd (tryExcept c f k h g)) = log_of g @ [d] \<and> A d)"
    using calls_onceD [OF assms(2), of _ g1] calls_onceD [OF assms(3), of g _ g1 g1] f log by (cases x) (simp_all add: tryExcept_def)
qed

lemma calls_once_try_send:
  assumes "calls_once A f" and "\<And>e. quiet (k e)" and "\<And>a. quiet (h a)"
  shows "calls_once A (tryExcept c f k h)"
  unfolding calls_once_def
proof
  fix g
  obtain x g1 where f: "f g = (x, g1)" by fastforce
  with assms(1) have "log_of g1 = log_of g \<or> (\<exists>d. log_of g1 = log_of g @ [d] \<and> A d)" by (metis calls_once_def snd_conv)
  moreover have "log_of (snd (tryExcept c f k h g)) = log_of g1"
    using assms(2,3) f by (cases x) (auto simp: tryExcept_def quiet_def)
  ultimately show "log_of (snd (tryExcept c f k h g)) = log_of g \<or> (\<exists>d. log_of (snd (tryExcept c f k h g)) = log_of g @ [d] \<and> A d)"
    by simp
qed

section \<open>The guarded call\<close>

text \<open>The conditions under which the grant allows the call.\<close>

definition grant_allows :: "closed_gateway_request \<Rightarrow> consume_granted \<Rightarrow> bool" where
  "grant_allows r grant \<longleftrightarrow> validate_destination r = Inr () \<and> (\<exists>now. strictly_before now (gr_expires_at r) \<and> strictly_before now (cg_send_deadline grant))
     \<and> cg_gateway_connection_id grant = gr_gateway_connection_id r \<and> cg_canonical_request_hash grant = gr_canonical_request_hash r
     \<and> cg_parameter_hash grant = gr_parameter_hash r \<and> cg_wire_bytes_hash grant = gr_wire_bytes_hash r"

lemma recorded_transport:
  assumes "outside_gateway (gw_transport (recording E) r wire) g = (x, g')"
  shows "log_of g' = log_of g @ [(r, wire)] \<and> (\<exists>s s'. gw_transport E r wire s = (x, s'))"
  using assms by (auto simp: outside_gateway_def recording_def log_of_def split: prod.splits)

lemma gateway_send_once_outcome:
  assumes "gateway_send_once (recording E) r grant wire now pid epoch fh ch g = (x, g')"
  shows "(\<exists>e. x = Inl e \<and> log_of g' = log_of g) \<or> (log_of g' = log_of g @ [(r, wire)] \<and> (\<exists>s s'. gw_transport E r wire s = (x, s')) \<and> grant_allows r grant)"
proof -
  define checks where "checks = rbind (validate_destination r) (\<lambda>_.
      rbind (require (dt_instant now < dt_instant (gr_expires_at r)) (GatewayDenied ''GATEWAY_REQUEST_EXPIRED'')) (\<lambda>_.
      rbind (require (dt_instant now < dt_instant (cg_send_deadline grant)) (GatewayDenied ''SEND_DEADLINE_EXPIRED'')) (\<lambda>_.
      rbind (require (cg_permit_id grant \<noteq> []) (GatewayDenied ''PERMIT_ID_MISSING'')) (\<lambda>_.
      rbind (request_document_hash (recording E) r) (\<lambda>document_hash.
      require (cg_permit_id grant = pid \<and> cg_gateway_connection_id grant = gr_gateway_connection_id r
        \<and> cg_fencing_epoch grant = epoch \<and> gr_canonical_request_hash r = cg_canonical_request_hash grant
        \<and> gr_parameter_hash r = cg_parameter_hash grant \<and> gr_wire_bytes_hash r = cg_wire_bytes_hash grant
        \<and> document_hash = cg_gateway_request_document_hash grant \<and> cg_operation_facts_hash grant = fh
        \<and> cg_capability_payload_hash grant = ch) (GatewayDenied ''CONSUME_GRANT_BINDING_MISMATCH''))))))"
  have run: "andThen (lift checks) (\<lambda>_. outside_gateway (gw_transport (recording E) r wire)) g = (x, g')"
    using assms by (simp only: gateway_send_once_def checks_def)
  show ?thesis
  proof (cases checks)
    case (Inr u)
    then have "grant_allows r grant" by (auto simp: checks_def grant_allows_def)
    moreover from run Inr have "outside_gateway (gw_transport (recording E) r wire) g = (x, g')" by (simp add: andThen_def lift_def)
    ultimately show ?thesis using recorded_transport by blast
  qed (use run in \<open>auto simp: andThen_def lift_def\<close>)
qed

lemma clock_returns: obtains now g' where "gateway_clock E g = (Inr now, g')"
proof (cases "gw_clock E (gs_outside g)")
  case (Pair t s)
  then show thesis by (intro that [of t "g\<lparr>gs_outside := s\<rparr>"]) (simp add: gateway_clock_def outside_gateway_def)
qed

lemma guarded_send_outcome:
  assumes "guarded_send (recording E) r facts binding grant wire g = (x, g')"
  shows "(\<exists>e. x = Inl e \<and> log_of g' = log_of g) \<or> (log_of g' = log_of g @ [(r, wire)] \<and> (\<exists>s s'. gw_transport E r wire s = (x, s')) \<and> grant_allows r grant)"
proof -
  obtain now g1 where clock: "gateway_clock (recording E) g = (Inr now, g1)" by (rule clock_returns)
  then have log: "log_of g1 = log_of g" by (rule quietD [OF quiet_environment(1)])
  show ?thesis
  proof (cases "\<exists>pid epoch fh ch. gateway_send_once (recording E) r grant wire now pid epoch fh ch g1 = (x, g')")
    case True
    then show ?thesis using gateway_send_once_outcome log by metis
  next
    case False
    then show ?thesis using assms clock log
      by (auto simp: guarded_send_def andThen_def lift_def split: sum.splits prod.splits)
  qed
qed

section \<open>What is sent was admitted and granted\<close>

text \<open>A call of the transport on behalf of a message: the message was admitted with this request, the bytes are the prepared
  ones, and a decision of the rate service on this request grants it.\<close>

definition sound_call :: "'s gateway_environment \<Rightarrow> document \<Rightarrow> peer_credentials \<Rightarrow> transport_call \<Rightarrow> bool" where
  "sound_call E message peer c = (case c of (r, wire) \<Rightarrow>
     (\<exists>now facts. admit E False message peer now = Inr (r, facts))
     \<and> prepared_wire_bytes (gw_primitives E) r = Inr wire \<and> sha256_hex wire = gr_wire_bytes_hash r
     \<and> (\<exists>request_doc s s' response grant. gw_rate_request E request_doc s = (Inr response, s')
          \<and> doc_get request_doc ''canonical_request_hash'' = JStr (gr_canonical_request_hash r)
          \<and> doc_get response ''decision'' = JStr ''CONSUME_GRANTED'' \<and> new_grant E response = Inr grant \<and> grant_allows r grant))"

lemma sends_granted:
  assumes "\<And>wire. prepared_wire_bytes (gw_primitives E) r = Inr wire \<Longrightarrow> sha256_hex wire = gr_wire_bytes_hash r \<Longrightarrow> grant_allows r grant \<Longrightarrow> A (r, wire)"
  shows "calls_once A (send_granted (recording E) c message r facts binding consume grant)"
  unfolding send_granted_def
proof (intro calls_once_andThen calls_once_try_send quiet_intros)
  fix wire g g' u h h'
  assume "lift (prepared_wire_bytes (gw_primitives (recording E)) r) g = (Inr wire, g')"
    and "lift (require (sha256_hex wire = gr_wire_bytes_hash r) (GatewayDenied ''LOCAL_REQUEST_INVALID'')) h = (Inr u, h')"
  then have wire: "prepared_wire_bytes (gw_primitives E) r = Inr wire" "sha256_hex wire = gr_wire_bytes_hash r" by (simp_all add: lift_def)
  show "calls_once A (guarded_send (recording E) r facts binding grant wire)"
    unfolding calls_once_def using guarded_send_outcome [of E r facts binding grant wire] assms [OF wire]
    by (metis prod.collapse)
qed

lemma request_doc_hash:
  assumes "consume_request E message r facts binding now g = (Inr d, g')"
  shows "doc_get d ''canonical_request_hash'' = JStr (gr_canonical_request_hash r)"
  using assms unfolding consume_request_def
  by (auto elim!: andThen_InrE simp: lift_def) (simp add: doc_get_def)

lemma answers_to_consume:
  assumes "\<And>wire grant. doc_get response ''decision'' = JStr ''CONSUME_GRANTED'' \<Longrightarrow> new_grant E response = Inr grant
      \<Longrightarrow> prepared_wire_bytes (gw_primitives E) r = Inr wire \<Longrightarrow> sha256_hex wire = gr_wire_bytes_hash r \<Longrightarrow> grant_allows r grant \<Longrightarrow> A (r, wire)"
  shows "calls_once A (after_consume (recording E) c message r facts binding request_doc response now)"
proof -
  have send: "calls_once A (send_granted (recording E) c message r facts binding consume grant)"
    if "lift (new_grant E response) g = (Inr grant, g')" "doc_get response ''decision'' = JStr ''CONSUME_GRANTED''" for consume grant and g g'
    by (rule sends_granted) (use that assms in \<open>simp add: lift_def\<close>)
  have granted: "calls_once A (tryExcept (\<lambda>e. is_denial e \<or> is_key_error e) (lift (new_grant E response))
      (\<lambda>_. not_sent (recording E) c r binding consume ''LOCAL_WRITE_NOT_ATTEMPTED'')
      (\<lambda>grant. send_granted (recording E) c message r facts binding consume grant))"
    if "doc_get response ''decision'' = JStr ''CONSUME_GRANTED''" for consume
    by (rule calls_once_try) (auto intro: send that calls_once_silent quiet_intros)
  show ?thesis
    unfolding after_consume_def Let_def
    by (intro calls_once_andThen quiet_intros) (auto intro: granted calls_once_silent quiet_intros)
qed

lemma gateway_sends_soundly: "calls_once (sound_call E message peer) (gateway_send (recording E) message peer)"
proof -
  have after: "calls_once (sound_call E message peer) (after_admission (recording E) message r facts now)"
    if admitted: "admit E False message peer now = Inr (r, facts)" for r facts now
    unfolding after_admission_def
  proof (intro calls_once_andThen calls_once_try quiet_intros)
    fix binding g g' request_doc h h' response k k'
    assume "consume_request (recording E) message r facts binding now h = (Inr request_doc, h')"
      and "outside_gateway (gw_rate_request (recording E) request_doc) k = (Inr response, k')"
    then have hash: "doc_get request_doc ''canonical_request_hash'' = JStr (gr_canonical_request_hash r)"
        and asked: "\<exists>s s'. gw_rate_request E request_doc s = (Inr response, s')"
      by (auto simp: request_doc_hash outside_gateway_def recording_def with_log_def split: prod.splits)
    show "calls_once (sound_call E message peer)
        (after_consume (recording E) (context_of message) message r facts binding request_doc response now)"
      by (rule answers_to_consume) (use admitted hash asked in \<open>unfold sound_call_def prod.case; blast\<close>)
  qed (intro calls_once_silent quiet_intros)
  show ?thesis
    unfolding gateway_send_def
  proof (intro calls_once_andThen calls_once_try quiet_environment)
    fix now g g' a h h' e
    show "calls_once (sound_call E message peer)
        (gateway_result (recording E) (context_of message) now None ''DENIED_BEFORE_CONSUME'' (denial_reason e) None None None None None)"
      by (intro calls_once_silent quiet_intros)
    show "quiet (\<lambda>g. (admit (recording E) (gs_outcome_journal_failed g) message peer now, g))" by (simp add: quiet_def)
    assume "(admit (recording E) (gs_outcome_journal_failed h) message peer now, h) = (Inr a, h')"
    then have "admit E (gs_outcome_journal_failed h) message peer now = Inr a" by auto
    moreover from this have "\<not> gs_outcome_journal_failed h" by (auto simp: admit_def Let_def)
    ultimately show "calls_once (sound_call E message peer) (case a of (r, facts) \<Rightarrow> after_admission (recording E) message r facts now)"
      by (cases a) (simp add: after)
  qed
qed


section \<open>The answer tells whether the transport was called\<close>

definition UNSENT :: "string set" where
  "UNSENT = {''DENIED_BEFORE_CONSUME'', ''CONSUME_DENIED'', ''NOT_SENT_AFTER_CONSUME''}"

definition told :: "transport_call list \<Rightarrow> document \<Rightarrow> transport_call list \<Rightarrow> bool" where
  "told calls d calls' \<longleftrightarrow> (\<exists>status. doc_get d ''status'' = JStr status
     \<and> (status \<in> UNSENT \<and> calls' = calls \<or> status = ''SENT_UNKNOWN'' \<or> status = ''SENT_DEFINITE_RESULT'' \<and> (\<exists>c. calls' = calls @ [c])))"

text \<open>Answers with a given status.\<close>

definition answers :: "string \<Rightarrow> (('s \<times> transport_call list) gateway_state, document) comp \<Rightarrow> bool" where
  "answers status f \<longleftrightarrow> quiet f \<and> returns (\<lambda>d. doc_get d ''status'' = JStr status) f"

lemma answers_told:
  "answers status f \<Longrightarrow> f g = (Inr d, g') \<Longrightarrow> doc_get d ''status'' = JStr status \<and> log_of g' = log_of g"
  by (auto simp: answers_def dest: quietD returnsD)

lemma answers_result: "answers s (gateway_result (recording E) c now i s rc co oc p t rp)"
  unfolding answers_def
  by (rule conjI, intro quiet_intros) (auto simp: gateway_result_def doc_get_def intro!: returns_intros)

lemma answers_andThen: "quiet f \<Longrightarrow> (\<And>a. answers s (h a)) \<Longrightarrow> answers s (andThen f h)"
  by (auto simp: answers_def intro: quiet_intros returns_intros)

lemma answers_raise: "answers s (raise e)"
  by (auto simp: answers_def intro: quiet_intros returns_intros)

lemma answers_statuses:
  "answers ''NOT_SENT_AFTER_CONSUME'' (not_sent (recording E) c r b co rc)"
  "answers ''SENT_UNKNOWN'' (sent_unknown (recording E) c r b co)"
  "answers ''SENT_DEFINITE_RESULT'' (sent_definite (recording E) c m r b co t)"
  unfolding not_sent_def sent_unknown_def sent_definite_def Let_def by (intro answers_andThen answers_result quiet_intros)+

definition tells :: "(('s \<times> transport_call list) gateway_state, document) comp \<Rightarrow> bool" where
  "tells f \<longleftrightarrow> (\<forall>g d g'. f g = (Inr d, g') \<longrightarrow> told (log_of g) d (log_of g'))"

lemma tells_answers: "answers s f \<Longrightarrow> s \<in> UNSENT \<Longrightarrow> tells f"
  unfolding tells_def told_def using answers_told by blast

lemma tells_andThen: "quiet f \<Longrightarrow> (\<And>a. tells (h a)) \<Longrightarrow> tells (andThen f h)"
  unfolding tells_def by (metis andThen_InrE quietD)

lemma tells_tryExcept:
  assumes "quiet f" "\<And>e. tells (k e)" "\<And>a. tells (h a)"
  shows "tells (tryExcept c f k h)"
  unfolding tells_def
proof (intro allI impI)
  fix g d g' assume run: "tryExcept c f k h g = (Inr d, g')"
  obtain x g1 where f: "f g = (x, g1)" by fastforce
  then have "log_of g1 = log_of g" using assms(1) by (rule quietD [rotated])
  moreover have "told (log_of g1) d (log_of g')"
    using run f assms(2,3) unfolding tells_def by (cases x) (auto simp: tryExcept_def split: if_splits)
  ultimately show "told (log_of g) d (log_of g')" by simp
qed

lemma tells_send:
  assumes "\<And>w s e s'. gw_transport E r w s = (Inl e, s') \<Longrightarrow> \<not> is_gateway_denied e"
  shows "tells (send_granted (recording E) c message r facts binding consume grant)"
  unfolding send_granted_def
proof (intro tells_andThen quiet_intros)
  fix wire
  show "tells (tryExcept (\<lambda>_. True) (guarded_send (recording E) r facts binding grant wire)
      (\<lambda>e. if is_gateway_denied e then not_sent (recording E) c r binding consume ''SEND_DEADLINE_EXPIRED'' else sent_unknown (recording E) c r binding consume)
      (sent_definite (recording E) c message r binding consume))"
    unfolding tells_def
  proof (intro allI impI)
    fix g d g'
    assume run: "tryExcept (\<lambda>_. True) (guarded_send (recording E) r facts binding grant wire)
      (\<lambda>e. if is_gateway_denied e then not_sent (recording E) c r binding consume ''SEND_DEADLINE_EXPIRED'' else sent_unknown (recording E) c r binding consume)
      (sent_definite (recording E) c message r binding consume) g = (Inr d, g')"
    obtain x g1 where x: "guarded_send (recording E) r facts binding grant wire g = (x, g1)" by fastforce
    note outcome = guarded_send_outcome [OF x]
    show "told (log_of g) d (log_of g')"
    proof (cases x)
      case (Inl e)
      show ?thesis
      proof (cases "is_gateway_denied e")
        case True
        then have "log_of g1 = log_of g" using outcome Inl assms by blast
        with True run x Inl answers_told [OF answers_statuses(1), of E c r binding consume _ g1 d g'] show ?thesis
          by (simp add: tryExcept_def told_def UNSENT_def)
      next
        case False
        with run x Inl answers_told [OF answers_statuses(2), of E c r binding consume g1 d g'] show ?thesis
          by (simp add: tryExcept_def told_def)
      qed
    next
      case (Inr t)
      then have "\<exists>c. log_of g1 = log_of g @ [c]" using outcome by blast
      with run x Inr answers_told [OF answers_statuses(3), of E c message r binding consume t g1 d g'] show ?thesis
        by (auto simp: tryExcept_def told_def)
    qed
  qed
qed

lemma tells_result: "s \<in> UNSENT \<Longrightarrow> tells (gateway_result (recording E) c now i s rc co oc p t rp)"
  by (rule tells_answers [OF answers_result])

lemma tells_after_consume:
  assumes "\<And>r w s e s'. gw_transport E r w s = (Inl e, s') \<Longrightarrow> \<not> is_gateway_denied e"
  shows "tells (after_consume (recording E) c message r facts binding request_doc response now)"
proof -
  have unsent: "tells (not_sent (recording E) c r binding consume rc)" "tells (raise e)" for consume rc e
    by (auto intro: tells_answers [OF answers_statuses(1)] tells_answers [OF answers_raise] simp: UNSENT_def)
  show ?thesis
    unfolding after_consume_def Let_def
    by (intro tells_andThen quiet_intros)
       (auto intro!: unsent tells_result tells_tryExcept tells_send quiet_intros assms simp: UNSENT_def)
qed

lemma gateway_tells:
  assumes "\<And>r w s e s'. gw_transport E r w s = (Inl e, s') \<Longrightarrow> \<not> is_gateway_denied e"
  shows "tells (gateway_send (recording E) message peer)"
proof -
  have admit: "quiet (\<lambda>g. (admit (recording E) (gs_outcome_journal_failed g) message peer now, g))" for now by (simp add: quiet_def)
  have after: "tells (after_admission (recording E) message r facts now)" for r facts now
    unfolding after_admission_def
    by (intro tells_andThen tells_tryExcept quiet_intros tells_answers [OF answers_raise, of "''CONSUME_DENIED''"] tells_after_consume assms)
       (simp add: UNSENT_def)
  show ?thesis
    unfolding gateway_send_def
    by (intro tells_andThen tells_tryExcept quiet_environment admit) (auto intro: tells_result after simp: UNSENT_def)
qed

text \<open>C16: Unless the transport itself raises the gateway's own denial, an answer tells the truth: one that says that nothing was
  sent means that the transport was not called, one with a definite result that it was called exactly once. The only other
  status says that the result is unknown.\<close>

theorem answer_tells_whether_sent:
  assumes "\<forall>r w s e s'. gw_transport E r w s = (Inl e, s') \<longrightarrow> \<not> is_gateway_denied e"
    and "gateway_send (recording E) message peer g = (Inr answer, g')"
  shows "\<exists>status. doc_get answer ''status'' = JStr status
    \<and> (status \<in> {''DENIED_BEFORE_CONSUME'', ''CONSUME_DENIED'', ''NOT_SENT_AFTER_CONSUME''} \<and> log_of g' = log_of g
       \<or> status = ''SENT_UNKNOWN'' \<or> status = ''SENT_DEFINITE_RESULT'' \<and> (\<exists>c. log_of g' = log_of g @ [c]))"
  using gateway_tells [of E message peer] assms unfolding tells_def told_def UNSENT_def by blast

definition sample_gateway :: "nat gateway_environment" where
  "sample_gateway = \<lparr>gw_primitives = sample_primitives, gw_trust_bundle = sample_trust,
     gw_endpoint_catalog = \<lparr>ca_catalog_id = ''catalog-1'', ca_catalog_hash = ''h'', ca_checked_at = sample_now, ca_valid_until = sample_now, ca_endpoints = []\<rparr>,
     gw_instance_id = ''gateway-1'', gw_rate_instance_id = ''rate-1'', gw_read_request = (\<lambda>_. None), gw_read_grant = (\<lambda>_. None),
     gw_dump_request = (\<lambda>_. JNull), gw_b64encode = id, gw_rate_schema_valid = (\<lambda>_. True), gw_ipc_schema_valid = (\<lambda>_. True),
     gw_clock = (\<lambda>n. (sample_now, n + 1)), gw_uuid = (\<lambda>n. (''u'', n + 1)), gw_rate_request = (\<lambda>_. raise (OSError ''closed'')),
     gw_rate_notify = (\<lambda>_. ret ()), gw_transport = (\<lambda>_ _. raise (OSError ''reset''))\<rparr>"

lemma sample_gateway_answers:
  "\<exists>answer g'. gateway_send (recording sample_gateway) [(''message_type'', JStr ''GatewaySendRequest'')] sample_peer \<lparr>gs_outcome_journal_failed = False, gs_outside = (0, [])\<rparr>
    = (Inr answer, g') \<and> doc_get answer ''status'' = JStr ''DENIED_BEFORE_CONSUME''"
  by (simp add: gateway_send_def andThen_def tryExcept_def admit_def Let_def read_closed_request_def doc_get_def gateway_denied_def is_denial_def
    gateway_result_def lift_def ret_def gateway_clock_def gateway_message_id_def outside_gateway_def recording_def sample_gateway_def)

theorem answer_tells_whether_sent_witness:
  "\<exists>answer g'. gateway_send (recording sample_gateway) [(''message_type'', JStr ''GatewaySendRequest'')] sample_peer
      \<lparr>gs_outcome_journal_failed = False, gs_outside = (0, [])\<rparr> = (Inr answer, g') \<and> log_of g' = []"
proof -
  obtain answer g' where run: "gateway_send (recording sample_gateway) [(''message_type'', JStr ''GatewaySendRequest'')] sample_peer
      \<lparr>gs_outcome_journal_failed = False, gs_outside = (0, [])\<rparr> = (Inr answer, g')" "doc_get answer ''status'' = JStr ''DENIED_BEFORE_CONSUME''"
    using sample_gateway_answers by blast
  have "\<forall>r w s e s'. gw_transport sample_gateway r w s = (Inl e, s') \<longrightarrow> \<not> is_gateway_denied e"
    by (auto simp: sample_gateway_def raise_def)
  from answer_tells_whether_sent [OF this run(1)] run show ?thesis by (auto simp: log_of_def)
qed

text \<open>A transport that raises the denial of the gateway after it has been called is reported as if nothing had been sent.\<close>

lemma denial_of_transport_is_reported_unsent:
  assumes "guarded_send E r facts binding grant wire g = (Inl (GatewayDenied reason), g')"
    and "prepared_wire_bytes (gw_primitives E) r = Inr wire" "sha256_hex wire = gr_wire_bytes_hash r"
  shows "send_granted E c message r facts binding consume grant g = not_sent E c r binding consume ''SEND_DEADLINE_EXPIRED'' g'"
  using assms by (simp add: send_granted_def andThen_def lift_def tryExcept_def)

end
