(* ===== verification/Evidence.thy ===== *)
theory Evidence
  imports Catalog
begin

text \<open>
  \<open>binance_egress/startup.py\<close> and \<open>readiness_measurements.py\<close>: signed evidence of the measured state of the host, which is short-lived, bound to what the
  gateway expects and read again before every controlled operation. The signing key, the identity of the process and the
  schema validator are parameters; the publication of a file is left to the operating system.
\<close>

section \<open>Values and sets\<close>

text \<open>\<open>frozenset(value)\<close> of a JSON value: a list, the characters of a text or the keys of an object.\<close>

definition json_set :: "json \<Rightarrow> json set result" where
  "json_set v = (case v of
     JArr vs \<Rightarrow> if list_all hashable vs then Inr (set vs) else Inl (TypeError ''unhashable type'')
   | JStr s \<Rightarrow> Inr (set (map (\<lambda>c. JStr [c]) s))
   | JObj d \<Rightarrow> Inr (set (map (JStr \<circ> fst) d))
   | _ \<Rightarrow> Inl (TypeError ''object is not iterable''))"

definition json_set_or_empty :: "document \<Rightarrow> string \<Rightarrow> json set result" where
  "json_set_or_empty d k = (case map_of d k of None \<Rightarrow> Inr {} | Some v \<Rightarrow> json_set v)"

definition texts :: "string list \<Rightarrow> json set" where
  "texts xs = JStr ` set xs"

text \<open>Equality with a dictionary of texts, whatever the order of the keys.\<close>

definition equals_texts :: "json \<Rightarrow> (string, string) dict \<Rightarrow> bool" where
  "equals_texts v d = (case v of JObj kvs \<Rightarrow> set kvs = (\<lambda>(k, s). (k, JStr s)) ` set d | _ \<Rightarrow> False)"

section \<open>Expectations and measurements\<close>

definition MEASUREMENT_BINDING_FIELDS :: "string list" where
  "MEASUREMENT_BINDING_FIELDS = [''stage'', ''enabled_environments'', ''enabled_authorities'', ''host_boot_id'', ''release_binding'', ''artifact_binding'',
    ''database_authority'', ''sockets'', ''network_boundary'', ''authority_observations'', ''nonce_permit_integrity'', ''bootstrap_chain'', ''readiness'']"

record startup_evidence_expectation =
  se_measurement_hash :: string
  se_stage :: string
  se_enabled_environments :: "string list"
  se_enabled_authorities :: "string list"
  se_host_boot_id :: string
  se_fencing_epoch :: int
  se_fencing_owner_instance_id :: string
  se_artifact_binding :: "(string, string) dict"
  se_release_binding :: "(string, string) dict"

definition startup_measurement_hash :: "primitives \<Rightarrow> document \<Rightarrow> string result" where
  "startup_measurement_hash P content =
    rbind (permit_if (list_all (\<lambda>field. map_of content field \<noteq> None) MEASUREMENT_BINDING_FIELDS) ''STARTUP_EVIDENCE_BINDING_MISMATCH'') (\<lambda>_.
    canonical_digest P (JObj (map (\<lambda>field. (field, doc_get content field)) MEASUREMENT_BINDING_FIELDS)))"

definition evidence_time :: "primitives \<Rightarrow> json \<Rightarrow> datetime result" where
  "evidence_time P v = parse_time P v ''STARTUP_EVIDENCE_TIME_INVALID''"

section \<open>Verification\<close>

definition evidence_signature :: "primitives \<Rightarrow> runtime_trust_bundle \<Rightarrow> json \<Rightarrow> string \<Rightarrow> datetime \<Rightarrow> (attestation_signer_policy \<times> datetime) result" where
  "evidence_signature P tb raw digest_text now =
    (let invalid = ''STARTUP_EVIDENCE_SIGNATURE_INVALID'' in
     rbind (as_mapping raw invalid) (\<lambda>signature.
     rbind (permit_if (doc_get signature ''algorithm'' = JStr ''Ed25519'') invalid) (\<lambda>_.
     rbind (required_text (doc_get signature ''key_id'') invalid) (\<lambda>key_id.
     case map_of (tb_attestation_signers tb) key_id of None \<Rightarrow> authorization_denied invalid
     | Some signer \<Rightarrow>
       rbind (evidence_time P (doc_get signature ''signed_at'')) (\<lambda>signed_at.
       rbind (decode_base64 P (doc_get signature ''signature_base64'') 64 invalid) (\<lambda>bytes.
       rbind (permit_if (before_or_at (tb_issued_at tb) signed_at \<and> before_or_at signed_at now \<and> strictly_before now (tb_valid_until tb)
          \<and> before_or_at (as_not_before signer) signed_at \<and> strictly_before now (as_not_after signer)) invalid) (\<lambda>_.
       rbind (permit_if (pr_verify P (as_public_key signer) bytes digest_text) invalid) (\<lambda>_.
       Inr (signer, signed_at)))))))))"

definition evidence_binding ::
  "primitives \<Rightarrow> document \<Rightarrow> startup_evidence_expectation \<Rightarrow> attestation_signer_policy \<Rightarrow> datetime \<Rightarrow> datetime \<Rightarrow> datetime result" where
  "evidence_binding P content ex signer signed_at now =
    (let mismatch = ''STARTUP_EVIDENCE_BINDING_MISMATCH'' in
     rbind (evidence_time P (doc_get content ''issued_at'')) (\<lambda>issued_at.
     rbind (evidence_time P (doc_get content ''expires_at'')) (\<lambda>expires_at.
     rbind (permit_if (before_or_at issued_at signed_at \<and> before_or_at signed_at now \<and> strictly_before now expires_at
         \<and> dt_instant expires_at - dt_instant issued_at \<le> seconds (as_max_evidence_ttl_seconds signer)
         \<and> doc_get content ''stage'' = JStr (se_stage ex)) mismatch) (\<lambda>_.
     rbind (json_set_or_empty content ''enabled_environments'') (\<lambda>environments.
     rbind (permit_if (environments = texts (se_enabled_environments ex)) mismatch) (\<lambda>_.
     rbind (json_set_or_empty content ''enabled_authorities'') (\<lambda>authorities.
     rbind (permit_if (authorities = texts (se_enabled_authorities ex)
         \<and> doc_get content ''host_boot_id'' = JStr (se_host_boot_id ex)
         \<and> equals_texts (doc_get content ''artifact_binding'') (se_artifact_binding ex)
         \<and> equals_texts (doc_get content ''release_binding'') (se_release_binding ex)) mismatch) (\<lambda>_.
     rbind (startup_measurement_hash P content) (\<lambda>h.
     rbind (permit_if (h = se_measurement_hash ex) mismatch) (\<lambda>_.
     rbind (as_mapping (doc_get content ''database_authority'') mismatch) (\<lambda>database.
     rbind (permit_if (doc_get database ''fencing_epoch'' = JInt (se_fencing_epoch ex)
         \<and> doc_get database ''fencing_owner_instance_id'' = JStr (se_fencing_owner_instance_id ex)) mismatch) (\<lambda>_.
     Inr issued_at))))))))))))"

text \<open>Every observation is of its own enabled authority and was made in the time that the signer allows before the issue.\<close>

definition evidence_observations ::
  "primitives \<Rightarrow> json \<Rightarrow> startup_evidence_expectation \<Rightarrow> attestation_signer_policy \<Rightarrow> datetime \<Rightarrow> unit result" where
  "evidence_observations P raw ex signer issued_at =
    (let invalid = ''STARTUP_EVIDENCE_OBSERVATIONS_INVALID'' in
     rbind (as_list raw invalid) (\<lambda>items.
     rbind (rmap (\<lambda>item. as_mapping item invalid) items) (\<lambda>observations.
     rbind (permit_if (length observations = card (set (se_enabled_authorities ex))) invalid) (\<lambda>_.
     rbind (json_set (JArr (map (\<lambda>o1. doc_get o1 ''endpoint_authority'') observations))) (\<lambda>observed.
     rbind (permit_if (observed = texts (se_enabled_authorities ex)) invalid) (\<lambda>_.
     rbind (rmap (\<lambda>o1. rbind (evidence_time P (doc_get o1 ''observed_at'')) (\<lambda>t.
         permit_if (dt_instant issued_at - seconds (as_max_evidence_ttl_seconds signer) \<le> dt_instant t \<and> before_or_at t issued_at) invalid)) observations) (\<lambda>_.
     Inr ())))))))"

definition VALIDATION_AUTHORITIES :: "string set" where
  "VALIDATION_AUTHORITIES = {''BINANCE_PRODUCTION_FAPI'', ''BINANCE_PRODUCTION_FSTREAM'', ''BINANCE_TESTNET_FAPI'', ''BINANCE_TESTNET_FSTREAM''}"

definition verify_startup_evidence ::
  "primitives \<Rightarrow> document \<Rightarrow> runtime_trust_bundle \<Rightarrow> startup_evidence_expectation \<Rightarrow> datetime \<Rightarrow> verified_signed_document result" where
  "verify_startup_evidence P document tb ex now =
    rbind (as_mapping (doc_get document ''content'') ''STARTUP_EVIDENCE_INVALID'') (\<lambda>content.
    rbind (permit_if (doc_get content ''evidence_status'' = JStr ''SIGNED_READY'') ''STARTUP_EVIDENCE_INVALID'') (\<lambda>_.
    rbind (canonical_digest P (JObj content)) (\<lambda>digest_text.
    rbind (permit_if (doc_get document ''evidence_hash'' = JStr digest_text) ''STARTUP_EVIDENCE_HASH_MISMATCH'') (\<lambda>_.
    rbind (evidence_signature P tb (doc_get document ''signature'') digest_text now) (\<lambda>(signer, signed_at).
    rbind (evidence_binding P content ex signer signed_at now) (\<lambda>issued_at.
    rbind (evidence_observations P (doc_get content ''authority_observations'') ex signer issued_at) (\<lambda>_.
    rbind (permit_if (se_stage ex = ''validation'' \<longrightarrow> set (se_enabled_environments ex) = {''shadow'', ''testnet''}
        \<and> set (se_enabled_authorities ex) = VALIDATION_AUTHORITIES) ''STARTUP_EVIDENCE_STAGE_INVALID'') (\<lambda>_.
    Inr \<lparr>vs_content = content, vs_content_hash = digest_text, vs_signed_at = signed_at\<rparr>))))))))"

section \<open>Issue and use\<close>

text \<open>The private key signs a digest; \<open>euid\<close> and \<open>egid\<close> are those of the process.\<close>

definition issue_startup_evidence ::
  "primitives \<Rightarrow> (string \<Rightarrow> string) \<Rightarrow> (string \<Rightarrow> string) \<Rightarrow> (document \<Rightarrow> bool) \<Rightarrow> int \<Rightarrow> int \<Rightarrow> document \<Rightarrow> runtime_trust_bundle \<Rightarrow> string \<Rightarrow> string
     \<Rightarrow> startup_evidence_expectation \<Rightarrow> datetime \<Rightarrow> document result" where
  "issue_startup_evidence P sign b64encode schema_valid euid egid content tb key_id nonce ex now =
    rbind (permit_if (case map_of (tb_attestation_signers tb) key_id of None \<Rightarrow> False
       | Some signer \<Rightarrow> before_or_at (tb_issued_at tb) now \<and> strictly_before now (tb_valid_until tb)
           \<and> before_or_at (as_not_before signer) now \<and> strictly_before now (as_not_after signer)
           \<and> euid = as_holder_uid signer \<and> egid = as_holder_gid signer) ''ATTESTATION_SIGNER_NOT_AUTHORIZED'') (\<lambda>_.
    rbind (canonical_digest P (JObj content)) (\<lambda>digest_text.
    let document = [(''schema_version'', JStr ''1.0.0''), (''evidence_hash'', JStr digest_text), (''content'', JObj content),
       (''signature'', JObj [(''algorithm'', JStr ''Ed25519''), (''key_id'', JStr key_id),
          (''signed_at'', JStr (let s = isoformat_utc now in take (length s - 6) s @ ''Z'')), (''nonce'', JStr nonce),
          (''signature_base64'', JStr (b64encode (sign digest_text)))])] in
    rbind (permit_if (schema_valid document) ''STARTUP_EVIDENCE_SCHEMA_INVALID'') (\<lambda>_.
    rbind (verify_startup_evidence P document tb ex now) (\<lambda>_.
    Inr document))))"

definition load_startup_evidence ::
  "primitives \<Rightarrow> 's file_system \<Rightarrow> (json \<Rightarrow> string option) \<Rightarrow> path \<Rightarrow> runtime_trust_bundle \<Rightarrow> startup_evidence_expectation \<Rightarrow> datetime
     \<Rightarrow> ('s, verified_signed_document) comp" where
  "load_startup_evidence P F schema_errors evidence_path tb ex now =
    andThen (validate_config F schema_errors evidence_path) (\<lambda>evidence. case evidence of
      JObj d \<Rightarrow> lift (verify_startup_evidence P d tb ex now) | _ \<Rightarrow> deny ''STARTUP_EVIDENCE_INVALID'')"

definition evidence_file_identity :: "file_metadata \<Rightarrow> int list" where
  "evidence_file_identity m = [md_ino m, md_size m, md_mtime_ns m, md_uid m, md_gid m, s_imode m]"

text \<open>\<open>StartupEvidenceMonitor.require_ready\<close>: the file belongs to the holder of the signing key, cannot be written and is the same before and
  after it was read.\<close>

definition require_ready ::
  "primitives \<Rightarrow> 's file_system \<Rightarrow> (json \<Rightarrow> string option) \<Rightarrow> path \<Rightarrow> runtime_trust_bundle \<Rightarrow> startup_evidence_expectation \<Rightarrow> datetime
     \<Rightarrow> ('s, verified_signed_document) comp" where
  "require_ready P F schema_errors evidence_path tb ex now =
    (case tb_attestation_signers tb of [] \<Rightarrow> raise StopIteration
     | (_, signer) # _ \<Rightarrow>
       tryExcept is_os_error (fs_lstat F evidence_path) (\<lambda>_. deny ''STARTUP_EVIDENCE_FILE_UNSAFE'') (\<lambda>m.
       if \<not> s_isreg m \<or> md_uid m \<noteq> as_holder_uid signer \<or> md_gid m \<noteq> as_holder_gid signer \<or> s_imode m \<noteq> 292 then deny ''STARTUP_EVIDENCE_FILE_UNSAFE''
       else andThen (load_startup_evidence P F schema_errors evidence_path tb ex now) (\<lambda>verified.
       tryExcept is_os_error (fs_lstat F evidence_path) (\<lambda>_. deny ''STARTUP_EVIDENCE_FILE_CHANGED'') (\<lambda>m'.
       if evidence_file_identity m \<noteq> evidence_file_identity m' then deny ''STARTUP_EVIDENCE_FILE_CHANGED'' else ret verified))))"

section \<open>Readiness\<close>

definition INTEGRITY_ZERO_FIELDS :: "string list" where
  "INTEGRITY_ZERO_FIELDS = [''duplicate_capability_nonce_count'', ''consumed_without_gateway_count'', ''outcome_missing_past_deadline_count'']"

definition measure_readiness ::
  "bool \<Rightarrow> bool \<Rightarrow> bool \<Rightarrow> bool \<Rightarrow> string list \<Rightarrow> json list \<Rightarrow> document \<Rightarrow> string list \<Rightarrow> document result" where
  "measure_readiness rate_allocator_probe_ready gateway_probe_ready catalog_runtime_signed artifacts_not_expired enabled_authorities
     authority_observations nonce_permit_integrity active_authority_blocks =
    rbind (json_set (JArr (List.map_filter (\<lambda>item. case item of JObj d \<Rightarrow> Some (doc_get d ''endpoint_authority'') | _ \<Rightarrow> None) authority_observations))) (\<lambda>observed.
    rbind (permit_if (enabled_authorities \<noteq> [] \<and> observed = texts enabled_authorities \<and> rate_allocator_probe_ready \<and> gateway_probe_ready
        \<and> catalog_runtime_signed \<and> artifacts_not_expired
        \<and> list_all (\<lambda>field. equals_zero (doc_get nonce_permit_integrity field)) INTEGRITY_ZERO_FIELDS
        \<and> set enabled_authorities \<inter> set active_authority_blocks = {}) ''STARTUP_READINESS_NOT_READY'') (\<lambda>_.
    Inr [(''rate_allocator_ready'', JBool True), (''gateway_ready'', JBool True), (''catalog_runtime_signed'', JBool True),
      (''artifacts_not_expired'', JBool True), (''blocked_authority_count'', JInt 0), (''result'', JStr ''READY'')]))"

section \<open>What accepted evidence shows\<close>

lemma rmap_eq_Inr_iff: "rmap f xs = Inr ys \<longleftrightarrow> list_all2 (\<lambda>x y. f x = Inr y) xs ys"
  by (induction xs arbitrary: ys) (auto simp: list_all2_Cons1)

lemma mappings_eq_Inr: "rmap (\<lambda>v. as_mapping v reason) vs = Inr ds \<longleftrightarrow> vs = map JObj ds"
  by (auto simp: rmap_eq_Inr_iff list_all2_conv_all_nth list_eq_iff_nth_eq)

lemma checks_eq_Inr: "rmap f xs = Inr us \<Longrightarrow> x \<in> set xs \<Longrightarrow> \<exists>u. f x = Inr u"
  by (auto simp: rmap_eq_Inr_iff list_all2_conv_all_nth in_set_conv_nth)

lemma rmap_results: "rmap f xs = Inr ys \<Longrightarrow> y \<in> set ys \<Longrightarrow> \<exists>x \<in> set xs. f x = Inr y"
  unfolding rmap_eq_Inr_iff by (induction xs ys rule: list_all2_induct) auto

lemma evidence_signature_facts:
  assumes "evidence_signature P tb raw h now = Inr (signer, signed_at)"
  obtains key_id bytes where "map_of (tb_attestation_signers tb) key_id = Some signer" "pr_verify P (as_public_key signer) bytes h"
    "before_or_at (as_not_before signer) signed_at" "before_or_at signed_at now" "strictly_before now (as_not_after signer)"
  using assms by (auto simp: evidence_signature_def Let_def split: option.splits)

lemma evidence_binding_facts:
  assumes "evidence_binding P content ex signer signed_at now = Inr issued_at"
  obtains expires_at database where "evidence_time P (doc_get content ''issued_at'') = Inr issued_at"
    "evidence_time P (doc_get content ''expires_at'') = Inr expires_at" "before_or_at issued_at signed_at" "strictly_before now expires_at"
    "dt_instant expires_at - dt_instant issued_at \<le> seconds (as_max_evidence_ttl_seconds signer)"
    "startup_measurement_hash P content = Inr (se_measurement_hash ex)" "doc_get content ''host_boot_id'' = JStr (se_host_boot_id ex)"
    "doc_get content ''database_authority'' = JObj database" "doc_get database ''fencing_epoch'' = JInt (se_fencing_epoch ex)"
  using assms by (auto simp: evidence_binding_def Let_def)

text \<open>As many observations as there are enabled authorities, and each authority observed: so each is observed once.\<close>

lemma evidence_observations_facts:
  assumes "evidence_observations P raw ex signer issued_at = Inr u"
  obtains obs where "raw = JArr (map JObj obs)"
    "distinct (map (\<lambda>ob. doc_get ob ''endpoint_authority'') obs)" "(\<lambda>ob. doc_get ob ''endpoint_authority'') ` set obs = texts (se_enabled_authorities ex)"
    "\<forall>ob \<in> set obs. \<exists>t. evidence_time P (doc_get ob ''observed_at'') = Inr t
       \<and> dt_instant issued_at - seconds (as_max_evidence_ttl_seconds signer) \<le> dt_instant t \<and> before_or_at t issued_at"
proof -
  from assms obtain obs observed us where o: "raw = JArr (map JObj obs)" "length obs = card (set (se_enabled_authorities ex))"
      "json_set (JArr (map (\<lambda>ob. doc_get ob ''endpoint_authority'') obs)) = Inr observed" "observed = texts (se_enabled_authorities ex)"
      "rmap (\<lambda>ob. rbind (evidence_time P (doc_get ob ''observed_at'')) (\<lambda>t.
         permit_if (dt_instant issued_at - seconds (as_max_evidence_ttl_seconds signer) \<le> dt_instant t \<and> before_or_at t issued_at)
           ''STARTUP_EVIDENCE_OBSERVATIONS_INVALID'')) obs = Inr us"
    unfolding evidence_observations_def Let_def by (auto simp: mappings_eq_Inr as_list_def split: json.splits)
  have image: "set (map (\<lambda>ob. doc_get ob ''endpoint_authority'') obs) = texts (se_enabled_authorities ex)"
    using o(3,4) by (auto simp: json_set_def split: if_splits)
  have "card (texts (se_enabled_authorities ex)) = length obs"
    using o(2) by (simp add: texts_def card_image inj_on_def)
  then have "distinct (map (\<lambda>ob. doc_get ob ''endpoint_authority'') obs)"
    using image by (metis card_distinct length_map)
  moreover have "\<exists>t. evidence_time P (doc_get ob ''observed_at'') = Inr t
       \<and> dt_instant issued_at - seconds (as_max_evidence_ttl_seconds signer) \<le> dt_instant t \<and> before_or_at t issued_at" if "ob \<in> set obs" for ob
    using checks_eq_Inr [OF o(5) that] by auto
  ultimately show thesis using that o(1) image unfolding image_set [symmetric] by blast
qed

lemma closed_bundle_signer:
  assumes "closed_bundle revoked tb"
  obtains k s where "tb_attestation_signers tb = [(k, s)]" "signer_ok revoked (tb_issued_at tb) (tb_valid_until tb) k s"
  using assms unfolding closed_bundle_def by (elim conjE exE) (rule that)

text \<open>The state that the evidence attests: it is signed by the one signer of the bundle, whose key is not revoked.\<close>

definition evidence_attested ::
  "primitives \<Rightarrow> string set \<Rightarrow> runtime_trust_bundle \<Rightarrow> startup_evidence_expectation \<Rightarrow> datetime \<Rightarrow> verified_signed_document \<Rightarrow> bool" where
  "evidence_attested P revoked tb ex now v \<longleftrightarrow> (\<exists>key_id signer bytes.
      tb_attestation_signers tb = [(key_id, signer)] \<and> key_id \<notin> revoked \<and> pr_verify P (as_public_key signer) bytes (vs_content_hash v)
      \<and> canonical_digest P (JObj (vs_content v)) = Inr (vs_content_hash v)
      \<and> startup_measurement_hash P (vs_content v) = Inr (se_measurement_hash ex)
      \<and> doc_get (vs_content v) ''host_boot_id'' = JStr (se_host_boot_id ex))"

definition observed_once_and_recently :: "primitives \<Rightarrow> startup_evidence_expectation \<Rightarrow> datetime \<Rightarrow> document list \<Rightarrow> bool" where
  "observed_once_and_recently P ex now obs \<longleftrightarrow> distinct (map (\<lambda>ob. doc_get ob ''endpoint_authority'') obs)
     \<and> (\<lambda>ob. doc_get ob ''endpoint_authority'') ` set obs = texts (se_enabled_authorities ex)
     \<and> (\<forall>ob \<in> set obs. \<exists>t. evidence_time P (doc_get ob ''observed_at'') = Inr t
         \<and> before_or_at t now \<and> dt_instant now - dt_instant t < seconds 600)"

lemma verify_startup_evidence_facts:
  assumes "verify_startup_evidence P document tb ex now = Inr v"
  obtains signer issued_at where "evidence_signature P tb (doc_get document ''signature'') (vs_content_hash v) now = Inr (signer, vs_signed_at v)"
    "canonical_digest P (JObj (vs_content v)) = Inr (vs_content_hash v)"
    "evidence_binding P (vs_content v) ex signer (vs_signed_at v) now = Inr issued_at"
    "evidence_observations P (doc_get (vs_content v) ''authority_observations'') ex signer issued_at = Inr ()"
  using assms by (auto simp: verify_startup_evidence_def split: prod.splits)

text \<open>C22: Evidence accepted under a verified bundle is attested and recent. It carries a signature by the one attestation signer of the
  bundle, whose key is not revoked; the hash of everything measured is the expected one; it expires at most 300 seconds after it was
  issued; and every enabled authority has exactly one observation, which was made less than 600 seconds before the evidence is accepted.\<close>

theorem startup_evidence_is_attested_and_recent:
  assumes "verify_runtime_trust_bundle P bundle keyring pin then_now = Inr tb" and "verify_startup_evidence P document tb ex now = Inr v"
  shows "\<exists>content revoked issued_at expires_at obs. doc_get bundle ''content'' = JObj content
      \<and> string_set_or_empty (doc_get content ''revoked_key_ids'') ''TRUST_BUNDLE_INVALID'' = Inr revoked
      \<and> evidence_attested P (set revoked) tb ex now v
      \<and> evidence_time P (doc_get (vs_content v) ''issued_at'') = Inr issued_at \<and> evidence_time P (doc_get (vs_content v) ''expires_at'') = Inr expires_at
      \<and> before_or_at issued_at now \<and> strictly_before now expires_at \<and> dt_instant expires_at - dt_instant issued_at \<le> seconds 300
      \<and> doc_get (vs_content v) ''authority_observations'' = JArr (map JObj obs) \<and> observed_once_and_recently P ex now obs"
proof -
  from assms(1) obtain content revoked where c: "doc_get bundle ''content'' = JObj content"
      "string_set_or_empty (doc_get content ''revoked_key_ids'') ''TRUST_BUNDLE_INVALID'' = Inr revoked" and closed: "closed_bundle (set revoked) tb"
    by (rule verified_bundle)
  from closed obtain k s where one: "tb_attestation_signers tb = [(k, s)]" and ok: "signer_ok (set revoked) (tb_issued_at tb) (tb_valid_until tb) k s"
    by (rule closed_bundle_signer)
  from assms(2) obtain signer issued_at where v: "evidence_signature P tb (doc_get document ''signature'') (vs_content_hash v) now = Inr (signer, vs_signed_at v)"
      "canonical_digest P (JObj (vs_content v)) = Inr (vs_content_hash v)"
      "evidence_binding P (vs_content v) ex signer (vs_signed_at v) now = Inr issued_at"
      "evidence_observations P (doc_get (vs_content v) ''authority_observations'') ex signer issued_at = Inr ()"
    by (rule verify_startup_evidence_facts)
  from v(1) obtain key_id bytes where g: "map_of (tb_attestation_signers tb) key_id = Some signer" "pr_verify P (as_public_key signer) bytes (vs_content_hash v)"
      "before_or_at (vs_signed_at v) now"
    by (rule evidence_signature_facts)
  have signer: "key_id = k" "signer = s" using g(1) one by (auto split: if_splits)
  have ttl: "as_max_evidence_ttl_seconds signer \<le> 300" and fresh_key: "k \<notin> set revoked" using ok signer by (simp_all add: signer_ok_def)
  from v(3) obtain expires_at database where b: "evidence_time P (doc_get (vs_content v) ''issued_at'') = Inr issued_at"
      "evidence_time P (doc_get (vs_content v) ''expires_at'') = Inr expires_at" "before_or_at issued_at (vs_signed_at v)" "strictly_before now expires_at"
      "dt_instant expires_at - dt_instant issued_at \<le> seconds (as_max_evidence_ttl_seconds signer)"
      "startup_measurement_hash P (vs_content v) = Inr (se_measurement_hash ex)" "doc_get (vs_content v) ''host_boot_id'' = JStr (se_host_boot_id ex)"
    by (rule evidence_binding_facts)
  from v(4) obtain obs where ob: "doc_get (vs_content v) ''authority_observations'' = JArr (map JObj obs)"
      "distinct (map (\<lambda>ob. doc_get ob ''endpoint_authority'') obs)" "(\<lambda>ob. doc_get ob ''endpoint_authority'') ` set obs = texts (se_enabled_authorities ex)"
      "\<forall>ob \<in> set obs. \<exists>t. evidence_time P (doc_get ob ''observed_at'') = Inr t
       \<and> dt_instant issued_at - seconds (as_max_evidence_ttl_seconds signer) \<le> dt_instant t \<and> before_or_at t issued_at"
    by (rule evidence_observations_facts)
  have lifetime: "before_or_at issued_at now" "dt_instant expires_at - dt_instant issued_at \<le> seconds 300"
    using b(3,5) g(3) ttl by (auto simp: seconds_def)
  have "observed_once_and_recently P ex now obs"
    unfolding observed_once_and_recently_def using ob(2-4) b(4,5) ttl lifetime by (fastforce simp: seconds_def)
  moreover have "evidence_attested P (set revoked) tb ex now v"
    unfolding evidence_attested_def using one signer fresh_key g(2) v(2) b(6,7) by blast
  ultimately show ?thesis using c b(1,2,4) lifetime ob(1) by blast
qed

text \<open>Evidence of a host with one enabled authority, under the sample bundle.\<close>

definition sample_evidence_content :: document where
  "sample_evidence_content = [(''evidence_status'', JStr ''SIGNED_READY''), (''issued_at'', JStr ''early''), (''expires_at'', JStr ''late''),
    (''stage'', JStr ''testnet''), (''enabled_environments'', JArr [JStr ''testnet'']), (''enabled_authorities'', JArr [JStr ''FAPI'']),
    (''host_boot_id'', JStr ''boot-1''), (''release_binding'', JObj [(''release'', JStr ''r1'')]), (''artifact_binding'', JObj [(''policy'', JStr ''h1'')]),
    (''database_authority'', JObj [(''fencing_epoch'', JInt 3), (''fencing_owner_instance_id'', JStr ''owner-1'')]),
    (''sockets'', JArr []), (''network_boundary'', JObj []),
    (''authority_observations'', JArr [JObj [(''endpoint_authority'', JStr ''FAPI''), (''observed_at'', JStr ''early'')]]),
    (''nonce_permit_integrity'', JObj []), (''bootstrap_chain'', JObj []), (''readiness'', JObj [])]"

definition sample_evidence :: document where
  "sample_evidence = [(''content'', JObj sample_evidence_content), (''evidence_hash'', JStr (sample_digest sample_evidence_content)),
    (''signature'', sample_signature ''host-key'')]"

definition sample_expectation :: startup_evidence_expectation where
  "sample_expectation = \<lparr>se_measurement_hash = sample_digest (map (\<lambda>field. (field, doc_get sample_evidence_content field)) MEASUREMENT_BINDING_FIELDS),
    se_stage = ''testnet'', se_enabled_environments = [''testnet''], se_enabled_authorities = [''FAPI''], se_host_boot_id = ''boot-1'',
    se_fencing_epoch = 3, se_fencing_owner_instance_id = ''owner-1'', se_artifact_binding = [(''policy'', ''h1'')], se_release_binding = [(''release'', ''r1'')]\<rparr>"

definition sample_verified :: verified_signed_document where
  "sample_verified = \<lparr>vs_content = sample_evidence_content, vs_content_hash = sample_digest sample_evidence_content,
    vs_signed_at = \<lparr>dt_instant = 0, dt_utcoffset = Some 0\<rparr>\<rparr>"

lemma sample_measurement_hash: "startup_measurement_hash sample_primitives sample_evidence_content = Inr (se_measurement_hash sample_expectation)"
  by (simp add: startup_measurement_hash_def sample_canonical_digest sample_expectation_def permit_if_def MEASUREMENT_BINDING_FIELDS_def)
    (simp add: sample_evidence_content_def)

lemma sample_evidence_verifies:
  "verify_startup_evidence sample_primitives sample_evidence sample_trust sample_expectation sample_now = Inr sample_verified"
proof -
  have signature: "evidence_signature sample_primitives sample_trust (doc_get sample_evidence ''signature'') h sample_now
      = Inr (snd (hd (tb_attestation_signers sample_trust)), \<lparr>dt_instant = 0, dt_utcoffset = Some 0\<rparr>)" for h
    by (simp add: evidence_signature_def evidence_time_def sample_evidence_def sample_signature_def sample_trust_def sample_now_def sample_primitives_def
      required_text_def sample_simps)
  have binding: "evidence_binding sample_primitives sample_evidence_content sample_expectation (snd (hd (tb_attestation_signers sample_trust)))
      \<lparr>dt_instant = 0, dt_utcoffset = Some 0\<rparr> sample_now = Inr \<lparr>dt_instant = 0, dt_utcoffset = Some 0\<rparr>"
    using sample_measurement_hash
    by (simp add: evidence_binding_def evidence_time_def sample_expectation_def)
      (simp add: sample_evidence_content_def sample_trust_def sample_now_def sample_primitives_def sample_simps json_set_or_empty_def json_set_def
        hashable_def texts_def equals_texts_def seconds_def)
  have observations: "evidence_observations sample_primitives (doc_get sample_evidence_content ''authority_observations'') sample_expectation
      (snd (hd (tb_attestation_signers sample_trust))) \<lparr>dt_instant = 0, dt_utcoffset = Some 0\<rparr> = Inr ()"
    by (simp add: evidence_observations_def evidence_time_def sample_evidence_content_def sample_expectation_def sample_trust_def sample_primitives_def
      sample_simps as_list_def json_set_def hashable_def texts_def seconds_def)
  have "doc_get sample_evidence ''content'' = JObj sample_evidence_content" "doc_get sample_evidence ''evidence_hash'' = JStr (sample_digest sample_evidence_content)"
      "doc_get sample_evidence_content ''evidence_status'' = JStr ''SIGNED_READY''" "se_stage sample_expectation \<noteq> ''validation''"
    by (simp_all add: sample_evidence_def sample_evidence_content_def sample_expectation_def doc_get_def)
  with signature binding observations show ?thesis
    by (simp add: verify_startup_evidence_def sample_canonical_digest permit_if_def sample_verified_def)
qed

theorem startup_evidence_is_attested_and_recent_witness:
  "\<exists>content revoked issued_at expires_at obs. doc_get sample_bundle ''content'' = JObj content
      \<and> string_set_or_empty (doc_get content ''revoked_key_ids'') ''TRUST_BUNDLE_INVALID'' = Inr revoked
      \<and> evidence_attested sample_primitives (set revoked) sample_trust sample_expectation sample_now sample_verified
      \<and> evidence_time sample_primitives (doc_get (vs_content sample_verified) ''issued_at'') = Inr issued_at
      \<and> evidence_time sample_primitives (doc_get (vs_content sample_verified) ''expires_at'') = Inr expires_at
      \<and> before_or_at issued_at sample_now \<and> strictly_before sample_now expires_at \<and> dt_instant expires_at - dt_instant issued_at \<le> seconds 300
      \<and> doc_get (vs_content sample_verified) ''authority_observations'' = JArr (map JObj obs)
      \<and> observed_once_and_recently sample_primitives sample_expectation sample_now obs"
  by (rule startup_evidence_is_attested_and_recent [OF sample_bundle_verifies sample_evidence_verifies])

end
