(* ===== verification/Measurements.thy ===== *)
theory Measurements
  imports Evidence
begin

text \<open>
  The measurements that startup evidence is made of: the causal traces of the bootstrap (\<open>bootstrap_measurements.py\<close>), the observations of the enabled
  authorities (\<open>authority_measurements.py\<close>), the signed stream profiles (\<open>connection_measurements.py\<close>) and the snapshot of the rate database
  (\<open>database_measurements.py\<close>), all of \<open>binance_egress\<close>. The queries that read them are not modelled.
\<close>

section \<open>Bootstrap traces\<close>

definition TRACE_FIELDS :: "string list" where
  "TRACE_FIELDS = [''reserve_request'', ''reserve_decision'', ''gateway_request'', ''consume_request'', ''consume_decision'', ''send_outcome'', ''observation'']"

text \<open>\<open>_OUTPUT_FIELDS\<close>\<close>

definition output_field :: "string \<Rightarrow> string" where
  "output_field field = field @ ''_hashes''"

text \<open>\<open>_same(documents, field)\<close>\<close>

definition same_field :: "document list \<Rightarrow> string \<Rightarrow> bool result" where
  "same_field docs field = (let vs = map (\<lambda>d. doc_get d field) docs in
     if hd vs = JNull then Inr False
     else if list_all hashable vs then Inr (card (set vs) = 1) else Inl (TypeError ''unhashable type''))"

definition OBSERVATION_TYPES :: "string set" where
  "OBSERVATION_TYPES = {''HeaderObservation'', ''ConnectionStateObservation'', ''ServerTimeObservation'', ''ExchangeRateLimitObservation''}"

record trace =
  tc_reserve_request :: document
  tc_reserve_decision :: document
  tc_gateway_request :: document
  tc_consume_request :: document
  tc_consume_decision :: document
  tc_send_outcome :: document
  tc_observation :: document

definition read_trace :: "document \<Rightarrow> trace result" where
  "read_trace d =
    (let invalid = ''BOOTSTRAP_MEASUREMENT_INVALID'' in
     rbind (permit_if (set (map fst d) = set TRACE_FIELDS) invalid) (\<lambda>_.
     rbind (rmap (\<lambda>f. as_mapping (doc_get d f) invalid) TRACE_FIELDS) (\<lambda>ds.
     Inr \<lparr>tc_reserve_request = ds ! 0, tc_reserve_decision = ds ! 1, tc_gateway_request = ds ! 2, tc_consume_request = ds ! 3,
       tc_consume_decision = ds ! 4, tc_send_outcome = ds ! 5, tc_observation = ds ! 6\<rparr>)))"

abbreviation causal_mismatch :: string where
  "causal_mismatch \<equiv> ''BOOTSTRAP_MEASUREMENT_CAUSAL_MISMATCH''"

definition trace_messages :: "trace \<Rightarrow> unit result" where
  "trace_messages t =
    rbind (permit_if (doc_get (tc_reserve_request t) ''message_type'' = JStr ''ReserveRequest''
      \<and> doc_get (tc_reserve_decision t) ''message_type'' = JStr ''ReserveDecision'' \<and> doc_get (tc_reserve_decision t) ''decision'' = JStr ''GRANTED''
      \<and> doc_get (tc_consume_request t) ''message_type'' = JStr ''PermitConsumeRequest''
      \<and> doc_get (tc_consume_decision t) ''message_type'' = JStr ''PermitConsumeDecision''
      \<and> doc_get (tc_consume_decision t) ''decision'' = JStr ''CONSUME_GRANTED'' \<and> doc_get (tc_send_outcome t) ''message_type'' = JStr ''SendOutcome'')
      causal_mismatch) (\<lambda>_.
    rbind (in_texts (doc_get (tc_observation t) ''message_type'') OBSERVATION_TYPES) (\<lambda>known.
    permit_if (known \<and> doc_get (tc_reserve_decision t) ''request_message_id'' = doc_get (tc_reserve_request t) ''message_id''
      \<and> doc_get (tc_consume_decision t) ''request_message_id'' = doc_get (tc_consume_request t) ''message_id'') causal_mismatch))"

definition observation_permit :: "trace \<Rightarrow> json" where
  "observation_permit t = doc_get (tc_observation t)
     (if doc_get (tc_observation t) ''message_type'' = JStr ''ConnectionStateObservation'' then ''related_permit_id'' else ''permit_id'')"

definition trace_identities :: "trace \<Rightarrow> unit result" where
  "trace_identities t =
    rbind (same_field [tc_reserve_decision t, tc_consume_request t, tc_consume_decision t, tc_send_outcome t] ''permit_id'') (\<lambda>one_permit.
    rbind (permit_if (one_permit \<and> observation_permit t = doc_get (tc_reserve_decision t) ''permit_id'') causal_mismatch) (\<lambda>_.
    rbind (same_field [tc_reserve_request t, tc_reserve_decision t, tc_consume_request t, tc_consume_decision t, tc_send_outcome t, tc_observation t]
       ''correlation_id'') (\<lambda>one_correlation.
    permit_if one_correlation causal_mismatch)))"

definition TRACE_HASHES :: "(string \<times> string) list" where
  "TRACE_HASHES = [(''canonical_request_hash'', ''canonical_request_hash''), (''parameter_hash'', ''gateway_derived_parameter_hash''),
    (''wire_bytes_hash'', ''gateway_derived_wire_bytes_hash'')]"

definition trace_hashes_agree :: "trace \<Rightarrow> bool" where
  "trace_hashes_agree t = list_all (\<lambda>(field, consume_field). let expected = doc_get (tc_reserve_request t) field in
     expected \<noteq> JNull \<and> doc_get (tc_reserve_decision t) field = expected \<and> doc_get (tc_gateway_request t) field = expected
     \<and> doc_get (tc_consume_request t) consume_field = expected \<and> doc_get (tc_consume_decision t) consume_field = expected
     \<and> (field = ''canonical_request_hash'' \<longrightarrow> doc_get (tc_send_outcome t) field = expected)) TRACE_HASHES"

definition validate_trace :: "primitives \<Rightarrow> document \<Rightarrow> (string \<times> string) list result" where
  "validate_trace P d =
    rbind (read_trace d) (\<lambda>t.
    rbind (trace_messages t) (\<lambda>_.
    rbind (trace_identities t) (\<lambda>_.
    rbind (canonical_digest P (JObj (tc_gateway_request t))) (\<lambda>h.
    rbind (permit_if (doc_get (tc_reserve_request t) ''gateway_request_document_hash'' = JStr h) causal_mismatch) (\<lambda>_.
    rbind (same_field [tc_reserve_request t, tc_reserve_decision t, tc_consume_request t, tc_consume_decision t] ''gateway_request_document_hash'') (\<lambda>one_document.
    rbind (permit_if one_document causal_mismatch) (\<lambda>_.
    rbind (permit_if (trace_hashes_agree t) causal_mismatch) (\<lambda>_.
    rmap (\<lambda>field. rbind (canonical_digest P (doc_get d field)) (\<lambda>h. Inr (output_field field, h))) TRACE_FIELDS))))))))"

definition measure_bootstrap_chain :: "primitives \<Rightarrow> document list \<Rightarrow> (string \<times> string list) list result" where
  "measure_bootstrap_chain P traces = (case traces of
     [first, second] \<Rightarrow>
       rbind (validate_trace P first) (\<lambda>a.
       rbind (validate_trace P second) (\<lambda>b.
       rmap (\<lambda>field. let pair = [the (map_of a (output_field field)), the (map_of b (output_field field))] in
         if pair ! 0 = pair ! 1 then authorization_denied ''BOOTSTRAP_MEASUREMENT_REPLAYED'' else Inr (output_field field, pair)) TRACE_FIELDS))
   | _ \<Rightarrow> authorization_denied ''BOOTSTRAP_MEASUREMENT_INVALID'')"

section \<open>Observations of authorities\<close>

text \<open>A row of the journal; its time is a time of the database or a text.\<close>

datatype cell = TimeCell datetime | ValueCell json

type_synonym observation_row = "(string \<times> cell) list"

record stream_connection_profile =
  sp_profile_id :: string
  sp_contract_hash :: string

definition AUTHORITIES :: "string set" where
  "AUTHORITIES = VALIDATION_AUTHORITIES"

definition identifier_text :: "string \<Rightarrow> bool" where
  "identifier_text s \<longleftrightarrow> 8 \<le> length s \<and> length s \<le> 128
     \<and> list_all (\<lambda>c. (CHR ''A'' \<le> c \<and> c \<le> CHR ''Z'') \<or> (CHR ''a'' \<le> c \<and> c \<le> CHR ''z'') \<or> is_digit c \<or> c \<in> {CHR ''.'', CHR ''_'', CHR '':'', CHR ''-''}) s"

definition cell_json :: "cell option \<Rightarrow> json" where
  "cell_json c = (case c of Some (ValueCell v) \<Rightarrow> v | _ \<Rightarrow> JNull)"

definition measured_time :: "primitives \<Rightarrow> cell option \<Rightarrow> datetime result" where
  "measured_time P c = (let invalid = ''AUTHORITY_MEASUREMENT_TIME_INVALID'' in case c of
     Some (TimeCell t) \<Rightarrow> if dt_utcoffset t = None then authorization_denied invalid else Inr (as_utc t)
   | _ \<Rightarrow> parse_time P (cell_json c) invalid)"

definition zulu_text :: "datetime \<Rightarrow> string" where
  "zulu_text t = (let s = isoformat_utc t in take (length s - 6) s @ ''Z'')"

type_synonym measured_row = "datetime \<times> document \<times> string"

definition validated_row :: "primitives \<Rightarrow> datetime \<Rightarrow> int \<Rightarrow> observation_row \<Rightarrow> measured_row result" where
  "validated_row P now maximum_age_seconds row =
    (let invalid = ''AUTHORITY_MEASUREMENT_INVALID'' in
     rbind (permit_if (set (map fst row) = {''payload'', ''payload_hash'', ''occurred_at''}) invalid) (\<lambda>_.
     rbind (as_mapping (cell_json (map_of row ''payload'')) invalid) (\<lambda>payload.
     rbind (measured_time P (map_of row ''occurred_at'')) (\<lambda>occurred_at.
     rbind (required_text (cell_json (map_of row ''payload_hash'')) invalid) (\<lambda>payload_hash.
     rbind (permit_if (sha256_text payload_hash) invalid) (\<lambda>_.
     rbind (canonical_digest P (JObj payload)) (\<lambda>h.
     rbind (permit_if (h = payload_hash \<and> doc_get payload ''occurred_at'' = JStr (zulu_text occurred_at)
         \<and> before_or_at occurred_at now \<and> dt_instant now - dt_instant occurred_at \<le> seconds maximum_age_seconds) invalid) (\<lambda>_.
     Inr (occurred_at, payload, payload_hash)))))))))"

text \<open>\<open>max(matching, key=...)\<close> keeps the first of the latest rows.\<close>

fun latest_row :: "measured_row \<Rightarrow> measured_row list \<Rightarrow> measured_row" where
  "latest_row r [] = r"
| "latest_row r (x # xs) = latest_row (if dt_instant (fst r) < dt_instant (fst x) then x else r) xs"

definition latest :: "measured_row list \<Rightarrow> string \<Rightarrow> string \<Rightarrow> measured_row result" where
  "latest rows authority message_type =
    (case filter (\<lambda>(_, payload, _). doc_get payload ''endpoint_authority'' = JStr authority \<and> doc_get payload ''message_type'' = JStr message_type) rows of
       [] \<Rightarrow> authorization_denied ''AUTHORITY_MEASUREMENT_MISSING'' | r # rs \<Rightarrow> Inr (latest_row r rs))"

definition measured_observation ::
  "string \<Rightarrow> datetime \<Rightarrow> json \<Rightarrow> json \<Rightarrow> json \<Rightarrow> json \<Rightarrow> json \<Rightarrow> json \<Rightarrow> document" where
  "measured_observation authority observed_at time_id time_hash limit_id limit_hash profile_id contract_hash =
    [(''endpoint_authority'', JStr authority), (''observed_at'', JStr (zulu_text observed_at)), (''server_time_observation_id'', time_id),
     (''server_time_observation_hash'', time_hash), (''exchange_rate_limit_observation_id'', limit_id), (''exchange_rate_limit_observation_hash'', limit_hash),
     (''connection_profile_id'', profile_id), (''connection_contract_hash'', contract_hash)]"

definition later_of :: "datetime \<Rightarrow> datetime \<Rightarrow> datetime" where
  "later_of a b = (if dt_instant a < dt_instant b then b else a)"

definition observe_rest :: "measured_row list \<Rightarrow> string \<Rightarrow> document result" where
  "observe_rest rows authority =
    rbind (latest rows authority ''ServerTimeObservation'') (\<lambda>(time_at, time_payload, time_hash).
    rbind (latest rows authority ''ExchangeRateLimitObservation'') (\<lambda>(limit_at, limit_payload, limit_hash).
    rbind (permit_if (doc_get limit_payload ''exchange_info_server_time_observation_id'' = doc_get time_payload ''message_id''
        \<and> list_all (\<lambda>f. doc_get limit_payload f = doc_get time_payload f) [''correlation_id'', ''caller_instance_id'', ''gateway_boot_id'', ''fencing_epoch''])
      ''AUTHORITY_MEASUREMENT_BINDING_MISMATCH'') (\<lambda>_.
    Inr (measured_observation authority (later_of time_at limit_at) (doc_get time_payload ''message_id'') (JStr time_hash)
      (doc_get limit_payload ''message_id'') (JStr limit_hash) JNull JNull))))"

definition observe_stream :: "measured_row list \<Rightarrow> (string, stream_connection_profile) dict \<Rightarrow> string \<Rightarrow> document result" where
  "observe_stream rows profiles authority =
    rbind (latest rows authority ''ConnectionStateObservation'') (\<lambda>(occurred_at, payload, _).
    rbind (permit_if (doc_get payload ''state'' = JStr ''OPEN'') ''AUTHORITY_STREAM_NOT_READY'') (\<lambda>_.
    case map_of profiles authority of None \<Rightarrow> Inl (KeyError authority)
    | Some profile \<Rightarrow> Inr (measured_observation authority occurred_at JNull JNull JNull JNull (JStr (sp_profile_id profile)) (JStr (sp_contract_hash profile)))))"

definition measure_authority_observations ::
  "primitives \<Rightarrow> string list \<Rightarrow> observation_row list \<Rightarrow> (string, stream_connection_profile) dict \<Rightarrow> datetime \<Rightarrow> int \<Rightarrow> document list result" where
  "measure_authority_observations P enabled_authorities observation_rows stream_profiles now maximum_age_seconds =
    (let invalid = ''AUTHORITY_MEASUREMENT_CONFIGURATION_INVALID'' in
     rbind (permit_if (enabled_authorities \<noteq> [] \<and> set enabled_authorities \<subseteq> AUTHORITIES \<and> 1 \<le> maximum_age_seconds \<and> maximum_age_seconds \<le> 300) invalid) (\<lambda>_.
     rbind (permit_if (set (map fst stream_profiles) = set (filter (\<lambda>a. suffix ''_FSTREAM'' a) enabled_authorities)
         \<and> list_all (\<lambda>(_, p). identifier_text (sp_profile_id p) \<and> sha256_text (sp_contract_hash p)) stream_profiles) invalid) (\<lambda>_.
     rbind (rmap (validated_row P now maximum_age_seconds) observation_rows) (\<lambda>rows.
     rmap (\<lambda>authority. if suffix ''_FAPI'' authority then observe_rest rows authority else observe_stream rows stream_profiles authority)
       (sorted_set enabled_authorities)))))"

section \<open>Stream profiles\<close>

abbreviation contract_invalid :: string where
  "contract_invalid \<equiv> ''CONNECTION_CONTRACT_INVALID''"

text \<open>The sources by their id, with the paths and hashes to verify.\<close>

fun contract_sources :: "json list \<Rightarrow> (string, document) dict \<Rightarrow> (string, string) dict \<Rightarrow> ((string, document) dict \<times> (string, string) dict) result" where
  "contract_sources [] sources expected = Inr (sources, expected)"
| "contract_sources (raw # raws) sources expected =
    (let invalid = ''CONNECTION_CONTRACT_SOURCE_INVALID'' in
     rbind (as_mapping raw contract_invalid) (\<lambda>source.
     rbind (required_text (doc_get source ''source_id'') invalid) (\<lambda>source_id.
     rbind (required_text (doc_get source ''artifact_path'') invalid) (\<lambda>relative.
     rbind (required_text (doc_get source ''sha256'') invalid) (\<lambda>digest_text.
     rbind (permit_if (map_of sources source_id = None \<and> map_of expected relative = None) invalid) (\<lambda>_.
     contract_sources raws (sources @ [(source_id, source)]) (expected @ [(relative, digest_text)])))))))"

definition covers_list :: "json \<Rightarrow> json set \<Rightarrow> bool result" where
  "covers_list v needed = (case v of JArr vs \<Rightarrow> rbind (json_set (JArr vs)) (\<lambda>s. Inr (needed \<subseteq> s)) | _ \<Rightarrow> Inr False)"

definition source_covers :: "(string, document) dict \<Rightarrow> string \<Rightarrow> json set \<Rightarrow> json \<Rightarrow> unit result" where
  "source_covers sources authority environments source_id =
    (case source_id of JStr i \<Rightarrow>
       (case map_of sources i of None \<Rightarrow> authorization_denied ''CONNECTION_CONTRACT_SOURCE_INVALID''
        | Some source \<Rightarrow>
          rbind (permit_if (case doc_get source ''covered_authorities'' of JArr vs \<Rightarrow> JStr authority \<in> set vs | _ \<Rightarrow> False) ''CONNECTION_CONTRACT_COVERAGE_INVALID'') (\<lambda>_.
          rbind (covers_list (doc_get source ''covered_environments'') environments) (\<lambda>covered.
          permit_if covered ''CONNECTION_CONTRACT_COVERAGE_INVALID'')))
     | _ \<Rightarrow> authorization_denied ''CONNECTION_CONTRACT_SOURCE_INVALID'')"

definition stream_profile_of ::
  "(string, document) dict \<Rightarrow> string list \<Rightarrow> string \<Rightarrow> (string, stream_connection_profile) dict \<Rightarrow> string \<Rightarrow> document
     \<Rightarrow> (string, stream_connection_profile) dict result" where
  "stream_profile_of sources enabled_environments contract_hash profiles authority profile =
    (let invalid = ''CONNECTION_CONTRACT_COVERAGE_INVALID'' in
     rbind (permit_if (map_of profiles authority = None) invalid) (\<lambda>_.
     rbind (required_text (doc_get profile ''profile_id'') invalid) (\<lambda>profile_id.
     rbind (covers_list (doc_get profile ''environments'') (texts enabled_environments)) (\<lambda>covered.
     rbind (permit_if covered invalid) (\<lambda>_.
     rbind (as_list (doc_get profile ''source_ids'') invalid) (\<lambda>source_ids.
     rbind (rmap (source_covers sources authority (texts enabled_environments)) source_ids) (\<lambda>_.
     rbind (permit_if (source_ids \<noteq> [] \<or> doc_get profile ''provenance'' = JStr ''SIGNED_TESTNET_BOOTSTRAP_OPERATOR_CEILING'') ''CONNECTION_CONTRACT_SOURCE_INVALID'') (\<lambda>_.
     Inr (profiles @ [(authority, \<lparr>sp_profile_id = profile_id, sp_contract_hash = contract_hash\<rparr>)])))))))))"

fun stream_profiles ::
  "(string, document) dict \<Rightarrow> string list \<Rightarrow> string list \<Rightarrow> string \<Rightarrow> json list \<Rightarrow> (string, stream_connection_profile) dict
     \<Rightarrow> (string, stream_connection_profile) dict result" where
  "stream_profiles sources authorities environments contract_hash [] profiles = Inr profiles"
| "stream_profiles sources authorities environments contract_hash (raw # raws) profiles =
    rbind (as_mapping raw contract_invalid) (\<lambda>profile.
    rbind (in_texts (doc_get profile ''endpoint_authority'') (set authorities)) (\<lambda>enabled.
    if \<not> enabled then stream_profiles sources authorities environments contract_hash raws profiles
    else rbind (required_text (doc_get profile ''endpoint_authority'') ''CONNECTION_CONTRACT_COVERAGE_INVALID'') (\<lambda>authority.
      rbind (stream_profile_of sources environments contract_hash profiles authority profile) (\<lambda>profiles'.
      stream_profiles sources authorities environments contract_hash raws profiles'))))"

definition verify_stream_connection_profiles ::
  "primitives \<Rightarrow> 's file_system \<Rightarrow> document \<Rightarrow> document \<Rightarrow> string \<Rightarrow> string list \<Rightarrow> string list \<Rightarrow> path \<Rightarrow> datetime
     \<Rightarrow> ('s, (string, stream_connection_profile) dict) comp" where
  "verify_stream_connection_profiles P F document keyring expected_keyring_hash enabled_stream_authorities enabled_environments source_artifact_root now =
    andThen (lift (verify_signed_config_document P document keyring expected_keyring_hash ''contract_hash'' ''contract_status'' now ''SIGNED_RUNTIME'')) (\<lambda>verified.
    let content = vs_content verified; uncovered = ''CONNECTION_CONTRACT_COVERAGE_INVALID'' in
    andThen (lift (parse_time P (doc_get content ''checked_at'') contract_invalid)) (\<lambda>checked_at.
    andThen (lift (parse_time P (doc_get content ''valid_until'') contract_invalid)) (\<lambda>valid_until.
    andThen (lift (permit_if (before_or_at checked_at (vs_signed_at verified) \<and> before_or_at (vs_signed_at verified) now
       \<and> strictly_before now valid_until) ''CONNECTION_CONTRACT_EXPIRED'')) (\<lambda>_.
    andThen (lift (permit_if (enabled_stream_authorities \<noteq> [] \<and> enabled_environments \<noteq> []) uncovered)) (\<lambda>_.
    andThen (lift (rbind (non_empty_list (doc_get content ''source_documents'') ''CONNECTION_CONTRACT_SOURCE_INVALID'') (\<lambda>raws. contract_sources raws [] []))) (\<lambda>(sources, expected).
    andThen (verify_artifact_bindings P F expected (source_files source_artifact_root expected) [source_artifact_root]) (\<lambda>_.
    andThen (lift (rbind (as_list (doc_get content ''authority_profiles'') uncovered) (\<lambda>raws.
       stream_profiles sources enabled_stream_authorities enabled_environments (vs_content_hash verified) raws []))) (\<lambda>profiles.
    andThen (lift (permit_if (set (map fst profiles) = set enabled_stream_authorities) uncovered)) (\<lambda>_.
    ret profiles)))))))))"

section \<open>The database snapshot\<close>

definition MIGRATION_HEAD :: string where
  "MIGRATION_HEAD = ''0010_local_measurements''"

definition DATABASE_FIELDS :: "string set" where
  "DATABASE_FIELDS = {''database'', ''migration_head'', ''wal_recovery_point'', ''fencing_epoch'', ''fencing_owner_instance_id'', ''read_write'',
    ''independent_business_database''}"

definition INTEGRITY_COUNT_FIELDS :: "string list" where
  "INTEGRITY_COUNT_FIELDS = [''consumed_without_gateway_count'', ''duplicate_capability_nonce_count'', ''outcome_missing_past_deadline_count'',
    ''outstanding_reserved_permit_count'']"

definition integrity_query_hash :: "primitives \<Rightarrow> string result" where
  "integrity_query_hash P = canonical_digest P (JObj [(''version'', JStr ''1.0.0''), (''outstanding_reserved_permit_count'', JStr ''permits.state=RESERVED''),
    (''duplicate_capability_nonce_count'', JStr ''permits.group_by(capability_nonce).count>1''),
    (''consumed_without_gateway_count'', JStr ''permits.state=CONSUMED,gateway_instance_id=NULL''),
    (''outcome_missing_past_deadline_count'', JStr ''consume_decisions=CONSUME_GRANTED,send_deadline<clock,outcome_absent'')])"

definition is_identifier :: "json \<Rightarrow> bool" where
  "is_identifier v = (case v of JStr s \<Rightarrow> identifier_text s | _ \<Rightarrow> False)"

definition non_negative_integer :: "json \<Rightarrow> string \<Rightarrow> int result" where
  "non_negative_integer v reason = rbind (integer_of v reason) (\<lambda>n. rbind (permit_if (0 \<le> n) reason) (\<lambda>_. Inr n))"

definition database_ok :: "document \<Rightarrow> bool" where
  "database_ok d \<longleftrightarrow> set (map fst d) = DATABASE_FIELDS \<and> doc_get d ''database'' = JStr ''aiq_host_rate_control''
     \<and> doc_get d ''migration_head'' = JStr MIGRATION_HEAD \<and> doc_get d ''read_write'' = JBool True
     \<and> doc_get d ''independent_business_database'' = JBool True
     \<and> (case doc_get d ''fencing_epoch'' of JInt n \<Rightarrow> 1 \<le> n | _ \<Rightarrow> False)
     \<and> is_identifier (doc_get d ''wal_recovery_point'') \<and> is_identifier (doc_get d ''fencing_owner_instance_id'')"

definition active_blocks :: "json \<Rightarrow> string list result" where
  "active_blocks v =
    (let invalid = ''DATABASE_BLOCK_MEASUREMENT_INVALID'' in
     rbind (distinct_values text_of True v invalid) (\<lambda>blocks.
     rbind (permit_if (list_all identifier_text blocks \<and> sorted blocks) invalid) (\<lambda>_. Inr blocks)))"

definition validate_database_measurement_snapshot :: "primitives \<Rightarrow> json \<Rightarrow> (document \<times> document \<times> string list) result" where
  "validate_database_measurement_snapshot P snapshot =
    (let invalid = ''DATABASE_MEASUREMENT_INVALID''; bad_integrity = ''DATABASE_INTEGRITY_MEASUREMENT_INVALID'' in
     rbind (as_mapping snapshot invalid) (\<lambda>document.
     rbind (permit_if (set (map fst document) = {''database_authority'', ''nonce_permit_integrity'', ''active_authority_blocks''}) invalid) (\<lambda>_.
     rbind (as_mapping (doc_get document ''database_authority'') ''DATABASE_AUTHORITY_MEASUREMENT_INVALID'') (\<lambda>database.
     rbind (permit_if (database_ok database) ''DATABASE_AUTHORITY_MEASUREMENT_INVALID'') (\<lambda>_.
     rbind (as_mapping (doc_get document ''nonce_permit_integrity'') bad_integrity) (\<lambda>raw.
     rbind (permit_if (set (map fst raw) = set INTEGRITY_COUNT_FIELDS) bad_integrity) (\<lambda>_.
     rbind (rmap (\<lambda>f. rbind (non_negative_integer (doc_get raw f) bad_integrity) (\<lambda>n. Inr (f, n))) INTEGRITY_COUNT_FIELDS) (\<lambda>counts.
     rbind (permit_if (list_all (\<lambda>f. map_of counts f = Some 0) INTEGRITY_ZERO_FIELDS) ''DATABASE_INTEGRITY_NOT_READY'') (\<lambda>_.
     rbind (active_blocks (doc_get document ''active_authority_blocks'')) (\<lambda>blocks.
     rbind (integrity_query_hash P) (\<lambda>h.
     Inr (database, map (\<lambda>(f, n). (f, JInt n)) counts @ [(''integrity_query_hash'', JStr h)], blocks))))))))))))"

section \<open>Two traces of the bootstrap\<close>

lemma same_field_True:
  assumes "same_field (d # ds) field = Inr True"
  shows "doc_get d field \<noteq> JNull" and "d' \<in> set ds \<Longrightarrow> doc_get d' field = doc_get d field"
proof -
  from assms have "doc_get d field \<noteq> JNull \<and> card (set (map (\<lambda>d. doc_get d field) (d # ds))) = 1"
    by (auto simp: same_field_def Let_def split: if_splits)
  then show "doc_get d field \<noteq> JNull" and "d' \<in> set ds \<Longrightarrow> doc_get d' field = doc_get d field"
    by (auto simp: card_1_singleton_iff)
qed

text \<open>One permit was reserved, consumed, sent and observed, for the one request whose document hash all of them name.\<close>

definition causal_trace :: "primitives \<Rightarrow> trace \<Rightarrow> bool" where
  "causal_trace P t \<longleftrightarrow> (\<exists>permit document_hash.
     permit \<noteq> JNull \<and> canonical_digest P (JObj (tc_gateway_request t)) = Inr document_hash
     \<and> (\<forall>d \<in> {tc_reserve_decision t, tc_consume_request t, tc_consume_decision t, tc_send_outcome t}. doc_get d ''permit_id'' = permit)
     \<and> observation_permit t = permit
     \<and> (\<forall>d \<in> {tc_reserve_request t, tc_reserve_decision t, tc_consume_request t, tc_consume_decision t}.
          doc_get d ''gateway_request_document_hash'' = JStr document_hash)
     \<and> doc_get (tc_reserve_decision t) ''decision'' = JStr ''GRANTED'' \<and> doc_get (tc_consume_decision t) ''decision'' = JStr ''CONSUME_GRANTED''
     \<and> trace_hashes_agree t)"

lemma trace_identities_facts:
  assumes "trace_identities t = Inr u"
  obtains permit where "permit \<noteq> JNull" "observation_permit t = permit"
    "\<forall>d \<in> {tc_reserve_decision t, tc_consume_request t, tc_consume_decision t, tc_send_outcome t}. doc_get d ''permit_id'' = permit"
proof -
  from assms have "same_field [tc_reserve_decision t, tc_consume_request t, tc_consume_decision t, tc_send_outcome t] ''permit_id'' = Inr True"
      and "observation_permit t = doc_get (tc_reserve_decision t) ''permit_id''"
    by (auto simp: trace_identities_def)
  with that same_field_True [OF this(1)] show thesis by simp
qed

lemma trace_messages_facts:
  assumes "trace_messages t = Inr u"
  shows "doc_get (tc_reserve_decision t) ''decision'' = JStr ''GRANTED''" "doc_get (tc_consume_decision t) ''decision'' = JStr ''CONSUME_GRANTED''"
  using assms by (auto simp: trace_messages_def)

lemma validate_trace_facts:
  assumes "validate_trace P d = Inr hashes"
  obtains t where "read_trace d = Inr t" "causal_trace P t"
    "rmap (\<lambda>field. rbind (canonical_digest P (doc_get d field)) (\<lambda>h. Inr (output_field field, h))) TRACE_FIELDS = Inr hashes"
proof -
  from assms obtain t h where t: "read_trace d = Inr t" "trace_messages t = Inr ()" "trace_identities t = Inr ()"
      "canonical_digest P (JObj (tc_gateway_request t)) = Inr h" "doc_get (tc_reserve_request t) ''gateway_request_document_hash'' = JStr h"
      "same_field [tc_reserve_request t, tc_reserve_decision t, tc_consume_request t, tc_consume_decision t] ''gateway_request_document_hash'' = Inr True"
      "trace_hashes_agree t"
      "rmap (\<lambda>field. rbind (canonical_digest P (doc_get d field)) (\<lambda>h. Inr (output_field field, h))) TRACE_FIELDS = Inr hashes"
    unfolding validate_trace_def by (simp only: rbind_eq_Inr permit_if_eq_Inr) auto
  from t(3) obtain permit where p: "permit \<noteq> JNull" "observation_permit t = permit"
      "\<forall>d \<in> {tc_reserve_decision t, tc_consume_request t, tc_consume_decision t, tc_send_outcome t}. doc_get d ''permit_id'' = permit"
    by (rule trace_identities_facts)
  have "\<forall>d \<in> {tc_reserve_request t, tc_reserve_decision t, tc_consume_request t, tc_consume_decision t}.
      doc_get d ''gateway_request_document_hash'' = JStr h"
    using t(5) same_field_True(2) [OF t(6)] by simp
  with p t(4,7) trace_messages_facts [OF t(2)] have "causal_trace P t" unfolding causal_trace_def by blast
  with that t(1,8) show thesis by blast
qed

lemma field_hashes:
  assumes "rmap (\<lambda>field. rbind (canonical_digest P (doc_get d field)) (\<lambda>h. Inr (output_field field, h))) names = Inr hashes" and "field \<in> set names"
  shows "canonical_digest P (doc_get d field) = Inr (the (map_of hashes (output_field field)))"
  using assms
  by (induction names arbitrary: hashes) (auto simp: output_field_def)

text \<open>A measured bootstrap chain consists of two causally closed traces that share no message. In each trace one permit was reserved,
  granted, consumed and observed for the request whose canonical hash all four parties name, and the request, parameter and wire hashes
  derived by the gateway are the reserved ones; and in all seven positions the messages of the two traces differ.\<close>

lemma bootstrap_chain_is_causal_and_fresh:
  assumes "measure_bootstrap_chain P traces = Inr chain"
  shows "\<exists>first second t t'. traces = [first, second] \<and> read_trace first = Inr t \<and> read_trace second = Inr t' \<and> causal_trace P t \<and> causal_trace P t'
    \<and> (\<forall>field \<in> set TRACE_FIELDS. doc_get first field \<noteq> doc_get second field)"
proof -
  from assms obtain first second a b where m: "traces = [first, second]" "validate_trace P first = Inr a" "validate_trace P second = Inr b"
      "rmap (\<lambda>field. let pair = [the (map_of a (output_field field)), the (map_of b (output_field field))] in
         if pair ! 0 = pair ! 1 then authorization_denied ''BOOTSTRAP_MEASUREMENT_REPLAYED'' else Inr (output_field field, pair)) TRACE_FIELDS = Inr chain"
    unfolding measure_bootstrap_chain_def by (simp only: rbind_eq_Inr split: list.splits) auto
  from m(2) obtain t where t: "read_trace first = Inr t" "causal_trace P t"
      "rmap (\<lambda>field. rbind (canonical_digest P (doc_get first field)) (\<lambda>h. Inr (output_field field, h))) TRACE_FIELDS = Inr a"
    by (rule validate_trace_facts)
  from m(3) obtain t' where t': "read_trace second = Inr t'" "causal_trace P t'"
      "rmap (\<lambda>field. rbind (canonical_digest P (doc_get second field)) (\<lambda>h. Inr (output_field field, h))) TRACE_FIELDS = Inr b"
    by (rule validate_trace_facts)
  have "doc_get first field \<noteq> doc_get second field" if "field \<in> set TRACE_FIELDS" for field
    using checks_eq_Inr [OF m(4) that] field_hashes [OF t(3) that] field_hashes [OF t'(3) that] by (auto simp: Let_def split: if_splits)
  with m(1) t(1,2) t'(1,2) show ?thesis by blast
qed

section \<open>One fresh observation for every authority\<close>

definition row_of :: "string \<Rightarrow> string \<Rightarrow> measured_row \<Rightarrow> bool" where
  "row_of authority message_type r \<longleftrightarrow> doc_get (fst (snd r)) ''endpoint_authority'' = JStr authority \<and> doc_get (fst (snd r)) ''message_type'' = JStr message_type"

definition latest_of :: "measured_row list \<Rightarrow> string \<Rightarrow> string \<Rightarrow> measured_row \<Rightarrow> bool" where
  "latest_of rows authority message_type r \<longleftrightarrow> r \<in> set rows \<and> row_of authority message_type r
     \<and> (\<forall>r' \<in> set rows. row_of authority message_type r' \<longrightarrow> before_or_at (fst r') (fst r))"

lemma latest_row_max: "latest_row r rs \<in> set (r # rs) \<and> (\<forall>x \<in> set (r # rs). before_or_at (fst x) (fst (latest_row r rs)))"
proof (induction rs arbitrary: r)
  case (Cons x xs)
  define y where "y = (if dt_instant (fst r) < dt_instant (fst x) then x else r)"
  have later_of: "before_or_at (fst r) (fst y)" "before_or_at (fst x) (fst y)" "y \<in> {r, x}" by (simp_all add: y_def)
  have "latest_row y xs \<in> set (y # xs)" "\<forall>z \<in> set (y # xs). before_or_at (fst z) (fst (latest_row y xs))"
    using Cons.IH [of y] by blast+
  with later_of show ?case by (auto simp: y_def [symmetric] intro: order_trans)
qed simp

lemma latest_is_latest:
  assumes "latest rows authority message_type = Inr r" shows "latest_of rows authority message_type r"
proof -
  have same: "filter (\<lambda>(_, payload, _). doc_get payload ''endpoint_authority'' = JStr authority \<and> doc_get payload ''message_type'' = JStr message_type) rows
      = filter (row_of authority message_type) rows"
    by (rule filter_cong) (auto simp: row_of_def)
  from assms obtain x xs where found: "filter (row_of authority message_type) rows = x # xs" and r: "r = latest_row x xs"
    unfolding latest_def same by (auto split: list.splits)
  from latest_row_max [of x xs] have "r \<in> set (filter (row_of authority message_type) rows)"
      and "\<forall>y \<in> set (filter (row_of authority message_type) rows). before_or_at (fst y) (fst r)"
    unfolding found r by simp_all
  then show ?thesis unfolding latest_of_def set_filter by blast
qed

definition fresh_row :: "primitives \<Rightarrow> datetime \<Rightarrow> int \<Rightarrow> measured_row \<Rightarrow> bool" where
  "fresh_row P now maximum_age_seconds r \<longleftrightarrow> canonical_digest P (JObj (fst (snd r))) = Inr (snd (snd r)) \<and> before_or_at (fst r) now
     \<and> dt_instant now - dt_instant (fst r) \<le> seconds maximum_age_seconds"

lemma validated_row_fresh: "validated_row P now maximum_age_seconds row = Inr r \<Longrightarrow> fresh_row P now maximum_age_seconds r"
  unfolding validated_row_def fresh_row_def Let_def by (simp only: rbind_eq_Inr permit_if_eq_Inr sum.inject) (elim exE conjE, hypsubst, simp)

text \<open>The observation of a REST authority joins its latest server time with the latest rate limits, which refer to that time; that of a stream
  is made of its latest connection state, which is open.\<close>

definition observation_of :: "measured_row list \<Rightarrow> string \<Rightarrow> document \<Rightarrow> bool" where
  "observation_of rows authority ob \<longleftrightarrow> doc_get ob ''endpoint_authority'' = JStr authority
     \<and> (if suffix ''_FAPI'' authority then \<exists>time_row limit_row. latest_of rows authority ''ServerTimeObservation'' time_row
            \<and> latest_of rows authority ''ExchangeRateLimitObservation'' limit_row
            \<and> doc_get (fst (snd limit_row)) ''exchange_info_server_time_observation_id'' = doc_get (fst (snd time_row)) ''message_id''
            \<and> doc_get ob ''observed_at'' = JStr (zulu_text (later_of (fst time_row) (fst limit_row)))
        else \<exists>row. latest_of rows authority ''ConnectionStateObservation'' row \<and> doc_get (fst (snd row)) ''state'' = JStr ''OPEN''
            \<and> doc_get ob ''observed_at'' = JStr (zulu_text (fst row)))"

lemma measured_observation_fields [simp]:
  "doc_get (measured_observation a t i h l m p c) ''endpoint_authority'' = JStr a"
  "doc_get (measured_observation a t i h l m p c) ''observed_at'' = JStr (zulu_text t)"
  by (simp_all add: measured_observation_def doc_get_def)

lemma observe_rest_observation:
  assumes "observe_rest rows authority = Inr ob" and "suffix ''_FAPI'' authority"
  shows "observation_of rows authority ob"
proof -
  from assms(1) obtain time_row limit_row where "latest rows authority ''ServerTimeObservation'' = Inr time_row"
      "latest rows authority ''ExchangeRateLimitObservation'' = Inr limit_row"
      "doc_get (fst (snd limit_row)) ''exchange_info_server_time_observation_id'' = doc_get (fst (snd time_row)) ''message_id''"
      "doc_get ob ''endpoint_authority'' = JStr authority" "doc_get ob ''observed_at'' = JStr (zulu_text (later_of (fst time_row) (fst limit_row)))"
    unfolding observe_rest_def by fastforce
  with assms(2) show ?thesis unfolding observation_of_def by (metis latest_is_latest)
qed

lemma observe_stream_observation: "observe_stream rows profiles authority = Inr ob \<Longrightarrow> \<not> suffix ''_FAPI'' authority \<Longrightarrow> observation_of rows authority ob"
  unfolding observe_stream_def observation_of_def
  by (auto simp del: split_paired_Ex dest!: latest_is_latest intro!: exI split: option.splits)

lemma authority_observations_are_fresh:
  assumes "measure_authority_observations P enabled_authorities observation_rows profiles now maximum_age_seconds = Inr obs"
  obtains rows where "rmap (validated_row P now maximum_age_seconds) observation_rows = Inr rows" "maximum_age_seconds \<le> 300"
    "\<forall>r \<in> set rows. fresh_row P now maximum_age_seconds r" "list_all2 (observation_of rows) (sorted_set enabled_authorities) obs"
proof -
  from assms obtain rows where r: "maximum_age_seconds \<le> 300" "rmap (validated_row P now maximum_age_seconds) observation_rows = Inr rows"
      "rmap (\<lambda>authority. if suffix ''_FAPI'' authority then observe_rest rows authority else observe_stream rows profiles authority)
         (sorted_set enabled_authorities) = Inr obs"
    unfolding measure_authority_observations_def Let_def by (simp only: rbind_eq_Inr permit_if_eq_Inr) auto
  have "\<forall>x \<in> set rows. fresh_row P now maximum_age_seconds x"
    using rmap_results [OF r(2)] validated_row_fresh by blast
  moreover have "list_all2 (observation_of rows) (sorted_set enabled_authorities) obs"
    using r(3) unfolding rmap_eq_Inr_iff
    by (rule list_all2_mono) (auto split: if_splits intro: observe_rest_observation observe_stream_observation)
  ultimately show thesis using that r(1,2) by blast
qed

end
