(* ===== verification/Health.thy ===== *)
theory Health
  imports Risk JsonValues
begin

text \<open>
  \<open>copy_trading/health.py\<close>: the deterministic health check. Facts of the database, the account, the exchange and the host become
  findings, and a finding may ask for a stricter state of the runtime control. The queries behind the facts are not modelled; the
  tables a report is written to are.
\<close>

section \<open>Facts and reports\<close>

datatype health_severity = Info | Warning | Critical

datatype health_state = Healthy | Degraded | Failed

record health_finding =
  hf_code :: string
  hf_severity :: health_severity
  hf_detail :: string

type_synonym position_key = "string \<times> position_side"

record database_health_facts =
  df_active_leaders :: int
  df_assigned_slots :: int
  df_stale_poll_seconds :: "decimal option"
  df_latest_poll_failures :: int
  df_history_gap_failures :: int
  df_uncertain_signals :: int
  df_failed_signals_last_hour :: int
  df_overdue_pending_entries :: int
  df_overdue_slot_replacements :: int
  df_dead_notifications :: int
  df_pending_notifications :: int
  df_oldest_pending_notification_seconds :: "decimal option"
  df_selection_age_hours :: "decimal option"
  df_short_selection_age_hours :: "decimal option"
  df_long_selection_age_hours :: "decimal option"
  df_latest_watchdog_age_seconds :: "decimal option"
  df_latest_watchdog_state :: "string option"
  df_latest_watchdog_finding_codes :: "string list"
  df_latest_codex_audit_age_hours :: "decimal option"
  df_latest_codex_audit_state :: "string option"
  df_control_state :: runtime_control_state
  df_envelope_baseline_usdt :: "decimal option"
  df_virtual_positions :: "(position_key, decimal) dict"
  df_pending_entry_allowances :: "(position_key, decimal) dict"
  df_repeated_minimum_rejections :: int

record health_report =
  hr_state :: health_state
  hr_findings :: "health_finding list"
  hr_requested_control :: "runtime_control_state option"

record host_health_facts =
  hh_service_states :: "(string, string) dict"
  hh_root_free_bytes :: int
  hh_root_free_percent :: decimal
  hh_memory_available_bytes :: int
  hh_backup_age_hours :: "decimal option"
  hh_user_stream_unit :: "string option"

definition host_health_facts_check :: "host_health_facts \<Rightarrow> host_health_facts result" where
  "host_health_facts_check h =
    (if hh_root_free_bytes h < 0 \<or> \<not> (0 \<le> hh_root_free_percent h \<and> hh_root_free_percent h \<le> dec 100) \<or> hh_memory_available_bytes h < 0
        \<or> (case hh_backup_age_hours h of None \<Rightarrow> False | Some age \<Rightarrow> age < 0)
     then Inl (ValueError ''copy host health facts are invalid'') else Inr h)"

fun severity_value :: "health_severity \<Rightarrow> string" where
  "severity_value Info = ''INFO''"
| "severity_value Warning = ''WARNING''"
| "severity_value Critical = ''CRITICAL''"

fun health_state_value :: "health_state \<Rightarrow> string" where
  "health_state_value Healthy = ''HEALTHY''"
| "health_state_value Degraded = ''DEGRADED''"
| "health_state_value Failed = ''FAILED''"

section \<open>Findings\<close>

fun control_priority :: "runtime_control_state \<Rightarrow> nat" where
  "control_priority RUNNING = 0"
| "control_priority PAUSED_NEW_ENTRIES = 1"
| "control_priority REDUCE_ALL = 2"

definition stronger_control :: "runtime_control_state option \<Rightarrow> runtime_control_state \<Rightarrow> runtime_control_state" where
  "stronger_control current candidate = (case current of None \<Rightarrow> candidate
     | Some c \<Rightarrow> if control_priority c < control_priority candidate then candidate else c)"

text \<open>The local variables of \<open>evaluate_health\<close>.\<close>

record audit =
  au_findings :: "health_finding list"
  au_requested :: "runtime_control_state option"

definition add_finding :: "string \<Rightarrow> health_severity \<Rightarrow> string \<Rightarrow> audit \<Rightarrow> audit" where
  "add_finding code severity detail a = a\<lparr>au_findings := au_findings a @ [\<lparr>hf_code = code, hf_severity = severity, hf_detail = detail\<rparr>]\<rparr>"

definition request_control :: "runtime_control_state \<Rightarrow> audit \<Rightarrow> audit" where
  "request_control c a = a\<lparr>au_requested := Some (stronger_control (au_requested a) c)\<rparr>"

abbreviation warn :: "string \<Rightarrow> string \<Rightarrow> audit \<Rightarrow> audit" where
  "warn code detail a \<equiv> add_finding code Warning detail a"

abbreviation alarm :: "string \<Rightarrow> string \<Rightarrow> audit \<Rightarrow> audit" where
  "alarm code detail a \<equiv> request_control PAUSED_NEW_ENTRIES (add_finding code Critical detail a)"

definition optional_decimal_text :: "decimal option \<Rightarrow> string" where
  "optional_decimal_text d = (case d of None \<Rightarrow> ''None'' | Some x \<Rightarrow> dstr x)"

definition older_than :: "nat \<Rightarrow> decimal option \<Rightarrow> bool" where
  "older_than n age = (case age of None \<Rightarrow> True | Some x \<Rightarrow> dec n < x)"

definition check_polls :: "database_health_facts \<Rightarrow> audit \<Rightarrow> audit" where
  "check_polls f a =
    (let detail = ''max_age_seconds='' @ optional_decimal_text (df_stale_poll_seconds f) in
     if df_active_leaders f = 0 then warn ''COPY_NO_ACTIVE_LEADERS'' ''active=0'' a
     else if older_than 120 (df_stale_poll_seconds f) then alarm ''COPY_POLL_STALE'' detail a
     else if older_than 75 (df_stale_poll_seconds f) then warn ''COPY_POLL_DELAYED'' detail a else a)"

definition check_slots :: "database_health_facts \<Rightarrow> audit \<Rightarrow> audit" where
  "check_slots f a = (if df_assigned_slots f \<noteq> 3
     then warn ''COPY_LEADER_SLOTS_INCOMPLETE'' (''assigned='' @ show_int (df_assigned_slots f) @ '':expected=3'') a else a)"

definition check_poll_failures :: "database_health_facts \<Rightarrow> audit \<Rightarrow> audit" where
  "check_poll_failures f a =
    (let detail = ''latest_failures='' @ show_int (df_latest_poll_failures f) in
     if max 1 (df_active_leaders f) \<le> df_latest_poll_failures f then alarm ''COPY_PUBLIC_POLL_FAILURES'' detail a
     else if df_latest_poll_failures f \<noteq> 0 then warn ''COPY_PUBLIC_POLL_PARTIAL_FAILURE'' detail a else a)"

definition check_signals :: "database_health_facts \<Rightarrow> audit \<Rightarrow> audit" where
  "check_signals f a0 =
    (let a1 = (if df_history_gap_failures f \<noteq> 0 then alarm ''COPY_PUBLIC_HISTORY_GAP'' (''latest_gaps='' @ show_int (df_history_gap_failures f)) a0 else a0);
         a2 = (if df_uncertain_signals f \<noteq> 0 then alarm ''COPY_UNCERTAIN_SUBMISSIONS'' (''count='' @ show_int (df_uncertain_signals f)) a1 else a1);
         failed = ''last_hour='' @ show_int (df_failed_signals_last_hour f);
         a3 = (if df_failed_signals_last_hour f = 0 then a2
               else if 3 \<le> df_failed_signals_last_hour f then alarm ''COPY_RECENT_EXECUTION_FAILURES'' failed a2
               else warn ''COPY_RECENT_EXECUTION_FAILURES'' failed a2);
         a4 = (if 3 \<le> df_repeated_minimum_rejections f
               then warn ''COPY_REPEATED_MINIMUM_REJECTIONS'' (''last_10_minutes='' @ show_int (df_repeated_minimum_rejections f)) a3 else a3) in
     if df_overdue_pending_entries f \<noteq> 0 then alarm ''COPY_PROTECTED_ENTRY_OVERDUE'' (''count='' @ show_int (df_overdue_pending_entries f)) a4 else a4)"

definition check_notifications :: "database_health_facts \<Rightarrow> audit \<Rightarrow> audit" where
  "check_notifications f a0 =
    (let a1 = (if df_overdue_slot_replacements f \<noteq> 0
               then warn ''COPY_SLOT_REPLACEMENT_RECONCILE_OVERDUE'' (''count='' @ show_int (df_overdue_slot_replacements f)) a0 else a0);
         a2 = (if df_dead_notifications f \<noteq> 0
               then warn ''COPY_DEAD_TELEGRAM_NOTIFICATIONS'' (''count='' @ show_int (df_dead_notifications f)) a1 else a1) in
     case df_oldest_pending_notification_seconds f of None \<Rightarrow> a2
     | Some age \<Rightarrow>
       let detail = ''pending='' @ show_int (df_pending_notifications f) @ '':oldest_seconds='' @ dstr age in
       if df_pending_notifications f \<noteq> 0 \<and> dec 120 < age
       then if dec 600 < age then alarm ''COPY_TELEGRAM_OUTBOX_STALLED'' detail a2 else warn ''COPY_TELEGRAM_OUTBOX_STALLED'' detail a2
       else a2)"

definition check_reviews :: "database_health_facts \<Rightarrow> audit \<Rightarrow> audit" where
  "check_reviews f a0 =
    (let age_text = (\<lambda>age. ''age_hours='' @ optional_decimal_text age);
         a1 = (if older_than 36 (df_short_selection_age_hours f) then warn ''COPY_SHORT_SELECTION_STALE'' (age_text (df_short_selection_age_hours f)) a0 else a0);
         a2 = (if older_than 192 (df_long_selection_age_hours f) then warn ''COPY_LONG_SELECTION_STALE'' (age_text (df_long_selection_age_hours f)) a1 else a1) in
     if older_than 2 (df_latest_codex_audit_age_hours f) then warn ''COPY_CODEX_AUDIT_STALE'' (age_text (df_latest_codex_audit_age_hours f)) a2
     else if df_latest_codex_audit_state f = Some ''FAILED'' then warn ''COPY_CODEX_AUDIT_REPORTED_FAILURE'' ''latest_state=FAILED'' a2 else a2)"

definition check_account :: "database_health_facts \<Rightarrow> copy_account_snapshot \<Rightarrow> audit \<Rightarrow> audit" where
  "check_account f account a0 =
    (let a1 = (if \<not> ca_can_trade account then alarm ''COPY_ACCOUNT_TRADING_DISABLED'' ''can_trade=false'' a0 else a0) in
     if \<not> ca_hedge_mode account
     then if df_control_state f = RUNNING then alarm ''COPY_HEDGE_MODE_NOT_READY'' ''hedge_mode=false'' a1
          else warn ''COPY_HEDGE_MODE_NOT_READY'' ''hedge_mode=false'' a1
     else a1)"

definition check_risk :: "copy_account_snapshot \<Rightarrow> account_risk_decision \<Rightarrow> audit \<Rightarrow> audit" where
  "check_risk account risk a =
    (let detail = ''logical_margin='' @ dstr (ca_margin_balance_usdt account) in
     if ad_reduce_all_required risk then request_control REDUCE_ALL (add_finding ''COPY_ACCOUNT_EMERGENCY_RISK_LINE'' Critical detail a)
     else if ad_pause_new_entries risk \<and> ca_hedge_mode account \<and> ca_can_trade account
     then request_control PAUSED_NEW_ENTRIES (warn ''COPY_ACCOUNT_WARNING_RISK_LINE'' detail a) else a)"

section \<open>Reconciliation\<close>

definition tolerance :: decimal where
  "tolerance = Dec False 1 (- 8)"

text \<open>The keys sorted by symbol and then by side; \<open>LONG\<close> sorts before \<open>SHORT\<close>.\<close>

definition sorted_keys :: "position_key list \<Rightarrow> position_key list" where
  "sorted_keys ks = concat (map (\<lambda>s. filter (\<lambda>k. k \<in> set ks) [(s, LONG), (s, SHORT)]) (sorted_set (map fst ks)))"

definition explained_by_pending_entry :: "database_health_facts \<Rightarrow> position_key \<Rightarrow> decimal \<Rightarrow> bool" where
  "explained_by_pending_entry f key difference =
    (let pending_allowance = dict_get (df_pending_entry_allowances f) key 0 in
     0 < difference \<and> 0 < pending_allowance \<and> difference \<le> pending_allowance + tolerance)"

definition position_difference :: "database_health_facts \<Rightarrow> (position_key, decimal) dict \<Rightarrow> position_key \<Rightarrow> decimal" where
  "position_difference f exchange key = dict_get exchange key 0 - dict_get (df_virtual_positions f) key 0"

definition unexplained :: "database_health_facts \<Rightarrow> (position_key, decimal) dict \<Rightarrow> position_key \<Rightarrow> bool" where
  "unexplained f exchange key = (let difference = position_difference f exchange key in
     tolerance < dabs difference \<and> \<not> explained_by_pending_entry f key difference)"

definition check_position :: "database_health_facts \<Rightarrow> (position_key, decimal) dict \<Rightarrow> position_key \<Rightarrow> audit \<Rightarrow> audit" where
  "check_position f exchange key a =
    (if unexplained f exchange key
     then alarm ''COPY_POSITION_RECONCILIATION_MISMATCH'' (fst key @ '':'' @ position_side_value (snd key) @ '':virtual=''
       @ dstr (dict_get (df_virtual_positions f) key 0) @ '':exchange='' @ dstr (dict_get exchange key 0)) a
     else a)"

definition check_positions :: "database_health_facts \<Rightarrow> (position_key, decimal) dict \<Rightarrow> audit \<Rightarrow> audit" where
  "check_positions f exchange = fold (check_position f exchange) (sorted_keys (map fst (df_virtual_positions f) @ map fst exchange))"

section \<open>The host\<close>

definition REQUIRED_UNITS :: "string list" where
  "REQUIRED_UNITS = [''aiq-copy-poller.service'', ''aiq-copy-telegram.service'']"

definition check_unit :: "host_health_facts \<Rightarrow> string \<Rightarrow> audit \<Rightarrow> audit" where
  "check_unit h u a =
    (let state = dict_get (hh_service_states h) u ''unknown'' in
     if state \<noteq> ''active'' then alarm ''COPY_REQUIRED_SERVICE_INACTIVE'' (''unit='' @ u @ '':state='' @ state) a else a)"

definition check_stream :: "host_health_facts \<Rightarrow> audit \<Rightarrow> audit" where
  "check_stream h a = (case hh_user_stream_unit h of None \<Rightarrow> a
     | Some u \<Rightarrow> let state = dict_get (hh_service_states h) u ''unknown'' in
         if state \<noteq> ''active'' then warn ''COPY_TESTNET_USER_STREAM_INACTIVE'' (''unit='' @ u @ '':state='' @ state) a else a)"

definition check_disk :: "host_health_facts \<Rightarrow> audit \<Rightarrow> audit" where
  "check_disk h a =
    (let gibibyte = 1024 ^ 3;
         detail = ''free_bytes='' @ show_int (hh_root_free_bytes h) @ '':free_pct='' @ dstr (hh_root_free_percent h) in
     if hh_root_free_bytes h < 2 * gibibyte \<or> hh_root_free_percent h < dec 2 then alarm ''COPY_HOST_DISK_CRITICAL'' detail a
     else if hh_root_free_bytes h < 10 * gibibyte \<or> hh_root_free_percent h < dec 10 then warn ''COPY_HOST_DISK_LOW'' detail a else a)"

definition check_memory :: "host_health_facts \<Rightarrow> audit \<Rightarrow> audit" where
  "check_memory h a =
    (let detail = ''available_bytes='' @ show_int (hh_memory_available_bytes h) in
     if hh_memory_available_bytes h < 256 * 1024 ^ 2 then alarm ''COPY_HOST_MEMORY_CRITICAL'' detail a
     else if hh_memory_available_bytes h < 512 * 1024 ^ 2 then warn ''COPY_HOST_MEMORY_LOW'' detail a else a)"

definition check_backup :: "host_health_facts \<Rightarrow> audit \<Rightarrow> audit" where
  "check_backup h a = (case hh_backup_age_hours h of
       None \<Rightarrow> warn ''COPY_DATABASE_BACKUP_MISSING'' ''latest_verified_backup=missing'' a
     | Some age \<Rightarrow> let detail = ''age_hours='' @ dstr age in
         if dec 72 < age then alarm ''COPY_DATABASE_BACKUP_CRITICAL'' detail a
         else if dec 36 < age then warn ''COPY_DATABASE_BACKUP_STALE'' detail a else a)"

definition check_host :: "host_health_facts option \<Rightarrow> audit \<Rightarrow> audit" where
  "check_host host a = (case host of None \<Rightarrow> a
     | Some h \<Rightarrow> check_backup h (check_memory h (check_disk h (check_stream h (fold (check_unit h) REQUIRED_UNITS a)))))"

section \<open>The report\<close>

definition health_report_of :: "audit \<Rightarrow> health_report" where
  "health_report_of a = \<lparr>hr_state = (if list_ex (\<lambda>x. hf_severity x = Critical) (au_findings a) then Failed
       else if au_findings a \<noteq> [] then Degraded else Healthy),
     hr_findings = au_findings a, hr_requested_control = au_requested a\<rparr>"

definition health_require_utc :: "datetime \<Rightarrow> unit result" where
  "health_require_utc t = require (is_utc t) (ValueError ''copy health time must be timezone-aware UTC'')"

definition evaluate_health ::
  "database_health_facts \<Rightarrow> copy_account_snapshot \<Rightarrow> (position_key, decimal) dict \<Rightarrow> datetime \<Rightarrow> host_health_facts option \<Rightarrow> health_report result" where
  "evaluate_health f account exchange_positions now host =
    rbind (health_require_utc now) (\<lambda>_.
    let a = check_account f account (check_reviews f (check_notifications f (check_signals f (check_poll_failures f (check_slots f
              (check_polls f \<lparr>au_findings = [], au_requested = None\<rparr>)))))) in
    rbind (evaluate_account_risk account REDUCE now None) (\<lambda>risk.
    Inr (health_report_of (check_host host (check_positions f exchange_positions (check_risk account risk a))))))"

section \<open>Reading the account\<close>

definition health_account_snapshot ::
  "document \<Rightarrow> document \<Rightarrow> document \<Rightarrow> decimal option \<Rightarrow> datetime \<Rightarrow> copy_account_snapshot result" where
  "health_account_snapshot account_v3 account_v2 position_mode baseline_usdt observed_at =
    rbind (account_from_api (AList.update ''canTrade'' (doc_get account_v2 ''canTrade'') account_v3) position_mode observed_at) (\<lambda>raw.
    let baseline = (case baseline_usdt of None \<Rightarrow> ca_margin_balance_usdt raw | Some b \<Rightarrow> if deq b 0 then ca_margin_balance_usdt raw else b);
        logical = dmax 0 (dec 150 + ca_margin_balance_usdt raw - baseline) in
    rbind (logical_available_balance (ca_available_balance_usdt raw) logical (ca_total_initial_margin_usdt raw)) (\<lambda>available.
    Inr \<lparr>ca_observed_at = observed_at, ca_hedge_mode = ca_hedge_mode raw, ca_can_trade = ca_can_trade raw, ca_wallet_balance_usdt = logical,
      ca_margin_balance_usdt = logical, ca_available_balance_usdt = available, ca_total_initial_margin_usdt = ca_total_initial_margin_usdt raw,
      ca_total_maintenance_margin_usdt = ca_total_maintenance_margin_usdt raw\<rparr>))"

definition positions_error :: exn where
  "positions_error = ValueError ''COPY_ACCOUNT_POSITIONS_INVALID''"

text \<open>Every error of a row becomes the one error of the reader.\<close>

definition add_exchange_position :: "json \<Rightarrow> (position_key, decimal) dict \<Rightarrow> (position_key, decimal) dict result" where
  "add_exchange_position item positions = (case item of
     JObj d \<Rightarrow> (case in_texts (doc_get d ''positionSide'') {''LONG'', ''SHORT''} of
         Inl _ \<Rightarrow> Inl positions_error
       | Inr False \<Rightarrow> Inr positions
       | Inr True \<Rightarrow> (case json_decimal (dict_get d ''positionAmt'' (JStr ''0'')) of
           Finite x \<Rightarrow> if 0 < dabs x
             then (case (map_of d ''symbol'', position_side_of (py_str (doc_get d ''positionSide''))) of
                 (Some symbol, Inr side) \<Rightarrow> Inr (AList.update (py_str symbol, side) (dabs x) positions)
               | _ \<Rightarrow> Inl positions_error)
             else Inr positions
         | _ \<Rightarrow> Inl positions_error))
   | _ \<Rightarrow> Inr positions)"

fun add_exchange_positions :: "json list \<Rightarrow> (position_key, decimal) dict \<Rightarrow> (position_key, decimal) dict result" where
  "add_exchange_positions [] positions = Inr positions"
| "add_exchange_positions (item # items) positions = rbind (add_exchange_position item positions) (add_exchange_positions items)"

definition exchange_positions_from_account :: "document \<Rightarrow> (position_key, decimal) dict result" where
  "exchange_positions_from_account account_v2 = (case doc_get account_v2 ''positions'' of
     JArr items \<Rightarrow> add_exchange_positions items [] | _ \<Rightarrow> Inl positions_error)"

definition finding_codes :: "json \<Rightarrow> string list" where
  "finding_codes v = (case v of JArr items \<Rightarrow> List.map_filter (\<lambda>item. case item of
       JObj d \<Rightarrow> (case doc_get d ''code'' of JStr s \<Rightarrow> Some s | _ \<Rightarrow> None) | _ \<Rightarrow> None) items | _ \<Rightarrow> [])"

section \<open>Writing a report\<close>

record health_check_run =
  hc_health_run_id :: string
  hc_check_kind :: string
  hc_state :: string
  hc_findings :: json
  hc_evidence_hash :: string
  hc_occurred_at :: datetime

record outbox_message =
  om_message_id :: string
  om_deduplication_key :: string
  om_topic :: string
  om_payload :: document
  om_payload_hash :: string

record health_tables =
  ht_runs :: "health_check_run list"
  ht_outbox :: "outbox_message list"

text \<open>\<open>str(datetime)\<close>, which \<open>json.dumps(..., default=str)\<close> uses, has a space where \<open>isoformat\<close> has a T.\<close>

definition datetime_str :: "datetime \<Rightarrow> string" where
  "datetime_str t = map (\<lambda>c. if c = CHR ''T'' then CHR '' '' else c) (isoformat_utc t)"

definition finding_document :: "health_finding \<Rightarrow> json" where
  "finding_document x = JObj [(''code'', JStr (hf_code x)), (''severity'', JStr (severity_value (hf_severity x))), (''detail'', JStr (hf_detail x))]"

definition health_evidence_hash :: "health_report \<Rightarrow> string" where
  "health_evidence_hash r = digest [(''findings'', JArr (map finding_document (hr_findings r))), (''state'', JStr (health_state_value (hr_state r)))]"

definition health_run_id :: "health_report \<Rightarrow> datetime \<Rightarrow> string" where
  "health_run_id r occurred_at = digest [(''check_kind'', JStr ''WATCHDOG''), (''evidence_hash'', JStr (health_evidence_hash r)),
     (''occurred_at'', JStr (datetime_str occurred_at))]"

definition health_payload :: "health_report \<Rightarrow> datetime \<Rightarrow> bool \<Rightarrow> document" where
  "health_payload r occurred_at codex_wakeup_requested =
    [(''event'', JStr ''copy_health''), (''state'', JStr (health_state_value (hr_state r))), (''findings'', JArr (map finding_document (hr_findings r))),
     (''requested_control'', case hr_requested_control r of None \<Rightarrow> JNull | Some c \<Rightarrow> JStr (control_state_value c)),
     (''codex_wakeup_requested'', JBool codex_wakeup_requested), (''occurred_at'', JStr (isoformat_utc occurred_at))]"

definition insert_message :: "outbox_message \<Rightarrow> outbox_message list \<Rightarrow> outbox_message list result" where
  "insert_message msg out =
    (if list_ex (\<lambda>x. om_deduplication_key x = om_deduplication_key msg) out then Inr out
     else if list_ex (\<lambda>x. om_message_id x = om_message_id msg) out then Inl (DatabaseError ''duplicate key: outbox'')
     else Inr (out @ [msg]))"

text \<open>One transaction: both rows are written or none.\<close>

definition persist :: "health_report \<Rightarrow> datetime \<Rightarrow> bool \<Rightarrow> health_tables \<Rightarrow> (string \<times> health_tables) result" where
  "persist r occurred_at codex_wakeup_requested t =
    rbind (health_require_utc occurred_at) (\<lambda>_.
    let run_id = health_run_id r occurred_at; payload = health_payload r occurred_at codex_wakeup_requested;
        run = \<lparr>hc_health_run_id = run_id, hc_check_kind = ''WATCHDOG'', hc_state = health_state_value (hr_state r),
          hc_findings = JArr (map finding_document (hr_findings r)), hc_evidence_hash = health_evidence_hash r, hc_occurred_at = occurred_at\<rparr> in
    rbind (require (\<not> list_ex (\<lambda>x. hc_health_run_id x = run_id) (ht_runs t)) (DatabaseError ''duplicate key: health_check_runs'')) (\<lambda>_.
    rbind (if hr_state r = Healthy then Inr (ht_outbox t)
           else insert_message \<lparr>om_message_id = digest [(''health_notification'', JStr run_id)], om_deduplication_key = ''copy-health:'' @ run_id,
             om_topic = ''copy.telegram'', om_payload = payload, om_payload_hash = digest payload\<rparr> (ht_outbox t)) (\<lambda>out.
    Inr (run_id, \<lparr>ht_runs = ht_runs t @ [run], ht_outbox = out\<rparr>))))"

section \<open>Fail-closed reports\<close>

text \<open>The findings that ask for a pause: the critical ones, and the warning line of the account.\<close>

definition pausing_finding :: "health_finding \<Rightarrow> bool" where
  "pausing_finding x \<longleftrightarrow> hf_severity x = Critical \<or> hf_code x = ''COPY_ACCOUNT_WARNING_RISK_LINE''"

definition fail_closed :: "audit \<Rightarrow> bool" where
  "fail_closed a \<longleftrightarrow> au_requested a = (if list_ex pausing_finding (au_findings a) then Some PAUSED_NEW_ENTRIES else None)"

named_theorems audit_steps \<open>checks keep an audit fail closed\<close>

lemma fail_closed_start [simp]: "fail_closed \<lparr>au_findings = [], au_requested = None\<rparr>"
  by (simp add: fail_closed_def)

lemma fail_closed_warn [audit_steps]: "fail_closed a \<Longrightarrow> code \<noteq> ''COPY_ACCOUNT_WARNING_RISK_LINE'' \<Longrightarrow> fail_closed (warn code detail a)"
  by (simp add: fail_closed_def add_finding_def pausing_finding_def)

lemma fail_closed_alarm [audit_steps]: "fail_closed a \<Longrightarrow> fail_closed (alarm code detail a)"
  by (simp add: fail_closed_def add_finding_def request_control_def pausing_finding_def stronger_control_def)

lemma fail_closed_risk_line: "fail_closed a \<Longrightarrow> fail_closed (request_control PAUSED_NEW_ENTRIES (warn ''COPY_ACCOUNT_WARNING_RISK_LINE'' detail a))"
  by (simp add: fail_closed_def add_finding_def request_control_def pausing_finding_def stronger_control_def)

lemma fail_closed_checks:
  assumes "fail_closed a"
  shows "fail_closed (check_polls f a)" "fail_closed (check_slots f a)" "fail_closed (check_poll_failures f a)" "fail_closed (check_signals f a)"
    "fail_closed (check_notifications f a)" "fail_closed (check_reviews f a)" "fail_closed (check_account f account a)"
    "fail_closed (check_position f exchange key a)" "fail_closed (check_unit h u a)" "fail_closed (check_stream h a)" "fail_closed (check_disk h a)"
    "fail_closed (check_memory h a)" "fail_closed (check_backup h a)"
  using assms
  by (simp_all add: check_polls_def check_slots_def check_poll_failures_def check_signals_def check_notifications_def check_reviews_def check_account_def
    check_position_def check_unit_def check_stream_def check_disk_def check_memory_def check_backup_def audit_steps Let_def split: option.split)

lemma fail_closed_fold: "(\<And>x b. fail_closed b \<Longrightarrow> fail_closed (f x b)) \<Longrightarrow> fail_closed a \<Longrightarrow> fail_closed (fold f xs a)"
  by (induction xs arbitrary: a) auto

lemma fail_closed_positions: "fail_closed a \<Longrightarrow> fail_closed (check_positions f exchange a)"
  unfolding check_positions_def by (rule fail_closed_fold) (auto intro: fail_closed_checks)

lemma fail_closed_host: "fail_closed a \<Longrightarrow> fail_closed (check_host host a)"
  by (cases host) (auto simp: check_host_def intro!: fail_closed_checks fail_closed_fold)

text \<open>Nothing an audit has found is ever dropped.\<close>

abbreviation critical_code :: "string \<Rightarrow> audit \<Rightarrow> bool" where
  "critical_code code a \<equiv> \<exists>x \<in> set (au_findings a). hf_code x = code \<and> hf_severity x = Critical"

lemma findings_kept: "set (au_findings a) \<subseteq> set (au_findings (check_unit h u a))" "set (au_findings a) \<subseteq> set (au_findings (check_stream h a))"
  "set (au_findings a) \<subseteq> set (au_findings (check_disk h a))" "set (au_findings a) \<subseteq> set (au_findings (check_memory h a))"
  "set (au_findings a) \<subseteq> set (au_findings (check_backup h a))" "set (au_findings a) \<subseteq> set (au_findings (check_position f exchange key a))"
  by (auto simp: check_unit_def check_stream_def check_disk_def check_memory_def check_backup_def check_position_def add_finding_def request_control_def
    Let_def split: option.split)

lemma fold_kept: "(\<And>x b. set (au_findings b) \<subseteq> set (au_findings (f x b))) \<Longrightarrow> set (au_findings a) \<subseteq> set (au_findings (fold f xs a))"
  by (induction xs arbitrary: a) (simp, simp, meson order_trans)

lemma fold_finds:
  assumes "x \<in> set xs" "\<And>b. critical_code code (f x b)" "\<And>x b. set (au_findings b) \<subseteq> set (au_findings (f x b))"
  shows "critical_code code (fold f xs a)"
  using assms(1)
proof (induction xs arbitrary: a)
  case (Cons y ys)
  show ?case
  proof (cases "x = y")
    case True
    then show ?thesis using assms(2) [of a] fold_kept [of f "f y a" ys, OF assms(3)] by auto
  next
    case False
    with Cons show ?thesis by simp
  qed
qed simp

lemma sorted_keys_set: "set (sorted_keys ks) = set ks"
proof (intro equalityI subsetI)
  fix k assume k: "k \<in> set ks"
  have "k = (fst k, LONG) \<or> k = (fst k, SHORT)" by (cases k; cases "snd k") simp_all
  with k have "k \<in> set (filter (\<lambda>k. k \<in> set ks) [(fst k, LONG), (fst k, SHORT)])" unfolding set_filter by (simp only: list.set insert_iff) blast
  moreover have "fst k \<in> set (sorted_set (map fst ks))" using k by simp
  ultimately show "k \<in> set (sorted_keys ks)" unfolding sorted_keys_def set_concat set_map by blast
next
  fix k assume "k \<in> set (sorted_keys ks)"
  then show "k \<in> set ks" unfolding sorted_keys_def set_concat set_map by (elim UnionE imageE) (simp only: set_filter mem_Collect_eq)
qed

lemma unexplained_key: "unexplained f exchange key \<Longrightarrow> key \<in> set (map fst (df_virtual_positions f) @ map fst exchange)"
proof (rule ccontr)
  assume u: "unexplained f exchange key" and "key \<notin> set (map fst (df_virtual_positions f) @ map fst exchange)"
  then have "map_of (df_virtual_positions f) key = None" "map_of exchange key = None" by (auto simp: map_of_eq_None_iff)
  then have "position_difference f exchange key = 0 - 0" by (simp add: position_difference_def dict_get_def)
  moreover have "\<not> tolerance < dabs (0 - 0)" by code_simp
  ultimately show False using u by (simp add: unexplained_def Let_def)
qed

lemma mismatch_found:
  assumes "unexplained f exchange key"
  shows "critical_code ''COPY_POSITION_RECONCILIATION_MISMATCH'' (check_positions f exchange a)"
  unfolding check_positions_def
proof (rule fold_finds)
  show "key \<in> set (sorted_keys (map fst (df_virtual_positions f) @ map fst exchange))"
    using unexplained_key [OF assms] by (simp only: sorted_keys_set)
  show "critical_code ''COPY_POSITION_RECONCILIATION_MISMATCH'' (check_position f exchange key b)" for b
    using assms by (simp add: check_position_def add_finding_def request_control_def)
qed (rule findings_kept)

lemma inactive_unit_found:
  assumes "u \<in> set REQUIRED_UNITS" "dict_get (hh_service_states h) u ''unknown'' \<noteq> ''active''"
  shows "critical_code ''COPY_REQUIRED_SERVICE_INACTIVE'' (fold (check_unit h) REQUIRED_UNITS a)"
proof (rule fold_finds [OF assms(1)])
  show "critical_code ''COPY_REQUIRED_SERVICE_INACTIVE'' (check_unit h u b)" for b
    using assms(2) by (simp add: check_unit_def add_finding_def request_control_def Let_def)
qed (rule findings_kept)

lemma host_findings_kept: "set (au_findings (fold (check_unit h) REQUIRED_UNITS a)) \<subseteq> set (au_findings (check_host (Some h) a))"
proof -
  define b where "b = fold (check_unit h) REQUIRED_UNITS a"
  have "set (au_findings b) \<subseteq> set (au_findings (check_backup h (check_memory h (check_disk h (check_stream h b)))))"
    using findings_kept by (meson order_trans)
  then show ?thesis by (simp add: check_host_def b_def)
qed

lemma check_host_kept: "set (au_findings a) \<subseteq> set (au_findings (check_host host a))"
proof (cases host)
  case (Some h)
  have "set (au_findings a) \<subseteq> set (au_findings (fold (check_unit h) REQUIRED_UNITS a))" by (rule fold_kept) (rule findings_kept)
  then show ?thesis using host_findings_kept Some by (metis order_trans)
qed (simp add: check_host_def)

text \<open>With the default policy of the account the emergency line never asks to reduce everything.\<close>

lemma default_risk_decision:
  assumes "is_utc now" "is_utc (ca_observed_at account)"
  obtains risk where "evaluate_account_risk account REDUCE now None = Inr risk" "\<not> ad_reduce_all_required risk"
proof -
  have same: "evaluate_account_risk account REDUCE now None = evaluate_account_risk account REDUCE now (Some default_risk_policy)"
    by (simp add: evaluate_account_risk_def)
  from risk_gate_decides [OF assms, of REDUCE default_risk_policy] obtain risk
    where "evaluate_account_risk account REDUCE now (Some default_risk_policy) = Inr risk"
      "ad_reduce_all_required risk \<longrightarrow> rk_automatic_intervention_enabled default_risk_policy"
    by blast
  with that same show thesis by (simp add: default_risk_policy_def)
qed

lemma fail_closed_risk: "fail_closed a \<Longrightarrow> \<not> ad_reduce_all_required risk \<Longrightarrow> fail_closed (check_risk account risk a)"
  by (simp add: check_risk_def fail_closed_risk_line Let_def)

text \<open>With UTC times the health check always reports, and it is fail closed. The report is failed exactly when a finding is critical; a pause of new
  entries is requested exactly when a finding is critical or the account is beyond its warning line, and nothing stronger is ever requested. A position whose
  difference to the exchange exceeds the tolerance and is not explained by a pending entry, and a required service that is not active, always fail the
  report and so request the pause.\<close>

theorem health_is_fail_closed:
  assumes "is_utc now" "is_utc (ca_observed_at account)"
  shows "\<exists>r. evaluate_health f account exchange now host = Inr r
    \<and> (hr_state r = Failed \<longleftrightarrow> (\<exists>x \<in> set (hr_findings r). hf_severity x = Critical))
    \<and> hr_requested_control r = (if \<exists>x \<in> set (hr_findings r). pausing_finding x then Some PAUSED_NEW_ENTRIES else None)
    \<and> (\<forall>key. unexplained f exchange key \<longrightarrow> hr_state r = Failed)
    \<and> (\<forall>h u. host = Some h \<and> u \<in> set REQUIRED_UNITS \<and> dict_get (hh_service_states h) u ''unknown'' \<noteq> ''active'' \<longrightarrow> hr_state r = Failed)"
proof -
  from assms obtain risk where risk: "evaluate_account_risk account REDUCE now None = Inr risk" "\<not> ad_reduce_all_required risk"
    by (rule default_risk_decision)
  define a where "a = check_risk account risk (check_account f account (check_reviews f (check_notifications f (check_signals f (check_poll_failures f
    (check_slots f (check_polls f \<lparr>au_findings = [], au_requested = None\<rparr>)))))))"
  define b where "b = check_host host (check_positions f exchange a)"
  have report: "evaluate_health f account exchange now host = Inr (health_report_of b)"
    using assms(1) risk(1) by (simp add: evaluate_health_def health_require_utc_def a_def b_def Let_def)
  have "fail_closed a" unfolding a_def by (intro fail_closed_risk fail_closed_checks fail_closed_start risk(2))
  then have closed: "fail_closed b" unfolding b_def by (intro fail_closed_host fail_closed_positions)
  have mismatch: "critical_code ''COPY_POSITION_RECONCILIATION_MISMATCH'' b" if "unexplained f exchange key" for key
    using mismatch_found [OF that, of a] check_host_kept [of "check_positions f exchange a" host] unfolding b_def by blast
  have service: "critical_code ''COPY_REQUIRED_SERVICE_INACTIVE'' b" if "host = Some h" "u \<in> set REQUIRED_UNITS"
      "dict_get (hh_service_states h) u ''unknown'' \<noteq> ''active''" for h u
    using inactive_unit_found [OF that(2,3), of "check_positions f exchange a"] host_findings_kept [of h "check_positions f exchange a"]
    unfolding b_def that(1) by blast
  have state: "hr_state (health_report_of b) = Failed \<longleftrightarrow> (\<exists>x \<in> set (au_findings b). hf_severity x = Critical)"
    by (simp add: health_report_of_def list_ex_iff)
  have "hr_requested_control (health_report_of b) = (if \<exists>x \<in> set (au_findings b). pausing_finding x then Some PAUSED_NEW_ENTRIES else None)"
    using closed by (simp add: fail_closed_def health_report_of_def list_ex_iff)
  moreover have "hr_findings (health_report_of b) = au_findings b" by (simp add: health_report_of_def)
  ultimately show ?thesis
    by (intro exI [of _ "health_report_of b"] conjI report; (simp only: state)?; use mismatch service in blast)
qed

end
