(* ===== verification/Activation.thy ===== *)
theory Activation
  imports Artifacts CopyOrder
begin

text \<open>
  What has to hold before orders can be real: \<open>copy_trading/production_activation.py\<close>, the private files of \<open>common/private_files.py\<close> and the
  start of \<open>services/copy_trading.py\<close> up to its first cycle. The operating system, the JSON and time decoders, the exchange client and the
  repository are parameters. \<open>ProductionActivationError\<close> is a \<open>ValueError\<close> that nothing distinguishes.
\<close>

section \<open>Private files\<close>

record private_metadata = file_metadata +
  pm_dev :: int
  pm_ctime_ns :: int

record 's private_files =
  pf_resolve :: "path \<Rightarrow> ('s, path) comp"
  pf_open :: "path \<Rightarrow> ('s, int) comp"
  pf_fstat :: "int \<Rightarrow> ('s, private_metadata) comp"
  pf_read :: "int \<Rightarrow> nat \<Rightarrow> ('s, string) comp"
  pf_close :: "int \<Rightarrow> ('s, unit) comp"
  pf_geteuid :: int
  pf_decode_utf8 :: "string \<Rightarrow> string option"

definition is_os_failure :: "exn \<Rightarrow> bool" where
  "is_os_failure e = (case e of OSError _ \<Rightarrow> True | _ \<Rightarrow> False)"

text \<open>Each read returns at least one byte or ends the loop, so \<open>remaining\<close> rounds are enough.\<close>

fun read_chunks :: "'s private_files \<Rightarrow> int \<Rightarrow> nat \<Rightarrow> nat \<Rightarrow> string \<Rightarrow> ('s, string) comp" where
  "read_chunks F fd 0 remaining content = ret content"
| "read_chunks F fd (Suc n) remaining content =
    (if remaining = 0 then ret content
     else andThen (pf_read F fd remaining) (\<lambda>chunk.
       if chunk = [] then ret content else read_chunks F fd n (remaining - length chunk) (content @ chunk)))"

definition private_file_ok :: "'s private_files \<Rightarrow> nat \<Rightarrow> private_metadata \<Rightarrow> bool" where
  "private_file_ok F maximum_bytes m \<longleftrightarrow> md_mode m div 4096 mod 16 = 8 \<and> md_mode m mod 4096 = 256 \<and> md_uid m = pf_geteuid F
     \<and> 1 \<le> md_size m \<and> md_size m \<le> int maximum_bytes"

definition unchanged_file :: "private_metadata \<Rightarrow> private_metadata \<Rightarrow> bool" where
  "unchanged_file m m' \<longleftrightarrow> pm_dev m' = pm_dev m \<and> md_ino m' = md_ino m \<and> md_size m' = md_size m \<and> md_mtime_ns m' = md_mtime_ns m \<and> pm_ctime_ns m' = pm_ctime_ns m"

text \<open>The body of the \<open>try\<close> block after the file was opened.\<close>

definition read_open_file :: "'s private_files \<Rightarrow> nat \<Rightarrow> string \<Rightarrow> int \<Rightarrow> ('s, string) comp" where
  "read_open_file F maximum_bytes unsafe_reason fd =
    andThen (pf_fstat F fd) (\<lambda>m.
    if \<not> private_file_ok F maximum_bytes m then raise (AuthorizationDenied unsafe_reason)
    else andThen (read_chunks F fd (maximum_bytes + 1) (maximum_bytes + 1) []) (\<lambda>content.
    andThen (pf_fstat F fd) (\<lambda>m'.
    if int (length content) \<noteq> md_size m \<or> \<not> unchanged_file m m' then raise (AuthorizationDenied unsafe_reason) else ret content)))"

text \<open>\<open>finally: os.close(descriptor)\<close>: a failure to close replaces the result.\<close>

definition closing :: "'s private_files \<Rightarrow> int \<Rightarrow> ('s, 'a) comp \<Rightarrow> ('s, 'a) comp" where
  "closing F fd body = (\<lambda>s. case body s of (r, s') \<Rightarrow> (case pf_close F fd s' of (Inl e, s'') \<Rightarrow> (Inl e, s'') | (Inr _, s'') \<Rightarrow> (r, s'')))"

definition read_private_file :: "'s private_files \<Rightarrow> path \<Rightarrow> path \<Rightarrow> nat \<Rightarrow> string \<Rightarrow> ('s, string) comp" where
  "read_private_file F p forbidden_repository_root maximum_bytes unsafe_reason =
    (let unsafe = raise (AuthorizationDenied unsafe_reason) in
     if \<not> absolute_path p \<or> maximum_bytes < 1 then unsafe
     else tryExcept is_os_failure (andThen (pf_resolve F p) (\<lambda>a. andThen (pf_resolve F forbidden_repository_root) (\<lambda>b. ret (a, b))))
       (\<lambda>_. unsafe) (\<lambda>(resolved, repository_root).
     if resolved \<noteq> p \<or> prefix repository_root resolved then unsafe
     else tryExcept is_os_failure (pf_open F p) (\<lambda>_. unsafe) (\<lambda>fd.
       closing F fd (tryExcept is_os_failure (read_open_file F maximum_bytes unsafe_reason fd) (\<lambda>_. unsafe) ret))))"

definition private_text :: "'s private_files \<Rightarrow> path \<Rightarrow> path \<Rightarrow> string \<Rightarrow> nat \<Rightarrow> ('s, string) comp" where
  "private_text F p repository_root reason maximum_bytes =
    andThen (read_private_file F p repository_root maximum_bytes reason) (\<lambda>raw. case pf_decode_utf8 F raw of
      None \<Rightarrow> raise (ValueError reason)
    | Some text \<Rightarrow> let value = py_strip text in
        if value = [] \<or> CHR 0x0A \<in> set value \<or> CHR 0x0D \<in> set value then raise (ValueError reason) else ret value)"

definition private_document_text :: "'s private_files \<Rightarrow> path \<Rightarrow> path \<Rightarrow> string \<Rightarrow> nat \<Rightarrow> ('s, string) comp" where
  "private_document_text F p repository_root reason maximum_bytes =
    andThen (read_private_file F p repository_root maximum_bytes reason) (\<lambda>raw. case pf_decode_utf8 F raw of
      None \<Rightarrow> raise (ValueError reason)
    | Some text \<Rightarrow> let value = py_strip text in if value = [] then raise (ValueError reason) else ret value)"

section \<open>The activation manifest\<close>

record production_activation =
  pa_activation_id :: string
  pa_api_key_sha256 :: string
  pa_issued_at :: datetime
  pa_expires_at :: datetime
  pa_maximum_operating_envelope_usdt :: decimal

definition PRODUCTION_REST_BASE :: string where
  "PRODUCTION_REST_BASE = ''https://fapi.binance.com''"

definition PRODUCTION_REAL_ORDER_ACKNOWLEDGEMENT :: string where
  "PRODUCTION_REAL_ORDER_ACKNOWLEDGEMENT = ''I_ACKNOWLEDGE_THIS_PROFILE_SUBMITS_REAL_BINANCE_FUTURES_ORDERS''"

definition activation_id_text :: "string \<Rightarrow> bool" where
  "activation_id_text s \<longleftrightarrow> 16 \<le> length s \<and> length s \<le> 64
     \<and> list_all (\<lambda>c. (CHR ''A'' \<le> c \<and> c \<le> CHR ''Z'') \<or> (CHR ''a'' \<le> c \<and> c \<le> CHR ''z'') \<or> is_digit c \<or> c \<in> {CHR ''_'', CHR ''-''}) s"

definition activation_require_utc :: "datetime \<Rightarrow> unit result" where
  "activation_require_utc t = require (is_utc t) (ValueError ''COPY_PRODUCTION_ACTIVATION_TIMEZONE_INVALID'')"

definition activation_timestamp :: "(string \<Rightarrow> datetime option) \<Rightarrow> json \<Rightarrow> string \<Rightarrow> datetime result" where
  "activation_timestamp fromisoformat v field =
    (let invalid = ValueError (''COPY_PRODUCTION_'' @ field @ ''_INVALID'') in
     case v of JStr s \<Rightarrow> (case fromisoformat (zulu_offset s) of None \<Rightarrow> Inl invalid
       | Some t \<Rightarrow> rbind (activation_require_utc t) (\<lambda>_. Inr t)) | _ \<Rightarrow> Inl invalid)"

fun check_literals :: "document \<Rightarrow> (string \<times> string) list \<Rightarrow> unit result" where
  "check_literals d [] = Inr ()"
| "check_literals d ((field, expected) # rest) = rbind (require (doc_get d field = JStr expected)
     (ValueError (''COPY_PRODUCTION_ACTIVATION_'' @ py_upper field @ ''_INVALID''))) (\<lambda>_. check_literals d rest)"

definition REQUIRED_LITERALS :: "(string \<times> string) list" where
  "REQUIRED_LITERALS = [(''schema_version'', ''1.0.0''), (''environment'', ''PRODUCTION''), (''rest_base'', PRODUCTION_REST_BASE),
    (''real_orders_acknowledgement'', PRODUCTION_REAL_ORDER_ACKNOWLEDGEMENT)]"

definition check_confirmations :: "document \<Rightarrow> unit result" where
  "check_confirmations d =
    rbind (require (doc_get d ''dedicated_futures_account_confirmed'' = JBool True) (ValueError ''COPY_PRODUCTION_DEDICATED_ACCOUNT_REQUIRED'')) (\<lambda>_.
    rbind (require (doc_get d ''hedge_mode_confirmed'' = JBool True) (ValueError ''COPY_PRODUCTION_HEDGE_MODE_CONFIRMATION_REQUIRED'')) (\<lambda>_.
    require (doc_get d ''reuse_testnet_database'' = JBool False) (ValueError ''COPY_PRODUCTION_TESTNET_DATABASE_REUSE_DENIED'')))"

definition text_matching :: "(string \<Rightarrow> bool) \<Rightarrow> json \<Rightarrow> string \<Rightarrow> string result" where
  "text_matching pattern v reason = (case v of JStr s \<Rightarrow> if pattern s then Inr s else Inl (ValueError reason) | _ \<Rightarrow> Inl (ValueError reason))"

definition envelope_of :: "json \<Rightarrow> decimal result" where
  "envelope_of v = (let invalid = ValueError ''COPY_PRODUCTION_OPERATING_ENVELOPE_INVALID'' in
     case json_decimal v of Finite x \<Rightarrow> if deq x (dec 150) then Inr x else Inl invalid | _ \<Rightarrow> Inl invalid)"

definition validate_activation ::
  "(string \<Rightarrow> datetime option) \<Rightarrow> document \<Rightarrow> string \<Rightarrow> datetime \<Rightarrow> production_activation result" where
  "validate_activation fromisoformat d api_key now =
    rbind (activation_require_utc now) (\<lambda>_.
    rbind (check_literals d REQUIRED_LITERALS) (\<lambda>_.
    rbind (check_confirmations d) (\<lambda>_.
    rbind (text_matching activation_id_text (doc_get d ''activation_id'') ''COPY_PRODUCTION_ACTIVATION_ID_INVALID'') (\<lambda>activation_id.
    rbind (text_matching sha256_text (doc_get d ''api_key_sha256'') ''COPY_PRODUCTION_API_KEY_FINGERPRINT_INVALID'') (\<lambda>fingerprint.
    rbind (require (fingerprint = sha256_hex api_key) (ValueError ''COPY_PRODUCTION_API_KEY_FINGERPRINT_MISMATCH'')) (\<lambda>_.
    rbind (activation_timestamp fromisoformat (doc_get d ''issued_at'') ''ISSUED_AT'') (\<lambda>issued_at.
    rbind (activation_timestamp fromisoformat (doc_get d ''expires_at'') ''EXPIRES_AT'') (\<lambda>expires_at.
    rbind (require (dt_instant issued_at \<le> dt_instant now \<and> dt_instant now < dt_instant expires_at) (ValueError ''COPY_PRODUCTION_ACTIVATION_NOT_CURRENT'')) (\<lambda>_.
    rbind (require (dt_instant issued_at < dt_instant expires_at \<and> dt_instant expires_at - dt_instant issued_at \<le> days 31)
       (ValueError ''COPY_PRODUCTION_ACTIVATION_WINDOW_INVALID'')) (\<lambda>_.
    rbind (envelope_of (doc_get d ''maximum_operating_envelope_usdt'')) (\<lambda>envelope.
    Inr \<lparr>pa_activation_id = activation_id, pa_api_key_sha256 = fingerprint, pa_issued_at = issued_at, pa_expires_at = expires_at,
      pa_maximum_operating_envelope_usdt = envelope\<rparr>)))))))))))"

definition parse_production_activation ::
  "(string \<Rightarrow> json option) \<Rightarrow> (string \<Rightarrow> datetime option) \<Rightarrow> string \<Rightarrow> string \<Rightarrow> datetime \<Rightarrow> production_activation result" where
  "parse_production_activation json_loads fromisoformat raw api_key now = (case json_loads raw of
     None \<Rightarrow> Inl (ValueError ''COPY_PRODUCTION_ACTIVATION_JSON_INVALID'')
   | Some (JObj d) \<Rightarrow> validate_activation fromisoformat d api_key now
   | Some _ \<Rightarrow> Inl (ValueError ''COPY_PRODUCTION_ACTIVATION_DOCUMENT_INVALID''))"

section \<open>The start of the service\<close>

definition check_flat_position :: "json \<Rightarrow> unit result" where
  "check_flat_position position = (let invalid = Inl (RuntimeError ''COPY_PRODUCTION_ACCOUNT_POSITIONS_INVALID'') in
     case position of JObj d \<Rightarrow> (case json_decimal (doc_get d ''positionAmt'') of
         Finite x \<Rightarrow> require (deq x 0) (RuntimeError ''COPY_PRODUCTION_INITIAL_ACCOUNT_NOT_FLAT'') | _ \<Rightarrow> invalid)
     | _ \<Rightarrow> invalid)"

definition require_empty_initial_production_account :: "document \<Rightarrow> unit result" where
  "require_empty_initial_production_account account =
    rbind (require (doc_get account ''canTrade'' = JBool True) (RuntimeError ''COPY_PRODUCTION_ACCOUNT_TRADING_DISABLED'')) (\<lambda>_.
    case doc_get account ''positions'' of
      JArr positions \<Rightarrow> rbind (rmap check_flat_position positions) (\<lambda>_. Inr ())
    | _ \<Rightarrow> Inl (RuntimeError ''COPY_PRODUCTION_ACCOUNT_POSITIONS_INVALID''))"

record service_arguments =
  sa_mode :: futures_environment
  sa_interval_seconds :: int
  sa_repository_root :: path
  sa_database_url_file :: path
  sa_api_key_file :: path
  sa_api_secret_file :: path
  sa_testnet_arm_file :: "path option"
  sa_production_arm_file :: "path option"

record 's service_systems =
  sy_files :: "'s private_files"
  sy_json_loads :: "string \<Rightarrow> json option"
  sy_fromisoformat :: "string \<Rightarrow> datetime option"
  sy_now :: "('s, datetime) comp"
  sy_new_client :: "futures_environment \<Rightarrow> string \<Rightarrow> string \<Rightarrow> ('s, unit) comp"
  sy_synchronize_time :: "('s, unit) comp"
  sy_position_mode :: "('s, document) comp"
  sy_account_information_v2 :: "('s, document) comp"
  sy_all_open_orders :: "('s, json list) comp"
  sy_execution_environment_binding :: "('s, string option) comp"
  sy_bind_execution_environment :: "string \<Rightarrow> datetime \<Rightarrow> ('s, unit) comp"

fun environment_value :: "futures_environment \<Rightarrow> string" where
  "environment_value TESTNET = ''TESTNET''"
| "environment_value PRODUCTION = ''PRODUCTION''"

definition check_arming :: "'s service_systems \<Rightarrow> service_arguments \<Rightarrow> ('s, unit) comp" where
  "check_arming Y A = (case sa_mode A of
     TESTNET \<Rightarrow>
       (if sa_production_arm_file A \<noteq> None then raise (ValueError ''COPY_PRODUCTION_ARM_FORBIDDEN_IN_TESTNET'')
        else case sa_testnet_arm_file A of None \<Rightarrow> raise (ValueError ''COPY_TESTNET_ARMING_REQUIRED'')
        | Some f \<Rightarrow> andThen (private_text (sy_files Y) f (sa_repository_root A) ''COPY_TESTNET_ARM_FILE_UNSAFE'' 128) (\<lambda>arming.
            if arming \<noteq> ''TESTNET_COPY_TRADING_ARMED'' then raise (ValueError ''COPY_TESTNET_ARMING_INVALID'') else ret ()))
   | PRODUCTION \<Rightarrow>
       if sa_testnet_arm_file A \<noteq> None then raise (ValueError ''COPY_TESTNET_ARM_FORBIDDEN_IN_PRODUCTION'')
       else if sa_production_arm_file A = None then raise (ValueError ''COPY_PRODUCTION_ARMING_REQUIRED'') else ret ())"

definition make_client :: "'s service_systems \<Rightarrow> service_arguments \<Rightarrow> string \<Rightarrow> string \<Rightarrow> ('s, unit) comp" where
  "make_client Y A api_key api_secret = (case sa_mode A of
     TESTNET \<Rightarrow> sy_new_client Y TESTNET api_key api_secret
   | PRODUCTION \<Rightarrow> (case sa_production_arm_file A of None \<Rightarrow> raise (ValueError ''COPY_PRODUCTION_ARMING_REQUIRED'')
       | Some f \<Rightarrow> andThen (private_document_text (sy_files Y) f (sa_repository_root A) ''COPY_PRODUCTION_ARM_FILE_UNSAFE'' 16384) (\<lambda>raw.
           andThen (sy_now Y) (\<lambda>now.
           andThen (lift (parse_production_activation (sy_json_loads Y) (sy_fromisoformat Y) raw api_key now)) (\<lambda>_.
           sy_new_client Y PRODUCTION api_key api_secret)))))"

text \<open>An environment that is not bound yet is only bound to an account that is flat and has no open orders.\<close>

definition bind_environment :: "'s service_systems \<Rightarrow> service_arguments \<Rightarrow> ('s, unit) comp" where
  "bind_environment Y A =
    andThen (sy_execution_environment_binding Y) (\<lambda>existing.
    andThen (if sa_mode A = PRODUCTION \<and> existing = None
      then andThen (sy_account_information_v2 Y) (\<lambda>account.
        andThen (lift (require_empty_initial_production_account account)) (\<lambda>_.
        andThen (sy_all_open_orders Y) (\<lambda>orders.
        if orders \<noteq> [] then raise (RuntimeError ''COPY_PRODUCTION_INITIAL_ACCOUNT_HAS_OPEN_ORDERS'') else ret ())))
      else ret ()) (\<lambda>_.
    andThen (sy_now Y) (\<lambda>now.
    sy_bind_execution_environment Y (environment_value (sa_mode A)) now)))"

text \<open>\<open>main\<close> in the two modes that execute, up to its loop; it returns the API key of its client.\<close>

definition start_service :: "'s service_systems \<Rightarrow> service_arguments \<Rightarrow> ('s, string) comp" where
  "start_service Y A =
    (if \<not> (5 \<le> sa_interval_seconds A \<and> sa_interval_seconds A \<le> 300) then raise (ValueError ''COPY_POLL_INTERVAL_INVALID'')
     else andThen (check_arming Y A) (\<lambda>_.
     andThen (private_text (sy_files Y) (sa_database_url_file A) (sa_repository_root A) ''COPY_DATABASE_URL_FILE_UNSAFE'' 4096) (\<lambda>_.
     andThen (private_text (sy_files Y) (sa_api_key_file A) (sa_repository_root A) ''COPY_TESTNET_API_KEY_FILE_UNSAFE'' 4096) (\<lambda>api_key.
     andThen (private_text (sy_files Y) (sa_api_secret_file A) (sa_repository_root A) ''COPY_EXCHANGE_API_SECRET_FILE_UNSAFE'' 4096) (\<lambda>api_secret.
     andThen (make_client Y A api_key api_secret) (\<lambda>_.
     andThen (sy_synchronize_time Y) (\<lambda>_.
     andThen (sy_position_mode Y) (\<lambda>mode.
     if doc_get mode ''dualSidePosition'' \<noteq> JBool True then raise (RuntimeError ''COPY_ACCOUNT_HEDGE_MODE_REQUIRED'')
     else andThen (bind_environment Y A) (\<lambda>_. ret api_key)))))))))"

section \<open>What a start shows\<close>

lemma lift_eq_Inr: "lift x s = (Inr a, s') \<longleftrightarrow> x = Inr a \<and> s' = s"
  by (auto simp: lift_def)

lemma andThen_eq_Inr: "andThen f g s = (Inr b, s') \<longleftrightarrow> (\<exists>a w. f s = (Inr a, w) \<and> g a w = (Inr b, s'))"
  by (auto simp: andThen_def split: prod.splits sum.splits)

text \<open>A private file that was read is outside the repository, has the size it reported before and after, and that size is within the limit.\<close>

lemma read_open_file_size:
  assumes "read_open_file F maximum_bytes reason fd s = (Inr content, s')"
  shows "1 \<le> length content \<and> length content \<le> maximum_bytes"
  using assms by (auto simp: read_open_file_def andThen_eq_Inr private_file_ok_def ret_def raise_def split: if_splits)

lemma closing_eq_Inr: "closing F fd body s = (Inr a, s') \<Longrightarrow> \<exists>w. body s = (Inr a, w)"
  by (auto simp: closing_def split: prod.splits sum.splits)

lemma private_file_is_bounded_and_outside:
  assumes "read_private_file F p root_path maximum_bytes reason s = (Inr content, s')"
  shows "absolute_path p \<and> 1 \<le> length content \<and> length content \<le> maximum_bytes
    \<and> (\<exists>repository_root w w'. pf_resolve F root_path w = (Inr repository_root, w') \<and> \<not> prefix repository_root p)"
proof -
  have denied: "raise e w \<noteq> (Inr x, w')" for e w w' and x :: string by (simp add: raise_def)
  from assms have abs: "absolute_path p" "\<not> maximum_bytes < 1" by (auto simp: read_private_file_def denied Let_def split: if_splits)
  then obtain resolved repository_root w where r: "andThen (pf_resolve F p) (\<lambda>a. andThen (pf_resolve F root_path) (\<lambda>b. ret (a, b))) s
        = (Inr (resolved, repository_root), w)"
      and rest: "(if resolved \<noteq> p \<or> prefix repository_root resolved then raise (AuthorizationDenied reason)
        else tryExcept is_os_failure (pf_open F p) (\<lambda>_. raise (AuthorizationDenied reason)) (\<lambda>fd.
          closing F fd (tryExcept is_os_failure (read_open_file F maximum_bytes reason fd) (\<lambda>_. raise (AuthorizationDenied reason)) ret))) w = (Inr content, s')"
    using assms by (fastforce simp: read_private_file_def tryExcept_def denied Let_def split: prod.splits sum.splits if_splits)
  from rest have p: "resolved = p" "\<not> prefix repository_root p" by (auto simp: denied split: if_splits)
  with rest obtain fd w1 where "closing F fd (tryExcept is_os_failure (read_open_file F maximum_bytes reason fd) (\<lambda>_. raise (AuthorizationDenied reason)) ret) w1
      = (Inr content, s')"
    by (auto simp: tryExcept_def denied split: prod.splits sum.splits if_splits)
  from closing_eq_Inr [OF this] obtain w2 where "tryExcept is_os_failure (read_open_file F maximum_bytes reason fd) (\<lambda>_. raise (AuthorizationDenied reason)) ret w1 = (Inr content, w2)"
    by blast
  then obtain w3 where "read_open_file F maximum_bytes reason fd w1 = (Inr content, w3)"
    by (auto simp: tryExcept_def denied ret_def split: prod.splits sum.splits if_splits)
  moreover have "\<exists>a b. pf_resolve F root_path a = (Inr repository_root, b)"
    using r by (auto simp: andThen_eq_Inr ret_def)
  ultimately show ?thesis using abs p read_open_file_size by metis
qed

text \<open>What an accepted manifest says: it was issued for this key, acknowledges real orders, is current and spans at most 31 days.\<close>

definition activation_in_force :: "document \<Rightarrow> string \<Rightarrow> datetime \<Rightarrow> production_activation \<Rightarrow> bool" where
  "activation_in_force d api_key now a \<longleftrightarrow> pa_api_key_sha256 a = sha256_hex api_key \<and> doc_get d ''api_key_sha256'' = JStr (sha256_hex api_key)
     \<and> doc_get d ''real_orders_acknowledgement'' = JStr PRODUCTION_REAL_ORDER_ACKNOWLEDGEMENT
     \<and> doc_get d ''reuse_testnet_database'' = JBool False
     \<and> dt_instant (pa_issued_at a) \<le> dt_instant now \<and> dt_instant now < dt_instant (pa_expires_at a)
     \<and> dt_instant (pa_expires_at a) - dt_instant (pa_issued_at a) \<le> days 31 \<and> dval (pa_maximum_operating_envelope_usdt a) = 150"

lemma check_literals_iff: "check_literals d ls = Inr u \<longleftrightarrow> (\<forall>(field, expected) \<in> set ls. doc_get d field = JStr expected)"
  by (induction ls) auto

lemma text_matching_eq_Inr: "text_matching pattern v reason = Inr s \<longleftrightarrow> v = JStr s \<and> pattern s"
  by (cases v) (auto simp: text_matching_def)

lemma validated_activation:
  assumes "validate_activation fromisoformat d api_key now = Inr a" shows "activation_in_force d api_key now a"
proof -
  from assms obtain activation_id envelope where "check_literals d REQUIRED_LITERALS = Inr ()" "check_confirmations d = Inr ()"
      and key: "doc_get d ''api_key_sha256'' = JStr (pa_api_key_sha256 a)" "pa_api_key_sha256 a = sha256_hex api_key"
      and times: "dt_instant (pa_issued_at a) \<le> dt_instant now" "dt_instant now < dt_instant (pa_expires_at a)"
        "dt_instant (pa_expires_at a) - dt_instant (pa_issued_at a) \<le> days 31"
      and envelope: "envelope_of (doc_get d ''maximum_operating_envelope_usdt'') = Inr (pa_maximum_operating_envelope_usdt a)"
    unfolding validate_activation_def by (simp only: rbind_eq_Inr require_eq_Inr text_matching_eq_Inr) auto
  then have "doc_get d ''real_orders_acknowledgement'' = JStr PRODUCTION_REAL_ORDER_ACKNOWLEDGEMENT" "doc_get d ''reuse_testnet_database'' = JBool False"
    by (simp_all add: check_literals_iff REQUIRED_LITERALS_def check_confirmations_def)
  moreover have "dval (pa_maximum_operating_envelope_usdt a) = 150"
    using envelope by (auto simp: envelope_of_def Let_def deq_val split: parsed.splits if_splits)
  ultimately show ?thesis using key times by (simp add: activation_in_force_def)
qed

lemma make_client_activated:
  assumes "make_client Y A api_key api_secret s = (Inr u, s')" and "sa_mode A = PRODUCTION"
  obtains f raw d now a w w' w1 w2 where "sa_production_arm_file A = Some f"
    "private_document_text (sy_files Y) f (sa_repository_root A) ''COPY_PRODUCTION_ARM_FILE_UNSAFE'' 16384 w = (Inr raw, w')"
    "sy_json_loads Y raw = Some (JObj d)" "sy_now Y w1 = (Inr now, w2)" "activation_in_force d api_key now a"
proof -
  from assms obtain f raw now a w w1 where m: "sa_production_arm_file A = Some f"
      "private_document_text (sy_files Y) f (sa_repository_root A) ''COPY_PRODUCTION_ARM_FILE_UNSAFE'' 16384 s = (Inr raw, w)" "sy_now Y w = (Inr now, w1)"
      "parse_production_activation (sy_json_loads Y) (sy_fromisoformat Y) raw api_key now = Inr a"
    by (auto simp: make_client_def andThen_eq_Inr lift_eq_Inr raise_def split: option.splits)
  from m(4) obtain d where "sy_json_loads Y raw = Some (JObj d)" "validate_activation (sy_fromisoformat Y) d api_key now = Inr a"
    by (auto simp: parse_production_activation_def split: option.splits json.splits)
  with that m validated_activation show thesis by blast
qed

text \<open>An account without a position: every amount is zero.\<close>

definition flat_account :: "document \<Rightarrow> bool" where
  "flat_account account \<longleftrightarrow> doc_get account ''canTrade'' = JBool True \<and> (\<exists>positions. doc_get account ''positions'' = JArr positions
     \<and> (\<forall>p \<in> set positions. \<exists>d x. p = JObj d \<and> json_decimal (doc_get d ''positionAmt'') = Finite x \<and> dval x = 0))"

lemma check_flat_position_ok: "check_flat_position p = Inr u \<Longrightarrow> \<exists>d x. p = JObj d \<and> json_decimal (doc_get d ''positionAmt'') = Finite x \<and> dval x = 0"
  by (auto simp: check_flat_position_def Let_def deq_val split: json.splits parsed.splits)

lemma rmap_checked: "rmap f xs = Inr ys \<Longrightarrow> x \<in> set xs \<Longrightarrow> \<exists>y. f x = Inr y"
  by (induction xs arbitrary: ys) auto

lemma empty_account_is_flat: "require_empty_initial_production_account account = Inr u \<Longrightarrow> flat_account account"
  unfolding require_empty_initial_production_account_def flat_account_def
  by (cases "doc_get account ''positions''") (auto dest!: rmap_checked check_flat_position_ok)

lemma bind_environment_flat:
  assumes "bind_environment Y A s = (Inr u, s')" and "sa_mode A = PRODUCTION"
  obtains existing w where "sy_execution_environment_binding Y s = (Inr existing, w)"
    "existing = None \<longrightarrow> (\<exists>account w1 w2 w3 w4. sy_account_information_v2 Y w1 = (Inr account, w2) \<and> flat_account account
       \<and> sy_all_open_orders Y w3 = (Inr [], w4))"
proof -
  from assms obtain existing w w' where b: "sy_execution_environment_binding Y s = (Inr existing, w)"
      "(if sa_mode A = PRODUCTION \<and> existing = None
      then andThen (sy_account_information_v2 Y) (\<lambda>account.
        andThen (lift (require_empty_initial_production_account account)) (\<lambda>_.
        andThen (sy_all_open_orders Y) (\<lambda>orders.
        if orders \<noteq> [] then raise (RuntimeError ''COPY_PRODUCTION_INITIAL_ACCOUNT_HAS_OPEN_ORDERS'') else ret ())))
      else ret ()) w = (Inr (), w')"
    unfolding bind_environment_def andThen_eq_Inr by auto
  have "\<exists>account w1 w2 w3 w4. sy_account_information_v2 Y w1 = (Inr account, w2) \<and> flat_account account \<and> sy_all_open_orders Y w3 = (Inr [], w4)"
    if "existing = None"
    using b(2) that assms(2) by (auto simp: andThen_eq_Inr lift_eq_Inr raise_def split: if_splits dest!: empty_account_is_flat)
  with that b(1) show thesis by blast
qed


text \<open>A start in production mode: every file holds the character it is named after, and the manifest is for the key in \<open>/k\<close>.\<close>

lemma read_chunks_once:
  assumes "pf_read F fd (Suc n) s = (Inr [c], s')" "pf_read F fd n s' = (Inr [], s'')" "0 < n"
  shows "read_chunks F fd (Suc n) (Suc n) [] s = (Inr [c], s'')"
  using assms by (cases n) (simp_all add: andThen_def ret_def)

definition sample_private_files :: "unit private_files" where
  "sample_private_files = \<lparr>pf_resolve = ret, pf_open = (\<lambda>p. ret (of_char (hd (last p)))),
    pf_fstat = (\<lambda>_. ret \<lparr>md_mode = 33024, md_uid = 7, md_gid = 7, md_ino = 1, md_size = 1, md_mtime_ns = 1, pm_dev = 1, pm_ctime_ns = 1\<rparr>),
    pf_read = (\<lambda>fd n. ret (if n \<in> {4097, 16385} then [char_of fd] else [])), pf_close = (\<lambda>_. ret ()), pf_geteuid = 7, pf_decode_utf8 = Some\<rparr>"

definition sample_path :: "char \<Rightarrow> path" where
  "sample_path c = [''/'', [c]]"

lemma sample_chunks: "n \<in> {4096, 16384} \<Longrightarrow> read_chunks sample_private_files (of_char c) (n + 1) (n + 1) [] () = (Inr [c], ())"
  unfolding Suc_eq_plus1 [symmetric] by (rule read_chunks_once) (auto simp: sample_private_files_def ret_def)

lemma sample_private_read:
  assumes "n \<in> {4096, 16384}"
  shows "read_private_file sample_private_files (sample_path c) [''/'', ''repo''] n reason () = (Inr [c], ())"
proof -
  have opened: "read_open_file sample_private_files n reason (of_char c) () = (Inr [c], ())"
    using sample_chunks [OF assms, of c] assms
    by (auto simp: read_open_file_def andThen_def sample_private_files_def ret_def private_file_ok_def unchanged_file_def)
  have ops: "pf_resolve sample_private_files = ret" "pf_open sample_private_files (sample_path c) = ret (of_char c)"
      "pf_close sample_private_files (of_char c) = ret ()"
    by (simp_all add: sample_private_files_def sample_path_def)
  have "absolute_path (sample_path c)" "\<not> prefix [''/'', ''repo''] (sample_path c)" "\<not> n < 1"
    using assms by (auto simp: absolute_path_def sample_path_def)
  with opened ops show ?thesis by (simp add: read_private_file_def tryExcept_def closing_def andThen_def ret_def Let_def)
qed

definition sample_manifest :: document where
  "sample_manifest = [(''schema_version'', JStr ''1.0.0''), (''environment'', JStr ''PRODUCTION''), (''rest_base'', JStr PRODUCTION_REST_BASE),
    (''real_orders_acknowledgement'', JStr PRODUCTION_REAL_ORDER_ACKNOWLEDGEMENT), (''dedicated_futures_account_confirmed'', JBool True),
    (''hedge_mode_confirmed'', JBool True), (''reuse_testnet_database'', JBool False), (''activation_id'', JStr ''activation-000001''),
    (''api_key_sha256'', JStr (sha256_hex ''k'')), (''issued_at'', JStr ''early''), (''expires_at'', JStr ''late''),
    (''maximum_operating_envelope_usdt'', JInt 150)]"

definition sample_systems :: "unit service_systems" where
  "sample_systems = \<lparr>sy_files = sample_private_files, sy_json_loads = (\<lambda>raw. if raw = ''m'' then Some (JObj sample_manifest) else None),
    sy_fromisoformat = pr_fromisoformat sample_primitives, sy_now = ret sample_now, sy_new_client = (\<lambda>_ _ _. ret ()), sy_synchronize_time = ret (),
    sy_position_mode = ret [(''dualSidePosition'', JBool True)], sy_account_information_v2 = ret [(''canTrade'', JBool True), (''positions'', JArr [])],
    sy_all_open_orders = ret [], sy_execution_environment_binding = ret None, sy_bind_execution_environment = (\<lambda>_ _. ret ())\<rparr>"

definition sample_arguments :: service_arguments where
  "sample_arguments = \<lparr>sa_mode = PRODUCTION, sa_interval_seconds = 10, sa_repository_root = [''/'', ''repo''], sa_database_url_file = sample_path CHR ''d'',
    sa_api_key_file = sample_path CHR ''k'', sa_api_secret_file = sample_path CHR ''s'', sa_testnet_arm_file = None,
    sa_production_arm_file = Some (sample_path CHR ''m'')\<rparr>"

lemma sample_activation: "\<exists>a. validate_activation (pr_fromisoformat sample_primitives) sample_manifest ''k'' sample_now = Inr a"
proof -
  have "envelope_of (JInt 150) = Inr (dec 150)" by code_simp
  then show ?thesis
    by (simp add: validate_activation_def sample_manifest_def sample_now_def sample_primitives_def activation_require_utc_def is_utc_def check_literals_iff
      REQUIRED_LITERALS_def check_confirmations_def text_matching_def activation_id_text_def sha256_hex_text activation_timestamp_def zulu_offset_def doc_get_def
      is_digit_def days_def hours_def minutes_def seconds_def Let_def)
qed

lemma sample_production_start: "start_service sample_systems sample_arguments () = (Inr ''k'', ())"
proof -
  have line: "private_text sample_private_files (sample_path c) [''/'', ''repo''] reason 4096 () = (Inr [c], ())" if "c \<in> {CHR ''d'', CHR ''k'', CHR ''s''}" for c reason
    using that by (auto simp: private_text_def andThen_def sample_private_read) (auto simp: sample_private_files_def py_strip_def is_space_def ret_def)
  have manifest: "private_document_text sample_private_files (sample_path CHR ''m'') [''/'', ''repo''] reason 16384 () = (Inr ''m'', ())" for reason
    by (simp add: private_document_text_def andThen_def sample_private_read) (simp add: sample_private_files_def py_strip_def is_space_def ret_def)
  obtain a where "validate_activation (pr_fromisoformat sample_primitives) sample_manifest ''k'' sample_now = Inr a"
    using sample_activation by blast
  then show ?thesis using line manifest
    by (simp add: start_service_def sample_systems_def sample_arguments_def check_arming_def make_client_def bind_environment_def parse_production_activation_def
      require_empty_initial_production_account_def andThen_def ret_def lift_def doc_get_def)
qed


end
