(* ===== verification/Watchdog.thy ===== *)
theory Watchdog
  imports Health Activation Runtime
begin

text \<open>
  \<open>services/copy_watchdog.py\<close>: one run of the watchdog. It evaluates the health of the system, tightens the runtime control when a finding asks
  for it, and lifts a pause only if it is its own, or one of the retired account-risk engine, and everything is clean again. The exchange, the database,
  the host and the service manager are parameters.
\<close>

section \<open>The host\<close>

definition OBSERVED_UNITS :: "string list" where
  "OBSERVED_UNITS = [''aiq-copy-poller.service'', ''aiq-copy-telegram.service'', ''aiq-testnet-user-stream.service'']"

definition unit_state :: "(string \<Rightarrow> ('s, string) comp) \<Rightarrow> string \<Rightarrow> ('s, string) comp" where
  "unit_state is_active u =
    (if u \<notin> set OBSERVED_UNITS then ret ''unknown''
     else andThen (is_active u) (\<lambda>stdout. let state = py_strip stdout in
       ret (if state \<in> {''active'', ''inactive'', ''failed'', ''activating''} then state else ''unknown'')))"

text \<open>\<open>line.split()\<close>\<close>

definition py_words :: "string \<Rightarrow> string list" where
  "py_words s = (let (ws, w) = foldr (\<lambda>c (ws, w). if is_space c then (if w = [] then ws else w # ws, []) else (ws, c # w)) s ([], []) in
     if w = [] then ws else w # ws)"

definition memory_line :: "string \<Rightarrow> int option" where
  "memory_line l = (if prefix ''MemAvailable:'' l
     then (case py_words l of [_, n, k] \<Rightarrow> if k = ''kB'' \<and> n \<noteq> [] \<and> list_all is_digit n then Some (int (nat_of_digits n) * 1024) else None | _ \<Rightarrow> None)
     else None)"

definition available_memory_bytes :: "string list \<Rightarrow> int result" where
  "available_memory_bytes ls = (case List.map_filter memory_line ls of
     n # _ \<Rightarrow> Inr n | [] \<Rightarrow> Inl (RuntimeError ''COPY_HOST_MEMORY_FACTS_UNAVAILABLE''))"

record backup_report_source =
  br_document :: "json option"
  br_fromisoformat :: "string \<Rightarrow> datetime option"
  br_total_seconds_text :: "int \<Rightarrow> string"

text \<open>\<open>br_document\<close> is what \<open>json.loads\<close> makes of the file, if it can be read; \<open>br_total_seconds_text\<close> is \<open>str\<close> of the float of an interval.\<close>

definition backup_age_hours :: "backup_report_source \<Rightarrow> datetime \<Rightarrow> decimal option" where
  "backup_age_hours B now = (case br_document B of
     Some (JObj d) \<Rightarrow>
       (if doc_get d ''verified'' \<noteq> JBool True then None
        else case map_of d ''created_at'' of None \<Rightarrow> None
        | Some v \<Rightarrow> (case br_fromisoformat B (py_str v) of None \<Rightarrow> None
          | Some created_at \<Rightarrow> if \<not> is_aware created_at then None
              else (case parse_decimal (br_total_seconds_text B (dt_instant now - dt_instant created_at)) of
                Finite s \<Rightarrow> (case decimal_truediv s (dec 3600) of Inr age \<Rightarrow> if 0 \<le> age then Some age else None | Inl _ \<Rightarrow> None)
              | _ \<Rightarrow> None)))
   | _ \<Rightarrow> None)"

definition free_percent :: "nat \<Rightarrow> nat \<Rightarrow> decimal" where
  "free_percent free whole = (if 0 < whole then ddiv (dec free * dec 100) (dec whole) else 0)"

record 's watchdog_systems =
  ws_service :: "'s service_systems"
  ws_is_active :: "string \<Rightarrow> ('s, string) comp"
  ws_disk_usage :: "('s, nat \<times> nat) comp"
  ws_meminfo :: "('s, string list) comp"
  ws_backup :: "('s, backup_report_source) comp"
  ws_read_facts :: "('s, database_health_facts) comp"
  ws_account_information :: "('s, document) comp"
  ws_latest_runtime_control :: "('s, runtime_control) comp"
  ws_append_runtime_control :: "runtime_control_state \<Rightarrow> string \<Rightarrow> string list \<Rightarrow> datetime \<Rightarrow> bool \<Rightarrow> ('s, unit) comp"
  ws_recoverable_signals :: "nat \<Rightarrow> ('s, string list) comp"
  ws_persist :: "health_report \<Rightarrow> datetime \<Rightarrow> bool \<Rightarrow> ('s, string) comp"
  ws_start_audit :: "('s, int) comp"

fun unit_states :: "(string \<Rightarrow> ('s, string) comp) \<Rightarrow> string list \<Rightarrow> ('s, (string, string) dict) comp" where
  "unit_states is_active [] = ret []"
| "unit_states is_active (u # us) = andThen (unit_state is_active u) (\<lambda>state. andThen (unit_states is_active us) (\<lambda>rest. ret ((u, state) # rest)))"

definition host_facts :: "'s watchdog_systems \<Rightarrow> futures_environment \<Rightarrow> ('s, host_health_facts) comp" where
  "host_facts W environment =
    andThen (ws_disk_usage W) (\<lambda>(whole, free).
    andThen (unit_states (ws_is_active W) (if environment = TESTNET then OBSERVED_UNITS else take 2 OBSERVED_UNITS)) (\<lambda>states.
    andThen (ws_meminfo W) (\<lambda>ls.
    andThen (lift (available_memory_bytes ls)) (\<lambda>memory.
    andThen (sy_now (ws_service W)) (\<lambda>now.
    andThen (ws_backup W) (\<lambda>B.
    lift (host_health_facts_check \<lparr>hh_service_states = states, hh_root_free_bytes = int free, hh_root_free_percent = free_percent free whole,
      hh_memory_available_bytes = memory, hh_backup_age_hours = backup_age_hours B now,
      hh_user_stream_unit = (if environment = TESTNET then Some ''aiq-testnet-user-stream.service'' else None)\<rparr>)))))))"

section \<open>The exchange client\<close>

definition exchange_client ::
  "'s service_systems \<Rightarrow> futures_environment \<Rightarrow> string \<Rightarrow> string \<Rightarrow> string option \<Rightarrow> string option \<Rightarrow> datetime \<Rightarrow> ('s, unit) comp" where
  "exchange_client Y environment api_key api_secret testnet_activation production_activation_raw now =
    (if environment = PRODUCTION then
       if testnet_activation \<noteq> None then raise (ValueError ''COPY_TESTNET_ARM_FORBIDDEN_IN_PRODUCTION'')
       else (case production_activation_raw of None \<Rightarrow> raise (ValueError ''COPY_PRODUCTION_ARMING_REQUIRED'')
         | Some raw \<Rightarrow> andThen (lift (parse_production_activation (sy_json_loads Y) (sy_fromisoformat Y) raw api_key now)) (\<lambda>_.
             sy_new_client Y PRODUCTION api_key api_secret))
     else if production_activation_raw \<noteq> None then raise (ValueError ''COPY_PRODUCTION_ARM_FORBIDDEN_IN_TESTNET'')
     else if testnet_activation \<noteq> Some ''TESTNET_COPY_TRADING_ARMED'' then raise (ValueError ''COPY_TESTNET_ARMING_INVALID'')
     else sy_new_client Y TESTNET api_key api_secret)"

section \<open>Pauses that may be lifted\<close>

definition RECONCILIATION_MISMATCH_REASONS :: "string set" where
  "RECONCILIATION_MISMATCH_REASONS = {''COPY_POSITION_RECONCILIATION_MISMATCH''}"

definition SAFE_RECONCILIATION_RESUME_FINDINGS :: "string set" where
  "SAFE_RECONCILIATION_RESUME_FINDINGS = {''COPY_CODEX_AUDIT_REPORTED_FAILURE''}"

definition TRANSIENT_SERVICE_PAUSE_REASONS :: "string set" where
  "TRANSIENT_SERVICE_PAUSE_REASONS = {''COPY_REQUIRED_SERVICE_INACTIVE'', ''COPY_TESTNET_USER_STREAM_INACTIVE''}"

definition only_safe_findings :: "health_report \<Rightarrow> bool" where
  "only_safe_findings r \<longleftrightarrow> hr_state r \<in> {Healthy, Degraded} \<and> (\<forall>x \<in> set (hr_findings r). hf_code x \<in> SAFE_RECONCILIATION_RESUME_FINDINGS)
     \<and> hr_requested_control r = None"

definition resolved_reconciliation_pause_can_resume :: "runtime_control \<Rightarrow> health_report \<Rightarrow> database_health_facts \<Rightarrow> bool \<Rightarrow> bool" where
  "resolved_reconciliation_pause_can_resume current r facts has_recoverable_signals \<longleftrightarrow>
     ct_state current = PAUSED_NEW_ENTRIES \<and> ct_actor_id current = ''deterministic-watchdog''
     \<and> set (ct_reason_codes current) = RECONCILIATION_MISMATCH_REASONS \<and> only_safe_findings r
     \<and> df_pending_entry_allowances facts = [] \<and> \<not> has_recoverable_signals"

definition retired_account_risk_pause_can_resume :: "runtime_control \<Rightarrow> health_report \<Rightarrow> bool" where
  "retired_account_risk_pause_can_resume current r \<longleftrightarrow>
     ct_state current = PAUSED_NEW_ENTRIES \<and> ct_actor_id current = ''account-risk-engine''
     \<and> set (ct_reason_codes current) \<subseteq> {''COPY_ACCOUNT_WARNING_RISK_LINE'', ''COPY_ACCOUNT_EMERGENCY_RISK_LINE''}
     \<and> hr_requested_control r = None"

definition resolved_service_pause_can_resume :: "runtime_control \<Rightarrow> health_report \<Rightarrow> bool" where
  "resolved_service_pause_can_resume current r \<longleftrightarrow>
     ct_state current = PAUSED_NEW_ENTRIES \<and> ct_actor_id current = ''deterministic-watchdog''
     \<and> set (ct_reason_codes current) \<inter> TRANSIENT_SERVICE_PAUSE_REASONS \<noteq> {}
     \<and> set (ct_reason_codes current) \<subseteq> TRANSIENT_SERVICE_PAUSE_REASONS \<union> SAFE_RECONCILIATION_RESUME_FINDINGS
     \<and> only_safe_findings r"

definition resume_reason :: "runtime_control \<Rightarrow> string \<times> string" where
  "resume_reason current =
    (if ct_actor_id current = ''account-risk-engine'' then (''COPY_ACCOUNT_RISK_AUTOMATION_REMOVED_AUTO_RESUME'', ''codex-risk-policy-repair'')
     else if set (ct_reason_codes current) \<inter> TRANSIENT_SERVICE_PAUSE_REASONS \<noteq> {}
     then (''COPY_REQUIRED_SERVICE_RECOVERED_AUTO_RESUME'', ''deterministic-watchdog-recovery'')
     else (''COPY_RECONCILIATION_VERIFIED_AUTO_RESUME'', ''codex-reconciliation-repair''))"

definition should_append :: "runtime_control_state \<Rightarrow> runtime_control_state \<Rightarrow> bool" where
  "should_append requested current \<longleftrightarrow> requested = REDUCE_ALL \<and> current \<noteq> REDUCE_ALL \<or> requested = PAUSED_NEW_ENTRIES \<and> current = RUNNING"

section \<open>One run\<close>

text \<open>What \<open>main\<close> appends to the runtime control; the recoverable signals are only read when the two other rules do not apply.\<close>

definition watchdog_control ::
  "'s watchdog_systems \<Rightarrow> runtime_control \<Rightarrow> health_report \<Rightarrow> database_health_facts \<Rightarrow> datetime \<Rightarrow> ('s, bool) comp" where
  "watchdog_control W current r facts now = (case hr_requested_control r of
     Some requested \<Rightarrow>
       (if should_append requested (ct_state current)
        then andThen (ws_append_runtime_control W requested ''deterministic-watchdog'' (map hf_code (hr_findings r)) now False) (\<lambda>_. ret False)
        else ret False)
   | None \<Rightarrow>
       andThen (if retired_account_risk_pause_can_resume current r \<or> resolved_service_pause_can_resume current r then ret True
         else andThen (ws_recoverable_signals W 1) (\<lambda>signals.
           ret (resolved_reconciliation_pause_can_resume current r facts (signals \<noteq> [])))) (\<lambda>resume.
       if resume then (case resume_reason current of (reason_code, resume_actor) \<Rightarrow>
           andThen (ws_append_runtime_control W RUNNING resume_actor [reason_code] now True) (\<lambda>_. ret True))
       else ret False))"

record watchdog_result =
  wr_health_run_id :: string
  wr_report :: health_report
  wr_codex_wakeup_started :: bool
  wr_auto_resumed :: bool

definition watchdog_main :: "'s watchdog_systems \<Rightarrow> service_arguments \<Rightarrow> ('s, watchdog_result) comp" where
  "watchdog_main W A =
    (let Y = ws_service W; files = sy_files Y; environment = sa_mode A in
     andThen (private_text files (sa_database_url_file A) (sa_repository_root A) ''COPY_DATABASE_URL_FILE_UNSAFE'' 4096) (\<lambda>_.
     andThen (sy_execution_environment_binding Y) (\<lambda>binding.
     if binding \<noteq> Some (environment_value environment) then raise (RuntimeError ''COPY_WATCHDOG_EXECUTION_ENVIRONMENT_MISMATCH'')
     else andThen (private_text files (sa_api_key_file A) (sa_repository_root A) ''COPY_EXCHANGE_API_KEY_FILE_UNSAFE'' 4096) (\<lambda>api_key.
     andThen (private_text files (sa_api_secret_file A) (sa_repository_root A) ''COPY_EXCHANGE_API_SECRET_FILE_UNSAFE'' 4096) (\<lambda>api_secret.
     andThen (case sa_production_arm_file A of None \<Rightarrow> ret None
       | Some f \<Rightarrow> andThen (private_document_text files f (sa_repository_root A) ''COPY_PRODUCTION_ARM_FILE_UNSAFE'' 16384) (\<lambda>t. ret (Some t))) (\<lambda>production_raw.
     andThen (case sa_testnet_arm_file A of None \<Rightarrow> ret None
       | Some f \<Rightarrow> andThen (private_text files f (sa_repository_root A) ''COPY_TESTNET_ARM_FILE_UNSAFE'' 128) (\<lambda>t. ret (Some t))) (\<lambda>testnet_activation.
     andThen (sy_now Y) (\<lambda>start.
     andThen (exchange_client Y environment api_key api_secret testnet_activation production_raw start) (\<lambda>_.
     andThen (sy_synchronize_time Y) (\<lambda>_.
     andThen (sy_now Y) (\<lambda>now.
     andThen (ws_read_facts W) (\<lambda>facts.
     andThen (ws_account_information W) (\<lambda>account_v3.
     andThen (sy_account_information_v2 Y) (\<lambda>account_v2.
     andThen (sy_position_mode Y) (\<lambda>mode.
     andThen (lift (health_account_snapshot account_v3 account_v2 mode (df_envelope_baseline_usdt facts) now)) (\<lambda>account.
     andThen (lift (exchange_positions_from_account account_v2)) (\<lambda>positions.
     andThen (host_facts W environment) (\<lambda>host.
     andThen (lift (evaluate_health facts account positions now (Some host))) (\<lambda>r.
     andThen (ws_latest_runtime_control W) (\<lambda>current.
     andThen (watchdog_control W current r facts now) (\<lambda>auto_resumed.
     let wakeup_requested = (hr_state r \<noteq> Healthy) in
     andThen (ws_persist W r now wakeup_requested) (\<lambda>run_id.
     andThen (if wakeup_requested then andThen (ws_start_audit W) (\<lambda>returncode. ret (returncode = 0)) else ret False) (\<lambda>started.
     ret \<lparr>wr_health_run_id = run_id, wr_report = r, wr_codex_wakeup_started = started, wr_auto_resumed = auto_resumed\<rparr>)))))))))))))))))))))))"

section \<open>Pauses are kept\<close>

text \<open>A computation that appends nothing to the runtime control.\<close>

definition appends_nothing :: "'s watchdog_systems \<Rightarrow> ('s, bool) comp \<Rightarrow> bool" where
  "appends_nothing W c \<longleftrightarrow> c = ret False \<or> c = andThen (ws_recoverable_signals W 1) (\<lambda>_. ret False)"

definition pauses :: "'s watchdog_systems \<Rightarrow> health_report \<Rightarrow> datetime \<Rightarrow> ('s, bool) comp" where
  "pauses W r now =
    andThen (ws_append_runtime_control W PAUSED_NEW_ENTRIES ''deterministic-watchdog'' (map hf_code (hr_findings r)) now False) (\<lambda>_. ret False)"

lemma running_is_paused:
  "hr_requested_control r = Some PAUSED_NEW_ENTRIES \<Longrightarrow> ct_state current = RUNNING \<Longrightarrow> watchdog_control W current r facts now = pauses W r now"
  by (simp add: watchdog_control_def should_append_def pauses_def)

lemma requested_pause_is_kept:
  "hr_requested_control r = Some PAUSED_NEW_ENTRIES \<Longrightarrow> ct_state current \<noteq> RUNNING \<Longrightarrow> watchdog_control W current r facts now = ret False"
  by (simp add: watchdog_control_def should_append_def)

text \<open>Without a request the pause of a foreign actor stays, and the own one stays while any finding but the reported audit failure is left.\<close>

definition may_resume :: "runtime_control \<Rightarrow> health_report \<Rightarrow> bool" where
  "may_resume current r \<longleftrightarrow> ct_state current = PAUSED_NEW_ENTRIES
     \<and> (ct_actor_id current = ''account-risk-engine''
        \<or> ct_actor_id current = ''deterministic-watchdog'' \<and> (\<forall>x \<in> set (hr_findings r). hf_code x = ''COPY_CODEX_AUDIT_REPORTED_FAILURE''))"

lemma resume_rules:
  "retired_account_risk_pause_can_resume current r \<Longrightarrow> may_resume current r"
  "resolved_service_pause_can_resume current r \<Longrightarrow> may_resume current r"
  "resolved_reconciliation_pause_can_resume current r facts b \<Longrightarrow> may_resume current r"
  by (simp_all add: may_resume_def retired_account_risk_pause_can_resume_def resolved_service_pause_can_resume_def
    resolved_reconciliation_pause_can_resume_def only_safe_findings_def SAFE_RECONCILIATION_RESUME_FINDINGS_def)

lemma kept_without_request:
  assumes "hr_requested_control r = None" and "\<not> may_resume current r"
  shows "watchdog_control W current r facts now = andThen (ws_recoverable_signals W 1) (\<lambda>_. ret False)"
proof -
  have "\<not> retired_account_risk_pause_can_resume current r" "\<not> resolved_service_pause_can_resume current r"
      "\<not> resolved_reconciliation_pause_can_resume current r facts b" for b
    using assms(2) resume_rules by blast+
  with assms(1) show ?thesis by (simp add: watchdog_control_def andThen_def ret_def fun_eq_iff split: prod.split sum.split)
qed

text \<open>C11: The watchdog only tightens the control of a running system and lifts only what it may. With UTC times the health report exists, and for
  every database and exchange: a running system is paused, with the codes of the findings as reasons, exactly when a finding is critical or the account is
  beyond its warning line, in particular when a position is not explained or a required service is inactive. A control that is not running stays as it is
  while such a finding exists; and without one it is changed only if it is a pause of the retired account-risk engine, or one of the watchdog itself while no
  finding is left but the reported failure of an audit. A pause of an operator and a flatten are never lifted.\<close>

theorem watchdog_tightens_and_lifts_only_its_own:
  assumes "is_utc now" "is_utc (ca_observed_at account)"
  shows "\<exists>r. evaluate_health facts account positions now host = Inr r
    \<and> (ct_state current = RUNNING \<longrightarrow>
        (if \<exists>x \<in> set (hr_findings r). pausing_finding x then watchdog_control W current r facts now = pauses W r now
         else appends_nothing W (watchdog_control W current r facts now)))
    \<and> (ct_state current \<noteq> RUNNING \<and> ((\<exists>x \<in> set (hr_findings r). pausing_finding x) \<or> \<not> may_resume current r)
        \<longrightarrow> appends_nothing W (watchdog_control W current r facts now))
    \<and> (\<forall>key. unexplained facts positions key \<longrightarrow> (\<exists>x \<in> set (hr_findings r). pausing_finding x))
    \<and> (\<forall>h u. host = Some h \<and> u \<in> set REQUIRED_UNITS \<and> dict_get (hh_service_states h) u ''unknown'' \<noteq> ''active''
        \<longrightarrow> (\<exists>x \<in> set (hr_findings r). pausing_finding x))"
proof -
  from health_is_fail_closed [OF assms, of facts positions host] obtain r where r: "evaluate_health facts account positions now host = Inr r"
      "hr_state r = Failed \<longleftrightarrow> (\<exists>x \<in> set (hr_findings r). hf_severity x = Critical)"
      "hr_requested_control r = (if \<exists>x \<in> set (hr_findings r). pausing_finding x then Some PAUSED_NEW_ENTRIES else None)"
      "\<forall>key. unexplained facts positions key \<longrightarrow> hr_state r = Failed"
      "\<forall>h u. host = Some h \<and> u \<in> set REQUIRED_UNITS \<and> dict_get (hh_service_states h) u ''unknown'' \<noteq> ''active'' \<longrightarrow> hr_state r = Failed"
    by (elim exE conjE)
  have failed: "hr_state r = Failed \<Longrightarrow> \<exists>x \<in> set (hr_findings r). pausing_finding x"
    using r(2) unfolding pausing_finding_def by blast
  have "watchdog_control W current r facts now = pauses W r now" if "ct_state current = RUNNING" "\<exists>x \<in> set (hr_findings r). pausing_finding x"
    using r(3) that by (intro running_is_paused) (simp_all only: if_True)
  moreover have "appends_nothing W (watchdog_control W current r facts now)" if "ct_state current = RUNNING" "\<not> (\<exists>x \<in> set (hr_findings r). pausing_finding x)"
    unfolding appends_nothing_def using r(3) that by (intro disjI2 kept_without_request) (simp_all add: may_resume_def)
  ultimately have running: "ct_state current = RUNNING \<longrightarrow>
        (if \<exists>x \<in> set (hr_findings r). pausing_finding x then watchdog_control W current r facts now = pauses W r now
         else appends_nothing W (watchdog_control W current r facts now))"
    by presburger
  have "appends_nothing W (watchdog_control W current r facts now)" if "ct_state current \<noteq> RUNNING" "\<exists>x \<in> set (hr_findings r). pausing_finding x"
    unfolding appends_nothing_def using r(3) that by (intro disjI1 requested_pause_is_kept) (simp_all only: if_True simp_thms)
  moreover have "appends_nothing W (watchdog_control W current r facts now)"
    if "\<not> may_resume current r" "\<not> (\<exists>x \<in> set (hr_findings r). pausing_finding x)"
    unfolding appends_nothing_def using r(3) that by (intro disjI2 kept_without_request) (simp_all only: if_False simp_thms)
  ultimately have kept: "ct_state current \<noteq> RUNNING \<and> ((\<exists>x \<in> set (hr_findings r). pausing_finding x) \<or> \<not> may_resume current r)
        \<longrightarrow> appends_nothing W (watchdog_control W current r facts now)"
    by blast
  have mismatch: "\<forall>key. unexplained facts positions key \<longrightarrow> (\<exists>x \<in> set (hr_findings r). pausing_finding x)" using r(4) failed by blast
  have service: "\<forall>h u. host = Some h \<and> u \<in> set REQUIRED_UNITS \<and> dict_get (hh_service_states h) u ''unknown'' \<noteq> ''active''
        \<longrightarrow> (\<exists>x \<in> set (hr_findings r). pausing_finding x)"
    using r(5) failed by blast
  show ?thesis by (rule exI [of _ r]) (rule conjI [OF r(1) conjI [OF running conjI [OF kept conjI [OF mismatch service]]]])
qed

text \<open>A testnet system whose poller is down.\<close>

definition sample_health_facts :: database_health_facts where
  "sample_health_facts = \<lparr>df_active_leaders = 3, df_assigned_slots = 3, df_stale_poll_seconds = Some (dec 10), df_latest_poll_failures = 0,
    df_history_gap_failures = 0, df_uncertain_signals = 0, df_failed_signals_last_hour = 0, df_overdue_pending_entries = 0, df_overdue_slot_replacements = 0,
    df_dead_notifications = 0, df_pending_notifications = 0, df_oldest_pending_notification_seconds = None, df_selection_age_hours = Some (dec 1),
    df_short_selection_age_hours = Some (dec 1), df_long_selection_age_hours = Some (dec 1), df_latest_watchdog_age_seconds = Some (dec 60),
    df_latest_watchdog_state = Some ''HEALTHY'', df_latest_watchdog_finding_codes = [], df_latest_codex_audit_age_hours = Some (dec 1),
    df_latest_codex_audit_state = Some ''HEALTHY'', df_control_state = RUNNING, df_envelope_baseline_usdt = None, df_virtual_positions = [],
    df_pending_entry_allowances = [], df_repeated_minimum_rejections = 0\<rparr>"

definition sample_host :: host_health_facts where
  "sample_host = \<lparr>hh_service_states = [(''aiq-copy-poller.service'', ''failed''), (''aiq-copy-telegram.service'', ''active'')], hh_root_free_bytes = 20 * 1024 ^ 3,
    hh_root_free_percent = dec 50, hh_memory_available_bytes = 1024 ^ 3, hh_backup_age_hours = Some (dec 1), hh_user_stream_unit = None\<rparr>"

definition sample_control :: "runtime_control_state \<Rightarrow> string \<Rightarrow> runtime_control" where
  "sample_control state actor = \<lparr>ct_event_id = None, ct_state = state, ct_actor_id = actor, ct_occurred_at = None, ct_reason_codes = [''REASON'']\<rparr>"

theorem watchdog_tightens_and_lifts_only_its_own_witness:
  "\<forall>W :: nat watchdog_systems. \<exists>r. evaluate_health sample_health_facts sample_account [] (ca_observed_at sample_account) (Some sample_host) = Inr r
    \<and> watchdog_control W (sample_control RUNNING ''operator'') r sample_health_facts (ca_observed_at sample_account) = pauses W r (ca_observed_at sample_account)"
proof
  fix W :: "nat watchdog_systems"
  have "is_utc (ca_observed_at sample_account)" by (simp add: sample_account_def is_utc_def)
  from watchdog_tightens_and_lifts_only_its_own [OF this this, of sample_health_facts "[]" "Some sample_host" "sample_control RUNNING ''operator''" W]
  obtain r where r: "evaluate_health sample_health_facts sample_account [] (ca_observed_at sample_account) (Some sample_host) = Inr r"
      "ct_state (sample_control RUNNING ''operator'') = RUNNING \<longrightarrow>
        (if \<exists>x \<in> set (hr_findings r). pausing_finding x
         then watchdog_control W (sample_control RUNNING ''operator'') r sample_health_facts (ca_observed_at sample_account) = pauses W r (ca_observed_at sample_account)
         else appends_nothing W (watchdog_control W (sample_control RUNNING ''operator'') r sample_health_facts (ca_observed_at sample_account)))"
      "\<forall>h u. Some sample_host = Some h \<and> u \<in> set REQUIRED_UNITS \<and> dict_get (hh_service_states h) u ''unknown'' \<noteq> ''active''
        \<longrightarrow> (\<exists>x \<in> set (hr_findings r). pausing_finding x)"
    by (elim exE conjE)
  have "''aiq-copy-poller.service'' \<in> set REQUIRED_UNITS" "dict_get (hh_service_states sample_host) ''aiq-copy-poller.service'' ''unknown'' \<noteq> ''active''"
    by (simp_all add: REQUIRED_UNITS_def sample_host_def dict_get_def)
  with r(3) have "\<exists>x \<in> set (hr_findings r). pausing_finding x" by blast
  with r(1,2) show "\<exists>r. evaluate_health sample_health_facts sample_account [] (ca_observed_at sample_account) (Some sample_host) = Inr r
    \<and> watchdog_control W (sample_control RUNNING ''operator'') r sample_health_facts (ca_observed_at sample_account) = pauses W r (ca_observed_at sample_account)"
    by (auto simp: sample_control_def)
qed

end
