(* ===== verification/Spec2Isabelle.thy ===== *)
theory Spec2Isabelle
  imports Normalization Allocation Ledger OneWay Risk Slots CycleSafety BookSafety Orders Sizing Control ExecutionChecks
    SelectionSafety Automation Edge Iteration Universe MarketFlow Retention PriceAction GatewaySafety Measurements Watchdog
begin

text \<open>
  Verification of the copy-trading system, its trading core and its egress boundary (\<open>src/src/ai_quant\<close>).

  \<^bold>\<open>The program.\<close> A service polls the public order history of leaders on Binance, turns
  what it sees into signals, sizes or plans a local order for each, executes it on a hedge-mode futures
  account and attributes the fill to a virtual position of the leader; a selection decides which leaders are
  followed. Beside it the repository holds a trading core (order projection, order book, sizing, cost, universe,
  commands and authority, checks around execution, an automation engine) and an egress boundary: every request to
  the exchange needs a signed capability, a permit of the rate authority and passes one gateway.

  \<^bold>\<open>How the parts interact, and where they are modelled.\<close>

  \<^item> \<open>Prelude\<close>, \<open>Rounding\<close>, \<open>Decimals\<close>, \<open>DecimalText\<close>, \<open>Clock\<close>, \<open>Doubles\<close>, \<open>Digest\<close>, \<open>JsonValues\<close>, \<open>Computations\<close>: what the sources use of Python.
    Errors are values of type \<open>exn\<close> in a sum (\<open>'a result\<close>), a dict is an association list in insertion
    order. A \<open>Decimal\<close> is sign, coefficient and exponent with the default context (28 digits, ties to even); each
    operation is proved to round the exact result. Times are instants in microseconds with a UTC
    offset; floats of times are rounded to 53 bits. JSON text and SHA-256 are executable. Code with effects is a
    computation over a state, with the rules that carry a property through it.
  \<^item> \<open>Models\<close> (\<open>copy_trading/models.py\<close>): the parsers of public data with every refusal, order identities and signals.
  \<^item> \<open>PublicClient\<close>, \<open>PublicSafety\<close> (\<open>binance_public.py\<close>): the client of the public service. Every read ends after a bounded number of
    requests, only allowed destinations are asked, a returned page is unambiguous, a catch-up covers its watermark
    and a directory is complete.
  \<^item> \<open>Normalization\<close> (\<open>normalization.py\<close>): \<open>LeaderOrderTracker\<close>. Signals add up to the advance of the
    executed quantity, nothing is replayed, the first observation is a baseline, snapshots restore.
  \<^item> \<open>OneWay\<close> (\<open>one_way.py\<close>): the resolver of one-way orders refines a signed net position per symbol.
  \<^item> \<open>Selection\<close>, \<open>SelectionSafety\<close> (\<open>selection.py\<close>, \<open>selection_quality.py\<close>, \<open>codex_selection.py\<close>): the filter and the quality of leaders, and the admission of
    the answer of a reviewing model: whatever it answers, only supplied candidates are selected.
  \<^item> \<open>Slots\<close> (\<open>leader_slots.py\<close>): stable assignment of leaders to slots.
  \<^item> \<open>Allocation\<close> (\<open>allocation.py\<close>): \<open>ProportionalAllocator.size_increase\<close>; an approval stays within the margin
    limits and the rules of the exchange.
  \<^item> \<open>Ledger\<close> (\<open>ledger.py\<close>): \<open>VirtualPositionLedger\<close> refines one independent position per leader, symbol and
    side; reductions never exceed what a leader owns; reconciliation is exact.
  \<^item> \<open>Risk\<close> (\<open>risk.py\<close>, \<open>leader_symbol_stop.py\<close>): the account gate and the profit per leader and symbol.
  \<^item> \<open>CopyOrder\<close>, \<open>Journal\<close>, \<open>Executor\<close>, \<open>ExecutorSafety\<close> (\<open>execution.py\<close>, \<open>postgres.py\<close>):
    \<open>HedgeTestnetMarketExecutor\<close> over a journal of durable claims. For every behaviour of the exchange, the clock and
    the database, nothing is sent without a claim, a one-shot claim is sent at most once, and a receipt
    never overstates a fill.
  \<^item> \<open>Runtime\<close>, \<open>RuntimeSafety\<close> (\<open>application.py\<close>): \<open>CopyTradingRuntime._process_signal\<close> and what it calls, composed of
    the allocator, ledger, gate and executor above. Blocked entries place nothing; shadow mode only
    observes, with one decision per signal.
  \<^item> \<open>Cycle\<close>, \<open>CycleSafety\<close> (\<open>application.py\<close>): \<open>run_cycle\<close> with stops, recovery, polling through the one-way resolver and
    the completion of a flatten. The guarantees of the executor and of the public client carry over to every run of
    cycles, a shadow cycle only observes, and the report accounts for the polls.
  \<^item> \<open>Activation\<close> (\<open>production_activation.py\<close>, \<open>common/private_files.py\<close>, the start of \<open>services/copy_trading.py\<close>): real orders need a manifest in force for the
    very key, a hedged account and, for a new database, a flat one.
  \<^item> \<open>Health\<close>, \<open>Watchdog\<close> (\<open>health.py\<close>, \<open>services/copy_watchdog.py\<close>): the health check is fail closed; the watchdog tightens the control of a running
    system and lifts only pauses that are its own, when everything is clean.
  \<^item> \<open>OrderBook\<close>, \<open>BookSafety\<close> (\<open>market_data/models.py\<close>, \<open>orderbook/book.py\<close>): a usable book is a gap-free replay of its snapshot,
    never crossed; everything else is empty.
  \<^item> \<open>Orders\<close> (\<open>execution/orders.py\<close>): the projection of order events equals a declarative
    specification, and every order it accepts can end.
  \<^item> \<open>Sizing\<close> (\<open>risk/sizing.py\<close>), \<open>Control\<close> (\<open>control/commands.py\<close>, \<open>orchestration/authority.py\<close>) and
    \<open>ExecutionChecks\<close> (\<open>execution/protection.py\<close>, \<open>classifier.py\<close>, \<open>reconciliation.py\<close>, \<open>simulator.py\<close>, \<open>startup.py\<close>).
  \<^item> \<open>PriceAction\<close>, \<open>MarketFlow\<close>, \<open>Universe\<close>, \<open>Edge\<close> (\<open>features\<close>, \<open>market_data/warmup.py\<close>, \<open>universe/membership.py\<close>, \<open>cost\<close>): swings never repaint, the warm-up gate refines
    a reading of the events since the last unhealthy one, membership has hysteresis, the edge is fail closed.
  \<^item> \<open>Automation\<close> (\<open>automation\<close>), \<open>Iteration\<close> (\<open>iteration/queue.py\<close>, \<open>validation/gates.py\<close>, \<open>research/evaluation.py\<close>), \<open>Retention\<close> (\<open>archive/retention.py\<close>): intents are handed over once and
    checked, due cycles are served in order, a gate needs continuous evidence, deletions are verified.
  \<^item> \<open>Authorization\<close>, \<open>Artifacts\<close>, \<open>Catalog\<close> (\<open>rate_budget/authorization.py\<close>, \<open>common/config.py\<close>, \<open>common/artifacts.py\<close>, \<open>rate_budget/policy.py\<close>): the chain of trust from a pinned keyring to bundles,
    capabilities, files and the endpoint catalog. What is accepted is signed by an unrevoked key, in force, closed, and
    a capability authorises one request.
  \<^item> \<open>Permit\<close>, \<open>RateBudget\<close> (\<open>rate_budget/permit.py\<close>, \<open>application.py\<close>): a permit is consumed at most once; the rate authority is only reached by
    authorised calls.
  \<^item> \<open>Gateway\<close>, \<open>GatewaySafety\<close> (\<open>binance_egress/gateway.py\<close>, \<open>application.py\<close>): the send pipeline. The transport is called at most once per message,
    when admitted and granted, and the answer tells truly whether it was.
  \<^item> \<open>Evidence\<close>, \<open>Measurements\<close> (\<open>binance_egress/startup.py\<close> and its measurements): signed startup evidence is short-lived and bound to what is expected.

  \<^bold>\<open>State and effects.\<close> Pure components are functions. Objects with state are records passed and returned
  (\<open>tracker\<close>, \<open>ledger\<close>, \<open>order_book\<close>, \<open>command_store\<close>). Code with effects is a computation \<open>('s, 'a) comp\<close> that returns or raises
  and leaves a state; an exception keeps what was done before it. The exchange, the clock, the database
  server (\<open>environment\<close>), the repository (\<open>services\<close>), the HTTP opener and JSON decoder of the public client, the reviewing model, the
  adapters of the automation engine, the file system, the rate service and the transport of the gateway are parameters,
  arbitrary functions of an outside state of arbitrary type: a response may be anything, and a transaction may commit,
  roll back, or commit and lose its acknowledgement. Signature verification, canonical JSON, the decoders of base64 and
  of ISO times and the schema validators are parameters without a state. No theorem assumes more about any of them than
  its statement says.

  \<^bold>\<open>Interfaces.\<close> Locales state what a proof needs once: \<open>rounding\<close> in \<open>Rounding\<close>, \<open>stable_property\<close> and \<open>resubmittable\<close>
  for properties kept by the executor, \<open>runtime_property\<close> and its extensions \<open>deciding_property\<close>, \<open>acting_property\<close>, \<open>executing_property\<close>,
  \<open>counting_property\<close>, \<open>observing_cycle\<close> and \<open>executing_cycle\<close> for those kept by the runtime, \<open>metered\<close> for the requests of the public client, \<open>engine_property\<close>
  for the automation engine, and \<open>keyed_state\<close> and \<open>effect_state\<close> in \<open>Prelude\<close> for state that is independent per key. Each is interpreted on the
  model itself. What reaches the rate authority and the transport is stated over environments that record the calls, with
  a proof that recording changes nothing.

  \<^bold>\<open>Bounds.\<close> All definitions are total. Loops run over lists or over the bound of the source: ten
  pages of superseded entries (\<open>cancel_rounds\<close>), at most five retries for a fill price, three reports of an outcome. The pages of a
  leader directory end by a measure on the pages that are left (\<open>directory_loop\<close>). The polling loop of the automation engine takes
  the number of polls as fuel (\<open>run_loop\<close>), because the source runs it until it is stopped; its properties hold for every number.

  \<^bold>\<open>Not modelled.\<close> Text is a list of code points below 256. JSON values are compared by constructor, so that \<open>1\<close>, \<open>1.0\<close> and \<open>true\<close>, which Python
  calls equal, differ wherever the source compares two undecoded values. Infinite filter values of a symbol are outside the
  model of \<open>_symbol_rules\<close>, and decimals do not reach the exponent limits of the context. The scores of the universe ranking use
  logarithms in a context of 34 digits. The SQL of \<open>repository.py\<close>, \<open>telegram_state.py\<close> and \<open>rate_budget/postgres.py\<close>, HTTP, socket and process code
  (\<open>binance_egress/testnet_probe.py\<close>, the streams and collectors of host facts, \<open>services\<close>), chat and report texts, archives in third-party formats,
  migrations and scripts act on systems outside the repository.
\<close>

end
